(* ===== verification/Prelude.thy ===== *)
theory Prelude
  imports Complex_Main
begin

text \<open>
  Shared vocabulary of the development: the base types of the columns (identifiers, timestamps,
  dates, decimals, JSON values), the outcome of one request (\<open>outcome\<close>: the committed
  database together with a result or the raised error), the combinators in which the handlers
  are written (\<open>demand\<close>, \<open>fetch\<close>, \<open>attempt\<close>), the row operations every table
  supports, and the \<^theory_text>\<open>locale\<close>s \<open>table\<close> and \<open>exclusive_table\<close> that state what the
  handlers rely on when they use a table.
\<close>

section \<open>Base types\<close>

text \<open>
  Primary keys are 36-character UUID strings. Timestamps are microseconds since the epoch,
  dates are day numbers; Python's \<^verbatim>\<open>datetime\<close> and \<^verbatim>\<open>date\<close> are compared and subtracted only.
  \<^verbatim>\<open>Decimal\<close> values are exact rationals: every amount is a column \<^verbatim>\<open>Numeric(18, 2)\<close>, so sums,
  differences and comparisons are exact in the default 28-digit context.
\<close>

type_synonym ident = string
type_synonym timestamp = int
type_synonym day = int
type_synonym decimal = rat

text \<open>
  The values that appear in audit snapshots, notification payloads and formatted texts. A text
  produced by an f-string is kept as the list of its parts, so that no decimal or date has to be
  formatted: \<open>JDec\<close> stands for \<^verbatim>\<open>str(amount)\<close> and \<open>JTime\<close> for \<^verbatim>\<open>t.isoformat()\<close>.
\<close>

datatype json =
    JNull
  | JBool bool
  | JInt int
  | JStr string
  | JDec decimal
  | JTime timestamp
  | JList "json list"
  | JObj "(string \<times> json) list"

type_synonym snapshot = "(string \<times> json) list"
type_synonym formatted = "json list"

definition jopt :: "('a \<Rightarrow> json) \<Rightarrow> 'a option \<Rightarrow> json" where
  "jopt f x = (case x of None \<Rightarrow> JNull | Some y \<Rightarrow> f y)"

text \<open>
  What a request reads from its surroundings: the clocks (\<^verbatim>\<open>datetime.now(UTC)\<close>, \<^verbatim>\<open>date.today()\<close> of the
  server and the UTC date, each read once per request) and the stream of \<^verbatim>\<open>uuid4()\<close> values it draws
  for new primary keys.
\<close>

record env =
  now :: timestamp
  today :: day
  utc_today :: day
  uuid :: "nat \<Rightarrow> ident"

section \<open>Errors and outcomes\<close>

text \<open>
  \<^verbatim>\<open>AppError(status_code, code, message)\<close> without its human-readable message. A failed
  constraint that no handler catches surfaces as \<open>Integrity_Error\<close>, any other Python exception
  (a \<^verbatim>\<open>KeyError\<close>) as \<open>Internal_Error\<close>; \<^verbatim>\<open>main.py\<close> answers both with status 500.
\<close>

datatype app_error =
    App_Error (status_code: nat) (error_code: string)
  | Integrity_Error
  | Internal_Error

text \<open>
  A request ends by returning a value or by raising. The session is rolled back when an error
  leaves the handler, so what remains is the database as of the last commit; a handler may
  commit and raise afterwards. Both constructors carry that committed database.
\<close>

datatype ('s, 'a) outcome =
    Return (committed: 's) (result: 'a)
  | Raise (committed: 's) (raised: app_error)

definition returned :: "('s, 'a) outcome \<Rightarrow> bool" where
  "returned r = (case r of Return _ _ \<Rightarrow> True | Raise _ _ \<Rightarrow> False)"

text \<open>
  The handlers' control flow: a guard that raises, a row look-up that raises when nothing is
  found, a sub-operation that may raise, and the answer built from the committed database. The
  first argument is the database that is committed at that point.
\<close>

definition demand :: "'s \<Rightarrow> bool \<Rightarrow> app_error \<Rightarrow> ('s, 'a) outcome \<Rightarrow> ('s, 'a) outcome" where
  "demand s b e k = (if b then k else Raise s e)"

definition fetch ::
  "'s \<Rightarrow> 'r option \<Rightarrow> app_error \<Rightarrow> ('r \<Rightarrow> ('s, 'a) outcome) \<Rightarrow> ('s, 'a) outcome" where
  "fetch s x e k = (case x of None \<Rightarrow> Raise s e | Some r \<Rightarrow> k r)"

definition attempt ::
  "'s \<Rightarrow> app_error + 'r \<Rightarrow> ('r \<Rightarrow> ('s, 'a) outcome) \<Rightarrow> ('s, 'a) outcome" where
  "attempt s x k = (case x of Inl e \<Rightarrow> Raise s e | Inr r \<Rightarrow> k r)"

definition respond :: "'s \<Rightarrow> app_error + 'a \<Rightarrow> ('s, 'a) outcome" where
  "respond s x = (case x of Inl e \<Rightarrow> Raise s e | Inr v \<Rightarrow> Return s v)"

text \<open>
  An optional identifier that is looked up only when it is given: Python's \<^verbatim>\<open>if x:\<close> and \<^verbatim>\<open>x or y\<close>
  treat the empty text as absent.
\<close>

definition given :: "string option \<Rightarrow> string option" where
  "given x = (if x = Some [] then None else x)"

definition fetch_given ::
  "'s \<Rightarrow> string option \<Rightarrow> (string \<Rightarrow> 'r option) \<Rightarrow> app_error \<Rightarrow> ('r option \<Rightarrow> ('s, 'a) outcome) \<Rightarrow> ('s, 'a) outcome" where
  "fetch_given s x look e k = (case given x of None \<Rightarrow> k None | Some i \<Rightarrow> fetch s (look i) e (\<lambda>r. k (Some r)))"

text \<open>The pure counterparts, for helpers that read without committing.\<close>

definition need :: "'r option \<Rightarrow> app_error \<Rightarrow> ('r \<Rightarrow> app_error + 'a) \<Rightarrow> app_error + 'a" where
  "need x e k = (case x of None \<Rightarrow> Inl e | Some r \<Rightarrow> k r)"

definition need_given ::
  "string option \<Rightarrow> (string \<Rightarrow> 'r option) \<Rightarrow> app_error \<Rightarrow> ('r option \<Rightarrow> app_error + 'a) \<Rightarrow> app_error + 'a" where
  "need_given x look e k = (case given x of None \<Rightarrow> k None | Some i \<Rightarrow> need (look i) e (\<lambda>r. k (Some r)))"

definition require :: "bool \<Rightarrow> app_error \<Rightarrow> app_error + 'a \<Rightarrow> app_error + 'a" where
  "require b e k = (if b then k else Inl e)"

named_theorems outcome_simps \<open>how a handler built from the combinators can return or raise\<close>
named_theorems outcome_intros \<open>introduction rules for a predicate on the committed database\<close>

lemma committed_demand [outcome_simps]:
  "committed (demand s b e k) = (if b then committed k else s)"
  by (simp add: demand_def)

lemma committed_fetch [outcome_simps]:
  "committed (fetch s x e k) = (case x of None \<Rightarrow> s | Some r \<Rightarrow> committed (k r))"
  by (simp add: fetch_def split: option.splits)

lemma committed_respond [simp]: "committed (respond s x) = s"
  by (simp add: respond_def split: sum.splits)

lemma demand_Return [outcome_simps]:
  "demand s b e k = Return t v \<longleftrightarrow> b \<and> k = Return t v"
  by (simp add: demand_def)

lemma fetch_Return [outcome_simps]:
  "fetch s x e k = Return t v \<longleftrightarrow> (\<exists>r. x = Some r \<and> k r = Return t v)"
  by (simp add: fetch_def split: option.splits)

lemma fetch_given_Return [outcome_simps]:
  "fetch_given s x look e k = Return t v \<longleftrightarrow>
     (case given x of None \<Rightarrow> k None = Return t v | Some i \<Rightarrow> \<exists>r. look i = Some r \<and> k (Some r) = Return t v)"
  by (simp add: fetch_given_def fetch_Return split: option.splits)

lemma need_Inr [outcome_simps]: "need x e k = Inr v \<longleftrightarrow> (\<exists>r. x = Some r \<and> k r = Inr v)"
  by (simp add: need_def split: option.splits)

lemma require_Inr [outcome_simps]: "require b e k = Inr v \<longleftrightarrow> b \<and> k = Inr v"
  by (simp add: require_def)

lemma attempt_Return [outcome_simps]:
  "attempt s x k = Return t v \<longleftrightarrow> (\<exists>r. x = Inr r \<and> k r = Return t v)"
  by (simp add: attempt_def split: sum.splits)

lemma respond_Return [outcome_simps]:
  "respond s x = Return t v \<longleftrightarrow> s = t \<and> x = Inr v"
  by (auto simp: respond_def split: sum.splits)

lemma returned_demand [outcome_simps]: "returned (demand s b e k) \<longleftrightarrow> b \<and> returned k"
  by (simp add: demand_def returned_def)

lemma returned_fetch [outcome_simps]:
  "returned (fetch s x e k) \<longleftrightarrow> (\<exists>r. x = Some r \<and> returned (k r))"
  by (simp add: fetch_def returned_def split: option.splits)

lemma returned_attempt [outcome_simps]:
  "returned (attempt s x k) \<longleftrightarrow> (\<exists>r. x = Inr r \<and> returned (k r))"
  by (simp add: attempt_def returned_def split: sum.splits)

lemma returned_Raise [simp]: "\<not> returned (Raise s e)" and returned_Return [simp]: "returned (Return s v)"
  by (simp_all add: returned_def)

lemma returnedE:
  assumes "returned r" obtains s v where "r = Return s v"
  using assms by (cases r) (auto simp: returned_def)

text \<open>A predicate holds of the committed database when every way out of the handler keeps it.\<close>

lemma demand_final [outcome_intros]:
  "P s \<Longrightarrow> (b \<Longrightarrow> P (committed k)) \<Longrightarrow> P (committed (demand s b e k))"
  by (simp add: demand_def)

lemma fetch_final [outcome_intros]:
  "P s \<Longrightarrow> (\<And>r. x = Some r \<Longrightarrow> P (committed (k r))) \<Longrightarrow> P (committed (fetch s x e k))"
  by (simp add: fetch_def split: option.splits)

lemma fetch_given_final [outcome_intros]:
  "P s \<Longrightarrow> (\<And>r. P (committed (k r))) \<Longrightarrow> P (committed (fetch_given s x look e k))"
  by (simp add: fetch_given_def fetch_def split: option.splits)

lemma attempt_final [outcome_intros]:
  "P s \<Longrightarrow> (\<And>r. x = Inr r \<Longrightarrow> P (committed (k r))) \<Longrightarrow> P (committed (attempt s x k))"
  by (simp add: attempt_def split: sum.splits)

lemma if_final [outcome_intros]:
  "(b \<Longrightarrow> P (committed h)) \<Longrightarrow> (\<not> b \<Longrightarrow> P (committed k)) \<Longrightarrow> P (committed (if b then h else k))"
  by simp

lemma option_final [outcome_intros]:
  "(x = None \<Longrightarrow> P (committed h)) \<Longrightarrow> (\<And>y. x = Some y \<Longrightarrow> P (committed (k y))) \<Longrightarrow>
   P (committed (case x of None \<Rightarrow> h | Some y \<Rightarrow> k y))"
  by (simp split: option.split)

lemma prod_final [outcome_intros]:
  "(\<And>x y. p = (x, y) \<Longrightarrow> P (committed (k x y))) \<Longrightarrow> P (committed (case p of (x, y) \<Rightarrow> k x y))"
  by (simp split: prod.split)

lemma respond_final [outcome_intros]: "P s \<Longrightarrow> P (committed (respond s x))"
  by simp

section \<open>Rows of a table\<close>

text \<open>
  A table is the list of its rows in insertion order. \<open>entity\<close> is the query of every
  \<^verbatim>\<open>_entity\<close> helper: the first row with the given organization and primary key.
  \<open>put_row\<close> writes an object back under its primary key, \<open>update_where\<close> is a bulk
  \<^verbatim>\<open>UPDATE ... WHERE\<close>, and \<open>order_desc\<close> is \<^verbatim>\<open>ORDER BY key DESC\<close> (rows with equal keys stay in
  insertion order).
\<close>

definition entity :: "('r \<Rightarrow> ident) \<Rightarrow> ('r \<Rightarrow> ident) \<Rightarrow> 'r list \<Rightarrow> ident \<Rightarrow> ident \<Rightarrow> 'r option" where
  "entity org_of id_of rows org i = find (\<lambda>r. org_of r = org \<and> id_of r = i) rows"

definition put_row :: "('r \<Rightarrow> ident) \<Rightarrow> 'r \<Rightarrow> 'r list \<Rightarrow> 'r list" where
  "put_row id_of r rows = map (\<lambda>x. if id_of x = id_of r then r else x) rows"

definition update_where :: "('r \<Rightarrow> bool) \<Rightarrow> ('r \<Rightarrow> 'r) \<Rightarrow> 'r list \<Rightarrow> 'r list" where
  "update_where p f rows = map (\<lambda>x. if p x then f x else x) rows"

definition order_desc :: "('r \<Rightarrow> int) \<Rightarrow> 'r list \<Rightarrow> 'r list" where
  "order_desc key rows = sort_key (\<lambda>r. - key r) rows"

definition first_row :: "'r list \<Rightarrow> 'r option" where
  "first_row rows = (case rows of [] \<Rightarrow> None | r # _ \<Rightarrow> Some r)"

definition count_rows :: "('r \<Rightarrow> bool) \<Rightarrow> 'r list \<Rightarrow> nat" where
  "count_rows p rows = length (filter p rows)"

text \<open>\<^verbatim>\<open>coalesce(sum(column), 0)\<close> over the selected rows.\<close>

definition sum_where :: "('r \<Rightarrow> bool) \<Rightarrow> ('r \<Rightarrow> decimal) \<Rightarrow> 'r list \<Rightarrow> decimal" where
  "sum_where p f rows = sum_list (map f (filter p rows))"

lemma first_row_None [simp]: "first_row rows = None \<longleftrightarrow> rows = []"
  by (simp add: first_row_def split: list.splits)

lemma first_row_set: "first_row rows = Some r \<Longrightarrow> r \<in> set rows"
  by (auto simp: first_row_def split: list.splits)

lemma find_first: "first_row (filter p rows) = find p rows"
  by (induction rows) (auto simp: first_row_def)

lemma find_SomeD: "find p rows = Some r \<Longrightarrow> r \<in> set rows \<and> p r"
  by (induction rows) (auto split: if_splits)

lemma find_None: "find p rows = None \<longleftrightarrow> (\<forall>r \<in> set rows. \<not> p r)"
  by (induction rows) auto

lemma entityD: "entity org_of id_of rows org i = Some r \<Longrightarrow> r \<in> set rows \<and> org_of r = org \<and> id_of r = i"
  unfolding entity_def by (drule find_SomeD) simp

lemma entity_append:
  "entity org_of id_of (rows @ rest) org i =
     (case entity org_of id_of rows org i of None \<Rightarrow> entity org_of id_of rest org i | Some r \<Rightarrow> Some r)"
  unfolding entity_def by (induction rows) auto

lemma entity_Nil [simp]: "entity org_of id_of [] org i = None"
  by (simp add: entity_def)

lemma entity_Cons:
  "entity org_of id_of (r # rows) org i =
     (if org_of r = org \<and> id_of r = i then Some r else entity org_of id_of rows org i)"
  by (simp add: entity_def)

lemma entity_unique:
  assumes "distinct (map id_of rows)" "r \<in> set rows" "org_of r = org" "id_of r = i"
  shows "entity org_of id_of rows org i = Some r"
  using assms
proof (induction rows)
  case (Cons x xs)
  then show ?case by (cases "x = r") (force simp: entity_Cons image_iff)+
qed simp

text \<open>A selection of rows after one row is rewritten.\<close>

lemma filter_put_single:
  assumes "filter p rows = [x]" "distinct (map id_of rows)" "id_of r = id_of x"
  shows "filter p (put_row id_of r rows) = (if p r then [r] else [])"
  using assms
proof (induction rows)
  case (Cons y ys)
  show ?case
  proof (cases "p y")
    case True
    with Cons.prems have "y = x" "filter p ys = []" by auto
    moreover from this Cons.prems have "put_row id_of r ys = ys"
      by (auto simp: put_row_def image_iff intro!: map_idI)
    ultimately show ?thesis using Cons.prems(3) by (simp add: put_row_def)
  next
    case False
    with Cons.prems(1) have "filter p ys = [x]" by simp
    then have "x \<in> set (filter p ys)" by simp
    then have "x \<in> set ys" by simp
    with Cons.prems(2,3) have "id_of y \<noteq> id_of r" by force
    with Cons False show ?thesis by (simp add: put_row_def)
  qed
qed simp

lemma filter_put_none: "filter p rows = [] \<Longrightarrow> \<not> p r \<Longrightarrow> filter p (put_row id_of r rows) = []"
  by (auto simp: filter_empty_conv put_row_def)

lemma filter_put_enter:
  assumes "filter p rows = []" "distinct (map id_of rows)" "x \<in> set rows" "id_of x = id_of r" "p r"
  shows "filter p (put_row id_of r rows) = [r]"
  using assms
proof (induction rows)
  case (Cons y ys)
  then have np: "\<not> p y" "filter p ys = []" by (simp_all split: if_splits)
  show ?case
  proof (cases "id_of y = id_of r")
    case True
    with Cons.prems have "put_row id_of r ys = ys"
      by (auto simp: put_row_def image_iff intro!: map_idI)
    with True np Cons.prems show ?thesis by (simp add: put_row_def)
  next
    case False
    with Cons np show ?thesis by (auto simp: put_row_def)
  qed
qed simp

lemma map_id_put_row [simp]: "map id_of (put_row id_of r rows) = map id_of rows"
  by (simp add: put_row_def)

lemma length_put_row [simp]: "length (put_row id_of r rows) = length rows"
  by (simp add: put_row_def)

lemma put_row_Nil [simp]: "put_row id_of r [] = []"
  by (simp add: put_row_def)

lemma put_row_same: "distinct (map id_of rows) \<Longrightarrow> r \<in> set rows \<Longrightarrow> put_row id_of r rows = rows"
  unfolding put_row_def by (rule map_idI) (metis distinct_map inj_onD)

lemma set_put_row:
  "set (put_row id_of r rows) =
     {x \<in> set rows. id_of x \<noteq> id_of r} \<union> (if id_of r \<in> id_of ` set rows then {r} else {})"
  by (auto simp: put_row_def image_iff)

lemma entity_put_other:
  "id_of r \<noteq> i \<Longrightarrow> entity org_of id_of (put_row id_of r rows) org i = entity org_of id_of rows org i"
  unfolding entity_def put_row_def by (induction rows) auto

lemma entity_put_same:
  assumes "entity org_of id_of rows org i = Some x" "org_of r = org" "id_of r = i"
  shows "entity org_of id_of (put_row id_of r rows) org i = Some r"
  using assms by (induction rows) (auto simp: entity_def put_row_def split: if_splits)

lemma entity_put:
  "entity org_of id_of rows org (id_of r) = Some x \<Longrightarrow> org_of r = org \<Longrightarrow>
   entity org_of id_of (put_row id_of r rows) org i =
     (if i = id_of r then Some r else entity org_of id_of rows org i)"
  by (auto simp: entity_put_other intro: entity_put_same)

lemma set_update_where: "x \<in> set (update_where p f rows) \<longleftrightarrow> (\<exists>y \<in> set rows. x = (if p y then f y else y))"
  by (auto simp: update_where_def)

lemma map_update_where: "(\<And>x. g (f x) = g x) \<Longrightarrow> map g (update_where p f rows) = map g rows"
  by (auto simp: update_where_def)

lemma filter_put_row_other:
  assumes "\<And>x. x \<in> set rows \<Longrightarrow> id_of x = id_of r \<Longrightarrow> \<not> p x" "\<not> p r"
  shows "filter p (put_row id_of r rows) = filter p rows"
  using assms unfolding put_row_def by (induction rows) auto

lemma set_order_desc [simp]: "set (order_desc key rows) = set rows"
  by (simp add: order_desc_def)

lemma order_desc_Nil [simp]: "order_desc key [] = []"
  by (simp add: order_desc_def)

lemma sum_where_append: "sum_where p f (xs @ ys) = sum_where p f xs + sum_where p f ys"
  by (simp add: sum_where_def)

lemma sum_where_Nil [simp]: "sum_where p f [] = 0"
  by (simp add: sum_where_def)

lemma sum_where_Cons [simp]: "sum_where p f (x # xs) = (if p x then f x else 0) + sum_where p f xs"
  by (simp add: sum_where_def)

lemma sum_where_nonneg: "(\<And>x. x \<in> set rows \<Longrightarrow> p x \<Longrightarrow> 0 \<le> f x) \<Longrightarrow> 0 \<le> sum_where p f rows"
  by (induction rows) (auto intro!: add_nonneg_nonneg)

lemma sum_where_cong:
  "(\<And>x. x \<in> set rows \<Longrightarrow> p x = q x) \<Longrightarrow> (\<And>x. x \<in> set rows \<Longrightarrow> p x \<Longrightarrow> f x = g x) \<Longrightarrow>
   sum_where p f rows = sum_where q g rows"
  by (induction rows) auto

text \<open>The sum after one row is rewritten: its old contribution leaves, its new one enters.\<close>

lemma sum_where_put:
  assumes "distinct (map id_of rows)" "x \<in> set rows" "id_of r = id_of x"
  shows "sum_where p f (put_row id_of r rows) =
    sum_where p f rows - (if p x then f x else 0) + (if p r then f r else 0)"
  using assms
proof (induction rows)
  case (Cons y ys)
  show ?case
  proof (cases "y = x")
    case True
    with Cons.prems have "put_row id_of r ys = ys"
      by (auto simp: put_row_def image_iff intro!: map_idI)
    with True Cons.prems show ?thesis by (simp add: put_row_def)
  next
    case False
    with Cons.prems have "id_of y \<noteq> id_of r" "x \<in> set ys" by auto
    with Cons show ?thesis by (simp add: put_row_def)
  qed
qed simp

section \<open>The contract of a table\<close>

text \<open>
  \<open>others\<close> are the rows of a table that belong to other organizations; a request must leave
  them alone. \<open>id_free\<close> says that a drawn primary key is not in use, \<open>slot_free\<close> that no row of
  the organization occupies the value of a nullable unique column (MySQL ignores NULLs in a
  unique index), and \<open>exclusive\<close> that the unique index holds.
\<close>

definition others :: "('r \<Rightarrow> ident) \<Rightarrow> ident \<Rightarrow> 'r list \<Rightarrow> 'r list" where
  "others org_of org rows = filter (\<lambda>r. org_of r \<noteq> org) rows"

definition id_free :: "('r \<Rightarrow> ident) \<Rightarrow> ident \<Rightarrow> 'r list \<Rightarrow> bool" where
  "id_free id_of i rows = list_all (\<lambda>r. id_of r \<noteq> i) rows"

definition slot_free :: "('r \<Rightarrow> ident) \<Rightarrow> ('r \<Rightarrow> 'k option) \<Rightarrow> ident \<Rightarrow> 'k \<Rightarrow> 'r list \<Rightarrow> bool" where
  "slot_free org_of slot org k rows = list_all (\<lambda>r. \<not> (org_of r = org \<and> slot r = Some k)) rows"

definition slots :: "('r \<Rightarrow> ident) \<Rightarrow> ('r \<Rightarrow> 'k option) \<Rightarrow> 'r list \<Rightarrow> (ident \<times> 'k) list" where
  "slots org_of slot rows = concat (map (\<lambda>r. case slot r of None \<Rightarrow> [] | Some k \<Rightarrow> [(org_of r, k)]) rows)"

definition exclusive :: "('r \<Rightarrow> ident) \<Rightarrow> ('r \<Rightarrow> 'k option) \<Rightarrow> 'r list \<Rightarrow> bool" where
  "exclusive org_of slot rows = distinct (slots org_of slot rows)"

lemma others_append: "others org_of org (xs @ ys) = others org_of org xs @ others org_of org ys"
  by (simp add: others_def)

lemma others_own [simp]: "list_all (\<lambda>r. org_of r = org) rows \<Longrightarrow> others org_of org rows = []"
  by (simp add: others_def list_all_iff filter_empty_conv)

lemma others_put_row:
  assumes "distinct (map id_of rows)" "x \<in> set rows" "id_of x = id_of r" "org_of x = org" "org_of r = org"
  shows "others org_of org (put_row id_of r rows) = others org_of org rows"
  unfolding others_def
proof (rule filter_put_row_other)
  fix y assume "y \<in> set rows" "id_of y = id_of r"
  with assms(1-3) have "y = x" by (metis distinct_map inj_onD)
  with assms(4) show "\<not> org_of y \<noteq> org" by simp
qed (use assms in simp)

lemma others_update_where:
  "(\<And>r. p r \<Longrightarrow> org_of r = org) \<Longrightarrow> (\<And>r. org_of (f r) = org_of r) \<Longrightarrow>
   others org_of org (update_where p f rows) = others org_of org rows"
  unfolding others_def update_where_def by (induction rows) auto

lemma id_free_distinct: "distinct (map id_of rows) \<Longrightarrow> id_free id_of (id_of r) rows \<Longrightarrow> distinct (map id_of (rows @ [r]))"
  by (auto simp: id_free_def list_all_iff)

lemma slots_append: "slots org_of slot (xs @ ys) = slots org_of slot xs @ slots org_of slot ys"
  by (simp add: slots_def)

lemma slots_Nil [simp]: "slots org_of slot [] = []"
  by (simp add: slots_def)

lemma slots_Cons: "slots org_of slot (x # xs) = (case slot x of None \<Rightarrow> [] | Some k \<Rightarrow> [(org_of x, k)]) @ slots org_of slot xs"
  by (simp add: slots_def)

lemma set_slots: "(o', k) \<in> set (slots org_of slot rows) \<longleftrightarrow> (\<exists>r \<in> set rows. org_of r = o' \<and> slot r = Some k)"
  by (force simp: slots_def split: option.splits)

lemma slot_free_iff: "slot_free org_of slot org k rows \<longleftrightarrow> (org, k) \<notin> set (slots org_of slot rows)"
  by (auto simp: slot_free_def list_all_iff set_slots)

lemma exclusive_insert:
  "exclusive org_of slot rows \<Longrightarrow> (\<And>k. slot r = Some k \<Longrightarrow> slot_free org_of slot (org_of r) k rows) \<Longrightarrow>
   exclusive org_of slot (rows @ [r])"
  by (auto simp: exclusive_def slots_append slots_Cons slot_free_iff split: option.splits)

lemma exclusive_put_row:
  assumes "exclusive org_of slot rows"
    and "\<And>x. x \<in> set rows \<Longrightarrow> id_of x = id_of r \<Longrightarrow> org_of r = org_of x \<and> (slot r = slot x \<or> slot r = None)"
  shows "exclusive org_of slot (put_row id_of r rows)"
proof -
  have "set (slots org_of slot (put_row id_of r rows)) \<subseteq> set (slots org_of slot rows) \<and>
    distinct (slots org_of slot (put_row id_of r rows))"
    using assms unfolding exclusive_def put_row_def
  proof (induction rows)
    case (Cons x xs)
    then have IH: "set (slots org_of slot (map (\<lambda>x. if id_of x = id_of r then r else x) xs)) \<subseteq> set (slots org_of slot xs)"
      "distinct (slots org_of slot (map (\<lambda>x. if id_of x = id_of r then r else x) xs))"
      by (auto simp: slots_Cons)
    show ?case
    proof (cases "id_of x = id_of r")
      case True
      with Cons.prems(2) have "org_of r = org_of x" "slot r = slot x \<or> slot r = None" by auto
      with True IH Cons.prems(1) show ?thesis by (auto simp: slots_Cons split: option.splits)
    next
      case False
      with IH Cons.prems(1) show ?thesis by (auto simp: slots_Cons split: option.splits)
    qed
  qed simp
  then show ?thesis by (simp add: exclusive_def)
qed

lemma exclusive_unique:
  assumes "exclusive org_of slot rows" "x \<in> set rows" "y \<in> set rows"
    and "org_of x = org_of y" "slot x = Some k" "slot y = Some k"
  shows "x = y"
proof (rule ccontr)
  assume "x \<noteq> y"
  have "x = y \<or> \<not> distinct (slots org_of slot rows)"
    using assms(2-)
  proof (induction rows)
    case (Cons z zs)
    have "(org_of x, k) \<in> set (slots org_of slot zs)" if "x \<in> set zs \<or> y \<in> set zs"
      using that Cons.prems(3-) by (auto simp: set_slots)
    with Cons show ?case by (fastforce simp: slots_Cons)
  qed simp
  with \<open>x \<noteq> y\<close> assms(1) show False by (simp add: exclusive_def)
qed

text \<open>
  The contract between the handlers and the database: a table is a component of the state that
  can be read and overwritten. The laws that follow are proved once, for every table.
\<close>

locale table =
  fixes rows :: "'db \<Rightarrow> 'r list"
    and upd :: "('r list \<Rightarrow> 'r list) \<Rightarrow> 'db \<Rightarrow> 'db"
    and org_of :: "'r \<Rightarrow> ident"
    and id_of :: "'r \<Rightarrow> ident"
  assumes rows_upd: "rows (upd f s) = f (rows s)"
begin

lemma find_put:
  "entity org_of id_of (rows s) org (id_of r) = Some x \<Longrightarrow> org_of r = org \<Longrightarrow>
   entity org_of id_of (rows (upd (\<lambda>_. put_row id_of r (rows s)) s)) org i =
     (if i = id_of r then Some r else entity org_of id_of (rows s) org i)"
  by (simp add: rows_upd entity_put)

lemma find_insert:
  "id_free id_of (id_of r) (rows s) \<Longrightarrow>
   entity org_of id_of (rows (upd (\<lambda>_. rows s @ [r]) s)) (org_of r) (id_of r) = Some r"
  by (auto simp: rows_upd entity_append entity_Cons id_free_def list_all_iff dest!: entityD split: option.splits)

lemma keys_put: "distinct (map id_of (rows s)) \<Longrightarrow> distinct (map id_of (rows (upd (\<lambda>_. put_row id_of r (rows s)) s)))"
  by (simp add: rows_upd)

lemma keys_insert:
  "distinct (map id_of (rows s)) \<Longrightarrow> id_free id_of (id_of r) (rows s) \<Longrightarrow>
   distinct (map id_of (rows (upd (\<lambda>_. rows s @ [r]) s)))"
  by (auto simp: rows_upd id_free_def list_all_iff)

lemma others_put:
  "distinct (map id_of (rows s)) \<Longrightarrow> entity org_of id_of (rows s) org (id_of r) = Some x \<Longrightarrow> org_of r = org \<Longrightarrow>
   others org_of org (rows (upd (\<lambda>_. put_row id_of r (rows s)) s)) = others org_of org (rows s)"
  by (auto simp: rows_upd dest!: entityD intro: others_put_row)

lemma others_insert: "org_of r = org \<Longrightarrow> others org_of org (rows (upd (\<lambda>_. rows s @ [r]) s)) = others org_of org (rows s)"
  by (simp add: rows_upd others_append)

end

text \<open>A table with a nullable column under a unique index: at most one row occupies a value.\<close>

locale exclusive_table = table rows upd org_of id_of
  for rows :: "'db \<Rightarrow> 'r list" and upd :: "('r list \<Rightarrow> 'r list) \<Rightarrow> 'db \<Rightarrow> 'db"
    and org_of :: "'r \<Rightarrow> ident" and id_of :: "'r \<Rightarrow> ident" +
  fixes slot :: "'r \<Rightarrow> 'k option"
begin

lemma exclusive_after_insert:
  "exclusive org_of slot (rows s) \<Longrightarrow> slot r = Some k \<Longrightarrow> slot_free org_of slot (org_of r) k (rows s) \<Longrightarrow>
   exclusive org_of slot (rows (upd (\<lambda>_. rows s @ [r]) s))"
  by (auto simp: rows_upd intro: exclusive_insert)

lemma exclusive_after_put:
  assumes "exclusive org_of slot (rows s)" "distinct (map id_of (rows s))"
    and "entity org_of id_of (rows s) org (id_of r) = Some x" "org_of r = org"
    and "slot r = slot x \<or> slot r = None"
  shows "exclusive org_of slot (rows (upd (\<lambda>_. put_row id_of r (rows s)) s))"
proof -
  from assms(3) have x: "x \<in> set (rows s)" "org_of x = org" "id_of x = id_of r" by (auto dest: entityD)
  have same: "y = x" if "y \<in> set (rows s)" "id_of y = id_of r" for y
    using assms(2) x that by (metis distinct_map inj_onD)
  show ?thesis unfolding rows_upd
  proof (rule exclusive_put_row [OF assms(1)])
    fix y assume "y \<in> set (rows s)" "id_of y = id_of r"
    then have "y = x" by (rule same)
    with x assms(4,5) show "org_of r = org_of y \<and> (slot r = slot y \<or> slot r = None)" by simp
  qed
qed

lemma sole_holder:
  "exclusive org_of slot (rows s) \<Longrightarrow> x \<in> set (rows s) \<Longrightarrow> y \<in> set (rows s) \<Longrightarrow> org_of x = org_of y \<Longrightarrow>
   slot x = Some k \<Longrightarrow> slot y = Some k \<Longrightarrow> x = y"
  by (rule exclusive_unique)

end

section \<open>Text helpers\<close>

text \<open>
  \<^verbatim>\<open>str.strip()\<close> and \<^verbatim>\<open>str.upper()\<close> on ASCII texts, and the decimal digits of an index as it
  appears in an idempotency key.
\<close>

definition is_space :: "char \<Rightarrow> bool" where
  "is_space c = (let n = of_char c :: nat in (9 \<le> n \<and> n \<le> 13) \<or> (28 \<le> n \<and> n \<le> 32))"

definition strip :: "string \<Rightarrow> string" where
  "strip s = rev (dropWhile is_space (rev (dropWhile is_space s)))"

definition upper_char :: "char \<Rightarrow> char" where
  "upper_char c = (let n = of_char c :: nat in if 97 \<le> n \<and> n \<le> 122 then char_of (n - 32) else c)"

definition upper :: "string \<Rightarrow> string" where
  "upper s = map upper_char s"

fun nat_str :: "nat \<Rightarrow> string" where
  "nat_str n = (if n < 10 then [char_of (48 + n)] else nat_str (n div 10) @ [char_of (48 + n mod 10)])"

declare nat_str.simps [simp del]

section \<open>Money\<close>

text \<open>\<^verbatim>\<open>value.quantize(Decimal("0.01"), rounding=ROUND_HALF_UP)\<close>: ties go away from zero.\<close>

definition money :: "decimal \<Rightarrow> decimal" where
  "money x = (if 0 \<le> x then of_int \<lfloor>x * 100 + 1 / 2\<rfloor> / 100 else - (of_int \<lfloor>- x * 100 + 1 / 2\<rfloor> / 100))"

definition whole_cents :: "decimal \<Rightarrow> bool" where
  "whole_cents x = (snd (quotient_of (x * 100)) = 1)"

lemma money_nonneg: "0 \<le> x \<Longrightarrow> 0 \<le> money x"
  by (simp add: money_def)

lemma money_error: "\<bar>money x - x\<bar> \<le> 1 / 200"
proof -
  have *: "\<bar>of_int \<lfloor>y * 100 + 1 / 2\<rfloor> / 100 - y\<bar> \<le> 1 / 200" for y :: rat
  proof -
    have "of_int \<lfloor>y * 100 + 1 / 2\<rfloor> \<le> y * 100 + 1 / 2" by (rule of_int_floor_le)
    moreover have "y * 100 + 1 / 2 < of_int \<lfloor>y * 100 + 1 / 2\<rfloor> + 1" by (rule floor_correct [THEN conjunct2, simplified])
    ultimately show ?thesis unfolding abs_le_iff by linarith
  qed
  show ?thesis
  proof (cases "0 \<le> x")
    case True
    then show ?thesis using * [of x] by (simp add: money_def)
  next
    case False
    then have "money x - x = - (of_int \<lfloor>- x * 100 + 1 / 2\<rfloor> / 100 - (- x))" by (simp add: money_def)
    then show ?thesis using * [of "- x"] by (simp only: abs_minus_cancel)
  qed
qed

lemma floor_half [simp]: "\<lfloor>1 / 2 :: rat\<rfloor> = 0"
  by (rule floor_unique) simp_all

lemma money_zero [simp]: "money 0 = 0"
  by (simp add: money_def)

lemma money_of_cents: "money (of_int k / 100) = of_int k / 100"
  by (simp add: money_def)

lemma money_is_cents: "\<exists>k. money x = of_int k / 100"
proof (cases "0 \<le> x")
  case True
  then show ?thesis unfolding money_def by auto
next
  case False
  then have "money x = of_int (- \<lfloor>- x * 100 + 1 / 2\<rfloor>) / 100" by (simp add: money_def)
  then show ?thesis by blast
qed

lemma money_idem [simp]: "money (money x) = money x"
  using money_is_cents [of x] money_of_cents by metis

lemma money_mono: "0 \<le> x \<Longrightarrow> x \<le> y \<Longrightarrow> money x \<le> money y"
  by (simp add: money_def divide_right_mono floor_mono)

end
