(* ===== verification/Enums.thy ===== *)
theory Enums
  imports Prelude
begin

text \<open>
  The status enumerations of \<^verbatim>\<open>models/enums.py\<close> that the modelled components use. Several classes
  share member names (\<^verbatim>\<open>ACTIVE\<close>, \<^verbatim>\<open>DRAFT\<close>, \<^verbatim>\<open>PENDING\<close>), so each constructor carries its class as a
  prefix. A \<^verbatim>\<open>StrEnum\<close> member is also a text: \<open>..._value\<close> is the member's \<^verbatim>\<open>.value\<close>, as it
  appears in audit snapshots, messages and the API.
\<close>

datatype lead_status =
  Lead_NEW | Lead_ASSIGNED | Lead_ATTEMPTED | Lead_CONTACTED | Lead_QUALIFIED | Lead_DISQUALIFIED
  | Lead_LOST | Lead_CONVERTED

datatype unit_status =
  Unit_AVAILABLE | Unit_SOFT_HOLD | Unit_HARD_HOLD | Unit_BOOKING_INITIATED | Unit_BOOKED
  | Unit_SOLD | Unit_CANCELLED_RELEASED

primrec unit_status_value :: "unit_status \<Rightarrow> string" where
  "unit_status_value Unit_AVAILABLE = ''AVAILABLE''"
| "unit_status_value Unit_SOFT_HOLD = ''SOFT_HOLD''"
| "unit_status_value Unit_HARD_HOLD = ''HARD_HOLD''"
| "unit_status_value Unit_BOOKING_INITIATED = ''BOOKING_INITIATED''"
| "unit_status_value Unit_BOOKED = ''BOOKED''"
| "unit_status_value Unit_SOLD = ''SOLD''"
| "unit_status_value Unit_CANCELLED_RELEASED = ''CANCELLED_RELEASED''"

datatype hold_status =
  Hold_PENDING_APPROVAL | Hold_ACTIVE | Hold_REJECTED | Hold_RELEASED | Hold_EXPIRED
  | Hold_CONVERTED

primrec hold_status_value :: "hold_status \<Rightarrow> string" where
  "hold_status_value Hold_PENDING_APPROVAL = ''PENDING_APPROVAL''"
| "hold_status_value Hold_ACTIVE = ''ACTIVE''"
| "hold_status_value Hold_REJECTED = ''REJECTED''"
| "hold_status_value Hold_RELEASED = ''RELEASED''"
| "hold_status_value Hold_EXPIRED = ''EXPIRED''"
| "hold_status_value Hold_CONVERTED = ''CONVERTED''"

datatype hold_type =
  HoldType_SOFT_HOLD | HoldType_HARD_HOLD

primrec hold_type_value :: "hold_type \<Rightarrow> string" where
  "hold_type_value HoldType_SOFT_HOLD = ''SOFT_HOLD''"
| "hold_type_value HoldType_HARD_HOLD = ''HARD_HOLD''"

datatype customer_status =
  Customer_PROSPECT | Customer_ACTIVE | Customer_INACTIVE | Customer_BLOCKED

datatype record_status =
  Record_DRAFT | Record_ACTIVE | Record_INACTIVE | Record_ARCHIVED

primrec record_status_value :: "record_status \<Rightarrow> string" where
  "record_status_value Record_DRAFT = ''DRAFT''"
| "record_status_value Record_ACTIVE = ''ACTIVE''"
| "record_status_value Record_INACTIVE = ''INACTIVE''"
| "record_status_value Record_ARCHIVED = ''ARCHIVED''"

datatype document_status =
  Document_PENDING | Document_UPLOADED | Document_UNDER_REVIEW | Document_VERIFIED
  | Document_REJECTED | Document_EXPIRED

primrec document_status_value :: "document_status \<Rightarrow> string" where
  "document_status_value Document_PENDING = ''PENDING''"
| "document_status_value Document_UPLOADED = ''UPLOADED''"
| "document_status_value Document_UNDER_REVIEW = ''UNDER_REVIEW''"
| "document_status_value Document_VERIFIED = ''VERIFIED''"
| "document_status_value Document_REJECTED = ''REJECTED''"
| "document_status_value Document_EXPIRED = ''EXPIRED''"

datatype project_status =
  Project_PLANNING | Project_LAUNCHED | Project_UNDER_CONSTRUCTION | Project_COMPLETED
  | Project_ON_HOLD | Project_ARCHIVED

primrec project_status_value :: "project_status \<Rightarrow> string" where
  "project_status_value Project_PLANNING = ''PLANNING''"
| "project_status_value Project_LAUNCHED = ''LAUNCHED''"
| "project_status_value Project_UNDER_CONSTRUCTION = ''UNDER_CONSTRUCTION''"
| "project_status_value Project_COMPLETED = ''COMPLETED''"
| "project_status_value Project_ON_HOLD = ''ON_HOLD''"
| "project_status_value Project_ARCHIVED = ''ARCHIVED''"

datatype quotation_status =
  Quotation_DRAFT | Quotation_SENT | Quotation_ACCEPTED | Quotation_REJECTED | Quotation_EXPIRED
  | Quotation_SUPERSEDED

primrec quotation_status_value :: "quotation_status \<Rightarrow> string" where
  "quotation_status_value Quotation_DRAFT = ''DRAFT''"
| "quotation_status_value Quotation_SENT = ''SENT''"
| "quotation_status_value Quotation_ACCEPTED = ''ACCEPTED''"
| "quotation_status_value Quotation_REJECTED = ''REJECTED''"
| "quotation_status_value Quotation_EXPIRED = ''EXPIRED''"
| "quotation_status_value Quotation_SUPERSEDED = ''SUPERSEDED''"

datatype cost_sheet_status =
  CostSheet_DRAFT | CostSheet_PENDING_APPROVAL | CostSheet_APPROVED | CostSheet_REJECTED
  | CostSheet_CONVERTED | CostSheet_VOIDED

datatype booking_status =
  Booking_DRAFT | Booking_DOCUMENTATION_PENDING | Booking_PAYMENT_PENDING | Booking_SUBMITTED
  | Booking_VERIFICATION | Booking_APPROVAL | Booking_CONFIRMED | Booking_REJECTED
  | Booking_CANCELLED

primrec booking_status_value :: "booking_status \<Rightarrow> string" where
  "booking_status_value Booking_DRAFT = ''DRAFT''"
| "booking_status_value Booking_DOCUMENTATION_PENDING = ''DOCUMENTATION_PENDING''"
| "booking_status_value Booking_PAYMENT_PENDING = ''PAYMENT_PENDING''"
| "booking_status_value Booking_SUBMITTED = ''SUBMITTED''"
| "booking_status_value Booking_VERIFICATION = ''VERIFICATION''"
| "booking_status_value Booking_APPROVAL = ''APPROVAL''"
| "booking_status_value Booking_CONFIRMED = ''CONFIRMED''"
| "booking_status_value Booking_REJECTED = ''REJECTED''"
| "booking_status_value Booking_CANCELLED = ''CANCELLED''"

datatype financing_status =
  Financing_NOT_REQUIRED | Financing_APPLIED | Financing_UNDER_REVIEW | Financing_SANCTIONED
  | Financing_REJECTED | Financing_DISBURSED

primrec financing_status_value :: "financing_status \<Rightarrow> string" where
  "financing_status_value Financing_NOT_REQUIRED = ''NOT_REQUIRED''"
| "financing_status_value Financing_APPLIED = ''APPLIED''"
| "financing_status_value Financing_UNDER_REVIEW = ''UNDER_REVIEW''"
| "financing_status_value Financing_SANCTIONED = ''SANCTIONED''"
| "financing_status_value Financing_REJECTED = ''REJECTED''"
| "financing_status_value Financing_DISBURSED = ''DISBURSED''"

datatype approval_status =
  Approval_PENDING | Approval_APPROVED | Approval_REJECTED | Approval_CANCELLED

primrec approval_status_value :: "approval_status \<Rightarrow> string" where
  "approval_status_value Approval_PENDING = ''PENDING''"
| "approval_status_value Approval_APPROVED = ''APPROVED''"
| "approval_status_value Approval_REJECTED = ''REJECTED''"
| "approval_status_value Approval_CANCELLED = ''CANCELLED''"

datatype payment_status =
  Payment_PENDING | Payment_PROCESSING | Payment_COMPLETED | Payment_FAILED | Payment_VOIDED
  | Payment_REFUNDED

primrec payment_status_value :: "payment_status \<Rightarrow> string" where
  "payment_status_value Payment_PENDING = ''PENDING''"
| "payment_status_value Payment_PROCESSING = ''PROCESSING''"
| "payment_status_value Payment_COMPLETED = ''COMPLETED''"
| "payment_status_value Payment_FAILED = ''FAILED''"
| "payment_status_value Payment_VOIDED = ''VOIDED''"
| "payment_status_value Payment_REFUNDED = ''REFUNDED''"

datatype installment_status =
  Installment_SCHEDULED | Installment_DUE | Installment_PARTIALLY_PAID | Installment_PAID
  | Installment_OVERDUE | Installment_WAIVED

primrec installment_status_value :: "installment_status \<Rightarrow> string" where
  "installment_status_value Installment_SCHEDULED = ''SCHEDULED''"
| "installment_status_value Installment_DUE = ''DUE''"
| "installment_status_value Installment_PARTIALLY_PAID = ''PARTIALLY_PAID''"
| "installment_status_value Installment_PAID = ''PAID''"
| "installment_status_value Installment_OVERDUE = ''OVERDUE''"
| "installment_status_value Installment_WAIVED = ''WAIVED''"

datatype ledger_entry_type =
  Ledger_DEBIT | Ledger_CREDIT | Ledger_ADJUSTMENT

datatype reconciliation_status =
  Reconciliation_PENDING | Reconciliation_MATCHED | Reconciliation_MISMATCHED
  | Reconciliation_RESOLVED

primrec reconciliation_status_value :: "reconciliation_status \<Rightarrow> string" where
  "reconciliation_status_value Reconciliation_PENDING = ''PENDING''"
| "reconciliation_status_value Reconciliation_MATCHED = ''MATCHED''"
| "reconciliation_status_value Reconciliation_MISMATCHED = ''MISMATCHED''"
| "reconciliation_status_value Reconciliation_RESOLVED = ''RESOLVED''"

datatype financial_charge_type =
  ChargeType_PENALTY | ChargeType_INTEREST

primrec financial_charge_type_value :: "financial_charge_type \<Rightarrow> string" where
  "financial_charge_type_value ChargeType_PENALTY = ''PENALTY''"
| "financial_charge_type_value ChargeType_INTEREST = ''INTEREST''"

datatype financial_charge_status =
  Charge_APPLIED | Charge_PARTIALLY_PAID | Charge_PAID | Charge_WAIVED

primrec financial_charge_status_value :: "financial_charge_status \<Rightarrow> string" where
  "financial_charge_status_value Charge_APPLIED = ''APPLIED''"
| "financial_charge_status_value Charge_PARTIALLY_PAID = ''PARTIALLY_PAID''"
| "financial_charge_status_value Charge_PAID = ''PAID''"
| "financial_charge_status_value Charge_WAIVED = ''WAIVED''"

datatype workflow_status =
  Workflow_REQUESTED | Workflow_UNDER_REVIEW | Workflow_APPROVED | Workflow_REJECTED
  | Workflow_COMPLETED | Workflow_CANCELLED

datatype partner_status =
  Partner_PENDING | Partner_APPLICATION | Partner_DOCUMENT_VERIFICATION
  | Partner_AGREEMENT_PENDING | Partner_APPROVAL_PENDING | Partner_APPROVED | Partner_ACTIVE
  | Partner_REJECTED | Partner_SUSPENDED | Partner_INACTIVE

datatype commission_status =
  Commission_PENDING | Commission_ELIGIBLE | Commission_APPROVED | Commission_PAID
  | Commission_REVERSED

primrec commission_status_value :: "commission_status \<Rightarrow> string" where
  "commission_status_value Commission_PENDING = ''PENDING''"
| "commission_status_value Commission_ELIGIBLE = ''ELIGIBLE''"
| "commission_status_value Commission_APPROVED = ''APPROVED''"
| "commission_status_value Commission_PAID = ''PAID''"
| "commission_status_value Commission_REVERSED = ''REVERSED''"

datatype notification_channel =
  Channel_IN_APP | Channel_EMAIL | Channel_SMS | Channel_PUSH

datatype notification_status =
  Notification_QUEUED | Notification_SENT | Notification_DELIVERED | Notification_FAILED
  | Notification_READ

datatype notification_event_type =
  Event_LEAD_ASSIGNED | Event_FOLLOW_UP_REMINDER | Event_SITE_VISIT_SCHEDULED
  | Event_SITE_VISIT_UPDATED | Event_QUOTATION_CREATED | Event_QUOTATION_STATUS_CHANGED
  | Event_DISCOUNT_APPROVAL_REQUESTED | Event_DISCOUNT_APPROVAL_DECIDED | Event_UNIT_HOLD_EXPIRING
  | Event_UNIT_HOLD_EXPIRED | Event_BOOKING_CREATED | Event_BOOKING_STATUS_CHANGED
  | Event_PAYMENT_RECEIVED | Event_INSTALLMENT_DUE | Event_INSTALLMENT_OVERDUE
  | Event_DEMAND_LETTER_ISSUED | Event_POSSESSION_UPDATED | Event_SERVICE_REQUEST_CREATED
  | Event_SERVICE_REQUEST_ASSIGNED | Event_SERVICE_REQUEST_STATUS_CHANGED

primrec notification_event_type_value :: "notification_event_type \<Rightarrow> string" where
  "notification_event_type_value Event_LEAD_ASSIGNED = ''LEAD_ASSIGNED''"
| "notification_event_type_value Event_FOLLOW_UP_REMINDER = ''FOLLOW_UP_REMINDER''"
| "notification_event_type_value Event_SITE_VISIT_SCHEDULED = ''SITE_VISIT_SCHEDULED''"
| "notification_event_type_value Event_SITE_VISIT_UPDATED = ''SITE_VISIT_UPDATED''"
| "notification_event_type_value Event_QUOTATION_CREATED = ''QUOTATION_CREATED''"
| "notification_event_type_value Event_QUOTATION_STATUS_CHANGED = ''QUOTATION_STATUS_CHANGED''"
| "notification_event_type_value Event_DISCOUNT_APPROVAL_REQUESTED = ''DISCOUNT_APPROVAL_REQUESTED''"
| "notification_event_type_value Event_DISCOUNT_APPROVAL_DECIDED = ''DISCOUNT_APPROVAL_DECIDED''"
| "notification_event_type_value Event_UNIT_HOLD_EXPIRING = ''UNIT_HOLD_EXPIRING''"
| "notification_event_type_value Event_UNIT_HOLD_EXPIRED = ''UNIT_HOLD_EXPIRED''"
| "notification_event_type_value Event_BOOKING_CREATED = ''BOOKING_CREATED''"
| "notification_event_type_value Event_BOOKING_STATUS_CHANGED = ''BOOKING_STATUS_CHANGED''"
| "notification_event_type_value Event_PAYMENT_RECEIVED = ''PAYMENT_RECEIVED''"
| "notification_event_type_value Event_INSTALLMENT_DUE = ''INSTALLMENT_DUE''"
| "notification_event_type_value Event_INSTALLMENT_OVERDUE = ''INSTALLMENT_OVERDUE''"
| "notification_event_type_value Event_DEMAND_LETTER_ISSUED = ''DEMAND_LETTER_ISSUED''"
| "notification_event_type_value Event_POSSESSION_UPDATED = ''POSSESSION_UPDATED''"
| "notification_event_type_value Event_SERVICE_REQUEST_CREATED = ''SERVICE_REQUEST_CREATED''"
| "notification_event_type_value Event_SERVICE_REQUEST_ASSIGNED = ''SERVICE_REQUEST_ASSIGNED''"
| "notification_event_type_value Event_SERVICE_REQUEST_STATUS_CHANGED = ''SERVICE_REQUEST_STATUS_CHANGED''"

text \<open>\<^verbatim>\<open>UnitStatus(hold_type)\<close>: a hold type names the unit status of the held unit.\<close>

primrec unit_status_of_hold_type :: "hold_type \<Rightarrow> unit_status" where
  "unit_status_of_hold_type HoldType_SOFT_HOLD = Unit_SOFT_HOLD"
| "unit_status_of_hold_type HoldType_HARD_HOLD = Unit_HARD_HOLD"

lemma unit_status_of_hold_type_cases:
  "unit_status_of_hold_type t \<in> {Unit_SOFT_HOLD, Unit_HARD_HOLD}"
  by (cases t) simp_all

end
