(* ===== verification/Tables.thy ===== *)
theory Tables
  imports Enums
begin

text \<open>
  The tables of \<^verbatim>\<open>models/*.py\<close> that the modelled components read or write: one record per model
  class, one field per column (prefixed by the table), and the database as the record of all
  tables. The columns \<^verbatim>\<open>id\<close>, \<^verbatim>\<open>organization_id\<close> and \<^verbatim>\<open>created_at\<close> come from the mixins of
  \<^verbatim>\<open>db/base.py\<close> and \<^verbatim>\<open>models/common.py\<close>; \<^verbatim>\<open>updated_at\<close>, which the ORM sets on every update, is kept where a modelled query orders
  by it (documents and quotations) and left out elsewhere. Texts built by f-strings are of type \<open>formatted\<close>.
\<close>

section \<open>Row types\<close>

record organization_row =
  org_id :: ident
  org_name :: string
  org_slug :: string
  org_legal_name :: "string option"
  org_contact_email :: "string option"
  org_contact_phone :: "string option"
  org_timezone :: "string option"
  org_currency :: "string option"
  org_date_format :: "string option"
  org_is_active :: bool
  org_created_at :: timestamp

record role_row =
  role_id :: ident
  role_organization_id :: ident
  role_name :: string
  role_description :: "string option"
  role_is_system :: bool
  role_created_at :: timestamp

record refresh_token_row =
  rtok_id :: ident
  rtok_organization_id :: ident
  rtok_user_id :: ident
  rtok_token_hash :: string
  rtok_family_id :: ident
  rtok_expires_at :: timestamp
  rtok_absolute_expires_at :: timestamp
  rtok_revoked_at :: "timestamp option"
  rtok_replaced_by_id :: "ident option"
  rtok_user_agent :: "string option"
  rtok_ip_address :: "string option"
  rtok_created_at :: timestamp

record password_reset_token_row =
  ptok_id :: ident
  ptok_organization_id :: ident
  ptok_user_id :: ident
  ptok_token_hash :: string
  ptok_expires_at :: timestamp
  ptok_consumed_at :: "timestamp option"
  ptok_requested_ip :: "string option"
  ptok_created_at :: timestamp

record user_row =
  user_id :: ident
  user_organization_id :: ident
  user_branch_id :: "ident option"
  user_department_id :: "ident option"
  user_email :: string
  user_full_name :: string
  user_password_hash :: string
  user_auth_version :: int
  user_is_active :: bool
  user_last_login_at :: "timestamp option"
  user_created_at :: timestamp

record permission_row =
  perm_id :: ident
  perm_organization_id :: ident
  perm_code :: string
  perm_description :: string
  perm_created_at :: timestamp

record user_role_row =
  urole_id :: ident
  urole_organization_id :: ident
  urole_user_id :: ident
  urole_role_id :: ident
  urole_created_at :: timestamp

record role_permission_row =
  rperm_id :: ident
  rperm_organization_id :: ident
  rperm_role_id :: ident
  rperm_permission_id :: ident
  rperm_created_at :: timestamp

record audit_row =
  audit_id :: ident
  audit_organization_id :: ident
  audit_actor_user_id :: "ident option"
  audit_action :: string
  audit_entity_type :: string
  audit_entity_id :: ident
  audit_previous_value :: "snapshot option"
  audit_new_value :: "snapshot option"
  audit_request_id :: "ident option"
  audit_ip_address :: "string option"
  audit_user_agent :: "string option"
  audit_device_metadata :: "(string \<times> string) list option"
  audit_created_at :: timestamp

record notification_row =
  note_id :: ident
  note_organization_id :: ident
  note_recipient_user_id :: "ident option"
  note_customer_id :: "ident option"
  note_tenant_id :: "ident option"
  note_channel :: notification_channel
  note_status :: notification_status
  note_title :: string
  note_body :: formatted
  note_event_type :: "string option"
  note_action_url :: "string option"
  note_data :: "snapshot option"
  note_deduplication_key :: "string option"
  note_scheduled_for :: "timestamp option"
  note_related_entity_type :: "string option"
  note_related_entity_id :: "ident option"
  note_sent_at :: "timestamp option"
  note_read_at :: "timestamp option"
  note_failure_reason :: "string option"
  note_created_at :: timestamp

record project_row =
  project_id :: ident
  project_organization_id :: ident
  project_name :: string
  project_code :: string
  project_description :: "string option"
  project_project_type :: "string option"
  project_address_line1 :: "string option"
  project_address_line2 :: "string option"
  project_city :: "string option"
  project_state :: "string option"
  project_postal_code :: "string option"
  project_country :: "string option"
  project_rera_number :: "string option"
  project_launch_date :: "day option"
  project_expected_possession_date :: "day option"
  project_default_currency :: string
  project_amenities :: "string list option"
  project_configuration :: "json option"
  project_status :: project_status
  project_created_at :: timestamp

record tower_row =
  tower_id :: ident
  tower_organization_id :: ident
  tower_project_id :: ident
  tower_name :: string
  tower_code :: string
  tower_is_active :: bool
  tower_created_at :: timestamp

record floor_row =
  floor_id :: ident
  floor_organization_id :: ident
  floor_tower_id :: ident
  floor_name :: string
  floor_floor_number :: int
  floor_is_active :: bool
  floor_created_at :: timestamp

record unit_row =
  unit_id :: ident
  unit_organization_id :: ident
  unit_project_id :: ident
  unit_tower_id :: "ident option"
  unit_floor_id :: "ident option"
  unit_unit_number :: string
  unit_unit_type :: "string option"
  unit_area_sqft :: "decimal option"
  unit_carpet_area_sqft :: "decimal option"
  unit_built_up_area_sqft :: "decimal option"
  unit_facing :: "string option"
  unit_bedrooms :: "int option"
  unit_bathrooms :: "int option"
  unit_balconies :: "int option"
  unit_amenities :: "string list option"
  unit_price_components :: "json option"
  unit_configuration :: "json option"
  unit_status :: unit_status
  unit_base_price :: "decimal option"
  unit_currency :: "string option"
  unit_created_at :: timestamp

record unit_hold_row =
  hold_id :: ident
  hold_organization_id :: ident
  hold_unit_id :: ident
  hold_customer_id :: "ident option"
  hold_lead_id :: "ident option"
  hold_held_by_user_id :: ident
  hold_approved_by_user_id :: "ident option"
  hold_hold_type :: "hold_type option"
  hold_hold_reason :: "string option"
  hold_status :: hold_status
  hold_starts_at :: timestamp
  hold_expires_at :: timestamp
  hold_released_at :: "timestamp option"
  hold_approved_at :: "timestamp option"
  hold_rejected_at :: "timestamp option"
  hold_approval_notes :: "string option"
  hold_release_reason :: "string option"
  hold_active_unit_key :: "ident option"
  hold_created_at :: timestamp

record lead_row =
  lead_id :: ident
  lead_organization_id :: ident
  lead_source_id :: "ident option"
  lead_owner_user_id :: "ident option"
  lead_branch_id :: "ident option"
  lead_lost_reason_id :: "ident option"
  lead_import_batch_id :: "ident option"
  lead_duplicate_of_lead_id :: "ident option"
  lead_full_name :: string
  lead_email :: "string option"
  lead_phone :: "string option"
  lead_alternate_phone :: "string option"
  lead_normalized_email :: "string option"
  lead_normalized_phone :: "string option"
  lead_company_name :: "string option"
  lead_preferred_location :: "string option"
  lead_requirements :: "string option"
  lead_budget_min :: "decimal option"
  lead_budget_max :: "decimal option"
  lead_status :: lead_status
  lead_score :: int
  lead_score_breakdown :: "json option"
  lead_qualification_notes :: "string option"
  lead_lost_notes :: "string option"
  lead_qualified_at :: "timestamp option"
  lead_converted_at :: "timestamp option"
  lead_last_activity_at :: "timestamp option"
  lead_next_follow_up_at :: "timestamp option"
  lead_metadata_json :: "json option"
  lead_created_at :: timestamp

record customer_row =
  cust_id :: ident
  cust_organization_id :: ident
  cust_converted_from_lead_id :: "ident option"
  cust_owner_user_id :: "ident option"
  cust_branch_id :: "ident option"
  cust_full_name :: string
  cust_email :: "string option"
  cust_phone :: "string option"
  cust_alternate_phone :: "string option"
  cust_normalized_email :: "string option"
  cust_normalized_phone :: "string option"
  cust_date_of_birth :: "day option"
  cust_gender :: "string option"
  cust_occupation :: "string option"
  cust_company_name :: "string option"
  cust_address_line1 :: "string option"
  cust_address_line2 :: "string option"
  cust_city :: "string option"
  cust_state :: "string option"
  cust_postal_code :: "string option"
  cust_country :: "string option"
  cust_preferred_location :: "string option"
  cust_requirements :: "string option"
  cust_budget_min :: "decimal option"
  cust_budget_max :: "decimal option"
  cust_communication_preferences :: "json option"
  cust_status :: customer_status
  cust_created_at :: timestamp

record customer_document_row =
  doc_id :: ident
  doc_organization_id :: ident
  doc_customer_id :: ident
  doc_booking_id :: "ident option"
  doc_uploaded_by_user_id :: "ident option"
  doc_reviewed_by_user_id :: "ident option"
  doc_document_set_id :: ident
  doc_supersedes_document_id :: "ident option"
  doc_current_version_key :: "ident option"
  doc_version :: int
  doc_is_current :: bool
  doc_document_type :: string
  doc_file_name :: "string option"
  doc_storage_key :: "string option"
  doc_content_type :: "string option"
  doc_size_bytes :: "int option"
  doc_checksum_sha256 :: "string option"
  doc_status :: document_status
  doc_expiry_date :: "day option"
  doc_uploaded_at :: "timestamp option"
  doc_review_started_at :: "timestamp option"
  doc_reviewed_at :: "timestamp option"
  doc_rejection_reason :: "string option"
  doc_review_notes :: "string option"
  doc_created_at :: timestamp
  doc_updated_at :: timestamp

record quotation_row =
  quote_id :: ident
  quote_organization_id :: ident
  quote_lead_id :: "ident option"
  quote_customer_id :: "ident option"
  quote_project_id :: ident
  quote_unit_id :: "ident option"
  quote_cost_sheet_id :: "ident option"
  quote_parent_quotation_id :: "ident option"
  quote_created_by_user_id :: ident
  quote_quotation_number :: string
  quote_version :: int
  quote_status :: quotation_status
  quote_currency :: string
  quote_subtotal :: decimal
  quote_discount_amount :: decimal
  quote_tax_amount :: decimal
  quote_total :: decimal
  quote_final_agreed_value :: "decimal option"
  quote_booking_amount :: "decimal option"
  quote_pricing_snapshot :: "json option"
  quote_valid_until :: day
  quote_issued_at :: "timestamp option"
  quote_created_at :: timestamp
  quote_updated_at :: timestamp

record booking_row =
  booking_id :: ident
  booking_organization_id :: ident
  booking_unit_id :: ident
  booking_lead_id :: "ident option"
  booking_customer_id :: ident
  booking_quotation_id :: "ident option"
  booking_unit_hold_id :: "ident option"
  booking_booked_by_user_id :: ident
  booking_salesperson_user_id :: "ident option"
  booking_channel_partner_id :: "ident option"
  booking_verified_by_user_id :: "ident option"
  booking_confirmed_by_user_id :: "ident option"
  booking_booking_number :: string
  booking_status :: booking_status
  booking_booking_amount :: decimal
  booking_agreed_price :: "decimal option"
  booking_discount_amount :: decimal
  booking_currency :: string
  booking_active_unit_key :: "ident option"
  booking_booked_at :: "timestamp option"
  booking_submitted_at :: "timestamp option"
  booking_verification_completed_at :: "timestamp option"
  booking_approval_requested_at :: "timestamp option"
  booking_rejected_at :: "timestamp option"
  booking_cancelled_at :: "timestamp option"
  booking_rejection_reason :: "string option"
  booking_created_at :: timestamp

record booking_applicant_row =
  appl_id :: ident
  appl_organization_id :: ident
  appl_booking_id :: ident
  appl_customer_id :: "ident option"
  appl_sequence :: int
  appl_is_primary :: bool
  appl_primary_booking_key :: "ident option"
  appl_full_name :: string
  appl_email :: "string option"
  appl_phone :: "string option"
  appl_date_of_birth :: "day option"
  appl_tax_identifier :: "string option"
  appl_relationship_to_primary :: "string option"
  appl_created_at :: timestamp

record booking_financing_row =
  fin_id :: ident
  fin_organization_id :: ident
  fin_booking_id :: ident
  fin_status :: financing_status
  fin_lender_name :: "string option"
  fin_loan_amount :: "decimal option"
  fin_application_number :: "string option"
  fin_sanction_reference :: "string option"
  fin_notes :: "string option"
  fin_created_at :: timestamp

record booking_approval_row =
  appr_id :: ident
  appr_organization_id :: ident
  appr_booking_id :: ident
  appr_requested_by_user_id :: ident
  appr_approver_user_id :: ident
  appr_step_number :: int
  appr_status :: approval_status
  appr_comments :: "string option"
  appr_decided_at :: "timestamp option"
  appr_created_at :: timestamp

record payment_plan_row =
  plan_id :: ident
  plan_organization_id :: ident
  plan_booking_id :: ident
  plan_name :: string
  plan_status :: record_status
  plan_currency :: string
  plan_total_amount :: decimal
  plan_effective_from :: day
  plan_created_at :: timestamp

record installment_row =
  inst_id :: ident
  inst_organization_id :: ident
  inst_payment_plan_id :: ident
  inst_sequence :: int
  inst_name :: string
  inst_due_date :: day
  inst_amount :: decimal
  inst_paid_amount :: decimal
  inst_status :: installment_status
  inst_created_at :: timestamp

record demand_letter_row =
  demand_id :: ident
  demand_organization_id :: ident
  demand_booking_id :: ident
  demand_customer_id :: ident
  demand_installment_id :: "ident option"
  demand_demand_number :: string
  demand_status :: record_status
  demand_issue_date :: day
  demand_due_date :: day
  demand_amount :: decimal
  demand_currency :: string
  demand_storage_key :: "string option"
  demand_is_final :: bool
  demand_created_at :: timestamp

record payment_row =
  pay_id :: ident
  pay_organization_id :: ident
  pay_booking_id :: ident
  pay_customer_id :: ident
  pay_installment_id :: "ident option"
  pay_verified_by_user_id :: "ident option"
  pay_amount :: decimal
  pay_currency :: string
  pay_method :: string
  pay_status :: payment_status
  pay_reference_number :: "string option"
  pay_idempotency_key :: string
  pay_paid_at :: "timestamp option"
  pay_verified_at :: "timestamp option"
  pay_created_at :: timestamp

record receipt_row =
  rcpt_id :: ident
  rcpt_organization_id :: ident
  rcpt_payment_id :: ident
  rcpt_customer_id :: ident
  rcpt_receipt_number :: string
  rcpt_status :: record_status
  rcpt_issued_at :: timestamp
  rcpt_storage_key :: "string option"
  rcpt_created_at :: timestamp

record payment_allocation_row =
  alloc_id :: ident
  alloc_organization_id :: ident
  alloc_payment_id :: ident
  alloc_installment_id :: "ident option"
  alloc_demand_letter_id :: "ident option"
  alloc_allocated_by_user_id :: ident
  alloc_amount :: decimal
  alloc_idempotency_key :: string
  alloc_allocated_at :: timestamp
  alloc_reversed_at :: "timestamp option"
  alloc_created_at :: timestamp

record payment_reconciliation_row =
  recon_id :: ident
  recon_organization_id :: ident
  recon_payment_id :: ident
  recon_reconciled_by_user_id :: ident
  recon_status :: reconciliation_status
  recon_expected_amount :: decimal
  recon_received_amount :: decimal
  recon_difference_amount :: decimal
  recon_external_reference :: "string option"
  recon_idempotency_key :: string
  recon_notes :: "string option"
  recon_reconciled_at :: timestamp
  recon_created_at :: timestamp

record financial_charge_row =
  charge_id :: ident
  charge_organization_id :: ident
  charge_booking_id :: ident
  charge_customer_id :: ident
  charge_installment_id :: ident
  charge_created_by_user_id :: ident
  charge_waived_by_user_id :: "ident option"
  charge_charge_type :: financial_charge_type
  charge_status :: financial_charge_status
  charge_principal_amount :: decimal
  charge_rate_percent :: decimal
  charge_days_calculated :: int
  charge_amount :: decimal
  charge_paid_amount :: decimal
  charge_currency :: string
  charge_calculation_date :: day
  charge_reason :: string
  charge_idempotency_key :: string
  charge_waived_reason :: "string option"
  charge_waived_at :: "timestamp option"
  charge_created_at :: timestamp

record customer_ledger_row =
  ledger_id :: ident
  ledger_organization_id :: ident
  ledger_customer_id :: ident
  ledger_booking_id :: "ident option"
  ledger_payment_id :: "ident option"
  ledger_receipt_id :: "ident option"
  ledger_entry_type :: ledger_entry_type
  ledger_amount :: decimal
  ledger_currency :: string
  ledger_description :: formatted
  ledger_idempotency_key :: string
  ledger_posted_at :: timestamp
  ledger_created_at :: timestamp

record refund_row =
  refund_id :: ident
  refund_organization_id :: ident
  refund_cancellation_id :: "ident option"
  refund_booking_id :: "ident option"
  refund_payment_id :: "ident option"
  refund_customer_id :: ident
  refund_requested_by_user_id :: "ident option"
  refund_approved_by_user_id :: "ident option"
  refund_status :: payment_status
  refund_amount :: decimal
  refund_currency :: string
  refund_reference_number :: "string option"
  refund_reason :: "string option"
  refund_decision_notes :: "string option"
  refund_idempotency_key :: "string option"
  refund_requested_at :: timestamp
  refund_approved_at :: "timestamp option"
  refund_rejected_at :: "timestamp option"
  refund_processed_at :: "timestamp option"
  refund_created_at :: timestamp

record channel_partner_row =
  partner_id :: ident
  partner_organization_id :: ident
  partner_code :: string
  partner_applied_by_user_id :: "ident option"
  partner_name :: string
  partner_legal_name :: "string option"
  partner_partner_type :: "string option"
  partner_registration_number :: "string option"
  partner_registration_date :: "day option"
  partner_website :: "string option"
  partner_address_line1 :: "string option"
  partner_address_line2 :: "string option"
  partner_city :: "string option"
  partner_state :: "string option"
  partner_postal_code :: "string option"
  partner_country :: "string option"
  partner_contact_name :: "string option"
  partner_email :: "string option"
  partner_phone :: "string option"
  partner_tax_identifier :: "string option"
  partner_gst_number :: "string option"
  partner_tax_registration_name :: "string option"
  partner_bank_account_holder :: "string option"
  partner_bank_name :: "string option"
  partner_bank_branch :: "string option"
  partner_bank_ifsc :: "string option"
  partner_bank_account_last4 :: "string option"
  partner_bank_account_reference :: "string option"
  partner_manager_user_id :: "ident option"
  partner_approved_by_user_id :: "ident option"
  partner_activated_by_user_id :: "ident option"
  partner_default_commission_percent :: "decimal option"
  partner_lead_protection_days :: int
  partner_application_notes :: "string option"
  partner_review_notes :: "string option"
  partner_rejection_reason :: "string option"
  partner_status :: partner_status
  partner_applied_at :: "timestamp option"
  partner_documents_verified_at :: "timestamp option"
  partner_agreement_completed_at :: "timestamp option"
  partner_approval_requested_at :: "timestamp option"
  partner_approved_at :: "timestamp option"
  partner_activated_at :: "timestamp option"
  partner_created_at :: timestamp

record partner_project_row =
  pproj_id :: ident
  pproj_organization_id :: ident
  pproj_channel_partner_id :: ident
  pproj_project_id :: ident
  pproj_created_at :: timestamp

record partner_lead_row =
  plead_id :: ident
  plead_organization_id :: ident
  plead_channel_partner_id :: ident
  plead_lead_id :: ident
  plead_registered_by_user_id :: ident
  plead_approved_by_user_id :: "ident option"
  plead_status :: workflow_status
  plead_registered_at :: timestamp
  plead_protected_until :: "day option"
  plead_active_email_key :: "ident option"
  plead_active_phone_key :: "ident option"
  plead_registration_notes :: "string option"
  plead_decision_notes :: "string option"
  plead_decided_at :: "timestamp option"
  plead_created_at :: timestamp

record commission_structure_row =
  cstr_id :: ident
  cstr_organization_id :: ident
  cstr_channel_partner_id :: ident
  cstr_project_id :: "ident option"
  cstr_name :: string
  cstr_rate_percent :: decimal
  cstr_calculation_basis :: string
  cstr_effective_from :: day
  cstr_effective_until :: "day option"
  cstr_is_active :: bool
  cstr_active_scope_key :: "ident option"
  cstr_created_at :: timestamp

record commission_row =
  comm_id :: ident
  comm_organization_id :: ident
  comm_channel_partner_id :: ident
  comm_booking_id :: ident
  comm_commission_payout_id :: "ident option"
  comm_approved_by_user_id :: "ident option"
  comm_commission_structure_id :: "ident option"
  comm_status :: commission_status
  comm_rate_percent :: decimal
  comm_amount :: decimal
  comm_currency :: string
  comm_created_at :: timestamp

section \<open>The database\<close>

record database =
  organizations :: "organization_row list"
  roles :: "role_row list"
  refresh_tokens :: "refresh_token_row list"
  password_reset_tokens :: "password_reset_token_row list"
  users :: "user_row list"
  permissions :: "permission_row list"
  user_roles :: "user_role_row list"
  role_permissions :: "role_permission_row list"
  audit_logs :: "audit_row list"
  notifications :: "notification_row list"
  projects :: "project_row list"
  towers :: "tower_row list"
  floors :: "floor_row list"
  units :: "unit_row list"
  unit_holds :: "unit_hold_row list"
  leads :: "lead_row list"
  customers :: "customer_row list"
  customer_documents :: "customer_document_row list"
  quotations :: "quotation_row list"
  bookings :: "booking_row list"
  booking_applicants :: "booking_applicant_row list"
  booking_financing :: "booking_financing_row list"
  booking_approvals :: "booking_approval_row list"
  payment_plans :: "payment_plan_row list"
  installments :: "installment_row list"
  demand_letters :: "demand_letter_row list"
  payments :: "payment_row list"
  receipts :: "receipt_row list"
  payment_allocations :: "payment_allocation_row list"
  payment_reconciliations :: "payment_reconciliation_row list"
  financial_charges :: "financial_charge_row list"
  customer_ledger :: "customer_ledger_row list"
  refunds :: "refund_row list"
  channel_partners :: "channel_partner_row list"
  partner_projects :: "partner_project_row list"
  partner_leads :: "partner_lead_row list"
  commission_structures :: "commission_structure_row list"
  commissions :: "commission_row list"

definition empty_database :: database where
  "empty_database = \<lparr>organizations = [], roles = [], refresh_tokens = [], password_reset_tokens = [],
    users = [], permissions = [], user_roles = [], role_permissions = [],
    audit_logs = [], notifications = [], projects = [], towers = [],
    floors = [], units = [], unit_holds = [], leads = [],
    customers = [], customer_documents = [], quotations = [], bookings = [],
    booking_applicants = [], booking_financing = [], booking_approvals = [], payment_plans = [],
    installments = [], demand_letters = [], payments = [], receipts = [],
    payment_allocations = [], payment_reconciliations = [], financial_charges = [], customer_ledger = [],
    refunds = [], channel_partners = [], partner_projects = [], partner_leads = [],
    commission_structures = [], commissions = []\<rparr>"

section \<open>Tables as instances of the table contract\<close>

interpretation organizations_tab: table organizations organizations_update org_id org_id
  by unfold_locales simp

interpretation roles_tab: table roles roles_update role_organization_id role_id
  by unfold_locales simp

interpretation refresh_tokens_tab: table refresh_tokens refresh_tokens_update rtok_organization_id rtok_id
  by unfold_locales simp

interpretation password_reset_tokens_tab: table password_reset_tokens password_reset_tokens_update ptok_organization_id ptok_id
  by unfold_locales simp

interpretation users_tab: table users users_update user_organization_id user_id
  by unfold_locales simp

interpretation permissions_tab: table permissions permissions_update perm_organization_id perm_id
  by unfold_locales simp

interpretation user_roles_tab: table user_roles user_roles_update urole_organization_id urole_id
  by unfold_locales simp

interpretation role_permissions_tab: table role_permissions role_permissions_update rperm_organization_id rperm_id
  by unfold_locales simp

interpretation audit_logs_tab: table audit_logs audit_logs_update audit_organization_id audit_id
  by unfold_locales simp

interpretation notifications_tab: table notifications notifications_update note_organization_id note_id
  by unfold_locales simp

interpretation projects_tab: table projects projects_update project_organization_id project_id
  by unfold_locales simp

interpretation towers_tab: table towers towers_update tower_organization_id tower_id
  by unfold_locales simp

interpretation floors_tab: table floors floors_update floor_organization_id floor_id
  by unfold_locales simp

interpretation units_tab: table units units_update unit_organization_id unit_id
  by unfold_locales simp

interpretation unit_holds_tab: table unit_holds unit_holds_update hold_organization_id hold_id
  by unfold_locales simp

interpretation leads_tab: table leads leads_update lead_organization_id lead_id
  by unfold_locales simp

interpretation customers_tab: table customers customers_update cust_organization_id cust_id
  by unfold_locales simp

interpretation customer_documents_tab: table customer_documents customer_documents_update doc_organization_id doc_id
  by unfold_locales simp

interpretation quotations_tab: table quotations quotations_update quote_organization_id quote_id
  by unfold_locales simp

interpretation bookings_tab: table bookings bookings_update booking_organization_id booking_id
  by unfold_locales simp

interpretation booking_applicants_tab: table booking_applicants booking_applicants_update appl_organization_id appl_id
  by unfold_locales simp

interpretation booking_financing_tab: table booking_financing booking_financing_update fin_organization_id fin_id
  by unfold_locales simp

interpretation booking_approvals_tab: table booking_approvals booking_approvals_update appr_organization_id appr_id
  by unfold_locales simp

interpretation payment_plans_tab: table payment_plans payment_plans_update plan_organization_id plan_id
  by unfold_locales simp

interpretation installments_tab: table installments installments_update inst_organization_id inst_id
  by unfold_locales simp

interpretation demand_letters_tab: table demand_letters demand_letters_update demand_organization_id demand_id
  by unfold_locales simp

interpretation payments_tab: table payments payments_update pay_organization_id pay_id
  by unfold_locales simp

interpretation receipts_tab: table receipts receipts_update rcpt_organization_id rcpt_id
  by unfold_locales simp

interpretation payment_allocations_tab: table payment_allocations payment_allocations_update alloc_organization_id alloc_id
  by unfold_locales simp

interpretation payment_reconciliations_tab: table payment_reconciliations payment_reconciliations_update recon_organization_id recon_id
  by unfold_locales simp

interpretation financial_charges_tab: table financial_charges financial_charges_update charge_organization_id charge_id
  by unfold_locales simp

interpretation customer_ledger_tab: table customer_ledger customer_ledger_update ledger_organization_id ledger_id
  by unfold_locales simp

interpretation refunds_tab: table refunds refunds_update refund_organization_id refund_id
  by unfold_locales simp

interpretation channel_partners_tab: table channel_partners channel_partners_update partner_organization_id partner_id
  by unfold_locales simp

interpretation partner_projects_tab: table partner_projects partner_projects_update pproj_organization_id pproj_id
  by unfold_locales simp

interpretation partner_leads_tab: table partner_leads partner_leads_update plead_organization_id plead_id
  by unfold_locales simp

interpretation commission_structures_tab: table commission_structures commission_structures_update cstr_organization_id cstr_id
  by unfold_locales simp

interpretation commissions_tab: table commissions commissions_update comm_organization_id comm_id
  by unfold_locales simp

text \<open>The two columns \<^verbatim>\<open>active_unit_key\<close> carry a unique index per organization.\<close>

interpretation hold_slot: exclusive_table unit_holds unit_holds_update hold_organization_id hold_id hold_active_unit_key
  by unfold_locales

interpretation booking_slot: exclusive_table bookings bookings_update booking_organization_id booking_id booking_active_unit_key
  by unfold_locales

section \<open>Predicates on the database\<close>

text \<open>
  \<open>keys_ok\<close>: primary keys are unique in every table. \<open>tenant_isolated org s t\<close>: going from \<open>s\<close> to
  \<open>t\<close>, no row of any other organization was added, removed or changed. \<open>fresh_env\<close>: the UUIDs a
  request draws are new and not empty, which is what \<^verbatim>\<open>uuid4()\<close> is relied on for.
\<close>

definition keys_ok :: "database \<Rightarrow> bool" where
  "keys_ok s \<longleftrightarrow>
     distinct (map org_id (organizations s)) \<and>
     distinct (map role_id (roles s)) \<and>
     distinct (map rtok_id (refresh_tokens s)) \<and>
     distinct (map ptok_id (password_reset_tokens s)) \<and>
     distinct (map user_id (users s)) \<and>
     distinct (map perm_id (permissions s)) \<and>
     distinct (map urole_id (user_roles s)) \<and>
     distinct (map rperm_id (role_permissions s)) \<and>
     distinct (map audit_id (audit_logs s)) \<and>
     distinct (map note_id (notifications s)) \<and>
     distinct (map project_id (projects s)) \<and>
     distinct (map tower_id (towers s)) \<and>
     distinct (map floor_id (floors s)) \<and>
     distinct (map unit_id (units s)) \<and>
     distinct (map hold_id (unit_holds s)) \<and>
     distinct (map lead_id (leads s)) \<and>
     distinct (map cust_id (customers s)) \<and>
     distinct (map doc_id (customer_documents s)) \<and>
     distinct (map quote_id (quotations s)) \<and>
     distinct (map booking_id (bookings s)) \<and>
     distinct (map appl_id (booking_applicants s)) \<and>
     distinct (map fin_id (booking_financing s)) \<and>
     distinct (map appr_id (booking_approvals s)) \<and>
     distinct (map plan_id (payment_plans s)) \<and>
     distinct (map inst_id (installments s)) \<and>
     distinct (map demand_id (demand_letters s)) \<and>
     distinct (map pay_id (payments s)) \<and>
     distinct (map rcpt_id (receipts s)) \<and>
     distinct (map alloc_id (payment_allocations s)) \<and>
     distinct (map recon_id (payment_reconciliations s)) \<and>
     distinct (map charge_id (financial_charges s)) \<and>
     distinct (map ledger_id (customer_ledger s)) \<and>
     distinct (map refund_id (refunds s)) \<and>
     distinct (map partner_id (channel_partners s)) \<and>
     distinct (map pproj_id (partner_projects s)) \<and>
     distinct (map plead_id (partner_leads s)) \<and>
     distinct (map cstr_id (commission_structures s)) \<and>
     distinct (map comm_id (commissions s))"

definition tenant_isolated :: "ident \<Rightarrow> database \<Rightarrow> database \<Rightarrow> bool" where
  "tenant_isolated org s t \<longleftrightarrow>
     others org_id org (organizations s) = others org_id org (organizations t) \<and>
     others role_organization_id org (roles s) = others role_organization_id org (roles t) \<and>
     others rtok_organization_id org (refresh_tokens s) = others rtok_organization_id org (refresh_tokens t) \<and>
     others ptok_organization_id org (password_reset_tokens s) = others ptok_organization_id org (password_reset_tokens t) \<and>
     others user_organization_id org (users s) = others user_organization_id org (users t) \<and>
     others perm_organization_id org (permissions s) = others perm_organization_id org (permissions t) \<and>
     others urole_organization_id org (user_roles s) = others urole_organization_id org (user_roles t) \<and>
     others rperm_organization_id org (role_permissions s) = others rperm_organization_id org (role_permissions t) \<and>
     others audit_organization_id org (audit_logs s) = others audit_organization_id org (audit_logs t) \<and>
     others note_organization_id org (notifications s) = others note_organization_id org (notifications t) \<and>
     others project_organization_id org (projects s) = others project_organization_id org (projects t) \<and>
     others tower_organization_id org (towers s) = others tower_organization_id org (towers t) \<and>
     others floor_organization_id org (floors s) = others floor_organization_id org (floors t) \<and>
     others unit_organization_id org (units s) = others unit_organization_id org (units t) \<and>
     others hold_organization_id org (unit_holds s) = others hold_organization_id org (unit_holds t) \<and>
     others lead_organization_id org (leads s) = others lead_organization_id org (leads t) \<and>
     others cust_organization_id org (customers s) = others cust_organization_id org (customers t) \<and>
     others doc_organization_id org (customer_documents s) = others doc_organization_id org (customer_documents t) \<and>
     others quote_organization_id org (quotations s) = others quote_organization_id org (quotations t) \<and>
     others booking_organization_id org (bookings s) = others booking_organization_id org (bookings t) \<and>
     others appl_organization_id org (booking_applicants s) = others appl_organization_id org (booking_applicants t) \<and>
     others fin_organization_id org (booking_financing s) = others fin_organization_id org (booking_financing t) \<and>
     others appr_organization_id org (booking_approvals s) = others appr_organization_id org (booking_approvals t) \<and>
     others plan_organization_id org (payment_plans s) = others plan_organization_id org (payment_plans t) \<and>
     others inst_organization_id org (installments s) = others inst_organization_id org (installments t) \<and>
     others demand_organization_id org (demand_letters s) = others demand_organization_id org (demand_letters t) \<and>
     others pay_organization_id org (payments s) = others pay_organization_id org (payments t) \<and>
     others rcpt_organization_id org (receipts s) = others rcpt_organization_id org (receipts t) \<and>
     others alloc_organization_id org (payment_allocations s) = others alloc_organization_id org (payment_allocations t) \<and>
     others recon_organization_id org (payment_reconciliations s) = others recon_organization_id org (payment_reconciliations t) \<and>
     others charge_organization_id org (financial_charges s) = others charge_organization_id org (financial_charges t) \<and>
     others ledger_organization_id org (customer_ledger s) = others ledger_organization_id org (customer_ledger t) \<and>
     others refund_organization_id org (refunds s) = others refund_organization_id org (refunds t) \<and>
     others partner_organization_id org (channel_partners s) = others partner_organization_id org (channel_partners t) \<and>
     others pproj_organization_id org (partner_projects s) = others pproj_organization_id org (partner_projects t) \<and>
     others plead_organization_id org (partner_leads s) = others plead_organization_id org (partner_leads t) \<and>
     others cstr_organization_id org (commission_structures s) = others cstr_organization_id org (commission_structures t) \<and>
     others comm_organization_id org (commissions s) = others comm_organization_id org (commissions t)"

definition used_ids :: "database \<Rightarrow> ident list" where
  "used_ids s =
     map org_id (organizations s) @
     map role_id (roles s) @
     map rtok_id (refresh_tokens s) @
     map ptok_id (password_reset_tokens s) @
     map user_id (users s) @
     map perm_id (permissions s) @
     map urole_id (user_roles s) @
     map rperm_id (role_permissions s) @
     map audit_id (audit_logs s) @
     map note_id (notifications s) @
     map project_id (projects s) @
     map tower_id (towers s) @
     map floor_id (floors s) @
     map unit_id (units s) @
     map hold_id (unit_holds s) @
     map lead_id (leads s) @
     map cust_id (customers s) @
     map doc_id (customer_documents s) @
     map quote_id (quotations s) @
     map booking_id (bookings s) @
     map appl_id (booking_applicants s) @
     map fin_id (booking_financing s) @
     map appr_id (booking_approvals s) @
     map plan_id (payment_plans s) @
     map inst_id (installments s) @
     map demand_id (demand_letters s) @
     map pay_id (payments s) @
     map rcpt_id (receipts s) @
     map alloc_id (payment_allocations s) @
     map recon_id (payment_reconciliations s) @
     map charge_id (financial_charges s) @
     map ledger_id (customer_ledger s) @
     map refund_id (refunds s) @
     map partner_id (channel_partners s) @
     map pproj_id (partner_projects s) @
     map plead_id (partner_leads s) @
     map cstr_id (commission_structures s) @
     map comm_id (commissions s)"

definition fresh_env :: "env \<Rightarrow> database \<Rightarrow> bool" where
  "fresh_env e s \<longleftrightarrow> inj (uuid e) \<and> (\<forall>n. uuid e n \<noteq> []) \<and> (\<forall>n. uuid e n \<notin> set (used_ids s))"

lemma keys_okD:
  assumes "keys_ok s"
  shows "distinct (map org_id (organizations s))"
    and "distinct (map role_id (roles s))"
    and "distinct (map rtok_id (refresh_tokens s))"
    and "distinct (map ptok_id (password_reset_tokens s))"
    and "distinct (map user_id (users s))"
    and "distinct (map perm_id (permissions s))"
    and "distinct (map urole_id (user_roles s))"
    and "distinct (map rperm_id (role_permissions s))"
    and "distinct (map audit_id (audit_logs s))"
    and "distinct (map note_id (notifications s))"
    and "distinct (map project_id (projects s))"
    and "distinct (map tower_id (towers s))"
    and "distinct (map floor_id (floors s))"
    and "distinct (map unit_id (units s))"
    and "distinct (map hold_id (unit_holds s))"
    and "distinct (map lead_id (leads s))"
    and "distinct (map cust_id (customers s))"
    and "distinct (map doc_id (customer_documents s))"
    and "distinct (map quote_id (quotations s))"
    and "distinct (map booking_id (bookings s))"
    and "distinct (map appl_id (booking_applicants s))"
    and "distinct (map fin_id (booking_financing s))"
    and "distinct (map appr_id (booking_approvals s))"
    and "distinct (map plan_id (payment_plans s))"
    and "distinct (map inst_id (installments s))"
    and "distinct (map demand_id (demand_letters s))"
    and "distinct (map pay_id (payments s))"
    and "distinct (map rcpt_id (receipts s))"
    and "distinct (map alloc_id (payment_allocations s))"
    and "distinct (map recon_id (payment_reconciliations s))"
    and "distinct (map charge_id (financial_charges s))"
    and "distinct (map ledger_id (customer_ledger s))"
    and "distinct (map refund_id (refunds s))"
    and "distinct (map partner_id (channel_partners s))"
    and "distinct (map pproj_id (partner_projects s))"
    and "distinct (map plead_id (partner_leads s))"
    and "distinct (map cstr_id (commission_structures s))"
    and "distinct (map comm_id (commissions s))"
  using assms by (simp_all add: keys_ok_def)

lemma fresh_envD:
  assumes "fresh_env e s"
  shows "id_free org_id (uuid e n) (organizations s)"
    and "id_free role_id (uuid e n) (roles s)"
    and "id_free rtok_id (uuid e n) (refresh_tokens s)"
    and "id_free ptok_id (uuid e n) (password_reset_tokens s)"
    and "id_free user_id (uuid e n) (users s)"
    and "id_free perm_id (uuid e n) (permissions s)"
    and "id_free urole_id (uuid e n) (user_roles s)"
    and "id_free rperm_id (uuid e n) (role_permissions s)"
    and "id_free audit_id (uuid e n) (audit_logs s)"
    and "id_free note_id (uuid e n) (notifications s)"
    and "id_free project_id (uuid e n) (projects s)"
    and "id_free tower_id (uuid e n) (towers s)"
    and "id_free floor_id (uuid e n) (floors s)"
    and "id_free unit_id (uuid e n) (units s)"
    and "id_free hold_id (uuid e n) (unit_holds s)"
    and "id_free lead_id (uuid e n) (leads s)"
    and "id_free cust_id (uuid e n) (customers s)"
    and "id_free doc_id (uuid e n) (customer_documents s)"
    and "id_free quote_id (uuid e n) (quotations s)"
    and "id_free booking_id (uuid e n) (bookings s)"
    and "id_free appl_id (uuid e n) (booking_applicants s)"
    and "id_free fin_id (uuid e n) (booking_financing s)"
    and "id_free appr_id (uuid e n) (booking_approvals s)"
    and "id_free plan_id (uuid e n) (payment_plans s)"
    and "id_free inst_id (uuid e n) (installments s)"
    and "id_free demand_id (uuid e n) (demand_letters s)"
    and "id_free pay_id (uuid e n) (payments s)"
    and "id_free rcpt_id (uuid e n) (receipts s)"
    and "id_free alloc_id (uuid e n) (payment_allocations s)"
    and "id_free recon_id (uuid e n) (payment_reconciliations s)"
    and "id_free charge_id (uuid e n) (financial_charges s)"
    and "id_free ledger_id (uuid e n) (customer_ledger s)"
    and "id_free refund_id (uuid e n) (refunds s)"
    and "id_free partner_id (uuid e n) (channel_partners s)"
    and "id_free pproj_id (uuid e n) (partner_projects s)"
    and "id_free plead_id (uuid e n) (partner_leads s)"
    and "id_free cstr_id (uuid e n) (commission_structures s)"
    and "id_free comm_id (uuid e n) (commissions s)"
proof -
  have "list_all (\<lambda>i. i \<noteq> uuid e n) (used_ids s)"
    using assms unfolding fresh_env_def list_all_iff by blast
  note this [unfolded used_ids_def list_all_append list.pred_map comp_def, folded id_free_def]
  then show "id_free org_id (uuid e n) (organizations s)"
    and "id_free role_id (uuid e n) (roles s)"
    and "id_free rtok_id (uuid e n) (refresh_tokens s)"
    and "id_free ptok_id (uuid e n) (password_reset_tokens s)"
    and "id_free user_id (uuid e n) (users s)"
    and "id_free perm_id (uuid e n) (permissions s)"
    and "id_free urole_id (uuid e n) (user_roles s)"
    and "id_free rperm_id (uuid e n) (role_permissions s)"
    and "id_free audit_id (uuid e n) (audit_logs s)"
    and "id_free note_id (uuid e n) (notifications s)"
    and "id_free project_id (uuid e n) (projects s)"
    and "id_free tower_id (uuid e n) (towers s)"
    and "id_free floor_id (uuid e n) (floors s)"
    and "id_free unit_id (uuid e n) (units s)"
    and "id_free hold_id (uuid e n) (unit_holds s)"
    and "id_free lead_id (uuid e n) (leads s)"
    and "id_free cust_id (uuid e n) (customers s)"
    and "id_free doc_id (uuid e n) (customer_documents s)"
    and "id_free quote_id (uuid e n) (quotations s)"
    and "id_free booking_id (uuid e n) (bookings s)"
    and "id_free appl_id (uuid e n) (booking_applicants s)"
    and "id_free fin_id (uuid e n) (booking_financing s)"
    and "id_free appr_id (uuid e n) (booking_approvals s)"
    and "id_free plan_id (uuid e n) (payment_plans s)"
    and "id_free inst_id (uuid e n) (installments s)"
    and "id_free demand_id (uuid e n) (demand_letters s)"
    and "id_free pay_id (uuid e n) (payments s)"
    and "id_free rcpt_id (uuid e n) (receipts s)"
    and "id_free alloc_id (uuid e n) (payment_allocations s)"
    and "id_free recon_id (uuid e n) (payment_reconciliations s)"
    and "id_free charge_id (uuid e n) (financial_charges s)"
    and "id_free ledger_id (uuid e n) (customer_ledger s)"
    and "id_free refund_id (uuid e n) (refunds s)"
    and "id_free partner_id (uuid e n) (channel_partners s)"
    and "id_free pproj_id (uuid e n) (partner_projects s)"
    and "id_free plead_id (uuid e n) (partner_leads s)"
    and "id_free cstr_id (uuid e n) (commission_structures s)"
    and "id_free comm_id (uuid e n) (commissions s)"
    by simp_all
qed

lemma fresh_env_uuid [simp]: "fresh_env e s \<Longrightarrow> uuid e m = uuid e n \<longleftrightarrow> m = n"
  by (auto simp: fresh_env_def inj_def)

lemma fresh_env_given [simp]: "fresh_env e s \<Longrightarrow> uuid e n \<noteq> []"
  by (simp add: fresh_env_def)

lemma tenant_isolated_refl [simp, intro]: "tenant_isolated org s s"
  by (simp add: tenant_isolated_def)

lemma tenant_isolated_trans: "tenant_isolated org s t \<Longrightarrow> tenant_isolated org t u \<Longrightarrow> tenant_isolated org s u"
  by (simp add: tenant_isolated_def)

section \<open>Look-ups\<close>

text \<open>The query of the \<^verbatim>\<open>_entity\<close> helpers, for each table that is looked up by key.\<close>

abbreviation find_role :: "database \<Rightarrow> ident \<Rightarrow> ident \<Rightarrow> role_row option" where
  "find_role s \<equiv> entity role_organization_id role_id (roles s)"

abbreviation find_user :: "database \<Rightarrow> ident \<Rightarrow> ident \<Rightarrow> user_row option" where
  "find_user s \<equiv> entity user_organization_id user_id (users s)"

abbreviation find_project :: "database \<Rightarrow> ident \<Rightarrow> ident \<Rightarrow> project_row option" where
  "find_project s \<equiv> entity project_organization_id project_id (projects s)"

abbreviation find_tower :: "database \<Rightarrow> ident \<Rightarrow> ident \<Rightarrow> tower_row option" where
  "find_tower s \<equiv> entity tower_organization_id tower_id (towers s)"

abbreviation find_floor :: "database \<Rightarrow> ident \<Rightarrow> ident \<Rightarrow> floor_row option" where
  "find_floor s \<equiv> entity floor_organization_id floor_id (floors s)"

abbreviation find_unit :: "database \<Rightarrow> ident \<Rightarrow> ident \<Rightarrow> unit_row option" where
  "find_unit s \<equiv> entity unit_organization_id unit_id (units s)"

abbreviation find_hold :: "database \<Rightarrow> ident \<Rightarrow> ident \<Rightarrow> unit_hold_row option" where
  "find_hold s \<equiv> entity hold_organization_id hold_id (unit_holds s)"

abbreviation find_lead :: "database \<Rightarrow> ident \<Rightarrow> ident \<Rightarrow> lead_row option" where
  "find_lead s \<equiv> entity lead_organization_id lead_id (leads s)"

abbreviation find_customer :: "database \<Rightarrow> ident \<Rightarrow> ident \<Rightarrow> customer_row option" where
  "find_customer s \<equiv> entity cust_organization_id cust_id (customers s)"

abbreviation find_document :: "database \<Rightarrow> ident \<Rightarrow> ident \<Rightarrow> customer_document_row option" where
  "find_document s \<equiv> entity doc_organization_id doc_id (customer_documents s)"

abbreviation find_quotation :: "database \<Rightarrow> ident \<Rightarrow> ident \<Rightarrow> quotation_row option" where
  "find_quotation s \<equiv> entity quote_organization_id quote_id (quotations s)"

abbreviation find_booking :: "database \<Rightarrow> ident \<Rightarrow> ident \<Rightarrow> booking_row option" where
  "find_booking s \<equiv> entity booking_organization_id booking_id (bookings s)"

abbreviation find_approval :: "database \<Rightarrow> ident \<Rightarrow> ident \<Rightarrow> booking_approval_row option" where
  "find_approval s \<equiv> entity appr_organization_id appr_id (booking_approvals s)"

abbreviation find_plan :: "database \<Rightarrow> ident \<Rightarrow> ident \<Rightarrow> payment_plan_row option" where
  "find_plan s \<equiv> entity plan_organization_id plan_id (payment_plans s)"

abbreviation find_installment :: "database \<Rightarrow> ident \<Rightarrow> ident \<Rightarrow> installment_row option" where
  "find_installment s \<equiv> entity inst_organization_id inst_id (installments s)"

abbreviation find_payment :: "database \<Rightarrow> ident \<Rightarrow> ident \<Rightarrow> payment_row option" where
  "find_payment s \<equiv> entity pay_organization_id pay_id (payments s)"

abbreviation find_charge :: "database \<Rightarrow> ident \<Rightarrow> ident \<Rightarrow> financial_charge_row option" where
  "find_charge s \<equiv> entity charge_organization_id charge_id (financial_charges s)"

abbreviation find_refund :: "database \<Rightarrow> ident \<Rightarrow> ident \<Rightarrow> refund_row option" where
  "find_refund s \<equiv> entity refund_organization_id refund_id (refunds s)"

abbreviation find_partner :: "database \<Rightarrow> ident \<Rightarrow> ident \<Rightarrow> channel_partner_row option" where
  "find_partner s \<equiv> entity partner_organization_id partner_id (channel_partners s)"

end
