(* ===== verification/Audit_Notify.thy ===== *)
theory Audit_Notify
  imports Tables "HOL-Library.Char_ord" "HOL-Library.List_Lexorder"
begin

text \<open>
  The services every other service calls: the audit log (the \<^verbatim>\<open>_audit\<close> helpers and
  \<^verbatim>\<open>MutationContext\<close>), in-app notifications (\<^verbatim>\<open>services/notifications.py\<close>) and the join that finds
  the permission codes of a user. A handler adds rows to these tables and never reads them back,
  so the lemmas here say what is left alone: every other table, and the rows already present.
\<close>

section \<open>Audit log\<close>

record mutation_context =
  actor_user_id :: ident
  permissions_held :: "string list"
  request_id :: "string option"
  ip_address :: "string option"
  user_agent :: "string option"
  device_metadata :: "(string \<times> string) list option"

text \<open>The \<^verbatim>\<open>_audit\<close> helper, the same in every service; the first identifier is the row's own key.\<close>

definition audit_entry ::
  "env \<Rightarrow> ident \<Rightarrow> ident \<Rightarrow> mutation_context \<Rightarrow> string \<Rightarrow> string \<Rightarrow> ident \<Rightarrow>
   snapshot option \<Rightarrow> snapshot option \<Rightarrow> audit_row" where
  "audit_entry e i org ctx action entity_type entity_id previous_value new_value =
     \<lparr>audit_id = i, audit_organization_id = org, audit_actor_user_id = Some (actor_user_id ctx),
      audit_action = action, audit_entity_type = entity_type, audit_entity_id = entity_id,
      audit_previous_value = previous_value, audit_new_value = new_value,
      audit_request_id = request_id ctx, audit_ip_address = ip_address ctx,
      audit_user_agent = user_agent ctx, audit_device_metadata = device_metadata ctx,
      audit_created_at = now e\<rparr>"

definition system_audit ::
  "env \<Rightarrow> ident \<Rightarrow> ident \<Rightarrow> string \<Rightarrow> string \<Rightarrow> ident \<Rightarrow> snapshot option \<Rightarrow> snapshot option \<Rightarrow> audit_row" where
  "system_audit e i org action entity_type entity_id previous_value new_value =
     \<lparr>audit_id = i, audit_organization_id = org, audit_actor_user_id = None,
      audit_action = action, audit_entity_type = entity_type, audit_entity_id = entity_id,
      audit_previous_value = previous_value, audit_new_value = new_value,
      audit_request_id = None, audit_ip_address = None, audit_user_agent = None,
      audit_device_metadata = None, audit_created_at = now e\<rparr>"

definition add_audits :: "audit_row list \<Rightarrow> database \<Rightarrow> database" where
  "add_audits new s = s\<lparr>audit_logs := audit_logs s @ new\<rparr>"

lemma audit_entry_org [simp]: "audit_organization_id (audit_entry e i org ctx a t k p n) = org"
  and audit_entry_id [simp]: "audit_id (audit_entry e i org ctx a t k p n) = i"
  and audit_entry_action [simp]: "audit_action (audit_entry e i org ctx a t k p n) = a"
  and audit_entry_entity [simp]: "audit_entity_id (audit_entry e i org ctx a t k p n) = k"
  and audit_entry_actor [simp]: "audit_actor_user_id (audit_entry e i org ctx a t k p n) = Some (actor_user_id ctx)"
  and audit_entry_new [simp]: "audit_new_value (audit_entry e i org ctx a t k p n) = n"
  by (simp_all add: audit_entry_def)

lemma system_audit_org [simp]: "audit_organization_id (system_audit e i org a t k p n) = org"
  and system_audit_id [simp]: "audit_id (system_audit e i org a t k p n) = i"
  and system_audit_action [simp]: "audit_action (system_audit e i org a t k p n) = a"
  and system_audit_entity [simp]: "audit_entity_id (system_audit e i org a t k p n) = k"
  by (simp_all add: system_audit_def)

text \<open>
  What an audited request leaves behind: the old log is a prefix of the new one, and the added
  entries belong to the request's organization.
\<close>

definition audit_extends :: "ident \<Rightarrow> database \<Rightarrow> database \<Rightarrow> bool" where
  "audit_extends org s t \<longleftrightarrow>
     (\<exists>new. audit_logs t = audit_logs s @ new \<and> list_all (\<lambda>a. audit_organization_id a = org) new)"

lemma audit_extends_refl [simp, intro]: "audit_extends org s s"
  by (simp add: audit_extends_def)

lemma audit_extends_trans: "audit_extends org s t \<Longrightarrow> audit_extends org t u \<Longrightarrow> audit_extends org s u"
  by (force simp: audit_extends_def)

section \<open>Permission codes of a user\<close>

text \<open>
  The join of \<^verbatim>\<open>UserRole\<close>, \<^verbatim>\<open>RolePermission\<close> and \<^verbatim>\<open>Permission\<close> on organization and key, as
  \<^verbatim>\<open>recipients_for_permission\<close>, \<^verbatim>\<open>_eligible_approver\<close> and \<^verbatim>\<open>permission_codes\<close> write it.
\<close>

definition role_codes :: "database \<Rightarrow> ident \<Rightarrow> ident \<Rightarrow> string list" where
  "role_codes s org role =
     [perm_code p. rp \<leftarrow> role_permissions s, rperm_organization_id rp = org, rperm_role_id rp = role,
        p \<leftarrow> permissions s, perm_organization_id p = org, perm_id p = rperm_permission_id rp]"

definition user_codes :: "database \<Rightarrow> ident \<Rightarrow> ident \<Rightarrow> string list" where
  "user_codes s org user =
     [c. ur \<leftarrow> user_roles s, urole_organization_id ur = org, urole_user_id ur = user,
        c \<leftarrow> role_codes s org (urole_role_id ur)]"

lemma set_role_codes:
  "c \<in> set (role_codes s org role) \<longleftrightarrow>
     (\<exists>rp \<in> set (role_permissions s). \<exists>p \<in> set (permissions s).
        rperm_organization_id rp = org \<and> rperm_role_id rp = role \<and>
        perm_organization_id p = org \<and> perm_id p = rperm_permission_id rp \<and> perm_code p = c)"
  by (auto simp: role_codes_def)

lemma set_user_codes:
  "c \<in> set (user_codes s org user) \<longleftrightarrow>
     (\<exists>ur \<in> set (user_roles s). urole_organization_id ur = org \<and> urole_user_id ur = user \<and>
        c \<in> set (role_codes s org (urole_role_id ur)))"
  by (auto simp: user_codes_def)

text \<open>\<^verbatim>\<open>permission.partition(".")[0]\<close>\<close>

definition module_of :: "string \<Rightarrow> string" where
  "module_of code = takeWhile (\<lambda>c. c \<noteq> CHR ''.'') code"

definition recipients_for_permission :: "database \<Rightarrow> ident \<Rightarrow> string \<Rightarrow> ident list" where
  "recipients_for_permission s org permission =
     (let accepted = [permission, module_of permission @ ''.manage'']
      in remdups (map user_id (filter (\<lambda>u. user_organization_id u = org \<and> user_is_active u \<and>
           list_ex (\<lambda>c. c \<in> set accepted) (user_codes s org (user_id u))) (users s))))"

definition recipients_for_roles :: "database \<Rightarrow> ident \<Rightarrow> ident list \<Rightarrow> ident list" where
  "recipients_for_roles s org role_ids =
     (if role_ids = [] then []
      else remdups (map user_id (filter (\<lambda>u. user_organization_id u = org \<and> user_is_active u \<and>
           list_ex (\<lambda>ur. urole_organization_id ur = org \<and> urole_user_id ur = user_id u \<and>
             urole_role_id ur \<in> set role_ids) (user_roles s)) (users s))))"

section \<open>In-app notifications\<close>

text \<open>The texts of one notification; \<open>body\<close> is kept as the parts of its f-string.\<close>

record message =
  msg_event :: notification_event_type
  msg_title :: string
  msg_body :: formatted
  msg_entity_type :: string
  msg_entity_id :: ident
  msg_action_url :: string
  msg_data :: "snapshot option"

text \<open>
  \<^verbatim>\<open>queue_in_app\<close>: one delivered notification per distinct, non-empty recipient, in sorted order.
  The action URL of every caller starts with a slash. The keys are drawn from the uuid stream at
  position \<open>k\<close>.
\<close>

definition in_app_row ::
  "env \<Rightarrow> ident \<Rightarrow> ident \<Rightarrow> message \<Rightarrow> string option \<Rightarrow> timestamp option \<Rightarrow> ident \<Rightarrow> notification_row" where
  "in_app_row e i org m dedup scheduled recipient =
     \<lparr>note_id = i, note_organization_id = org, note_recipient_user_id = Some recipient,
      note_customer_id = None, note_tenant_id = None, note_channel = Channel_IN_APP,
      note_status = Notification_DELIVERED, note_title = take 200 (msg_title m), note_body = msg_body m,
      note_event_type = Some (notification_event_type_value (msg_event m)),
      note_action_url = Some (take 500 (msg_action_url m)), note_data = msg_data m,
      note_deduplication_key = dedup, note_scheduled_for = scheduled,
      note_related_entity_type = Some (msg_entity_type m), note_related_entity_id = Some (msg_entity_id m),
      note_sent_at = Some (now e), note_read_at = None, note_failure_reason = None,
      note_created_at = now e\<rparr>"

definition in_app_rows ::
  "env \<Rightarrow> nat \<Rightarrow> ident \<Rightarrow> ident list \<Rightarrow> message \<Rightarrow> string option \<Rightarrow> timestamp option \<Rightarrow> notification_row list" where
  "in_app_rows e k org recipients m dedup scheduled =
     map (\<lambda>(i, r). in_app_row e (uuid e (k + i)) org m dedup scheduled r)
       (enumerate 0 (filter (\<lambda>r. r \<noteq> []) (sort (remdups recipients))))"

definition queue_in_app ::
  "env \<Rightarrow> nat \<Rightarrow> ident \<Rightarrow> ident list \<Rightarrow> message \<Rightarrow> string option \<Rightarrow> timestamp option \<Rightarrow> database \<Rightarrow> database" where
  "queue_in_app e k org recipients m dedup scheduled s =
     s\<lparr>notifications := notifications s @ in_app_rows e k org recipients m dedup scheduled\<rparr>"

lemma map_enumerate_snd: "map (\<lambda>x. g (snd x)) (enumerate k xs) = map g xs"
  by (induction xs arbitrary: k) auto

lemma map_enumerate_fst: "map (\<lambda>x. g (fst x)) (enumerate k xs) = map g [k..<k + length xs]"
  by (induction xs arbitrary: k) (auto simp: upt_conv_Cons simp del: upt_Suc)

lemma in_enumerateD: "(i, x) \<in> set (enumerate k xs) \<Longrightarrow> x \<in> set xs"
  by (auto simp: enumerate_eq_zip dest: set_zip_rightD)

lemma in_app_row_sel [simp]:
  "note_id (in_app_row e i org m d sch r) = i"
  "note_organization_id (in_app_row e i org m d sch r) = org"
  "note_recipient_user_id (in_app_row e i org m d sch r) = Some r"
  "note_channel (in_app_row e i org m d sch r) = Channel_IN_APP"
  "note_read_at (in_app_row e i org m d sch r) = None"
  "note_deduplication_key (in_app_row e i org m d sch r) = d"
  by (simp_all add: in_app_row_def)

lemma in_app_rows_org [simp]:
  "list_all (\<lambda>n. note_organization_id n = org) (in_app_rows e k org rs m d sch)"
  by (auto simp: in_app_rows_def list_all_iff)

lemma in_app_rows_recipients:
  "map note_recipient_user_id (in_app_rows e k org rs m d sch) =
     map Some (filter (\<lambda>r. r \<noteq> []) (sort (remdups rs)))"
  by (simp add: in_app_rows_def comp_def case_prod_beta map_enumerate_snd)

lemma in_app_rows_ids:
  "map note_id (in_app_rows e k org rs m d sch) =
     map (\<lambda>i. uuid e (k + i)) [0..<length (filter (\<lambda>r. r \<noteq> []) (sort (remdups rs)))]"
  by (simp add: in_app_rows_def comp_def case_prod_beta map_enumerate_fst [where g = "\<lambda>i. uuid e (k + i)"])

lemma in_app_rows_unread:
  "n \<in> set (in_app_rows e k org rs m d sch) \<Longrightarrow> note_read_at n = None \<and> note_channel n = Channel_IN_APP"
  by (auto simp: in_app_rows_def)

end
