(* ===== verification/Inventory.thy ===== *)
theory Inventory
  imports Audit_Notify
begin

text \<open>
  Units, unit holds and the booking lock (\<^verbatim>\<open>services/inventory.py\<close>, \<^verbatim>\<open>workers/unit_hold_expiry.py\<close>):
  hold creation, approval, release and expiry, the initiation and cancellation of a booking, the
  status transitions of a unit, and the views they answer with. Every handler takes the database
  and returns the committed database with its answer or error.
\<close>

section \<open>Errors, payloads and views\<close>

definition not_found :: app_error where
  "not_found = App_Error 404 ''RESOURCE_NOT_FOUND''"

text \<open>
  \<^verbatim>\<open>UnitHoldCreate.expires_at\<close> is used after \<^verbatim>\<open>.replace(tzinfo=None)\<close>: \<open>hc_expires_at\<close> is the wall-clock
  reading of the given timestamp, whatever its offset.
\<close>

record hold_create =
  hc_hold_type :: hold_type
  hc_expires_at :: timestamp
  hc_hold_reason :: string
  hc_customer_id :: ident
  hc_lead_id :: "ident option"
  hc_salesperson_user_id :: "ident option"

datatype decision = Decision_APPROVED | Decision_REJECTED

record hold_decision =
  hd_status :: decision
  hd_notes :: string

record booking_initiate =
  bi_customer_id :: ident
  bi_lead_id :: "ident option"
  bi_quotation_id :: "ident option"
  bi_booking_number :: string
  bi_booking_amount :: decimal
  bi_currency :: string

record hold_view =
  hv_id :: ident
  hv_unit_id :: ident
  hv_unit_number :: string
  hv_project_id :: ident
  hv_project_name :: string
  hv_hold_type :: "hold_type option"
  hv_hold_reason :: "string option"
  hv_customer_id :: "ident option"
  hv_customer_name :: "string option"
  hv_lead_id :: "ident option"
  hv_held_by_user_id :: ident
  hv_salesperson_name :: string
  hv_approved_by_user_id :: "ident option"
  hv_approver_name :: "string option"
  hv_status :: hold_status
  hv_starts_at :: timestamp
  hv_expires_at :: timestamp
  hv_released_at :: "timestamp option"
  hv_approved_at :: "timestamp option"
  hv_rejected_at :: "timestamp option"
  hv_approval_notes :: "string option"
  hv_release_reason :: "string option"
  hv_created_at :: timestamp

record unit_view =
  uv_id :: ident
  uv_project_id :: ident
  uv_project_name :: string
  uv_tower_id :: "ident option"
  uv_tower_name :: "string option"
  uv_floor_id :: "ident option"
  uv_floor_name :: "string option"
  uv_floor_number :: "int option"
  uv_unit_number :: string
  uv_unit_type :: "string option"
  uv_area_sqft :: "decimal option"
  uv_carpet_area_sqft :: "decimal option"
  uv_built_up_area_sqft :: "decimal option"
  uv_facing :: "string option"
  uv_bedrooms :: "int option"
  uv_bathrooms :: "int option"
  uv_balconies :: "int option"
  uv_status :: unit_status
  uv_base_price :: "decimal option"
  uv_currency :: "string option"
  uv_amenities :: "string list option"
  uv_price_components :: "json option"
  uv_configuration :: "json option"
  uv_active_hold_id :: "ident option"
  uv_created_at :: timestamp

record inventory_booking_view =
  ibv_id :: ident
  ibv_unit_id :: ident
  ibv_unit_number :: string
  ibv_customer_id :: ident
  ibv_lead_id :: "ident option"
  ibv_quotation_id :: "ident option"
  ibv_booked_by_user_id :: ident
  ibv_booking_number :: string
  ibv_booking_amount :: decimal
  ibv_currency :: string
  ibv_status :: booking_status
  ibv_booked_at :: "timestamp option"
  ibv_created_at :: timestamp

section \<open>Snapshots and writes\<close>

definition unit_snapshot :: "unit_row \<Rightarrow> snapshot" where
  "unit_snapshot u =
     [(''project_id'', JStr (unit_project_id u)),
      (''tower_id'', jopt JStr (unit_tower_id u)),
      (''floor_id'', jopt JStr (unit_floor_id u)),
      (''unit_number'', JStr (unit_unit_number u)),
      (''unit_type'', jopt JStr (unit_unit_type u)),
      (''area_sqft'', jopt JDec (unit_area_sqft u)),
      (''base_price'', jopt JDec (unit_base_price u)),
      (''currency'', jopt JStr (unit_currency u)),
      (''status'', JStr (unit_status_value (unit_status u)))]"

definition put_unit :: "unit_row \<Rightarrow> database \<Rightarrow> database" where
  "put_unit u s = s\<lparr>units := put_row unit_id u (units s)\<rparr>"

definition put_hold :: "unit_hold_row \<Rightarrow> database \<Rightarrow> database" where
  "put_hold h s = s\<lparr>unit_holds := put_row hold_id h (unit_holds s)\<rparr>"

definition put_booking :: "booking_row \<Rightarrow> database \<Rightarrow> database" where
  "put_booking b s = s\<lparr>bookings := put_row booking_id b (bookings s)\<rparr>"

definition add_hold :: "unit_hold_row \<Rightarrow> database \<Rightarrow> database" where
  "add_hold h s = s\<lparr>unit_holds := unit_holds s @ [h]\<rparr>"

definition add_booking :: "booking_row \<Rightarrow> database \<Rightarrow> database" where
  "add_booking b s = s\<lparr>bookings := bookings s @ [b]\<rparr>"

section \<open>Hold expiry\<close>

text \<open>\<^verbatim>\<open>RESERVING_HOLD_STATUSES\<close>\<close>

primrec reserving :: "hold_status \<Rightarrow> bool" where
  "reserving Hold_PENDING_APPROVAL = True"
| "reserving Hold_ACTIVE = True"
| "reserving Hold_REJECTED = False"
| "reserving Hold_RELEASED = False"
| "reserving Hold_EXPIRED = False"
| "reserving Hold_CONVERTED = False"

primrec held_status :: "unit_status \<Rightarrow> bool" where
  "held_status Unit_AVAILABLE = False"
| "held_status Unit_SOFT_HOLD = True"
| "held_status Unit_HARD_HOLD = True"
| "held_status Unit_BOOKING_INITIATED = False"
| "held_status Unit_BOOKED = False"
| "held_status Unit_SOLD = False"
| "held_status Unit_CANCELLED_RELEASED = False"

definition expired_hold :: "env \<Rightarrow> unit_hold_row \<Rightarrow> unit_hold_row" where
  "expired_hold e h = h\<lparr>hold_status := Hold_EXPIRED, hold_active_unit_key := None,
     hold_released_at := Some (now e), hold_release_reason := Some ''Expired automatically''\<rparr>"

definition released_unit :: "unit_row \<Rightarrow> unit_row" where
  "released_unit u = (if held_status (unit_status u) then u\<lparr>unit_status := Unit_AVAILABLE\<rparr> else u)"

text \<open>
  \<^verbatim>\<open>_mark_hold_expired\<close>: \<open>k\<close> is the position in the uuid stream, the context is absent when the
  background worker or a read expires the hold.
\<close>

definition mark_hold_expired ::
  "env \<Rightarrow> nat \<Rightarrow> mutation_context option \<Rightarrow> unit_row \<Rightarrow> unit_hold_row \<Rightarrow> database \<Rightarrow> database" where
  "mark_hold_expired e k ctx u h s =
     (let previous = [(''status'', JStr (hold_status_value (hold_status h))),
                      (''unit_status'', JStr (unit_status_value (unit_status u))),
                      (''expires_at'', JTime (hold_expires_at h))];
          h' = expired_hold e h;
          u' = released_unit u;
          new_value = [(''status'', JStr (hold_status_value Hold_EXPIRED)),
                       (''unit_status'', JStr (unit_status_value (unit_status u')))];
          org = unit_organization_id u;
          audit = (case ctx of
              Some c \<Rightarrow> audit_entry e (uuid e k) org c ''unit.hold.expired'' ''unit_hold'' (hold_id h)
                (Some previous) (Some new_value)
            | None \<Rightarrow> system_audit e (uuid e k) org ''unit.hold.expired'' ''unit_hold'' (hold_id h)
                (Some previous) (Some new_value));
          m = \<lparr>msg_event = Event_UNIT_HOLD_EXPIRED, msg_title = ''Unit hold expired'',
               msg_body = [JStr ''The unit has been released back to available inventory.''],
               msg_entity_type = ''unit_hold'', msg_entity_id = hold_id h,
               msg_action_url = ''/inventory/holds'',
               msg_data = Some [(''unit_id'', JStr (unit_id u)), (''expired_at'', JTime (now e))]\<rparr>
      in queue_in_app e (k + 1) org [hold_held_by_user_id h] m None None
           (add_audits [audit] (put_unit u' (put_hold h' s))))"

text \<open>
  \<^verbatim>\<open>_expire_hold\<close>: the unit's reserving hold, after expiring it when it is due. Answers the flushed
  database, the unit object and the hold that still reserves it.
\<close>

definition expire_hold ::
  "env \<Rightarrow> nat \<Rightarrow> mutation_context option \<Rightarrow> unit_row \<Rightarrow> database \<Rightarrow> database \<times> unit_row \<times> unit_hold_row option" where
  "expire_hold e k ctx u s =
     (case first_row (filter (\<lambda>h. hold_organization_id h = unit_organization_id u \<and>
             hold_unit_id h = unit_id u \<and> reserving (hold_status h)) (unit_holds s)) of
        None \<Rightarrow> (s, u, None)
      | Some h \<Rightarrow>
          if hold_expires_at h \<le> now e then (mark_hold_expired e k ctx u h s, released_unit u, None)
          else (s, u, Some h))"

text \<open>
  The loop of \<^verbatim>\<open>expire_due_holds\<close> over the candidate keys: each candidate is read again with its unit
  locked, and skipped when it is no longer due. Every hold draws two uuids.
\<close>

definition hold_due :: "env \<Rightarrow> unit_hold_row \<Rightarrow> bool" where
  "hold_due e h \<longleftrightarrow> reserving (hold_status h) \<and> hold_expires_at h \<le> now e"

fun expire_candidates ::
  "env \<Rightarrow> nat \<Rightarrow> mutation_context option \<Rightarrow> ident list \<Rightarrow> database \<Rightarrow> nat \<Rightarrow> app_error + database \<times> nat" where
  "expire_candidates e k ctx [] s n = Inr (s, n)"
| "expire_candidates e k ctx (i # is) s n =
     (case find (\<lambda>h. hold_id h = i) (unit_holds s) of
        None \<Rightarrow> expire_candidates e k ctx is s n
      | Some c \<Rightarrow>
          (case find_unit s (hold_organization_id c) (hold_unit_id c) of
             None \<Rightarrow> Inl not_found
           | Some u \<Rightarrow>
               (case find (\<lambda>h. hold_organization_id h = hold_organization_id c \<and> hold_id h = i \<and> hold_due e h)
                       (unit_holds s) of
                  None \<Rightarrow> expire_candidates e k ctx is s n
                | Some h \<Rightarrow> expire_candidates e (k + 2) ctx is (mark_hold_expired e k ctx u h s) (n + 1))))"

definition due_candidates :: "env \<Rightarrow> ident option \<Rightarrow> nat \<Rightarrow> database \<Rightarrow> ident list" where
  "due_candidates e org limit s =
     take limit (map hold_id (sort_key hold_expires_at
       (filter (\<lambda>h. hold_due e h \<and> (case given org of None \<Rightarrow> True | Some oid \<Rightarrow> hold_organization_id h = oid))
         (unit_holds s))))"

definition expire_due_holds ::
  "env \<Rightarrow> nat \<Rightarrow> ident option \<Rightarrow> nat \<Rightarrow> mutation_context option \<Rightarrow> database \<Rightarrow> (database, nat) outcome" where
  "expire_due_holds e k org limit ctx s =
     (case expire_candidates e k ctx (due_candidates e org limit s) s 0 of
        Inl err \<Rightarrow> Raise s err
      | Inr (s', expired) \<Rightarrow> Return (if 0 < expired then s' else s) expired)"

text \<open>
  The worker's \<^verbatim>\<open>run_once\<close>: batches of 200, each in its own session and with its own clock, until one
  is not full. The fuel bounds the number of batches; \<open>None\<close> is running out of it.
\<close>

fun run_once :: "nat \<Rightarrow> (nat \<Rightarrow> env) \<Rightarrow> nat \<Rightarrow> database \<Rightarrow> (database, nat) outcome option" where
  "run_once 0 envs acc s = None"
| "run_once (Suc fuel) envs acc s =
     (case expire_due_holds (envs fuel) 0 None 200 None s of
        Raise s' err \<Rightarrow> Some (Raise s' err)
      | Return s' expired \<Rightarrow>
          if expired < 200 then Some (Return s' (acc + expired))
          else run_once fuel envs (acc + expired) s')"

section \<open>Views\<close>

definition hold_view :: "database \<Rightarrow> ident \<Rightarrow> unit_hold_row \<Rightarrow> app_error + hold_view" where
  "hold_view s org h =
     need (find_unit s org (hold_unit_id h)) not_found (\<lambda>u.
     need (find_project s org (unit_project_id u)) not_found (\<lambda>p.
     need_given (hold_customer_id h) (find_customer s org) not_found (\<lambda>c.
     need (find_user s org (hold_held_by_user_id h)) not_found (\<lambda>sp.
     need_given (hold_approved_by_user_id h) (find_user s org) not_found (\<lambda>ap.
     Inr \<lparr>hv_id = hold_id h, hv_unit_id = unit_id u, hv_unit_number = unit_unit_number u,
          hv_project_id = project_id p, hv_project_name = project_name p,
          hv_hold_type =
            (case hold_hold_type h of
               None \<Rightarrow>
                 (if unit_status u = Unit_SOFT_HOLD then Some HoldType_SOFT_HOLD
                  else if unit_status u = Unit_HARD_HOLD then Some HoldType_HARD_HOLD else None)
             | Some t \<Rightarrow> Some t),
          hv_hold_reason = hold_hold_reason h,
          hv_customer_id = map_option cust_id c, hv_customer_name = map_option cust_full_name c,
          hv_lead_id = hold_lead_id h, hv_held_by_user_id = user_id sp,
          hv_salesperson_name = user_full_name sp,
          hv_approved_by_user_id = map_option user_id ap, hv_approver_name = map_option user_full_name ap,
          hv_status = hold_status h, hv_starts_at = hold_starts_at h, hv_expires_at = hold_expires_at h,
          hv_released_at = hold_released_at h, hv_approved_at = hold_approved_at h,
          hv_rejected_at = hold_rejected_at h, hv_approval_notes = hold_approval_notes h,
          hv_release_reason = hold_release_reason h, hv_created_at = hold_created_at h\<rparr>)))))"

definition effective_unit_status :: "unit_row \<Rightarrow> unit_hold_row option \<Rightarrow> unit_status" where
  "effective_unit_status u h =
     (case h of
        None \<Rightarrow> unit_status u
      | Some h \<Rightarrow> (case hold_hold_type h of None \<Rightarrow> unit_status u | Some t \<Rightarrow> unit_status_of_hold_type t))"

text \<open>
  The dictionary \<^verbatim>\<open>active_holds\<close>, keyed by unit: a later row of the query overwrites an earlier one.
\<close>

definition active_hold_of :: "env \<Rightarrow> database \<Rightarrow> ident \<Rightarrow> ident \<Rightarrow> unit_hold_row option" where
  "active_hold_of e s org u =
     first_row (rev (filter (\<lambda>h. hold_organization_id h = org \<and> hold_unit_id h = u \<and>
        reserving (hold_status h) \<and> now e < hold_expires_at h) (unit_holds s)))"

definition unit_view_of :: "env \<Rightarrow> database \<Rightarrow> ident \<Rightarrow> unit_row \<Rightarrow> app_error + unit_view" where
  "unit_view_of e s org u =
     need (find_project s org (unit_project_id u)) Internal_Error (\<lambda>p.
     let tower = Option.bind (given (unit_tower_id u)) (find_tower s org);
         floor = Option.bind (given (unit_floor_id u)) (find_floor s org);
         hold = active_hold_of e s org (unit_id u)
     in Inr \<lparr>uv_id = unit_id u, uv_project_id = unit_project_id u, uv_project_name = project_name p,
          uv_tower_id = unit_tower_id u, uv_tower_name = map_option tower_name tower,
          uv_floor_id = unit_floor_id u, uv_floor_name = map_option floor_name floor,
          uv_floor_number = map_option floor_floor_number floor,
          uv_unit_number = unit_unit_number u, uv_unit_type = unit_unit_type u,
          uv_area_sqft = unit_area_sqft u, uv_carpet_area_sqft = unit_carpet_area_sqft u,
          uv_built_up_area_sqft = unit_built_up_area_sqft u, uv_facing = unit_facing u,
          uv_bedrooms = unit_bedrooms u, uv_bathrooms = unit_bathrooms u, uv_balconies = unit_balconies u,
          uv_status = effective_unit_status u hold, uv_base_price = unit_base_price u,
          uv_currency = unit_currency u, uv_amenities = unit_amenities u,
          uv_price_components = unit_price_components u, uv_configuration = unit_configuration u,
          uv_active_hold_id = map_option hold_id hold, uv_created_at = unit_created_at u\<rparr>)"

fun collect :: "('x \<Rightarrow> app_error + 'v) \<Rightarrow> 'x list \<Rightarrow> app_error + 'v list" where
  "collect f [] = Inr []"
| "collect f (x # xs) =
     (case f x of Inl e \<Rightarrow> Inl e | Inr v \<Rightarrow> (case collect f xs of Inl e \<Rightarrow> Inl e | Inr vs \<Rightarrow> Inr (v # vs)))"

text \<open>
  \<^verbatim>\<open>_unit_views\<close> first sweeps the organization's due holds, in a transaction of its own; the unit
  objects of the session show the statuses the sweep wrote.
\<close>

definition unit_views ::
  "env \<Rightarrow> nat \<Rightarrow> ident \<Rightarrow> unit_row list \<Rightarrow> database \<Rightarrow> (database, unit_view list) outcome" where
  "unit_views e k org us s =
     (if us = [] then Return s []
      else (case expire_due_holds e k (Some org) 200 None s of
          Raise s' err \<Rightarrow> Raise s' err
        | Return s' _ \<Rightarrow>
            respond s' (collect (\<lambda>u. unit_view_of e s' org
              (case find_unit s' org (unit_id u) of None \<Rightarrow> u | Some u' \<Rightarrow> u')) us)))"

text \<open>\<^verbatim>\<open>(await _unit_views(db, organization_id, [unit]))[0]\<close>\<close>

definition single_unit_view :: "env \<Rightarrow> nat \<Rightarrow> ident \<Rightarrow> unit_row \<Rightarrow> database \<Rightarrow> (database, unit_view) outcome" where
  "single_unit_view e k org u s =
     (case unit_views e k org [u] s of
        Raise s' err \<Rightarrow> Raise s' err
      | Return s' vs \<Rightarrow> (case vs of [] \<Rightarrow> Raise s' Internal_Error | v # _ \<Rightarrow> Return s' v))"

definition booking_brief :: "booking_row \<Rightarrow> unit_row \<Rightarrow> inventory_booking_view" where
  "booking_brief b u =
     \<lparr>ibv_id = booking_id b, ibv_unit_id = booking_unit_id b, ibv_unit_number = unit_unit_number u,
      ibv_customer_id = booking_customer_id b, ibv_lead_id = booking_lead_id b,
      ibv_quotation_id = booking_quotation_id b, ibv_booked_by_user_id = booking_booked_by_user_id b,
      ibv_booking_number = booking_booking_number b, ibv_booking_amount = booking_booking_amount b,
      ibv_currency = booking_currency b, ibv_status = booking_status b,
      ibv_booked_at = booking_booked_at b, ibv_created_at = booking_created_at b\<rparr>"

section \<open>The hold workflow\<close>

definition new_hold :: "env \<Rightarrow> ident \<Rightarrow> ident \<Rightarrow> unit_row \<Rightarrow> user_row \<Rightarrow> hold_create \<Rightarrow> unit_hold_row" where
  "new_hold e i org u sp p =
     \<lparr>hold_id = i, hold_organization_id = org, hold_unit_id = unit_id u,
      hold_customer_id = Some (hc_customer_id p), hold_lead_id = hc_lead_id p,
      hold_held_by_user_id = user_id sp, hold_approved_by_user_id = None,
      hold_hold_type = Some (hc_hold_type p), hold_hold_reason = Some (hc_hold_reason p),
      hold_status = Hold_PENDING_APPROVAL, hold_starts_at = now e, hold_expires_at = hc_expires_at p,
      hold_released_at = None, hold_approved_at = None, hold_rejected_at = None,
      hold_approval_notes = None, hold_release_reason = None,
      hold_active_unit_key = Some (unit_id u), hold_created_at = now e\<rparr>"

definition create_hold ::
  "env \<Rightarrow> mutation_context \<Rightarrow> ident \<Rightarrow> ident \<Rightarrow> hold_create \<Rightarrow> database \<Rightarrow> (database, hold_view) outcome" where
  "create_hold e ctx org uid p s =
     fetch s (find_unit s org uid) not_found (\<lambda>u0.
     let (s1, u, active) = expire_hold e 0 (Some ctx) u0 s in
     demand s (active = None \<and> unit_status u = Unit_AVAILABLE) (App_Error 409 ''UNIT_UNAVAILABLE'') (
     demand s (now e < hc_expires_at p) (App_Error 400 ''INVALID_EXPIRY'') (
     fetch s (find_customer s1 org (hc_customer_id p)) not_found (\<lambda>_.
     fetch_given s (hc_lead_id p) (find_lead s1 org) not_found (\<lambda>_.
     let sp_id = (case given (hc_salesperson_user_id p) of None \<Rightarrow> actor_user_id ctx | Some x \<Rightarrow> x) in
     fetch s (find_user s1 org sp_id) not_found (\<lambda>sp.
     demand s (user_is_active sp) (App_Error 400 ''INVALID_SALESPERSON'') (
     let h = new_hold e (uuid e 2) org u sp p;
         u' = u\<lparr>unit_status := unit_status_of_hold_type (hc_hold_type p)\<rparr> in
     demand s (slot_free hold_organization_id hold_active_unit_key org (unit_id u) (unit_holds s1))
       (App_Error 409 ''UNIT_UNAVAILABLE'') (
     let audit = audit_entry e (uuid e 3) org ctx ''unit.hold.created'' ''unit_hold'' (hold_id h) None
           (Some [(''unit_id'', JStr (unit_id u)),
                  (''hold_type'', JStr (hold_type_value (hc_hold_type p))),
                  (''status'', JStr (hold_status_value Hold_PENDING_APPROVAL)),
                  (''customer_id'', JStr (hc_customer_id p)),
                  (''salesperson_user_id'', JStr (user_id sp)),
                  (''reason'', JStr (hc_hold_reason p)),
                  (''expires_at'', JTime (hold_expires_at h))]);
         s2 = add_audits [audit] (put_unit u' (add_hold h s1)) in
     respond s2 (hold_view s2 org h)))))))))"

definition decided_hold :: "env \<Rightarrow> mutation_context \<Rightarrow> hold_decision \<Rightarrow> unit_hold_row \<Rightarrow> unit_hold_row" where
  "decided_hold e ctx p h =
     (let h1 = h\<lparr>hold_approved_by_user_id := Some (actor_user_id ctx), hold_approval_notes := Some (hd_notes p)\<rparr>
      in case hd_status p of
           Decision_APPROVED \<Rightarrow> h1\<lparr>hold_status := Hold_ACTIVE, hold_approved_at := Some (now e)\<rparr>
         | Decision_REJECTED \<Rightarrow> h1\<lparr>hold_status := Hold_REJECTED, hold_rejected_at := Some (now e),
             hold_released_at := Some (now e), hold_active_unit_key := None\<rparr>)"

text \<open>
  \<^verbatim>\<open>decide_hold\<close> commits before it raises \<^verbatim>\<open>HOLD_APPROVAL_NOT_PENDING\<close>, so that an expiry found on
  the way is kept; the other errors roll back.
\<close>

definition decide_hold ::
  "env \<Rightarrow> mutation_context \<Rightarrow> ident \<Rightarrow> ident \<Rightarrow> hold_decision \<Rightarrow> database \<Rightarrow> (database, hold_view) outcome" where
  "decide_hold e ctx org hid p s =
     fetch s (find_hold s org hid) not_found (\<lambda>candidate.
     fetch s (find_unit s org (hold_unit_id candidate)) not_found (\<lambda>u0.
     let (s1, u, current) = expire_hold e 0 (Some ctx) u0 s in
     fetch s1 (case current of None \<Rightarrow> None
                 | Some h \<Rightarrow> if hold_id h = hid \<and> hold_status h = Hold_PENDING_APPROVAL then Some h else None)
       (App_Error 409 ''HOLD_APPROVAL_NOT_PENDING'') (\<lambda>h.
     demand s (hold_held_by_user_id h \<noteq> actor_user_id ctx) (App_Error 403 ''SELF_APPROVAL_NOT_ALLOWED'') (
     demand s (unit_status u =
         (case hold_hold_type h of None \<Rightarrow> unit_status u | Some t \<Rightarrow> unit_status_of_hold_type t))
       (App_Error 409 ''HOLD_UNIT_STATE_MISMATCH'') (
     let previous = [(''status'', JStr (hold_status_value (hold_status h))),
                     (''unit_status'', JStr (unit_status_value (unit_status u)))];
         h' = decided_hold e ctx p h;
         u' = (if hd_status p = Decision_APPROVED then u else u\<lparr>unit_status := Unit_AVAILABLE\<rparr>);
         audit = audit_entry e (uuid e 3) org ctx
           (if hd_status p = Decision_APPROVED then ''unit.hold.approved'' else ''unit.hold.rejected'')
           ''unit_hold'' (hold_id h) (Some previous)
           (Some [(''status'', JStr (hold_status_value (hold_status h'))),
                  (''unit_status'', JStr (unit_status_value (unit_status u'))),
                  (''approver_user_id'', JStr (actor_user_id ctx)),
                  (''notes'', JStr (hd_notes p))]);
         s2 = add_audits [audit] (put_unit u' (put_hold h' s1)) in
     respond s2 (hold_view s2 org h'))))))"

definition release_hold ::
  "env \<Rightarrow> mutation_context \<Rightarrow> ident \<Rightarrow> ident \<Rightarrow> string \<Rightarrow> database \<Rightarrow> (database, unit_view) outcome" where
  "release_hold e ctx org uid reason s =
     fetch s (find_unit s org uid) not_found (\<lambda>u0.
     let (s1, u, current) = expire_hold e 0 (Some ctx) u0 s in
     fetch s1 current (App_Error 409 ''NO_ACTIVE_HOLD'') (\<lambda>h.
     let previous = [(''status'', JStr (hold_status_value (hold_status h))),
                     (''unit_status'', JStr (unit_status_value (unit_status u)))];
         h' = h\<lparr>hold_status := Hold_RELEASED, hold_active_unit_key := None,
                hold_released_at := Some (now e), hold_release_reason := Some reason\<rparr>;
         u' = u\<lparr>unit_status := Unit_AVAILABLE\<rparr>;
         audit = audit_entry e (uuid e 3) org ctx ''unit.hold.released'' ''unit_hold'' (hold_id h) (Some previous)
           (Some [(''unit_id'', JStr (unit_id u)), (''status'', JStr ''RELEASED''), (''reason'', JStr reason)]);
         s2 = add_audits [audit] (put_unit u' (put_hold h' s1)) in
     single_unit_view e 4 org u' s2))"

section \<open>The booking lock of a unit\<close>

text \<open>
  \<^verbatim>\<open>initiate_booking\<close>: the queries run before the new rows are flushed. A duplicate booking number
  or a second live booking of the unit fails the flush with 409.
\<close>

definition bookable :: "unit_status \<Rightarrow> bool" where
  "bookable st \<longleftrightarrow> st = Unit_AVAILABLE \<or> held_status st"

definition quotation_fits :: "quotation_row \<Rightarrow> ident \<Rightarrow> unit_row \<Rightarrow> bool" where
  "quotation_fits q customer u \<longleftrightarrow>
     (quote_customer_id q = None \<or> quote_customer_id q = Some customer) \<and> quote_project_id q = unit_project_id u"

definition converted_hold :: "env \<Rightarrow> unit_hold_row \<Rightarrow> unit_hold_row" where
  "converted_hold e h =
     h\<lparr>hold_status := Hold_CONVERTED, hold_active_unit_key := None, hold_released_at := Some (now e)\<rparr>"

definition initiated_booking ::
  "env \<Rightarrow> ident \<Rightarrow> ident \<Rightarrow> mutation_context \<Rightarrow> unit_row \<Rightarrow> booking_initiate \<Rightarrow> booking_row" where
  "initiated_booking e i org ctx u p =
     \<lparr>booking_id = i, booking_organization_id = org, booking_unit_id = unit_id u,
      booking_lead_id = bi_lead_id p, booking_customer_id = bi_customer_id p,
      booking_quotation_id = bi_quotation_id p, booking_unit_hold_id = None,
      booking_booked_by_user_id = actor_user_id ctx, booking_salesperson_user_id = None,
      booking_channel_partner_id = None, booking_verified_by_user_id = None,
      booking_confirmed_by_user_id = None, booking_booking_number = bi_booking_number p,
      booking_status = Booking_DRAFT, booking_booking_amount = bi_booking_amount p,
      booking_agreed_price = None, booking_discount_amount = 0, booking_currency = bi_currency p,
      booking_active_unit_key = Some (unit_id u), booking_booked_at = None, booking_submitted_at = None,
      booking_verification_completed_at = None, booking_approval_requested_at = None,
      booking_rejected_at = None, booking_cancelled_at = None, booking_rejection_reason = None,
      booking_created_at = now e\<rparr>"

definition booking_number_free :: "database \<Rightarrow> ident \<Rightarrow> string \<Rightarrow> bool" where
  "booking_number_free s org n \<longleftrightarrow>
     list_all (\<lambda>b. \<not> (booking_organization_id b = org \<and> booking_booking_number b = n)) (bookings s)"

definition convert_hold ::
  "env \<Rightarrow> nat \<Rightarrow> ident \<Rightarrow> mutation_context \<Rightarrow> string \<Rightarrow> unit_hold_row option \<Rightarrow> database \<Rightarrow> database" where
  "convert_hold e k org ctx number current s =
     (case current of
        None \<Rightarrow> s
      | Some h \<Rightarrow> add_audits
          [audit_entry e (uuid e k) org ctx ''unit.hold.converted'' ''unit_hold'' (hold_id h)
             (Some [(''status'', JStr (hold_status_value (hold_status h)))])
             (Some [(''status'', JStr (hold_status_value Hold_CONVERTED)), (''booking_number'', JStr number)])]
          (put_hold (converted_hold e h) s))"

definition initiate_booking ::
  "env \<Rightarrow> mutation_context \<Rightarrow> ident \<Rightarrow> ident \<Rightarrow> booking_initiate \<Rightarrow> database \<Rightarrow>
   (database, inventory_booking_view) outcome" where
  "initiate_booking e ctx org uid p s =
     fetch s (find_unit s org uid) not_found (\<lambda>u0.
     let (s1, u, current) = expire_hold e 0 (Some ctx) u0 s in
     demand s (slot_free booking_organization_id booking_active_unit_key org (unit_id u) (bookings s1) \<and>
         bookable (unit_status u)) (App_Error 409 ''UNIT_ALREADY_BOOKED'') (
     demand s (case current of None \<Rightarrow> True | Some h \<Rightarrow> hold_status h \<noteq> Hold_PENDING_APPROVAL)
       (App_Error 409 ''HOLD_APPROVAL_PENDING'') (
     fetch s (find_customer s1 org (bi_customer_id p)) not_found (\<lambda>_.
     fetch_given s (bi_lead_id p) (find_lead s1 org) not_found (\<lambda>_.
     fetch_given s (bi_quotation_id p) (find_quotation s1 org) not_found (\<lambda>q.
     demand s (case q of None \<Rightarrow> True | Some q \<Rightarrow> quotation_fits q (bi_customer_id p) u)
       (App_Error 400 ''INVALID_QUOTATION'') (
     demand s (case current of None \<Rightarrow> True
         | Some h \<Rightarrow> hold_customer_id h = None \<or> hold_customer_id h = Some (bi_customer_id p))
       (App_Error 409 ''HOLD_OWNER_MISMATCH'') (
     demand s (case current of None \<Rightarrow> True
         | Some h \<Rightarrow> given (bi_lead_id p) = None \<or> hold_lead_id h = None \<or> hold_lead_id h = bi_lead_id p)
       (App_Error 409 ''HOLD_OWNER_MISMATCH'') (
     let b = initiated_booking e (uuid e 3) org ctx u p;
         u' = u\<lparr>unit_status := Unit_BOOKING_INITIATED\<rparr>;
         s2 = put_unit u' (convert_hold e 2 org ctx (bi_booking_number p) current s1) in
     demand s (booking_number_free s1 org (bi_booking_number p)) (App_Error 409 ''UNIT_ALREADY_BOOKED'') (
     let audit = audit_entry e (uuid e 4) org ctx ''booking.initiated'' ''booking'' (booking_id b) None
           (Some [(''unit_id'', JStr (unit_id u)), (''customer_id'', JStr (bi_customer_id p)),
                  (''booking_number'', JStr (bi_booking_number p))]) in
     Return (add_audits [audit] (add_booking b s2)) (booking_brief b u')))))))))))"

text \<open>
  \<^verbatim>\<open>transition_booking\<close>. The endpoint offers the targets \<^verbatim>\<open>CONFIRMED\<close>, which it refuses, and
  \<^verbatim>\<open>CANCELLED\<close>.
\<close>

definition transition_booking ::
  "env \<Rightarrow> mutation_context \<Rightarrow> ident \<Rightarrow> ident \<Rightarrow> booking_status \<Rightarrow> database \<Rightarrow>
   (database, inventory_booking_view) outcome" where
  "transition_booking e ctx org bid target s =
     fetch s (find_booking s org bid) not_found (\<lambda>b.
     fetch s (find_unit s org (booking_unit_id b)) not_found (\<lambda>u.
     demand s (booking_status b \<noteq> Booking_CONFIRMED \<and> booking_status b \<noteq> Booking_CANCELLED)
       (App_Error 409 ''BOOKING_FINALIZED'') (
     let finish = (\<lambda>b' u'.
           let audit = audit_entry e (uuid e 0) org ctx ''booking.status.changed'' ''booking'' (booking_id b)
                 (Some [(''status'', JStr (booking_status_value (booking_status b))),
                        (''unit_status'', JStr (unit_status_value (unit_status u)))])
                 (Some [(''status'', JStr (booking_status_value (booking_status b'))),
                        (''unit_status'', JStr (unit_status_value (unit_status u')))]) in
           Return (add_audits [audit] (put_unit u' (put_booking b' s))) (booking_brief b' u')) in
     if target = Booking_CONFIRMED then
       demand s (booking_active_unit_key b = Some (unit_id u) \<and> unit_status u = Unit_BOOKING_INITIATED)
         (App_Error 409 ''UNIT_ALREADY_BOOKED'') (
       finish (b\<lparr>booking_status := Booking_CONFIRMED, booking_booked_at := Some (now e)\<rparr>)
         (u\<lparr>unit_status := Unit_BOOKED\<rparr>))
     else if target = Booking_CANCELLED then
       finish (b\<lparr>booking_status := Booking_CANCELLED, booking_active_unit_key := None\<rparr>)
         (u\<lparr>unit_status := Unit_CANCELLED_RELEASED\<rparr>)
     else Raise s (App_Error 400 ''INVALID_BOOKING_STATUS''))))"

text \<open>The endpoint in front of it (\<^verbatim>\<open>api/v1/inventory.py\<close>).\<close>

definition transition_booking_endpoint ::
  "env \<Rightarrow> mutation_context \<Rightarrow> ident \<Rightarrow> ident \<Rightarrow> booking_status \<Rightarrow> database \<Rightarrow>
   (database, inventory_booking_view) outcome" where
  "transition_booking_endpoint e ctx org bid target s =
     demand s (target \<noteq> Booking_CONFIRMED) (App_Error 409 ''BOOKING_APPROVAL_REQUIRED'')
       (transition_booking e ctx org bid target s)"

section \<open>Status transitions of a unit\<close>

definition allowed_transition :: "unit_status \<Rightarrow> unit_status \<Rightarrow> bool" where
  "allowed_transition from target \<longleftrightarrow>
     (from = Unit_CANCELLED_RELEASED \<and> target = Unit_AVAILABLE) \<or> (from = Unit_BOOKED \<and> target = Unit_SOLD)"

definition transition_unit_status ::
  "env \<Rightarrow> mutation_context \<Rightarrow> ident \<Rightarrow> ident \<Rightarrow> unit_status \<Rightarrow> database \<Rightarrow> (database, unit_view) outcome" where
  "transition_unit_status e ctx org uid target s =
     fetch s (find_unit s org uid) not_found (\<lambda>u.
     demand s (allowed_transition (unit_status u) target) (App_Error 409 ''INVALID_UNIT_STATUS_TRANSITION'') (
     let u' = u\<lparr>unit_status := target\<rparr>;
         audit = audit_entry e (uuid e 0) org ctx ''unit.status.changed'' ''unit'' (unit_id u)
           (Some (unit_snapshot u)) (Some (unit_snapshot u')) in
     single_unit_view e 1 org u' (add_audits [audit] (put_unit u' s))))"

section \<open>Reading holds\<close>

text \<open>The filters of \<^verbatim>\<open>list_holds\<close>: an absent or empty filter selects everything.\<close>

record hold_filter =
  hf_status :: "hold_status option"
  hf_hold_type :: "hold_type option"
  hf_project_id :: "ident option"
  hf_customer_id :: "ident option"
  hf_salesperson_user_id :: "ident option"

record 'a page =
  pg_items :: "'a list"
  pg_page :: nat
  pg_page_size :: nat
  pg_total :: nat
  pg_pages :: nat

definition hold_selected :: "database \<Rightarrow> ident \<Rightarrow> hold_filter \<Rightarrow> unit_hold_row \<Rightarrow> bool" where
  "hold_selected s org f h \<longleftrightarrow>
     hold_organization_id h = org \<and>
     (case hf_status f of None \<Rightarrow> True | Some x \<Rightarrow> hold_status h = x) \<and>
     (case hf_hold_type f of None \<Rightarrow> True | Some x \<Rightarrow> hold_hold_type h = Some x) \<and>
     (case given (hf_customer_id f) of None \<Rightarrow> True | Some x \<Rightarrow> hold_customer_id h = Some x) \<and>
     (case given (hf_salesperson_user_id f) of None \<Rightarrow> True | Some x \<Rightarrow> hold_held_by_user_id h = x) \<and>
     (case given (hf_project_id f) of None \<Rightarrow> True
      | Some x \<Rightarrow> list_ex (\<lambda>u. unit_organization_id u = org \<and> unit_project_id u = x \<and> unit_id u = hold_unit_id h)
          (units s))"

text \<open>\<^verbatim>\<open>ceil(total / page_size)\<close>; the endpoints bound \<^verbatim>\<open>page\<close> and \<^verbatim>\<open>page_size\<close> from below by 1.\<close>

definition page_count :: "nat \<Rightarrow> nat \<Rightarrow> nat" where
  "page_count n size' = (if n = 0 then 0 else (n + size' - 1) div size')"

definition list_holds ::
  "env \<Rightarrow> ident \<Rightarrow> hold_filter \<Rightarrow> nat \<Rightarrow> nat \<Rightarrow> database \<Rightarrow> (database, hold_view page) outcome" where
  "list_holds e org f page page_size s =
     (case expire_due_holds e 0 (Some org) 200 None s of
        Raise s' err \<Rightarrow> Raise s' err
      | Return s' _ \<Rightarrow>
          let selected = order_desc hold_created_at (filter (hold_selected s' org f) (unit_holds s'));
              shown = take page_size (drop ((page - 1) * page_size) selected) in
          attempt s' (collect (hold_view s' org) shown) (\<lambda>vs.
          Return s' \<lparr>pg_items = vs, pg_page = page, pg_page_size = page_size, pg_total = length selected,
            pg_pages = page_count (length selected) page_size\<rparr>))"

definition hold_history :: "env \<Rightarrow> ident \<Rightarrow> ident \<Rightarrow> database \<Rightarrow> (database, hold_view list) outcome" where
  "hold_history e org uid s =
     fetch s (find_unit s org uid) not_found (\<lambda>_.
     case expire_due_holds e 0 (Some org) 200 None s of
       Raise s' err \<Rightarrow> Raise s' err
     | Return s' _ \<Rightarrow> respond s' (collect (hold_view s' org) (order_desc hold_created_at
         (filter (\<lambda>h. hold_organization_id h = org \<and> hold_unit_id h = uid) (unit_holds s')))))"

record hold_stats_view =
  hs_total :: nat
  hs_pending_approval :: nat
  hs_active :: nat
  hs_released :: nat
  hs_expired :: nat
  hs_rejected :: nat
  hs_converted :: nat

definition hold_stats_of :: "database \<Rightarrow> ident \<Rightarrow> hold_stats_view" where
  "hold_stats_of s org =
     (let own = filter (\<lambda>h. hold_organization_id h = org) (unit_holds s);
          count = (\<lambda>st. count_rows (\<lambda>h. hold_status h = st) own)
      in \<lparr>hs_total = length own, hs_pending_approval = count Hold_PENDING_APPROVAL,
          hs_active = count Hold_ACTIVE, hs_released = count Hold_RELEASED,
          hs_expired = count Hold_EXPIRED, hs_rejected = count Hold_REJECTED,
          hs_converted = count Hold_CONVERTED\<rparr>)"

definition hold_stats :: "env \<Rightarrow> ident \<Rightarrow> database \<Rightarrow> (database, hold_stats_view) outcome" where
  "hold_stats e org s =
     (case expire_due_holds e 0 (Some org) 200 None s of
        Raise s' err \<Rightarrow> Raise s' err
      | Return s' _ \<Rightarrow> Return s' (hold_stats_of s' org))"

end
