(* ===== verification/Inventory_Safety.thy ===== *)
theory Inventory_Safety
  imports Inventory
begin

text \<open>
  The inventory invariant: the status of every unit agrees with the one hold or the one booking
  that reserves it, and the nullable unique columns \<^verbatim>\<open>active_unit_key\<close> mark exactly the reserving
  rows. Every operation of \<^verbatim>\<open>services/inventory.py\<close> that writes units, holds or bookings keeps it.
\<close>

section \<open>The invariant\<close>

primrec live :: "booking_status \<Rightarrow> bool" where
  "live Booking_DRAFT = True"
| "live Booking_DOCUMENTATION_PENDING = True"
| "live Booking_PAYMENT_PENDING = True"
| "live Booking_SUBMITTED = True"
| "live Booking_VERIFICATION = True"
| "live Booking_APPROVAL = True"
| "live Booking_CONFIRMED = True"
| "live Booking_REJECTED = False"
| "live Booking_CANCELLED = False"

definition holds_of :: "database \<Rightarrow> ident \<Rightarrow> ident \<Rightarrow> unit_hold_row list" where
  "holds_of s org uid = filter (\<lambda>h. hold_organization_id h = org \<and> hold_unit_id h = uid \<and>
     reserving (hold_status h)) (unit_holds s)"

definition live_bookings :: "database \<Rightarrow> ident \<Rightarrow> ident \<Rightarrow> booking_row list" where
  "live_bookings s org uid = filter (\<lambda>b. booking_organization_id b = org \<and> booking_unit_id b = uid \<and>
     live (booking_status b)) (bookings s)"

definition held_by_one :: "hold_type \<Rightarrow> unit_hold_row list \<Rightarrow> bool" where
  "held_by_one t hs = (case hs of [h] \<Rightarrow> hold_hold_type h = None \<or> hold_hold_type h = Some t | _ \<Rightarrow> False)"

definition booked_by_one :: "bool \<Rightarrow> booking_row list \<Rightarrow> bool" where
  "booked_by_one confirmed bs = (case bs of [b] \<Rightarrow> (booking_status b = Booking_CONFIRMED) = confirmed | _ \<Rightarrow> False)"

primrec unit_agrees :: "unit_status \<Rightarrow> unit_hold_row list \<Rightarrow> booking_row list \<Rightarrow> bool" where
  "unit_agrees Unit_AVAILABLE hs bs = (hs = [] \<and> bs = [])"
| "unit_agrees Unit_SOFT_HOLD hs bs = (held_by_one HoldType_SOFT_HOLD hs \<and> bs = [])"
| "unit_agrees Unit_HARD_HOLD hs bs = (held_by_one HoldType_HARD_HOLD hs \<and> bs = [])"
| "unit_agrees Unit_BOOKING_INITIATED hs bs = (hs = [] \<and> booked_by_one False bs)"
| "unit_agrees Unit_BOOKED hs bs = (hs = [] \<and> booked_by_one True bs)"
| "unit_agrees Unit_SOLD hs bs = (hs = [] \<and> booked_by_one True bs)"
| "unit_agrees Unit_CANCELLED_RELEASED hs bs = (hs = [] \<and> bs = [])"

definition hold_slot_ok :: "unit_hold_row \<Rightarrow> bool" where
  "hold_slot_ok h \<longleftrightarrow>
     hold_active_unit_key h = (if reserving (hold_status h) then Some (hold_unit_id h) else None)"

definition booking_slot_ok :: "booking_row \<Rightarrow> bool" where
  "booking_slot_ok b \<longleftrightarrow>
     booking_active_unit_key b = (if live (booking_status b) then Some (booking_unit_id b) else None)"

definition unit_known :: "database \<Rightarrow> ident \<Rightarrow> ident \<Rightarrow> bool" where
  "unit_known s org uid \<longleftrightarrow> list_ex (\<lambda>u. unit_organization_id u = org \<and> unit_id u = uid) (units s)"

definition inventory_ok :: "database \<Rightarrow> bool" where
  "inventory_ok s \<longleftrightarrow>
     distinct (map unit_id (units s)) \<and> distinct (map hold_id (unit_holds s)) \<and>
     distinct (map booking_id (bookings s)) \<and>
     list_all hold_slot_ok (unit_holds s) \<and> list_all booking_slot_ok (bookings s) \<and>
     list_all (\<lambda>h. reserving (hold_status h) \<longrightarrow> unit_known s (hold_organization_id h) (hold_unit_id h)) (unit_holds s) \<and>
     list_all (\<lambda>b. live (booking_status b) \<longrightarrow> unit_known s (booking_organization_id b) (booking_unit_id b)) (bookings s) \<and>
     list_all (\<lambda>u. unit_agrees (unit_status u) (holds_of s (unit_organization_id u) (unit_id u))
       (live_bookings s (unit_organization_id u) (unit_id u))) (units s)"

lemma inventory_ok_empty: "inventory_ok empty_database"
  by (simp add: inventory_ok_def empty_database_def)

lemma inventory_ok_frame:
  "units t = units s \<Longrightarrow> unit_holds t = unit_holds s \<Longrightarrow> bookings t = bookings s \<Longrightarrow> inventory_ok t = inventory_ok s"
  by (simp add: inventory_ok_def holds_of_def live_bookings_def unit_known_def)

lemma inventory_ok_add_audits [simp]: "inventory_ok (add_audits as s) = inventory_ok s"
  by (rule inventory_ok_frame) (simp_all add: add_audits_def)

lemma inventory_ok_queue_in_app [simp]: "inventory_ok (queue_in_app e k org rs m d sch s) = inventory_ok s"
  by (rule inventory_ok_frame) (simp_all add: queue_in_app_def)

lemma held_by_oneE:
  assumes "held_by_one t hs" obtains h where "hs = [h]" "hold_hold_type h = None \<or> hold_hold_type h = Some t"
  using assms by (auto simp: held_by_one_def split: list.splits)

lemma booked_by_oneE:
  assumes "booked_by_one c bs" obtains b where "bs = [b]" "(booking_status b = Booking_CONFIRMED) = c"
  using assms by (auto simp: booked_by_one_def split: list.splits)

text \<open>What the status of a unit says about its rows, and back.\<close>

lemma unit_agrees_held:
  "unit_agrees st hs bs \<Longrightarrow> h \<in> set hs \<Longrightarrow> hs = [h] \<and> bs = [] \<and> held_status st"
  by (cases st) (auto elim: held_by_oneE)

lemma unit_agrees_live:
  "unit_agrees st hs bs \<Longrightarrow> b \<in> set bs \<Longrightarrow> hs = [] \<and> bs = [b] \<and>
     (booking_status b \<noteq> Booking_CONFIRMED \<longrightarrow> st = Unit_BOOKING_INITIATED)"
  by (cases st) (auto elim: booked_by_oneE)

lemma unit_agrees_held_status: "unit_agrees st hs bs \<Longrightarrow> held_status st \<Longrightarrow> \<exists>h. hs = [h] \<and> bs = []"
  by (cases st) (auto elim: held_by_oneE)

lemma unit_agrees_hold_type:
  "hold_hold_type h = None \<or> hold_hold_type h = Some t \<Longrightarrow> unit_agrees (unit_status_of_hold_type t) [h] []"
  by (cases t) (auto simp: held_by_one_def)

section \<open>Writing one unit with its hold and its booking\<close>

text \<open>
  The invariant after a write that touches the rows of one unit: it is enough to look at the
  written unit, because the rows of every other unit are unchanged.
\<close>

lemma inventory_okD:
  assumes "inventory_ok s"
  shows "distinct (map unit_id (units s))" "distinct (map hold_id (unit_holds s))"
    "distinct (map booking_id (bookings s))"
    "h \<in> set (unit_holds s) \<Longrightarrow> hold_slot_ok h" "b \<in> set (bookings s) \<Longrightarrow> booking_slot_ok b"
    "u \<in> set (units s) \<Longrightarrow> unit_agrees (unit_status u) (holds_of s (unit_organization_id u) (unit_id u))
       (live_bookings s (unit_organization_id u) (unit_id u))"
    "h \<in> set (unit_holds s) \<Longrightarrow> reserving (hold_status h) \<Longrightarrow>
       \<exists>u \<in> set (units s). unit_organization_id u = hold_organization_id h \<and> unit_id u = hold_unit_id h"
    "b \<in> set (bookings s) \<Longrightarrow> live (booking_status b) \<Longrightarrow>
       \<exists>u \<in> set (units s). unit_organization_id u = booking_organization_id b \<and> unit_id u = booking_unit_id b"
  using assms by (auto simp: inventory_ok_def list_all_iff unit_known_def list_ex_iff)

lemma unit_unknown_no_rows:
  assumes "inventory_ok s" "\<not> unit_known s org uid"
  shows "holds_of s org uid = [] \<and> live_bookings s org uid = []"
  using assms by (auto simp: inventory_ok_def holds_of_def live_bookings_def filter_empty_conv list_all_iff)

lemma unit_known_put: "unit_id u' = unit_id u \<Longrightarrow> unit_organization_id u' = unit_organization_id u \<Longrightarrow>
    u \<in> set (units s) \<Longrightarrow> distinct (map unit_id (units s)) \<Longrightarrow> units t = put_row unit_id u' (units s) \<Longrightarrow>
    unit_known t org uid = unit_known s org uid"
  by (auto simp: unit_known_def list_ex_iff set_put_row) (metis distinct_map inj_onD)+

lemma unit_write_ok:
  assumes ok: "inventory_ok s" and u: "u \<in> set (units s)"
    and units': "units t = put_row unit_id u' (units s)"
    and key: "unit_id u' = unit_id u" "unit_organization_id u' = unit_organization_id u"
    and ids: "distinct (map hold_id (unit_holds t))" "distinct (map booking_id (bookings t))"
    and slots: "list_all hold_slot_ok (unit_holds t)" "list_all booking_slot_ok (bookings t)"
    and same: "\<And>org uid. (org, uid) \<noteq> (unit_organization_id u, unit_id u) \<Longrightarrow>
      holds_of t org uid = holds_of s org uid \<and> live_bookings t org uid = live_bookings s org uid"
    and agrees: "unit_agrees (unit_status u') (holds_of t (unit_organization_id u) (unit_id u))
      (live_bookings t (unit_organization_id u) (unit_id u))"
  shows "inventory_ok t"
proof -
  have known: "unit_known t org uid = unit_known s org uid" for org uid
    by (rule unit_known_put) (use key u units' inventory_okD(1) [OF ok] in simp_all)
  have "unit_known s (unit_organization_id u) (unit_id u)"
    using u by (auto simp: unit_known_def list_ex_iff)
  then have rows: "unit_known t org uid" if "holds_of t org uid \<noteq> [] \<or> live_bookings t org uid \<noteq> []" for org uid
    using that same [of org uid] unit_unknown_no_rows [OF ok, of org uid] known
    by (cases "(org, uid) = (unit_organization_id u, unit_id u)") auto
  have "unit_agrees (unit_status v) (holds_of t (unit_organization_id v) (unit_id v))
      (live_bookings t (unit_organization_id v) (unit_id v))" if v: "v \<in> set (units t)" for v
  proof (cases "v = u'")
    case True
    with agrees key show ?thesis by simp
  next
    case False
    with v units' key have "v \<in> set (units s)" "unit_id v \<noteq> unit_id u"
      by (auto simp: set_put_row split: if_splits)
    with inventory_okD(6) [OF ok, of v] same [of "unit_organization_id v" "unit_id v"] show ?thesis by simp
  qed
  moreover have "unit_known t (hold_organization_id h) (hold_unit_id h)"
    if "h \<in> set (unit_holds t)" "reserving (hold_status h)" for h
    using that by (intro rows) (auto simp: holds_of_def filter_empty_conv)
  moreover have "unit_known t (booking_organization_id b) (booking_unit_id b)"
    if "b \<in> set (bookings t)" "live (booking_status b)" for b
    using that by (intro rows) (auto simp: live_bookings_def filter_empty_conv)
  moreover have "distinct (map unit_id (units t))"
    using units' inventory_okD(1) [OF ok] by simp
  ultimately show ?thesis
    using ids slots by (simp add: inventory_ok_def list_all_iff)
qed

section \<open>The rows of a unit after one write\<close>

lemma holds_of_frame [simp]:
  "holds_of (put_unit u s) = holds_of s" "holds_of (put_booking b s) = holds_of s"
  "holds_of (add_booking b s) = holds_of s" "holds_of (add_audits as s) = holds_of s"
  by (simp_all add: fun_eq_iff holds_of_def put_unit_def put_booking_def add_booking_def add_audits_def)

lemma live_bookings_frame [simp]:
  "live_bookings (put_unit u s) = live_bookings s" "live_bookings (put_hold h s) = live_bookings s"
  "live_bookings (add_hold h s) = live_bookings s" "live_bookings (add_audits as s) = live_bookings s"
  by (simp_all add: fun_eq_iff live_bookings_def put_unit_def put_hold_def add_hold_def add_audits_def)

lemma put_sel [simp]:
  "units (put_unit u s) = put_row unit_id u (units s)" "unit_holds (put_unit u s) = unit_holds s"
  "bookings (put_unit u s) = bookings s"
  "units (put_hold h s) = units s" "unit_holds (put_hold h s) = put_row hold_id h (unit_holds s)"
  "bookings (put_hold h s) = bookings s"
  "units (put_booking b s) = units s" "unit_holds (put_booking b s) = unit_holds s"
  "bookings (put_booking b s) = put_row booking_id b (bookings s)"
  "units (add_hold h s) = units s" "unit_holds (add_hold h s) = unit_holds s @ [h]" "bookings (add_hold h s) = bookings s"
  "units (add_booking b s) = units s" "unit_holds (add_booking b s) = unit_holds s"
  "bookings (add_booking b s) = bookings s @ [b]"
  "units (add_audits as s) = units s" "unit_holds (add_audits as s) = unit_holds s"
  "bookings (add_audits as s) = bookings s" "customers (add_audits as s) = customers s"
  by (simp_all add: put_unit_def put_hold_def put_booking_def add_hold_def add_booking_def add_audits_def)

lemma holds_of_put:
  assumes "distinct (map hold_id (unit_holds s))" "holds_of s org uid = [h]" "hold_id h' = hold_id h"
    "hold_organization_id h' = org" "hold_unit_id h' = uid"
  shows "holds_of (put_hold h' s) o' i =
    (if (o', i) = (org, uid) then (if reserving (hold_status h') then [h'] else []) else holds_of s o' i)"
proof (cases "(o', i) = (org, uid)")
  case True
  with assms show ?thesis
    using filter_put_single [OF assms(2) [unfolded holds_of_def] assms(1) assms(3)]
    by (simp add: holds_of_def put_hold_def)
next
  case False
  have "h \<in> set (holds_of s org uid)" using assms(2) by simp
  then have h: "h \<in> set (unit_holds s)" "hold_organization_id h = org" "hold_unit_id h = uid"
    by (auto simp: holds_of_def)
  have "x = h" if "x \<in> set (unit_holds s)" "hold_id x = hold_id h'" for x
    using that h assms(1,3) by (metis distinct_map inj_onD)
  then have "filter (\<lambda>h. hold_organization_id h = o' \<and> hold_unit_id h = i \<and> reserving (hold_status h))
      (put_row hold_id h' (unit_holds s)) =
    filter (\<lambda>h. hold_organization_id h = o' \<and> hold_unit_id h = i \<and> reserving (hold_status h)) (unit_holds s)"
    using False assms(4,5) h by (intro filter_put_row_other) auto
  with False show ?thesis by (auto simp: holds_of_def put_hold_def)
qed

lemma live_bookings_put:
  assumes "distinct (map booking_id (bookings s))" "live_bookings s org uid = [b]" "booking_id b' = booking_id b"
    "booking_organization_id b' = org" "booking_unit_id b' = uid"
  shows "live_bookings (put_booking b' s) o' i =
    (if (o', i) = (org, uid) then (if live (booking_status b') then [b'] else []) else live_bookings s o' i)"
proof (cases "(o', i) = (org, uid)")
  case True
  with assms show ?thesis
    using filter_put_single [OF assms(2) [unfolded live_bookings_def] assms(1) assms(3)]
    by (simp add: live_bookings_def put_booking_def)
next
  case False
  have "b \<in> set (live_bookings s org uid)" using assms(2) by simp
  then have b: "b \<in> set (bookings s)" "booking_organization_id b = org" "booking_unit_id b = uid"
    by (auto simp: live_bookings_def)
  have "x = b" if "x \<in> set (bookings s)" "booking_id x = booking_id b'" for x
    using that b assms(1,3) by (metis distinct_map inj_onD)
  then have "filter (\<lambda>b. booking_organization_id b = o' \<and> booking_unit_id b = i \<and> live (booking_status b))
      (put_row booking_id b' (bookings s)) =
    filter (\<lambda>b. booking_organization_id b = o' \<and> booking_unit_id b = i \<and> live (booking_status b)) (bookings s)"
    using False assms(4,5) b by (intro filter_put_row_other) auto
  with False show ?thesis by (auto simp: live_bookings_def put_booking_def)
qed

lemma holds_of_add: "holds_of (add_hold h s) o' i = holds_of s o' i @
    (if (o', i) = (hold_organization_id h, hold_unit_id h) \<and> reserving (hold_status h) then [h] else [])"
  by (auto simp: holds_of_def add_hold_def)

lemma live_bookings_add: "live_bookings (add_booking b s) o' i = live_bookings s o' i @
    (if (o', i) = (booking_organization_id b, booking_unit_id b) \<and> live (booking_status b) then [b] else [])"
  by (auto simp: live_bookings_def add_booking_def)

lemma slots_put_hold: "inventory_ok s \<Longrightarrow> hold_slot_ok h \<Longrightarrow> list_all hold_slot_ok (unit_holds (put_hold h s))"
  by (auto simp: inventory_ok_def list_all_iff set_put_row)

lemma slots_put_booking:
  "inventory_ok s \<Longrightarrow> booking_slot_ok b \<Longrightarrow> list_all booking_slot_ok (bookings (put_booking b s))"
  by (auto simp: inventory_ok_def list_all_iff set_put_row)

lemma holds_ofD: "h \<in> set (holds_of s org uid) \<Longrightarrow>
    h \<in> set (unit_holds s) \<and> hold_organization_id h = org \<and> hold_unit_id h = uid \<and> reserving (hold_status h)"
  by (simp add: holds_of_def)

lemma live_bookingsD: "b \<in> set (live_bookings s org uid) \<Longrightarrow>
    b \<in> set (bookings s) \<and> booking_organization_id b = org \<and> booking_unit_id b = uid \<and> live (booking_status b)"
  by (simp add: live_bookings_def)

text \<open>The four writes of the workflow: a hold ends or is decided, a hold starts, a booking starts, a booking moves on.\<close>

lemma put_hold_unit_ok:
  assumes ok: "inventory_ok s" and u: "u \<in> set (units s)"
    and h: "h \<in> set (holds_of s (unit_organization_id u) (unit_id u))"
    and h': "hold_id h' = hold_id h" "hold_organization_id h' = hold_organization_id h"
      "hold_unit_id h' = hold_unit_id h" "hold_slot_ok h'"
    and key: "unit_id u' = unit_id u" "unit_organization_id u' = unit_organization_id u"
    and agrees: "unit_agrees (unit_status u') (if reserving (hold_status h') then [h'] else []) []"
  shows "inventory_ok (put_unit u' (put_hold h' s))"
proof -
  from unit_agrees_held [OF inventory_okD(6) [OF ok u] h]
  have hs: "holds_of s (unit_organization_id u) (unit_id u) = [h]"
    and bs: "live_bookings s (unit_organization_id u) (unit_id u) = []" by simp_all
  note put = holds_of_put [OF inventory_okD(2) [OF ok] hs h'(1)]
  from holds_ofD [OF h] h' have h'key: "hold_organization_id h' = unit_organization_id u" "hold_unit_id h' = unit_id u"
    by simp_all
  show ?thesis
  proof (rule unit_write_ok [OF ok u _ key])
    show "list_all hold_slot_ok (unit_holds (put_unit u' (put_hold h' s)))"
      using slots_put_hold [OF ok h'(4)] by simp
    show "list_all booking_slot_ok (bookings (put_unit u' (put_hold h' s)))"
      using ok by (simp add: inventory_ok_def)
  qed (use inventory_okD [OF ok] put [OF h'key] agrees bs in auto)
qed

lemma add_hold_unit_ok:
  assumes ok: "inventory_ok s" and u: "u \<in> set (units s)" and st: "unit_status u = Unit_AVAILABLE"
    and h: "hold_organization_id h = unit_organization_id u" "hold_unit_id h = unit_id u"
      "reserving (hold_status h)" "hold_slot_ok h" "id_free hold_id (hold_id h) (unit_holds s)"
    and key: "unit_id u' = unit_id u" "unit_organization_id u' = unit_organization_id u"
    and agrees: "unit_agrees (unit_status u') [h] []"
  shows "inventory_ok (put_unit u' (add_hold h s))"
proof -
  from inventory_okD(6) [OF ok u] st have none: "holds_of s (unit_organization_id u) (unit_id u) = []"
    "live_bookings s (unit_organization_id u) (unit_id u) = []" by simp_all
  show ?thesis
  proof (rule unit_write_ok [OF ok u _ key])
    show "distinct (map hold_id (unit_holds (put_unit u' (add_hold h s))))"
      using id_free_distinct [OF inventory_okD(2) [OF ok] h(5)] by simp
    show "list_all hold_slot_ok (unit_holds (put_unit u' (add_hold h s)))"
      using ok h(4) by (simp add: inventory_ok_def)
    show "list_all booking_slot_ok (bookings (put_unit u' (add_hold h s)))"
      using ok by (simp add: inventory_ok_def)
  qed (use inventory_okD(3) [OF ok] none agrees h in \<open>auto simp: holds_of_add\<close>)
qed

lemma add_booking_unit_ok:
  assumes ok: "inventory_ok s" and u: "u \<in> set (units s)"
    and none: "holds_of s (unit_organization_id u) (unit_id u) = []"
      "live_bookings s (unit_organization_id u) (unit_id u) = []"
    and b: "booking_organization_id b = unit_organization_id u" "booking_unit_id b = unit_id u"
      "live (booking_status b)" "booking_status b \<noteq> Booking_CONFIRMED" "booking_slot_ok b"
      "id_free booking_id (booking_id b) (bookings s)"
    and key: "unit_id u' = unit_id u" "unit_organization_id u' = unit_organization_id u"
    and st: "unit_status u' = Unit_BOOKING_INITIATED"
  shows "inventory_ok (add_booking b (put_unit u' s))"
proof (rule unit_write_ok [OF ok u _ key])
  show "distinct (map booking_id (bookings (add_booking b (put_unit u' s))))"
    using id_free_distinct [OF inventory_okD(3) [OF ok] b(6)] by simp
  show "list_all booking_slot_ok (bookings (add_booking b (put_unit u' s)))"
    using ok b(5) by (simp add: inventory_ok_def)
  show "list_all hold_slot_ok (unit_holds (add_booking b (put_unit u' s)))"
    using ok by (simp add: inventory_ok_def)
qed (use inventory_okD(2) [OF ok] none b st in \<open>auto simp: live_bookings_add booked_by_one_def\<close>)

lemma put_booking_unit_ok:
  assumes ok: "inventory_ok s" and u: "u \<in> set (units s)"
    and b: "b \<in> set (live_bookings s (unit_organization_id u) (unit_id u))"
    and b': "booking_id b' = booking_id b" "booking_organization_id b' = booking_organization_id b"
      "booking_unit_id b' = booking_unit_id b" "booking_slot_ok b'"
    and key: "unit_id u' = unit_id u" "unit_organization_id u' = unit_organization_id u"
    and agrees: "unit_agrees (unit_status u') [] (if live (booking_status b') then [b'] else [])"
  shows "inventory_ok (put_unit u' (put_booking b' s))"
proof -
  from unit_agrees_live [OF inventory_okD(6) [OF ok u] b]
  have bs: "live_bookings s (unit_organization_id u) (unit_id u) = [b]"
    and hs: "holds_of s (unit_organization_id u) (unit_id u) = []" by simp_all
  note put = live_bookings_put [OF inventory_okD(3) [OF ok] bs b'(1)]
  from live_bookingsD [OF b] b' have b'key: "booking_organization_id b' = unit_organization_id u"
    "booking_unit_id b' = unit_id u" by simp_all
  show ?thesis
  proof (rule unit_write_ok [OF ok u _ key])
    show "list_all booking_slot_ok (bookings (put_unit u' (put_booking b' s)))"
      using slots_put_booking [OF ok b'(4)] by simp
    show "list_all hold_slot_ok (unit_holds (put_unit u' (put_booking b' s)))"
      using ok by (simp add: inventory_ok_def)
  qed (use inventory_okD [OF ok] put [OF b'key] agrees hs in auto)
qed

section \<open>Every operation keeps the invariant\<close>

lemma expired_hold_sel [simp]:
  "hold_id (expired_hold e h) = hold_id h" "hold_organization_id (expired_hold e h) = hold_organization_id h"
  "hold_unit_id (expired_hold e h) = hold_unit_id h" "hold_status (expired_hold e h) = Hold_EXPIRED"
  "hold_slot_ok (expired_hold e h)"
  by (simp_all add: expired_hold_def hold_slot_ok_def)

lemma released_unit_sel [simp]:
  "unit_id (released_unit u) = unit_id u" "unit_organization_id (released_unit u) = unit_organization_id u"
  "held_status (unit_status u) \<Longrightarrow> unit_status (released_unit u) = Unit_AVAILABLE"
  by (simp_all add: released_unit_def)

lemma mark_hold_expired_unfold:
  "\<exists>as k' rs m. mark_hold_expired e k ctx u h s =
     queue_in_app e k' (unit_organization_id u) rs m None None
       (add_audits as (put_unit (released_unit u) (put_hold (expired_hold e h) s)))"
  by (simp add: mark_hold_expired_def Let_def) blast

lemma queue_in_app_sel [simp]:
  "units (queue_in_app e k org rs m d sch s) = units s" "unit_holds (queue_in_app e k org rs m d sch s) = unit_holds s"
  "bookings (queue_in_app e k org rs m d sch s) = bookings s"
  by (simp_all add: queue_in_app_def)

lemma mark_hold_expired_sel [simp]:
  "units (mark_hold_expired e k ctx u h s) = put_row unit_id (released_unit u) (units s)"
  "unit_holds (mark_hold_expired e k ctx u h s) = put_row hold_id (expired_hold e h) (unit_holds s)"
  "bookings (mark_hold_expired e k ctx u h s) = bookings s"
  by (simp_all add: mark_hold_expired_def Let_def)

lemma mark_hold_expired_ok:
  assumes "inventory_ok s" "u \<in> set (units s)" "h \<in> set (holds_of s (unit_organization_id u) (unit_id u))"
  shows "inventory_ok (mark_hold_expired e k ctx u h s)"
proof -
  from unit_agrees_held [OF inventory_okD(6) [OF assms(1,2)] assms(3)]
  have "held_status (unit_status u)" by simp
  then have "inventory_ok (put_unit (released_unit u) (put_hold (expired_hold e h) s))"
    by (intro put_hold_unit_ok [OF assms]) simp_all
  moreover obtain as k' rs m where "mark_hold_expired e k ctx u h s =
      queue_in_app e k' (unit_organization_id u) rs m None None
        (add_audits as (put_unit (released_unit u) (put_hold (expired_hold e h) s)))"
    using mark_hold_expired_unfold by blast
  ultimately show ?thesis by simp
qed

lemma expire_hold_alt:
  "expire_hold e k ctx u s =
     (case first_row (holds_of s (unit_organization_id u) (unit_id u)) of
        None \<Rightarrow> (s, u, None)
      | Some h \<Rightarrow>
          if hold_expires_at h \<le> now e then (mark_hold_expired e k ctx u h s, released_unit u, None)
          else (s, u, Some h))"
  by (simp add: expire_hold_def holds_of_def)

text \<open>
  The locked unit and its hold after \<^verbatim>\<open>_expire_hold\<close>: either a hold that is not due and still
  reserves the unit, or no reserving hold at all.
\<close>

lemma expire_hold_cases:
  assumes "expire_hold e k ctx u s = (t, u', current)"
  obtains (held) h where "current = Some h" "t = s" "u' = u" "now e < hold_expires_at h"
      "h \<in> set (holds_of s (unit_organization_id u) (unit_id u))"
    | (vacant) "current = None" "t = s" "u' = u" "holds_of s (unit_organization_id u) (unit_id u) = []"
    | (expired) h where "current = None" "u' = released_unit u" "t = mark_hold_expired e k ctx u h s"
      "h \<in> set (holds_of s (unit_organization_id u) (unit_id u))" "hold_expires_at h \<le> now e"
proof (cases "first_row (holds_of s (unit_organization_id u) (unit_id u))")
  case None
  with assms have "current = None" "t = s" "u' = u" by (simp_all add: expire_hold_alt)
  with None vacant show thesis by simp
next
  case (Some h)
  then have h: "h \<in> set (holds_of s (unit_organization_id u) (unit_id u))" by (rule first_row_set)
  show thesis
  proof (cases "hold_expires_at h \<le> now e")
    case True
    with Some assms have "current = None" "u' = released_unit u" "t = mark_hold_expired e k ctx u h s"
      by (simp_all add: expire_hold_alt)
    then show thesis using h True by (rule expired)
  next
    case False
    with Some assms have "current = Some h" "t = s" "u' = u" by (simp_all add: expire_hold_alt)
    with h False show thesis by (intro held) simp_all
  qed
qed

lemma expire_hold_ok:
  assumes "expire_hold e k ctx u s = (t, u', current)" "inventory_ok s" "u \<in> set (units s)"
  shows "inventory_ok t" and "u' \<in> set (units t)" and "unit_id u' = unit_id u"
    and "unit_organization_id u' = unit_organization_id u" and "bookings t = bookings s"
    and "map hold_id (unit_holds t) = map hold_id (unit_holds s)"
    and "case current of None \<Rightarrow> holds_of t (unit_organization_id u) (unit_id u) = []
      | Some h \<Rightarrow> h \<in> set (holds_of t (unit_organization_id u) (unit_id u)) \<and> now e < hold_expires_at h"
proof -
  have vacated: "holds_of (mark_hold_expired e k ctx u h s) (unit_organization_id u) (unit_id u) = []"
    if h: "h \<in> set (holds_of s (unit_organization_id u) (unit_id u))" for h
  proof -
    from unit_agrees_held [OF inventory_okD(6) [OF assms(2,3)] h]
    have "holds_of s (unit_organization_id u) (unit_id u) = [h]" by simp
    from holds_of_put [OF inventory_okD(2) [OF assms(2)] this, of "expired_hold e h"] holds_ofD [OF h]
    show ?thesis by (simp add: holds_of_def)
  qed
  have all: "inventory_ok t \<and> u' \<in> set (units t) \<and> unit_id u' = unit_id u \<and>
    unit_organization_id u' = unit_organization_id u \<and> bookings t = bookings s \<and>
    map hold_id (unit_holds t) = map hold_id (unit_holds s) \<and>
    (case current of None \<Rightarrow> holds_of t (unit_organization_id u) (unit_id u) = []
      | Some h \<Rightarrow> h \<in> set (holds_of t (unit_organization_id u) (unit_id u)) \<and> now e < hold_expires_at h)"
  proof (cases rule: expire_hold_cases [OF assms(1), case_names held vacant expired])
    case (expired h)
    moreover have "released_unit u \<in> set (units (mark_hold_expired e k ctx u h s))"
      using assms(3) by (force simp: set_put_row)
    ultimately show ?thesis
      using vacated mark_hold_expired_ok [OF assms(2,3)] by simp
  qed (use assms in simp_all)
  from all show "inventory_ok t" and "u' \<in> set (units t)" and "unit_id u' = unit_id u"
    and "unit_organization_id u' = unit_organization_id u" and "bookings t = bookings s"
    and "map hold_id (unit_holds t) = map hold_id (unit_holds s)"
    and "case current of None \<Rightarrow> holds_of t (unit_organization_id u) (unit_id u) = []
      | Some h \<Rightarrow> h \<in> set (holds_of t (unit_organization_id u) (unit_id u)) \<and> now e < hold_expires_at h"
    by blast+
qed

lemma due_hold_row:
  assumes "distinct (map hold_id (unit_holds s))" "find (\<lambda>h. hold_id h = i) (unit_holds s) = Some c"
    and "find_unit s (hold_organization_id c) (hold_unit_id c) = Some u"
    and "find (\<lambda>h. hold_organization_id h = hold_organization_id c \<and> hold_id h = i \<and> hold_due e h) (unit_holds s) = Some h"
  shows "u \<in> set (units s) \<and> h = c \<and> hold_due e h \<and> h \<in> set (holds_of s (unit_organization_id u) (unit_id u))"
proof -
  from assms(2,4) have "c \<in> set (unit_holds s)" "hold_id c = i" "h \<in> set (unit_holds s)" "hold_id h = i" "hold_due e h"
    by (auto dest!: find_SomeD)
  moreover from this assms(1) have "h = c" by (metis distinct_map inj_onD)
  moreover from assms(3) have "u \<in> set (units s)" "unit_organization_id u = hold_organization_id c" "unit_id u = hold_unit_id c"
    by (auto dest: entityD)
  ultimately show ?thesis by (simp add: holds_of_def hold_due_def)
qed

text \<open>
  An invariant of the expiry loop: it is enough that expiring one due hold of its unit keeps it.
\<close>

lemma expire_candidates_invariant:
  assumes "expire_candidates e k ctx ids s n = Inr (t, m)" "P s"
    and step: "\<And>s k i c u h. P s \<Longrightarrow> find (\<lambda>h. hold_id h = i) (unit_holds s) = Some c \<Longrightarrow>
      find_unit s (hold_organization_id c) (hold_unit_id c) = Some u \<Longrightarrow>
      find (\<lambda>h. hold_organization_id h = hold_organization_id c \<and> hold_id h = i \<and> hold_due e h) (unit_holds s) = Some h \<Longrightarrow>
      P (mark_hold_expired e k ctx u h s)"
  shows "P t"
  using assms(1,2)
proof (induction ids arbitrary: k s n)
  case (Cons i ids)
  show ?case
  proof (cases "find (\<lambda>h. hold_id h = i) (unit_holds s)")
    case None
    with Cons show ?thesis by simp
  next
    case (Some c)
    show ?thesis
    proof (cases "find_unit s (hold_organization_id c) (hold_unit_id c)")
      case None
      with Some Cons.prems show ?thesis by simp
    next
      case u: (Some u)
      show ?thesis
      proof (cases "find (\<lambda>h. hold_organization_id h = hold_organization_id c \<and> hold_id h = i \<and> hold_due e h) (unit_holds s)")
        case None
        with Some u Cons show ?thesis by simp
      next
        case h: (Some h)
        with Some u Cons.prems have "expire_candidates e (k + 2) ctx ids (mark_hold_expired e k ctx u h s) (n + 1) = Inr (t, m)"
          by simp
        then show ?thesis using step [OF Cons.prems(2) Some u h] by (rule Cons.IH)
      qed
    qed
  qed
qed simp

lemma expire_candidates_ok:
  assumes "expire_candidates e k ctx ids s n = Inr (t, m)" "inventory_ok s"
  shows "inventory_ok t"
  using assms by (rule expire_candidates_invariant) (blast dest: due_hold_row [OF inventory_okD(2)] intro: mark_hold_expired_ok)

lemma expire_due_holds_ok: "inventory_ok s \<Longrightarrow> inventory_ok (committed (expire_due_holds e k org limit ctx s))"
  by (auto simp: expire_due_holds_def split: sum.splits intro: expire_candidates_ok)

lemma unit_views_ok: "inventory_ok s \<Longrightarrow> inventory_ok (committed (unit_views e k org us s))"
  using expire_due_holds_ok [of s e k "Some org" 200 None]
  by (auto simp: unit_views_def split: outcome.splits)

lemma single_unit_view_ok: "inventory_ok s \<Longrightarrow> inventory_ok (committed (single_unit_view e k org u s))"
  using unit_views_ok [of s e k org "[u]"] by (auto simp: single_unit_view_def split: outcome.splits list.splits)

lemmas inventory_ok_intros = outcome_intros [where P = inventory_ok]

lemma find_unitD: "find_unit s org uid = Some u \<Longrightarrow> u \<in> set (units s) \<and> unit_organization_id u = org \<and> unit_id u = uid"
  by (rule entityD)

lemma create_hold_keeps:
  assumes ok: "inventory_ok s" and fresh: "id_free hold_id (uuid e 2) (unit_holds s)"
  shows "inventory_ok (committed (create_hold e ctx org uid p s))"
  unfolding create_hold_def
proof (rule fetch_final [where P = inventory_ok, OF ok], goal_cases)
  case (1 u0)
  obtain t u current where x: "expire_hold e 0 (Some ctx) u0 s = (t, u, current)" by (metis prod_cases3)
  from find_unitD [OF 1] have u0: "u0 \<in> set (units s)" "unit_organization_id u0 = org" by simp_all
  note t = expire_hold_ok [OF x ok u0(1)]
  have free: "id_free hold_id (uuid e 2) (unit_holds t)"
    using fresh t(6) by (simp add: id_free_def list_all_iff) (metis (no_types) image_eqI image_set imageE)
  show ?case unfolding x Let_def prod.case
    by (intro inventory_ok_intros ok, unfold inventory_ok_add_audits, rule add_hold_unit_ok [OF t(1,2)])
      (use free t u0 in \<open>auto simp: new_hold_def hold_slot_ok_def intro: unit_agrees_hold_type\<close>)
qed

lemma decided_hold_sel [simp]:
  "hold_id (decided_hold e ctx p h) = hold_id h"
  "hold_organization_id (decided_hold e ctx p h) = hold_organization_id h"
  "hold_unit_id (decided_hold e ctx p h) = hold_unit_id h"
  "hold_hold_type (decided_hold e ctx p h) = hold_hold_type h"
  "hold_status (decided_hold e ctx p h) = (if hd_status p = Decision_APPROVED then Hold_ACTIVE else Hold_REJECTED)"
  "hold_active_unit_key (decided_hold e ctx p h) =
     (if hd_status p = Decision_APPROVED then hold_active_unit_key h else None)"
  by (simp_all add: decided_hold_def Let_def split: decision.split)

lemma unit_agrees_same_type:
  "unit_agrees st [h] [] \<Longrightarrow> hold_hold_type h' = hold_hold_type h \<Longrightarrow> unit_agrees st [h'] []"
  by (cases st) (auto simp: held_by_one_def booked_by_one_def)

lemma decide_hold_keeps:
  assumes ok: "inventory_ok s"
  shows "inventory_ok (committed (decide_hold e ctx org hid p s))"
  unfolding decide_hold_def
proof (rule fetch_final [where P = inventory_ok, OF ok], rule fetch_final [where P = inventory_ok, OF ok], goal_cases)
  case (1 candidate u0)
  obtain t u current where x: "expire_hold e 0 (Some ctx) u0 s = (t, u, current)" by (metis prod_cases3)
  from find_unitD [OF 1(2)] have u0: "u0 \<in> set (units s)" by simp
  note t = expire_hold_ok [OF x ok u0]
  have put: "inventory_ok (put_unit (if hd_status p = Decision_APPROVED then u else u\<lparr>unit_status := Unit_AVAILABLE\<rparr>)
      (put_hold (decided_hold e ctx p h) t))" if "current = Some h" for h
  proof -
    from that t have h: "h \<in> set (holds_of t (unit_organization_id u) (unit_id u))" by simp
    note row = holds_ofD [OF h]
    from unit_agrees_held [OF inventory_okD(6) [OF t(1,2)] h] inventory_okD(6) [OF t(1,2)]
    have "unit_agrees (unit_status u) [h] []" by simp
    then have "unit_agrees (unit_status u) [decided_hold e ctx p h] []"
      by (rule unit_agrees_same_type) simp
    then show ?thesis
      by (intro put_hold_unit_ok [OF t(1,2) h])
        (use row inventory_okD(4) [OF t(1), of h] in \<open>auto simp: hold_slot_ok_def\<close>)
  qed
  show ?case unfolding x Let_def prod.case
    by (intro inventory_ok_intros ok t(1), unfold inventory_ok_add_audits, rule put) (auto split: option.splits if_splits)
qed

lemma release_hold_keeps:
  assumes ok: "inventory_ok s"
  shows "inventory_ok (committed (release_hold e ctx org uid reason s))"
  unfolding release_hold_def
proof (rule fetch_final [where P = inventory_ok, OF ok], goal_cases)
  case (1 u0)
  obtain t u current where x: "expire_hold e 0 (Some ctx) u0 s = (t, u, current)" by (metis prod_cases3)
  from find_unitD [OF 1] have u0: "u0 \<in> set (units s)" by simp
  note t = expire_hold_ok [OF x ok u0]
  show ?case unfolding x Let_def prod.case
  proof (rule fetch_final [where P = inventory_ok, OF t(1)], rule single_unit_view_ok, unfold inventory_ok_add_audits, goal_cases)
    case (1 h)
    with t have h: "h \<in> set (holds_of t (unit_organization_id u) (unit_id u))" by simp
    show ?case by (rule put_hold_unit_ok [OF t(1,2) h]) (use holds_ofD [OF h] in \<open>simp_all add: hold_slot_ok_def\<close>)
  qed
qed

lemma converted_hold_sel [simp]:
  "hold_id (converted_hold e h) = hold_id h" "hold_organization_id (converted_hold e h) = hold_organization_id h"
  "hold_unit_id (converted_hold e h) = hold_unit_id h" "hold_status (converted_hold e h) = Hold_CONVERTED"
  "hold_slot_ok (converted_hold e h)"
  by (simp_all add: converted_hold_def hold_slot_ok_def)

text \<open>
  A unit passes from its hold to a new booking in one transaction: the hold ends and the booking
  enters while the status moves to \<^verbatim>\<open>BOOKING_INITIATED\<close>. Both booking services rest on this.
\<close>

lemma hold_to_booking_ok:
  assumes ok: "inventory_ok s" and u: "u \<in> set (units s)"
    and current: "case current of None \<Rightarrow> unit_status u = Unit_AVAILABLE
      | Some h \<Rightarrow> h \<in> set (holds_of s (unit_organization_id u) (unit_id u))"
    and b: "booking_organization_id b = unit_organization_id u" "booking_unit_id b = unit_id u"
      "live (booking_status b)" "booking_status b \<noteq> Booking_CONFIRMED" "booking_slot_ok b"
      "id_free booking_id (booking_id b) (bookings s)"
  shows "inventory_ok (add_booking b (put_unit (u\<lparr>unit_status := Unit_BOOKING_INITIATED\<rparr>)
    (case current of None \<Rightarrow> s | Some h \<Rightarrow> put_hold (converted_hold e h) s)))"
proof (cases current)
  case None
  with current inventory_okD(6) [OF ok u] show ?thesis
    using add_booking_unit_ok [OF ok u _ _ b] by simp
next
  case (Some h)
  with current have h: "h \<in> set (holds_of s (unit_organization_id u) (unit_id u))" by simp
  define u1 where "u1 = u\<lparr>unit_status := Unit_AVAILABLE\<rparr>"
  define s1 where "s1 = put_unit u1 (put_hold (converted_hold e h) s)"
  have ok1: "inventory_ok s1" unfolding s1_def
    by (rule put_hold_unit_ok [OF ok u h]) (simp_all add: u1_def)
  have in1: "u1 \<in> set (units s1)" using u by (force simp: s1_def u1_def set_put_row)
  have "inventory_ok (add_booking b (put_unit (u\<lparr>unit_status := Unit_BOOKING_INITIATED\<rparr>) s1))"
    by (rule add_booking_unit_ok [OF ok1 in1])
      (use b inventory_okD(6) [OF ok1 in1] in \<open>simp_all add: u1_def s1_def\<close>)
  moreover have "put_unit (u\<lparr>unit_status := Unit_BOOKING_INITIATED\<rparr>) s1 =
      put_unit (u\<lparr>unit_status := Unit_BOOKING_INITIATED\<rparr>) (put_hold (converted_hold e h) s)"
    by (auto simp: s1_def u1_def put_unit_def put_row_def)
  ultimately show ?thesis using Some by simp
qed

lemma convert_hold_ok:
  "inventory_ok (add_booking b (put_unit u (convert_hold e k org ctx n current s))) =
   inventory_ok (add_booking b (put_unit u (case current of None \<Rightarrow> s | Some h \<Rightarrow> put_hold (converted_hold e h) s)))"
  by (rule inventory_ok_frame) (simp_all add: convert_hold_def split: option.splits)

lemma initiated_booking_sel [simp]:
  "booking_id (initiated_booking e i org ctx u p) = i"
  "booking_organization_id (initiated_booking e i org ctx u p) = org"
  "booking_unit_id (initiated_booking e i org ctx u p) = unit_id u"
  "booking_status (initiated_booking e i org ctx u p) = Booking_DRAFT"
  "booking_slot_ok (initiated_booking e i org ctx u p)"
  by (simp_all add: initiated_booking_def booking_slot_ok_def)

lemma initiate_booking_keeps:
  assumes ok: "inventory_ok s" and fresh: "id_free booking_id (uuid e 3) (bookings s)"
  shows "inventory_ok (committed (initiate_booking e ctx org uid p s))"
  unfolding initiate_booking_def
proof (rule fetch_final [where P = inventory_ok, OF ok], goal_cases)
  case (1 u0)
  obtain t u current where x: "expire_hold e 0 (Some ctx) u0 s = (t, u, current)" by (metis prod_cases3)
  from find_unitD [OF 1] have u0: "u0 \<in> set (units s)" "unit_organization_id u0 = org" by simp_all
  note t = expire_hold_ok [OF x ok u0(1)]
  have "unit_status u = Unit_AVAILABLE" if "bookable (unit_status u)" "current = None"
    using that t inventory_okD(6) [OF t(1,2)] by (auto simp: bookable_def dest: unit_agrees_held_status)
  then have row: "case current of None \<Rightarrow> unit_status u = Unit_AVAILABLE
      | Some h \<Rightarrow> h \<in> set (holds_of t (unit_organization_id u) (unit_id u))" if "bookable (unit_status u)"
    using that t by (auto split: option.splits)
  show ?case unfolding x Let_def prod.case
    by (intro inventory_ok_intros ok, unfold outcome.sel inventory_ok_add_audits convert_hold_ok,
        rule hold_to_booking_ok [OF t(1,2) row]) (use fresh t u0 in simp_all)
qed

lemma find_bookingD:
  "find_booking s org i = Some b \<Longrightarrow> b \<in> set (bookings s) \<and> booking_organization_id b = org \<and> booking_id b = i"
  by (rule entityD)

text \<open>
  The cancellation keeps the invariant for a booking that is still live. For a rejected one it
  does not: the unit may meanwhile be held or booked again.
\<close>

lemma transition_booking_keeps:
  assumes ok: "inventory_ok s" and live: "\<And>b. find_booking s org bid = Some b \<Longrightarrow> live (booking_status b)"
  shows "inventory_ok (committed (transition_booking e ctx org bid target s))"
  unfolding transition_booking_def
proof (rule fetch_final [where P = inventory_ok, OF ok], rule fetch_final [where P = inventory_ok, OF ok], goal_cases)
  case (1 b u)
  from find_bookingD [OF 1(1)] live [OF 1(1)] find_unitD [OF 1(2)]
  have u: "u \<in> set (units s)" and b: "b \<in> set (live_bookings s (unit_organization_id u) (unit_id u))"
    and key: "booking_unit_id b = unit_id u"
    by (simp_all add: live_bookings_def)
  note put = put_booking_unit_ok [OF ok u b]
  show ?case unfolding Let_def
    by (intro inventory_ok_intros ok, unfold outcome.sel inventory_ok_add_audits)
      ((rule put; simp add: booked_by_one_def booking_slot_ok_def key)+, rule ok)
qed

lemma transition_unit_status_keeps:
  assumes ok: "inventory_ok s"
  shows "inventory_ok (committed (transition_unit_status e ctx org uid target s))"
  unfolding transition_unit_status_def
proof (rule fetch_final [where P = inventory_ok, OF ok], goal_cases)
  case (1 u)
  from find_unitD [OF 1] have u: "u \<in> set (units s)" by simp
  have "inventory_ok (put_unit (u\<lparr>unit_status := target\<rparr>) s)" if "allowed_transition (unit_status u) target"
    by (rule unit_write_ok [OF ok u, where u' = "u\<lparr>unit_status := target\<rparr>"])
      (use that inventory_okD [OF ok] inventory_okD(6) [OF ok u] in \<open>auto simp: allowed_transition_def list_all_iff\<close>)
  then show ?case unfolding Let_def
    by (intro inventory_ok_intros ok single_unit_view_ok) simp
qed

end
