(* ===== verification/Unit_Keys.thy ===== *)
theory Unit_Keys
  imports Inventory_Safety
begin

text \<open>
  What no request can break: the primary keys of units, holds and bookings, and the two unique columns
  \<^verbatim>\<open>active_unit_key\<close>, each set in exactly the rows that reserve the unit. The status of the units plays no
  part in it, so this invariant is weaker than the one of \<open>Inventory_Safety\<close> and outlives the one request
  that breaks that one.
\<close>

section \<open>The invariant\<close>

definition unit_keys_ok :: "database \<Rightarrow> bool" where
  "unit_keys_ok s \<longleftrightarrow>
     distinct (map unit_id (units s)) \<and> distinct (map hold_id (unit_holds s)) \<and>
     distinct (map booking_id (bookings s)) \<and>
     list_all hold_slot_ok (unit_holds s) \<and> list_all booking_slot_ok (bookings s) \<and>
     exclusive hold_organization_id hold_active_unit_key (unit_holds s) \<and>
     exclusive booking_organization_id booking_active_unit_key (bookings s)"

lemma unit_keys_okD:
  assumes "unit_keys_ok s"
  shows "distinct (map unit_id (units s))" "distinct (map hold_id (unit_holds s))"
    "distinct (map booking_id (bookings s))"
    "h \<in> set (unit_holds s) \<Longrightarrow> hold_slot_ok h" "b \<in> set (bookings s) \<Longrightarrow> booking_slot_ok b"
    "exclusive hold_organization_id hold_active_unit_key (unit_holds s)"
    "exclusive booking_organization_id booking_active_unit_key (bookings s)"
  using assms by (simp_all add: unit_keys_ok_def list_all_iff)

lemma unit_keys_ok_frame:
  "units t = units s \<Longrightarrow> unit_holds t = unit_holds s \<Longrightarrow> bookings t = bookings s \<Longrightarrow> unit_keys_ok t = unit_keys_ok s"
  by (simp add: unit_keys_ok_def)

lemmas keys_frame = unit_keys_ok_frame [THEN iffD2]

lemma unit_keys_ok_writes [simp]:
  "unit_keys_ok (add_audits as s) = unit_keys_ok s" "unit_keys_ok (queue_in_app e k org rs m d sch s) = unit_keys_ok s"
  by (rule unit_keys_ok_frame; simp)+

lemma exclusiveI:
  assumes "distinct rows"
    and "\<And>x y k. x \<in> set rows \<Longrightarrow> y \<in> set rows \<Longrightarrow> org_of x = org_of y \<Longrightarrow> slot x = Some k \<Longrightarrow> slot y = Some k \<Longrightarrow> x = y"
  shows "exclusive org_of slot rows"
  using assms
proof (induction rows)
  case (Cons r rows)
  have "exclusive org_of slot rows" using Cons.prems by (intro Cons.IH) auto
  moreover have "(org_of r, k) \<notin> set (slots org_of slot rows)" if "slot r = Some k" for k
  proof
    assume "(org_of r, k) \<in> set (slots org_of slot rows)"
    then obtain x where x: "x \<in> set rows" "org_of x = org_of r" "slot x = Some k" by (auto simp: set_slots)
    with Cons.prems(2) [of x r k] that have "x = r" by simp
    with x(1) Cons.prems(1) show False by simp
  qed
  ultimately show ?case by (auto simp: exclusive_def slots_Cons split: option.split)
qed (simp add: exclusive_def)

text \<open>The unique columns allow one reserving hold and one live booking of a unit.\<close>

lemma at_most_one: "distinct xs \<Longrightarrow> (\<And>x y. x \<in> set xs \<Longrightarrow> y \<in> set xs \<Longrightarrow> x = y) \<Longrightarrow> length xs \<le> Suc 0"
  using card_le_Suc0_iff_eq [of "set xs"] by (simp add: distinct_card [symmetric])

lemma unit_keys_ok_one_hold:
  assumes "unit_keys_ok s" shows "length (holds_of s org uid) \<le> 1"
proof -
  have "distinct (unit_holds s)" using unit_keys_okD(2) [OF assms] by (simp add: distinct_map)
  then have "distinct (holds_of s org uid)" by (simp add: holds_of_def)
  moreover have "h = g" if h: "h \<in> set (holds_of s org uid)" and g: "g \<in> set (holds_of s org uid)" for h g
    by (rule exclusive_unique [OF unit_keys_okD(6) [OF assms], of h g uid])
      (use holds_ofD [OF h] holds_ofD [OF g] unit_keys_okD(4) [OF assms, of h] unit_keys_okD(4) [OF assms, of g]
        in \<open>simp_all add: hold_slot_ok_def\<close>)
  ultimately show ?thesis using at_most_one by fastforce
qed

lemma unit_keys_ok_one_booking:
  assumes "unit_keys_ok s" shows "length (live_bookings s org uid) \<le> 1"
proof -
  have "distinct (bookings s)" using unit_keys_okD(3) [OF assms] by (simp add: distinct_map)
  then have "distinct (live_bookings s org uid)" by (simp add: live_bookings_def)
  moreover have "b = c" if b: "b \<in> set (live_bookings s org uid)" and c: "c \<in> set (live_bookings s org uid)" for b c
    by (rule exclusive_unique [OF unit_keys_okD(7) [OF assms], of b c uid])
      (use live_bookingsD [OF b] live_bookingsD [OF c] unit_keys_okD(5) [OF assms, of b] unit_keys_okD(5) [OF assms, of c]
        in \<open>simp_all add: booking_slot_ok_def\<close>)
  ultimately show ?thesis using at_most_one by fastforce
qed

lemma inventory_unit_keys_ok:
  assumes "inventory_ok s" shows "unit_keys_ok s"
proof -
  have "h = g" if "h \<in> set (unit_holds s)" "g \<in> set (unit_holds s)" "hold_organization_id h = hold_organization_id g"
    "hold_active_unit_key h = Some k" "hold_active_unit_key g = Some k" for h g k
  proof -
    from that inventory_okD(4) [OF assms] have r: "reserving (hold_status h)" "hold_unit_id h = k"
      "reserving (hold_status g)" "hold_unit_id g = k" by (auto simp: hold_slot_ok_def split: if_splits)
    from inventory_okD(7) [OF assms that(1) r(1)] obtain u where u: "u \<in> set (units s)"
      "unit_organization_id u = hold_organization_id h" "unit_id u = hold_unit_id h" by blast
    with that r have "h \<in> set (holds_of s (unit_organization_id u) (unit_id u))"
      "g \<in> set (holds_of s (unit_organization_id u) (unit_id u))" by (simp_all add: holds_of_def)
    with unit_agrees_held [OF inventory_okD(6) [OF assms u(1)]] show ?thesis by fastforce
  qed
  moreover have "b = c" if "b \<in> set (bookings s)" "c \<in> set (bookings s)"
    "booking_organization_id b = booking_organization_id c"
    "booking_active_unit_key b = Some k" "booking_active_unit_key c = Some k" for b c k
  proof -
    from that inventory_okD(5) [OF assms] have r: "live (booking_status b)" "booking_unit_id b = k"
      "live (booking_status c)" "booking_unit_id c = k" by (auto simp: booking_slot_ok_def split: if_splits)
    from inventory_okD(8) [OF assms that(1) r(1)] obtain u where u: "u \<in> set (units s)"
      "unit_organization_id u = booking_organization_id b" "unit_id u = booking_unit_id b" by blast
    with that r have "b \<in> set (live_bookings s (unit_organization_id u) (unit_id u))"
      "c \<in> set (live_bookings s (unit_organization_id u) (unit_id u))" by (simp_all add: live_bookings_def)
    with unit_agrees_live [OF inventory_okD(6) [OF assms u(1)]] show ?thesis by fastforce
  qed
  moreover have "distinct (unit_holds s)" "distinct (bookings s)"
    using inventory_okD(2,3) [OF assms] by (simp_all add: distinct_map)
  ultimately show ?thesis
    using assms by (simp add: unit_keys_ok_def inventory_ok_def) (blast intro: exclusiveI)
qed

section \<open>The writes\<close>

lemma keys_put_unit [simp]: "unit_keys_ok (put_unit u s) = unit_keys_ok s"
  by (simp add: unit_keys_ok_def)

lemma keys_put_hold:
  assumes ok: "unit_keys_ok s" and h: "h \<in> set (unit_holds s)" and h': "hold_id h' = hold_id h"
    "hold_organization_id h' = hold_organization_id h" "hold_slot_ok h'"
    "hold_active_unit_key h' = hold_active_unit_key h \<or> hold_active_unit_key h' = None"
  shows "unit_keys_ok (put_hold h' s)"
proof -
  have "exclusive hold_organization_id hold_active_unit_key (put_row hold_id h' (unit_holds s))"
  proof (rule exclusive_put_row [OF unit_keys_okD(6) [OF ok]])
    fix x assume "x \<in> set (unit_holds s)" "hold_id x = hold_id h'"
    with h h'(1) unit_keys_okD(2) [OF ok] have "x = h" by (metis distinct_map inj_onD)
    with h' show "hold_organization_id h' = hold_organization_id x \<and>
      (hold_active_unit_key h' = hold_active_unit_key x \<or> hold_active_unit_key h' = None)" by simp
  qed
  with ok h'(3) show ?thesis by (auto simp: unit_keys_ok_def list_all_iff set_put_row)
qed

lemma keys_put_booking:
  assumes ok: "unit_keys_ok s" and b: "b \<in> set (bookings s)" and b': "booking_id b' = booking_id b"
    "booking_organization_id b' = booking_organization_id b" "booking_slot_ok b'"
    "booking_active_unit_key b' = booking_active_unit_key b \<or> booking_active_unit_key b' = None"
  shows "unit_keys_ok (put_booking b' s)"
proof -
  have "exclusive booking_organization_id booking_active_unit_key (put_row booking_id b' (bookings s))"
  proof (rule exclusive_put_row [OF unit_keys_okD(7) [OF ok]])
    fix x assume "x \<in> set (bookings s)" "booking_id x = booking_id b'"
    with b b'(1) unit_keys_okD(3) [OF ok] have "x = b" by (metis distinct_map inj_onD)
    with b' show "booking_organization_id b' = booking_organization_id x \<and>
      (booking_active_unit_key b' = booking_active_unit_key x \<or> booking_active_unit_key b' = None)" by simp
  qed
  with ok b'(3) show ?thesis by (auto simp: unit_keys_ok_def list_all_iff set_put_row)
qed

lemma keys_put_live_booking:
  assumes "unit_keys_ok s" "b \<in> set (bookings s)" "live (booking_status b)" "booking_id b' = booking_id b"
    "booking_organization_id b' = booking_organization_id b" "booking_unit_id b' = booking_unit_id b"
    "booking_active_unit_key b' = booking_active_unit_key b" "live (booking_status b')"
  shows "unit_keys_ok (put_booking b' s)"
  by (rule keys_put_booking [OF assms(1,2)])
    (use assms unit_keys_okD(5) [OF assms(1,2)] in \<open>simp_all add: booking_slot_ok_def\<close>)

lemma keys_add_hold:
  assumes "unit_keys_ok s" "hold_slot_ok h" "id_free hold_id (hold_id h) (unit_holds s)"
    and "slot_free hold_organization_id hold_active_unit_key (hold_organization_id h) (hold_unit_id h) (unit_holds s)"
  shows "unit_keys_ok (add_hold h s)"
  using assms exclusive_insert [of hold_organization_id hold_active_unit_key "unit_holds s" h]
    id_free_distinct [of hold_id "unit_holds s" h]
  by (auto simp: unit_keys_ok_def hold_slot_ok_def split: if_splits)

lemma keys_add_booking:
  assumes "unit_keys_ok s" "booking_slot_ok b" "id_free booking_id (booking_id b) (bookings s)"
    and "slot_free booking_organization_id booking_active_unit_key (booking_organization_id b) (booking_unit_id b) (bookings s)"
  shows "unit_keys_ok (add_booking b s)"
  using assms exclusive_insert [of booking_organization_id booking_active_unit_key "bookings s" b]
    id_free_distinct [of booking_id "bookings s" b]
  by (auto simp: unit_keys_ok_def booking_slot_ok_def split: if_splits)

section \<open>Every operation keeps it\<close>

lemma mark_hold_expired_keys:
  assumes "unit_keys_ok s" "h \<in> set (unit_holds s)"
  shows "unit_keys_ok (mark_hold_expired e k ctx u h s)"
proof -
  have "unit_keys_ok (put_hold (expired_hold e h) s)"
    by (rule keys_put_hold [OF assms]) (simp_all add: expired_hold_def hold_slot_ok_def)
  then show ?thesis by (simp add: mark_hold_expired_def Let_def)
qed

text \<open>The unit and the hold that \<^verbatim>\<open>_expire_hold\<close> hands back are rows of the database it leaves.\<close>

lemma expire_hold_keys:
  assumes x: "expire_hold e k ctx u s = (t, u', current)" and ok: "unit_keys_ok s"
  shows "unit_keys_ok t" "unit_id u' = unit_id u" "unit_organization_id u' = unit_organization_id u" "bookings t = bookings s"
    "map hold_id (unit_holds t) = map hold_id (unit_holds s)" "u \<in> set (units s) \<Longrightarrow> u' \<in> set (units t)"
    "current = Some h \<Longrightarrow> h \<in> set (unit_holds t) \<and> hold_organization_id h = unit_organization_id u \<and>
       hold_unit_id h = unit_id u \<and> reserving (hold_status h) \<and> now e < hold_expires_at h"
proof -
  have all: "unit_keys_ok t \<and> unit_id u' = unit_id u \<and> unit_organization_id u' = unit_organization_id u \<and> bookings t = bookings s \<and>
    map hold_id (unit_holds t) = map hold_id (unit_holds s) \<and> (u \<in> set (units s) \<longrightarrow> u' \<in> set (units t)) \<and>
    (\<forall>h. current = Some h \<longrightarrow> h \<in> set (unit_holds t) \<and> hold_organization_id h = unit_organization_id u \<and>
       hold_unit_id h = unit_id u \<and> reserving (hold_status h) \<and> now e < hold_expires_at h)"
  proof (cases rule: expire_hold_cases [OF x, case_names held vacant expired])
    case (held h)
    with holds_ofD [OF held(5)] ok show ?thesis by simp
  next
    case (expired h)
    from holds_ofD [OF expired(4)] have "h \<in> set (unit_holds s)" by simp
    with expired mark_hold_expired_keys [OF ok] show ?thesis by (force simp: set_put_row)
  qed (simp add: ok)
  then show "unit_keys_ok t" "unit_id u' = unit_id u" "unit_organization_id u' = unit_organization_id u" "bookings t = bookings s"
    "map hold_id (unit_holds t) = map hold_id (unit_holds s)" "u \<in> set (units s) \<Longrightarrow> u' \<in> set (units t)"
    "current = Some h \<Longrightarrow> h \<in> set (unit_holds t) \<and> hold_organization_id h = unit_organization_id u \<and>
       hold_unit_id h = unit_id u \<and> reserving (hold_status h) \<and> now e < hold_expires_at h"
    by blast+
qed

lemma expire_due_holds_keys: "unit_keys_ok s \<Longrightarrow> unit_keys_ok (committed (expire_due_holds e k org limit ctx s))"
proof -
  have "unit_keys_ok t" if "expire_candidates e k ctx ids s n = Inr (t, m)" "unit_keys_ok s" for k ids s n t m
    using that by (rule expire_candidates_invariant) (blast dest: find_SomeD intro: mark_hold_expired_keys)
  then show "unit_keys_ok s \<Longrightarrow> ?thesis"
    by (auto simp: expire_due_holds_def split: sum.splits)
qed

lemma unit_views_keys: "unit_keys_ok s \<Longrightarrow> unit_keys_ok (committed (unit_views e k org us s))"
  using expire_due_holds_keys [of s e k "Some org" 200 None]
  by (auto simp: unit_views_def split: outcome.splits)

lemma single_unit_view_keys: "unit_keys_ok s \<Longrightarrow> unit_keys_ok (committed (single_unit_view e k org u s))"
  using unit_views_keys [of s e k org "[u]"] by (auto simp: single_unit_view_def split: outcome.splits list.splits)

lemmas keys_intros = outcome_intros [where P = unit_keys_ok]

lemma create_hold_keys:
  assumes ok: "unit_keys_ok s" and fresh: "id_free hold_id (uuid e 2) (unit_holds s)"
  shows "unit_keys_ok (committed (create_hold e ctx org uid p s))"
  unfolding create_hold_def
proof (rule fetch_final [where P = unit_keys_ok, OF ok], goal_cases)
  case (1 u0)
  obtain t u current where x: "expire_hold e 0 (Some ctx) u0 s = (t, u, current)" by (metis prod_cases3)
  note t = expire_hold_keys [OF x ok]
  have "id_free hold_id (uuid e 2) (unit_holds t)"
    using fresh t(5) by (simp add: id_free_def list_all_iff) (metis (no_types) image_eqI image_set imageE)
  then show ?case unfolding x Let_def prod.case
    by (intro keys_intros ok, unfold unit_keys_ok_writes keys_put_unit, intro keys_add_hold t(1))
      (simp_all add: new_hold_def hold_slot_ok_def)
qed

lemma decide_hold_keys:
  assumes ok: "unit_keys_ok s"
  shows "unit_keys_ok (committed (decide_hold e ctx org hid p s))"
  unfolding decide_hold_def
proof (rule fetch_final [where P = unit_keys_ok, OF ok], rule fetch_final [where P = unit_keys_ok, OF ok], goal_cases)
  case (1 candidate u0)
  obtain t u current where x: "expire_hold e 0 (Some ctx) u0 s = (t, u, current)" by (metis prod_cases3)
  note t = expire_hold_keys [OF x ok]
  have "unit_keys_ok (put_hold (decided_hold e ctx p h) t)" if "current = Some h" for h
    by (rule keys_put_hold [OF t(1)])
      (use t(7) [OF that] unit_keys_okD(4) [OF t(1), of h] in \<open>auto simp: hold_slot_ok_def\<close>)
  then show ?case unfolding x Let_def prod.case
    by (intro keys_intros ok t(1)) (auto split: option.splits if_splits)
qed

lemma release_hold_keys:
  assumes ok: "unit_keys_ok s"
  shows "unit_keys_ok (committed (release_hold e ctx org uid reason s))"
  unfolding release_hold_def
proof (rule fetch_final [where P = unit_keys_ok, OF ok], goal_cases)
  case (1 u0)
  obtain t u current where x: "expire_hold e 0 (Some ctx) u0 s = (t, u, current)" by (metis prod_cases3)
  note t = expire_hold_keys [OF x ok]
  show ?case unfolding x Let_def prod.case
  proof (rule fetch_final [where P = unit_keys_ok, OF t(1)], rule single_unit_view_keys, unfold unit_keys_ok_writes keys_put_unit, goal_cases)
    case (1 h)
    show ?case by (rule keys_put_hold [OF t(1)]) (use t(7) [OF 1] in \<open>auto simp: hold_slot_ok_def\<close>)
  qed
qed

lemma convert_hold_keys:
  "unit_keys_ok s \<Longrightarrow> (\<And>h. current = Some h \<Longrightarrow> h \<in> set (unit_holds s)) \<Longrightarrow> unit_keys_ok (convert_hold e k org ctx n current s)"
  unfolding convert_hold_def
  by (auto split: option.split intro!: keys_put_hold simp: converted_hold_def hold_slot_ok_def)

lemma convert_hold_bookings [simp]: "bookings (convert_hold e k org ctx n current s) = bookings s"
  by (simp add: convert_hold_def split: option.split)

lemma initiate_booking_keys:
  assumes ok: "unit_keys_ok s" and fresh: "id_free booking_id (uuid e 3) (bookings s)"
  shows "unit_keys_ok (committed (initiate_booking e ctx org uid p s))"
  unfolding initiate_booking_def
proof (rule fetch_final [where P = unit_keys_ok, OF ok], goal_cases)
  case (1 u0)
  obtain t u current where x: "expire_hold e 0 (Some ctx) u0 s = (t, u, current)" by (metis prod_cases3)
  note t = expire_hold_keys [OF x ok]
  show ?case unfolding x Let_def prod.case
    by (intro keys_intros ok, unfold outcome.sel unit_keys_ok_writes, rule keys_add_booking)
      (use fresh t(4) in \<open>auto intro: convert_hold_keys [OF t(1)] dest: t(7)\<close>)
qed

lemma transition_booking_keys:
  assumes ok: "unit_keys_ok s"
  shows "unit_keys_ok (committed (transition_booking_endpoint e ctx org bid target s))"
proof -
  have put: "unit_keys_ok (put_booking b' s)" if b: "find_booking s org bid = Some b" "booking_status b \<noteq> Booking_CONFIRMED"
    and b': "booking_id b' = booking_id b" "booking_organization_id b' = booking_organization_id b"
      "booking_status b' = Booking_CANCELLED" "booking_active_unit_key b' = None" for b b'
    by (rule keys_put_booking [OF ok, of b]) (use b' find_bookingD [OF b(1)] in \<open>simp_all add: booking_slot_ok_def\<close>)
  show ?thesis
    unfolding transition_booking_endpoint_def transition_booking_def Let_def
    by (intro keys_intros ok, unfold outcome.sel unit_keys_ok_writes keys_put_unit)
      ((simp; fail) | (rule put; simp) | rule ok)+
qed

lemma transition_unit_status_keys:
  "unit_keys_ok s \<Longrightarrow> unit_keys_ok (committed (transition_unit_status e ctx org uid target s))"
  unfolding transition_unit_status_def Let_def
  by (intro keys_intros single_unit_view_keys) simp_all

lemma hold_reads_keys:
  assumes "unit_keys_ok s"
  shows "unit_keys_ok (committed (list_holds e org f page page_size s))"
    and "unit_keys_ok (committed (hold_history e org uid s))"
    and "unit_keys_ok (committed (hold_stats e org s))"
  using expire_due_holds_keys [OF assms, of e 0 "Some org" 200 None] assms
  by (auto simp: list_holds_def hold_history_def hold_stats_def Let_def attempt_def
    intro!: keys_intros split: outcome.split sum.split)

end
