(* ===== verification/Scope.thy ===== *)
theory Scope
  imports Audit_Notify
begin

text \<open>
  What one request may touch: \<open>scoped org s t\<close> says that going from \<open>s\<close> to \<open>t\<close> no row of another
  organization changed and the audit log only grew, by entries of the organization. Each write of
  the library has a rule in \<open>scoped_steps\<close> that extends a chain of such writes.
\<close>

definition scoped :: "ident \<Rightarrow> database \<Rightarrow> database \<Rightarrow> bool" where
  "scoped org s t \<longleftrightarrow> tenant_isolated org s t \<and> audit_extends org s t"

lemma scoped_refl [simp, intro]: "scoped org s s"
  by (simp add: scoped_def)

lemma scoped_trans: "scoped org s t \<Longrightarrow> scoped org t u \<Longrightarrow> scoped org s u"
  unfolding scoped_def by (blast intro: tenant_isolated_trans audit_extends_trans)

lemma scopedD: "scoped org s t \<Longrightarrow> tenant_isolated org s t" "scoped org s t \<Longrightarrow> audit_extends org s t"
  by (simp_all add: scoped_def)

named_theorems scoped_steps \<open>extending a chain of writes of one organization\<close>

lemma scoped_add_audits [scoped_steps]:
  assumes "scoped org s t" "list_all (\<lambda>a. audit_organization_id a = org) as"
  shows "scoped org s (add_audits as t)"
proof -
  from assms(2) have "others audit_organization_id org as = []" by simp
  then have "tenant_isolated org t (add_audits as t)"
    by (simp add: tenant_isolated_def add_audits_def others_append)
  moreover from assms(2) have "audit_extends org t (add_audits as t)"
    by (auto simp: audit_extends_def add_audits_def)
  ultimately have "scoped org t (add_audits as t)" by (simp add: scoped_def)
  with assms(1) show ?thesis by (rule scoped_trans)
qed

lemma scoped_write:
  assumes "scoped org s t" "tenant_isolated org t u" "audit_logs u = audit_logs t"
  shows "scoped org s u"
proof -
  from assms(3) have "audit_extends org t u" by (simp add: audit_extends_def)
  with assms(2) have "scoped org t u" by (simp add: scoped_def)
  with assms(1) show ?thesis by (rule scoped_trans)
qed

lemma scoped_queue_in_app [scoped_steps]:
  assumes "scoped org s t"
  shows "scoped org s (queue_in_app e k org rs m d sch t)"
proof (rule scoped_write [OF assms])
  have "others note_organization_id org (in_app_rows e k org rs m d sch) = []"
    by (rule others_own) simp
  then show "tenant_isolated org t (queue_in_app e k org rs m d sch t)"
    by (simp add: tenant_isolated_def queue_in_app_def others_append)
qed (simp add: queue_in_app_def)

text \<open>A rewritten row is one of the organization's own: its key belongs to no other row.\<close>

definition own_row :: "('r \<Rightarrow> ident) \<Rightarrow> ('r \<Rightarrow> ident) \<Rightarrow> ident \<Rightarrow> 'r list \<Rightarrow> 'r \<Rightarrow> bool" where
  "own_row org_of id_of org rows r \<longleftrightarrow> org_of r = org \<and> (\<forall>x \<in> set rows. id_of x = id_of r \<longrightarrow> org_of x = org)"

lemma own_rowI:
  assumes "distinct (map id_of rows)" "x \<in> set rows" "id_of r = id_of x" "org_of x = org" "org_of r = org"
  shows "own_row org_of id_of org rows r"
  unfolding own_row_def using assms by (metis distinct_map inj_onD)

lemma own_row_put: "own_row org_of id_of org rows r \<Longrightarrow> org_of r' = org \<Longrightarrow>
    own_row org_of id_of org (put_row id_of r' rows) r"
  by (auto simp: own_row_def set_put_row split: if_splits)

lemma others_own_row: "own_row org_of id_of org rows r \<Longrightarrow>
    others org_of org (put_row id_of r rows) = others org_of org rows"
  unfolding others_def own_row_def by (intro filter_put_row_other) auto

lemma own_row_entity:
  "distinct (map id_of rows) \<Longrightarrow> entity org_of id_of rows org i = Some x \<Longrightarrow> id_of r = i \<Longrightarrow> org_of r = org \<Longrightarrow>
   own_row org_of id_of org rows r"
  by (auto dest!: entityD intro: own_rowI)

text \<open>The primary keys of the tables whose rows the operations write back by key.\<close>

definition written_keys :: "database \<Rightarrow> bool" where
  "written_keys s \<longleftrightarrow>
     distinct (map unit_id (units s)) \<and>
     distinct (map hold_id (unit_holds s)) \<and>
     distinct (map booking_id (bookings s)) \<and>
     distinct (map fin_id (booking_financing s)) \<and>
     distinct (map appr_id (booking_approvals s)) \<and>
     distinct (map inst_id (installments s)) \<and>
     distinct (map pay_id (payments s)) \<and>
     distinct (map alloc_id (payment_allocations s)) \<and>
     distinct (map charge_id (financial_charges s)) \<and>
     distinct (map refund_id (refunds s))"

lemma written_keysD:
  assumes "written_keys s"
  shows "distinct (map unit_id (units s))"
    and "distinct (map hold_id (unit_holds s))"
    and "distinct (map booking_id (bookings s))"
    and "distinct (map fin_id (booking_financing s))"
    and "distinct (map appr_id (booking_approvals s))"
    and "distinct (map inst_id (installments s))"
    and "distinct (map pay_id (payments s))"
    and "distinct (map alloc_id (payment_allocations s))"
    and "distinct (map charge_id (financial_charges s))"
    and "distinct (map refund_id (refunds s))"
  using assms by (simp_all add: written_keys_def)

end
