(* ===== verification/Inventory_Scope.thy ===== *)
theory Inventory_Scope
  imports Unit_Keys Scope
begin

text \<open>
  Tenant isolation and audit trail of the inventory service: each handler, called for an
  organization, leaves every row of every other organization alone and only appends to the audit
  log. The background expiry is the one operation that works across organizations.
\<close>

section \<open>The writes\<close>

lemma scoped_put_unit [scoped_steps]:
  "scoped org s t \<Longrightarrow> own_row unit_organization_id unit_id org (units t) u \<Longrightarrow> scoped org s (put_unit u t)"
  by (erule scoped_write) (simp_all add: tenant_isolated_def put_unit_def others_own_row)

lemma scoped_put_hold [scoped_steps]:
  "scoped org s t \<Longrightarrow> own_row hold_organization_id hold_id org (unit_holds t) h \<Longrightarrow> scoped org s (put_hold h t)"
  by (erule scoped_write) (simp_all add: tenant_isolated_def put_hold_def others_own_row)

lemma scoped_put_booking [scoped_steps]:
  "scoped org s t \<Longrightarrow> own_row booking_organization_id booking_id org (bookings t) b \<Longrightarrow> scoped org s (put_booking b t)"
  by (erule scoped_write) (simp_all add: tenant_isolated_def put_booking_def others_own_row)

lemma scoped_add_hold [scoped_steps]:
  "scoped org s t \<Longrightarrow> hold_organization_id h = org \<Longrightarrow> scoped org s (add_hold h t)"
  by (erule scoped_write) (simp_all add: tenant_isolated_def add_hold_def others_append)

lemma scoped_add_booking [scoped_steps]:
  "scoped org s t \<Longrightarrow> booking_organization_id b = org \<Longrightarrow> scoped org s (add_booking b t)"
  by (erule scoped_write) (simp_all add: tenant_isolated_def add_booking_def others_append)

text \<open>Rows found in a database whose keys are unique are the organization's own.\<close>

lemma own_unit:
  "unit_keys_ok s \<Longrightarrow> u \<in> set (units s) \<Longrightarrow> unit_id u' = unit_id u \<Longrightarrow> unit_organization_id u = org \<Longrightarrow>
   unit_organization_id u' = org \<Longrightarrow> own_row unit_organization_id unit_id org (units s) u'"
  by (rule own_rowI [OF unit_keys_okD(1)])

lemma own_hold:
  "unit_keys_ok s \<Longrightarrow> h \<in> set (unit_holds s) \<Longrightarrow> hold_id h' = hold_id h \<Longrightarrow> hold_organization_id h = org \<Longrightarrow>
   hold_organization_id h' = org \<Longrightarrow> own_row hold_organization_id hold_id org (unit_holds s) h'"
  by (rule own_rowI [OF unit_keys_okD(2)])

lemma own_booking:
  "unit_keys_ok s \<Longrightarrow> b \<in> set (bookings s) \<Longrightarrow> booking_id b' = booking_id b \<Longrightarrow> booking_organization_id b = org \<Longrightarrow>
   booking_organization_id b' = org \<Longrightarrow> own_row booking_organization_id booking_id org (bookings s) b'"
  by (rule own_rowI [OF unit_keys_okD(3)])

lemmas scoped_outcome = outcome_intros [where P = "scoped org s" for org s]

section \<open>The handlers\<close>

lemma scoped_mark_hold_expired:
  assumes "scoped org s t" "unit_keys_ok t" "u \<in> set (units t)" "unit_organization_id u = org"
    "h \<in> set (unit_holds t)" "hold_organization_id h = org"
  shows "scoped org s (mark_hold_expired e k ctx u h t)"
proof -
  have "scoped org s (put_unit (released_unit u) (put_hold (expired_hold e h) t))"
    by (intro scoped_steps) (use assms in \<open>auto intro!: own_unit [OF assms(2,3)] own_hold [OF assms(2,5)]\<close>)
  then show ?thesis unfolding mark_hold_expired_def Let_def
    using assms(4) by (auto intro!: scoped_steps split: option.split)
qed

lemma expire_hold_scoped:
  assumes "expire_hold e k ctx u s = (t, u', current)" "unit_keys_ok s" "u \<in> set (units s)" "unit_organization_id u = org"
  shows "scoped org s t"
proof (cases rule: expire_hold_cases [OF assms(1), case_names held vacant expired])
  case (expired h)
  from holds_ofD [OF expired(4)] assms show ?thesis unfolding expired(3)
    by (intro scoped_mark_hold_expired) auto
qed auto

lemma expire_candidates_scoped:
  assumes "expire_candidates e k ctx ids s n = Inr (t, m)" "unit_keys_ok s"
    "\<And>c. c \<in> set (unit_holds s) \<Longrightarrow> hold_id c \<in> set ids \<Longrightarrow> hold_organization_id c = org"
  shows "scoped org s t"
  using assms
proof (induction ids arbitrary: k s n)
  case (Cons i ids)
  show ?case
  proof (cases "find (\<lambda>h. hold_id h = i) (unit_holds s)")
    case None
    with Cons show ?thesis by simp
  next
    case (Some c)
    then have c: "c \<in> set (unit_holds s)" "hold_id c = i" by (auto dest: find_SomeD)
    with Cons.prems(3) have org: "hold_organization_id c = org" by simp
    show ?thesis
    proof (cases "find_unit s (hold_organization_id c) (hold_unit_id c)")
      case None
      with Some Cons.prems show ?thesis by simp
    next
      case u: (Some u)
      show ?thesis
      proof (cases "find (\<lambda>h. hold_organization_id h = hold_organization_id c \<and> hold_id h = i \<and> hold_due e h) (unit_holds s)")
        case None
        with Some u Cons show ?thesis by simp
      next
        case h: (Some h)
        let ?s = "mark_hold_expired e k ctx u h s"
        from due_hold_row [OF unit_keys_okD(2) [OF Cons.prems(2)] Some u h] find_unitD [OF u] org c
        have row: "u \<in> set (units s)" "h = c" "h \<in> set (holds_of s (unit_organization_id u) (unit_id u))"
          "unit_organization_id u = org" by auto
        from Some u h Cons.prems(1) have "expire_candidates e (k + 2) ctx ids ?s (n + 1) = Inr (t, m)"
          by simp
        moreover have "unit_keys_ok ?s" using row c by (intro mark_hold_expired_keys [OF Cons.prems(2)]) simp
        moreover have "hold_organization_id d = org" if "d \<in> set (unit_holds ?s)" "hold_id d \<in> set ids" for d
          using that Cons.prems(3) org row(2) by (auto simp: set_put_row split: if_splits)
        ultimately have "scoped org ?s t" by (rule Cons.IH)
        moreover have "scoped org s ?s"
          using Cons.prems(2) row c org by (intro scoped_mark_hold_expired) auto
        ultimately show ?thesis by (blast intro: scoped_trans)
      qed
    qed
  qed
qed simp

lemma expire_due_holds_scoped:
  assumes "unit_keys_ok s" "org \<noteq> []"
  shows "scoped org s (committed (expire_due_holds e k (Some org) limit ctx s))"
proof -
  have "hold_organization_id c = org" if "c \<in> set (unit_holds s)" "hold_id c \<in> set (due_candidates e (Some org) limit s)" for c
  proof -
    from that(2) obtain d where "d \<in> set (unit_holds s)" "hold_id d = hold_id c" "hold_organization_id d = org"
      using assms(2) by (auto simp: due_candidates_def given_def dest!: in_set_takeD)
    with that(1) unit_keys_okD(2) [OF assms(1)] show ?thesis by (metis distinct_map inj_onD)
  qed
  then show ?thesis
    using expire_candidates_scoped [OF _ assms(1)]
    by (auto simp: expire_due_holds_def split: sum.splits)
qed

lemma unit_views_scoped:
  "unit_keys_ok s \<Longrightarrow> org \<noteq> [] \<Longrightarrow> scoped org s (committed (unit_views e k org us s))"
  using expire_due_holds_scoped [of s org e k 200 None] by (auto simp: unit_views_def split: outcome.splits)

lemma single_unit_view_scoped:
  "scoped org s t \<Longrightarrow> unit_keys_ok t \<Longrightarrow> org \<noteq> [] \<Longrightarrow> scoped org s (committed (single_unit_view e k org u t))"
  using unit_views_scoped [of t org e k "[u]"] scoped_trans
  by (auto simp: single_unit_view_def split: outcome.splits list.splits)

lemma create_hold_scoped:
  assumes ok: "unit_keys_ok s"
  shows "scoped org s (committed (create_hold e ctx org uid p s))"
  unfolding create_hold_def
proof (rule scoped_outcome(2) [OF scoped_refl], goal_cases)
  case (1 u0)
  obtain t u current where x: "expire_hold e 0 (Some ctx) u0 s = (t, u, current)" by (metis prod_cases3)
  from find_unitD [OF 1] have u0: "u0 \<in> set (units s)" "unit_organization_id u0 = org" by simp_all
  note t = expire_hold_keys [OF x ok] and scope = expire_hold_scoped [OF x ok u0]
  show ?case unfolding x Let_def prod.case
    by (intro scoped_outcome scoped_refl scoped_steps scope)
      (use t(2,3) u0 in \<open>auto simp: new_hold_def add_hold_def intro: own_unit [OF t(1) t(6) [OF u0(1)]]\<close>)
qed

lemma decide_hold_scoped:
  assumes ok: "unit_keys_ok s"
  shows "scoped org s (committed (decide_hold e ctx org hid p s))"
  unfolding decide_hold_def
proof (rule scoped_outcome(2) [OF scoped_refl], rule scoped_outcome(2) [OF scoped_refl], goal_cases)
  case (1 candidate u0)
  obtain t u current where x: "expire_hold e 0 (Some ctx) u0 s = (t, u, current)" by (metis prod_cases3)
  from find_unitD [OF 1(2)] have u0: "u0 \<in> set (units s)" "unit_organization_id u0 = org" by simp_all
  note t = expire_hold_keys [OF x ok] and scope = expire_hold_scoped [OF x ok u0]
  have own: "own_row hold_organization_id hold_id org (unit_holds t) (decided_hold e ctx p h)" if "current = Some h" for h
    using t(7) [OF that] u0 by (intro own_hold [OF t(1), of h]) auto
  have "own_row unit_organization_id unit_id org (units t)
      (if hd_status p = Decision_APPROVED then u else u\<lparr>unit_status := Unit_AVAILABLE\<rparr>)"
    using t(2,3) u0 by (intro own_unit [OF t(1) t(6) [OF u0(1)]]) auto
  with own show ?case unfolding x Let_def prod.case
    by (intro scoped_outcome scoped_refl scoped_steps scope) (auto split: option.splits if_splits)
qed

lemma release_hold_scoped:
  assumes ok: "unit_keys_ok s" and org: "org \<noteq> []"
  shows "scoped org s (committed (release_hold e ctx org uid reason s))"
  unfolding release_hold_def
proof (rule scoped_outcome(2) [OF scoped_refl], goal_cases)
  case (1 u0)
  obtain t u current where x: "expire_hold e 0 (Some ctx) u0 s = (t, u, current)" by (metis prod_cases3)
  from find_unitD [OF 1] have u0: "u0 \<in> set (units s)" "unit_organization_id u0 = org" by simp_all
  note t = expire_hold_keys [OF x ok] and scope = expire_hold_scoped [OF x ok u0]
  show ?case unfolding x Let_def prod.case
  proof (rule scoped_outcome(2) [OF scope], rule single_unit_view_scoped [OF _ _ org], goal_cases)
    case (1 h)
    from t(7) [OF 1] t(2,3) u0 show ?case
      by (intro scoped_steps scope) (auto intro: own_hold [OF t(1), of h] own_unit [OF t(1) t(6) [OF u0(1)]])
  next
    case (2 h)
    show ?case unfolding unit_keys_ok_writes keys_put_unit
      by (rule keys_put_hold [OF t(1)]) (use t(7) [OF 2] in \<open>auto simp: hold_slot_ok_def\<close>)
  qed
qed

lemma initiate_booking_scoped:
  assumes ok: "unit_keys_ok s"
  shows "scoped org s (committed (initiate_booking e ctx org uid p s))"
  unfolding initiate_booking_def
proof (rule scoped_outcome(2) [OF scoped_refl], goal_cases)
  case (1 u0)
  obtain t u current where x: "expire_hold e 0 (Some ctx) u0 s = (t, u, current)" by (metis prod_cases3)
  from find_unitD [OF 1] have u0: "u0 \<in> set (units s)" "unit_organization_id u0 = org" by simp_all
  note t = expire_hold_keys [OF x ok] and scope = expire_hold_scoped [OF x ok u0]
  have "own_row hold_organization_id hold_id org (unit_holds t) (converted_hold e h)" if "current = Some h" for h
    using t(7) [OF that] u0 by (intro own_hold [OF t(1), of h]) auto
  then have conv: "scoped org s (convert_hold e k org ctx n current t)" for k n
    unfolding convert_hold_def by (auto intro!: scoped_steps scope split: option.split)
  have "units (convert_hold e k org ctx n current t) = units t" for k n
    by (simp add: convert_hold_def split: option.split)
  then show ?case unfolding x Let_def prod.case
    by (intro scoped_outcome scoped_refl, unfold outcome.sel, intro scoped_steps conv)
      (use t(2,3) u0 in \<open>auto intro: own_unit [OF t(1) t(6) [OF u0(1)]]\<close>)
qed

lemma transition_booking_scoped:
  assumes ok: "unit_keys_ok s"
  shows "scoped org s (committed (transition_booking e ctx org bid target s))"
  unfolding transition_booking_def
proof (rule scoped_outcome(2) [OF scoped_refl], rule scoped_outcome(2) [OF scoped_refl], goal_cases)
  case (1 b u)
  from find_bookingD [OF 1(1)] find_unitD [OF 1(2)]
  have u: "u \<in> set (units s)" "unit_organization_id u = org" and b: "b \<in> set (bookings s)" "booking_organization_id b = org"
    by simp_all
  have written: "scoped org s (add_audits as (put_unit (u\<lparr>unit_status := st\<rparr>) (put_booking b' s)))"
    if "booking_id b' = booking_id b" "booking_organization_id b' = org" "list_all (\<lambda>a. audit_organization_id a = org) as"
    for as st b'
    by (intro scoped_steps scoped_refl) (use that u b in \<open>auto intro: own_unit [OF ok u(1)] own_booking [OF ok b(1)]\<close>)
  show ?case unfolding Let_def
    by (intro scoped_outcome scoped_refl, unfold outcome.sel)
      ((rule written; simp add: b)+, rule scoped_refl)
qed

lemma transition_unit_status_scoped:
  assumes ok: "unit_keys_ok s" and org: "org \<noteq> []"
  shows "scoped org s (committed (transition_unit_status e ctx org uid target s))"
  unfolding transition_unit_status_def
proof (rule scoped_outcome(2) [OF scoped_refl], goal_cases)
  case (1 u)
  from find_unitD [OF 1] have u: "u \<in> set (units s)" "unit_organization_id u = org" by simp_all
  show ?case unfolding Let_def
    by (intro scoped_outcome scoped_refl single_unit_view_scoped [OF _ _ org] scoped_steps)
      (use u ok in \<open>auto intro: own_unit [OF ok u(1)]\<close>)
qed

lemma hold_reads_scoped:
  assumes "unit_keys_ok s" "org \<noteq> []"
  shows "scoped org s (committed (list_holds e org f page page_size s))"
    and "scoped org s (committed (hold_history e org uid s))"
    and "scoped org s (committed (hold_stats e org s))"
  using expire_due_holds_scoped [OF assms, of e 0 200 None]
  by (auto simp: list_holds_def hold_history_def hold_stats_def Let_def attempt_def
    intro!: scoped_outcome split: outcome.split sum.split)

lemma hold_reads_keep:
  assumes "inventory_ok s"
  shows "inventory_ok (committed (list_holds e org f page page_size s))"
    and "inventory_ok (committed (hold_history e org uid s))"
    and "inventory_ok (committed (hold_stats e org s))"
  using expire_due_holds_ok [OF assms, of e 0 "Some org" 200 None] assms
  by (auto simp: list_holds_def hold_history_def hold_stats_def Let_def attempt_def
    intro!: inventory_ok_intros split: outcome.split sum.split)

end
