(* ===== verification/Expiry.thy ===== *)
theory Expiry
  imports Inventory_Safety
begin

text \<open>
  The background expiry of holds: one sweep expires exactly the due holds it selects, never fails
  on a consistent inventory, and the worker's batches end with no due hold left.
\<close>

section \<open>One sweep\<close>

definition expire_ids :: "env \<Rightarrow> ident list \<Rightarrow> unit_hold_row list \<Rightarrow> unit_hold_row list" where
  "expire_ids e ids hs = map (\<lambda>h. if hold_id h \<in> set ids then expired_hold e h else h) hs"

lemma expire_ids_Cons:
  assumes "c \<in> set hs" "distinct (map hold_id hs)" "hold_id c \<notin> set ids"
  shows "expire_ids e ids (put_row hold_id (expired_hold e c) hs) = expire_ids e (hold_id c # ids) hs"
proof -
  have "x = c" if "x \<in> set hs" "hold_id x = hold_id c" for x
    using that assms(1,2) by (metis distinct_map inj_onD)
  with assms(3) show ?thesis by (auto simp: expire_ids_def put_row_def)
qed

lemma find_by_id:
  assumes "distinct (map id_of rows)" "r \<in> set rows" "p r" "\<And>x. p x \<Longrightarrow> id_of x = id_of r"
  shows "find p rows = Some r"
proof (cases "find p rows")
  case None
  with assms(2,3) show ?thesis by (auto simp: find_None)
next
  case (Some x)
  then have "x \<in> set rows" "p x" by (auto dest: find_SomeD)
  with assms have "x = r" by (metis distinct_map inj_onD)
  with Some show ?thesis by simp
qed

lemma hold_unit_found:
  assumes "inventory_ok s" "h \<in> set (unit_holds s)" "reserving (hold_status h)"
  obtains u where "find_unit s (hold_organization_id h) (hold_unit_id h) = Some u" "u \<in> set (units s)"
    "h \<in> set (holds_of s (unit_organization_id u) (unit_id u))"
proof -
  from inventory_okD(7) [OF assms] obtain u where u: "u \<in> set (units s)"
    "unit_organization_id u = hold_organization_id h" "unit_id u = hold_unit_id h" by blast
  moreover from this entity_unique [OF inventory_okD(1) [OF assms(1)] u(1), where org_of = unit_organization_id]
  have "find_unit s (hold_organization_id h) (hold_unit_id h) = Some u" by simp
  ultimately show thesis using assms that by (auto simp: holds_of_def)
qed

lemma expire_candidates_result:
  assumes "inventory_ok s" "distinct ids" "\<And>i. i \<in> set ids \<Longrightarrow> \<exists>h \<in> set (unit_holds s). hold_id h = i \<and> hold_due e h"
  shows "\<exists>t. expire_candidates e k ctx ids s n = Inr (t, n + length ids) \<and>
    unit_holds t = expire_ids e ids (unit_holds s)"
  using assms
proof (induction ids arbitrary: k s n)
  case Nil
  then show ?case by (simp add: expire_ids_def)
next
  case (Cons i ids)
  from Cons.prems(3) [of i] obtain c where c: "c \<in> set (unit_holds s)" "hold_id c = i" "hold_due e c" by auto
  note ids = inventory_okD(2) [OF Cons.prems(1)]
  from c(3) have "reserving (hold_status c)" by (simp add: hold_due_def)
  from hold_unit_found [OF Cons.prems(1) c(1) this] obtain u where
    u: "find_unit s (hold_organization_id c) (hold_unit_id c) = Some u" "u \<in> set (units s)"
      "c \<in> set (holds_of s (unit_organization_id u) (unit_id u))" .
  let ?s = "mark_hold_expired e k ctx u c s"
  have "expire_candidates e k ctx (i # ids) s n = expire_candidates e (k + 2) ctx ids ?s (n + 1)"
    using u(1) find_by_id [OF ids c(1), of "\<lambda>h. hold_id h = i"] c
      find_by_id [OF ids c(1), of "\<lambda>h. hold_organization_id h = hold_organization_id c \<and> hold_id h = i \<and> hold_due e h"]
    by simp
  moreover have "\<exists>h \<in> set (unit_holds ?s). hold_id h = j \<and> hold_due e h" if "j \<in> set ids" for j
  proof -
    from Cons.prems(2,3) that obtain h where "h \<in> set (unit_holds s)" "hold_id h = j" "hold_due e h" "j \<noteq> i" by auto
    with c(2) show ?thesis by (auto simp: set_put_row)
  qed
  with Cons.IH [OF mark_hold_expired_ok [OF Cons.prems(1) u(2,3)]] Cons.prems(2)
  obtain t where "expire_candidates e (k + 2) ctx ids ?s (n + 1) = Inr (t, n + 1 + length ids)"
    "unit_holds t = expire_ids e ids (unit_holds ?s)" by (metis distinct.simps(2))
  ultimately show ?case
    using expire_ids_Cons [OF c(1) ids] Cons.prems(2) c(2) by auto
qed

definition due_in :: "env \<Rightarrow> ident option \<Rightarrow> unit_hold_row \<Rightarrow> bool" where
  "due_in e org h \<longleftrightarrow> hold_due e h \<and> (case given org of None \<Rightarrow> True | Some oid \<Rightarrow> hold_organization_id h = oid)"

lemma due_candidates_alt:
  "due_candidates e org limit s = take limit (map hold_id (sort_key hold_expires_at (filter (due_in e org) (unit_holds s))))"
  unfolding due_candidates_def due_in_def ..

lemma due_candidates_distinct: "inventory_ok s \<Longrightarrow> distinct (due_candidates e org limit s)"
  by (auto simp: due_candidates_alt distinct_map dest!: inventory_okD(2) intro!: distinct_take inj_on_subset [where A = "set (unit_holds s)"])

lemma due_candidates_due:
  "i \<in> set (due_candidates e org limit s) \<Longrightarrow> \<exists>h \<in> set (unit_holds s). hold_id h = i \<and> due_in e org h"
  by (auto simp: due_candidates_alt dest!: in_set_takeD)

lemma length_due_candidates:
  "length (due_candidates e org limit s) = min limit (count_rows (due_in e org) (unit_holds s))"
  by (simp add: due_candidates_alt count_rows_def)

lemma due_candidates_all:
  assumes "length (due_candidates e org limit s) < limit" "h \<in> set (unit_holds s)" "due_in e org h"
  shows "hold_id h \<in> set (due_candidates e org limit s)"
  using assms by (auto simp: due_candidates_alt min_def split: if_splits)

lemma expire_due_holds_result:
  assumes "inventory_ok s"
  shows "\<exists>t. expire_due_holds e k org limit ctx s = Return t (length (due_candidates e org limit s)) \<and>
    unit_holds t = expire_ids e (due_candidates e org limit s) (unit_holds s) \<and> inventory_ok t"
proof -
  have due: "\<And>i. i \<in> set (due_candidates e org limit s) \<Longrightarrow> \<exists>h \<in> set (unit_holds s). hold_id h = i \<and> hold_due e h"
    using due_candidates_due by (fastforce simp: due_in_def)
  from expire_candidates_result [OF assms due_candidates_distinct [OF assms] due, of e org limit k ctx 0]
  obtain t where t: "expire_candidates e k ctx (due_candidates e org limit s) s 0 = Inr (t, length (due_candidates e org limit s))"
    "unit_holds t = expire_ids e (due_candidates e org limit s) (unit_holds s)" by auto
  show ?thesis
  proof (cases "due_candidates e org limit s = []")
    case True
    with assms show ?thesis by (simp add: expire_due_holds_def expire_ids_def)
  next
    case False
    with t expire_candidates_ok [OF t(1) assms] show ?thesis by (simp add: expire_due_holds_def)
  qed
qed

lemma sweep_complete:
  assumes "inventory_ok s" "expire_due_holds e k org limit ctx s = Return t n" "n < limit" "h \<in> set (unit_holds t)"
  shows "\<not> due_in e org h"
proof -
  from expire_due_holds_result [OF assms(1), of e k org limit ctx] assms(2)
  have n: "n = length (due_candidates e org limit s)" "unit_holds t = expire_ids e (due_candidates e org limit s) (unit_holds s)"
    by auto
  with assms(4) obtain g where g: "g \<in> set (unit_holds s)"
    "h = (if hold_id g \<in> set (due_candidates e org limit s) then expired_hold e g else g)"
    by (auto simp: expire_ids_def)
  with due_candidates_all [of e org limit s g] n(1) assms(3) show ?thesis
    by (auto simp: due_in_def hold_due_def split: if_splits)
qed

section \<open>The worker\<close>

definition reserving_count :: "database \<Rightarrow> nat" where
  "reserving_count s = count_rows (\<lambda>h. reserving (hold_status h)) (unit_holds s)"

lemma reserving_after_sweep:
  assumes "inventory_ok s" "expire_due_holds e k org limit ctx s = Return t n"
  shows "reserving_count t + n = reserving_count s"
proof -
  let ?ids = "due_candidates e org limit s"
  from expire_due_holds_result [OF assms(1), of e k org limit ctx] assms(2)
  have n: "n = length ?ids" "unit_holds t = expire_ids e ?ids (unit_holds s)" by auto
  note ids = inventory_okD(2) [OF assms(1)]
  have sel: "reserving (hold_status h)" if "h \<in> set (unit_holds s)" "hold_id h \<in> set ?ids" for h
  proof -
    from due_candidates_due [OF that(2)] obtain g where "g \<in> set (unit_holds s)" "hold_id g = hold_id h" "due_in e org g" by blast
    moreover from this that ids have "g = h" by (metis distinct_map inj_onD)
    ultimately show ?thesis by (simp add: due_in_def hold_due_def)
  qed
  have split: "length (filter (\<lambda>h. reserving (hold_status h)) (expire_ids e is hs)) +
      length (filter (\<lambda>h. hold_id h \<in> set is) hs) = length (filter (\<lambda>h. reserving (hold_status h)) hs)"
    if "\<And>h. h \<in> set hs \<Longrightarrow> hold_id h \<in> set is \<Longrightarrow> reserving (hold_status h)" for "is" hs
    using that by (induction hs) (auto simp: expire_ids_def)
  have "length (filter (\<lambda>h. hold_id h \<in> set ?ids) (unit_holds s)) = length ?ids"
  proof -
    have "distinct (map hold_id (filter (\<lambda>h. hold_id h \<in> set ?ids) (unit_holds s)))"
      using ids by (rule distinct_map_filter)
    moreover have "set (map hold_id (filter (\<lambda>h. hold_id h \<in> set ?ids) (unit_holds s))) = set ?ids"
      using due_candidates_due by fastforce
    ultimately show ?thesis
      using due_candidates_distinct [OF assms(1)] by (metis distinct_card length_map)
  qed
  with split [of "unit_holds s" ?ids] sel n show ?thesis
    by (simp add: reserving_count_def count_rows_def)
qed

lemma run_once_result:
  assumes "inventory_ok s" "reserving_count s < 200 * fuel"
  shows "\<exists>e t. run_once fuel envs acc s = Some (Return t (acc + (reserving_count s - reserving_count t))) \<and>
    inventory_ok t \<and> reserving_count t \<le> reserving_count s \<and> e \<in> envs ` {..<fuel} \<and>
    (\<forall>h \<in> set (unit_holds t). \<not> hold_due e h)"
  using assms
proof (induction fuel arbitrary: acc s)
  case (Suc fuel)
  from expire_due_holds_result [OF Suc.prems(1), of "envs fuel" 0 None 200 None]
  obtain t n where t: "expire_due_holds (envs fuel) 0 None 200 None s = Return t n" "inventory_ok t" by blast
  note less = reserving_after_sweep [OF Suc.prems(1) t(1)]
  show ?case
  proof (cases "n < 200")
    case True
    have "\<not> hold_due (envs fuel) h" if "h \<in> set (unit_holds t)" for h
      using sweep_complete [OF Suc.prems(1) t(1) True that] by (simp add: due_in_def given_def)
    moreover from less have "reserving_count s - reserving_count t = n" by simp
    ultimately show ?thesis
      using t True less by (intro exI [of _ "envs fuel"] exI [of _ t]) auto
  next
    case False
    with less Suc.prems(2) have "reserving_count t < 200 * fuel" by simp
    from Suc.IH [OF t(2) this, of "acc + n"] obtain e t' where
      "run_once fuel envs (acc + n) t = Some (Return t' (acc + n + (reserving_count t - reserving_count t')))"
      "inventory_ok t'" "reserving_count t' \<le> reserving_count t" "e \<in> envs ` {..<fuel}"
      "\<forall>h \<in> set (unit_holds t'). \<not> hold_due e h" by blast
    moreover from this(3) less have "n + (reserving_count t - reserving_count t') = reserving_count s - reserving_count t'"
      by simp
    ultimately show ?thesis
      using t False less by (intro exI [of _ e] exI [of _ t']) (auto simp: add.assoc)
  qed
qed simp

end
