(* ===== verification/Documents.thy ===== *)
theory Documents
  imports Audit_Notify
begin

text \<open>
  The part of \<^verbatim>\<open>services/documents.py\<close> that the booking workflow runs first: the expiry of the
  organization's due customer documents, committed in a transaction of its own.
\<close>

primrec expirable :: "document_status \<Rightarrow> bool" where
  "expirable Document_PENDING = True"
| "expirable Document_UPLOADED = True"
| "expirable Document_UNDER_REVIEW = True"
| "expirable Document_VERIFIED = True"
| "expirable Document_REJECTED = False"
| "expirable Document_EXPIRED = False"

definition document_snapshot :: "customer_document_row \<Rightarrow> snapshot" where
  "document_snapshot d =
     [(''document_set_id'', JStr (doc_document_set_id d)),
      (''customer_id'', JStr (doc_customer_id d)),
      (''booking_id'', jopt JStr (doc_booking_id d)),
      (''document_type'', JStr (doc_document_type d)),
      (''version'', JInt (doc_version d)),
      (''status'', JStr (document_status_value (doc_status d))),
      (''expiry_date'', jopt JInt (doc_expiry_date d)),
      (''reviewed_by_user_id'', jopt JStr (doc_reviewed_by_user_id d)),
      (''rejection_reason'', jopt JStr (doc_rejection_reason d))]"

definition document_due :: "env \<Rightarrow> ident \<Rightarrow> customer_document_row \<Rightarrow> bool" where
  "document_due e org d \<longleftrightarrow>
     doc_organization_id d = org \<and> doc_is_current d \<and>
     (case doc_expiry_date d of None \<Rightarrow> False | Some x \<Rightarrow> x < utc_today e) \<and> expirable (doc_status d)"

definition expired_document :: "env \<Rightarrow> customer_document_row \<Rightarrow> customer_document_row" where
  "expired_document e d =
     d\<lparr>doc_status := Document_EXPIRED, doc_reviewed_at := Some (now e), doc_updated_at := now e\<rparr>"

text \<open>\<^verbatim>\<open>_system_audit\<close>\<close>

definition document_audit :: "env \<Rightarrow> ident \<Rightarrow> customer_document_row \<Rightarrow> audit_row" where
  "document_audit e i d =
     system_audit e i (doc_organization_id d) ''document.expired'' ''document'' (doc_id d)
       (Some (document_snapshot d)) (Some [(''status'', JStr (document_status_value Document_EXPIRED))])"

text \<open>Answers the committed database and the number of expired documents; draws that many uuids from \<open>k\<close> on.\<close>

definition expire_due_documents :: "env \<Rightarrow> nat \<Rightarrow> ident \<Rightarrow> database \<Rightarrow> database \<times> nat" where
  "expire_due_documents e k org s =
     (let due = filter (document_due e org) (customer_documents s) in
      (add_audits (map (\<lambda>(i, d). document_audit e (uuid e i) d) (enumerate k due))
         (s\<lparr>customer_documents := update_where (document_due e org) (expired_document e) (customer_documents s)\<rparr>),
       length due))"

text \<open>\<^verbatim>\<open>_has_verified_kyc\<close> of \<^verbatim>\<open>services/bookings.py\<close>\<close>

definition has_verified_kyc :: "database \<Rightarrow> ident \<Rightarrow> ident \<Rightarrow> bool" where
  "has_verified_kyc s org customer \<longleftrightarrow>
     list_ex (\<lambda>d. doc_organization_id d = org \<and> doc_customer_id d = customer \<and> doc_is_current d \<and>
       doc_status d = Document_VERIFIED) (customer_documents s)"

lemma expired_document_sel [simp]:
  "doc_id (expired_document e d) = doc_id d" "doc_organization_id (expired_document e d) = doc_organization_id d"
  "doc_customer_id (expired_document e d) = doc_customer_id d" "doc_is_current (expired_document e d) = doc_is_current d"
  "doc_expiry_date (expired_document e d) = doc_expiry_date d" "doc_status (expired_document e d) = Document_EXPIRED"
  by (simp_all add: expired_document_def)

lemma expire_due_documents_unfold:
  "\<exists>as. fst (expire_due_documents e k org s) =
       add_audits as (s\<lparr>customer_documents := update_where (document_due e org) (expired_document e) (customer_documents s)\<rparr>) \<and>
     list_all (\<lambda>a. audit_organization_id a = org) as"
  by (rule exI [of _ "map (\<lambda>(i, d). document_audit e (uuid e i) d)
      (enumerate k (filter (document_due e org) (customer_documents s)))"])
    (auto simp: expire_due_documents_def Let_def list_all_iff document_audit_def document_due_def dest!: in_enumerateD)

text \<open>After the expiry no current document that could serve as KYC is past its date.\<close>

lemma verified_after_expiry:
  assumes "(t, n) = expire_due_documents e k org s" "has_verified_kyc t org customer"
  shows "\<exists>d \<in> set (customer_documents t). doc_customer_id d = customer \<and> doc_is_current d \<and>
    doc_status d = Document_VERIFIED \<and> (case doc_expiry_date d of None \<Rightarrow> True | Some x \<Rightarrow> utc_today e \<le> x)"
proof -
  from assms(2) obtain d where d: "d \<in> set (customer_documents t)" "doc_organization_id d = org"
    "doc_customer_id d = customer" "doc_is_current d" "doc_status d = Document_VERIFIED"
    by (auto simp: has_verified_kyc_def list_ex_iff)
  from assms(1) have "customer_documents t = update_where (document_due e org) (expired_document e) (customer_documents s)"
    by (simp add: expire_due_documents_def Let_def add_audits_def)
  with d(1) obtain c where "d = (if document_due e org c then expired_document e c else c)"
    by (auto simp: set_update_where)
  with d(5) have "\<not> document_due e org d" by (auto split: if_splits)
  with d show ?thesis by (force simp: document_due_def split: option.splits)
qed

end
