(* ===== verification/Bookings.thy ===== *)
theory Bookings
  imports Inventory Documents
begin

text \<open>
  The data of the booking workflow (\<^verbatim>\<open>schemas/bookings.py\<close>, the view helpers of
  \<^verbatim>\<open>services/bookings.py\<close>): the payloads with their validators, and the composite view every
  booking operation answers with. The operations are in \<^verbatim>\<open>Booking_Handlers\<close>.
\<close>

section \<open>Payloads\<close>

record joint_applicant_input =
  ja_customer_id :: "ident option"
  ja_full_name :: string
  ja_email :: "string option"
  ja_phone :: "string option"
  ja_date_of_birth :: "day option"
  ja_tax_identifier :: "string option"
  ja_relationship_to_primary :: string

record installment_input =
  ii_name :: string
  ii_due_date :: day
  ii_amount :: decimal

record payment_plan_input =
  pp_name :: string
  pp_effective_from :: day
  pp_installments :: "installment_input list"

text \<open>The constraints of the fields and \<^verbatim>\<open>validate_schedule\<close>.\<close>

definition installment_input_ok :: "installment_input \<Rightarrow> bool" where
  "installment_input_ok i \<longleftrightarrow> 2 \<le> length (ii_name i) \<and> length (ii_name i) \<le> 160 \<and> 0 < ii_amount i \<and> whole_cents (ii_amount i)"

definition schedule_ok :: "payment_plan_input \<Rightarrow> bool" where
  "schedule_ok p \<longleftrightarrow>
     \<not> list_ex (\<lambda>i. ii_due_date i < pp_effective_from p) (pp_installments p) \<and>
     map ii_due_date (pp_installments p) = sort (map ii_due_date (pp_installments p))"

definition payment_plan_input_ok :: "payment_plan_input \<Rightarrow> bool" where
  "payment_plan_input_ok p \<longleftrightarrow> 2 \<le> length (pp_name p) \<and> length (pp_name p) \<le> 160 \<and>
     1 \<le> length (pp_installments p) \<and> length (pp_installments p) \<le> 100 \<and>
     list_all installment_input_ok (pp_installments p) \<and> schedule_ok p"

record financing_input =
  fi_status :: financing_status
  fi_lender_name :: "string option"
  fi_loan_amount :: "decimal option"
  fi_application_number :: "string option"
  fi_sanction_reference :: "string option"
  fi_notes :: "string option"

definition default_financing :: financing_input where
  "default_financing = \<lparr>fi_status = Financing_NOT_REQUIRED, fi_lender_name = None, fi_loan_amount = None,
     fi_application_number = None, fi_sanction_reference = None, fi_notes = None\<rparr>"

text \<open>\<^verbatim>\<open>validate_financing\<close>; a decimal zero is false in Python.\<close>

definition financing_input_ok :: "financing_input \<Rightarrow> bool" where
  "financing_input_ok f \<longleftrightarrow> fi_status f = Financing_NOT_REQUIRED \<or>
     (given (fi_lender_name f) \<noteq> None \<and> (case fi_loan_amount f of None \<Rightarrow> False | Some a \<Rightarrow> a \<noteq> 0))"

record booking_create =
  bc_quotation_id :: ident
  bc_unit_hold_id :: ident
  bc_booking_number :: string
  bc_salesperson_user_id :: "ident option"
  bc_channel_partner_id :: "ident option"
  bc_joint_applicants :: "joint_applicant_input list"
  bc_financing :: "financing_input option"
  bc_payment_plan :: payment_plan_input

record booking_payment_create =
  bp_installment_id :: "ident option"
  bp_amount :: decimal
  bp_method :: string
  bp_reference_number :: "string option"
  bp_idempotency_key :: string
  bp_paid_at :: "timestamp option"

datatype payment_decision = Payment_decision_COMPLETED | Payment_decision_FAILED

record booking_approval_request =
  ar_approver_user_ids :: "ident list"
  ar_comments :: "string option"

text \<open>\<^verbatim>\<open>unique_approvers\<close> and the bounds of the list.\<close>

definition approval_request_ok :: "booking_approval_request \<Rightarrow> bool" where
  "approval_request_ok r \<longleftrightarrow> distinct (ar_approver_user_ids r) \<and>
     1 \<le> length (ar_approver_user_ids r) \<and> length (ar_approver_user_ids r) \<le> 10"

record booking_approval_decision =
  ad_status :: decision
  ad_comments :: string

datatype booking_advance = Advance_DOCUMENTATION_PENDING | Advance_PAYMENT_PENDING | Advance_VERIFICATION

primrec advance_target :: "booking_advance \<Rightarrow> booking_status" where
  "advance_target Advance_DOCUMENTATION_PENDING = Booking_DOCUMENTATION_PENDING"
| "advance_target Advance_PAYMENT_PENDING = Booking_PAYMENT_PENDING"
| "advance_target Advance_VERIFICATION = Booking_VERIFICATION"

section \<open>Views\<close>

record booking_applicant_view =
  bav_id :: ident
  bav_customer_id :: "ident option"
  bav_sequence :: int
  bav_is_primary :: bool
  bav_full_name :: string
  bav_email :: "string option"
  bav_phone :: "string option"
  bav_date_of_birth :: "day option"
  bav_tax_identifier :: "string option"
  bav_relationship_to_primary :: "string option"

record installment_view =
  iv_id :: ident
  iv_sequence :: int
  iv_name :: string
  iv_due_date :: day
  iv_amount :: decimal
  iv_paid_amount :: decimal
  iv_status :: string

record payment_plan_view =
  pv_id :: ident
  pv_name :: string
  pv_status :: string
  pv_currency :: string
  pv_total_amount :: decimal
  pv_effective_from :: day
  pv_installments :: "installment_view list"

record financing_view =
  fv_id :: ident
  fv_status :: financing_status
  fv_lender_name :: "string option"
  fv_loan_amount :: "decimal option"
  fv_application_number :: "string option"
  fv_sanction_reference :: "string option"
  fv_notes :: "string option"

record booking_payment_view =
  bpv_id :: ident
  bpv_installment_id :: "ident option"
  bpv_verified_by_user_id :: "ident option"
  bpv_verifier_name :: "string option"
  bpv_amount :: decimal
  bpv_currency :: string
  bpv_method :: string
  bpv_status :: payment_status
  bpv_reference_number :: "string option"
  bpv_idempotency_key :: string
  bpv_paid_at :: "timestamp option"
  bpv_verified_at :: "timestamp option"
  bpv_created_at :: timestamp

record booking_approval_view =
  apv_id :: ident
  apv_step_number :: int
  apv_requested_by_user_id :: ident
  apv_requested_by_name :: "string option"
  apv_approver_user_id :: ident
  apv_approver_name :: "string option"
  apv_status :: approval_status
  apv_comments :: "string option"
  apv_decided_at :: "timestamp option"
  apv_created_at :: timestamp

record booking_document_summary =
  bds_id :: ident
  bds_document_type :: string
  bds_version :: int
  bds_status :: string
  bds_file_name :: "string option"
  bds_expiry_date :: "day option"

record booking_view =
  bv_id :: ident
  bv_booking_number :: string
  bv_status :: booking_status
  bv_customer_id :: ident
  bv_customer_name :: string
  bv_lead_id :: "ident option"
  bv_quotation_id :: "ident option"
  bv_quotation_number :: "string option"
  bv_unit_hold_id :: "ident option"
  bv_unit_id :: ident
  bv_unit_number :: string
  bv_project_id :: ident
  bv_project_name :: string
  bv_salesperson_user_id :: "ident option"
  bv_salesperson_name :: "string option"
  bv_channel_partner_id :: "ident option"
  bv_broker_name :: "string option"
  bv_booked_by_user_id :: ident
  bv_booked_by_name :: string
  bv_agreed_price :: "decimal option"
  bv_discount_amount :: decimal
  bv_booking_amount :: decimal
  bv_currency :: string
  bv_paid_amount :: decimal
  bv_applicants :: "booking_applicant_view list"
  bv_payment_plan :: "payment_plan_view option"
  bv_payments :: "booking_payment_view list"
  bv_documents :: "booking_document_summary list"
  bv_financing :: "financing_view option"
  bv_approvals :: "booking_approval_view list"
  bv_submitted_at :: "timestamp option"
  bv_verification_completed_at :: "timestamp option"
  bv_approval_requested_at :: "timestamp option"
  bv_booked_at :: "timestamp option"
  bv_rejected_at :: "timestamp option"
  bv_cancelled_at :: "timestamp option"
  bv_rejection_reason :: "string option"
  bv_created_at :: timestamp

text \<open>\<^verbatim>\<open>_payment_total\<close>\<close>

definition payment_total :: "database \<Rightarrow> ident \<Rightarrow> ident \<Rightarrow> payment_status list \<Rightarrow> decimal" where
  "payment_total s org bid statuses =
     sum_where (\<lambda>p. pay_organization_id p = org \<and> pay_booking_id p = bid \<and> pay_status p \<in> set statuses)
       pay_amount (payments s)"

text \<open>\<^verbatim>\<open>_name\<close>\<close>

definition user_name :: "database \<Rightarrow> ident \<Rightarrow> ident option \<Rightarrow> string option" where
  "user_name s org i = Option.bind (given i) (\<lambda>i. map_option user_full_name (find_user s org i))"

definition applicant_views :: "database \<Rightarrow> ident \<Rightarrow> ident \<Rightarrow> booking_applicant_view list" where
  "applicant_views s org bid =
     map (\<lambda>a. \<lparr>bav_id = appl_id a, bav_customer_id = appl_customer_id a, bav_sequence = appl_sequence a,
         bav_is_primary = appl_is_primary a, bav_full_name = appl_full_name a, bav_email = appl_email a,
         bav_phone = appl_phone a, bav_date_of_birth = appl_date_of_birth a,
         bav_tax_identifier = appl_tax_identifier a,
         bav_relationship_to_primary = appl_relationship_to_primary a\<rparr>)
       (sort_key appl_sequence (filter (\<lambda>a. appl_organization_id a = org \<and> appl_booking_id a = bid)
         (booking_applicants s)))"

definition active_plan :: "database \<Rightarrow> ident \<Rightarrow> ident \<Rightarrow> payment_plan_row option" where
  "active_plan s org bid =
     first_row (order_desc plan_created_at (filter (\<lambda>p. plan_organization_id p = org \<and>
       plan_booking_id p = bid \<and> plan_status p = Record_ACTIVE) (payment_plans s)))"

definition plan_installments :: "database \<Rightarrow> ident \<Rightarrow> ident \<Rightarrow> installment_row list" where
  "plan_installments s org pid =
     sort_key inst_sequence (filter (\<lambda>i. inst_organization_id i = org \<and> inst_payment_plan_id i = pid) (installments s))"

definition plan_view :: "database \<Rightarrow> ident \<Rightarrow> ident \<Rightarrow> payment_plan_view option" where
  "plan_view s org bid =
     map_option (\<lambda>p. \<lparr>pv_id = plan_id p, pv_name = plan_name p, pv_status = record_status_value (plan_status p),
         pv_currency = plan_currency p, pv_total_amount = plan_total_amount p,
         pv_effective_from = plan_effective_from p,
         pv_installments = map (\<lambda>i. \<lparr>iv_id = inst_id i, iv_sequence = inst_sequence i, iv_name = inst_name i,
             iv_due_date = inst_due_date i, iv_amount = inst_amount i, iv_paid_amount = inst_paid_amount i,
             iv_status = installment_status_value (inst_status i)\<rparr>) (plan_installments s org (plan_id p))\<rparr>)
       (active_plan s org bid)"

definition payment_views :: "database \<Rightarrow> ident \<Rightarrow> ident \<Rightarrow> booking_payment_view list" where
  "payment_views s org bid =
     map (\<lambda>p. \<lparr>bpv_id = pay_id p, bpv_installment_id = pay_installment_id p,
         bpv_verified_by_user_id = pay_verified_by_user_id p,
         bpv_verifier_name = user_name s org (pay_verified_by_user_id p), bpv_amount = pay_amount p,
         bpv_currency = pay_currency p, bpv_method = pay_method p, bpv_status = pay_status p,
         bpv_reference_number = pay_reference_number p, bpv_idempotency_key = pay_idempotency_key p,
         bpv_paid_at = pay_paid_at p, bpv_verified_at = pay_verified_at p, bpv_created_at = pay_created_at p\<rparr>)
       (order_desc pay_created_at (filter (\<lambda>p. pay_organization_id p = org \<and> pay_booking_id p = bid) (payments s)))"

definition approval_views :: "database \<Rightarrow> ident \<Rightarrow> ident \<Rightarrow> booking_approval_view list" where
  "approval_views s org bid =
     map (\<lambda>a. \<lparr>apv_id = appr_id a, apv_step_number = appr_step_number a,
         apv_requested_by_user_id = appr_requested_by_user_id a,
         apv_requested_by_name = user_name s org (Some (appr_requested_by_user_id a)),
         apv_approver_user_id = appr_approver_user_id a,
         apv_approver_name = user_name s org (Some (appr_approver_user_id a)), apv_status = appr_status a,
         apv_comments = appr_comments a, apv_decided_at = appr_decided_at a, apv_created_at = appr_created_at a\<rparr>)
       (sort_key appr_step_number (filter (\<lambda>a. appr_organization_id a = org \<and> appr_booking_id a = bid)
         (booking_approvals s)))"

definition financing_of :: "database \<Rightarrow> ident \<Rightarrow> ident \<Rightarrow> booking_financing_row option" where
  "financing_of s org bid =
     first_row (filter (\<lambda>f. fin_organization_id f = org \<and> fin_booking_id f = bid) (booking_financing s))"

text \<open>\<^verbatim>\<open>_financing_view\<close>\<close>

definition financing_view_of :: "database \<Rightarrow> ident \<Rightarrow> ident \<Rightarrow> financing_view option" where
  "financing_view_of s org bid =
     map_option (\<lambda>f. \<lparr>fv_id = fin_id f, fv_status = fin_status f, fv_lender_name = fin_lender_name f,
         fv_loan_amount = fin_loan_amount f, fv_application_number = fin_application_number f,
         fv_sanction_reference = fin_sanction_reference f, fv_notes = fin_notes f\<rparr>)
       (financing_of s org bid)"

definition booking_documents :: "database \<Rightarrow> ident \<Rightarrow> booking_row \<Rightarrow> booking_document_summary list" where
  "booking_documents s org b =
     map (\<lambda>d. \<lparr>bds_id = doc_id d, bds_document_type = doc_document_type d, bds_version = doc_version d,
         bds_status = document_status_value (doc_status d), bds_file_name = doc_file_name d,
         bds_expiry_date = doc_expiry_date d\<rparr>)
       (order_desc doc_updated_at (filter (\<lambda>d. doc_organization_id d = org \<and>
         doc_customer_id d = booking_customer_id b \<and> doc_is_current d \<and>
         (doc_booking_id d = Some (booking_id b) \<or> doc_booking_id d = None)) (customer_documents s)))"

text \<open>\<^verbatim>\<open>_booking_view\<close>; a booking whose customer, unit or project is missing cannot be shown.\<close>

definition booking_view_of :: "database \<Rightarrow> ident \<Rightarrow> booking_row \<Rightarrow> app_error + booking_view" where
  "booking_view_of s org b =
     need (find_customer s org (booking_customer_id b)) not_found (\<lambda>c.
     need (find_unit s org (booking_unit_id b)) not_found (\<lambda>u.
     need (find_project s org (unit_project_id u)) not_found (\<lambda>p.
     Inr \<lparr>bv_id = booking_id b, bv_booking_number = booking_booking_number b, bv_status = booking_status b,
          bv_customer_id = booking_customer_id b, bv_customer_name = cust_full_name c,
          bv_lead_id = booking_lead_id b, bv_quotation_id = booking_quotation_id b,
          bv_quotation_number = Option.bind (given (booking_quotation_id b))
            (\<lambda>i. map_option quote_quotation_number (find_quotation s org i)),
          bv_unit_hold_id = booking_unit_hold_id b, bv_unit_id = booking_unit_id b,
          bv_unit_number = unit_unit_number u, bv_project_id = project_id p, bv_project_name = project_name p,
          bv_salesperson_user_id = booking_salesperson_user_id b,
          bv_salesperson_name = user_name s org (booking_salesperson_user_id b),
          bv_channel_partner_id = booking_channel_partner_id b,
          bv_broker_name = Option.bind (given (booking_channel_partner_id b))
            (\<lambda>i. map_option partner_name (find_partner s org i)),
          bv_booked_by_user_id = booking_booked_by_user_id b,
          bv_booked_by_name = (case given (user_name s org (Some (booking_booked_by_user_id b))) of
            None \<Rightarrow> ''Unknown'' | Some n \<Rightarrow> n),
          bv_agreed_price = booking_agreed_price b, bv_discount_amount = booking_discount_amount b,
          bv_booking_amount = booking_booking_amount b, bv_currency = booking_currency b,
          bv_paid_amount = payment_total s org (booking_id b) [Payment_COMPLETED],
          bv_applicants = applicant_views s org (booking_id b), bv_payment_plan = plan_view s org (booking_id b),
          bv_payments = payment_views s org (booking_id b), bv_documents = booking_documents s org b,
          bv_financing = financing_view_of s org (booking_id b),
          bv_approvals = approval_views s org (booking_id b), bv_submitted_at = booking_submitted_at b,
          bv_verification_completed_at = booking_verification_completed_at b,
          bv_approval_requested_at = booking_approval_requested_at b, bv_booked_at = booking_booked_at b,
          bv_rejected_at = booking_rejected_at b, bv_cancelled_at = booking_cancelled_at b,
          bv_rejection_reason = booking_rejection_reason b, bv_created_at = booking_created_at b\<rparr>)))"

text \<open>\<^verbatim>\<open>booking_stats\<close>; the total counts every booking, the rows of the statuses that are not shown included.\<close>

record booking_stats_view =
  bs_total :: nat
  bs_documentation_pending :: nat
  bs_payment_pending :: nat
  bs_verification :: nat
  bs_approval :: nat
  bs_confirmed :: nat
  bs_rejected :: nat
  bs_cancelled :: nat

definition booking_stats :: "database \<Rightarrow> ident \<Rightarrow> booking_stats_view" where
  "booking_stats s org =
     (let own = filter (\<lambda>b. booking_organization_id b = org) (bookings s);
          count = (\<lambda>st. count_rows (\<lambda>b. booking_status b = st) own)
      in \<lparr>bs_total = length own, bs_documentation_pending = count Booking_DOCUMENTATION_PENDING,
          bs_payment_pending = count Booking_PAYMENT_PENDING, bs_verification = count Booking_VERIFICATION,
          bs_approval = count Booking_APPROVAL, bs_confirmed = count Booking_CONFIRMED,
          bs_rejected = count Booking_REJECTED, bs_cancelled = count Booking_CANCELLED\<rparr>)"

end
