(* ===== verification/Booking_Handlers.thy ===== *)
theory Booking_Handlers
  imports Bookings
begin

text \<open>
  The operations of \<^verbatim>\<open>services/bookings.py\<close>: creation from an accepted quotation and an approved hold,
  the controlled transitions, applicants, payment plan, financing, payments, the approval chain
  (with the commission accrued by \<^verbatim>\<open>services/partners.py\<close>) and the cancellation. Texts with
  non-ASCII characters are given by their UTF-8 bytes.
\<close>

definition final_status :: "booking_status \<Rightarrow> bool" where
  "final_status st \<longleftrightarrow> st \<in> set [Booking_CONFIRMED, Booking_REJECTED, Booking_CANCELLED]"

definition or_decimal :: "decimal option \<Rightarrow> decimal \<Rightarrow> decimal" where
  "or_decimal x y = (case x of None \<Rightarrow> y | Some v \<Rightarrow> if v = 0 then y else v)"

section \<open>Writes\<close>

definition add_applicants :: "booking_applicant_row list \<Rightarrow> database \<Rightarrow> database" where
  "add_applicants as s = s\<lparr>booking_applicants := booking_applicants s @ as\<rparr>"

definition put_payment :: "payment_row \<Rightarrow> database \<Rightarrow> database" where
  "put_payment p s = s\<lparr>payments := put_row pay_id p (payments s)\<rparr>"

definition add_payment :: "payment_row \<Rightarrow> database \<Rightarrow> database" where
  "add_payment p s = s\<lparr>payments := payments s @ [p]\<rparr>"

definition put_approval :: "booking_approval_row \<Rightarrow> database \<Rightarrow> database" where
  "put_approval a s = s\<lparr>booking_approvals := put_row appr_id a (booking_approvals s)\<rparr>"

definition add_approvals :: "booking_approval_row list \<Rightarrow> database \<Rightarrow> database" where
  "add_approvals as s = s\<lparr>booking_approvals := booking_approvals s @ as\<rparr>"

definition add_ledger :: "customer_ledger_row \<Rightarrow> database \<Rightarrow> database" where
  "add_ledger l s = s\<lparr>customer_ledger := customer_ledger s @ [l]\<rparr>"

definition ledger_key_free :: "database \<Rightarrow> ident \<Rightarrow> string \<Rightarrow> bool" where
  "ledger_key_free s org key \<longleftrightarrow>
     list_all (\<lambda>l. \<not> (ledger_organization_id l = org \<and> ledger_idempotency_key l = key)) (customer_ledger s)"

section \<open>Applicants, plan and financing\<close>

definition primary_applicant :: "env \<Rightarrow> ident \<Rightarrow> ident \<Rightarrow> ident \<Rightarrow> customer_row \<Rightarrow> booking_applicant_row" where
  "primary_applicant e i org bid c =
     \<lparr>appl_id = i, appl_organization_id = org, appl_booking_id = bid, appl_customer_id = Some (cust_id c),
      appl_sequence = 1, appl_is_primary = True, appl_primary_booking_key = Some bid,
      appl_full_name = cust_full_name c, appl_email = cust_email c, appl_phone = cust_phone c,
      appl_date_of_birth = cust_date_of_birth c, appl_tax_identifier = None,
      appl_relationship_to_primary = None, appl_created_at = now e\<rparr>"

definition joint_applicant ::
  "env \<Rightarrow> ident \<Rightarrow> ident \<Rightarrow> ident \<Rightarrow> nat \<Rightarrow> string \<Rightarrow> joint_applicant_input \<Rightarrow> booking_applicant_row" where
  "joint_applicant e i org bid sequence relationship item =
     \<lparr>appl_id = i, appl_organization_id = org, appl_booking_id = bid, appl_customer_id = ja_customer_id item,
      appl_sequence = int sequence, appl_is_primary = False, appl_primary_booking_key = None,
      appl_full_name = strip (ja_full_name item), appl_email = given (ja_email item),
      appl_phone = ja_phone item, appl_date_of_birth = ja_date_of_birth item,
      appl_tax_identifier = ja_tax_identifier item,
      appl_relationship_to_primary = Some relationship, appl_created_at = now e\<rparr>"

text \<open>The look-ups of the joint applicants, in order, before any row is written.\<close>

fun check_applicants :: "database \<Rightarrow> ident \<Rightarrow> ident \<Rightarrow> joint_applicant_input list \<Rightarrow> app_error + unit" where
  "check_applicants s org customer [] = Inr ()"
| "check_applicants s org customer (item # items) =
     need_given (ja_customer_id item) (find_customer s org) not_found (\<lambda>linked.
     require (case linked of None \<Rightarrow> True | Some c \<Rightarrow> cust_id c \<noteq> customer) (App_Error 422 ''DUPLICATE_APPLICANT'')
       (check_applicants s org customer items))"

text \<open>\<^verbatim>\<open>_add_applicants\<close>; \<open>k\<close> is the position of the primary applicant in the uuid stream.\<close>

definition new_applicants ::
  "env \<Rightarrow> nat \<Rightarrow> ident \<Rightarrow> ident \<Rightarrow> customer_row \<Rightarrow> joint_applicant_input list \<Rightarrow> booking_applicant_row list" where
  "new_applicants e k org bid c items =
     primary_applicant e (uuid e k) org bid c #
     map (\<lambda>(i, item). joint_applicant e (uuid e (k + 1 + i)) org bid (i + 2)
         (strip (ja_relationship_to_primary item)) item) (enumerate 0 items)"

definition new_plan :: "env \<Rightarrow> ident \<Rightarrow> ident \<Rightarrow> booking_row \<Rightarrow> payment_plan_input \<Rightarrow> payment_plan_row" where
  "new_plan e i org b p =
     \<lparr>plan_id = i, plan_organization_id = org, plan_booking_id = booking_id b, plan_name = strip (pp_name p),
      plan_status = Record_ACTIVE, plan_currency = booking_currency b,
      plan_total_amount = sum_list (map ii_amount (pp_installments p)),
      plan_effective_from = pp_effective_from p, plan_created_at = now e\<rparr>"

definition new_installments ::
  "env \<Rightarrow> nat \<Rightarrow> ident \<Rightarrow> ident \<Rightarrow> installment_input list \<Rightarrow> installment_row list" where
  "new_installments e k org pid items =
     map (\<lambda>(i, item). \<lparr>inst_id = uuid e (k + i), inst_organization_id = org, inst_payment_plan_id = pid,
         inst_sequence = int (i + 1), inst_name = strip (ii_name item), inst_due_date = ii_due_date item,
         inst_amount = ii_amount item, inst_paid_amount = 0, inst_status = Installment_SCHEDULED,
         inst_created_at = now e\<rparr>) (enumerate 0 items)"

text \<open>
  \<^verbatim>\<open>_add_plan\<close>: the plan must add up to the agreed price; the booking's active plans are archived and
  the new plan with its installments is added, from position \<open>k\<close> of the uuid stream on. The name of a
  plan is unique in its booking, archived plans included, and the flush that breaks
  \<^verbatim>\<open>uq_payment_plans_tenant_booking_name\<close> is not caught.
\<close>

definition plan_name_free :: "database \<Rightarrow> ident \<Rightarrow> ident \<Rightarrow> string \<Rightarrow> bool" where
  "plan_name_free s org bid name \<longleftrightarrow>
     list_all (\<lambda>x. \<not> (plan_organization_id x = org \<and> plan_booking_id x = bid \<and> plan_name x = name)) (payment_plans s)"

definition add_plan ::
  "env \<Rightarrow> nat \<Rightarrow> ident \<Rightarrow> booking_row \<Rightarrow> payment_plan_input \<Rightarrow> database \<Rightarrow> app_error + database \<times> payment_plan_row" where
  "add_plan e k org b p s =
     require (sum_list (map ii_amount (pp_installments p)) = or_decimal (booking_agreed_price b) 0)
       (App_Error 422 ''PAYMENT_PLAN_TOTAL_MISMATCH'') (
     require (plan_name_free s org (booking_id b) (strip (pp_name p))) Integrity_Error
       (let plan = new_plan e (uuid e k) org b p in
        Inr (s\<lparr>payment_plans := update_where (\<lambda>x. plan_organization_id x = org \<and>
                 plan_booking_id x = booking_id b \<and> plan_status x = Record_ACTIVE)
                 (\<lambda>x. x\<lparr>plan_status := Record_ARCHIVED\<rparr>) (payment_plans s) @ [plan],
               installments := installments s @ new_installments e (k + 1) org (plan_id plan) (pp_installments p)\<rparr>,
             plan)))"

definition filled_financing :: "financing_input \<Rightarrow> booking_financing_row \<Rightarrow> booking_financing_row" where
  "filled_financing f r =
     r\<lparr>fin_status := fi_status f, fin_lender_name := fi_lender_name f, fin_loan_amount := fi_loan_amount f,
       fin_application_number := fi_application_number f, fin_sanction_reference := fi_sanction_reference f,
       fin_notes := fi_notes f\<rparr>"

definition upsert_financing ::
  "env \<Rightarrow> ident \<Rightarrow> ident \<Rightarrow> ident \<Rightarrow> financing_input \<Rightarrow> database \<Rightarrow> database" where
  "upsert_financing e i org bid f s =
     (case financing_of s org bid of
        Some r \<Rightarrow> s\<lparr>booking_financing := put_row fin_id (filled_financing f r) (booking_financing s)\<rparr>
      | None \<Rightarrow> s\<lparr>booking_financing := booking_financing s @
          [filled_financing f \<lparr>fin_id = i, fin_organization_id = org, fin_booking_id = bid,
             fin_status = Financing_NOT_REQUIRED, fin_lender_name = None, fin_loan_amount = None,
             fin_application_number = None, fin_sanction_reference = None, fin_notes = None,
             fin_created_at = now e\<rparr>]\<rparr>)"

section \<open>Creating a booking\<close>

definition broker_ok :: "database \<Rightarrow> ident \<Rightarrow> ident option \<Rightarrow> ident \<Rightarrow> app_error + unit" where
  "broker_ok s org broker project =
     need_given broker (find_partner s org) not_found (\<lambda>partner.
     case partner of None \<Rightarrow> Inr ()
     | Some c \<Rightarrow>
         require (partner_status c = Partner_ACTIVE) (App_Error 422 ''BROKER_INACTIVE'') (
         require (list_ex (\<lambda>x. pproj_organization_id x = org \<and> pproj_channel_partner_id x = partner_id c \<and>
             pproj_project_id x = project) (partner_projects s))
           (App_Error 422 ''BROKER_PROJECT_NOT_ASSIGNED'') (Inr ())))"

text \<open>The partner registration that protects a lead today, if any.\<close>

definition protecting :: "env \<Rightarrow> database \<Rightarrow> ident \<Rightarrow> ident option \<Rightarrow> partner_lead_row option" where
  "protecting e s org lead =
     Option.bind (given lead) (\<lambda>i. first_row (filter (\<lambda>x. plead_organization_id x = org \<and> plead_lead_id x = i \<and>
       plead_status x = Workflow_APPROVED \<and>
       (case plead_protected_until x of None \<Rightarrow> False | Some d \<Rightarrow> today e \<le> d)) (partner_leads s)))"

definition booked_row ::
  "env \<Rightarrow> ident \<Rightarrow> ident \<Rightarrow> mutation_context \<Rightarrow> unit_row \<Rightarrow> customer_row \<Rightarrow> quotation_row \<Rightarrow> unit_hold_row \<Rightarrow>
   ident \<Rightarrow> decimal \<Rightarrow> booking_create \<Rightarrow> booking_row" where
  "booked_row e i org ctx u c q h salesperson amount p =
     \<lparr>booking_id = i, booking_organization_id = org, booking_unit_id = unit_id u,
      booking_lead_id = quote_lead_id q, booking_customer_id = cust_id c,
      booking_quotation_id = Some (quote_id q), booking_unit_hold_id = Some (hold_id h),
      booking_booked_by_user_id = actor_user_id ctx, booking_salesperson_user_id = Some salesperson,
      booking_channel_partner_id = bc_channel_partner_id p, booking_verified_by_user_id = None,
      booking_confirmed_by_user_id = None, booking_booking_number = bc_booking_number p,
      booking_status = Booking_PAYMENT_PENDING, booking_booking_amount = amount,
      booking_agreed_price = Some (or_decimal (quote_final_agreed_value q) (quote_total q)),
      booking_discount_amount = quote_discount_amount q, booking_currency = quote_currency q,
      booking_active_unit_key = Some (unit_id u), booking_booked_at = None, booking_submitted_at = None,
      booking_verification_completed_at = None, booking_approval_requested_at = None,
      booking_rejected_at = None, booking_cancelled_at = None, booking_rejection_reason = None,
      booking_created_at = now e\<rparr>"

definition agreed_value_entry :: "env \<Rightarrow> ident \<Rightarrow> ident \<Rightarrow> booking_row \<Rightarrow> customer_ledger_row" where
  "agreed_value_entry e i org b =
     \<lparr>ledger_id = i, ledger_organization_id = org, ledger_customer_id = booking_customer_id b,
      ledger_booking_id = Some (booking_id b), ledger_payment_id = None, ledger_receipt_id = None,
      ledger_entry_type = Ledger_DEBIT, ledger_amount = or_decimal (booking_agreed_price b) 0,
      ledger_currency = booking_currency b,
      ledger_description = [JStr ''Agreed value for booking '', JStr (booking_booking_number b)],
      ledger_idempotency_key = ''booking:'' @ booking_id b @ '':agreed-value'',
      ledger_posted_at = now e, ledger_created_at = now e\<rparr>"

definition booking_people :: "booking_row \<Rightarrow> ident list" where
  "booking_people b =
     [booking_booked_by_user_id b, case given (booking_salesperson_user_id b) of None \<Rightarrow> [] | Some x \<Rightarrow> x]"

definition booking_message ::
  "notification_event_type \<Rightarrow> string \<Rightarrow> formatted \<Rightarrow> booking_row \<Rightarrow> snapshot \<Rightarrow> message" where
  "booking_message event title body b data =
     \<lparr>msg_event = event, msg_title = title, msg_body = body, msg_entity_type = ''booking'',
      msg_entity_id = booking_id b, msg_action_url = ''/bookings/'' @ booking_id b, msg_data = Some data\<rparr>"

text \<open>
  The guards of \<^verbatim>\<open>create_booking\<close> on the quotation, the unit and the hold. The quotation is read
  again under lock, with the same result.
\<close>

definition quotation_and_hold_ok ::
  "env \<Rightarrow> database \<Rightarrow> ident \<Rightarrow> quotation_row \<Rightarrow> unit_row \<Rightarrow> unit_hold_row \<Rightarrow> app_error + unit" where
  "quotation_and_hold_ok e s org q u h =
     require (quote_status q = Quotation_ACCEPTED) (App_Error 409 ''QUOTATION_NOT_ACCEPTED'') (
     require (hold_unit_id h = unit_id u \<and> hold_customer_id h = quote_customer_id q)
       (App_Error 409 ''HOLD_SCOPE_MISMATCH'') (
     require (hold_status h = Hold_ACTIVE \<and> now e < hold_expires_at h) (App_Error 409 ''VALID_HOLD_REQUIRED'') (
     require (held_status (unit_status u)) (App_Error 409 ''UNIT_NOT_HELD'') (
     require (slot_free booking_organization_id booking_active_unit_key org (unit_id u) (bookings s))
       (App_Error 409 ''UNIT_ALREADY_BOOKED'') (Inr ())))))"

definition create_booking ::
  "env \<Rightarrow> mutation_context \<Rightarrow> ident \<Rightarrow> booking_create \<Rightarrow> database \<Rightarrow> (database, booking_view) outcome" where
  "create_booking e ctx org p s0 =
     (let (s, k) = expire_due_documents e 0 org s0 in
     fetch s (find_quotation s org (bc_quotation_id p)) not_found (\<lambda>q.
     fetch s (quote_unit_id q) (App_Error 409 ''QUOTATION_INCOMPLETE'') (\<lambda>uid.
     fetch s (quote_customer_id q) (App_Error 409 ''QUOTATION_INCOMPLETE'') (\<lambda>cid.
     fetch s (find_unit s org uid) not_found (\<lambda>u.
     fetch s (find_hold s org (bc_unit_hold_id p)) not_found (\<lambda>h.
     attempt s (quotation_and_hold_ok e s org q u h) (\<lambda>_.
     fetch s (find_customer s org cid) not_found (\<lambda>c.
     demand s (has_verified_kyc s org (cust_id c)) (App_Error 409 ''KYC_NOT_VERIFIED'') (
     let sp_id = (case given (bc_salesperson_user_id p) of None \<Rightarrow> actor_user_id ctx | Some x \<Rightarrow> x) in
     fetch s (find_user s org sp_id) not_found (\<lambda>sp.
     demand s (user_is_active sp) (App_Error 422 ''SALESPERSON_INACTIVE'') (
     attempt s (broker_ok s org (bc_channel_partner_id p) (quote_project_id q)) (\<lambda>_.
     demand s (case protecting e s org (quote_lead_id q) of None \<Rightarrow> True
         | Some x \<Rightarrow> Some (plead_channel_partner_id x) = bc_channel_partner_id p)
       (App_Error 409 ''PARTNER_LEAD_PROTECTED'') (
     fetch s (quote_booking_amount q) (App_Error 409 ''BOOKING_AMOUNT_MISSING'') (\<lambda>amount.
     let b = booked_row e (uuid e k) org ctx u c q h sp_id amount p in
     demand s (booking_number_free s org (bc_booking_number p)) Integrity_Error (
     attempt s (check_applicants s org (cust_id c) (bc_joint_applicants p)) (\<lambda>_.
     let n = length (bc_joint_applicants p);
         m = length (pp_installments (bc_payment_plan p));
         u' = u\<lparr>unit_status := Unit_BOOKING_INITIATED\<rparr>;
         s1 = add_applicants (new_applicants e (k + 1) org (booking_id b) c (bc_joint_applicants p)) (add_booking b s) in
     attempt s (add_plan e (k + n + 2) org b (bc_payment_plan p) s1) (\<lambda>(s2, plan).
     let s3 = upsert_financing e (uuid e (k + n + m + 3)) org (booking_id b)
           (case bc_financing p of None \<Rightarrow> default_financing | Some f \<Rightarrow> f) s2;
         s4 = put_unit u' (put_hold (converted_hold e h) s3);
         entry = agreed_value_entry e (uuid e (k + n + m + 4)) org b;
         audit = audit_entry e (uuid e (k + n + m + 5)) org ctx ''booking.created'' ''booking'' (booking_id b) None
           (Some [(''quotation_id'', JStr (quote_id q)), (''unit_hold_id'', JStr (hold_id h)),
                  (''unit_id'', JStr (unit_id u)), (''customer_id'', JStr (cust_id c)),
                  (''agreed_price'', JDec (or_decimal (quote_final_agreed_value q) (quote_total q))),
                  (''discount_amount'', JDec (booking_discount_amount b)),
                  (''booking_amount'', JDec amount),
                  (''status'', JStr (booking_status_value (booking_status b)))]);
         msg = booking_message Event_BOOKING_CREATED ''Booking created''
           [JStr (booking_booking_number b), JStr [CHR 0x20, CHR 0xC2, CHR 0xB7, CHR 0x20],
            JStr (booking_currency b), JStr '' '', JDec amount] b
           [(''booking_number'', JStr (booking_booking_number b)),
            (''status'', JStr (booking_status_value (booking_status b)))] in
     demand s (ledger_key_free s org (ledger_idempotency_key entry)) (App_Error 409 ''BOOKING_CONFLICT'') (
     let t = queue_in_app e (k + n + m + 6) org (booking_people b) msg None None
           (add_audits [audit] (add_ledger entry s4)) in
     respond t (booking_view_of t org b)))))))))))))))))))"

definition get_booking :: "env \<Rightarrow> ident \<Rightarrow> ident \<Rightarrow> database \<Rightarrow> (database, booking_view) outcome" where
  "get_booking e org bid s0 =
     (let (s, k) = expire_due_documents e 0 org s0 in
      fetch s (find_booking s org bid) not_found (\<lambda>b. respond s (booking_view_of s org b)))"

section \<open>Controlled transitions\<close>

definition advance_allowed :: "booking_status \<Rightarrow> booking_status \<Rightarrow> bool" where
  "advance_allowed from target \<longleftrightarrow>
     (from = Booking_DRAFT \<and> target = Booking_DOCUMENTATION_PENDING) \<or>
     (from = Booking_DOCUMENTATION_PENDING \<and> target = Booking_PAYMENT_PENDING) \<or>
     (from = Booking_PAYMENT_PENDING \<and> target = Booking_VERIFICATION)"

definition submitted_statuses :: "payment_status list" where
  "submitted_statuses = [Payment_PENDING, Payment_PROCESSING, Payment_COMPLETED]"

definition advance_booking ::
  "env \<Rightarrow> mutation_context \<Rightarrow> ident \<Rightarrow> ident \<Rightarrow> booking_advance \<Rightarrow> database \<Rightarrow> (database, booking_view) outcome" where
  "advance_booking e ctx org bid p s0 =
     (let (s, k) = expire_due_documents e 0 org s0 in
     fetch s (find_booking s org bid) not_found (\<lambda>b.
     demand s (booking_quotation_id b \<noteq> None \<and> booking_unit_hold_id b \<noteq> None \<and> booking_agreed_price b \<noteq> None \<and>
         list_ex (\<lambda>x. plan_organization_id x = org \<and> plan_booking_id x = booking_id b) (payment_plans s))
       (App_Error 409 ''BOOKING_FLOW_REQUIRED'') (
     let target = advance_target p in
     demand s (advance_allowed (booking_status b) target) (App_Error 409 ''INVALID_BOOKING_TRANSITION'') (
     demand s (target = Booking_PAYMENT_PENDING \<longrightarrow> has_verified_kyc s org (booking_customer_id b))
       (App_Error 409 ''KYC_NOT_VERIFIED'') (
     demand s (target = Booking_VERIFICATION \<longrightarrow>
         booking_booking_amount b \<le> payment_total s org (booking_id b) submitted_statuses)
       (App_Error 409 ''BOOKING_AMOUNT_NOT_PAID'') (
     let b' = b\<lparr>booking_status := target,
              booking_submitted_at := (if target = Booking_VERIFICATION then Some (now e) else booking_submitted_at b)\<rparr>;
         before = booking_status_value (booking_status b);
         audit = audit_entry e (uuid e k) org ctx ''booking.status.changed'' ''booking'' (booking_id b)
           (Some [(''status'', JStr before)]) (Some [(''status'', JStr (booking_status_value target))]);
         msg = booking_message Event_BOOKING_STATUS_CHANGED ''Booking status updated''
           [JStr (booking_booking_number b), JStr '': '', JStr before,
            JStr [CHR 0x20, CHR 0xE2, CHR 0x86, CHR 0x92, CHR 0x20], JStr (booking_status_value target)] b
           [(''previous_status'', JStr before), (''status'', JStr (booking_status_value target))];
         t = queue_in_app e (k + 1) org (booking_people b) msg None None (add_audits [audit] (put_booking b' s)) in
     respond t (booking_view_of t org b')))))))"

section \<open>Applicants, payment plan and financing of a booking\<close>

text \<open>
  \<^verbatim>\<open>replace_joint_applicants\<close>. The deletions and insertions reach the database in one flush, which
  emits the INSERTs of a table before its DELETEs: a new row whose sequence number an old row of the
  booking still has violates \<^verbatim>\<open>uq_booking_applicants_sequence\<close>, and no handler catches that.
\<close>

fun applicants_known :: "database \<Rightarrow> ident \<Rightarrow> joint_applicant_input list \<Rightarrow> app_error + unit" where
  "applicants_known s org [] = Inr ()"
| "applicants_known s org (item # items) =
     need_given (ja_customer_id item) (find_customer s org) not_found (\<lambda>_. applicants_known s org items)"

definition joint_of :: "ident \<Rightarrow> ident \<Rightarrow> booking_applicant_row \<Rightarrow> bool" where
  "joint_of org bid a \<longleftrightarrow> appl_organization_id a = org \<and> appl_booking_id a = bid \<and> \<not> appl_is_primary a"

definition sequences_free :: "database \<Rightarrow> ident \<Rightarrow> ident \<Rightarrow> int list \<Rightarrow> bool" where
  "sequences_free s org bid new \<longleftrightarrow>
     list_all (\<lambda>a. appl_organization_id a = org \<and> appl_booking_id a = bid \<longrightarrow> appl_sequence a \<notin> set new)
       (booking_applicants s)"

definition replace_joint_applicants ::
  "env \<Rightarrow> mutation_context \<Rightarrow> ident \<Rightarrow> ident \<Rightarrow> joint_applicant_input list \<Rightarrow> database \<Rightarrow>
   (database, booking_view) outcome" where
  "replace_joint_applicants e ctx org bid items s =
     fetch s (find_booking s org bid) not_found (\<lambda>b.
     demand s (\<not> final_status (booking_status b) \<and> booking_status b \<noteq> Booking_APPROVAL)
       (App_Error 409 ''BOOKING_APPLICANTS_LOCKED'') (
     let existing = filter (joint_of org (booking_id b)) (booking_applicants s) in
     fetch s (find_customer s org (booking_customer_id b)) not_found (\<lambda>c.
     attempt s (applicants_known s org items) (\<lambda>_.
     let new = map (\<lambda>(i, item). joint_applicant e (uuid e i) org (booking_id b) (i + 2)
               (ja_relationship_to_primary item) item) (enumerate 0 items);
         audit = audit_entry e (uuid e (length items)) org ctx ''booking.applicants.updated'' ''booking'' (booking_id b)
           (Some [(''joint_applicant_count'', JInt (int (length existing)))])
           (Some [(''joint_applicant_count'', JInt (int (length items))),
                  (''primary_customer_id'', JStr (cust_id c))]) in
     demand s (sequences_free s org (booking_id b) (map appl_sequence new)) Integrity_Error (
     let t = add_audits [audit] (s\<lparr>booking_applicants :=
           filter (\<lambda>a. \<not> joint_of org (booking_id b) a) (booking_applicants s) @ new\<rparr>) in
     respond t (booking_view_of t org b))))))"

definition set_payment_plan ::
  "env \<Rightarrow> mutation_context \<Rightarrow> ident \<Rightarrow> ident \<Rightarrow> payment_plan_input \<Rightarrow> database \<Rightarrow> (database, booking_view) outcome" where
  "set_payment_plan e ctx org bid p s =
     fetch s (find_booking s org bid) not_found (\<lambda>b.
     demand s (\<not> final_status (booking_status b) \<and> booking_status b \<noteq> Booking_APPROVAL)
       (App_Error 409 ''PAYMENT_PLAN_LOCKED'') (
     attempt s (add_plan e 1 org b p s) (\<lambda>(s1, plan).
     let audit = audit_entry e (uuid e 0) org ctx ''booking.payment_plan.updated'' ''booking'' (booking_id b) None
           (Some [(''payment_plan_id'', JStr (plan_id plan)), (''total_amount'', JDec (plan_total_amount plan))]);
         t = add_audits [audit] s1 in
     respond t (booking_view_of t org b))))"

definition set_financing ::
  "env \<Rightarrow> mutation_context \<Rightarrow> ident \<Rightarrow> ident \<Rightarrow> financing_input \<Rightarrow> database \<Rightarrow> (database, booking_view) outcome" where
  "set_financing e ctx org bid f s =
     fetch s (find_booking s org bid) not_found (\<lambda>b.
     demand s (\<not> final_status (booking_status b)) (App_Error 409 ''FINANCING_LOCKED'') (
     let audit = audit_entry e (uuid e 1) org ctx ''booking.financing.updated'' ''booking'' (booking_id b)
           (map_option (\<lambda>v. [(''status'', JStr (financing_status_value (fv_status v)))])
             (financing_view_of s org (booking_id b)))
           (Some [(''status'', JStr (financing_status_value (fi_status f))),
                  (''loan_amount'', JDec (or_decimal (fi_loan_amount f) 0))]);
         t = add_audits [audit] (upsert_financing e (uuid e 0) org (booking_id b) f s) in
     respond t (booking_view_of t org b)))"

section \<open>Payments\<close>

definition new_payment ::
  "env \<Rightarrow> ident \<Rightarrow> ident \<Rightarrow> booking_row \<Rightarrow> booking_payment_create \<Rightarrow> payment_row" where
  "new_payment e i org b p =
     \<lparr>pay_id = i, pay_organization_id = org, pay_booking_id = booking_id b, pay_customer_id = booking_customer_id b,
      pay_installment_id = bp_installment_id p, pay_verified_by_user_id = None, pay_amount = bp_amount p,
      pay_currency = booking_currency b, pay_method = upper (strip (bp_method p)),
      pay_status = Payment_PENDING, pay_reference_number = bp_reference_number p,
      pay_idempotency_key = bp_idempotency_key p,
      pay_paid_at = Some (case bp_paid_at p of None \<Rightarrow> now e | Some t \<Rightarrow> t), pay_verified_at = None,
      pay_created_at = now e\<rparr>"

definition payment_by_key :: "database \<Rightarrow> ident \<Rightarrow> string \<Rightarrow> payment_row option" where
  "payment_by_key s org key =
     first_row (filter (\<lambda>p. pay_organization_id p = org \<and> pay_idempotency_key p = key) (payments s))"

text \<open>
  \<^verbatim>\<open>create_payment\<close>. A known idempotency key answers with the booking when it belongs to the same
  booking and amount; with a new key the flush cannot violate the unique index.
\<close>

definition create_payment ::
  "env \<Rightarrow> mutation_context \<Rightarrow> ident \<Rightarrow> ident \<Rightarrow> booking_payment_create \<Rightarrow> database \<Rightarrow>
   (database, booking_view) outcome" where
  "create_payment e ctx org bid p s =
     fetch s (find_booking s org bid) not_found (\<lambda>b.
     demand s (booking_status b = Booking_PAYMENT_PENDING \<or> booking_status b = Booking_VERIFICATION)
       (App_Error 409 ''PAYMENT_NOT_ALLOWED'') (
     case payment_by_key s org (bp_idempotency_key p) of
       Some x \<Rightarrow>
         demand s (pay_booking_id x = booking_id b \<and> pay_amount x = bp_amount p) (App_Error 409 ''IDEMPOTENCY_CONFLICT'')
           (respond s (booking_view_of s org b))
     | None \<Rightarrow>
         fetch_given s (bp_installment_id p) (find_installment s org) not_found (\<lambda>inst.
         attempt s (case inst of None \<Rightarrow> Inr ()
             | Some i \<Rightarrow> need (find_plan s org (inst_payment_plan_id i)) not_found (\<lambda>plan.
                 require (plan_booking_id plan = booking_id b) (App_Error 422 ''INSTALLMENT_BOOKING_MISMATCH'') (Inr ()))) (\<lambda>_.
         let submitted = payment_total s org (booking_id b) submitted_statuses in
         demand s (case booking_agreed_price b of None \<Rightarrow> True | Some a \<Rightarrow> submitted + bp_amount p \<le> a)
           (App_Error 422 ''PAYMENT_EXCEEDS_AGREED_VALUE'') (
         let x = new_payment e (uuid e 0) org b p;
             b' = (if booking_booking_amount b \<le> submitted + pay_amount x
                   then b\<lparr>booking_status := Booking_VERIFICATION, booking_submitted_at := Some (now e)\<rparr> else b);
             audit = audit_entry e (uuid e 1) org ctx ''booking.payment.submitted'' ''payment'' (pay_id x) None
               (Some [(''booking_id'', JStr (booking_id b)), (''amount'', JDec (pay_amount x)),
                      (''status'', JStr (payment_status_value (pay_status x)))]);
             t = add_audits [audit] (put_booking b' (add_payment x s)) in
         respond t (booking_view_of t org b'))))))"

text \<open>
  \<^verbatim>\<open>decide_payment\<close>: completion is refused here (the collections workflow does it), so the branches
  of the source that follow for a completed payment cannot be reached and only failing remains.
\<close>

definition decide_payment ::
  "env \<Rightarrow> mutation_context \<Rightarrow> ident \<Rightarrow> ident \<Rightarrow> ident \<Rightarrow> payment_decision \<Rightarrow> string option \<Rightarrow> database \<Rightarrow>
   (database, booking_view) outcome" where
  "decide_payment e ctx org bid pid d notes s =
     fetch s (find_booking s org bid) not_found (\<lambda>b.
     fetch s (find_payment s org pid) not_found (\<lambda>p.
     demand s (pay_booking_id p = booking_id b) not_found (
     demand s (pay_status p = Payment_PENDING \<or> pay_status p = Payment_PROCESSING) (App_Error 409 ''PAYMENT_FINALIZED'') (
     demand s (d \<noteq> Payment_decision_COMPLETED) (App_Error 409 ''FINANCE_WORKFLOW_REQUIRED'') (
     let p' = p\<lparr>pay_status := Payment_FAILED, pay_verified_by_user_id := Some (actor_user_id ctx),
                pay_verified_at := Some (now e)\<rparr>;
         audit = audit_entry e (uuid e 0) org ctx ''booking.payment.failed'' ''payment'' (pay_id p)
           (Some [(''status'', JStr (payment_status_value (pay_status p)))])
           (Some [(''status'', JStr (payment_status_value (pay_status p'))), (''booking_id'', JStr (booking_id b)),
                  (''notes'', jopt JStr notes)]);
         t = add_audits [audit] (put_payment p' s) in
     respond t (booking_view_of t org b))))))"

section \<open>The approval chain\<close>

definition eligible_approver :: "database \<Rightarrow> ident \<Rightarrow> ident \<Rightarrow> bool" where
  "eligible_approver s org i \<longleftrightarrow>
     list_ex (\<lambda>u. user_organization_id u = org \<and> user_id u = i \<and> user_is_active u) (users s) \<and>
     list_ex (\<lambda>c. c = ''bookings.approve'' \<or> c = ''bookings.manage'') (user_codes s org i)"

definition new_approvals ::
  "env \<Rightarrow> nat \<Rightarrow> ident \<Rightarrow> ident \<Rightarrow> ident \<Rightarrow> string option \<Rightarrow> ident list \<Rightarrow> booking_approval_row list" where
  "new_approvals e k org bid requester comments approvers =
     map (\<lambda>(i, a). \<lparr>appr_id = uuid e (k + i), appr_organization_id = org, appr_booking_id = bid,
         appr_requested_by_user_id = requester, appr_approver_user_id = a, appr_step_number = int (i + 1),
         appr_status = Approval_PENDING, appr_comments = comments, appr_decided_at = None,
         appr_created_at = now e\<rparr>) (enumerate 0 approvers)"

definition financing_ready :: "financing_status \<Rightarrow> bool" where
  "financing_ready st \<longleftrightarrow> st \<in> set [Financing_NOT_REQUIRED, Financing_SANCTIONED, Financing_DISBURSED]"

definition request_approval ::
  "env \<Rightarrow> mutation_context \<Rightarrow> ident \<Rightarrow> ident \<Rightarrow> booking_approval_request \<Rightarrow> database \<Rightarrow>
   (database, booking_view) outcome" where
  "request_approval e ctx org bid p s0 =
     (let (s, k) = expire_due_documents e 0 org s0 in
     fetch s (find_booking s org bid) not_found (\<lambda>b.
     demand s (booking_status b = Booking_VERIFICATION) (App_Error 409 ''BOOKING_NOT_IN_VERIFICATION'') (
     demand s (has_verified_kyc s org (booking_customer_id b)) (App_Error 409 ''KYC_NOT_VERIFIED'') (
     demand s (booking_booking_amount b \<le> payment_total s org (booking_id b) [Payment_COMPLETED])
       (App_Error 409 ''BOOKING_AMOUNT_NOT_VERIFIED'') (
     demand s (case financing_view_of s org (booking_id b) of None \<Rightarrow> True | Some f \<Rightarrow> financing_ready (fv_status f))
       (App_Error 409 ''FINANCING_NOT_READY'') (
     demand s (actor_user_id ctx \<notin> set (ar_approver_user_ids p)) (App_Error 403 ''SELF_APPROVAL_NOT_ALLOWED'') (
     demand s (list_all (eligible_approver s org) (ar_approver_user_ids p)) (App_Error 422 ''INVALID_BOOKING_APPROVER'') (
     demand s (count_rows (\<lambda>a. appr_organization_id a = org \<and> appr_booking_id a = booking_id b) (booking_approvals s) = 0)
       (App_Error 409 ''APPROVAL_ALREADY_REQUESTED'') (
     let new = new_approvals e k org (booking_id b) (actor_user_id ctx) (ar_comments p) (ar_approver_user_ids p);
         n = length (ar_approver_user_ids p);
         b' = b\<lparr>booking_status := Booking_APPROVAL, booking_verified_by_user_id := Some (actor_user_id ctx),
                booking_verification_completed_at := Some (now e), booking_approval_requested_at := Some (now e)\<rparr>;
         audit = audit_entry e (uuid e (k + n)) org ctx ''booking.approval.requested'' ''booking'' (booking_id b)
           (Some [(''status'', JStr (booking_status_value Booking_VERIFICATION))])
           (Some [(''status'', JStr (booking_status_value Booking_APPROVAL)),
                  (''approver_user_ids'', JList (map JStr (ar_approver_user_ids p)))]);
         msg = booking_message Event_BOOKING_STATUS_CHANGED ''Booking approval requested''
           [JStr (booking_booking_number b)] b
           [(''status'', JStr (booking_status_value (booking_status b'))),
            (''requested_by_user_id'', JStr (actor_user_id ctx))];
         t = queue_in_app e (k + n + 1) org (ar_approver_user_ids p) msg None None
           (add_audits [audit] (put_booking b' (add_approvals new s))) in
     respond t (booking_view_of t org b'))))))))))"

text \<open>
  \<^verbatim>\<open>accrue_booking_commission\<close> of \<^verbatim>\<open>services/partners.py\<close>: project-specific structures come first, then
  the most recent; at most one commission per partner and booking.
\<close>

definition applicable_structures :: "env \<Rightarrow> database \<Rightarrow> ident \<Rightarrow> ident \<Rightarrow> ident \<Rightarrow> commission_structure_row list" where
  "applicable_structures e s org broker project =
     sort_key (\<lambda>c. if cstr_project_id c = None then 1 else 0 :: nat) (order_desc cstr_effective_from
       (filter (\<lambda>c. cstr_organization_id c = org \<and> cstr_channel_partner_id c = broker \<and> cstr_is_active c \<and>
          cstr_effective_from c \<le> today e \<and>
          (case cstr_effective_until c of None \<Rightarrow> True | Some d \<Rightarrow> today e \<le> d) \<and>
          (cstr_project_id c = Some project \<or> cstr_project_id c = None)) (commission_structures s)))"

definition accrue_booking_commission ::
  "env \<Rightarrow> nat \<Rightarrow> mutation_context \<Rightarrow> ident \<Rightarrow> booking_row \<Rightarrow> database \<Rightarrow> app_error + database" where
  "accrue_booking_commission e k ctx org b s =
     (case (given (booking_channel_partner_id b), booking_agreed_price b) of
        (Some broker, Some price) \<Rightarrow>
          need (find_unit s org (booking_unit_id b)) not_found (\<lambda>u.
          need (first_row (applicable_structures e s org broker (unit_project_id u)))
            (App_Error 409 ''COMMISSION_STRUCTURE_MISSING'') (\<lambda>c.
          let item = \<lparr>comm_id = uuid e k, comm_organization_id = org, comm_channel_partner_id = broker,
                comm_booking_id = booking_id b, comm_commission_payout_id = None, comm_approved_by_user_id = None,
                comm_commission_structure_id = Some (cstr_id c), comm_status = Commission_ELIGIBLE,
                comm_rate_percent = cstr_rate_percent c,
                comm_amount = money (price * cstr_rate_percent c / 100), comm_currency = booking_currency b,
                comm_created_at = now e\<rparr>;
              audit = audit_entry e (uuid e (k + 1)) org ctx ''partner.commission.accrued'' ''commission'' (comm_id item) None
                (Some [(''booking_id'', JStr (booking_id b)), (''structure_id'', JStr (cstr_id c)),
                       (''rate_percent'', JDec (comm_rate_percent item)), (''amount'', JDec (comm_amount item))]) in
          require (list_all (\<lambda>x. \<not> (comm_organization_id x = org \<and> comm_channel_partner_id x = broker \<and>
              comm_booking_id x = booking_id b)) (commissions s)) Integrity_Error
            (Inr (add_audits [audit] (s\<lparr>commissions := commissions s @ [item]\<rparr>)))))
      | _ \<Rightarrow> Inr s)"

definition decided_approval :: "env \<Rightarrow> booking_approval_decision \<Rightarrow> booking_approval_row \<Rightarrow> booking_approval_row" where
  "decided_approval e p a =
     a\<lparr>appr_status := (case ad_status p of Decision_APPROVED \<Rightarrow> Approval_APPROVED | Decision_REJECTED \<Rightarrow> Approval_REJECTED),
       appr_comments := Some (strip (ad_comments p)), appr_decided_at := Some (now e)\<rparr>"

definition pending_approval :: "ident \<Rightarrow> ident \<Rightarrow> booking_approval_row \<Rightarrow> bool" where
  "pending_approval org bid a \<longleftrightarrow>
     appr_organization_id a = org \<and> appr_booking_id a = bid \<and> appr_status a = Approval_PENDING"

text \<open>The bulk cancellation of the pending approvals that satisfy a further condition.\<close>

definition cancel_approvals ::
  "env \<Rightarrow> ident \<Rightarrow> ident \<Rightarrow> (booking_approval_row \<Rightarrow> bool) \<Rightarrow> database \<Rightarrow> database" where
  "cancel_approvals e org bid also s =
     s\<lparr>booking_approvals := update_where (\<lambda>a. pending_approval org bid a \<and> also a)
         (\<lambda>a. a\<lparr>appr_status := Approval_CANCELLED, appr_decided_at := Some (now e)\<rparr>) (booking_approvals s)\<rparr>"

definition rejected_booking :: "env \<Rightarrow> string option \<Rightarrow> booking_row \<Rightarrow> booking_row" where
  "rejected_booking e reason b =
     b\<lparr>booking_status := Booking_REJECTED, booking_rejected_at := Some (now e), booking_rejection_reason := reason,
       booking_active_unit_key := None\<rparr>"

definition confirmed_booking :: "env \<Rightarrow> mutation_context \<Rightarrow> booking_row \<Rightarrow> booking_row" where
  "confirmed_booking e ctx b =
     b\<lparr>booking_status := Booking_CONFIRMED, booking_confirmed_by_user_id := Some (actor_user_id ctx),
       booking_booked_at := Some (now e)\<rparr>"

text \<open>
  What the decision does before it is audited: a rejection ends the booking, cancels the other
  pending steps and releases the unit; an approval confirms the booking when it was the last one.
\<close>

definition apply_decision ::
  "env \<Rightarrow> mutation_context \<Rightarrow> ident \<Rightarrow> booking_row \<Rightarrow> unit_row \<Rightarrow> booking_approval_row \<Rightarrow> database \<Rightarrow>
   app_error + database \<times> booking_row" where
  "apply_decision e ctx org b u a s =
     (if appr_status a = Approval_REJECTED then
        let b' = rejected_booking e (appr_comments a) b in
        Inr (cancel_approvals e org (booking_id b) (\<lambda>x. appr_id x \<noteq> appr_id a)
               (put_unit (u\<lparr>unit_status := Unit_CANCELLED_RELEASED\<rparr>) (put_booking b' (put_approval a s))), b')
      else
        let s1 = put_approval a s in
        if count_rows (pending_approval org (booking_id b)) (booking_approvals s1) = 0 then
          require (booking_active_unit_key b = Some (unit_id u) \<and> unit_status u = Unit_BOOKING_INITIATED)
            (App_Error 409 ''UNIT_BOOKING_LOCK_LOST'')
            (let b' = confirmed_booking e ctx b;
                 s2 = put_unit (u\<lparr>unit_status := Unit_BOOKED\<rparr>) (put_booking b' s1) in
             case accrue_booking_commission e 0 ctx org b' s2 of
               Inl err \<Rightarrow> Inl err
             | Inr s3 \<Rightarrow> Inr (s3, b'))
        else Inr (s1, b))"

definition decide_approval ::
  "env \<Rightarrow> mutation_context \<Rightarrow> ident \<Rightarrow> ident \<Rightarrow> ident \<Rightarrow> booking_approval_decision \<Rightarrow> database \<Rightarrow>
   (database, booking_view) outcome" where
  "decide_approval e ctx org bid aid p s =
     fetch s (find_booking s org bid) not_found (\<lambda>b.
     fetch s (find_unit s org (booking_unit_id b)) not_found (\<lambda>u.
     fetch s (find_approval s org aid) not_found (\<lambda>a.
     demand s (appr_booking_id a = booking_id b) not_found (
     demand s (booking_status b = Booking_APPROVAL \<and> appr_status a = Approval_PENDING)
       (App_Error 409 ''APPROVAL_FINALIZED'') (
     demand s (appr_approver_user_id a = actor_user_id ctx) (App_Error 403 ''APPROVER_MISMATCH'') (
     let a' = decided_approval e p a in
     attempt s (apply_decision e ctx org b u a' s) (\<lambda>(s1, b').
     let audit = audit_entry e (uuid e 2) org ctx ''booking.approval.decided'' ''booking_approval'' (appr_id a)
           (Some [(''status'', JStr (approval_status_value Approval_PENDING))])
           (Some [(''status'', JStr (approval_status_value (appr_status a'))),
                  (''booking_status'', JStr (booking_status_value (booking_status b')))]);
         msg = booking_message Event_BOOKING_STATUS_CHANGED ''Booking approval updated''
           [JStr (booking_booking_number b), JStr '': '', JStr (booking_status_value (booking_status b'))] b
           [(''approval_status'', JStr (approval_status_value (appr_status a'))),
            (''booking_status'', JStr (booking_status_value (booking_status b')))];
         t = queue_in_app e 3 org (booking_people b) msg None None (add_audits [audit] s1) in
     respond t (booking_view_of t org b'))))))))"

definition cancel_booking ::
  "env \<Rightarrow> mutation_context \<Rightarrow> ident \<Rightarrow> ident \<Rightarrow> string \<Rightarrow> database \<Rightarrow> (database, booking_view) outcome" where
  "cancel_booking e ctx org bid reason s =
     fetch s (find_booking s org bid) not_found (\<lambda>b.
     fetch s (find_unit s org (booking_unit_id b)) not_found (\<lambda>u.
     demand s (\<not> final_status (booking_status b)) (App_Error 409 ''BOOKING_FINALIZED'') (
     let b' = b\<lparr>booking_status := Booking_CANCELLED, booking_cancelled_at := Some (now e),
              booking_rejection_reason := Some (strip reason), booking_active_unit_key := None\<rparr>;
         u' = u\<lparr>unit_status := Unit_CANCELLED_RELEASED\<rparr>;
         audit = audit_entry e (uuid e 0) org ctx ''booking.cancelled'' ''booking'' (booking_id b)
           (Some [(''status'', JStr (booking_status_value (booking_status b)))])
           (Some [(''status'', JStr (booking_status_value Booking_CANCELLED)),
                  (''reason'', JStr (strip reason))]);
         t = add_audits [audit] (cancel_approvals e org (booking_id b) (\<lambda>_. True) (put_unit u' (put_booking b' s))) in
     respond t (booking_view_of t org b'))))"

end
