(* ===== verification/Booking_Safety.thy ===== *)
theory Booking_Safety
  imports Booking_Handlers Inventory_Scope
begin

text \<open>
  The booking operations keep the inventory invariant and the unit keys, leave other organizations
  alone and only append to the audit log.
\<close>

section \<open>Units, holds and bookings after the helpers\<close>

lemma documents_sel [simp]:
  "units (fst (expire_due_documents e k org s)) = units s" "unit_holds (fst (expire_due_documents e k org s)) = unit_holds s"
  "bookings (fst (expire_due_documents e k org s)) = bookings s" "payments (fst (expire_due_documents e k org s)) = payments s"
  "payment_plans (fst (expire_due_documents e k org s)) = payment_plans s"
  "installments (fst (expire_due_documents e k org s)) = installments s"
  "booking_approvals (fst (expire_due_documents e k org s)) = booking_approvals s"
  by (simp_all add: expire_due_documents_def Let_def add_audits_def)

lemma booking_writes_sel [simp]:
  "units (add_applicants as s) = units s" "unit_holds (add_applicants as s) = unit_holds s" "bookings (add_applicants as s) = bookings s"
  "units (add_payment p s) = units s" "unit_holds (add_payment p s) = unit_holds s" "bookings (add_payment p s) = bookings s"
  "units (put_payment p s) = units s" "unit_holds (put_payment p s) = unit_holds s" "bookings (put_payment p s) = bookings s"
  "units (put_approval a s) = units s" "unit_holds (put_approval a s) = unit_holds s" "bookings (put_approval a s) = bookings s"
  "units (add_approvals ns s) = units s" "unit_holds (add_approvals ns s) = unit_holds s" "bookings (add_approvals ns s) = bookings s"
  "units (add_ledger l s) = units s" "unit_holds (add_ledger l s) = unit_holds s" "bookings (add_ledger l s) = bookings s"
  "units (cancel_approvals e org bid c s) = units s" "unit_holds (cancel_approvals e org bid c s) = unit_holds s"
  "bookings (cancel_approvals e org bid c s) = bookings s"
  by (simp_all add: add_applicants_def add_payment_def put_payment_def put_approval_def add_approvals_def add_ledger_def
    cancel_approvals_def)

lemma upsert_financing_sel [simp]:
  "units (upsert_financing e i org bid f s) = units s" "unit_holds (upsert_financing e i org bid f s) = unit_holds s"
  "bookings (upsert_financing e i org bid f s) = bookings s"
  by (simp_all add: upsert_financing_def split: option.split)

lemma add_plan_sel:
  assumes "add_plan e k org b p s = Inr (t, plan)"
  shows "units t = units s" "unit_holds t = unit_holds s" "bookings t = bookings s"
  using assms by (auto simp: add_plan_def Let_def outcome_simps)

lemma accrue_sel:
  assumes "accrue_booking_commission e k ctx org b s = Inr t"
  shows "units t = units s" "unit_holds t = unit_holds s" "bookings t = bookings s"
  using assms by (auto simp: accrue_booking_commission_def Let_def outcome_simps split: option.splits)

lemmas inventory_frame = inventory_ok_frame [THEN iffD2]

section \<open>The inventory invariant\<close>

lemma documents_keep: "inventory_ok s \<Longrightarrow> inventory_ok (fst (expire_due_documents e k org s))"
  by (erule inventory_frame [rotated 3]) simp_all

lemma booked_row_sel [simp]:
  "booking_id (booked_row e i org ctx u c q h sp x p) = i"
  "booking_organization_id (booked_row e i org ctx u c q h sp x p) = org"
  "booking_unit_id (booked_row e i org ctx u c q h sp x p) = unit_id u"
  "booking_status (booked_row e i org ctx u c q h sp x p) = Booking_PAYMENT_PENDING"
  "booking_slot_ok (booked_row e i org ctx u c q h sp x p)"
  by (simp_all add: booked_row_def booking_slot_ok_def)

lemma quotation_and_hold_okD:
  "quotation_and_hold_ok e s org q u h = Inr x \<Longrightarrow> hold_unit_id h = unit_id u \<and> hold_status h = Hold_ACTIVE \<and>
     now e < hold_expires_at h \<and> quote_status q = Quotation_ACCEPTED \<and> hold_customer_id h = quote_customer_id q \<and>
     held_status (unit_status u)"
  by (simp add: quotation_and_hold_ok_def outcome_simps)

lemma create_booking_keeps:
  assumes ok: "inventory_ok s" and fresh: "\<And>n. id_free booking_id (uuid e n) (bookings s)"
  shows "inventory_ok (committed (create_booking e ctx org p s))"
proof -
  obtain t k where t: "expire_due_documents e 0 org s = (t, k)" by (metis prod.exhaust)
  have okt: "inventory_ok t" using documents_keep [OF ok, of e 0 org] t by simp
  have fresht: "id_free booking_id (uuid e n) (bookings t)" for n
    using fresh documents_sel(3) [of e 0 org s] t by simp
  have final: "inventory_ok (queue_in_app e k' org rs m None None (add_audits as (add_ledger l
      (put_unit (u\<lparr>unit_status := Unit_BOOKING_INITIATED\<rparr>) (put_hold (converted_hold e h) (upsert_financing e j org bid f s2))))))"
    if row: "find_unit t org uid = Some u" "find_hold t org hid = Some h" "hold_unit_id h = unit_id u" "hold_status h = Hold_ACTIVE"
      and s2: "add_plan e k'' org b pl (add_applicants ap (add_booking b t)) = Inr (s2, plan)"
      and b: "b = booked_row e (uuid e k) org ctx u c q h sp x p"
    for k' rs m as l u uid h hid j bid f s2 k'' pl ap b plan c q sp x
  proof -
    from find_unitD [OF row(1)] entityD [OF row(2)] row(3,4)
    have u: "u \<in> set (units t)" "unit_organization_id u = org" and h: "h \<in> set (holds_of t (unit_organization_id u) (unit_id u))"
      by (simp_all add: holds_of_def)
    have "inventory_ok (add_booking b (put_unit (u\<lparr>unit_status := Unit_BOOKING_INITIATED\<rparr>)
        (case Some h of None \<Rightarrow> t | Some h \<Rightarrow> put_hold (converted_hold e h) t)))"
      by (rule hold_to_booking_ok [OF okt u(1)]) (use h u b fresht in simp_all)
    then show ?thesis
      by (rule inventory_frame [rotated 3]) (use add_plan_sel [OF s2] in simp_all)
  qed
  show ?thesis
    unfolding create_booking_def t prod.case Let_def
    by (intro inventory_ok_intros okt, rule final) (auto dest: quotation_and_hold_okD)
qed

text \<open>A booking moves on while it stays live and keeps its unit.\<close>

lemma put_booking_live_ok:
  assumes ok: "inventory_ok s" and b: "b \<in> set (bookings s)" "live (booking_status b)" "booking_status b \<noteq> Booking_CONFIRMED"
    and b': "booking_id b' = booking_id b" "booking_organization_id b' = booking_organization_id b"
      "booking_unit_id b' = booking_unit_id b" "booking_active_unit_key b' = booking_active_unit_key b"
      "live (booking_status b')" "booking_status b' \<noteq> Booking_CONFIRMED"
  shows "inventory_ok (put_booking b' s)"
proof -
  from inventory_okD(8) [OF ok b(1,2)] obtain u where u: "u \<in> set (units s)"
    "unit_organization_id u = booking_organization_id b" "unit_id u = booking_unit_id b" by blast
  with b have lb: "b \<in> set (live_bookings s (unit_organization_id u) (unit_id u))" by (simp add: live_bookings_def)
  from unit_agrees_live [OF inventory_okD(6) [OF ok u(1)] lb] b(3) have st: "unit_status u = Unit_BOOKING_INITIATED" by simp
  have "inventory_ok (put_unit u (put_booking b' s))"
    by (rule put_booking_unit_ok [OF ok u(1) lb])
      (use b b' st inventory_okD(5) [OF ok b(1)] in \<open>auto simp: booked_by_one_def booking_slot_ok_def\<close>)
  moreover have "put_row unit_id u (units s) = units s"
    using u(1) inventory_okD(1) [OF ok] unfolding put_row_def by (intro map_idI) (auto simp: distinct_map dest: inj_onD)
  ultimately show ?thesis by (elim inventory_frame [rotated 3]) simp_all
qed

lemma advance_allowed_live: "advance_allowed from target \<Longrightarrow>
    live from \<and> from \<noteq> Booking_CONFIRMED \<and> live target \<and> target \<noteq> Booking_CONFIRMED"
  by (auto simp: advance_allowed_def)

lemma advance_booking_keeps:
  assumes ok: "inventory_ok s"
  shows "inventory_ok (committed (advance_booking e ctx org bid p s))"
proof -
  obtain t k where t: "expire_due_documents e 0 org s = (t, k)" by (metis prod.exhaust)
  have okt: "inventory_ok t" using documents_keep [OF ok, of e 0 org] t by simp
  show ?thesis unfolding advance_booking_def t prod.case Let_def
    by (intro inventory_ok_intros okt, unfold inventory_ok_queue_in_app inventory_ok_add_audits,
        rule put_booking_live_ok [OF okt])
      (use find_bookingD [of t org bid] in \<open>auto dest: advance_allowed_live\<close>)
qed

lemma create_payment_keeps:
  assumes ok: "inventory_ok s"
  shows "inventory_ok (committed (create_payment e ctx org bid p s))"
proof -
  have put: "inventory_ok (add_audits as (put_booking (if c then b\<lparr>booking_status := Booking_VERIFICATION,
      booking_submitted_at := Some (now e)\<rparr> else b) (add_payment x s)))"
    if "find_booking s org bid = Some b" "booking_status b = Booking_PAYMENT_PENDING \<or> booking_status b = Booking_VERIFICATION"
    for as c b x
  proof -
    have "inventory_ok (put_booking (if c then b\<lparr>booking_status := Booking_VERIFICATION,
      booking_submitted_at := Some (now e)\<rparr> else b) s)"
      by (rule put_booking_live_ok [OF ok, of b]) (use that find_bookingD [OF that(1)] in auto)
    then show ?thesis by (elim inventory_frame [rotated 3]) simp_all
  qed
  show ?thesis unfolding create_payment_def Let_def
    by (intro inventory_ok_intros ok; rule put)
qed

lemma decide_payment_keeps:
  assumes ok: "inventory_ok s"
  shows "inventory_ok (committed (decide_payment e ctx org bid pid d notes s))"
  unfolding decide_payment_def Let_def
  by (intro inventory_ok_intros ok) (rule inventory_frame [rotated 3, OF ok], simp_all)

lemma replace_joint_applicants_keeps:
  assumes ok: "inventory_ok s"
  shows "inventory_ok (committed (replace_joint_applicants e ctx org bid items s))"
  unfolding replace_joint_applicants_def Let_def
  by (intro inventory_ok_intros ok) (rule inventory_frame [rotated 3, OF ok], simp_all)

lemma set_payment_plan_keeps:
  assumes ok: "inventory_ok s"
  shows "inventory_ok (committed (set_payment_plan e ctx org bid p s))"
  unfolding set_payment_plan_def Let_def
  by (intro inventory_ok_intros ok) (rule inventory_frame [rotated 3, OF ok], auto dest: add_plan_sel)

lemma set_financing_keeps:
  assumes ok: "inventory_ok s"
  shows "inventory_ok (committed (set_financing e ctx org bid f s))"
  unfolding set_financing_def Let_def
  by (intro inventory_ok_intros ok) (rule inventory_frame [rotated 3, OF ok], simp_all)

lemma request_approval_keeps:
  assumes ok: "inventory_ok s"
  shows "inventory_ok (committed (request_approval e ctx org bid p s))"
proof -
  obtain t k where t: "expire_due_documents e 0 org s = (t, k)" by (metis prod.exhaust)
  have okt: "inventory_ok t" using documents_keep [OF ok, of e 0 org] t by simp
  have put: "inventory_ok (queue_in_app e k' org rs m None None (add_audits as (put_booking
      (b\<lparr>booking_status := Booking_APPROVAL, booking_verified_by_user_id := v,
        booking_verification_completed_at := x, booking_approval_requested_at := y\<rparr>) (add_approvals new t))))"
    if "find_booking t org bid = Some b" "booking_status b = Booking_VERIFICATION" for b v x y new as k' rs m
  proof -
    have "inventory_ok (put_booking (b\<lparr>booking_status := Booking_APPROVAL, booking_verified_by_user_id := v,
        booking_verification_completed_at := x, booking_approval_requested_at := y\<rparr>) t)"
      by (rule put_booking_live_ok [OF okt, of b]) (use that find_bookingD [OF that(1)] in auto)
    then show ?thesis by (elim inventory_frame [rotated 3]) simp_all
  qed
  show ?thesis unfolding request_approval_def t prod.case Let_def
    by (intro inventory_ok_intros okt; rule put)
qed

lemma put_booking_released_ok:
  assumes ok: "inventory_ok s" and b: "find_booking s org bid = Some b" "live (booking_status b)"
    and u: "find_unit s org (booking_unit_id b) = Some u"
    and b': "booking_id b' = booking_id b" "booking_organization_id b' = booking_organization_id b"
      "booking_unit_id b' = booking_unit_id b" "booking_slot_ok b'"
    and agrees: "unit_agrees st [] (if live (booking_status b') then [b'] else [])"
  shows "inventory_ok (put_unit (u\<lparr>unit_status := st\<rparr>) (put_booking b' s))"
proof -
  from find_bookingD [OF b(1)] find_unitD [OF u] b(2)
  have "u \<in> set (units s)" "b \<in> set (live_bookings s (unit_organization_id u) (unit_id u))"
    by (simp_all add: live_bookings_def)
  from put_booking_unit_ok [OF ok this b'] agrees show ?thesis by simp
qed

lemma apply_decision_keeps:
  assumes ok: "inventory_ok s" and b: "find_booking s org bid = Some b" "booking_status b = Booking_APPROVAL"
    and u: "find_unit s org (booking_unit_id b) = Some u"
    and ret: "apply_decision e ctx org b u a s = Inr (t, b')"
  shows "inventory_ok t"
proof -
  have live: "live (booking_status b)" using b(2) by simp
  note written = put_booking_released_ok [OF ok b(1) live u]
  consider (rejected) "t = cancel_approvals e org (booking_id b) (\<lambda>x. appr_id x \<noteq> appr_id a)
      (put_unit (u\<lparr>unit_status := Unit_CANCELLED_RELEASED\<rparr>)
        (put_booking (rejected_booking e (appr_comments a) b) (put_approval a s)))"
    | (confirmed) s3 where "accrue_booking_commission e 0 ctx org (confirmed_booking e ctx b)
        (put_unit (u\<lparr>unit_status := Unit_BOOKED\<rparr>) (put_booking (confirmed_booking e ctx b) (put_approval a s))) = Inr s3"
        "t = s3"
    | (waiting) "t = put_approval a s"
    using ret by (auto simp: apply_decision_def Let_def outcome_simps split: if_splits sum.splits)
  then show ?thesis
  proof cases
    case rejected
    have "inventory_ok (put_unit (u\<lparr>unit_status := Unit_CANCELLED_RELEASED\<rparr>)
        (put_booking (rejected_booking e (appr_comments a) b) s))"
      by (rule written) (simp_all add: rejected_booking_def booking_slot_ok_def)
    then show ?thesis unfolding rejected by (elim inventory_frame [rotated 3]) simp_all
  next
    case confirmed
    have "inventory_ok (put_unit (u\<lparr>unit_status := Unit_BOOKED\<rparr>) (put_booking (confirmed_booking e ctx b) s))"
      by (rule written) (use find_bookingD [OF b(1)] inventory_okD(5) [OF ok, of b] live in
        \<open>auto simp: confirmed_booking_def booking_slot_ok_def booked_by_one_def\<close>)
    then show ?thesis by (elim inventory_frame [rotated 3]) (use confirmed accrue_sel [OF confirmed(1)] in simp_all)
  next
    case waiting
    then show ?thesis using ok by (elim inventory_frame [rotated 3]) simp_all
  qed
qed

lemma decide_approval_keeps:
  assumes ok: "inventory_ok s"
  shows "inventory_ok (committed (decide_approval e ctx org bid aid p s))"
  unfolding decide_approval_def Let_def
  by (intro inventory_ok_intros ok, unfold inventory_ok_queue_in_app inventory_ok_add_audits)
    (rule apply_decision_keeps [OF ok], auto)

lemma cancel_booking_keeps:
  assumes ok: "inventory_ok s"
  shows "inventory_ok (committed (cancel_booking e ctx org bid reason s))"
proof -
  have put: "inventory_ok (add_audits as (cancel_approvals e org x c (put_unit (u\<lparr>unit_status := Unit_CANCELLED_RELEASED\<rparr>)
      (put_booking (b\<lparr>booking_status := Booking_CANCELLED, booking_cancelled_at := y, booking_rejection_reason := r,
        booking_active_unit_key := None\<rparr>) s))))"
    if "find_booking s org bid = Some b" "find_unit s org (booking_unit_id b) = Some u"
      "\<not> final_status (booking_status b)" for as x c u b y r
  proof -
    have "live (booking_status b)" using that(3) by (cases "booking_status b") (auto simp: final_status_def)
    then have "inventory_ok (put_unit (u\<lparr>unit_status := Unit_CANCELLED_RELEASED\<rparr>)
      (put_booking (b\<lparr>booking_status := Booking_CANCELLED, booking_cancelled_at := y, booking_rejection_reason := r,
        booking_active_unit_key := None\<rparr>) s))"
      using that(1,2) by (intro put_booking_released_ok [OF ok that(1) _ that(2)]) (simp_all add: booking_slot_ok_def)
    then show ?thesis by (elim inventory_frame [rotated 3]) simp_all
  qed
  show ?thesis unfolding cancel_booking_def Let_def
    by (intro inventory_ok_intros ok; rule put)
qed

lemma get_booking_keeps:
  assumes ok: "inventory_ok s"
  shows "inventory_ok (committed (get_booking e org bid s))"
proof -
  obtain t k where t: "expire_due_documents e 0 org s = (t, k)" by (metis prod.exhaust)
  have "inventory_ok t" using documents_keep [OF ok, of e 0 org] t by simp
  then show ?thesis unfolding get_booking_def t Let_def prod.case by (intro inventory_ok_intros)
qed

section \<open>The unit keys\<close>

lemma documents_keys: "unit_keys_ok s \<Longrightarrow> unit_keys_ok (fst (expire_due_documents e k org s))"
  by (erule keys_frame [rotated 3]) simp_all

lemma quotation_and_hold_free:
  "quotation_and_hold_ok e s org q u h = Inr x \<Longrightarrow>
   slot_free booking_organization_id booking_active_unit_key org (unit_id u) (bookings s)"
  by (simp add: quotation_and_hold_ok_def outcome_simps)

lemma create_booking_keys:
  assumes ok: "unit_keys_ok s" and fresh: "\<And>n. id_free booking_id (uuid e n) (bookings s)"
  shows "unit_keys_ok (committed (create_booking e ctx org p s))"
proof -
  obtain t k where t: "expire_due_documents e 0 org s = (t, k)" by (metis prod.exhaust)
  have okt: "unit_keys_ok t" using documents_keys [OF ok, of e 0 org] t by simp
  have fresht: "id_free booking_id (uuid e n) (bookings t)" for n
    using fresh documents_sel(3) [of e 0 org s] t by simp
  have final: "unit_keys_ok (queue_in_app e k' org rs m None None (add_audits as (add_ledger l
      (put_unit u' (put_hold (converted_hold e h) (upsert_financing e j org bid f s2))))))"
    if h: "find_hold t org hid = Some h"
      and free: "slot_free booking_organization_id booking_active_unit_key org (unit_id u) (bookings t)"
      and s2: "add_plan e k'' org b pl (add_applicants ap (add_booking b t)) = Inr (s2, plan)"
      and b: "b = booked_row e (uuid e k) org ctx u c q h sp x p"
    for k' rs m as l u u' hid h j bid f s2 k'' pl ap b plan c q sp x
  proof -
    have added: "unit_keys_ok (add_booking b t)"
      by (rule keys_add_booking [OF okt]) (use free fresht b in simp_all)
    from entityD [OF h] have "h \<in> set (unit_holds (add_booking b t))" by simp
    then have "unit_keys_ok (put_hold (converted_hold e h) (add_booking b t))"
      by (rule keys_put_hold [OF added]) (simp_all add: converted_hold_def hold_slot_ok_def)
    then have "unit_keys_ok (put_unit u' (put_hold (converted_hold e h) (add_booking b t)))" by simp
    then show ?thesis
      by (rule keys_frame [rotated 3]) (use add_plan_sel [OF s2] in simp_all)
  qed
  show ?thesis
    unfolding create_booking_def t prod.case Let_def
    by (intro keys_intros okt, rule final) (auto dest: quotation_and_hold_free)
qed

lemma advance_booking_keys:
  assumes ok: "unit_keys_ok s"
  shows "unit_keys_ok (committed (advance_booking e ctx org bid p s))"
proof -
  obtain t k where t: "expire_due_documents e 0 org s = (t, k)" by (metis prod.exhaust)
  have okt: "unit_keys_ok t" using documents_keys [OF ok, of e 0 org] t by simp
  show ?thesis unfolding advance_booking_def t prod.case Let_def
    by (intro keys_intros okt, unfold unit_keys_ok_writes, rule keys_put_live_booking [OF okt])
      (use find_bookingD [of t org bid] in \<open>auto dest: advance_allowed_live\<close>)
qed

lemma create_payment_keys:
  assumes ok: "unit_keys_ok s"
  shows "unit_keys_ok (committed (create_payment e ctx org bid p s))"
proof -
  have put: "unit_keys_ok (add_audits as (put_booking (if c then b\<lparr>booking_status := Booking_VERIFICATION,
      booking_submitted_at := Some (now e)\<rparr> else b) (add_payment x s)))"
    if "find_booking s org bid = Some b" "booking_status b = Booking_PAYMENT_PENDING \<or> booking_status b = Booking_VERIFICATION"
    for as c b x
  proof -
    have "unit_keys_ok (put_booking (if c then b\<lparr>booking_status := Booking_VERIFICATION,
      booking_submitted_at := Some (now e)\<rparr> else b) s)"
      by (rule keys_put_live_booking [OF ok, of b]) (use that find_bookingD [OF that(1)] in auto)
    then show ?thesis by (elim keys_frame [rotated 3]) simp_all
  qed
  show ?thesis unfolding create_payment_def Let_def
    by (intro keys_intros ok; rule put)
qed

lemma request_approval_keys:
  assumes ok: "unit_keys_ok s"
  shows "unit_keys_ok (committed (request_approval e ctx org bid p s))"
proof -
  obtain t k where t: "expire_due_documents e 0 org s = (t, k)" by (metis prod.exhaust)
  have okt: "unit_keys_ok t" using documents_keys [OF ok, of e 0 org] t by simp
  have put: "unit_keys_ok (queue_in_app e k' org rs m None None (add_audits as (put_booking b' (add_approvals new t))))"
    if "unit_keys_ok (put_booking b' t)" for b' new as k' rs m
    by (rule keys_frame [rotated 3, OF that]) simp_all
  show ?thesis unfolding request_approval_def t prod.case Let_def
    by (intro keys_intros okt, rule put, rule keys_put_live_booking [OF okt])
      (use find_bookingD [of t org bid] in auto)
qed

lemma apply_decision_keys:
  assumes ok: "unit_keys_ok s" and b: "find_booking s org bid = Some b" "booking_status b = Booking_APPROVAL"
    and ret: "apply_decision e ctx org b u a s = Inr (t, b')"
  shows "unit_keys_ok t"
proof -
  from find_bookingD [OF b(1)] have row: "b \<in> set (bookings s)" by simp
  consider (rejected) u' where "t = cancel_approvals e org (booking_id b) (\<lambda>x. appr_id x \<noteq> appr_id a)
      (put_unit u' (put_booking (rejected_booking e (appr_comments a) b) (put_approval a s)))"
    | (confirmed) u' where "accrue_booking_commission e 0 ctx org (confirmed_booking e ctx b)
        (put_unit u' (put_booking (confirmed_booking e ctx b) (put_approval a s))) = Inr t"
    | (waiting) "t = put_approval a s"
    using ret by (auto simp: apply_decision_def Let_def outcome_simps split: if_splits sum.splits)
  then show ?thesis
  proof cases
    case rejected
    have "unit_keys_ok (put_booking (rejected_booking e (appr_comments a) b) s)"
      by (rule keys_put_booking [OF ok row]) (simp_all add: rejected_booking_def booking_slot_ok_def)
    then have "unit_keys_ok (put_unit u' (put_booking (rejected_booking e (appr_comments a) b) s))" by simp
    then show ?thesis unfolding rejected by (elim keys_frame [rotated 3]) simp_all
  next
    case confirmed
    have "unit_keys_ok (put_booking (confirmed_booking e ctx b) s)"
      by (rule keys_put_live_booking [OF ok row]) (simp_all add: confirmed_booking_def b(2))
    then have "unit_keys_ok (put_unit u' (put_booking (confirmed_booking e ctx b) s))" by simp
    then show ?thesis by (elim keys_frame [rotated 3]) (use accrue_sel [OF confirmed] in simp_all)
  next
    case waiting
    then show ?thesis using ok by (elim keys_frame [rotated 3]) simp_all
  qed
qed

lemma cancel_booking_keys:
  assumes ok: "unit_keys_ok s"
  shows "unit_keys_ok (committed (cancel_booking e ctx org bid reason s))"
proof -
  have put: "unit_keys_ok (add_audits as (cancel_approvals e org x c (put_unit u (put_booking b' s))))"
    if "unit_keys_ok (put_booking b' s)" for as x c u b'
  proof -
    from that have "unit_keys_ok (put_unit u (put_booking b' s))" by simp
    then show ?thesis by (elim keys_frame [rotated 3]) simp_all
  qed
  show ?thesis unfolding cancel_booking_def Let_def
    by (intro keys_intros ok, rule put, rule keys_put_booking [OF ok])
      (use find_bookingD [of s org bid] in \<open>auto simp: booking_slot_ok_def\<close>)
qed

lemma booking_operations_keys:
  assumes ok: "unit_keys_ok s"
  shows "unit_keys_ok (committed (get_booking e org bid s))"
    "unit_keys_ok (committed (decide_payment e ctx org bid pid d notes s))"
    "unit_keys_ok (committed (replace_joint_applicants e ctx org bid items s))"
    "unit_keys_ok (committed (set_payment_plan e ctx org bid pp s))"
    "unit_keys_ok (committed (set_financing e ctx org bid f s))"
    "unit_keys_ok (committed (decide_approval e ctx org bid aid ap s))"
proof -
  obtain t k where t: "expire_due_documents e 0 org s = (t, k)" by (metis prod.exhaust)
  have "unit_keys_ok t" using documents_keys [OF ok, of e 0 org] t by simp
  then show "unit_keys_ok (committed (get_booking e org bid s))"
    unfolding get_booking_def t Let_def prod.case by (intro keys_intros)
  show "unit_keys_ok (committed (decide_payment e ctx org bid pid d notes s))"
    "unit_keys_ok (committed (replace_joint_applicants e ctx org bid items s))"
    "unit_keys_ok (committed (set_payment_plan e ctx org bid pp s))"
    "unit_keys_ok (committed (set_financing e ctx org bid f s))"
    unfolding decide_payment_def replace_joint_applicants_def set_payment_plan_def set_financing_def Let_def
    by (intro keys_intros ok, rule keys_frame [rotated 3, OF ok], auto dest: add_plan_sel)+
  show "unit_keys_ok (committed (decide_approval e ctx org bid aid ap s))"
    unfolding decide_approval_def Let_def
    by (intro keys_intros ok, unfold unit_keys_ok_writes) (rule apply_decision_keys [OF ok], auto)
qed

section \<open>Tenant isolation and audit trail\<close>

lemma scoped_same_logs:
  "scoped org s t \<Longrightarrow> tenant_isolated org t u \<Longrightarrow> audit_logs u = audit_logs t \<Longrightarrow> scoped org s u"
  by (rule scoped_write)

lemma scoped_documents [scoped_steps]:
  assumes "scoped org s t" shows "scoped org s (fst (expire_due_documents e k org t))"
proof -
  obtain as where as: "fst (expire_due_documents e k org t) = add_audits as (t\<lparr>customer_documents :=
      update_where (document_due e org) (expired_document e) (customer_documents t)\<rparr>)"
    "list_all (\<lambda>a. audit_organization_id a = org) as"
    using expire_due_documents_unfold by blast
  have "scoped org s (t\<lparr>customer_documents := update_where (document_due e org) (expired_document e) (customer_documents t)\<rparr>)"
    by (rule scoped_write [OF assms])
      (auto simp: tenant_isolated_def document_due_def intro!: others_update_where [symmetric])
  with as show ?thesis by (simp add: scoped_add_audits)
qed

lemma scoped_add_applicants [scoped_steps]:
  "scoped org s t \<Longrightarrow> list_all (\<lambda>a. appl_organization_id a = org) as \<Longrightarrow> scoped org s (add_applicants as t)"
  by (erule scoped_write) (simp_all add: tenant_isolated_def add_applicants_def others_append)

lemma scoped_add_payment [scoped_steps]:
  "scoped org s t \<Longrightarrow> pay_organization_id p = org \<Longrightarrow> scoped org s (add_payment p t)"
  by (erule scoped_write) (simp_all add: tenant_isolated_def add_payment_def others_append)

lemma scoped_put_payment [scoped_steps]:
  "scoped org s t \<Longrightarrow> own_row pay_organization_id pay_id org (payments t) p \<Longrightarrow> scoped org s (put_payment p t)"
  by (erule scoped_write) (simp_all add: tenant_isolated_def put_payment_def others_own_row)

lemma scoped_put_approval [scoped_steps]:
  "scoped org s t \<Longrightarrow> own_row appr_organization_id appr_id org (booking_approvals t) a \<Longrightarrow> scoped org s (put_approval a t)"
  by (erule scoped_write) (simp_all add: tenant_isolated_def put_approval_def others_own_row)

lemma scoped_add_approvals [scoped_steps]:
  "scoped org s t \<Longrightarrow> list_all (\<lambda>a. appr_organization_id a = org) as \<Longrightarrow> scoped org s (add_approvals as t)"
  by (erule scoped_write) (simp_all add: tenant_isolated_def add_approvals_def others_append)

lemma scoped_cancel_approvals [scoped_steps]:
  "scoped org s t \<Longrightarrow> scoped org s (cancel_approvals e org bid c t)"
  by (erule scoped_write)
    (auto simp: tenant_isolated_def cancel_approvals_def pending_approval_def intro!: others_update_where [symmetric])

lemma scoped_add_ledger [scoped_steps]:
  "scoped org s t \<Longrightarrow> ledger_organization_id l = org \<Longrightarrow> scoped org s (add_ledger l t)"
  by (erule scoped_write) (simp_all add: tenant_isolated_def add_ledger_def others_append)

lemma scoped_add_plan:
  assumes "scoped org s t" "add_plan e k org b p t = Inr (t', plan)"
  shows "scoped org s t'"
proof (rule scoped_write [OF assms(1)])
  have "list_all (\<lambda>i. inst_organization_id i = org) (new_installments e j org pid items)" for j pid items
    by (auto simp: new_installments_def list_all_iff)
  moreover have "others plan_organization_id org (update_where (\<lambda>x. plan_organization_id x = org \<and>
      plan_booking_id x = booking_id b \<and> plan_status x = Record_ACTIVE) (\<lambda>x. x\<lparr>plan_status := Record_ARCHIVED\<rparr>)
      (payment_plans t)) = others plan_organization_id org (payment_plans t)"
    by (rule others_update_where) auto
  ultimately show "tenant_isolated org t t'" "audit_logs t' = audit_logs t"
    using assms(2) by (auto simp: add_plan_def Let_def outcome_simps tenant_isolated_def others_append new_plan_def)
qed

lemma financing_ofD: "financing_of s org bid = Some r \<Longrightarrow>
    r \<in> set (booking_financing s) \<and> fin_organization_id r = org \<and> fin_booking_id r = bid"
  by (auto simp: financing_of_def dest!: first_row_set)

lemma scoped_upsert_financing [scoped_steps]:
  assumes "scoped org s t" "distinct (map fin_id (booking_financing t))"
  shows "scoped org s (upsert_financing e i org bid f t)"
proof (rule scoped_write [OF assms(1)])
  have "own_row fin_organization_id fin_id org (booking_financing t) (filled_financing f r)"
    if "financing_of t org bid = Some r" for r
    using financing_ofD [OF that] by (intro own_rowI [OF assms(2)]) (auto simp: filled_financing_def)
  then show "tenant_isolated org t (upsert_financing e i org bid f t)"
    by (auto simp: tenant_isolated_def upsert_financing_def others_append others_own_row filled_financing_def split: option.split)
qed (simp add: upsert_financing_def split: option.split)

lemma scoped_accrue:
  assumes "scoped org s t" "accrue_booking_commission e k ctx org b t = Inr t'"
  shows "scoped org s t'"
proof -
  have add: "scoped org s (t\<lparr>commissions := commissions t @ [c]\<rparr>)" if "comm_organization_id c = org" for c
    by (rule scoped_write [OF assms(1)]) (use that in \<open>simp_all add: tenant_isolated_def others_append\<close>)
  show ?thesis using assms
    by (auto simp: accrue_booking_commission_def Let_def outcome_simps split: option.splits intro!: scoped_add_audits add)
qed

lemma more_sel [simp]:
  "booking_financing (add_applicants as s) = booking_financing s" "booking_financing (add_booking b s) = booking_financing s"
  "booking_financing (put_booking b s) = booking_financing s" "booking_financing (fst (expire_due_documents e k org s)) = booking_financing s"
  "booking_approvals (put_booking b s) = booking_approvals s" "booking_approvals (put_unit u s) = booking_approvals s"
  by (simp_all add: add_applicants_def add_booking_def put_booking_def put_unit_def expire_due_documents_def Let_def add_audits_def)

lemma add_plan_financing: "add_plan e k org b p s = Inr (t, plan) \<Longrightarrow> booking_financing t = booking_financing s"
  by (auto simp: add_plan_def Let_def outcome_simps)

lemma new_rows_org [simp]:
  "list_all (\<lambda>a. appl_organization_id a = org) (new_applicants e k org bid c items)"
  "list_all (\<lambda>a. appr_organization_id a = org) (new_approvals e k org bid r cm xs)"
  by (auto simp: new_applicants_def new_approvals_def primary_applicant_def joint_applicant_def list_all_iff)

text \<open>Rows looked up in a table with distinct keys and written back belong to the organization.\<close>

lemma found_rows_own:
  assumes "written_keys s" "unit_organization_id u' = org" "hold_organization_id h' = org" "booking_organization_id b' = org"
    and "pay_organization_id p' = org" "appr_organization_id a' = org"
  shows "find_unit s org i = Some u \<Longrightarrow> unit_id u' = unit_id u \<Longrightarrow> own_row unit_organization_id unit_id org (units s) u'"
    and "find_hold s org i = Some h \<Longrightarrow> hold_id h' = hold_id h \<Longrightarrow> own_row hold_organization_id hold_id org (unit_holds s) h'"
    and "find_booking s org i = Some b \<Longrightarrow> booking_id b' = booking_id b \<Longrightarrow> own_row booking_organization_id booking_id org (bookings s) b'"
    and "find_payment s org i = Some p \<Longrightarrow> pay_id p' = pay_id p \<Longrightarrow> own_row pay_organization_id pay_id org (payments s) p'"
    and "find_approval s org i = Some a \<Longrightarrow> appr_id a' = appr_id a \<Longrightarrow> own_row appr_organization_id appr_id org (booking_approvals s) a'"
  using assms(2-) by (auto dest!: entityD intro: own_rowI [OF written_keysD(1) [OF assms(1)]] own_rowI [OF written_keysD(2) [OF assms(1)]]
    own_rowI [OF written_keysD(3) [OF assms(1)]] own_rowI [OF written_keysD(7) [OF assms(1)]] own_rowI [OF written_keysD(5) [OF assms(1)]])

lemma find_org:
  "find_unit s org i = Some u \<Longrightarrow> unit_organization_id u = org" "find_hold s org i = Some h \<Longrightarrow> hold_organization_id h = org"
  "find_booking s org i = Some b \<Longrightarrow> booking_organization_id b = org" "find_payment s org i = Some p \<Longrightarrow> pay_organization_id p = org"
  "find_approval s org i = Some a \<Longrightarrow> appr_organization_id a = org"
  by (auto dest: entityD)

lemma written_keys_documents: "written_keys s \<Longrightarrow> distinct (map unit_id (units (fst (expire_due_documents e k org s)))) \<and>
    distinct (map hold_id (unit_holds (fst (expire_due_documents e k org s)))) \<and>
    distinct (map booking_id (bookings (fst (expire_due_documents e k org s)))) \<and>
    distinct (map fin_id (booking_financing (fst (expire_due_documents e k org s))))"
  by (simp add: written_keys_def)

lemma create_booking_scoped:
  assumes ok: "written_keys s"
  shows "scoped org s (committed (create_booking e ctx org p s))"
proof -
  obtain t k where t: "expire_due_documents e 0 org s = (t, k)" by (metis prod.exhaust)
  have st: "scoped org s t" using scoped_documents [OF scoped_refl, of org s e 0] t by simp
  note ids = written_keys_documents [OF ok, of e 0 org, unfolded t fst_conv]
  have final: "scoped org s (queue_in_app e k' org rs m None None (add_audits as (add_ledger l
      (put_unit (u\<lparr>unit_status := Unit_BOOKING_INITIATED\<rparr>) (put_hold (converted_hold e h) (upsert_financing e j org bid f s2))))))"
    if row: "find_unit t org uid = Some u" "find_hold t org hid = Some h"
      and s2: "add_plan e k'' org b pl (add_applicants ap (add_booking b t)) = Inr (s2, plan)"
      and org: "booking_organization_id b = org" "list_all (\<lambda>a. appl_organization_id a = org) ap"
        "list_all (\<lambda>a. audit_organization_id a = org) as" "ledger_organization_id l = org"
    for k' rs m as l u uid h hid j bid f s2 k'' pl ap b plan
  proof -
    have "scoped org s s2"
      by (rule scoped_add_plan [OF _ s2]) (intro scoped_steps st org)
    then show ?thesis
      by (intro scoped_steps org)
        (use ids find_org(1) [OF row(1)] find_org(2) [OF row(2)] add_plan_sel [OF s2] add_plan_financing [OF s2]
          entityD [OF row(1)] entityD [OF row(2)] in
          \<open>auto intro: own_rowI [where x = u] own_rowI [where x = h]\<close>)
  qed
  show ?thesis
    unfolding create_booking_def t prod.case Let_def
    by (intro scoped_outcome st, rule final) (auto simp: agreed_value_entry_def)
qed

lemma own_found:
  assumes "written_keys s"
  shows "find_unit s org i = Some u \<Longrightarrow> unit_id u' = unit_id u \<Longrightarrow> unit_organization_id u' = unit_organization_id u \<Longrightarrow>
      own_row unit_organization_id unit_id org (units s) u'"
    and "find_booking s org i = Some b \<Longrightarrow> booking_id b' = booking_id b \<Longrightarrow>
      booking_organization_id b' = booking_organization_id b \<Longrightarrow> own_row booking_organization_id booking_id org (bookings s) b'"
    and "find_payment s org i = Some p \<Longrightarrow> pay_id p' = pay_id p \<Longrightarrow> pay_organization_id p' = pay_organization_id p \<Longrightarrow>
      own_row pay_organization_id pay_id org (payments s) p'"
    and "find_approval s org i = Some a \<Longrightarrow> appr_id a' = appr_id a \<Longrightarrow> appr_organization_id a' = appr_organization_id a \<Longrightarrow>
      own_row appr_organization_id appr_id org (booking_approvals s) a'"
  by (auto dest!: entityD intro: own_rowI [OF written_keysD(1) [OF assms]] own_rowI [OF written_keysD(3) [OF assms]]
    own_rowI [OF written_keysD(7) [OF assms]] own_rowI [OF written_keysD(5) [OF assms]])

lemma own_booking_documents:
  assumes "written_keys s" "find_booking (fst (expire_due_documents e k org s)) org i = Some b" "booking_id b' = booking_id b"
    "booking_organization_id b' = booking_organization_id b"
  shows "own_row booking_organization_id booking_id org (bookings s) b'"
  using assms by (auto intro: own_found(2))

lemma advance_booking_scoped:
  assumes ok: "written_keys s"
  shows "scoped org s (committed (advance_booking e ctx org bid p s))"
proof -
  obtain t k where t: "expire_due_documents e 0 org s = (t, k)" by (metis prod.exhaust)
  have st: "scoped org s t" using scoped_documents [OF scoped_refl, of org s e 0] t by simp
  have bt: "bookings t = bookings s" using documents_sel(3) [of e 0 org s] t by simp
  show ?thesis unfolding advance_booking_def t prod.case Let_def
    by (intro scoped_outcome st scoped_steps) (auto simp: bt intro: own_found(2) [OF ok])
qed

lemma request_approval_scoped:
  assumes ok: "written_keys s"
  shows "scoped org s (committed (request_approval e ctx org bid p s))"
proof -
  obtain t k where t: "expire_due_documents e 0 org s = (t, k)" by (metis prod.exhaust)
  have st: "scoped org s t" using scoped_documents [OF scoped_refl, of org s e 0] t by simp
  have bt: "bookings t = bookings s" using documents_sel(3) [of e 0 org s] t by simp
  show ?thesis unfolding request_approval_def t prod.case Let_def
    by (intro scoped_outcome st scoped_steps) (auto simp: bt intro: own_found(2) [OF ok])
qed

lemma get_booking_scoped: "scoped org s (committed (get_booking e org bid s))"
proof -
  obtain t k where t: "expire_due_documents e 0 org s = (t, k)" by (metis prod.exhaust)
  have "scoped org s t" using scoped_documents [OF scoped_refl, of org s e 0] t by simp
  then show ?thesis unfolding get_booking_def t Let_def prod.case by (intro scoped_outcome)
qed

lemma create_payment_scoped:
  assumes ok: "written_keys s"
  shows "scoped org s (committed (create_payment e ctx org bid p s))"
  unfolding create_payment_def Let_def
  by (intro scoped_outcome scoped_refl scoped_steps) (auto simp: new_payment_def intro: own_found(2) [OF ok])

lemma decide_payment_scoped:
  assumes ok: "written_keys s"
  shows "scoped org s (committed (decide_payment e ctx org bid pid d notes s))"
  unfolding decide_payment_def Let_def
  by (intro scoped_outcome scoped_refl scoped_steps) (auto intro: own_found(3) [OF ok])

lemma replace_joint_applicants_scoped:
  "scoped org s (committed (replace_joint_applicants e ctx org bid items s))"
proof -
  have "scoped org s (s\<lparr>booking_applicants := filter (\<lambda>a. \<not> joint_of org b a) (booking_applicants s) @
      map (\<lambda>(i, item). joint_applicant e (uuid e i) org b (i + 2) (ja_relationship_to_primary item) item) (enumerate 0 items)\<rparr>)" for b
  proof (rule scoped_write [OF scoped_refl])
    have "others appl_organization_id org (filter (\<lambda>a. \<not> joint_of org b a) rows) = others appl_organization_id org rows" for rows
      by (induction rows) (auto simp: others_def joint_of_def)
    moreover have "list_all (\<lambda>a. appl_organization_id a = org) (map (\<lambda>(i, item). joint_applicant e (uuid e i) org b (i + 2)
        (ja_relationship_to_primary item) item) (enumerate 0 items))"
      by (auto simp: list_all_iff joint_applicant_def)
    ultimately show "tenant_isolated org s (s\<lparr>booking_applicants := filter (\<lambda>a. \<not> joint_of org b a) (booking_applicants s) @
      map (\<lambda>(i, item). joint_applicant e (uuid e i) org b (i + 2) (ja_relationship_to_primary item) item) (enumerate 0 items)\<rparr>)"
      by (simp add: tenant_isolated_def others_append)
  qed simp
  then show ?thesis unfolding replace_joint_applicants_def Let_def
    by (intro scoped_outcome scoped_refl scoped_add_audits) auto
qed

lemma set_payment_plan_scoped: "scoped org s (committed (set_payment_plan e ctx org bid p s))"
  unfolding set_payment_plan_def Let_def
  by (intro scoped_outcome scoped_refl scoped_steps) (auto intro: scoped_add_plan)

lemma set_financing_scoped:
  assumes ok: "written_keys s"
  shows "scoped org s (committed (set_financing e ctx org bid f s))"
  unfolding set_financing_def Let_def
  by (intro scoped_outcome scoped_refl scoped_steps) (use written_keysD(4) [OF ok] in auto)

lemma decided_approval_sel [simp]:
  "appr_id (decided_approval e p a) = appr_id a" "appr_organization_id (decided_approval e p a) = appr_organization_id a"
  "appr_booking_id (decided_approval e p a) = appr_booking_id a"
  "appr_requested_by_user_id (decided_approval e p a) = appr_requested_by_user_id a"
  "appr_approver_user_id (decided_approval e p a) = appr_approver_user_id a"
  "appr_status (decided_approval e p a) = (if ad_status p = Decision_APPROVED then Approval_APPROVED else Approval_REJECTED)"
  by (simp_all add: decided_approval_def split: decision.split)

lemma apply_decision_scoped:
  assumes ok: "written_keys s" and b: "find_booking s org bid = Some b" and u: "find_unit s org i = Some u"
    and a: "own_row appr_organization_id appr_id org (booking_approvals s) a"
    and ret: "apply_decision e ctx org b u a s = Inr (t, b')"
  shows "scoped org s t"
proof -
  have rows: "scoped org s (put_unit (u\<lparr>unit_status := st\<rparr>) (put_booking x (put_approval a s)))"
    if "booking_id x = booking_id b" "booking_organization_id x = booking_organization_id b" for st x
    by (intro scoped_steps scoped_refl) (use that a b u in \<open>auto intro: own_found [OF ok]\<close>)
  have "scoped org s (put_approval a s)" by (intro scoped_steps scoped_refl a)
  with ret show ?thesis
    by (auto simp: apply_decision_def Let_def outcome_simps rejected_booking_def confirmed_booking_def
      split: if_splits sum.splits intro!: rows scoped_cancel_approvals elim!: scoped_accrue [rotated])
qed

lemma decide_approval_scoped:
  assumes ok: "written_keys s"
  shows "scoped org s (committed (decide_approval e ctx org bid aid p s))"
  unfolding decide_approval_def Let_def
  by (intro scoped_outcome scoped_refl scoped_steps, rule apply_decision_scoped [OF ok])
    (auto intro: own_found(4) [OF ok])

lemma cancel_booking_scoped:
  assumes ok: "written_keys s"
  shows "scoped org s (committed (cancel_booking e ctx org bid reason s))"
  unfolding cancel_booking_def Let_def
  by (intro scoped_outcome scoped_refl scoped_steps) (auto intro: own_found [OF ok])

end
