(* ===== verification/Hold_Frame.thy ===== *)
theory Hold_Frame
  imports Inventory_Safety
begin

text \<open>
  The hold operations and the reads that sweep due holds first change units, holds, notifications and
  the audit log, and nothing else: a property of any other table is theirs for free.
\<close>

definition holds_only :: "database \<Rightarrow> database \<Rightarrow> bool" where
  "holds_only s t \<longleftrightarrow> s\<lparr>units := units t, unit_holds := unit_holds t, audit_logs := audit_logs t,
     notifications := notifications t\<rparr> = t"

lemma holds_only_refl [simp, intro]: "holds_only s s"
  by (simp add: holds_only_def)

lemma holds_only_trans: "holds_only s t \<Longrightarrow> holds_only t u \<Longrightarrow> holds_only s u"
  unfolding holds_only_def
proof -
  assume t: "s\<lparr>units := units t, unit_holds := unit_holds t, audit_logs := audit_logs t, notifications := notifications t\<rparr> = t"
    and u: "t\<lparr>units := units u, unit_holds := unit_holds u, audit_logs := audit_logs u, notifications := notifications u\<rparr> = u"
  have "s\<lparr>units := units u, unit_holds := unit_holds u, audit_logs := audit_logs u, notifications := notifications u\<rparr> =
      s\<lparr>units := units t, unit_holds := unit_holds t, audit_logs := audit_logs t, notifications := notifications t\<rparr>
        \<lparr>units := units u, unit_holds := unit_holds u, audit_logs := audit_logs u, notifications := notifications u\<rparr>" by simp
  also have "\<dots> = u" unfolding t u ..
  finally show "s\<lparr>units := units u, unit_holds := unit_holds u, audit_logs := audit_logs u,
      notifications := notifications u\<rparr> = u" .
qed

text \<open>The other tables that the invariants of the development speak about.\<close>

lemma holds_only_sel:
  assumes "holds_only s t"
  shows "bookings t = bookings s" "booking_approvals t = booking_approvals s" "payments t = payments s"
    "installments t = installments s" "payment_allocations t = payment_allocations s" "refunds t = refunds s"
    "customer_ledger t = customer_ledger s" "payment_plans t = payment_plans s"
  by (subst assms [unfolded holds_only_def, symmetric], simp)+

lemmas holds_only_intros = outcome_intros [where P = "holds_only s" for s]

lemma holds_only_writes:
  assumes "holds_only s t"
  shows "holds_only s (add_audits as t)" "holds_only s (put_unit u t)" "holds_only s (put_hold h t)"
    "holds_only s (add_hold h t)" "holds_only s (queue_in_app e k org rs m d sch t)"
proof -
  have one: "holds_only t (add_audits as t)" "holds_only t (put_unit u t)" "holds_only t (put_hold h t)"
    "holds_only t (add_hold h t)" "holds_only t (queue_in_app e k org rs m d sch t)"
    by (simp_all add: holds_only_def add_audits_def put_unit_def put_hold_def add_hold_def queue_in_app_def)
  show "holds_only s (add_audits as t)" "holds_only s (put_unit u t)" "holds_only s (put_hold h t)"
    "holds_only s (add_hold h t)" "holds_only s (queue_in_app e k org rs m d sch t)"
    by (rule holds_only_trans [OF assms], rule one)+
qed

lemma holds_only_mark [simp, intro]: "holds_only s (mark_hold_expired e k ctx u h s)"
  unfolding mark_hold_expired_def Let_def by (intro holds_only_writes holds_only_refl)

lemma holds_only_expire: "expire_hold e k ctx u s = (t, u', current) \<Longrightarrow> holds_only s t"
  by (auto simp: expire_hold_alt split: option.splits if_splits)

lemma holds_only_sweep: "holds_only s (committed (expire_due_holds e k org limit ctx s))"
proof -
  have "holds_only s t" if "expire_candidates e k ctx ids s n = Inr (t, m)" for ids n t m
    using that by (rule expire_candidates_invariant [where P = "holds_only s"])
      (rule holds_only_refl, rule holds_only_trans [OF _ holds_only_mark])
  then show ?thesis by (auto simp: expire_due_holds_def split: sum.splits)
qed

lemma holds_only_views: "holds_only s (committed (unit_views e k org us s))"
  using holds_only_sweep [of s e k "Some org" 200 None]
  by (auto simp: unit_views_def split: outcome.splits)

lemma holds_only_view:
  assumes "holds_only s t" shows "holds_only s (committed (single_unit_view e k org u t))"
proof -
  have "holds_only t (committed (single_unit_view e k org u t))"
    using holds_only_views [of t e k org "[u]"]
    by (auto simp: single_unit_view_def split: outcome.splits list.splits)
  with assms show ?thesis by (rule holds_only_trans)
qed

lemma hold_operations_holds_only:
  "holds_only s (committed (create_hold e ctx org uid p s))"
  "holds_only s (committed (decide_hold e ctx org hid d s))"
  "holds_only s (committed (release_hold e ctx org uid reason s))"
  "holds_only s (committed (transition_unit_status e ctx org uid target s))"
  unfolding create_hold_def decide_hold_def release_hold_def transition_unit_status_def Let_def
  by (intro holds_only_intros holds_only_refl holds_only_writes holds_only_view; blast dest: holds_only_expire)+

lemma hold_reads_holds_only:
  "holds_only s (committed (list_holds e org f page page_size s))"
  "holds_only s (committed (hold_history e org uid s))"
  "holds_only s (committed (hold_stats e org s))"
  using holds_only_sweep [of s e 0 "Some org" 200 None]
  by (auto simp: list_holds_def hold_history_def hold_stats_def Let_def attempt_def
    intro!: holds_only_intros split: outcome.split sum.split)

end
