(* ===== verification/Booking_Approvals.thy ===== *)
theory Booking_Approvals
  imports Booking_Safety Hold_Frame
begin

text \<open>
  The approval chain of a booking: its steps agree with the status of the booking. In particular a
  booking is confirmed exactly through the approval of every step, and nobody approves a step they
  requested.
\<close>

definition approvals_of :: "database \<Rightarrow> ident \<Rightarrow> ident \<Rightarrow> booking_approval_row list" where
  "approvals_of s org bid = filter (\<lambda>a. appr_organization_id a = org \<and> appr_booking_id a = bid) (booking_approvals s)"

definition all_status :: "approval_status list \<Rightarrow> booking_approval_row list \<Rightarrow> bool" where
  "all_status sts as \<longleftrightarrow> list_all (\<lambda>a. appr_status a \<in> set sts) as"

definition some_status :: "approval_status \<Rightarrow> booking_approval_row list \<Rightarrow> bool" where
  "some_status st as \<longleftrightarrow> list_ex (\<lambda>a. appr_status a = st) as"

primrec chain_ok :: "booking_status \<Rightarrow> booking_approval_row list \<Rightarrow> bool" where
  "chain_ok Booking_DRAFT as = (as = [])"
| "chain_ok Booking_DOCUMENTATION_PENDING as = (as = [])"
| "chain_ok Booking_PAYMENT_PENDING as = (as = [])"
| "chain_ok Booking_SUBMITTED as = (as = [])"
| "chain_ok Booking_VERIFICATION as = (as = [])"
| "chain_ok Booking_APPROVAL as = (all_status [Approval_PENDING, Approval_APPROVED] as \<and> some_status Approval_PENDING as)"
| "chain_ok Booking_CONFIRMED as = (as \<noteq> [] \<and> all_status [Approval_APPROVED] as)"
| "chain_ok Booking_REJECTED as =
     (all_status [Approval_APPROVED, Approval_REJECTED, Approval_CANCELLED] as \<and> some_status Approval_REJECTED as)"
| "chain_ok Booking_CANCELLED as = True"

definition booking_known :: "database \<Rightarrow> ident \<Rightarrow> ident \<Rightarrow> bool" where
  "booking_known s org bid \<longleftrightarrow> list_ex (\<lambda>b. booking_organization_id b = org \<and> booking_id b = bid) (bookings s)"

definition approvals_ok :: "database \<Rightarrow> bool" where
  "approvals_ok s \<longleftrightarrow>
     distinct (map booking_id (bookings s)) \<and> distinct (map appr_id (booking_approvals s)) \<and>
     list_all (\<lambda>a. booking_known s (appr_organization_id a) (appr_booking_id a)) (booking_approvals s) \<and>
     list_all (\<lambda>a. appr_requested_by_user_id a \<noteq> appr_approver_user_id a) (booking_approvals s) \<and>
     list_all (\<lambda>b. chain_ok (booking_status b) (approvals_of s (booking_organization_id b) (booking_id b))) (bookings s)"

lemma approvals_ok_empty: "approvals_ok empty_database"
  by (simp add: approvals_ok_def empty_database_def)

lemma approvals_okD:
  assumes "approvals_ok s"
  shows "distinct (map booking_id (bookings s))" "distinct (map appr_id (booking_approvals s))"
    "a \<in> set (booking_approvals s) \<Longrightarrow> booking_known s (appr_organization_id a) (appr_booking_id a)"
    "a \<in> set (booking_approvals s) \<Longrightarrow> appr_requested_by_user_id a \<noteq> appr_approver_user_id a"
    "b \<in> set (bookings s) \<Longrightarrow> chain_ok (booking_status b) (approvals_of s (booking_organization_id b) (booking_id b))"
  using assms by (auto simp: approvals_ok_def list_all_iff)

lemma approvals_ok_frame:
  assumes "bookings t = bookings s" "booking_approvals t = booking_approvals s"
  shows "approvals_ok t = approvals_ok s"
  using assms by (simp add: approvals_ok_def approvals_of_def booking_known_def)

lemmas approvals_frame = approvals_ok_frame [THEN iffD2]
lemmas approvals_intros = outcome_intros [where P = approvals_ok]

lemma unknown_no_approvals: "approvals_ok s \<Longrightarrow> \<not> booking_known s org bid \<Longrightarrow> approvals_of s org bid = []"
  by (auto simp: approvals_of_def filter_empty_conv dest: approvals_okD(3))

section \<open>Writing one booking with its approval steps\<close>

lemma approvals_write_ok:
  assumes ok: "approvals_ok s" and b: "b \<in> set (bookings s)"
    and rows: "bookings t = put_row booking_id b' (bookings s)"
    and key: "booking_id b' = booking_id b" "booking_organization_id b' = booking_organization_id b"
    and ids: "distinct (map appr_id (booking_approvals t))"
    and new: "\<And>a. a \<in> set (booking_approvals t) \<Longrightarrow>
      booking_known s (appr_organization_id a) (appr_booking_id a) \<and> appr_requested_by_user_id a \<noteq> appr_approver_user_id a"
    and same: "\<And>org bid. (org, bid) \<noteq> (booking_organization_id b, booking_id b) \<Longrightarrow>
      approvals_of t org bid = approvals_of s org bid"
    and chain: "chain_ok (booking_status b') (approvals_of t (booking_organization_id b) (booking_id b))"
  shows "approvals_ok t"
proof -
  have "booking_known t org bid = booking_known s org bid" for org bid
  proof -
    have "b' \<in> set (bookings t)" using b key by (force simp: rows set_put_row)
    then show ?thesis
      using b key by (auto simp: booking_known_def list_ex_iff rows set_put_row)
        (metis distinct_map inj_onD approvals_okD(1) [OF ok])
  qed
  moreover have "chain_ok (booking_status c) (approvals_of t (booking_organization_id c) (booking_id c))"
    if c: "c \<in> set (bookings t)" for c
  proof (cases "c = b'")
    case True
    with chain key show ?thesis by simp
  next
    case False
    with c rows key have "c \<in> set (bookings s)" "booking_id c \<noteq> booking_id b"
      by (auto simp: set_put_row split: if_splits)
    with approvals_okD(5) [OF ok, of c] same [of "booking_organization_id c" "booking_id c"] show ?thesis by simp
  qed
  ultimately show ?thesis
    using ids new approvals_okD(1) [OF ok] by (simp add: approvals_ok_def list_all_iff rows)
qed

text \<open>A booking changes its status and keeps its steps.\<close>

lemma put_booking_approvals:
  assumes ok: "approvals_ok s" and b: "b \<in> set (bookings s)"
    and key: "booking_id b' = booking_id b" "booking_organization_id b' = booking_organization_id b"
    and chain: "chain_ok (booking_status b) as \<Longrightarrow> chain_ok (booking_status b') as"
    and as: "as = approvals_of s (booking_organization_id b) (booking_id b)"
    and t: "bookings t = put_row booking_id b' (bookings s)" "booking_approvals t = booking_approvals s"
  shows "approvals_ok t"
proof (rule approvals_write_ok [OF ok b t(1) key])
  show "distinct (map appr_id (booking_approvals t))" using approvals_okD(2) [OF ok] t(2) by simp
  show "approvals_of t org bid = approvals_of s org bid" for org bid by (simp add: approvals_of_def t(2))
  then show "chain_ok (booking_status b') (approvals_of t (booking_organization_id b) (booking_id b))"
    using chain approvals_okD(5) [OF ok b] as by simp
qed (use approvals_okD(3,4) [OF ok] t(2) in simp)

lemma add_booking_approvals:
  assumes ok: "approvals_ok s" and fresh: "id_free booking_id (booking_id b) (bookings s)"
    and st: "chain_ok (booking_status b) []"
    and t: "bookings t = bookings s @ [b]" "booking_approvals t = booking_approvals s"
  shows "approvals_ok t"
proof -
  have "\<not> booking_known s (booking_organization_id b) (booking_id b)"
    using fresh by (auto simp: booking_known_def list_ex_iff id_free_def list_all_iff)
  then have none: "approvals_of s (booking_organization_id b) (booking_id b) = []"
    by (rule unknown_no_approvals [OF ok])
  have "approvals_of t = approvals_of s" by (simp add: fun_eq_iff approvals_of_def t(2))
  with none st ok id_free_distinct [OF approvals_okD(1) [OF ok] fresh] show ?thesis
    by (auto simp: approvals_ok_def t booking_known_def list_all_iff)
qed

section \<open>The steps after a decision\<close>

lemma filter_put_row_in:
  "(\<And>x. x \<in> set rows \<Longrightarrow> id_of x = id_of r \<Longrightarrow> p x) \<Longrightarrow> p r \<Longrightarrow>
   filter p (put_row id_of r rows) = put_row id_of r (filter p rows)"
  unfolding put_row_def by (induction rows) auto

lemma filter_update_where:
  "(\<And>x. p (f x) = p x) \<Longrightarrow> filter p (update_where q f rows) = update_where q f (filter p rows)"
  unfolding update_where_def by (induction rows) auto

lemma approvals_of_put:
  assumes "distinct (map appr_id (booking_approvals s))" "a \<in> set (booking_approvals s)" "appr_id a' = appr_id a"
    "appr_organization_id a' = appr_organization_id a" "appr_booking_id a' = appr_booking_id a"
  shows "approvals_of (put_approval a' s) org bid =
    (if (org, bid) = (appr_organization_id a, appr_booking_id a) then put_row appr_id a' (approvals_of s org bid)
     else approvals_of s org bid)"
proof -
  have same: "appr_organization_id x = appr_organization_id a \<and> appr_booking_id x = appr_booking_id a"
    if "x \<in> set (booking_approvals s)" "appr_id x = appr_id a'" for x
  proof -
    from that assms(1-3) have "x = a" by (metis distinct_map inj_onD)
    then show ?thesis by simp
  qed
  show ?thesis
  proof (cases "(org, bid) = (appr_organization_id a, appr_booking_id a)")
    case True
    have "filter (\<lambda>x. appr_organization_id x = org \<and> appr_booking_id x = bid) (put_row appr_id a' (booking_approvals s)) =
        put_row appr_id a' (filter (\<lambda>x. appr_organization_id x = org \<and> appr_booking_id x = bid) (booking_approvals s))"
    proof (rule filter_put_row_in)
      fix x assume "x \<in> set (booking_approvals s)" "appr_id x = appr_id a'"
      from same [OF this] True show "appr_organization_id x = org \<and> appr_booking_id x = bid" by simp
    qed (use True assms(4,5) in simp)
    with True show ?thesis by (simp add: approvals_of_def put_approval_def)
  next
    case False
    have "filter (\<lambda>x. appr_organization_id x = org \<and> appr_booking_id x = bid) (put_row appr_id a' (booking_approvals s)) =
        filter (\<lambda>x. appr_organization_id x = org \<and> appr_booking_id x = bid) (booking_approvals s)"
    proof (rule filter_put_row_other)
      fix x assume "x \<in> set (booking_approvals s)" "appr_id x = appr_id a'"
      from same [OF this] False show "\<not> (appr_organization_id x = org \<and> appr_booking_id x = bid)" by auto
    qed (use False assms(4,5) in auto)
    with False show ?thesis by (auto simp: approvals_of_def put_approval_def)
  qed
qed

lemma approvals_of_cancel:
  "approvals_of (cancel_approvals e org bid c s) o' i =
     update_where (\<lambda>a. pending_approval org bid a \<and> c a)
       (\<lambda>a. a\<lparr>appr_status := Approval_CANCELLED, appr_decided_at := Some (now e)\<rparr>) (approvals_of s o' i)"
  unfolding approvals_of_def cancel_approvals_def by (simp add: filter_update_where)

lemma approvals_of_cancel_other:
  assumes "(o', i) \<noteq> (org, bid)"
  shows "approvals_of (cancel_approvals e org bid c s) o' i = approvals_of s o' i"
  unfolding approvals_of_cancel update_where_def
  by (rule map_idI) (use assms in \<open>auto simp: approvals_of_def pending_approval_def\<close>)

lemma set_cancel_approvals:
  "x \<in> set (booking_approvals (cancel_approvals e org bid c s)) \<Longrightarrow>
   \<exists>y \<in> set (booking_approvals s). appr_id x = appr_id y \<and> appr_organization_id x = appr_organization_id y \<and>
     appr_booking_id x = appr_booking_id y \<and> appr_requested_by_user_id x = appr_requested_by_user_id y \<and>
     appr_approver_user_id x = appr_approver_user_id y"
  by (auto simp: cancel_approvals_def set_update_where split: if_splits)

lemma pending_in: "count_rows (pending_approval org bid) (booking_approvals s) = 0 \<longleftrightarrow>
    \<not> some_status Approval_PENDING (approvals_of s org bid)"
  by (auto simp: count_rows_def some_status_def approvals_of_def pending_approval_def filter_empty_conv list_ex_iff)

section \<open>Every booking operation keeps the chain\<close>

lemma approvals_sel [simp]:
  "booking_approvals (add_audits as s) = booking_approvals s" "booking_approvals (queue_in_app e k org rs m d sch s) = booking_approvals s"
  "booking_approvals (put_hold h s) = booking_approvals s" "booking_approvals (add_hold h s) = booking_approvals s"
  "booking_approvals (add_booking b s) = booking_approvals s" "booking_approvals (add_ledger l s) = booking_approvals s"
  "booking_approvals (add_payment p s) = booking_approvals s" "booking_approvals (put_payment p s) = booking_approvals s"
  "booking_approvals (add_applicants ap s) = booking_approvals s"
  "booking_approvals (upsert_financing e i org bid f s) = booking_approvals s"
  "booking_approvals (add_approvals new s) = booking_approvals s @ new"
  "booking_approvals (put_approval a s) = put_row appr_id a (booking_approvals s)"
  by (simp_all add: add_audits_def queue_in_app_def put_hold_def add_hold_def add_booking_def add_ledger_def add_payment_def
    put_payment_def add_applicants_def upsert_financing_def add_approvals_def put_approval_def split: option.split)

lemma add_plan_approvals: "add_plan e k org b p s = Inr (t, plan) \<Longrightarrow> booking_approvals t = booking_approvals s"
  by (auto simp: add_plan_def Let_def outcome_simps)

lemma accrue_approvals: "accrue_booking_commission e k ctx org b s = Inr t \<Longrightarrow> booking_approvals t = booking_approvals s"
  by (auto simp: accrue_booking_commission_def Let_def outcome_simps split: option.splits)

lemma documents_approvals: "approvals_ok s \<Longrightarrow> approvals_ok (fst (expire_due_documents e k org s))"
  by (erule approvals_frame [rotated 2]) simp_all

lemma create_booking_approvals:
  assumes ok: "approvals_ok s" and fresh: "\<And>n. id_free booking_id (uuid e n) (bookings s)"
  shows "approvals_ok (committed (create_booking e ctx org p s))"
proof -
  obtain t k where t: "expire_due_documents e 0 org s = (t, k)" by (metis prod.exhaust)
  have okt: "approvals_ok t" using documents_approvals [OF ok, of e 0 org] t by simp
  have fresht: "id_free booking_id (uuid e n) (bookings t)" for n
    using fresh documents_sel(3) [of e 0 org s] t by simp
  show ?thesis
    unfolding create_booking_def t prod.case Let_def
    by (intro approvals_intros okt, rule add_booking_approvals [OF okt])
      (auto simp: fresht add_plan_sel add_plan_approvals)
qed

lemma advance_booking_approvals:
  assumes ok: "approvals_ok s"
  shows "approvals_ok (committed (advance_booking e ctx org bid p s))"
proof -
  obtain t k where t: "expire_due_documents e 0 org s = (t, k)" by (metis prod.exhaust)
  have okt: "approvals_ok t" using documents_approvals [OF ok, of e 0 org] t by simp
  show ?thesis unfolding advance_booking_def t prod.case Let_def
    by (intro approvals_intros okt, rule put_booking_approvals [OF okt _ _ _ _ refl])
      (use find_bookingD [of t org bid] in \<open>auto simp: advance_allowed_def\<close>)
qed

lemma create_payment_approvals:
  assumes ok: "approvals_ok s"
  shows "approvals_ok (committed (create_payment e ctx org bid p s))"
proof -
  have put: "approvals_ok (add_audits as (put_booking (if c then b\<lparr>booking_status := Booking_VERIFICATION,
      booking_submitted_at := Some (now e)\<rparr> else b) (add_payment x s)))"
    if "find_booking s org bid = Some b" "booking_status b = Booking_PAYMENT_PENDING \<or> booking_status b = Booking_VERIFICATION"
    for as c b x
    by (rule put_booking_approvals [OF ok _ _ _ _ refl, of b]) (use that find_bookingD [OF that(1)] in auto)
  show ?thesis unfolding create_payment_def Let_def
    by (intro approvals_intros ok; rule put)
qed

lemma no_chain_change:
  assumes ok: "approvals_ok s"
  shows "approvals_ok (committed (decide_payment e ctx org bid pid d notes s))"
    and "approvals_ok (committed (replace_joint_applicants e ctx org bid items s))"
    and "approvals_ok (committed (set_financing e ctx org bid f s))"
    and "approvals_ok (committed (set_payment_plan e ctx org bid pp s))"
  unfolding decide_payment_def replace_joint_applicants_def set_financing_def set_payment_plan_def Let_def
  by (intro approvals_intros ok; rule approvals_frame [rotated 2, OF ok]; auto dest: add_plan_sel add_plan_approvals)+

lemma new_approvals_sel:
  "a \<in> set (new_approvals e k org bid r cm xs) \<Longrightarrow> appr_organization_id a = org \<and> appr_booking_id a = bid \<and>
     appr_requested_by_user_id a = r \<and> appr_approver_user_id a \<in> set xs \<and> appr_status a = Approval_PENDING"
  "map appr_id (new_approvals e k org bid r cm xs) = map (\<lambda>i. uuid e (k + i)) [0..<length xs]"
  by (auto simp: new_approvals_def comp_def case_prod_beta map_enumerate_fst [where g = "\<lambda>i. uuid e (k + i)"]
    dest: in_enumerateD)

lemma request_approval_approvals:
  assumes ok: "approvals_ok s" and fresh: "fresh_env e s" and valid: "approval_request_ok p"
  shows "approvals_ok (committed (request_approval e ctx org bid p s))"
proof -
  obtain t k where t: "expire_due_documents e 0 org s = (t, k)" by (metis prod.exhaust)
  have okt: "approvals_ok t" using documents_approvals [OF ok, of e 0 org] t by simp
  have bt: "booking_approvals t = booking_approvals s" using documents_sel(7) [of e 0 org s] t by simp
  let ?new = "\<lambda>b. new_approvals e k org (booking_id b) (actor_user_id ctx) (ar_comments p) (ar_approver_user_ids p)"
  have ids: "distinct (map appr_id (booking_approvals t @ ?new b))" for b
  proof -
    have "set (map (\<lambda>i. uuid e (k + i)) [0..<length (ar_approver_user_ids p)]) \<inter> appr_id ` set (booking_approvals t) = {}"
      using fresh_envD(23) [OF fresh] unfolding bt id_free_def list_all_iff by fastforce
    moreover have "distinct (map (\<lambda>i. uuid e (k + i)) [0..<length (ar_approver_user_ids p)])"
      unfolding distinct_map using fresh_env_uuid [OF fresh] by (simp add: inj_on_def)
    ultimately show ?thesis
      unfolding map_append new_approvals_sel(2) distinct_append set_map using approvals_okD(2) [OF okt] by fastforce
  qed
  have put: "approvals_ok (queue_in_app e k' org rs m None None (add_audits as (put_booking
      (b\<lparr>booking_status := Booking_APPROVAL, booking_verified_by_user_id := v,
        booking_verification_completed_at := x, booking_approval_requested_at := y\<rparr>) (add_approvals (?new b) t))))"
    (is "approvals_ok ?t")
    if b: "find_booking t org bid = Some b" "booking_status b = Booking_VERIFICATION"
      and self: "actor_user_id ctx \<notin> set (ar_approver_user_ids p)" for b v x y as k' rs m
  proof (rule approvals_write_ok [OF okt])
    from find_bookingD [OF b(1)] show "b \<in> set (bookings t)" by simp
    show "bookings ?t = put_row booking_id (b\<lparr>booking_status := Booking_APPROVAL, booking_verified_by_user_id := v,
        booking_verification_completed_at := x, booking_approval_requested_at := y\<rparr>) (bookings t)" by simp
    show "distinct (map appr_id (booking_approvals ?t))" using ids by simp
    from find_bookingD [OF b(1)] have "booking_known t org (booking_id b)" by (auto simp: booking_known_def list_ex_iff)
    then show "booking_known t (appr_organization_id a) (appr_booking_id a) \<and> appr_requested_by_user_id a \<noteq> appr_approver_user_id a"
      if "a \<in> set (booking_approvals ?t)" for a
      using that self approvals_okD(3,4) [OF okt, of a] by (auto dest: new_approvals_sel(1))
    have split: "approvals_of ?t o' i = approvals_of t o' i @ (if (o', i) = (org, booking_id b) then ?new b else [])" for o' i
      by (auto simp: approvals_of_def filter_empty_conv filter_id_conv dest: new_approvals_sel(1))
    show "approvals_of ?t o' i = approvals_of t o' i" if "(o', i) \<noteq> (booking_organization_id b, booking_id b)" for o' i
      using that find_bookingD [OF b(1)] split by auto
    from approvals_okD(5) [OF okt] find_bookingD [OF b(1)] b(2) have "approvals_of t org (booking_id b) = []"
      by force
    with split find_bookingD [OF b(1)] have new: "approvals_of ?t (booking_organization_id b) (booking_id b) = ?new b" by simp
    have "1 \<le> length (?new b)" using valid by (simp add: new_approvals_def approval_request_ok_def)
    then have "?new b \<noteq> []" by auto
    then have "hd (?new b) \<in> set (?new b)" by simp
    with new_approvals_sel(1) [OF this] have "some_status Approval_PENDING (?new b)"
      by (auto simp: some_status_def list_ex_iff)
    then show "chain_ok (booking_status (b\<lparr>booking_status := Booking_APPROVAL, booking_verified_by_user_id := v,
        booking_verification_completed_at := x, booking_approval_requested_at := y\<rparr>))
      (approvals_of ?t (booking_organization_id b) (booking_id b))"
      unfolding new by (auto simp: all_status_def list_all_iff dest: new_approvals_sel(1))
  qed simp_all
  show ?thesis unfolding request_approval_def t prod.case Let_def
    by (intro approvals_intros okt; rule put)
qed

lemma approval_row:
  assumes "find_approval s org aid = Some a"
  shows "a \<in> set (booking_approvals s)" "appr_organization_id a = org" "appr_id a = aid"
  using entityD [OF assms] by simp_all

lemma all_status_put:
  "all_status sts as \<Longrightarrow> appr_status a' \<in> set sts' \<Longrightarrow> set sts \<subseteq> set sts' \<Longrightarrow> all_status sts' (put_row appr_id a' as)"
  by (auto simp: all_status_def list_all_iff set_put_row)

text \<open>
  The decided step enters the chain of its booking: after an approval the chain still consists of
  pending and approved steps, after a rejection every other pending step is cancelled.
\<close>

lemma apply_decision_approvals:
  assumes ok: "approvals_ok s" and b: "find_booking s org bid = Some b" "booking_status b = Booking_APPROVAL"
    and a: "find_approval s org aid = Some a" "appr_booking_id a = booking_id b" "appr_status a = Approval_PENDING"
    and ret: "apply_decision e ctx org b u (decided_approval e p a) s = Inr (t, b')"
  shows "approvals_ok t"
proof -
  let ?a = "decided_approval e p a" and ?s1 = "put_approval (decided_approval e p a) s"
  note row = approval_row [OF a(1)] and bk = find_bookingD [OF b(1)]
  have old: "all_status [Approval_PENDING, Approval_APPROVED] (approvals_of s org (booking_id b))"
    using approvals_okD(5) [OF ok, of b] bk b(2) by simp
  have in_chain: "a \<in> set (approvals_of s org (booking_id b))" using row a(2) by (simp add: approvals_of_def)
  have of1: "approvals_of ?s1 o' i =
      (if (o', i) = (org, booking_id b) then put_row appr_id ?a (approvals_of s o' i) else approvals_of s o' i)" for o' i
    using approvals_of_put [OF approvals_okD(2) [OF ok] row(1), of ?a] row(2) a(2) by simp
  have a_in: "?a \<in> set (put_row appr_id ?a (approvals_of s org (booking_id b)))"
    using in_chain by (force simp: set_put_row)
  have new: "booking_known s (appr_organization_id x) (appr_booking_id x) \<and> appr_requested_by_user_id x \<noteq> appr_approver_user_id x"
    if "x \<in> set (booking_approvals ?s1)" for x
    using that approvals_okD(3,4) [OF ok] row(1) by (auto simp: set_put_row split: if_splits)
  have ids: "distinct (map appr_id (booking_approvals ?s1))" using approvals_okD(2) [OF ok] by simp
  note written = approvals_write_ok [OF ok, of b]
  show ?thesis
  proof (cases "ad_status p")
    case Decision_REJECTED
    let ?t = "cancel_approvals e org (booking_id b) (\<lambda>x. appr_id x \<noteq> appr_id ?a) ?s1"
    from ret Decision_REJECTED have t: "bookings t = put_row booking_id (rejected_booking e (appr_comments ?a) b) (bookings s)"
      "booking_approvals t = booking_approvals ?t"
      by (auto simp: apply_decision_def Let_def cancel_approvals_def)
    have of_t: "approvals_of t o' i = approvals_of ?t o' i" for o' i by (simp add: approvals_of_def t(2))
    have "appr_status y \<in> {Approval_APPROVED, Approval_REJECTED, Approval_CANCELLED}"
      if y: "y \<in> set (approvals_of ?t org (booking_id b))" for y
    proof -
      from y obtain x where x: "x \<in> set (put_row appr_id ?a (approvals_of s org (booking_id b)))"
        "y = (if pending_approval org (booking_id b) x \<and> appr_id x \<noteq> appr_id ?a
              then x\<lparr>appr_status := Approval_CANCELLED, appr_decided_at := Some (now e)\<rparr> else x)"
        unfolding approvals_of_cancel set_update_where of1 by auto
      from x(1) old Decision_REJECTED show ?thesis unfolding x(2)
        by (auto simp: set_put_row all_status_def list_all_iff approvals_of_def pending_approval_def split: if_splits)
    qed
    moreover have "?a \<in> set (approvals_of ?t org (booking_id b))"
      unfolding approvals_of_cancel set_update_where using a_in by (auto simp: of1 intro: bexI [of _ ?a])
    ultimately have "chain_ok Booking_REJECTED (approvals_of ?t org (booking_id b))"
      using Decision_REJECTED by (auto simp: all_status_def some_status_def list_all_iff list_ex_iff intro: bexI [of _ ?a])
    moreover have "distinct (map appr_id (booking_approvals t))"
      using ids unfolding t(2) cancel_approvals_def by (simp add: map_update_where)
    moreover have "booking_known s (appr_organization_id x) (appr_booking_id x) \<and>
        appr_requested_by_user_id x \<noteq> appr_approver_user_id x" if "x \<in> set (booking_approvals t)" for x
    proof -
      from that have "x \<in> set (booking_approvals ?t)" by (simp add: t(2))
      from set_cancel_approvals [OF this] obtain y where "y \<in> set (booking_approvals ?s1)"
        "appr_organization_id x = appr_organization_id y" "appr_booking_id x = appr_booking_id y"
        "appr_requested_by_user_id x = appr_requested_by_user_id y" "appr_approver_user_id x = appr_approver_user_id y" by blast
      with new [of y] show ?thesis by simp
    qed
    ultimately show ?thesis
      by (intro written [OF _ t(1)])
        (use bk of_t of1 approvals_of_cancel_other in \<open>auto simp: rejected_booking_def\<close>)
  next
    case Decision_APPROVED
    have all: "all_status [Approval_PENDING, Approval_APPROVED] (approvals_of ?s1 org (booking_id b))"
      using old Decision_APPROVED by (auto simp: of1 intro: all_status_put)
    show ?thesis
    proof (cases "count_rows (pending_approval org (booking_id b)) (booking_approvals ?s1) = 0")
      case True
      with ret Decision_APPROVED obtain s3 where s3: "accrue_booking_commission e 0 ctx org (confirmed_booking e ctx b)
          (put_unit (u\<lparr>unit_status := Unit_BOOKED\<rparr>) (put_booking (confirmed_booking e ctx b) ?s1)) = Inr s3" "t = s3"
        by (auto simp: apply_decision_def Let_def outcome_simps split: sum.splits)
      have t: "bookings t = put_row booking_id (confirmed_booking e ctx b) (bookings s)" "booking_approvals t = booking_approvals ?s1"
        using accrue_sel(3) [OF s3(1)] accrue_approvals [OF s3(1)] s3(2) by simp_all
      have "all_status [Approval_APPROVED] (approvals_of ?s1 org (booking_id b))"
        using all True unfolding pending_in
        by (auto simp: all_status_def some_status_def list_all_iff list_ex_iff)
      moreover have "approvals_of ?s1 org (booking_id b) \<noteq> []" using a_in by (auto simp: of1)
      ultimately show ?thesis
        by (intro written [OF _ t(1)])
          (use bk of1 new t(2) ids in \<open>auto simp: confirmed_booking_def approvals_of_def\<close>)
    next
      case False
      with ret Decision_APPROVED have t: "t = ?s1" by (auto simp: apply_decision_def Let_def)
      have "bookings t = put_row booking_id b (bookings s)"
        using bk approvals_okD(1) [OF ok] unfolding t put_row_def
        by (simp, intro map_idI [symmetric]) (auto simp: distinct_map dest: inj_onD)
      moreover have "chain_ok Booking_APPROVAL (approvals_of t org (booking_id b))"
        using all False unfolding t pending_in by simp
      ultimately show ?thesis
        by (intro written) (use bk b(2) of1 new ids in \<open>auto simp: t\<close>)
    qed
  qed
qed

lemma decide_approval_approvals:
  assumes ok: "approvals_ok s"
  shows "approvals_ok (committed (decide_approval e ctx org bid aid p s))"
  unfolding decide_approval_def Let_def
  by (intro approvals_intros ok, rule approvals_frame [rotated 2], rule apply_decision_approvals [OF ok]) auto

lemma cancel_booking_approvals:
  assumes ok: "approvals_ok s"
  shows "approvals_ok (committed (cancel_booking e ctx org bid reason s))"
proof -
  have put: "approvals_ok (add_audits as (cancel_approvals e org (booking_id b) c (put_unit u (put_booking b' s))))"
    if b: "find_booking s org bid = Some b" "booking_id b' = booking_id b" "booking_organization_id b' = booking_organization_id b"
      "booking_status b' = Booking_CANCELLED" for as c u b b'
  proof (rule approvals_write_ok [OF ok])
    let ?t = "add_audits as (cancel_approvals e org (booking_id b) c (put_unit u (put_booking b' s)))"
    note bk = find_bookingD [OF b(1)]
    from bk show "b \<in> set (bookings s)" by simp
    show "booking_id b' = booking_id b" "booking_organization_id b' = booking_organization_id b" by (rule b)+
    have rows: "booking_approvals ?t = booking_approvals (cancel_approvals e org (booking_id b) c s)"
      by (simp add: cancel_approvals_def)
    then have of_t: "approvals_of ?t = approvals_of (cancel_approvals e org (booking_id b) c s)"
      by (simp add: fun_eq_iff approvals_of_def)
    show "approvals_of ?t o' i = approvals_of s o' i" if "(o', i) \<noteq> (booking_organization_id b, booking_id b)" for o' i
      using that bk unfolding of_t by (intro approvals_of_cancel_other) simp
    show "distinct (map appr_id (booking_approvals ?t))"
      using approvals_okD(2) [OF ok] unfolding rows cancel_approvals_def by (simp add: map_update_where)
    show "booking_known s (appr_organization_id x) (appr_booking_id x) \<and>
        appr_requested_by_user_id x \<noteq> appr_approver_user_id x" if "x \<in> set (booking_approvals ?t)" for x
    proof -
      from that [unfolded rows] have "x \<in> set (booking_approvals (cancel_approvals e org (booking_id b) c s))" .
      from set_cancel_approvals [OF this] obtain y where "y \<in> set (booking_approvals s)"
        "appr_organization_id x = appr_organization_id y" "appr_booking_id x = appr_booking_id y"
        "appr_requested_by_user_id x = appr_requested_by_user_id y" "appr_approver_user_id x = appr_approver_user_id y" by blast
      with approvals_okD(3,4) [OF ok, of y] show ?thesis by simp
    qed
  qed (use b in simp_all)
  show ?thesis unfolding cancel_booking_def Let_def
    by (intro approvals_intros ok; rule put) simp_all
qed

lemma get_booking_approvals: "approvals_ok s \<Longrightarrow> approvals_ok (committed (get_booking e org bid s))"
  unfolding get_booking_def by (auto simp: Let_def case_prod_beta intro!: approvals_intros dest: documents_approvals)

section \<open>The inventory operations and the chain\<close>

lemma holds_only_approvals: "holds_only s t \<Longrightarrow> approvals_ok s \<Longrightarrow> approvals_ok t"
  by (rule approvals_frame) (auto dest: holds_only_sel)

lemma initiate_booking_approvals:
  assumes ok: "approvals_ok s" and fresh: "id_free booking_id (uuid e 3) (bookings s)"
  shows "approvals_ok (committed (initiate_booking e ctx org uid p s))"
proof -
  have put: "approvals_ok (add_audits as (add_booking b (put_unit u (convert_hold e k org ctx n current t))))"
    if "expire_hold e 0 (Some ctx) u0 s = (t, u', current')" "booking_id b = uuid e 3" "booking_status b = Booking_DRAFT"
    for as b u k n current t u0 u' current'
    by (rule add_booking_approvals [OF ok, of b])
      (use that fresh holds_only_sel [OF holds_only_expire [OF that(1)]] in
        \<open>auto simp: convert_hold_def split: option.split\<close>)
  show ?thesis unfolding initiate_booking_def Let_def
    by (intro approvals_intros ok, unfold outcome.sel, rule put) simp_all
qed

lemma transition_booking_approvals:
  assumes ok: "approvals_ok s"
  shows "approvals_ok (committed (transition_booking_endpoint e ctx org bid target s))"
proof -
  have put: "approvals_ok (add_audits as (put_unit u (put_booking b' s)))"
    if "find_booking s org bid = Some b" "booking_id b' = booking_id b" "booking_organization_id b' = booking_organization_id b"
      "booking_status b' = Booking_CANCELLED" for as u b b'
    by (rule put_booking_approvals [OF ok _ _ _ _ refl, of b]) (use that find_bookingD [OF that(1)] in auto)
  show ?thesis
  proof (cases "target = Booking_CONFIRMED")
    case True
    with ok show ?thesis by (simp add: transition_booking_endpoint_def demand_def)
  next
    case False
    then show ?thesis unfolding transition_booking_endpoint_def transition_booking_def Let_def
      by (intro approvals_intros ok, unfold outcome.sel) (simp, rule put, simp_all, rule ok)
  qed
qed

end
