(* ===== verification/Hold_Workflow.thy ===== *)
theory Hold_Workflow
  imports Unit_Keys
begin

text \<open>
  What the hold workflow does to the rows of a unit: the effect of each handler that returns, the
  refusals that follow from a reserving row, and the expiry that is committed before an error.
\<close>

section \<open>Looking up the locked unit\<close>

lemma find_unit_in: "inventory_ok s \<Longrightarrow> u \<in> set (units s) \<Longrightarrow> find_unit s (unit_organization_id u) (unit_id u) = Some u"
  by (rule entity_unique [OF inventory_okD(1)]) simp_all

lemma find_hold_in:
  "inventory_ok s \<Longrightarrow> h \<in> set (unit_holds s) \<Longrightarrow> find_hold s (hold_organization_id h) (hold_id h) = Some h"
  by (rule entity_unique [OF inventory_okD(2)]) simp_all

lemma expire_hold_held:
  assumes "inventory_ok s" "u \<in> set (units s)" "h \<in> set (holds_of s (unit_organization_id u) (unit_id u))"
  shows "expire_hold e k ctx u s =
    (if hold_expires_at h \<le> now e then (mark_hold_expired e k ctx u h s, released_unit u, None) else (s, u, Some h))"
  using unit_agrees_held [OF inventory_okD(6) [OF assms(1,2)] assms(3)]
  by (simp add: expire_hold_alt first_row_def)

lemma expire_hold_vacant:
  "holds_of s (unit_organization_id u) (unit_id u) = [] \<Longrightarrow> expire_hold e k ctx u s = (s, u, None)"
  by (simp add: expire_hold_alt first_row_def)

section \<open>Creating a hold\<close>

lemma create_hold_effect:
  assumes ret: "create_hold e ctx org uid p s = Return t v" and ok: "inventory_ok s"
  obtains u sp s1 as where "u \<in> set (units s1)" "unit_organization_id u = org" "unit_id u = uid"
    "unit_status u = Unit_AVAILABLE" "inventory_ok s1" "now e < hc_expires_at p" "user_is_active sp"
    "t = add_audits as (put_unit (u\<lparr>unit_status := unit_status_of_hold_type (hc_hold_type p)\<rparr>)
       (add_hold (new_hold e (uuid e 2) org u sp p) s1))"
    "map hold_id (unit_holds s1) = map hold_id (unit_holds s)"
proof -
  obtain u0 where u0: "find_unit s org uid = Some u0"
    using ret by (auto simp: create_hold_def outcome_simps)
  obtain s1 u current where x: "expire_hold e 0 (Some ctx) u0 s = (s1, u, current)" by (metis prod_cases3)
  from find_unitD [OF u0] have "u0 \<in> set (units s)" by simp
  from expire_hold_ok [OF x ok this] find_unitD [OF u0]
  have s1: "inventory_ok s1" "u \<in> set (units s1)" "unit_organization_id u = org" "unit_id u = uid"
    "map hold_id (unit_holds s1) = map hold_id (unit_holds s)" by simp_all
  from ret u0 x s1 that show thesis
    by (auto simp: create_hold_def outcome_simps Let_def split: option.splits)
qed

lemma create_hold_holds:
  assumes ret: "create_hold e ctx org uid p s = Return t v" and ok: "inventory_ok s"
    and fresh: "id_free hold_id (uuid e 2) (unit_holds s)"
  obtains u h where "inventory_ok t" "u \<in> set (units t)" "unit_organization_id u = org" "unit_id u = uid"
    "unit_status u = unit_status_of_hold_type (hc_hold_type p)" "h \<in> set (holds_of t org uid)"
    "hold_id h = uuid e 2" "hold_status h = Hold_PENDING_APPROVAL" "hold_expires_at h = hc_expires_at p"
proof -
  from create_hold_effect [OF ret ok] obtain u sp s1 as where u: "u \<in> set (units s1)" "unit_organization_id u = org"
    "unit_id u = uid" and t: "t = add_audits as (put_unit (u\<lparr>unit_status := unit_status_of_hold_type (hc_hold_type p)\<rparr>)
       (add_hold (new_hold e (uuid e 2) org u sp p) s1))" .
  have "u\<lparr>unit_status := unit_status_of_hold_type (hc_hold_type p)\<rparr> \<in> set (units t)"
    using u(1) by (force simp: t set_put_row)
  moreover have "new_hold e (uuid e 2) org u sp p \<in> set (holds_of t org uid)"
    using u by (simp add: t holds_of_add new_hold_def)
  moreover have "inventory_ok t" using create_hold_keeps [OF ok fresh] ret by (metis outcome.sel(1))
  ultimately show thesis using u
    by (intro that [of "u\<lparr>unit_status := unit_status_of_hold_type (hc_hold_type p)\<rparr>" "new_hold e (uuid e 2) org u sp p"])
      (simp_all add: new_hold_def)
qed

section \<open>A reserving row refuses the others\<close>

lemma create_hold_refused:
  assumes "inventory_ok s" "u \<in> set (units s)" "unit_organization_id u = org" "unit_id u = uid"
    and "unit_status u \<noteq> Unit_AVAILABLE"
    and "\<And>h. h \<in> set (holds_of s org uid) \<Longrightarrow> now e < hold_expires_at h"
  shows "create_hold e ctx org uid p s = Raise s (App_Error 409 ''UNIT_UNAVAILABLE'')"
proof -
  from find_unit_in [OF assms(1,2)] assms(3,4) have u: "find_unit s org uid = Some u" by simp
  obtain s1 u' current where x: "expire_hold e 0 (Some ctx) u s = (s1, u', current)" by (metis prod_cases3)
  have "u' = u"
    using x assms(3-6) by (cases rule: expire_hold_cases [OF x]) force+
  with u x assms(5) show ?thesis by (simp add: create_hold_def fetch_def demand_def)
qed

lemma initiate_booking_pending:
  assumes "inventory_ok s" "u \<in> set (units s)" "unit_organization_id u = org" "unit_id u = uid"
    and "h \<in> set (holds_of s org uid)" "hold_status h = Hold_PENDING_APPROVAL" "now e < hold_expires_at h"
  shows "initiate_booking e ctx org uid p s = Raise s (App_Error 409 ''HOLD_APPROVAL_PENDING'')"
proof -
  from find_unit_in [OF assms(1,2)] assms(3,4) have u: "find_unit s org uid = Some u" by simp
  from assms(3-5) have h: "h \<in> set (holds_of s (unit_organization_id u) (unit_id u))" by simp
  from unit_agrees_held [OF inventory_okD(6) [OF assms(1,2)] h]
  have none: "live_bookings s org uid = []" and held: "held_status (unit_status u)" using assms(3,4) by simp_all
  have free: "slot_free booking_organization_id booking_active_unit_key org uid (bookings s)"
    unfolding slot_free_def list_all_iff
  proof (intro ballI notI)
    fix b assume b: "b \<in> set (bookings s)" "booking_organization_id b = org \<and> booking_active_unit_key b = Some uid"
    with inventory_okD(5) [OF assms(1) b(1)] have "b \<in> set (live_bookings s org uid)"
      by (auto simp: booking_slot_ok_def live_bookings_def split: if_splits)
    with none show False by simp
  qed
  from expire_hold_held [OF assms(1,2) h, of e 0 "Some ctx"] assms(7)
  have "expire_hold e 0 (Some ctx) u s = (s, u, Some h)" by simp
  with u free held assms(4,6) show ?thesis
    by (simp add: initiate_booking_def fetch_def demand_def bookable_def)
qed

text \<open>A booking initiated on a held unit uses up the hold, which was approved for the same customer.\<close>

lemma initiate_booking_held:
  assumes ret: "initiate_booking e ctx org uid p s = Return t v" and ok: "inventory_ok s"
    and h: "h \<in> set (holds_of s org uid)" "now e < hold_expires_at h"
  shows "hold_status h = Hold_ACTIVE" "hold_customer_id h = None \<or> hold_customer_id h = Some (bi_customer_id p)"
    "unit_holds t = put_row hold_id (converted_hold e h) (unit_holds s)"
proof -
  obtain u where f: "find_unit s org uid = Some u" using ret by (auto simp: initiate_booking_def outcome_simps)
  from find_unitD [OF f] have u: "u \<in> set (units s)" "unit_organization_id u = org" "unit_id u = uid" by simp_all
  with h(1) have "h \<in> set (holds_of s (unit_organization_id u) (unit_id u))" by simp
  from expire_hold_held [OF ok u(1) this, of e 0 "Some ctx"] h(2)
  have x: "expire_hold e 0 (Some ctx) u s = (s, u, Some h)" by simp
  have all: "hold_status h \<noteq> Hold_PENDING_APPROVAL \<and>
      (hold_customer_id h = None \<or> hold_customer_id h = Some (bi_customer_id p)) \<and>
      unit_holds t = put_row hold_id (converted_hold e h) (unit_holds s)"
    using ret f x by (auto simp: initiate_booking_def outcome_simps Let_def convert_hold_def split: option.splits)
  then show "hold_status h = Hold_ACTIVE" using holds_ofD [OF h(1)] by (cases "hold_status h") simp_all
  from all show "hold_customer_id h = None \<or> hold_customer_id h = Some (bi_customer_id p)"
    "unit_holds t = put_row hold_id (converted_hold e h) (unit_holds s)" by blast+
qed

text \<open>The only hold that reserves a unit.\<close>

lemma only_hold:
  assumes "inventory_ok s" "h \<in> set (holds_of s org uid)" "g \<in> set (holds_of s org uid)"
  shows "h = g"
  using unit_keys_ok_one_hold [OF inventory_unit_keys_ok [OF assms(1)], of org uid] assms(2,3)
  by (cases "holds_of s org uid"; cases "tl (holds_of s org uid)") auto

section \<open>Deciding a hold\<close>

lemma decide_hold_effect:
  assumes ret: "decide_hold e ctx org hid p s = Return t v" and ok: "inventory_ok s"
  obtains h u as where "find_hold s org hid = Some h" "find_unit s org (hold_unit_id h) = Some u"
    "hold_status h = Hold_PENDING_APPROVAL" "now e < hold_expires_at h" "hold_held_by_user_id h \<noteq> actor_user_id ctx"
    "h \<in> set (holds_of s org (unit_id u))"
    "t = add_audits as (put_unit (if hd_status p = Decision_APPROVED then u else u\<lparr>unit_status := Unit_AVAILABLE\<rparr>)
       (put_hold (decided_hold e ctx p h) s))"
proof -
  obtain c u0 where c: "find_hold s org hid = Some c" "find_unit s org (hold_unit_id c) = Some u0"
    using ret by (auto simp: decide_hold_def outcome_simps)
  obtain s1 u current where x: "expire_hold e 0 (Some ctx) u0 s = (s1, u, current)" by (metis prod_cases3)
  from find_unitD [OF c(2)] have u0: "u0 \<in> set (units s)" "unit_organization_id u0 = org" by simp_all
  from ret c x obtain h where h: "current = Some h" "hold_id h = hid" "hold_status h = Hold_PENDING_APPROVAL"
    "hold_held_by_user_id h \<noteq> actor_user_id ctx"
    by (auto simp: decide_hold_def outcome_simps Let_def split: option.splits if_splits)
  have s1: "s1 = s" "u = u0" "now e < hold_expires_at h" "h \<in> set (holds_of s org (unit_id u0))"
    using h(1) u0(2) by (cases rule: expire_hold_cases [OF x]; simp)+
  from holds_ofD [OF s1(4)] find_hold_in [OF ok, of h] h(2) have "find_hold s org hid = Some h" by simp
  with c(1) have "c = h" by simp
  with ret c x h s1 that [of h u0] show thesis
    by (auto simp: decide_hold_def outcome_simps Let_def)
qed

lemma decide_hold_due:
  assumes ok: "inventory_ok s" and h: "find_hold s org hid = Some h" "reserving (hold_status h)" "hold_expires_at h \<le> now e"
  obtains u where "find_unit s org (hold_unit_id h) = Some u"
    "decide_hold e ctx org hid p s =
      Raise (mark_hold_expired e 0 (Some ctx) u h s) (App_Error 409 ''HOLD_APPROVAL_NOT_PENDING'')"
proof -
  from entityD [OF h(1)] have row: "h \<in> set (unit_holds s)" "hold_organization_id h = org" "hold_id h = hid" by simp_all
  from inventory_okD(7) [OF ok row(1) h(2)] row(2) obtain u where u: "u \<in> set (units s)"
    "unit_organization_id u = org" "unit_id u = hold_unit_id h" by auto
  from find_unit_in [OF ok u(1)] u have find: "find_unit s org (hold_unit_id h) = Some u" by simp
  from row u h(2) have "h \<in> set (holds_of s (unit_organization_id u) (unit_id u))" by (simp add: holds_of_def)
  from expire_hold_held [OF ok u(1) this, of e 0 "Some ctx"] h find
  have "decide_hold e ctx org hid p s =
      Raise (mark_hold_expired e 0 (Some ctx) u h s) (App_Error 409 ''HOLD_APPROVAL_NOT_PENDING'')"
    by (simp add: decide_hold_def fetch_def)
  with find show thesis by (rule that)
qed

end
