(* ===== verification/Booking_Workflow.thy ===== *)
theory Booking_Workflow
  imports Booking_Approvals Hold_Workflow
begin

text \<open>
  What the booking operations do when they return: the guards that held and the rows they wrote.
\<close>

section \<open>Creating a booking\<close>

lemma documents_reads [simp]:
  "quotations (fst (expire_due_documents e k org s)) = quotations s"
  "customers (fst (expire_due_documents e k org s)) = customers s"
  "booking_applicants (fst (expire_due_documents e k org s)) = booking_applicants s"
  "customer_ledger (fst (expire_due_documents e k org s)) = customer_ledger s"
  by (simp_all add: expire_due_documents_def Let_def add_audits_def)

lemma booked_row_more [simp]:
  "booking_agreed_price (booked_row e i org ctx u c q h sp x p) = Some (or_decimal (quote_final_agreed_value q) (quote_total q))"
  "booking_customer_id (booked_row e i org ctx u c q h sp x p) = cust_id c"
  "booking_unit_hold_id (booked_row e i org ctx u c q h sp x p) = Some (hold_id h)"
  "booking_quotation_id (booked_row e i org ctx u c q h sp x p) = Some (quote_id q)"
  "booking_booking_amount (booked_row e i org ctx u c q h sp x p) = x"
  by (simp_all add: booked_row_def)

lemma create_booking_returns:
  assumes ret: "create_booking e ctx org p s = Return t v"
  obtains s1 k q u h c sp amount s2 plan s3 as rs m n where
    "(s1, k) = expire_due_documents e 0 org s"
    "find_quotation s org (bc_quotation_id p) = Some q" "find_unit s org (unit_id u) = Some u"
    "find_hold s org (bc_unit_hold_id p) = Some h" "find_customer s org (cust_id c) = Some c"
    "quote_unit_id q = Some (unit_id u)" "quote_customer_id q = Some (cust_id c)"
    "quotation_and_hold_ok e s1 org q u h = Inr ()" "has_verified_kyc s1 org (cust_id c)"
    "check_applicants s1 org (cust_id c) (bc_joint_applicants p) = Inr ()"
    "add_plan e (k + length (bc_joint_applicants p) + 2) org (booked_row e (uuid e k) org ctx u c q h sp amount p)
       (bc_payment_plan p) (add_applicants (new_applicants e (k + 1) org (uuid e k) c (bc_joint_applicants p))
         (add_booking (booked_row e (uuid e k) org ctx u c q h sp amount p) s1)) = Inr (s2, plan)"
    "\<exists>i f. s3 = upsert_financing e i org (uuid e k) f s2"
    "t = queue_in_app e n org rs m None None (add_audits as (add_ledger
       (agreed_value_entry e (uuid e (k + length (bc_joint_applicants p) + length (pp_installments (bc_payment_plan p)) + 4)) org
         (booked_row e (uuid e k) org ctx u c q h sp amount p))
       (put_unit (u\<lparr>unit_status := Unit_BOOKING_INITIATED\<rparr>) (put_hold (converted_hold e h) s3))))"
proof -
  obtain s1 k where s1: "expire_due_documents e 0 org s = (s1, k)" by (metis prod.exhaust)
  have same: "quotations s1 = quotations s" "customers s1 = customers s" "units s1 = units s" "unit_holds s1 = unit_holds s"
    using documents_reads(1,2) [of e 0 org s] documents_sel(1,2) [of e 0 org s] s1 by simp_all
  have uid: "unit_id u = uid" if "find_unit s org uid = Some u" for uid u using find_unitD [OF that] by simp
  have cid: "cust_id c = cid" if "find_customer s org cid = Some c" for cid c using entityD [OF that] by simp
  from ret show thesis
    unfolding create_booking_def s1 prod.case Let_def outcome_simps same booked_row_sel(1)
    apply (elim exE conjE)
    subgoal premises prems for q uid cid u h _ c sp _ amount _ r
    proof -
      obtain s2 plan where r: "r = (s2, plan)" by (metis prod.exhaust)
      from prems r show thesis
        by (intro that [OF s1 [symmetric], where q = q and u = u and h = h and c = c])
          (auto simp: uid cid outcome_simps)
    qed
    done
qed


text \<open>A new booking names the active hold it uses up, on its unit and for its customer.\<close>

lemma create_booking_on_hold:
  assumes "create_booking e ctx org p s = Return t v"
  obtains b h where "bookings t = bookings s @ [b]" "h \<in> set (holds_of s org (booking_unit_id b))"
    "hold_status h = Hold_ACTIVE" "hold_customer_id h = Some (booking_customer_id b)" "booking_unit_hold_id b = Some (hold_id h)"
  using assms
proof (rule create_booking_returns)
  fix s1 k q u h c sp amount s2 plan s3 as rs m n
  let ?b = "booked_row e (uuid e k) org ctx u c q h sp amount p"
  assume s1: "(s1, k) = expire_due_documents e 0 org s" and h: "find_hold s org (bc_unit_hold_id p) = Some h"
    and qu: "quote_customer_id q = Some (cust_id c)" and guard: "quotation_and_hold_ok e s1 org q u h = Inr ()"
    and s2: "add_plan e (k + length (bc_joint_applicants p) + 2) org ?b (bc_payment_plan p)
      (add_applicants (new_applicants e (k + 1) org (uuid e k) c (bc_joint_applicants p)) (add_booking ?b s1)) = Inr (s2, plan)"
    and s3: "\<exists>i f. s3 = upsert_financing e i org (uuid e k) f s2"
    and t: "t = queue_in_app e n org rs m None None (add_audits as (add_ledger
       (agreed_value_entry e (uuid e (k + length (bc_joint_applicants p) + length (pp_installments (bc_payment_plan p)) + 4)) org ?b)
       (put_unit (u\<lparr>unit_status := Unit_BOOKING_INITIATED\<rparr>) (put_hold (converted_hold e h) s3))))"
  from s1 documents_sel(3) [of e 0 org s] have "bookings s1 = bookings s" by (metis fst_conv)
  then have "bookings t = bookings s @ [?b]" using s3 add_plan_sel [OF s2] by (auto simp: t)
  then show thesis
    by (rule that [of _ h]) (use quotation_and_hold_okD [OF guard] entityD [OF h] qu in \<open>simp_all add: holds_of_def\<close>)
qed

text \<open>The rows a new payment plan adds.\<close>

lemma new_installments_rows:
  "sum_list (map inst_amount (new_installments e k org pid items)) = sum_list (map ii_amount items)"
  "map inst_sequence (new_installments e k org pid items) = map int [1..<Suc (length items)]"
  "length (new_installments e k org pid items) = length items"
  "i \<in> set (new_installments e k org pid items) \<Longrightarrow> inst_payment_plan_id i = pid"
proof -
  show "sum_list (map inst_amount (new_installments e k org pid items)) = sum_list (map ii_amount items)"
    by (simp add: new_installments_def comp_def case_prod_beta map_enumerate_snd [where g = ii_amount])
  have "map inst_sequence (new_installments e k org pid items) = map (\<lambda>i. int (i + 1)) [0..<length items]"
    by (simp add: new_installments_def comp_def case_prod_beta map_enumerate_fst [where g = "\<lambda>i. 1 + int i"])
  also have "\<dots> = map int (map Suc [0..<length items])" by simp
  also have "\<dots> = map int [1..<Suc (length items)]" unfolding map_Suc_upt One_nat_def ..
  finally show "map inst_sequence (new_installments e k org pid items) = map int [1..<Suc (length items)]" .
qed (auto simp: new_installments_def)

lemma add_plan_adds:
  assumes "add_plan e k org b p s = Inr (t, plan)"
  shows "last (payment_plans t) = plan" "plan_booking_id plan = booking_id b" "plan_status plan = Record_ACTIVE"
    "plan_total_amount plan = or_decimal (booking_agreed_price b) 0"
    "installments t = installments s @ new_installments e (k + 1) org (plan_id plan) (pp_installments p)"
    "sum_list (map ii_amount (pp_installments p)) = or_decimal (booking_agreed_price b) 0"
    "customer_documents t = customer_documents s" "customer_ledger t = customer_ledger s" "payments t = payments s"
  using assms by (auto simp: add_plan_def Let_def outcome_simps new_plan_def)


lemma or_decimal_zero [simp]: "or_decimal (Some x) 0 = x"
  by (simp add: or_decimal_def)

text \<open>Unfolding the writes, to read any table of the database they leave.\<close>

lemmas booking_writes = add_audits_def queue_in_app_def put_unit_def put_hold_def add_hold_def add_booking_def put_booking_def
  add_applicants_def add_ledger_def add_payment_def put_payment_def put_approval_def add_approvals_def cancel_approvals_def

lemma upsert_financing_more [simp]:
  "customer_documents (upsert_financing e i org bid f s) = customer_documents s"
  "payment_plans (upsert_financing e i org bid f s) = payment_plans s"
  "installments (upsert_financing e i org bid f s) = installments s"
  "customer_ledger (upsert_financing e i org bid f s) = customer_ledger s"
  by (simp_all add: upsert_financing_def split: option.split)


section \<open>Deciding an approval step\<close>

lemma decide_approval_returns:
  assumes ret: "decide_approval e ctx org bid aid p s = Return t v"
  obtains b u a s1 b' where "find_booking s org bid = Some b" "find_unit s org (booking_unit_id b) = Some u"
    "find_approval s org aid = Some a" "appr_booking_id a = booking_id b" "booking_status b = Booking_APPROVAL"
    "appr_status a = Approval_PENDING" "appr_approver_user_id a = actor_user_id ctx"
    "apply_decision e ctx org b u (decided_approval e p a) s = Inr (s1, b')"
    "bookings t = bookings s1" "units t = units s1" "booking_approvals t = booking_approvals s1"
  using ret unfolding decide_approval_def Let_def outcome_simps split_paired_Ex prod.case
  by (elim exE conjE) (rule that, assumption+, auto simp: booking_writes)

lemma decided_approval_comments [simp]: "appr_comments (decided_approval e p a) = Some (strip (ad_comments p))"
  by (simp add: decided_approval_def)

lemma appr_cancelled_status: "appr_status (a\<lparr>appr_status := Approval_CANCELLED, appr_decided_at := d\<rparr>) \<noteq> Approval_PENDING"
  by simp

text \<open>The three ways a decision can change the bookings and the units.\<close>

lemma apply_decision_outcome:
  assumes "apply_decision e ctx org b u a s = Inr (t, b')"
  shows "if appr_status a = Approval_REJECTED then
      bookings t = put_row booking_id (rejected_booking e (appr_comments a) b) (bookings s) \<and>
      units t = put_row unit_id (u\<lparr>unit_status := Unit_CANCELLED_RELEASED\<rparr>) (units s) \<and>
      (\<forall>x \<in> set (approvals_of t org (booking_id b)). appr_status x = Approval_PENDING \<longrightarrow> appr_id x = appr_id a)
    else booking_approvals t = put_row appr_id a (booking_approvals s) \<and>
      (if some_status Approval_PENDING (approvals_of t org (booking_id b)) then bookings t = bookings s \<and> units t = units s
       else bookings t = put_row booking_id (confirmed_booking e ctx b) (bookings s) \<and>
         units t = put_row unit_id (u\<lparr>unit_status := Unit_BOOKED\<rparr>) (units s))"
proof (cases "appr_status a = Approval_REJECTED")
  case True
  let ?c = "\<lambda>x. appr_id x \<noteq> appr_id a"
  from assms True have t: "t = cancel_approvals e org (booking_id b) ?c (put_unit (u\<lparr>unit_status := Unit_CANCELLED_RELEASED\<rparr>)
      (put_booking (rejected_booking e (appr_comments a) b) (put_approval a s)))"
    unfolding apply_decision_def Let_def by (metis (no_types, lifting) prod.inject sum.inject(2))
  have "appr_id x = appr_id a" if x: "x \<in> set (approvals_of t org (booking_id b))" "appr_status x = Approval_PENDING" for x
  proof (rule ccontr)
    assume other: "appr_id x \<noteq> appr_id a"
    from x(1) have key: "appr_organization_id x = org" "appr_booking_id x = booking_id b"
      and "x \<in> set (booking_approvals t)" by (simp_all add: approvals_of_def)
    then obtain y where "x = (if pending_approval org (booking_id b) y \<and> ?c y
        then y\<lparr>appr_status := Approval_CANCELLED, appr_decided_at := Some (now e)\<rparr> else y)"
      unfolding t cancel_approvals_def by (auto simp: set_update_where)
    with x(2) have "x = y \<and> \<not> (pending_approval org (booking_id b) y \<and> ?c y)" by (metis appr_cancelled_status)
    with x(2) other key show False by (simp add: pending_approval_def)
  qed
  moreover have "bookings t = put_row booking_id (rejected_booking e (appr_comments a) b) (bookings s)"
    "units t = put_row unit_id (u\<lparr>unit_status := Unit_CANCELLED_RELEASED\<rparr>) (units s)"
    unfolding t by simp_all
  ultimately show ?thesis using True by auto
next
  case False
  have pending: "count_rows (pending_approval org (booking_id b)) (booking_approvals (put_approval a s)) = 0 \<longleftrightarrow>
      \<not> some_status Approval_PENDING (approvals_of t org (booking_id b))"
    if "booking_approvals t = booking_approvals (put_approval a s)"
    unfolding pending_in approvals_of_def that ..
  show ?thesis
  proof (cases "count_rows (pending_approval org (booking_id b)) (booking_approvals (put_approval a s)) = 0")
    case True
    with False assms have "accrue_booking_commission e 0 ctx org (confirmed_booking e ctx b)
        (put_unit (u\<lparr>unit_status := Unit_BOOKED\<rparr>) (put_booking (confirmed_booking e ctx b) (put_approval a s))) = Inr t"
      by (auto simp: apply_decision_def Let_def outcome_simps split: sum.splits)
    note t = accrue_sel [OF this] accrue_approvals [OF this]
    then show ?thesis using False True pending by (simp add: put_approval_def)
  next
    case more: False
    with False assms have t: "t = put_approval a s" by (simp add: apply_decision_def Let_def)
    with pending more have "some_status Approval_PENDING (approvals_of t org (booking_id b))" by simp
    with False t show ?thesis by (simp add: put_approval_def)
  qed
qed

end
