(* ===== verification/Samples.thy ===== *)
theory Samples
  imports Inventory
begin

text \<open>
  A small concrete organization with one project, one unit, two users and one customer, on which
  the properties with hypotheses are instantiated.
\<close>

definition sample_env :: env where
  "sample_env = \<lparr>now = 1000, today = 20, utc_today = 20, uuid = (\<lambda>n. CHR ''n'' # replicate n CHR ''0'')\<rparr>"

definition sample_user :: "ident \<Rightarrow> user_row" where
  "sample_user i =
     \<lparr>user_id = i, user_organization_id = ''o'', user_branch_id = None, user_department_id = None,
      user_email = ''a'', user_full_name = ''User'', user_password_hash = ''h'', user_auth_version = 1,
      user_is_active = True, user_last_login_at = None, user_created_at = 0\<rparr>"

definition sample_project :: project_row where
  "sample_project =
     \<lparr>project_id = ''p'', project_organization_id = ''o'', project_name = ''Project'',
      project_code = ''P1'', project_description = None, project_project_type = None,
      project_address_line1 = None, project_address_line2 = None, project_city = None,
      project_state = None, project_postal_code = None, project_country = None,
      project_rera_number = None, project_launch_date = None,
      project_expected_possession_date = None, project_default_currency = ''INR'',
      project_amenities = None, project_configuration = None, project_status = Project_LAUNCHED,
      project_created_at = 0\<rparr>"

definition sample_unit :: "unit_status \<Rightarrow> unit_row" where
  "sample_unit st =
     \<lparr>unit_id = ''x'', unit_organization_id = ''o'', unit_project_id = ''p'', unit_tower_id = None,
      unit_floor_id = None, unit_unit_number = ''101'', unit_unit_type = None, unit_area_sqft = None,
      unit_carpet_area_sqft = None, unit_built_up_area_sqft = None, unit_facing = None,
      unit_bedrooms = None, unit_bathrooms = None, unit_balconies = None, unit_amenities = None,
      unit_price_components = None, unit_configuration = None, unit_status = st,
      unit_base_price = None, unit_currency = None, unit_created_at = 0\<rparr>"

definition sample_customer :: customer_row where
  "sample_customer =
     \<lparr>cust_id = ''c'', cust_organization_id = ''o'', cust_converted_from_lead_id = None,
      cust_owner_user_id = None, cust_branch_id = None, cust_full_name = ''Customer'',
      cust_email = None, cust_phone = None, cust_alternate_phone = None,
      cust_normalized_email = None, cust_normalized_phone = None, cust_date_of_birth = None,
      cust_gender = None, cust_occupation = None, cust_company_name = None,
      cust_address_line1 = None, cust_address_line2 = None, cust_city = None, cust_state = None,
      cust_postal_code = None, cust_country = None, cust_preferred_location = None,
      cust_requirements = None, cust_budget_min = None, cust_budget_max = None,
      cust_communication_preferences = None, cust_status = Customer_ACTIVE, cust_created_at = 0\<rparr>"

definition sample_hold :: "hold_status \<Rightarrow> timestamp \<Rightarrow> unit_hold_row" where
  "sample_hold st expires =
     \<lparr>hold_id = ''h'', hold_organization_id = ''o'', hold_unit_id = ''x'', hold_customer_id = Some ''c'',
      hold_lead_id = None, hold_held_by_user_id = ''u'', hold_approved_by_user_id = None,
      hold_hold_type = Some HoldType_SOFT_HOLD, hold_hold_reason = Some ''reason'', hold_status = st,
      hold_starts_at = 0, hold_expires_at = expires, hold_released_at = None, hold_approved_at = None,
      hold_rejected_at = None, hold_approval_notes = None, hold_release_reason = None,
      hold_active_unit_key = (if reserving st then Some ''x'' else None), hold_created_at = 0\<rparr>"

definition sample_context :: "ident \<Rightarrow> mutation_context" where
  "sample_context actor =
     \<lparr>actor_user_id = actor, permissions_held = [], request_id = None, ip_address = None,
      user_agent = None, device_metadata = None\<rparr>"

definition sample_base :: "unit_status \<Rightarrow> database" where
  "sample_base st = empty_database\<lparr>users := [sample_user ''u'', sample_user ''v''],
     projects := [sample_project], units := [sample_unit st], customers := [sample_customer]\<rparr>"

definition sample_held :: "hold_status \<Rightarrow> timestamp \<Rightarrow> database" where
  "sample_held st expires = (sample_base Unit_SOFT_HOLD)\<lparr>unit_holds := [sample_hold st expires]\<rparr>"

definition sample_hold_create :: hold_create where
  "sample_hold_create = \<lparr>hc_hold_type = HoldType_SOFT_HOLD, hc_expires_at = 5000, hc_hold_reason = ''reason'',
     hc_customer_id = ''c'', hc_lead_id = None, hc_salesperson_user_id = None\<rparr>"

definition sample_initiate :: booking_initiate where
  "sample_initiate = \<lparr>bi_customer_id = ''c'', bi_lead_id = None, bi_quotation_id = None,
     bi_booking_number = ''B1'', bi_booking_amount = 100, bi_currency = ''INR''\<rparr>"

lemmas sample_defs =
  sample_env_def sample_user_def sample_project_def sample_unit_def sample_customer_def sample_hold_def
  sample_hold_create_def sample_initiate_def sample_context_def sample_base_def sample_held_def empty_database_def

text \<open>The sample keys are one letter, the drawn ones start with \<open>n\<close>.\<close>

lemma sample_env_fresh:
  assumes "list_all (\<lambda>i. take 1 i \<noteq> ''n'') (used_ids s)"
  shows "fresh_env sample_env s"
proof -
  have "inj (uuid sample_env)"
    by (rule inj_on_inverseI [where g = "\<lambda>x. length x - 1"]) (simp add: sample_env_def)
  moreover have "uuid sample_env n \<notin> set (used_ids s)" for n
    using assms by (auto simp: list_all_iff sample_env_def)
  moreover have "uuid sample_env n \<noteq> []" for n by (simp add: sample_env_def)
  ultimately show ?thesis by (simp add: fresh_env_def)
qed

end
