(* ===== verification/Inventory_Claims.thy ===== *)
theory Inventory_Claims
  imports Inventory_Scope Expiry Booking_Workflow Samples
begin

text \<open>
  The properties of holds and of the booking lock, each with an application to the sample
  organization where it has hypotheses.
\<close>

lemma sample_base_ok: "inventory_ok (sample_base Unit_AVAILABLE)"
  by code_simp

lemma sample_held_ok: "inventory_ok (sample_held Hold_PENDING_APPROVAL 5000)" "inventory_ok (sample_held Hold_ACTIVE 900)"
  "inventory_ok (sample_held Hold_PENDING_APPROVAL 900)" "inventory_ok (sample_held Hold_ACTIVE 5000)"
  by code_simp+

lemma sample_hold_created:
  obtains t v where "create_hold sample_env (sample_context ''u'') ''o'' ''x'' sample_hold_create
    (sample_base Unit_AVAILABLE) = Return t v"
proof -
  have "returned (create_hold sample_env (sample_context ''u'') ''o'' ''x'' sample_hold_create (sample_base Unit_AVAILABLE))"
    by code_simp
  then show thesis by (elim returnedE) (rule that)
qed

text \<open>
  C12: a hold excludes every other claim on the unit. In a consistent database with a hold that reserves the unit
  and is not due, any \<^verbatim>\<open>create_hold\<close> for the unit is refused with \<^verbatim>\<open>UNIT_UNAVAILABLE\<close>, and the unit can be booked
  through this hold only: while the hold waits for its approval \<^verbatim>\<open>initiate_booking\<close> is refused with
  \<^verbatim>\<open>HOLD_APPROVAL_PENDING\<close>; when it returns, the hold was active, for the customer of the booking or for nobody in
  particular, and is used up; and a booking of the unit by \<^verbatim>\<open>create_booking\<close> names this hold, active and for its
  customer. The hold of a \<^verbatim>\<open>create_hold\<close> that has just returned is such a hold, pending until its expiry time. A
  hold that was released, rejected or has expired excludes nobody.
\<close>

theorem hold_excludes_others:
  assumes "inventory_ok t" "h \<in> set (holds_of t org uid)" "now e < hold_expires_at h"
  shows "create_hold e ctx org uid p t = Raise t (App_Error 409 ''UNIT_UNAVAILABLE'') \<and>
    (hold_status h = Hold_PENDING_APPROVAL \<longrightarrow>
      initiate_booking e ctx org uid q t = Raise t (App_Error 409 ''HOLD_APPROVAL_PENDING'')) \<and>
    (\<forall>t' v. initiate_booking e ctx org uid q t = Return t' v \<longrightarrow> hold_status h = Hold_ACTIVE \<and>
      (hold_customer_id h = None \<or> hold_customer_id h = Some (bi_customer_id q)) \<and>
      unit_holds t' = put_row hold_id (converted_hold e h) (unit_holds t)) \<and>
    (\<forall>t' v. create_booking e ctx org r t = Return t' v \<longrightarrow> (\<exists>b. bookings t' = bookings t @ [b] \<and>
      (booking_unit_id b = uid \<longrightarrow> hold_status h = Hold_ACTIVE \<and> booking_unit_hold_id b = Some (hold_id h) \<and>
        hold_customer_id h = Some (booking_customer_id b)))) \<and>
    (\<forall>s e' ctx' p' v. create_hold e' ctx' org uid p' s = Return t v \<and> inventory_ok s \<and> fresh_env e' s \<longrightarrow>
      hold_status h = Hold_PENDING_APPROVAL \<and> hold_expires_at h = hc_expires_at p')"
proof -
  note row = holds_ofD [OF assms(2)]
  from inventory_okD(7) [OF assms(1)] row obtain u where u: "u \<in> set (units t)" "unit_organization_id u = org" "unit_id u = uid"
    by blast
  with assms(2) have "h \<in> set (holds_of t (unit_organization_id u) (unit_id u))" by simp
  from unit_agrees_held [OF inventory_okD(6) [OF assms(1) u(1)] this] have "unit_status u \<noteq> Unit_AVAILABLE" by auto
  note only = only_hold [OF assms(1,2)]
  have "create_hold e ctx org uid p t = Raise t (App_Error 409 ''UNIT_UNAVAILABLE'')"
    by (rule create_hold_refused [OF assms(1) u]) (use \<open>unit_status u \<noteq> Unit_AVAILABLE\<close> only assms(3) in auto)
  moreover have "initiate_booking e ctx org uid q t = Raise t (App_Error 409 ''HOLD_APPROVAL_PENDING'')"
    if "hold_status h = Hold_PENDING_APPROVAL"
    by (rule initiate_booking_pending [OF assms(1) u assms(2) that assms(3)])
  moreover have "\<exists>b. bookings t' = bookings t @ [b] \<and> (booking_unit_id b = uid \<longrightarrow> hold_status h = Hold_ACTIVE \<and>
      booking_unit_hold_id b = Some (hold_id h) \<and> hold_customer_id h = Some (booking_customer_id b))"
    if "create_booking e ctx org r t = Return t' v" for t' v
    using that by (rule create_booking_on_hold) (use only in blast)
  moreover have "hold_status h = Hold_PENDING_APPROVAL \<and> hold_expires_at h = hc_expires_at p'"
    if "create_hold e' ctx' org uid p' s = Return t v" "inventory_ok s" "fresh_env e' s" for s e' ctx' p' v
    using that(1,2) fresh_envD(15) [OF that(3)] by (rule create_hold_holds) (use only in blast)
  ultimately show ?thesis using initiate_booking_held [OF _ assms] by blast
qed

theorem hold_excludes_others_witness:
  "\<exists>t v h. create_hold sample_env (sample_context ''u'') ''o'' ''x'' sample_hold_create (sample_base Unit_AVAILABLE) = Return t v \<and>
     h \<in> set (holds_of t ''o'' ''x'') \<and> hold_status h = Hold_PENDING_APPROVAL \<and>
     create_hold sample_env (sample_context ''v'') ''o'' ''x'' sample_hold_create t =
       Raise t (App_Error 409 ''UNIT_UNAVAILABLE'') \<and>
     initiate_booking sample_env (sample_context ''v'') ''o'' ''x'' sample_initiate t =
       Raise t (App_Error 409 ''HOLD_APPROVAL_PENDING'')"
proof -
  obtain t v where ret: "create_hold sample_env (sample_context ''u'') ''o'' ''x'' sample_hold_create
    (sample_base Unit_AVAILABLE) = Return t v" by (rule sample_hold_created)
  have fresh: "fresh_env sample_env (sample_base Unit_AVAILABLE)" by (rule sample_env_fresh) code_simp
  from ret sample_base_ok fresh_envD(15) [OF fresh] obtain h where h: "inventory_ok t" "h \<in> set (holds_of t ''o'' ''x'')"
    "hold_status h = Hold_PENDING_APPROVAL" "hold_expires_at h = hc_expires_at sample_hold_create" by (rule create_hold_holds)
  moreover have "now sample_env < hc_expires_at sample_hold_create" by code_simp
  ultimately show ?thesis
    using ret hold_excludes_others [OF h(1,2), of sample_env "sample_context ''v''" sample_hold_create sample_initiate] by auto
qed

text \<open>
  Deciding a hold. When \<^verbatim>\<open>decide_hold\<close> returns, the hold was pending and not yet due, the actor
  is not the person holding the unit, and the only changes to the inventory are the two written
  rows: approval makes the hold active and leaves the unit held, rejection ends the hold and puts
  the unit back to \<^verbatim>\<open>AVAILABLE\<close>.
\<close>

theorem decide_hold_decides:
  assumes "decide_hold e ctx org hid p s = Return t v" "inventory_ok s"
  shows "\<exists>h u. find_hold s org hid = Some h \<and> find_unit s org (hold_unit_id h) = Some u \<and>
    hold_status h = Hold_PENDING_APPROVAL \<and> now e < hold_expires_at h \<and>
    hold_held_by_user_id h \<noteq> actor_user_id ctx \<and>
    unit_holds t = put_row hold_id (decided_hold e ctx p h) (unit_holds s) \<and>
    units t = put_row unit_id (if hd_status p = Decision_APPROVED then u else u\<lparr>unit_status := Unit_AVAILABLE\<rparr>) (units s) \<and>
    bookings t = bookings s \<and> holds_of t org (unit_id u) =
      (if hd_status p = Decision_APPROVED then [decided_hold e ctx p h] else [])"
proof -
  from decide_hold_effect [OF assms] obtain h u as where h: "find_hold s org hid = Some h"
    "find_unit s org (hold_unit_id h) = Some u" "hold_status h = Hold_PENDING_APPROVAL" "now e < hold_expires_at h"
    "hold_held_by_user_id h \<noteq> actor_user_id ctx" "h \<in> set (holds_of s org (unit_id u))"
    "t = add_audits as (put_unit (if hd_status p = Decision_APPROVED then u else u\<lparr>unit_status := Unit_AVAILABLE\<rparr>)
       (put_hold (decided_hold e ctx p h) s))" .
  from find_unitD [OF h(2)] have u: "u \<in> set (units s)" "unit_organization_id u = org" by simp_all
  with unit_agrees_held [OF inventory_okD(6) [OF assms(2) u(1)], of h] h(6)
  have one: "holds_of s org (unit_id u) = [h]" by simp
  from holds_of_put [OF inventory_okD(2) [OF assms(2)] one, of "decided_hold e ctx p h"] holds_ofD [OF h(6)]
  show ?thesis using h by (intro exI [of _ h] exI [of _ u]) simp
qed

theorem decide_hold_decides_witness:
  "\<exists>h u. find_hold (sample_held Hold_PENDING_APPROVAL 5000) ''o'' ''h'' = Some h \<and>
    find_unit (sample_held Hold_PENDING_APPROVAL 5000) ''o'' (hold_unit_id h) = Some u \<and>
    hold_held_by_user_id h \<noteq> ''v'' \<and> hold_status h = Hold_PENDING_APPROVAL"
proof -
  have "returned (decide_hold sample_env (sample_context ''v'') ''o'' ''h''
      \<lparr>hd_status = Decision_APPROVED, hd_notes = ''fine''\<rparr> (sample_held Hold_PENDING_APPROVAL 5000))" by code_simp
  then obtain t v where "decide_hold sample_env (sample_context ''v'') ''o'' ''h''
      \<lparr>hd_status = Decision_APPROVED, hd_notes = ''fine''\<rparr> (sample_held Hold_PENDING_APPROVAL 5000) = Return t v"
    by (rule returnedE)
  from decide_hold_decides [OF this sample_held_ok(1)] show ?thesis by (auto simp: sample_context_def)
qed

text \<open>
  An expiry found while deciding is kept. Deciding a hold that is already due answers 409, and
  the database that remains is not the old one: the hold is \<^verbatim>\<open>EXPIRED\<close>, nothing reserves the unit and
  the unit is \<^verbatim>\<open>AVAILABLE\<close> again.
\<close>

theorem decide_due_hold_expires:
  assumes "inventory_ok s" "find_hold s org hid = Some h" "reserving (hold_status h)" "hold_expires_at h \<le> now e"
  shows "\<exists>t u. decide_hold e ctx org hid p s = Raise t (App_Error 409 ''HOLD_APPROVAL_NOT_PENDING'') \<and>
    find_unit s org (hold_unit_id h) = Some u \<and> inventory_ok t \<and>
    unit_holds t = put_row hold_id (expired_hold e h) (unit_holds s) \<and>
    units t = put_row unit_id (u\<lparr>unit_status := Unit_AVAILABLE\<rparr>) (units s)"
proof -
  from decide_hold_due [OF assms, of ctx p] obtain u where u: "find_unit s org (hold_unit_id h) = Some u"
    "decide_hold e ctx org hid p s =
      Raise (mark_hold_expired e 0 (Some ctx) u h s) (App_Error 409 ''HOLD_APPROVAL_NOT_PENDING'')" .
  from entityD [OF assms(2)] find_unitD [OF u(1)] assms(3)
  have h: "h \<in> set (holds_of s (unit_organization_id u) (unit_id u))" and row: "u \<in> set (units s)"
    by (simp_all add: holds_of_def)
  from unit_agrees_held [OF inventory_okD(6) [OF assms(1) row] h]
  have "released_unit u = u\<lparr>unit_status := Unit_AVAILABLE\<rparr>" by (simp add: released_unit_def)
  with u mark_hold_expired_ok [OF assms(1) row h] show ?thesis by simp
qed

theorem decide_due_hold_expires_witness:
  "\<exists>t u. decide_hold sample_env (sample_context ''v'') ''o'' ''h'' \<lparr>hd_status = Decision_APPROVED, hd_notes = ''fine''\<rparr>
      (sample_held Hold_PENDING_APPROVAL 900) = Raise t (App_Error 409 ''HOLD_APPROVAL_NOT_PENDING'') \<and>
    inventory_ok t \<and> find_unit (sample_held Hold_PENDING_APPROVAL 900) ''o'' ''x'' = Some u"
proof -
  have "find_hold (sample_held Hold_PENDING_APPROVAL 900) ''o'' ''h'' = Some (sample_hold Hold_PENDING_APPROVAL 900)"
    by (simp add: sample_defs entity_def)
  from decide_due_hold_expires [OF sample_held_ok(3) this, of sample_env "sample_context ''v''"
      "\<lparr>hd_status = Decision_APPROVED, hd_notes = ''fine''\<rparr>"]
  show ?thesis by (fastforce simp: sample_hold_def sample_env_def)
qed

text \<open>
  C19: the expiry worker terminates. Whatever clocks its batches see, a fuel of more than a
  two-hundredth of the reserving holds is enough: \<^verbatim>\<open>run_once\<close> returns the number of holds it
  expired, keeps the inventory consistent, and leaves no hold that is due by the clock of one of
  its batches, the last one.
\<close>

theorem run_once_terminates:
  assumes "inventory_ok s" "reserving_count s < 200 * fuel"
  shows "\<exists>i t. run_once fuel envs 0 s = Some (Return t (reserving_count s - reserving_count t)) \<and>
    inventory_ok t \<and> i < fuel \<and> (\<forall>h \<in> set (unit_holds t). \<not> hold_due (envs i) h)"
  using run_once_result [OF assms, of envs 0] by auto

theorem run_once_terminates_witness:
  "\<exists>i t. run_once 1 (\<lambda>_. sample_env) 0 (sample_held Hold_ACTIVE 900) =
      Some (Return t (reserving_count (sample_held Hold_ACTIVE 900) - reserving_count t)) \<and>
    inventory_ok t \<and> i < (1::nat) \<and> (\<forall>h \<in> set (unit_holds t). \<not> hold_due sample_env h)"
  by (rule run_once_terminates [of _ 1 "\<lambda>_. sample_env"])
    (simp_all add: sample_held_ok, simp add: sample_defs reserving_count_def count_rows_def)

text \<open>
  A sweep expires exactly due holds. On a consistent inventory
  \<^verbatim>\<open>expire_due_holds\<close> never fails; it expires as many holds as are due, at most its limit, rewrites
  only those, and when it stayed below the limit no due hold of its scope is left.
\<close>

theorem expire_due_holds_sweeps:
  assumes "inventory_ok s"
  shows "\<exists>t n. expire_due_holds e k org limit ctx s = Return t n \<and>
    n = min limit (count_rows (due_in e org) (unit_holds s)) \<and>
    (\<exists>ids. length ids = n \<and> distinct ids \<and> unit_holds t = expire_ids e ids (unit_holds s) \<and>
       (\<forall>i \<in> set ids. \<exists>h \<in> set (unit_holds s). hold_id h = i \<and> due_in e org h)) \<and>
    (n < limit \<longrightarrow> (\<forall>h \<in> set (unit_holds t). \<not> due_in e org h))"
proof -
  from expire_due_holds_result [OF assms, of e k org limit ctx] obtain t where t:
    "expire_due_holds e k org limit ctx s = Return t (length (due_candidates e org limit s))"
    "unit_holds t = expire_ids e (due_candidates e org limit s) (unit_holds s)" by blast
  have "\<forall>i \<in> set (due_candidates e org limit s). \<exists>h \<in> set (unit_holds s). hold_id h = i \<and> due_in e org h"
    using due_candidates_due by blast
  with t sweep_complete [OF assms t(1)] due_candidates_distinct [OF assms] show ?thesis
    by (intro exI [of _ t] exI [of _ "length (due_candidates e org limit s)"] conjI exI [of _ "due_candidates e org limit s"])
      (auto simp: length_due_candidates)
qed

theorem expire_due_holds_sweeps_witness:
  "\<exists>t n. expire_due_holds sample_env 0 None 200 None (sample_held Hold_ACTIVE 900) = Return t n \<and> n = 1"
proof -
  have "min 200 (count_rows (due_in sample_env None) (unit_holds (sample_held Hold_ACTIVE 900))) = 1"
    by (simp add: sample_defs count_rows_def due_in_def hold_due_def given_def)
  with expire_due_holds_sweeps [OF sample_held_ok(2), of sample_env 0 None 200 None] show ?thesis by auto
qed

definition sample_rejected_booking :: booking_row where
  "sample_rejected_booking =
     (initiated_booking sample_env ''b'' ''o'' (sample_context ''u'') (sample_unit Unit_AVAILABLE) sample_initiate)
       \<lparr>booking_status := Booking_REJECTED, booking_active_unit_key := None\<rparr>"

definition sample_rejected :: database where
  "sample_rejected = (sample_held Hold_ACTIVE 5000)\<lparr>bookings := [sample_rejected_booking]\<rparr>"

text \<open>
  C25: the cancellation of a rejected booking does not keep the inventory consistent. The endpoint accepts it for
  every rejected booking whose unit exists: the unit becomes \<^verbatim>\<open>CANCELLED_RELEASED\<close> whatever holds or books it
  meanwhile, no hold changes and no live booking ends, so the inventory stays consistent exactly when nothing
  reserved the unit.
\<close>

theorem cancel_rejected_booking_frees_held_unit:
  assumes "inventory_ok s" "find_booking s org bid = Some b" "booking_status b = Booking_REJECTED"
    and "find_unit s org (booking_unit_id b) = Some u"
  shows "\<exists>t v. transition_booking_endpoint e ctx org bid Booking_CANCELLED s = Return t v \<and>
    units t = put_row unit_id (u\<lparr>unit_status := Unit_CANCELLED_RELEASED\<rparr>) (units s) \<and>
    holds_of t = holds_of s \<and> live_bookings t = live_bookings s \<and>
    (inventory_ok t \<longleftrightarrow> holds_of s org (unit_id u) = [] \<and> live_bookings s org (unit_id u) = [])"
proof -
  let ?b = "b\<lparr>booking_status := Booking_CANCELLED, booking_active_unit_key := None\<rparr>"
  let ?u = "u\<lparr>unit_status := Unit_CANCELLED_RELEASED\<rparr>"
  from find_bookingD [OF assms(2)] have b: "b \<in> set (bookings s)" "booking_id b = bid" by simp_all
  from find_unitD [OF assms(4)] have u: "u \<in> set (units s)" "unit_organization_id u = org" by simp_all
  obtain t v where t: "transition_booking_endpoint e ctx org bid Booking_CANCELLED s = Return t v"
    "units t = put_row unit_id ?u (units s)" "unit_holds t = unit_holds s" "bookings t = put_row booking_id ?b (bookings s)"
    using assms(2-4) by (simp add: transition_booking_endpoint_def transition_booking_def fetch_def demand_def Let_def)
  have holds: "holds_of t = holds_of s" using t(3) by (simp add: fun_eq_iff holds_of_def)
  have same: "live_bookings t o' i = live_bookings s o' i" for o' i
    unfolding live_bookings_def t(4)
  proof (rule filter_put_row_other)
    fix x assume "x \<in> set (bookings s)" "booking_id x = booking_id ?b"
    with b inventory_okD(3) [OF assms(1)] have "x = b" by (auto simp: distinct_map dest: inj_onD)
    with assms(3) show "\<not> (booking_organization_id x = o' \<and> booking_unit_id x = i \<and> live (booking_status x))" by simp
  qed simp
  then have live: "live_bookings t = live_bookings s" by (simp add: fun_eq_iff)
  have "inventory_ok t \<longleftrightarrow> holds_of s org (unit_id u) = [] \<and> live_bookings s org (unit_id u) = []"
  proof
    assume ok: "inventory_ok t"
    have "?u \<in> set (units t)" using u(1) by (force simp: t(2) set_put_row)
    from inventory_okD(6) [OF ok this] u(2) show "holds_of s org (unit_id u) = [] \<and> live_bookings s org (unit_id u) = []"
      by (simp add: holds live)
  next
    assume free: "holds_of s org (unit_id u) = [] \<and> live_bookings s org (unit_id u) = []"
    show "inventory_ok t"
    proof (rule unit_write_ok [OF assms(1) u(1) t(2)])
      show "list_all booking_slot_ok (bookings t)"
        using inventory_okD(5) [OF assms(1)] by (auto simp: t(4) list_all_iff set_put_row booking_slot_ok_def)
    qed (use inventory_okD [OF assms(1)] free u(2) holds live in \<open>simp_all add: t(3,4) list_all_iff\<close>)
  qed
  with t holds live show ?thesis by blast
qed

theorem cancel_rejected_booking_frees_held_unit_witness:
  "\<exists>t v. transition_booking_endpoint sample_env (sample_context ''u'') ''o'' ''b'' Booking_CANCELLED sample_rejected = Return t v \<and>
     inventory_ok sample_rejected \<and> \<not> inventory_ok t"
proof -
  have ok: "inventory_ok sample_rejected" by code_simp
  have b: "find_booking sample_rejected ''o'' ''b'' = Some sample_rejected_booking"
    by (simp add: sample_rejected_def sample_rejected_booking_def initiated_booking_def entity_def)
  have u: "find_unit sample_rejected ''o'' (booking_unit_id sample_rejected_booking) = Some (sample_unit Unit_SOFT_HOLD)"
    by code_simp
  have "holds_of sample_rejected ''o'' (unit_id (sample_unit Unit_SOFT_HOLD)) \<noteq> []" by code_simp
  with cancel_rejected_booking_frees_held_unit [OF ok b _ u, of sample_env "sample_context ''u''"] ok show ?thesis
    by (auto simp: sample_rejected_booking_def)
qed

end
