(* ===== verification/Search.thy ===== *)
theory Search
  imports Prelude "HOL-Library.Sublist"
begin

text \<open>
  The text search of the list operations: \<^verbatim>\<open>column.ilike(f"%{q.strip()}%")\<close>, which SQLAlchemy renders
  for MySQL as \<^verbatim>\<open>lower(column) LIKE lower(pattern)\<close> with the default escape character.
\<close>

definition lower_char :: "char \<Rightarrow> char" where
  "lower_char c = (let n = of_char c :: nat in if 65 \<le> n \<and> n \<le> 90 then char_of (n + 32) else c)"

definition lower :: "string \<Rightarrow> string" where
  "lower s = map lower_char s"

fun like :: "string \<Rightarrow> string \<Rightarrow> bool" where
  "like [] t = (t = [])"
| "like (c # p) t =
     (if c = CHR ''%'' then like p t \<or> (case t of [] \<Rightarrow> False | _ # t' \<Rightarrow> like (c # p) t')
      else if c = CHR ''_'' then (case t of [] \<Rightarrow> False | _ # t' \<Rightarrow> like p t')
      else if c = CHR 0x5C then
        (case p of [] \<Rightarrow> t = [c]
         | d # p' \<Rightarrow> (case t of [] \<Rightarrow> False | x # t' \<Rightarrow> x = d \<and> like p' t'))
      else (case t of [] \<Rightarrow> False | x # t' \<Rightarrow> x = c \<and> like p t'))"

declare like.simps(2) [simp del]

definition ilike :: "string \<Rightarrow> string \<Rightarrow> bool" where
  "ilike text pattern = like (lower pattern) (lower text)"

definition search_pattern :: "string \<Rightarrow> string" where
  "search_pattern q = ''%'' @ strip q @ ''%''"

section \<open>What the search finds\<close>

definition plain :: "string \<Rightarrow> bool" where
  "plain q \<longleftrightarrow> list_all (\<lambda>c. c \<noteq> CHR ''%'' \<and> c \<noteq> CHR ''_'' \<and> c \<noteq> CHR 0x5C) q"

lemma like_percent: "like (CHR ''%'' # p) t \<longleftrightarrow> (\<exists>u v. t = u @ v \<and> like p v)"
proof (induction t)
  case Nil
  show ?case by (simp add: like.simps(2) [of _ _ "[]"])
next
  case (Cons x t)
  have "like (CHR ''%'' # p) (x # t) \<longleftrightarrow> like p (x # t) \<or> like (CHR ''%'' # p) t"
    by (simp add: like.simps(2) [of _ _ "x # t"])
  then show ?case unfolding Cons.IH by (auto simp: Cons_eq_append_conv)
qed

lemma like_literal: "plain q \<Longrightarrow> like (q @ p) t \<longleftrightarrow> (\<exists>v. t = q @ v \<and> like p v)"
proof (induction q arbitrary: t)
  case (Cons c q)
  then show ?case by (cases t) (auto simp: like.simps(2) plain_def)
qed simp

lemma like_contains: "plain q \<Longrightarrow> like (''%'' @ q @ ''%'') t \<longleftrightarrow> sublist q t"
  by (auto simp: like_percent like_literal sublist_def)

lemma lower_append: "lower (s @ t) = lower s @ lower t"
  by (simp add: lower_def)

lemma lower_char_cases:
  obtains "lower_char c = c" | "97 \<le> (of_char (lower_char c) :: nat)" "(of_char (lower_char c) :: nat) \<le> 122"
proof (cases "65 \<le> (of_char c :: nat) \<and> (of_char c :: nat) \<le> 90")
  case True
  then have "(of_char (lower_char c) :: nat) = of_char c + 32"
    by (simp only: lower_char_def Let_def if_True of_char_of) simp
  with True that(2) show thesis by simp
next
  case False
  then have "lower_char c = c" unfolding lower_char_def Let_def by (simp only: if_False)
  then show thesis by (rule that(1))
qed

lemma lower_char_special:
  "lower_char c = CHR ''%'' \<Longrightarrow> c = CHR ''%''" "lower_char c = CHR ''_'' \<Longrightarrow> c = CHR ''_''"
  "lower_char c = CHR 0x5C \<Longrightarrow> c = CHR 0x5C"
  by (cases rule: lower_char_cases [of c]; simp)+

lemma plain_lower: "plain q \<Longrightarrow> plain (lower q)"
  by (auto simp: plain_def lower_def list_all_iff dest: lower_char_special)

text \<open>A search text without wildcards finds exactly the texts that contain it, upper and lower case alike.\<close>

lemma ilike_contains:
  assumes "plain (strip q)"
  shows "ilike t (search_pattern q) \<longleftrightarrow> sublist (lower (strip q)) (lower t)"
proof -
  have "lower ''%'' = ''%''" by (simp add: lower_def lower_char_def)
  then show ?thesis
    unfolding ilike_def search_pattern_def lower_append by (simp only: like_contains [OF plain_lower [OF assms]])
qed

end
