(* ===== verification/Finance.thy ===== *)
theory Finance
  imports Booking_Handlers Search
begin

text \<open>
  The data and the reads of the collections workflow (\<^verbatim>\<open>schemas/finance.py\<close>,
  \<^verbatim>\<open>services/finance.py\<close>): the payloads, the installments as they stand today, the account of a
  booking, the summary of an organization and the detail every operation answers with. The
  operations are in \<^verbatim>\<open>Finance_Handlers\<close>.
\<close>

section \<open>Payloads\<close>

record demand_create =
  dc_installment_id :: ident
  dc_demand_number :: string
  dc_issue_date :: day
  dc_due_date :: day

record collection_payment_create =
  cp_amount :: decimal
  cp_method :: string
  cp_reference_number :: "string option"
  cp_paid_at :: "timestamp option"
  cp_idempotency_key :: string

record reconciliation_create =
  rc_received_amount :: decimal
  rc_external_reference :: "string option"
  rc_idempotency_key :: string
  rc_notes :: "string option"

record payment_allocation_request =
  pa_installment_ids :: "ident list"
  pa_allow_unallocated_credit :: bool
  pa_manual_reconciliation_reason :: "string option"

record charge_create =
  cc_charge_type :: financial_charge_type
  cc_calculation_date :: day
  cc_annual_rate_percent :: "decimal option"
  cc_fixed_amount :: "decimal option"
  cc_reason :: string
  cc_idempotency_key :: string

text \<open>\<^verbatim>\<open>calculation_mode\<close> and the bounds of the amounts.\<close>

definition charge_create_ok :: "charge_create \<Rightarrow> bool" where
  "charge_create_ok c \<longleftrightarrow>
     (case cc_annual_rate_percent c of None \<Rightarrow> cc_charge_type c \<noteq> ChargeType_INTEREST | Some r \<Rightarrow> 0 \<le> r \<and> r \<le> 1000) \<and>
     (case cc_fixed_amount c of None \<Rightarrow> cc_charge_type c \<noteq> ChargeType_PENALTY | Some a \<Rightarrow> 0 < a \<and> whole_cents a)"

record refund_create =
  rf_amount :: decimal
  rf_reason :: string
  rf_idempotency_key :: string

record refund_decision =
  rd_status :: decision
  rd_notes :: string

section \<open>Views\<close>

record finance_summary =
  fs_total_receivable :: decimal
  fs_received :: decimal
  fs_outstanding :: decimal
  fs_overdue :: decimal
  fs_unapplied_payments :: decimal
  fs_pending_reconciliation :: nat
  fs_pending_refunds :: nat

record collection_account =
  ca_booking_id :: ident
  ca_booking_number :: string
  ca_booking_status :: string
  ca_customer_id :: ident
  ca_customer_name :: string
  ca_project_name :: string
  ca_unit_number :: string
  ca_currency :: string
  ca_total_value :: decimal
  ca_received :: decimal
  ca_outstanding :: decimal
  ca_overdue :: decimal
  ca_next_due_date :: "day option"

record finance_installment =
  fni_id :: ident
  fni_sequence :: int
  fni_name :: string
  fni_due_date :: day
  fni_amount :: decimal
  fni_paid_amount :: decimal
  fni_outstanding :: decimal
  fni_status :: installment_status

record finance_demand =
  fd_id :: ident
  fd_installment_id :: "ident option"
  fd_demand_number :: string
  fd_status :: record_status
  fd_issue_date :: day
  fd_due_date :: day
  fd_amount :: decimal
  fd_currency :: string

record finance_allocation =
  fa_id :: ident
  fa_payment_id :: ident
  fa_installment_id :: "ident option"
  fa_demand_letter_id :: "ident option"
  fa_amount :: decimal
  fa_allocated_at :: timestamp
  fa_reversed_at :: "timestamp option"

record finance_payment =
  fp_id :: ident
  fp_amount :: decimal
  fp_allocated_amount :: decimal
  fp_unallocated_amount :: decimal
  fp_currency :: string
  fp_method :: string
  fp_status :: payment_status
  fp_reference_number :: "string option"
  fp_paid_at :: "timestamp option"
  fp_verified_at :: "timestamp option"
  fp_receipt_number :: "string option"
  fp_created_at :: timestamp

record finance_reconciliation =
  frc_id :: ident
  frc_payment_id :: ident
  frc_status :: reconciliation_status
  frc_expected_amount :: decimal
  frc_received_amount :: decimal
  frc_difference_amount :: decimal
  frc_external_reference :: "string option"
  frc_notes :: "string option"
  frc_reconciled_at :: timestamp

record finance_charge =
  fc_id :: ident
  fc_installment_id :: ident
  fc_charge_type :: financial_charge_type
  fc_status :: financial_charge_status
  fc_principal_amount :: decimal
  fc_rate_percent :: decimal
  fc_days_calculated :: int
  fc_amount :: decimal
  fc_paid_amount :: decimal
  fc_currency :: string
  fc_calculation_date :: day
  fc_reason :: string
  fc_waived_reason :: "string option"

record finance_refund =
  frf_id :: ident
  frf_payment_id :: "ident option"
  frf_amount :: decimal
  frf_currency :: string
  frf_status :: payment_status
  frf_reference_number :: "string option"
  frf_reason :: "string option"
  frf_decision_notes :: "string option"
  frf_requested_by_user_id :: "ident option"
  frf_approved_by_user_id :: "ident option"
  frf_requested_at :: timestamp
  frf_processed_at :: "timestamp option"

record ledger_entry_view =
  le_id :: ident
  le_entry_type :: string
  le_amount :: decimal
  le_currency :: string
  le_description :: formatted
  le_posted_at :: timestamp

record collection_account_detail =
  cad_account :: collection_account
  cad_plan_name :: "string option"
  cad_installments :: "finance_installment list"
  cad_demands :: "finance_demand list"
  cad_payments :: "finance_payment list"
  cad_allocations :: "finance_allocation list"
  cad_reconciliations :: "finance_reconciliation list"
  cad_charges :: "finance_charge list"
  cad_refunds :: "finance_refund list"
  cad_ledger :: "ledger_entry_view list"


section \<open>Installments today\<close>

text \<open>\<^verbatim>\<open>_plan\<close>: the latest plan of the booking, whatever its status.\<close>

definition latest_plan :: "database \<Rightarrow> ident \<Rightarrow> ident \<Rightarrow> payment_plan_row option" where
  "latest_plan s org bid =
     first_row (order_desc plan_created_at (filter (\<lambda>p. plan_organization_id p = org \<and>
       plan_booking_id p = bid) (payment_plans s)))"

definition refreshed_status :: "env \<Rightarrow> installment_row \<Rightarrow> installment_status" where
  "refreshed_status e i =
     (if inst_status i = Installment_WAIVED then Installment_WAIVED
      else if inst_amount i \<le> inst_paid_amount i then Installment_PAID
      else if 0 < inst_paid_amount i then
        (if today e \<le> inst_due_date i then Installment_PARTIALLY_PAID else Installment_OVERDUE)
      else if inst_due_date i < today e then Installment_OVERDUE
      else if inst_due_date i = today e then Installment_DUE
      else Installment_SCHEDULED)"

definition refreshed :: "env \<Rightarrow> installment_row \<Rightarrow> installment_row" where
  "refreshed e i = i\<lparr>inst_status := refreshed_status e i\<rparr>"

text \<open>\<^verbatim>\<open>ORDER BY due_date, sequence\<close>\<close>

definition by_due_date :: "installment_row list \<Rightarrow> installment_row list" where
  "by_due_date is = sort_key inst_due_date (sort_key inst_sequence is)"

text \<open>
  \<^verbatim>\<open>_installments\<close>. The refreshed statuses are changes of the session's objects: only an operation
  that flushes afterwards writes them.
\<close>

definition current_installments :: "env \<Rightarrow> database \<Rightarrow> ident \<Rightarrow> ident \<Rightarrow> installment_row list" where
  "current_installments e s org pid =
     map (refreshed e) (by_due_date (filter (\<lambda>i. inst_organization_id i = org \<and>
       inst_payment_plan_id i = pid) (installments s)))"

definition open_amount :: "installment_row \<Rightarrow> decimal" where
  "open_amount i = max (inst_amount i - inst_paid_amount i) 0"

section \<open>The account of a booking\<close>

definition ledger_total :: "database \<Rightarrow> ident \<Rightarrow> ident \<Rightarrow> ledger_entry_type \<Rightarrow> decimal" where
  "ledger_total s org bid kind =
     sum_where (\<lambda>l. ledger_organization_id l = org \<and> ledger_booking_id l = Some bid \<and> ledger_entry_type l = kind)
       ledger_amount (customer_ledger s)"

definition booking_installments :: "env \<Rightarrow> database \<Rightarrow> ident \<Rightarrow> ident \<Rightarrow> installment_row list" where
  "booking_installments e s org bid =
     (case latest_plan s org bid of None \<Rightarrow> [] | Some p \<Rightarrow> current_installments e s org (plan_id p))"

definition overdue_of :: "env \<Rightarrow> installment_row list \<Rightarrow> decimal" where
  "overdue_of e is =
     sum_where (\<lambda>i. inst_due_date i < today e \<and> inst_status i \<noteq> Installment_WAIVED) open_amount is"

definition next_due_of :: "installment_row list \<Rightarrow> day option" where
  "next_due_of is =
     fold (\<lambda>i due. if 0 < open_amount i \<and> (case due of None \<Rightarrow> True | Some d \<Rightarrow> inst_due_date i < d)
                    then Some (inst_due_date i) else due) is None"

text \<open>\<^verbatim>\<open>_account\<close>\<close>

definition account_of :: "env \<Rightarrow> database \<Rightarrow> ident \<Rightarrow> booking_row \<Rightarrow> app_error + collection_account" where
  "account_of e s org b =
     need (find_customer s org (booking_customer_id b)) not_found (\<lambda>c.
     need (find_unit s org (booking_unit_id b)) not_found (\<lambda>u.
     need (find_project s org (unit_project_id u)) not_found (\<lambda>p.
     let debits = ledger_total s org (booking_id b) Ledger_DEBIT;
         credits = ledger_total s org (booking_id b) Ledger_CREDIT;
         is = booking_installments e s org (booking_id b) in
     Inr \<lparr>ca_booking_id = booking_id b, ca_booking_number = booking_booking_number b,
          ca_booking_status = booking_status_value (booking_status b), ca_customer_id = cust_id c,
          ca_customer_name = cust_full_name c, ca_project_name = project_name p,
          ca_unit_number = unit_unit_number u, ca_currency = booking_currency b, ca_total_value = debits,
          ca_received = credits, ca_outstanding = max (debits - credits) 0, ca_overdue = overdue_of e is,
          ca_next_due_date = next_due_of is\<rparr>)))"

section \<open>Summary and list of accounts\<close>

definition open_payment :: "payment_status \<Rightarrow> bool" where
  "open_payment st \<longleftrightarrow> st \<in> set [Payment_PENDING, Payment_PROCESSING]"

definition summary :: "env \<Rightarrow> database \<Rightarrow> ident \<Rightarrow> finance_summary" where
  "summary e s org =
     (let total = (\<lambda>kind. sum_where (\<lambda>l. ledger_organization_id l = org \<and> ledger_entry_type l = kind)
            ledger_amount (customer_ledger s));
          debits = total Ledger_DEBIT;
          credits = total Ledger_CREDIT;
          overdue = sum_where (\<lambda>i. inst_organization_id i = org \<and> inst_due_date i < today e \<and>
              inst_status i \<notin> set [Installment_PAID, Installment_WAIVED] \<and>
              list_ex (\<lambda>p. plan_organization_id p = inst_organization_id i \<and> plan_id p = inst_payment_plan_id i)
                (payment_plans s))
            (\<lambda>i. inst_amount i - inst_paid_amount i) (installments s);
          completed = sum_where (\<lambda>p. pay_organization_id p = org \<and> pay_status p = Payment_COMPLETED) pay_amount (payments s);
          allocated = sum_where (\<lambda>a. alloc_organization_id a = org \<and> alloc_reversed_at a = None) alloc_amount
            (payment_allocations s)
      in \<lparr>fs_total_receivable = debits, fs_received = credits, fs_outstanding = max (debits - credits) 0,
          fs_overdue = overdue, fs_unapplied_payments = max (completed - allocated) 0,
          fs_pending_reconciliation =
            count_rows (\<lambda>p. pay_organization_id p = org \<and> open_payment (pay_status p)) (payments s),
          fs_pending_refunds =
            count_rows (\<lambda>r. refund_organization_id r = org \<and> open_payment (refund_status r)) (refunds s)\<rparr>)"

text \<open>\<^verbatim>\<open>list_accounts\<close>: the accounts are computed before the overdue ones are selected and paged.\<close>

definition account_selected :: "database \<Rightarrow> ident \<Rightarrow> string option \<Rightarrow> booking_row \<Rightarrow> bool" where
  "account_selected s org q b \<longleftrightarrow> booking_organization_id b = org \<and>
     (case given q of None \<Rightarrow> True
      | Some t \<Rightarrow> list_ex (\<lambda>c. cust_organization_id c = org \<and> cust_id c = booking_customer_id b \<and>
          (ilike (booking_booking_number b) (search_pattern t) \<or> ilike (cust_full_name c) (search_pattern t)))
          (customers s))"

definition list_accounts ::
  "env \<Rightarrow> ident \<Rightarrow> string option \<Rightarrow> bool \<Rightarrow> nat \<Rightarrow> nat \<Rightarrow> database \<Rightarrow> (database, collection_account page) outcome" where
  "list_accounts e org q overdue_only page page_size s =
     attempt s (collect (account_of e s org)
       (order_desc booking_created_at (filter (account_selected s org q) (bookings s)))) (\<lambda>as.
     let accounts = (if overdue_only then filter (\<lambda>a. 0 < ca_overdue a) as else as);
         total = length accounts in
     Return s \<lparr>pg_items = take page_size (drop ((page - 1) * page_size) accounts), pg_page = page,
       pg_page_size = page_size, pg_total = total, pg_pages = page_count total page_size\<rparr>)"

section \<open>The detail of an account\<close>

definition booking_payments :: "database \<Rightarrow> ident \<Rightarrow> ident \<Rightarrow> payment_row list" where
  "booking_payments s org bid =
     order_desc pay_created_at (filter (\<lambda>p. pay_organization_id p = org \<and> pay_booking_id p = bid) (payments s))"

definition booking_allocations :: "database \<Rightarrow> ident \<Rightarrow> ident \<Rightarrow> payment_allocation_row list" where
  "booking_allocations s org bid =
     sort_key alloc_allocated_at (filter (\<lambda>a. alloc_organization_id a = org \<and>
       alloc_payment_id a \<in> set (map pay_id (booking_payments s org bid))) (payment_allocations s))"

definition installment_item :: "installment_row \<Rightarrow> finance_installment" where
  "installment_item i =
     \<lparr>fni_id = inst_id i, fni_sequence = inst_sequence i, fni_name = inst_name i, fni_due_date = inst_due_date i,
      fni_amount = inst_amount i, fni_paid_amount = inst_paid_amount i, fni_outstanding = open_amount i,
      fni_status = inst_status i\<rparr>"

definition demand_item :: "demand_letter_row \<Rightarrow> finance_demand" where
  "demand_item d =
     \<lparr>fd_id = demand_id d, fd_installment_id = demand_installment_id d, fd_demand_number = demand_demand_number d,
      fd_status = demand_status d, fd_issue_date = demand_issue_date d, fd_due_date = demand_due_date d,
      fd_amount = demand_amount d, fd_currency = demand_currency d\<rparr>"

definition payment_item :: "payment_allocation_row list \<Rightarrow> receipt_row list \<Rightarrow> payment_row \<Rightarrow> finance_payment" where
  "payment_item as rs p =
     (let allocated = sum_where (\<lambda>a. alloc_reversed_at a = None \<and> alloc_payment_id a = pay_id p) alloc_amount as in
      \<lparr>fp_id = pay_id p, fp_amount = pay_amount p, fp_allocated_amount = allocated,
       fp_unallocated_amount = max (pay_amount p - allocated) 0, fp_currency = pay_currency p,
       fp_method = pay_method p, fp_status = pay_status p, fp_reference_number = pay_reference_number p,
       fp_paid_at = pay_paid_at p, fp_verified_at = pay_verified_at p,
       fp_receipt_number = map_option rcpt_receipt_number (first_row (filter (\<lambda>r. rcpt_payment_id r = pay_id p) (rev rs))),
       fp_created_at = pay_created_at p\<rparr>)"

definition allocation_item :: "payment_allocation_row \<Rightarrow> finance_allocation" where
  "allocation_item a =
     \<lparr>fa_id = alloc_id a, fa_payment_id = alloc_payment_id a, fa_installment_id = alloc_installment_id a,
      fa_demand_letter_id = alloc_demand_letter_id a, fa_amount = alloc_amount a,
      fa_allocated_at = alloc_allocated_at a, fa_reversed_at = alloc_reversed_at a\<rparr>"

definition reconciliation_item :: "payment_reconciliation_row \<Rightarrow> finance_reconciliation" where
  "reconciliation_item r =
     \<lparr>frc_id = recon_id r, frc_payment_id = recon_payment_id r, frc_status = recon_status r,
      frc_expected_amount = recon_expected_amount r, frc_received_amount = recon_received_amount r,
      frc_difference_amount = recon_difference_amount r, frc_external_reference = recon_external_reference r,
      frc_notes = recon_notes r, frc_reconciled_at = recon_reconciled_at r\<rparr>"

definition charge_item :: "financial_charge_row \<Rightarrow> finance_charge" where
  "charge_item c =
     \<lparr>fc_id = charge_id c, fc_installment_id = charge_installment_id c, fc_charge_type = charge_charge_type c,
      fc_status = charge_status c, fc_principal_amount = charge_principal_amount c,
      fc_rate_percent = charge_rate_percent c, fc_days_calculated = charge_days_calculated c,
      fc_amount = charge_amount c, fc_paid_amount = charge_paid_amount c, fc_currency = charge_currency c,
      fc_calculation_date = charge_calculation_date c, fc_reason = charge_reason c,
      fc_waived_reason = charge_waived_reason c\<rparr>"

definition refund_item :: "refund_row \<Rightarrow> finance_refund" where
  "refund_item r =
     \<lparr>frf_id = refund_id r, frf_payment_id = refund_payment_id r, frf_amount = refund_amount r,
      frf_currency = refund_currency r, frf_status = refund_status r,
      frf_reference_number = refund_reference_number r, frf_reason = refund_reason r,
      frf_decision_notes = refund_decision_notes r, frf_requested_by_user_id = refund_requested_by_user_id r,
      frf_approved_by_user_id = refund_approved_by_user_id r, frf_requested_at = refund_requested_at r,
      frf_processed_at = refund_processed_at r\<rparr>"

primrec ledger_entry_type_value :: "ledger_entry_type \<Rightarrow> string" where
  "ledger_entry_type_value Ledger_DEBIT = ''DEBIT''"
| "ledger_entry_type_value Ledger_CREDIT = ''CREDIT''"
| "ledger_entry_type_value Ledger_ADJUSTMENT = ''ADJUSTMENT''"

definition ledger_item :: "customer_ledger_row \<Rightarrow> ledger_entry_view" where
  "ledger_item l =
     \<lparr>le_id = ledger_id l, le_entry_type = ledger_entry_type_value (ledger_entry_type l),
      le_amount = ledger_amount l, le_currency = ledger_currency l, le_description = ledger_description l,
      le_posted_at = ledger_posted_at l\<rparr>"

definition detail :: "env \<Rightarrow> database \<Rightarrow> ident \<Rightarrow> ident \<Rightarrow> app_error + collection_account_detail" where
  "detail e s org bid =
     need (find_booking s org bid) not_found (\<lambda>b.
     case account_of e s org b of
       Inl err \<Rightarrow> Inl err
     | Inr account \<Rightarrow>
         (let ps = booking_payments s org (booking_id b);
              ids = map pay_id ps;
              as = booking_allocations s org (booking_id b);
              rs = filter (\<lambda>r. rcpt_organization_id r = org \<and> rcpt_payment_id r \<in> set ids) (receipts s)
          in Inr \<lparr>cad_account = account,
               cad_plan_name = map_option plan_name (latest_plan s org (booking_id b)),
               cad_installments = map installment_item (booking_installments e s org (booking_id b)),
               cad_demands = map demand_item (order_desc demand_issue_date (filter (\<lambda>d.
                 demand_organization_id d = org \<and> demand_booking_id d = booking_id b) (demand_letters s))),
               cad_payments = map (payment_item as rs) ps,
               cad_allocations = map allocation_item as,
               cad_reconciliations = map reconciliation_item (order_desc recon_reconciled_at (filter (\<lambda>r.
                 recon_organization_id r = org \<and> recon_payment_id r \<in> set ids) (payment_reconciliations s))),
               cad_charges = map charge_item (order_desc charge_created_at (filter (\<lambda>c.
                 charge_organization_id c = org \<and> charge_booking_id c = booking_id b) (financial_charges s))),
               cad_refunds = map refund_item (order_desc refund_requested_at (filter (\<lambda>r.
                 refund_organization_id r = org \<and> refund_booking_id r = Some (booking_id b)) (refunds s))),
               cad_ledger = map ledger_item (order_desc ledger_posted_at (filter (\<lambda>l.
                 ledger_organization_id l = org \<and> ledger_booking_id l = Some (booking_id b)) (customer_ledger s)))\<rparr>))"

end
