(* ===== verification/Finance_Handlers.thy ===== *)
theory Finance_Handlers
  imports Finance
begin

text \<open>
  The operations of \<^verbatim>\<open>services/finance.py\<close>: demand letters, payments with their reconciliation and
  allocation to installments, charges and refunds. The session does not flush before a query, so a
  total or look-up that follows a change in memory still sees the stored rows; objects already
  loaded keep their changes. A constraint that fails in an uncaught flush ends as
  \<open>Integrity_Error\<close>.
\<close>

section \<open>Writes\<close>

definition put_rows :: "('r \<Rightarrow> ident) \<Rightarrow> 'r list \<Rightarrow> 'r list \<Rightarrow> 'r list" where
  "put_rows id_of new rows = fold (put_row id_of) new rows"

definition put_installments :: "installment_row list \<Rightarrow> database \<Rightarrow> database" where
  "put_installments is s = s\<lparr>installments := put_rows inst_id is (installments s)\<rparr>"

definition put_allocations :: "payment_allocation_row list \<Rightarrow> database \<Rightarrow> database" where
  "put_allocations as s = s\<lparr>payment_allocations := put_rows alloc_id as (payment_allocations s)\<rparr>"

definition put_payments :: "payment_row list \<Rightarrow> database \<Rightarrow> database" where
  "put_payments ps s = s\<lparr>payments := put_rows pay_id ps (payments s)\<rparr>"

definition put_refund :: "refund_row \<Rightarrow> database \<Rightarrow> database" where
  "put_refund r s = s\<lparr>refunds := put_row refund_id r (refunds s)\<rparr>"

definition put_charge :: "financial_charge_row \<Rightarrow> database \<Rightarrow> database" where
  "put_charge c s = s\<lparr>financial_charges := put_row charge_id c (financial_charges s)\<rparr>"

definition add_reconciliation :: "payment_reconciliation_row \<Rightarrow> database \<Rightarrow> database" where
  "add_reconciliation r s = s\<lparr>payment_reconciliations := payment_reconciliations s @ [r]\<rparr>"

section \<open>Demand letters\<close>

definition new_demand :: "env \<Rightarrow> ident \<Rightarrow> ident \<Rightarrow> booking_row \<Rightarrow> ident \<Rightarrow> decimal \<Rightarrow> demand_create \<Rightarrow> demand_letter_row" where
  "new_demand e i org b inst amount p =
     \<lparr>demand_id = i, demand_organization_id = org, demand_booking_id = booking_id b,
      demand_customer_id = booking_customer_id b, demand_installment_id = Some inst,
      demand_demand_number = upper (strip (dc_demand_number p)), demand_status = Record_ACTIVE,
      demand_issue_date = dc_issue_date p, demand_due_date = dc_due_date p, demand_amount = amount,
      demand_currency = booking_currency b, demand_storage_key = None, demand_is_final = False,
      demand_created_at = now e\<rparr>"

definition collection_message ::
  "notification_event_type \<Rightarrow> string \<Rightarrow> formatted \<Rightarrow> string \<Rightarrow> ident \<Rightarrow> booking_row \<Rightarrow> snapshot \<Rightarrow> message" where
  "collection_message event title body kind i b data =
     \<lparr>msg_event = event, msg_title = title, msg_body = body, msg_entity_type = kind, msg_entity_id = i,
      msg_action_url = ''/collections/'' @ booking_id b, msg_data = Some data\<rparr>"

definition collection_recipients :: "database \<Rightarrow> ident \<Rightarrow> booking_row \<Rightarrow> ident list" where
  "collection_recipients s org b =
     recipients_for_permission s org ''collections.approve'' @
     (case given (booking_salesperson_user_id b) of None \<Rightarrow> [] | Some u \<Rightarrow> [u])"

definition create_demand ::
  "env \<Rightarrow> mutation_context \<Rightarrow> ident \<Rightarrow> ident \<Rightarrow> demand_create \<Rightarrow> database \<Rightarrow>
   (database, collection_account_detail) outcome" where
  "create_demand e ctx org bid p s =
     fetch s (find_booking s org bid) not_found (\<lambda>b.
     fetch s (find_installment s org (dc_installment_id p)) not_found (\<lambda>i.
     fetch s (find_plan s org (inst_payment_plan_id i)) not_found (\<lambda>plan.
     demand s (plan_booking_id plan = booking_id b) (App_Error 422 ''INSTALLMENT_BOOKING_MISMATCH'') (
     let amount = money (open_amount i) in
     demand s (0 < amount) (App_Error 409 ''INSTALLMENT_ALREADY_PAID'') (
     let d = new_demand e (uuid e 0) org b (inst_id i) amount p in
     demand s (list_all (\<lambda>x. \<not> (demand_organization_id x = org \<and> demand_demand_number x = demand_demand_number d))
         (demand_letters s)) (App_Error 409 ''DEMAND_NUMBER_EXISTS'') (
     let audit = audit_entry e (uuid e 1) org ctx ''collection.demand.issued'' ''demand_letter'' (demand_id d) None
           (Some [(''booking_id'', JStr (booking_id b)), (''installment_id'', JStr (inst_id i)),
                  (''amount'', JDec amount)]);
         msg = collection_message Event_DEMAND_LETTER_ISSUED ''Demand letter issued''
           [JStr (demand_demand_number d), JStr [CHR 0x20, CHR 0xC2, CHR 0xB7, CHR 0x20],
            JStr (demand_currency d), JStr '' '', JDec (demand_amount d)] ''demand_letter'' (demand_id d) b
           [(''booking_id'', JStr (booking_id b)), (''due_date'', JInt (demand_due_date d))];
         t = queue_in_app e 2 org (collection_recipients s org b) msg None None
           (add_audits [audit] (s\<lparr>demand_letters := demand_letters s @ [d]\<rparr>)) in
     respond t (detail e t org (booking_id b))))))))"

section \<open>Payments\<close>

definition collection_payment ::
  "env \<Rightarrow> ident \<Rightarrow> ident \<Rightarrow> booking_row \<Rightarrow> collection_payment_create \<Rightarrow> payment_row" where
  "collection_payment e i org b p =
     \<lparr>pay_id = i, pay_organization_id = org, pay_booking_id = booking_id b, pay_customer_id = booking_customer_id b,
      pay_installment_id = None, pay_verified_by_user_id = None, pay_amount = cp_amount p,
      pay_currency = booking_currency b, pay_method = upper (strip (cp_method p)),
      pay_status = Payment_PENDING, pay_reference_number = cp_reference_number p,
      pay_idempotency_key = cp_idempotency_key p,
      pay_paid_at = Some (case cp_paid_at p of None \<Rightarrow> now e | Some t \<Rightarrow> t), pay_verified_at = None,
      pay_created_at = now e\<rparr>"

text \<open>\<^verbatim>\<open>create_payment\<close> of \<^verbatim>\<open>services/finance.py\<close>\<close>

definition create_collection_payment ::
  "env \<Rightarrow> mutation_context \<Rightarrow> ident \<Rightarrow> ident \<Rightarrow> collection_payment_create \<Rightarrow> database \<Rightarrow>
   (database, collection_account_detail) outcome" where
  "create_collection_payment e ctx org bid p s =
     fetch s (find_booking s org bid) not_found (\<lambda>b.
     case payment_by_key s org (cp_idempotency_key p) of
       Some x \<Rightarrow>
         demand s (pay_booking_id x = booking_id b \<and> pay_amount x = cp_amount p) (App_Error 409 ''IDEMPOTENCY_CONFLICT'')
           (respond s (detail e s org (booking_id b)))
     | None \<Rightarrow>
         (let x = collection_payment e (uuid e 0) org b p;
              audit = audit_entry e (uuid e 1) org ctx ''collection.payment.submitted'' ''payment'' (pay_id x) None
                (Some [(''booking_id'', JStr (booking_id b)), (''amount'', JDec (pay_amount x)),
                       (''status'', JStr (payment_status_value (pay_status x)))]);
              t = add_audits [audit] (add_payment x s) in
          respond t (detail e t org (booking_id b))))"

definition new_reconciliation ::
  "env \<Rightarrow> ident \<Rightarrow> ident \<Rightarrow> mutation_context \<Rightarrow> payment_row \<Rightarrow> reconciliation_create \<Rightarrow> payment_reconciliation_row" where
  "new_reconciliation e i org ctx x p =
     (let difference = money (rc_received_amount p - pay_amount x) in
      \<lparr>recon_id = i, recon_organization_id = org, recon_payment_id = pay_id x,
       recon_reconciled_by_user_id = actor_user_id ctx,
       recon_status = (if difference = 0 then Reconciliation_MATCHED else Reconciliation_MISMATCHED),
       recon_expected_amount = pay_amount x, recon_received_amount = rc_received_amount p,
       recon_difference_amount = difference, recon_external_reference = rc_external_reference p,
       recon_idempotency_key = rc_idempotency_key p, recon_notes = rc_notes p, recon_reconciled_at = now e,
       recon_created_at = now e\<rparr>)"

definition reconcile_payment ::
  "env \<Rightarrow> mutation_context \<Rightarrow> ident \<Rightarrow> ident \<Rightarrow> reconciliation_create \<Rightarrow> database \<Rightarrow>
   (database, collection_account_detail) outcome" where
  "reconcile_payment e ctx org pid p s =
     fetch s (find_payment s org pid) not_found (\<lambda>x.
     demand s (open_payment (pay_status x)) (App_Error 409 ''PAYMENT_FINALIZED'') (
     if list_ex (\<lambda>r. recon_organization_id r = org \<and> recon_idempotency_key r = rc_idempotency_key p)
         (payment_reconciliations s)
     then respond s (detail e s org (pay_booking_id x))
     else
       let r = new_reconciliation e (uuid e 0) org ctx x p;
           audit = audit_entry e (uuid e 1) org ctx ''collection.payment.reconciled'' ''payment_reconciliation''
             (recon_id r) None
             (Some [(''payment_id'', JStr (pay_id x)), (''status'', JStr (reconciliation_status_value (recon_status r))),
                    (''difference'', JDec (recon_difference_amount r))]);
           t = add_audits [audit] (put_payment (x\<lparr>pay_status := Payment_PROCESSING\<rparr>) (add_reconciliation r s)) in
       respond t (detail e t org (pay_booking_id x))))"

section \<open>Allocating a payment\<close>

text \<open>
  The order in which installments are filled: a requested installment has the position of its last
  occurrence in the request, the others follow with the number of distinct requested ones.
\<close>

definition rank :: "ident list \<Rightarrow> ident \<Rightarrow> nat" where
  "rank ids i = (case filter (\<lambda>(k, x). x = i) (rev (enumerate 0 ids)) of
     [] \<Rightarrow> length (remdups ids) | (k, _) # _ \<Rightarrow> k)"

definition allocation_order :: "ident list \<Rightarrow> installment_row list \<Rightarrow> installment_row list" where
  "allocation_order ids is = (if ids = [] then is else sort_key (\<lambda>i. rank ids (inst_id i)) (by_due_date is))"

text \<open>
  The loop over the installments: position, installment and amount of each allocation, and what
  remains of the payment.
\<close>

fun spread :: "nat \<Rightarrow> decimal \<Rightarrow> installment_row list \<Rightarrow> (nat \<times> installment_row \<times> decimal) list \<times> decimal" where
  "spread k remaining [] = ([], remaining)"
| "spread k remaining (i # is) =
     (let amount = min (open_amount i) remaining in
      if amount \<le> 0 then spread (k + 1) remaining is
      else let rest = remaining - amount in
        if rest \<le> 0 then ([(k, i, amount)], rest)
        else (let (done, r) = spread (k + 1) rest is in ((k, i, amount) # done, r)))"

definition paid_installment :: "decimal \<Rightarrow> installment_row \<Rightarrow> installment_row" where
  "paid_installment amount i =
     i\<lparr>inst_paid_amount := inst_paid_amount i + amount,
       inst_status := (if inst_amount i \<le> inst_paid_amount i + amount then Installment_PAID
                       else Installment_PARTIALLY_PAID)\<rparr>"

definition open_demand :: "database \<Rightarrow> ident \<Rightarrow> ident \<Rightarrow> ident option" where
  "open_demand s org inst =
     map_option demand_id (first_row (order_desc demand_created_at (filter (\<lambda>d. demand_organization_id d = org \<and>
       demand_installment_id d = Some inst \<and> demand_status d = Record_ACTIVE) (demand_letters s))))"

definition new_allocation ::
  "env \<Rightarrow> ident \<Rightarrow> database \<Rightarrow> ident \<Rightarrow> mutation_context \<Rightarrow> payment_row \<Rightarrow> nat \<Rightarrow> installment_row \<Rightarrow> decimal \<Rightarrow>
   payment_allocation_row" where
  "new_allocation e i s org ctx x k inst amount =
     \<lparr>alloc_id = i, alloc_organization_id = org, alloc_payment_id = pay_id x,
      alloc_installment_id = Some (inst_id inst), alloc_demand_letter_id = open_demand s org (inst_id inst),
      alloc_allocated_by_user_id = actor_user_id ctx, alloc_amount = amount,
      alloc_idempotency_key = ''payment:'' @ pay_id x @ '':allocation:'' @ nat_str k,
      alloc_allocated_at = now e, alloc_reversed_at = None, alloc_created_at = now e\<rparr>"

definition new_allocations ::
  "env \<Rightarrow> nat \<Rightarrow> database \<Rightarrow> ident \<Rightarrow> mutation_context \<Rightarrow> payment_row \<Rightarrow> (nat \<times> installment_row \<times> decimal) list \<Rightarrow>
   payment_allocation_row list" where
  "new_allocations e n s org ctx x xs =
     map (\<lambda>(j, k, i, amount). new_allocation e (uuid e (n + j)) s org ctx x k i amount) (enumerate 0 xs)"

text \<open>The proleptic Gregorian year of a timestamp, as \<^verbatim>\<open>datetime.year\<close> gives it.\<close>

definition year_of :: "timestamp \<Rightarrow> int" where
  "year_of t =
     (let z = t div 86400000000 + 719468;
          era = z div 146097;
          doe = z mod 146097;
          yoe = (doe - doe div 1460 + doe div 36524 - doe div 146096) div 365;
          doy = doe - (365 * yoe + yoe div 4 - yoe div 100)
      in yoe + era * 400 + (if 10 \<le> (5 * doy + 2) div 153 then 1 else 0))"

definition receipt_number :: "env \<Rightarrow> payment_row \<Rightarrow> string" where
  "receipt_number e x = ''RCT-'' @ nat_str (nat (year_of (now e))) @ ''-'' @ upper (take 8 (pay_id x))"

definition new_receipt :: "env \<Rightarrow> ident \<Rightarrow> ident \<Rightarrow> payment_row \<Rightarrow> receipt_row" where
  "new_receipt e i org x =
     \<lparr>rcpt_id = i, rcpt_organization_id = org, rcpt_payment_id = pay_id x, rcpt_customer_id = pay_customer_id x,
      rcpt_receipt_number = receipt_number e x, rcpt_status = Record_ACTIVE, rcpt_issued_at = now e,
      rcpt_storage_key = None, rcpt_created_at = now e\<rparr>"

definition receipt_entry :: "env \<Rightarrow> ident \<Rightarrow> ident \<Rightarrow> booking_row \<Rightarrow> payment_row \<Rightarrow> receipt_row \<Rightarrow> customer_ledger_row" where
  "receipt_entry e i org b x r =
     \<lparr>ledger_id = i, ledger_organization_id = org, ledger_customer_id = booking_customer_id b,
      ledger_booking_id = Some (booking_id b), ledger_payment_id = Some (pay_id x),
      ledger_receipt_id = Some (rcpt_id r), ledger_entry_type = Ledger_CREDIT, ledger_amount = pay_amount x,
      ledger_currency = pay_currency x,
      ledger_description = [JStr ''Verified payment receipt '', JStr (rcpt_receipt_number r)],
      ledger_idempotency_key = ''payment:'' @ pay_id x @ '':ledger'', ledger_posted_at = now e,
      ledger_created_at = now e\<rparr>"

text \<open>The unique indexes that the flushes of an allocation rely on.\<close>

definition allocation_keys_free ::
  "database \<Rightarrow> ident \<Rightarrow> payment_allocation_row list \<Rightarrow> receipt_row \<Rightarrow> customer_ledger_row \<Rightarrow> bool" where
  "allocation_keys_free s org as r l \<longleftrightarrow>
     list_all (\<lambda>x. \<not> (alloc_organization_id x = org \<and> alloc_idempotency_key x \<in> set (map alloc_idempotency_key as)))
       (payment_allocations s) \<and>
     list_all (\<lambda>x. \<not> (rcpt_organization_id x = org \<and> (rcpt_payment_id x = rcpt_payment_id r \<or>
         rcpt_receipt_number x = rcpt_receipt_number r))) (receipts s) \<and>
     ledger_key_free s org (ledger_idempotency_key l)"

definition latest_reconciliation :: "database \<Rightarrow> ident \<Rightarrow> ident \<Rightarrow> payment_reconciliation_row option" where
  "latest_reconciliation s org pid =
     first_row (order_desc recon_reconciled_at (filter (\<lambda>r. recon_organization_id r = org \<and>
       recon_payment_id r = pid) (payment_reconciliations s)))"

definition reconciled :: "database \<Rightarrow> ident \<Rightarrow> ident \<Rightarrow> string option \<Rightarrow> bool" where
  "reconciled s org pid reason \<longleftrightarrow>
     (case latest_reconciliation s org pid of None \<Rightarrow> False | Some r \<Rightarrow> recon_status r = Reconciliation_MATCHED) \<or>
     given reason \<noteq> None"

text \<open>The capacity leaves out waived installments.\<close>

definition capacity :: "installment_row list \<Rightarrow> decimal" where
  "capacity is = sum_where (\<lambda>i. inst_status i \<noteq> Installment_WAIVED) open_amount is"

definition verified_payment :: "env \<Rightarrow> mutation_context \<Rightarrow> payment_row \<Rightarrow> payment_row" where
  "verified_payment e ctx x =
     x\<lparr>pay_status := Payment_COMPLETED, pay_verified_by_user_id := Some (actor_user_id ctx),
       pay_verified_at := Some (now e)\<rparr>"

definition allocate_payment ::
  "env \<Rightarrow> mutation_context \<Rightarrow> ident \<Rightarrow> ident \<Rightarrow> payment_allocation_request \<Rightarrow> database \<Rightarrow>
   (database, collection_account_detail) outcome" where
  "allocate_payment e ctx org pid p s =
     fetch s (find_payment s org pid) not_found (\<lambda>x.
     fetch s (find_booking s org (pay_booking_id x)) not_found (\<lambda>b.
     demand s (open_payment (pay_status x)) (App_Error 409 ''PAYMENT_FINALIZED'') (
     demand s (reconciled s org (pay_id x) (pa_manual_reconciliation_reason p))
       (App_Error 409 ''RECONCILIATION_REQUIRED'') (
     fetch s (latest_plan s org (booking_id b)) (App_Error 409 ''PAYMENT_PLAN_REQUIRED'') (\<lambda>plan.
     let current = current_installments e s org (plan_id plan) in
     demand s (list_all (\<lambda>i. i \<in> set (map inst_id current)) (pa_installment_ids p))
       (App_Error 422 ''INSTALLMENT_BOOKING_MISMATCH'') (
     let ordered = allocation_order (pa_installment_ids p) current in
     demand s (pay_amount x \<le> capacity ordered \<or> pa_allow_unallocated_credit p) (App_Error 409 ''UNALLOCATED_PAYMENT'') (
     let (filled, remaining) = spread 1 (pay_amount x) ordered;
         n = length filled;
         as = new_allocations e 0 s org ctx x filled;
         x' = verified_payment e ctx x;
         completed = payment_total s org (booking_id b) [Payment_COMPLETED];
         b' = (if booking_booking_amount b \<le> completed \<and> booking_status b = Booking_PAYMENT_PENDING
               then b\<lparr>booking_status := Booking_VERIFICATION, booking_submitted_at := Some (now e),
                      booking_verification_completed_at := Some (now e)\<rparr> else b);
         r = new_receipt e (uuid e n) org x;
         l = receipt_entry e (uuid e (n + 1)) org b x r in
     demand s (allocation_keys_free s org as r l) Integrity_Error (
     let audits =
           [audit_entry e (uuid e (n + 2)) org ctx ''collection.payment.allocated'' ''payment'' (pay_id x)
              (Some [(''status'', JStr (payment_status_value Payment_PROCESSING))])
              (Some [(''status'', JStr (payment_status_value Payment_COMPLETED)),
                     (''allocated'', JDec (pay_amount x - remaining)), (''unallocated'', JDec remaining),
                     (''manual_override'', jopt JStr (pa_manual_reconciliation_reason p))]),
            audit_entry e (uuid e (n + 3)) org ctx ''booking.payment.verified'' ''payment'' (pay_id x)
              (Some [(''status'', JStr (payment_status_value Payment_PROCESSING))])
              (Some [(''status'', JStr (payment_status_value Payment_COMPLETED)),
                     (''receipt_number'', JStr (rcpt_receipt_number r))])];
         msg = collection_message Event_PAYMENT_RECEIVED ''Payment received''
           [JStr (pay_currency x), JStr '' '', JDec (pay_amount x), JStr '' received for '',
            JStr (booking_booking_number b)] ''payment'' (pay_id x) b
           [(''booking_id'', JStr (booking_id b)), (''receipt_number'', JStr (rcpt_receipt_number r))];
         s1 = put_installments (map (\<lambda>(k, i, amount). paid_installment amount i) filled) (put_installments current s);
         s2 = s1\<lparr>payment_allocations := payment_allocations s1 @ as, receipts := receipts s1 @ [r]\<rparr>;
         t = queue_in_app e (n + 4) org (collection_recipients s org b) msg None None
           (add_audits audits (add_ledger l (put_booking b' (put_payment x' s2)))) in
     respond t (detail e t org (booking_id b))))))))))"

section \<open>Charges\<close>

primrec charge_title :: "financial_charge_type \<Rightarrow> string" where
  "charge_title ChargeType_PENALTY = ''Penalty''"
| "charge_title ChargeType_INTEREST = ''Interest''"

primrec charge_lower :: "financial_charge_type \<Rightarrow> string" where
  "charge_lower ChargeType_PENALTY = ''penalty''"
| "charge_lower ChargeType_INTEREST = ''interest''"

definition charge_days :: "charge_create \<Rightarrow> installment_row \<Rightarrow> int" where
  "charge_days p i = max (cc_calculation_date p - inst_due_date i) 0"

text \<open>Simple interest on the open principal for the days past due, or the fixed amount.\<close>

definition charge_amount_of :: "charge_create \<Rightarrow> installment_row \<Rightarrow> decimal" where
  "charge_amount_of p i =
     money (case cc_fixed_amount p of
       Some a \<Rightarrow> a
     | None \<Rightarrow> money (open_amount i) * or_decimal (cc_annual_rate_percent p) 0 * of_int (charge_days p i) / 36500)"

definition new_charge ::
  "env \<Rightarrow> ident \<Rightarrow> ident \<Rightarrow> mutation_context \<Rightarrow> booking_row \<Rightarrow> installment_row \<Rightarrow> charge_create \<Rightarrow> financial_charge_row" where
  "new_charge e i org ctx b inst p =
     \<lparr>charge_id = i, charge_organization_id = org, charge_booking_id = booking_id b,
      charge_customer_id = booking_customer_id b, charge_installment_id = inst_id inst,
      charge_created_by_user_id = actor_user_id ctx, charge_waived_by_user_id = None,
      charge_charge_type = cc_charge_type p, charge_status = Charge_APPLIED,
      charge_principal_amount = money (open_amount inst),
      charge_rate_percent = or_decimal (cc_annual_rate_percent p) 0, charge_days_calculated = charge_days p inst,
      charge_amount = charge_amount_of p inst, charge_paid_amount = 0, charge_currency = booking_currency b,
      charge_calculation_date = cc_calculation_date p, charge_reason = cc_reason p,
      charge_idempotency_key = cc_idempotency_key p, charge_waived_reason = None, charge_waived_at = None,
      charge_created_at = now e\<rparr>"

definition charge_entry ::
  "env \<Rightarrow> ident \<Rightarrow> financial_charge_row \<Rightarrow> ledger_entry_type \<Rightarrow> decimal \<Rightarrow> formatted \<Rightarrow> string \<Rightarrow> customer_ledger_row" where
  "charge_entry e i c kind amount description ending =
     \<lparr>ledger_id = i, ledger_organization_id = charge_organization_id c, ledger_customer_id = charge_customer_id c,
      ledger_booking_id = Some (charge_booking_id c), ledger_payment_id = None, ledger_receipt_id = None,
      ledger_entry_type = kind, ledger_amount = amount, ledger_currency = charge_currency c,
      ledger_description = description, ledger_idempotency_key = ''charge:'' @ charge_id c @ ending,
      ledger_posted_at = now e, ledger_created_at = now e\<rparr>"

definition create_charge ::
  "env \<Rightarrow> mutation_context \<Rightarrow> ident \<Rightarrow> ident \<Rightarrow> charge_create \<Rightarrow> database \<Rightarrow>
   (database, collection_account_detail) outcome" where
  "create_charge e ctx org iid p s =
     fetch s (find_installment s org iid) not_found (\<lambda>i.
     fetch s (find_plan s org (inst_payment_plan_id i)) not_found (\<lambda>plan.
     fetch s (find_booking s org (plan_booking_id plan)) not_found (\<lambda>b.
     if list_ex (\<lambda>c. charge_organization_id c = org \<and> charge_idempotency_key c = cc_idempotency_key p)
         (financial_charges s)
     then respond s (detail e s org (booking_id b))
     else
       demand s (0 < money (open_amount i)) (App_Error 409 ''NO_CHARGEABLE_OUTSTANDING'') (
       demand s (0 < charge_amount_of p i) (App_Error 422 ''ZERO_FINANCIAL_CHARGE'') (
       let c = new_charge e (uuid e 0) org ctx b i p;
           l = charge_entry e (uuid e 1) c Ledger_DEBIT (charge_amount c)
             [JStr (charge_title (cc_charge_type p)), JStr '' charge: '', JStr (cc_reason p)] '':applied'';
           audit = audit_entry e (uuid e 2) org ctx ''collection.charge.applied'' ''financial_charge'' (charge_id c) None
             (Some [(''principal'', JDec (charge_principal_amount c)), (''rate'', JDec (charge_rate_percent c)),
                    (''days'', JInt (charge_days_calculated c)), (''amount'', JDec (charge_amount c))]) in
       demand s (ledger_key_free s org (ledger_idempotency_key l)) Integrity_Error (
       let t = add_audits [audit] (add_ledger l (s\<lparr>financial_charges := financial_charges s @ [c]\<rparr>)) in
       respond t (detail e t org (booking_id b))))))))"

definition waived_charge :: "env \<Rightarrow> mutation_context \<Rightarrow> string \<Rightarrow> financial_charge_row \<Rightarrow> financial_charge_row" where
  "waived_charge e ctx reason c =
     c\<lparr>charge_status := Charge_WAIVED, charge_waived_by_user_id := Some (actor_user_id ctx),
       charge_waived_reason := Some reason, charge_waived_at := Some (now e)\<rparr>"

definition waive_charge ::
  "env \<Rightarrow> mutation_context \<Rightarrow> ident \<Rightarrow> ident \<Rightarrow> string \<Rightarrow> database \<Rightarrow>
   (database, collection_account_detail) outcome" where
  "waive_charge e ctx org cid reason s =
     fetch s (find_charge s org cid) not_found (\<lambda>c.
     demand s (charge_status c = Charge_APPLIED \<or> charge_status c = Charge_PARTIALLY_PAID)
       (App_Error 409 ''CHARGE_FINALIZED'') (
     let remaining = charge_amount c - charge_paid_amount c;
         c' = waived_charge e ctx reason c;
         l = charge_entry e (uuid e 0) c Ledger_CREDIT remaining
           [JStr ''Waived '', JStr (charge_lower (charge_charge_type c)), JStr '': '', JStr reason] '':waived'';
         audit = audit_entry e (uuid e 1) org ctx ''collection.charge.waived'' ''financial_charge'' (charge_id c)
           (Some [(''status'', JStr (financial_charge_status_value Charge_APPLIED))])
           (Some [(''status'', JStr (financial_charge_status_value Charge_WAIVED)), (''amount'', JDec remaining),
                  (''reason'', JStr reason)]) in
     demand s (ledger_key_free s org (ledger_idempotency_key l) \<and> 0 < remaining) Integrity_Error (
     let t = add_audits [audit] (add_ledger l (put_charge c' s)) in
     respond t (detail e t org (charge_booking_id c)))))"

section \<open>Refunds\<close>

definition counted_refund :: "payment_status \<Rightarrow> bool" where
  "counted_refund st \<longleftrightarrow> st \<in> set [Payment_PENDING, Payment_PROCESSING, Payment_COMPLETED]"

definition refund_total :: "database \<Rightarrow> ident \<Rightarrow> ident \<Rightarrow> (payment_status \<Rightarrow> bool) \<Rightarrow> decimal" where
  "refund_total s org pid p =
     sum_where (\<lambda>r. refund_organization_id r = org \<and> refund_payment_id r = Some pid \<and> p (refund_status r))
       refund_amount (refunds s)"

definition new_refund :: "env \<Rightarrow> ident \<Rightarrow> ident \<Rightarrow> mutation_context \<Rightarrow> payment_row \<Rightarrow> refund_create \<Rightarrow> refund_row" where
  "new_refund e i org ctx x p =
     \<lparr>refund_id = i, refund_organization_id = org, refund_cancellation_id = None,
      refund_booking_id = Some (pay_booking_id x), refund_payment_id = Some (pay_id x),
      refund_customer_id = pay_customer_id x, refund_requested_by_user_id = Some (actor_user_id ctx),
      refund_approved_by_user_id = None, refund_status = Payment_PENDING, refund_amount = rf_amount p,
      refund_currency = pay_currency x, refund_reference_number = None, refund_reason = Some (rf_reason p),
      refund_decision_notes = None, refund_idempotency_key = Some (rf_idempotency_key p),
      refund_requested_at = now e, refund_approved_at = None, refund_rejected_at = None,
      refund_processed_at = None, refund_created_at = now e\<rparr>"

definition request_refund ::
  "env \<Rightarrow> mutation_context \<Rightarrow> ident \<Rightarrow> ident \<Rightarrow> refund_create \<Rightarrow> database \<Rightarrow>
   (database, collection_account_detail) outcome" where
  "request_refund e ctx org pid p s =
     fetch s (find_payment s org pid) not_found (\<lambda>x.
     demand s (pay_status x = Payment_COMPLETED \<or> pay_status x = Payment_REFUNDED)
       (App_Error 409 ''PAYMENT_NOT_REFUNDABLE'') (
     if list_ex (\<lambda>r. refund_organization_id r = org \<and> refund_idempotency_key r = Some (rf_idempotency_key p)) (refunds s)
     then respond s (detail e s org (pay_booking_id x))
     else
       demand s (refund_total s org (pay_id x) counted_refund + rf_amount p \<le> pay_amount x)
         (App_Error 422 ''REFUND_EXCEEDS_PAYMENT'') (
       let r = new_refund e (uuid e 0) org ctx x p;
           audit = audit_entry e (uuid e 1) org ctx ''collection.refund.requested'' ''refund'' (refund_id r) None
             (Some [(''payment_id'', JStr (pay_id x)), (''amount'', JDec (refund_amount r)),
                    (''reason'', jopt JStr (refund_reason r))]);
           t = add_audits [audit] (s\<lparr>refunds := refunds s @ [r]\<rparr>) in
       respond t (detail e t org (pay_booking_id x)))))"

definition decided_refund :: "env \<Rightarrow> mutation_context \<Rightarrow> refund_decision \<Rightarrow> refund_row \<Rightarrow> refund_row" where
  "decided_refund e ctx p r =
     (let r1 = r\<lparr>refund_approved_by_user_id := Some (actor_user_id ctx), refund_decision_notes := Some (rd_notes p)\<rparr> in
      case rd_status p of
        Decision_APPROVED \<Rightarrow> r1\<lparr>refund_status := Payment_PROCESSING, refund_approved_at := Some (now e)\<rparr>
      | Decision_REJECTED \<Rightarrow> r1\<lparr>refund_status := Payment_FAILED, refund_rejected_at := Some (now e)\<rparr>)"

text \<open>\<^verbatim>\<open>str(item.booking_id)\<close> makes the text \<^verbatim>\<open>None\<close> of a missing booking.\<close>

definition decide_refund ::
  "env \<Rightarrow> mutation_context \<Rightarrow> ident \<Rightarrow> ident \<Rightarrow> refund_decision \<Rightarrow> database \<Rightarrow>
   (database, collection_account_detail) outcome" where
  "decide_refund e ctx org rid p s =
     fetch s (find_refund s org rid) not_found (\<lambda>r.
     demand s (refund_status r = Payment_PENDING) (App_Error 409 ''REFUND_FINALIZED'') (
     demand s (refund_requested_by_user_id r \<noteq> Some (actor_user_id ctx)) (App_Error 403 ''SELF_APPROVAL_NOT_ALLOWED'') (
     let r' = decided_refund e ctx p r;
         audit = audit_entry e (uuid e 0) org ctx ''collection.refund.decided'' ''refund'' (refund_id r)
           (Some [(''status'', JStr (payment_status_value Payment_PENDING))])
           (Some [(''status'', JStr (payment_status_value (refund_status r'))), (''notes'', JStr (rd_notes p))]);
         t = add_audits [audit] (put_refund r' s) in
     respond t (detail e t org (case refund_booking_id r of None \<Rightarrow> ''None'' | Some b \<Rightarrow> b)))))"

text \<open>\<^verbatim>\<open>ORDER BY paid_at DESC, created_at DESC\<close>; MySQL sorts a missing date last.\<close>

definition latest_paid_first :: "payment_row list \<Rightarrow> payment_row list" where
  "latest_paid_first ps =
     sort_key (\<lambda>x. if pay_paid_at x = None then 1 else 0 :: nat)
       (order_desc (\<lambda>x. case pay_paid_at x of None \<Rightarrow> 0 | Some t \<Rightarrow> t) (order_desc pay_created_at ps))"

text \<open>The payments a refund draws on: its own, or the verified ones of the cancelled booking.\<close>

definition refund_payments :: "database \<Rightarrow> ident \<Rightarrow> ident \<Rightarrow> refund_row \<Rightarrow> app_error + payment_row list" where
  "refund_payments s org bid r =
     (case given (refund_payment_id r) of
        Some pid \<Rightarrow> need (find_payment s org pid) not_found (\<lambda>x. Inr [x])
      | None \<Rightarrow>
          (case given (refund_cancellation_id r) of
             None \<Rightarrow> Inl (App_Error 409 ''REFUND_NOT_APPROVED'')
           | Some _ \<Rightarrow> Inr (latest_paid_first
               (filter (\<lambda>x. pay_organization_id x = org \<and> pay_booking_id x = bid \<and>
                  (pay_status x = Payment_COMPLETED \<or> pay_status x = Payment_REFUNDED)) (payments s)))))"

definition active_allocation :: "ident \<Rightarrow> ident list \<Rightarrow> payment_allocation_row \<Rightarrow> bool" where
  "active_allocation org pids a \<longleftrightarrow>
     alloc_organization_id a = org \<and> alloc_payment_id a \<in> set pids \<and> alloc_reversed_at a = None"

definition reversed_installment :: "env \<Rightarrow> decimal \<Rightarrow> installment_row \<Rightarrow> installment_row" where
  "reversed_installment e amount i =
     (let paid = max (inst_paid_amount i - amount) 0 in
      i\<lparr>inst_paid_amount := paid,
        inst_status := (if inst_due_date i < today e then Installment_OVERDUE
                        else if 0 < paid then Installment_PARTIALLY_PAID else Installment_SCHEDULED)\<rparr>)"

definition reversed_allocation :: "env \<Rightarrow> decimal \<Rightarrow> payment_allocation_row \<Rightarrow> payment_allocation_row" where
  "reversed_allocation e amount a =
     (if amount = alloc_amount a then a\<lparr>alloc_reversed_at := Some (now e)\<rparr>
      else a\<lparr>alloc_amount := alloc_amount a - amount\<rparr>)"

text \<open>
  The loop over the active allocations, latest first: it takes back what is still to be refunded from
  each allocation and its installment. An installment met twice keeps its first change.
\<close>

fun reverse_allocations ::
  "env \<Rightarrow> ident \<Rightarrow> decimal \<Rightarrow> payment_allocation_row list \<Rightarrow> database \<Rightarrow> app_error + database \<times> decimal" where
  "reverse_allocations e org remaining [] s = Inr (s, remaining)"
| "reverse_allocations e org remaining (a # as) s =
     (if remaining \<le> 0 then Inr (s, remaining)
      else
        let amount = min (alloc_amount a) remaining in
        need_given (alloc_installment_id a) (find_installment s org) not_found (\<lambda>inst.
        let s1 = (case inst of None \<Rightarrow> s | Some i \<Rightarrow> put_installments [reversed_installment e amount i] s) in
        reverse_allocations e org (remaining - amount) as
          (put_allocations [reversed_allocation e amount a] s1)))"

text \<open>
  The status of a payment after the refund. The queries see the rows as they were before the
  loop: a payment whose last allocation is reversed here still counts as allocated, and the refund
  itself is not yet among the completed ones.
\<close>

definition refunded_payment :: "database \<Rightarrow> ident \<Rightarrow> refund_row \<Rightarrow> payment_row \<Rightarrow> payment_row" where
  "refunded_payment s org r x =
     (if list_all (\<lambda>a. \<not> active_allocation org [pay_id x] a) (payment_allocations s) \<or>
         (given (refund_payment_id r) \<noteq> None \<and>
          pay_amount x \<le> refund_total s org (pay_id x) (\<lambda>st. st = Payment_COMPLETED) + refund_amount r)
      then x\<lparr>pay_status := Payment_REFUNDED\<rparr> else x)"

definition processed_refund :: "env \<Rightarrow> string \<Rightarrow> refund_row \<Rightarrow> refund_row" where
  "processed_refund e reference r =
     r\<lparr>refund_status := Payment_COMPLETED, refund_reference_number := Some reference,
       refund_processed_at := Some (now e)\<rparr>"

definition refund_entry :: "env \<Rightarrow> ident \<Rightarrow> refund_row \<Rightarrow> string \<Rightarrow> customer_ledger_row" where
  "refund_entry e i r reference =
     \<lparr>ledger_id = i, ledger_organization_id = refund_organization_id r, ledger_customer_id = refund_customer_id r,
      ledger_booking_id = refund_booking_id r, ledger_payment_id = refund_payment_id r, ledger_receipt_id = None,
      ledger_entry_type = Ledger_DEBIT, ledger_amount = refund_amount r, ledger_currency = refund_currency r,
      ledger_description = [JStr ''Processed refund '', JStr reference],
      ledger_idempotency_key = ''refund:'' @ refund_id r @ '':processed'', ledger_posted_at = now e,
      ledger_created_at = now e\<rparr>"

definition process_refund ::
  "env \<Rightarrow> mutation_context \<Rightarrow> ident \<Rightarrow> ident \<Rightarrow> string \<Rightarrow> database \<Rightarrow>
   (database, collection_account_detail) outcome" where
  "process_refund e ctx org rid reference s =
     fetch s (find_refund s org rid) not_found (\<lambda>r.
     demand s (refund_status r = Payment_PROCESSING) (App_Error 409 ''REFUND_NOT_APPROVED'') (
     fetch s (given (refund_booking_id r)) (App_Error 409 ''REFUND_NOT_APPROVED'') (\<lambda>bid.
     attempt s (refund_payments s org bid r) (\<lambda>ps.
     let as = order_desc alloc_allocated_at (filter (active_allocation org (map pay_id ps)) (payment_allocations s)) in
     attempt s (reverse_allocations e org (refund_amount r) as s) (\<lambda>(s1, remaining).
     let r' = processed_refund e reference r;
         l = refund_entry e (uuid e 0) r reference;
         audit = audit_entry e (uuid e 1) org ctx ''collection.refund.processed'' ''refund'' (refund_id r)
           (Some [(''status'', JStr (payment_status_value Payment_PROCESSING))])
           (Some [(''status'', JStr (payment_status_value Payment_COMPLETED)), (''reference_number'', JStr reference),
                  (''amount'', JDec (refund_amount r))]) in
     demand s (ledger_key_free s org (ledger_idempotency_key l)) Integrity_Error (
     let t = add_audits [audit] (add_ledger l (put_refund r' (put_payments (map (refunded_payment s org r) ps) s1))) in
     respond t (detail e t org bid)))))))"

end
