(* ===== verification/Booking_Samples.thy ===== *)
theory Booking_Samples
  imports Samples Finance_Handlers
begin

text \<open>
  The sample organization with the rows of a sale: an accepted quotation with a verified KYC document,
  a booking with its plan of two installments, and a payment.
\<close>

definition sample_quotation :: quotation_row where
  "sample_quotation =
     \<lparr>quote_id = ''q'', quote_organization_id = ''o'', quote_lead_id = None,
      quote_customer_id = Some ''c'', quote_project_id = ''p'', quote_unit_id = Some ''x'',
      quote_cost_sheet_id = None, quote_parent_quotation_id = None,
      quote_created_by_user_id = ''c'', quote_quotation_number = ''q'', quote_version = 0,
      quote_status = Quotation_ACCEPTED, quote_currency = ''INR'', quote_subtotal = 0,
      quote_discount_amount = 0, quote_tax_amount = 0, quote_total = 100,
      quote_final_agreed_value = Some 100, quote_booking_amount = Some 10,
      quote_pricing_snapshot = None, quote_valid_until = 0, quote_issued_at = None,
      quote_created_at = 0, quote_updated_at = 0\<rparr>"

definition sample_document :: customer_document_row where
  "sample_document =
     \<lparr>doc_id = ''d'', doc_organization_id = ''o'', doc_customer_id = ''c'',
      doc_booking_id = None, doc_uploaded_by_user_id = None, doc_reviewed_by_user_id = None,
      doc_document_set_id = ''d'', doc_supersedes_document_id = None,
      doc_current_version_key = None, doc_version = 0, doc_is_current = True,
      doc_document_type = ''d'', doc_file_name = None, doc_storage_key = None,
      doc_content_type = None, doc_size_bytes = None, doc_checksum_sha256 = None,
      doc_status = Document_VERIFIED, doc_expiry_date = Some 40, doc_uploaded_at = None,
      doc_review_started_at = None, doc_reviewed_at = None, doc_rejection_reason = None,
      doc_review_notes = None, doc_created_at = 0, doc_updated_at = 0\<rparr>"

definition sample_offer :: database where
  "sample_offer = (sample_held Hold_ACTIVE 5000)\<lparr>quotations := [sample_quotation], customer_documents := [sample_document]\<rparr>"

definition sample_plan_input :: payment_plan_input where
  "sample_plan_input = \<lparr>pp_name = ''Plan'', pp_effective_from = 20, pp_installments =
     [\<lparr>ii_name = ''First'', ii_due_date = 25, ii_amount = 40\<rparr>, \<lparr>ii_name = ''Second'', ii_due_date = 30, ii_amount = 60\<rparr>]\<rparr>"

definition sample_joint :: joint_applicant_input where
  "sample_joint = \<lparr>ja_customer_id = None, ja_full_name = ''Joint'', ja_email = None, ja_phone = None,
     ja_date_of_birth = None, ja_tax_identifier = None, ja_relationship_to_primary = ''Spouse''\<rparr>"

definition sample_booking_create :: booking_create where
  "sample_booking_create = \<lparr>bc_quotation_id = ''q'', bc_unit_hold_id = ''h'', bc_booking_number = ''B2'',
     bc_salesperson_user_id = None, bc_channel_partner_id = None, bc_joint_applicants = [sample_joint],
     bc_financing = None, bc_payment_plan = sample_plan_input\<rparr>"

definition sample_booking :: "booking_status \<Rightarrow> booking_row" where
  "sample_booking st =
     \<lparr>booking_id = ''b'', booking_organization_id = ''o'', booking_unit_id = ''x'',
      booking_lead_id = None, booking_customer_id = ''c'', booking_quotation_id = Some ''q'',
      booking_unit_hold_id = Some ''h'', booking_booked_by_user_id = ''u'',
      booking_salesperson_user_id = Some ''u'', booking_channel_partner_id = None,
      booking_verified_by_user_id = None, booking_confirmed_by_user_id = None,
      booking_booking_number = ''B2'', booking_status = st, booking_booking_amount = 10,
      booking_agreed_price = Some 100, booking_discount_amount = 0, booking_currency = ''INR'',
      booking_active_unit_key = Some ''x'', booking_booked_at = None,
      booking_submitted_at = None, booking_verification_completed_at = None,
      booking_approval_requested_at = None, booking_rejected_at = None,
      booking_cancelled_at = None, booking_rejection_reason = None, booking_created_at = 0\<rparr>"

definition sample_plan :: payment_plan_row where
  "sample_plan =
     \<lparr>plan_id = ''l'', plan_organization_id = ''o'', plan_booking_id = ''b'',
      plan_name = ''Plan'', plan_status = Record_ACTIVE, plan_currency = ''INR'',
      plan_total_amount = 100, plan_effective_from = 20, plan_created_at = 0\<rparr>"

definition sample_installment :: "ident \<Rightarrow> int \<Rightarrow> decimal \<Rightarrow> decimal \<Rightarrow> installment_row" where
  "sample_installment i sequence amount paid =
     \<lparr>inst_id = i, inst_organization_id = ''o'', inst_payment_plan_id = ''l'',
      inst_sequence = sequence, inst_name = ''Part'', inst_due_date = 20 + 5 * sequence,
      inst_amount = amount, inst_paid_amount = paid, inst_status = Installment_SCHEDULED,
      inst_created_at = 0\<rparr>"

definition sample_payment :: "payment_status \<Rightarrow> payment_row" where
  "sample_payment st =
     \<lparr>pay_id = ''m'', pay_organization_id = ''o'', pay_booking_id = ''b'',
      pay_customer_id = ''c'', pay_installment_id = None, pay_verified_by_user_id = None,
      pay_amount = 70, pay_currency = ''INR'', pay_method = ''m'', pay_status = st,
      pay_reference_number = None, pay_idempotency_key = ''i'', pay_paid_at = Some 900,
      pay_verified_at = None, pay_created_at = 0\<rparr>"

definition sample_allocation :: "ident \<Rightarrow> ident \<Rightarrow> decimal \<Rightarrow> payment_allocation_row" where
  "sample_allocation i inst amount =
     \<lparr>alloc_id = i, alloc_organization_id = ''o'', alloc_payment_id = ''m'',
      alloc_installment_id = Some inst, alloc_demand_letter_id = None,
      alloc_allocated_by_user_id = ''u'', alloc_amount = amount, alloc_idempotency_key = ''i'',
      alloc_allocated_at = 0, alloc_reversed_at = None, alloc_created_at = 0\<rparr>"

definition sample_refund :: "payment_status \<Rightarrow> decimal \<Rightarrow> refund_row" where
  "sample_refund st amount =
     \<lparr>refund_id = ''r'', refund_organization_id = ''o'', refund_cancellation_id = None,
      refund_booking_id = Some ''b'', refund_payment_id = Some ''m'', refund_customer_id = ''c'',
      refund_requested_by_user_id = Some ''u'', refund_approved_by_user_id = None,
      refund_status = st, refund_amount = amount, refund_currency = ''INR'',
      refund_reference_number = None, refund_reason = None, refund_decision_notes = None,
      refund_idempotency_key = None, refund_requested_at = 0, refund_approved_at = None,
      refund_rejected_at = None, refund_processed_at = None, refund_created_at = 0\<rparr>"

definition sample_approval :: "approval_status \<Rightarrow> booking_approval_row" where
  "sample_approval st =
     \<lparr>appr_id = ''a'', appr_organization_id = ''o'', appr_booking_id = ''b'',
      appr_requested_by_user_id = ''u'', appr_approver_user_id = ''v'', appr_step_number = 1,
      appr_status = st, appr_comments = None, appr_decided_at = None, appr_created_at = 0\<rparr>"

text \<open>A booking of 100 with installments of 40 and 60, and a payment of 70 that is open or was allocated.\<close>

definition sample_booked :: "booking_status \<Rightarrow> database" where
  "sample_booked st = (sample_base Unit_BOOKING_INITIATED)\<lparr>bookings := [sample_booking st],
     customer_documents := [sample_document], payment_plans := [sample_plan],
     installments := [sample_installment ''i'' 1 40 0, sample_installment ''j'' 2 60 0]\<rparr>"

definition sample_paying :: database where
  "sample_paying = (sample_booked Booking_PAYMENT_PENDING)\<lparr>payments := [sample_payment Payment_PENDING]\<rparr>"

definition sample_paid :: database where
  "sample_paid = (sample_booked Booking_VERIFICATION)\<lparr>payments := [sample_payment Payment_COMPLETED],
     installments := [sample_installment ''i'' 1 40 40, sample_installment ''j'' 2 60 30],
     payment_allocations := [sample_allocation ''y'' ''i'' 40, sample_allocation ''z'' ''j'' 30]\<rparr>"

definition sample_refunding :: database where
  "sample_refunding = sample_paid\<lparr>refunds := [sample_refund Payment_PROCESSING 50]\<rparr>"

definition sample_deciding :: database where
  "sample_deciding = (sample_booked Booking_APPROVAL)\<lparr>booking_approvals := [sample_approval Approval_PENDING]\<rparr>"

definition sample_allocation_request :: payment_allocation_request where
  "sample_allocation_request = \<lparr>pa_installment_ids = [], pa_allow_unallocated_credit = False,
     pa_manual_reconciliation_reason = Some ''checked''\<rparr>"

definition sample_applicant :: booking_applicant_row where
  "sample_applicant =
     \<lparr>appl_id = ''k'', appl_organization_id = ''o'', appl_booking_id = ''b'', appl_customer_id = None,
      appl_sequence = 2, appl_is_primary = False, appl_primary_booking_key = None, appl_full_name = ''Joint'',
      appl_email = None, appl_phone = None, appl_date_of_birth = None, appl_tax_identifier = None,
      appl_relationship_to_primary = Some ''Spouse'', appl_created_at = 0\<rparr>"

definition sample_jointly :: database where
  "sample_jointly = (sample_booked Booking_PAYMENT_PENDING)\<lparr>booking_applicants := [sample_applicant]\<rparr>"

definition sample_payment_create :: booking_payment_create where
  "sample_payment_create = \<lparr>bp_installment_id = None, bp_amount = 20, bp_method = ''upi'', bp_reference_number = None,
     bp_idempotency_key = ''new-key'', bp_paid_at = None\<rparr>"

definition sample_refund_create :: refund_create where
  "sample_refund_create = \<lparr>rf_amount = 30, rf_reason = ''reason'', rf_idempotency_key = ''refund-key''\<rparr>"

definition sample_charge_create :: charge_create where
  "sample_charge_create = \<lparr>cc_charge_type = ChargeType_INTEREST, cc_calculation_date = 125,
     cc_annual_rate_percent = Some 18, cc_fixed_amount = None, cc_reason = ''late'', cc_idempotency_key = ''charge-key''\<rparr>"

lemmas booking_sample_defs = sample_defs sample_quotation_def sample_document_def sample_offer_def sample_plan_input_def
  sample_joint_def sample_booking_create_def sample_booking_def sample_plan_def sample_installment_def sample_payment_def
  sample_allocation_def sample_refund_def sample_approval_def sample_booked_def sample_paying_def sample_paid_def
  sample_refunding_def sample_deciding_def sample_allocation_request_def

end
