(* ===== verification/Booking_Claims.thy ===== *)
theory Booking_Claims
  imports Booking_Workflow Booking_Samples
begin

text \<open>
  The properties of the booking workflow, each with an application to the sample organization where
  it has hypotheses.
\<close>

lemma sample_offer_ok: "inventory_ok sample_offer"
  by code_simp

lemma sample_offer_booked:
  obtains t v where "create_booking sample_env (sample_context ''u'') ''o'' sample_booking_create sample_offer = Return t v"
proof -
  have "returned (create_booking sample_env (sample_context ''u'') ''o'' sample_booking_create sample_offer)" by code_simp
  then show thesis by (elim returnedE) (rule that)
qed

text \<open>
  C15: a booking takes over the unit from its hold. When \<^verbatim>\<open>create_booking\<close> returns, the quotation was
  accepted for this unit and customer, the named hold was active, not yet due and the only one on the
  unit; afterwards no hold reserves the unit, the one live booking of the unit is the new one, in
  \<^verbatim>\<open>PAYMENT_PENDING\<close> at the agreed price, and no other booking or unit has changed.
\<close>

theorem create_booking_takes_over:
  assumes "create_booking e ctx org p s = Return t v" "inventory_ok s" "fresh_env e s"
  shows "\<exists>q u h b. find_quotation s org (bc_quotation_id p) = Some q \<and> quote_status q = Quotation_ACCEPTED \<and>
    find_unit s org (unit_id u) = Some u \<and> quote_unit_id q = Some (unit_id u) \<and>
    find_hold s org (bc_unit_hold_id p) = Some h \<and> hold_status h = Hold_ACTIVE \<and> now e < hold_expires_at h \<and>
    hold_customer_id h = quote_customer_id q \<and> holds_of s org (unit_id u) = [h] \<and>
    live_bookings s org (unit_id u) = [] \<and>
    holds_of t org (unit_id u) = [] \<and> live_bookings t org (unit_id u) = [b] \<and> bookings t = bookings s @ [b] \<and>
    booking_status b = Booking_PAYMENT_PENDING \<and> booking_customer_id b \<in> set_option (quote_customer_id q) \<and>
    booking_agreed_price b = Some (or_decimal (quote_final_agreed_value q) (quote_total q)) \<and>
    units t = put_row unit_id (u\<lparr>unit_status := Unit_BOOKING_INITIATED\<rparr>) (units s)"
  using assms(1)
proof (rule create_booking_returns)
  fix s1 k q u h c sp amount s2 plan s3 as rs m n
  let ?b = "booked_row e (uuid e k) org ctx u c q h sp amount p"
  assume s1: "(s1, k) = expire_due_documents e 0 org s"
    and q: "find_quotation s org (bc_quotation_id p) = Some q" and u: "find_unit s org (unit_id u) = Some u"
    and h: "find_hold s org (bc_unit_hold_id p) = Some h"
    and qu: "quote_unit_id q = Some (unit_id u)" "quote_customer_id q = Some (cust_id c)"
    and guard: "quotation_and_hold_ok e s1 org q u h = Inr ()"
    and s2: "add_plan e (k + length (bc_joint_applicants p) + 2) org ?b (bc_payment_plan p)
      (add_applicants (new_applicants e (k + 1) org (uuid e k) c (bc_joint_applicants p)) (add_booking ?b s1)) = Inr (s2, plan)"
    and s3: "\<exists>i f. s3 = upsert_financing e i org (uuid e k) f s2"
    and t: "t = queue_in_app e n org rs m None None (add_audits as (add_ledger
       (agreed_value_entry e (uuid e (k + length (bc_joint_applicants p) + length (pp_installments (bc_payment_plan p)) + 4)) org ?b)
       (put_unit (u\<lparr>unit_status := Unit_BOOKING_INITIATED\<rparr>) (put_hold (converted_hold e h) s3))))"
  note g = quotation_and_hold_okD [OF guard] and ur = find_unitD [OF u]
  from s1 documents_sel [of e 0 org s] have same: "units s1 = units s" "unit_holds s1 = unit_holds s" "bookings s1 = bookings s"
    by (metis fst_conv)+
  have rows: "units t = put_row unit_id (u\<lparr>unit_status := Unit_BOOKING_INITIATED\<rparr>) (units s)"
    "unit_holds t = put_row hold_id (converted_hold e h) (unit_holds s)" "bookings t = bookings s @ [?b]"
    using s3 add_plan_sel [OF s2] same by (auto simp: t)
  from entityD [OF h] g have hin: "h \<in> set (holds_of s (unit_organization_id u) (unit_id u))"
    using ur by (simp add: holds_of_def)
  from unit_agrees_held [OF inventory_okD(6) [OF assms(2)] this] ur
  have one: "holds_of s org (unit_id u) = [h]" and none: "live_bookings s org (unit_id u) = []" by auto
  have "holds_of t org (unit_id u) = holds_of (put_hold (converted_hold e h) s) org (unit_id u)"
    using rows(2) by (simp add: holds_of_def)
  also have "\<dots> = []"
    using holds_of_put [OF inventory_okD(2) [OF assms(2)] one, of "converted_hold e h"] holds_ofD [OF hin] ur by simp
  finally have "holds_of t org (unit_id u) = []" .
  moreover have "live_bookings t org (unit_id u) = [?b]" using none rows(3) by (simp add: live_bookings_def)
  ultimately show ?thesis
    using q u h qu g one none rows by (intro exI [of _ q] exI [of _ u] exI [of _ h] exI [of _ ?b]) simp
qed

theorem create_booking_takes_over_witness:
  "\<exists>t v h b. create_booking sample_env (sample_context ''u'') ''o'' sample_booking_create sample_offer = Return t v \<and>
     holds_of sample_offer ''o'' ''x'' = [h] \<and> holds_of t ''o'' ''x'' = [] \<and> live_bookings t ''o'' ''x'' = [b]"
proof -
  obtain t v where ret: "create_booking sample_env (sample_context ''u'') ''o'' sample_booking_create sample_offer = Return t v"
    by (rule sample_offer_booked)
  have "fresh_env sample_env sample_offer" by (rule sample_env_fresh) code_simp
  from create_booking_takes_over [OF ret sample_offer_ok this] obtain q and u :: unit_row and h b where
    "find_quotation sample_offer ''o'' ''q'' = Some q" "quote_unit_id q = Some (unit_id u)"
    "holds_of sample_offer ''o'' (unit_id u) = [h]" "holds_of t ''o'' (unit_id u) = []" "live_bookings t ''o'' (unit_id u) = [b]"
    by (simp add: sample_booking_create_def) blast
  moreover from this(1,2) have "unit_id u = ''x''" by (auto simp: booking_sample_defs entity_def)
  ultimately show ?thesis using ret by auto
qed


text \<open>
  What a booking is worth, and on what documents. When \<^verbatim>\<open>create_booking\<close> returns, the customer has
  a current verified document that is not past its date; the payment plan it adds is active, its total
  and the sum of its installments are the agreed price, and the customer is debited exactly that price.
\<close>

theorem create_booking_prices:
  assumes "create_booking e ctx org p s = Return t v"
  shows "\<exists>b plan new entry d. bookings t = bookings s @ [b] \<and>
    last (payment_plans t) = plan \<and> plan_booking_id plan = booking_id b \<and> plan_status plan = Record_ACTIVE \<and>
    Some (plan_total_amount plan) = booking_agreed_price b \<and>
    installments t = installments s @ new \<and> sum_list (map inst_amount new) = plan_total_amount plan \<and>
    map inst_sequence new = map int [1..<Suc (length new)] \<and> (\<forall>i \<in> set new. inst_payment_plan_id i = plan_id plan) \<and>
    customer_ledger t = customer_ledger s @ [entry] \<and> ledger_entry_type entry = Ledger_DEBIT \<and>
    ledger_amount entry = plan_total_amount plan \<and> ledger_booking_id entry = Some (booking_id b) \<and>
    d \<in> set (customer_documents t) \<and> doc_customer_id d = booking_customer_id b \<and> doc_is_current d \<and>
    doc_status d = Document_VERIFIED \<and> (case doc_expiry_date d of None \<Rightarrow> True | Some x \<Rightarrow> utc_today e \<le> x)"
  using assms
proof (rule create_booking_returns)
  fix s1 k q u h c sp amount s2 plan s3 as rs m n
  let ?b = "booked_row e (uuid e k) org ctx u c q h sp amount p"
  let ?entry = "agreed_value_entry e (uuid e (k + length (bc_joint_applicants p) +
    length (pp_installments (bc_payment_plan p)) + 4)) org ?b"
  assume s1: "(s1, k) = expire_due_documents e 0 org s" and kyc: "has_verified_kyc s1 org (cust_id c)"
    and s2: "add_plan e (k + length (bc_joint_applicants p) + 2) org ?b (bc_payment_plan p)
      (add_applicants (new_applicants e (k + 1) org (uuid e k) c (bc_joint_applicants p)) (add_booking ?b s1)) = Inr (s2, plan)"
    and s3: "\<exists>i f. s3 = upsert_financing e i org (uuid e k) f s2"
    and t: "t = queue_in_app e n org rs m None None (add_audits as (add_ledger ?entry
       (put_unit (u\<lparr>unit_status := Unit_BOOKING_INITIATED\<rparr>) (put_hold (converted_hold e h) s3))))"
  from s1 documents_sel [of e 0 org s] documents_reads [of e 0 org s]
  have same: "bookings s1 = bookings s" "installments s1 = installments s" "customer_ledger s1 = customer_ledger s"
    by (metis fst_conv)+
  from s3 obtain i f where s3: "s3 = upsert_financing e i org (uuid e k) f s2" by blast
  from verified_after_expiry [OF s1 kyc] obtain d where d: "d \<in> set (customer_documents s1)" "doc_customer_id d = cust_id c"
    "doc_is_current d" "doc_status d = Document_VERIFIED" "case doc_expiry_date d of None \<Rightarrow> True | Some x \<Rightarrow> utc_today e \<le> x"
    by blast
  note added = add_plan_adds [OF s2]
  have "bookings t = bookings s @ [?b]" "customer_documents t = customer_documents s1" "installments t = installments s2"
    "payment_plans t = payment_plans s2" "customer_ledger t = customer_ledger s @ [?entry]"
    using add_plan_sel [OF s2] added same by (simp_all add: t s3 booking_writes)
  with d added same show ?thesis
    by (intro exI [of _ ?b] exI [of _ plan] exI [of _ "new_installments e (k + length (bc_joint_applicants p) + 2 + 1) org
        (plan_id plan) (pp_installments (bc_payment_plan p))"] exI [of _ ?entry] exI [of _ d])
      (simp add: agreed_value_entry_def new_installments_rows booking_writes del: upt_Suc)
qed


theorem create_booking_prices_witness:
  "\<exists>t v b entry. create_booking sample_env (sample_context ''u'') ''o'' sample_booking_create sample_offer = Return t v \<and>
     booking_agreed_price b = Some (ledger_amount entry) \<and> bookings t = [b] \<and> customer_ledger t = [entry]"
proof -
  obtain t v where ret: "create_booking sample_env (sample_context ''u'') ''o'' sample_booking_create sample_offer = Return t v"
    by (rule sample_offer_booked)
  from create_booking_prices [OF ret] obtain b entry where "bookings t = bookings sample_offer @ [b]"
    "customer_ledger t = customer_ledger sample_offer @ [entry]" "Some (ledger_amount entry) = booking_agreed_price b"
    by metis
  with ret show ?thesis by (intro exI [of _ t] exI [of _ v] exI [of _ b] exI [of _ entry]) (simp add: booking_sample_defs)
qed

text \<open>
  What deciding an approval step does. When \<^verbatim>\<open>decide_approval\<close> returns, the booking was in
  \<^verbatim>\<open>APPROVAL\<close> and the step was pending and assigned to the actor, who is not its requester. A rejection
  ends the booking, cancels every other pending step and releases the unit; an approval leaves booking and
  unit alone while another step is pending, and otherwise confirms the booking with every step approved
  and marks the unit \<^verbatim>\<open>BOOKED\<close>.
\<close>

theorem decide_approval_outcomes:
  assumes "decide_approval e ctx org bid aid p s = Return t v" "approvals_ok s"
  shows "\<exists>b u a. find_booking s org bid = Some b \<and> find_unit s org (booking_unit_id b) = Some u \<and>
    find_approval s org aid = Some a \<and> appr_booking_id a = bid \<and> booking_status b = Booking_APPROVAL \<and>
    appr_status a = Approval_PENDING \<and> appr_approver_user_id a = actor_user_id ctx \<and>
    appr_requested_by_user_id a \<noteq> actor_user_id ctx \<and>
    (if ad_status p = Decision_REJECTED then
       bookings t = put_row booking_id (rejected_booking e (Some (strip (ad_comments p))) b) (bookings s) \<and>
       units t = put_row unit_id (u\<lparr>unit_status := Unit_CANCELLED_RELEASED\<rparr>) (units s) \<and>
       \<not> some_status Approval_PENDING (approvals_of t org bid)
     else if some_status Approval_PENDING (approvals_of t org bid) then
       bookings t = bookings s \<and> units t = units s
     else bookings t = put_row booking_id (confirmed_booking e ctx b) (bookings s) \<and>
       units t = put_row unit_id (u\<lparr>unit_status := Unit_BOOKED\<rparr>) (units s) \<and>
       all_status [Approval_APPROVED] (approvals_of t org bid))"
  using assms(1)
proof (rule decide_approval_returns)
  fix b u a s1 b'
  assume b: "find_booking s org bid = Some b" and u: "find_unit s org (booking_unit_id b) = Some u"
    and a: "find_approval s org aid = Some a"
    and g: "appr_booking_id a = booking_id b" "booking_status b = Booking_APPROVAL" "appr_status a = Approval_PENDING"
      "appr_approver_user_id a = actor_user_id ctx"
    and r: "apply_decision e ctx org b u (decided_approval e p a) s = Inr (s1, b')"
    and same: "bookings t = bookings s1" "units t = units s1" "booking_approvals t = booking_approvals s1"
  note bk = find_bookingD [OF b] and row = approval_row [OF a]
  have okt: "approvals_ok t" using decide_approval_approvals [OF assms(2), of e ctx org bid aid p] assms(1) by simp
  have chain: "approvals_of t org bid = approvals_of s1 org (booking_id b)" using same(3) bk by (simp add: approvals_of_def)
  have self: "appr_requested_by_user_id a \<noteq> actor_user_id ctx"
    using approvals_okD(4) [OF assms(2) row(1)] g(4) by simp
  note outcome = apply_decision_outcome [OF r]
  have none: "\<not> some_status Approval_PENDING (approvals_of t org bid)" if "ad_status p = Decision_REJECTED"
  proof -
    have "b'' \<in> set (bookings t) \<Longrightarrow> chain_ok (booking_status b'') (approvals_of t (booking_organization_id b'') (booking_id b''))"
      for b'' by (rule approvals_okD(5) [OF okt])
    moreover have "rejected_booking e (Some (strip (ad_comments p))) b \<in> set (bookings t)"
      using outcome that bk unfolding same by (force simp: set_put_row rejected_booking_def)
    ultimately have "chain_ok Booking_REJECTED (approvals_of t org bid)"
      using bk by (force simp: rejected_booking_def)
    then show ?thesis by (auto simp: all_status_def some_status_def list_all_iff list_ex_iff)
  qed
  have all: "all_status [Approval_APPROVED] (approvals_of t org bid)"
    if "bookings t = put_row booking_id (confirmed_booking e ctx b) (bookings s)"
  proof -
    have "confirmed_booking e ctx b \<in> set (bookings t)"
      using that bk by (force simp: set_put_row confirmed_booking_def)
    from approvals_okD(5) [OF okt this] bk show ?thesis by (simp add: confirmed_booking_def)
  qed
  show ?thesis
    using b u a g self bk outcome none all unfolding same chain
    by (intro exI [of _ b] exI [of _ u] exI [of _ a]) (cases "ad_status p"; simp split: if_splits)
qed


lemma sample_deciding_ok: "approvals_ok sample_deciding"
  by code_simp

theorem decide_approval_outcomes_witness:
  "\<exists>t v b. decide_approval sample_env (sample_context ''v'') ''o'' ''b'' ''a''
       \<lparr>ad_status = Decision_APPROVED, ad_comments = ''fine''\<rparr> sample_deciding = Return t v \<and>
     find_booking sample_deciding ''o'' ''b'' = Some b \<and> booking_status b = Booking_APPROVAL"
proof -
  have "returned (decide_approval sample_env (sample_context ''v'') ''o'' ''b'' ''a''
       \<lparr>ad_status = Decision_APPROVED, ad_comments = ''fine''\<rparr> sample_deciding)" by code_simp
  then obtain t v where ret: "decide_approval sample_env (sample_context ''v'') ''o'' ''b'' ''a''
       \<lparr>ad_status = Decision_APPROVED, ad_comments = ''fine''\<rparr> sample_deciding = Return t v" by (rule returnedE)
  from decide_approval_outcomes [OF ret sample_deciding_ok] ret show ?thesis by blast
qed

text \<open>
  C20: submitting a payment is bounded and can be retried. When \<^verbatim>\<open>create_payment\<close> returns, either its
  idempotency key was already used for this booking and amount and nothing was written, or the submitted
  payments of the booking stay within the agreed price; and the same request sent again, at whatever time
  and by whomever, returns the same answer and changes nothing.
\<close>

theorem create_payment_retry:
  assumes "create_payment e ctx org bid p s = Return t v"
  shows "create_payment e' ctx' org bid p t = Return t v \<and>
    (t = s \<and> payment_by_key s org (bp_idempotency_key p) \<noteq> None \<or>
     (\<exists>b. find_booking s org bid = Some b \<and>
       payment_total t org bid submitted_statuses = payment_total s org bid submitted_statuses + bp_amount p \<and>
       (\<forall>a \<in> set_option (booking_agreed_price b). payment_total t org bid submitted_statuses \<le> a)))"
proof -
  from assms(1) obtain b where b: "find_booking s org bid = Some b"
    and st: "booking_status b = Booking_PAYMENT_PENDING \<or> booking_status b = Booking_VERIFICATION"
    by (auto simp: create_payment_def outcome_simps)
  note bk = find_bookingD [OF b]
  show ?thesis
  proof (cases "payment_by_key s org (bp_idempotency_key p)")
    case (Some x)
    with assms(1) b st show ?thesis by (auto simp: create_payment_def outcome_simps)
  next
    case None
    let ?x = "new_payment e (uuid e 0) org b p"
    let ?b = "if booking_booking_amount b \<le> payment_total s org bid submitted_statuses + pay_amount ?x
      then b\<lparr>booking_status := Booking_VERIFICATION, booking_submitted_at := Some (now e)\<rparr> else b"
    from assms(1) b None bk have bound: "case booking_agreed_price b of None \<Rightarrow> True
        | Some a \<Rightarrow> payment_total s org bid submitted_statuses + bp_amount p \<le> a"
      and t: "\<exists>as. t = add_audits as (put_booking ?b (add_payment ?x s))" and v: "booking_view_of t org ?b = Inr v"
      by (auto simp: create_payment_def Let_def outcome_simps fetch_given_def split: option.splits)
    from t have rows: "bookings t = put_row booking_id ?b (bookings s)" "payments t = payments s @ [?x]"
      by (auto simp: booking_writes)
    have "find_booking t org bid = Some ?b"
      using entity_put_same [OF b, of ?b] bk by (simp add: rows)
    moreover have "payment_by_key t org (bp_idempotency_key p) = Some ?x"
      using None by (simp add: payment_by_key_def rows new_payment_def) (simp add: first_row_def)
    ultimately have "create_payment e' ctx' org bid p t = Return t v"
      using st v bk by (simp add: create_payment_def demand_def fetch_def respond_def new_payment_def)
    moreover have "payment_total t org bid submitted_statuses = payment_total s org bid submitted_statuses + bp_amount p"
      using bk by (simp add: payment_total_def rows sum_where_append new_payment_def submitted_statuses_def)
    ultimately show ?thesis using b bound by (auto split: option.splits)
  qed
qed


theorem create_payment_retry_witness:
  "\<exists>t v. create_payment sample_env (sample_context ''u'') ''o'' ''b'' sample_payment_create sample_paying = Return t v \<and>
     create_payment sample_env (sample_context ''v'') ''o'' ''b'' sample_payment_create t = Return t v"
proof -
  have "returned (create_payment sample_env (sample_context ''u'') ''o'' ''b'' sample_payment_create sample_paying)" by code_simp
  then obtain t v where ret: "create_payment sample_env (sample_context ''u'') ''o'' ''b'' sample_payment_create sample_paying =
    Return t v" by (rule returnedE)
  from create_payment_retry [OF ret, of sample_env "sample_context ''v''"] ret show ?thesis by blast
qed

text \<open>
  C24: joint applicants cannot be replaced once there are some. If the booking has an applicant with the
  sequence number 2, the first one a joint applicant gets, then every \<^verbatim>\<open>replace_joint_applicants\<close> with a
  non-empty list raises and changes nothing; for an open booking with known customers the error is the
  uncaught violation of \<^verbatim>\<open>uq_booking_applicants_sequence\<close>, because the flush inserts before it deletes.
\<close>

theorem replace_joint_applicants_fails:
  assumes "a \<in> set (booking_applicants s)" "appl_organization_id a = org" "appl_booking_id a = bid" "appl_sequence a = 2"
    and "items \<noteq> []"
  shows "\<exists>err. replace_joint_applicants e ctx org bid items s = Raise s err \<and>
    (\<forall>b c. find_booking s org bid = Some b \<and> \<not> final_status (booking_status b) \<and> booking_status b \<noteq> Booking_APPROVAL \<and>
       find_customer s org (booking_customer_id b) = Some c \<and> applicants_known s org items = Inr () \<longrightarrow> err = Integrity_Error)"
proof -
  have "\<not> sequences_free s org (booking_id b) (map appl_sequence (map (\<lambda>(i, item). joint_applicant e (uuid e i) org
      (booking_id b) (i + 2) (ja_relationship_to_primary item) item) (enumerate 0 items)))"
    if "find_booking s org bid = Some b" for b
  proof -
    from assms(5) obtain item rest where "items = item # rest" by (cases items) auto
    with assms(1-4) find_bookingD [OF that] show ?thesis
      by (auto simp: sequences_free_def list_all_iff joint_applicant_def intro!: bexI [of _ a])
  qed
  then show ?thesis
    unfolding replace_joint_applicants_def Let_def demand_def fetch_def attempt_def
    by (auto split: option.splits sum.splits)
qed

theorem replace_joint_applicants_fails_witness:
  "replace_joint_applicants sample_env (sample_context ''u'') ''o'' ''b'' [sample_joint] sample_jointly =
     Raise sample_jointly Integrity_Error"
proof -
  have a: "sample_applicant \<in> set (booking_applicants sample_jointly)" "appl_organization_id sample_applicant = ''o''"
    "appl_booking_id sample_applicant = ''b''" "appl_sequence sample_applicant = 2"
    by (simp_all add: sample_jointly_def sample_applicant_def)
  have "find_booking sample_jointly ''o'' ''b'' = Some (sample_booking Booking_PAYMENT_PENDING)"
    "find_customer sample_jointly ''o'' (booking_customer_id (sample_booking Booking_PAYMENT_PENDING)) = Some sample_customer"
    "applicants_known sample_jointly ''o'' [sample_joint] = Inr ()"
    by (simp_all add: sample_jointly_def booking_sample_defs entity_def need_given_def given_def)
  moreover have "\<not> final_status (booking_status (sample_booking Booking_PAYMENT_PENDING))"
    "booking_status (sample_booking Booking_PAYMENT_PENDING) \<noteq> Booking_APPROVAL"
    by (simp_all add: sample_booking_def final_status_def)
  ultimately show ?thesis
    using replace_joint_applicants_fails [OF a, of "[sample_joint]" sample_env "sample_context ''u''"] by auto
qed

end
