(* ===== verification/Finance_Spread.thy ===== *)
theory Finance_Spread
  imports Finance_Handlers
begin

text \<open>
  The loop that spreads a payment over installments: what each installment receives, how much is
  spent and what remains.
\<close>

section \<open>Writing several rows\<close>

lemma put_rows_simps [simp]:
  "put_rows id_of [] rows = rows"
  "put_rows id_of (n # new) rows = put_rows id_of new (put_row id_of n rows)"
  by (simp_all add: put_rows_def)

lemma map_id_put_rows [simp]: "map id_of (put_rows id_of new rows) = map id_of rows"
  by (induction new arbitrary: rows) simp_all

lemma put_rows_map:
  assumes "distinct (map id_of new)"
  shows "put_rows id_of new rows = map (\<lambda>x. case find (\<lambda>n. id_of n = id_of x) new of None \<Rightarrow> x | Some n \<Rightarrow> n) rows"
  using assms
proof (induction new arbitrary: rows)
  case (Cons n new)
  have fresh: "find (\<lambda>m. id_of m = id_of n) new = None"
    unfolding find_None using Cons.prems by (simp add: image_iff) metis
  show ?case using Cons fresh by (simp add: put_row_def)
qed simp

text \<open>A written row replaces the one with its key.\<close>

lemma in_put_rows:
  assumes "distinct (map id_of new)" "x' \<in> set (put_rows id_of new rows)"
  obtains x where "x \<in> set rows" "x' = x" "\<forall>n \<in> set new. id_of n \<noteq> id_of x"
  | x where "x \<in> set rows" "x' \<in> set new" "id_of x' = id_of x"
proof -
  from assms obtain x where x: "x \<in> set rows"
    "x' = (case find (\<lambda>n. id_of n = id_of x) new of None \<Rightarrow> x | Some n \<Rightarrow> n)"
    by (auto simp: put_rows_map)
  show thesis
  proof (cases "find (\<lambda>n. id_of n = id_of x) new")
    case None
    with x that(1) show ?thesis by (simp add: find_None)
  next
    case (Some n)
    from find_SomeD [OF this] x Some that(2) show ?thesis by simp
  qed
qed

section \<open>Filling installments\<close>

definition filled_amount :: "(nat \<times> installment_row \<times> decimal) list \<Rightarrow> ident \<Rightarrow> decimal" where
  "filled_amount xs iid = sum_where (\<lambda>(k, i, a). inst_id i = iid) (\<lambda>(k, i, a). a) xs"

definition spent :: "(nat \<times> installment_row \<times> decimal) list \<Rightarrow> decimal" where
  "spent xs = sum_list (map (\<lambda>(k, i, a). a) xs)"

definition open_total :: "installment_row list \<Rightarrow> decimal" where
  "open_total is = sum_list (map open_amount is)"

lemma open_amount_nonneg [simp]: "0 \<le> open_amount i"
  by (simp add: open_amount_def)

lemma open_total_nonneg [simp]: "0 \<le> open_total is"
  unfolding open_total_def by (rule sum_list_nonneg) auto

text \<open>The three ways through one round of the loop.\<close>

lemma spread_Cons:
  assumes "spread k r (i # is) = (xs, r')"
  obtains (skip) "min (open_amount i) r \<le> 0" "spread (k + 1) r is = (xs, r')"
  | (last) "0 < r" "r \<le> open_amount i" "xs = [(k, i, r)]" "r' = 0"
  | (more) ys where "0 < open_amount i" "open_amount i < r" "spread (k + 1) (r - open_amount i) is = (ys, r')"
      "xs = (k, i, open_amount i) # ys"
proof (cases "min (open_amount i) r \<le> 0")
  case True
  with assms skip show thesis by simp
next
  case False
  then have pos: "0 < open_amount i" "0 < r" by (simp_all add: min_def split: if_splits)
  show thesis
  proof (cases "r \<le> open_amount i")
    case True
    then have "min (open_amount i) r = r" by (rule min_absorb2)
    with assms pos last True show thesis by simp
  next
    case False
    obtain ys s where "spread (k + 1) (r - open_amount i) is = (ys, s)" by (metis prod.exhaust)
    moreover from False have "min (open_amount i) r = open_amount i" by simp
    ultimately show thesis using assms pos False more by simp
  qed
qed

lemma spread_in:
  "spread k r is = (xs, r') \<Longrightarrow> (j, i, a) \<in> set xs \<Longrightarrow> i \<in> set is \<and> 0 < a \<and> a \<le> open_amount i"
proof (induction "is" arbitrary: k r xs)
  case (Cons i0 "is")
  from Cons.prems(1) show ?case by (cases rule: spread_Cons) (use Cons in auto)
qed simp

lemma spread_ids:
  "spread k r is = (xs, r') \<Longrightarrow> distinct (map inst_id is) \<Longrightarrow> distinct (map (\<lambda>(j, i, a). inst_id i) xs)"
proof (induction "is" arbitrary: k r xs)
  case (Cons i0 "is")
  from Cons.prems(1) show ?case
  proof (cases rule: spread_Cons)
    case (more ys)
    have "inst_id i0 \<notin> (\<lambda>(j, i, a). inst_id i) ` set ys"
      using Cons.prems(2) by (auto dest!: spread_in [OF more(3)])
    with more Cons show ?thesis by simp
  qed (use Cons in auto)
qed simp

text \<open>Everything open is filled until the payment is used up.\<close>

lemma spread_total:
  "spread k r is = (xs, r') \<Longrightarrow> 0 \<le> r \<Longrightarrow> spent xs = min r (open_total is) \<and> r' = r - spent xs"
proof (induction "is" arbitrary: k r xs)
  case (Cons i0 "is")
  have total: "open_total (i0 # is) = open_amount i0 + open_total is" by (simp add: open_total_def)
  from Cons.prems(1) show ?case
  proof (cases rule: spread_Cons)
    case skip
    with Cons.prems(2) have "r = 0 \<or> open_amount i0 = 0"
      using open_amount_nonneg [of i0] by (metis min_def order_antisym)
    with Cons.IH [OF skip(2) Cons.prems(2)] Cons.prems(2) show ?thesis unfolding total by (auto simp: min_def)
  next
    case last
    then have "r \<le> open_amount i0 + open_total is" by (simp add: add_increasing2)
    with last show ?thesis unfolding total by (simp add: spent_def min_def)
  next
    case (more ys)
    from Cons.IH [OF more(3)] more(2) show ?thesis unfolding total more(4) by (auto simp: spent_def min_def)
  qed
qed (simp add: spent_def open_total_def)

text \<open>The installments are filled in order: only the last one that receives something may stay open.\<close>

lemma spread_order:
  "spread k r is = (xs, r') \<Longrightarrow> (j, i, a) \<in> set (butlast xs) \<Longrightarrow> a = open_amount i"
proof (induction "is" arbitrary: k r xs)
  case (Cons i0 "is")
  from Cons.prems(1) show ?case by (cases rule: spread_Cons) (use Cons in \<open>auto split: if_splits\<close>)
qed simp

lemma filled_amount_in:
  "distinct (map (\<lambda>(j, i, a). inst_id i) xs) \<Longrightarrow> (j, i, a) \<in> set xs \<Longrightarrow> filled_amount xs (inst_id i) = a"
proof (induction xs)
  case (Cons x xs)
  have none: "filled_amount ys (inst_id i) = 0" if "inst_id i \<notin> (\<lambda>(j, i, a). inst_id i) ` set ys" for ys
    using that by (induction ys) (auto simp: filled_amount_def split: prod.splits)
  obtain j0 i0 a0 where x: "x = (j0, i0, a0)" by (metis prod_cases3)
  show ?case
  proof (cases "x = (j, i, a)")
    case True
    with Cons.prems none [of xs] x show ?thesis by (simp add: filled_amount_def)
  next
    case False
    with Cons.prems(2) have "(j, i, a) \<in> set xs" by simp
    moreover from this Cons.prems(1) x have "inst_id i0 \<noteq> inst_id i" by force
    ultimately show ?thesis using Cons x by (simp add: filled_amount_def)
  qed
qed simp

lemma filled_amount_out:
  "iid \<notin> (\<lambda>(j, i, a). inst_id i) ` set xs \<Longrightarrow> filled_amount xs iid = 0"
  by (induction xs) (auto simp: filled_amount_def split: prod.splits)

text \<open>The order of the installments of a plan does not lose or add any.\<close>

lemma set_by_due_date [simp]: "set (by_due_date is) = set is"
  by (simp add: by_due_date_def)

lemma distinct_by_due_date [simp]: "distinct (by_due_date is) = distinct is"
  by (simp add: by_due_date_def)

lemma set_allocation_order [simp]: "set (allocation_order ids is) = set is"
  by (simp add: allocation_order_def)

lemma distinct_allocation_order [simp]: "distinct (map f (allocation_order ids is)) = distinct (map f is)"
  by (simp add: allocation_order_def distinct_map)

lemma refreshed_sel [simp]:
  "inst_id (refreshed e i) = inst_id i" "inst_organization_id (refreshed e i) = inst_organization_id i"
  "inst_payment_plan_id (refreshed e i) = inst_payment_plan_id i" "inst_due_date (refreshed e i) = inst_due_date i"
  "inst_amount (refreshed e i) = inst_amount i" "inst_paid_amount (refreshed e i) = inst_paid_amount i"
  "open_amount (refreshed e i) = open_amount i"
  by (simp_all add: refreshed_def open_amount_def)

lemma set_current_installments:
  "set (current_installments e s org pid) =
     refreshed e ` {i \<in> set (installments s). inst_organization_id i = org \<and> inst_payment_plan_id i = pid}"
  by (simp add: current_installments_def)

lemma distinct_current_installments:
  "distinct (map inst_id (installments s)) \<Longrightarrow> distinct (map inst_id (current_installments e s org pid))"
  by (auto simp add: current_installments_def comp_def distinct_map inj_on_def)

end
