(* ===== verification/Finance_Safety.thy ===== *)
theory Finance_Safety
  imports Finance_Spread Booking_Safety
begin

text \<open>
  The invariant of the money rows: what is marked as paid on an installment is what the active
  allocations put there and never more than its amount; a payment is never allocated or refunded
  beyond its amount, and neither allocated nor refunded before it is verified.

  The loop of \<^verbatim>\<open>process_refund\<close> that takes allocations back: on sound rows it never fails, it takes
  back the smaller of the refund and what is allocated, and the rows stay sound.
\<close>

definition paid_in :: "database \<Rightarrow> ident \<Rightarrow> ident \<Rightarrow> decimal" where
  "paid_in s org iid =
      sum_where (\<lambda>a. alloc_organization_id a = org \<and> alloc_installment_id a = Some iid \<and> alloc_reversed_at a = None)
        alloc_amount (payment_allocations s)"

definition allocated_of :: "database \<Rightarrow> ident \<Rightarrow> ident \<Rightarrow> decimal" where
  "allocated_of s org pid = sum_where (active_allocation org [pid]) alloc_amount (payment_allocations s)"

definition finalised :: "payment_status \<Rightarrow> bool" where
  "finalised st \<longleftrightarrow> st = Payment_COMPLETED \<or> st = Payment_REFUNDED"

definition installment_sound :: "database \<Rightarrow> installment_row \<Rightarrow> bool" where
  "installment_sound s i \<longleftrightarrow> inst_id i \<noteq> [] \<and> 0 \<le> inst_paid_amount i \<and> inst_paid_amount i \<le> inst_amount i \<and>
      inst_paid_amount i = paid_in s (inst_organization_id i) (inst_id i)"

definition payment_sound :: "database \<Rightarrow> payment_row \<Rightarrow> bool" where
  "payment_sound s x \<longleftrightarrow> 0 < pay_amount x \<and>
      allocated_of s (pay_organization_id x) (pay_id x) \<le> (if finalised (pay_status x) then pay_amount x else 0) \<and>
      refund_total s (pay_organization_id x) (pay_id x) counted_refund \<le> (if finalised (pay_status x) then pay_amount x else 0)"

definition payment_known :: "database \<Rightarrow> ident \<Rightarrow> ident \<Rightarrow> bool" where
  "payment_known s org pid \<longleftrightarrow> list_ex (\<lambda>x. pay_organization_id x = org \<and> pay_id x = pid) (payments s)"

definition installment_known :: "database \<Rightarrow> ident \<Rightarrow> ident \<Rightarrow> bool" where
  "installment_known s org iid \<longleftrightarrow> list_ex (\<lambda>x. inst_organization_id x = org \<and> inst_id x = iid) (installments s)"

definition allocation_sound :: "database \<Rightarrow> payment_allocation_row \<Rightarrow> bool" where
  "allocation_sound s a \<longleftrightarrow> 0 < alloc_amount a \<and> payment_known s (alloc_organization_id a) (alloc_payment_id a) \<and>
      (case alloc_installment_id a of None \<Rightarrow> True | Some i \<Rightarrow> installment_known s (alloc_organization_id a) i)"

definition refund_sound :: "database \<Rightarrow> refund_row \<Rightarrow> bool" where
  "refund_sound s r \<longleftrightarrow> 0 < refund_amount r \<and>
      (case refund_payment_id r of None \<Rightarrow> True | Some p \<Rightarrow> payment_known s (refund_organization_id r) p)"

definition finance_ok :: "database \<Rightarrow> bool" where
  "finance_ok s \<longleftrightarrow>
      distinct (map inst_id (installments s)) \<and> distinct (map pay_id (payments s)) \<and>
      distinct (map alloc_id (payment_allocations s)) \<and> distinct (map refund_id (refunds s)) \<and>
      list_all (installment_sound s) (installments s) \<and> list_all (payment_sound s) (payments s) \<and>
      list_all (allocation_sound s) (payment_allocations s) \<and> list_all (refund_sound s) (refunds s)"

lemma finance_ok_empty: "finance_ok empty_database"
  by (simp add: finance_ok_def empty_database_def)

lemma finance_okD:
  assumes "finance_ok s"
  shows "distinct (map inst_id (installments s))" "distinct (map pay_id (payments s))"
    "distinct (map alloc_id (payment_allocations s))" "distinct (map refund_id (refunds s))"
    "i \<in> set (installments s) \<Longrightarrow> installment_sound s i" "x \<in> set (payments s) \<Longrightarrow> payment_sound s x"
    "a \<in> set (payment_allocations s) \<Longrightarrow> allocation_sound s a" "r \<in> set (refunds s) \<Longrightarrow> refund_sound s r"
  using assms by (auto simp: finance_ok_def list_all_iff)

lemma finance_okI:
  assumes "distinct (map inst_id (installments s))" "distinct (map pay_id (payments s))"
    and "distinct (map alloc_id (payment_allocations s))" "distinct (map refund_id (refunds s))"
    and "\<And>i. i \<in> set (installments s) \<Longrightarrow> installment_sound s i" "\<And>x. x \<in> set (payments s) \<Longrightarrow> payment_sound s x"
    and "\<And>a. a \<in> set (payment_allocations s) \<Longrightarrow> allocation_sound s a" "\<And>r. r \<in> set (refunds s) \<Longrightarrow> refund_sound s r"
  shows "finance_ok s"
  using assms by (simp add: finance_ok_def list_all_iff)

lemma finance_ok_frame:
  assumes "installments t = installments s" "payments t = payments s"
    and "payment_allocations t = payment_allocations s" "refunds t = refunds s"
  shows "finance_ok t = finance_ok s"
proof -
  have "paid_in t = paid_in s" "allocated_of t = allocated_of s" "refund_total t = refund_total s"
    "payment_known t = payment_known s" "installment_known t = installment_known s"
    by (simp_all add: fun_eq_iff paid_in_def allocated_of_def refund_total_def payment_known_def installment_known_def assms)
  then have "installment_sound t = installment_sound s" "payment_sound t = payment_sound s"
    "allocation_sound t = allocation_sound s" "refund_sound t = refund_sound s"
    by (simp_all add: fun_eq_iff installment_sound_def payment_sound_def allocation_sound_def refund_sound_def
      split: option.split)
  then show ?thesis by (simp add: finance_ok_def assms)
qed

lemmas finance_frame = finance_ok_frame [THEN iffD2]
lemmas finance_intros = outcome_intros [where P = finance_ok]

lemma paid_in_nonneg: "finance_ok s \<Longrightarrow> 0 \<le> paid_in s org iid"
  unfolding paid_in_def by (rule sum_where_nonneg) (auto dest: finance_okD(7) simp: allocation_sound_def)

lemma allocated_of_nonneg: "finance_ok s \<Longrightarrow> 0 \<le> allocated_of s org pid"
  unfolding allocated_of_def by (rule sum_where_nonneg) (auto dest: finance_okD(7) simp: allocation_sound_def)

section \<open>Changes of one kind of row\<close>

lemma payment_writes_sel [simp]:
  "payments (add_payment x s) = payments s @ [x]" "installments (add_payment x s) = installments s"
  "payment_allocations (add_payment x s) = payment_allocations s" "refunds (add_payment x s) = refunds s"
  "payments (put_payment x s) = put_row pay_id x (payments s)" "installments (put_payment x s) = installments s"
  "payment_allocations (put_payment x s) = payment_allocations s" "refunds (put_payment x s) = refunds s"
  by (simp_all add: add_payment_def put_payment_def)

text \<open>A payment is rewritten and stays verified when it was.\<close>

lemma put_payment_finance:
  assumes ok: "finance_ok s" and x: "x \<in> set (payments s)"
    and same: "pay_id x' = pay_id x" "pay_organization_id x' = pay_organization_id x" "pay_amount x' = pay_amount x"
    and st: "finalised (pay_status x) \<longrightarrow> finalised (pay_status x')"
  shows "finance_ok (put_payment x' s)"
proof (rule finance_okI)
  let ?t = "put_payment x' s"
  have known: "payment_known ?t = payment_known s"
  proof (intro ext)
    fix org pid
    show "payment_known ?t org pid = payment_known s org pid"
    using x same finance_okD(2) [OF ok]
    by (auto simp: payment_known_def list_ex_iff set_put_row) (metis distinct_map inj_onD)+
  qed
  have sums: "paid_in ?t = paid_in s" "allocated_of ?t = allocated_of s" "refund_total ?t = refund_total s"
    by (simp_all add: fun_eq_iff paid_in_def allocated_of_def refund_total_def)
  have rest: "installment_known ?t = installment_known s"
    by (simp add: fun_eq_iff installment_known_def)
  show "payment_sound ?t y" if "y \<in> set (payments ?t)" for y
  proof (cases "y = x'")
    case True
    have "payment_sound s x" by (rule finance_okD(6) [OF ok x])
    then show ?thesis using st same unfolding True payment_sound_def sums by (auto split: if_splits)
  next
    case False
    with that finance_okD(6) [OF ok, of y] show ?thesis
    by (auto simp: set_put_row payment_sound_def sums split: if_splits)
  qed
  show "allocation_sound ?t a" if "a \<in> set (payment_allocations ?t)" for a
    using that finance_okD(7) [OF ok, of a] by (auto simp: allocation_sound_def known rest split: option.splits)
  show "refund_sound ?t r" if "r \<in> set (refunds ?t)" for r
    using that finance_okD(8) [OF ok, of r] by (auto simp: refund_sound_def known split: option.splits)
  show "installment_sound ?t i" if "i \<in> set (installments ?t)" for i
    using that finance_okD(5) [OF ok, of i] by (simp add: installment_sound_def sums)
qed (use finance_okD(1-4) [OF ok] in simp_all)

lemma unknown_payment_sums:
  assumes ok: "finance_ok s" and "\<not> payment_known s org pid"
  shows "allocated_of s org pid = 0" "refund_total s org pid p = 0"
proof -
  have "sum_where (active_allocation org [pid]) alloc_amount (payment_allocations s) =
    sum_where (\<lambda>_. False) alloc_amount (payment_allocations s)"
    by (rule sum_where_cong) (use assms(2) finance_okD(7) [OF ok] in \<open>auto simp: active_allocation_def allocation_sound_def\<close>)
  then show "allocated_of s org pid = 0" by (simp add: allocated_of_def sum_where_def)
  have "refund_total s org pid p = sum_where (\<lambda>_. False) refund_amount (refunds s)" unfolding refund_total_def
    by (rule sum_where_cong) (use assms(2) finance_okD(8) [OF ok] in \<open>force simp: refund_sound_def\<close>)+
  then show "refund_total s org pid p = 0" by (simp add: sum_where_def)
qed

lemma add_payment_finance:
  assumes ok: "finance_ok s" and fresh: "id_free pay_id (pay_id x) (payments s)" and pos: "0 < pay_amount x"
  shows "finance_ok (add_payment x s)"
proof (rule finance_okI)
  let ?t = "add_payment x s"
  from fresh have "\<not> payment_known s (pay_organization_id x) (pay_id x)"
    by (auto simp: payment_known_def list_ex_iff id_free_def list_all_iff)
  note new = unknown_payment_sums [OF ok this]
  have more: "payment_known s org pid \<Longrightarrow> payment_known ?t org pid" for org pid
    by (auto simp: payment_known_def)
  have sums: "paid_in ?t = paid_in s" "allocated_of ?t = allocated_of s" "refund_total ?t = refund_total s"
    by (simp_all add: fun_eq_iff paid_in_def allocated_of_def refund_total_def)
  have rest: "installment_known ?t = installment_known s"
    by (simp add: fun_eq_iff installment_known_def)
  show "payment_sound ?t y" if "y \<in> set (payments ?t)" for y
    using that finance_okD(6) [OF ok, of y] pos new by (auto simp: payment_sound_def sums)
  show "allocation_sound ?t a" if "a \<in> set (payment_allocations ?t)" for a
    using that finance_okD(7) [OF ok, of a] more by (auto simp: allocation_sound_def rest split: option.splits)
  show "refund_sound ?t r" if "r \<in> set (refunds ?t)" for r
    using that finance_okD(8) [OF ok, of r] more by (auto simp: refund_sound_def split: option.splits)
  show "installment_sound ?t i" if "i \<in> set (installments ?t)" for i
    using that finance_okD(5) [OF ok, of i] by (simp add: installment_sound_def sums)
  show "distinct (map pay_id (payments ?t))"
    using id_free_distinct [OF finance_okD(2) [OF ok] fresh] by simp
qed (use finance_okD(1,3,4) [OF ok] in simp_all)

text \<open>New installments start unpaid.\<close>

lemma unknown_installment_paid:
  assumes ok: "finance_ok s" and "\<not> installment_known s org iid"
  shows "paid_in s org iid = 0"
proof -
  have "paid_in s org iid = sum_where (\<lambda>_. False) alloc_amount (payment_allocations s)" unfolding paid_in_def
    by (rule sum_where_cong) (use assms(2) finance_okD(7) [OF ok] in \<open>force simp: allocation_sound_def\<close>)+
  then show ?thesis by (simp add: sum_where_def)
qed

lemma add_installments_finance:
  assumes ok: "finance_ok s" and ids: "distinct (map inst_id (installments s @ new))"
    and new: "\<And>i. i \<in> set new \<Longrightarrow> inst_id i \<noteq> [] \<and> inst_paid_amount i = 0 \<and> 0 \<le> inst_amount i"
    and t: "installments t = installments s @ new" "payments t = payments s"
      "payment_allocations t = payment_allocations s" "refunds t = refunds s"
  shows "finance_ok t"
proof (rule finance_okI)
  have sums: "paid_in t = paid_in s" "allocated_of t = allocated_of s" "refund_total t = refund_total s"
    "payment_known t = payment_known s"
    by (simp_all add: fun_eq_iff paid_in_def allocated_of_def refund_total_def payment_known_def t)
  have more: "installment_known s org iid \<Longrightarrow> installment_known t org iid" for org iid
    by (auto simp: installment_known_def t)
  show "installment_sound t i" if "i \<in> set (installments t)" for i
  proof (cases "i \<in> set (installments s)")
    case True
    with finance_okD(5) [OF ok True] show ?thesis by (simp add: installment_sound_def sums)
  next
    case False
    with that have i: "i \<in> set new" by (simp add: t)
    with ids have "\<not> installment_known s (inst_organization_id i) (inst_id i)"
      by (auto simp: installment_known_def list_ex_iff)
    from unknown_installment_paid [OF ok this] new [OF i] show ?thesis by (simp add: installment_sound_def sums)
  qed
  show "payment_sound t y" if "y \<in> set (payments t)" for y
    using that finance_okD(6) [OF ok, of y] by (simp add: payment_sound_def sums t)
  show "allocation_sound t a" if "a \<in> set (payment_allocations t)" for a
    using that finance_okD(7) [OF ok, of a] more by (auto simp: allocation_sound_def sums t split: option.splits)
  show "refund_sound t r" if "r \<in> set (refunds t)" for r
    using that finance_okD(8) [OF ok, of r] by (auto simp: refund_sound_def sums t split: option.splits)
qed (use finance_okD(2-4) [OF ok] ids in \<open>simp_all add: t\<close>)

text \<open>A refund is requested within what its payment still has, or decided and processed.\<close>

lemma add_refund_finance:
  assumes ok: "finance_ok s" and fresh: "id_free refund_id (refund_id r) (refunds s)"
    and x: "x \<in> set (payments s)" "refund_payment_id r = Some (pay_id x)" "refund_organization_id r = pay_organization_id x"
    and room: "finalised (pay_status x)" "0 < refund_amount r"
      "refund_total s (pay_organization_id x) (pay_id x) counted_refund + refund_amount r \<le> pay_amount x"
    and t: "refunds t = refunds s @ [r]" "payments t = payments s" "installments t = installments s"
      "payment_allocations t = payment_allocations s"
  shows "finance_ok t"
proof (rule finance_okI)
  have sums: "paid_in t = paid_in s" "allocated_of t = allocated_of s" "payment_known t = payment_known s"
    "installment_known t = installment_known s"
    by (simp_all add: fun_eq_iff paid_in_def allocated_of_def payment_known_def installment_known_def t)
  have total: "refund_total t org pid p = refund_total s org pid p +
      (if org = pay_organization_id x \<and> pid = pay_id x \<and> p (refund_status r) then refund_amount r else 0)" for org pid p
    using x by (auto simp: refund_total_def t sum_where_append)
  show "payment_sound t y" if "y \<in> set (payments t)" for y
  proof (cases "y = x")
    case True
    with finance_okD(6) [OF ok x(1)] room show ?thesis by (auto simp: payment_sound_def sums total)
  next
    case False
    with that x(1) finance_okD(2) [OF ok] have "pay_id y \<noteq> pay_id x" unfolding t by (metis distinct_map inj_onD)
    with that finance_okD(6) [OF ok, of y] show ?thesis by (simp add: payment_sound_def sums total t)
  qed
  show "refund_sound t q" if "q \<in> set (refunds t)" for q
    using that finance_okD(8) [OF ok, of q] x room(2)
    by (auto simp: refund_sound_def sums t payment_known_def list_ex_iff split: option.splits)
  show "allocation_sound t a" if "a \<in> set (payment_allocations t)" for a
    using that finance_okD(7) [OF ok, of a] by (auto simp: allocation_sound_def sums t split: option.splits)
  show "installment_sound t i" if "i \<in> set (installments t)" for i
    using that finance_okD(5) [OF ok, of i] by (simp add: installment_sound_def sums t)
  show "distinct (map refund_id (refunds t))"
    unfolding t by (rule id_free_distinct [OF finance_okD(4) [OF ok] fresh])
qed (use finance_okD(1-3) [OF ok] in \<open>simp_all add: t\<close>)

lemma put_refund_finance:
  assumes ok: "finance_ok s" and r: "r \<in> set (refunds s)"
    and same: "refund_id r' = refund_id r" "refund_organization_id r' = refund_organization_id r"
      "refund_payment_id r' = refund_payment_id r" "refund_amount r' = refund_amount r"
    and st: "counted_refund (refund_status r') \<longrightarrow> counted_refund (refund_status r)"
    and t: "refunds t = put_row refund_id r' (refunds s)" "payments t = payments s" "installments t = installments s"
      "payment_allocations t = payment_allocations s"
  shows "finance_ok t"
proof (rule finance_okI)
  have sums: "paid_in t = paid_in s" "allocated_of t = allocated_of s" "payment_known t = payment_known s"
    "installment_known t = installment_known s"
    by (simp_all add: fun_eq_iff paid_in_def allocated_of_def payment_known_def installment_known_def t)
  have "0 < refund_amount r" using finance_okD(8) [OF ok r] by (simp add: refund_sound_def)
  then have total: "refund_total t org pid counted_refund \<le> refund_total s org pid counted_refund" for org pid
    using same st unfolding refund_total_def t(1) sum_where_put [OF finance_okD(4) [OF ok] r same(1)] by auto
  show "payment_sound t y" if "y \<in> set (payments t)" for y
  proof -
    from that finance_okD(6) [OF ok, of y] total [of "pay_organization_id y" "pay_id y"] show ?thesis
      by (auto simp: payment_sound_def sums t split: if_splits)
  qed
  show "refund_sound t q" if "q \<in> set (refunds t)" for q
    using that finance_okD(8) [OF ok, of q] finance_okD(8) [OF ok r] same
    by (auto simp: refund_sound_def sums t set_put_row split: option.splits if_splits)
  show "allocation_sound t a" if "a \<in> set (payment_allocations t)" for a
    using that finance_okD(7) [OF ok, of a] by (auto simp: allocation_sound_def sums t split: option.splits)
  show "installment_sound t i" if "i \<in> set (installments t)" for i
    using that finance_okD(5) [OF ok, of i] by (simp add: installment_sound_def sums t)
qed (use finance_okD(1-4) [OF ok] in \<open>simp_all add: t\<close>)

section \<open>One allocation\<close>

lemma sum_where_member:
  "(\<And>y. y \<in> set rows \<Longrightarrow> p y \<Longrightarrow> 0 \<le> f y) \<Longrightarrow> x \<in> set rows \<Longrightarrow> p x \<Longrightarrow> f x \<le> sum_where p f rows"
proof (induction rows)
  case (Cons y ys)
  have "0 \<le> sum_where p f ys" by (rule sum_where_nonneg) (use Cons.prems(1) in auto)
  moreover have "0 \<le> f y" if "p y" using Cons.prems(1) that by simp
  ultimately show ?case using Cons by (auto simp: add_increasing add_increasing2)
qed simp

lemma reversed_allocation_sel [simp]:
  "alloc_id (reversed_allocation e amount a) = alloc_id a"
  "alloc_organization_id (reversed_allocation e amount a) = alloc_organization_id a"
  "alloc_payment_id (reversed_allocation e amount a) = alloc_payment_id a"
  "alloc_installment_id (reversed_allocation e amount a) = alloc_installment_id a"
  by (simp_all add: reversed_allocation_def)

lemma reversed_installment_sel [simp]:
  "inst_id (reversed_installment e amount i) = inst_id i"
  "inst_organization_id (reversed_installment e amount i) = inst_organization_id i"
  "inst_amount (reversed_installment e amount i) = inst_amount i"
  "inst_paid_amount (reversed_installment e amount i) = max (inst_paid_amount i - amount) 0"
  by (simp_all add: reversed_installment_def Let_def)

text \<open>The active total of any selection that the reversal does not change loses exactly the amount.\<close>

lemma active_total_put:
  assumes "distinct (map alloc_id rows)" "a \<in> set rows" "alloc_reversed_at a = None"
    and "p (reversed_allocation e amount a) = p a"
  shows "sum_where (\<lambda>x. p x \<and> alloc_reversed_at x = None) alloc_amount
      (put_row alloc_id (reversed_allocation e amount a) rows) =
    sum_where (\<lambda>x. p x \<and> alloc_reversed_at x = None) alloc_amount rows - (if p a then amount else 0)"
  unfolding sum_where_put [OF assms(1,2) reversed_allocation_sel(1)]
  using assms(3,4) by (auto simp: reversed_allocation_def split: if_splits)

lemma active_allocation_alt:
  "active_allocation org pids = (\<lambda>a. (alloc_organization_id a = org \<and> alloc_payment_id a \<in> set pids) \<and> alloc_reversed_at a = None)"
  by (simp add: fun_eq_iff active_allocation_def)

lemma need_given_Inr: "need_given x look err k = Inr v \<Longrightarrow> \<exists>r. k r = Inr v"
  by (auto simp: need_given_def need_Inr split: option.splits)

definition reversal_step ::
  "env \<Rightarrow> decimal \<Rightarrow> payment_allocation_row \<Rightarrow> installment_row option \<Rightarrow> database \<Rightarrow> database" where
  "reversal_step e amount a inst s =
     put_allocations [reversed_allocation e amount a]
       (case inst of None \<Rightarrow> s | Some i \<Rightarrow> put_installments [reversed_installment e amount i] s)"

lemma reversal_step_sel [simp]:
  "payments (reversal_step e amount a inst s) = payments s" "refunds (reversal_step e amount a inst s) = refunds s"
  "payment_allocations (reversal_step e amount a inst s) = put_row alloc_id (reversed_allocation e amount a) (payment_allocations s)"
  "installments (reversal_step e amount a inst s) =
     (case inst of None \<Rightarrow> installments s | Some i \<Rightarrow> put_row inst_id (reversed_installment e amount i) (installments s))"
  by (simp_all add: reversal_step_def put_allocations_def put_installments_def split: option.split)

lemma paid_in_at_least:
  assumes ok: "finance_ok s" and a: "a \<in> set (payment_allocations s)" "alloc_reversed_at a = None"
    "alloc_installment_id a = Some iid"
  shows "alloc_amount a \<le> paid_in s (alloc_organization_id a) iid"
  unfolding paid_in_def
  by (rule sum_where_member [OF _ a(1)]) (use a finance_okD(7) [OF ok] in \<open>auto simp: allocation_sound_def intro: less_imp_le\<close>)

lemma reversal_step_finance:
  assumes ok: "finance_ok s" and a: "a \<in> set (payment_allocations s)" "alloc_reversed_at a = None"
    and amount: "0 < amount" "amount \<le> alloc_amount a"
    and inst: "case alloc_installment_id a of None \<Rightarrow> inst = None
      | Some iid \<Rightarrow> (\<exists>i. inst = Some i \<and> find_installment s (alloc_organization_id a) iid = Some i)"
  shows "finance_ok (reversal_step e amount a inst s)"
proof (rule finance_okI)
  let ?t = "reversal_step e amount a inst s"
  note ids = finance_okD(3) [OF ok]
  have paid: "paid_in ?t org iid = paid_in s org iid -
      (if org = alloc_organization_id a \<and> alloc_installment_id a = Some iid then amount else 0)" for org iid
    using active_total_put [OF ids a, of "\<lambda>x. alloc_organization_id x = org \<and> alloc_installment_id x = Some iid" e amount]
    by (auto simp: paid_in_def)
  have allocated: "allocated_of ?t org pid \<le> allocated_of s org pid" for org pid
    using active_total_put [OF ids a, of "\<lambda>x. alloc_organization_id x = org \<and> alloc_payment_id x \<in> set [pid]" e amount] amount(1)
    unfolding allocated_of_def active_allocation_alt by (simp split: if_splits)
  have known: "payment_known ?t = payment_known s" "refund_total ?t = refund_total s"
    by (simp_all add: fun_eq_iff payment_known_def refund_total_def)
  have i: "i \<in> set (installments s)" "inst_organization_id i = alloc_organization_id a" "alloc_installment_id a = Some (inst_id i)"
    if "inst = Some i" for i
    using that inst by (auto split: option.splits dest: entityD)
  have rows: "installment_known ?t = installment_known s"
  proof (intro ext)
    fix org iid
    show "installment_known ?t org iid = installment_known s org iid"
    proof (cases inst)
      case (Some j)
      with i [OF Some] finance_okD(1) [OF ok] show ?thesis
        by (auto simp: installment_known_def list_ex_iff set_put_row) (metis distinct_map inj_onD)+
    qed (simp add: installment_known_def)
  qed
  show "installment_sound ?t x" if x: "x \<in> set (installments ?t)" for x
  proof (cases "\<exists>i. inst = Some i \<and> inst_id x = inst_id i")
    case True
    then obtain j where j: "inst = Some j" "inst_id x = inst_id j" by blast
    with x have x': "x = reversed_installment e amount j" by (auto simp: set_put_row split: if_splits)
    from finance_okD(5) [OF ok i(1) [OF j(1)]] have sound: "installment_sound s j" .
    from paid_in_at_least [OF ok a i(3) [OF j(1)]] sound amount i(2) [OF j(1)]
    have "amount \<le> inst_paid_amount j" by (simp add: installment_sound_def)
    with sound i [OF j(1)] amount show ?thesis by (simp add: x' installment_sound_def paid)
  next
    case False
    with x have x': "x \<in> set (installments s)" by (auto simp: set_put_row split: option.splits if_splits)
    have "alloc_installment_id a \<noteq> Some (inst_id x)"
    proof
      assume "alloc_installment_id a = Some (inst_id x)"
      with inst obtain j where "inst = Some j" "inst_id j = inst_id x" by (auto dest: entityD)
      with False show False by simp
    qed
    with finance_okD(5) [OF ok x'] show ?thesis by (simp add: installment_sound_def paid)
  qed
  show "payment_sound ?t y" if "y \<in> set (payments ?t)" for y
    using that finance_okD(6) [OF ok, of y] order_trans [OF allocated [of "pay_organization_id y" "pay_id y"]]
    by (simp add: payment_sound_def known)
  show "allocation_sound ?t b" if "b \<in> set (payment_allocations ?t)" for b
  proof (cases "b = reversed_allocation e amount a")
    case True
    have "0 < alloc_amount (reversed_allocation e amount a)" using amount by (simp add: reversed_allocation_def)
    with finance_okD(7) [OF ok a(1)] show ?thesis
      unfolding True allocation_sound_def reversed_allocation_sel known rows by simp
  next
    case False
    with that have "b \<in> set (payment_allocations s)" by (auto simp: set_put_row split: if_splits)
    from finance_okD(7) [OF ok this] show ?thesis unfolding allocation_sound_def known rows .
  qed
  show "refund_sound ?t r" if "r \<in> set (refunds ?t)" for r
    using that finance_okD(8) [OF ok, of r] by (auto simp: refund_sound_def known split: option.splits)
qed (use finance_okD(1-4) [OF ok] in \<open>simp_all split: option.split\<close>)

section \<open>The loop\<close>

lemma reverse_allocations_ok:
  assumes "finance_ok s" "distinct (map alloc_id as)" "0 \<le> remaining"
    and "\<And>a. a \<in> set as \<Longrightarrow> a \<in> set (payment_allocations s) \<and> active_allocation org pids a"
  shows "\<exists>t. reverse_allocations e org remaining as s = Inr (t, remaining - min remaining (sum_list (map alloc_amount as))) \<and>
    finance_ok t \<and> payments t = payments s \<and> refunds t = refunds s \<and>
    sum_where (active_allocation org pids) alloc_amount (payment_allocations t) =
      sum_where (active_allocation org pids) alloc_amount (payment_allocations s) -
        min remaining (sum_list (map alloc_amount as))"
  using assms
proof (induction as arbitrary: s remaining)
  case Nil
  then show ?case by (simp add: min_def)
next
  case (Cons a as)
  from Cons.prems(4) have a: "a \<in> set (payment_allocations s)" "active_allocation org pids a" by simp_all
  then have a': "alloc_reversed_at a = None" "alloc_organization_id a = org" by (simp_all add: active_allocation_def)
  from finance_okD(7) [OF Cons.prems(1) a(1)] have sound: "allocation_sound s a" .
  then have pos: "0 < alloc_amount a" by (simp add: allocation_sound_def)
  have rest: "0 \<le> sum_list (map alloc_amount as)"
    by (rule sum_list_nonneg) (use Cons.prems finance_okD(7) [OF Cons.prems(1)] in \<open>force simp: allocation_sound_def\<close>)
  show ?case
  proof (cases "remaining \<le> 0")
    case True
    with Cons.prems have "remaining = 0" by simp
    with Cons.prems pos rest show ?thesis by (simp add: min_def)
  next
    case False
    let ?m = "min (alloc_amount a) remaining"
    obtain inst where inst: "case alloc_installment_id a of None \<Rightarrow> inst = None
        | Some iid \<Rightarrow> (\<exists>i. inst = Some i \<and> find_installment s org iid = Some i)"
      and step: "reverse_allocations e org remaining (a # as) s =
        reverse_allocations e org (remaining - ?m) as (reversal_step e ?m a inst s)"
    proof (cases "alloc_installment_id a")
      case None
      with False that [of None] show thesis
        by (simp add: need_given_def given_def reversal_step_def Let_def)
    next
      case (Some iid)
      with sound a'(2) obtain i where i: "i \<in> set (installments s)" "inst_organization_id i = org" "inst_id i = iid"
        by (auto simp: allocation_sound_def installment_known_def list_ex_iff)
      have f: "find_installment s org iid = Some i"
        by (rule entity_unique [where id_of = inst_id and org_of = inst_organization_id])
          (use finance_okD(1) [OF Cons.prems(1)] i in simp_all)
      from finance_okD(5) [OF Cons.prems(1) i(1)] i(3) have "iid \<noteq> []" by (auto simp: installment_sound_def)
      with Some f False that [of "Some i"] show thesis
        by (simp add: need_given_def given_def need_def reversal_step_def Let_def)
    qed
    let ?s = "reversal_step e ?m a inst s"
    have ok: "finance_ok ?s"
      by (rule reversal_step_finance [OF Cons.prems(1) a(1) a'(1)]) (use False pos inst a'(2) in auto)
    have kept: "b \<in> set (payment_allocations ?s) \<and> active_allocation org pids b" if "b \<in> set as" for b
    proof -
      from that Cons.prems(2) have "alloc_id b \<noteq> alloc_id a" by (auto simp: image_iff)
      with Cons.prems(4) [of b] that show ?thesis by (simp add: set_put_row)
    qed
    have total: "sum_where (active_allocation org pids) alloc_amount (payment_allocations ?s) =
        sum_where (active_allocation org pids) alloc_amount (payment_allocations s) - ?m"
      using active_total_put [OF finance_okD(3) [OF Cons.prems(1)] a(1) a'(1),
          of "\<lambda>a. alloc_organization_id a = org \<and> alloc_payment_id a \<in> set pids" e ?m] a(2)
      by (simp add: active_allocation_alt)
    have "0 \<le> remaining - ?m" by simp
    from Cons.IH [OF ok _ this kept] Cons.prems(2)
    obtain t where t: "reverse_allocations e org (remaining - ?m) as ?s =
        Inr (t, remaining - ?m - min (remaining - ?m) (sum_list (map alloc_amount as)))" "finance_ok t"
      "payments t = payments ?s" "refunds t = refunds ?s"
      "sum_where (active_allocation org pids) alloc_amount (payment_allocations t) =
        sum_where (active_allocation org pids) alloc_amount (payment_allocations ?s) -
        min (remaining - ?m) (sum_list (map alloc_amount as))" by auto
    have "?m + min (remaining - ?m) (sum_list (map alloc_amount as)) =
        min remaining (alloc_amount a + sum_list (map alloc_amount as))"
      using rest by (auto simp: min_def)
    with t total step show ?thesis by (simp add: algebra_simps)
  qed
qed

end
