(* ===== verification/Finance_Keeps.thy ===== *)
theory Finance_Keeps
  imports Finance_Safety Booking_Approvals
begin

text \<open>
  Every operation on money rows, of the collections workflow and of the booking workflow, keeps the
  money rows sound.
\<close>

section \<open>Allocating a payment\<close>

lemma new_allocation_sel [simp]:
  "alloc_id (new_allocation e j s org ctx x k i a) = j"
  "alloc_organization_id (new_allocation e j s org ctx x k i a) = org"
  "alloc_payment_id (new_allocation e j s org ctx x k i a) = pay_id x"
  "alloc_installment_id (new_allocation e j s org ctx x k i a) = Some (inst_id i)"
  "alloc_amount (new_allocation e j s org ctx x k i a) = a"
  "alloc_reversed_at (new_allocation e j s org ctx x k i a) = None"
  by (simp_all add: new_allocation_def)

lemma in_new_allocations:
  "a \<in> set (new_allocations e n s org ctx x xs) \<Longrightarrow>
   \<exists>j k i amount. (k, i, amount) \<in> set xs \<and> a = new_allocation e (uuid e (n + j)) s org ctx x k i amount"
  by (force simp: new_allocations_def dest: in_enumerateD)

lemma sum_new_allocations:
  assumes "\<And>j k i a. p (new_allocation e j s org ctx x k i a) = q i"
  shows "sum_where p alloc_amount (new_allocations e n s org ctx x xs) =
    sum_where (\<lambda>(k, i, a). q i) (\<lambda>(k, i, a). a) xs"
proof -
  have "sum_where p alloc_amount
      (map (\<lambda>(j, k, i, amount). new_allocation e (uuid e (n + j)) s org ctx x k i amount) (enumerate m xs)) =
      sum_where (\<lambda>(k, i, a). q i) (\<lambda>(k, i, a). a) xs" for m
    by (induction xs arbitrary: m) (auto simp: assms split: prod.splits)
  then show ?thesis by (simp add: new_allocations_def)
qed

lemma new_allocations_ids: "map alloc_id (new_allocations e n s org ctx x xs) = map (\<lambda>j. uuid e (n + j)) [0..<length xs]"
  using map_enumerate_fst [of "\<lambda>j. uuid e (n + j)" 0 xs]
  by (simp add: new_allocations_def comp_def case_prod_beta)

lemma fresh_ids_distinct:
  assumes "fresh_env e s" "distinct (map id_of rows)" "\<And>n. id_free id_of (uuid e n) rows"
    and "map id_of new = map (\<lambda>j. uuid e (n + j)) [0..<m]"
  shows "distinct (map id_of (rows @ new))"
proof -
  have "distinct (map id_of new)"
    unfolding assms(4) distinct_map using fresh_env_uuid [OF assms(1)] by (simp add: inj_on_def)
  moreover have "set (map id_of rows) \<inter> set (map id_of new) = {}"
    unfolding assms(4) using assms(3) by (fastforce simp: id_free_def list_all_iff)
  ultimately show ?thesis using assms(2) by (simp only: map_append distinct_append)
qed

lemma paid_installment_sel [simp]:
  "inst_id (paid_installment a i) = inst_id i" "inst_organization_id (paid_installment a i) = inst_organization_id i"
  "inst_amount (paid_installment a i) = inst_amount i" "inst_paid_amount (paid_installment a i) = inst_paid_amount i + a"
  by (simp_all add: paid_installment_def)

text \<open>Each installment is paid what the loop gave it, all other columns that matter stay.\<close>

lemma allocated_installments:
  assumes ids: "distinct (map inst_id (installments s))"
    and rows: "set is = set (current_installments e s org pid)" "distinct (map inst_id is)"
    and xs: "spread k r is = (xs, r')"
    and y: "y \<in> set (put_rows inst_id (map (\<lambda>(k, i, a). paid_installment a i) xs)
      (put_rows inst_id (current_installments e s org pid) (installments s)))"
  obtains i where "i \<in> set (installments s)" "inst_id y = inst_id i" "inst_organization_id y = inst_organization_id i"
    "inst_amount y = inst_amount i" "inst_paid_amount y = inst_paid_amount i + filled_amount xs (inst_id i)"
    "filled_amount xs (inst_id i) = 0 \<or> inst_organization_id i = org \<and> 0 < filled_amount xs (inst_id i) \<and>
      filled_amount xs (inst_id i) \<le> open_amount i"
proof -
  have xids: "distinct (map (\<lambda>(k, i, a). inst_id i) xs)" by (rule spread_ids [OF xs rows(2)])
  have "map inst_id (map (\<lambda>(k, i, a). paid_installment a i) xs) = map (\<lambda>(k, i, a). inst_id i) xs" by auto
  with xids have pids: "distinct (map inst_id (map (\<lambda>(k, i, a). paid_installment a i) xs))" by (simp only:)
  have stored: "\<exists>i \<in> set (installments s). (z = i \<or> z = refreshed e i) \<and> (z \<in> set is \<longrightarrow> inst_organization_id i = org)"
    if "z \<in> set (put_rows inst_id (current_installments e s org pid) (installments s))" for z
  proof -
    from distinct_current_installments [OF ids] that show ?thesis
    proof (cases rule: in_put_rows)
      case (1 x)
      then have "z \<notin> set is" using rows(1) by blast
      with 1 show ?thesis by blast
    next
      case (2 x)
      then show ?thesis by (auto simp: set_current_installments)
    qed
  qed
  from pids y show thesis
  proof (cases rule: in_put_rows)
    case (1 x)
    then have "filled_amount xs (inst_id x) = 0" by (intro filled_amount_out) (auto simp: image_iff)
    moreover from stored [OF 1(1)] obtain i where "i \<in> set (installments s)" "x = i \<or> x = refreshed e i" by blast
    ultimately show ?thesis using 1(2) by (intro that [of i]) auto
  next
    case (2 x)
    then obtain j i a where a: "(j, i, a) \<in> set xs" "y = paid_installment a i" by auto
    from spread_in [OF xs a(1)] have i: "i \<in> set is" "0 < a" "a \<le> open_amount i" by simp_all
    with rows(1) obtain i0 where i0: "i0 \<in> set (installments s)" "inst_organization_id i0 = org" "i = refreshed e i0"
      by (auto simp: set_current_installments)
    with a i filled_amount_in [OF xids a(1)] show ?thesis by (intro that [of i0]) simp_all
  qed
qed

lemma allocate_write_finance:
  assumes ok: "finance_ok s" and fresh: "fresh_env e s"
    and x: "x \<in> set (payments s)" "\<not> finalised (pay_status x)" "pay_organization_id x = org"
    and x': "pay_id x' = pay_id x" "pay_organization_id x' = org" "pay_amount x' = pay_amount x" "finalised (pay_status x')"
    and rows: "set is = set (current_installments e s org pid)" "distinct (map inst_id is)"
    and xs: "spread k (pay_amount x) is = (xs, r')"
    and t: "installments t = put_rows inst_id (map (\<lambda>(k, i, a). paid_installment a i) xs)
        (put_rows inst_id (current_installments e s org pid) (installments s))"
      "payments t = put_row pay_id x' (payments s)" "refunds t = refunds s"
      "payment_allocations t = payment_allocations s @ new_allocations e n s org ctx x xs"
  shows "finance_ok t"
proof (rule finance_okI)
  have paid: "paid_in t o' iid = paid_in s o' iid + (if o' = org then filled_amount xs iid else 0)" for o' iid
  proof -
    have "sum_where (\<lambda>a. alloc_organization_id a = o' \<and> alloc_installment_id a = Some iid \<and> alloc_reversed_at a = None)
        alloc_amount (new_allocations e n s org ctx x xs) =
      sum_where (\<lambda>(k, i, a). org = o' \<and> inst_id i = iid) (\<lambda>(k, i, a). a) xs"
      by (rule sum_new_allocations) simp
    moreover have "\<dots> = (if o' = org then filled_amount xs iid else 0)"
      by (cases "o' = org") (auto simp: filled_amount_def case_prod_beta sum_where_def)
    ultimately show ?thesis by (simp only: paid_in_def t sum_where_append)
  qed
  have allocated: "allocated_of t o' i = allocated_of s o' i + (if o' = org \<and> i = pay_id x then spent xs else 0)" for o' i
  proof -
    have "sum_where (active_allocation o' [i]) alloc_amount (new_allocations e n s org ctx x xs) =
      sum_where (\<lambda>(k, j, a). org = o' \<and> pay_id x = i) (\<lambda>(k, j, a). a) xs"
      by (rule sum_new_allocations) (simp add: active_allocation_def)
    moreover have "\<dots> = (if o' = org \<and> i = pay_id x then spent xs else 0)"
      by (cases "o' = org \<and> i = pay_id x") (auto simp: spent_def case_prod_beta sum_where_def)
    ultimately show ?thesis by (simp only: allocated_of_def t sum_where_append)
  qed
  have refunded: "refund_total t = refund_total s" by (simp add: fun_eq_iff refund_total_def t)
  have pos: "0 < pay_amount x" using finance_okD(6) [OF ok x(1)] by (simp add: payment_sound_def)
  from spread_total [OF xs] pos have spent: "spent xs \<le> pay_amount x" by simp
  have known: "payment_known t = payment_known s"
  proof (intro ext)
    fix o' i
    show "payment_known t o' i = payment_known s o' i"
      using x x' finance_okD(2) [OF ok] by (auto simp: payment_known_def list_ex_iff t set_put_row) (metis distinct_map inj_onD)+
  qed
  have inst: "installment_known t o' i" if "installment_known s o' i" for o' i
  proof -
    from that obtain y where y: "y \<in> set (installments s)" "inst_organization_id y = o'" "inst_id y = i"
      by (auto simp: installment_known_def list_ex_iff)
    have "map inst_id (installments t) = map inst_id (installments s)" by (simp add: t)
    with y have "i \<in> inst_id ` set (installments t)" by (metis image_eqI set_map)
    then obtain z where z: "z \<in> set (installments t)" "inst_id z = i" by blast
    with allocated_installments [OF finance_okD(1) [OF ok] rows xs z(1) [unfolded t(1)]] y finance_okD(1) [OF ok]
    have "inst_organization_id z = o'" by (metis distinct_map inj_onD)
    with z show ?thesis by (auto simp: installment_known_def list_ex_iff)
  qed
  show "installment_sound t y" if "y \<in> set (installments t)" for y
  proof -
    from finance_okD(1) [OF ok] rows xs that [unfolded t(1)] obtain i where i: "i \<in> set (installments s)" "inst_id y = inst_id i"
      "inst_organization_id y = inst_organization_id i" "inst_amount y = inst_amount i"
      "inst_paid_amount y = inst_paid_amount i + filled_amount xs (inst_id i)"
      "filled_amount xs (inst_id i) = 0 \<or> inst_organization_id i = org \<and> 0 < filled_amount xs (inst_id i) \<and>
        filled_amount xs (inst_id i) \<le> open_amount i" by (rule allocated_installments)
    from finance_okD(5) [OF ok i(1)] have "installment_sound s i" .
    with i show ?thesis by (auto simp: installment_sound_def paid open_amount_def max_def split: if_splits)
  qed
  show "payment_sound t y" if "y \<in> set (payments t)" for y
  proof (cases "y = x'")
    case True
    from finance_okD(6) [OF ok x(1)] x(2) x(3) have "allocated_of s org (pay_id x) \<le> 0"
      "refund_total s org (pay_id x) counted_refund \<le> 0" by (simp_all add: payment_sound_def)
    with True x' pos spent show ?thesis by (simp add: payment_sound_def allocated refunded)
  next
    case False
    with that x' have "y \<in> set (payments s)" "pay_id y \<noteq> pay_id x" by (auto simp: t set_put_row split: if_splits)
    with finance_okD(6) [OF ok, of y] show ?thesis by (simp add: payment_sound_def allocated refunded)
  qed
  show "allocation_sound t a" if "a \<in> set (payment_allocations t)" for a
  proof (cases "a \<in> set (payment_allocations s)")
    case True
    with finance_okD(7) [OF ok True] inst show ?thesis by (auto simp: allocation_sound_def known split: option.splits)
  next
    case False
    with that in_new_allocations obtain j k i amount where a: "(k, i, amount) \<in> set xs"
      "a = new_allocation e (uuid e (n + j)) s org ctx x k i amount" unfolding t(4) by fastforce
    from spread_in [OF xs a(1)] rows(1) obtain i0 where "i0 \<in> set (installments s)" "inst_organization_id i0 = org"
      "inst_id i = inst_id i0" "0 < amount" by (auto simp: set_current_installments)
    then have "installment_known s org (inst_id i)" by (auto simp: installment_known_def list_ex_iff)
    moreover have "payment_known s org (pay_id x)" using x by (auto simp: payment_known_def list_ex_iff)
    ultimately show ?thesis using inst \<open>0 < amount\<close> by (simp add: a(2) allocation_sound_def known)
  qed
  show "refund_sound t r" if "r \<in> set (refunds t)" for r
    using that finance_okD(8) [OF ok, of r] by (auto simp: refund_sound_def known t split: option.splits)
  show "distinct (map alloc_id (payment_allocations t))"
    unfolding t(4) by (rule fresh_ids_distinct [OF fresh finance_okD(3) [OF ok]])
      (rule fresh_envD [OF fresh], rule new_allocations_ids)
qed (use finance_okD(1,2,4) [OF ok] in \<open>simp_all add: t\<close>)

section \<open>The collections workflow\<close>

lemma find_paymentD: "find_payment s org pid = Some x \<Longrightarrow> x \<in> set (payments s) \<and> pay_organization_id x = org \<and> pay_id x = pid"
  by (rule entityD)

lemma open_not_finalised: "open_payment st \<Longrightarrow> \<not> finalised st"
  by (auto simp: open_payment_def finalised_def)

lemma finance_writes_sel [simp]:
  "payments (add_audits as s) = payments s" "installments (add_audits as s) = installments s"
  "payment_allocations (add_audits as s) = payment_allocations s" "refunds (add_audits as s) = refunds s"
  "payments (add_ledger l s) = payments s" "installments (add_ledger l s) = installments s"
  "payment_allocations (add_ledger l s) = payment_allocations s" "refunds (add_ledger l s) = refunds s"
  "payments (put_booking b s) = payments s" "installments (put_booking b s) = installments s"
  "payment_allocations (put_booking b s) = payment_allocations s" "refunds (put_booking b s) = refunds s"
  "payments (queue_in_app e k org rs m d sch s) = payments s" "installments (queue_in_app e k org rs m d sch s) = installments s"
  "payment_allocations (queue_in_app e k org rs m d sch s) = payment_allocations s"
  "refunds (queue_in_app e k org rs m d sch s) = refunds s"
  "payments (put_charge c s) = payments s" "installments (put_charge c s) = installments s"
  "payment_allocations (put_charge c s) = payment_allocations s" "refunds (put_charge c s) = refunds s"
  "payments (add_reconciliation r s) = payments s" "installments (add_reconciliation r s) = installments s"
  "payment_allocations (add_reconciliation r s) = payment_allocations s" "refunds (add_reconciliation r s) = refunds s"
  "payments (put_refund q s) = payments s" "installments (put_refund q s) = installments s"
  "payment_allocations (put_refund q s) = payment_allocations s" "refunds (put_refund q s) = put_row refund_id q (refunds s)"
  "installments (put_installments is s) = put_rows inst_id is (installments s)" "payments (put_installments is s) = payments s"
  "payment_allocations (put_installments is s) = payment_allocations s" "refunds (put_installments is s) = refunds s"
  by (simp_all add: add_audits_def add_ledger_def put_booking_def queue_in_app_def put_charge_def
    add_reconciliation_def put_refund_def put_installments_def)

lemma create_demand_keeps: "finance_ok s \<Longrightarrow> finance_ok (committed (create_demand e ctx org bid p s))"
  unfolding create_demand_def Let_def
  by (intro finance_intros; (assumption | erule finance_frame [rotated 4]; simp))

lemma create_charge_keeps: "finance_ok s \<Longrightarrow> finance_ok (committed (create_charge e ctx org iid p s))"
  unfolding create_charge_def Let_def
  by (intro finance_intros; (assumption | erule finance_frame [rotated 4]; simp))

lemma waive_charge_keeps: "finance_ok s \<Longrightarrow> finance_ok (committed (waive_charge e ctx org cid reason s))"
  unfolding waive_charge_def Let_def
  by (intro finance_intros; (assumption | erule finance_frame [rotated 4]; simp))

lemma create_collection_payment_keeps:
  assumes ok: "finance_ok s" and fresh: "fresh_env e s" and pos: "0 < cp_amount p"
  shows "finance_ok (committed (create_collection_payment e ctx org bid p s))"
proof -
  have add: "finance_ok (add_audits as (add_payment (collection_payment e (uuid e 0) org b p) s))" for as b
    by (rule finance_frame [rotated 4, OF add_payment_finance [OF ok, of "collection_payment e (uuid e 0) org b p"]])
      (use fresh_envD(27) [OF fresh] pos in \<open>simp_all add: collection_payment_def\<close>)
  show ?thesis unfolding create_collection_payment_def Let_def by (intro finance_intros ok; rule add)
qed

lemma reconcile_payment_keeps:
  assumes ok: "finance_ok s"
  shows "finance_ok (committed (reconcile_payment e ctx org pid p s))"
proof -
  have put: "finance_ok (add_audits as (put_payment (x\<lparr>pay_status := Payment_PROCESSING\<rparr>) (add_reconciliation r s)))"
    if "find_payment s org pid = Some x" "open_payment (pay_status x)" for as x r
    by (rule finance_frame [rotated 4, OF put_payment_finance [OF ok, of x "x\<lparr>pay_status := Payment_PROCESSING\<rparr>"]])
      (use find_paymentD [OF that(1)] open_not_finalised [OF that(2)] in simp_all)
  show ?thesis unfolding reconcile_payment_def Let_def by (intro finance_intros ok; rule put)
qed

lemma allocate_payment_keeps:
  assumes ok: "finance_ok s" and fresh: "fresh_env e s"
  shows "finance_ok (committed (allocate_payment e ctx org pid p s))"
proof -
  have put: "finance_ok (queue_in_app e k' org rs m None None (add_audits as (add_ledger l (put_booking b'
      (put_payment (verified_payment e ctx x)
        (put_installments (map (\<lambda>(k, i, amount). paid_installment amount i) xs)
          (put_installments (current_installments e s org plan) s)\<lparr>payment_allocations :=
            payment_allocations (put_installments (map (\<lambda>(k, i, amount). paid_installment amount i) xs)
              (put_installments (current_installments e s org plan) s)) @ new_allocations e 0 s org ctx x xs,
          receipts := rc\<rparr>))))))"
    if x: "find_payment s org pid = Some x" "open_payment (pay_status x)"
      and xs: "spread 1 (pay_amount x) (allocation_order ids (current_installments e s org plan)) = (xs, r')"
    for k' rs m as l b' x xs plan rc ids r'
  proof (rule allocate_write_finance [OF ok fresh, where x = x and x' = "verified_payment e ctx x"])
    show "x \<in> set (payments s)" "pay_organization_id x = org" using find_paymentD [OF x(1)] by simp_all
    show "\<not> finalised (pay_status x)" by (rule open_not_finalised [OF x(2)])
    show "spread 1 (pay_amount x) (allocation_order ids (current_installments e s org plan)) = (xs, r')" by (rule xs)
    show "distinct (map inst_id (allocation_order ids (current_installments e s org plan)))"
      using distinct_current_installments [OF finance_okD(1) [OF ok]] by simp
  qed (use find_paymentD [OF x(1)] in \<open>simp_all add: verified_payment_def finalised_def\<close>)
  show ?thesis unfolding allocate_payment_def Let_def
    by (intro finance_intros ok; rule put)
qed

lemma request_refund_keeps:
  assumes ok: "finance_ok s" and fresh: "fresh_env e s" and pos: "0 < rf_amount p"
  shows "finance_ok (committed (request_refund e ctx org pid p s))"
proof -
  have add: "finance_ok (add_audits as (s\<lparr>refunds := refunds s @ [new_refund e (uuid e 0) org ctx x p]\<rparr>))"
    if x: "find_payment s org pid = Some x" "pay_status x = Payment_COMPLETED \<or> pay_status x = Payment_REFUNDED"
      "refund_total s org (pay_id x) counted_refund + rf_amount p \<le> pay_amount x" for as x
    by (rule add_refund_finance [OF ok, of "new_refund e (uuid e 0) org ctx x p" x])
      (use x find_paymentD [OF x(1)] fresh_envD(33) [OF fresh] pos in \<open>simp_all add: new_refund_def finalised_def\<close>)
  show ?thesis unfolding request_refund_def Let_def by (intro finance_intros ok; rule add)
qed

lemma decide_refund_keeps:
  assumes ok: "finance_ok s"
  shows "finance_ok (committed (decide_refund e ctx org rid p s))"
proof -
  have put: "finance_ok (add_audits as (put_refund (decided_refund e ctx p r) s))"
    if "find_refund s org rid = Some r" "refund_status r = Payment_PENDING" for as r
    by (rule put_refund_finance [OF ok, of r "decided_refund e ctx p r"])
      (use entityD [OF that(1)] that(2) in \<open>simp_all add: decided_refund_def Let_def counted_refund_def split: decision.split\<close>)
  show ?thesis unfolding decide_refund_def Let_def by (intro finance_intros ok; rule put)
qed

text \<open>Several payments are rewritten in one flush.\<close>

lemma put_payments_finance:
  assumes "finance_ok s" "distinct (map pay_id ps)"
    and "\<And>x'. x' \<in> set ps \<Longrightarrow> \<exists>x \<in> set (payments s). pay_id x' = pay_id x \<and>
      pay_organization_id x' = pay_organization_id x \<and> pay_amount x' = pay_amount x \<and>
      (finalised (pay_status x) \<longrightarrow> finalised (pay_status x'))"
  shows "finance_ok (put_payments ps s)"
  using assms
proof (induction ps arbitrary: s)
  case Nil
  then show ?case by (simp add: put_payments_def)
next
  case (Cons x' ps)
  from Cons.prems(3) [of x'] obtain x where x: "x \<in> set (payments s)" "pay_id x' = pay_id x"
    "pay_organization_id x' = pay_organization_id x" "pay_amount x' = pay_amount x"
    "finalised (pay_status x) \<longrightarrow> finalised (pay_status x')" by auto
  have "finance_ok (put_payments ps (put_payment x' s))"
  proof (rule Cons.IH [OF put_payment_finance [OF Cons.prems(1) x]])
    show "distinct (map pay_id ps)" using Cons.prems(2) by simp
    fix y' assume y': "y' \<in> set ps"
    with Cons.prems(3) [of y'] obtain y where y: "y \<in> set (payments s)" "pay_id y' = pay_id y"
      "pay_organization_id y' = pay_organization_id y" "pay_amount y' = pay_amount y"
      "finalised (pay_status y) \<longrightarrow> finalised (pay_status y')" by auto
    from y' Cons.prems(2) have "pay_id y' \<noteq> pay_id x'" by (auto simp: image_iff)
    with y have "y \<in> set (payments (put_payment x' s))" by (simp add: set_put_row)
    with y show "\<exists>x \<in> set (payments (put_payment x' s)). pay_id y' = pay_id x \<and>
      pay_organization_id y' = pay_organization_id x \<and> pay_amount y' = pay_amount x \<and>
      (finalised (pay_status x) \<longrightarrow> finalised (pay_status y'))" by blast
  qed
  then show ?case by (simp add: put_payments_def put_payment_def)
qed

lemma refunded_payment_sel [simp]:
  "pay_id (refunded_payment s org r x) = pay_id x"
  "pay_organization_id (refunded_payment s org r x) = pay_organization_id x"
  "pay_amount (refunded_payment s org r x) = pay_amount x"
  "finalised (pay_status x) \<Longrightarrow> finalised (pay_status (refunded_payment s org r x))"
  by (simp_all add: refunded_payment_def finalised_def)

lemma set_latest_paid_first [simp]: "set (latest_paid_first ps) = set ps"
  by (simp add: latest_paid_first_def)

lemma refund_payments_in:
  assumes "refund_payments s org bid r = Inr ps" "distinct (map pay_id (payments s))"
  shows "set ps \<subseteq> set (payments s)" "distinct (map pay_id ps)"
proof -
  show sub: "set ps \<subseteq> set (payments s)"
    using assms(1) by (auto simp: refund_payments_def outcome_simps split: option.splits dest: find_paymentD)
  have "distinct ps"
    using assms by (auto simp: refund_payments_def outcome_simps latest_paid_first_def order_desc_def distinct_map split: option.splits)
  with sub assms(2) show "distinct (map pay_id ps)" by (metis distinct_map inj_on_subset)
qed

lemma active_allocations_loop:
  fixes s :: database and org :: ident and pids :: "ident list"
  assumes ok: "finance_ok s" and "0 \<le> remaining"
  defines "as \<equiv> order_desc alloc_allocated_at (filter (active_allocation org pids) (payment_allocations s))"
  shows "\<exists>t. reverse_allocations e org remaining as s =
      Inr (t, remaining - min remaining (sum_list (map alloc_amount as))) \<and>
    finance_ok t \<and> payments t = payments s \<and> refunds t = refunds s \<and>
    sum_where (active_allocation org pids) alloc_amount (payment_allocations t) =
      sum_where (active_allocation org pids) alloc_amount (payment_allocations s) -
        min remaining (sum_list (map alloc_amount as))"
proof (rule reverse_allocations_ok [OF ok _ assms(2)])
  have "distinct as" using finance_okD(3) [OF ok] by (simp add: as_def order_desc_def distinct_map)
  then show "distinct (map alloc_id as)"
    unfolding distinct_map as_def using finance_okD(3) [OF ok] by (auto simp: distinct_map intro: inj_on_subset)
qed (simp add: as_def)

lemma process_refund_keeps:
  assumes ok: "finance_ok s"
  shows "finance_ok (committed (process_refund e ctx org rid reference s))"
proof -
  have put: "finance_ok (add_audits as (add_ledger l (put_refund (processed_refund e reference r)
      (put_payments (map (refunded_payment s org r) ps) s1))))"
    if r: "find_refund s org rid = Some r" "refund_status r = Payment_PROCESSING"
      and ps: "refund_payments s org bid r = Inr ps"
      and loop: "reverse_allocations e org (refund_amount r) (order_desc alloc_allocated_at
        (filter (active_allocation org (map pay_id ps)) (payment_allocations s))) s = Inr (s1, rem)"
    for as l r ps bid s1 rem
  proof -
    from entityD [OF r(1)] have rin: "r \<in> set (refunds s)" by simp
    have "0 \<le> refund_amount r" using finance_okD(8) [OF ok rin] by (simp add: refund_sound_def)
    from active_allocations_loop [OF ok this, of e org "map pay_id ps"] loop
    have s1: "finance_ok s1" "payments s1 = payments s" "refunds s1 = refunds s" by auto
    note sub = refund_payments_in [OF ps finance_okD(2) [OF ok]]
    have "finance_ok (put_payments (map (refunded_payment s org r) ps) s1)"
    proof (rule put_payments_finance [OF s1(1)])
      show "distinct (map pay_id (map (refunded_payment s org r) ps))" using sub(2) by (simp add: comp_def)
      fix x' assume "x' \<in> set (map (refunded_payment s org r) ps)"
      then obtain x where "x \<in> set ps" "x' = refunded_payment s org r x" by auto
      with sub(1) show "\<exists>x \<in> set (payments s1). pay_id x' = pay_id x \<and> pay_organization_id x' = pay_organization_id x \<and>
          pay_amount x' = pay_amount x \<and> (finalised (pay_status x) \<longrightarrow> finalised (pay_status x'))"
        by (intro bexI [of _ x]) (auto simp: s1)
    qed
    then show ?thesis
      by (rule put_refund_finance [of _ r "processed_refund e reference r"])
        (use rin r(2) s1 in \<open>simp_all add: put_payments_def processed_refund_def counted_refund_def\<close>)
  qed
  show ?thesis unfolding process_refund_def Let_def
    by (intro finance_intros ok; rule put) simp_all
qed

section \<open>The booking workflow\<close>

lemma new_installments_sel:
  "map inst_id (new_installments e k org pid items) = map (\<lambda>i. uuid e (k + i)) [0..<length items]"
  "i \<in> set (new_installments e k org pid items) \<Longrightarrow> inst_paid_amount i = 0 \<and> (\<exists>n. inst_id i = uuid e n) \<and>
     inst_amount i \<in> ii_amount ` set items"
  using map_enumerate_fst [of "\<lambda>i. uuid e (k + i)" 0 items]
  by (auto simp: new_installments_def comp_def case_prod_beta dest!: in_enumerateD)

lemma plan_amounts_nonneg: "payment_plan_input_ok p \<Longrightarrow> x \<in> ii_amount ` set (pp_installments p) \<Longrightarrow> 0 \<le> x"
  by (auto simp: payment_plan_input_ok_def installment_input_ok_def list_all_iff)

lemma add_plan_finance:
  assumes ok: "finance_ok s" and fresh: "fresh_env e s" and valid: "payment_plan_input_ok p"
    and same: "installments s' = installments s" "payments s' = payments s"
      "payment_allocations s' = payment_allocations s" "refunds s' = refunds s"
    and add: "add_plan e k org b p s' = Inr (t, plan)"
  shows "finance_ok t"
proof -
  from add have t: "installments t = installments s @ new_installments e (k + 1) org (uuid e k) (pp_installments p)"
    "payments t = payments s" "payment_allocations t = payment_allocations s" "refunds t = refunds s"
    by (auto simp: add_plan_def Let_def outcome_simps same new_plan_def)
  show ?thesis
  proof (rule add_installments_finance [OF ok _ _ t])
    show "distinct (map inst_id (installments s @ new_installments e (k + 1) org (uuid e k) (pp_installments p)))"
      by (rule fresh_ids_distinct [OF fresh finance_okD(1) [OF ok] fresh_envD(25) [OF fresh] new_installments_sel(1)])
    show "inst_id i \<noteq> [] \<and> inst_paid_amount i = 0 \<and> 0 \<le> inst_amount i"
      if "i \<in> set (new_installments e (k + 1) org (uuid e k) (pp_installments p))" for i
    proof -
      from new_installments_sel(2) [OF that] obtain n where n: "inst_id i = uuid e n" by blast
      show ?thesis using new_installments_sel(2) [OF that] plan_amounts_nonneg [OF valid] fresh unfolding n by auto
    qed
  qed
qed

lemma booking_writes_money [simp]:
  "payments (fst (expire_due_documents e k org s)) = payments s" "installments (fst (expire_due_documents e k org s)) = installments s"
  "payment_allocations (fst (expire_due_documents e k org s)) = payment_allocations s"
  "refunds (fst (expire_due_documents e k org s)) = refunds s"
  "payments (add_applicants as s) = payments s" "installments (add_applicants as s) = installments s"
  "payment_allocations (add_applicants as s) = payment_allocations s" "refunds (add_applicants as s) = refunds s"
  "payments (add_booking b s) = payments s" "installments (add_booking b s) = installments s"
  "payment_allocations (add_booking b s) = payment_allocations s" "refunds (add_booking b s) = refunds s"
  "payments (put_unit u s) = payments s" "installments (put_unit u s) = installments s"
  "payment_allocations (put_unit u s) = payment_allocations s" "refunds (put_unit u s) = refunds s"
  "payments (put_hold h s) = payments s" "installments (put_hold h s) = installments s"
  "payment_allocations (put_hold h s) = payment_allocations s" "refunds (put_hold h s) = refunds s"
  "payments (put_approval a s) = payments s" "installments (put_approval a s) = installments s"
  "payment_allocations (put_approval a s) = payment_allocations s" "refunds (put_approval a s) = refunds s"
  "payments (add_approvals ns s) = payments s" "installments (add_approvals ns s) = installments s"
  "payment_allocations (add_approvals ns s) = payment_allocations s" "refunds (add_approvals ns s) = refunds s"
  "payments (cancel_approvals e org bid c s) = payments s" "installments (cancel_approvals e org bid c s) = installments s"
  "payment_allocations (cancel_approvals e org bid c s) = payment_allocations s" "refunds (cancel_approvals e org bid c s) = refunds s"
  by (simp_all add: expire_due_documents_def Let_def add_audits_def add_applicants_def add_booking_def put_unit_def
    put_hold_def put_approval_def add_approvals_def cancel_approvals_def)

lemma upsert_financing_money [simp]:
  "payments (upsert_financing e i org bid f s) = payments s" "installments (upsert_financing e i org bid f s) = installments s"
  "payment_allocations (upsert_financing e i org bid f s) = payment_allocations s"
  "refunds (upsert_financing e i org bid f s) = refunds s"
  by (simp_all add: upsert_financing_def split: option.split)

lemma documents_finance: "finance_ok s \<Longrightarrow> finance_ok (fst (expire_due_documents e k org s))"
  by (erule finance_frame [rotated 4]) simp_all

lemma create_booking_finance:
  assumes ok: "finance_ok s" and fresh: "fresh_env e s" and valid: "payment_plan_input_ok (bc_payment_plan p)"
  shows "finance_ok (committed (create_booking e ctx org p s))"
proof -
  obtain t k where t: "expire_due_documents e 0 org s = (t, k)" by (metis prod.exhaust)
  have same: "installments t = installments s" "payments t = payments s"
      "payment_allocations t = payment_allocations s" "refunds t = refunds s"
    using booking_writes_money(1-4) [of e 0 org s] t by simp_all
  have okt: "finance_ok t" by (rule finance_frame [OF same ok])
  have put: "finance_ok (queue_in_app e k' org rs m None None (add_audits as (add_ledger l (put_unit u (put_hold h
      (upsert_financing e i org bid f s2))))))"
    if "add_plan e n org b (bc_payment_plan p) (add_applicants ap (add_booking b t)) = Inr (s2, plan)"
    for k' rs m as l u h i bid f s2 n b ap plan
    by (rule finance_frame [rotated 4, OF add_plan_finance [OF ok fresh valid _ _ _ _ that]]) (simp_all add: same)
  show ?thesis unfolding create_booking_def t prod.case Let_def
    by (intro finance_intros okt; rule put) simp_all
qed

lemma set_payment_plan_finance:
  assumes ok: "finance_ok s" and fresh: "fresh_env e s" and valid: "payment_plan_input_ok p"
  shows "finance_ok (committed (set_payment_plan e ctx org bid p s))"
proof -
  have put: "finance_ok (add_audits as s1)" if "add_plan e k org b p s = Inr (s1, plan)" for as s1 k b plan
    by (rule finance_frame [rotated 4, OF add_plan_finance [OF ok fresh valid refl refl refl refl that]]) simp_all
  show ?thesis unfolding set_payment_plan_def Let_def by (intro finance_intros ok; rule put) simp_all
qed

lemma create_payment_finance:
  assumes ok: "finance_ok s" and fresh: "fresh_env e s" and pos: "0 < bp_amount p"
  shows "finance_ok (committed (create_payment e ctx org bid p s))"
proof -
  have add: "finance_ok (add_audits as (put_booking b' (add_payment (new_payment e (uuid e 0) org b p) s)))" for as b b'
    by (rule finance_frame [rotated 4, OF add_payment_finance [OF ok, of "new_payment e (uuid e 0) org b p"]])
      (use fresh_envD(27) [OF fresh] pos in \<open>simp_all add: new_payment_def\<close>)
  show ?thesis unfolding create_payment_def Let_def by (intro finance_intros ok; rule add)
qed

lemma decide_payment_finance:
  assumes ok: "finance_ok s"
  shows "finance_ok (committed (decide_payment e ctx org bid pid d notes s))"
proof -
  have put: "finance_ok (add_audits as (put_payment (x\<lparr>pay_status := Payment_FAILED, pay_verified_by_user_id := v,
      pay_verified_at := w\<rparr>) s))"
    if "find_payment s org pid = Some x" "pay_status x = Payment_PENDING \<or> pay_status x = Payment_PROCESSING" for as x v w
    by (rule finance_frame [rotated 4, OF put_payment_finance [OF ok,
        of x "x\<lparr>pay_status := Payment_FAILED, pay_verified_by_user_id := v, pay_verified_at := w\<rparr>"]])
      (use find_paymentD [OF that(1)] that(2) in \<open>auto simp: finalised_def\<close>)
  show ?thesis unfolding decide_payment_def Let_def by (intro finance_intros ok; rule put)
qed

text \<open>The other booking operations leave the money rows alone.\<close>

lemma booking_moves_finance:
  assumes "finance_ok s"
  shows "finance_ok (committed (get_booking e org bid s))" "finance_ok (committed (advance_booking e ctx org bid v s))"
    "finance_ok (committed (replace_joint_applicants e ctx org bid items s))"
    "finance_ok (committed (set_financing e ctx org bid f s))"
    "finance_ok (committed (request_approval e ctx org bid q s))"
    "finance_ok (committed (cancel_booking e ctx org bid reason s))"
proof -
  obtain t k where t: "expire_due_documents e 0 org s = (t, k)" by (metis prod.exhaust)
  have okt: "finance_ok t" using documents_finance [OF assms, of e 0 org] t by simp
  show "finance_ok (committed (get_booking e org bid s))" "finance_ok (committed (advance_booking e ctx org bid v s))"
    "finance_ok (committed (request_approval e ctx org bid q s))"
    unfolding get_booking_def advance_booking_def request_approval_def t prod.case Let_def
    by (intro finance_intros okt; (rule okt | rule finance_frame [rotated 4, OF okt]; simp))+
  show "finance_ok (committed (replace_joint_applicants e ctx org bid items s))"
    "finance_ok (committed (set_financing e ctx org bid f s))" "finance_ok (committed (cancel_booking e ctx org bid reason s))"
    unfolding replace_joint_applicants_def set_financing_def cancel_booking_def Let_def
    by (intro finance_intros assms; (rule assms | rule finance_frame [rotated 4, OF assms]; simp))+
qed

lemma decide_approval_finance:
  assumes "finance_ok s"
  shows "finance_ok (committed (decide_approval e ctx org bid aid p s))"
proof -
  have put: "finance_ok (queue_in_app e k org rs m None None (add_audits as s1))"
    if "apply_decision e ctx org b u a s = Inr (s1, b')" for k rs m as b u a s1 b'
    by (rule finance_frame [rotated 4, OF assms])
      (use that in \<open>auto simp: apply_decision_def accrue_booking_commission_def Let_def outcome_simps
        split: if_splits option.splits sum.splits\<close>)
  show ?thesis unfolding decide_approval_def Let_def by (intro finance_intros assms; rule put) simp_all
qed

section \<open>The inventory operations\<close>

lemma holds_only_finance: "holds_only s t \<Longrightarrow> finance_ok s \<Longrightarrow> finance_ok t"
  by (rule finance_frame) (auto dest: holds_only_sel)

lemma initiate_booking_finance:
  assumes "finance_ok s"
  shows "finance_ok (committed (initiate_booking e ctx org uid p s))"
proof -
  have put: "finance_ok (add_audits as (add_booking b (put_unit u (convert_hold e k org ctx n current t))))"
    if "expire_hold e 0 (Some ctx) u0 s = (t, u', current')" for as b u k n current t u0 u' current'
    by (rule finance_frame [rotated 4, OF assms])
      (use holds_only_sel [OF holds_only_expire [OF that]] in \<open>auto simp: convert_hold_def split: option.split\<close>)
  show ?thesis unfolding initiate_booking_def Let_def
    by (intro finance_intros assms, unfold outcome.sel, rule put) simp_all
qed

lemma transition_booking_finance:
  "finance_ok s \<Longrightarrow> finance_ok (committed (transition_booking_endpoint e ctx org bid target s))"
  unfolding transition_booking_endpoint_def transition_booking_def Let_def
  by (intro finance_intros; (assumption | erule finance_frame [rotated 4]; simp))

end
