(* ===== verification/Finance_Workflow.thy ===== *)
theory Finance_Workflow
  imports Finance_Keeps Booking_Workflow "HOL-Library.Multiset"
begin

text \<open>
  What the operations of the collections workflow do when they return: the guards that held and the
  money rows they wrote.
\<close>

lemma put_payments_sel [simp]:
  "payments (put_payments ps s) = put_rows pay_id ps (payments s)" "installments (put_payments ps s) = installments s"
  "payment_allocations (put_payments ps s) = payment_allocations s" "refunds (put_payments ps s) = refunds s"
  by (simp_all add: put_payments_def)

lemma verified_payment_sel [simp]:
  "pay_id (verified_payment e ctx x) = pay_id x" "pay_organization_id (verified_payment e ctx x) = pay_organization_id x"
  "pay_amount (verified_payment e ctx x) = pay_amount x" "pay_status (verified_payment e ctx x) = Payment_COMPLETED"
  by (simp_all add: verified_payment_def)

section \<open>Allocating a payment\<close>

lemma allocate_payment_returns:
  assumes ret: "allocate_payment e ctx org pid p s = Return t v"
  obtains x b plan xs rest where "find_payment s org pid = Some x" "find_booking s org (pay_booking_id x) = Some b"
    "open_payment (pay_status x)" "reconciled s org pid (pa_manual_reconciliation_reason p)"
    "latest_plan s org (booking_id b) = Some plan"
    "spread 1 (pay_amount x) (allocation_order (pa_installment_ids p) (current_installments e s org (plan_id plan))) = (xs, rest)"
    "installments t = put_rows inst_id (map (\<lambda>(k, i, a). paid_installment a i) xs)
      (put_rows inst_id (current_installments e s org (plan_id plan)) (installments s))"
    "payments t = put_row pay_id (verified_payment e ctx x) (payments s)" "refunds t = refunds s"
    "payment_allocations t = payment_allocations s @ new_allocations e 0 s org ctx x xs"
    "bookings t = put_row booking_id (if booking_booking_amount b \<le> payment_total s org (booking_id b) [Payment_COMPLETED] \<and>
        booking_status b = Booking_PAYMENT_PENDING
      then b\<lparr>booking_status := Booking_VERIFICATION, booking_submitted_at := Some (now e),
             booking_verification_completed_at := Some (now e)\<rparr> else b) (bookings s)"
proof -
  let ?ordered = "\<lambda>plan. allocation_order (pa_installment_ids p) (current_installments e s org (plan_id plan))"
  from ret obtain x b plan where x: "find_payment s org pid = Some x" and b: "find_booking s org (pay_booking_id x) = Some b"
    and g: "open_payment (pay_status x)" "reconciled s org (pay_id x) (pa_manual_reconciliation_reason p)"
    and plan: "latest_plan s org (booking_id b) = Some plan"
    unfolding allocate_payment_def Let_def outcome_simps by blast
  obtain xs rest where xs: "spread 1 (pay_amount x) (?ordered plan) = (xs, rest)" by (metis prod.exhaust)
  have id: "pay_id x = pid" using find_paymentD [OF x] by simp
  note unfolded = ret [unfolded allocate_payment_def Let_def outcome_simps]
  have "installments t = put_rows inst_id (map (\<lambda>(k, i, a). paid_installment a i) xs)
      (put_rows inst_id (current_installments e s org (plan_id plan)) (installments s)) \<and>
    payments t = put_row pay_id (verified_payment e ctx x) (payments s) \<and> refunds t = refunds s \<and>
    payment_allocations t = payment_allocations s @ new_allocations e 0 s org ctx x xs \<and>
    bookings t = put_row booking_id (if booking_booking_amount b \<le> payment_total s org (booking_id b) [Payment_COMPLETED] \<and>
        booking_status b = Booking_PAYMENT_PENDING
      then b\<lparr>booking_status := Booking_VERIFICATION, booking_submitted_at := Some (now e),
             booking_verification_completed_at := Some (now e)\<rparr> else b) (bookings s)"
    using unfolded x b plan xs by (auto simp: outcome_simps booking_writes put_installments_def)
  with x b g plan xs id that show thesis by auto
qed

text \<open>What a payment that was open had allocated before.\<close>

lemma open_payment_unallocated:
  assumes "finance_ok s" "find_payment s org pid = Some x" "open_payment (pay_status x)"
  shows "allocated_of s org pid = 0"
proof -
  from find_paymentD [OF assms(2)] have x: "x \<in> set (payments s)" "pay_organization_id x = org" "pay_id x = pid" by simp_all
  from finance_okD(6) [OF assms(1) x(1)] open_not_finalised [OF assms(3)] x(2,3)
  have "allocated_of s org pid \<le> 0" by (simp add: payment_sound_def)
  with allocated_of_nonneg [OF assms(1)] show ?thesis by (simp add: order_antisym)
qed

lemma allocated_of_new:
  assumes "payment_allocations t = payment_allocations s @ new_allocations e n s org ctx x xs"
  shows "allocated_of t org (pay_id x) = allocated_of s org (pay_id x) + spent xs"
proof -
  have "sum_where (active_allocation org [pay_id x]) alloc_amount (new_allocations e n s org ctx x xs) =
      sum_where (\<lambda>(k, j, a). True) (\<lambda>(k, j, a). a) xs"
    by (rule sum_new_allocations) (simp add: active_allocation_def)
  also have "\<dots> = spent xs" by (simp add: spent_def case_prod_beta sum_where_def)
  finally show ?thesis by (simp only: allocated_of_def assms sum_where_append)
qed

section \<open>Refunds\<close>

lemma process_refund_returns:
  assumes ret: "process_refund e ctx org rid reference s = Return t v"
  obtains r bid ps s1 rest where "find_refund s org rid = Some r" "refund_status r = Payment_PROCESSING"
    "given (refund_booking_id r) = Some bid" "refund_payments s org bid r = Inr ps"
    "reverse_allocations e org (refund_amount r) (order_desc alloc_allocated_at
       (filter (active_allocation org (map pay_id ps)) (payment_allocations s))) s = Inr (s1, rest)"
    "payment_allocations t = payment_allocations s1" "installments t = installments s1"
    "payments t = put_rows pay_id (map (refunded_payment s org r) ps) (payments s1)"
    "refunds t = put_row refund_id (processed_refund e reference r) (refunds s1)"
    "customer_ledger t = customer_ledger s1 @ [refund_entry e (uuid e 0) r reference]"
  using ret unfolding process_refund_def Let_def outcome_simps split_paired_Ex prod.case
  by (elim exE conjE) (rule that, assumption+, auto simp: booking_writes put_refund_def put_payments_def)

lemma sum_list_order_desc: "sum_list (map f (order_desc key xs)) = sum_list (map (f :: _ \<Rightarrow> decimal) xs)"
proof -
  have "mset (map f (order_desc key xs)) = mset (map f xs)" by (simp add: order_desc_def mset_map)
  then have "sum_mset (mset (map f (order_desc key xs))) = sum_mset (mset (map f xs))" by simp
  then show ?thesis by (simp only: sum_mset_sum_list)
qed

text \<open>
  What the loop takes back from each allocation: the head of the list gives all it has or all that is still
  wanted, and the rest of the list what is then left.
\<close>

fun taken :: "decimal \<Rightarrow> payment_allocation_row list \<Rightarrow> ident \<Rightarrow> decimal" where
  "taken wanted [] i = 0"
| "taken wanted (a # as) i =
     (let m = max 0 (min (alloc_amount a) wanted) in if alloc_id a = i then m else taken (wanted - m) as i)"

definition taken_back :: "env \<Rightarrow> decimal \<Rightarrow> payment_allocation_row \<Rightarrow> payment_allocation_row" where
  "taken_back e m a = (if m = 0 then a else if m = alloc_amount a then a\<lparr>alloc_reversed_at := Some (now e)\<rparr>
     else a\<lparr>alloc_amount := alloc_amount a - m\<rparr>)"

lemma taken_back_zero [simp]: "taken_back e 0 a = a"
  by (simp add: taken_back_def)

lemma alloc_id_taken_back [simp]: "alloc_id (taken_back e m a) = alloc_id a"
  by (simp add: taken_back_def)

lemma taken_none: "i \<notin> alloc_id ` set as \<Longrightarrow> taken wanted as i = 0"
  by (induction as arbitrary: wanted) (auto simp: Let_def)

lemma taken_nothing: "wanted \<le> 0 \<Longrightarrow> taken wanted as i = 0"
  by (induction as) (auto simp: Let_def)

lemma taken_bounds:
  assumes "distinct (map alloc_id as)" "\<And>a. a \<in> set as \<Longrightarrow> 0 < alloc_amount a" "a \<in> set as"
  shows "0 \<le> taken wanted as (alloc_id a) \<and> taken wanted as (alloc_id a) \<le> alloc_amount a"
  using assms
proof (induction as arbitrary: wanted)
  case (Cons b as)
  then show ?case by (cases "a = b") (force simp: Let_def)+
qed simp

lemma sum_taken:
  assumes "distinct (map alloc_id as)" "\<And>a. a \<in> set as \<Longrightarrow> 0 < alloc_amount a" "0 \<le> wanted"
  shows "sum_list (map (\<lambda>a. taken wanted as (alloc_id a)) as) = min wanted (sum_list (map alloc_amount as))"
  using assms
proof (induction as arbitrary: wanted)
  case (Cons a as)
  let ?m = "min (alloc_amount a) wanted"
  from Cons.prems(2) have pos: "0 < alloc_amount a" by simp
  then have m: "max 0 ?m = ?m" using Cons.prems(3) by simp
  have rest: "0 \<le> sum_list (map alloc_amount as)" by (rule sum_list_nonneg) (use Cons.prems(2) in force)
  have "map (\<lambda>b. taken wanted (a # as) (alloc_id b)) as = map (\<lambda>b. taken (wanted - ?m) as (alloc_id b)) as"
    using Cons.prems(1) by (auto simp: Let_def m image_iff)
  moreover have "sum_list (map (\<lambda>b. taken (wanted - ?m) as (alloc_id b)) as) = min (wanted - ?m) (sum_list (map alloc_amount as))"
    by (rule Cons.IH) (use Cons.prems in auto)
  ultimately have tail: "sum_list (map (\<lambda>b. taken wanted (a # as) (alloc_id b)) as) =
      min (wanted - ?m) (sum_list (map alloc_amount as))" by (simp only:)
  have "sum_list (map (\<lambda>b. taken wanted (a # as) (alloc_id b)) (a # as)) =
      ?m + sum_list (map (\<lambda>b. taken wanted (a # as) (alloc_id b)) as)" by (simp add: m Let_def)
  also have "\<dots> = min wanted (sum_list (map alloc_amount (a # as)))"
    unfolding tail using rest by (auto simp: min_def)
  finally show ?case .
qed simp

text \<open>Nothing is taken from an allocation before those with a later date have given all they have.\<close>

lemma taken_latest_first:
  assumes "sorted_wrt (\<lambda>a b. alloc_allocated_at b \<le> alloc_allocated_at a) as" "distinct (map alloc_id as)"
    and "\<And>a. a \<in> set as \<Longrightarrow> 0 < alloc_amount a" "a \<in> set as" "b \<in> set as"
    and "alloc_allocated_at b < alloc_allocated_at a" "0 < taken wanted as (alloc_id b)"
  shows "taken wanted as (alloc_id a) = alloc_amount a"
  using assms
proof (induction as arbitrary: wanted)
  case (Cons c as)
  let ?m = "max 0 (min (alloc_amount c) wanted)"
  from Cons.prems(1,4,6) have "b \<noteq> c" by auto
  with Cons.prems(2,5) have b: "b \<in> set as" "alloc_id b \<noteq> alloc_id c" by (auto simp: image_iff)
  with Cons.prems(7) have left: "0 < taken (wanted - ?m) as (alloc_id b)" by (simp add: Let_def split: if_splits)
  then have "\<not> wanted - ?m \<le> 0" using taken_nothing [of "wanted - ?m" as "alloc_id b"] by linarith
  then have full: "?m = alloc_amount c" using Cons.prems(3) [of c] by (auto simp: max_def min_def split: if_splits)
  show ?case
  proof (cases "a = c")
    case True
    with full show ?thesis by (simp add: Let_def)
  next
    case False
    with Cons.prems(2,4) have a: "a \<in> set as" "alloc_id a \<noteq> alloc_id c" by (auto simp: image_iff)
    have "taken (wanted - ?m) as (alloc_id a) = alloc_amount a"
      by (rule Cons.IH) (use Cons.prems a b left in auto)
    with a show ?thesis by (simp add: Let_def)
  qed
qed simp

lemma taken_one_partial:
  assumes "distinct (map alloc_id as)" "a \<in> set as" "b \<in> set as"
    and "0 < taken wanted as (alloc_id a)" "taken wanted as (alloc_id a) < alloc_amount a"
    and "0 < taken wanted as (alloc_id b)" "taken wanted as (alloc_id b) < alloc_amount b"
  shows "a = b"
  using assms
proof (induction as arbitrary: wanted)
  case (Cons c as)
  let ?m = "max 0 (min (alloc_amount c) wanted)"
  have spent: "taken (wanted - ?m) as i = 0" if "0 < ?m" "?m < alloc_amount c" for i
    by (rule taken_nothing) (use that in \<open>auto simp: max_def min_def split: if_splits\<close>)
  have other: "alloc_id x \<noteq> alloc_id c" if "x \<in> set as" for x using that Cons.prems(1) by (auto simp: image_iff)
  show ?case
  proof (cases "a = c \<or> b = c")
    case True
    with spent other Cons.prems(2-) show ?thesis by (auto simp: Let_def split: if_splits)
  next
    case False
    with Cons.prems(2,3) have in_as: "a \<in> set as" "b \<in> set as" by auto
    show ?thesis
      by (rule Cons.IH [where wanted = "wanted - ?m"])
        (use Cons.prems in_as other [OF in_as(1)] other [OF in_as(2)] in \<open>auto simp: Let_def split: if_splits\<close>)
  qed
qed simp

lemma reversed_taken_back: "0 < m \<Longrightarrow> reversed_allocation e m a = taken_back e m a"
  by (simp add: reversed_allocation_def taken_back_def)

lemma reverse_allocations_rows:
  assumes "reverse_allocations e org wanted as s = Inr (t, rest)" "distinct (map alloc_id as)"
    "distinct (map alloc_id (payment_allocations s))"
    "\<And>a. a \<in> set as \<Longrightarrow> a \<in> set (payment_allocations s) \<and> 0 < alloc_amount a"
  shows "payment_allocations t = map (\<lambda>x. taken_back e (taken wanted as (alloc_id x)) x) (payment_allocations s)"
  using assms
proof (induction as arbitrary: wanted s)
  case Nil
  then show ?case by (simp add: taken_back_def)
next
  case (Cons a as)
  show ?case
  proof (cases "wanted \<le> 0")
    case True
    with Cons.prems(1) show ?thesis by (simp add: taken_nothing taken_back_def del: taken.simps)
  next
    case False
    let ?m = "min (alloc_amount a) wanted"
    from Cons.prems(4) [of a] False have a: "a \<in> set (payment_allocations s)" and m: "0 < ?m" by auto
    from False Cons.prems(1) have "need_given (alloc_installment_id a) (find_installment s org) not_found (\<lambda>inst.
        reverse_allocations e org (wanted - ?m) as (reversal_step e ?m a inst s)) = Inr (t, rest)"
      by (simp add: Let_def reversal_step_def)
    then obtain inst where loop: "reverse_allocations e org (wanted - ?m) as (reversal_step e ?m a inst s) = Inr (t, rest)"
      by (blast dest: need_given_Inr)
    let ?rows = "put_row alloc_id (reversed_allocation e ?m a) (payment_allocations s)"
    have "payment_allocations t = map (\<lambda>x. taken_back e (taken (wanted - ?m) as (alloc_id x)) x) ?rows"
      unfolding reversal_step_sel(3) [of e ?m a inst s, symmetric]
    proof (rule Cons.IH [OF loop])
      fix b assume b: "b \<in> set as"
      with Cons.prems(2) have "alloc_id b \<noteq> alloc_id a" by (auto simp: image_iff)
      with b Cons.prems(4) [of b] show "b \<in> set (payment_allocations (reversal_step e ?m a inst s)) \<and> 0 < alloc_amount b"
        by (simp add: set_put_row)
    qed (use Cons.prems(2,3) in simp_all)
    also have "\<dots> = map (\<lambda>x. taken_back e (taken wanted (a # as) (alloc_id x)) x) (payment_allocations s)"
    proof -
      have "taken_back e (taken (wanted - ?m) as (alloc_id (if alloc_id x = alloc_id a then reversed_allocation e ?m a else x)))
          (if alloc_id x = alloc_id a then reversed_allocation e ?m a else x) =
          taken_back e (taken wanted (a # as) (alloc_id x)) x" if x: "x \<in> set (payment_allocations s)" for x
      proof (cases "alloc_id x = alloc_id a")
        case True
        with x a Cons.prems(3) have "x = a" by (metis distinct_map inj_onD)
        have "taken (wanted - ?m) as (alloc_id a) = 0" by (rule taken_none) (use Cons.prems(2) in simp)
        then have "taken_back e (taken (wanted - ?m) as (alloc_id a)) (reversed_allocation e ?m a) = reversed_allocation e ?m a"
          by (simp only: taken_back_zero)
        moreover have "taken wanted (a # as) (alloc_id a) = ?m" using m by (simp add: Let_def)
        ultimately show ?thesis using \<open>x = a\<close> reversed_taken_back [OF m] by simp
      next
        case False
        with m show ?thesis by (simp add: Let_def)
      qed
      then show ?thesis by (simp add: put_row_def)
    qed
    finally show ?thesis .
  qed
qed

text \<open>The same for the list that \<^verbatim>\<open>process_refund\<close> reads: the active allocations of the payments, latest first.\<close>

lemma active_allocations_taken:
  fixes s :: database and org :: ident and pids :: "ident list" and wanted :: decimal
  assumes ok: "finance_ok s" and wanted: "0 \<le> wanted"
  defines "active \<equiv> active_allocation org pids" and "rows \<equiv> payment_allocations s"
  defines "as \<equiv> order_desc alloc_allocated_at (filter active rows)"
  defines "k \<equiv> \<lambda>a. taken wanted as (alloc_id a)"
  assumes loop: "reverse_allocations e org wanted as s = Inr (t, rest)"
  shows "payment_allocations t = map (\<lambda>a. if active a then taken_back e (k a) a else a) rows"
    and "a \<in> set rows \<Longrightarrow> active a \<Longrightarrow> 0 \<le> k a \<and> k a \<le> alloc_amount a"
    and "sum_where active k rows = min wanted (sum_where active alloc_amount rows)"
    and "a \<in> set rows \<Longrightarrow> b \<in> set rows \<Longrightarrow> active a \<Longrightarrow> active b \<Longrightarrow> alloc_allocated_at b < alloc_allocated_at a \<Longrightarrow>
      0 < k b \<Longrightarrow> k a = alloc_amount a"
    and "a \<in> set rows \<Longrightarrow> b \<in> set rows \<Longrightarrow> active a \<Longrightarrow> active b \<Longrightarrow> 0 < k a \<and> k a < alloc_amount a \<Longrightarrow>
      0 < k b \<and> k b < alloc_amount b \<Longrightarrow> a = b"
proof -
  have ids: "distinct (map alloc_id rows)" using finance_okD(3) [OF ok] by (simp add: rows_def)
  have "distinct as" using ids by (simp add: as_def order_desc_def distinct_map)
  then have dist: "distinct (map alloc_id as)"
    using ids unfolding distinct_map as_def by (auto intro: inj_on_subset)
  have pos: "0 < alloc_amount a" if "a \<in> set as" for a
    using that finance_okD(7) [OF ok, of a] by (simp add: as_def rows_def allocation_sound_def)
  have sorted: "sorted_wrt (\<lambda>a b. alloc_allocated_at b \<le> alloc_allocated_at a) as"
    using sorted_sort_key [of "\<lambda>r. - alloc_allocated_at r" "filter active rows"]
    by (simp add: as_def order_desc_def sorted_map)
  have "payment_allocations t = map (\<lambda>a. taken_back e (k a) a) rows"
    unfolding k_def rows_def by (rule reverse_allocations_rows [OF loop dist])
      (use ids pos in \<open>auto simp: as_def rows_def\<close>)
  moreover have "k a = 0" if "a \<in> set rows" "\<not> active a" for a
    unfolding k_def
  proof (rule taken_none)
    show "alloc_id a \<notin> alloc_id ` set as"
    proof
      assume "alloc_id a \<in> alloc_id ` set as"
      then obtain b where "b \<in> set rows" "active b" "alloc_id a = alloc_id b" by (auto simp: as_def)
      with that ids have "a = b" by (metis distinct_map inj_onD)
      with that \<open>active b\<close> show False by simp
    qed
  qed
  ultimately show "payment_allocations t = map (\<lambda>a. if active a then taken_back e (k a) a else a) rows" by simp
  show "0 \<le> k a \<and> k a \<le> alloc_amount a" if "a \<in> set rows" "active a" for a
    unfolding k_def by (rule taken_bounds [OF dist pos]) (use that in \<open>simp_all add: as_def\<close>)
  have "sum_list (map k as) = min wanted (sum_list (map alloc_amount as))"
    unfolding k_def by (rule sum_taken [OF dist pos wanted])
  then show "sum_where active k rows = min wanted (sum_where active alloc_amount rows)"
    unfolding as_def sum_list_order_desc sum_where_def .
  show "k a = alloc_amount a" if "a \<in> set rows" "b \<in> set rows" "active a" "active b"
    "alloc_allocated_at b < alloc_allocated_at a" "0 < k b" for a b
    unfolding k_def by (rule taken_latest_first [OF sorted dist pos, of _ b]) (use that in \<open>simp_all add: as_def k_def\<close>)
  show "a = b" if "a \<in> set rows" "b \<in> set rows" "active a" "active b" "0 < k a \<and> k a < alloc_amount a"
    "0 < k b \<and> k b < alloc_amount b" for a b
    by (rule taken_one_partial [OF dist, where wanted = wanted]) (use that in \<open>simp_all add: as_def k_def\<close>)
qed

lemma reverse_allocations_ledger:
  "reverse_allocations e org wanted as s = Inr (t, rest) \<Longrightarrow> customer_ledger t = customer_ledger s"
proof (induction as arbitrary: wanted s)
  case (Cons a as)
  let ?m = "min (alloc_amount a) wanted"
  show ?case
  proof (cases "wanted \<le> 0")
    case False
    with Cons.prems have "need_given (alloc_installment_id a) (find_installment s org) not_found (\<lambda>inst.
        reverse_allocations e org (wanted - ?m) as (reversal_step e ?m a inst s)) = Inr (t, rest)"
      by (simp add: Let_def reversal_step_def)
    then obtain inst where "reverse_allocations e org (wanted - ?m) as (reversal_step e ?m a inst s) = Inr (t, rest)"
      by (blast dest: need_given_Inr)
    from Cons.IH [OF this] show ?thesis
      by (simp add: reversal_step_def put_allocations_def put_installments_def split: option.splits)
  qed (use Cons.prems in simp)
qed simp

lemma request_refund_returns:
  assumes ret: "request_refund e ctx org pid p s = Return t v"
    and new: "\<not> list_ex (\<lambda>r. refund_organization_id r = org \<and> refund_idempotency_key r = Some (rf_idempotency_key p)) (refunds s)"
  obtains x where "find_payment s org pid = Some x" "finalised (pay_status x)"
    "refund_total s org pid counted_refund + rf_amount p \<le> pay_amount x"
    "refunds t = refunds s @ [new_refund e (uuid e 0) org ctx x p]"
proof -
  have id: "pay_id x = pid" if "find_payment s org pid = Some x" for x using find_paymentD [OF that] by simp
  from ret new show thesis
    unfolding request_refund_def Let_def outcome_simps
    by (auto simp: id finalised_def booking_writes outcome_simps intro!: that)
qed


section \<open>Charges\<close>

lemma new_charge_sel [simp]:
  "charge_amount (new_charge e i org ctx b inst p) = charge_amount_of p inst"
  "charge_principal_amount (new_charge e i org ctx b inst p) = money (open_amount inst)"
  by (simp_all add: new_charge_def)

lemma charge_entry_sel [simp]:
  "ledger_entry_type (charge_entry e i c kind amount d x) = kind" "ledger_amount (charge_entry e i c kind amount d x) = amount"
  by (simp_all add: charge_entry_def)

lemma create_charge_returns:
  assumes ret: "create_charge e ctx org iid p s = Return t v"
    and new: "\<not> list_ex (\<lambda>c. charge_organization_id c = org \<and> charge_idempotency_key c = cc_idempotency_key p) (financial_charges s)"
  obtains i b where "find_installment s org iid = Some i" "0 < money (open_amount i)" "0 < charge_amount_of p i"
    "financial_charges t = financial_charges s @ [new_charge e (uuid e 0) org ctx b i p]"
    "customer_ledger t = customer_ledger s @ [charge_entry e (uuid e 1) (new_charge e (uuid e 0) org ctx b i p)
       Ledger_DEBIT (charge_amount_of p i) [JStr (charge_title (cc_charge_type p)), JStr '' charge: '', JStr (cc_reason p)] '':applied'']"
  using ret new unfolding create_charge_def Let_def outcome_simps
  by (elim exE conjE) (rule that, assumption, auto simp: outcome_simps booking_writes)

text \<open>A charge without a fixed amount is interest on an overdue installment.\<close>

lemma interest_amount:
  assumes "cc_fixed_amount p = None" "0 < charge_amount_of p i"
  shows "inst_due_date i < cc_calculation_date p"
    and "charge_amount_of p i = money (money (open_amount i) * or_decimal (cc_annual_rate_percent p) 0 *
      of_int (cc_calculation_date p - inst_due_date i) / 36500)"
proof -
  have amount: "charge_amount_of p i = money (money (open_amount i) * or_decimal (cc_annual_rate_percent p) 0 *
      of_int (charge_days p i) / 36500)" using assms(1) by (simp add: charge_amount_of_def)
  show late: "inst_due_date i < cc_calculation_date p"
  proof (rule ccontr)
    assume "\<not> inst_due_date i < cc_calculation_date p"
    then have "charge_days p i = 0" by (simp add: charge_days_def)
    with amount assms(2) show False by simp
  qed
  then have "charge_days p i = cc_calculation_date p - inst_due_date i" by (simp add: charge_days_def)
  with amount show "charge_amount_of p i = money (money (open_amount i) * or_decimal (cc_annual_rate_percent p) 0 *
      of_int (cc_calculation_date p - inst_due_date i) / 36500)" by simp
qed

lemma interest_bound:
  assumes "cc_fixed_amount p = None" "0 < money (open_amount i)" "0 < charge_amount_of p i"
    and "or_decimal (cc_annual_rate_percent p) 0 \<le> 100" "cc_calculation_date p - inst_due_date i \<le> 365"
  shows "charge_amount_of p i \<le> money (open_amount i) + 1 / 200"
proof -
  let ?r = "or_decimal (cc_annual_rate_percent p) 0" and ?n = "rat_of_int (cc_calculation_date p - inst_due_date i)"
  note late = interest_amount(1) [OF assms(1,3)] and amount = interest_amount(2) [OF assms(1,3)]
  have n: "0 \<le> ?n" "?n \<le> 365" using assms(5) late
    by (simp_all only: of_int_0_le_iff of_int_le_numeral_iff diff_ge_0_iff_ge less_imp_le)
  have "?r * ?n \<le> 100 * 365" using assms(4) n by (intro order_trans [OF mult_right_mono mult_left_mono]) auto
  then have "money (open_amount i) * (?r * ?n) \<le> money (open_amount i) * 36500"
    using assms(2) by (intro mult_left_mono) auto
  then have "money (open_amount i) * ?r * ?n / 36500 \<le> money (open_amount i)" by (simp add: mult.assoc)
  with money_error [of "money (open_amount i) * ?r * ?n / 36500"] show ?thesis unfolding amount by linarith
qed

end
