(* ===== verification/Finance_Claims.thy ===== *)
theory Finance_Claims
  imports Finance_Workflow Booking_Samples
begin

text \<open>
  The properties of the collections workflow, each with an application to the sample organization where
  it has hypotheses.
\<close>

lemma sample_money_ok: "finance_ok sample_paying" "finance_ok sample_refunding"
  by code_simp+

text \<open>
  C13: a verified payment fills the installments in order and nothing gets lost. When
  \<^verbatim>\<open>allocate_payment\<close> returns, the payment was open and reconciled (or a reason was given); afterwards it is
  completed, its allocations add up to what it and the plan allow, the smaller of its amount and of what
  is open; every installment has received exactly its share, none more than it was short of, and only the
  last one that received something may remain open.
\<close>

theorem allocate_payment_fills:
  assumes "allocate_payment e ctx org pid p s = Return t v" "finance_ok s"
  shows "\<exists>x plan ordered xs. find_payment s org pid = Some x \<and> open_payment (pay_status x) \<and>
    reconciled s org pid (pa_manual_reconciliation_reason p) \<and> latest_plan s org (pay_booking_id x) = Some plan \<and>
    ordered = allocation_order (pa_installment_ids p) (current_installments e s org (plan_id plan)) \<and>
    find_payment t org pid = Some (verified_payment e ctx x) \<and>
    allocated_of s org pid = 0 \<and> allocated_of t org pid = spent xs \<and>
    spread 1 (pay_amount x) ordered = (xs, pay_amount x - spent xs) \<and> spent xs = min (pay_amount x) (open_total ordered) \<and>
    (\<forall>i' \<in> set (installments t). \<exists>i \<in> set (installments s). inst_id i' = inst_id i \<and>
       inst_paid_amount i' = inst_paid_amount i + filled_amount xs (inst_id i) \<and> filled_amount xs (inst_id i) \<le> open_amount i) \<and>
    (\<forall>k i a. (k, i, a) \<in> set (butlast xs) \<longrightarrow> i \<in> set ordered \<and> a = open_amount i)"
  using assms(1)
proof (rule allocate_payment_returns)
  fix x b xs rest and plan :: payment_plan_row
  let ?ordered = "allocation_order (pa_installment_ids p) (current_installments e s org (plan_id plan))"
  assume x: "find_payment s org pid = Some x" and op: "open_payment (pay_status x)"
    and plan: "latest_plan s org (booking_id b) = Some plan" "find_booking s org (pay_booking_id x) = Some b"
    and rec: "reconciled s org pid (pa_manual_reconciliation_reason p)"
    and xs: "spread 1 (pay_amount x) ?ordered = (xs, rest)"
    and i: "installments t = put_rows inst_id (map (\<lambda>(k, i, a). paid_installment a i) xs)
      (put_rows inst_id (current_installments e s org (plan_id plan)) (installments s))"
    and pt: "payments t = put_row pay_id (verified_payment e ctx x) (payments s)"
    and at: "payment_allocations t = payment_allocations s @ new_allocations e 0 s org ctx x xs"
  note xr = find_paymentD [OF x]
  have rows: "set ?ordered = set (current_installments e s org (plan_id plan))" "distinct (map inst_id ?ordered)"
    using distinct_current_installments [OF finance_okD(1) [OF assms(2)]] by simp_all
  have "0 < pay_amount x" using finance_okD(6) [OF assms(2)] xr by (simp add: payment_sound_def)
  with spread_total [OF xs] have total: "spent xs = min (pay_amount x) (open_total ?ordered)"
    "spread 1 (pay_amount x) ?ordered = (xs, pay_amount x - spent xs)" using xs by simp_all
  have "\<exists>i \<in> set (installments s). inst_id i' = inst_id i \<and>
      inst_paid_amount i' = inst_paid_amount i + filled_amount xs (inst_id i) \<and> filled_amount xs (inst_id i) \<le> open_amount i"
    if "i' \<in> set (installments t)" for i'
    using finance_okD(1) [OF assms(2)] rows xs that [unfolded i] by (rule allocated_installments) auto
  moreover have "i \<in> set ?ordered \<and> a = open_amount i" if "(k, i, a) \<in> set (butlast xs)" for k i a
    using spread_order [OF xs that] spread_in [OF xs in_set_butlastD [OF that]] by blast
  moreover have "find_payment t org pid = Some (verified_payment e ctx x)"
    unfolding pt by (rule entity_put_same [OF x]) (use xr in simp_all)
  moreover have "allocated_of s org pid = 0" by (rule open_payment_unallocated [OF assms(2) x op])
  moreover from this allocated_of_new [OF at] xr have "allocated_of t org pid = spent xs" by simp
  moreover have "latest_plan s org (pay_booking_id x) = Some plan" using plan entityD [OF plan(2)] by simp
  ultimately show ?thesis using x op rec total
    by - (rule exI [of _ x], rule exI [of _ plan], rule exI [of _ ?ordered], rule exI [of _ xs], blast)
qed

theorem allocate_payment_fills_witness:
  "\<exists>t v x. allocate_payment sample_env (sample_context ''v'') ''o'' ''m'' sample_allocation_request sample_paying = Return t v \<and>
     find_payment t ''o'' ''m'' = Some x \<and> pay_status x = Payment_COMPLETED"
proof -
  have "returned (allocate_payment sample_env (sample_context ''v'') ''o'' ''m'' sample_allocation_request sample_paying)"
    by code_simp
  then obtain t v where ret: "allocate_payment sample_env (sample_context ''v'') ''o'' ''m'' sample_allocation_request
    sample_paying = Return t v" by (rule returnedE)
  from allocate_payment_fills [OF ret sample_money_ok(1)] obtain x where
    "find_payment t ''o'' ''m'' = Some (verified_payment sample_env (sample_context ''v'') x)" by blast
  with ret show ?thesis by auto
qed

text \<open>
  C23: the payment that is being verified does not count yet. \<^verbatim>\<open>allocate_payment\<close> moves a booking to
  \<^verbatim>\<open>VERIFICATION\<close> when the completed payments reach the booking amount, but it adds them up before the
  payment at hand is flushed: as long as no earlier payment of the booking is completed, the booking stays
  as it is, whatever the amount.
\<close>

theorem allocate_payment_first_does_not_count:
  assumes "allocate_payment e ctx org pid p s = Return t v" "distinct (map booking_id (bookings s))"
    and "find_payment s org pid = Some x" "find_booking s org (pay_booking_id x) = Some b" "0 < booking_booking_amount b"
    and "\<forall>y \<in> set (payments s). pay_organization_id y = org \<and> pay_booking_id y = booking_id b \<longrightarrow> pay_status y \<noteq> Payment_COMPLETED"
  shows "bookings t = bookings s"
proof -
  have "payment_total s org (booking_id b) [Payment_COMPLETED] = 0"
    using assms(6) by (auto simp: payment_total_def sum_where_def filter_empty_conv intro!: sum_list_0)
  with assms(1,3-5) have "bookings t = put_row booking_id b (bookings s)"
    by (elim allocate_payment_returns) auto
  also have "\<dots> = bookings s" using entityD [OF assms(4)] by (simp add: put_row_same [OF assms(2)])
  finally show ?thesis .
qed

theorem allocate_payment_first_does_not_count_witness:
  "\<exists>t v. allocate_payment sample_env (sample_context ''v'') ''o'' ''m'' sample_allocation_request sample_paying = Return t v \<and>
     bookings t = [sample_booking Booking_PAYMENT_PENDING] \<and>
     booking_booking_amount (sample_booking Booking_PAYMENT_PENDING) < pay_amount (sample_payment Payment_PENDING)"
proof -
  have "returned (allocate_payment sample_env (sample_context ''v'') ''o'' ''m'' sample_allocation_request sample_paying)"
    by code_simp
  then obtain t v where ret: "allocate_payment sample_env (sample_context ''v'') ''o'' ''m'' sample_allocation_request
    sample_paying = Return t v" by (rule returnedE)
  have "find_payment sample_paying ''o'' ''m'' = Some (sample_payment Payment_PENDING)"
    "find_booking sample_paying ''o'' (pay_booking_id (sample_payment Payment_PENDING)) = Some (sample_booking Booking_PAYMENT_PENDING)"
    by (simp_all add: booking_sample_defs entity_def)
  from allocate_payment_first_does_not_count [OF ret _ this] ret show ?thesis
    by (auto simp: booking_sample_defs)
qed

text \<open>
  C14: processing a refund takes back exactly what it refunds, from the latest allocations first. When
  \<^verbatim>\<open>process_refund\<close> returns, the refund was approved; afterwards it is completed and the customer is debited its
  amount. From each active allocation \<open>a\<close> of the payments it draws on, \<open>k a\<close> was taken back: a part of it, all of
  it (which marks it reversed) or nothing, and every other allocation is what it was. What is taken adds up to the
  refund, or to all there was when that is less; nothing is taken from an allocation before every later one has
  given all it has, and at most one gives only a part.
\<close>

theorem process_refund_takes_back:
  assumes "process_refund e ctx org rid reference s = Return t v" "finance_ok s"
  shows "\<exists>r bid ps k. find_refund s org rid = Some r \<and> refund_status r = Payment_PROCESSING \<and>
    given (refund_booking_id r) = Some bid \<and> refund_payments s org bid r = Inr ps \<and>
    refunds t = put_row refund_id (processed_refund e reference r) (refunds s) \<and>
    payments t = put_rows pay_id (map (refunded_payment s org r) ps) (payments s) \<and>
    customer_ledger t = customer_ledger s @ [refund_entry e (uuid e 0) r reference] \<and>
    (let active = active_allocation org (map pay_id ps); rows = payment_allocations s in
      payment_allocations t = map (\<lambda>a. if active a then taken_back e (k a) a else a) rows \<and>
      sum_where active k rows = min (refund_amount r) (sum_where active alloc_amount rows) \<and>
      (\<forall>a \<in> set rows. active a \<longrightarrow> 0 \<le> k a \<and> k a \<le> alloc_amount a) \<and>
      (\<forall>a \<in> set rows. \<forall>b \<in> set rows. active a \<and> active b \<and> alloc_allocated_at b < alloc_allocated_at a \<and> 0 < k b \<longrightarrow>
        k a = alloc_amount a) \<and>
      (\<forall>a \<in> set rows. \<forall>b \<in> set rows. active a \<and> active b \<and> 0 < k a \<and> k a < alloc_amount a \<and>
        0 < k b \<and> k b < alloc_amount b \<longrightarrow> a = b)) \<and>
    sum_where (active_allocation org (map pay_id ps)) alloc_amount (payment_allocations t) =
      max 0 (sum_where (active_allocation org (map pay_id ps)) alloc_amount (payment_allocations s) - refund_amount r) \<and>
    finance_ok t"
  using assms(1)
proof (rule process_refund_returns)
  fix r bid s1 rest and ps :: "payment_row list"
  let ?active = "active_allocation org (map pay_id ps)"
  let ?as = "order_desc alloc_allocated_at (filter ?active (payment_allocations s))"
  assume r: "find_refund s org rid = Some r" "refund_status r = Payment_PROCESSING" "given (refund_booking_id r) = Some bid"
    "refund_payments s org bid r = Inr ps"
    and loop: "reverse_allocations e org (refund_amount r) ?as s = Inr (s1, rest)"
    and t: "payment_allocations t = payment_allocations s1"
      "payments t = put_rows pay_id (map (refunded_payment s org r) ps) (payments s1)"
      "refunds t = put_row refund_id (processed_refund e reference r) (refunds s1)"
      "customer_ledger t = customer_ledger s1 @ [refund_entry e (uuid e 0) r reference]"
  from entityD [OF r(1)] have "r \<in> set (refunds s)" by simp
  from finance_okD(8) [OF assms(2) this] have pos: "0 \<le> refund_amount r" by (simp add: refund_sound_def)
  from active_allocations_loop [OF assms(2) this, of e org "map pay_id ps"] loop
  have s1: "payments s1 = payments s" "refunds s1 = refunds s"
    "sum_where ?active alloc_amount (payment_allocations s1) =
      sum_where ?active alloc_amount (payment_allocations s) - min (refund_amount r) (sum_list (map alloc_amount ?as))" by auto
  have total: "sum_list (map alloc_amount ?as) = sum_where ?active alloc_amount (payment_allocations s)"
    unfolding sum_list_order_desc sum_where_def ..
  have left: "sum_where ?active alloc_amount (payment_allocations t) =
      max 0 (sum_where ?active alloc_amount (payment_allocations s) - refund_amount r)"
    using s1(3) unfolding t(1) total by (auto simp: max_def min_def)
  have ok: "finance_ok t" using process_refund_keeps [OF assms(2), of e ctx org rid reference] assms(1) by simp
  define k where "k = (\<lambda>a :: payment_allocation_row. taken (refund_amount r) ?as (alloc_id a))"
  note taken = active_allocations_taken [OF assms(2) pos loop]
  have written: "refunds t = put_row refund_id (processed_refund e reference r) (refunds s)"
    "payments t = put_rows pay_id (map (refunded_payment s org r) ps) (payments s)"
    "customer_ledger t = customer_ledger s @ [refund_entry e (uuid e 0) r reference]"
    using t s1(1,2) reverse_allocations_ledger [OF loop] by simp_all
  have "payment_allocations t = map (\<lambda>a. if ?active a then taken_back e (k a) a else a) (payment_allocations s) \<and>
      sum_where ?active k (payment_allocations s) =
        min (refund_amount r) (sum_where ?active alloc_amount (payment_allocations s)) \<and>
      (\<forall>a \<in> set (payment_allocations s). ?active a \<longrightarrow> 0 \<le> k a \<and> k a \<le> alloc_amount a) \<and>
      (\<forall>a \<in> set (payment_allocations s). \<forall>b \<in> set (payment_allocations s).
        ?active a \<and> ?active b \<and> alloc_allocated_at b < alloc_allocated_at a \<and> 0 < k b \<longrightarrow> k a = alloc_amount a) \<and>
      (\<forall>a \<in> set (payment_allocations s). \<forall>b \<in> set (payment_allocations s).
        ?active a \<and> ?active b \<and> 0 < k a \<and> k a < alloc_amount a \<and> 0 < k b \<and> k b < alloc_amount b \<longrightarrow> a = b)"
    unfolding k_def t(1) by (intro conjI ballI impI taken(1,3); (elim conjE)?; blast dest: taken(2) intro: taken(4,5))
  with r written left ok show ?thesis unfolding Let_def by blast
qed

theorem process_refund_takes_back_witness:
  "\<exists>t v r. process_refund sample_env (sample_context ''v'') ''o'' ''r'' ''R1'' sample_refunding = Return t v \<and>
     find_refund sample_refunding ''o'' ''r'' = Some r \<and> refund_status r = Payment_PROCESSING \<and> finance_ok t"
proof -
  have "returned (process_refund sample_env (sample_context ''v'') ''o'' ''r'' ''R1'' sample_refunding)" by code_simp
  then obtain t v where ret: "process_refund sample_env (sample_context ''v'') ''o'' ''r'' ''R1'' sample_refunding = Return t v"
    by (rule returnedE)
  from process_refund_takes_back [OF ret sample_money_ok(2)] ret show ?thesis by blast
qed


text \<open>
  C21: a refund needs two people. Once \<^verbatim>\<open>request_refund\<close> with a new idempotency key has returned, the
  requests for the payment that count stay within its amount, and the person who asked cannot decide it:
  \<^verbatim>\<open>decide_refund\<close> of the new refund by the same actor is refused with 403 and changes nothing.
\<close>

theorem refund_needs_two_people:
  assumes "request_refund e ctx org pid p s = Return t v" "fresh_env e s"
    and "\<not> list_ex (\<lambda>r. refund_organization_id r = org \<and> refund_idempotency_key r = Some (rf_idempotency_key p)) (refunds s)"
    and "actor_user_id ctx' = actor_user_id ctx"
  shows "decide_refund e' ctx' org (uuid e 0) d t = Raise t (App_Error 403 ''SELF_APPROVAL_NOT_ALLOWED'') \<and>
    (\<exists>x. find_payment s org pid = Some x \<and> finalised (pay_status x) \<and>
       refund_total t org pid counted_refund = refund_total s org pid counted_refund + rf_amount p \<and>
       refund_total t org pid counted_refund \<le> pay_amount x)"
proof -
  from assms(1,3) obtain x where x: "find_payment s org pid = Some x" "finalised (pay_status x)"
    "refund_total s org pid counted_refund + rf_amount p \<le> pay_amount x"
    and t: "refunds t = refunds s @ [new_refund e (uuid e 0) org ctx x p]" by (rule request_refund_returns)
  have "find_refund s org (uuid e 0) = None"
    using fresh_envD(33) [OF assms(2), of 0] by (auto simp: entity_def find_None id_free_def list_all_iff)
  then have "find_refund t org (uuid e 0) = Some (new_refund e (uuid e 0) org ctx x p)"
    by (simp add: t entity_append entity_Cons) (simp add: new_refund_def)
  then have "decide_refund e' ctx' org (uuid e 0) d t = Raise t (App_Error 403 ''SELF_APPROVAL_NOT_ALLOWED'')"
    using assms(4) by (simp add: decide_refund_def fetch_def demand_def new_refund_def)
  moreover have "refund_total t org pid counted_refund = refund_total s org pid counted_refund + rf_amount p"
    using find_paymentD [OF x(1)]
    by (simp add: refund_total_def t sum_where_append new_refund_def counted_refund_def)
  ultimately show ?thesis using x by auto
qed

theorem refund_needs_two_people_witness:
  "\<exists>t v. request_refund sample_env (sample_context ''u'') ''o'' ''m'' sample_refund_create sample_paid = Return t v \<and>
     decide_refund sample_env (sample_context ''u'') ''o'' ''n'' \<lparr>rd_status = Decision_APPROVED, rd_notes = ''fine''\<rparr> t =
       Raise t (App_Error 403 ''SELF_APPROVAL_NOT_ALLOWED'')"
proof -
  have "returned (request_refund sample_env (sample_context ''u'') ''o'' ''m'' sample_refund_create sample_paid)" by code_simp
  then obtain t v where ret: "request_refund sample_env (sample_context ''u'') ''o'' ''m'' sample_refund_create sample_paid =
    Return t v" by (rule returnedE)
  have "fresh_env sample_env sample_paid" by (rule sample_env_fresh) code_simp
  moreover have "\<not> list_ex (\<lambda>r. refund_organization_id r = ''o'' \<and>
      refund_idempotency_key r = Some (rf_idempotency_key sample_refund_create)) (refunds sample_paid)" by code_simp
  moreover have "uuid sample_env 0 = ''n''" by (simp add: sample_env_def)
  ultimately show ?thesis
    using ret refund_needs_two_people [OF ret, of "sample_context ''u''" sample_env "\<lparr>rd_status = Decision_APPROVED, rd_notes = ''fine''\<rparr>"]
    by auto
qed

text \<open>
  C22: a charge is the fixed amount or simple interest. When \<^verbatim>\<open>create_charge\<close> returns for an idempotency key of no
  earlier charge, the installment has something outstanding and exactly one charge and one debit of the same
  positive amount were added. That amount is the requested fixed amount, where one was requested. Otherwise it is
  simple interest, by the day, on what is outstanding of an overdue installment, which within a year and up to 100
  percent never exceeds the outstanding amount by more than the rounding. For the key of an earlier charge of the
  organization, nothing changes.
\<close>

theorem charge_is_simple_interest:
  assumes "create_charge e ctx org iid p s = Return t v"
  defines "known \<equiv> list_ex (\<lambda>c. charge_organization_id c = org \<and> charge_idempotency_key c = cc_idempotency_key p)
    (financial_charges s)"
  shows "(known \<longrightarrow> t = s) \<and>
    (\<not> known \<longrightarrow> (\<exists>i c l. find_installment s org iid = Some i \<and> 0 < open_amount i \<and>
      financial_charges t = financial_charges s @ [c] \<and> customer_ledger t = customer_ledger s @ [l] \<and>
      charge_principal_amount c = money (open_amount i) \<and> 0 < charge_amount c \<and>
      ledger_entry_type l = Ledger_DEBIT \<and> ledger_amount l = charge_amount c \<and>
      (case cc_fixed_amount p of
         Some a \<Rightarrow> charge_amount c = money a
       | None \<Rightarrow> inst_due_date i < cc_calculation_date p \<and>
           charge_amount c = money (charge_principal_amount c * or_decimal (cc_annual_rate_percent p) 0 *
             of_int (cc_calculation_date p - inst_due_date i) / 36500) \<and>
           (or_decimal (cc_annual_rate_percent p) 0 \<le> 100 \<and> cc_calculation_date p - inst_due_date i \<le> 365 \<longrightarrow>
             charge_amount c \<le> charge_principal_amount c + 1 / 200))))"
proof (cases known)
  case True
  with assms(1) show ?thesis unfolding known_def by (auto simp: create_charge_def outcome_simps)
next
  case False
  from assms(1) False [unfolded known_def] obtain i b where i: "find_installment s org iid = Some i"
    and pos: "0 < money (open_amount i)" "0 < charge_amount_of p i"
    and t: "financial_charges t = financial_charges s @ [new_charge e (uuid e 0) org ctx b i p]"
      "customer_ledger t = customer_ledger s @ [charge_entry e (uuid e 1) (new_charge e (uuid e 0) org ctx b i p)
         Ledger_DEBIT (charge_amount_of p i) [JStr (charge_title (cc_charge_type p)), JStr '' charge: '', JStr (cc_reason p)] '':applied'']"
    by (rule create_charge_returns)
  have "0 < open_amount i" using pos(1) open_amount_nonneg [of i] by (cases "open_amount i = 0") (auto simp: less_le)
  moreover have "case cc_fixed_amount p of
       Some a \<Rightarrow> charge_amount_of p i = money a
     | None \<Rightarrow> inst_due_date i < cc_calculation_date p \<and>
         charge_amount_of p i = money (money (open_amount i) * or_decimal (cc_annual_rate_percent p) 0 *
           of_int (cc_calculation_date p - inst_due_date i) / 36500) \<and>
         (or_decimal (cc_annual_rate_percent p) 0 \<le> 100 \<and> cc_calculation_date p - inst_due_date i \<le> 365 \<longrightarrow>
           charge_amount_of p i \<le> money (open_amount i) + 1 / 200)"
  proof (cases "cc_fixed_amount p")
    case None
    from interest_amount [OF None pos(2)] interest_bound [OF None pos] None show ?thesis by simp
  qed (simp add: charge_amount_of_def)
  ultimately show ?thesis using False i t pos(2) by (auto split: option.splits)
qed

theorem charge_is_simple_interest_witness:
  "\<exists>t v i. create_charge sample_env (sample_context ''u'') ''o'' ''i'' sample_charge_create (sample_booked Booking_CONFIRMED) = Return t v \<and>
     find_installment (sample_booked Booking_CONFIRMED) ''o'' ''i'' = Some i \<and> inst_due_date i < cc_calculation_date sample_charge_create"
proof -
  have "returned (create_charge sample_env (sample_context ''u'') ''o'' ''i'' sample_charge_create (sample_booked Booking_CONFIRMED))"
    by code_simp
  then obtain t v where ret: "create_charge sample_env (sample_context ''u'') ''o'' ''i'' sample_charge_create
    (sample_booked Booking_CONFIRMED) = Return t v" by (rule returnedE)
  have "cc_fixed_amount sample_charge_create = None"
    "\<not> list_ex (\<lambda>c. charge_organization_id c = ''o'' \<and> charge_idempotency_key c = cc_idempotency_key sample_charge_create)
       (financial_charges (sample_booked Booking_CONFIRMED))" by code_simp+
  with charge_is_simple_interest [OF ret] ret show ?thesis by auto
qed

end
