(* ===== verification/Finance_Scope.thy ===== *)
theory Finance_Scope
  imports Finance_Keeps
begin

text \<open>
  The collections workflow touches rows of its own organization only and appends to the audit log.
\<close>

section \<open>Writes of several rows\<close>

lemma others_put_rows:
  "(\<And>n. n \<in> set new \<Longrightarrow> own_row org_of id_of org rows n) \<Longrightarrow>
   others org_of org (put_rows id_of new rows) = others org_of org rows"
proof (induction new arbitrary: rows)
  case (Cons n new)
  then have n: "own_row org_of id_of org rows n" by simp
  then have "org_of n = org" by (simp add: own_row_def)
  with Cons.prems have "own_row org_of id_of org (put_row id_of n rows) m" if "m \<in> set new" for m
    using that by (auto intro: own_row_put)
  with Cons.IH others_own_row [OF n] show ?case by simp
qed simp

lemma own_row_put_rows:
  "own_row org_of id_of org rows r \<Longrightarrow> (\<And>n. n \<in> set new \<Longrightarrow> org_of n = org) \<Longrightarrow>
   own_row org_of id_of org (put_rows id_of new rows) r"
proof (induction new arbitrary: rows)
  case (Cons n new)
  then have "own_row org_of id_of org (put_row id_of n rows) r" by (intro own_row_put) simp_all
  with Cons show ?case by simp
qed simp

lemma bookings_put_installments [simp]: "bookings (put_installments is s) = bookings s"
  by (simp add: put_installments_def)

lemma allocation_rows_sel [simp]:
  "rcpt_organization_id (new_receipt e i org x) = org" "ledger_organization_id (receipt_entry e i org b x r) = org"
  "pay_id (verified_payment e ctx x) = pay_id x" "pay_organization_id (verified_payment e ctx x) = pay_organization_id x"
  by (simp_all add: new_receipt_def receipt_entry_def verified_payment_def)

lemma scoped_put_installments [scoped_steps]:
  "scoped org s t \<Longrightarrow> (\<And>i. i \<in> set is \<Longrightarrow> own_row inst_organization_id inst_id org (installments t) i) \<Longrightarrow>
   scoped org s (put_installments is t)"
  by (erule scoped_write) (simp_all add: tenant_isolated_def put_installments_def others_put_rows)

lemma scoped_put_allocations [scoped_steps]:
  "scoped org s t \<Longrightarrow> (\<And>a. a \<in> set as \<Longrightarrow> own_row alloc_organization_id alloc_id org (payment_allocations t) a) \<Longrightarrow>
   scoped org s (put_allocations as t)"
  by (erule scoped_write) (simp_all add: tenant_isolated_def put_allocations_def others_put_rows)

lemma scoped_put_payments [scoped_steps]:
  "scoped org s t \<Longrightarrow> (\<And>x. x \<in> set xs \<Longrightarrow> own_row pay_organization_id pay_id org (payments t) x) \<Longrightarrow>
   scoped org s (put_payments xs t)"
  by (erule scoped_write) (simp_all add: tenant_isolated_def put_payments_def others_put_rows)

lemma scoped_put_refund [scoped_steps]:
  "scoped org s t \<Longrightarrow> own_row refund_organization_id refund_id org (refunds t) r \<Longrightarrow> scoped org s (put_refund r t)"
  by (erule scoped_write) (simp_all add: tenant_isolated_def put_refund_def others_own_row)

lemma scoped_put_charge [scoped_steps]:
  "scoped org s t \<Longrightarrow> own_row charge_organization_id charge_id org (financial_charges t) c \<Longrightarrow> scoped org s (put_charge c t)"
  by (erule scoped_write) (simp_all add: tenant_isolated_def put_charge_def others_own_row)

lemma scoped_add_reconciliation [scoped_steps]:
  "scoped org s t \<Longrightarrow> recon_organization_id r = org \<Longrightarrow> scoped org s (add_reconciliation r t)"
  by (erule scoped_write) (simp_all add: tenant_isolated_def add_reconciliation_def others_append)

lemma scoped_add_demand [scoped_steps]:
  "scoped org s t \<Longrightarrow> demand_organization_id d = org \<Longrightarrow>
   scoped org s (t\<lparr>demand_letters := demand_letters t @ [d]\<rparr>)"
  by (erule scoped_write) (simp_all add: tenant_isolated_def others_append)

lemma scoped_add_charge [scoped_steps]:
  "scoped org s t \<Longrightarrow> charge_organization_id c = org \<Longrightarrow>
   scoped org s (t\<lparr>financial_charges := financial_charges t @ [c]\<rparr>)"
  by (erule scoped_write) (simp_all add: tenant_isolated_def others_append)

lemma scoped_add_refund [scoped_steps]:
  "scoped org s t \<Longrightarrow> refund_organization_id r = org \<Longrightarrow> scoped org s (t\<lparr>refunds := refunds t @ [r]\<rparr>)"
  by (erule scoped_write) (simp_all add: tenant_isolated_def others_append)

lemma scoped_add_allocations [scoped_steps]:
  "scoped org s t \<Longrightarrow> list_all (\<lambda>a. alloc_organization_id a = org) as \<Longrightarrow> rcpt_organization_id r = org \<Longrightarrow>
   scoped org s (t\<lparr>payment_allocations := payment_allocations t @ as, receipts := receipts t @ [r]\<rparr>)"
  by (erule scoped_write) (simp_all add: tenant_isolated_def others_append)

section \<open>The operations\<close>

lemma create_demand_scoped: "scoped org s (committed (create_demand e ctx org bid p s))"
  unfolding create_demand_def Let_def
  by (intro scoped_outcome scoped_refl scoped_steps) (auto simp: new_demand_def)

lemma create_collection_payment_scoped: "scoped org s (committed (create_collection_payment e ctx org bid p s))"
  unfolding create_collection_payment_def Let_def
  by (intro scoped_outcome scoped_refl scoped_steps) (auto simp: collection_payment_def)

lemma reconcile_payment_scoped:
  assumes ok: "written_keys s"
  shows "scoped org s (committed (reconcile_payment e ctx org pid p s))"
  unfolding reconcile_payment_def Let_def
  by (intro scoped_outcome scoped_refl scoped_steps)
    (auto simp: new_reconciliation_def Let_def intro: own_found(3) [OF ok])

lemma create_charge_scoped: "scoped org s (committed (create_charge e ctx org iid p s))"
  unfolding create_charge_def Let_def
  by (intro scoped_outcome scoped_refl scoped_steps) (auto simp: new_charge_def charge_entry_def)

lemma waive_charge_scoped:
  assumes ok: "written_keys s"
  shows "scoped org s (committed (waive_charge e ctx org cid reason s))"
proof -
  have own: "own_row charge_organization_id charge_id org (financial_charges s) (waived_charge e ctx reason c)"
    if "find_charge s org cid = Some c" for c
    using entityD [OF that] by (intro own_rowI [OF written_keysD(9) [OF ok], of c]) (simp_all add: waived_charge_def)
  show ?thesis unfolding waive_charge_def Let_def
    by (intro scoped_outcome scoped_refl scoped_steps) (auto simp: charge_entry_def intro: own dest: entityD)
qed

lemma request_refund_scoped: "scoped org s (committed (request_refund e ctx org pid p s))"
  unfolding request_refund_def Let_def
  by (intro scoped_outcome scoped_refl scoped_steps) (auto simp: new_refund_def)

lemma own_refund:
  assumes "written_keys s" "find_refund s org rid = Some r" "refund_id r' = refund_id r"
    "refund_organization_id r' = refund_organization_id r"
  shows "own_row refund_organization_id refund_id org (refunds s) r'"
  using entityD [OF assms(2)] assms(3,4) by (intro own_rowI [OF written_keysD(10) [OF assms(1)], of r]) simp_all

lemma decided_refund_sel [simp]:
  "refund_id (decided_refund e ctx p r) = refund_id r"
  "refund_organization_id (decided_refund e ctx p r) = refund_organization_id r"
  by (simp_all add: decided_refund_def Let_def split: decision.split)

lemma decide_refund_scoped:
  assumes ok: "written_keys s"
  shows "scoped org s (committed (decide_refund e ctx org rid p s))"
  unfolding decide_refund_def Let_def
  by (intro scoped_outcome scoped_refl scoped_steps) (auto intro: own_refund [OF ok])

lemma allocate_payment_scoped:
  assumes ok: "written_keys s"
  shows "scoped org s (committed (allocate_payment e ctx org pid p s))"
proof -
  have current: "own_row inst_organization_id inst_id org (installments s) i"
    if "i \<in> set (current_installments e s org plan)" for i plan
  proof -
    from that obtain j where "j \<in> set (installments s)" "inst_organization_id j = org" "i = refreshed e j"
      by (auto simp: set_current_installments)
    then show ?thesis by (intro own_rowI [OF written_keysD(6) [OF ok], of j]) simp_all
  qed
  have paid: "own_row inst_organization_id inst_id org
      (put_rows inst_id (current_installments e s org plan) (installments s)) (paid_installment a i)"
    if i: "(k, i, a) \<in> set xs"
      and xs: "spread (Suc 0) r (allocation_order ids (current_installments e s org plan)) = (xs, r')" for k i a xs r r' ids plan
  proof -
    from spread_in [OF xs i] have "i \<in> set (current_installments e s org plan)" by simp
    then have own: "own_row inst_organization_id inst_id org (installments s) i" by (rule current)
    have "own_row inst_organization_id inst_id org (put_rows inst_id (current_installments e s org plan) (installments s)) i"
      by (rule own_row_put_rows [OF own]) (use current in \<open>auto simp: own_row_def\<close>)
    then show ?thesis by (simp add: own_row_def)
  qed
  have new: "list_all (\<lambda>a. alloc_organization_id a = org) (new_allocations e n s org ctx x xs)" for n x xs
    by (auto simp: list_all_iff dest: in_new_allocations)
  show ?thesis unfolding allocate_payment_def Let_def
    by (intro scoped_outcome scoped_refl scoped_steps)
      (auto simp: new intro: own_found(2,3) [OF ok] current paid)
qed

lemma reverse_allocations_scoped:
  assumes "scoped org s0 s" "distinct (map inst_id (installments s))"
    and "\<And>a. a \<in> set as \<Longrightarrow> own_row alloc_organization_id alloc_id org (payment_allocations s) a"
    and "reverse_allocations e org remaining as s = Inr (t, left_over)"
  shows "scoped org s0 t \<and> payments t = payments s \<and> refunds t = refunds s"
  using assms
proof (induction as arbitrary: remaining s)
  case (Cons a as)
  show ?case
  proof (cases "remaining \<le> 0")
    case True
    with Cons.prems show ?thesis by simp
  next
    case False
    let ?m = "min (alloc_amount a) remaining"
    from False Cons.prems(4) obtain inst where inst: "inst = None \<or> (\<exists>i iid. inst = Some i \<and> find_installment s org iid = Some i)"
      and loop: "reverse_allocations e org (remaining - ?m) as (reversal_step e ?m a inst s) = Inr (t, left_over)"
    proof (cases "given (alloc_installment_id a)")
      case None
      with False Cons.prems(4) that [of None] show thesis by (simp add: need_given_def reversal_step_def Let_def)
    next
      case (Some iid)
      with False Cons.prems(4) obtain i where "find_installment s org iid = Some i"
        by (auto simp: need_given_def need_Inr Let_def)
      with Some False Cons.prems(4) that [of "Some i"] show thesis
        by (auto simp: need_given_def need_def reversal_step_def Let_def)
    qed
    have own: "own_row alloc_organization_id alloc_id org (payment_allocations s) (reversed_allocation e ?m a)"
      using Cons.prems(3) [of a] by (simp add: own_row_def)
    have "scoped org s0 (put_installments [reversed_installment e ?m i] s)" if i: "inst = Some i" for i
    proof (rule scoped_put_installments [OF Cons.prems(1)])
      from i inst have "i \<in> set (installments s)" "inst_organization_id i = org" by (auto dest: entityD)
      then show "own_row inst_organization_id inst_id org (installments s) j" if "j \<in> set [reversed_installment e ?m i]" for j
        using that by (intro own_rowI [OF Cons.prems(2), of i]) auto
    qed
    then have s1: "scoped org s0 (reversal_step e ?m a inst s)" unfolding reversal_step_def
      using own Cons.prems(1) by (auto intro!: scoped_put_allocations simp: put_installments_def split: option.split)
    have "own_row alloc_organization_id alloc_id org (payment_allocations (reversal_step e ?m a inst s)) b" if "b \<in> set as" for b
      unfolding reversal_step_sel using Cons.prems(3) [of b] Cons.prems(3) [of a] that
      by (intro own_row_put) (simp_all add: own_row_def)
    from Cons.IH [OF s1 _ this loop] Cons.prems(2) show ?thesis by (simp split: option.splits)
  qed
qed simp

lemma process_refund_scoped:
  assumes ok: "written_keys s"
  shows "scoped org s (committed (process_refund e ctx org rid reference s))"
proof -
  have put: "scoped org s (add_audits as (add_ledger l (put_refund (processed_refund e reference r)
      (put_payments (map (refunded_payment s org r) ps) s1))))"
    if r: "find_refund s org rid = Some r" and ps: "refund_payments s org bid r = Inr ps"
      and loop: "reverse_allocations e org (refund_amount r) (order_desc alloc_allocated_at
        (filter (active_allocation org (map pay_id ps)) (payment_allocations s))) s = Inr (s1, left_over)"
      and org: "list_all (\<lambda>a. audit_organization_id a = org) as" "ledger_organization_id l = org"
    for as l r ps bid s1 left_over
  proof -
    have "own_row alloc_organization_id alloc_id org (payment_allocations s) a"
      if "a \<in> set (order_desc alloc_allocated_at (filter (active_allocation org (map pay_id ps)) (payment_allocations s)))" for a
      using that by (intro own_rowI [OF written_keysD(8) [OF ok], of a]) (simp_all add: active_allocation_def)
    from reverse_allocations_scoped [OF scoped_refl written_keysD(6) [OF ok] this loop]
    have s1: "scoped org s s1" "payments s1 = payments s" "refunds s1 = refunds s" by auto
    have "own_row pay_organization_id pay_id org (payments s) x" if "x \<in> set (map (refunded_payment s org r) ps)" for x
    proof -
      from that obtain y where y: "y \<in> set ps" "x = refunded_payment s org r y" by auto
      with ps have "y \<in> set (payments s) \<and> pay_organization_id y = org"
        by (auto simp: refund_payments_def outcome_simps split: option.splits dest: find_paymentD)
      with y(2) show ?thesis by (intro own_rowI [OF written_keysD(7) [OF ok], of y]) simp_all
    qed
    with s1 own_refund [OF ok r, of "processed_refund e reference r"] org show ?thesis
      by (intro scoped_steps) (auto simp: put_payments_def processed_refund_def)
  qed
  show ?thesis unfolding process_refund_def Let_def
    by (intro scoped_outcome scoped_refl; rule put)
      (simp_all add: refund_entry_def, auto dest: entityD)
qed

end
