(* ===== verification/System_Frames.thy ===== *)
theory System_Frames
  imports Finance_Keeps Finance_Scope
begin

text \<open>
  The invariants of one service under the operations of the others: what the collections workflow does to
  bookings and approvals, and the keys of the two tables that no other invariant speaks about.
\<close>

section \<open>Bookings under the collections workflow\<close>

text \<open>The only booking that a collections operation rewrites is the one whose payment is allocated.\<close>

lemma collections_inventory:
  assumes "inventory_ok s"
  shows "inventory_ok (committed (create_demand e ctx org bid dp s))"
    "inventory_ok (committed (create_collection_payment e ctx org bid cp s))"
    "inventory_ok (committed (reconcile_payment e ctx org pid rp s))"
    "inventory_ok (committed (create_charge e ctx org iid ch s))"
    "inventory_ok (committed (waive_charge e ctx org cid reason s))"
    "inventory_ok (committed (request_refund e ctx org pid rf s))"
    "inventory_ok (committed (decide_refund e ctx org rid rd s))"
  unfolding create_demand_def create_collection_payment_def reconcile_payment_def create_charge_def waive_charge_def
    request_refund_def decide_refund_def Let_def
  by (intro inventory_ok_intros assms; rule inventory_frame [rotated 3, OF assms];
      simp add: add_payment_def put_payment_def add_reconciliation_def put_charge_def put_refund_def add_audits_def
        queue_in_app_def add_ledger_def)+

lemma reverse_allocations_sel:
  "reverse_allocations e org remaining as s = Inr (t, left_over) \<Longrightarrow>
   units t = units s \<and> unit_holds t = unit_holds s \<and> bookings t = bookings s \<and>
   booking_approvals t = booking_approvals s \<and> booking_financing t = booking_financing s \<and>
   financial_charges t = financial_charges s"
proof (induction as arbitrary: remaining s)
  case (Cons a as)
  show ?case
  proof (cases "remaining \<le> 0")
    case False
    let ?m = "min (alloc_amount a) remaining"
    from False Cons.prems have "need_given (alloc_installment_id a) (find_installment s org) not_found (\<lambda>inst.
        reverse_allocations e org (remaining - ?m) as (put_allocations [reversed_allocation e ?m a]
          (case inst of None \<Rightarrow> s | Some i \<Rightarrow> put_installments [reversed_installment e ?m i] s))) = Inr (t, left_over)"
      by (simp add: Let_def)
    then have "\<exists>inst. reverse_allocations e org (remaining - ?m) as (put_allocations [reversed_allocation e ?m a]
          (case inst of None \<Rightarrow> s | Some i \<Rightarrow> put_installments [reversed_installment e ?m i] s)) = Inr (t, left_over)"
      by (rule need_given_Inr)
    then obtain inst where "reverse_allocations e org (remaining - ?m) as (put_allocations [reversed_allocation e ?m a]
          (case inst of None \<Rightarrow> s | Some i \<Rightarrow> put_installments [reversed_installment e ?m i] s)) = Inr (t, left_over)" ..
    from Cons.IH [OF this] show ?thesis
      by (simp add: put_allocations_def put_installments_def split: option.splits)
  qed (use Cons.prems in simp)
qed simp

lemma process_refund_inventory:
  assumes "inventory_ok s"
  shows "inventory_ok (committed (process_refund e ctx org rid reference s))"
  unfolding process_refund_def Let_def
  by (intro inventory_ok_intros assms; rule inventory_frame [rotated 3, OF assms];
      auto simp: put_payments_def put_refund_def add_audits_def add_ledger_def dest: reverse_allocations_sel)

text \<open>A booking that moves on to the verification of its documents stays live.\<close>

definition moved_on :: "env \<Rightarrow> decimal \<Rightarrow> booking_row \<Rightarrow> booking_row" where
  "moved_on e completed b =
     (if booking_booking_amount b \<le> completed \<and> booking_status b = Booking_PAYMENT_PENDING
      then b\<lparr>booking_status := Booking_VERIFICATION, booking_submitted_at := Some (now e),
             booking_verification_completed_at := Some (now e)\<rparr> else b)"

lemma put_same_booking: "inventory_ok s \<Longrightarrow> b \<in> set (bookings s) \<Longrightarrow> put_booking b s = s"
  by (simp add: put_booking_def put_row_same inventory_okD(3))

lemma allocate_payment_inventory:
  assumes ok: "inventory_ok s"
  shows "inventory_ok (committed (allocate_payment e ctx org pid p s))"
proof -
  have moved: "inventory_ok (put_booking (moved_on e c b) s)" if "b \<in> set (bookings s)" for c b
  proof (cases "booking_booking_amount b \<le> c \<and> booking_status b = Booking_PAYMENT_PENDING")
    case True
    with that show ?thesis by (intro put_booking_live_ok [OF ok, of b]) (simp_all add: moved_on_def)
  next
    case False
    with put_same_booking [OF ok that] ok show ?thesis by (auto simp: moved_on_def)
  qed
  show ?thesis
    unfolding allocate_payment_def Let_def
    by (intro inventory_ok_intros ok; rule inventory_frame [rotated 3]; (rule moved)?)
      (auto simp: put_installments_def put_payment_def add_audits_def add_ledger_def queue_in_app_def moved_on_def
        dest: find_bookingD)
qed

text \<open>The unit keys under the collections workflow.\<close>

lemma collections_keys:
  assumes "unit_keys_ok s"
  shows "unit_keys_ok (committed (create_demand e ctx org bid dp s))"
    "unit_keys_ok (committed (create_collection_payment e ctx org bid cp s))"
    "unit_keys_ok (committed (reconcile_payment e ctx org pid rp s))"
    "unit_keys_ok (committed (create_charge e ctx org iid ch s))"
    "unit_keys_ok (committed (waive_charge e ctx org cid reason s))"
    "unit_keys_ok (committed (request_refund e ctx org pid rf s))"
    "unit_keys_ok (committed (decide_refund e ctx org rid rd s))"
    "unit_keys_ok (committed (process_refund e ctx org rid reference s))"
  unfolding create_demand_def create_collection_payment_def reconcile_payment_def create_charge_def waive_charge_def
    request_refund_def decide_refund_def process_refund_def Let_def
  by (intro keys_intros assms; rule keys_frame [rotated 3, OF assms];
      auto simp: add_payment_def put_payment_def add_reconciliation_def put_charge_def put_refund_def add_audits_def
        queue_in_app_def add_ledger_def put_payments_def dest: reverse_allocations_sel)+

lemma allocate_payment_keys:
  assumes ok: "unit_keys_ok s"
  shows "unit_keys_ok (committed (allocate_payment e ctx org pid p s))"
proof -
  have moved: "unit_keys_ok (put_booking (moved_on e c b) s)" if "b \<in> set (bookings s)" for c b
    by (rule keys_put_booking [OF ok that])
      (use unit_keys_okD(5) [OF ok that] in \<open>auto simp: moved_on_def booking_slot_ok_def\<close>)
  show ?thesis
    unfolding allocate_payment_def Let_def
    by (intro keys_intros ok; rule keys_frame [rotated 3]; (rule moved)?)
      (auto simp: put_installments_def put_payment_def add_audits_def add_ledger_def queue_in_app_def moved_on_def
        dest: find_bookingD)
qed

section \<open>The approval chain and the remaining keys\<close>

lemma collections_approvals:
  assumes "approvals_ok s"
  shows "approvals_ok (committed (create_demand e ctx org bid dp s))"
    "approvals_ok (committed (create_collection_payment e ctx org bid cp s))"
    "approvals_ok (committed (reconcile_payment e ctx org pid rp s))"
    "approvals_ok (committed (create_charge e ctx org iid ch s))"
    "approvals_ok (committed (waive_charge e ctx org cid reason s))"
    "approvals_ok (committed (request_refund e ctx org pid rf s))"
    "approvals_ok (committed (decide_refund e ctx org rid rd s))"
    "approvals_ok (committed (process_refund e ctx org rid reference s))"
  unfolding create_demand_def create_collection_payment_def reconcile_payment_def create_charge_def waive_charge_def
    request_refund_def decide_refund_def process_refund_def Let_def
  by (intro approvals_intros assms; rule approvals_frame [rotated 2, OF assms];
      auto simp: add_payment_def put_payment_def add_reconciliation_def put_charge_def put_refund_def add_audits_def
        queue_in_app_def add_ledger_def put_payments_def dest: reverse_allocations_sel)+

lemma allocate_payment_approvals:
  assumes ok: "approvals_ok s"
  shows "approvals_ok (committed (allocate_payment e ctx org pid p s))"
proof -
  have moved: "approvals_ok (put_booking (moved_on e c b) s)" if "b \<in> set (bookings s)" for c b
    by (rule put_booking_approvals [OF ok that _ _ _ refl]) (auto simp: moved_on_def)
  show ?thesis
    unfolding allocate_payment_def Let_def
    by (intro approvals_intros ok; rule approvals_frame [rotated 2]; (rule moved)?)
      (auto simp: put_installments_def put_payment_def add_audits_def add_ledger_def queue_in_app_def moved_on_def put_booking_def
        dest: find_bookingD)
qed

text \<open>The keys of the two tables no other invariant speaks of.\<close>

definition side_keys :: "database \<Rightarrow> bool" where
  "side_keys s \<longleftrightarrow> distinct (map fin_id (booking_financing s)) \<and> distinct (map charge_id (financial_charges s))"

lemma side_keys_frame: "booking_financing t = booking_financing s \<Longrightarrow> financial_charges t = financial_charges s \<Longrightarrow>
    side_keys s \<Longrightarrow> side_keys t"
  by (simp add: side_keys_def)

lemmas side_keys_intros = outcome_intros [where P = side_keys]

lemma side_keys_sel [simp]:
  "booking_financing (add_audits as s) = booking_financing s" "financial_charges (add_audits as s) = financial_charges s"
  "booking_financing (queue_in_app e k org rs m d sch s) = booking_financing s"
  "financial_charges (queue_in_app e k org rs m d sch s) = financial_charges s"
  "booking_financing (put_unit u s) = booking_financing s" "financial_charges (put_unit u s) = financial_charges s"
  "booking_financing (put_hold h s) = booking_financing s" "financial_charges (put_hold h s) = financial_charges s"
  "booking_financing (put_booking b s) = booking_financing s" "financial_charges (put_booking b s) = financial_charges s"
  "booking_financing (add_booking b s) = booking_financing s" "financial_charges (add_booking b s) = financial_charges s"
  "booking_financing (add_applicants ap s) = booking_financing s" "financial_charges (add_applicants ap s) = financial_charges s"
  "booking_financing (add_payment p s) = booking_financing s" "financial_charges (add_payment p s) = financial_charges s"
  "booking_financing (put_payment p s) = booking_financing s" "financial_charges (put_payment p s) = financial_charges s"
  "booking_financing (put_approval a s) = booking_financing s" "financial_charges (put_approval a s) = financial_charges s"
  "booking_financing (add_approvals ns s) = booking_financing s" "financial_charges (add_approvals ns s) = financial_charges s"
  "booking_financing (cancel_approvals e org bid c s) = booking_financing s"
  "financial_charges (cancel_approvals e org bid c s) = financial_charges s"
  "booking_financing (add_ledger l s) = booking_financing s" "financial_charges (add_ledger l s) = financial_charges s"
  "booking_financing (put_installments is s) = booking_financing s" "financial_charges (put_installments is s) = financial_charges s"
  "booking_financing (put_payments ps s) = booking_financing s" "financial_charges (put_payments ps s) = financial_charges s"
  "booking_financing (put_refund r s) = booking_financing s" "financial_charges (put_refund r s) = financial_charges s"
  "booking_financing (add_reconciliation rc s) = booking_financing s"
  "financial_charges (add_reconciliation rc s) = financial_charges s"
  "booking_financing (put_charge ch s) = booking_financing s"
  "financial_charges (put_charge ch s) = put_row charge_id ch (financial_charges s)"
  "financial_charges (upsert_financing e i org bid f s) = financial_charges s"
  "booking_financing (fst (expire_due_documents e k org s)) = booking_financing s"
  "financial_charges (fst (expire_due_documents e k org s)) = financial_charges s"
  by (simp_all add: add_audits_def queue_in_app_def put_unit_def put_hold_def put_booking_def add_booking_def
    add_applicants_def add_payment_def put_payment_def put_approval_def add_approvals_def cancel_approvals_def add_ledger_def
    put_installments_def put_payments_def put_refund_def add_reconciliation_def put_charge_def upsert_financing_def
    expire_due_documents_def Let_def split: option.split)

lemma add_plan_side: "add_plan e k org b p s = Inr (t, plan) \<Longrightarrow>
    booking_financing t = booking_financing s \<and> financial_charges t = financial_charges s"
  by (auto simp: add_plan_def Let_def outcome_simps)

lemma upsert_side_keys:
  assumes "side_keys s" "fresh_env e s0" "booking_financing s = booking_financing s0"
  shows "side_keys (upsert_financing e (uuid e n) org bid f s)"
proof (cases "financing_of s org bid")
  case None
  have "id_free fin_id (uuid e n) (booking_financing s)" using fresh_envD(22) [OF assms(2), of n] assms(3) by simp
  with None assms(1) show ?thesis
    by (auto simp: side_keys_def upsert_financing_def filled_financing_def id_free_def list_all_iff)
next
  case (Some r)
  with assms(1) show ?thesis by (simp add: side_keys_def upsert_financing_def)
qed

lemma side_keys_documents: "side_keys s \<Longrightarrow> side_keys (fst (expire_due_documents e k org s))"
  by (erule side_keys_frame [rotated 2]) simp_all

lemma booking_side_keys:
  assumes ok: "side_keys s" and fresh: "fresh_env e s"
  shows "side_keys (committed (create_booking e ctx org p s))" "side_keys (committed (set_financing e ctx org bid f s))"
    "side_keys (committed (create_charge e ctx org iid ch s))"
proof -
  obtain t k where t: "expire_due_documents e 0 org s = (t, k)" by (metis prod.exhaust)
  have okt: "side_keys t" using side_keys_documents [OF ok, of e 0 org] t by simp
  have "booking_financing (fst (expire_due_documents e 0 org s)) = booking_financing s" by simp
  with t have same: "booking_financing t = booking_financing s" by simp
  show "side_keys (committed (create_booking e ctx org p s))"
    unfolding create_booking_def t prod.case Let_def
    by (intro side_keys_intros okt, rule side_keys_frame [rotated 2], rule upsert_side_keys [OF _ fresh, rotated])
      (auto simp: same dest!: add_plan_side intro: side_keys_frame [OF _ _ okt])
  show "side_keys (committed (set_financing e ctx org bid f s))"
    unfolding set_financing_def Let_def
    by (intro side_keys_intros ok, rule side_keys_frame [rotated 2], rule upsert_side_keys [OF ok fresh refl]) simp_all
  show "side_keys (committed (create_charge e ctx org iid ch s))"
    unfolding create_charge_def Let_def
    by (intro side_keys_intros ok)
      (use ok fresh_envD(31) [OF fresh, of 0] in \<open>auto simp: side_keys_def new_charge_def id_free_def list_all_iff\<close>)
qed


lemma holds_only_side_keys:
  assumes "holds_only s t" "side_keys s"
  shows "side_keys t"
proof -
  note t = assms(1) [unfolded holds_only_def, symmetric]
  have "booking_financing t = booking_financing s" "financial_charges t = financial_charges s" by (subst t, simp)+
  with assms(2) show ?thesis by (simp add: side_keys_def)
qed

lemma inventory_side_keys:
  assumes ok: "side_keys s"
  shows "side_keys (committed (initiate_booking e ctx org uid p s))"
    "side_keys (committed (transition_booking_endpoint e ctx org bid target s))"
proof -
  have put: "side_keys (add_audits as (add_booking b (put_unit u (convert_hold e k org ctx n current t))))"
    if "expire_hold e 0 (Some ctx) u0 s = (t, u', current')" for as b u k n current t u0 u' current'
    using holds_only_side_keys [OF holds_only_expire [OF that] ok]
    by (elim side_keys_frame [rotated 2]) (auto simp: convert_hold_def split: option.split)
  show "side_keys (committed (initiate_booking e ctx org uid p s))" unfolding initiate_booking_def Let_def
    by (intro side_keys_intros ok, unfold outcome.sel, rule put) simp_all
  show "side_keys (committed (transition_booking_endpoint e ctx org bid target s))"
    unfolding transition_booking_endpoint_def transition_booking_def Let_def
    by (intro side_keys_intros ok; (rule ok | rule side_keys_frame [rotated 2, OF ok]; simp))
qed

lemma other_side_keys:
  assumes ok: "side_keys s"
  shows "side_keys (committed (get_booking e org bid s))" "side_keys (committed (advance_booking e ctx org bid v s))"
    "side_keys (committed (request_approval e ctx org bid q s))"
    "side_keys (committed (replace_joint_applicants e ctx org bid items s))"
    "side_keys (committed (set_payment_plan e ctx org bid pp s))"
    "side_keys (committed (create_payment e ctx org bid cp s))"
    "side_keys (committed (decide_payment e ctx org bid pid d notes s))"
    "side_keys (committed (cancel_booking e ctx org bid reason s))"
proof -
  obtain t k where t: "expire_due_documents e 0 org s = (t, k)" by (metis prod.exhaust)
  have okt: "side_keys t" using side_keys_documents [OF ok, of e 0 org] t by simp
  show "side_keys (committed (get_booking e org bid s))" "side_keys (committed (advance_booking e ctx org bid v s))"
    "side_keys (committed (request_approval e ctx org bid q s))"
    unfolding get_booking_def advance_booking_def request_approval_def t prod.case Let_def
    by (intro side_keys_intros okt; (rule okt | rule side_keys_frame [rotated 2, OF okt]; simp))+
  show "side_keys (committed (replace_joint_applicants e ctx org bid items s))"
    "side_keys (committed (set_payment_plan e ctx org bid pp s))"
    "side_keys (committed (create_payment e ctx org bid cp s))"
    "side_keys (committed (decide_payment e ctx org bid pid d notes s))"
    "side_keys (committed (cancel_booking e ctx org bid reason s))"
    unfolding replace_joint_applicants_def set_payment_plan_def create_payment_def decide_payment_def cancel_booking_def Let_def
    by (intro side_keys_intros ok; (rule ok | rule side_keys_frame [rotated 2, OF ok]; auto dest: add_plan_side))+
qed

text \<open>A column that none of the writes of a decision touches is left alone by the decision.\<close>

lemma apply_decision_frame:
  assumes ret: "apply_decision e ctx org b u a s = Inr (t, b')"
    and f: "\<And>u s. f (put_unit u s) = f s" "\<And>b s. f (put_booking b s) = f s" "\<And>a s. f (put_approval a s) = f s"
      "\<And>e org bid c s. f (cancel_approvals e org bid c s) = f s" "\<And>as s. f (add_audits as s) = f s"
      "\<And>cs s. f (s\<lparr>commissions := cs\<rparr>) = f s"
  shows "f t = f s"
proof -
  have accrue: "f t' = f s'" if "accrue_booking_commission e k ctx org b s' = Inr t'" for k b s' t'
    using that by (auto simp: accrue_booking_commission_def Let_def outcome_simps f split: option.splits)
  show ?thesis
  proof (cases "appr_status a = Approval_REJECTED")
    case True
    with ret f show ?thesis by (auto simp: apply_decision_def Let_def)
  next
    case False
    show ?thesis
    proof (cases "count_rows (pending_approval org (booking_id b)) (booking_approvals (put_approval a s)) = 0")
      case True
      with False ret have "accrue_booking_commission e 0 ctx org (confirmed_booking e ctx b)
          (put_unit (u\<lparr>unit_status := Unit_BOOKED\<rparr>) (put_booking (confirmed_booking e ctx b) (put_approval a s))) = Inr t"
        by (auto simp: apply_decision_def Let_def outcome_simps split: sum.splits)
      from accrue [OF this] show ?thesis by (simp add: f)
    qed (use False ret f in \<open>auto simp: apply_decision_def Let_def\<close>)
  qed
qed

lemma decide_approval_side_keys:
  assumes ok: "side_keys s"
  shows "side_keys (committed (decide_approval e ctx org bid aid p s))"
proof -
  have put: "side_keys (queue_in_app e k org rs m None None (add_audits as s1))"
    if "apply_decision e ctx org b u a s = Inr (s1, b')" for k rs m as b u a s1 b'
    using apply_decision_frame [OF that, of booking_financing] apply_decision_frame [OF that, of financial_charges]
    by (intro side_keys_frame [rotated 2, OF ok]) simp_all
  show ?thesis unfolding decide_approval_def Let_def by (intro side_keys_intros ok; rule put) simp_all
qed

lemma collections_side_keys:
  assumes ok: "side_keys s"
  shows "side_keys (committed (create_demand e ctx org bid dp s))"
    "side_keys (committed (create_collection_payment e ctx org bid cp s))"
    "side_keys (committed (reconcile_payment e ctx org pid rp s))"
    "side_keys (committed (waive_charge e ctx org cid reason s))"
    "side_keys (committed (request_refund e ctx org pid rf s))"
    "side_keys (committed (decide_refund e ctx org rid rd s))"
    "side_keys (committed (process_refund e ctx org rid reference s))"
    "side_keys (committed (allocate_payment e ctx org pid pa s))"
  unfolding create_demand_def create_collection_payment_def reconcile_payment_def waive_charge_def
    request_refund_def decide_refund_def process_refund_def allocate_payment_def Let_def
  by (intro side_keys_intros ok; use ok in \<open>auto simp: side_keys_def dest!: reverse_allocations_sel\<close>)+

end
