(* ===== verification/System.thy ===== *)
theory System
  imports System_Frames Expiry
begin

text \<open>
  The inventory, booking and collections services as one system: a request of an organization is one of
  their operations, \<open>handle\<close> is the database it leaves, and \<open>leads_to\<close> relates a database to those that
  any sequence of requests and sweeps of the expiry worker can make of it. The requests run one after the other:
  every operation that writes locks the rows it decides on first.
\<close>

section \<open>Requests\<close>

datatype request =
    Create_Hold ident hold_create
  | Decide_Hold ident hold_decision
  | Release_Hold ident string
  | List_Holds hold_filter nat nat
  | Hold_History ident
  | Hold_Stats
  | Transition_Unit ident unit_status
  | Initiate_Booking ident booking_initiate
  | Transition_Booking ident booking_status
  | Create_Booking booking_create
  | Get_Booking ident
  | Advance_Booking ident booking_advance
  | Replace_Applicants ident "joint_applicant_input list"
  | Set_Plan ident payment_plan_input
  | Set_Financing ident financing_input
  | Create_Payment ident booking_payment_create
  | Decide_Payment ident ident payment_decision "string option"
  | Request_Approval ident booking_approval_request
  | Decide_Approval ident ident booking_approval_decision
  | Cancel_Booking ident string
  | Create_Demand ident demand_create
  | Collect_Payment ident collection_payment_create
  | Reconcile_Payment ident reconciliation_create
  | Allocate_Payment ident payment_allocation_request
  | Create_Charge ident charge_create
  | Waive_Charge ident string
  | Request_Refund ident refund_create
  | Decide_Refund ident refund_decision
  | Process_Refund ident string

primrec handle :: "env \<Rightarrow> mutation_context \<Rightarrow> ident \<Rightarrow> request \<Rightarrow> database \<Rightarrow> database" where
  "handle e ctx org (Create_Hold uid p) s = committed (create_hold e ctx org uid p s)"
| "handle e ctx org (Decide_Hold hid p) s = committed (decide_hold e ctx org hid p s)"
| "handle e ctx org (Release_Hold uid reason) s = committed (release_hold e ctx org uid reason s)"
| "handle e ctx org (List_Holds f page n) s = committed (list_holds e org f page n s)"
| "handle e ctx org (Hold_History uid) s = committed (hold_history e org uid s)"
| "handle e ctx org Hold_Stats s = committed (hold_stats e org s)"
| "handle e ctx org (Transition_Unit uid target) s = committed (transition_unit_status e ctx org uid target s)"
| "handle e ctx org (Initiate_Booking uid p) s = committed (initiate_booking e ctx org uid p s)"
| "handle e ctx org (Transition_Booking bid target) s = committed (transition_booking_endpoint e ctx org bid target s)"
| "handle e ctx org (Create_Booking p) s = committed (create_booking e ctx org p s)"
| "handle e ctx org (Get_Booking bid) s = committed (get_booking e org bid s)"
| "handle e ctx org (Advance_Booking bid p) s = committed (advance_booking e ctx org bid p s)"
| "handle e ctx org (Replace_Applicants bid items) s = committed (replace_joint_applicants e ctx org bid items s)"
| "handle e ctx org (Set_Plan bid p) s = committed (set_payment_plan e ctx org bid p s)"
| "handle e ctx org (Set_Financing bid p) s = committed (set_financing e ctx org bid p s)"
| "handle e ctx org (Create_Payment bid p) s = committed (create_payment e ctx org bid p s)"
| "handle e ctx org (Decide_Payment bid pid d notes) s = committed (decide_payment e ctx org bid pid d notes s)"
| "handle e ctx org (Request_Approval bid p) s = committed (request_approval e ctx org bid p s)"
| "handle e ctx org (Decide_Approval bid aid p) s = committed (decide_approval e ctx org bid aid p s)"
| "handle e ctx org (Cancel_Booking bid reason) s = committed (cancel_booking e ctx org bid reason s)"
| "handle e ctx org (Create_Demand bid p) s = committed (create_demand e ctx org bid p s)"
| "handle e ctx org (Collect_Payment bid p) s = committed (create_collection_payment e ctx org bid p s)"
| "handle e ctx org (Reconcile_Payment pid p) s = committed (reconcile_payment e ctx org pid p s)"
| "handle e ctx org (Allocate_Payment pid p) s = committed (allocate_payment e ctx org pid p s)"
| "handle e ctx org (Create_Charge iid p) s = committed (create_charge e ctx org iid p s)"
| "handle e ctx org (Waive_Charge cid reason) s = committed (waive_charge e ctx org cid reason s)"
| "handle e ctx org (Request_Refund pid p) s = committed (request_refund e ctx org pid p s)"
| "handle e ctx org (Decide_Refund rid p) s = committed (decide_refund e ctx org rid p s)"
| "handle e ctx org (Process_Refund rid reference) s = committed (process_refund e ctx org rid reference s)"

text \<open>What the request schemas guarantee and the operations rely on.\<close>

definition request_ok :: "request \<Rightarrow> bool" where
  "request_ok r = (case r of
     Create_Booking p \<Rightarrow> payment_plan_input_ok (bc_payment_plan p)
   | Set_Plan _ p \<Rightarrow> payment_plan_input_ok p
   | Create_Payment _ p \<Rightarrow> 0 < bp_amount p
   | Request_Approval _ p \<Rightarrow> approval_request_ok p
   | Collect_Payment _ p \<Rightarrow> 0 < cp_amount p
   | Request_Refund _ p \<Rightarrow> 0 < rf_amount p
   | _ \<Rightarrow> True)"

text \<open>
  The one request that breaks the inventory: cancelling, through the inventory endpoint, a booking that
  was already rejected. A run is careful when it makes no such request.
\<close>

definition cancels_live :: "database \<Rightarrow> ident \<Rightarrow> request \<Rightarrow> bool" where
  "cancels_live s org r = (case r of
     Transition_Booking bid _ \<Rightarrow>
       (case find_booking s org bid of None \<Rightarrow> True | Some b \<Rightarrow> live (booking_status b))
   | _ \<Rightarrow> True)"

section \<open>Runs\<close>

text \<open>
  A database before the first sale: master data of any kind, units that are free, and no hold,
  booking or money row.
\<close>

definition seeded :: "database \<Rightarrow> bool" where
  "seeded s \<longleftrightarrow> distinct (map unit_id (units s)) \<and>
     list_all (\<lambda>u. unit_status u = Unit_AVAILABLE \<or> unit_status u = Unit_CANCELLED_RELEASED) (units s) \<and>
     unit_holds s = [] \<and> bookings s = [] \<and> booking_approvals s = [] \<and> booking_financing s = [] \<and>
     installments s = [] \<and> payments s = [] \<and> payment_allocations s = [] \<and> financial_charges s = [] \<and> refunds s = []"

text \<open>
  What requests and sweeps of the worker can lead to from a database \<open>s\<close>: \<open>leads_to\<close> allows every request,
  \<open>leads_carefully\<close> every one but the cancellation of a rejected booking.
\<close>

inductive leads_by :: "(database \<Rightarrow> ident \<Rightarrow> request \<Rightarrow> bool) \<Rightarrow> database \<Rightarrow> database \<Rightarrow> bool" for allowed s where
  start: "leads_by allowed s s"
| request: "leads_by allowed s t \<Longrightarrow> fresh_env e t \<Longrightarrow> org \<noteq> [] \<Longrightarrow> request_ok r \<Longrightarrow> allowed t org r \<Longrightarrow>
    leads_by allowed s (handle e ctx org r t)"
| sweep: "leads_by allowed s t \<Longrightarrow> leads_by allowed s (committed (expire_due_holds e 0 None limit None t))"

definition every_request :: "database \<Rightarrow> ident \<Rightarrow> request \<Rightarrow> bool" where
  "every_request s org r = True"

abbreviation leads_to :: "database \<Rightarrow> database \<Rightarrow> bool" where
  "leads_to \<equiv> leads_by every_request"

abbreviation leads_carefully :: "database \<Rightarrow> database \<Rightarrow> bool" where
  "leads_carefully \<equiv> leads_by cancels_live"

lemma leads_by_trans: "leads_by allowed t u \<Longrightarrow> leads_by allowed s t \<Longrightarrow> leads_by allowed s u"
  by (induction rule: leads_by.induct) (auto intro: leads_by.intros)

lemma leads_carefully_leads_to: "leads_carefully s t \<Longrightarrow> leads_to s t"
  by (induction rule: leads_by.induct) (auto intro: leads_by.intros simp: every_request_def)

lemma leads_by_request:
  "fresh_env e s \<Longrightarrow> org \<noteq> [] \<Longrightarrow> request_ok r \<Longrightarrow> allowed s org r \<Longrightarrow> leads_by allowed s (handle e ctx org r s)"
  by (rule leads_by.request [OF leads_by.start])

lemma leads_to_request: "fresh_env e s \<Longrightarrow> org \<noteq> [] \<Longrightarrow> request_ok r \<Longrightarrow> leads_to s (handle e ctx org r s)"
  by (rule leads_by_request) (simp_all add: every_request_def)

text \<open>What a property of the database has to satisfy to hold forever once it holds.\<close>

locale kept =
  fixes allowed :: "database \<Rightarrow> ident \<Rightarrow> request \<Rightarrow> bool"
    and inv :: "database \<Rightarrow> bool"
  assumes seeded: "seeded s \<Longrightarrow> inv s"
    and handled: "inv s \<Longrightarrow> fresh_env e s \<Longrightarrow> request_ok r \<Longrightarrow> allowed s org r \<Longrightarrow> inv (handle e ctx org r s)"
    and swept: "inv s \<Longrightarrow> inv (committed (expire_due_holds e 0 None limit None s))"
begin

lemma always: "inv s \<Longrightarrow> leads_by allowed s t \<Longrightarrow> inv t"
  by (rotate_tac, induction rule: leads_by.induct) (blast intro: handled swept)+

lemma ever_after: "seeded s \<Longrightarrow> leads_by allowed s t \<Longrightarrow> inv t"
  by (blast intro: always seeded)

end

section \<open>The invariants of the services\<close>

lemma inventory_ok_seeded: "seeded s \<Longrightarrow> inventory_ok s"
  by (auto simp: seeded_def inventory_ok_def holds_of_def live_bookings_def list_all_iff)

lemma approvals_ok_seeded: "seeded s \<Longrightarrow> approvals_ok s"
  by (simp add: seeded_def approvals_ok_def)

lemma finance_ok_seeded: "seeded s \<Longrightarrow> finance_ok s"
  by (simp add: seeded_def finance_ok_def)

lemma transition_endpoint_keeps:
  assumes "inventory_ok s" "cancels_live s org (Transition_Booking bid target)"
  shows "inventory_ok (committed (transition_booking_endpoint e ctx org bid target s))"
  unfolding transition_booking_endpoint_def
  by (intro inventory_ok_intros assms transition_booking_keeps)
    (use assms(2) in \<open>simp add: cancels_live_def\<close>)

lemma side_keys_seeded: "seeded s \<Longrightarrow> side_keys s"
  by (simp add: seeded_def side_keys_def)

interpretation inventory: kept cancels_live inventory_ok
proof
  fix s e r org ctx
  assume ok: "inventory_ok s" and fresh: "fresh_env e s" and r: "request_ok r" "cancels_live s org r"
  note free = fresh_envD(20) [OF fresh]
  show "inventory_ok (handle e ctx org r s)"
    using r by (cases r) (simp_all add: ok create_hold_keeps [OF ok fresh_envD(15) [OF fresh]] decide_hold_keeps release_hold_keeps
      hold_reads_keep transition_unit_status_keeps initiate_booking_keeps [OF ok free] transition_endpoint_keeps
      create_booking_keeps [OF ok free] get_booking_keeps advance_booking_keeps replace_joint_applicants_keeps
      set_payment_plan_keeps set_financing_keeps create_payment_keeps decide_payment_keeps request_approval_keeps
      decide_approval_keeps cancel_booking_keeps collections_inventory process_refund_inventory allocate_payment_inventory)
qed (simp_all add: inventory_ok_seeded expire_due_holds_ok)

interpretation keys: kept every_request unit_keys_ok
proof
  fix s e r org ctx
  assume ok: "unit_keys_ok s" and fresh: "fresh_env e s"
  note free = fresh_envD(20) [OF fresh]
  show "unit_keys_ok (handle e ctx org r s)"
    by (cases r) (simp_all add: ok create_hold_keys [OF ok fresh_envD(15) [OF fresh]] decide_hold_keys release_hold_keys
      hold_reads_keys transition_unit_status_keys initiate_booking_keys [OF ok free] transition_booking_keys
      create_booking_keys [OF ok free] advance_booking_keys create_payment_keys request_approval_keys cancel_booking_keys
      booking_operations_keys collections_keys allocate_payment_keys)
qed (simp_all add: inventory_unit_keys_ok inventory_ok_seeded expire_due_holds_keys)

interpretation approvals: kept every_request approvals_ok
proof
  fix s e r org ctx
  assume ok: "approvals_ok s" and fresh: "fresh_env e s" and r: "request_ok r"
  note free = fresh_envD(20) [OF fresh]
  note holds = holds_only_approvals [OF _ ok]
  show "approvals_ok (handle e ctx org r s)"
    using r by (cases r) (simp_all add: ok hold_operations_holds_only hold_reads_holds_only holds initiate_booking_approvals [OF ok free]
      transition_booking_approvals create_booking_approvals [OF ok free] get_booking_approvals advance_booking_approvals
      no_chain_change create_payment_approvals request_approval_approvals [OF ok fresh] request_ok_def
      decide_approval_approvals cancel_booking_approvals collections_approvals allocate_payment_approvals)
qed (simp_all add: approvals_ok_seeded holds_only_approvals [OF holds_only_sweep])

interpretation finance: kept every_request finance_ok
proof
  fix s e r org ctx
  assume ok: "finance_ok s" and fresh: "fresh_env e s" and r: "request_ok r"
  note holds = holds_only_finance [OF _ ok]
  show "finance_ok (handle e ctx org r s)"
    using r by (cases r) (simp_all add: ok fresh hold_operations_holds_only hold_reads_holds_only holds initiate_booking_finance
      transition_booking_finance create_booking_finance set_payment_plan_finance create_payment_finance decide_payment_finance
      booking_moves_finance decide_approval_finance create_demand_keeps create_collection_payment_keeps reconcile_payment_keeps
      allocate_payment_keeps create_charge_keeps waive_charge_keeps request_refund_keeps decide_refund_keeps
      process_refund_keeps request_ok_def)
qed (simp_all add: finance_ok_seeded holds_only_finance [OF holds_only_sweep])

interpretation side: kept every_request side_keys
proof
  fix s e r org ctx
  assume ok: "side_keys s" and fresh: "fresh_env e s" and r: "request_ok r"
  note holds = holds_only_side_keys [OF _ ok]
  show "side_keys (handle e ctx org r s)"
    by (cases r) (simp_all add: ok fresh hold_operations_holds_only hold_reads_holds_only holds inventory_side_keys
      booking_side_keys other_side_keys decide_approval_side_keys collections_side_keys)
qed (simp_all add: side_keys_seeded holds_only_side_keys [OF holds_only_sweep])

text \<open>
  The database of a correct system, as every request leaves it: the unit keys, the approval chains, the money
  and the remaining keys.
\<close>

definition sound :: "database \<Rightarrow> bool" where
  "sound s \<longleftrightarrow> unit_keys_ok s \<and> approvals_ok s \<and> finance_ok s \<and> side_keys s"

interpretation sound: kept every_request sound
  by unfold_locales
    (auto simp: sound_def keys.seeded approvals.seeded finance.seeded side.seeded keys.handled approvals.handled
      finance.handled side.handled keys.swept approvals.swept finance.swept side.swept)

section \<open>Isolation of the tenants\<close>

lemma written_keys_sound: "sound s \<Longrightarrow> written_keys s"
  unfolding sound_def written_keys_def side_keys_def using unit_keys_okD(1-3) approvals_okD(2) finance_okD(1-4) by simp

lemma transition_endpoint_scoped:
  "unit_keys_ok s \<Longrightarrow> scoped org s (committed (transition_booking_endpoint e ctx org bid target s))"
  unfolding transition_booking_endpoint_def by (auto simp: demand_def transition_booking_scoped)

lemma handle_scoped:
  assumes ok: "unit_keys_ok s" and keys: "written_keys s" and org: "org \<noteq> []"
  shows "scoped org s (handle e ctx org r s)"
  by (cases r) (simp_all add: ok keys org create_hold_scoped decide_hold_scoped release_hold_scoped hold_reads_scoped
    transition_unit_status_scoped initiate_booking_scoped transition_endpoint_scoped create_booking_scoped get_booking_scoped
    advance_booking_scoped replace_joint_applicants_scoped set_payment_plan_scoped set_financing_scoped create_payment_scoped
    decide_payment_scoped request_approval_scoped decide_approval_scoped cancel_booking_scoped create_demand_scoped
    create_collection_payment_scoped reconcile_payment_scoped allocate_payment_scoped create_charge_scoped waive_charge_scoped
    request_refund_scoped decide_refund_scoped process_refund_scoped)

end
