(* ===== verification/Pricing.thy ===== *)
theory Pricing
  imports Booking_Handlers Search
begin

text \<open>
  The pricing rules of a price list (\<^verbatim>\<open>schemas/quotations.py\<close>): the Pydantic models as records, their
  field bounds and validators as bool-valued predicates, their \<^verbatim>\<open>model_dump(mode="json")\<close>, and the
  approval matrix look-up of \<^verbatim>\<open>services/quotations.py\<close>. \<^verbatim>\<open>PriceList.pricing_rules\<close> is a JSON column that
  only ever receives the dump of validated rules, so the model keeps the rules themselves in the row.
\<close>

section \<open>The rules\<close>

datatype calculation = Fixed | Per_Sqft | Percentage

datatype match_field = Match_Unit_Type | Match_Facing | Match_Tower_Id | Match_Floor_Id

record pricing_line_rule =
  rule_code :: string
  rule_label :: string
  rule_calculation :: calculation
  rule_value :: decimal
  rule_taxable :: bool
  rule_optional :: bool
  rule_match_field :: "match_field option"
  rule_match_value :: "string option"

record unit_price_override =
  uo_base_price :: "decimal option"
  uo_adjustment :: decimal
  uo_label :: string

record floor_rise_rule =
  fr_label :: string
  fr_start_floor :: int
  fr_amount_per_floor :: "decimal option"
  fr_rate_per_sqft_per_floor :: "decimal option"
  fr_taxable :: bool

record tax_rule =
  tax_code :: string
  tax_label :: string
  tax_rate_percent :: decimal
  tax_applies_to :: "string list"

record discount_approval_level =
  lvl_name :: string
  lvl_minimum_discount_percent :: decimal
  lvl_maximum_discount_percent :: "decimal option"
  lvl_approver_user_ids :: "ident list"
  lvl_approver_role_ids :: "ident list"

record discount_policy =
  dp_self_approval_limit_percent :: decimal
  dp_maximum_discount_percent :: "decimal option"
  dp_approval_matrix :: "discount_approval_level list"

record booking_amount_rule =
  bar_percentage :: bool
  bar_value :: decimal

record pricing_rules =
  pr_base_rate_per_sqft :: "decimal option"
  pr_unit_overrides :: "(string \<times> unit_price_override) list"
  pr_floor_rise :: "floor_rise_rule option"
  pr_premiums :: "pricing_line_rule list"
  pr_parking_options :: "pricing_line_rule list"
  pr_amenity_charges :: "pricing_line_rule list"
  pr_charges :: "pricing_line_rule list"
  pr_taxes :: "tax_rule list"
  pr_discount_policy :: discount_policy
  pr_booking_amount :: "booking_amount_rule option"

section \<open>Validation\<close>

definition opt_all :: "('a \<Rightarrow> bool) \<Rightarrow> 'a option \<Rightarrow> bool" where
  "opt_all p x = (case x of None \<Rightarrow> True | Some y \<Rightarrow> p y)"

definition line_rule_ok :: "pricing_line_rule \<Rightarrow> bool" where
  "line_rule_ok r \<longleftrightarrow> rule_code r \<noteq> [] \<and> rule_label r \<noteq> [] \<and> 0 \<le> rule_value r \<and>
     (rule_match_field r = None) = (rule_match_value r = None)"

definition floor_rise_ok :: "floor_rise_rule \<Rightarrow> bool" where
  "floor_rise_ok r \<longleftrightarrow> opt_all (\<lambda>x. 0 \<le> x) (fr_amount_per_floor r) \<and>
     opt_all (\<lambda>x. 0 \<le> x) (fr_rate_per_sqft_per_floor r) \<and>
     (fr_amount_per_floor r = None) \<noteq> (fr_rate_per_sqft_per_floor r = None)"

definition tax_rule_ok :: "tax_rule \<Rightarrow> bool" where
  "tax_rule_ok r \<longleftrightarrow> 0 \<le> tax_rate_percent r \<and> tax_rate_percent r \<le> 100"

definition level_ok :: "discount_approval_level \<Rightarrow> bool" where
  "level_ok l \<longleftrightarrow> 0 \<le> lvl_minimum_discount_percent l \<and> lvl_minimum_discount_percent l \<le> 100 \<and>
     opt_all (\<lambda>x. 0 \<le> x \<and> x \<le> 100) (lvl_maximum_discount_percent l) \<and>
     (lvl_approver_user_ids l \<noteq> [] \<or> lvl_approver_role_ids l \<noteq> [])"

text \<open>
  \<^verbatim>\<open>valid_matrix\<close>: the levels in the order of their minimum; each is compared with the one before it.
\<close>

definition matrix_order :: "discount_approval_level list \<Rightarrow> discount_approval_level list" where
  "matrix_order ls = sort_key lvl_minimum_discount_percent ls"

definition level_range_ok :: "discount_approval_level \<Rightarrow> bool" where
  "level_range_ok l \<longleftrightarrow> opt_all (\<lambda>x. lvl_minimum_discount_percent l \<le> x) (lvl_maximum_discount_percent l)"

fun separate :: "discount_approval_level list \<Rightarrow> bool" where
  "separate (l # m # ls) \<longleftrightarrow>
     (case lvl_maximum_discount_percent l of None \<Rightarrow> False | Some x \<Rightarrow> x < lvl_minimum_discount_percent m) \<and>
     separate (m # ls)"
| "separate ls \<longleftrightarrow> True"

definition valid_matrix :: "discount_policy \<Rightarrow> bool" where
  "valid_matrix p \<longleftrightarrow> list_all level_range_ok (dp_approval_matrix p) \<and> separate (matrix_order (dp_approval_matrix p))"

definition discount_policy_ok :: "discount_policy \<Rightarrow> bool" where
  "discount_policy_ok p \<longleftrightarrow> 0 \<le> dp_self_approval_limit_percent p \<and> dp_self_approval_limit_percent p \<le> 100 \<and>
     opt_all (\<lambda>x. 0 \<le> x \<and> x \<le> 100) (dp_maximum_discount_percent p) \<and>
     list_all level_ok (dp_approval_matrix p) \<and> valid_matrix p"

definition component_codes :: "pricing_rules \<Rightarrow> string list" where
  "component_codes r = map rule_code (pr_premiums r @ pr_parking_options r @ pr_amenity_charges r @ pr_charges r)"

definition pricing_rules_ok :: "pricing_rules \<Rightarrow> bool" where
  "pricing_rules_ok r \<longleftrightarrow>
     opt_all (\<lambda>x. 0 \<le> x) (pr_base_rate_per_sqft r) \<and>
     list_all (\<lambda>(k, v). opt_all (\<lambda>x. 0 \<le> x) (uo_base_price v)) (pr_unit_overrides r) \<and>
     opt_all floor_rise_ok (pr_floor_rise r) \<and>
     list_all line_rule_ok (pr_premiums r @ pr_parking_options r @ pr_amenity_charges r @ pr_charges r) \<and>
     list_all tax_rule_ok (pr_taxes r) \<and> discount_policy_ok (pr_discount_policy r) \<and>
     opt_all (\<lambda>b. 0 \<le> bar_value b) (pr_booking_amount r) \<and>
     distinct (component_codes r) \<and> distinct (map tax_code (pr_taxes r))"

section \<open>The approval matrix\<close>

definition covers :: "decimal \<Rightarrow> discount_approval_level \<Rightarrow> bool" where
  "covers p l \<longleftrightarrow> lvl_minimum_discount_percent l \<le> p \<and> opt_all (\<lambda>x. p \<le> x) (lvl_maximum_discount_percent l)"

definition approval_level :: "pricing_rules \<Rightarrow> decimal \<Rightarrow> discount_approval_level option" where
  "approval_level r p = find (covers p) (matrix_order (dp_approval_matrix (pr_discount_policy r)))"

section \<open>The rules as JSON\<close>

primrec calculation_value :: "calculation \<Rightarrow> string" where
  "calculation_value Fixed = ''fixed''"
| "calculation_value Per_Sqft = ''per_sqft''"
| "calculation_value Percentage = ''percentage''"

primrec match_field_value :: "match_field \<Rightarrow> string" where
  "match_field_value Match_Unit_Type = ''unit_type''"
| "match_field_value Match_Facing = ''facing''"
| "match_field_value Match_Tower_Id = ''tower_id''"
| "match_field_value Match_Floor_Id = ''floor_id''"

definition line_rule_json :: "pricing_line_rule \<Rightarrow> json" where
  "line_rule_json r = JObj [(''code'', JStr (rule_code r)), (''label'', JStr (rule_label r)),
     (''calculation'', JStr (calculation_value (rule_calculation r))), (''value'', JDec (rule_value r)),
     (''taxable'', JBool (rule_taxable r)), (''optional'', JBool (rule_optional r)),
     (''match_field'', jopt (\<lambda>f. JStr (match_field_value f)) (rule_match_field r)),
     (''match_value'', jopt JStr (rule_match_value r))]"

definition override_json :: "unit_price_override \<Rightarrow> json" where
  "override_json v = JObj [(''base_price'', jopt JDec (uo_base_price v)), (''adjustment'', JDec (uo_adjustment v)),
     (''label'', JStr (uo_label v))]"

definition floor_rise_json :: "floor_rise_rule \<Rightarrow> json" where
  "floor_rise_json r = JObj [(''label'', JStr (fr_label r)), (''start_floor'', JInt (fr_start_floor r)),
     (''amount_per_floor'', jopt JDec (fr_amount_per_floor r)),
     (''rate_per_sqft_per_floor'', jopt JDec (fr_rate_per_sqft_per_floor r)), (''taxable'', JBool (fr_taxable r))]"

definition tax_json :: "tax_rule \<Rightarrow> json" where
  "tax_json r = JObj [(''code'', JStr (tax_code r)), (''label'', JStr (tax_label r)),
     (''rate_percent'', JDec (tax_rate_percent r)), (''applies_to'', JList (map JStr (tax_applies_to r)))]"

definition level_json :: "discount_approval_level \<Rightarrow> json" where
  "level_json l = JObj [(''name'', JStr (lvl_name l)),
     (''minimum_discount_percent'', JDec (lvl_minimum_discount_percent l)),
     (''maximum_discount_percent'', jopt JDec (lvl_maximum_discount_percent l)),
     (''approver_user_ids'', JList (map JStr (lvl_approver_user_ids l))),
     (''approver_role_ids'', JList (map JStr (lvl_approver_role_ids l)))]"

definition policy_json :: "discount_policy \<Rightarrow> json" where
  "policy_json p = JObj [(''self_approval_limit_percent'', JDec (dp_self_approval_limit_percent p)),
     (''maximum_discount_percent'', jopt JDec (dp_maximum_discount_percent p)),
     (''approval_matrix'', JList (map level_json (dp_approval_matrix p)))]"

definition booking_rule_json :: "booking_amount_rule \<Rightarrow> json" where
  "booking_rule_json b = JObj [(''calculation'', JStr (if bar_percentage b then ''percentage'' else ''fixed'')),
     (''value'', JDec (bar_value b))]"

definition rules_json :: "pricing_rules \<Rightarrow> json" where
  "rules_json r = JObj [(''base_rate_per_sqft'', jopt JDec (pr_base_rate_per_sqft r)),
     (''unit_overrides'', JObj (map (\<lambda>(k, v). (k, override_json v)) (pr_unit_overrides r))),
     (''floor_rise'', jopt floor_rise_json (pr_floor_rise r)),
     (''premiums'', JList (map line_rule_json (pr_premiums r))),
     (''parking_options'', JList (map line_rule_json (pr_parking_options r))),
     (''amenity_charges'', JList (map line_rule_json (pr_amenity_charges r))),
     (''charges'', JList (map line_rule_json (pr_charges r))), (''taxes'', JList (map tax_json (pr_taxes r))),
     (''discount_policy'', policy_json (pr_discount_policy r)),
     (''booking_amount'', jopt booking_rule_json (pr_booking_amount r))]"

section \<open>A valid matrix has no two levels for one discount\<close>

lemma covers_level_order:
  assumes "separate ls" "sorted (map lvl_minimum_discount_percent ls)" "list_all level_range_ok ls"
    "i < j" "j < length ls"
  shows "\<exists>x. lvl_maximum_discount_percent (ls ! i) = Some x \<and> x < lvl_minimum_discount_percent (ls ! j)"
  using assms
proof (induction ls arbitrary: i j rule: separate.induct)
  case (1 l m ls)
  then obtain x where x: "lvl_maximum_discount_percent l = Some x" "x < lvl_minimum_discount_percent m"
    by (auto split: option.splits)
  show ?case
  proof (cases i)
    case 0
    have "lvl_minimum_discount_percent m \<le> lvl_minimum_discount_percent ((m # ls) ! (j - 1))"
      using "1.prems" 0 by (cases "j - 1") (auto simp: nth_mem)
    with 0 x "1.prems" show ?thesis by (auto simp: nth_Cons' split: if_splits)
  next
    case (Suc k)
    with "1.prems" "1.IH" [of k "j - 1"] show ?thesis by (auto simp: nth_Cons')
  qed
qed simp_all

lemma covering_level_unique:
  assumes ls: "separate ls" "sorted (map lvl_minimum_discount_percent ls)" "list_all level_range_ok ls"
    and c: "l \<in> set ls" "m \<in> set ls" "covers p l" "covers p m"
  shows "l = m"
proof (rule ccontr)
  assume ne: "l \<noteq> m"
  obtain i j where ij: "i < length ls" "j < length ls" "l = ls ! i" "m = ls ! j"
    using c(1,2) by (metis in_set_conv_nth)
  have False if "i < j" "j < length ls" "covers p (ls ! i)" "covers p (ls ! j)" for i j
    using covers_level_order [OF ls that(1,2)] that(3,4) by (auto simp: covers_def opt_all_def)
  with ij ne c(3,4) show False by (metis nat_neq_iff)
qed

lemma set_matrix_order [simp]: "set (matrix_order ls) = set ls"
  by (simp add: matrix_order_def)

lemma approval_level_iff:
  assumes "valid_matrix (pr_discount_policy r)"
  shows "approval_level r p = Some l \<longleftrightarrow> l \<in> set (dp_approval_matrix (pr_discount_policy r)) \<and> covers p l"
proof -
  let ?ls = "matrix_order (dp_approval_matrix (pr_discount_policy r))"
  have ls: "separate ?ls" "sorted (map lvl_minimum_discount_percent ?ls)" "list_all level_range_ok ?ls"
    using assms by (auto simp: valid_matrix_def matrix_order_def list_all_iff)
  show ?thesis
  proof
    assume "approval_level r p = Some l"
    then show "l \<in> set (dp_approval_matrix (pr_discount_policy r)) \<and> covers p l"
      unfolding approval_level_def by (drule_tac find_SomeD) simp
  next
    assume l: "l \<in> set (dp_approval_matrix (pr_discount_policy r)) \<and> covers p l"
    then obtain m where m: "approval_level r p = Some m"
      unfolding approval_level_def by (cases "find (covers p) ?ls") (auto simp: find_None)
    then have "m \<in> set ?ls" "covers p m" unfolding approval_level_def by (auto dest: find_SomeD)
    with l covering_level_unique [OF ls] m show "approval_level r p = Some l" by auto
  qed
qed

end
