(* ===== verification/Authorization.thy ===== *)
theory Authorization
  imports Audit_Notify
begin

text \<open>
  \<^verbatim>\<open>core/authorization.py\<close>: the catalog of permission codes, the role templates of a new organization and
  what a portal role may use. A permission code is \<^verbatim>\<open>module.action\<close>; holding \<^verbatim>\<open>module.manage\<close> grants every
  action of the module. A \<^verbatim>\<open>frozenset\<close> of codes is the list of its elements.
\<close>

definition permission_is_granted :: "string list \<Rightarrow> string \<Rightarrow> bool" where
  "permission_is_granted granted code \<longleftrightarrow>
     code \<in> set granted \<or> (CHR ''.'' \<in> set code \<and> module_of code @ ''.manage'' \<in> set granted)"

section \<open>The catalog\<close>

definition permission_actions :: "string list" where
  "permission_actions =
     [''view'', ''create'', ''update'', ''delete'', ''approve'', ''assign'', ''export'', ''manage'']"

definition permission_modules :: "(string \<times> string) list" where
  "permission_modules =
     [(''dashboard'', ''dashboards''), (''organization'', ''organization settings''), (''branches'', ''branches''),
      (''departments'', ''departments''), (''teams'', ''teams''), (''territories'', ''territories''),
      (''users'', ''users''), (''roles'', ''roles and permissions''), (''audit'', ''audit logs''),
      (''leads'', ''leads''), (''customers'', ''customers''), (''activities'', ''sales activities''),
      (''projects'', ''projects''), (''inventory'', ''inventory''), (''visits'', ''site visits''),
      (''quotations'', ''quotations and cost sheets''), (''bookings'', ''bookings''),
      (''documents'', ''business documents''), (''agreements'', ''agreements''),
      (''collections'', ''collections and demands''), (''payments'', ''payments and receipts''),
      (''partners'', ''channel partners''), (''commissions'', ''commissions and payouts''),
      (''financing'', ''loan and financing workflows''), (''construction'', ''construction updates''),
      (''possession'', ''possession and handover''), (''service_requests'', ''service requests''),
      (''properties'', ''rental properties''), (''tenants'', ''tenants''), (''leases'', ''leases''),
      (''maintenance'', ''maintenance records''), (''notifications'', ''notifications''),
      (''workflows'', ''workflows and approvals''), (''reports'', ''reports'')]"

definition action_descriptions :: "(string \<times> string) list" where
  "action_descriptions =
     [(''view'', ''View''), (''create'', ''Create''), (''update'', ''Update''), (''delete'', ''Delete''),
      (''approve'', ''Approve''), (''assign'', ''Assign''), (''export'', ''Export''), (''manage'', ''Manage'')]"

definition grant :: "string list \<Rightarrow> string list \<Rightarrow> string list" where
  "grant modules actions = [m @ ''.'' @ a. m \<leftarrow> modules, a \<leftarrow> actions]"

definition view_export :: "string list \<Rightarrow> string list" where
  "view_export modules = grant modules [''view'', ''export'']"

definition without :: "string list \<Rightarrow> string list \<Rightarrow> string list" where
  "without xs ys = filter (\<lambda>x. x \<notin> set ys) xs"

definition permission_catalog :: "(string \<times> string) list" where
  "permission_catalog =
     [(m @ ''.'' @ a, the (map_of action_descriptions a) @ '' '' @ label).
        (m, label) \<leftarrow> permission_modules, a \<leftarrow> permission_actions]"

definition all_permissions :: "string list" where
  "all_permissions = map fst permission_catalog"

section \<open>Role templates\<close>

definition in_app_notification_permissions :: "string list" where
  "in_app_notification_permissions =
     grant [''notifications''] [''view'', ''update'']"

definition business_owner_permissions :: "string list" where
  "business_owner_permissions =
     without (without all_permissions
       (grant [''roles''] [''create'', ''update'', ''delete'', ''approve'', ''manage'']))
       (grant [''audit''] [''create'', ''update'', ''delete'', ''approve'', ''assign'', ''manage''])"

definition sales_head_permissions :: "string list" where
  "sales_head_permissions =
     grant [''leads'', ''customers'', ''activities'', ''visits'', ''quotations'', ''bookings'', ''documents'',
        ''notifications'', ''workflows''] permission_actions @
     view_export [''dashboard'', ''projects'', ''inventory'', ''reports''] @
     grant [''users'', ''roles''] [''view'', ''assign''] @
     grant [''branches'', ''departments'', ''teams'', ''territories'', ''organization''] [''view'']"

definition branch_manager_permissions :: "string list" where
  "branch_manager_permissions =
     grant [''leads'', ''customers'', ''activities'', ''visits'', ''quotations'', ''bookings'', ''documents'']
       [''view'', ''create'', ''update'', ''approve'', ''assign'', ''export''] @
     view_export [''dashboard'', ''reports''] @
     grant [''projects'', ''inventory'']
       [''view'', ''create'', ''update'', ''delete'', ''approve'', ''assign'', ''export''] @
     grant [''users'', ''roles''] [''view'', ''assign''] @
     grant [''branches'', ''departments''] [''view'', ''update''] @
     grant [''teams'', ''territories''] [''view'', ''create'', ''update'', ''assign''] @
     in_app_notification_permissions"

definition inside_sales_permissions :: "string list" where
  "inside_sales_permissions =
     grant [''leads''] [''view'', ''create'', ''update'', ''assign'', ''export''] @
     grant [''customers'', ''activities''] [''view'', ''create'', ''update''] @
     grant [''visits''] [''view'', ''create'', ''update'', ''assign''] @
     grant [''notifications''] [''view'', ''create'', ''update''] @
     grant [''dashboard'', ''projects'', ''inventory'', ''reports''] [''view'']"

definition field_sales_permissions :: "string list" where
  "field_sales_permissions =
     grant [''leads'', ''customers''] [''view'', ''update''] @
     grant [''activities'', ''visits'', ''quotations''] [''view'', ''create'', ''update''] @
     grant [''bookings''] [''view'', ''create'', ''update''] @
     grant [''documents''] [''view'', ''create''] @
     grant [''dashboard'', ''projects''] [''view''] @
     grant [''inventory''] [''view'', ''assign''] @
     in_app_notification_permissions"

definition crm_executive_permissions :: "string list" where
  "crm_executive_permissions =
     grant [''customers'', ''bookings'', ''documents'', ''agreements'', ''possession'', ''service_requests'',
        ''notifications''] [''view'', ''create'', ''update'', ''assign'', ''export''] @
     grant [''leads'', ''projects'', ''inventory'', ''payments'', ''collections''] [''view''] @
     grant [''dashboard'', ''reports''] [''view'', ''export'']"

definition collections_executive_permissions :: "string list" where
  "collections_executive_permissions =
     grant [''collections'', ''payments'', ''notifications'']
       [''view'', ''create'', ''update'', ''assign'', ''export''] @
     grant [''customers'', ''bookings'', ''agreements''] [''view''] @
     view_export [''dashboard'', ''reports'']"

definition finance_permissions :: "string list" where
  "finance_permissions =
     grant [''collections'', ''payments'', ''commissions'', ''financing''] permission_actions @
     grant [''bookings'', ''agreements'', ''customers''] [''view'', ''export''] @
     view_export [''dashboard'', ''reports'', ''audit''] @
     in_app_notification_permissions"

definition channel_manager_permissions :: "string list" where
  "channel_manager_permissions =
     grant [''partners'', ''commissions'', ''leads''] permission_actions @
     grant [''customers'', ''activities'', ''visits'', ''bookings''] [''view'', ''create'', ''update''] @
     view_export [''dashboard'', ''projects'', ''inventory'', ''reports''] @
     in_app_notification_permissions"

definition broker_permissions :: "string list" where
  "broker_permissions =
     grant [''leads''] [''view'', ''create'', ''update''] @
     grant [''customers'', ''activities'', ''visits''] [''view'', ''create''] @
     grant [''partners'', ''commissions'', ''bookings''] [''view'', ''export''] @
     grant [''projects'', ''inventory'', ''documents''] [''view''] @
     in_app_notification_permissions"

definition property_manager_permissions :: "string list" where
  "property_manager_permissions =
     grant [''properties'', ''tenants'', ''leases'', ''maintenance'', ''service_requests''] permission_actions @
     grant [''payments'', ''documents'', ''notifications''] [''view'', ''create'', ''update'', ''export''] @
     view_export [''dashboard'', ''reports'']"

definition customer_permissions :: "string list" where
  "customer_permissions =
     grant [''bookings'', ''documents'', ''agreements'', ''payments'', ''construction'', ''possession'',
        ''service_requests'', ''notifications''] [''view''] @
     grant [''notifications''] [''update''] @
     grant [''service_requests''] [''create'', ''update''] @
     grant [''payments'', ''documents''] [''create'']"

definition tenant_permissions :: "string list" where
  "tenant_permissions =
     grant [''properties'', ''leases'', ''payments'', ''notifications''] [''view''] @
     grant [''notifications''] [''update''] @
     grant [''service_requests''] [''view'', ''create'', ''update''] @
     grant [''maintenance''] [''view'', ''create'', ''update''] @
     grant [''documents'', ''payments''] [''view'', ''create'']"

definition auditor_permissions :: "string list" where
  "auditor_permissions =
     view_export (map fst permission_modules)"

record role_template =
  tmpl_name :: string
  tmpl_description :: string
  tmpl_permissions :: "string list"

definition role_templates :: "role_template list" where
  "role_templates =
     [\<lparr>tmpl_name = ''Organization Administrator'',
        tmpl_description = ''Full organization administration and platform access'',
        tmpl_permissions = all_permissions\<rparr>,
      \<lparr>tmpl_name = ''Business Owner / Director'',
        tmpl_description = ''Executive oversight, approvals, exports, and business management'',
        tmpl_permissions = business_owner_permissions\<rparr>,
      \<lparr>tmpl_name = ''Sales Head'',
        tmpl_description = ''Sales leadership, assignment, approvals, and pipeline management'',
        tmpl_permissions = sales_head_permissions\<rparr>,
      \<lparr>tmpl_name = ''Branch / Project Manager'',
        tmpl_description = ''Branch and project-level sales team operations'',
        tmpl_permissions = branch_manager_permissions\<rparr>,
      \<lparr>tmpl_name = ''Inside Sales / Telecalling Executive'',
        tmpl_description = ''Lead qualification, calling activities, and visit scheduling'',
        tmpl_permissions = inside_sales_permissions\<rparr>,
      \<lparr>tmpl_name = ''Field Sales Executive'',
        tmpl_description = ''Visits, quotations, customer follow-up, and booking initiation'',
        tmpl_permissions = field_sales_permissions\<rparr>,
      \<lparr>tmpl_name = ''CRM Executive'',
        tmpl_description = ''Customer, booking, documentation, possession, and service coordination'',
        tmpl_permissions = crm_executive_permissions\<rparr>,
      \<lparr>tmpl_name = ''Collections Executive'',
        tmpl_description = ''Demand, collection, receipt, and customer follow-up operations'',
        tmpl_permissions = collections_executive_permissions\<rparr>,
      \<lparr>tmpl_name = ''Finance & Accounts User'',
        tmpl_description = ''Financial verification, approvals, reconciliation, and reporting'',
        tmpl_permissions = finance_permissions\<rparr>,
      \<lparr>tmpl_name = ''Channel Partner Manager'',
        tmpl_description = ''Partner onboarding, protected leads, commissions, and payouts'',
        tmpl_permissions = channel_manager_permissions\<rparr>,
      \<lparr>tmpl_name = ''Broker / Channel Partner'',
        tmpl_description = ''Partner lead registration and authorized deal visibility'',
        tmpl_permissions = broker_permissions\<rparr>,
      \<lparr>tmpl_name = ''Property Manager'',
        tmpl_description = ''Rental property, tenant, lease, and maintenance operations'',
        tmpl_permissions = property_manager_permissions\<rparr>,
      \<lparr>tmpl_name = ''Customer / Buyer'',
        tmpl_description = ''Buyer self-service access to authorized records and requests'',
        tmpl_permissions = customer_permissions\<rparr>,
      \<lparr>tmpl_name = ''Tenant'',
        tmpl_description = ''Tenant self-service access to lease, payment, and service records'',
        tmpl_permissions = tenant_permissions\<rparr>,
      \<lparr>tmpl_name = ''Auditor / Compliance User'',
        tmpl_description = ''Read-only and export access with audit oversight'',
        tmpl_permissions = auditor_permissions\<rparr>]"

definition organization_administrator :: string where
  "organization_administrator = ''Organization Administrator''"

section \<open>Portal roles\<close>

text \<open>
  An account whose roles are all portal roles is limited to these codes, whatever its roles hold.
\<close>

definition portal_role_permission_allowlist :: "(string \<times> string list) list" where
  "portal_role_permission_allowlist =
     [(''Broker / Channel Partner'',
       grant [''leads''] [''create''] @
     grant [''projects'', ''inventory''] [''view''] @
     in_app_notification_permissions),
      (''Customer / Buyer'',
       grant [''notifications''] [''view'', ''update''] @
     grant [''service_requests''] [''view'', ''create'', ''update'']),
      (''Tenant'',
       grant [''leases''] [''view''] @
     grant [''payments''] [''view'', ''create''] @
     grant [''notifications''] [''view'', ''update''] @
     grant [''service_requests''] [''view'', ''create'', ''update''] @
     grant [''maintenance''] [''view'', ''create'', ''update''])]"

end
