(* ===== verification/Quotation_Tables.thy ===== *)
theory Quotation_Tables
  imports Pricing Authorization
begin

text \<open>
  The rows and answers of \<^verbatim>\<open>services/quotations.py\<close>. Its tables are kept in \<open>sales\<close>, next to the
  \<open>core\<close> database that holds the shared tables (units, customers, quotations, audit log and the rest).
  A stored \<^verbatim>\<open>pricing_rules\<close> of \<open>None\<close> is the JSON value \<^verbatim>\<open>null\<close>. The columns \<^verbatim>\<open>updated_at\<close> of the tables
  below are left out, in the rows and in the answers: no query reads them.
\<close>

section \<open>The pricing snapshot\<close>

text \<open>What \<^verbatim>\<open>calculate_cost_sheet\<close> puts into \<^verbatim>\<open>pricing_snapshot\<close>, and its JSON form.\<close>

record pricing_snapshot =
  snap_price_list_id :: ident
  snap_price_list_code :: string
  snap_price_list_version :: int
  snap_rules :: pricing_rules
  snap_unit_id :: ident
  snap_unit_number :: string
  snap_area_sqft :: "decimal option"
  snap_floor_number :: "int option"
  snap_facing :: "string option"
  snap_unit_type :: "string option"
  snap_parking :: "(string \<times> int) list"
  snap_amenity_codes :: "string list"
  snap_optional_premium_codes :: "string list"
  snap_approval_required :: bool
  snap_discount_percent :: decimal
  snap_self_approval_limit_percent :: decimal
  snap_previous_value :: decimal
  snap_selected_approval_level :: "discount_approval_level option"

definition snapshot_json :: "pricing_snapshot \<Rightarrow> json" where
  "snapshot_json p = JObj
     [(''price_list'', JObj [(''id'', JStr (snap_price_list_id p)), (''code'', JStr (snap_price_list_code p)),
        (''version'', JInt (snap_price_list_version p)), (''rules'', rules_json (snap_rules p))]),
      (''unit'', JObj [(''id'', JStr (snap_unit_id p)), (''number'', JStr (snap_unit_number p)),
        (''area_sqft'', jopt JDec (snap_area_sqft p)), (''floor_number'', jopt JInt (snap_floor_number p)),
        (''facing'', jopt JStr (snap_facing p)), (''unit_type'', jopt JStr (snap_unit_type p))]),
      (''selections'', JObj
        [(''parking'', JList (map (\<lambda>(c, q). JObj [(''code'', JStr c), (''quantity'', JInt q)]) (snap_parking p))),
         (''amenity_codes'', JList (map JStr (snap_amenity_codes p))),
         (''optional_premium_codes'', JList (map JStr (snap_optional_premium_codes p)))]),
      (''approval_required'', JBool (snap_approval_required p)),
      (''discount_percent'', JDec (snap_discount_percent p)),
      (''self_approval_limit_percent'', JDec (snap_self_approval_limit_percent p)),
      (''previous_value'', JDec (snap_previous_value p)),
      (''selected_approval_level'', jopt level_json (snap_selected_approval_level p))]"

section \<open>Rows\<close>

record price_list_row =
  plist_id :: ident
  plist_organization_id :: ident
  plist_project_id :: ident
  plist_name :: string
  plist_code :: string
  plist_version :: int
  plist_status :: record_status
  plist_currency :: string
  plist_effective_from :: day
  plist_effective_to :: "day option"
  plist_pricing_rules :: "pricing_rules option"
  plist_created_at :: timestamp

record cost_sheet_row =
  sheet_id :: ident
  sheet_organization_id :: ident
  sheet_customer_id :: ident
  sheet_lead_id :: "ident option"
  sheet_unit_id :: ident
  sheet_price_list_id :: ident
  sheet_created_by_user_id :: ident
  sheet_status :: cost_sheet_status
  sheet_currency :: string
  sheet_base_price :: decimal
  sheet_gross_value :: decimal
  sheet_discount_amount :: decimal
  sheet_tax_amount :: decimal
  sheet_final_agreed_value :: decimal
  sheet_booking_amount :: decimal
  sheet_pricing_snapshot :: pricing_snapshot
  sheet_created_at :: timestamp

record cost_sheet_item_row =
  csi_id :: ident
  csi_organization_id :: ident
  csi_cost_sheet_id :: ident
  csi_sequence :: int
  csi_category :: string
  csi_label :: string
  csi_quantity :: decimal
  csi_rate :: decimal
  csi_amount :: decimal
  csi_taxable :: bool
  csi_metadata_json :: "snapshot option"
  csi_created_at :: timestamp

record discount_approval_row =
  disc_id :: ident
  disc_organization_id :: ident
  disc_cost_sheet_id :: ident
  disc_requested_by_user_id :: ident
  disc_approver_user_id :: "ident option"
  disc_status :: approval_status
  disc_requested_discount_amount :: decimal
  disc_requested_discount_percent :: decimal
  disc_self_approval_limit_percent :: decimal
  disc_approval_level_name :: string
  disc_required_approver_user_ids :: "string list"
  disc_required_approver_role_ids :: "string list"
  disc_previous_value :: decimal
  disc_final_approved_value :: "decimal option"
  disc_request_notes :: "string option"
  disc_decision_notes :: "string option"
  disc_decided_at :: "timestamp option"
  disc_created_at :: timestamp

record quotation_item_row =
  qi_id :: ident
  qi_organization_id :: ident
  qi_quotation_id :: ident
  qi_unit_id :: "ident option"
  qi_sequence :: int
  qi_category :: "string option"
  qi_description :: string
  qi_quantity :: decimal
  qi_unit_price :: decimal
  qi_discount_amount :: decimal
  qi_tax_amount :: decimal
  qi_total :: decimal
  qi_created_at :: timestamp

record sales =
  core :: database
  price_lists :: "price_list_row list"
  cost_sheets :: "cost_sheet_row list"
  cost_sheet_items :: "cost_sheet_item_row list"
  discount_approvals :: "discount_approval_row list"
  quotation_items :: "quotation_item_row list"

abbreviation find_price_list :: "sales \<Rightarrow> ident \<Rightarrow> ident \<Rightarrow> price_list_row option" where
  "find_price_list s \<equiv> entity plist_organization_id plist_id (price_lists s)"

abbreviation find_sheet :: "sales \<Rightarrow> ident \<Rightarrow> ident \<Rightarrow> cost_sheet_row option" where
  "find_sheet s \<equiv> entity sheet_organization_id sheet_id (cost_sheets s)"

definition put_price_list :: "price_list_row \<Rightarrow> sales \<Rightarrow> sales" where
  "put_price_list p s = s\<lparr>price_lists := put_row plist_id p (price_lists s)\<rparr>"

definition put_sheet :: "cost_sheet_row \<Rightarrow> sales \<Rightarrow> sales" where
  "put_sheet c s = s\<lparr>cost_sheets := put_row sheet_id c (cost_sheets s)\<rparr>"

definition put_discount :: "discount_approval_row \<Rightarrow> sales \<Rightarrow> sales" where
  "put_discount a s = s\<lparr>discount_approvals := put_row disc_id a (discount_approvals s)\<rparr>"

definition put_quotation :: "quotation_row \<Rightarrow> database \<Rightarrow> database" where
  "put_quotation q s = s\<lparr>quotations := put_row quote_id q (quotations s)\<rparr>"

definition on_core :: "(database \<Rightarrow> database) \<Rightarrow> sales \<Rightarrow> sales" where
  "on_core f s = s\<lparr>core := f (core s)\<rparr>"

primrec cost_sheet_status_value :: "cost_sheet_status \<Rightarrow> string" where
  "cost_sheet_status_value CostSheet_DRAFT = ''DRAFT''"
| "cost_sheet_status_value CostSheet_PENDING_APPROVAL = ''PENDING_APPROVAL''"
| "cost_sheet_status_value CostSheet_APPROVED = ''APPROVED''"
| "cost_sheet_status_value CostSheet_REJECTED = ''REJECTED''"
| "cost_sheet_status_value CostSheet_CONVERTED = ''CONVERTED''"
| "cost_sheet_status_value CostSheet_VOIDED = ''VOIDED''"

section \<open>Answers\<close>

record cost_sheet_item_view =
  civ_id :: "ident option"
  civ_sequence :: int
  civ_category :: string
  civ_label :: string
  civ_quantity :: decimal
  civ_rate :: decimal
  civ_amount :: decimal
  civ_taxable :: bool
  civ_metadata_json :: "snapshot option"

record discount_approval_view =
  dav_id :: ident
  dav_status :: approval_status
  dav_requested_by_user_id :: ident
  dav_requested_by_name :: string
  dav_approver_user_id :: "ident option"
  dav_approver_name :: "string option"
  dav_requested_discount_amount :: decimal
  dav_requested_discount_percent :: decimal
  dav_self_approval_limit_percent :: decimal
  dav_approval_level_name :: string
  dav_required_approver_user_ids :: "ident list"
  dav_required_approver_role_ids :: "ident list"
  dav_previous_value :: decimal
  dav_final_approved_value :: "decimal option"
  dav_request_notes :: "string option"
  dav_decision_notes :: "string option"
  dav_decided_at :: "timestamp option"
  dav_created_at :: timestamp

record cost_sheet_view =
  cs_id :: "ident option"
  cs_customer_id :: ident
  cs_customer_name :: string
  cs_lead_id :: "ident option"
  cs_lead_name :: "string option"
  cs_unit_id :: ident
  cs_unit_number :: string
  cs_project_id :: ident
  cs_project_name :: string
  cs_price_list_id :: ident
  cs_price_list_name :: string
  cs_price_list_version :: int
  cs_created_by_user_id :: ident
  cs_created_by_name :: string
  cs_status :: cost_sheet_status
  cs_currency :: string
  cs_base_price :: decimal
  cs_gross_value :: decimal
  cs_discount_amount :: decimal
  cs_tax_amount :: decimal
  cs_final_agreed_value :: decimal
  cs_booking_amount :: decimal
  cs_pricing_snapshot :: pricing_snapshot
  cs_items :: "cost_sheet_item_view list"
  cs_approval :: "discount_approval_view option"
  cs_quotation_id :: "ident option"
  cs_created_at :: "timestamp option"

end
