(* ===== verification/Cost_Sheets.thy ===== *)
theory Cost_Sheets
  imports Quotation_Tables
begin

text \<open>
  Cost sheets (\<^verbatim>\<open>services/quotations.py\<close>): the calculation of a price from the rules of a price list,
  the stored sheet with its discount approval, and the decision of that approval.
\<close>

section \<open>Decimals from JSON\<close>

text \<open>\<^verbatim>\<open>Decimal(str(value))\<close>: an optional sign, digits with at most one point, an optional exponent.\<close>

definition is_digit :: "char \<Rightarrow> bool" where
  "is_digit c = (let n = of_char c :: nat in 48 \<le> n \<and> n \<le> 57)"

definition digits_value :: "string \<Rightarrow> int" where
  "digits_value ds = foldl (\<lambda>v c. 10 * v + (of_char c - 48)) 0 ds"

definition take_sign :: "string \<Rightarrow> bool \<times> string" where
  "take_sign t = (case t of [] \<Rightarrow> (False, [])
     | c # r \<Rightarrow> if c = CHR ''-'' then (True, r) else if c = CHR ''+'' then (False, r) else (False, t))"

definition parse_int :: "string \<Rightarrow> int option" where
  "parse_int t = (let (neg, ds) = take_sign t in
     if ds \<noteq> [] \<and> list_all is_digit ds then Some (if neg then - digits_value ds else digits_value ds) else None)"

definition parse_exponent :: "string \<Rightarrow> int option" where
  "parse_exponent t = (case t of [] \<Rightarrow> Some 0
     | c # r \<Rightarrow> if c = CHR ''e'' \<or> c = CHR ''E'' then parse_int r else None)"

definition scale10 :: "decimal \<Rightarrow> int \<Rightarrow> decimal" where
  "scale10 v x = (if 0 \<le> x then v * 10 ^ nat x else v / 10 ^ nat (- x))"

definition parse_decimal :: "string \<Rightarrow> decimal option" where
  "parse_decimal t =
     (let (neg, u) = take_sign (filter (\<lambda>c. c \<noteq> CHR ''_'') (strip t));
          whole = takeWhile is_digit u;
          r = dropWhile is_digit u;
          (part, q) = (case r of [] \<Rightarrow> ([], [])
             | c # v \<Rightarrow> if c = CHR ''.'' then (takeWhile is_digit v, dropWhile is_digit v) else ([], r))
      in if whole = [] \<and> part = [] then None
         else map_option (\<lambda>x. scale10 (of_int (if neg then - digits_value (whole @ part) else digits_value (whole @ part)))
             (x - int (length part))) (parse_exponent q))"

definition json_decimal :: "json \<Rightarrow> decimal option" where
  "json_decimal v = (case v of JDec d \<Rightarrow> Some d | JInt n \<Rightarrow> Some (of_int n) | JStr t \<Rightarrow> parse_decimal t | _ \<Rightarrow> None)"

section \<open>Lines\<close>

record calculated_line =
  line_sequence :: int
  line_category :: string
  line_label :: string
  line_quantity :: decimal
  line_rate :: decimal
  line_amount :: decimal
  line_taxable :: bool
  line_metadata :: "snapshot option"

definition lines_total :: "calculated_line list \<Rightarrow> decimal" where
  "lines_total ls = sum_list (map line_amount ls)"

definition add_line ::
  "string \<Rightarrow> string \<Rightarrow> decimal \<Rightarrow> decimal \<Rightarrow> decimal \<Rightarrow> bool \<Rightarrow> snapshot option \<Rightarrow> calculated_line list \<Rightarrow>
   calculated_line list" where
  "add_line category label quantity rate amount taxable metadata ls =
     (if amount = 0 then ls
      else ls @ [\<lparr>line_sequence = int (length ls) + 1, line_category = category, line_label = label,
        line_quantity = quantity, line_rate = rate, line_amount = money amount, line_taxable = taxable,
        line_metadata = metadata\<rparr>])"

definition rule_matches :: "pricing_line_rule \<Rightarrow> unit_row \<Rightarrow> bool" where
  "rule_matches r u = (case rule_match_field r of None \<Rightarrow> True
     | Some f \<Rightarrow>
        (case (case f of Match_Unit_Type \<Rightarrow> unit_unit_type u | Match_Facing \<Rightarrow> unit_facing u
                | Match_Tower_Id \<Rightarrow> unit_tower_id u | Match_Floor_Id \<Rightarrow> unit_floor_id u) of
           None \<Rightarrow> False
         | Some v \<Rightarrow> opt_all (\<lambda>w. lower v = lower w) (rule_match_value r)))"

definition rule_amount :: "pricing_line_rule \<Rightarrow> decimal option \<Rightarrow> decimal \<Rightarrow> app_error + decimal \<times> decimal \<times> decimal" where
  "rule_amount r area basis =
     (case rule_calculation r of
        Fixed \<Rightarrow> Inr (1, rule_value r, money (rule_value r))
      | Per_Sqft \<Rightarrow>
          need area (App_Error 400 ''UNIT_AREA_REQUIRED'') (\<lambda>a. Inr (a, rule_value r, money (a * rule_value r)))
      | Percentage \<Rightarrow> Inr (1, rule_value r, money (basis * rule_value r / 100)))"

text \<open>A \<^verbatim>\<open>for\<close> loop over \<open>xs\<close> whose body may raise.\<close>

fun loop :: "('x \<Rightarrow> 's \<Rightarrow> app_error + 's) \<Rightarrow> 'x list \<Rightarrow> 's \<Rightarrow> app_error + 's" where
  "loop f [] s = Inr s"
| "loop f (x # xs) s = (case f x s of Inl e \<Rightarrow> Inl e | Inr t \<Rightarrow> loop f xs t)"

definition step :: "app_error + 'a \<Rightarrow> ('a \<Rightarrow> app_error + 'b) \<Rightarrow> app_error + 'b" where
  "step x k = (case x of Inl e \<Rightarrow> Inl e | Inr v \<Rightarrow> k v)"

lemma step_Inr [outcome_simps]: "step x k = Inr v \<longleftrightarrow> (\<exists>y. x = Inr y \<and> k y = Inr v)"
  by (simp add: step_def split: sum.splits)

definition rule_line ::
  "string \<Rightarrow> decimal option \<Rightarrow> pricing_line_rule \<Rightarrow> calculated_line list \<Rightarrow> app_error + calculated_line list" where
  "rule_line category area r ls =
     step (rule_amount r area (lines_total ls)) (\<lambda>(quantity, rate, amount).
     Inr (add_line category (rule_label r) quantity rate amount (rule_taxable r)
       (Some [(''code'', JStr (rule_code r))]) ls))"

section \<open>Base price and adjustments\<close>

definition or_area :: "decimal option \<Rightarrow> decimal option \<Rightarrow> decimal option" where
  "or_area x y = (case x of None \<Rightarrow> y | Some v \<Rightarrow> if v = 0 then y else x)"

definition unit_area :: "unit_row \<Rightarrow> decimal option" where
  "unit_area u = or_area (unit_area_sqft u) (or_area (unit_built_up_area_sqft u) (unit_carpet_area_sqft u))"

definition unit_override :: "pricing_rules \<Rightarrow> unit_row \<Rightarrow> unit_price_override option" where
  "unit_override r u = (case map_of (pr_unit_overrides r) (unit_id u) of
     Some v \<Rightarrow> Some v | None \<Rightarrow> map_of (pr_unit_overrides r) (unit_unit_number u))"

definition base_price_of :: "pricing_rules \<Rightarrow> unit_row \<Rightarrow> app_error + decimal \<times> snapshot" where
  "base_price_of r u =
     (case Option.bind (unit_override r u) uo_base_price of
        Some p \<Rightarrow> Inr (money p, [(''source'', JStr ''price_list_unit_override'')])
      | None \<Rightarrow> (case unit_base_price u of
          Some p \<Rightarrow> Inr (money p, [(''source'', JStr ''unit_base_price'')])
        | None \<Rightarrow> (case (pr_base_rate_per_sqft r, unit_area u) of
            (Some rate, Some area) \<Rightarrow> Inr (money (rate * area),
               [(''source'', JStr ''price_list_rate_per_sqft''), (''area_sqft'', JDec area)])
          | _ \<Rightarrow> Inl (App_Error 400 ''BASE_PRICE_NOT_CONFIGURED''))))"

definition base_line :: "decimal \<times> snapshot \<Rightarrow> calculated_line" where
  "base_line b = \<lparr>line_sequence = 1, line_category = ''BASE_PRICE'', line_label = ''Base price'', line_quantity = 1,
     line_rate = fst b, line_amount = fst b, line_taxable = True, line_metadata = Some (snd b)\<rparr>"

definition own_adjustment :: "unit_row \<Rightarrow> app_error + decimal" where
  "own_adjustment u = (case unit_price_components u of
     Some (JObj (f # fs)) \<Rightarrow>
       (case map_of (f # fs) ''unit_specific_adjustment'' of None \<Rightarrow> Inr 0
        | Some v \<Rightarrow> need (json_decimal v) (App_Error 400 ''INVALID_PRICING_RULE'') Inr)
   | _ \<Rightarrow> Inr 0)"

definition adjustment_line :: "unit_price_override option \<Rightarrow> decimal \<Rightarrow> calculated_line list \<Rightarrow> calculated_line list" where
  "adjustment_line v own ls =
     (let amount = own + (case v of None \<Rightarrow> 0 | Some w \<Rightarrow> uo_adjustment w) in
      add_line ''UNIT_ADJUSTMENT'' (case v of None \<Rightarrow> ''Unit-specific adjustment'' | Some w \<Rightarrow> uo_label w)
        1 amount amount True None ls)"

definition floor_rise_line ::
  "pricing_rules \<Rightarrow> decimal option \<Rightarrow> floor_row option \<Rightarrow> calculated_line list \<Rightarrow> app_error + calculated_line list" where
  "floor_rise_line r area fl ls =
     (case (pr_floor_rise r, fl) of
        (Some fr, Some f) \<Rightarrow>
          if fr_start_floor fr \<le> floor_floor_number f then
            let floors = floor_floor_number f - fr_start_floor fr + 1;
                metadata = [(''floor_number'', JInt (floor_floor_number f)), (''chargeable_floors'', JInt floors)] in
            case fr_amount_per_floor fr of
              Some rate \<Rightarrow> Inr (add_line ''FLOOR_RISE'' (fr_label fr) (of_int floors) rate (of_int floors * rate)
                (fr_taxable fr) (Some metadata) ls)
            | None \<Rightarrow>
                need area (App_Error 400 ''UNIT_AREA_REQUIRED'') (\<lambda>a.
                need (fr_rate_per_sqft_per_floor fr) (App_Error 400 ''UNIT_AREA_REQUIRED'') (\<lambda>rate.
                Inr (add_line ''FLOOR_RISE'' (fr_label fr) (a * of_int floors) rate (a * of_int floors * rate)
                  (fr_taxable fr) (Some metadata) ls)))
          else Inr ls
      | _ \<Rightarrow> Inr ls)"

section \<open>Selected components\<close>

definition premium_lines ::
  "pricing_rules \<Rightarrow> unit_row \<Rightarrow> decimal option \<Rightarrow> string list \<Rightarrow> calculated_line list \<Rightarrow> app_error + calculated_line list" where
  "premium_lines r u area selected =
     loop (\<lambda>p ls. if \<not> rule_matches p u \<or> (rule_optional p \<and> rule_code p \<notin> set selected) then Inr ls
                  else rule_line ''PREMIUM'' area p ls) (pr_premiums r)"

definition by_code :: "pricing_line_rule list \<Rightarrow> string \<Rightarrow> pricing_line_rule option" where
  "by_code rs c = find (\<lambda>r. rule_code r = c) (rev rs)"

definition parking_lines ::
  "pricing_rules \<Rightarrow> decimal option \<Rightarrow> (string \<times> int) list \<Rightarrow> calculated_line list \<Rightarrow> app_error + calculated_line list" where
  "parking_lines r area =
     loop (\<lambda>(code, n) ls.
       need (by_code (pr_parking_options r) code) (App_Error 400 ''INVALID_PARKING_OPTION'') (\<lambda>p.
       step (rule_amount p area (if rule_calculation p = Percentage then lines_total ls else 0)) (\<lambda>(_, rate, per_unit).
       Inr (add_line ''PARKING'' (rule_label p) (of_int n) rate (per_unit * of_int n) (rule_taxable p)
         (Some [(''code'', JStr (rule_code p))]) ls))))"

definition amenity_lines ::
  "pricing_rules \<Rightarrow> decimal option \<Rightarrow> string list \<Rightarrow> calculated_line list \<Rightarrow> app_error + calculated_line list" where
  "amenity_lines r area =
     loop (\<lambda>code ls. need (by_code (pr_amenity_charges r) code) (App_Error 400 ''INVALID_AMENITY_CHARGE'') (\<lambda>p.
       rule_line ''AMENITY'' area p ls))"

definition charge_lines ::
  "pricing_rules \<Rightarrow> unit_row \<Rightarrow> decimal option \<Rightarrow> calculated_line list \<Rightarrow> app_error + calculated_line list" where
  "charge_lines r u area =
     loop (\<lambda>p ls. if rule_optional p \<or> \<not> rule_matches p u then Inr ls else rule_line ''CHARGE'' area p ls) (pr_charges r)"

section \<open>Taxes\<close>

definition tax_basis :: "tax_rule \<Rightarrow> calculated_line list \<Rightarrow> decimal" where
  "tax_basis t ls = sum_where (\<lambda>l. line_taxable l \<and> (tax_applies_to t = [] \<or> line_category l \<in> set (tax_applies_to t)))
     line_amount ls"

definition tax_line :: "tax_rule \<Rightarrow> calculated_line list \<times> decimal \<Rightarrow> calculated_line list \<times> decimal" where
  "tax_line t = (\<lambda>(ls, pre).
     let basis = tax_basis t ls; amount = money (basis * tax_rate_percent t / 100) in
     (add_line ''TAX'' (tax_label t) 1 (tax_rate_percent t) amount False
        (Some [(''code'', JStr (tax_code t)), (''taxable_basis'', JDec (money basis))]) ls, pre + amount))"

definition tax_lines :: "tax_rule list \<Rightarrow> calculated_line list \<Rightarrow> calculated_line list \<times> decimal" where
  "tax_lines ts ls = fold tax_line ts (ls, 0)"

section \<open>The cost sheet\<close>

record cost_sheet_create =
  csc_customer_id :: ident
  csc_lead_id :: "ident option"
  csc_unit_id :: ident
  csc_price_list_id :: ident
  csc_parking :: "(string \<times> int) list"
  csc_amenity_codes :: "string list"
  csc_optional_premium_codes :: "string list"
  csc_requested_discount_amount :: decimal
  csc_final_agreed_value :: "decimal option"
  csc_booking_amount_override :: "decimal option"
  csc_request_notes :: "string option"

definition cost_sheet_create_ok :: "cost_sheet_create \<Rightarrow> bool" where
  "cost_sheet_create_ok p \<longleftrightarrow> list_all (\<lambda>(c, q). 1 \<le> q \<and> q \<le> 100) (csc_parking p) \<and>
     0 \<le> csc_requested_discount_amount p \<and> opt_all (\<lambda>x. 0 \<le> x) (csc_final_agreed_value p) \<and>
     opt_all (\<lambda>x. 0 \<le> x) (csc_booking_amount_override p) \<and>
     (csc_final_agreed_value p \<noteq> None \<longrightarrow> csc_requested_discount_amount p = 0)"

definition effective_on :: "day \<Rightarrow> price_list_row \<Rightarrow> bool" where
  "effective_on d p \<longleftrightarrow> plist_status p = Record_ACTIVE \<and> plist_effective_from p \<le> d \<and>
     opt_all (\<lambda>x. d \<le> x) (plist_effective_to p)"

text \<open>\<^verbatim>\<open>_rules\<close>: what is stored is a dump of validated rules, or the JSON value \<^verbatim>\<open>null\<close>, which does not validate.\<close>

definition stored_rules :: "price_list_row \<Rightarrow> app_error + pricing_rules" where
  "stored_rules p = need (plist_pricing_rules p) (App_Error 400 ''INVALID_PRICING_RULES'') Inr"

definition gross_lines ::
  "sales \<Rightarrow> ident \<Rightarrow> cost_sheet_create \<Rightarrow> pricing_rules \<Rightarrow> unit_row \<Rightarrow> app_error + floor_row option \<times> calculated_line list" where
  "gross_lines s org p r u =
     (let area = unit_area u; v = unit_override r u in
      step (base_price_of r u) (\<lambda>b.
      step (own_adjustment u) (\<lambda>own.
      need_given (unit_floor_id u) (entity floor_organization_id floor_id (floors (core s)) org) not_found (\<lambda>fl.
      step (floor_rise_line r area fl (adjustment_line v own [base_line b])) (\<lambda>l1.
      step (premium_lines r u area (csc_optional_premium_codes p) l1) (\<lambda>l2.
      step (parking_lines r area (csc_parking p) l2) (\<lambda>l3.
      step (amenity_lines r area (csc_amenity_codes p) l3) (\<lambda>l4.
      step (charge_lines r u area l4) (\<lambda>l5. Inr (fl, l5))))))))))"

text \<open>\<^verbatim>\<open>quantize(RATE, rounding=ROUND_HALF_UP)\<close> with four decimal places.\<close>

definition quantize_rate :: "decimal \<Rightarrow> decimal" where
  "quantize_rate x = money (x * 100) / 100"

definition discount_of :: "cost_sheet_create \<Rightarrow> decimal \<Rightarrow> app_error + decimal" where
  "discount_of p pre =
     step (case csc_final_agreed_value p of
             Some x \<Rightarrow> require (x \<le> pre) (App_Error 400 ''INVALID_FINAL_VALUE'') (Inr (money (pre - x)))
           | None \<Rightarrow> Inr (money (csc_requested_discount_amount p))) (\<lambda>d.
     require (d \<le> pre) (App_Error 400 ''INVALID_DISCOUNT'') (Inr d))"

definition discount_percent_of :: "decimal \<Rightarrow> decimal \<Rightarrow> decimal" where
  "discount_percent_of d pre = (if pre = 0 then 0 else quantize_rate (d * 100 / pre))"

definition discount_line :: "decimal \<Rightarrow> decimal \<Rightarrow> calculated_line list \<Rightarrow> calculated_line list" where
  "discount_line d percent ls =
     (if d = 0 then ls
      else add_line ''DISCOUNT'' ''Discount'' 1 d (- d) False (Some [(''discount_percent'', JDec percent)]) ls)"

definition booking_amount_of :: "cost_sheet_create \<Rightarrow> pricing_rules \<Rightarrow> decimal \<Rightarrow> app_error + decimal" where
  "booking_amount_of p r final =
     step (case csc_booking_amount_override p of
             Some x \<Rightarrow> Inr (money x)
           | None \<Rightarrow> (case pr_booking_amount r of
               Some b \<Rightarrow> Inr (money (if bar_percentage b then final * bar_value b / 100 else bar_value b))
             | None \<Rightarrow> Inl (App_Error 400 ''BOOKING_AMOUNT_NOT_CONFIGURED''))) (\<lambda>x.
     require (x \<le> final) (App_Error 400 ''INVALID_BOOKING_AMOUNT'') (Inr x))"

definition approval_needed :: "pricing_rules \<Rightarrow> decimal \<Rightarrow> decimal \<Rightarrow> bool" where
  "approval_needed r d percent \<longleftrightarrow> 0 < d \<and> dp_self_approval_limit_percent (pr_discount_policy r) < percent"

definition line_view :: "calculated_line \<Rightarrow> cost_sheet_item_view" where
  "line_view l = \<lparr>civ_id = None, civ_sequence = line_sequence l, civ_category = line_category l,
     civ_label = line_label l, civ_quantity = line_quantity l, civ_rate = line_rate l, civ_amount = line_amount l,
     civ_taxable = line_taxable l, civ_metadata_json = line_metadata l\<rparr>"

definition pricing_snapshot_of ::
  "cost_sheet_create \<Rightarrow> price_list_row \<Rightarrow> pricing_rules \<Rightarrow> unit_row \<Rightarrow> floor_row option \<Rightarrow> bool \<Rightarrow> decimal \<Rightarrow> decimal \<Rightarrow>
   discount_approval_level option \<Rightarrow> pricing_snapshot" where
  "pricing_snapshot_of p pl r u fl needed percent pre level =
     \<lparr>snap_price_list_id = plist_id pl, snap_price_list_code = plist_code pl, snap_price_list_version = plist_version pl,
      snap_rules = r, snap_unit_id = unit_id u, snap_unit_number = unit_unit_number u, snap_area_sqft = unit_area u,
      snap_floor_number = map_option floor_floor_number fl, snap_facing = unit_facing u, snap_unit_type = unit_unit_type u,
      snap_parking = csc_parking p, snap_amenity_codes = csc_amenity_codes p,
      snap_optional_premium_codes = csc_optional_premium_codes p, snap_approval_required = needed,
      snap_discount_percent = percent,
      snap_self_approval_limit_percent = dp_self_approval_limit_percent (pr_discount_policy r),
      snap_previous_value = pre, snap_selected_approval_level = level\<rparr>"

definition calculate_cost_sheet ::
  "env \<Rightarrow> mutation_context \<Rightarrow> ident \<Rightarrow> cost_sheet_create \<Rightarrow> sales \<Rightarrow> app_error + cost_sheet_view" where
  "calculate_cost_sheet e ctx org p s =
     need (find_customer (core s) org (csc_customer_id p)) not_found (\<lambda>c.
     need_given (csc_lead_id p) (find_lead (core s) org) not_found (\<lambda>lead.
     need (find_unit (core s) org (csc_unit_id p)) not_found (\<lambda>u.
     need (find_project (core s) org (unit_project_id u)) not_found (\<lambda>project.
     need (find_price_list s org (csc_price_list_id p)) not_found (\<lambda>pl.
     need (find_user (core s) org (actor_user_id ctx)) not_found (\<lambda>creator.
     require (plist_project_id pl = unit_project_id u) (App_Error 400 ''PRICE_LIST_PROJECT_MISMATCH'') (
     require (effective_on (today e) pl) (App_Error 409 ''PRICE_LIST_NOT_EFFECTIVE'') (
     step (stored_rules pl) (\<lambda>r.
     step (gross_lines s org p r u) (\<lambda>(fl, ls).
     let gross = money (lines_total ls);
         (taxed, tax) = tax_lines (pr_taxes r) ls;
         tax_amount = money tax;
         pre = gross + tax_amount in
     step (discount_of p pre) (\<lambda>d.
     let percent = discount_percent_of d pre in
     require (opt_all (\<lambda>x. percent \<le> x) (dp_maximum_discount_percent (pr_discount_policy r)))
       (App_Error 400 ''DISCOUNT_LIMIT_EXCEEDED'') (
     let final = money (pre - d); items = discount_line d percent taxed in
     step (booking_amount_of p r final) (\<lambda>booking.
     let needed = approval_needed r d percent;
         level = (if needed then approval_level r percent else None) in
     require (\<not> (needed \<and> level = None)) (App_Error 409 ''APPROVAL_MATRIX_NOT_CONFIGURED'') (
     require (\<not> (needed \<and> given (csc_request_notes p) = None)) (App_Error 400 ''DISCOUNT_REASON_REQUIRED'') (
     Inr \<lparr>cs_id = None, cs_customer_id = cust_id c, cs_customer_name = cust_full_name c,
       cs_lead_id = map_option lead_id lead, cs_lead_name = map_option lead_full_name lead, cs_unit_id = unit_id u,
       cs_unit_number = unit_unit_number u, cs_project_id = project_id project, cs_project_name = project_name project,
       cs_price_list_id = plist_id pl, cs_price_list_name = plist_name pl, cs_price_list_version = plist_version pl,
       cs_created_by_user_id = user_id creator, cs_created_by_name = user_full_name creator,
       cs_status = (if needed then CostSheet_PENDING_APPROVAL else CostSheet_APPROVED), cs_currency = plist_currency pl,
       cs_base_price = line_amount (hd ls), cs_gross_value = gross, cs_discount_amount = d, cs_tax_amount = tax_amount,
       cs_final_agreed_value = final, cs_booking_amount = booking,
       cs_pricing_snapshot = pricing_snapshot_of p pl r u fl needed percent pre level, cs_items = map line_view items,
       cs_approval = None, cs_quotation_id = None, cs_created_at = None\<rparr>)))))))))))))))"

end
