(* ===== verification/Cost_Sheet_Handlers.thy ===== *)
theory Cost_Sheet_Handlers
  imports Cost_Sheets
begin

text \<open>
  Storing a calculated cost sheet with the discount approval it needs, deciding that approval, and the
  views of cost sheets (\<^verbatim>\<open>services/quotations.py\<close>).

  What every stage of the price calculation keeps: amounts in whole cents and lines numbered from one
  without a gap. From it follow the sums of the finished cost sheet.
\<close>

section \<open>Views\<close>

definition item_view :: "cost_sheet_item_row \<Rightarrow> cost_sheet_item_view" where
  "item_view i = \<lparr>civ_id = Some (csi_id i), civ_sequence = csi_sequence i, civ_category = csi_category i,
     civ_label = csi_label i, civ_quantity = csi_quantity i, civ_rate = csi_rate i, civ_amount = csi_amount i,
     civ_taxable = csi_taxable i, civ_metadata_json = csi_metadata_json i\<rparr>"

definition sheet_items :: "sales \<Rightarrow> ident \<Rightarrow> ident \<Rightarrow> cost_sheet_item_row list" where
  "sheet_items s org sid = sort_key csi_sequence
     (filter (\<lambda>i. csi_organization_id i = org \<and> csi_cost_sheet_id i = sid) (cost_sheet_items s))"

definition approval_of :: "sales \<Rightarrow> ident \<Rightarrow> ident \<Rightarrow> discount_approval_row option" where
  "approval_of s org sid = find (\<lambda>a. disc_organization_id a = org \<and> disc_cost_sheet_id a = sid) (discount_approvals s)"

definition approval_view :: "sales \<Rightarrow> ident \<Rightarrow> discount_approval_row \<Rightarrow> app_error + discount_approval_view" where
  "approval_view s org a =
     need (find_user (core s) org (disc_requested_by_user_id a)) not_found (\<lambda>requester.
     need_given (disc_approver_user_id a) (find_user (core s) org) not_found (\<lambda>approver.
     Inr \<lparr>dav_id = disc_id a, dav_status = disc_status a, dav_requested_by_user_id = user_id requester,
       dav_requested_by_name = user_full_name requester, dav_approver_user_id = map_option user_id approver,
       dav_approver_name = map_option user_full_name approver,
       dav_requested_discount_amount = disc_requested_discount_amount a,
       dav_requested_discount_percent = disc_requested_discount_percent a,
       dav_self_approval_limit_percent = disc_self_approval_limit_percent a,
       dav_approval_level_name = disc_approval_level_name a,
       dav_required_approver_user_ids = disc_required_approver_user_ids a,
       dav_required_approver_role_ids = disc_required_approver_role_ids a, dav_previous_value = disc_previous_value a,
       dav_final_approved_value = disc_final_approved_value a, dav_request_notes = disc_request_notes a,
       dav_decision_notes = disc_decision_notes a, dav_decided_at = disc_decided_at a, dav_created_at = disc_created_at a\<rparr>))"

definition sheet_view :: "sales \<Rightarrow> ident \<Rightarrow> cost_sheet_row \<Rightarrow> app_error + cost_sheet_view" where
  "sheet_view s org c =
     need (find_customer (core s) org (sheet_customer_id c)) not_found (\<lambda>customer.
     need_given (sheet_lead_id c) (find_lead (core s) org) not_found (\<lambda>lead.
     need (find_unit (core s) org (sheet_unit_id c)) not_found (\<lambda>u.
     need (find_project (core s) org (unit_project_id u)) not_found (\<lambda>project.
     need (find_price_list s org (sheet_price_list_id c)) not_found (\<lambda>pl.
     need (find_user (core s) org (sheet_created_by_user_id c)) not_found (\<lambda>creator.
     step (case approval_of s org (sheet_id c) of None \<Rightarrow> Inr None
           | Some a \<Rightarrow> step (approval_view s org a) (\<lambda>v. Inr (Some v))) (\<lambda>av.
     Inr \<lparr>cs_id = Some (sheet_id c), cs_customer_id = cust_id customer, cs_customer_name = cust_full_name customer,
       cs_lead_id = map_option lead_id lead, cs_lead_name = map_option lead_full_name lead, cs_unit_id = unit_id u,
       cs_unit_number = unit_unit_number u, cs_project_id = project_id project, cs_project_name = project_name project,
       cs_price_list_id = plist_id pl, cs_price_list_name = plist_name pl, cs_price_list_version = plist_version pl,
       cs_created_by_user_id = user_id creator, cs_created_by_name = user_full_name creator,
       cs_status = sheet_status c, cs_currency = sheet_currency c, cs_base_price = sheet_base_price c,
       cs_gross_value = sheet_gross_value c, cs_discount_amount = sheet_discount_amount c,
       cs_tax_amount = sheet_tax_amount c, cs_final_agreed_value = sheet_final_agreed_value c,
       cs_booking_amount = sheet_booking_amount c, cs_pricing_snapshot = sheet_pricing_snapshot c,
       cs_items = map item_view (sheet_items s org (sheet_id c)), cs_approval = av,
       cs_quotation_id = map_option quote_id (find (\<lambda>q. quote_organization_id q = org \<and>
         quote_cost_sheet_id q = Some (sheet_id c)) (quotations (core s))),
       cs_created_at = Some (sheet_created_at c)\<rparr>)))))))"

definition get_cost_sheet :: "sales \<Rightarrow> ident \<Rightarrow> ident \<Rightarrow> app_error + cost_sheet_view" where
  "get_cost_sheet s org sid = need (find_sheet s org sid) not_found (sheet_view s org)"

definition page_of :: "nat \<Rightarrow> nat \<Rightarrow> 'r list \<Rightarrow> 'r list" where
  "page_of page page_size rows = take page_size (drop ((page - 1) * page_size) rows)"

definition paged :: "nat \<Rightarrow> nat \<Rightarrow> nat \<Rightarrow> 'v list \<Rightarrow> 'v page" where
  "paged page page_size n vs = \<lparr>pg_items = vs, pg_page = page, pg_page_size = page_size, pg_total = n,
     pg_pages = page_count n page_size\<rparr>"

definition list_cost_sheets ::
  "sales \<Rightarrow> ident \<Rightarrow> ident option \<Rightarrow> cost_sheet_status option \<Rightarrow> nat \<Rightarrow> nat \<Rightarrow> app_error + cost_sheet_view page" where
  "list_cost_sheets s org customer status page page_size =
     (let rows = filter (\<lambda>c. sheet_organization_id c = org \<and> opt_all (\<lambda>x. sheet_customer_id c = x) (given customer) \<and>
            opt_all (\<lambda>x. sheet_status c = x) status) (cost_sheets s) in
      step (collect (sheet_view s org) (page_of page page_size (order_desc sheet_created_at rows))) (\<lambda>vs.
      Inr (paged page page_size (length rows) vs)))"

section \<open>Creation\<close>

definition new_sheet :: "env \<Rightarrow> ident \<Rightarrow> ident \<Rightarrow> mutation_context \<Rightarrow> cost_sheet_view \<Rightarrow> cost_sheet_row" where
  "new_sheet e i org ctx v =
     \<lparr>sheet_id = i, sheet_organization_id = org, sheet_customer_id = cs_customer_id v, sheet_lead_id = cs_lead_id v,
      sheet_unit_id = cs_unit_id v, sheet_price_list_id = cs_price_list_id v,
      sheet_created_by_user_id = actor_user_id ctx, sheet_status = cs_status v, sheet_currency = cs_currency v,
      sheet_base_price = cs_base_price v, sheet_gross_value = cs_gross_value v,
      sheet_discount_amount = cs_discount_amount v, sheet_tax_amount = cs_tax_amount v,
      sheet_final_agreed_value = cs_final_agreed_value v, sheet_booking_amount = cs_booking_amount v,
      sheet_pricing_snapshot = cs_pricing_snapshot v, sheet_created_at = now e\<rparr>"

text \<open>The \<^verbatim>\<open>CHECK\<close> constraints of \<^verbatim>\<open>cost_sheets\<close>; no handler catches their violation.\<close>

definition sheet_amounts_ok :: "cost_sheet_row \<Rightarrow> bool" where
  "sheet_amounts_ok c \<longleftrightarrow> 0 \<le> sheet_gross_value c \<and> 0 \<le> sheet_discount_amount c \<and> 0 \<le> sheet_tax_amount c \<and>
     0 \<le> sheet_final_agreed_value c \<and> 0 \<le> sheet_booking_amount c"

definition new_item :: "env \<Rightarrow> ident \<Rightarrow> ident \<Rightarrow> ident \<Rightarrow> cost_sheet_item_view \<Rightarrow> cost_sheet_item_row" where
  "new_item e i org sid v =
     \<lparr>csi_id = i, csi_organization_id = org, csi_cost_sheet_id = sid, csi_sequence = civ_sequence v,
      csi_category = civ_category v, csi_label = civ_label v, csi_quantity = civ_quantity v, csi_rate = civ_rate v,
      csi_amount = civ_amount v, csi_taxable = civ_taxable v, csi_metadata_json = civ_metadata_json v,
      csi_created_at = now e\<rparr>"

definition new_items :: "env \<Rightarrow> nat \<Rightarrow> ident \<Rightarrow> ident \<Rightarrow> cost_sheet_item_view list \<Rightarrow> cost_sheet_item_row list" where
  "new_items e n org sid vs = map (\<lambda>(k, v). new_item e (uuid e (n + k)) org sid v) (enumerate 0 vs)"

definition new_discount ::
  "env \<Rightarrow> ident \<Rightarrow> ident \<Rightarrow> mutation_context \<Rightarrow> cost_sheet_row \<Rightarrow> discount_approval_level \<Rightarrow> string option \<Rightarrow>
   discount_approval_row" where
  "new_discount e i org ctx c l notes =
     (let p = sheet_pricing_snapshot c in
      \<lparr>disc_id = i, disc_organization_id = org, disc_cost_sheet_id = sheet_id c,
       disc_requested_by_user_id = actor_user_id ctx, disc_approver_user_id = None, disc_status = Approval_PENDING,
       disc_requested_discount_amount = sheet_discount_amount c,
       disc_requested_discount_percent = snap_discount_percent p,
       disc_self_approval_limit_percent = snap_self_approval_limit_percent p, disc_approval_level_name = lvl_name l,
       disc_required_approver_user_ids = lvl_approver_user_ids l,
       disc_required_approver_role_ids = lvl_approver_role_ids l, disc_previous_value = snap_previous_value p,
       disc_final_approved_value = None, disc_request_notes = notes, disc_decision_notes = None,
       disc_decided_at = None, disc_created_at = now e\<rparr>)"

definition request_discount ::
  "env \<Rightarrow> nat \<Rightarrow> ident \<Rightarrow> mutation_context \<Rightarrow> cost_sheet_row \<Rightarrow> discount_approval_level \<Rightarrow> string option \<Rightarrow> sales \<Rightarrow> sales" where
  "request_discount e n org ctx c l notes s =
     (let a = new_discount e (uuid e n) org ctx c l notes;
          audit = audit_entry e (uuid e (n + 1)) org ctx ''discount_approval.requested'' ''discount_approval'' (disc_id a)
            (Some [(''final_value'', JDec (disc_previous_value a))])
            (Some [(''cost_sheet_id'', JStr (sheet_id c)),
                   (''requested_amount'', JDec (disc_requested_discount_amount a)),
                   (''requested_percentage'', JDec (disc_requested_discount_percent a)),
                   (''reason'', jopt JStr (disc_request_notes a)), (''approval_level'', JStr (disc_approval_level_name a)),
                   (''requested_final_value'', JDec (sheet_final_agreed_value c))]);
          approvers = filter (\<lambda>u. u \<noteq> actor_user_id ctx)
            (disc_required_approver_user_ids a @ recipients_for_roles (core s) org (disc_required_approver_role_ids a));
          msg = \<lparr>msg_event = Event_DISCOUNT_APPROVAL_REQUESTED, msg_title = ''Discount approval requested'',
            msg_body = [JStr (disc_approval_level_name a), JStr '': '', JStr (sheet_currency c), JStr '' '',
              JDec (disc_requested_discount_amount a)],
            msg_entity_type = ''discount_approval'', msg_entity_id = disc_id a,
            msg_action_url = ''/cost-sheets/'' @ sheet_id c,
            msg_data = Some [(''cost_sheet_id'', JStr (sheet_id c)), (''requested_by_user_id'', JStr (actor_user_id ctx)),
              (''requested_percentage'', JDec (disc_requested_discount_percent a))]\<rparr>
      in on_core (\<lambda>d. queue_in_app e (n + 2) org approvers msg None None (add_audits [audit] d))
           (s\<lparr>discount_approvals := discount_approvals s @ [a]\<rparr>))"

definition store_sheet :: "cost_sheet_row \<Rightarrow> cost_sheet_item_row list \<Rightarrow> sales \<Rightarrow> sales" where
  "store_sheet c is s = s\<lparr>cost_sheets := cost_sheets s @ [c], cost_sheet_items := cost_sheet_items s @ is\<rparr>"

definition create_cost_sheet ::
  "env \<Rightarrow> mutation_context \<Rightarrow> ident \<Rightarrow> cost_sheet_create \<Rightarrow> sales \<Rightarrow> (sales, cost_sheet_view) outcome" where
  "create_cost_sheet e ctx org p s =
     attempt s (calculate_cost_sheet e ctx org p s) (\<lambda>v.
     let c = new_sheet e (uuid e 0) org ctx v in
     demand s (sheet_amounts_ok c) Integrity_Error (
     let n = length (cs_items v);
         s1 = store_sheet c (new_items e 2 org (sheet_id c) (cs_items v)) s;
         audit = audit_entry e (uuid e 1) org ctx ''cost_sheet.created'' ''cost_sheet'' (sheet_id c) None
           (Some [(''status'', JStr (cost_sheet_status_value (sheet_status c))), (''unit_id'', JStr (sheet_unit_id c)),
                  (''final_agreed_value'', JDec (sheet_final_agreed_value c))]) in
     attempt s (if sheet_status c \<noteq> CostSheet_PENDING_APPROVAL then Inr s1
                else need (snap_selected_approval_level (sheet_pricing_snapshot c))
                  (App_Error 409 ''APPROVAL_MATRIX_NOT_CONFIGURED'')
                  (\<lambda>l. Inr (request_discount e (n + 2) org ctx c l (csc_request_notes p) s1))) (\<lambda>s2.
     let t = on_core (add_audits [audit]) s2 in
     respond t (get_cost_sheet t org (sheet_id c)))))"

section \<open>Deciding a discount\<close>

record discount_decision =
  dd_status :: decision
  dd_notes :: "string option"

definition matrix_approver :: "sales \<Rightarrow> ident \<Rightarrow> ident \<Rightarrow> discount_approval_row \<Rightarrow> bool" where
  "matrix_approver s org actor a \<longleftrightarrow> actor \<in> set (disc_required_approver_user_ids a) \<or>
     list_ex (\<lambda>ur. urole_organization_id ur = org \<and> urole_user_id ur = actor \<and>
       urole_role_id ur \<in> set (disc_required_approver_role_ids a)) (user_roles (core s))"

definition approved :: "discount_decision \<Rightarrow> bool" where
  "approved p \<longleftrightarrow> dd_status p = Decision_APPROVED"

definition decided_discount :: "env \<Rightarrow> mutation_context \<Rightarrow> discount_decision \<Rightarrow> cost_sheet_row \<Rightarrow> discount_approval_row \<Rightarrow> discount_approval_row" where
  "decided_discount e ctx p c a =
     a\<lparr>disc_status := (if approved p then Approval_APPROVED else Approval_REJECTED),
       disc_approver_user_id := Some (actor_user_id ctx), disc_decision_notes := dd_notes p,
       disc_decided_at := Some (now e),
       disc_final_approved_value := (if approved p then Some (sheet_final_agreed_value c) else None)\<rparr>"

definition decided_sheet :: "discount_decision \<Rightarrow> cost_sheet_row \<Rightarrow> cost_sheet_row" where
  "decided_sheet p c = c\<lparr>sheet_status := (if approved p then CostSheet_APPROVED else CostSheet_REJECTED)\<rparr>"

definition decide_discount ::
  "env \<Rightarrow> mutation_context \<Rightarrow> ident \<Rightarrow> ident \<Rightarrow> discount_decision \<Rightarrow> sales \<Rightarrow> (sales, cost_sheet_view) outcome" where
  "decide_discount e ctx org sid p s =
     fetch s (find_sheet s org sid) not_found (\<lambda>c.
     fetch s (approval_of s org (sheet_id c)) (App_Error 409 ''APPROVAL_NOT_PENDING'') (\<lambda>a.
     demand s (disc_status a = Approval_PENDING) (App_Error 409 ''APPROVAL_NOT_PENDING'') (
     demand s (disc_requested_by_user_id a \<noteq> actor_user_id ctx) (App_Error 403 ''SELF_APPROVAL_NOT_ALLOWED'') (
     let in_matrix = matrix_approver s org (actor_user_id ctx) a;
         override = permission_is_granted (permissions_held ctx) ''quotations.manage'' in
     demand s (in_matrix \<or> override) (App_Error 403 ''APPROVER_NOT_IN_MATRIX'') (
     let a' = decided_discount e ctx p c a;
         c' = decided_sheet p c;
         audit = audit_entry e (uuid e 0) org ctx ''discount_approval.decided'' ''discount_approval'' (disc_id a)
           (Some [(''status'', JStr (cost_sheet_status_value (sheet_status c))), (''final_value'', JDec (disc_previous_value a))])
           (Some [(''status'', JStr (cost_sheet_status_value (sheet_status c'))),
                  (''decision'', JStr (approval_status_value (disc_status a'))),
                  (''approver_user_id'', JStr (actor_user_id ctx)), (''decision_notes'', jopt JStr (disc_decision_notes a')),
                  (''final_approved_value'', jopt JDec (disc_final_approved_value a')),
                  (''management_override'', JBool (override \<and> \<not> in_matrix))]);
         msg = \<lparr>msg_event = Event_DISCOUNT_APPROVAL_DECIDED,
           msg_title = ''Discount request '' @ lower (approval_status_value (disc_status a')),
           msg_body = (case given (disc_decision_notes a') of Some x \<Rightarrow> [JStr x]
             | None \<Rightarrow> [JStr ''Decision: '', JStr (approval_status_value (disc_status a'))]),
           msg_entity_type = ''discount_approval'', msg_entity_id = disc_id a,
           msg_action_url = ''/cost-sheets/'' @ sheet_id c,
           msg_data = Some [(''cost_sheet_id'', JStr (sheet_id c)),
             (''status'', JStr (approval_status_value (disc_status a')))]\<rparr>;
         t = on_core (\<lambda>d. queue_in_app e 1 org [disc_requested_by_user_id a] msg None None (add_audits [audit] d))
               (put_sheet c' (put_discount a' s)) in
     respond t (get_cost_sheet t org (sheet_id c)))))))"

section \<open>Whole cents\<close>

definition in_cents :: "decimal \<Rightarrow> bool" where
  "in_cents x \<longleftrightarrow> money x = x"

lemma in_cents_iff: "in_cents x \<longleftrightarrow> (\<exists>k. x = of_int k / 100)"
  unfolding in_cents_def using money_is_cents [of x] money_of_cents by metis

lemma in_cents_simps [simp]: "in_cents 0" "in_cents (money x)"
  by (simp_all add: in_cents_def)

lemma in_cents_add [intro]: "in_cents x \<Longrightarrow> in_cents y \<Longrightarrow> in_cents (x + y)"
  unfolding in_cents_iff by (metis add_divide_distrib of_int_add)

lemma in_cents_minus [intro]: "in_cents x \<Longrightarrow> in_cents (- x)"
  unfolding in_cents_iff by (metis minus_divide_left of_int_minus)

lemma in_cents_diff [intro]: "in_cents x \<Longrightarrow> in_cents y \<Longrightarrow> in_cents (x - y)"
  using in_cents_add [of x "- y"] by auto

lemma in_cents_sum: "(\<And>x. x \<in> set xs \<Longrightarrow> in_cents (f x)) \<Longrightarrow> in_cents (sum_list (map f xs))"
  by (induction xs) auto

lemma money_in_cents: "in_cents x \<Longrightarrow> money x = x"
  by (simp add: in_cents_def)

section \<open>Well-formed lines\<close>

definition well_lined :: "calculated_line list \<Rightarrow> bool" where
  "well_lined ls \<longleftrightarrow> list_all (\<lambda>l. in_cents (line_amount l)) ls \<and>
     map line_sequence ls = map (\<lambda>i. int i + 1) [0..<length ls]"

lemma well_lined_total: "well_lined ls \<Longrightarrow> in_cents (lines_total ls)"
  unfolding lines_total_def by (rule in_cents_sum) (simp add: well_lined_def list_all_iff)

lemma well_lined_base [simp]: "well_lined [base_line (money x, m)]"
  by (simp add: well_lined_def base_line_def)

lemma add_line_well_lined [intro]: "well_lined ls \<Longrightarrow> well_lined (add_line c l q r a t m ls)"
  by (simp add: add_line_def well_lined_def)

lemma add_line_total: "lines_total (add_line c l q r a t m ls) = lines_total ls + money a"
  by (simp add: add_line_def lines_total_def)

lemma loop_keeps:
  assumes "loop f xs s = Inr t" "I s" "\<And>x s t. x \<in> set xs \<Longrightarrow> f x s = Inr t \<Longrightarrow> I s \<Longrightarrow> I t"
  shows "I t"
  using assms
proof (induction xs arbitrary: s)
  case (Cons x xs)
  then obtain u where u: "f x s = Inr u" "loop f xs u = Inr t" by (auto split: sum.splits)
  have "I u" by (rule Cons.prems(3) [OF _ u(1) Cons.prems(2)]) simp
  with u(2) show ?case by (rule Cons.IH) (auto intro: Cons.prems(3))
qed simp

lemma rule_line_well_lined: "rule_line c area r ls = Inr ls' \<Longrightarrow> well_lined ls \<Longrightarrow> well_lined ls'"
  unfolding rule_line_def outcome_simps by (auto split: prod.splits)

lemma floor_rise_well_lined: "floor_rise_line r area fl ls = Inr ls' \<Longrightarrow> well_lined ls \<Longrightarrow> well_lined ls'"
  unfolding floor_rise_line_def Let_def by (auto simp: outcome_simps split: option.splits if_splits)

lemma premium_well_lined: "premium_lines r u area cs ls = Inr ls' \<Longrightarrow> well_lined ls \<Longrightarrow> well_lined ls'"
  unfolding premium_lines_def by (erule loop_keeps) (auto split: if_splits dest: rule_line_well_lined)

lemma parking_well_lined: "parking_lines r area ps ls = Inr ls' \<Longrightarrow> well_lined ls \<Longrightarrow> well_lined ls'"
  unfolding parking_lines_def by (erule loop_keeps) (auto simp: outcome_simps split: prod.splits)

lemma amenity_well_lined: "amenity_lines r area cs ls = Inr ls' \<Longrightarrow> well_lined ls \<Longrightarrow> well_lined ls'"
  unfolding amenity_lines_def by (erule loop_keeps) (auto simp: outcome_simps dest: rule_line_well_lined)

lemma charge_well_lined: "charge_lines r u area ls = Inr ls' \<Longrightarrow> well_lined ls \<Longrightarrow> well_lined ls'"
  unfolding charge_lines_def by (erule loop_keeps) (auto split: if_splits dest: rule_line_well_lined)

lemma base_price_in_cents: "base_price_of r u = Inr b \<Longrightarrow> \<exists>x m. b = (money x, m)"
  unfolding base_price_of_def by (auto split: option.splits)

lemma gross_well_lined: "gross_lines s org p r u = Inr (fl, ls) \<Longrightarrow> well_lined ls"
  unfolding gross_lines_def Let_def need_given_def
  by (auto simp: outcome_simps adjustment_line_def Let_def split: option.splits
      intro!: add_line_well_lined dest!: base_price_in_cents floor_rise_well_lined premium_well_lined parking_well_lined amenity_well_lined charge_well_lined)

section \<open>Taxes and discount\<close>

lemma tax_fold:
  assumes "well_lined ls" "in_cents x" "fold tax_line ts (ls, x) = (ls', y)"
  shows "well_lined ls' \<and> in_cents y \<and> lines_total ls' = lines_total ls + (y - x)"
  using assms
proof (induction ts arbitrary: ls x)
  case (Cons t ts)
  let ?a = "money (tax_basis t ls * tax_rate_percent t / 100)"
  obtain ls1 where l1: "tax_line t (ls, x) = (ls1, x + ?a)" "well_lined ls1" "lines_total ls1 = lines_total ls + ?a"
    using Cons.prems(1) by (auto simp: tax_line_def Let_def add_line_total)
  have "well_lined ls' \<and> in_cents y \<and> lines_total ls' = lines_total ls1 + (y - (x + ?a))"
    by (rule Cons.IH [OF l1(2)]) (use Cons.prems l1(1) in auto)
  with l1(3) show ?case by simp
qed simp

lemma tax_lines_sum:
  assumes "well_lined ls" "tax_lines ts ls = (taxed, x)"
  shows "well_lined taxed" "in_cents x" "lines_total taxed = lines_total ls + x"
  using tax_fold [OF assms(1) in_cents_simps(1)] assms(2) unfolding tax_lines_def by auto

lemma discount_in_cents: "discount_of p pre = Inr d \<Longrightarrow> in_cents d \<and> d \<le> pre"
  unfolding discount_of_def by (auto simp: outcome_simps split: option.splits)

lemma discount_line_sum:
  "well_lined ls \<Longrightarrow> in_cents d \<Longrightarrow> well_lined (discount_line d q ls) \<and> lines_total (discount_line d q ls) = lines_total ls - d"
  by (auto simp: discount_line_def add_line_total money_in_cents [OF in_cents_minus])

lemma line_view_sel [simp]:
  "civ_amount (line_view l) = line_amount l" "civ_sequence (line_view l) = line_sequence l"
  by (simp_all add: line_view_def)

text \<open>The numbers of a calculated sheet and the guards they passed.\<close>

lemma calculate_returns:
  assumes "calculate_cost_sheet e ctx org p s = Inr v"
  obtains pl u r fl ls taxed tax where
    "find_price_list s org (csc_price_list_id p) = Some pl" "stored_rules pl = Inr r"
    "find_unit (core s) org (csc_unit_id p) = Some u" "effective_on (today e) pl"
    "gross_lines s org p r u = Inr (fl, ls)" "tax_lines (pr_taxes r) ls = (taxed, tax)"
    "cs_gross_value v = money (lines_total ls)" "cs_tax_amount v = money tax"
    "discount_of p (cs_gross_value v + cs_tax_amount v) = Inr (cs_discount_amount v)"
    "snap_discount_percent (cs_pricing_snapshot v) = discount_percent_of (cs_discount_amount v) (cs_gross_value v + cs_tax_amount v)"
    "opt_all (\<lambda>x. snap_discount_percent (cs_pricing_snapshot v) \<le> x) (dp_maximum_discount_percent (pr_discount_policy r))"
    "cs_final_agreed_value v = money (cs_gross_value v + cs_tax_amount v - cs_discount_amount v)"
    "cs_items v = map line_view (discount_line (cs_discount_amount v) (snap_discount_percent (cs_pricing_snapshot v)) taxed)"
    "booking_amount_of p r (cs_final_agreed_value v) = Inr (cs_booking_amount v)"
    "snap_rules (cs_pricing_snapshot v) = r"
    "snap_approval_required (cs_pricing_snapshot v) =
       approval_needed r (cs_discount_amount v) (snap_discount_percent (cs_pricing_snapshot v))"
    "snap_selected_approval_level (cs_pricing_snapshot v) =
       (if snap_approval_required (cs_pricing_snapshot v) then approval_level r (snap_discount_percent (cs_pricing_snapshot v)) else None)"
    "snap_approval_required (cs_pricing_snapshot v) \<longrightarrow> snap_selected_approval_level (cs_pricing_snapshot v) \<noteq> None"
    "cs_status v = (if snap_approval_required (cs_pricing_snapshot v) then CostSheet_PENDING_APPROVAL else CostSheet_APPROVED)"
    "snap_self_approval_limit_percent (cs_pricing_snapshot v) = dp_self_approval_limit_percent (pr_discount_policy r)"
    "snap_previous_value (cs_pricing_snapshot v) = cs_gross_value v + cs_tax_amount v"
proof -
  note r = assms [unfolded calculate_cost_sheet_def need_given_def Let_def]
  show thesis
  proof (cases "given (csc_lead_id p)")
    case None
    from r show thesis unfolding None option.case outcome_simps split_paired_Ex prod.case case_prod_beta sum.inject
      by (elim exE conjE) (rule that, assumption, assumption, assumption, assumption, assumption, rule prod.collapse [symmetric],
        (hypsubst, simp add: pricing_snapshot_of_def)+)
  next
    case (Some i)
    from r show thesis unfolding Some option.case outcome_simps split_paired_Ex prod.case case_prod_beta sum.inject
      by (elim exE conjE) (rule that, assumption, assumption, assumption, assumption, assumption, rule prod.collapse [symmetric],
        (hypsubst, simp add: pricing_snapshot_of_def)+)
  qed
qed

end
