(* ===== verification/Price_Lists.thy ===== *)
theory Price_Lists
  imports Cost_Sheet_Handlers
begin

text \<open>
  Price lists (\<^verbatim>\<open>services/quotations.py\<close>): creation, edits of drafts, the status machine, deletion, the
  eligible approvers of the matrix, and the views.
\<close>

section \<open>Who may approve discounts\<close>

definition eligible_roles :: "database \<Rightarrow> ident \<Rightarrow> ident list" where
  "eligible_roles s org =
     [rperm_role_id rp. rp \<leftarrow> role_permissions s, rperm_organization_id rp = org,
        p \<leftarrow> permissions s, perm_organization_id p = org, perm_id p = rperm_permission_id rp,
        perm_code p \<in> set [''quotations.approve'', ''quotations.manage'']]"

definition eligible_users :: "database \<Rightarrow> ident \<Rightarrow> ident list" where
  "eligible_users s org =
     (let roles = eligible_roles s org in
      if roles = [] then []
      else [user_id u. u \<leftarrow> users s, user_organization_id u = org, user_is_active u,
              ur \<leftarrow> user_roles s, urole_organization_id ur = org, urole_user_id ur = user_id u,
              urole_role_id ur \<in> set roles])"

definition matrix_users :: "pricing_rules \<Rightarrow> ident list" where
  "matrix_users r = concat (map lvl_approver_user_ids (dp_approval_matrix (pr_discount_policy r)))"

definition matrix_roles :: "pricing_rules \<Rightarrow> ident list" where
  "matrix_roles r = concat (map lvl_approver_role_ids (dp_approval_matrix (pr_discount_policy r)))"

definition matrix_eligible :: "database \<Rightarrow> ident \<Rightarrow> pricing_rules \<Rightarrow> bool" where
  "matrix_eligible s org r \<longleftrightarrow> list_all (\<lambda>u. u \<in> set (eligible_users s org)) (matrix_users r) \<and>
     list_all (\<lambda>x. x \<in> set (eligible_roles s org)) (matrix_roles r)"

record approval_matrix_options =
  amo_users :: "(ident \<times> string) list"
  amo_roles :: "(ident \<times> string) list"

definition approval_matrix_options_of :: "database \<Rightarrow> ident \<Rightarrow> approval_matrix_options" where
  "approval_matrix_options_of s org =
     \<lparr>amo_users = map (\<lambda>u. (user_id u, user_full_name u)) (sort_key user_full_name
        (filter (\<lambda>u. user_organization_id u = org \<and> user_id u \<in> set (eligible_users s org)) (users s))),
      amo_roles = map (\<lambda>r. (role_id r, role_name r)) (sort_key role_name
        (filter (\<lambda>r. role_organization_id r = org \<and> role_id r \<in> set (eligible_roles s org)) (roles s)))\<rparr>"

section \<open>Views\<close>

record price_list_view =
  plv_id :: ident
  plv_project_id :: ident
  plv_project_name :: string
  plv_name :: string
  plv_code :: string
  plv_version :: int
  plv_status :: record_status
  plv_currency :: string
  plv_effective_from :: day
  plv_effective_to :: "day option"
  plv_pricing_rules :: pricing_rules
  plv_cost_sheet_count :: nat
  plv_created_at :: timestamp

definition price_list_view_of :: "sales \<Rightarrow> ident \<Rightarrow> price_list_row \<Rightarrow> app_error + price_list_view" where
  "price_list_view_of s org p =
     need (find_project (core s) org (plist_project_id p)) Internal_Error (\<lambda>project.
     step (stored_rules p) (\<lambda>r.
     Inr \<lparr>plv_id = plist_id p, plv_project_id = plist_project_id p, plv_project_name = project_name project,
       plv_name = plist_name p, plv_code = plist_code p, plv_version = plist_version p, plv_status = plist_status p,
       plv_currency = plist_currency p, plv_effective_from = plist_effective_from p,
       plv_effective_to = plist_effective_to p, plv_pricing_rules = r,
       plv_cost_sheet_count = count_rows (\<lambda>c. sheet_organization_id c = org \<and> sheet_price_list_id c = plist_id p)
         (cost_sheets s), plv_created_at = plist_created_at p\<rparr>))"

definition get_price_list :: "sales \<Rightarrow> ident \<Rightarrow> ident \<Rightarrow> app_error + price_list_view" where
  "get_price_list s org pid = need (find_price_list s org pid) not_found (price_list_view_of s org)"

definition price_list_selected ::
  "ident \<Rightarrow> string option \<Rightarrow> ident option \<Rightarrow> record_status option \<Rightarrow> price_list_row \<Rightarrow> bool" where
  "price_list_selected org q project status p \<longleftrightarrow> plist_organization_id p = org \<and>
     opt_all (\<lambda>x. plist_project_id p = x) (given project) \<and> opt_all (\<lambda>x. plist_status p = x) status \<and>
     opt_all (\<lambda>x. ilike (plist_name p) (search_pattern x) \<or> ilike (plist_code p) (search_pattern x)) (given q)"

definition list_price_lists ::
  "sales \<Rightarrow> ident \<Rightarrow> string option \<Rightarrow> ident option \<Rightarrow> record_status option \<Rightarrow> nat \<Rightarrow> nat \<Rightarrow>
   app_error + price_list_view page" where
  "list_price_lists s org q project status page page_size =
     (let rows = filter (price_list_selected org q project status) (price_lists s) in
      step (collect (price_list_view_of s org) (page_of page page_size (order_desc plist_created_at rows))) (\<lambda>vs.
      Inr (paged page page_size (length rows) vs)))"

section \<open>Creation\<close>

record price_list_create =
  plc_project_id :: ident
  plc_name :: string
  plc_code :: string
  plc_currency :: string
  plc_effective_from :: day
  plc_effective_to :: "day option"
  plc_pricing_rules :: pricing_rules

definition price_list_create_ok :: "price_list_create \<Rightarrow> bool" where
  "price_list_create_ok p \<longleftrightarrow> opt_all (\<lambda>x. plc_effective_from p \<le> x) (plc_effective_to p) \<and>
     pricing_rules_ok (plc_pricing_rules p)"

definition new_price_list :: "env \<Rightarrow> ident \<Rightarrow> ident \<Rightarrow> price_list_create \<Rightarrow> price_list_row" where
  "new_price_list e i org p =
     \<lparr>plist_id = i, plist_organization_id = org, plist_project_id = plc_project_id p, plist_name = plc_name p,
      plist_code = plc_code p, plist_version = 1, plist_status = Record_DRAFT, plist_currency = plc_currency p,
      plist_effective_from = plc_effective_from p, plist_effective_to = plc_effective_to p,
      plist_pricing_rules = Some (plc_pricing_rules p), plist_created_at = now e\<rparr>"

definition price_list_key_free :: "sales \<Rightarrow> ident \<Rightarrow> string \<Rightarrow> int \<Rightarrow> bool" where
  "price_list_key_free s org code version \<longleftrightarrow>
     list_all (\<lambda>p. \<not> (plist_organization_id p = org \<and> plist_code p = code \<and> plist_version p = version)) (price_lists s)"

text \<open>
  The unique index on code and version is checked by the \<^verbatim>\<open>flush()\<close> before the guarded commit, so its
  violation is not the intended 409.
\<close>

definition create_price_list ::
  "env \<Rightarrow> mutation_context \<Rightarrow> ident \<Rightarrow> price_list_create \<Rightarrow> sales \<Rightarrow> (sales, price_list_view) outcome" where
  "create_price_list e ctx org p s =
     fetch s (find_project (core s) org (plc_project_id p)) not_found (\<lambda>_.
     demand s (matrix_eligible (core s) org (plc_pricing_rules p)) (App_Error 400 ''INVALID_APPROVAL_MATRIX'') (
     let item = new_price_list e (uuid e 0) org p in
     demand s (price_list_key_free s org (plist_code item) 1) Integrity_Error (
     let audit = audit_entry e (uuid e 1) org ctx ''price_list.created'' ''price_list'' (plist_id item) None
           (Some [(''code'', JStr (plist_code item)), (''version'', JInt 1),
                  (''status'', JStr (record_status_value (plist_status item)))]);
         t = on_core (add_audits [audit]) (s\<lparr>price_lists := price_lists s @ [item]\<rparr>) in
     respond t (price_list_view_of t org item))))"

section \<open>Edits\<close>

text \<open>
  \<^verbatim>\<open>exclude_unset\<close>: a field that is not sent is \<open>None\<close>; a field sent as \<^verbatim>\<open>null\<close> is \<open>Some None\<close>.
\<close>

record price_list_update =
  plu_name :: "string option option"
  plu_effective_from :: "day option option"
  plu_effective_to :: "day option option"
  plu_pricing_rules :: "pricing_rules option option"

definition sent :: "'a option \<Rightarrow> 'a \<Rightarrow> 'a" where
  "sent change current = (case change of None \<Rightarrow> current | Some x \<Rightarrow> x)"

definition updated_price_list :: "price_list_update \<Rightarrow> string \<Rightarrow> day \<Rightarrow> price_list_row \<Rightarrow> price_list_row" where
  "updated_price_list p name from x =
     x\<lparr>plist_name := name, plist_effective_from := from, plist_effective_to := sent (plu_effective_to p) (plist_effective_to x),
       plist_pricing_rules := sent (plu_pricing_rules p) (plist_pricing_rules x)\<rparr>"

definition update_price_list ::
  "env \<Rightarrow> mutation_context \<Rightarrow> ident \<Rightarrow> ident \<Rightarrow> price_list_update \<Rightarrow> sales \<Rightarrow> (sales, price_list_view) outcome" where
  "update_price_list e ctx org pid p s =
     fetch s (find_price_list s org pid) not_found (\<lambda>x.
     demand s (plist_status x = Record_DRAFT) (App_Error 409 ''PRICE_LIST_IMMUTABLE'') (
     demand s (case plu_pricing_rules p of Some (Some r) \<Rightarrow> matrix_eligible (core s) org r | _ \<Rightarrow> True)
       (App_Error 400 ''INVALID_APPROVAL_MATRIX'') (
     fetch s (sent (plu_effective_from p) (Some (plist_effective_from x))) (App_Error 400 ''INVALID_EFFECTIVE_DATES'') (\<lambda>from.
     demand s (opt_all (\<lambda>to. from \<le> to) (sent (plu_effective_to p) (plist_effective_to x)))
       (App_Error 400 ''INVALID_EFFECTIVE_DATES'') (
     fetch s (sent (plu_name p) (Some (plist_name x))) Integrity_Error (\<lambda>name.
     let x' = updated_price_list p name from x;
         audit = audit_entry e (uuid e 0) org ctx ''price_list.updated'' ''price_list'' (plist_id x)
           (Some [(''name'', JStr (plist_name x)), (''effective_from'', JInt (plist_effective_from x))])
           (Some [(''name'', JStr (plist_name x')), (''effective_from'', JInt (plist_effective_from x'))]);
         t = on_core (add_audits [audit]) (put_price_list x' s) in
     respond t (price_list_view_of t org x')))))))"

definition price_list_moves :: "record_status \<Rightarrow> record_status list" where
  "price_list_moves st = (case st of
     Record_DRAFT \<Rightarrow> [Record_ACTIVE, Record_ARCHIVED]
   | Record_ACTIVE \<Rightarrow> [Record_INACTIVE, Record_ARCHIVED]
   | Record_INACTIVE \<Rightarrow> [Record_ACTIVE, Record_ARCHIVED]
   | Record_ARCHIVED \<Rightarrow> [])"

definition change_price_list_status ::
  "env \<Rightarrow> mutation_context \<Rightarrow> ident \<Rightarrow> ident \<Rightarrow> record_status \<Rightarrow> sales \<Rightarrow> (sales, price_list_view) outcome" where
  "change_price_list_status e ctx org pid target s =
     fetch s (find_price_list s org pid) not_found (\<lambda>x.
     demand s (target \<in> set (price_list_moves (plist_status x))) (App_Error 409 ''INVALID_PRICE_LIST_TRANSITION'') (
     let x' = x\<lparr>plist_status := target\<rparr>;
         audit = audit_entry e (uuid e 0) org ctx ''price_list.status.changed'' ''price_list'' (plist_id x)
           (Some [(''status'', JStr (record_status_value (plist_status x)))])
           (Some [(''status'', JStr (record_status_value target))]);
         t = on_core (add_audits [audit]) (put_price_list x' s) in
     respond t (price_list_view_of t org x')))"

definition delete_price_list ::
  "env \<Rightarrow> mutation_context \<Rightarrow> ident \<Rightarrow> ident \<Rightarrow> sales \<Rightarrow> (sales, unit) outcome" where
  "delete_price_list e ctx org pid s =
     fetch s (find_price_list s org pid) not_found (\<lambda>x.
     demand s (plist_status x = Record_DRAFT) (App_Error 409 ''PRICE_LIST_NOT_DELETABLE'') (
     demand s (list_all (\<lambda>c. \<not> (sheet_organization_id c = org \<and> sheet_price_list_id c = plist_id x)) (cost_sheets s))
       (App_Error 409 ''PRICE_LIST_IN_USE'') (
     let audit = audit_entry e (uuid e 0) org ctx ''price_list.deleted'' ''price_list'' (plist_id x)
           (Some [(''code'', JStr (plist_code x)), (''version'', JInt (plist_version x))]) None in
     Return (on_core (add_audits [audit]) (s\<lparr>price_lists := filter (\<lambda>y. plist_id y \<noteq> plist_id x) (price_lists s)\<rparr>)) ())))"

end
