(* ===== verification/Quotations.thy ===== *)
theory Quotations
  imports Price_Lists
begin

text \<open>
  Quotations (\<^verbatim>\<open>services/quotations.py\<close>): made from an approved cost sheet, revised into new versions of the
  same number, moved through their states; the views and the statistics.
\<close>

section \<open>Views\<close>

record quotation_item_view =
  qiv_id :: ident
  qiv_sequence :: int
  qiv_category :: "string option"
  qiv_description :: string
  qiv_quantity :: decimal
  qiv_unit_price :: decimal
  qiv_discount_amount :: decimal
  qiv_tax_amount :: decimal
  qiv_total :: decimal

record quotation_history_item =
  qh_id :: ident
  qh_version :: int
  qh_status :: quotation_status
  qh_total :: decimal
  qh_valid_until :: day
  qh_created_at :: timestamp

record quotation_view =
  qv_id :: ident
  qv_lead_id :: "ident option"
  qv_lead_name :: "string option"
  qv_customer_id :: "ident option"
  qv_customer_name :: "string option"
  qv_project_id :: ident
  qv_project_name :: string
  qv_unit_id :: "ident option"
  qv_unit_number :: "string option"
  qv_cost_sheet_id :: "ident option"
  qv_parent_quotation_id :: "ident option"
  qv_created_by_user_id :: ident
  qv_created_by_name :: string
  qv_quotation_number :: string
  qv_version :: int
  qv_status :: quotation_status
  qv_currency :: string
  qv_subtotal :: decimal
  qv_discount_amount :: decimal
  qv_tax_amount :: decimal
  qv_total :: decimal
  qv_final_agreed_value :: "decimal option"
  qv_booking_amount :: "decimal option"
  qv_pricing_snapshot :: "json option"
  qv_valid_until :: day
  qv_issued_at :: "timestamp option"
  qv_items :: "quotation_item_view list"
  qv_history :: "quotation_history_item list"
  qv_created_at :: timestamp
  qv_updated_at :: timestamp

definition quotation_item_view_of :: "quotation_item_row \<Rightarrow> quotation_item_view" where
  "quotation_item_view_of i = \<lparr>qiv_id = qi_id i, qiv_sequence = qi_sequence i, qiv_category = qi_category i,
     qiv_description = qi_description i, qiv_quantity = qi_quantity i, qiv_unit_price = qi_unit_price i,
     qiv_discount_amount = qi_discount_amount i, qiv_tax_amount = qi_tax_amount i, qiv_total = qi_total i\<rparr>"

definition history_item :: "quotation_row \<Rightarrow> quotation_history_item" where
  "history_item q = \<lparr>qh_id = quote_id q, qh_version = quote_version q, qh_status = quote_status q,
     qh_total = quote_total q, qh_valid_until = quote_valid_until q, qh_created_at = quote_created_at q\<rparr>"

definition versions_of :: "sales \<Rightarrow> ident \<Rightarrow> string \<Rightarrow> quotation_row list" where
  "versions_of s org n = filter (\<lambda>q. quote_organization_id q = org \<and> quote_quotation_number q = n) (quotations (core s))"

definition quotation_view_of :: "sales \<Rightarrow> ident \<Rightarrow> quotation_row \<Rightarrow> app_error + quotation_view" where
  "quotation_view_of s org q =
     need_given (quote_lead_id q) (find_lead (core s) org) not_found (\<lambda>lead.
     need_given (quote_customer_id q) (find_customer (core s) org) not_found (\<lambda>customer.
     need (find_project (core s) org (quote_project_id q)) not_found (\<lambda>project.
     need_given (quote_unit_id q) (find_unit (core s) org) not_found (\<lambda>u.
     need (find_user (core s) org (quote_created_by_user_id q)) not_found (\<lambda>creator.
     Inr \<lparr>qv_id = quote_id q, qv_lead_id = quote_lead_id q, qv_lead_name = map_option lead_full_name lead,
       qv_customer_id = quote_customer_id q, qv_customer_name = map_option cust_full_name customer,
       qv_project_id = project_id project, qv_project_name = project_name project, qv_unit_id = map_option unit_id u,
       qv_unit_number = map_option unit_unit_number u, qv_cost_sheet_id = quote_cost_sheet_id q,
       qv_parent_quotation_id = quote_parent_quotation_id q, qv_created_by_user_id = user_id creator,
       qv_created_by_name = user_full_name creator, qv_quotation_number = quote_quotation_number q,
       qv_version = quote_version q, qv_status = quote_status q, qv_currency = quote_currency q,
       qv_subtotal = quote_subtotal q, qv_discount_amount = quote_discount_amount q, qv_tax_amount = quote_tax_amount q,
       qv_total = quote_total q, qv_final_agreed_value = quote_final_agreed_value q,
       qv_booking_amount = quote_booking_amount q, qv_pricing_snapshot = quote_pricing_snapshot q,
       qv_valid_until = quote_valid_until q, qv_issued_at = quote_issued_at q,
       qv_items = map quotation_item_view_of (sort_key qi_sequence (filter (\<lambda>i. qi_organization_id i = org \<and>
         qi_quotation_id i = quote_id q) (quotation_items s))),
       qv_history = map history_item (order_desc quote_version (versions_of s org (quote_quotation_number q))),
       qv_created_at = quote_created_at q, qv_updated_at = quote_updated_at q\<rparr>)))))"

definition get_quotation :: "sales \<Rightarrow> ident \<Rightarrow> ident \<Rightarrow> app_error + quotation_view" where
  "get_quotation s org qid = need (find_quotation (core s) org qid) not_found (quotation_view_of s org)"

definition quotation_matches :: "sales \<Rightarrow> string \<Rightarrow> quotation_row \<Rightarrow> bool" where
  "quotation_matches s pattern q \<longleftrightarrow> ilike (quote_quotation_number q) pattern \<or>
     list_ex (\<lambda>c. cust_organization_id c = quote_organization_id q \<and> Some (cust_id c) = quote_customer_id q \<and>
       ilike (cust_full_name c) pattern) (customers (core s)) \<or>
     list_ex (\<lambda>u. unit_organization_id u = quote_organization_id q \<and> Some (unit_id u) = quote_unit_id q \<and>
       ilike (unit_unit_number u) pattern) (units (core s))"

definition list_quotations ::
  "sales \<Rightarrow> ident \<Rightarrow> string option \<Rightarrow> quotation_status option \<Rightarrow> ident option \<Rightarrow> ident option \<Rightarrow> nat \<Rightarrow> nat \<Rightarrow>
   app_error + quotation_view page" where
  "list_quotations s org q status customer unit' page page_size =
     (let rows = filter (\<lambda>x. quote_organization_id x = org \<and> opt_all (\<lambda>y. quote_status x = y) status \<and>
            opt_all (\<lambda>y. quote_customer_id x = Some y) (given customer) \<and>
            opt_all (\<lambda>y. quote_unit_id x = Some y) (given unit') \<and>
            opt_all (\<lambda>y. quotation_matches s (search_pattern y) x) (given q)) (quotations (core s)) in
      step (collect (quotation_view_of s org) (page_of page page_size (order_desc quote_created_at rows))) (\<lambda>vs.
      Inr (paged page page_size (length rows) vs)))"

section \<open>Numbers\<close>

text \<open>The proleptic Gregorian year and month of a day, and \<^verbatim>\<open>f"QT-{date.today():%Y%m}-..."\<close>.\<close>

definition year_month :: "day \<Rightarrow> int \<times> int" where
  "year_month d =
     (let z = d + 719468; era = z div 146097; doe = z mod 146097;
          yoe = (doe - doe div 1460 + doe div 36524 - doe div 146096) div 365;
          doy = doe - (365 * yoe + yoe div 4 - yoe div 100);
          mp = (5 * doy + 2) div 153
      in (yoe + era * 400 + (if 10 \<le> mp then 1 else 0), if mp < 10 then mp + 3 else mp - 9))"

definition quotation_number :: "env \<Rightarrow> ident \<Rightarrow> string" where
  "quotation_number e draw =
     (let (y, m) = year_month (today e) in
      ''QT-'' @ nat_str (nat y) @ (if m < 10 then ''0'' else []) @ nat_str (nat m) @ ''-'' @
      upper (take 10 (filter (\<lambda>c. c \<noteq> CHR ''-'') draw)))"

section \<open>Making a quotation\<close>

definition new_quotation ::
  "env \<Rightarrow> ident \<Rightarrow> ident \<Rightarrow> mutation_context \<Rightarrow> cost_sheet_row \<Rightarrow> unit_row \<Rightarrow> string \<Rightarrow> int \<Rightarrow> day \<Rightarrow> ident option \<Rightarrow>
   quotation_row" where
  "new_quotation e i org ctx c u number version valid parent =
     \<lparr>quote_id = i, quote_organization_id = org, quote_lead_id = sheet_lead_id c,
      quote_customer_id = Some (sheet_customer_id c), quote_project_id = unit_project_id u,
      quote_unit_id = Some (unit_id u), quote_cost_sheet_id = Some (sheet_id c), quote_parent_quotation_id = parent,
      quote_created_by_user_id = actor_user_id ctx, quote_quotation_number = number, quote_version = version,
      quote_status = Quotation_DRAFT, quote_currency = sheet_currency c, quote_subtotal = sheet_gross_value c,
      quote_discount_amount = sheet_discount_amount c, quote_tax_amount = sheet_tax_amount c,
      quote_total = sheet_final_agreed_value c, quote_final_agreed_value = Some (sheet_final_agreed_value c),
      quote_booking_amount = Some (sheet_booking_amount c),
      quote_pricing_snapshot = Some (snapshot_json (sheet_pricing_snapshot c)), quote_valid_until = valid,
      quote_issued_at = None, quote_created_at = now e, quote_updated_at = now e\<rparr>"

definition quotation_item_of :: "env \<Rightarrow> ident \<Rightarrow> ident \<Rightarrow> ident \<Rightarrow> ident \<Rightarrow> cost_sheet_item_row \<Rightarrow> quotation_item_row" where
  "quotation_item_of e i org qid uid x =
     (let c = csi_category x in
      \<lparr>qi_id = i, qi_organization_id = org, qi_quotation_id = qid,
       qi_unit_id = (if c = ''BASE_PRICE'' then Some uid else None), qi_sequence = csi_sequence x, qi_category = Some c,
       qi_description = csi_label x, qi_quantity = csi_quantity x,
       qi_unit_price = (if c = ''DISCOUNT'' \<or> c = ''TAX'' then 0 else csi_rate x),
       qi_discount_amount = (if c = ''DISCOUNT'' then - csi_amount x else 0),
       qi_tax_amount = (if c = ''TAX'' then csi_amount x else 0),
       qi_total = (if c = ''DISCOUNT'' then 0 else csi_amount x), qi_created_at = now e\<rparr>)"

definition quotation_items_of ::
  "env \<Rightarrow> nat \<Rightarrow> ident \<Rightarrow> ident \<Rightarrow> ident \<Rightarrow> cost_sheet_item_row list \<Rightarrow> quotation_item_row list" where
  "quotation_items_of e n org qid uid xs = map (\<lambda>(k, x). quotation_item_of e (uuid e (n + k)) org qid uid x) (enumerate 0 xs)"

text \<open>
  The \<^verbatim>\<open>CHECK\<close> constraint of \<^verbatim>\<open>quotation_items\<close>: a line with a negative rate or amount, such as a unit
  adjustment that lowers the price, cannot be written.
\<close>

definition item_amounts_ok :: "quotation_item_row \<Rightarrow> bool" where
  "item_amounts_ok i \<longleftrightarrow> 0 < qi_quantity i \<and> 0 \<le> qi_unit_price i \<and> 0 \<le> qi_total i"

definition version_free :: "sales \<Rightarrow> ident \<Rightarrow> string \<Rightarrow> int \<Rightarrow> bool" where
  "version_free s org n v \<longleftrightarrow> list_all (\<lambda>q. quote_version q \<noteq> v) (versions_of s org n)"

definition quotation_totals_ok :: "quotation_row \<Rightarrow> bool" where
  "quotation_totals_ok q \<longleftrightarrow> 0 \<le> quote_subtotal q \<and> 0 \<le> quote_total q"

text \<open>
  \<^verbatim>\<open>_create_quotation_record\<close>: the quotation is flushed at once; its items and the state of the cost sheet
  are written by the commit of the caller, which answers a constraint violation with the given error.
\<close>

definition create_quotation_record ::
  "env \<Rightarrow> nat \<Rightarrow> mutation_context \<Rightarrow> ident \<Rightarrow> cost_sheet_row \<Rightarrow> string \<Rightarrow> int \<Rightarrow> day \<Rightarrow> ident option \<Rightarrow> app_error \<Rightarrow> sales \<Rightarrow>
   app_error + sales \<times> quotation_row" where
  "create_quotation_record e n ctx org c number version valid parent conflict s =
     need (find_unit (core s) org (sheet_unit_id c)) not_found (\<lambda>u.
     let q = new_quotation e (uuid e n) org ctx c u number version valid parent;
         is = quotation_items_of e (n + 1) org (quote_id q) (unit_id u) (sheet_items s org (sheet_id c)) in
     require (version_free s org number version \<and> quotation_totals_ok q) Integrity_Error (
     require (list_all item_amounts_ok is) conflict (
     Inr (put_sheet (c\<lparr>sheet_status := CostSheet_CONVERTED\<rparr>)
            (on_core (\<lambda>d. d\<lparr>quotations := quotations d @ [q]\<rparr>) (s\<lparr>quotation_items := quotation_items s @ is\<rparr>)), q))))"

definition create_quotation ::
  "env \<Rightarrow> mutation_context \<Rightarrow> ident \<Rightarrow> ident \<Rightarrow> day \<Rightarrow> sales \<Rightarrow> (sales, quotation_view) outcome" where
  "create_quotation e ctx org sid valid s =
     fetch s (find_sheet s org sid) not_found (\<lambda>c.
     demand s (sheet_status c = CostSheet_APPROVED) (App_Error 409 ''COST_SHEET_NOT_APPROVED'') (
     demand s (today e \<le> valid) (App_Error 400 ''INVALID_VALIDITY'') (
     let number = quotation_number e (uuid e 0) in
     attempt s (create_quotation_record e 3 ctx org c number 1 valid None (App_Error 409 ''DUPLICATE_QUOTATION'') s)
       (\<lambda>(s1, q).
     let audit = audit_entry e (uuid e 1) org ctx ''quotation.created'' ''quotation'' (quote_id q) None
           (Some [(''quotation_number'', JStr (quote_quotation_number q)), (''version'', JInt 1)]);
         msg = \<lparr>msg_event = Event_QUOTATION_CREATED, msg_title = ''Quotation created'',
           msg_body = [JStr (quote_quotation_number q), JStr [CHR '' '', CHR 0xC2, CHR 0xB7, CHR '' ''],
             JStr ''Version '', JInt (quote_version q)],
           msg_entity_type = ''quotation'', msg_entity_id = quote_id q, msg_action_url = ''/quotations/'' @ quote_id q,
           msg_data = Some [(''quotation_number'', JStr (quote_quotation_number q)), (''version'', JInt (quote_version q))]\<rparr>;
         t = on_core (\<lambda>d. queue_in_app e 2 org [quote_created_by_user_id q] msg None None (add_audits [audit] d)) s1 in
     respond t (quotation_view_of t org q)))))"

text \<open>The bulk \<^verbatim>\<open>UPDATE\<close> that retires the versions before a new one.\<close>

definition supersede :: "env \<Rightarrow> ident \<Rightarrow> string \<Rightarrow> database \<Rightarrow> database" where
  "supersede e org number d = d\<lparr>quotations := update_where (\<lambda>q. quote_organization_id q = org \<and>
     quote_quotation_number q = number \<and> quote_status q \<notin> set [Quotation_ACCEPTED, Quotation_REJECTED])
     (\<lambda>q. q\<lparr>quote_status := Quotation_SUPERSEDED, quote_updated_at := now e\<rparr>) (quotations d)\<rparr>"

definition latest_version :: "sales \<Rightarrow> ident \<Rightarrow> string \<Rightarrow> int" where
  "latest_version s org number = Max (set (map quote_version (versions_of s org number)))"

definition create_quotation_version ::
  "env \<Rightarrow> mutation_context \<Rightarrow> ident \<Rightarrow> ident \<Rightarrow> ident \<Rightarrow> day \<Rightarrow> sales \<Rightarrow> (sales, quotation_view) outcome" where
  "create_quotation_version e ctx org qid sid valid s =
     fetch s (find_quotation (core s) org qid) not_found (\<lambda>source.
     demand s (quote_status source \<noteq> Quotation_ACCEPTED) (App_Error 409 ''ACCEPTED_QUOTATION_IMMUTABLE'') (
     fetch s (find_sheet s org sid) not_found (\<lambda>c.
     demand s (sheet_status c = CostSheet_APPROVED) (App_Error 409 ''COST_SHEET_NOT_APPROVED'') (
     demand s (Some (sheet_customer_id c) = quote_customer_id source \<and> Some (sheet_unit_id c) = quote_unit_id source)
       (App_Error 400 ''REVISION_SCOPE_MISMATCH'') (
     let number = quote_quotation_number source in
     demand s (versions_of s org number \<noteq> []) (App_Error 409 ''QUOTATION_VERSION_CONFLICT'') (
     attempt s (create_quotation_record e 1 ctx org c number (latest_version s org number + 1) valid (Some (quote_id source))
         (App_Error 409 ''VERSION_CONFLICT'') (on_core (supersede e org number) s)) (\<lambda>(s1, q).
     let audit = audit_entry e (uuid e 0) org ctx ''quotation.version.created'' ''quotation'' (quote_id q)
           (Some [(''parent_quotation_id'', JStr (quote_id source))])
           (Some [(''version'', JInt (quote_version q)), (''cost_sheet_id'', JStr (sheet_id c))]);
         t = on_core (add_audits [audit]) s1 in
     respond t (quotation_view_of t org q))))))))"

section \<open>Status\<close>

definition quotation_moves :: "quotation_status \<Rightarrow> quotation_status list" where
  "quotation_moves st = (case st of
     Quotation_DRAFT \<Rightarrow> [Quotation_SENT, Quotation_EXPIRED]
   | Quotation_SENT \<Rightarrow> [Quotation_ACCEPTED, Quotation_REJECTED, Quotation_EXPIRED]
   | _ \<Rightarrow> [])"

definition moved_quotation :: "env \<Rightarrow> quotation_status \<Rightarrow> quotation_row \<Rightarrow> quotation_row" where
  "moved_quotation e target q =
     q\<lparr>quote_status := target, quote_issued_at := (if target = Quotation_SENT then Some (now e) else quote_issued_at q),
       quote_updated_at := now e\<rparr>"

definition change_quotation_status ::
  "env \<Rightarrow> mutation_context \<Rightarrow> ident \<Rightarrow> ident \<Rightarrow> quotation_status \<Rightarrow> sales \<Rightarrow> (sales, quotation_view) outcome" where
  "change_quotation_status e ctx org qid target s =
     fetch s (find_quotation (core s) org qid) not_found (\<lambda>q.
     demand s (target \<in> set (quotation_moves (quote_status q))) (App_Error 409 ''INVALID_QUOTATION_TRANSITION'') (
     let q' = moved_quotation e target q;
         previous = quotation_status_value (quote_status q);
         audit = audit_entry e (uuid e 0) org ctx ''quotation.status.changed'' ''quotation'' (quote_id q)
           (Some [(''status'', JStr previous)]) (Some [(''status'', JStr (quotation_status_value target))]);
         msg = \<lparr>msg_event = Event_QUOTATION_STATUS_CHANGED, msg_title = ''Quotation status updated'',
           msg_body = [JStr (quote_quotation_number q), JStr '': '', JStr previous,
             JStr [CHR '' '', CHR 0xE2, CHR 0x86, CHR 0x92, CHR '' ''], JStr (quotation_status_value target)],
           msg_entity_type = ''quotation'', msg_entity_id = quote_id q, msg_action_url = ''/quotations/'' @ quote_id q,
           msg_data = Some [(''previous_status'', JStr previous), (''status'', JStr (quotation_status_value target))]\<rparr>;
         t = on_core (\<lambda>d. queue_in_app e 1 org [quote_created_by_user_id q] msg None None
               (add_audits [audit] (put_quotation q' d))) s in
     respond t (quotation_view_of t org q')))"

section \<open>Statistics\<close>

record quotation_stats =
  qs_total :: nat
  qs_drafts :: nat
  qs_sent :: nat
  qs_accepted :: nat
  qs_pending_discount_approvals :: nat

definition quotation_count :: "sales \<Rightarrow> ident \<Rightarrow> quotation_status \<Rightarrow> nat" where
  "quotation_count s org st =
     count_rows (\<lambda>q. quote_organization_id q = org \<and> quote_status q = st) (quotations (core s))"

definition quotation_stats_of :: "sales \<Rightarrow> ident \<Rightarrow> quotation_stats" where
  "quotation_stats_of s org =
     \<lparr>qs_total = count_rows (\<lambda>q. quote_organization_id q = org) (quotations (core s)),
      qs_drafts = quotation_count s org Quotation_DRAFT, qs_sent = quotation_count s org Quotation_SENT,
      qs_accepted = quotation_count s org Quotation_ACCEPTED,
      qs_pending_discount_approvals = count_rows (\<lambda>a. disc_organization_id a = org \<and> disc_status a = Approval_PENDING)
        (discount_approvals s)\<rparr>"

end
