(* ===== verification/Quotation_Safety.thy ===== *)
theory Quotation_Safety
  imports Quotations Cost_Sheet_Handlers
begin

text \<open>
  The operations of \<^verbatim>\<open>services/quotations.py\<close> as the steps of one system, and what every step keeps:
  a discount beyond the self-approval limit reaches an approved or converted cost sheet only through the
  approval of another user, and the versions of a quotation number stay distinct.

  The versions of a quotation: their keys stay distinct in every step, and a new version comes after all
  the others.
\<close>

section \<open>Writes\<close>

lemma on_core_sel [simp]:
  "core (on_core f s) = f (core s)" "price_lists (on_core f s) = price_lists s" "cost_sheets (on_core f s) = cost_sheets s"
  "cost_sheet_items (on_core f s) = cost_sheet_items s" "discount_approvals (on_core f s) = discount_approvals s"
  "quotation_items (on_core f s) = quotation_items s"
  by (simp_all add: on_core_def)

lemma put_sheet_sel [simp]:
  "core (put_sheet c s) = core s" "cost_sheets (put_sheet c s) = put_row sheet_id c (cost_sheets s)"
  "discount_approvals (put_sheet c s) = discount_approvals s" "price_lists (put_sheet c s) = price_lists s"
  by (simp_all add: put_sheet_def)

lemma put_discount_sel [simp]:
  "core (put_discount a s) = core s" "cost_sheets (put_discount a s) = cost_sheets s"
  "discount_approvals (put_discount a s) = put_row disc_id a (discount_approvals s)"
  by (simp_all add: put_discount_def)

lemma store_sheet_sel [simp]:
  "core (store_sheet c is s) = core s" "cost_sheets (store_sheet c is s) = cost_sheets s @ [c]"
  "discount_approvals (store_sheet c is s) = discount_approvals s"
  by (simp_all add: store_sheet_def)

lemma request_discount_sel [simp]:
  "cost_sheets (request_discount e n org ctx c l notes s) = cost_sheets s"
  "discount_approvals (request_discount e n org ctx c l notes s) =
     discount_approvals s @ [new_discount e (uuid e n) org ctx c l notes]"
  "quotations (core (request_discount e n org ctx c l notes s)) = quotations (core s)"
  by (simp_all add: request_discount_def Let_def queue_in_app_def add_audits_def)

lemma put_price_list_sel [simp]:
  "core (put_price_list p s) = core s" "cost_sheets (put_price_list p s) = cost_sheets s"
  "discount_approvals (put_price_list p s) = discount_approvals s"
  by (simp_all add: put_price_list_def)

lemma core_log_sel [simp]:
  "quotations (add_audits as d) = quotations d" "quotations (queue_in_app e k org rs m dd sch d) = quotations d"
  by (simp_all add: add_audits_def queue_in_app_def)

lemma new_discount_sel [simp]:
  "disc_id (new_discount e i org ctx c l notes) = i" "disc_cost_sheet_id (new_discount e i org ctx c l notes) = sheet_id c"
  "disc_status (new_discount e i org ctx c l notes) = Approval_PENDING"
  by (simp_all add: new_discount_def Let_def)

lemma new_sheet_sel [simp]:
  "sheet_id (new_sheet e i org ctx v) = i" "sheet_status (new_sheet e i org ctx v) = cs_status v"
  "sheet_pricing_snapshot (new_sheet e i org ctx v) = cs_pricing_snapshot v"
  "sheet_discount_amount (new_sheet e i org ctx v) = cs_discount_amount v"
  "sheet_organization_id (new_sheet e i org ctx v) = org"
  by (simp_all add: new_sheet_def)

section \<open>Steps\<close>

definition fresh_sales :: "env \<Rightarrow> sales \<Rightarrow> bool" where
  "fresh_sales e s \<longleftrightarrow> inj (uuid e) \<and> (\<forall>n. uuid e n \<notin> set (map sheet_id (cost_sheets s) @ map disc_id (discount_approvals s) @
     map quote_id (quotations (core s))))"

inductive sales_step :: "sales \<Rightarrow> sales \<Rightarrow> bool" where
  new_sheet: "fresh_sales e s \<Longrightarrow> sales_step s (committed (create_cost_sheet e ctx org p s))"
| decision: "sales_step s (committed (decide_discount e ctx org sid d s))"
| new_quotation: "fresh_sales e s \<Longrightarrow> sales_step s (committed (create_quotation e ctx org sid valid s))"
| new_version: "fresh_sales e s \<Longrightarrow> sales_step s (committed (create_quotation_version e ctx org qid sid valid s))"
| move: "sales_step s (committed (change_quotation_status e ctx org qid target s))"
| new_list: "fresh_sales e s \<Longrightarrow> sales_step s (committed (create_price_list e ctx org pl s))"
| edit_list: "sales_step s (committed (update_price_list e ctx org pid u s))"
| move_list: "sales_step s (committed (change_price_list_status e ctx org pid st s))"
| drop_list: "sales_step s (committed (delete_price_list e ctx org pid s))"

locale sales_invariant =
  fixes inv :: "sales \<Rightarrow> bool"
  assumes kept: "sales_step s t \<Longrightarrow> inv s \<Longrightarrow> inv t"
begin

lemma always: "sales_step\<^sup>*\<^sup>* s t \<Longrightarrow> inv s \<Longrightarrow> inv t"
  by (induction rule: rtranclp_induct) (auto intro: kept)

end

section \<open>Discounts\<close>

definition approves :: "cost_sheet_row \<Rightarrow> discount_approval_row \<Rightarrow> bool" where
  "approves c a \<longleftrightarrow> disc_organization_id a = sheet_organization_id c \<and> disc_cost_sheet_id a = sheet_id c \<and>
     disc_status a = Approval_APPROVED \<and> disc_final_approved_value a = Some (sheet_final_agreed_value c) \<and>
     (case disc_approver_user_id a of None \<Rightarrow> False | Some u \<Rightarrow> u \<noteq> disc_requested_by_user_id a)"

definition beyond_limit :: "cost_sheet_row \<Rightarrow> bool" where
  "beyond_limit c \<longleftrightarrow> 0 < sheet_discount_amount c \<and>
     snap_self_approval_limit_percent (sheet_pricing_snapshot c) < snap_discount_percent (sheet_pricing_snapshot c)"

definition settled :: "cost_sheet_row \<Rightarrow> bool" where
  "settled c \<longleftrightarrow> sheet_status c = CostSheet_APPROVED \<or> sheet_status c = CostSheet_CONVERTED"

definition discounts_ok :: "sales \<Rightarrow> bool" where
  "discounts_ok s \<longleftrightarrow> distinct (map sheet_id (cost_sheets s)) \<and> distinct (map disc_id (discount_approvals s)) \<and>
     list_all (\<lambda>a. disc_cost_sheet_id a \<in> set (map sheet_id (cost_sheets s))) (discount_approvals s) \<and>
     list_all (\<lambda>c. beyond_limit c \<and> settled c \<longrightarrow> list_ex (approves c) (discount_approvals s)) (cost_sheets s)"

lemma discounts_ok_frame:
  "cost_sheets t = cost_sheets s \<Longrightarrow> discount_approvals t = discount_approvals s \<Longrightarrow> discounts_ok t = discounts_ok s"
  by (simp add: discounts_ok_def)

lemma discounts_okD:
  assumes "discounts_ok s"
  shows "distinct (map sheet_id (cost_sheets s))" "distinct (map disc_id (discount_approvals s))"
    "a \<in> set (discount_approvals s) \<Longrightarrow> disc_cost_sheet_id a \<in> sheet_id ` set (cost_sheets s)"
    "c \<in> set (cost_sheets s) \<Longrightarrow> beyond_limit c \<Longrightarrow> settled c \<Longrightarrow> \<exists>a \<in> set (discount_approvals s). approves c a"
  using assms by (auto simp: discounts_ok_def list_all_iff list_ex_iff)

lemma discounts_okI:
  assumes "distinct (map sheet_id (cost_sheets s))" "distinct (map disc_id (discount_approvals s))"
    "\<And>a. a \<in> set (discount_approvals s) \<Longrightarrow> disc_cost_sheet_id a \<in> sheet_id ` set (cost_sheets s)"
    "\<And>c. c \<in> set (cost_sheets s) \<Longrightarrow> beyond_limit c \<Longrightarrow> settled c \<Longrightarrow> \<exists>a \<in> set (discount_approvals s). approves c a"
  shows "discounts_ok s"
  using assms by (auto simp: discounts_ok_def list_all_iff list_ex_iff)

lemmas discounts_intros = outcome_intros [where P = discounts_ok]

text \<open>The three writes: a new sheet, a sheet converted, and a decision.\<close>

lemma put_sheet_discounts:
  assumes ok: "discounts_ok s" and c: "c \<in> set (cost_sheets s)"
    and same: "sheet_id c' = sheet_id c" "cost_sheets t = put_row sheet_id c' (cost_sheets s)" "discount_approvals t = discount_approvals s"
    and ap: "beyond_limit c' \<Longrightarrow> settled c' \<Longrightarrow> \<exists>a \<in> set (discount_approvals s). approves c' a"
  shows "discounts_ok t"
proof (rule discounts_okI)
  have ids: "map sheet_id (cost_sheets t) = map sheet_id (cost_sheets s)" by (simp add: same)
  then show "distinct (map sheet_id (cost_sheets t))" using discounts_okD(1) [OF ok] by simp
  show "distinct (map disc_id (discount_approvals t))" using discounts_okD(2) [OF ok] by (simp add: same)
  fix a assume "a \<in> set (discount_approvals t)"
  then have "disc_cost_sheet_id a \<in> set (map sheet_id (cost_sheets s))" using discounts_okD(3) [OF ok] by (simp add: same)
  then show "disc_cost_sheet_id a \<in> sheet_id ` set (cost_sheets t)" by (simp add: ids [symmetric])
next
  fix x assume "x \<in> set (cost_sheets t)" "beyond_limit x" "settled x"
  then show "\<exists>a \<in> set (discount_approvals t). approves x a"
    using ap discounts_okD(4) [OF ok] by (auto simp: same set_put_row split: if_splits)
qed

lemma create_cost_sheet_discounts:
  assumes "discounts_ok s" "fresh_sales e s"
  shows "discounts_ok (committed (create_cost_sheet e ctx org p s))"
proof -
  have free: "uuid e n \<notin> sheet_id ` set (cost_sheets s)" "uuid e n \<notin> disc_id ` set (discount_approvals s)" for n
    using assms(2) by (auto simp: fresh_sales_def)
  have new: "discounts_ok t"
    if v: "calculate_cost_sheet e ctx org p s = Inr v"
      and t: "cost_sheets t = cost_sheets s @ [new_sheet e (uuid e 0) org ctx v]"
      and a: "discount_approvals t = discount_approvals s \<or>
        (\<exists>l. discount_approvals t = discount_approvals s @ [new_discount e (uuid e n) org ctx (new_sheet e (uuid e 0) org ctx v) l q])"
    for t v n q
  proof (rule discounts_okI)
    show "distinct (map sheet_id (cost_sheets t))" using discounts_okD(1) [OF assms(1)] free(1) by (simp add: t)
    show "distinct (map disc_id (discount_approvals t))" using discounts_okD(2) [OF assms(1)] free(2) a by auto
    fix x assume "x \<in> set (discount_approvals t)"
    then show "disc_cost_sheet_id x \<in> sheet_id ` set (cost_sheets t)" using discounts_okD(3) [OF assms(1)] a by (auto simp: t)
  next
    fix c assume c: "c \<in> set (cost_sheets t)" "beyond_limit c" "settled c"
    have "\<not> (beyond_limit (new_sheet e (uuid e 0) org ctx v) \<and> settled (new_sheet e (uuid e 0) org ctx v))"
      using v by (rule calculate_returns) (auto simp: beyond_limit_def settled_def approval_needed_def)
    with c have "c \<in> set (cost_sheets s)" by (auto simp: t)
    from discounts_okD(4) [OF assms(1) this c(2,3)] show "\<exists>a \<in> set (discount_approvals t). approves c a"
      using a by auto
  qed
  show ?thesis unfolding create_cost_sheet_def Let_def
    by (intro discounts_intros assms) (rule new, assumption, auto simp: outcome_simps split: if_splits)
qed

lemma sheet_found: "find_sheet s org sid = Some c \<Longrightarrow> c \<in> set (cost_sheets s) \<and> sheet_organization_id c = org \<and> sheet_id c = sid"
  by (rule entityD)

lemma decide_discount_discounts:
  assumes "discounts_ok s"
  shows "discounts_ok (committed (decide_discount e ctx org sid p s))"
proof -
  have new: "discounts_ok t"
    if c: "find_sheet s org sid = Some c" and a: "approval_of s org (sheet_id c) = Some a" "disc_status a = Approval_PENDING"
      "disc_requested_by_user_id a \<noteq> actor_user_id ctx"
      and t: "cost_sheets t = put_row sheet_id (decided_sheet p c) (cost_sheets s)"
        "discount_approvals t = put_row disc_id (decided_discount e ctx p c a) (discount_approvals s)" for t c a
  proof -
    let ?a = "decided_discount e ctx p c a" and ?c = "decided_sheet p c"
    let ?s = "s\<lparr>discount_approvals := discount_approvals t\<rparr>"
    note row = sheet_found [OF c]
    have a_row: "a \<in> set (discount_approvals s)" "disc_organization_id a = org" "disc_cost_sheet_id a = sheet_id c"
      using find_SomeD [OF a(1) [unfolded approval_of_def]] by auto
    have keys: "disc_id ?a = disc_id a" "disc_cost_sheet_id ?a = disc_cost_sheet_id a" by (simp_all add: decided_discount_def)
    have "discounts_ok ?s"
    proof (rule discounts_okI)
      show "distinct (map sheet_id (cost_sheets ?s))" "distinct (map disc_id (discount_approvals ?s))"
        using discounts_okD(1,2) [OF assms] by (simp_all add: t)
      fix x assume "x \<in> set (discount_approvals ?s)"
      then show "disc_cost_sheet_id x \<in> sheet_id ` set (cost_sheets ?s)"
        using discounts_okD(3) [OF assms] a_row keys row by (auto simp: t set_put_row split: if_splits)
    next
      fix d assume "d \<in> set (cost_sheets ?s)" "beyond_limit d" "settled d"
      then obtain x where x: "x \<in> set (discount_approvals s)" "approves d x" using discounts_okD(4) [OF assms] by auto
      then have "x \<noteq> a" using a(2) by (auto simp: approves_def)
      with x(1) a_row(1) have "disc_id x \<noteq> disc_id a" using discounts_okD(2) [OF assms] by (auto simp: distinct_map inj_on_def)
      with x show "\<exists>x \<in> set (discount_approvals ?s). approves d x" by (auto simp: t set_put_row keys)
    qed
    then show "discounts_ok t"
    proof (rule put_sheet_discounts [where c = c and c' = ?c])
      show "\<exists>x \<in> set (discount_approvals ?s). approves ?c x" if "settled ?c"
      proof
        show "?a \<in> set (discount_approvals ?s)" using a_row(1) keys by (auto simp: t set_put_row)
        show "approves ?c ?a" using that a_row row a(3)
          by (auto simp: approves_def decided_discount_def decided_sheet_def settled_def approved_def split: if_splits)
      qed
    qed (use row t in \<open>simp_all add: decided_sheet_def\<close>)
  qed
  show ?thesis unfolding decide_discount_def Let_def
    by (intro discounts_intros assms) (rule new, assumption+, simp_all)
qed

text \<open>A quotation converts an approved sheet.\<close>

lemma record_returns:
  assumes "create_quotation_record e n ctx org c number version valid parent conflict s = Inr (t, q)"
  shows "cost_sheets t = put_row sheet_id (c\<lparr>sheet_status := CostSheet_CONVERTED\<rparr>) (cost_sheets s)"
    and "discount_approvals t = discount_approvals s"
    and "quotations (core t) = quotations (core s) @ [q]"
    and "version_free s org number version"
    and "\<exists>u. find_unit (core s) org (sheet_unit_id c) = Some u \<and>
      q = new_quotation e (uuid e n) org ctx c u number version valid parent"
  using assms unfolding create_quotation_record_def Let_def by (auto simp: outcome_simps)

lemma convert_discounts:
  assumes "discounts_ok s" "find_sheet s org sid = Some c" "sheet_status c = CostSheet_APPROVED"
    "cost_sheets t = put_row sheet_id (c\<lparr>sheet_status := CostSheet_CONVERTED\<rparr>) (cost_sheets s)"
    "discount_approvals t = discount_approvals s"
  shows "discounts_ok t"
proof (rule put_sheet_discounts [OF assms(1) _ _ assms(4,5)])
  show "c \<in> set (cost_sheets s)" using sheet_found [OF assms(2)] by simp
  then show "\<exists>a \<in> set (discount_approvals s). approves (c\<lparr>sheet_status := CostSheet_CONVERTED\<rparr>) a"
    if "beyond_limit (c\<lparr>sheet_status := CostSheet_CONVERTED\<rparr>)"
    using discounts_okD(4) [OF assms(1), of c] that assms(3) by (auto simp: beyond_limit_def settled_def approves_def)
qed simp

lemma supersede_sel: "cost_sheets (on_core (supersede e org n) s) = cost_sheets s"
  "discount_approvals (on_core (supersede e org n) s) = discount_approvals s"
  by simp_all

lemma quotation_steps_discounts:
  assumes "discounts_ok s"
  shows "discounts_ok (committed (create_quotation e ctx org sid valid s))"
    and "discounts_ok (committed (create_quotation_version e ctx org qid sid valid s))"
proof -
  show "discounts_ok (committed (create_quotation e ctx org sid valid s))"
    unfolding create_quotation_def Let_def
    by (intro discounts_intros assms) (rule convert_discounts [OF assms], assumption+, simp_all add: record_returns(1,2))
  show "discounts_ok (committed (create_quotation_version e ctx org qid sid valid s))"
    unfolding create_quotation_version_def Let_def
    by (intro discounts_intros assms) (rule convert_discounts [OF assms], assumption+, simp_all add: record_returns(1,2))
qed

lemma other_steps_discounts:
  assumes "discounts_ok s"
  shows "discounts_ok (committed (change_quotation_status e ctx org qid target s))"
    and "discounts_ok (committed (create_price_list e ctx org pl s))"
    and "discounts_ok (committed (update_price_list e ctx org pid u s))"
    and "discounts_ok (committed (change_price_list_status e ctx org pid st s))"
    and "discounts_ok (committed (delete_price_list e ctx org pid s))"
  unfolding change_quotation_status_def create_price_list_def update_price_list_def change_price_list_status_def
    delete_price_list_def Let_def
  by (intro discounts_intros assms; rule discounts_ok_frame [THEN iffD2, OF _ _ assms]; simp)+

interpretation discounts: sales_invariant discounts_ok
proof
  fix s t assume "sales_step s t" "discounts_ok s"
  then show "discounts_ok t"
    by cases (simp_all add: create_cost_sheet_discounts decide_discount_discounts quotation_steps_discounts other_steps_discounts)
qed

definition version_key :: "quotation_row \<Rightarrow> ident \<times> string \<times> int" where
  "version_key q = (quote_organization_id q, quote_quotation_number q, quote_version q)"

definition versions_ok :: "sales \<Rightarrow> bool" where
  "versions_ok s \<longleftrightarrow> distinct (map quote_id (quotations (core s))) \<and> distinct (map version_key (quotations (core s)))"

lemma versions_ok_frame: "quotations (core t) = quotations (core s) \<Longrightarrow> versions_ok t = versions_ok s"
  by (simp add: versions_ok_def)

lemmas versions_intros = outcome_intros [where P = versions_ok]

lemma put_same_keys:
  assumes "distinct (map id_of rows)" "x \<in> set rows" "id_of r = id_of x" "key r = key x"
  shows "map key (put_row id_of r rows) = map key rows"
  unfolding put_row_def map_map by (rule map_cong) (use assms in \<open>auto simp: distinct_map dest: inj_onD\<close>)

lemma version_free_key: "version_free s org n v \<Longrightarrow> (org, n, v) \<notin> version_key ` set (quotations (core s))"
  by (auto simp: version_free_def versions_of_def version_key_def list_all_iff)

lemma new_quotation_sel [simp]:
  "quote_id (new_quotation e i org ctx c u n v d p) = i" "version_key (new_quotation e i org ctx c u n v d p) = (org, n, v)"
  "quote_organization_id (new_quotation e i org ctx c u n v d p) = org"
  "quote_quotation_number (new_quotation e i org ctx c u n v d p) = n"
  "quote_version (new_quotation e i org ctx c u n v d p) = v" "quote_status (new_quotation e i org ctx c u n v d p) = Quotation_DRAFT"
  "quote_parent_quotation_id (new_quotation e i org ctx c u n v d p) = p"
  "quote_cost_sheet_id (new_quotation e i org ctx c u n v d p) = Some (sheet_id c)"
  "quote_final_agreed_value (new_quotation e i org ctx c u n v d p) = Some (sheet_final_agreed_value c)"
  by (simp_all add: new_quotation_def version_key_def)

lemma add_version:
  assumes "versions_ok s" "fresh_sales e s"
    "create_quotation_record e n ctx org c number version valid parent conflict s = Inr (t', q)"
    "quotations (core t) = quotations (core t')"
  shows "versions_ok t"
proof -
  have free: "uuid e n \<notin> quote_id ` set (quotations (core s))" using assms(2) by (auto simp: fresh_sales_def)
  note r = record_returns(3-5) [OF assms(3)]
  from r(3) obtain u where q: "q = new_quotation e (uuid e n) org ctx c u number version valid parent" by blast
  show ?thesis using assms(1) free version_free_key [OF r(2)] by (simp add: versions_ok_def assms(4) r(1) q)
qed

definition superseded :: "env \<Rightarrow> quotation_row \<Rightarrow> quotation_row" where
  "superseded e q = (if quote_status q \<notin> set [Quotation_ACCEPTED, Quotation_REJECTED]
     then q\<lparr>quote_status := Quotation_SUPERSEDED, quote_updated_at := now e\<rparr> else q)"

lemma superseded_sel [simp]:
  "quote_id (superseded e q) = quote_id q" "version_key (superseded e q) = version_key q"
  "quote_organization_id (superseded e q) = quote_organization_id q" "quote_version (superseded e q) = quote_version q"
  "quote_quotation_number (superseded e q) = quote_quotation_number q"
  by (simp_all add: superseded_def version_key_def)

lemma supersede_rows:
  "quotations (supersede e org n d) =
     map (\<lambda>q. if quote_organization_id q = org \<and> quote_quotation_number q = n then superseded e q else q) (quotations d)"
  by (auto simp: supersede_def update_where_def superseded_def)

lemma filter_map_where:
  "(\<And>x. p x \<Longrightarrow> p (f x)) \<Longrightarrow> filter p (map (\<lambda>x. if p x then f x else x) xs) = map f (filter p xs)"
  by (induction xs) auto

lemma versions_of_supersede:
  "versions_of (on_core (supersede e org n) s) org n = map (superseded e) (versions_of s org n)"
  unfolding versions_of_def on_core_sel supersede_rows by (rule filter_map_where) simp

lemma supersede_versions: "versions_ok (on_core (supersede e org n) s) = versions_ok s"
  by (simp add: versions_ok_def supersede_rows comp_def if_distrib [of quote_id] if_distrib [of version_key] cong: if_cong)

lemma supersede_fresh: "fresh_sales e (on_core (supersede e org n) s) = fresh_sales e s"
  by (simp add: fresh_sales_def supersede_rows image_image if_distrib [of quote_id] cong: if_cong)

lemma quotation_steps_versions:
  assumes "versions_ok s" "fresh_sales e s"
  shows "versions_ok (committed (create_quotation e ctx org sid valid s))"
    and "versions_ok (committed (create_quotation_version e ctx org qid sid valid s))"
    and "versions_ok (committed (create_cost_sheet e ctx org p s))"
  unfolding create_quotation_def create_quotation_version_def create_cost_sheet_def Let_def
  subgoal by (intro versions_intros assms) (hypsubst, rule add_version [OF assms], assumption, simp)
  subgoal by (intro versions_intros assms) (hypsubst, rule add_version, subst supersede_versions, rule assms, subst supersede_fresh,
      rule assms, assumption, simp)
  subgoal by (intro versions_intros assms)
      (rule versions_ok_frame [THEN iffD2, OF _ assms(1)], auto simp: outcome_simps split: if_splits)
  done

lemma other_steps_versions:
  assumes "versions_ok s"
  shows "versions_ok (committed (change_quotation_status e ctx org qid target s))"
    and "versions_ok (committed (create_price_list e ctx org pl s))"
    and "versions_ok (committed (update_price_list e ctx org pid u s))"
    and "versions_ok (committed (change_price_list_status e ctx org pid st s))"
    and "versions_ok (committed (delete_price_list e ctx org pid s))"
    and "versions_ok (committed (decide_discount e ctx org sid dd s))"
proof -
  have move: "versions_ok t" if "find_quotation (core s) org qid = Some q"
    "quotations (core t) = put_row quote_id (moved_quotation e target q) (quotations (core s))" for t q
  proof -
    have "map version_key (quotations (core t)) = map version_key (quotations (core s))"
      unfolding that(2) by (rule put_same_keys [of _ _ q])
        (use assms entityD [OF that(1)] in \<open>simp_all add: versions_ok_def moved_quotation_def version_key_def\<close>)
    then show ?thesis using assms by (simp add: versions_ok_def that(2))
  qed
  show "versions_ok (committed (change_quotation_status e ctx org qid target s))"
    unfolding change_quotation_status_def Let_def
    by (intro versions_intros assms) (rule move, assumption, simp add: put_quotation_def)
qed (unfold create_price_list_def update_price_list_def change_price_list_status_def delete_price_list_def
    decide_discount_def Let_def, (intro versions_intros assms; rule versions_ok_frame [THEN iffD2, OF _ assms]; simp)+)

interpretation versions: sales_invariant versions_ok
proof
  fix s t assume "sales_step s t" "versions_ok s"
  then show "versions_ok t" by cases (simp_all add: quotation_steps_versions other_steps_versions)
qed

lemma latest_version_above: "q \<in> set (versions_of s org n) \<Longrightarrow> quote_version q \<le> latest_version s org n"
  unfolding latest_version_def by (rule Max_ge) simp_all

lemma create_version_returns:
  assumes "create_quotation_version e ctx org qid sid valid s = Return t v"
  obtains source c q where
    "find_quotation (core s) org qid = Some source" "quote_status source \<noteq> Quotation_ACCEPTED"
    "find_sheet s org sid = Some c" "sheet_status c = CostSheet_APPROVED"
    "Some (sheet_customer_id c) = quote_customer_id source" "Some (sheet_unit_id c) = quote_unit_id source"
    "quote_status q = Quotation_DRAFT" "quote_version q = latest_version s org (quote_quotation_number source) + 1"
    "quote_parent_quotation_id q = Some (quote_id source)" "quote_cost_sheet_id q = Some (sheet_id c)"
    "versions_of t org (quote_quotation_number source) =
       map (superseded e) (versions_of s org (quote_quotation_number source)) @ [q]"
    "cost_sheets t = put_row sheet_id (c\<lparr>sheet_status := CostSheet_CONVERTED\<rparr>) (cost_sheets s)"
proof -
  from assms show thesis unfolding create_quotation_version_def Let_def outcome_simps split_paired_Ex prod.case
  proof (elim exE conjE, goal_cases)
    case (1 source c s1 q)
    note r = record_returns [OF 1(8)]
    from r(5) obtain u where q: "q = new_quotation e (uuid e 1) org ctx c u (quote_quotation_number source)
      (latest_version s org (quote_quotation_number source) + 1) valid (Some (quote_id source))" by blast
    have qs: "quotations (core t) = quotations (core (on_core (supersede e org (quote_quotation_number source)) s)) @ [q]"
      using 1 r(3) by auto
    have "versions_of t org (quote_quotation_number source) =
       map (superseded e) (versions_of s org (quote_quotation_number source)) @ [q]"
      unfolding versions_of_supersede [symmetric] by (simp add: versions_of_def qs) (simp add: q)
    then show thesis using 1 r(1) by (intro that [of source c q]) (auto simp: q)
  qed
qed

text \<open>A status change rewrites the one version it names, here the last of its number.\<close>

lemma moved_quotation_sel [simp]:
  "quote_id (moved_quotation e target q) = quote_id q" "quote_version (moved_quotation e target q) = quote_version q"
  "quote_organization_id (moved_quotation e target q) = quote_organization_id q"
  "quote_quotation_number (moved_quotation e target q) = quote_quotation_number q"
  "quote_status (moved_quotation e target q) = target"
  by (simp_all add: moved_quotation_def)

lemma move_last_version:
  assumes ok: "versions_ok s" and vs: "versions_of s org n = xs @ [q]" and move: "target \<in> set (quotation_moves (quote_status q))"
    and t_def: "t = committed (change_quotation_status e ctx org (quote_id q) target s)"
  shows "versions_ok t" "versions_of t org n = xs @ [moved_quotation e target q]"
proof -
  show "versions_ok t" unfolding t_def by (rule other_steps_versions(1) [OF ok])
  have ids: "distinct (map quote_id (quotations (core s)))" using ok by (simp add: versions_ok_def)
  have "q \<in> set (versions_of s org n)" using vs by simp
  then have q: "q \<in> set (quotations (core s))" "quote_organization_id q = org" "quote_quotation_number q = n"
    by (simp_all add: versions_of_def)
  from entity_unique [OF ids q(1), where org_of = quote_organization_id] q(2)
  have "find_quotation (core s) org (quote_id q) = Some q" by simp
  with move have "quotations (core t) = put_row quote_id (moved_quotation e target q) (quotations (core s))"
    by (simp add: t_def change_quotation_status_def fetch_def demand_def Let_def respond_def on_core_def put_quotation_def
        add_audits_def queue_in_app_def split: sum.split)
  also have "\<dots> = map (\<lambda>x. if x = q then moved_quotation e target q else x) (quotations (core s))"
    unfolding put_row_def using ids q(1) by (auto simp: distinct_map dest: inj_onD)
  finally have rows: "quotations (core t) = map (\<lambda>x. if x = q then moved_quotation e target q else x) (quotations (core s))" .
  have "versions_of t org n = map (\<lambda>x. if x = q then moved_quotation e target q else x) (versions_of s org n)"
    unfolding versions_of_def rows filter_map by (rule arg_cong [where f = "map _"], rule filter_cong) (use q(2,3) in auto)
  moreover have "q \<notin> set xs"
  proof -
    have "distinct (versions_of s org n)" using ids by (simp add: versions_of_def distinct_map)
    with vs show ?thesis by simp
  qed
  ultimately show "versions_of t org n = xs @ [moved_quotation e target q]"
    by (auto simp: vs intro: map_idI)
qed

end
