(* ===== verification/Quotation_Claims.thy ===== *)
theory Quotation_Claims
  imports Quotation_Safety Booking_Samples
begin

text \<open>
  What the pricing, the discount approvals and the quotations guarantee, with a price list, a cost sheet
  and a quotation of the sample organization on which each property is applied.
\<close>

section \<open>Samples\<close>

definition sample_rules :: pricing_rules where
  "sample_rules = \<lparr>pr_base_rate_per_sqft = None,
     pr_unit_overrides = [(''x'', \<lparr>uo_base_price = Some 5000, uo_adjustment = - 100, uo_label = ''Corner''\<rparr>)],
     pr_floor_rise = None,
     pr_premiums = [\<lparr>rule_code = ''P'', rule_label = ''Premium'', rule_calculation = Percentage, rule_value = 10,
       rule_taxable = True, rule_optional = False, rule_match_field = None, rule_match_value = None\<rparr>],
     pr_parking_options = [\<lparr>rule_code = ''C'', rule_label = ''Car'', rule_calculation = Fixed, rule_value = 300,
       rule_taxable = False, rule_optional = True, rule_match_field = None, rule_match_value = None\<rparr>],
     pr_amenity_charges = [], pr_charges = [],
     pr_taxes = [\<lparr>tax_code = ''T'', tax_label = ''Tax'', tax_rate_percent = 5, tax_applies_to = []\<rparr>],
     pr_discount_policy = \<lparr>dp_self_approval_limit_percent = 2, dp_maximum_discount_percent = Some 20,
       dp_approval_matrix = [\<lparr>lvl_name = ''Head'', lvl_minimum_discount_percent = 10, lvl_maximum_discount_percent = None,
           lvl_approver_user_ids = [''w''], lvl_approver_role_ids = []\<rparr>,
         \<lparr>lvl_name = ''Lead'', lvl_minimum_discount_percent = 1, lvl_maximum_discount_percent = Some 9,
           lvl_approver_user_ids = [''v''], lvl_approver_role_ids = []\<rparr>]\<rparr>,
     pr_booking_amount = Some \<lparr>bar_percentage = True, bar_value = 10\<rparr>\<rparr>"

definition sample_price_list :: "pricing_rules option \<Rightarrow> record_status \<Rightarrow> price_list_row" where
  "sample_price_list r st =
     \<lparr>plist_id = ''l'', plist_organization_id = ''o'', plist_project_id = ''p'', plist_name = ''List'', plist_code = ''L1'',
      plist_version = 1, plist_status = st, plist_currency = ''INR'', plist_effective_from = 0, plist_effective_to = None,
      plist_pricing_rules = r, plist_created_at = 0\<rparr>"

definition sample_sheet_create :: cost_sheet_create where
  "sample_sheet_create = \<lparr>csc_customer_id = ''c'', csc_lead_id = None, csc_unit_id = ''x'', csc_price_list_id = ''l'',
     csc_parking = [(''C'', 2)], csc_amenity_codes = [], csc_optional_premium_codes = [],
     csc_requested_discount_amount = 0, csc_final_agreed_value = Some 5900, csc_booking_amount_override = None,
     csc_request_notes = Some ''loyal''\<rparr>"

definition sample_pricing :: sales where
  "sample_pricing = \<lparr>core = sample_base Unit_AVAILABLE, price_lists = [sample_price_list (Some sample_rules) Record_ACTIVE],
     cost_sheets = [], cost_sheet_items = [], discount_approvals = [], quotation_items = []\<rparr>"

definition sample_snapshot :: pricing_snapshot where
  "sample_snapshot = \<lparr>snap_price_list_id = ''l'', snap_price_list_code = ''L1'', snap_price_list_version = 1,
     snap_rules = sample_rules, snap_unit_id = ''x'', snap_unit_number = ''101'', snap_area_sqft = None,
     snap_floor_number = None, snap_facing = None, snap_unit_type = None, snap_parking = [], snap_amenity_codes = [],
     snap_optional_premium_codes = [], snap_approval_required = True, snap_discount_percent = 4,
     snap_self_approval_limit_percent = 2, snap_previous_value = 100,
     snap_selected_approval_level = approval_level sample_rules 4\<rparr>"

definition sample_sheet :: "cost_sheet_status \<Rightarrow> cost_sheet_row" where
  "sample_sheet st =
     \<lparr>sheet_id = ''k'', sheet_organization_id = ''o'', sheet_customer_id = ''c'', sheet_lead_id = None,
      sheet_unit_id = ''x'', sheet_price_list_id = ''l'', sheet_created_by_user_id = ''u'', sheet_status = st,
      sheet_currency = ''INR'', sheet_base_price = 100, sheet_gross_value = 100, sheet_discount_amount = 4,
      sheet_tax_amount = 0, sheet_final_agreed_value = 96, sheet_booking_amount = 10,
      sheet_pricing_snapshot = sample_snapshot, sheet_created_at = 0\<rparr>"

definition sample_discount :: "approval_status \<Rightarrow> discount_approval_row" where
  "sample_discount st =
     \<lparr>disc_id = ''d'', disc_organization_id = ''o'', disc_cost_sheet_id = ''k'', disc_requested_by_user_id = ''u'',
      disc_approver_user_id = (if st = Approval_APPROVED then Some ''v'' else None), disc_status = st,
      disc_requested_discount_amount = 4, disc_requested_discount_percent = 4, disc_self_approval_limit_percent = 2,
      disc_approval_level_name = ''Lead'', disc_required_approver_user_ids = [''v''], disc_required_approver_role_ids = [],
      disc_previous_value = 100, disc_final_approved_value = (if st = Approval_APPROVED then Some 96 else None),
      disc_request_notes = Some ''loyal'', disc_decision_notes = None, disc_decided_at = None, disc_created_at = 0\<rparr>"

definition sample_version :: "ident \<Rightarrow> int \<Rightarrow> quotation_status \<Rightarrow> quotation_row" where
  "sample_version i v st = sample_quotation\<lparr>quote_id := i, quote_quotation_number := ''QT'', quote_version := v,
     quote_status := st, quote_created_by_user_id := ''u''\<rparr>"

definition sample_selling :: "approval_status \<Rightarrow> quotation_row list \<Rightarrow> sales" where
  "sample_selling st qs =
     \<lparr>core = (sample_base Unit_AVAILABLE)\<lparr>quotations := qs\<rparr>,
      price_lists = [sample_price_list (Some sample_rules) Record_ACTIVE],
      cost_sheets = [sample_sheet (if st = Approval_APPROVED then CostSheet_APPROVED else CostSheet_PENDING_APPROVAL)],
      cost_sheet_items = [], discount_approvals = [sample_discount st], quotation_items = []\<rparr>"

section \<open>Cost sheets\<close>

text \<open>
  C16: a calculated cost sheet adds up. Its lines, numbered from one, sum up to the final agreed value, which
  is the gross value plus the taxes minus the discount, and which is exactly the value asked for when one
  was agreed; the discount stays within the price and within the maximum of the price list, and the booking
  amount within the final value.
\<close>

theorem cost_sheet_adds_up:
  assumes "calculate_cost_sheet e ctx org p s = Inr v"
  shows "sum_list (map civ_amount (cs_items v)) = cs_final_agreed_value v \<and>
    map civ_sequence (cs_items v) = map (\<lambda>i. int i + 1) [0..<length (cs_items v)] \<and>
    cs_final_agreed_value v = cs_gross_value v + cs_tax_amount v - cs_discount_amount v \<and>
    (\<forall>x. csc_final_agreed_value p = Some x \<longrightarrow> money x = x \<longrightarrow> cs_final_agreed_value v = x) \<and>
    cs_discount_amount v \<le> cs_gross_value v + cs_tax_amount v \<and> cs_booking_amount v \<le> cs_final_agreed_value v \<and>
    opt_all (\<lambda>x. discount_percent_of (cs_discount_amount v) (cs_gross_value v + cs_tax_amount v) \<le> x)
      (dp_maximum_discount_percent (pr_discount_policy (snap_rules (cs_pricing_snapshot v))))"
proof (rule calculate_returns [OF assms], goal_cases)
  case (1 pl u r fl ls taxed tax)
  note ls = gross_well_lined [OF 1(5)] and d = discount_in_cents [OF 1(9)]
  note tx = tax_lines_sum [OF ls 1(6)]
  have gross: "cs_gross_value v = lines_total ls" "in_cents (lines_total ls)" and tax: "cs_tax_amount v = tax"
    using 1(7,8) well_lined_total [OF ls] tx(2) by (simp_all add: money_in_cents)
  have pre: "in_cents (cs_gross_value v + cs_tax_amount v)" using gross tax tx(2) by auto
  have final: "cs_final_agreed_value v = cs_gross_value v + cs_tax_amount v - cs_discount_amount v"
    using 1(12) pre d by (simp add: money_in_cents in_cents_diff)
  note items = discount_line_sum [OF tx(1) d [THEN conjunct1], of "snap_discount_percent (cs_pricing_snapshot v)"]
  have agreed: "cs_final_agreed_value v = x" if "csc_final_agreed_value p = Some x" "money x = x" for x
    using 1(9) that pre final unfolding discount_of_def
    by (simp add: outcome_simps money_in_cents in_cents_diff in_cents_def [of x])
  have "sum_list (map civ_amount (cs_items v)) = cs_final_agreed_value v"
    using items tx(3) gross tax final by (simp add: 1(13) comp_def lines_total_def)
  moreover have "map civ_sequence (cs_items v) = map (\<lambda>i. int i + 1) [0..<length (cs_items v)]"
    using items by (simp add: 1(13) comp_def well_lined_def)
  moreover have "cs_booking_amount v \<le> cs_final_agreed_value v"
    using 1(14) unfolding booking_amount_of_def outcome_simps by auto
  ultimately show ?case using final agreed d 1(10,11,15) by simp
qed

theorem cost_sheet_adds_up_witness:
  "\<exists>v. calculate_cost_sheet sample_env (sample_context ''u'') ''o'' sample_sheet_create sample_pricing = Inr v \<and>
     cs_status v = CostSheet_PENDING_APPROVAL \<and> length (cs_items v) = 6 \<and>
     sum_list (map civ_amount (cs_items v)) = cs_final_agreed_value v"
proof -
  let ?r = "calculate_cost_sheet sample_env (sample_context ''u'') ''o'' sample_sheet_create sample_pricing"
  have "case ?r of Inl _ \<Rightarrow> False | Inr v \<Rightarrow> cs_status v = CostSheet_PENDING_APPROVAL \<and> length (cs_items v) = 6"
    by code_simp
  then obtain v where v: "?r = Inr v" "cs_status v = CostSheet_PENDING_APPROVAL" "length (cs_items v) = 6"
    by (auto split: sum.splits)
  with cost_sheet_adds_up [OF v(1)] show ?thesis by blast
qed

section \<open>Discount approvals\<close>

text \<open>
  C18: the approval matrix is unambiguous. When the levels passed the validator of the price list, the level
  the code finds by trying them in the order of their minimum is the one that a search in any other order
  finds: a level is found exactly when it covers the discount, and no two levels cover the same discount.
\<close>

theorem approval_level_is_the_covering_one:
  assumes "valid_matrix (pr_discount_policy r)" "set ls = set (dp_approval_matrix (pr_discount_policy r))"
  shows "approval_level r p = find (covers p) ls \<and>
    (approval_level r p = Some l \<longleftrightarrow> l \<in> set ls \<and> covers p l)"
proof -
  have iff: "approval_level r p = Some m \<longleftrightarrow> m \<in> set ls \<and> covers p m" for m
    using approval_level_iff [OF assms(1)] assms(2) by simp
  have "approval_level r p = find (covers p) ls"
  proof (cases "find (covers p) ls")
    case None
    then have "approval_level r p \<noteq> Some m" for m unfolding iff by (auto simp: find_None)
    with None show ?thesis by (cases "approval_level r p") auto
  next
    case (Some m)
    with find_SomeD [OF this] show ?thesis by (simp add: iff)
  qed
  with iff show ?thesis by blast
qed

theorem approval_level_is_the_covering_one_witness:
  "map_option lvl_name (approval_level sample_rules 4) = Some ''Lead'' \<and>
   map_option lvl_name (find (covers 4) (dp_approval_matrix (pr_discount_policy sample_rules))) = Some ''Lead''"
proof -
  have "valid_matrix (pr_discount_policy sample_rules)" by code_simp
  from approval_level_is_the_covering_one [OF this refl, of 4]
  have "approval_level sample_rules 4 = find (covers 4) (dp_approval_matrix (pr_discount_policy sample_rules))" by blast
  moreover have "map_option lvl_name (find (covers 4) (dp_approval_matrix (pr_discount_policy sample_rules))) = Some ''Lead''"
    by code_simp
  ultimately show ?thesis by simp
qed

text \<open>
  C17: no discount beyond the self-approval limit goes through on one person's word. Whatever the sales
  operations do from a database in order, a cost sheet with such a discount that is \<^verbatim>\<open>APPROVED\<close> or
  \<^verbatim>\<open>CONVERTED\<close> into a quotation has an approval of its final value, by another user than the one who asked.
\<close>

theorem discount_needs_second_person:
  assumes "discounts_ok s" "sales_step\<^sup>*\<^sup>* s t" "c \<in> set (cost_sheets t)" "settled c"
    "0 < sheet_discount_amount c"
    "snap_self_approval_limit_percent (sheet_pricing_snapshot c) < snap_discount_percent (sheet_pricing_snapshot c)"
  shows "\<exists>a \<in> set (discount_approvals t). disc_organization_id a = sheet_organization_id c \<and>
    disc_cost_sheet_id a = sheet_id c \<and> disc_status a = Approval_APPROVED \<and>
    disc_final_approved_value a = Some (sheet_final_agreed_value c) \<and>
    (\<exists>u. disc_approver_user_id a = Some u \<and> u \<noteq> disc_requested_by_user_id a)"
proof -
  have "discounts_ok t" by (rule discounts.always [OF assms(2,1)])
  then obtain a where "a \<in> set (discount_approvals t)" "approves c a"
    using discounts_okD(4) assms(3-6) by (metis beyond_limit_def)
  then show ?thesis by (auto simp: approves_def split: option.splits)
qed

theorem discount_needs_second_person_witness:
  "\<exists>t c. sales_step\<^sup>*\<^sup>* (sample_selling Approval_PENDING []) t \<and> c \<in> set (cost_sheets t) \<and>
     sheet_status c = CostSheet_APPROVED \<and> (\<exists>a \<in> set (discount_approvals t). disc_approver_user_id a \<noteq> None)"
proof -
  let ?s = "sample_selling Approval_PENDING []"
  let ?d = "\<lparr>dd_status = Decision_APPROVED, dd_notes = None\<rparr>"
  let ?t = "committed (decide_discount sample_env (sample_context ''v'') ''o'' ''k'' ?d ?s)"
  have "discounts_ok ?s" by code_simp
  moreover have run: "sales_step\<^sup>*\<^sup>* ?s ?t" by (rule r_into_rtranclp) (rule sales_step.decision)
  moreover have c: "cost_sheets ?t = [sample_sheet CostSheet_APPROVED]" by code_simp
  then have "sample_sheet CostSheet_APPROVED \<in> set (cost_sheets ?t)" by simp
  ultimately have "\<exists>a \<in> set (discount_approvals ?t). \<exists>u. disc_approver_user_id a = Some u \<and> u \<noteq> disc_requested_by_user_id a"
    using discount_needs_second_person [of ?s ?t "sample_sheet CostSheet_APPROVED"]
    by (fastforce simp: sample_sheet_def sample_snapshot_def settled_def)
  with run c show ?thesis by (intro exI [of _ ?t] exI [of _ "sample_sheet CostSheet_APPROVED"]) (auto simp: sample_sheet_def)
qed

section \<open>Versions\<close>

text \<open>
  A revision replaces what it revises. When \<^verbatim>\<open>create_quotation_version\<close> returns, the quotation number
  has one version more, a \<^verbatim>\<open>DRAFT\<close> that is later than all others, made from an approved cost sheet for the same
  customer and unit, which is now \<^verbatim>\<open>CONVERTED\<close>; every earlier version is where it was, \<^verbatim>\<open>SUPERSEDED\<close> unless it
  was accepted or rejected; and no two versions of the number coincide.
\<close>

theorem new_version_supersedes:
  assumes "create_quotation_version e ctx org qid sid valid s = Return t v" "versions_ok s" "fresh_sales e s"
  shows "\<exists>source c q. find_quotation (core s) org qid = Some source \<and> find_sheet s org sid = Some c \<and>
    sheet_status c = CostSheet_APPROVED \<and> Some (sheet_customer_id c) = quote_customer_id source \<and>
    Some (sheet_unit_id c) = quote_unit_id source \<and>
    versions_of t org (quote_quotation_number source) =
      map (superseded e) (versions_of s org (quote_quotation_number source)) @ [q] \<and>
    quote_status q = Quotation_DRAFT \<and> quote_parent_quotation_id q = Some (quote_id source) \<and>
    (\<forall>x \<in> set (versions_of s org (quote_quotation_number source)). quote_version x < quote_version q) \<and>
    (\<forall>x \<in> set (versions_of t org (quote_quotation_number source)). x \<noteq> q \<longrightarrow>
      quote_status x \<in> {Quotation_ACCEPTED, Quotation_REJECTED, Quotation_SUPERSEDED}) \<and>
    cost_sheets t = put_row sheet_id (c\<lparr>sheet_status := CostSheet_CONVERTED\<rparr>) (cost_sheets s) \<and> versions_ok t"
proof (rule create_version_returns [OF assms(1)], goal_cases)
  case (1 source c q)
  have "versions_ok t"
    using quotation_steps_versions(2) [OF assms(2,3), of ctx org qid sid valid] assms(1) by simp
  then show ?case using 1 latest_version_above [of _ s org "quote_quotation_number source"]
    by (intro exI [of _ source] exI [of _ c] exI [of _ q]) (force simp: superseded_def)
qed

theorem new_version_supersedes_witness:
  "\<exists>t v. create_quotation_version sample_env (sample_context ''u'') ''o'' ''q'' ''k'' 30
       (sample_selling Approval_APPROVED [sample_version ''q'' 1 Quotation_SENT]) = Return t v \<and> versions_ok t"
proof -
  let ?s = "sample_selling Approval_APPROVED [sample_version ''q'' 1 Quotation_SENT]"
  have "returned (create_quotation_version sample_env (sample_context ''u'') ''o'' ''q'' ''k'' 30 ?s)" by code_simp
  then obtain t v where ret: "create_quotation_version sample_env (sample_context ''u'') ''o'' ''q'' ''k'' 30 ?s = Return t v"
    by (rule returnedE)
  have "versions_ok ?s" by code_simp
  moreover have "fresh_sales sample_env ?s"
    by (auto simp: fresh_sales_def sample_selling_def sample_sheet_def sample_discount_def sample_version_def sample_env_def
        sample_quotation_def intro: inj_on_inverseI [where g = "\<lambda>x. length x - 1"])
  ultimately show ?thesis using new_version_supersedes [OF ret] ret by blast
qed

text \<open>
  C26: the guard that an accepted quotation cannot be revised is passed through an older version. The accepted
  version itself is refused; but whenever another version of its number is revised, the accepted one stays
  \<^verbatim>\<open>ACCEPTED\<close> beside the new \<^verbatim>\<open>DRAFT\<close>, which can be sent and accepted in turn, and then two versions of one
  quotation are \<^verbatim>\<open>ACCEPTED\<close>.
\<close>

theorem accepted_quotation_is_revised:
  assumes "versions_ok s" "fresh_sales e s" "find_quotation (core s) org qid = Some source"
    and "accepted \<in> set (versions_of s org (quote_quotation_number source))" "quote_status accepted = Quotation_ACCEPTED"
    and "create_quotation_version e ctx org qid sid valid s = Return s1 v"
  shows "create_quotation_version e ctx org (quote_id accepted) sid valid s =
      Raise s (App_Error 409 ''ACCEPTED_QUOTATION_IMMUTABLE'') \<and>
    (\<exists>xs q. versions_of s1 org (quote_quotation_number source) = xs @ [q] \<and> accepted \<in> set xs \<and>
      quote_status q = Quotation_DRAFT \<and> quote_version accepted < quote_version q \<and>
      (\<forall>e2 ctx2 e3 ctx3.
        let s2 = committed (change_quotation_status e2 ctx2 org (quote_id q) Quotation_SENT s1);
            s3 = committed (change_quotation_status e3 ctx3 org (quote_id q) Quotation_ACCEPTED s2)
        in \<exists>q'. versions_of s3 org (quote_quotation_number source) = xs @ [q'] \<and> quote_version q' = quote_version q \<and>
             quote_status q' = Quotation_ACCEPTED))"
proof -
  let ?n = "quote_quotation_number source"
  from assms(4) have row: "accepted \<in> set (quotations (core s))" "quote_organization_id accepted = org"
    by (simp_all add: versions_of_def)
  have "distinct (map quote_id (quotations (core s)))" using assms(1) by (simp add: versions_ok_def)
  from entity_unique [OF this row(1), where org_of = quote_organization_id] row(2)
  have "find_quotation (core s) org (quote_id accepted) = Some accepted" by simp
  then have refused: "create_quotation_version e ctx org (quote_id accepted) sid valid s =
      Raise s (App_Error 409 ''ACCEPTED_QUOTATION_IMMUTABLE'')"
    using assms(5) by (simp add: create_quotation_version_def fetch_def demand_def)
  from assms(6) obtain q where q: "quote_status q = Quotation_DRAFT" "quote_version q = latest_version s org ?n + 1"
    "versions_of s1 org ?n = map (superseded e) (versions_of s org ?n) @ [q]"
    by (rule create_version_returns) (use assms(3) in simp)
  have ok: "versions_ok s1" using quotation_steps_versions(2) [OF assms(1,2), of ctx org qid sid valid] assms(6) by simp
  have "accepted = superseded e accepted" using assms(5) by (simp add: superseded_def)
  with assms(4) have kept: "accepted \<in> set (map (superseded e) (versions_of s org ?n))" by force
  have later: "quote_version accepted < quote_version q" using latest_version_above [OF assms(4)] q(2) by simp
  have "\<exists>q'. versions_of (committed (change_quotation_status e3 ctx3 org (quote_id q) Quotation_ACCEPTED
      (committed (change_quotation_status e2 ctx2 org (quote_id q) Quotation_SENT s1)))) org ?n =
      map (superseded e) (versions_of s org ?n) @ [q'] \<and> quote_version q' = quote_version q \<and>
      quote_status q' = Quotation_ACCEPTED" for e2 ctx2 e3 ctx3
  proof -
    have "Quotation_SENT \<in> set (quotation_moves (quote_status q))" by (simp add: q(1) quotation_moves_def)
    note sent = move_last_version [OF ok q(3) this refl, of e2 ctx2]
    have "Quotation_ACCEPTED \<in> set (quotation_moves (quote_status (moved_quotation e2 Quotation_SENT q)))"
      by (simp add: quotation_moves_def)
    from move_last_version(2) [OF sent this refl, of e3 ctx3] show ?thesis by simp
  qed
  with refused q kept later show ?thesis unfolding Let_def by blast
qed

theorem accepted_quotation_is_revised_witness:
  "\<exists>s1 v q. create_quotation_version sample_env (sample_context ''u'') ''o'' ''q1'' ''k'' 30
       (sample_selling Approval_APPROVED [sample_version ''q1'' 1 Quotation_SUPERSEDED, sample_version ''q2'' 2 Quotation_ACCEPTED]) =
       Return s1 v \<and>
     {sample_version ''q2'' 2 Quotation_ACCEPTED, q} \<subseteq> set (versions_of s1 ''o'' ''QT'') \<and> quote_status q = Quotation_DRAFT"
proof -
  let ?old = "sample_version ''q1'' 1 Quotation_SUPERSEDED" and ?acc = "sample_version ''q2'' 2 Quotation_ACCEPTED"
  let ?s = "sample_selling Approval_APPROVED [?old, ?acc]"
  have "returned (create_quotation_version sample_env (sample_context ''u'') ''o'' ''q1'' ''k'' 30 ?s)" by code_simp
  then obtain t v where ret: "create_quotation_version sample_env (sample_context ''u'') ''o'' ''q1'' ''k'' 30 ?s = Return t v"
    by (rule returnedE)
  have "versions_ok ?s" by code_simp
  moreover have "fresh_sales sample_env ?s"
    by (auto simp: fresh_sales_def sample_selling_def sample_sheet_def sample_discount_def sample_version_def sample_env_def
        sample_quotation_def intro: inj_on_inverseI [where g = "\<lambda>x. length x - 1"])
  moreover have "find_quotation (core ?s) ''o'' ''q1'' = Some ?old"
    by (simp add: sample_selling_def sample_version_def sample_quotation_def entity_def)
  moreover have "quote_quotation_number ?old = ''QT''" "quote_status ?acc = Quotation_ACCEPTED"
    "?acc \<in> set (versions_of ?s ''o'' ''QT'')"
    by (simp_all add: sample_selling_def versions_of_def sample_version_def sample_quotation_def)
  ultimately show ?thesis using accepted_quotation_is_revised [OF _ _ _ _ _ ret, of ?old ?acc] ret by fastforce
qed

section \<open>Price lists\<close>

text \<open>
  An edit can store rules that do not validate. \<^verbatim>\<open>update_price_list\<close> with \<^verbatim>\<open>pricing_rules: null\<close> commits the
  null and then fails with 400, and from then on every view of the price list fails, and so does every page of
  the list of price lists that contains it.
\<close>

theorem null_rules_break_price_list:
  assumes "find_price_list s org pid = Some x" "plist_status x = Record_DRAFT"
    "find_project (core s) org (plist_project_id x) = Some project"
    "opt_all (\<lambda>to. plist_effective_from x \<le> to) (plist_effective_to x)"
    "u = \<lparr>plu_name = None, plu_effective_from = None, plu_effective_to = None, plu_pricing_rules = Some None\<rparr>"
  shows "\<exists>t. update_price_list e ctx org pid u s = Raise t (App_Error 400 ''INVALID_PRICING_RULES'') \<and>
    get_price_list t org pid = Inl (App_Error 400 ''INVALID_PRICING_RULES'') \<and>
    (\<forall>page page_size. x\<lparr>plist_pricing_rules := None\<rparr> \<in>
        set (page_of page page_size (order_desc plist_created_at (filter (\<lambda>p. plist_organization_id p = org) (price_lists t)))) \<longrightarrow>
      (\<exists>err. list_price_lists t org None None None page page_size = Inl err))"
proof -
  let ?x = "x\<lparr>plist_pricing_rules := None\<rparr>"
  let ?a = "audit_entry e (uuid e 0) org ctx ''price_list.updated'' ''price_list'' (plist_id x)
           (Some [(''name'', JStr (plist_name x)), (''effective_from'', JInt (plist_effective_from x))])
           (Some [(''name'', JStr (plist_name x)), (''effective_from'', JInt (plist_effective_from x))])"
  let ?t = "on_core (add_audits [?a]) (put_price_list ?x s)"
  have same: "updated_price_list u (plist_name x) (plist_effective_from x) x = ?x"
    using assms(5) by (simp add: updated_price_list_def sent_def)
  have row: "plist_id x = pid" "plist_organization_id x = org" using entityD [OF assms(1)] by auto
  have proj: "find_project (core ?t) org (plist_project_id x) = Some project"
    using assms(3) by (simp add: add_audits_def)
  have view: "price_list_view_of ?t org ?x = Inl (App_Error 400 ''INVALID_PRICING_RULES'')"
    using proj by (simp add: price_list_view_of_def stored_rules_def need_def step_def)
  have found: "find_price_list ?t org pid = Some ?x"
    using entity_put_same [OF assms(1), of ?x] row by (simp add: put_price_list_def on_core_def)
  have upd: "update_price_list e ctx org pid u s = Raise ?t (App_Error 400 ''INVALID_PRICING_RULES'')"
    unfolding update_price_list_def Let_def using assms view same
    by (simp add: fetch_def demand_def sent_def respond_def)
  have fails: "\<exists>err. collect (price_list_view_of ?t org) ps = Inl err" if "?x \<in> set ps" for ps
    using that view by (induction ps) (auto split: sum.splits)
  have all: "filter (price_list_selected org None None None) ps = filter (\<lambda>p. plist_organization_id p = org) ps" for ps
    by (rule filter_cong) (simp_all add: price_list_selected_def given_def opt_all_def)
  show ?thesis
    using upd found view fails by (intro exI [of _ ?t])
      (fastforce simp: get_price_list_def need_def list_price_lists_def all step_def Let_def)
qed

theorem null_rules_break_price_list_witness:
  "\<exists>t. update_price_list sample_env (sample_context ''u'') ''o'' ''l''
       \<lparr>plu_name = None, plu_effective_from = None, plu_effective_to = None, plu_pricing_rules = Some None\<rparr>
       (sample_pricing\<lparr>price_lists := [sample_price_list (Some sample_rules) Record_DRAFT]\<rparr>) =
         Raise t (App_Error 400 ''INVALID_PRICING_RULES'') \<and>
     get_price_list t ''o'' ''l'' = Inl (App_Error 400 ''INVALID_PRICING_RULES'')"
proof -
  let ?s = "sample_pricing\<lparr>price_lists := [sample_price_list (Some sample_rules) Record_DRAFT]\<rparr>"
  have "find_price_list ?s ''o'' ''l'' = Some (sample_price_list (Some sample_rules) Record_DRAFT)"
    "find_project (core ?s) ''o'' ''p'' = Some sample_project"
    by (simp_all add: sample_price_list_def sample_pricing_def entity_Cons sample_base_def sample_project_def)
  then show ?thesis
    using null_rules_break_price_list [of ?s "''o''" "''l''" "sample_price_list (Some sample_rules) Record_DRAFT" sample_project]
    by (fastforce simp: sample_price_list_def opt_all_def)
qed

end
