(* ===== verification/Accounts.thy ===== *)
theory Accounts
  imports Authorization
begin

text \<open>
  \<^verbatim>\<open>services/auth.py\<close>: registration, login, the rotating refresh tokens of a session, password changes and
  resets, and the permission codes a user effectively holds. Password hashing (\<^verbatim>\<open>pwdlib\<close>), SHA-256, the
  random generator and the signed tokens (\<^verbatim>\<open>PyJWT\<close>) are the argument \<open>crypto\<close>; \<open>settings\<close> are the
  fields of \<^verbatim>\<open>core/config.py\<close> the service reads. Email addresses and slugs are compared as exact texts.
\<close>

section \<open>Settings and cryptography\<close>

record settings =
  allow_organization_registration :: bool
  refresh_token_ttl_days :: int
  refresh_token_idle_days :: int
  access_token_ttl_minutes :: int
  password_reset_ttl_minutes :: int
  jwt_leeway_seconds :: int
  jwt_issuer :: string
  jwt_audience :: string

definition settings_ok :: "settings \<Rightarrow> bool" where
  "settings_ok c \<longleftrightarrow> 5 \<le> access_token_ttl_minutes c \<and> access_token_ttl_minutes c \<le> 60 \<and>
     1 \<le> refresh_token_ttl_days c \<and> refresh_token_ttl_days c \<le> 90 \<and>
     1 \<le> refresh_token_idle_days c \<and> refresh_token_idle_days c \<le> 30 \<and>
     10 \<le> password_reset_ttl_minutes c \<and> password_reset_ttl_minutes c \<le> 120 \<and>
     0 \<le> jwt_leeway_seconds c \<and> jwt_leeway_seconds c \<le> 60 \<and>
     refresh_token_idle_days c \<le> refresh_token_ttl_days c"

definition seconds :: "int \<Rightarrow> int" where
  "seconds n = n * 1000000"

definition minutes :: "int \<Rightarrow> int" where
  "minutes n = seconds (n * 60)"

definition days :: "int \<Rightarrow> int" where
  "days n = seconds (n * 86400)"

record claims =
  claim_sub :: ident
  claim_org :: ident
  claim_sid :: json
  claim_av :: json
  claim_type :: string
  claim_iss :: string
  claim_aud :: string
  claim_iat :: timestamp
  claim_nbf :: timestamp
  claim_exp :: timestamp
  claim_jti :: string

datatype jwt_error = Expired_Signature | Invalid_Token

text \<open>
  \<open>random_text n\<close> is the \<open>n\<close>-th text a request draws from \<^verbatim>\<open>secrets\<close>; \<open>hash_password\<close> has the salt of
  the request built in. \<open>decode_jwt\<close> gets the time at which the token is checked.
\<close>

record crypto =
  hash_password :: "string \<Rightarrow> string"
  verify_password :: "string \<Rightarrow> string \<Rightarrow> bool"
  verify_and_update_password :: "string \<Rightarrow> string \<Rightarrow> bool \<times> string option"
  hash_refresh_token :: "string \<Rightarrow> string"
  random_text :: "nat \<Rightarrow> string"
  encode_jwt :: "claims \<Rightarrow> string"
  decode_jwt :: "timestamp \<Rightarrow> string \<Rightarrow> jwt_error + claims"

definition access_claims :: "crypto \<Rightarrow> settings \<Rightarrow> env \<Rightarrow> ident \<Rightarrow> ident \<Rightarrow> ident \<Rightarrow> int \<Rightarrow> claims" where
  "access_claims k c e user org session version =
     \<lparr>claim_sub = user, claim_org = org, claim_sid = JStr session, claim_av = JInt version,
      claim_type = ''access'', claim_iss = jwt_issuer c, claim_aud = jwt_audience c, claim_iat = now e,
      claim_nbf = now e, claim_exp = now e + minutes (access_token_ttl_minutes c), claim_jti = random_text k 1\<rparr>"

definition create_access_token ::
  "crypto \<Rightarrow> settings \<Rightarrow> env \<Rightarrow> ident \<Rightarrow> ident \<Rightarrow> ident \<Rightarrow> int \<Rightarrow> string \<times> int" where
  "create_access_token k c e user org session version =
     (encode_jwt k (access_claims k c e user org session version), access_token_ttl_minutes c * 60)"

definition new_refresh_token :: "crypto \<Rightarrow> string \<times> string" where
  "new_refresh_token k = (random_text k 0, hash_refresh_token k (random_text k 0))"

section \<open>Permission codes\<close>

definition permission_codes :: "database \<Rightarrow> user_row \<Rightarrow> string list" where
  "permission_codes s u = sort (remdups (user_codes s (user_organization_id u) (user_id u)))"

definition user_role_names :: "database \<Rightarrow> ident \<Rightarrow> ident \<Rightarrow> string list" where
  "user_role_names s org user =
     [role_name r. ur \<leftarrow> user_roles s, urole_organization_id ur = org, urole_user_id ur = user,
        r \<leftarrow> roles s, role_organization_id r = urole_organization_id ur, role_id r = urole_role_id ur]"

definition effective_permission_codes :: "database \<Rightarrow> user_row \<Rightarrow> string list" where
  "effective_permission_codes s u =
     (let names = user_role_names s (user_organization_id u) (user_id u);
          granted = permission_codes s u;
          portal = (\<lambda>n. map_of portal_role_permission_allowlist n) in
      if names \<noteq> [] \<and> list_all (\<lambda>n. portal n \<noteq> None) names
      then filter (\<lambda>c. list_ex (\<lambda>n. c \<in> set (the (portal n))) names) granted
      else granted)"

section \<open>Views\<close>

record current_user_view =
  cuv_id :: ident
  cuv_email :: string
  cuv_full_name :: string
  cuv_organization_id :: ident
  cuv_branch_id :: "ident option"
  cuv_department_id :: "ident option"
  cuv_is_active :: bool
  cuv_created_at :: timestamp
  cuv_organization :: "ident \<times> string \<times> string"
  cuv_permissions :: "string list"

record session_result =
  access_token :: string
  expires_in :: int
  refresh_token :: string
  session_user :: current_user_view

definition find_organization :: "database \<Rightarrow> ident \<Rightarrow> organization_row option" where
  "find_organization s org = find (\<lambda>o'. org_id o' = org) (organizations s)"

abbreviation find_user :: "database \<Rightarrow> ident \<Rightarrow> ident \<Rightarrow> user_row option" where
  "find_user s \<equiv> entity user_organization_id user_id (users s)"

definition current_user_view_of :: "database \<Rightarrow> user_row \<Rightarrow> app_error + current_user_view" where
  "current_user_view_of s u =
     need (find_organization s (user_organization_id u)) Internal_Error (\<lambda>o'.
     Inr \<lparr>cuv_id = user_id u, cuv_email = user_email u, cuv_full_name = user_full_name u,
       cuv_organization_id = user_organization_id u, cuv_branch_id = user_branch_id u,
       cuv_department_id = user_department_id u, cuv_is_active = user_is_active u,
       cuv_created_at = user_created_at u, cuv_organization = (org_id o', org_name o', org_slug o'),
       cuv_permissions = effective_permission_codes s u\<rparr>)"

text \<open>\<^verbatim>\<open>user.is_active and user.organization.is_active\<close>; the foreign key gives every user an organization.\<close>

definition account_active :: "database \<Rightarrow> user_row \<Rightarrow> bool" where
  "account_active s u \<longleftrightarrow> user_is_active u \<and>
     (case find_organization s (user_organization_id u) of None \<Rightarrow> False | Some o' \<Rightarrow> org_is_active o')"

section \<open>Sessions\<close>

definition put_user :: "user_row \<Rightarrow> database \<Rightarrow> database" where
  "put_user u s = s\<lparr>users := put_row user_id u (users s)\<rparr>"

definition add_token :: "refresh_token_row \<Rightarrow> database \<Rightarrow> database" where
  "add_token r s = s\<lparr>refresh_tokens := refresh_tokens s @ [r]\<rparr>"

definition put_token :: "refresh_token_row \<Rightarrow> database \<Rightarrow> database" where
  "put_token r s = s\<lparr>refresh_tokens := put_row rtok_id r (refresh_tokens s)\<rparr>"

definition revoke :: "env \<Rightarrow> (refresh_token_row \<Rightarrow> bool) \<Rightarrow> database \<Rightarrow> database" where
  "revoke e p s = s\<lparr>refresh_tokens :=
     update_where (\<lambda>r. p r \<and> rtok_revoked_at r = None) (\<lambda>r. r\<lparr>rtok_revoked_at := Some (now e)\<rparr>) (refresh_tokens s)\<rparr>"

definition revoke_family :: "env \<Rightarrow> ident \<Rightarrow> database \<Rightarrow> database" where
  "revoke_family e family = revoke e (\<lambda>r. rtok_family_id r = family)"

definition revoke_user_sessions :: "env \<Rightarrow> ident \<Rightarrow> ident \<Rightarrow> database \<Rightarrow> database" where
  "revoke_user_sessions e org user = revoke e (\<lambda>r. rtok_organization_id r = org \<and> rtok_user_id r = user)"

definition consume_password_reset_tokens :: "env \<Rightarrow> user_row \<Rightarrow> database \<Rightarrow> database" where
  "consume_password_reset_tokens e u s = s\<lparr>password_reset_tokens :=
     update_where (\<lambda>r. ptok_organization_id r = user_organization_id u \<and> ptok_user_id r = user_id u \<and>
         ptok_consumed_at r = None)
       (\<lambda>r. r\<lparr>ptok_consumed_at := Some (now e)\<rparr>) (password_reset_tokens s)\<rparr>"

text \<open>The unique index on \<^verbatim>\<open>token_hash\<close>; its violation is caught by no handler.\<close>

definition token_hash_free :: "string \<Rightarrow> database \<Rightarrow> bool" where
  "token_hash_free h s \<longleftrightarrow> list_all (\<lambda>r. rtok_token_hash r \<noteq> h) (refresh_tokens s)"

definition cut_user_agent :: "string option \<Rightarrow> string option" where
  "cut_user_agent ua = given (map_option (take 255) ua)"

definition new_token ::
  "crypto \<Rightarrow> env \<Rightarrow> ident \<Rightarrow> user_row \<Rightarrow> ident \<Rightarrow> timestamp \<Rightarrow> timestamp \<Rightarrow> string option \<Rightarrow> string option \<Rightarrow>
   refresh_token_row" where
  "new_token k e i u family expires absolute agent ip =
     \<lparr>rtok_id = i, rtok_organization_id = user_organization_id u, rtok_user_id = user_id u,
      rtok_token_hash = snd (new_refresh_token k), rtok_family_id = family, rtok_expires_at = expires,
      rtok_absolute_expires_at = absolute, rtok_revoked_at = None, rtok_replaced_by_id = None,
      rtok_user_agent = cut_user_agent agent, rtok_ip_address = ip, rtok_created_at = now e\<rparr>"

definition session_of ::
  "crypto \<Rightarrow> settings \<Rightarrow> env \<Rightarrow> user_row \<Rightarrow> ident \<Rightarrow> database \<Rightarrow> (database, session_result) outcome" where
  "session_of k c e u family s =
     (let (access, seconds_left) =
        create_access_token k c e (user_id u) (user_organization_id u) family (user_auth_version u) in
      attempt s (current_user_view_of s u) (\<lambda>v.
      Return s \<lparr>access_token = access, expires_in = seconds_left, refresh_token = fst (new_refresh_token k),
        session_user = v\<rparr>))"

text \<open>
  \<^verbatim>\<open>_create_session\<close>: \<open>s0\<close> is the database of the last commit, \<open>s\<close> has the pending changes of the caller; the
  session and the row get the identifiers \<open>uuid e n\<close> and \<open>uuid e (Suc n)\<close>.
\<close>

definition create_session ::
  "crypto \<Rightarrow> settings \<Rightarrow> env \<Rightarrow> nat \<Rightarrow> database \<Rightarrow> user_row \<Rightarrow> string option \<Rightarrow> string option \<Rightarrow> database \<Rightarrow>
   (database, session_result) outcome" where
  "create_session k c e n s0 u agent ip s =
     (let absolute = now e + days (refresh_token_ttl_days c);
          expires = min (now e + days (refresh_token_idle_days c)) absolute;
          session = uuid e n;
          token = new_token k e (uuid e (Suc n)) u session expires absolute agent ip in
      demand s0 (token_hash_free (rtok_token_hash token) s) Integrity_Error (
      session_of k c e u session (add_token token s)))"

record login_request =
  lr_organization_slug :: string
  lr_email :: string
  lr_password :: string

definition user_by_login :: "database \<Rightarrow> string \<Rightarrow> string \<Rightarrow> user_row option" where
  "user_by_login s slug email =
     find (\<lambda>u. user_email u = email \<and>
       list_ex (\<lambda>o'. org_id o' = user_organization_id u \<and> org_slug o' = slug) (organizations s)) (users s)"

definition invalid_credentials :: app_error where
  "invalid_credentials = App_Error 401 ''INVALID_CREDENTIALS''"

definition login ::
  "crypto \<Rightarrow> settings \<Rightarrow> env \<Rightarrow> login_request \<Rightarrow> string option \<Rightarrow> string option \<Rightarrow> database \<Rightarrow>
   (database, session_result) outcome" where
  "login k c e p agent ip s =
     fetch s (user_by_login s (lr_organization_slug p) (lr_email p)) invalid_credentials (\<lambda>u.
     let (valid, updated) = verify_and_update_password k (lr_password p) (user_password_hash u) in
     demand s (valid \<and> account_active s u) invalid_credentials (
     let u' = u\<lparr>user_password_hash := (case updated of None \<Rightarrow> user_password_hash u | Some h \<Rightarrow> h),
                user_last_login_at := Some (now e)\<rparr> in
     create_session k c e 0 s u' agent ip (put_user u' s)))"

definition find_token :: "crypto \<Rightarrow> database \<Rightarrow> string \<Rightarrow> refresh_token_row option" where
  "find_token k s raw = find (\<lambda>r. rtok_token_hash r = hash_refresh_token k raw) (refresh_tokens s)"

definition rotated_token :: "env \<Rightarrow> ident \<Rightarrow> refresh_token_row \<Rightarrow> refresh_token_row" where
  "rotated_token e successor r = r\<lparr>rtok_revoked_at := Some (now e), rtok_replaced_by_id := Some successor\<rparr>"

definition rotate_refresh_token ::
  "crypto \<Rightarrow> settings \<Rightarrow> env \<Rightarrow> string \<Rightarrow> string option \<Rightarrow> string option \<Rightarrow> database \<Rightarrow>
   (database, session_result) outcome" where
  "rotate_refresh_token k c e raw agent ip s =
     fetch s (find_token k s raw) (App_Error 401 ''INVALID_REFRESH_TOKEN'') (\<lambda>r.
     if rtok_revoked_at r \<noteq> None
     then Raise (revoke_family e (rtok_family_id r) s) (App_Error 401 ''REFRESH_TOKEN_REUSED'')
     else if rtok_expires_at r \<le> now e \<or> rtok_absolute_expires_at r \<le> now e
     then Raise (put_token (r\<lparr>rtok_revoked_at := Some (now e)\<rparr>) s) (App_Error 401 ''REFRESH_TOKEN_EXPIRED'')
     else case find_user s (rtok_organization_id r) (rtok_user_id r) of
       None \<Rightarrow> Raise (revoke_family e (rtok_family_id r) s) (App_Error 401 ''ACCOUNT_DISABLED'')
     | Some u \<Rightarrow>
         if \<not> account_active s u
         then Raise (revoke_family e (rtok_family_id r) s) (App_Error 401 ''ACCOUNT_DISABLED'')
         else
           let expires = min (now e + days (refresh_token_idle_days c)) (rtok_absolute_expires_at r);
               token = new_token k e (uuid e 0) u (rtok_family_id r) expires (rtok_absolute_expires_at r) agent ip in
           demand s (token_hash_free (rtok_token_hash token) s) Integrity_Error (
           session_of k c e u (rtok_family_id r)
             (put_token (rotated_token e (uuid e 0) r) (add_token token s))))"

definition revoke_refresh_token :: "crypto \<Rightarrow> env \<Rightarrow> string \<Rightarrow> database \<Rightarrow> (database, unit) outcome" where
  "revoke_refresh_token k e raw s = (case find_token k s raw of
     None \<Rightarrow> Return s ()
   | Some r \<Rightarrow> Return (revoke_family e (rtok_family_id r) s) ())"

definition token_live :: "timestamp \<Rightarrow> refresh_token_row \<Rightarrow> bool" where
  "token_live t r \<longleftrightarrow> rtok_revoked_at r = None \<and> t < rtok_expires_at r \<and> t < rtok_absolute_expires_at r"

definition session_is_active :: "env \<Rightarrow> ident \<Rightarrow> ident \<Rightarrow> ident \<Rightarrow> database \<Rightarrow> bool" where
  "session_is_active e org user family s \<longleftrightarrow>
     list_ex (\<lambda>r. rtok_organization_id r = org \<and> rtok_user_id r = user \<and> rtok_family_id r = family \<and>
       token_live (now e) r) (refresh_tokens s)"

section \<open>Passwords\<close>

definition security_audit ::
  "env \<Rightarrow> ident \<Rightarrow> user_row \<Rightarrow> string \<Rightarrow> ident option \<Rightarrow> string option \<Rightarrow> string option \<Rightarrow> audit_row" where
  "security_audit e i u action actor request ip =
     \<lparr>audit_id = i, audit_organization_id = user_organization_id u, audit_actor_user_id = actor,
      audit_action = action, audit_entity_type = ''user'', audit_entity_id = user_id u,
      audit_previous_value = None, audit_new_value = Some [(''auth_version'', JInt (user_auth_version u))],
      audit_request_id = request, audit_ip_address = ip, audit_user_agent = None,
      audit_device_metadata = None, audit_created_at = now e\<rparr>"

text \<open>What both ways of setting a password do: a new hash, a new version, and no session or reset link left.\<close>

definition with_password :: "crypto \<Rightarrow> string \<Rightarrow> user_row \<Rightarrow> user_row" where
  "with_password k password u =
     u\<lparr>user_password_hash := hash_password k password, user_auth_version := user_auth_version u + 1\<rparr>"

definition set_password :: "env \<Rightarrow> user_row \<Rightarrow> audit_row \<Rightarrow> database \<Rightarrow> database" where
  "set_password e u audit s =
     add_audits [audit] (consume_password_reset_tokens e u
       (revoke_user_sessions e (user_organization_id u) (user_id u) (put_user u s)))"

record password_change_request =
  pc_current_password :: string
  pc_new_password :: string

definition change_password ::
  "crypto \<Rightarrow> env \<Rightarrow> user_row \<Rightarrow> password_change_request \<Rightarrow> string option \<Rightarrow> string option \<Rightarrow> database \<Rightarrow>
   (database, unit) outcome" where
  "change_password k e user p request ip s =
     fetch s (find_user s (user_organization_id user) (user_id user)) (App_Error 401 ''SESSION_REVOKED'') (\<lambda>u.
     demand s (user_is_active u) (App_Error 401 ''SESSION_REVOKED'') (
     demand s (verify_password k (pc_current_password p) (user_password_hash u))
       (App_Error 400 ''CURRENT_PASSWORD_INVALID'') (
     demand s (\<not> verify_password k (pc_new_password p) (user_password_hash u))
       (App_Error 400 ''PASSWORD_REUSE_NOT_ALLOWED'') (
     let u' = with_password k (pc_new_password p) u;
         audit = security_audit e (uuid e 0) u' ''authentication.password_changed'' (Some (user_id u')) request ip in
     Return (set_password e u' audit s) ()))))"

record password_reset_dispatch =
  prd_recipient :: string
  prd_full_name :: string
  prd_token :: string

definition new_password_reset_token ::
  "crypto \<Rightarrow> settings \<Rightarrow> env \<Rightarrow> ident \<Rightarrow> user_row \<Rightarrow> string option \<Rightarrow> password_reset_token_row" where
  "new_password_reset_token k c e i u ip =
     \<lparr>ptok_id = i, ptok_organization_id = user_organization_id u, ptok_user_id = user_id u,
      ptok_token_hash = hash_refresh_token k (random_text k 0),
      ptok_expires_at = now e + minutes (password_reset_ttl_minutes c), ptok_consumed_at = None,
      ptok_requested_ip = ip, ptok_created_at = now e\<rparr>"

definition request_password_reset ::
  "crypto \<Rightarrow> settings \<Rightarrow> env \<Rightarrow> string \<Rightarrow> string \<Rightarrow> string option \<Rightarrow> string option \<Rightarrow> database \<Rightarrow>
   (database, password_reset_dispatch option) outcome" where
  "request_password_reset k c e slug email request ip s =
     (case find (\<lambda>u. user_email u = email \<and> user_is_active u \<and>
          list_ex (\<lambda>o'. org_id o' = user_organization_id u \<and> org_slug o' = slug \<and> org_is_active o') (organizations s))
        (users s) of
       None \<Rightarrow> Return s None
     | Some u \<Rightarrow>
         let token = new_password_reset_token k c e (uuid e 0) u ip;
             s1 = consume_password_reset_tokens e u s;
             audit = security_audit e (uuid e 1) u ''authentication.password_reset_requested'' None request ip in
         demand s (list_all (\<lambda>r. ptok_token_hash r \<noteq> ptok_token_hash token) (password_reset_tokens s)) Integrity_Error (
         Return (add_audits [audit] (s1\<lparr>password_reset_tokens := password_reset_tokens s1 @ [token]\<rparr>))
           (Some \<lparr>prd_recipient = user_email u, prd_full_name = user_full_name u, prd_token = random_text k 0\<rparr>)))"

definition invalid_reset_token :: app_error where
  "invalid_reset_token = App_Error 400 ''INVALID_RESET_TOKEN''"

definition find_reset_token :: "crypto \<Rightarrow> database \<Rightarrow> string \<Rightarrow> password_reset_token_row option" where
  "find_reset_token k s raw = find (\<lambda>r. ptok_token_hash r = hash_refresh_token k raw) (password_reset_tokens s)"

definition reset_password ::
  "crypto \<Rightarrow> env \<Rightarrow> string \<Rightarrow> string \<Rightarrow> string option \<Rightarrow> string option \<Rightarrow> database \<Rightarrow> (database, unit) outcome" where
  "reset_password k e raw password request ip s =
     fetch s (find_reset_token k s raw) invalid_reset_token (\<lambda>r.
     fetch s (find_user s (ptok_organization_id r) (ptok_user_id r)) invalid_reset_token (\<lambda>u.
     demand s (ptok_consumed_at r = None \<and> now e < ptok_expires_at r \<and> account_active s u) invalid_reset_token (
     demand s (\<not> verify_password k password (user_password_hash u)) (App_Error 400 ''PASSWORD_REUSE_NOT_ALLOWED'') (
     let u' = with_password k password u;
         audit = security_audit e (uuid e 0) u' ''authentication.password_reset_completed'' None request ip in
     Return (set_password e u' audit s) ()))))"

section \<open>Registration of an organization\<close>

record organization_registration =
  or_organization_name :: string
  or_organization_slug :: string
  or_admin_full_name :: string
  or_admin_email :: string
  or_password :: string

definition new_organization :: "env \<Rightarrow> ident \<Rightarrow> organization_registration \<Rightarrow> organization_row" where
  "new_organization e i p =
     \<lparr>org_id = i, org_name = or_organization_name p, org_slug = or_organization_slug p, org_legal_name = None,
      org_contact_email = None, org_contact_phone = None, org_timezone = None, org_currency = None,
      org_date_format = None, org_is_active = True, org_created_at = now e\<rparr>"

definition new_administrator :: "crypto \<Rightarrow> env \<Rightarrow> ident \<Rightarrow> ident \<Rightarrow> organization_registration \<Rightarrow> user_row" where
  "new_administrator k e i org p =
     \<lparr>user_id = i, user_organization_id = org, user_branch_id = None, user_department_id = None,
      user_email = or_admin_email p, user_full_name = or_admin_full_name p,
      user_password_hash = hash_password k (or_password p), user_auth_version = 1, user_is_active = True,
      user_last_login_at = None, user_created_at = now e\<rparr>"

text \<open>The rows of the catalog: permission \<open>j\<close> has the key \<open>uuid e (n + j)\<close>, and so on for the other tables.\<close>

definition catalog_permissions :: "env \<Rightarrow> nat \<Rightarrow> ident \<Rightarrow> permission_row list" where
  "catalog_permissions e n org =
     map (\<lambda>(j, code, description).
       \<lparr>perm_id = uuid e (n + j), perm_organization_id = org, perm_code = code, perm_description = description,
        perm_created_at = now e\<rparr>) (enumerate 0 permission_catalog)"

definition template_roles :: "env \<Rightarrow> nat \<Rightarrow> ident \<Rightarrow> role_row list" where
  "template_roles e n org =
     map (\<lambda>(j, t).
       \<lparr>role_id = uuid e (n + j), role_organization_id = org, role_name = tmpl_name t,
        role_description = Some (tmpl_description t), role_is_system = True, role_created_at = now e\<rparr>)
       (enumerate 0 role_templates)"

definition template_grants :: "(string \<times> string) list" where
  "template_grants = [(tmpl_name t, code). t \<leftarrow> role_templates, code \<leftarrow> remdups (tmpl_permissions t)]"

definition template_role_permissions ::
  "env \<Rightarrow> nat \<Rightarrow> ident \<Rightarrow> role_row list \<Rightarrow> permission_row list \<Rightarrow> role_permission_row list" where
  "template_role_permissions e n org rs ps =
     map (\<lambda>(j, name, code).
       \<lparr>rperm_id = uuid e (n + j), rperm_organization_id = org,
        rperm_role_id = role_id (the (find (\<lambda>r. role_name r = name) rs)),
        rperm_permission_id = perm_id (the (find (\<lambda>p. perm_code p = code) ps)), rperm_created_at = now e\<rparr>)
       (enumerate 0 template_grants)"

definition organization_created ::
  "env \<Rightarrow> ident \<Rightarrow> organization_row \<Rightarrow> user_row \<Rightarrow> string option \<Rightarrow> string option \<Rightarrow> string option \<Rightarrow> audit_row" where
  "organization_created e i o' u request ip agent =
     \<lparr>audit_id = i, audit_organization_id = org_id o', audit_actor_user_id = Some (user_id u),
      audit_action = ''organization.created'', audit_entity_type = ''organization'', audit_entity_id = org_id o',
      audit_previous_value = None,
      audit_new_value = Some [(''name'', JStr (org_name o')), (''slug'', JStr (org_slug o'))],
      audit_request_id = request, audit_ip_address = ip,
      audit_user_agent = map_option (take 512) (given agent), audit_device_metadata = None,
      audit_created_at = now e\<rparr>"

definition seed_organization ::
  "crypto \<Rightarrow> env \<Rightarrow> organization_registration \<Rightarrow> string option \<Rightarrow> string option \<Rightarrow> string option \<Rightarrow> database \<Rightarrow>
   database \<times> user_row" where
  "seed_organization k e p request ip agent s =
     (let o' = new_organization e (uuid e 0) p;
          u = new_administrator k e (uuid e 1) (org_id o') p;
          np = length permission_catalog;
          nr = length role_templates;
          ps = catalog_permissions e 5 (org_id o');
          rs = template_roles e (5 + np) (org_id o');
          administrator = the (find (\<lambda>r. role_name r = organization_administrator) rs);
          ur = \<lparr>urole_id = uuid e 2, urole_organization_id = org_id o', urole_user_id = user_id u,
                urole_role_id = role_id administrator, urole_created_at = now e\<rparr>;
          rps = template_role_permissions e (5 + np + nr) (org_id o') rs ps;
          audit = organization_created e (uuid e (5 + np + nr + length template_grants)) o' u request ip agent in
      (add_audits [audit] (s\<lparr>organizations := organizations s @ [o'], users := users s @ [u],
         permissions := permissions s @ ps, roles := roles s @ rs, user_roles := user_roles s @ [ur],
         role_permissions := role_permissions s @ rps\<rparr>), u))"

definition register_organization ::
  "crypto \<Rightarrow> settings \<Rightarrow> env \<Rightarrow> organization_registration \<Rightarrow> string option \<Rightarrow> string option \<Rightarrow> string option \<Rightarrow>
   database \<Rightarrow> (database, session_result) outcome" where
  "register_organization k c e p agent ip request s =
     demand s (allow_organization_registration c) (App_Error 403 ''REGISTRATION_DISABLED'') (
     demand s (list_all (\<lambda>o'. org_slug o' \<noteq> or_organization_slug p) (organizations s))
       (App_Error 409 ''ORGANIZATION_EXISTS'') (
     let (t, u) = seed_organization k e p request ip agent s in
     create_session k c e 3 t u agent ip t))"

end
