(* ===== verification/Access.thy ===== *)
theory Access
  imports Accounts
begin

text \<open>
  \<^verbatim>\<open>api/dependencies.py\<close>: who sends a request and what they may do. Every authenticated endpoint runs
  \<open>get_current_user\<close> and one of the permission guards before its handler.
\<close>

definition session_revoked :: app_error where
  "session_revoked = App_Error 401 ''SESSION_REVOKED''"

text \<open>
  \<^verbatim>\<open>isinstance(av, int) and user.auth_version == av\<close>: a Python \<^verbatim>\<open>bool\<close> is an \<^verbatim>\<open>int\<close>.
\<close>

definition version_matches :: "json \<Rightarrow> int \<Rightarrow> bool" where
  "version_matches av version = (case av of
     JInt n \<Rightarrow> n = version
   | JBool b \<Rightarrow> (if b then 1 else 0) = version
   | _ \<Rightarrow> False)"

definition session_claimed :: "env \<Rightarrow> user_row \<Rightarrow> json \<Rightarrow> database \<Rightarrow> bool" where
  "session_claimed e u sid s = (case sid of
     JStr family \<Rightarrow> session_is_active e (user_organization_id u) (user_id u) family s
   | _ \<Rightarrow> False)"

definition get_current_user :: "crypto \<Rightarrow> env \<Rightarrow> string option \<Rightarrow> database \<Rightarrow> app_error + user_row" where
  "get_current_user k e credentials s =
     need credentials (App_Error 401 ''AUTHENTICATION_REQUIRED'') (\<lambda>token.
     case decode_jwt k (now e) token of
       Inl Expired_Signature \<Rightarrow> Inl (App_Error 401 ''ACCESS_TOKEN_EXPIRED'')
     | Inl Invalid_Token \<Rightarrow> Inl (App_Error 401 ''INVALID_ACCESS_TOKEN'')
     | Inr c \<Rightarrow>
         require (claim_type c = ''access'') (App_Error 401 ''INVALID_ACCESS_TOKEN'') (
         need (find_user s (claim_org c) (claim_sub c)) session_revoked (\<lambda>u.
         require (account_active s u \<and> version_matches (claim_av c) (user_auth_version u) \<and>
             session_claimed e u (claim_sid c) s) session_revoked (Inr u))))"

record security_context =
  context_user :: user_row
  context_permissions :: "string list"

definition get_security_context :: "database \<Rightarrow> user_row \<Rightarrow> security_context" where
  "get_security_context s u = \<lparr>context_user = u, context_permissions = effective_permission_codes s u\<rparr>"

definition has_permission :: "security_context \<Rightarrow> string \<Rightarrow> bool" where
  "has_permission c permission = permission_is_granted (context_permissions c) permission"

definition permission_denied :: app_error where
  "permission_denied = App_Error 403 ''PERMISSION_DENIED''"

definition require_permission :: "string \<Rightarrow> database \<Rightarrow> user_row \<Rightarrow> app_error + user_row" where
  "require_permission permission s u =
     require (permission_is_granted (effective_permission_codes s u) permission) permission_denied (Inr u)"

text \<open>An empty list of permissions is a \<^verbatim>\<open>ValueError\<close> when the application starts.\<close>

definition require_permissions :: "string list \<Rightarrow> bool \<Rightarrow> security_context \<Rightarrow> app_error + security_context" where
  "require_permissions required any_of c =
     require (if any_of then list_ex (has_permission c) required else list_all (has_permission c) required)
       permission_denied (Inr c)"

definition require_permission_groups :: "string list list \<Rightarrow> security_context \<Rightarrow> app_error + security_context" where
  "require_permission_groups groups c =
     require (list_all (list_ex (has_permission c)) groups) permission_denied (Inr c)"

definition enforce_organization_scope :: "security_context \<Rightarrow> ident \<Rightarrow> app_error + unit" where
  "enforce_organization_scope c org =
     require (user_organization_id (context_user c) = org) (App_Error 404 ''RESOURCE_NOT_FOUND'') (Inr ())"

text \<open>The parts of an HTTP request that the audit context is made of.\<close>

record http_request =
  http_user_agent :: "string option"
  http_browser_brand :: "string option"
  http_platform :: "string option"
  http_mobile :: "string option"
  http_request_id :: "string option"
  http_client_host :: "string option"

definition device_metadata_of :: "http_request \<Rightarrow> (string \<times> string) list" where
  "device_metadata_of r =
     [(key, v). (key, x) \<leftarrow> [(''browser_brand'', http_browser_brand r), (''platform'', http_platform r),
        (''mobile'', http_mobile r)], v \<leftarrow> (case given x of None \<Rightarrow> [] | Some v \<Rightarrow> [v])]"

definition mutation_context_of :: "http_request \<Rightarrow> security_context \<Rightarrow> mutation_context" where
  "mutation_context_of r c =
     \<lparr>actor_user_id = user_id (context_user c), permissions_held = context_permissions c,
      request_id = http_request_id r, ip_address = http_client_host r,
      user_agent = map_option (take 512) (given (http_user_agent r)),
      device_metadata = (if device_metadata_of r = [] then None else Some (device_metadata_of r))\<rparr>"

text \<open>An authenticated and authorised request: the guards, then the handler.\<close>

definition guarded ::
  "crypto \<Rightarrow> env \<Rightarrow> string option \<Rightarrow> http_request \<Rightarrow> string list \<Rightarrow>
   (mutation_context \<Rightarrow> ident \<Rightarrow> database \<Rightarrow> (database, 'a) outcome) \<Rightarrow> database \<Rightarrow> (database, 'a) outcome" where
  "guarded k e credentials r required handler s =
     attempt s (get_current_user k e credentials s) (\<lambda>u.
     attempt s (require_permissions required False (get_security_context s u)) (\<lambda>c.
     handler (mutation_context_of r c) (user_organization_id u) s))"

end
