(* ===== verification/Roles.thy ===== *)
theory Roles
  imports Access
begin

text \<open>
  \<^verbatim>\<open>services/rbac.py\<close>: the roles of an organization, their permission codes and their assignment to users.
  The actor, its permissions and the data of the audit entry are the \<open>mutation_context\<close>.
\<close>

abbreviation find_role :: "database \<Rightarrow> ident \<Rightarrow> ident \<Rightarrow> role_row option" where
  "find_role s \<equiv> entity role_organization_id role_id (roles s)"

definition resource_not_found :: app_error where
  "resource_not_found = App_Error 404 ''RESOURCE_NOT_FOUND''"

section \<open>Views\<close>

record permission_view =
  pv_id :: ident
  pv_code :: string
  pv_description :: string

record role_view =
  rv_id :: ident
  rv_name :: string
  rv_description :: "string option"
  rv_is_system :: bool
  rv_permission_codes :: "string list"
  rv_user_count :: nat
  rv_created_at :: timestamp

record user_access_view =
  uav_id :: ident
  uav_email :: string
  uav_full_name :: string
  uav_is_active :: bool
  uav_role_ids :: "ident list"
  uav_role_names :: "string list"

record user_role_view =
  urv_user_id :: ident
  urv_role_ids :: "ident list"

definition list_permissions :: "database \<Rightarrow> ident \<Rightarrow> permission_view list" where
  "list_permissions s org =
     map (\<lambda>p. \<lparr>pv_id = perm_id p, pv_code = perm_code p, pv_description = perm_description p\<rparr>)
       (sort_key perm_code (filter (\<lambda>p. perm_organization_id p = org) (permissions s)))"

text \<open>\<^verbatim>\<open>_permission_codes_for_roles\<close>, for one of the roles.\<close>

definition permission_codes_for_role :: "database \<Rightarrow> ident \<Rightarrow> ident \<Rightarrow> string list" where
  "permission_codes_for_role s org role = sort (role_codes s org role)"

definition role_view_of :: "database \<Rightarrow> ident \<Rightarrow> role_row \<Rightarrow> role_view" where
  "role_view_of s org r =
     \<lparr>rv_id = role_id r, rv_name = role_name r, rv_description = role_description r, rv_is_system = role_is_system r,
      rv_permission_codes = permission_codes_for_role s org (role_id r),
      rv_user_count = count_rows (\<lambda>ur. urole_organization_id ur = org \<and> urole_role_id ur = role_id r) (user_roles s),
      rv_created_at = role_created_at r\<rparr>"

definition list_roles :: "database \<Rightarrow> ident \<Rightarrow> role_view list" where
  "list_roles s org =
     map (role_view_of s org) (sort_key role_name (filter (\<lambda>r. role_organization_id r = org) (roles s)))"

definition get_role :: "database \<Rightarrow> ident \<Rightarrow> ident \<Rightarrow> app_error + role_view" where
  "get_role s org rid = need (find_role s org rid) resource_not_found (\<lambda>r. Inr (role_view_of s org r))"

definition role_assignments :: "database \<Rightarrow> ident \<Rightarrow> (ident \<times> ident \<times> string) list" where
  "role_assignments s org =
     sort_key (\<lambda>(_, _, name). name)
       [(urole_user_id ur, role_id r, role_name r). ur \<leftarrow> user_roles s, urole_organization_id ur = org,
          r \<leftarrow> roles s, role_organization_id r = org, role_id r = urole_role_id ur]"

definition list_user_access :: "database \<Rightarrow> ident \<Rightarrow> user_access_view list" where
  "list_user_access s org =
     (let assigned = (\<lambda>u. map snd (filter (\<lambda>(user, _). user = user_id u) (role_assignments s org))) in
      map (\<lambda>u. \<lparr>uav_id = user_id u, uav_email = user_email u, uav_full_name = user_full_name u,
            uav_is_active = user_is_active u, uav_role_ids = map fst (assigned u), uav_role_names = map snd (assigned u)\<rparr>)
        (sort_key user_full_name (filter (\<lambda>u. user_organization_id u = org) (users s))))"

section \<open>What an actor may grant\<close>

definition ensure_can_grant :: "mutation_context \<Rightarrow> string list \<Rightarrow> bool" where
  "ensure_can_grant ctx codes = list_all (permission_is_granted (permissions_held ctx)) codes"

definition grant_not_allowed :: app_error where
  "grant_not_allowed = App_Error 403 ''PERMISSION_GRANT_NOT_ALLOWED''"

definition permissions_by_code :: "database \<Rightarrow> ident \<Rightarrow> string list \<Rightarrow> app_error + permission_row list" where
  "permissions_by_code s org codes =
     (if codes = [] then Inr []
      else let ps = filter (\<lambda>p. perm_organization_id p = org \<and> perm_code p \<in> set codes) (permissions s) in
        require (length ps = length codes) (App_Error 400 ''INVALID_PERMISSION_CODES'') (Inr ps))"

definition role_snapshot :: "role_row \<Rightarrow> string list \<Rightarrow> snapshot" where
  "role_snapshot r codes =
     [(''name'', JStr (role_name r)), (''description'', jopt JStr (role_description r)),
      (''permission_codes'', JList (map JStr (sort codes)))]"

section \<open>Roles\<close>

record role_create =
  rc_name :: string
  rc_description :: "string option"
  rc_permission_codes :: "string list"

definition role_create_ok :: "role_create \<Rightarrow> bool" where
  "role_create_ok p \<longleftrightarrow> 2 \<le> length (rc_name p) \<and> length (rc_name p) \<le> 100 \<and> distinct (rc_permission_codes p) \<and>
     list_all (\<lambda>c. c \<noteq> []) (rc_permission_codes p) \<and> length (rc_permission_codes p) \<le> 100"

text \<open>The unique index on \<^verbatim>\<open>(organization_id, name)\<close>; the role \<open>except\<close> is the one being renamed.\<close>

definition role_name_free :: "database \<Rightarrow> ident \<Rightarrow> ident \<Rightarrow> string \<Rightarrow> bool" where
  "role_name_free s org except name \<longleftrightarrow>
     list_all (\<lambda>r. \<not> (role_organization_id r = org \<and> role_name r = name \<and> role_id r \<noteq> except)) (roles s)"

definition role_name_exists :: app_error where
  "role_name_exists = App_Error 409 ''ROLE_NAME_EXISTS''"

definition new_role :: "env \<Rightarrow> ident \<Rightarrow> ident \<Rightarrow> role_create \<Rightarrow> role_row" where
  "new_role e i org p =
     \<lparr>role_id = i, role_organization_id = org, role_name = rc_name p, role_description = rc_description p,
      role_is_system = False, role_created_at = now e\<rparr>"

definition new_role_permissions ::
  "env \<Rightarrow> nat \<Rightarrow> ident \<Rightarrow> ident \<Rightarrow> permission_row list \<Rightarrow> role_permission_row list" where
  "new_role_permissions e n org rid ps =
     map (\<lambda>(j, p).
       \<lparr>rperm_id = uuid e (n + j), rperm_organization_id = org, rperm_role_id = rid,
        rperm_permission_id = perm_id p, rperm_created_at = now e\<rparr>) (enumerate 0 ps)"

definition create_role ::
  "env \<Rightarrow> mutation_context \<Rightarrow> ident \<Rightarrow> role_create \<Rightarrow> database \<Rightarrow> (database, role_view) outcome" where
  "create_role e ctx org p s =
     attempt s (permissions_by_code s org (rc_permission_codes p)) (\<lambda>ps.
     demand s (ensure_can_grant ctx (rc_permission_codes p)) grant_not_allowed (
     let r = new_role e (uuid e 0) org p in
     demand s (role_name_free s org (role_id r) (role_name r)) role_name_exists (
     let audit = audit_entry e (uuid e 1) org ctx ''role.created'' ''role'' (role_id r) None
           (Some (role_snapshot r (rc_permission_codes p)));
         t = add_audits [audit] (s\<lparr>roles := roles s @ [r],
           role_permissions := role_permissions s @ new_role_permissions e 2 org (role_id r) ps\<rparr>) in
     Return t (role_view_of t org r))))"

record role_update =
  rup_name :: "string option option"
  rup_description :: "string option option"
  rup_permission_codes :: "string list option"

definition without_role_permissions :: "ident \<Rightarrow> ident \<Rightarrow> role_permission_row list \<Rightarrow> role_permission_row list" where
  "without_role_permissions org rid = filter (\<lambda>rp. \<not> (rperm_organization_id rp = org \<and> rperm_role_id rp = rid))"

definition updated_role :: "role_update \<Rightarrow> role_row \<Rightarrow> role_row" where
  "updated_role p r =
     r\<lparr>role_name := (case rup_name p of Some (Some n) \<Rightarrow> n | _ \<Rightarrow> role_name r),
       role_description := (case rup_description p of Some d \<Rightarrow> d | None \<Rightarrow> role_description r)\<rparr>"

definition update_role ::
  "env \<Rightarrow> mutation_context \<Rightarrow> ident \<Rightarrow> ident \<Rightarrow> role_update \<Rightarrow> database \<Rightarrow> (database, role_view) outcome" where
  "update_role e ctx org rid p s =
     fetch s (find_role s org rid) resource_not_found (\<lambda>r.
     demand s (\<not> (role_is_system r \<and> role_name r = organization_administrator))
       (App_Error 409 ''SYSTEM_ROLE_IMMUTABLE'') (
     demand s (\<not> (role_is_system r \<and> (case rup_name p of None \<Rightarrow> False | Some n \<Rightarrow> n \<noteq> Some (role_name r))))
       (App_Error 409 ''SYSTEM_ROLE_NAME_IMMUTABLE'') (
     let current = permission_codes_for_role s org (role_id r);
         next = (case rup_permission_codes p of None \<Rightarrow> current | Some codes \<Rightarrow> codes) in
     attempt s (permissions_by_code s org next) (\<lambda>ps.
     demand s (rup_permission_codes p \<noteq> None \<longrightarrow> ensure_can_grant ctx next) grant_not_allowed (
     let r' = updated_role p r in
     demand s (role_name_free s org (role_id r) (role_name r')) role_name_exists (
     let audit = audit_entry e (uuid e 0) org ctx ''role.updated'' ''role'' (role_id r)
           (Some (role_snapshot r current)) (Some (role_snapshot r' next));
         rps = (if rup_permission_codes p = None then role_permissions s
                else without_role_permissions org (role_id r) (role_permissions s) @
                  new_role_permissions e 1 org (role_id r) ps);
         t = add_audits [audit] (s\<lparr>roles := put_row role_id r' (roles s), role_permissions := rps\<rparr>) in
     Return t (role_view_of t org r')))))))"

definition delete_role ::
  "env \<Rightarrow> mutation_context \<Rightarrow> ident \<Rightarrow> ident \<Rightarrow> database \<Rightarrow> (database, unit) outcome" where
  "delete_role e ctx org rid s =
     fetch s (find_role s org rid) resource_not_found (\<lambda>r.
     demand s (\<not> role_is_system r) (App_Error 409 ''SYSTEM_ROLE_IMMUTABLE'') (
     demand s (list_all (\<lambda>ur. \<not> (urole_organization_id ur = org \<and> urole_role_id ur = role_id r)) (user_roles s))
       (App_Error 409 ''ROLE_IN_USE'') (
     let audit = audit_entry e (uuid e 0) org ctx ''role.deleted'' ''role'' (role_id r)
           (Some (role_snapshot r (permission_codes_for_role s org (role_id r)))) None in
     Return (add_audits [audit] (s\<lparr>roles := filter (\<lambda>x. role_id x \<noteq> role_id r) (roles s),
       role_permissions := without_role_permissions org (role_id r) (role_permissions s)\<rparr>)) ())))"

section \<open>Assignments\<close>

definition role_ids_of :: "database \<Rightarrow> ident \<Rightarrow> ident \<Rightarrow> ident list" where
  "role_ids_of s org user =
     map urole_role_id (filter (\<lambda>ur. urole_organization_id ur = org \<and> urole_user_id ur = user) (user_roles s))"

definition codes_of_roles :: "database \<Rightarrow> ident \<Rightarrow> ident list \<Rightarrow> string list" where
  "codes_of_roles s org role_ids = concat (map (permission_codes_for_role s org) role_ids)"

definition administrator_role :: "database \<Rightarrow> ident \<Rightarrow> role_row option" where
  "administrator_role s org =
     find (\<lambda>r. role_organization_id r = org \<and> role_name r = organization_administrator \<and> role_is_system r) (roles s)"

text \<open>The users counted by \<^verbatim>\<open>_protect_last_administrator\<close>.\<close>

definition active_with_role :: "database \<Rightarrow> ident \<Rightarrow> ident \<Rightarrow> ident \<Rightarrow> ident list" where
  "active_with_role s org rid except =
     remdups [urole_user_id ur. ur \<leftarrow> user_roles s, urole_organization_id ur = org, urole_role_id ur = rid,
        urole_user_id ur \<noteq> except, u \<leftarrow> users s, user_organization_id u = org, user_id u = urole_user_id ur,
        user_is_active u]"

definition protect_last_administrator :: "database \<Rightarrow> ident \<Rightarrow> user_row \<Rightarrow> ident list \<Rightarrow> ident list \<Rightarrow> bool" where
  "protect_last_administrator s org u previous next \<longleftrightarrow> (case administrator_role s org of
     None \<Rightarrow> True
   | Some a \<Rightarrow> role_id a \<notin> set previous \<or> role_id a \<in> set next \<or>
       length (active_with_role s org (role_id a) (user_id u)) \<noteq> 0)"

definition new_user_roles :: "env \<Rightarrow> nat \<Rightarrow> ident \<Rightarrow> ident \<Rightarrow> role_row list \<Rightarrow> user_role_row list" where
  "new_user_roles e n org user rs =
     map (\<lambda>(j, r).
       \<lparr>urole_id = uuid e (n + j), urole_organization_id = org, urole_user_id = user, urole_role_id = role_id r,
        urole_created_at = now e\<rparr>) (enumerate 0 rs)"

definition replace_user_roles ::
  "env \<Rightarrow> mutation_context \<Rightarrow> ident \<Rightarrow> ident \<Rightarrow> ident list \<Rightarrow> database \<Rightarrow> (database, user_role_view) outcome" where
  "replace_user_roles e ctx org user role_ids s =
     demand s (user \<noteq> actor_user_id ctx) (App_Error 409 ''SELF_ROLE_CHANGE_NOT_ALLOWED'') (
     fetch s (find_user s org user) resource_not_found (\<lambda>u.
     let rs = filter (\<lambda>r. role_organization_id r = org \<and> role_id r \<in> set role_ids) (roles s) in
     demand s (length rs = length role_ids) (App_Error 400 ''INVALID_ROLE_IDS'') (
     demand s (ensure_can_grant ctx (codes_of_roles s org role_ids)) grant_not_allowed (
     let previous = role_ids_of s org (user_id u) in
     demand s (ensure_can_grant ctx (codes_of_roles s org previous)) grant_not_allowed (
     demand s (protect_last_administrator s org u previous role_ids) (App_Error 409 ''LAST_ADMINISTRATOR_REQUIRED'') (
     let kept = filter (\<lambda>ur. \<not> (urole_organization_id ur = org \<and> urole_user_id ur = user_id u)) (user_roles s);
         audit = audit_entry e (uuid e 0) org ctx ''user.roles_updated'' ''user'' (user_id u)
           (Some [(''role_ids'', JList (map JStr (sort previous)))]) (Some [(''role_ids'', JList (map JStr (sort role_ids)))]);
         t = add_audits [audit] (put_user (u\<lparr>user_auth_version := user_auth_version u + 1\<rparr>)
           (s\<lparr>user_roles := kept @ new_user_roles e 1 org (user_id u) rs\<rparr>)) in
     Return t \<lparr>urv_user_id = user_id u, urv_role_ids = sort role_ids\<rparr>))))))"

end
