(* ===== verification/Account_Safety.thy ===== *)
theory Account_Safety
  imports Roles
begin

text \<open>
  What the operations of \<^verbatim>\<open>services/auth.py\<close> and \<^verbatim>\<open>services/rbac.py\<close> keep: the sessions (one usable refresh
  token per family, one owner and one end of life per family) and the administration (every assignment
  refers to a role, an active administrator stays).
\<close>

section \<open>Steps\<close>

text \<open>The keys a request draws are new, also among the session identifiers.\<close>

definition fresh_session :: "env \<Rightarrow> database \<Rightarrow> bool" where
  "fresh_session e s \<longleftrightarrow> fresh_env e s \<and> (\<forall>n. list_all (\<lambda>r. rtok_family_id r \<noteq> uuid e n) (refresh_tokens s))"

inductive account_step :: "database \<Rightarrow> database \<Rightarrow> bool" where
  registration: "fresh_session e s \<Longrightarrow> account_step s (committed (register_organization k c e reg agent ip request s))"
| log_in: "fresh_session e s \<Longrightarrow> account_step s (committed (login k c e p agent ip s))"
| refresh: "fresh_session e s \<Longrightarrow> account_step s (committed (rotate_refresh_token k c e raw agent ip s))"
| log_out: "account_step s (committed (revoke_refresh_token k e raw s))"
| new_password: "account_step s (committed (change_password k e u pc request ip s))"
| forgotten: "account_step s (committed (request_password_reset k c e slug email request ip s))"
| reset: "account_step s (committed (reset_password k e raw password request ip s))"
| role_created: "fresh_env e s \<Longrightarrow> account_step s (committed (create_role e ctx org rc s))"
| role_updated: "account_step s (committed (update_role e ctx org rid ru s))"
| role_deleted: "account_step s (committed (delete_role e ctx org rid s))"
| roles_assigned: "account_step s (committed (replace_user_roles e ctx org user ids s))"

locale account_invariant =
  fixes inv :: "database \<Rightarrow> bool"
  assumes kept: "account_step s t \<Longrightarrow> inv s \<Longrightarrow> inv t"
begin

lemma always: "account_step\<^sup>*\<^sup>* s t \<Longrightarrow> inv s \<Longrightarrow> inv t"
  by (induction rule: rtranclp_induct) (auto intro: kept)

end

section \<open>Frames\<close>

lemma account_sel [simp]:
  "refresh_tokens (put_user u s) = refresh_tokens s" "users (put_user u s) = put_row user_id u (users s)"
  "roles (put_user u s) = roles s" "user_roles (put_user u s) = user_roles s"
  "role_permissions (put_user u s) = role_permissions s" "permissions (put_user u s) = permissions s"
  "organizations (put_user u s) = organizations s" "password_reset_tokens (put_user u s) = password_reset_tokens s"
  by (simp_all add: put_user_def)

lemma token_sel [simp]:
  "users (add_token r s) = users s" "roles (add_token r s) = roles s" "user_roles (add_token r s) = user_roles s"
  "role_permissions (add_token r s) = role_permissions s" "permissions (add_token r s) = permissions s"
  "organizations (add_token r s) = organizations s" "refresh_tokens (add_token r s) = refresh_tokens s @ [r]"
  "password_reset_tokens (add_token r s) = password_reset_tokens s"
  "users (put_token r s) = users s" "roles (put_token r s) = roles s" "user_roles (put_token r s) = user_roles s"
  "role_permissions (put_token r s) = role_permissions s" "permissions (put_token r s) = permissions s"
  "organizations (put_token r s) = organizations s" "refresh_tokens (put_token r s) = put_row rtok_id r (refresh_tokens s)"
  "password_reset_tokens (put_token r s) = password_reset_tokens s"
  by (simp_all add: add_token_def put_token_def)

lemma revoke_sel [simp]:
  "users (revoke e p s) = users s" "roles (revoke e p s) = roles s" "user_roles (revoke e p s) = user_roles s"
  "role_permissions (revoke e p s) = role_permissions s" "permissions (revoke e p s) = permissions s"
  "organizations (revoke e p s) = organizations s" "password_reset_tokens (revoke e p s) = password_reset_tokens s"
  by (simp_all add: revoke_def)

lemma revocations_sel [simp]:
  "users (revoke_family e f s) = users s" "roles (revoke_family e f s) = roles s"
  "user_roles (revoke_family e f s) = user_roles s" "organizations (revoke_family e f s) = organizations s"
  "users (revoke_user_sessions e org i s) = users s" "roles (revoke_user_sessions e org i s) = roles s"
  "user_roles (revoke_user_sessions e org i s) = user_roles s"
  "organizations (revoke_user_sessions e org i s) = organizations s"
  "password_reset_tokens (revoke_user_sessions e org i s) = password_reset_tokens s"
  by (simp_all add: revoke_family_def revoke_user_sessions_def)

lemma consume_sel [simp]:
  "users (consume_password_reset_tokens e u s) = users s" "roles (consume_password_reset_tokens e u s) = roles s"
  "user_roles (consume_password_reset_tokens e u s) = user_roles s"
  "organizations (consume_password_reset_tokens e u s) = organizations s"
  "refresh_tokens (consume_password_reset_tokens e u s) = refresh_tokens s"
  by (simp_all add: consume_password_reset_tokens_def)

lemma audits_sel [simp]:
  "users (add_audits as s) = users s" "roles (add_audits as s) = roles s" "user_roles (add_audits as s) = user_roles s"
  "role_permissions (add_audits as s) = role_permissions s" "permissions (add_audits as s) = permissions s"
  "organizations (add_audits as s) = organizations s" "refresh_tokens (add_audits as s) = refresh_tokens s"
  "password_reset_tokens (add_audits as s) = password_reset_tokens s"
  by (simp_all add: add_audits_def)

lemma with_password_sel [simp]:
  "user_id (with_password k p u) = user_id u" "user_organization_id (with_password k p u) = user_organization_id u"
  "user_is_active (with_password k p u) = user_is_active u"
  "user_auth_version (with_password k p u) = user_auth_version u + 1"
  "user_email (with_password k p u) = user_email u"
  "user_password_hash (with_password k p u) = hash_password k p"
  by (simp_all add: with_password_def)

lemma new_token_sel [simp]:
  "rtok_id (new_token k e i u f x a ag ip) = i" "rtok_family_id (new_token k e i u f x a ag ip) = f"
  "rtok_organization_id (new_token k e i u f x a ag ip) = user_organization_id u"
  "rtok_user_id (new_token k e i u f x a ag ip) = user_id u" "rtok_expires_at (new_token k e i u f x a ag ip) = x"
  "rtok_absolute_expires_at (new_token k e i u f x a ag ip) = a"
  "rtok_revoked_at (new_token k e i u f x a ag ip) = None"
  "rtok_token_hash (new_token k e i u f x a ag ip) = hash_refresh_token k (random_text k 0)"
  by (simp_all add: new_token_def new_refresh_token_def)

lemma rotated_token_sel [simp]:
  "rtok_id (rotated_token e i r) = rtok_id r" "rtok_family_id (rotated_token e i r) = rtok_family_id r"
  "rtok_organization_id (rotated_token e i r) = rtok_organization_id r"
  "rtok_user_id (rotated_token e i r) = rtok_user_id r" "rtok_expires_at (rotated_token e i r) = rtok_expires_at r"
  "rtok_absolute_expires_at (rotated_token e i r) = rtok_absolute_expires_at r"
  "rtok_revoked_at (rotated_token e i r) = Some (now e)" "rtok_token_hash (rotated_token e i r) = rtok_token_hash r"
  by (simp_all add: rotated_token_def)

lemma committed_session_of [simp]: "committed (session_of k c e u f s) = s"
  by (simp add: session_of_def attempt_def split: prod.split sum.split)

section \<open>Sessions\<close>

definition live_of :: "ident \<Rightarrow> refresh_token_row list \<Rightarrow> refresh_token_row list" where
  "live_of family rs = filter (\<lambda>r. rtok_family_id r = family \<and> rtok_revoked_at r = None) rs"

text \<open>Two tokens of a family have the same owner and the same end of life.\<close>

definition same_session :: "refresh_token_row \<Rightarrow> refresh_token_row \<Rightarrow> bool" where
  "same_session r r' \<longleftrightarrow> rtok_organization_id r = rtok_organization_id r' \<and> rtok_user_id r = rtok_user_id r' \<and>
     rtok_absolute_expires_at r = rtok_absolute_expires_at r'"

definition tokens_ok :: "refresh_token_row list \<Rightarrow> bool" where
  "tokens_ok rs \<longleftrightarrow> distinct (map rtok_id rs) \<and> distinct (map rtok_token_hash rs) \<and>
     (\<forall>r \<in> set rs. rtok_expires_at r \<le> rtok_absolute_expires_at r) \<and>
     (\<forall>r \<in> set rs. \<forall>r' \<in> set rs. rtok_family_id r = rtok_family_id r' \<longrightarrow> same_session r r') \<and>
     (\<forall>family. length (live_of family rs) \<le> 1)"

definition sessions_ok :: "database \<Rightarrow> bool" where
  "sessions_ok s \<longleftrightarrow> tokens_ok (refresh_tokens s)"

lemma tokens_okD:
  assumes "tokens_ok rs"
  shows "distinct (map rtok_id rs)" "distinct (map rtok_token_hash rs)" "length (live_of f rs) \<le> 1"
    and "r \<in> set rs \<Longrightarrow> rtok_expires_at r \<le> rtok_absolute_expires_at r"
    and "r \<in> set rs \<Longrightarrow> r' \<in> set rs \<Longrightarrow> rtok_family_id r = rtok_family_id r' \<Longrightarrow> same_session r r'"
  using assms by (auto simp: tokens_ok_def)

text \<open>A table whose rows keep everything but their revocation.\<close>

lemma tokens_ok_rewritten:
  assumes ok: "tokens_ok rs" and keys: "map rtok_id rs' = map rtok_id rs" "map rtok_token_hash rs' = map rtok_token_hash rs"
    and rows: "\<And>x. x \<in> set rs' \<Longrightarrow> \<exists>y \<in> set rs. rtok_family_id x = rtok_family_id y \<and> same_session x y \<and>
      rtok_expires_at x = rtok_expires_at y"
    and live: "\<And>f. length (live_of f rs') \<le> length (live_of f rs)"
  shows "tokens_ok rs'"
  unfolding tokens_ok_def
proof (intro conjI ballI allI impI)
  show "distinct (map rtok_id rs')" "distinct (map rtok_token_hash rs')" "length (live_of f rs') \<le> 1" for f
    using tokens_okD(1-3) [OF ok] keys le_trans [OF live] by auto
  fix x assume "x \<in> set rs'"
  then obtain y where y: "y \<in> set rs" "rtok_family_id x = rtok_family_id y" "same_session x y" "rtok_expires_at x = rtok_expires_at y"
    using rows by blast
  with tokens_okD(4) [OF ok y(1)] show "rtok_expires_at x \<le> rtok_absolute_expires_at x" by (simp add: same_session_def)
  fix x' assume "x' \<in> set rs'" "rtok_family_id x = rtok_family_id x'"
  with rows [of x'] obtain y' where "y' \<in> set rs" "rtok_family_id x' = rtok_family_id y'" "same_session x' y'" by blast
  with y tokens_okD(5) [OF ok y(1), of y'] \<open>rtok_family_id x = rtok_family_id x'\<close>
  show "same_session x x'" by (simp add: same_session_def)
qed

text \<open>A bulk revocation.\<close>

lemma live_of_update:
  "length (live_of f (update_where p (\<lambda>r. r\<lparr>rtok_revoked_at := Some t\<rparr>) rs)) \<le> length (live_of f rs)"
  by (induction rs) (auto simp: live_of_def update_where_def)

lemma tokens_ok_update: "tokens_ok rs \<Longrightarrow> tokens_ok (update_where p (\<lambda>r. r\<lparr>rtok_revoked_at := Some t\<rparr>) rs)"
  by (erule tokens_ok_rewritten)
    (auto simp: map_update_where live_of_update set_update_where same_session_def intro: rev_bexI)

lemma revoke_sessions: "sessions_ok s \<Longrightarrow> sessions_ok (revoke e p s)"
  by (simp add: sessions_ok_def revoke_def tokens_ok_update)

lemma live_of_put: "rtok_revoked_at x \<noteq> None \<Longrightarrow> length (live_of f (put_row rtok_id x rs)) \<le> length (live_of f rs)"
  unfolding live_of_def put_row_def by (induction rs) auto

lemma put_same_hash:
  "distinct (map rtok_id rs) \<Longrightarrow> r \<in> set rs \<Longrightarrow> rtok_id x = rtok_id r \<Longrightarrow> rtok_token_hash x = rtok_token_hash r \<Longrightarrow>
   map rtok_token_hash (put_row rtok_id x rs) = map rtok_token_hash rs"
  by (auto simp: put_row_def distinct_map inj_on_def)

lemma tokens_ok_put:
  assumes "tokens_ok rs" "r \<in> set rs" "rtok_id x = rtok_id r" "rtok_family_id x = rtok_family_id r"
    "rtok_token_hash x = rtok_token_hash r" "same_session x r" "rtok_expires_at x = rtok_expires_at r" "rtok_revoked_at x \<noteq> None"
  shows "tokens_ok (put_row rtok_id x rs)"
  using assms(1)
proof (rule tokens_ok_rewritten)
  fix y assume "y \<in> set (put_row rtok_id x rs)"
  then have "y = x \<or> y \<in> set rs" by (auto simp: set_put_row split: if_splits)
  with assms show "\<exists>z \<in> set rs. rtok_family_id y = rtok_family_id z \<and> same_session y z \<and> rtok_expires_at y = rtok_expires_at z"
    by (auto simp: same_session_def)
qed (use assms tokens_okD(1) [OF assms(1)] in \<open>simp_all add: live_of_put put_same_hash\<close>)

lemma live_of_single:
  assumes "tokens_ok rs" "r \<in> set rs" "rtok_revoked_at r = None"
  shows "live_of (rtok_family_id r) rs = [r]"
proof -
  from assms have "r \<in> set (live_of (rtok_family_id r) rs)" by (simp add: live_of_def)
  with tokens_okD(3) [OF assms(1), of "rtok_family_id r"] show ?thesis
    by (cases "live_of (rtok_family_id r) rs") auto
qed

lemma live_of_rotated:
  assumes "tokens_ok rs" "r \<in> set rs" "rtok_revoked_at r = None" "rtok_id x = rtok_id r" "rtok_revoked_at x \<noteq> None"
  shows "live_of (rtok_family_id r) (put_row rtok_id x rs) = []"
  using filter_put_single [OF live_of_single [OF assms(1-3), unfolded live_of_def] tokens_okD(1) [OF assms(1)] assms(4)]
    assms(5) by (simp add: live_of_def)

lemma tokens_ok_add:
  assumes ok: "tokens_ok rs" and free: "id_free rtok_id (rtok_id x) rs" "list_all (\<lambda>r. rtok_token_hash r \<noteq> rtok_token_hash x) rs"
    and x: "rtok_expires_at x \<le> rtok_absolute_expires_at x"
    and family: "\<And>r. r \<in> set rs \<Longrightarrow> rtok_family_id r = rtok_family_id x \<Longrightarrow> same_session r x" "live_of (rtok_family_id x) rs = []"
  shows "tokens_ok (rs @ [x])"
  unfolding tokens_ok_def
proof (intro conjI ballI allI impI)
  show "distinct (map rtok_id (rs @ [x]))" "distinct (map rtok_token_hash (rs @ [x]))"
    using tokens_okD(1,2) [OF ok] free by (auto simp: id_free_def list_all_iff)
  show "rtok_expires_at r \<le> rtok_absolute_expires_at r" if "r \<in> set (rs @ [x])" for r
    using that tokens_okD(4) [OF ok] x by auto
  show "length (live_of f (rs @ [x])) \<le> 1" for f
    using tokens_okD(3) [OF ok, of f] family(2) by (auto simp: live_of_def)
  fix r r' assume "r \<in> set (rs @ [x])" "r' \<in> set (rs @ [x])" "rtok_family_id r = rtok_family_id r'"
  with tokens_okD(5) [OF ok, of r r'] family(1) [of r] family(1) [of r'] show "same_session r r'"
    by (auto simp: same_session_def)
qed

lemmas sessions_intros = outcome_intros [where P = sessions_ok]

lemma sessions_ok_frame: "refresh_tokens t = refresh_tokens s \<Longrightarrow> sessions_ok s \<Longrightarrow> sessions_ok t"
  by (simp add: sessions_ok_def)

lemma set_password_sessions: "sessions_ok s \<Longrightarrow> sessions_ok (set_password e u a s)"
  by (rule sessions_ok_frame [of _ "revoke_user_sessions e (user_organization_id u) (user_id u) (put_user u s)"])
    (simp_all add: set_password_def revoke_user_sessions_def revoke_sessions sessions_ok_frame [of "put_user u s" s])

lemma fresh_sessionD:
  assumes "fresh_session e s"
  shows "id_free rtok_id (uuid e n) (refresh_tokens s)" "r \<in> set (refresh_tokens s) \<Longrightarrow> rtok_family_id r \<noteq> uuid e n"
    and "live_of (uuid e n) (refresh_tokens s) = []" "fresh_env e s"
  using assms fresh_envD(3) [of e s n]
  by (auto simp: fresh_session_def list_all_iff live_of_def filter_empty_conv)

lemma create_session_sessions:
  assumes "sessions_ok s0" "sessions_ok s" "refresh_tokens s = refresh_tokens s'" "fresh_session e s'"
  shows "sessions_ok (committed (create_session k c e n s0 u agent ip s))"
  unfolding create_session_def Let_def
proof (intro sessions_intros assms(1))
  assume "token_hash_free (rtok_token_hash (new_token k e (uuid e (Suc n)) u (uuid e n)
      (min (now e + days (refresh_token_idle_days c)) (now e + days (refresh_token_ttl_days c)))
      (now e + days (refresh_token_ttl_days c)) agent ip)) s"
  then show "sessions_ok (committed (session_of k c e u (uuid e n) (add_token (new_token k e (uuid e (Suc n)) u (uuid e n)
      (min (now e + days (refresh_token_idle_days c)) (now e + days (refresh_token_ttl_days c)))
      (now e + days (refresh_token_ttl_days c)) agent ip) s)))"
    using assms fresh_sessionD [OF assms(4)] unfolding committed_session_of sessions_ok_def token_sel
    by (intro tokens_ok_add) (auto simp: token_hash_free_def)
qed

lemma find_tokenD:
  "find_token k s raw = Some r \<Longrightarrow> r \<in> set (refresh_tokens s) \<and> rtok_token_hash r = hash_refresh_token k raw"
  unfolding find_token_def by (drule find_SomeD) simp

text \<open>The exchange of the one usable token of a family for its successor.\<close>

lemma rotation_sessions:
  assumes ok: "sessions_ok s" and r: "r \<in> set (refresh_tokens s)" "rtok_revoked_at r = None"
    and x: "rtok_family_id x = rtok_family_id r" "same_session r x" "rtok_expires_at x \<le> rtok_absolute_expires_at x"
    and free: "id_free rtok_id (rtok_id x) (refresh_tokens s)" "token_hash_free (rtok_token_hash x) s"
  shows "sessions_ok (put_token (rotated_token e (rtok_id x) r) (add_token x s))"
proof -
  let ?r = "rotated_token e (rtok_id x) r"
  let ?rs = "put_row rtok_id ?r (refresh_tokens s)"
  note ok = ok [unfolded sessions_ok_def]
  have put: "tokens_ok ?rs" using tokens_ok_put [OF ok r(1), of ?r] by (simp add: same_session_def)
  have same: "put_row rtok_id ?r (refresh_tokens s @ [x]) = ?rs @ [x]"
    using free(1) r(1) by (auto simp: put_row_def id_free_def list_all_iff)
  have "tokens_ok (?rs @ [x])"
  proof (rule tokens_ok_add [OF put])
    show "id_free rtok_id (rtok_id x) ?rs" "list_all (\<lambda>r. rtok_token_hash r \<noteq> rtok_token_hash x) ?rs"
      using free r(1) by (auto simp: id_free_def list_all_iff set_put_row token_hash_free_def)
    show "same_session r' x" if "r' \<in> set ?rs" "rtok_family_id r' = rtok_family_id x" for r'
      using that x tokens_okD(5) [OF ok _ r(1)] by (auto simp: set_put_row same_session_def split: if_splits)
  qed (use live_of_rotated [OF ok r, of ?r] x in simp_all)
  then show ?thesis by (simp add: sessions_ok_def same)
qed

lemma rotate_sessions:
  assumes ok: "sessions_ok s" and fresh: "fresh_session e s"
  shows "sessions_ok (committed (rotate_refresh_token k c e raw agent ip s))"
proof -
  have expired: "sessions_ok (put_token (r\<lparr>rtok_revoked_at := Some t\<rparr>) s)" if "r \<in> set (refresh_tokens s)" for r t
    using tokens_ok_put(1) [OF ok [unfolded sessions_ok_def] that] by (simp add: sessions_ok_def same_session_def)
  show ?thesis
    unfolding rotate_refresh_token_def Let_def
    by (intro sessions_intros ok)
      (auto simp: revoke_family_def revoke_sessions ok same_session_def fresh_sessionD(1) [OF fresh]
        dest!: find_tokenD entityD intro!: expired rotation_sessions [of s _ "new_token k e (uuid e 0) u f x a ag p" for u f x a ag p, simplified])
qed

lemma other_account_steps_sessions:
  assumes ok: "sessions_ok s"
  shows "sessions_ok (committed (revoke_refresh_token k e raw s))"
    "sessions_ok (committed (change_password k e u pc request ip s))"
    "sessions_ok (committed (request_password_reset k c e slug email request ip s))"
    "sessions_ok (committed (reset_password k e raw password request ip s))"
    "sessions_ok (committed (create_role e ctx org rc s))"
    "sessions_ok (committed (update_role e ctx org rid ru s))"
    "sessions_ok (committed (delete_role e ctx org rid s))"
    "sessions_ok (committed (replace_user_roles e ctx org user ids s))"
  unfolding revoke_refresh_token_def change_password_def request_password_reset_def reset_password_def
    create_role_def update_role_def delete_role_def replace_user_roles_def Let_def
  by (intro sessions_intros ok; simp add: ok revoke_family_def revoke_sessions set_password_sessions sessions_ok_frame [OF _ ok])+

lemma sign_on_sessions:
  assumes ok: "sessions_ok s" and fresh: "fresh_session e s"
  shows "sessions_ok (committed (login k c e p agent ip s))"
    "sessions_ok (committed (register_organization k c e reg agent ip request s))"
proof -
  show "sessions_ok (committed (login k c e p agent ip s))"
    unfolding login_def Let_def
    by (intro sessions_intros ok create_session_sessions [OF _ _ _ fresh]) (simp_all add: sessions_ok_frame [OF _ ok])
  obtain t u where t: "seed_organization k e reg request ip agent s = (t, u)" by (rule prod.exhaust)
  then have seeded: "refresh_tokens t = refresh_tokens s" by (auto simp: seed_organization_def Let_def)
  show "sessions_ok (committed (register_organization k c e reg agent ip request s))"
    unfolding register_organization_def Let_def t prod.case
    by (intro sessions_intros ok create_session_sessions [OF _ _ seeded fresh] sessions_ok_frame [OF seeded ok])
qed

interpretation sessions: account_invariant sessions_ok
proof
  fix s t assume "account_step s t" "sessions_ok s"
  then show "sessions_ok t"
    by cases (simp_all add: rotate_sessions sign_on_sessions other_account_steps_sessions)
qed

end
