(* ===== verification/Role_Safety.thy ===== *)
theory Role_Safety
  imports Account_Safety
begin

text \<open>
  What the operations on accounts and roles keep of the administration of an organization: every
  assignment refers to a role, the Organization Administrator role stays, and so does an active administrator.
  And what a user can gain: no permission that the acting user does not hold.
\<close>

section \<open>The administration\<close>

definition assigned :: "database \<Rightarrow> user_role_row \<Rightarrow> bool" where
  "assigned s ur \<longleftrightarrow> (\<exists>r \<in> set (roles s). role_id r = urole_role_id ur \<and> role_organization_id r = urole_organization_id ur)"

definition roles_ok :: "database \<Rightarrow> bool" where
  "roles_ok s \<longleftrightarrow> distinct (map user_id (users s)) \<and> distinct (map role_id (roles s)) \<and> list_all (assigned s) (user_roles s)"

definition administers :: "database \<Rightarrow> ident \<Rightarrow> ident \<Rightarrow> user_row \<Rightarrow> bool" where
  "administers s org role u \<longleftrightarrow> user_organization_id u = org \<and> user_is_active u \<and>
     (\<exists>ur \<in> set (user_roles s). urole_organization_id ur = org \<and> urole_role_id ur = role \<and> urole_user_id ur = user_id u)"

definition administered :: "ident \<Rightarrow> database \<Rightarrow> bool" where
  "administered org s \<longleftrightarrow> roles_ok s \<and>
     (\<exists>a. administrator_role s org = Some a \<and> (\<exists>u \<in> set (users s). administers s org (role_id a) u))"

lemma roles_okD:
  "roles_ok s \<Longrightarrow> distinct (map user_id (users s))" "roles_ok s \<Longrightarrow> distinct (map role_id (roles s))"
  "roles_ok s \<Longrightarrow> ur \<in> set (user_roles s) \<Longrightarrow> assigned s ur"
  by (auto simp: roles_ok_def list_all_iff)

lemma administrator_roleD:
  "administrator_role s org = Some a \<Longrightarrow> a \<in> set (roles s) \<and> role_organization_id a = org \<and>
     role_name a = organization_administrator \<and> role_is_system a"
  unfolding administrator_role_def by (drule find_SomeD) auto

section \<open>Operations that leave roles and their users alone\<close>

definition person :: "user_row \<Rightarrow> ident \<times> ident \<times> bool" where
  "person u = (user_id u, user_organization_id u, user_is_active u)"

definition same_people :: "database \<Rightarrow> database \<Rightarrow> bool" where
  "same_people s t \<longleftrightarrow> map person (users t) = map person (users s) \<and> roles t = roles s \<and> user_roles t = user_roles s"

lemma same_people_refl [simp]: "same_people s s"
  by (simp add: same_people_def)

lemma same_people_ids: "same_people s t \<Longrightarrow> map user_id (users t) = map user_id (users s)"
  unfolding same_people_def by (auto dest!: arg_cong [of _ _ "map fst"] simp: person_def comp_def)

lemma same_people_user: "same_people s t \<Longrightarrow> u \<in> set (users s) \<Longrightarrow> \<exists>v \<in> set (users t). person v = person u"
  unfolding same_people_def by (metis (no_types, lifting) image_iff list.set_map)

lemma same_people_roles_ok: "same_people s t \<Longrightarrow> roles_ok s \<Longrightarrow> roles_ok t"
  using same_people_ids [of s t] by (simp add: roles_ok_def same_people_def assigned_def [abs_def])

lemma same_people_administered:
  assumes "same_people s t" "administered org s"
  shows "administered org t"
proof -
  from assms(2) obtain a u where a: "administrator_role s org = Some a" "u \<in> set (users s)" "administers s org (role_id a) u"
    and ok: "roles_ok s" unfolding administered_def by blast
  from same_people_user [OF assms(1) a(2)] obtain v where "v \<in> set (users t)" "person v = person u" by blast
  with a(3) assms(1) have "administers t org (role_id a) v"
    by (simp add: administers_def person_def same_people_def)
  moreover have "administrator_role t org = Some a"
    using a(1) assms(1) by (simp add: administrator_role_def same_people_def)
  ultimately show ?thesis
    using same_people_roles_ok [OF assms(1) ok] \<open>v \<in> set (users t)\<close> unfolding administered_def by blast
qed

lemma same_people_put:
  assumes "distinct (map user_id (users s))" "u \<in> set (users s)" "person v = person u"
    "users t = put_row user_id v (users s)" "roles t = roles s" "user_roles t = user_roles s"
  shows "same_people s t"
  using assms unfolding same_people_def person_def put_row_def
  by (auto simp: distinct_map inj_on_def)

lemma same_people_frame:
  "users t = users s \<Longrightarrow> roles t = roles s \<Longrightarrow> user_roles t = user_roles s \<Longrightarrow> same_people s t"
  by (simp add: same_people_def)

lemma set_password_sel [simp]:
  "users (set_password e u a s) = put_row user_id u (users s)" "roles (set_password e u a s) = roles s"
  "user_roles (set_password e u a s) = user_roles s"
  by (simp_all add: set_password_def)

lemma person_with_password [simp]: "person (with_password k p u) = person u"
  by (simp add: person_def)

lemmas people_intros = outcome_intros [where P = "same_people s" for s]

lemma set_password_people:
  "distinct (map user_id (users s)) \<Longrightarrow> u \<in> set (users s) \<Longrightarrow> same_people s (set_password e (with_password k p u) a s)"
  by (rule same_people_put [of s u "with_password k p u"]) simp_all

lemma change_password_people:
  assumes "distinct (map user_id (users s))"
  shows "same_people s (committed (change_password k e u pc request ip s))"
  unfolding change_password_def Let_def
  by (intro people_intros same_people_refl) (auto dest!: entityD intro: set_password_people [OF assms])

lemma reset_password_people:
  assumes "distinct (map user_id (users s))"
  shows "same_people s (committed (reset_password k e raw password request ip s))"
  unfolding reset_password_def Let_def
  by (intro people_intros same_people_refl) (auto dest!: entityD intro: set_password_people [OF assms])

lemma token_steps_people:
  shows "same_people s (committed (request_password_reset k c e slug email request ip s))"
    and "same_people s (committed (revoke_refresh_token k e raw s))"
    and "same_people s (committed (rotate_refresh_token k c e raw agent ip s))"
  unfolding request_password_reset_def revoke_refresh_token_def rotate_refresh_token_def Let_def
  by (intro people_intros same_people_refl; simp add: same_people_frame)+

lemma login_people:
  assumes ids: "distinct (map user_id (users s))"
  shows "same_people s (committed (login k c e p agent ip s))"
proof -
  have "same_people s (add_token x (put_user (u\<lparr>user_password_hash := h, user_last_login_at := t\<rparr>) s))"
    if "u \<in> set (users s)" for x u h t
    by (rule same_people_put [OF ids that, of "u\<lparr>user_password_hash := h, user_last_login_at := t\<rparr>"])
      (simp_all add: person_def)
  then show ?thesis
    unfolding login_def create_session_def Let_def user_by_login_def
    by (intro people_intros same_people_refl) (auto dest!: find_SomeD)
qed

section \<open>A new organization\<close>

lemma template_roles_sel:
  "map role_id (template_roles e n org) = map (\<lambda>j. uuid e (n + j)) [0..<length role_templates]"
  "map role_name (template_roles e n org) = map tmpl_name role_templates"
  "list_all (\<lambda>r. role_organization_id r = org \<and> role_is_system r) (template_roles e n org)"
  by (simp_all add: template_roles_def comp_def case_prod_beta map_enumerate_fst [where g = "\<lambda>i. uuid e (n + i)"]
      map_enumerate_snd list_all_iff)

lemma first_template: "\<exists>r. find (\<lambda>r. role_name r = organization_administrator) (template_roles e n org) = Some r"
proof -
  have "organization_administrator \<in> set (map role_name (template_roles e n org))"
    unfolding template_roles_sel by (simp add: role_templates_def organization_administrator_def)
  then have "find (\<lambda>r. role_name r = organization_administrator) (template_roles e n org) \<noteq> None"
    unfolding find_None by (metis (mono_tags, lifting) image_iff list.set_map)
  then show ?thesis by blast
qed

lemma seed_organization_sel:
  assumes "seed_organization k e p request ip agent s = (t, u)"
  obtains a ur where "users t = users s @ [u]" "roles t = roles s @ template_roles e (5 + length permission_catalog) (uuid e 0)"
    "user_roles t = user_roles s @ [ur]" "user_id u = uuid e 1" "user_organization_id u = uuid e 0" "user_is_active u"
    "find (\<lambda>r. role_name r = organization_administrator) (template_roles e (5 + length permission_catalog) (uuid e 0)) = Some a"
    "urole_user_id ur = user_id u" "urole_role_id ur = role_id a" "urole_organization_id ur = uuid e 0"
proof -
  obtain a where "find (\<lambda>r. role_name r = organization_administrator)
      (template_roles e (5 + length permission_catalog) (uuid e 0)) = Some a" using first_template by blast
  with assms show ?thesis
    by (intro that) (auto simp: seed_organization_def Let_def new_administrator_def new_organization_def)
qed

lemma seed_roles_ok:
  assumes ok: "roles_ok s" and fresh: "fresh_env e s" and t: "seed_organization k e p request ip agent s = (t, u)"
  shows "roles_ok t"
  using t
proof (rule seed_organization_sel)
  let ?rs = "template_roles e (5 + length permission_catalog) (uuid e 0)"
  fix a ur
  assume sel: "users t = users s @ [u]" "roles t = roles s @ ?rs" "user_roles t = user_roles s @ [ur]" "user_id u = uuid e 1"
    and a: "find (\<lambda>r. role_name r = organization_administrator) ?rs = Some a"
    and ur: "urole_role_id ur = role_id a" "urole_organization_id ur = uuid e 0"
  have free: "uuid e n \<noteq> role_id r" if "r \<in> set (roles s)" for n r
    using that fresh_envD(2) [OF fresh, of n] by (auto simp: id_free_def list_all_iff)
  have "distinct (map user_id (users t))"
    using roles_okD(1) [OF ok] fresh_envD(5) [OF fresh, of 1] sel by (auto simp: id_free_def list_all_iff)
  moreover have "distinct (map role_id ?rs)" "set (map role_id ?rs) \<inter> set (map role_id (roles s)) = {}"
    unfolding template_roles_sel using fresh by (auto simp: distinct_map inj_on_def free simp del: upt_Suc)
  then have "distinct (map role_id (roles t))" using roles_okD(2) [OF ok] by (auto simp: sel)
  moreover have "assigned t x" if "x \<in> set (user_roles s)" for x
    using roles_okD(3) [OF ok that] by (auto simp: assigned_def sel)
  moreover from find_SomeD [OF a] have "a \<in> set ?rs" by blast
  then have "assigned t ur" using template_roles_sel(3) [of "uuid e 0"] ur by (auto simp: assigned_def sel list_all_iff)
  ultimately show ?thesis by (auto simp: roles_ok_def list_all_iff sel(3))
qed

lemma find_append: "find p (xs @ ys) = (case find p xs of None \<Rightarrow> find p ys | Some x \<Rightarrow> Some x)"
  by (induction xs) auto

lemma more_rows_administered:
  assumes "administered org s" "roles_ok t" "users t = users s @ us" "roles t = roles s @ rs" "user_roles t = user_roles s @ urs"
  shows "administered org t"
proof -
  from assms(1) obtain a u where a: "administrator_role s org = Some a" "u \<in> set (users s)" "administers s org (role_id a) u"
    unfolding administered_def by blast
  from a(1) have "administrator_role t org = Some a"
    by (simp add: administrator_role_def assms(4) find_append)
  with a assms show ?thesis unfolding administered_def administers_def by auto
qed

lemma registration_administered:
  assumes s: "administered org s" and fresh: "fresh_env e s"
  shows "administered org (committed (register_organization k c e p agent ip request s))"
proof -
  obtain t u where t: "seed_organization k e p request ip agent s = (t, u)" by (rule prod.exhaust)
  have ok: "roles_ok t" using s seed_roles_ok [OF _ fresh t] by (simp add: administered_def)
  have t': "administered org t"
    using t by (rule seed_organization_sel) (rule more_rows_administered [OF s ok], assumption+)
  have "administered org (add_token x t)" for x
    by (rule same_people_administered [OF _ t']) (simp add: same_people_frame)
  then show ?thesis
    unfolding register_organization_def create_session_def Let_def t prod.case
    by (intro outcome_intros [where P = "administered org"] s t') simp
qed

section \<open>Changes of roles\<close>

lemma assigned_frame: "roles t = roles s \<Longrightarrow> assigned t = assigned s"
  by (simp add: assigned_def [abs_def])

lemma create_role_administered:
  assumes s: "administered org s" and fresh: "fresh_env e s"
  shows "administered org (committed (create_role e ctx org' rc s))"
  unfolding create_role_def Let_def
proof (intro outcome_intros [where P = "administered org"] s)
  fix ps
  let ?r = "new_role e (uuid e 0) org' rc"
  let ?t = "add_audits [audit_entry e (uuid e 1) org' ctx ''role.created'' ''role'' (role_id ?r) None
      (Some (role_snapshot ?r (rc_permission_codes rc)))] (s\<lparr>roles := roles s @ [?r],
        role_permissions := role_permissions s @ new_role_permissions e 2 org' (role_id ?r) ps\<rparr>)"
  have ok: "roles_ok s" using s by (simp add: administered_def)
  have "roles_ok ?t"
    using ok fresh_envD(2) [OF fresh, of 0] by (auto simp: roles_ok_def assigned_def list_all_iff id_free_def new_role_def)
  then show "administered org (committed (Return ?t (role_view_of ?t org' ?r)))"
    using more_rows_administered [OF s, of ?t "[]" "[?r]" "[]"] by simp
qed

text \<open>A table of roles in which the administrator role of the organization is the same row.\<close>

lemma find_rewritten:
  assumes "find p xs = Some a" "f a = a" "\<And>x. x \<in> set xs \<Longrightarrow> p (f x) = p x"
  shows "find p (map f xs) = Some a"
  using assms by (induction xs) (auto split: if_splits)

lemma find_filtered:
  assumes "find p xs = Some a" "q a" shows "find p (filter q xs) = Some a"
  using assms by (induction xs) (auto split: if_splits)

lemma same_administrator:
  assumes s: "administered org s" and ok: "roles_ok t" and same: "users t = users s" "user_roles t = user_roles s"
    and role: "\<And>a. administrator_role s org = Some a \<Longrightarrow> administrator_role t org = Some a"
  shows "administered org t"
  using s role ok unfolding administered_def administers_def same by blast

lemma updated_role_sel [simp]:
  "role_id (updated_role p r) = role_id r" "role_organization_id (updated_role p r) = role_organization_id r"
  "role_is_system (updated_role p r) = role_is_system r"
  by (simp_all add: updated_role_def)

lemma put_role_administered:
  assumes s: "administered org s" and r: "r \<in> set (roles s)" and kept: "role_id x = role_id r"
    "role_organization_id x = role_organization_id r" "role_is_system x = role_is_system r"
    and system: "role_is_system r \<Longrightarrow> role_name r \<noteq> organization_administrator \<and> role_name x = role_name r"
    and t: "users t = users s" "user_roles t = user_roles s" "roles t = put_row role_id x (roles s)"
  shows "administered org t"
proof (rule same_administrator [OF s _ t(1,2)])
  have ok: "roles_ok s" using s by (simp add: administered_def)
  have same: "y = r" if "y \<in> set (roles s)" "role_id y = role_id r" for y
    using that r roles_okD(2) [OF ok] by (metis distinct_map inj_onD)
  have "assigned t ur" if "ur \<in> set (user_roles s)" for ur
    using roles_okD(3) [OF ok that] r kept same unfolding assigned_def t(3) set_put_row by (auto 5 3)
  then show "roles_ok t" using ok kept(1) by (simp add: roles_ok_def t list_all_iff)
  fix a assume a: "administrator_role s org = Some a"
  then show "administrator_role t org = Some a"
    unfolding administrator_role_def t(3) put_row_def
    by (rule find_rewritten) (use administrator_roleD [OF a] same kept system in auto)
qed

lemma update_role_administered:
  assumes s: "administered org s"
  shows "administered org (committed (update_role e ctx org' rid p s))"
  unfolding update_role_def Let_def
proof (intro outcome_intros [where P = "administered org"] s, elim entityD [elim_format] conjE)
  fix r ps
  assume r: "r \<in> set (roles s)" and guards: "\<not> (role_is_system r \<and> role_name r = organization_administrator)"
    "\<not> (role_is_system r \<and> (case rup_name p of None \<Rightarrow> False | Some n \<Rightarrow> n \<noteq> Some (role_name r)))"
  show "administered org (committed (Return (add_audits as (s\<lparr>roles := put_row role_id (updated_role p r) (roles s),
      role_permissions := rps\<rparr>)) v))" for as rps v
    unfolding outcome.sel
    by (rule put_role_administered [OF s r, of "updated_role p r"])
      (use guards in \<open>auto simp: updated_role_def split: option.splits\<close>)
qed

lemma delete_role_administered:
  assumes s: "administered org s"
  shows "administered org (committed (delete_role e ctx org' rid s))"
  unfolding delete_role_def Let_def
proof (intro outcome_intros [where P = "administered org"] s)
  fix r assume "find_role s org' rid = Some r"
  then have r: "r \<in> set (roles s)" "role_organization_id r = org'" by (auto dest: entityD)
  assume system: "\<not> role_is_system r"
    and unused: "list_all (\<lambda>ur. \<not> (urole_organization_id ur = org' \<and> urole_role_id ur = role_id r)) (user_roles s)"
  have ok: "roles_ok s" using s by (simp add: administered_def)
  have same: "y = r" if "y \<in> set (roles s)" "role_id y = role_id r" for y
    using that r roles_okD(2) [OF ok] by (metis distinct_map inj_onD)
  show "administered org (committed (Return (add_audits as (s\<lparr>roles := filter (\<lambda>x. role_id x \<noteq> role_id r) (roles s),
      role_permissions := rps\<rparr>)) v))" for as rps v
    unfolding outcome.sel
  proof (rule same_administrator [OF s])
    let ?t = "add_audits as (s\<lparr>roles := filter (\<lambda>x. role_id x \<noteq> role_id r) (roles s), role_permissions := rps\<rparr>)"
    have "assigned ?t ur" if ur: "ur \<in> set (user_roles s)" for ur
    proof -
      from roles_okD(3) [OF ok ur] obtain y where y: "y \<in> set (roles s)" "role_id y = urole_role_id ur"
        "role_organization_id y = urole_organization_id ur" unfolding assigned_def by blast
      with unused ur r same [of y] have "role_id y \<noteq> role_id r" by (auto simp: list_all_iff)
      with y show ?thesis by (auto simp: assigned_def)
    qed
    then show "roles_ok ?t" using ok by (simp add: roles_ok_def distinct_map_filter list_all_iff)
    fix a assume a: "administrator_role s org = Some a"
    with system same [of a] administrator_roleD [OF a] show "administrator_role ?t org = Some a"
      unfolding administrator_role_def by (auto intro!: find_filtered)
  qed simp_all
qed

section \<open>Assignment of roles\<close>

lemma new_user_roles_set:
  "ur \<in> set (new_user_roles e n org user rs) \<Longrightarrow>
   urole_organization_id ur = org \<and> urole_user_id ur = user \<and> (\<exists>r \<in> set rs. urole_role_id ur = role_id r)"
  by (auto simp: new_user_roles_def dest: in_enumerateD)

lemma new_user_roles_role: "r \<in> set rs \<Longrightarrow> \<exists>ur \<in> set (new_user_roles e n org user rs). urole_role_id ur = role_id r"
  unfolding new_user_roles_def by (force simp: enumerate_eq_zip in_set_conv_nth set_zip)

lemma active_with_roleD:
  "x \<in> set (active_with_role s org rid except) \<Longrightarrow>
   \<exists>ur \<in> set (user_roles s). \<exists>u \<in> set (users s). urole_organization_id ur = org \<and> urole_role_id ur = rid \<and>
     urole_user_id ur \<noteq> except \<and> user_organization_id u = org \<and> user_id u = urole_user_id ur \<and> user_is_active u"
  by (auto simp: active_with_role_def split: if_splits)

text \<open>The users and assignments that \<^verbatim>\<open>replace_user_roles\<close> leaves.\<close>

lemma replace_roles_administered:
  assumes s: "administered org s" and u: "find_user s org' user = Some u"
    and ids: "length rs = length ids" "rs = filter (\<lambda>r. role_organization_id r = org' \<and> role_id r \<in> set ids) (roles s)"
    and last: "protect_last_administrator s org' u (role_ids_of s org' (user_id u)) ids"
    and t: "users t = put_row user_id (u\<lparr>user_auth_version := v\<rparr>) (users s)" "roles t = roles s"
      "user_roles t = filter (\<lambda>ur. \<not> (urole_organization_id ur = org' \<and> urole_user_id ur = user_id u)) (user_roles s) @
        new_user_roles e n org' (user_id u) rs"
  shows "administered org t"
proof -
  from s obtain a w where a: "administrator_role s org = Some a" "w \<in> set (users s)" "administers s org (role_id a) w"
    and ok: "roles_ok s" unfolding administered_def by blast
  from u have u': "u \<in> set (users s)" "user_organization_id u = org'" by (auto dest: entityD)
  have people: "map person (users t) = map person (users s)"
    using same_people_put [OF roles_okD(1) [OF ok] u'(1), of "u\<lparr>user_auth_version := v\<rparr>" "s\<lparr>users := users t\<rparr>"] t(1)
    by (simp add: same_people_def person_def)
  have "assigned s ur" if "ur \<in> set (user_roles t)" for ur
    using that roles_okD(3) [OF ok] ids(2) unfolding t(3) by (force simp: assigned_def dest: new_user_roles_set)
  moreover have "map user_id (users t) = map user_id (users s)" by (simp add: t(1))
  ultimately have "roles_ok t" using ok by (simp add: roles_ok_def t(2) assigned_frame [OF t(2)] list_all_iff)
  have "administrator_role t org = Some a" using a(1) by (simp add: administrator_role_def t(2))
  have "\<exists>w \<in> set (users s). administers t org (role_id a) w"
  proof (cases "w = u")
    case False
    with a(2) u'(1) roles_okD(1) [OF ok] have "user_id w \<noteq> user_id u" by (metis distinct_map inj_onD)
    with a show ?thesis unfolding administers_def t(3) by (intro bexI [of _ w]) auto
  next
    case True
    with a(3) u'(2) have org: "org' = org" by (simp add: administers_def)
    from a(3) True have "role_id a \<in> set (role_ids_of s org' (user_id u))"
      by (force simp: administers_def role_ids_of_def org)
    with last a(1) org consider "role_id a \<in> set ids" | "active_with_role s org (role_id a) (user_id u) \<noteq> []"
      by (auto simp: protect_last_administrator_def)
    then show ?thesis
    proof cases
      case 1
      with administrator_roleD [OF a(1)] ids(2) org have "a \<in> set rs" by auto
      with new_user_roles_role [of a rs e n org' "user_id u"] new_user_roles_set [of _ e n org' "user_id u" rs] a True org
      show ?thesis unfolding administers_def t(3) by (intro bexI [of _ u]) auto
    next
      case 2
      then obtain x where "x \<in> set (active_with_role s org (role_id a) (user_id u))" by (meson last_in_set)
      from active_with_roleD [OF this] obtain ur y where x: "ur \<in> set (user_roles s)" "urole_organization_id ur = org"
        "urole_role_id ur = role_id a" "urole_user_id ur \<noteq> user_id u" "y \<in> set (users s)"
        "user_organization_id y = org" "user_id y = urole_user_id ur" "user_is_active y" by blast
      then have "ur \<in> set (user_roles t)" by (simp add: t(3))
      with x show ?thesis unfolding administers_def by (intro bexI [of _ y]) auto
    qed
  qed
  then obtain w' where w': "w' \<in> set (users s)" "administers t org (role_id a) w'" by blast
  then have "person w' \<in> set (map person (users t))" using people by simp
  then obtain y where "y \<in> set (users t)" "person y = person w'" by auto
  with w'(2) have "\<exists>w \<in> set (users t). administers t org (role_id a) w"
    by (intro bexI [of _ y]) (auto simp: administers_def person_def)
  with \<open>roles_ok t\<close> \<open>administrator_role t org = Some a\<close> show ?thesis unfolding administered_def by blast
qed

lemma replace_user_roles_administered:
  assumes s: "administered org s"
  shows "administered org (committed (replace_user_roles e ctx org' user ids s))"
  unfolding replace_user_roles_def Let_def
  by (intro outcome_intros [where P = "administered org"] s, unfold outcome.sel)
    (rule replace_roles_administered [OF s], simp_all)

interpretation administration: account_invariant "administered org" for org
proof
  fix s t assume step: "account_step s t" and s: "administered org s"
  have ids: "distinct (map user_id (users s))" using s by (simp add: administered_def roles_ok_def)
  note people = same_people_administered [OF _ s]
  from step show "administered org t"
    by cases (simp_all add: registration_administered [OF s] fresh_sessionD(4) people login_people [OF ids] token_steps_people
      change_password_people [OF ids] reset_password_people [OF ids] create_role_administered [OF s]
      update_role_administered [OF s] delete_role_administered [OF s] replace_user_roles_administered [OF s])
qed

section \<open>What a user can gain\<close>

lemma role_codes_frame:
  "role_permissions t = role_permissions s \<Longrightarrow> permissions t = permissions s \<Longrightarrow> role_codes t = role_codes s"
  by (intro ext) (simp add: role_codes_def cong: if_cong)

lemma set_codes_of_roles: "c \<in> set (codes_of_roles s org ids) \<longleftrightarrow> (\<exists>i \<in> set ids. c \<in> set (role_codes s org i))"
  by (simp add: codes_of_roles_def permission_codes_for_role_def)

lemma ensure_can_grantD: "ensure_can_grant ctx codes \<Longrightarrow> c \<in> set codes \<Longrightarrow> permission_is_granted (permissions_held ctx) c"
  by (simp add: ensure_can_grant_def list_all_iff)

text \<open>The codes of a role after its permissions are replaced, and those of every other role.\<close>

lemma permissions_by_codeD:
  "permissions_by_code s org codes = Inr ps \<Longrightarrow> p \<in> set ps \<Longrightarrow>
   p \<in> set (permissions s) \<and> perm_organization_id p = org \<and> perm_code p \<in> set codes"
  by (auto simp: permissions_by_code_def Let_def require_def split: if_splits)

lemma new_role_permissions_set:
  "rp \<in> set (new_role_permissions e n org rid ps) \<Longrightarrow>
   rperm_organization_id rp = org \<and> rperm_role_id rp = rid \<and> (\<exists>p \<in> set ps. rperm_permission_id rp = perm_id p)"
  by (auto simp: new_role_permissions_def dest: in_enumerateD)

lemma role_codes_added:
  assumes ps: "permissions_by_code s org codes = Inr ps" and keys: "distinct (map perm_id (permissions s))"
    and t: "permissions t = permissions s" "set (role_permissions t) \<subseteq> set (role_permissions s) \<union> set (new_role_permissions e n org rid ps)"
    and c: "c \<in> set (role_codes t org' role)"
  shows "c \<in> set (role_codes s org' role) \<or> (org' = org \<and> role = rid \<and> c \<in> set codes)"
proof -
  from c obtain rp p where p: "rp \<in> set (role_permissions t)" "p \<in> set (permissions s)" "rperm_organization_id rp = org'"
    "rperm_role_id rp = role" "perm_organization_id p = org'" "perm_id p = rperm_permission_id rp" "perm_code p = c"
    unfolding set_role_codes t(1) by blast
  show ?thesis
  proof (cases "rp \<in> set (role_permissions s)")
    case True
    with p show ?thesis unfolding set_role_codes by blast
  next
    case False
    with p(1) t(2) have "rp \<in> set (new_role_permissions e n org rid ps)" by blast
    from new_role_permissions_set [OF this] obtain q where q: "q \<in> set ps" "rperm_permission_id rp = perm_id q"
      and rp: "rperm_organization_id rp = org" "rperm_role_id rp = rid" by blast
    note q' = permissions_by_codeD [OF ps q(1)]
    with keys p(2,6) q(2) have "p = q" by (metis distinct_map inj_onD)
    with p q' rp show ?thesis by auto
  qed
qed

text \<open>
  A code that a user holds after a request of \<^verbatim>\<open>services/rbac.py\<close> was held before or the actor may grant it.
\<close>

definition gains :: "mutation_context \<Rightarrow> database \<Rightarrow> database \<Rightarrow> bool" where
  "gains ctx s t \<longleftrightarrow> (\<forall>org user. \<forall>c \<in> set (user_codes t org user).
     c \<in> set (user_codes s org user) \<or> permission_is_granted (permissions_held ctx) c)"

lemma gains_refl [simp]: "gains ctx s s"
  by (simp add: gains_def)

lemmas gains_intros = outcome_intros [where P = "gains ctx s" for ctx s]

lemma gainsI:
  assumes "\<And>ur c. ur \<in> set (user_roles t) \<Longrightarrow> c \<in> set (role_codes t (urole_organization_id ur) (urole_role_id ur)) \<Longrightarrow>
    permission_is_granted (permissions_held ctx) c \<or>
    (ur \<in> set (user_roles s) \<and> c \<in> set (role_codes s (urole_organization_id ur) (urole_role_id ur)))"
  shows "gains ctx s t"
  unfolding gains_def Ball_def set_user_codes using assms by blast

lemma create_role_gains:
  assumes ok: "roles_ok s" and keys: "distinct (map perm_id (permissions s))" and fresh: "fresh_env e s"
  shows "gains ctx s (committed (create_role e ctx org rc s))"
  unfolding create_role_def Let_def
proof (intro gains_intros gains_refl, unfold outcome.sel, rule gainsI)
  fix ps ur c as rs
  let ?t = "add_audits as (s\<lparr>roles := rs, role_permissions := role_permissions s @
      new_role_permissions e 2 org (role_id (new_role e (uuid e 0) org rc)) ps\<rparr>)"
  assume ps: "permissions_by_code s org (rc_permission_codes rc) = Inr ps" and can: "ensure_can_grant ctx (rc_permission_codes rc)"
  assume ur: "ur \<in> set (user_roles ?t)" and c: "c \<in> set (role_codes ?t (urole_organization_id ur) (urole_role_id ur))"
  have "c \<in> set (role_codes s (urole_organization_id ur) (urole_role_id ur)) \<or> c \<in> set (rc_permission_codes rc)"
    using role_codes_added [OF ps keys _ _ c] by fastforce
  with ensure_can_grantD [OF can, of c] ur show "permission_is_granted (permissions_held ctx) c \<or>
    (ur \<in> set (user_roles s) \<and> c \<in> set (role_codes s (urole_organization_id ur) (urole_role_id ur)))"
    by auto
qed

lemma update_role_gains:
  assumes keys: "distinct (map perm_id (permissions s))"
  shows "gains ctx s (committed (update_role e ctx org rid p s))"
  unfolding update_role_def Let_def
proof (intro gains_intros gains_refl, unfold outcome.sel, rule gainsI)
  fix r ps ur c as rs
  let ?next = "case rup_permission_codes p of None \<Rightarrow> permission_codes_for_role s org (role_id r) | Some codes \<Rightarrow> codes"
  let ?t = "add_audits as (s\<lparr>roles := rs, role_permissions := if rup_permission_codes p = None then role_permissions s
    else without_role_permissions org (role_id r) (role_permissions s) @ new_role_permissions e 1 org (role_id r) ps\<rparr>)"
  assume ps: "permissions_by_code s org ?next = Inr ps" and can: "rup_permission_codes p \<noteq> None \<longrightarrow> ensure_can_grant ctx ?next"
  assume ur: "ur \<in> set (user_roles ?t)" and c: "c \<in> set (role_codes ?t (urole_organization_id ur) (urole_role_id ur))"
  show "permission_is_granted (permissions_held ctx) c \<or>
    (ur \<in> set (user_roles s) \<and> c \<in> set (role_codes s (urole_organization_id ur) (urole_role_id ur)))"
  proof (cases "rup_permission_codes p")
    case None
    with c role_codes_frame [of ?t s] ur show ?thesis by simp
  next
    case (Some codes)
    with can have "permission_is_granted (permissions_held ctx) c" if "c \<in> set codes"
      using that ensure_can_grantD [of ctx codes c] by simp
    moreover have "set (role_permissions ?t) \<subseteq> set (role_permissions s) \<union> set (new_role_permissions e 1 org (role_id r) ps)"
      using Some by (auto simp: without_role_permissions_def)
    then have "c \<in> set (role_codes s (urole_organization_id ur) (urole_role_id ur)) \<or> c \<in> set codes"
      using role_codes_added [OF ps keys _ _ c, of e 1 "role_id r"] Some by simp blast
    ultimately show ?thesis using ur by auto
  qed
qed

lemma delete_role_gains: "gains ctx s (committed (delete_role e ctx' org rid s))"
  unfolding delete_role_def Let_def
  by (intro gains_intros gains_refl, unfold outcome.sel, rule gainsI)
    (auto simp: set_role_codes without_role_permissions_def)

lemma replace_user_roles_gains: "gains ctx s (committed (replace_user_roles e ctx org user ids s))"
  unfolding replace_user_roles_def Let_def
proof (intro gains_intros gains_refl, unfold outcome.sel, rule gainsI)
  fix u ur c as v
  let ?rs = "filter (\<lambda>r. role_organization_id r = org \<and> role_id r \<in> set ids) (roles s)"
  let ?t = "add_audits as (put_user v (s\<lparr>user_roles :=
    filter (\<lambda>ur. \<not> (urole_organization_id ur = org \<and> urole_user_id ur = user_id u)) (user_roles s) @
      new_user_roles e 1 org (user_id u) ?rs\<rparr>))"
  assume can: "ensure_can_grant ctx (codes_of_roles s org ids)"
  assume ur: "ur \<in> set (user_roles ?t)" and c: "c \<in> set (role_codes ?t (urole_organization_id ur) (urole_role_id ur))"
  have "role_codes ?t = role_codes s" by (rule role_codes_frame) simp_all
  with c have c: "c \<in> set (role_codes s (urole_organization_id ur) (urole_role_id ur))" by simp
  from ur consider "ur \<in> set (user_roles s)" | "ur \<in> set (new_user_roles e 1 org (user_id u) ?rs)" by auto
  then show "permission_is_granted (permissions_held ctx) c \<or>
    (ur \<in> set (user_roles s) \<and> c \<in> set (role_codes s (urole_organization_id ur) (urole_role_id ur)))"
  proof cases
    case 2
    with c have "c \<in> set (codes_of_roles s org ids)"
      unfolding set_codes_of_roles by (auto dest!: new_user_roles_set)
    then show ?thesis using ensure_can_grantD [OF can] by blast
  qed (use c in blast)
qed

end
