(* ===== verification/Account_Workflow.thy ===== *)
theory Account_Workflow
  imports Role_Safety
begin

text \<open>
  What the operations on sessions and passwords do when they return: the tokens they issue and who can
  use which token afterwards.
\<close>

text \<open>
  The documented behaviour of \<^verbatim>\<open>PyJWT\<close>: a token signed with the configured key, issuer and audience is
  decoded to its claims while it is valid. \<^verbatim>\<open>PyJWT\<close> writes \<^verbatim>\<open>iat\<close>, \<^verbatim>\<open>nbf\<close> and \<^verbatim>\<open>exp\<close> in whole seconds; the law keeps
  the microseconds of the claims, which is exact for times in whole seconds and otherwise differs only within the
  last second before the expiry, when no leeway is configured.
\<close>

definition jwt_law :: "crypto \<Rightarrow> crypto \<Rightarrow> settings \<Rightarrow> bool" where
  "jwt_law k k' c \<longleftrightarrow> (\<forall>cl t. claim_iss cl = jwt_issuer c \<and> claim_aud cl = jwt_audience c \<and> claim_iat cl \<le> t \<and>
     claim_nbf cl \<le> t \<and> t < claim_exp cl \<and> (\<exists>f. claim_sid cl = JStr f) \<and> (\<exists>v. claim_av cl = JInt v) \<longrightarrow>
     decode_jwt k' t (encode_jwt k cl) = Inr cl)"

lemma session_of_returns:
  assumes "session_of k c e u family s = Return t r"
  obtains v where "t = s" "current_user_view_of s u = Inr v" "session_user r = v" "refresh_token r = random_text k 0"
    "access_token r = encode_jwt k (access_claims k c e (user_id u) (user_organization_id u) family (user_auth_version u))"
  using assms by (auto simp: session_of_def create_access_token_def new_refresh_token_def outcome_simps)

lemma current_user_view_id: "current_user_view_of s u = Inr v \<Longrightarrow> cuv_id v = user_id u \<and> cuv_organization_id v = user_organization_id u \<and>
    cuv_permissions v = effective_permission_codes s u"
  by (auto simp: current_user_view_of_def outcome_simps)

lemma account_active_frame:
  "organizations t = organizations s \<Longrightarrow> user_is_active v = user_is_active u \<Longrightarrow>
   user_organization_id v = user_organization_id u \<Longrightarrow> account_active t v = account_active s u"
  by (simp add: account_active_def find_organization_def)

lemma session_of_returned:
  "account_active s u \<Longrightarrow> organizations t = organizations s \<Longrightarrow> user_organization_id v = user_organization_id u \<Longrightarrow>
   returned (session_of k c e v f t)"
  by (auto simp: session_of_def current_user_view_of_def need_def attempt_def account_active_def find_organization_def
      split: prod.splits option.splits)

text \<open>A session whose row is usable is accepted until its access token runs out.\<close>

lemma issued_token_accepted:
  assumes law: "jwt_law k k' c" and u: "find_user t (user_organization_id u) (user_id u) = Some u" "account_active t u"
    and r: "r \<in> set (refresh_tokens t)" "rtok_organization_id r = user_organization_id u" "rtok_user_id r = user_id u"
      "rtok_family_id r = family" "token_live (now e') r"
    and time: "now e \<le> now e'" "now e' < now e + minutes (access_token_ttl_minutes c)"
  shows "get_current_user k' e' (Some (encode_jwt k (access_claims k c e (user_id u) (user_organization_id u) family
    (user_auth_version u)))) t = Inr u"
proof -
  let ?c = "access_claims k c e (user_id u) (user_organization_id u) family (user_auth_version u)"
  have "decode_jwt k' (now e') (encode_jwt k ?c) = Inr ?c"
    using law time unfolding jwt_law_def by (simp add: access_claims_def)
  moreover have "session_is_active e' (user_organization_id u) (user_id u) family t"
    using r by (auto simp: session_is_active_def list_ex_iff)
  ultimately show ?thesis
    using u by (simp add: get_current_user_def need_def require_def access_claims_def version_matches_def session_claimed_def)
qed

lemma rotate_refresh_token_returns:
  assumes "rotate_refresh_token k c e raw agent ip s = Return t r"
  obtains x u where "find_token k s raw = Some x" "token_live (now e) x"
    "find_user s (rtok_organization_id x) (rtok_user_id x) = Some u" "account_active s u"
    "token_hash_free (hash_refresh_token k (random_text k 0)) s" "refresh_token r = random_text k 0"
    "current_user_view_of t u = Inr (session_user r)"
    "access_token r = encode_jwt k (access_claims k c e (user_id u) (user_organization_id u) (rtok_family_id x) (user_auth_version u))"
    "t = put_token (rotated_token e (uuid e 0) x) (add_token (new_token k e (uuid e 0) u (rtok_family_id x)
      (min (now e + days (refresh_token_idle_days c)) (rtok_absolute_expires_at x)) (rtok_absolute_expires_at x) agent ip) s)"
proof -
  from assms obtain x where x: "find_token k s raw = Some x" "token_live (now e) x"
    unfolding rotate_refresh_token_def outcome_simps token_live_def by (auto split: if_splits)
  with assms obtain u where u: "find_user s (rtok_organization_id x) (rtok_user_id x) = Some u" "account_active s u"
    unfolding rotate_refresh_token_def outcome_simps token_live_def by (auto split: if_splits option.splits)
  have "token_hash_free (hash_refresh_token k (random_text k 0)) s \<and>
    session_of k c e u (rtok_family_id x) (put_token (rotated_token e (uuid e 0) x) (add_token (new_token k e (uuid e 0) u
      (rtok_family_id x) (min (now e + days (refresh_token_idle_days c)) (rtok_absolute_expires_at x))
      (rtok_absolute_expires_at x) agent ip) s)) = Return t r"
    using assms x u unfolding rotate_refresh_token_def outcome_simps token_live_def Let_def by (simp add: outcome_simps)
  with x u show ?thesis by (auto elim!: session_of_returns intro: that)
qed

lemma login_returns:
  assumes "login k c e p agent ip s = Return t r"
  obtains u v where "user_by_login s (lr_organization_slug p) (lr_email p) = Some u"
    "fst (verify_and_update_password k (lr_password p) (user_password_hash u))" "account_active s u"
    "user_id v = user_id u" "user_organization_id v = user_organization_id u" "user_is_active v = user_is_active u"
    "user_auth_version v = user_auth_version u" "current_user_view_of t v = Inr (session_user r)"
    "refresh_token r = random_text k 0" "token_hash_free (hash_refresh_token k (random_text k 0)) s"
    "access_token r = encode_jwt k (access_claims k c e (user_id v) (user_organization_id v) (uuid e 0) (user_auth_version v))"
    "t = add_token (new_token k e (uuid e (Suc 0)) v (uuid e 0)
      (min (now e + days (refresh_token_idle_days c)) (now e + days (refresh_token_ttl_days c)))
      (now e + days (refresh_token_ttl_days c)) agent ip) (put_user v s)"
proof -
  from assms obtain u where u: "user_by_login s (lr_organization_slug p) (lr_email p) = Some u"
    unfolding login_def outcome_simps by blast
  obtain valid updated where v: "verify_and_update_password k (lr_password p) (user_password_hash u) = (valid, updated)"
    by (rule prod.exhaust)
  define w where "w = u\<lparr>user_password_hash := (case updated of None \<Rightarrow> user_password_hash u | Some h \<Rightarrow> h),
      user_last_login_at := Some (now e)\<rparr>"
  from assms u v have "valid" "account_active s u"
    "create_session k c e 0 s w agent ip (put_user w s) = Return t r"
    unfolding login_def by (auto simp: outcome_simps w_def Let_def)
  then show ?thesis
    using u v by (auto simp: create_session_def Let_def outcome_simps token_hash_free_def w_def elim!: session_of_returns intro!: that [of u w])
qed

text \<open>Revoked tokens.\<close>

lemma updated_rowE:
  assumes "x \<in> set (update_where p f rows)"
  obtains y where "y \<in> set rows" "\<not> p y" "x = y" | y where "y \<in> set rows" "p y" "x = f y"
  using assms by (auto simp: set_update_where split: if_splits)

lemma revoke_family_idle:
  "live_of family (refresh_tokens s) = [] \<Longrightarrow> revoke_family e family s = s"
proof -
  assume "live_of family (refresh_tokens s) = []"
  then have "update_where (\<lambda>r. rtok_family_id r = family \<and> rtok_revoked_at r = None)
      (\<lambda>r. r\<lparr>rtok_revoked_at := Some (now e)\<rparr>) (refresh_tokens s) = refresh_tokens s"
    unfolding update_where_def by (intro map_idI) (auto simp: live_of_def filter_empty_conv)
  then show ?thesis by (simp add: revoke_family_def revoke_def)
qed

lemma revoke_family_live: "live_of family (refresh_tokens (revoke_family e family s)) = []"
  unfolding live_of_def filter_empty_conv revoke_family_def revoke_def
  by (simp, rule ballI, erule updated_rowE) simp_all

lemma no_session_active: "live_of family (refresh_tokens s) = [] \<Longrightarrow> \<not> session_is_active e org user family s"
  by (auto simp: session_is_active_def live_of_def filter_empty_conv list_ex_iff token_live_def)

lemma rotate_revoked:
  "find_token k s raw = Some r \<Longrightarrow> rtok_revoked_at r \<noteq> None \<Longrightarrow>
   rotate_refresh_token k c e raw agent ip s =
     Raise (revoke_family e (rtok_family_id r) s) (App_Error 401 ''REFRESH_TOKEN_REUSED'')"
  by (simp add: rotate_refresh_token_def fetch_def)

lemma find_token_unique:
  assumes "distinct (map rtok_token_hash (refresh_tokens s))" "r \<in> set (refresh_tokens s)"
    "rtok_token_hash r = hash_refresh_token k raw"
  shows "find_token k s raw = Some r"
proof -
  obtain x where "find_token k s raw = Some x"
    using assms(2,3) unfolding find_token_def by (meson find_None not_Some_eq)
  with find_tokenD [OF this] assms show ?thesis by (metis distinct_map inj_onD)
qed

lemma revoked_row:
  assumes "r \<in> set (refresh_tokens s)"
  shows "\<exists>x \<in> set (refresh_tokens (revoke_family e family s)). rtok_token_hash x = rtok_token_hash r \<and>
     rtok_family_id x = rtok_family_id r \<and> (rtok_family_id r = family \<longrightarrow> rtok_revoked_at x \<noteq> None)"
proof -
  let ?p = "\<lambda>r. rtok_family_id r = family \<and> rtok_revoked_at r = None"
  have "(if ?p r then r\<lparr>rtok_revoked_at := Some (now e)\<rparr> else r) \<in> set (refresh_tokens (revoke_family e family s))"
    using assms by (auto simp: revoke_family_def revoke_def update_where_def)
  then show ?thesis by (rule rev_bexI) auto
qed

section \<open>A new password\<close>

lemma revoke_user_sessions_live:
  "r \<in> set (refresh_tokens (revoke_user_sessions e org user s)) \<Longrightarrow> rtok_organization_id r = org \<Longrightarrow> rtok_user_id r = user \<Longrightarrow>
   rtok_revoked_at r \<noteq> None"
  unfolding revoke_user_sessions_def revoke_def by (simp, erule updated_rowE) auto

lemma consumed_tokens:
  "r \<in> set (password_reset_tokens (consume_password_reset_tokens e u s)) \<Longrightarrow> ptok_organization_id r = user_organization_id u \<Longrightarrow>
   ptok_user_id r = user_id u \<Longrightarrow> ptok_consumed_at r \<noteq> None"
  unfolding consume_password_reset_tokens_def by (simp, erule updated_rowE) auto

lemma set_password_ends:
  "\<not> session_is_active e' (user_organization_id u) (user_id u) family (set_password e u a s)"
proof -
  have "refresh_tokens (set_password e u a s) =
      refresh_tokens (revoke_user_sessions e (user_organization_id u) (user_id u) (put_user u s))"
    by (simp add: set_password_def)
  then show ?thesis
    using revoke_user_sessions_live [of _ e "user_organization_id u" "user_id u" "put_user u s"]
    unfolding session_is_active_def list_ex_iff token_live_def by metis
qed

lemma set_password_consumes:
  assumes "r \<in> set (password_reset_tokens (set_password e u a s))" "ptok_organization_id r = user_organization_id u"
    "ptok_user_id r = user_id u"
  shows "ptok_consumed_at r \<noteq> None"
  using assms(1) unfolding set_password_def audits_sel by (rule consumed_tokens [OF _ assms(2,3)])

lemma new_password_returns:
  shows "change_password k e user p request ip s = Return t () \<Longrightarrow>
      \<exists>u a. find_user s (user_organization_id user) (user_id user) = Some u \<and> user_is_active u \<and>
        verify_password k (pc_current_password p) (user_password_hash u) \<and>
        t = set_password e (with_password k (pc_new_password p) u) a s"
    and "reset_password k e link new request ip s = Return t () \<Longrightarrow>
      \<exists>x u a. find_reset_token k s link = Some x \<and> find_user s (ptok_organization_id x) (ptok_user_id x) = Some u \<and>
        ptok_consumed_at x = None \<and> now e < ptok_expires_at x \<and> account_active s u \<and>
        t = set_password e (with_password k new u) a s"
  unfolding change_password_def reset_password_def outcome_simps Let_def outcome.inject by blast+

text \<open>The account of an accepted token is active, and so is its session.\<close>

lemma accepted_user:
  assumes "get_current_user k e token s = Inr u"
  obtains c :: claims where "find_user s (claim_org c) (claim_sub c) = Some u" "account_active s u" "session_claimed e u (claim_sid c) s"
proof -
  from assms obtain raw where ok: "(case decode_jwt k (now e) raw of
      Inl Expired_Signature \<Rightarrow> Inl (App_Error 401 ''ACCESS_TOKEN_EXPIRED'')
    | Inl Invalid_Token \<Rightarrow> Inl (App_Error 401 ''INVALID_ACCESS_TOKEN'')
    | Inr c \<Rightarrow> require (claim_type c = ''access'') (App_Error 401 ''INVALID_ACCESS_TOKEN'') (
        need (find_user s (claim_org c) (claim_sub c)) session_revoked (\<lambda>u.
        require (account_active s u \<and> version_matches (claim_av c) (user_auth_version u) \<and>
          session_claimed e u (claim_sid c) s) session_revoked (Inr u)))) = Inr u"
    unfolding get_current_user_def need_Inr by blast
  then have "\<exists>c :: claims. find_user s (claim_org c) (claim_sub c) = Some u \<and> account_active s u \<and> session_claimed e u (claim_sid c) s"
    by (cases "decode_jwt k (now e) raw") (auto simp: outcome_simps split: jwt_error.splits)
  with that show thesis by blast
qed

lemma no_session_no_access:
  assumes "\<And>family. \<not> session_is_active e (user_organization_id u) (user_id u) family s"
  shows "get_current_user k e token s \<noteq> Inr u"
proof
  assume "get_current_user k e token s = Inr u"
  then show False by (rule accepted_user) (use assms in \<open>auto simp: session_claimed_def split: json.splits\<close>)
qed

end
