(* ===== verification/Account_Samples.thy ===== *)
theory Account_Samples
  imports Account_Workflow
begin

text \<open>
  A concrete organization with an administrator and a second user, and a concrete stand-in for the
  cryptography: digests that prefix a letter and a token that spells its claims out.
\<close>

section \<open>Tokens that can be read back\<close>

definition field :: "string \<Rightarrow> string" where
  "field s = concat (map (\<lambda>c. [CHR ''.'', c]) s) @ '';''"

fun fields :: "string \<Rightarrow> string \<Rightarrow> string list" where
  "fields acc [] = []"
| "fields acc [x] = [acc]"
| "fields acc (x # c # r) = (if x = CHR ''.'' then fields (acc @ [c]) r else acc # fields [] (c # r))"

definition int_field :: "int \<Rightarrow> string" where
  "int_field n = field ((if n < 0 then ''-'' else ''+'') @ replicate (nat \<bar>n\<bar>) CHR ''1'')"

definition field_int :: "string \<Rightarrow> int" where
  "field_int s = (case s of [] \<Rightarrow> 0 | x # r \<Rightarrow> if x = CHR ''-'' then - int (length r) else int (length r))"

lemma fields_field: "fields acc (field s @ r) = (acc @ s) # fields [] r"
proof (induction s arbitrary: acc)
  case Nil
  show ?case by (cases r) (simp_all add: field_def)
qed (simp add: field_def)

lemma fields_last: "fields acc (field s) = [acc @ s]"
  using fields_field [of acc s "[]"] by simp

lemma field_int_simp: "field_int ((if n < 0 then ''-'' else ''+'') @ replicate (nat \<bar>n\<bar>) CHR ''1'') = n"
  by (simp add: field_int_def)

definition sample_encode :: "claims \<Rightarrow> string" where
  "sample_encode cl =
     field (claim_sub cl) @ field (claim_org cl) @ field (case claim_sid cl of JStr f \<Rightarrow> f | _ \<Rightarrow> []) @
     int_field (case claim_av cl of JInt v \<Rightarrow> v | _ \<Rightarrow> 0) @ field (claim_type cl) @ field (claim_iss cl) @
     field (claim_aud cl) @ int_field (claim_iat cl) @ int_field (claim_nbf cl) @ int_field (claim_exp cl) @
     field (claim_jti cl) @ []"

definition sample_decode :: "timestamp \<Rightarrow> string \<Rightarrow> jwt_error + claims" where
  "sample_decode t token = (case fields [] token of
     [sub', org, sid, av, kind, issuer, audience, issued, before, until, id'] \<Rightarrow>
       if issuer \<noteq> ''i'' \<or> audience \<noteq> ''a'' \<or> t < field_int before then Inl Invalid_Token
       else if field_int until \<le> t then Inl Expired_Signature
       else Inr \<lparr>claim_sub = sub', claim_org = org, claim_sid = JStr sid, claim_av = JInt (field_int av),
         claim_type = kind, claim_iss = issuer, claim_aud = audience, claim_iat = field_int issued, claim_nbf = field_int before,
         claim_exp = field_int until, claim_jti = id'\<rparr>
   | _ \<Rightarrow> Inl Invalid_Token)"

definition sample_crypto :: "string \<Rightarrow> crypto" where
  "sample_crypto seed =
     \<lparr>hash_password = (\<lambda>p. CHR ''h'' # p), verify_password = (\<lambda>p d. d = CHR ''h'' # p),
      verify_and_update_password = (\<lambda>p d. (d = CHR ''h'' # p, None)), hash_refresh_token = (\<lambda>r. CHR ''t'' # r),
      random_text = (\<lambda>n. replicate n CHR ''x'' @ seed), encode_jwt = sample_encode, decode_jwt = sample_decode\<rparr>"

definition sample_settings :: settings where
  "sample_settings =
     \<lparr>allow_organization_registration = True, refresh_token_ttl_days = 30, refresh_token_idle_days = 7,
      access_token_ttl_minutes = 15, password_reset_ttl_minutes = 30, jwt_leeway_seconds = 5,
      jwt_issuer = ''i'', jwt_audience = ''a''\<rparr>"

lemma sample_jwt_law: "jwt_law (sample_crypto x) (sample_crypto y) sample_settings"
  unfolding jwt_law_def
proof (intro allI impI, elim conjE exE)
  fix cl :: claims and t f v
  assume "claim_iss cl = jwt_issuer sample_settings" "claim_aud cl = jwt_audience sample_settings"
    "claim_iat cl \<le> t" "claim_nbf cl \<le> t" "t < claim_exp cl" "claim_sid cl = JStr f" "claim_av cl = JInt v"
  then show "decode_jwt (sample_crypto y) t (encode_jwt (sample_crypto x) cl) = Inr cl"
    by (simp add: sample_crypto_def sample_encode_def sample_decode_def int_field_def fields_field fields_last field_int_simp
        sample_settings_def)
qed

section \<open>An organization\<close>

definition moment :: "timestamp \<Rightarrow> string \<Rightarrow> env" where
  "moment t prefix = \<lparr>now = t, today = 20, utc_today = 20, uuid = (\<lambda>n. prefix @ replicate n CHR ''0'')\<rparr>"

definition sample_organization :: organization_row where
  "sample_organization =
     \<lparr>org_id = ''o'', org_name = ''Org'', org_slug = ''org'', org_legal_name = None, org_contact_email = None,
      org_contact_phone = None, org_timezone = None, org_currency = None, org_date_format = None,
      org_is_active = True, org_created_at = 0\<rparr>"

definition sample_account :: "ident \<Rightarrow> user_row" where
  "sample_account i =
     \<lparr>user_id = i, user_organization_id = ''o'', user_branch_id = None, user_department_id = None,
      user_email = i, user_full_name = i, user_password_hash = ''hpw'', user_auth_version = 1, user_is_active = True,
      user_last_login_at = None, user_created_at = 0\<rparr>"

definition sample_role :: "ident \<Rightarrow> string \<Rightarrow> bool \<Rightarrow> role_row" where
  "sample_role i name system =
     \<lparr>role_id = i, role_organization_id = ''o'', role_name = name, role_description = None, role_is_system = system,
      role_created_at = 0\<rparr>"

definition sample_permission :: "ident \<Rightarrow> string \<Rightarrow> permission_row" where
  "sample_permission i code =
     \<lparr>perm_id = i, perm_organization_id = ''o'', perm_code = code, perm_description = [], perm_created_at = 0\<rparr>"

definition sample_assignment :: "ident \<Rightarrow> ident \<Rightarrow> ident \<Rightarrow> user_role_row" where
  "sample_assignment i user role =
     \<lparr>urole_id = i, urole_organization_id = ''o'', urole_user_id = user, urole_role_id = role, urole_created_at = 0\<rparr>"

definition sample_grant :: "ident \<Rightarrow> ident \<Rightarrow> ident \<Rightarrow> role_permission_row" where
  "sample_grant i role permission =
     \<lparr>rperm_id = i, rperm_organization_id = ''o'', rperm_role_id = role, rperm_permission_id = permission,
      rperm_created_at = 0\<rparr>"

text \<open>User \<open>u\<close> is the administrator, \<open>v\<close> a sales user.\<close>

definition sample_office :: database where
  "sample_office = empty_database\<lparr>organizations := [sample_organization],
     users := [sample_account ''u'', sample_account ''v''],
     roles := [sample_role ''a'' organization_administrator True, sample_role ''b'' ''Sales'' False],
     permissions := [sample_permission ''p'' ''leads.view'', sample_permission ''q'' ''leads.manage''],
     role_permissions := [sample_grant ''g'' ''a'' ''p'', sample_grant ''h'' ''a'' ''q'', sample_grant ''i'' ''b'' ''p''],
     user_roles := [sample_assignment ''m'' ''u'' ''a'', sample_assignment ''k'' ''v'' ''b'']\<rparr>"

text \<open>The same organization with one open session of \<open>u\<close>, whose refresh token is \<open>old\<close>.\<close>

definition sample_token :: refresh_token_row where
  "sample_token =
     \<lparr>rtok_id = ''r'', rtok_organization_id = ''o'', rtok_user_id = ''u'', rtok_token_hash = ''told'', rtok_family_id = ''f'',
      rtok_expires_at = 5000, rtok_absolute_expires_at = 9000, rtok_revoked_at = None, rtok_replaced_by_id = None,
      rtok_user_agent = None, rtok_ip_address = None, rtok_created_at = 0\<rparr>"

definition sample_signed_in :: database where
  "sample_signed_in = sample_office\<lparr>refresh_tokens := [sample_token]\<rparr>"

definition office_manager :: mutation_context where
  "office_manager =
     \<lparr>actor_user_id = ''u'', permissions_held = [''leads.manage''], request_id = None, ip_address = None,
      user_agent = None, device_metadata = None\<rparr>"

lemmas account_sample_defs =
  sample_crypto_def sample_settings_def moment_def sample_organization_def sample_account_def sample_role_def
  sample_permission_def sample_assignment_def sample_grant_def sample_office_def empty_database_def

lemma moment_fresh:
  assumes "list_all (\<lambda>i. take 1 i \<noteq> ''n'') (used_ids s)"
  shows "fresh_env (moment t ''n'') s"
proof -
  have "inj (uuid (moment t ''n''))"
    by (rule inj_on_inverseI [where g = "\<lambda>x. length x - 1"]) (simp add: moment_def)
  moreover have "uuid (moment t ''n'') n \<notin> set (used_ids s)" for n
    using assms by (auto simp: list_all_iff moment_def)
  ultimately show ?thesis by (simp add: fresh_env_def moment_def)
qed

lemma sample_office_roles: "roles_ok sample_office"
  by (simp add: roles_ok_def assigned_def account_sample_defs)

lemma sample_office_administered: "administered ''o'' sample_office"
proof -
  have "administrator_role sample_office ''o'' = Some (sample_role ''a'' organization_administrator True)"
    by (simp add: administrator_role_def account_sample_defs)
  moreover have "administers sample_office ''o'' ''a'' (sample_account ''u'')"
    by (simp add: administers_def account_sample_defs)
  ultimately show ?thesis
    using sample_office_roles unfolding administered_def
    by (intro conjI exI [of _ "sample_role ''a'' organization_administrator True"] bexI [of _ "sample_account ''u''"])
      (simp_all add: account_sample_defs)
qed

lemma sample_office_fresh: "fresh_env (moment t ''n'') sample_office"
  by (rule moment_fresh) (simp add: used_ids_def account_sample_defs)

lemma sample_signed_in_fresh: "fresh_session (moment t ''n'') sample_signed_in"
  unfolding fresh_session_def
  by (intro conjI moment_fresh)
    (simp_all add: used_ids_def account_sample_defs sample_signed_in_def sample_token_def)

lemma sample_signed_in_sessions: "sessions_ok sample_signed_in"
  by (simp add: sessions_ok_def tokens_ok_def live_of_def same_session_def sample_signed_in_def sample_token_def)

lemma sample_settings_ok: "settings_ok sample_settings"
  by (simp add: settings_ok_def sample_settings_def)

lemma moment_now [simp]: "now (moment t x) = t"
  by (simp add: moment_def)

lemma sample_hash_same: "hash_refresh_token (sample_crypto x) = hash_refresh_token (sample_crypto y)"
  by (simp add: sample_crypto_def)

end
