(* ===== verification/Rate_Limit.thy ===== *)
theory Rate_Limit
  imports Prelude
begin

text \<open>
  \<^verbatim>\<open>core/rate_limit.py\<close>: the limiter of the authentication endpoints. Redis counts when it is there; otherwise
  the process keeps, per key, the deque of its recent attempts. The dictionary of deques is an association
  list in insertion order (the order that \<^verbatim>\<open>next(iter(...))\<close> reads), and the clock \<^verbatim>\<open>time.monotonic()\<close> an integer.
\<close>

type_synonym attempts = "(string \<times> int list) list"

definition rate_limited :: app_error where
  "rate_limited = App_Error 429 ''RATE_LIMITED''"

definition attempts_of :: "attempts \<Rightarrow> string \<Rightarrow> int list" where
  "attempts_of st key = (case map_of st key of None \<Rightarrow> [] | Some d \<Rightarrow> d)"

text \<open>\<^verbatim>\<open>d[key] = deque\<close>: an existing key keeps its place, a new one goes to the end.\<close>

fun store_attempts :: "string \<Rightarrow> int list \<Rightarrow> attempts \<Rightarrow> attempts" where
  "store_attempts key d [] = [(key, d)]"
| "store_attempts key d ((k, x) # st) = (if k = key then (k, d) # st else (k, x) # store_attempts key d st)"

definition max_keys :: nat where
  "max_keys = 10000"

definition evict_oldest :: "string \<Rightarrow> attempts \<Rightarrow> attempts" where
  "evict_oldest key st =
     (if max_keys < length st then (case st of [] \<Rightarrow> [] | (k, d) # rest \<Rightarrow> if k \<noteq> key then rest else st) else st)"

definition enforce_fallback ::
  "nat \<Rightarrow> int \<Rightarrow> string \<Rightarrow> int \<Rightarrow> attempts \<Rightarrow> (attempts, unit) outcome" where
  "enforce_fallback requests window key t st =
     (let recent = dropWhile (\<lambda>x. x \<le> t - window) (attempts_of st key) in
      if requests \<le> length recent then Raise (store_attempts key recent st) rate_limited
      else Return (evict_oldest key (store_attempts key (recent @ [t]) st)) ())"

text \<open>
  What Redis answers: it is not configured, \<^verbatim>\<open>INCR\<close> fails, or it counts and \<^verbatim>\<open>EXPIRE\<close> succeeds or fails.
\<close>

datatype redis_reply = Redis_Absent | Redis_Failed | Redis_Count int bool

definition rate_limit ::
  "nat \<Rightarrow> int \<Rightarrow> string \<Rightarrow> int \<Rightarrow> redis_reply \<Rightarrow> attempts \<Rightarrow> (attempts, unit) outcome" where
  "rate_limit requests window key t reply st = (case reply of
     Redis_Absent \<Rightarrow> enforce_fallback requests window key t st
   | Redis_Failed \<Rightarrow> enforce_fallback requests window key t st
   | Redis_Count n expires \<Rightarrow>
       if n = 1 \<and> \<not> expires then enforce_fallback requests window key t st
       else demand st (n \<le> int requests) rate_limited (Return st ()))"

section \<open>A sequence of requests\<close>

text \<open>Which of a sequence of requests (key and time) the fallback admits.\<close>

fun fallback_run :: "nat \<Rightarrow> int \<Rightarrow> (string \<times> int) list \<Rightarrow> attempts \<Rightarrow> bool list" where
  "fallback_run n w [] st = []"
| "fallback_run n w ((key, t) # reqs) st =
     (let r = enforce_fallback n w key t st in returned r # fallback_run n w reqs (committed r))"

text \<open>The deques after a sequence of requests.\<close>

fun fallback_store :: "nat \<Rightarrow> int \<Rightarrow> (string \<times> int) list \<Rightarrow> attempts \<Rightarrow> attempts" where
  "fallback_store n w [] st = st"
| "fallback_store n w ((key, t) # reqs) st = fallback_store n w reqs (committed (enforce_fallback n w key t st))"

text \<open>
  The abstract limiter: it remembers every admitted request and admits one when fewer than \<open>n\<close> of the same
  key were admitted within the window before it.
\<close>

definition in_window :: "int \<Rightarrow> string \<Rightarrow> int \<Rightarrow> (string \<times> int) list \<Rightarrow> int list" where
  "in_window w key t h = map snd (filter (\<lambda>(k, x). k = key \<and> t - w < x) h)"

fun window_run :: "nat \<Rightarrow> int \<Rightarrow> (string \<times> int) list \<Rightarrow> (string \<times> int) list \<Rightarrow> bool list" where
  "window_run n w [] h = []"
| "window_run n w ((key, t) # reqs) h =
     (let ok = length (in_window w key t h) < n in ok # window_run n w reqs (if ok then h @ [(key, t)] else h))"

text \<open>
  The abstract limiter with a bounded memory: it knows the keys in the order of their first admission, and
  when there are more than \<^verbatim>\<open>10_000\<close> of them it forgets the oldest one with all that was admitted of it.
\<close>

fun forgetful_run :: "nat \<Rightarrow> int \<Rightarrow> (string \<times> int) list \<Rightarrow> string list \<Rightarrow> (string \<times> int) list \<Rightarrow> bool list" where
  "forgetful_run n w [] ks h = []"
| "forgetful_run n w ((key, t) # reqs) ks h =
     (if length (in_window w key t h) < n
      then let ks' = (if key \<in> set ks then ks else ks @ [key]); h' = h @ [(key, t)] in
        True # (if max_keys < length ks' then forgetful_run n w reqs (tl ks') (filter (\<lambda>(k, x). k \<noteq> hd ks') h')
                else forgetful_run n w reqs ks' h')
      else False # forgetful_run n w reqs ks h)"

section \<open>The fallback simulates the abstract limiter\<close>

definition history :: "string \<Rightarrow> (string \<times> int) list \<Rightarrow> int list" where
  "history key h = map snd (filter (\<lambda>(k, x). k = key) h)"

lemma history_append: "history key (h @ [(k, t)]) = history key h @ (if k = key then [t] else [])"
  by (simp add: history_def)

lemma in_window_history: "in_window w key t h = filter (\<lambda>x. t - w < x) (history key h)"
  by (induction h) (auto simp: in_window_def history_def)

lemma dropWhile_sorted: "sorted xs \<Longrightarrow> dropWhile (\<lambda>x. x \<le> c) xs = filter (\<lambda>x. c < x) (xs :: int list)"
  by (induction xs) (auto simp: not_le intro!: filter_True [symmetric])

lemma store_attempts_keys:
  "map fst (store_attempts key d st) = map fst st @ (if key \<in> fst ` set st then [] else [key])"
  by (induction key d st rule: store_attempts.induct) auto

lemma attempts_of_store: "attempts_of (store_attempts key d st) k = (if k = key then d else attempts_of st k)"
  by (induction key d st rule: store_attempts.induct) (auto simp: attempts_of_def)

text \<open>
  The relation between a state of the fallback and the abstract memory: the same keys in the same order, at most
  \<^verbatim>\<open>10_000\<close> of them, and each deque is the part of its key's history after some instant outside the window.
\<close>

definition remembers :: "int \<Rightarrow> int \<Rightarrow> attempts \<Rightarrow> (string \<times> int) list \<Rightarrow> bool" where
  "remembers w m st h \<longleftrightarrow> (\<forall>k. sorted (history k h) \<and> (\<forall>x \<in> set (history k h). x \<le> m) \<and>
     (\<exists>c \<le> m - w. attempts_of st k = filter (\<lambda>x. c < x) (history k h)))"

definition follows :: "int \<Rightarrow> int \<Rightarrow> attempts \<Rightarrow> string list \<Rightarrow> (string \<times> int) list \<Rightarrow> bool" where
  "follows w m st ks h \<longleftrightarrow> map fst st = ks \<and> distinct ks \<and> length ks \<le> max_keys \<and> remembers w m st h"

lemma follows_start: "follows w m [] [] []"
  by (auto simp: follows_def remembers_def history_def attempts_of_def intro: exI [of _ "m - w"])

lemma remembers_recent:
  assumes "remembers w m st h" "m \<le> t"
  shows "dropWhile (\<lambda>x. x \<le> t - w) (attempts_of st key) = in_window w key t h"
proof -
  from assms(1) obtain c where c: "c \<le> m - w" "attempts_of st key = filter (\<lambda>x. c < x) (history key h)"
    and sorted: "sorted (history key h)" unfolding remembers_def by blast
  from sorted have "sorted (attempts_of st key)" unfolding c(2) using sorted_filter [of "\<lambda>x. x"] by simp
  with c assms(2) show ?thesis
    by (auto simp: dropWhile_sorted in_window_history intro!: filter_cong)
qed

lemma length_filter_mono: "(\<And>x. x \<in> set xs \<Longrightarrow> p x \<Longrightarrow> q x) \<Longrightarrow> length (filter p xs) \<le> length (filter q xs)"
  by (induction xs) (auto simp: le_SucI)

lemma attempts_of_new: "key \<notin> fst ` set st \<Longrightarrow> attempts_of st key = []"
  using map_of_eq_None_iff [of st key] by (simp add: attempts_of_def)

text \<open>A key with an attempt in the window is known, so a refusal stores no new key.\<close>

lemma recent_known:
  assumes "remembers w m st h" "m \<le> t" "in_window w key t h \<noteq> []"
  shows "key \<in> fst ` set st"
proof (rule ccontr)
  assume "key \<notin> fst ` set st"
  then have "attempts_of st key = []" by (rule attempts_of_new)
  with remembers_recent [OF assms(1,2), of key] assms(3) show False by simp
qed

lemma remembers_refused:
  assumes f: "remembers w m st h" and "m \<le> t"
  shows "remembers w t (store_attempts key (in_window w key t h) st) h"
proof -
  have "\<exists>c \<le> t - w. attempts_of (store_attempts key (in_window w key t h) st) k = filter (\<lambda>x. c < x) (history k h)" for k
  proof (cases "k = key")
    case False
    from f obtain c where "c \<le> m - w" "attempts_of st k = filter (\<lambda>x. c < x) (history k h)"
      unfolding remembers_def by blast
    with \<open>m \<le> t\<close> False show ?thesis by (intro exI [of _ c]) (simp add: attempts_of_store)
  qed (auto simp: attempts_of_store in_window_history)
  moreover have "\<forall>x \<in> set (history k h). x \<le> t" "sorted (history k h)" for k
    using f \<open>m \<le> t\<close> unfolding remembers_def by (meson order_trans, blast)
  ultimately show ?thesis unfolding remembers_def by blast
qed

lemma remembers_admitted:
  assumes f: "remembers w m st h" and "m \<le> t" "0 < w"
  shows "remembers w t (store_attempts key (in_window w key t h @ [t]) st) (h @ [(key, t)])"
proof -
  have "\<exists>c \<le> t - w. attempts_of (store_attempts key (in_window w key t h @ [t]) st) k =
    filter (\<lambda>x. c < x) (history k (h @ [(key, t)]))" for k
  proof (cases "k = key")
    case False
    from f obtain c where "c \<le> m - w" "attempts_of st k = filter (\<lambda>x. c < x) (history k h)"
      unfolding remembers_def by blast
    with \<open>m \<le> t\<close> False show ?thesis by (intro exI [of _ c]) (simp add: attempts_of_store history_append)
  next
    case True
    with \<open>0 < w\<close> show ?thesis by (intro exI [of _ "t - w"]) (simp add: attempts_of_store history_append in_window_history)
  qed
  moreover have "\<forall>x \<in> set (history k (h @ [(key, t)])). x \<le> t" "sorted (history k (h @ [(key, t)]))" for k
    using f \<open>m \<le> t\<close> unfolding remembers_def history_append sorted_append by (fastforce, fastforce)
  ultimately show ?thesis unfolding remembers_def by blast
qed

text \<open>Popping the oldest deque is forgetting all that was admitted of its key.\<close>

lemma history_forget: "history k (filter (\<lambda>(k', x). k' \<noteq> old) h) = (if k = old then [] else history k h)"
  by (induction h) (auto simp: history_def)

lemma attempts_of_pop: "distinct (map fst ((old, d) # st)) \<Longrightarrow>
    attempts_of st k = (if k = old then [] else attempts_of ((old, d) # st) k)"
  by (cases "k = old") (simp_all add: attempts_of_new, simp add: attempts_of_def)

lemma remembers_forget:
  assumes "remembers w m ((old, d) # st) h" "distinct (map fst ((old, d) # st))"
  shows "remembers w m st (filter (\<lambda>(k, x). k \<noteq> old) h)"
proof -
  have "\<exists>c \<le> m - w. attempts_of st k = filter (\<lambda>x. c < x) (history k (filter (\<lambda>(k, x). k \<noteq> old) h))" for k
  proof (cases "k = old")
    case True
    then show ?thesis by (intro exI [of _ "m - w"]) (simp add: history_forget attempts_of_pop [OF assms(2)])
  next
    case False
    with assms(1) show ?thesis unfolding remembers_def history_forget attempts_of_pop [OF assms(2)] by simp
  qed
  with assms(1) show ?thesis unfolding remembers_def history_forget by simp
qed

text \<open>One request: the fallback and the abstract limiter decide the same and stay related.\<close>

lemma follows_no:
  assumes "follows w m st ks h" "m \<le> t" "\<not> length (in_window w key t h) < n" "0 < n"
  shows "\<exists>st'. enforce_fallback n w key t st = Raise st' rate_limited \<and> follows w t st' ks h"
proof -
  from assms(1) have r: "remembers w m st h" by (simp add: follows_def)
  have "in_window w key t h \<noteq> []" using assms(3,4) by auto
  from recent_known [OF r assms(2) this] have "map fst (store_attempts key (in_window w key t h) st) = map fst st"
    by (simp add: store_attempts_keys)
  with remembers_refused [OF r assms(2), of key] assms show ?thesis
    by (simp add: enforce_fallback_def remembers_recent [OF r assms(2)] Let_def follows_def)
qed

lemma follows_yes:
  assumes f: "follows w m st ks h" and "m \<le> t" "length (in_window w key t h) < n" "0 < w"
  defines "ks' \<equiv> if key \<in> set ks then ks else ks @ [key]"
  shows "\<exists>st'. enforce_fallback n w key t st = Return st' () \<and>
    (if max_keys < length ks' then follows w t st' (tl ks') (filter (\<lambda>(k, x). k \<noteq> hd ks') (h @ [(key, t)]))
     else follows w t st' ks' (h @ [(key, t)]))"
proof -
  from f have r: "remembers w m st h" and ks: "map fst st = ks" "distinct ks" "length ks \<le> max_keys"
    by (simp_all add: follows_def)
  let ?st = "store_attempts key (in_window w key t h @ [t]) st"
  have ret: "enforce_fallback n w key t st = Return (evict_oldest key ?st) ()"
    using assms(3) by (simp add: enforce_fallback_def remembers_recent [OF r assms(2)] Let_def)
  have keys: "map fst ?st = ks'" unfolding ks'_def ks(1) [symmetric] by (simp add: store_attempts_keys)
  have dist: "distinct ks'" using ks(2) by (auto simp: ks'_def)
  note adm = remembers_admitted [OF r assms(2,4), of key]
  have len: "length ?st = length ks'" using keys by (metis length_map)
  show ?thesis
  proof (cases "max_keys < length ks'")
    case False
    with ret len adm keys dist show ?thesis by (simp add: evict_oldest_def follows_def)
  next
    case True
    with ks(3) have new: "ks' = ks @ [key]" "key \<notin> set ks" "ks \<noteq> []"
      by (auto simp: ks'_def max_keys_def split: if_splits)
    obtain old d rest where st: "?st = (old, d) # rest" using True len by (cases ?st) auto
    with keys have "old # map fst rest = ks @ [key]" unfolding new(1) by simp
    with new have "old = hd ks'" "old \<noteq> key" by (cases ks; auto)+
    moreover have "map fst rest = tl ks'" using keys st by (metis list.sel(3) list.simps(9))
    moreover have "remembers w t rest (filter (\<lambda>(k, x). k \<noteq> old) (h @ [(key, t)]))"
      using adm dist keys unfolding st by (intro remembers_forget) auto
    ultimately show ?thesis
      using True ret st len dist ks(3) new(1) by (simp add: evict_oldest_def follows_def distinct_tl)
  qed
qed

lemma fallback_forgets:
  assumes "follows w m st ks h" "0 < w" "0 < n" "sorted (map snd reqs)" "\<forall>r \<in> set reqs. m \<le> snd r"
  shows "fallback_run n w reqs st = forgetful_run n w reqs ks h \<and> length (fallback_store n w reqs st) \<le> max_keys"
  using assms
proof (induction reqs arbitrary: m st ks h)
  case Nil
  then show ?case by (auto simp: follows_def)
next
  case (Cons r reqs)
  obtain key t where r: "r = (key, t)" by (cases r)
  with Cons.prems have t: "m \<le> t" and rest: "sorted (map snd reqs)" "\<forall>r \<in> set reqs. t \<le> snd r" by auto
  let ?ks = "if key \<in> set ks then ks else ks @ [key]"
  show ?case
  proof (cases "length (in_window w key t h) < n")
    case True
    from follows_yes [OF Cons.prems(1) t True Cons.prems(2)] obtain st' where st':
      "enforce_fallback n w key t st = Return st' ()"
      "if max_keys < length ?ks then follows w t st' (tl ?ks) (filter (\<lambda>(k, x). k \<noteq> hd ?ks) (h @ [(key, t)]))
       else follows w t st' ?ks (h @ [(key, t)])" by blast
    show ?thesis
    proof (cases "max_keys < length ?ks")
      case over: True
      with st'(2) have "follows w t st' (tl ?ks) (filter (\<lambda>(k, x). k \<noteq> hd ?ks) (h @ [(key, t)]))" by simp
      from Cons.IH [OF this Cons.prems(2,3) rest] True over st'(1) show ?thesis by (simp add: r Let_def)
    next
      case room: False
      with st'(2) have "follows w t st' ?ks (h @ [(key, t)])" by simp
      from Cons.IH [OF this Cons.prems(2,3) rest] True room st'(1) show ?thesis by (simp add: r Let_def)
    qed
  next
    case False
    from follows_no [OF Cons.prems(1) t False Cons.prems(3)] obtain st' where
      "enforce_fallback n w key t st = Raise st' rate_limited" "follows w t st' ks h" by blast
    with Cons.IH [OF this(2) Cons.prems(2,3) rest] False show ?thesis by (simp add: r Let_def)
  qed
qed

text \<open>With at most \<^verbatim>\<open>10_000\<close> keys nothing is ever forgotten.\<close>

lemma forgetful_remembers:
  assumes "set ks \<union> fst ` set reqs \<subseteq> keys" "distinct ks" "finite keys" "card keys \<le> max_keys"
  shows "forgetful_run n w reqs ks h = window_run n w reqs h"
  using assms
proof (induction reqs arbitrary: ks h)
  case (Cons r reqs)
  obtain key t where r: "r = (key, t)" by (cases r)
  let ?ks = "if key \<in> set ks then ks else ks @ [key]"
  have known: "set ?ks \<union> fst ` set reqs \<subseteq> keys" and dist: "distinct ?ks" using Cons.prems r by auto
  have "length ?ks = card (set ?ks)" using distinct_card [OF dist] by simp
  also have "\<dots> \<le> card keys" using known Cons.prems(3) by (intro card_mono) auto
  finally have room: "\<not> max_keys < length ?ks" using Cons.prems(4) by simp
  have "set ks \<union> fst ` set reqs \<subseteq> keys" using Cons.prems(1) by auto
  from Cons.IH [OF known dist Cons.prems(3,4)] Cons.IH [OF this Cons.prems(2-4)] room show ?case
    by (simp add: r Let_def)
qed simp

text \<open>
  What forgetting costs: the key whose deque is popped to make room for the 10001st starts again with no
  attempt, however many it made a moment ago.
\<close>

lemma evicted_key_starts_again:
  assumes "distinct (map fst st)" "length st = max_keys" "key \<notin> fst ` set st" "0 < n"
  shows "attempts_of (committed (enforce_fallback n w key t st)) (fst (hd st)) = []"
proof -
  obtain old d rest where st: "st = (old, d) # rest" using assms(2) by (cases st) (auto simp: max_keys_def)
  with assms(3) have old: "old \<noteq> key" by auto
  have new: "attempts_of st key = []" using assms(3) by (rule attempts_of_new)
  have "length (store_attempts key x st) = Suc max_keys" for x
    using arg_cong [OF store_attempts_keys [of key x st], of length] assms(2,3) by simp
  moreover have "store_attempts key x st = (old, d) # store_attempts key x rest" for x using st old by simp
  moreover have "attempts_of (store_attempts key x rest) old = []" for x
    using assms(1) st old by (simp add: attempts_of_store attempts_of_new)
  ultimately show ?thesis using assms(4) old new by (simp add: enforce_fallback_def evict_oldest_def st)
qed

text \<open>What the abstract limiter promises: no window holds more than \<open>n\<close> admitted requests of a key.\<close>

fun admitted :: "bool list \<Rightarrow> (string \<times> int) list \<Rightarrow> (string \<times> int) list" where
  "admitted (b # bs) (r # reqs) = (if b then [r] else []) @ admitted bs reqs"
| "admitted _ _ = []"

definition thin :: "nat \<Rightarrow> int \<Rightarrow> string \<Rightarrow> (string \<times> int) list \<Rightarrow> bool" where
  "thin n w key h \<longleftrightarrow> (\<forall>a. length (filter (\<lambda>x. a - w < x \<and> x \<le> a) (history key h)) \<le> n)"

lemma thin_add:
  assumes "thin n w key h" "\<forall>x \<in> set (history key h). x \<le> t" "length (in_window w key t h) < n"
  shows "thin n w key (h @ [(key, t)])"
  unfolding thin_def
proof
  fix a
  show "length (filter (\<lambda>x. a - w < x \<and> x \<le> a) (history key (h @ [(key, t)]))) \<le> n"
  proof (cases "t \<le> a")
    case True
    have "length (filter (\<lambda>x. a - w < x \<and> x \<le> a) (history key h)) \<le> length (in_window w key t h)"
      unfolding in_window_history using True by (intro length_filter_mono) auto
    with assms(3) show ?thesis by (simp add: history_append)
  next
    case False
    with assms(1) show ?thesis by (simp add: history_append thin_def)
  qed
qed

lemma window_run_thin:
  assumes "thin n w key h" "\<forall>x \<in> set (history key h). x \<le> m" "sorted (map snd reqs)" "\<forall>r \<in> set reqs. m \<le> snd r"
  shows "thin n w key (h @ admitted (window_run n w reqs h) reqs)"
  using assms
proof (induction reqs arbitrary: m h)
  case (Cons r reqs)
  obtain k t where r: "r = (k, t)" by (cases r)
  let ?h = "if length (in_window w k t h) < n then h @ [(k, t)] else h"
  have "\<forall>x \<in> set (history key h). x \<le> t" using Cons.prems(2,4) r by force
  then have "thin n w key ?h" "\<forall>x \<in> set (history key ?h). x \<le> t"
    using thin_add [OF Cons.prems(1), of t] Cons.prems(1) by (auto simp: history_append thin_def)
  from Cons.IH [OF this] Cons.prems(3) r have "thin n w key (?h @ admitted (window_run n w reqs ?h) reqs)" by simp
  then show ?case by (simp add: r Let_def split: if_splits)
qed simp

end
