(* ===== verification/Access_Claims.thy ===== *)
theory Access_Claims
  imports Account_Samples Rate_Limit
begin

text \<open>
  The properties of authentication and authorization: sessions, passwords, roles and the rate limiter.
\<close>

section \<open>Sessions\<close>

text \<open>
  C8: A login opens a session that works. When \<^verbatim>\<open>login\<close> returns, the account with that email and
  organization is active and its password was verified; the access token is accepted by
  \<^verbatim>\<open>get_current_user\<close> as that account until it runs out, and the refresh token buys a new session as long as
  the first one is not older than its idle time, unless the new random token collides with an old one.
\<close>

theorem login_opens_session:
  assumes login: "login k c e p agent ip s = Return t r"
    and users: "distinct (map user_id (users s))"
    and hashes: "distinct (map rtok_token_hash (refresh_tokens s))"
    and settings: "settings_ok c"
    and later: "now e \<le> now e'" "jwt_law k k' c" "hash_refresh_token k' = hash_refresh_token k"
  shows "\<exists>u v. user_by_login s (lr_organization_slug p) (lr_email p) = Some u \<and> user_id v = user_id u \<and> account_active s u \<and>
      fst (verify_and_update_password k (lr_password p) (user_password_hash u)) \<and>
      cuv_id (session_user r) = user_id u \<and> cuv_permissions (session_user r) = effective_permission_codes t v \<and>
      (now e' < now e + minutes (access_token_ttl_minutes c) \<longrightarrow>
        get_current_user k' e' (Some (access_token r)) t = Inr v) \<and>
      (now e' < now e + days (refresh_token_idle_days c) \<longrightarrow> token_hash_free (hash_refresh_token k' (random_text k' 0)) t \<longrightarrow>
        returned (rotate_refresh_token k' c e' (refresh_token r) agent' ip' t))"
  using login
proof (rule login_returns)
  fix u :: user_row and v :: user_row
  let ?x = "new_token k e (uuid e (Suc 0)) v (uuid e 0) (min (now e + days (refresh_token_idle_days c))
    (now e + days (refresh_token_ttl_days c))) (now e + days (refresh_token_ttl_days c)) agent ip"
  assume u: "user_by_login s (lr_organization_slug p) (lr_email p) = Some u" "account_active s u"
    "fst (verify_and_update_password k (lr_password p) (user_password_hash u))"
    and v: "user_id v = user_id u" "user_organization_id v = user_organization_id u" "user_is_active v = user_is_active u"
    and r: "current_user_view_of t v = Inr (session_user r)" "refresh_token r = random_text k 0"
      "access_token r = encode_jwt k (access_claims k c e (user_id v) (user_organization_id v) (uuid e 0) (user_auth_version v))"
    and free: "token_hash_free (hash_refresh_token k (random_text k 0)) s"
    and t: "t = add_token ?x (put_user v s)"
  from u(1) have "u \<in> set (users s)" unfolding user_by_login_def by (auto dest: find_SomeD)
  then have "find_user s (user_organization_id v) (user_id v) = Some u" using v by (intro entity_unique [OF users]) simp_all
  from entity_put_same [OF this refl refl] have found: "find_user t (user_organization_id v) (user_id v) = Some v"
    by (simp add: t)
  have active: "account_active t v" using u(2) account_active_frame [of t s v u] v by (simp add: t)
  have x: "?x \<in> set (refresh_tokens t)" "token_live (now e') ?x" if "now e' < now e + days (refresh_token_idle_days c)"
    using that settings by (auto simp: t token_live_def settings_ok_def days_def seconds_def)
  have soon: "now e' < now e + days (refresh_token_idle_days c)" if "now e' < now e + minutes (access_token_ttl_minutes c)"
    using that settings by (simp add: settings_ok_def days_def minutes_def seconds_def)
  have "get_current_user k' e' (Some (access_token r)) t = Inr v" if "now e' < now e + minutes (access_token_ttl_minutes c)"
    unfolding r(3) using issued_token_accepted [OF later(2) found active x(1) _ _ _ x(2) later(1) that] soon [OF that] by simp
  moreover have "returned (rotate_refresh_token k' c e' (refresh_token r) agent' ip' t)"
    if soon: "now e' < now e + days (refresh_token_idle_days c)" and new: "token_hash_free (hash_refresh_token k' (random_text k' 0)) t"
  proof -
    have "distinct (map rtok_token_hash (refresh_tokens t))"
      using hashes free by (auto simp: t token_hash_free_def list_all_iff)
    then have "find_token k' t (refresh_token r) = Some ?x"
      using x(1) [OF soon] later(3) r(2) by (intro find_token_unique) simp_all
    with x(2) [OF soon] found active new show ?thesis
      by (auto simp: rotate_refresh_token_def fetch_def demand_def token_live_def v not_le Let_def
          intro: session_of_returned [of t])
  qed
  ultimately show ?thesis using u v current_user_view_id [OF r(1)] by (intro exI [of _ u] exI [of _ v]) auto
qed

text \<open>
  C6: A refresh token works once. After \<^verbatim>\<open>rotate_refresh_token\<close> returned, presenting the exchanged token
  again answers \<^verbatim>\<open>REFRESH_TOKEN_REUSED\<close> and ends the session for everybody: no access token of the session
  is accepted any more, and the successor token is refused as well.
\<close>

theorem stolen_token_ends_session:
  assumes rotated: "rotate_refresh_token k c e raw agent ip s = Return t r"
    and ok: "sessions_ok s" and fresh: "fresh_session e s"
    and later: "hash_refresh_token k' = hash_refresh_token k"
  shows "\<exists>x t'. find_token k s raw = Some x \<and>
      rotate_refresh_token k' c' e' raw agent' ip' t = Raise t' (App_Error 401 ''REFRESH_TOKEN_REUSED'') \<and>
      (\<forall>e'' org user. \<not> session_is_active e'' org user (rtok_family_id x) t') \<and>
      rotate_refresh_token k' c' e' (refresh_token r) agent' ip' t' = Raise t' (App_Error 401 ''REFRESH_TOKEN_REUSED'')"
proof -
  have ok_t: "sessions_ok t" using rotate_sessions [OF ok fresh, of k c raw agent ip] by (simp add: rotated)
  from rotated show ?thesis
  proof (rule rotate_refresh_token_returns)
    fix x :: refresh_token_row and u :: user_row
    let ?n = "new_token k e (uuid e 0) u (rtok_family_id x) (min (now e + days (refresh_token_idle_days c))
      (rtok_absolute_expires_at x)) (rtok_absolute_expires_at x) agent ip"
    assume x: "find_token k s raw = Some x" and r: "refresh_token r = random_text k 0"
      and t: "t = put_token (rotated_token e (uuid e 0) x) (add_token ?n s)"
    let ?t' = "revoke_family e' (rtok_family_id x) t"
    have ok_t': "sessions_ok ?t'" by (simp add: revoke_family_def revoke_sessions ok_t)
    note hashes = tokens_okD(2) [OF ok_t [unfolded sessions_ok_def]] tokens_okD(2) [OF ok_t' [unfolded sessions_ok_def]]
    note x' = find_tokenD [OF x]
    have "rotated_token e (uuid e 0) x \<in> set (refresh_tokens t)" using x' by (auto simp: t set_put_row)
    then have "find_token k' t raw = Some (rotated_token e (uuid e 0) x)"
      using x' later hashes(1) by (intro find_token_unique) simp_all
    then have reused: "rotate_refresh_token k' c' e' raw agent' ip' t = Raise ?t' (App_Error 401 ''REFRESH_TOKEN_REUSED'')"
      by (simp add: rotate_revoked)
    have "?n \<in> set (refresh_tokens t)"
      using fresh_sessionD(1) [OF fresh, of 0] x' by (auto simp: t set_put_row id_free_def list_all_iff)
    from revoked_row [OF this, of e' "rtok_family_id x"] obtain y where y: "y \<in> set (refresh_tokens ?t')"
      "rtok_token_hash y = hash_refresh_token k' (random_text k 0)" "rtok_family_id y = rtok_family_id x" "rtok_revoked_at y \<noteq> None"
      using later by auto
    then have "find_token k' ?t' (refresh_token r) = Some y" using hashes(2) r by (intro find_token_unique) simp_all
    then have "rotate_refresh_token k' c' e' (refresh_token r) agent' ip' ?t' = Raise ?t' (App_Error 401 ''REFRESH_TOKEN_REUSED'')"
      using y revoke_family_idle [OF revoke_family_live [of "rtok_family_id x" e' t], of e'] by (simp add: rotate_revoked)
    with x reused no_session_active [OF revoke_family_live] show ?thesis by blast
  qed
qed

text \<open>
  C10: Whatever the account and role requests do, the refresh tokens of one session have one owner and one end of
  life, no token outlives it, and at most one of them is unused.
\<close>

theorem one_usable_token_per_session:
  assumes ok: "sessions_ok s" and steps: "account_step\<^sup>*\<^sup>* s t"
    and r: "r \<in> set (refresh_tokens t)" and r': "r' \<in> set (refresh_tokens t)" "rtok_family_id r' = rtok_family_id r"
  shows "rtok_organization_id r' = rtok_organization_id r \<and> rtok_user_id r' = rtok_user_id r \<and>
    rtok_absolute_expires_at r' = rtok_absolute_expires_at r \<and> rtok_expires_at r' \<le> rtok_absolute_expires_at r \<and>
    (rtok_revoked_at r = None \<longrightarrow> rtok_revoked_at r' = None \<longrightarrow> r' = r)"
proof -
  have ok: "tokens_ok (refresh_tokens t)" using sessions.always [OF steps ok] by (simp add: sessions_ok_def)
  have "r' = r" if "rtok_revoked_at r = None" "rtok_revoked_at r' = None"
    using live_of_single [OF ok r that(1)] live_of_single [OF ok r'(1) that(2)] r'(2) by simp
  with tokens_okD(4) [OF ok r'(1)] tokens_okD(5) [OF ok r'(1) r r'(2)] show ?thesis by (simp add: same_session_def)
qed

text \<open>
  C11: A new password signs the user out everywhere. After \<^verbatim>\<open>change_password\<close> or \<^verbatim>\<open>reset_password\<close> returned,
  the stored hash is the one of the new password, no session of the user is active, whatever token is sent, it
  is not accepted as the user's, and no password reset link of the user is left, including the one just used.
\<close>

theorem new_password_signs_out:
  assumes set: "change_password k e user p request ip s = Return t () \<and> new = pc_new_password p \<and>
        find_user s (user_organization_id user) (user_id user) = Some u
      \<or> reset_password k e link new request ip s = Return t () \<and>
        (\<exists>x. find_reset_token k s link = Some x \<and> find_user s (ptok_organization_id x) (ptok_user_id x) = Some u)"
  shows "find_user t (user_organization_id u) (user_id u) = Some (with_password k new u) \<and>
    (\<forall>e' family. \<not> session_is_active e' (user_organization_id u) (user_id u) family t) \<and>
    (\<forall>k' e' token v. get_current_user k' e' token t = Inr v \<longrightarrow>
       \<not> (user_organization_id v = user_organization_id u \<and> user_id v = user_id u)) \<and>
    (\<forall>x \<in> set (password_reset_tokens t). ptok_organization_id x = user_organization_id u \<longrightarrow>
       ptok_user_id x = user_id u \<longrightarrow> ptok_consumed_at x \<noteq> None)"
proof -
  from set obtain a where t: "t = set_password e (with_password k new u) a s"
    by (auto dest!: new_password_returns)
  from set obtain o' i where "find_user s o' i = Some u" by blast
  with entityD [OF this] have u: "find_user s (user_organization_id u) (user_id u) = Some u" by simp
  have idle: "\<not> session_is_active e' (user_organization_id u) (user_id u) family t" for e' family
    using set_password_ends [of e' "with_password k new u" family e a s] by (simp add: t)
  have "find_user t (user_organization_id u) (user_id u) = Some (with_password k new u)"
    using entity_put_same [OF u, of "with_password k new u"] by (simp add: t)
  moreover have "\<not> (user_organization_id v = user_organization_id u \<and> user_id v = user_id u)"
    if "get_current_user k' e' token t = Inr v" for k' e' token v
    using no_session_no_access [of e' v t k' token] idle that by auto
  moreover have "ptok_consumed_at x \<noteq> None" if "x \<in> set (password_reset_tokens t)"
    "ptok_organization_id x = user_organization_id u" "ptok_user_id x = user_id u" for x
    using set_password_consumes [of x e "with_password k new u" a s] that by (simp add: t)
  ultimately show ?thesis using idle by blast
qed

section \<open>Roles\<close>

text \<open>
  C5: No request of the role service gives anybody a permission that the acting user could not grant: each
  code a user holds afterwards was held before or is granted to the actor. And every effective permission of a
  user whose roles were just replaced is granted to the actor, also when that lifts the limit of a portal account.
\<close>

theorem privileges_do_not_grow:
  assumes ok: "roles_ok s" and keys: "distinct (map perm_id (permissions s))" and fresh: "fresh_env e s"
    and step: "t \<in> {committed (create_role e ctx org rc s), committed (update_role e ctx org rid ru s),
      committed (delete_role e ctx org rid s), committed (replace_user_roles e ctx org user ids s)}"
  shows "(c \<in> set (user_codes t o' v) \<longrightarrow> c \<in> set (user_codes s o' v) \<or> permission_is_granted (permissions_held ctx) c) \<and>
    (replace_user_roles e ctx org user ids s = Return t w \<longrightarrow>
      (\<exists>u. find_user t org user = Some u \<and>
        (\<forall>c \<in> set (effective_permission_codes t u). permission_is_granted (permissions_held ctx) c)))"
proof -
  have "gains ctx s t"
    using step create_role_gains [OF ok keys fresh] update_role_gains [OF keys] delete_role_gains replace_user_roles_gains by auto
  moreover have "\<exists>u. find_user t org user = Some u \<and>
      (\<forall>c \<in> set (effective_permission_codes t u). permission_is_granted (permissions_held ctx) c)"
    if replaced: "replace_user_roles e ctx org user ids s = Return t w"
  proof -
    from replaced obtain u where u: "find_user s org user = Some u" "ensure_can_grant ctx (codes_of_roles s org ids)"
      and t: "users t = put_row user_id (u\<lparr>user_auth_version := user_auth_version u + 1\<rparr>) (users s)"
        "role_permissions t = role_permissions s" "permissions t = permissions s"
        "user_roles t = filter (\<lambda>ur. \<not> (urole_organization_id ur = org \<and> urole_user_id ur = user_id u)) (user_roles s) @
          new_user_roles e 1 org (user_id u) (filter (\<lambda>r. role_organization_id r = org \<and> role_id r \<in> set ids) (roles s))"
      unfolding replace_user_roles_def by (auto simp: outcome_simps Let_def)
    note u' = entityD [OF u(1)]
    have "permission_is_granted (permissions_held ctx) c" if c: "c \<in> set (user_codes t org user)" for c
    proof (rule ensure_can_grantD [OF u(2)])
      from c u' show "c \<in> set (codes_of_roles s org ids)"
        unfolding set_user_codes set_codes_of_roles t(4) role_codes_frame [OF t(2,3)]
        by (auto dest!: new_user_roles_set)
    qed
    moreover have "set (effective_permission_codes t x) \<subseteq> set (user_codes t (user_organization_id x) (user_id x))" for x
      by (auto simp: effective_permission_codes_def permission_codes_def Let_def)
    ultimately show ?thesis
      using entity_put_same [OF u(1), of "u\<lparr>user_auth_version := user_auth_version u + 1\<rparr>"] u' t(1) by fastforce
  qed
  ultimately show ?thesis by (auto simp: gains_def)
qed

text \<open>
  C9: An organization that has an active administrator keeps one, and keeps the built-in administrator role,
  whatever the account and role requests do.
\<close>

theorem administrator_stays:
  assumes "administered org s" "account_step\<^sup>*\<^sup>* s t"
  shows "\<exists>a u. administrator_role t org = Some a \<and> role_name a = organization_administrator \<and> role_is_system a \<and>
    u \<in> set (users t) \<and> user_organization_id u = org \<and> user_is_active u \<and> role_id a \<in> set (role_ids_of t org (user_id u))"
  using administration.always [OF assms(2,1)]
  unfolding administered_def administers_def role_ids_of_def by (force dest: administrator_roleD)

section \<open>The rate limiter\<close>

text \<open>
  C7: The in-process limiter is a sliding window with a bounded memory. On requests in the order of their times
  it admits exactly what a limiter admits that remembers the admitted requests, counts those of the key in the
  last \<open>w\<close>, and, whenever more than \<^verbatim>\<open>10_000\<close> keys are remembered, forgets the one it has known longest; it never
  stores more than \<^verbatim>\<open>10_000\<close> keys. If no more keys than that occur, nothing is forgotten: it admits what a
  limiter admits that remembers everything, and no window of length \<open>w\<close> holds more than \<open>n\<close> admitted requests of
  a key.
\<close>

theorem rate_limiter_is_sliding_window:
  assumes "sorted (map snd reqs)" "0 < w" "0 < n"
  shows "fallback_run n w reqs [] = forgetful_run n w reqs [] [] \<and>
    length (fallback_store n w reqs []) \<le> max_keys \<and>
    (card (fst ` set reqs) \<le> max_keys \<longrightarrow>
      fallback_run n w reqs [] = window_run n w reqs [] \<and>
      length (filter (\<lambda>x. a - w < x \<and> x \<le> a) (history key (admitted (fallback_run n w reqs []) reqs))) \<le> n)"
proof (cases reqs)
  case Nil
  then show ?thesis by (simp add: history_def)
next
  case (Cons r rest)
  have all: "\<forall>x \<in> set reqs. snd r \<le> snd x" using assms(1) Cons by auto
  note run = fallback_forgets [OF follows_start assms(2,3,1) all]
  have "thin n w key ([] @ admitted (window_run n w reqs []) reqs)"
    using window_run_thin [of n w key "[]" "snd r" reqs] all assms(1) by (simp add: thin_def history_def)
  moreover have "forgetful_run n w reqs [] [] = window_run n w reqs []" if "card (fst ` set reqs) \<le> max_keys"
    by (rule forgetful_remembers [OF _ _ _ that]) simp_all
  ultimately show ?thesis using run by (simp add: thin_def)
qed

section \<open>Instances\<close>

theorem login_opens_session_witness:
  "\<exists>t r v. login (sample_crypto ''s'') sample_settings (moment 100 ''n'')
      \<lparr>lr_organization_slug = ''org'', lr_email = ''u'', lr_password = ''pw''\<rparr> None None sample_office = Return t r \<and>
    get_current_user (sample_crypto ''y'') (moment 200 ''m'') (Some (access_token r)) t = Inr v \<and> user_id v = ''u''"
proof -
  let ?p = "\<lparr>lr_organization_slug = ''org'', lr_email = ''u'', lr_password = ''pw''\<rparr>"
  have verified: "verify_and_update_password (sample_crypto ''s'') ''pw'' (user_password_hash (sample_account ''u'')) = (True, None)"
    by (simp add: sample_crypto_def sample_account_def)
  have unused: "token_hash_free h (put_user u sample_office)" for h u
    by (simp add: token_hash_free_def sample_office_def empty_database_def)
  have "user_by_login sample_office ''org'' ''u'' = Some (sample_account ''u'')" "account_active sample_office (sample_account ''u'')"
    by code_simp+
  then have "returned (login (sample_crypto ''s'') sample_settings (moment 100 ''n'') ?p None None sample_office)"
    unfolding login_def create_session_def Let_def
    by (simp add: outcome_simps verified unused session_of_returned [of sample_office "sample_account ''u''"])
  then obtain t r where r: "login (sample_crypto ''s'') sample_settings (moment 100 ''n'') ?p None None sample_office = Return t r"
    by (rule returnedE)
  have "distinct (map user_id (users sample_office))" "distinct (map rtok_token_hash (refresh_tokens sample_office))"
    by (simp_all add: account_sample_defs)
  moreover have "now (moment 100 ''n'') \<le> now (moment 200 ''m'')" by simp
  ultimately obtain u v where u: "user_by_login sample_office (lr_organization_slug ?p) (lr_email ?p) = Some u" "user_id v = user_id u"
    and v: "now (moment 200 ''m'') < now (moment 100 ''n'') + minutes (access_token_ttl_minutes sample_settings) \<longrightarrow>
      get_current_user (sample_crypto ''y'') (moment 200 ''m'') (Some (access_token r)) t = Inr v"
    using login_opens_session [OF r _ _ sample_settings_ok _ sample_jwt_law sample_hash_same] by blast
  from u(1) have "user_id u = ''u''" by (auto simp: user_by_login_def account_sample_defs)
  moreover have "now (moment 200 ''m'') < now (moment 100 ''n'') + minutes (access_token_ttl_minutes sample_settings)"
    by (simp add: sample_settings_def minutes_def seconds_def)
  ultimately show ?thesis using r u(2) v by metis
qed

theorem stolen_token_ends_session_witness:
  "\<exists>t r t'. rotate_refresh_token (sample_crypto ''s'') sample_settings (moment 100 ''n'') ''old'' None None sample_signed_in = Return t r \<and>
    rotate_refresh_token (sample_crypto ''y'') sample_settings (moment 200 ''m'') ''old'' None None t =
      Raise t' (App_Error 401 ''REFRESH_TOKEN_REUSED'') \<and> \<not> session_is_active (moment 300 ''k'') ''o'' ''u'' ''f'' t'"
proof -
  have unused: "token_hash_free (hash_refresh_token (sample_crypto ''s'') (random_text (sample_crypto ''s'') 0)) sample_signed_in"
    by (simp add: token_hash_free_def sample_signed_in_def sample_token_def sample_crypto_def)
  have own: "rtok_revoked_at sample_token = None" "rtok_expires_at sample_token = 5000" "rtok_absolute_expires_at sample_token = 9000"
    "rtok_organization_id sample_token = ''o''" "rtok_user_id sample_token = ''u''" by (simp_all add: sample_token_def)
  have token: "find_token (sample_crypto ''s'') sample_signed_in ''old'' = Some sample_token"
    "find_user sample_signed_in ''o'' ''u'' = Some (sample_account ''u'')" "account_active sample_signed_in (sample_account ''u'')"
    by code_simp+
  then have "returned (rotate_refresh_token (sample_crypto ''s'') sample_settings (moment 100 ''n'') ''old'' None None sample_signed_in)"
    unfolding rotate_refresh_token_def Let_def
    by (simp add: returned_fetch returned_demand unused own session_of_returned [of sample_signed_in "sample_account ''u''"])
  then obtain t r where r: "rotate_refresh_token (sample_crypto ''s'') sample_settings (moment 100 ''n'') ''old'' None None
      sample_signed_in = Return t r" by (rule returnedE)
  from stolen_token_ends_session [OF r sample_signed_in_sessions sample_signed_in_fresh sample_hash_same [of "''y''"]]
  obtain x t' where x: "find_token (sample_crypto ''s'') sample_signed_in ''old'' = Some x"
    "rotate_refresh_token (sample_crypto ''y'') sample_settings (moment 200 ''m'') ''old'' None None t =
      Raise t' (App_Error 401 ''REFRESH_TOKEN_REUSED'')"
    "\<not> session_is_active (moment 300 ''k'') ''o'' ''u'' (rtok_family_id x) t'" by blast
  from x(1) token(1) have "x = sample_token" by simp
  then have "rtok_family_id x = ''f''" by (simp add: sample_token_def)
  with x(3) have "\<not> session_is_active (moment 300 ''k'') ''o'' ''u'' ''f'' t'" by metis
  with r x(2) show ?thesis by blast
qed

theorem one_usable_token_per_session_witness:
  "let t = committed (rotate_refresh_token (sample_crypto ''s'') sample_settings (moment 100 ''n'') ''old'' None None sample_signed_in)
   in \<forall>r \<in> set (refresh_tokens t). \<forall>r' \<in> set (refresh_tokens t).
     rtok_family_id r' = rtok_family_id r \<longrightarrow> rtok_user_id r' = rtok_user_id r"
proof -
  let ?t = "committed (rotate_refresh_token (sample_crypto ''s'') sample_settings (moment 100 ''n'') ''old'' None None sample_signed_in)"
  have "account_step\<^sup>*\<^sup>* sample_signed_in ?t"
    by (rule r_into_rtranclp, rule account_step.refresh, rule sample_signed_in_fresh)
  from one_usable_token_per_session [OF sample_signed_in_sessions this] show ?thesis unfolding Let_def by blast
qed

theorem new_password_signs_out_witness:
  "\<exists>t. change_password (sample_crypto ''s'') (moment 100 ''n'') (sample_account ''u'')
      \<lparr>pc_current_password = ''pw'', pc_new_password = ''new''\<rparr> None None sample_signed_in = Return t () \<and>
    \<not> session_is_active (moment 200 ''m'') ''o'' ''u'' ''f'' t"
proof -
  let ?p = "\<lparr>pc_current_password = ''pw'', pc_new_password = ''new''\<rparr>"
  have "returned (change_password (sample_crypto ''s'') (moment 100 ''n'') (sample_account ''u'') ?p None None sample_signed_in)"
    by code_simp
  then obtain t where t: "change_password (sample_crypto ''s'') (moment 100 ''n'') (sample_account ''u'') ?p None None
      sample_signed_in = Return t ()" by (rule returnedE) simp
  have u: "find_user sample_signed_in (user_organization_id (sample_account ''u'')) (user_id (sample_account ''u'')) =
      Some (sample_account ''u'')" by code_simp
  show ?thesis using new_password_signs_out [OF disjI1, OF conjI, OF t conjI [OF refl u]] t by (auto simp: sample_account_def)
qed

theorem privileges_do_not_grow_witness:
  "\<exists>t w u. replace_user_roles (moment 100 ''n'') office_manager ''o'' ''v'' [''a''] sample_office = Return t w \<and>
    find_user t ''o'' ''v'' = Some u \<and>
    (\<forall>c \<in> set (effective_permission_codes t u). permission_is_granted [''leads.manage''] c)"
proof -
  have "returned (replace_user_roles (moment 100 ''n'') office_manager ''o'' ''v'' [''a''] sample_office)" by code_simp
  then obtain t w where t: "replace_user_roles (moment 100 ''n'') office_manager ''o'' ''v'' [''a''] sample_office = Return t w"
    by (rule returnedE)
  have "distinct (map perm_id (permissions sample_office))" by (simp add: account_sample_defs)
  from privileges_do_not_grow [OF sample_office_roles this sample_office_fresh [of 100], of t office_manager "''o''" _ _ _ "''v''" "[''a'']" _ _ _ w] t
  show ?thesis by (force simp: office_manager_def)
qed

theorem administrator_stays_witness:
  "\<exists>a (u :: user_row). administrator_role (committed (replace_user_roles (moment 100 ''n'') office_manager ''o'' ''v'' [''a''] sample_office)) ''o'' = Some a \<and>
    user_organization_id u = ''o'' \<and> user_is_active u"
proof -
  have "account_step\<^sup>*\<^sup>* sample_office
      (committed (replace_user_roles (moment 100 ''n'') office_manager ''o'' ''v'' [''a''] sample_office))"
    by (rule r_into_rtranclp, rule account_step.roles_assigned)
  from administrator_stays [OF sample_office_administered this] show ?thesis by blast
qed

theorem rate_limiter_is_sliding_window_witness:
  "fallback_run 2 10 [(''a'', 0), (''a'', 1), (''b'', 2), (''a'', 9), (''a'', 10)] [] = [True, True, True, False, True]"
proof -
  let ?reqs = "[(''a'', 0), (''a'', 1), (''b'', 2), (''a'', 9), (''a'', 10 :: int)]"
  have "card (fst ` set ?reqs) \<le> max_keys" by (simp add: max_keys_def card_insert_if)
  moreover have "sorted (map snd ?reqs)" "(0::int) < 10" "0 < (2::nat)" by simp_all
  ultimately have "fallback_run 2 10 ?reqs [] = window_run 2 10 ?reqs []"
    using rate_limiter_is_sliding_window by blast
  also have "\<dots> = [True, True, True, False, True]" by code_simp
  finally show ?thesis .
qed

end
