(* ===== verification/Directory.thy ===== *)
theory Directory
  imports Role_Safety Cost_Sheet_Handlers
begin

text \<open>
  \<^verbatim>\<open>services/organization.py\<close>: the organization, its branches, departments, users, teams and territories.
  The tables that only this service writes are kept in \<open>directory\<close>, next to the \<open>office\<close> database that holds
  the shared ones.
\<close>

section \<open>Tables\<close>

record branch_row =
  branch_id :: ident
  branch_organization_id :: ident
  branch_name :: string
  branch_code :: string
  branch_is_active :: bool
  branch_created_at :: timestamp

record department_row =
  dept_id :: ident
  dept_organization_id :: ident
  dept_branch_id :: "ident option"
  dept_name :: string
  dept_is_active :: bool
  dept_created_at :: timestamp

record team_row =
  team_id :: ident
  team_organization_id :: ident
  team_branch_id :: "ident option"
  team_manager_user_id :: "ident option"
  team_name :: string
  team_code :: string
  team_description :: "string option"
  team_is_active :: bool
  team_created_at :: timestamp

record team_member_row =
  member_id :: ident
  member_organization_id :: ident
  member_team_id :: ident
  member_user_id :: ident
  member_created_at :: timestamp

record territory_row =
  terr_id :: ident
  terr_organization_id :: ident
  terr_branch_id :: "ident option"
  terr_parent_id :: "ident option"
  terr_manager_user_id :: "ident option"
  terr_name :: string
  terr_code :: string
  terr_description :: "string option"
  terr_is_active :: bool
  terr_created_at :: timestamp

record directory =
  office :: database
  branches :: "branch_row list"
  departments :: "department_row list"
  teams :: "team_row list"
  team_members :: "team_member_row list"
  territories :: "territory_row list"

abbreviation find_branch :: "directory \<Rightarrow> ident \<Rightarrow> ident \<Rightarrow> branch_row option" where
  "find_branch s \<equiv> entity branch_organization_id branch_id (branches s)"

abbreviation find_department :: "directory \<Rightarrow> ident \<Rightarrow> ident \<Rightarrow> department_row option" where
  "find_department s \<equiv> entity dept_organization_id dept_id (departments s)"

abbreviation find_team :: "directory \<Rightarrow> ident \<Rightarrow> ident \<Rightarrow> team_row option" where
  "find_team s \<equiv> entity team_organization_id team_id (teams s)"

abbreviation find_territory :: "directory \<Rightarrow> ident \<Rightarrow> ident \<Rightarrow> territory_row option" where
  "find_territory s \<equiv> entity terr_organization_id terr_id (territories s)"

definition in_office :: "(database \<Rightarrow> database) \<Rightarrow> directory \<Rightarrow> directory" where
  "in_office f s = s\<lparr>office := f (office s)\<rparr>"

definition conflict :: "string \<Rightarrow> app_error" where
  "conflict code = App_Error 409 code"

definition may :: "mutation_context \<Rightarrow> string \<Rightarrow> bool" where
  "may ctx permission = permission_is_granted (permissions_held ctx) permission"

text \<open>
  An empty identifier passes Python's \<^verbatim>\<open>if x:\<close> and is then refused by the foreign key, inside the block that
  maps integrity errors to the conflict of the operation.
\<close>

definition no_blank :: "ident option list \<Rightarrow> bool" where
  "no_blank xs = list_all (\<lambda>x. x \<noteq> Some []) xs"

definition validate_branch :: "directory \<Rightarrow> ident \<Rightarrow> ident option \<Rightarrow> bool" where
  "validate_branch s org x = opt_all (\<lambda>i. find_branch s org i \<noteq> None) (given x)"

section \<open>The organization\<close>

record organization_update =
  ou_name :: "string option option"
  ou_legal_name :: "string option option"
  ou_contact_email :: "string option option"
  ou_contact_phone :: "string option option"
  ou_timezone :: "string option option"
  ou_currency :: "string option option"
  ou_date_format :: "string option option"

text \<open>\<^verbatim>\<open>OrganizationUpdate.at_least_one_field\<close>; a name that is cleaned to nothing is refused.\<close>

definition organization_update_ok :: "organization_update \<Rightarrow> bool" where
  "organization_update_ok p \<longleftrightarrow> ou_name p \<noteq> Some None \<and>
     list_ex (\<lambda>x. x \<noteq> None) [ou_name p, ou_legal_name p, ou_contact_email p, ou_contact_phone p, ou_timezone p,
       ou_currency p, ou_date_format p]"

definition changed :: "'a option \<Rightarrow> 'a \<Rightarrow> 'a" where
  "changed change current = (case change of None \<Rightarrow> current | Some x \<Rightarrow> x)"

definition updated_organization :: "organization_update \<Rightarrow> organization_row \<Rightarrow> organization_row" where
  "updated_organization p x =
     x\<lparr>org_name := (case ou_name p of Some (Some n) \<Rightarrow> n | _ \<Rightarrow> org_name x),
       org_legal_name := changed (ou_legal_name p) (org_legal_name x),
       org_contact_email := changed (ou_contact_email p) (org_contact_email x),
       org_contact_phone := changed (ou_contact_phone p) (org_contact_phone x),
       org_timezone := changed (ou_timezone p) (org_timezone x),
       org_currency := changed (ou_currency p) (org_currency x),
       org_date_format := changed (ou_date_format p) (org_date_format x)\<rparr>"

definition organization_snapshot :: "organization_row \<Rightarrow> snapshot" where
  "organization_snapshot x =
     [(''name'', JStr (org_name x)), (''legal_name'', jopt JStr (org_legal_name x)),
      (''contact_email'', jopt JStr (org_contact_email x)), (''contact_phone'', jopt JStr (org_contact_phone x)),
      (''timezone'', jopt JStr (org_timezone x)), (''currency'', jopt JStr (org_currency x)),
      (''date_format'', jopt JStr (org_date_format x))]"

definition get_organization :: "directory \<Rightarrow> ident \<Rightarrow> app_error + organization_row" where
  "get_organization s org = need (find_organization (office s) org) resource_not_found Inr"

definition update_organization ::
  "env \<Rightarrow> mutation_context \<Rightarrow> ident \<Rightarrow> organization_update \<Rightarrow> directory \<Rightarrow> (directory, organization_row) outcome" where
  "update_organization e ctx org p s =
     fetch s (find_organization (office s) org) resource_not_found (\<lambda>x.
     let x' = updated_organization p x;
         audit = audit_entry e (uuid e 0) org ctx ''organization.updated'' ''organization'' (org_id x)
           (Some (organization_snapshot x)) (Some (organization_snapshot x')) in
     Return (in_office (\<lambda>d. add_audits [audit] (d\<lparr>organizations := put_row org_id x' (organizations d)\<rparr>)) s) x')"

section \<open>Branches\<close>

record branch_create =
  brc_name :: string
  brc_code :: string
  brc_is_active :: bool

record branch_view =
  brv_id :: ident
  brv_name :: string
  brv_code :: string
  brv_is_active :: bool
  brv_department_count :: nat
  brv_user_count :: nat
  brv_created_at :: timestamp

definition branch_view_of :: "nat \<Rightarrow> nat \<Rightarrow> branch_row \<Rightarrow> branch_view" where
  "branch_view_of nd nu b =
     \<lparr>brv_id = branch_id b, brv_name = branch_name b, brv_code = branch_code b, brv_is_active = branch_is_active b,
      brv_department_count = nd, brv_user_count = nu, brv_created_at = branch_created_at b\<rparr>"

definition list_branches ::
  "directory \<Rightarrow> ident \<Rightarrow> string option \<Rightarrow> bool option \<Rightarrow> nat \<Rightarrow> nat \<Rightarrow> branch_view page" where
  "list_branches s org q active page page_size =
     (let rows = filter (\<lambda>b. branch_organization_id b = org \<and>
            opt_all (\<lambda>x. ilike (branch_name b) (search_pattern x) \<or> ilike (branch_code b) (search_pattern x)) (given q) \<and>
            opt_all (\<lambda>a. branch_is_active b = a) active) (branches s) in
      paged page page_size (length rows) (map (\<lambda>b. branch_view_of
          (count_rows (\<lambda>d. dept_organization_id d = org \<and> dept_branch_id d = Some (branch_id b)) (departments s))
          (count_rows (\<lambda>u. user_organization_id u = org \<and> user_branch_id u = Some (branch_id b)) (users (office s))) b)
        (page_of page page_size (sort_key branch_name rows))))"

definition branch_snapshot :: "branch_row \<Rightarrow> snapshot" where
  "branch_snapshot b =
     [(''name'', JStr (branch_name b)), (''code'', JStr (branch_code b)), (''is_active'', JBool (branch_is_active b))]"

definition branch_code_free :: "directory \<Rightarrow> ident \<Rightarrow> ident \<Rightarrow> string \<Rightarrow> bool" where
  "branch_code_free s org except code \<longleftrightarrow>
     list_all (\<lambda>b. \<not> (branch_organization_id b = org \<and> branch_code b = code \<and> branch_id b \<noteq> except)) (branches s)"

definition create_branch ::
  "env \<Rightarrow> mutation_context \<Rightarrow> ident \<Rightarrow> branch_create \<Rightarrow> directory \<Rightarrow> (directory, branch_view) outcome" where
  "create_branch e ctx org p s =
     (let b = \<lparr>branch_id = uuid e 0, branch_organization_id = org, branch_name = brc_name p, branch_code = brc_code p,
            branch_is_active = brc_is_active p, branch_created_at = now e\<rparr> in
      demand s (branch_code_free s org (branch_id b) (branch_code b)) (conflict ''BRANCH_CODE_EXISTS'') (
      let audit = audit_entry e (uuid e 1) org ctx ''branch.created'' ''branch'' (branch_id b) None (Some (branch_snapshot b)) in
      Return (in_office (add_audits [audit]) (s\<lparr>branches := branches s @ [b]\<rparr>)) (branch_view_of 0 0 b)))"

definition update_branch ::
  "env \<Rightarrow> mutation_context \<Rightarrow> ident \<Rightarrow> ident \<Rightarrow> branch_create \<Rightarrow> directory \<Rightarrow> (directory, branch_view) outcome" where
  "update_branch e ctx org bid p s =
     fetch s (find_branch s org bid) resource_not_found (\<lambda>b.
     let b' = b\<lparr>branch_name := brc_name p, branch_code := brc_code p, branch_is_active := brc_is_active p\<rparr> in
     demand s (branch_code_free s org (branch_id b) (branch_code b')) (conflict ''BRANCH_CODE_EXISTS'') (
     let audit = audit_entry e (uuid e 0) org ctx ''branch.updated'' ''branch'' (branch_id b)
           (Some (branch_snapshot b)) (Some (branch_snapshot b')) in
     Return (in_office (add_audits [audit]) (s\<lparr>branches := put_row branch_id b' (branches s)\<rparr>)) (branch_view_of 0 0 b')))"

text \<open>The rows that a foreign key on branches protects.\<close>

definition branch_in_use :: "directory \<Rightarrow> ident \<Rightarrow> ident \<Rightarrow> bool" where
  "branch_in_use s org bid \<longleftrightarrow>
     list_ex (\<lambda>d. dept_organization_id d = org \<and> dept_branch_id d = Some bid) (departments s) \<or>
     list_ex (\<lambda>x. team_organization_id x = org \<and> team_branch_id x = Some bid) (teams s) \<or>
     list_ex (\<lambda>x. terr_organization_id x = org \<and> terr_branch_id x = Some bid) (territories s) \<or>
     list_ex (\<lambda>u. user_organization_id u = org \<and> user_branch_id u = Some bid) (users (office s)) \<or>
     list_ex (\<lambda>l. lead_organization_id l = org \<and> lead_branch_id l = Some bid) (leads (office s)) \<or>
     list_ex (\<lambda>c. cust_organization_id c = org \<and> cust_branch_id c = Some bid) (customers (office s))"

definition delete_branch :: "env \<Rightarrow> mutation_context \<Rightarrow> ident \<Rightarrow> ident \<Rightarrow> directory \<Rightarrow> (directory, unit) outcome" where
  "delete_branch e ctx org bid s =
     fetch s (find_branch s org bid) resource_not_found (\<lambda>b.
     demand s (\<not> branch_in_use s org (branch_id b)) (conflict ''RESOURCE_IN_USE'') (
     let audit = audit_entry e (uuid e 0) org ctx ''branch.deleted'' ''branch'' (branch_id b) (Some (branch_snapshot b)) None in
     Return (in_office (add_audits [audit]) (s\<lparr>branches := filter (\<lambda>x. branch_id x \<noteq> branch_id b) (branches s)\<rparr>)) ()))"

section \<open>Departments\<close>

record department_create =
  dpc_name :: string
  dpc_branch_id :: "ident option"
  dpc_is_active :: bool

record department_view =
  dpv_id :: ident
  dpv_name :: string
  dpv_branch_id :: "ident option"
  dpv_branch_name :: "string option"
  dpv_is_active :: bool
  dpv_user_count :: nat
  dpv_created_at :: timestamp

definition branch_name_of :: "directory \<Rightarrow> ident \<Rightarrow> ident option \<Rightarrow> string option" where
  "branch_name_of s org x = (case given x of None \<Rightarrow> None | Some i \<Rightarrow> map_option branch_name (find_branch s org i))"

definition department_view_of :: "directory \<Rightarrow> department_row \<Rightarrow> department_view" where
  "department_view_of s d =
     \<lparr>dpv_id = dept_id d, dpv_name = dept_name d, dpv_branch_id = dept_branch_id d,
      dpv_branch_name = branch_name_of s (dept_organization_id d) (dept_branch_id d), dpv_is_active = dept_is_active d,
      dpv_user_count = count_rows (\<lambda>u. user_organization_id u = dept_organization_id d \<and>
        user_department_id u = Some (dept_id d)) (users (office s)), dpv_created_at = dept_created_at d\<rparr>"

definition list_departments ::
  "directory \<Rightarrow> ident \<Rightarrow> string option \<Rightarrow> bool option \<Rightarrow> ident option \<Rightarrow> nat \<Rightarrow> nat \<Rightarrow> department_view page" where
  "list_departments s org q active branch page page_size =
     (let rows = filter (\<lambda>d. dept_organization_id d = org \<and> opt_all (\<lambda>x. ilike (dept_name d) (search_pattern x)) (given q) \<and>
            opt_all (\<lambda>a. dept_is_active d = a) active \<and> opt_all (\<lambda>x. dept_branch_id d = Some x) (given branch)) (departments s) in
      paged page page_size (length rows)
        (map (department_view_of s) (page_of page page_size (sort_key dept_name rows))))"

definition department_snapshot :: "department_row \<Rightarrow> snapshot" where
  "department_snapshot d =
     [(''name'', JStr (dept_name d)), (''branch_id'', jopt JStr (dept_branch_id d)), (''is_active'', JBool (dept_is_active d))]"

text \<open>The unique index on organization, branch and name; MySQL lets departments without a branch repeat a name.\<close>

definition department_free :: "directory \<Rightarrow> ident \<Rightarrow> ident \<Rightarrow> ident option \<Rightarrow> string \<Rightarrow> bool" where
  "department_free s org except branch name \<longleftrightarrow> branch = None \<or>
     list_all (\<lambda>d. \<not> (dept_organization_id d = org \<and> dept_branch_id d = branch \<and> dept_name d = name \<and> dept_id d \<noteq> except))
       (departments s)"

definition create_department ::
  "env \<Rightarrow> mutation_context \<Rightarrow> ident \<Rightarrow> department_create \<Rightarrow> directory \<Rightarrow> (directory, department_view) outcome" where
  "create_department e ctx org p s =
     demand s (given (dpc_branch_id p) \<noteq> None \<longrightarrow> may ctx ''departments.assign'') permission_denied (
     demand s (validate_branch s org (dpc_branch_id p)) resource_not_found (
     let d = \<lparr>dept_id = uuid e 0, dept_organization_id = org, dept_branch_id = dpc_branch_id p, dept_name = dpc_name p,
           dept_is_active = dpc_is_active p, dept_created_at = now e\<rparr> in
     demand s (no_blank [dept_branch_id d] \<and> department_free s org (dept_id d) (dept_branch_id d) (dept_name d))
       (conflict ''DEPARTMENT_EXISTS'') (
     let audit = audit_entry e (uuid e 1) org ctx ''department.created'' ''department'' (dept_id d) None
           (Some (department_snapshot d));
         t = in_office (add_audits [audit]) (s\<lparr>departments := departments s @ [d]\<rparr>) in
     Return t (department_view_of t d))))"

definition update_department ::
  "env \<Rightarrow> mutation_context \<Rightarrow> ident \<Rightarrow> ident \<Rightarrow> department_create \<Rightarrow> directory \<Rightarrow> (directory, department_view) outcome" where
  "update_department e ctx org did p s =
     fetch s (find_department s org did) resource_not_found (\<lambda>d.
     demand s (dpc_branch_id p \<noteq> dept_branch_id d \<longrightarrow> may ctx ''departments.assign'') permission_denied (
     demand s (validate_branch s org (dpc_branch_id p)) resource_not_found (
     let d' = d\<lparr>dept_name := dpc_name p, dept_branch_id := dpc_branch_id p, dept_is_active := dpc_is_active p\<rparr> in
     demand s (no_blank [dept_branch_id d'] \<and> department_free s org (dept_id d) (dept_branch_id d') (dept_name d'))
       (conflict ''DEPARTMENT_EXISTS'') (
     let audit = audit_entry e (uuid e 0) org ctx ''department.updated'' ''department'' (dept_id d)
           (Some (department_snapshot d)) (Some (department_snapshot d'));
         t = in_office (add_audits [audit]) (s\<lparr>departments := put_row dept_id d' (departments s)\<rparr>) in
     Return t (department_view_of t d')))))"

definition delete_department :: "env \<Rightarrow> mutation_context \<Rightarrow> ident \<Rightarrow> ident \<Rightarrow> directory \<Rightarrow> (directory, unit) outcome" where
  "delete_department e ctx org did s =
     fetch s (find_department s org did) resource_not_found (\<lambda>d.
     demand s (list_all (\<lambda>u. \<not> (user_organization_id u = org \<and> user_department_id u = Some (dept_id d))) (users (office s)))
       (conflict ''RESOURCE_IN_USE'') (
     let audit = audit_entry e (uuid e 0) org ctx ''department.deleted'' ''department'' (dept_id d)
           (Some (department_snapshot d)) None in
     Return (in_office (add_audits [audit]) (s\<lparr>departments := filter (\<lambda>x. dept_id x \<noteq> dept_id d) (departments s)\<rparr>)) ()))"

end
