(* ===== verification/Directory_People.thy ===== *)
theory Directory_People
  imports Directory
begin

text \<open>
  Users, teams, territories and the audit views of \<^verbatim>\<open>services/organization.py\<close>.
\<close>

section \<open>Users\<close>

record user_update =
  uu_email :: string
  uu_full_name :: string
  uu_branch_id :: "ident option"
  uu_department_id :: "ident option"
  uu_is_active :: bool

record user_management_view =
  umv_id :: ident
  umv_email :: string
  umv_full_name :: string
  umv_branch_id :: "ident option"
  umv_branch_name :: "string option"
  umv_department_id :: "ident option"
  umv_department_name :: "string option"
  umv_is_active :: bool
  umv_role_names :: "string list"
  umv_created_at :: timestamp
  umv_last_login_at :: "timestamp option"

definition user_view_of :: "directory \<Rightarrow> ident \<Rightarrow> user_row \<Rightarrow> user_management_view" where
  "user_view_of s org u =
     \<lparr>umv_id = user_id u, umv_email = user_email u, umv_full_name = user_full_name u, umv_branch_id = user_branch_id u,
      umv_branch_name = branch_name_of s org (user_branch_id u), umv_department_id = user_department_id u,
      umv_department_name = (case given (user_department_id u) of None \<Rightarrow> None
        | Some i \<Rightarrow> map_option dept_name (find_department s org i)),
      umv_is_active = user_is_active u, umv_role_names = sort (user_role_names (office s) org (user_id u)),
      umv_created_at = user_created_at u, umv_last_login_at = user_last_login_at u\<rparr>"

definition list_users ::
  "directory \<Rightarrow> ident \<Rightarrow> string option \<Rightarrow> bool option \<Rightarrow> ident option \<Rightarrow> ident option \<Rightarrow> nat \<Rightarrow> nat \<Rightarrow>
   user_management_view page" where
  "list_users s org q active branch department page page_size =
     (let rows = filter (\<lambda>u. user_organization_id u = org \<and>
            opt_all (\<lambda>x. ilike (user_full_name u) (search_pattern x) \<or> ilike (user_email u) (search_pattern x)) (given q) \<and>
            opt_all (\<lambda>a. user_is_active u = a) active \<and> opt_all (\<lambda>x. user_branch_id u = Some x) (given branch) \<and>
            opt_all (\<lambda>x. user_department_id u = Some x) (given department)) (users (office s)) in
      paged page page_size (length rows)
        (map (user_view_of s org) (page_of page page_size (sort_key user_full_name rows))))"

text \<open>\<^verbatim>\<open>_validate_user_structure\<close>: the department exists and belongs to the branch of the user, or to none.\<close>

definition validate_user_structure ::
  "directory \<Rightarrow> ident \<Rightarrow> ident option \<Rightarrow> ident option \<Rightarrow> app_error + unit" where
  "validate_user_structure s org branch department =
     require (validate_branch s org branch) resource_not_found (
     need_given department (find_department s org) resource_not_found (\<lambda>d.
     require (opt_all (\<lambda>x. dept_branch_id x = None \<or> dept_branch_id x = branch) d)
       (App_Error 400 ''DEPARTMENT_BRANCH_MISMATCH'') (Inr ())))"

definition user_snapshot :: "user_row \<Rightarrow> snapshot" where
  "user_snapshot u =
     [(''email'', JStr (user_email u)), (''full_name'', JStr (user_full_name u)),
      (''branch_id'', jopt JStr (user_branch_id u)), (''department_id'', jopt JStr (user_department_id u)),
      (''is_active'', JBool (user_is_active u)), (''auth_version'', JInt (user_auth_version u))]"

definition user_email_free :: "directory \<Rightarrow> ident \<Rightarrow> ident \<Rightarrow> string \<Rightarrow> bool" where
  "user_email_free s org except email \<longleftrightarrow>
     list_all (\<lambda>u. \<not> (user_organization_id u = org \<and> user_email u = email \<and> user_id u \<noteq> except)) (users (office s))"

definition create_user ::
  "crypto \<Rightarrow> env \<Rightarrow> mutation_context \<Rightarrow> ident \<Rightarrow> user_update \<Rightarrow> string \<Rightarrow> directory \<Rightarrow>
   (directory, user_management_view) outcome" where
  "create_user k e ctx org p password s =
     demand s (given (uu_branch_id p) \<noteq> None \<or> given (uu_department_id p) \<noteq> None \<longrightarrow> may ctx ''users.assign'') permission_denied (
     attempt s (validate_user_structure s org (uu_branch_id p) (uu_department_id p)) (\<lambda>_.
     let u = \<lparr>user_id = uuid e 0, user_organization_id = org, user_branch_id = uu_branch_id p,
           user_department_id = uu_department_id p, user_email = uu_email p, user_full_name = uu_full_name p,
           user_password_hash = hash_password k password, user_auth_version = 1, user_is_active = uu_is_active p,
           user_last_login_at = None, user_created_at = now e\<rparr> in
     demand s (no_blank [user_branch_id u, user_department_id u] \<and> user_email_free s org (user_id u) (user_email u))
       (conflict ''USER_EMAIL_EXISTS'') (
     let audit = audit_entry e (uuid e 1) org ctx ''user.created'' ''user'' (user_id u) None (Some (user_snapshot u));
         t = in_office (\<lambda>d. add_audits [audit] (d\<lparr>users := users d @ [u]\<rparr>)) s in
     Return t (user_view_of t org u))))"

text \<open>\<^verbatim>\<open>setattr\<close> for every field, and a new version when the account is switched off.\<close>

definition updated_user :: "user_update \<Rightarrow> user_row \<Rightarrow> user_row" where
  "updated_user p u =
     u\<lparr>user_email := uu_email p, user_full_name := uu_full_name p, user_branch_id := uu_branch_id p,
       user_department_id := uu_department_id p, user_is_active := uu_is_active p,
       user_auth_version := (if user_is_active u \<and> \<not> uu_is_active p then user_auth_version u + 1 else user_auth_version u)\<rparr>"

definition self_deactivation :: app_error where
  "self_deactivation = App_Error 409 ''SELF_DEACTIVATION_NOT_ALLOWED''"

definition update_user ::
  "env \<Rightarrow> mutation_context \<Rightarrow> ident \<Rightarrow> ident \<Rightarrow> user_update \<Rightarrow> directory \<Rightarrow> (directory, user_management_view) outcome" where
  "update_user e ctx org uid p s =
     fetch s (find_user (office s) org uid) resource_not_found (\<lambda>u.
     demand s (\<not> (user_id u = actor_user_id ctx \<and> \<not> uu_is_active p)) self_deactivation (
     demand s (uu_branch_id p \<noteq> user_branch_id u \<or> uu_department_id p \<noteq> user_department_id u \<longrightarrow> may ctx ''users.assign'')
       permission_denied (
     attempt s (validate_user_structure s org (uu_branch_id p) (uu_department_id p)) (\<lambda>_.
     let u' = updated_user p u in
     demand s (no_blank [user_branch_id u', user_department_id u'] \<and> user_email_free s org (user_id u) (user_email u'))
       (conflict ''USER_EMAIL_EXISTS'') (
     let audit = audit_entry e (uuid e 0) org ctx ''user.updated'' ''user'' (user_id u)
           (Some (user_snapshot u)) (Some (user_snapshot u'));
         off = user_is_active u \<and> \<not> user_is_active u';
         t = in_office (\<lambda>d. add_audits [audit]
           ((if off then revoke_user_sessions e org (user_id u) else (\<lambda>x. x)) (put_user u' d))) s in
     Return t (user_view_of t org u'))))))"

definition deactivated :: "user_row \<Rightarrow> user_row" where
  "deactivated u = u\<lparr>user_is_active := False, user_auth_version := user_auth_version u + 1\<rparr>"

definition deactivate_user ::
  "env \<Rightarrow> mutation_context \<Rightarrow> ident \<Rightarrow> ident \<Rightarrow> directory \<Rightarrow> (directory, unit) outcome" where
  "deactivate_user e ctx org uid s =
     fetch s (find_user (office s) org uid) resource_not_found (\<lambda>u.
     demand s (user_id u \<noteq> actor_user_id ctx) self_deactivation (
     let u' = deactivated u;
         audit = audit_entry e (uuid e 0) org ctx ''user.deactivated'' ''user'' (user_id u)
           (Some (user_snapshot u)) (Some (user_snapshot u')) in
     Return (in_office (\<lambda>d. add_audits [audit] (revoke_user_sessions e org (user_id u) (put_user u' d))) s) ()))"

section \<open>Teams\<close>

record team_create =
  tmc_name :: string
  tmc_code :: string
  tmc_description :: "string option"
  tmc_branch_id :: "ident option"
  tmc_manager_user_id :: "ident option"
  tmc_member_ids :: "ident list"
  tmc_is_active :: bool

definition team_create_ok :: "team_create \<Rightarrow> bool" where
  "team_create_ok p \<longleftrightarrow> distinct (tmc_member_ids p)"

record team_view =
  tmv_id :: ident
  tmv_name :: string
  tmv_code :: string
  tmv_description :: "string option"
  tmv_branch_id :: "ident option"
  tmv_branch_name :: "string option"
  tmv_manager_user_id :: "ident option"
  tmv_manager_name :: "string option"
  tmv_member_ids :: "ident list"
  tmv_member_names :: "string list"
  tmv_is_active :: bool
  tmv_created_at :: timestamp

definition user_name_of :: "directory \<Rightarrow> ident \<Rightarrow> ident option \<Rightarrow> string option" where
  "user_name_of s org x = (case given x of None \<Rightarrow> None | Some i \<Rightarrow> map_option user_full_name (find_user (office s) org i))"

definition member_ids :: "directory \<Rightarrow> ident \<Rightarrow> ident \<Rightarrow> ident list" where
  "member_ids s org tid =
     map member_user_id (filter (\<lambda>m. member_organization_id m = org \<and> member_team_id m = tid) (team_members s))"

definition team_view_of :: "directory \<Rightarrow> ident \<Rightarrow> team_row \<Rightarrow> team_view" where
  "team_view_of s org x =
     \<lparr>tmv_id = team_id x, tmv_name = team_name x, tmv_code = team_code x, tmv_description = team_description x,
      tmv_branch_id = team_branch_id x, tmv_branch_name = branch_name_of s org (team_branch_id x),
      tmv_manager_user_id = team_manager_user_id x, tmv_manager_name = user_name_of s org (team_manager_user_id x),
      tmv_member_ids = member_ids s org (team_id x),
      tmv_member_names = sort [user_full_name u. i \<leftarrow> member_ids s org (team_id x),
        u \<leftarrow> (case find_user (office s) org i of None \<Rightarrow> [] | Some u \<Rightarrow> [u])],
      tmv_is_active = team_is_active x, tmv_created_at = team_created_at x\<rparr>"

definition list_teams ::
  "directory \<Rightarrow> ident \<Rightarrow> string option \<Rightarrow> bool option \<Rightarrow> ident option \<Rightarrow> nat \<Rightarrow> nat \<Rightarrow> team_view page" where
  "list_teams s org q active branch page page_size =
     (let rows = filter (\<lambda>x. team_organization_id x = org \<and>
            opt_all (\<lambda>y. ilike (team_name x) (search_pattern y) \<or> ilike (team_code x) (search_pattern y)) (given q) \<and>
            opt_all (\<lambda>a. team_is_active x = a) active \<and> opt_all (\<lambda>y. team_branch_id x = Some y) (given branch)) (teams s) in
      paged page page_size (length rows) (map (team_view_of s org) (page_of page page_size (sort_key team_name rows))))"

text \<open>\<^verbatim>\<open>_validate_users\<close>: every member, and the manager if there is one, is an active user.\<close>

definition validate_users :: "directory \<Rightarrow> ident \<Rightarrow> ident list \<Rightarrow> ident option \<Rightarrow> bool" where
  "validate_users s org members manager \<longleftrightarrow>
     list_all (\<lambda>i. list_ex (\<lambda>u. user_organization_id u = org \<and> user_id u = i \<and> user_is_active u) (users (office s)))
       (members @ (case given manager of None \<Rightarrow> [] | Some m \<Rightarrow> [m]))"

definition invalid_user_ids :: app_error where
  "invalid_user_ids = App_Error 400 ''INVALID_USER_IDS''"

definition team_snapshot :: "team_row \<Rightarrow> ident list \<Rightarrow> snapshot" where
  "team_snapshot x members =
     [(''name'', JStr (team_name x)), (''code'', JStr (team_code x)), (''description'', jopt JStr (team_description x)),
      (''branch_id'', jopt JStr (team_branch_id x)), (''manager_user_id'', jopt JStr (team_manager_user_id x)),
      (''member_ids'', JList (map JStr (sort members))), (''is_active'', JBool (team_is_active x))]"

definition team_code_free :: "directory \<Rightarrow> ident \<Rightarrow> ident \<Rightarrow> string \<Rightarrow> bool" where
  "team_code_free s org except code \<longleftrightarrow>
     list_all (\<lambda>x. \<not> (team_organization_id x = org \<and> team_code x = code \<and> team_id x \<noteq> except)) (teams s)"

definition new_members :: "env \<Rightarrow> nat \<Rightarrow> ident \<Rightarrow> ident \<Rightarrow> ident list \<Rightarrow> team_member_row list" where
  "new_members e n org tid ids =
     map (\<lambda>(j, u). \<lparr>member_id = uuid e (n + j), member_organization_id = org, member_team_id = tid, member_user_id = u,
       member_created_at = now e\<rparr>) (enumerate 0 ids)"

definition create_team ::
  "env \<Rightarrow> mutation_context \<Rightarrow> ident \<Rightarrow> team_create \<Rightarrow> directory \<Rightarrow> (directory, team_view) outcome" where
  "create_team e ctx org p s =
     demand s (given (tmc_branch_id p) \<noteq> None \<or> given (tmc_manager_user_id p) \<noteq> None \<or> tmc_member_ids p \<noteq> [] \<longrightarrow>
       may ctx ''teams.assign'') permission_denied (
     demand s (validate_branch s org (tmc_branch_id p)) resource_not_found (
     demand s (validate_users s org (tmc_member_ids p) (tmc_manager_user_id p)) invalid_user_ids (
     let x = \<lparr>team_id = uuid e 0, team_organization_id = org, team_branch_id = tmc_branch_id p,
           team_manager_user_id = tmc_manager_user_id p, team_name = tmc_name p, team_code = tmc_code p,
           team_description = tmc_description p, team_is_active = tmc_is_active p, team_created_at = now e\<rparr> in
     demand s (no_blank [team_branch_id x, team_manager_user_id x] \<and> team_code_free s org (team_id x) (team_code x))
       (conflict ''TEAM_CODE_EXISTS'') (
     let audit = audit_entry e (uuid e 1) org ctx ''team.created'' ''team'' (team_id x) None
           (Some (team_snapshot x (tmc_member_ids p)));
         t = in_office (add_audits [audit]) (s\<lparr>teams := teams s @ [x],
           team_members := team_members s @ new_members e 2 org (team_id x) (tmc_member_ids p)\<rparr>) in
     Return t (team_view_of t org x)))))"

definition other_members :: "ident \<Rightarrow> ident \<Rightarrow> team_member_row list \<Rightarrow> team_member_row list" where
  "other_members org tid = filter (\<lambda>m. \<not> (member_organization_id m = org \<and> member_team_id m = tid))"

definition updated_team :: "team_create \<Rightarrow> team_row \<Rightarrow> team_row" where
  "updated_team p x =
     x\<lparr>team_name := tmc_name p, team_code := tmc_code p, team_description := tmc_description p,
       team_branch_id := tmc_branch_id p, team_manager_user_id := tmc_manager_user_id p, team_is_active := tmc_is_active p\<rparr>"

definition update_team ::
  "env \<Rightarrow> mutation_context \<Rightarrow> ident \<Rightarrow> ident \<Rightarrow> team_create \<Rightarrow> directory \<Rightarrow> (directory, team_view) outcome" where
  "update_team e ctx org tid p s =
     fetch s (find_team s org tid) resource_not_found (\<lambda>x.
     demand s (validate_branch s org (tmc_branch_id p)) resource_not_found (
     demand s (validate_users s org (tmc_member_ids p) (tmc_manager_user_id p)) invalid_user_ids (
     let current = member_ids s org (team_id x) in
     demand s (tmc_branch_id p \<noteq> team_branch_id x \<or> tmc_manager_user_id p \<noteq> team_manager_user_id x \<or>
         set (tmc_member_ids p) \<noteq> set current \<longrightarrow> may ctx ''teams.assign'') permission_denied (
     let x' = updated_team p x in
     demand s (no_blank [team_branch_id x', team_manager_user_id x'] \<and> team_code_free s org (team_id x) (team_code x'))
       (conflict ''TEAM_CODE_EXISTS'') (
     let audit = audit_entry e (uuid e 0) org ctx ''team.updated'' ''team'' (team_id x)
           (Some (team_snapshot x current)) (Some (team_snapshot x' (tmc_member_ids p)));
         t = in_office (add_audits [audit]) (s\<lparr>teams := put_row team_id x' (teams s),
           team_members := other_members org (team_id x) (team_members s) @
             new_members e 1 org (team_id x) (tmc_member_ids p)\<rparr>) in
     Return t (team_view_of t org x'))))))"

definition delete_team :: "env \<Rightarrow> mutation_context \<Rightarrow> ident \<Rightarrow> ident \<Rightarrow> directory \<Rightarrow> (directory, unit) outcome" where
  "delete_team e ctx org tid s =
     fetch s (find_team s org tid) resource_not_found (\<lambda>x.
     let audit = audit_entry e (uuid e 0) org ctx ''team.deleted'' ''team'' (team_id x)
           (Some (team_snapshot x (member_ids s org (team_id x)))) None in
     Return (in_office (add_audits [audit]) (s\<lparr>teams := filter (\<lambda>y. team_id y \<noteq> team_id x) (teams s),
       team_members := other_members org (team_id x) (team_members s)\<rparr>)) ())"

section \<open>Territories\<close>

record territory_create =
  ttc_name :: string
  ttc_code :: string
  ttc_description :: "string option"
  ttc_branch_id :: "ident option"
  ttc_parent_id :: "ident option"
  ttc_manager_user_id :: "ident option"
  ttc_is_active :: bool

record territory_view =
  ttv_id :: ident
  ttv_name :: string
  ttv_code :: string
  ttv_description :: "string option"
  ttv_branch_id :: "ident option"
  ttv_branch_name :: "string option"
  ttv_parent_id :: "ident option"
  ttv_parent_name :: "string option"
  ttv_manager_user_id :: "ident option"
  ttv_manager_name :: "string option"
  ttv_is_active :: bool
  ttv_created_at :: timestamp

definition territory_view_of :: "directory \<Rightarrow> ident \<Rightarrow> territory_row \<Rightarrow> territory_view" where
  "territory_view_of s org x =
     \<lparr>ttv_id = terr_id x, ttv_name = terr_name x, ttv_code = terr_code x, ttv_description = terr_description x,
      ttv_branch_id = terr_branch_id x, ttv_branch_name = branch_name_of s org (terr_branch_id x),
      ttv_parent_id = terr_parent_id x,
      ttv_parent_name = (case given (terr_parent_id x) of None \<Rightarrow> None | Some i \<Rightarrow> map_option terr_name (find_territory s org i)),
      ttv_manager_user_id = terr_manager_user_id x, ttv_manager_name = user_name_of s org (terr_manager_user_id x),
      ttv_is_active = terr_is_active x, ttv_created_at = terr_created_at x\<rparr>"

definition list_territories ::
  "directory \<Rightarrow> ident \<Rightarrow> string option \<Rightarrow> bool option \<Rightarrow> ident option \<Rightarrow> nat \<Rightarrow> nat \<Rightarrow> territory_view page" where
  "list_territories s org q active branch page page_size =
     (let rows = filter (\<lambda>x. terr_organization_id x = org \<and>
            opt_all (\<lambda>y. ilike (terr_name x) (search_pattern y) \<or> ilike (terr_code x) (search_pattern y)) (given q) \<and>
            opt_all (\<lambda>a. terr_is_active x = a) active \<and> opt_all (\<lambda>y. terr_branch_id x = Some y) (given branch)) (territories s) in
      paged page page_size (length rows)
        (map (territory_view_of s org) (page_of page page_size (sort_key terr_name rows))))"

definition territory_snapshot :: "territory_row \<Rightarrow> snapshot" where
  "territory_snapshot x =
     [(''name'', JStr (terr_name x)), (''code'', JStr (terr_code x)), (''description'', jopt JStr (terr_description x)),
      (''branch_id'', jopt JStr (terr_branch_id x)), (''parent_id'', jopt JStr (terr_parent_id x)),
      (''manager_user_id'', jopt JStr (terr_manager_user_id x)), (''is_active'', JBool (terr_is_active x))]"

definition territory_code_free :: "directory \<Rightarrow> ident \<Rightarrow> ident \<Rightarrow> string \<Rightarrow> bool" where
  "territory_code_free s org except code \<longleftrightarrow>
     list_all (\<lambda>x. \<not> (terr_organization_id x = org \<and> terr_code x = code \<and> terr_id x \<noteq> except)) (territories s)"

definition territory_code_exists :: app_error where
  "territory_code_exists = conflict ''TERRITORY_CODE_EXISTS''"

definition create_territory ::
  "env \<Rightarrow> mutation_context \<Rightarrow> ident \<Rightarrow> territory_create \<Rightarrow> directory \<Rightarrow> (directory, territory_view) outcome" where
  "create_territory e ctx org p s =
     demand s (given (ttc_branch_id p) \<noteq> None \<or> given (ttc_manager_user_id p) \<noteq> None \<longrightarrow> may ctx ''territories.assign'')
       permission_denied (
     demand s (validate_branch s org (ttc_branch_id p)) resource_not_found (
     demand s (validate_users s org [] (ttc_manager_user_id p)) invalid_user_ids (
     fetch_given s (ttc_parent_id p) (find_territory s org) resource_not_found (\<lambda>_.
     let x = \<lparr>terr_id = uuid e 0, terr_organization_id = org, terr_branch_id = ttc_branch_id p,
           terr_parent_id = ttc_parent_id p, terr_manager_user_id = ttc_manager_user_id p, terr_name = ttc_name p,
           terr_code = ttc_code p, terr_description = ttc_description p, terr_is_active = ttc_is_active p,
           terr_created_at = now e\<rparr> in
     demand s (no_blank [terr_branch_id x, terr_parent_id x, terr_manager_user_id x] \<and>
         territory_code_free s org (terr_id x) (terr_code x)) territory_code_exists (
     let audit = audit_entry e (uuid e 1) org ctx ''territory.created'' ''territory'' (terr_id x) None
           (Some (territory_snapshot x));
         t = in_office (add_audits [audit]) (s\<lparr>territories := territories s @ [x]\<rparr>) in
     Return t (territory_view_of t org x))))))"

text \<open>
  The loop of \<^verbatim>\<open>_validate_territory_parent\<close>: it climbs from the new parent and stops at a root, at a territory
  it has seen or at one that does not exist.
\<close>

definition territory_cycle :: app_error where
  "territory_cycle = App_Error 400 ''TERRITORY_CYCLE''"

function climb :: "directory \<Rightarrow> ident \<Rightarrow> ident list \<Rightarrow> ident option \<Rightarrow> app_error + unit" where
  "climb s org seen None = Inr ()"
| "climb s org seen (Some i) =
     require (i \<notin> set seen) territory_cycle (case find_territory s org i of
       None \<Rightarrow> Inl resource_not_found
     | Some x \<Rightarrow> (if i \<in> set seen then Inr () else climb s org (i # seen) (terr_parent_id x)))"
  by pat_completeness auto
termination
proof (relation "measure (\<lambda>(s, org, seen, _). card (set (map terr_id (territories s)) - set seen))")
  fix s :: directory and org i :: ident and seen :: "ident list" and x :: territory_row
  assume x: "find_territory s org i = Some x" and new: "i \<notin> set seen"
  from entityD [OF x] have "i \<in> set (map terr_id (territories s)) - set seen" using new by auto
  then have "set (map terr_id (territories s)) - set (i # seen) \<subset> set (map terr_id (territories s)) - set seen" by auto
  then have "card (set (map terr_id (territories s)) - set (i # seen)) < card (set (map terr_id (territories s)) - set seen)"
    by (rule psubset_card_mono [rotated]) simp
  then show "((s, org, i # seen, terr_parent_id x), s, org, seen, Some i) \<in>
      measure (\<lambda>(s, org, seen, _). card (set (map terr_id (territories s)) - set seen))"
    by (simp only: in_measure prod.case)
qed simp

definition validate_territory_parent :: "directory \<Rightarrow> ident \<Rightarrow> ident \<Rightarrow> ident option \<Rightarrow> app_error + unit" where
  "validate_territory_parent s org tid parent = (case parent of
     None \<Rightarrow> Inr ()
   | Some i \<Rightarrow> require (i \<noteq> tid) territory_cycle (climb s org [tid] parent))"

definition updated_territory :: "territory_create \<Rightarrow> territory_row \<Rightarrow> territory_row" where
  "updated_territory p x =
     x\<lparr>terr_name := ttc_name p, terr_code := ttc_code p, terr_description := ttc_description p,
       terr_branch_id := ttc_branch_id p, terr_parent_id := ttc_parent_id p,
       terr_manager_user_id := ttc_manager_user_id p, terr_is_active := ttc_is_active p\<rparr>"

definition update_territory ::
  "env \<Rightarrow> mutation_context \<Rightarrow> ident \<Rightarrow> ident \<Rightarrow> territory_create \<Rightarrow> directory \<Rightarrow> (directory, territory_view) outcome" where
  "update_territory e ctx org tid p s =
     fetch s (find_territory s org tid) resource_not_found (\<lambda>x.
     demand s (ttc_branch_id p \<noteq> terr_branch_id x \<or> ttc_manager_user_id p \<noteq> terr_manager_user_id x \<longrightarrow>
       may ctx ''territories.assign'') permission_denied (
     demand s (validate_branch s org (ttc_branch_id p)) resource_not_found (
     demand s (validate_users s org [] (ttc_manager_user_id p)) invalid_user_ids (
     attempt s (validate_territory_parent s org (terr_id x) (ttc_parent_id p)) (\<lambda>_.
     let x' = updated_territory p x in
     demand s (no_blank [terr_branch_id x', terr_manager_user_id x'] \<and> territory_code_free s org (terr_id x) (terr_code x'))
       territory_code_exists (
     let audit = audit_entry e (uuid e 0) org ctx ''territory.updated'' ''territory'' (terr_id x)
           (Some (territory_snapshot x)) (Some (territory_snapshot x'));
         t = in_office (add_audits [audit]) (s\<lparr>territories := put_row terr_id x' (territories s)\<rparr>) in
     Return t (territory_view_of t org x')))))))"

text \<open>Deleting a territory deletes its partner assignments with it; a child territory keeps it.\<close>

definition delete_territory :: "env \<Rightarrow> mutation_context \<Rightarrow> ident \<Rightarrow> ident \<Rightarrow> directory \<Rightarrow> (directory, unit) outcome" where
  "delete_territory e ctx org tid s =
     fetch s (find_territory s org tid) resource_not_found (\<lambda>x.
     demand s (list_all (\<lambda>y. \<not> (terr_organization_id y = org \<and> terr_parent_id y = Some (terr_id x))) (territories s))
       (conflict ''RESOURCE_IN_USE'') (
     let audit = audit_entry e (uuid e 0) org ctx ''territory.deleted'' ''territory'' (terr_id x)
           (Some (territory_snapshot x)) None in
     Return (in_office (add_audits [audit]) (s\<lparr>territories := filter (\<lambda>y. terr_id y \<noteq> terr_id x) (territories s)\<rparr>)) ()))"

section \<open>The audit log\<close>

record audit_filter =
  af_q :: "string option"
  af_action :: "string option"
  af_entity_type :: "string option"
  af_actor_user_id :: "ident option"
  af_entity_id :: "ident option"
  af_date_from :: "timestamp option"
  af_date_to :: "timestamp option"

text \<open>\<^verbatim>\<open>_audit_filters\<close>; a column that is NULL matches no pattern.\<close>

definition audit_matches :: "directory \<Rightarrow> ident \<Rightarrow> string \<Rightarrow> audit_row \<Rightarrow> bool" where
  "audit_matches s org q a \<longleftrightarrow> (let pattern = search_pattern q in
     ilike (audit_action a) pattern \<or> ilike (audit_entity_type a) pattern \<or> ilike (audit_entity_id a) pattern \<or>
     (case audit_request_id a of None \<Rightarrow> False | Some r \<Rightarrow> ilike r pattern) \<or>
     (case audit_actor_user_id a of None \<Rightarrow> False | Some i \<Rightarrow>
        list_ex (\<lambda>u. user_organization_id u = org \<and> user_id u = i \<and> ilike (user_full_name u) pattern) (users (office s))))"

definition audit_selected :: "directory \<Rightarrow> ident \<Rightarrow> audit_filter \<Rightarrow> audit_row \<Rightarrow> bool" where
  "audit_selected s org f a \<longleftrightarrow> audit_organization_id a = org \<and>
     opt_all (\<lambda>q. strip q = [] \<or> audit_matches s org q a) (given (af_q f)) \<and>
     opt_all (\<lambda>x. audit_action a = x) (given (af_action f)) \<and>
     opt_all (\<lambda>x. audit_entity_type a = x) (given (af_entity_type f)) \<and>
     opt_all (\<lambda>x. audit_actor_user_id a = Some x) (given (af_actor_user_id f)) \<and>
     opt_all (\<lambda>x. audit_entity_id a = x) (given (af_entity_id f)) \<and>
     opt_all (\<lambda>t. t \<le> audit_created_at a) (af_date_from f) \<and> opt_all (\<lambda>t. audit_created_at a \<le> t) (af_date_to f)"

record audit_log_view =
  alv_row :: audit_row
  alv_organization_name :: string
  alv_actor_name :: "string option"

definition audit_rows :: "directory \<Rightarrow> ident \<Rightarrow> audit_filter \<Rightarrow> audit_log_view list" where
  "audit_rows s org f =
     [\<lparr>alv_row = a, alv_organization_name = org_name o',
       alv_actor_name = (case audit_actor_user_id a of None \<Rightarrow> None
         | Some i \<Rightarrow> map_option user_full_name (find_user (office s) org i))\<rparr>.
      a \<leftarrow> order_desc audit_created_at (filter (audit_selected s org f) (audit_logs (office s))),
      o' \<leftarrow> (case find_organization (office s) org of None \<Rightarrow> [] | Some o' \<Rightarrow> [o'])]"

definition list_audit_logs :: "directory \<Rightarrow> ident \<Rightarrow> audit_filter \<Rightarrow> nat \<Rightarrow> nat \<Rightarrow> audit_log_view page" where
  "list_audit_logs s org f page page_size =
     paged page page_size (count_rows (audit_selected s org f) (audit_logs (office s)))
       (page_of page page_size (audit_rows s org f))"

definition audit_export_rows :: "directory \<Rightarrow> ident \<Rightarrow> audit_filter \<Rightarrow> nat \<Rightarrow> audit_log_view list" where
  "audit_export_rows s org f limit = take limit (audit_rows s org f)"

record audit_filter_options =
  afo_actions :: "string list"
  afo_entity_types :: "string list"
  afo_actors :: "(ident \<times> string) list"

definition audit_filter_options_of :: "directory \<Rightarrow> ident \<Rightarrow> audit_filter_options" where
  "audit_filter_options_of s org =
     (let rows = filter (\<lambda>a. audit_organization_id a = org) (audit_logs (office s)) in
      \<lparr>afo_actions = sort (remdups (map audit_action rows)), afo_entity_types = sort (remdups (map audit_entity_type rows)),
       afo_actors = sort_key snd (remdups [(user_id u, user_full_name u). u \<leftarrow> users (office s),
         user_organization_id u = org, list_ex (\<lambda>a. audit_actor_user_id a = Some (user_id u)) rows])\<rparr>)"

end
