(* ===== verification/Directory_Safety.thy ===== *)
theory Directory_Safety
  imports Directory_People
begin

text \<open>
  The requests of the directory as steps, and its invariant: the territories of every organization form a
  forest. The climb of \<^verbatim>\<open>_validate_territory_parent\<close> is compared with the ancestors of a territory.
\<close>

section \<open>Requests\<close>

definition fresh_territory :: "env \<Rightarrow> directory \<Rightarrow> bool" where
  "fresh_territory e s \<longleftrightarrow> list_all (\<lambda>x. terr_id x \<noteq> uuid e 0 \<and> terr_parent_id x \<noteq> Some (uuid e 0)) (territories s)"

inductive directory_step :: "directory \<Rightarrow> directory \<Rightarrow> bool" where
  organization_step: "directory_step s (committed (update_organization e ctx org ou s))"
| branch_created: "directory_step s (committed (create_branch e ctx org bc s))"
| branch_updated: "directory_step s (committed (update_branch e ctx org i bc s))"
| branch_deleted: "directory_step s (committed (delete_branch e ctx org i s))"
| department_created: "directory_step s (committed (create_department e ctx org dc s))"
| department_updated: "directory_step s (committed (update_department e ctx org i dc s))"
| department_deleted: "directory_step s (committed (delete_department e ctx org i s))"
| user_created: "directory_step s (committed (create_user k e ctx org uu password s))"
| user_updated: "directory_step s (committed (update_user e ctx org i uu s))"
| user_deactivated: "directory_step s (committed (deactivate_user e ctx org i s))"
| team_created: "directory_step s (committed (create_team e ctx org tc s))"
| team_updated: "directory_step s (committed (update_team e ctx org i tc s))"
| team_deleted: "directory_step s (committed (delete_team e ctx org i s))"
| territory_created: "fresh_territory e s \<Longrightarrow> directory_step s (committed (create_territory e ctx org xc s))"
| territory_updated: "directory_step s (committed (update_territory e ctx org i xc s))"
| territory_deleted: "directory_step s (committed (delete_territory e ctx org i s))"
| other_service: "directory_step s (in_office f s)"

locale directory_invariant =
  fixes inv :: "directory \<Rightarrow> bool"
  assumes kept: "directory_step s t \<Longrightarrow> inv s \<Longrightarrow> inv t"
begin

lemma always: "directory_step\<^sup>*\<^sup>* s t \<Longrightarrow> inv s \<Longrightarrow> inv t"
  by (induction rule: rtranclp_induct) (auto intro: kept)

end

section \<open>The forest of territories\<close>

definition parents :: "directory \<Rightarrow> ident \<Rightarrow> (ident \<times> ident) set" where
  "parents s org = {(terr_id x, i) | x i. x \<in> set (territories s) \<and> terr_organization_id x = org \<and> terr_parent_id x = Some i}"

definition forest :: "directory \<Rightarrow> bool" where
  "forest s \<longleftrightarrow> distinct (map terr_id (territories s)) \<and> (\<forall>org. acyclic (parents s org)) \<and>
     (\<forall>x \<in> set (territories s). \<forall>i. terr_parent_id x = Some i \<longrightarrow> find_territory s (terr_organization_id x) i \<noteq> None)"

lemma forestD:
  assumes "forest s"
  shows "distinct (map terr_id (territories s))" "acyclic (parents s org)"
    "x \<in> set (territories s) \<Longrightarrow> terr_parent_id x = Some i \<Longrightarrow> find_territory s (terr_organization_id x) i \<noteq> None"
  using assms by (auto simp: forest_def)

lemma forest_frame: "territories t = territories s \<Longrightarrow> forest s \<Longrightarrow> forest t"
  by (simp add: forest_def parents_def)

lemma in_office_sel [simp]:
  "territories (in_office f s) = territories s" "office (in_office f s) = f (office s)"
  "branches (in_office f s) = branches s" "departments (in_office f s) = departments s"
  "teams (in_office f s) = teams s" "team_members (in_office f s) = team_members s"
  by (simp_all add: in_office_def)

lemma parent_found:
  assumes "find_territory s org i = Some x"
  shows "terr_parent_id x = Some p \<Longrightarrow> (i, p) \<in> parents s org"
  using entityD [OF assms] by (auto simp: parents_def)

lemma parent_unique:
  assumes ids: "distinct (map terr_id (territories s))" and x: "find_territory s org i = Some x" and p: "(i, p) \<in> parents s org"
  shows "terr_parent_id x = Some p"
proof -
  from p obtain y where y: "y \<in> set (territories s)" "terr_organization_id y = org" "terr_id y = i" "terr_parent_id y = Some p"
    by (auto simp: parents_def)
  then have "find_territory s org i = Some y" by (intro entity_unique [OF ids]) simp_all
  with x y(4) show ?thesis by simp
qed

text \<open>The climb answers that no territory above the parent has been seen.\<close>

lemma climb_above:
  assumes "climb s org seen (Some i) = Inr ()" "(i, j) \<in> (parents s org)\<^sup>*" "distinct (map terr_id (territories s))"
  shows "j \<notin> set seen"
  using assms
proof (induction s org seen "Some i" arbitrary: i rule: climb.induct)
  case step: (2 s org seen i)
  from step.prems(1) obtain x where new: "i \<notin> set seen" and x: "find_territory s org i = Some x"
    and up: "climb s org (i # seen) (terr_parent_id x) = Inr ()"
    by (auto simp: require_def split: if_splits option.splits)
  show ?case
  proof (cases rule: converse_rtranclE [OF step.prems(2)])
    case 1
    with new show ?thesis by simp
  next
    case (2 k)
    from parent_unique [OF step.prems(3) x 2(1)] have p: "terr_parent_id x = Some k" .
    from step.hyps [OF x new p] up step.prems(3) p 2(2) show ?thesis by simp
  qed
qed

text \<open>In a forest it answers nothing else, and never that a territory is missing.\<close>

lemma climb_answers:
  assumes "forest s" "find_territory s org i \<noteq> None"
  shows "climb s org seen (Some i) =
    (if \<exists>j \<in> set seen. (i, j) \<in> (parents s org)\<^sup>* then Inl territory_cycle else Inr ())"
  using assms
proof (induction s org seen "Some i" arbitrary: i rule: climb.induct)
  case step: (2 s org seen i)
  from step.prems(2) obtain x where x: "find_territory s org i = Some x" by auto
  note ids = forestD(1) [OF step.prems(1)]
  show ?case
  proof (cases "i \<in> set seen")
    case True
    then show ?thesis by (auto simp: require_def)
  next
    case new: False
    show ?thesis
    proof (cases "terr_parent_id x")
      case None
      have "(i, j) \<in> (parents s org)\<^sup>* \<Longrightarrow> j = i" for j
        using parent_unique [OF ids x] None by (auto elim: converse_rtranclE)
      with None x new show ?thesis by (auto simp: require_def)
    next
      case (Some k)
      from forestD(3) [OF step.prems(1) _ Some] entityD [OF x] have k: "find_territory s org k \<noteq> None" by auto
      have edge: "(i, k) \<in> parents s org" using parent_found [OF x Some] .
      have up: "(i, j) \<in> (parents s org)\<^sup>* \<longleftrightarrow> j = i \<or> (k, j) \<in> (parents s org)\<^sup>*" for j
      proof
        assume "(i, j) \<in> (parents s org)\<^sup>*"
        then show "j = i \<or> (k, j) \<in> (parents s org)\<^sup>*"
        proof (cases rule: converse_rtranclE)
          case (step m)
          from parent_unique [OF ids x step(1)] Some step(2) show ?thesis by simp
        qed simp
      qed (use edge in \<open>auto intro: converse_rtrancl_into_rtrancl\<close>)
      have "(k, i) \<notin> (parents s org)\<^sup>*"
        using forestD(2) [OF step.prems(1), of org] rtrancl_into_trancl2 [OF edge, of i] by (auto simp: acyclic_def)
      have "climb s org seen (Some i) = climb s org (i # seen) (Some k)" by (subst climb.simps) (simp add: require_def new x Some)
      also have "\<dots> = (if \<exists>j \<in> set (i # seen). (k, j) \<in> (parents s org)\<^sup>* then Inl territory_cycle else Inr ())"
        by (rule step.hyps [OF x new Some step.prems(1) k])
      also have "(\<exists>j \<in> set (i # seen). (k, j) \<in> (parents s org)\<^sup>*) \<longleftrightarrow> (\<exists>j \<in> set seen. (i, j) \<in> (parents s org)\<^sup>*)"
        using \<open>(k, i) \<notin> (parents s org)\<^sup>*\<close> new unfolding up by auto
      finally show ?thesis .
    qed
  qed
qed

lemma validate_parent_answers:
  assumes "forest s" "find_territory s org tid = Some x" "find_territory s org i \<noteq> None"
  shows "validate_territory_parent s org tid (Some i) =
    (if (i, tid) \<in> (parents s org)\<^sup>* then Inl territory_cycle else Inr ())"
  using climb_answers [OF assms(1,3), of "[tid]"] by (auto simp: validate_territory_parent_def require_def)

section \<open>Every request keeps the forest\<close>

lemma territory_found:
  "x \<in> set (territories s) \<Longrightarrow> terr_organization_id x = org \<Longrightarrow> terr_id x = i \<Longrightarrow> find_territory s org i \<noteq> None"
  by (auto simp: entity_def find_None)

lemma parents_source: "(i, j) \<in> parents s org \<Longrightarrow> \<exists>x \<in> set (territories s). terr_id x = i \<and> terr_parent_id x = Some j"
  by (auto simp: parents_def)

lemma forest_add:
  assumes ok: "forest s" and new: "terr_id x \<notin> set (map terr_id (territories s))"
      "\<And>y. y \<in> set (territories s) \<Longrightarrow> terr_parent_id y \<noteq> Some (terr_id x)"
    and parent: "\<And>i. terr_parent_id x = Some i \<Longrightarrow> find_territory s (terr_organization_id x) i \<noteq> None"
    and t: "territories t = territories s @ [x]"
  shows "forest t"
proof -
  have "acyclic (parents t org)" for org
  proof (cases "terr_organization_id x = org \<and> terr_parent_id x \<noteq> None")
    case True
    then obtain i where i: "terr_parent_id x = Some i" by auto
    have grown: "parents t org = insert (terr_id x, i) (parents s org)" using True i by (auto simp: parents_def t)
    have "i \<noteq> terr_id x" using parent [OF i] new(1) by (auto dest!: entityD simp: image_iff)
    moreover have "(j, terr_id x) \<notin> parents s org" for j using new(2) by (auto dest!: parents_source)
    ultimately have "(i, terr_id x) \<notin> (parents s org)\<^sup>*" by (meson rtranclE)
    with forestD(2) [OF ok, of org] show ?thesis by (simp add: grown acyclic_insert)
  next
    case False
    then have "parents t org = parents s org" by (auto simp: parents_def t)
    with forestD(2) [OF ok] show ?thesis by simp
  qed
  moreover have "find_territory t org i \<noteq> None" if "find_territory s org i \<noteq> None" for org i
    using that by (auto simp: t entity_append)
  ultimately show ?thesis using forestD(1,3) [OF ok] new(1) parent by (auto simp: forest_def t)
qed

lemma forest_put:
  assumes ok: "forest s" and x: "x \<in> set (territories s)" and same: "terr_id x' = terr_id x" "terr_organization_id x' = terr_organization_id x"
    and parent: "\<And>i. terr_parent_id x' = Some i \<Longrightarrow> find_territory s (terr_organization_id x) i \<noteq> None \<and>
      (i, terr_id x) \<notin> (parents s (terr_organization_id x))\<^sup>*"
    and t: "territories t = put_row terr_id x' (territories s)"
  shows "forest t"
proof -
  have rows: "set (territories t) = (\<lambda>y. if terr_id y = terr_id x then x' else y) ` set (territories s)"
    by (simp add: t put_row_def same)
  have found: "find_territory t org i \<noteq> None" if "find_territory s org i \<noteq> None" for org i
  proof -
    from that obtain y where y: "y \<in> set (territories s)" "terr_id y = i" "terr_organization_id y = org"
      by (auto dest: entityD)
    have "y = x" if "terr_id y = terr_id x" using forestD(1) [OF ok] x y(1) that by (auto simp: distinct_map dest: inj_onD)
    with y show ?thesis
      by (intro territory_found [of "if terr_id y = terr_id x then x' else y"]) (auto simp: same rows)
  qed
  have "acyclic (parents t org)" for org
  proof (cases "org = terr_organization_id x")
    case True
    have "parents t org \<subseteq> (case terr_parent_id x' of None \<Rightarrow> parents s org | Some i \<Rightarrow> insert (terr_id x, i) (parents s org))"
      using True by (auto simp: parents_def rows same split: option.splits if_splits)
    moreover have "acyclic (case terr_parent_id x' of None \<Rightarrow> parents s org | Some i \<Rightarrow> insert (terr_id x, i) (parents s org))"
      using forestD(2) [OF ok, of org] parent True by (simp add: acyclic_insert split: option.split)
    ultimately show ?thesis by (rule acyclic_subset [rotated])
  next
    case False
    then have "parents t org \<subseteq> parents s org" by (auto simp: parents_def rows same)
    with forestD(2) [OF ok, of org] show ?thesis by (rule acyclic_subset)
  qed
  moreover have "find_territory t (terr_organization_id y) i \<noteq> None" if "y \<in> set (territories t)" "terr_parent_id y = Some i" for y i
    using that parent forestD(3) [OF ok] found same unfolding rows by (auto split: if_splits)
  ultimately show ?thesis using forestD(1) [OF ok] by (simp add: forest_def t)
qed

lemma forest_drop:
  assumes ok: "forest s" and x: "x \<in> set (territories s)"
    and childless: "\<And>y. y \<in> set (territories s) \<Longrightarrow> terr_organization_id y = terr_organization_id x \<Longrightarrow> terr_parent_id y \<noteq> Some (terr_id x)"
    and t: "territories t = filter (\<lambda>y. terr_id y \<noteq> terr_id x) (territories s)"
  shows "forest t"
proof -
  have "acyclic (parents t org)" for org
    using forestD(2) [OF ok, of org] by (rule acyclic_subset) (auto simp: parents_def t)
  moreover have "find_territory t (terr_organization_id y) i \<noteq> None" if y: "y \<in> set (territories t)" "terr_parent_id y = Some i" for y i
  proof -
    from forestD(3) [OF ok _ y(2)] y(1) obtain z where z: "z \<in> set (territories s)" "terr_id z = i"
      "terr_organization_id z = terr_organization_id y" by (auto simp: t dest: entityD)
    have "terr_id z \<noteq> terr_id x"
    proof
      assume "terr_id z = terr_id x"
      then have "z = x" using forestD(1) [OF ok] x z(1) by (auto simp: distinct_map dest: inj_onD)
      with childless [of y] y z show False by (auto simp: t)
    qed
    with z show ?thesis by (intro territory_found [of z]) (auto simp: t)
  qed
  ultimately show ?thesis using forestD(1) [OF ok] by (auto simp: forest_def t distinct_map inj_on_def)
qed

lemmas forest_intros = outcome_intros [where P = forest]

lemma other_steps_forest:
  assumes ok: "forest s"
  shows "forest (committed (update_organization e ctx org ou s))"
    "forest (committed (create_branch e ctx org bc s))"
    "forest (committed (update_branch e ctx org i bc s))"
    "forest (committed (delete_branch e ctx org i s))"
    "forest (committed (create_department e ctx org dc s))"
    "forest (committed (update_department e ctx org i dc s))"
    "forest (committed (delete_department e ctx org i s))"
    "forest (committed (create_user k e ctx org uu password s))"
    "forest (committed (update_user e ctx org i uu s))"
    "forest (committed (deactivate_user e ctx org i s))"
    "forest (committed (create_team e ctx org tc s))"
    "forest (committed (update_team e ctx org i tc s))"
    "forest (committed (delete_team e ctx org i s))"
  unfolding update_organization_def create_branch_def update_branch_def delete_branch_def create_department_def
    update_department_def delete_department_def create_user_def update_user_def deactivate_user_def create_team_def
    update_team_def delete_team_def Let_def
  by (intro forest_intros ok; simp add: forest_frame [OF _ ok])+

lemma fetch_given_known:
  "P s \<Longrightarrow> (given x = None \<Longrightarrow> P (committed (k None))) \<Longrightarrow>
   (\<And>i r. given x = Some i \<Longrightarrow> look i = Some r \<Longrightarrow> P (committed (k (Some r)))) \<Longrightarrow> P (committed (fetch_given s x look e k))"
  by (simp add: fetch_given_def fetch_def split: option.splits)

lemma create_territory_forest:
  assumes ok: "forest s" and fresh: "fresh_territory e s"
  shows "forest (committed (create_territory e ctx org p s))"
proof -
  have new: "y \<in> set (territories s) \<Longrightarrow> terr_id y \<noteq> uuid e 0 \<and> terr_parent_id y \<noteq> Some (uuid e 0)" for y
    using fresh by (simp add: fresh_territory_def list_all_iff)
  show ?thesis unfolding create_territory_def Let_def
    by (intro fetch_given_known [where P = forest] forest_intros ok; (simp only: outcome.sel)?;
      (rule forest_add [OF ok])?) (auto dest: new simp: no_blank_def given_def split: if_splits)
qed

lemma update_territory_forest:
  assumes ok: "forest s"
  shows "forest (committed (update_territory e ctx org tid p s))"
proof -
  have "forest (committed (Return (in_office f (s\<lparr>territories := put_row terr_id (updated_territory p x) (territories s)\<rparr>)) v))"
    if x: "find_territory s org tid = Some x" and up: "validate_territory_parent s org (terr_id x) (ttc_parent_id p) = Inr ()"
    for f v x
  proof -
    note row = entityD [OF x]
    have "find_territory s org i \<noteq> None \<and> (i, terr_id x) \<notin> (parents s org)\<^sup>*" if "ttc_parent_id p = Some i" for i
    proof -
      from up that have i: "climb s org [terr_id x] (Some i) = Inr ()"
        by (simp add: validate_territory_parent_def require_def split: if_splits del: climb.simps)
      then have found: "find_territory s org i \<noteq> None" by (auto simp: require_def split: if_splits option.splits)
      with climb_above [OF i _ forestD(1) [OF ok], of "terr_id x"] show ?thesis by auto
    qed
    then show ?thesis using row
      by (simp only: outcome.sel) (rule forest_put [OF ok, of x "updated_territory p x"], auto simp: updated_territory_def)
  qed
  then show ?thesis unfolding update_territory_def Let_def by (intro forest_intros ok) auto
qed

lemma delete_territory_forest:
  assumes ok: "forest s"
  shows "forest (committed (delete_territory e ctx org tid s))"
  unfolding delete_territory_def Let_def
  by (intro forest_intros ok; (simp only: outcome.sel)?; (rule forest_drop [OF ok])?)
    (auto simp: list_all_iff dest: entityD)

interpretation territories: directory_invariant forest
proof
  fix s t assume "directory_step s t" "forest s"
  then show "forest t"
    by (cases rule: directory_step.cases)
      (simp_all only: other_steps_forest create_territory_forest update_territory_forest delete_territory_forest
        forest_frame [OF in_office_sel(1)])
qed

end
