(* ===== verification/Directory_Claims.thy ===== *)
theory Directory_Claims
  imports Directory_Safety Account_Samples
begin

text \<open>
  The properties of the organization directory: the territories stay a forest, and an account that is switched
  off is signed out; and the limit of the second, the last administrator can be switched off.
\<close>

section \<open>Territories\<close>

text \<open>
  C27: Whatever the directory requests do, no territory becomes its own ancestor, every parent is a territory of
  the same organization, and the climb that guards an update answers exactly: an existing new parent is refused
  as a cycle if and only if it is the territory itself or lies below it.
\<close>

theorem territories_stay_forest:
  assumes ok: "forest s" and steps: "directory_step\<^sup>*\<^sup>* s t"
    and x: "find_territory t org i = Some x" and y: "find_territory t org j = Some y"
  shows "(i, i) \<notin> (parents t org)\<^sup>+ \<and> (\<forall>p. terr_parent_id x = Some p \<longrightarrow> find_territory t org p \<noteq> None) \<and>
    validate_territory_parent t org i (Some j) = (if (j, i) \<in> (parents t org)\<^sup>* then Inl territory_cycle else Inr ())"
proof -
  have ok: "forest t" using territories.always [OF steps ok] .
  then show ?thesis using validate_parent_answers [OF ok x, of j] entityD [OF x] y forestD(2,3) [OF ok]
    by (auto simp: acyclic_def)
qed

definition sample_territory :: "ident \<Rightarrow> ident option \<Rightarrow> territory_row" where
  "sample_territory i parent =
     \<lparr>terr_id = i, terr_organization_id = ''o'', terr_branch_id = None, terr_parent_id = parent, terr_manager_user_id = None,
      terr_name = i, terr_code = i, terr_description = None, terr_is_active = True, terr_created_at = 0\<rparr>"

text \<open>A region with a city in it, and an island.\<close>

definition sample_places :: directory where
  "sample_places = \<lparr>office = sample_office, branches = [], departments = [], teams = [], team_members = [],
     territories = [sample_territory ''region'' None, sample_territory ''city'' (Some ''region''), sample_territory ''island'' None]\<rparr>"

definition sample_move :: "ident \<Rightarrow> ident option \<Rightarrow> territory_create" where
  "sample_move name parent = \<lparr>ttc_name = name, ttc_code = name, ttc_description = None, ttc_branch_id = None,
     ttc_parent_id = parent, ttc_manager_user_id = None, ttc_is_active = True\<rparr>"

lemmas place_defs = sample_places_def sample_territory_def sample_move_def

lemma sample_places_forest: "forest sample_places"
proof -
  have "forest (sample_places\<lparr>territories := []\<rparr>)" by (simp add: forest_def parents_def acyclic_def place_defs)
  then have "forest (sample_places\<lparr>territories := [sample_territory ''region'' None]\<rparr>)"
    by (rule forest_add) (simp_all add: place_defs)
  then have "forest (sample_places\<lparr>territories := [sample_territory ''region'' None, sample_territory ''city'' (Some ''region'')]\<rparr>)"
    by (rule forest_add) (simp_all add: place_defs entity_Cons)
  then show ?thesis by (rule forest_add) (auto simp: place_defs)
qed

text \<open>The region is moved under the island; then the island cannot be moved under the city.\<close>

definition sample_moved :: directory where
  "sample_moved = committed (update_territory (moment 5 ''n'') office_manager ''o'' ''region'' (sample_move ''region'' (Some ''island'')) sample_places)"

lemma sample_moved_rows: "territories sample_moved =
  [sample_territory ''region'' (Some ''island''), sample_territory ''city'' (Some ''region''), sample_territory ''island'' None]"
  by (simp add: sample_moved_def update_territory_def committed_fetch committed_demand attempt_def place_defs entity_Cons
      validate_branch_def validate_users_def validate_territory_parent_def require_def given_def opt_all_def Let_def
      no_blank_def territory_code_free_def updated_territory_def put_row_def)

theorem territories_stay_forest_witness:
  "validate_territory_parent sample_moved ''o'' ''island'' (Some ''city'') = Inl territory_cycle"
proof -
  have steps: "directory_step\<^sup>*\<^sup>* sample_places sample_moved"
    unfolding sample_moved_def by (rule r_into_rtranclp, rule territory_updated)
  have found: "find_territory sample_moved ''o'' ''island'' = Some (sample_territory ''island'' None)"
    "find_territory sample_moved ''o'' ''city'' = Some (sample_territory ''city'' (Some ''region''))"
    "find_territory sample_moved ''o'' ''region'' = Some (sample_territory ''region'' (Some ''island''))"
    by (simp_all add: sample_moved_rows place_defs entity_Cons)
  have "(''city'', ''island'') \<in> (parents sample_moved ''o'')\<^sup>*"
    using parent_found [OF found(2)] parent_found [OF found(3)]
    by (intro converse_rtrancl_into_rtrancl [OF _ r_into_rtrancl]) (simp_all add: place_defs)
  with territories_stay_forest [OF sample_places_forest steps found(1,2)] show ?thesis by simp
qed

section \<open>Switched off accounts\<close>

lemma inactive_no_access:
  assumes off: "\<forall>x \<in> set (users s). user_id x = uid \<longrightarrow> \<not> user_is_active x"
  shows "get_current_user k e token s = Inr v \<Longrightarrow> user_id v \<noteq> uid"
    and "login k c e lp agent ip s = Return t r \<Longrightarrow> cuv_id (session_user r) \<noteq> uid"
    and "rotate_refresh_token k c e raw agent ip s = Return t r \<Longrightarrow> cuv_id (session_user r) \<noteq> uid"
proof -
  assume "get_current_user k e token s = Inr v"
  then have "\<exists>o' i. find_user s o' i = Some v \<and> account_active s v" by (rule accepted_user) auto
  with off show "user_id v \<noteq> uid" by (auto simp: account_active_def dest: entityD)
next
  assume "login k c e lp agent ip s = Return t r"
  then show "cuv_id (session_user r) \<noteq> uid"
  proof (rule login_returns)
    fix u v
    assume "user_by_login s (lr_organization_slug lp) (lr_email lp) = Some u" "account_active s u" "user_id v = user_id u"
      "current_user_view_of t v = Inr (session_user r)"
    with off current_user_view_id show ?thesis by (auto simp: account_active_def user_by_login_def dest!: find_SomeD)
  qed
next
  assume "rotate_refresh_token k c e raw agent ip s = Return t r"
  then show "cuv_id (session_user r) \<noteq> uid"
  proof (rule rotate_refresh_token_returns)
    fix x u
    assume "find_user s (rtok_organization_id x) (rtok_user_id x) = Some u" "account_active s u"
      "current_user_view_of t u = Inr (session_user r)"
    with off current_user_view_id show ?thesis by (auto simp: account_active_def dest!: entityD)
  qed
qed

text \<open>
  C28: An account that \<^verbatim>\<open>deactivate_user\<close> or an update switched off is another user's than the actor's, and
  has no access any more: no access token is accepted as this user, no login and no refresh token opens a session
  of it. All its sessions ended, so a later reactivation does not bring one back.
\<close>

theorem deactivation_ends_access:
  assumes off: "deactivate_user e ctx org uid s = Return t () \<and> (\<exists>u. find_user (office s) org uid = Some u) \<or>
      (\<exists>w u. update_user e ctx org uid p s = Return t w \<and> \<not> uu_is_active p \<and>
        find_user (office s) org uid = Some u \<and> user_is_active u)"
  shows "uid \<noteq> actor_user_id ctx \<and> (\<forall>k e' token v. get_current_user k e' token (office t) = Inr v \<longrightarrow> user_id v \<noteq> uid) \<and>
    (\<forall>k c e' lp agent ip d r. login k c e' lp agent ip (office t) = Return d r \<longrightarrow> cuv_id (session_user r) \<noteq> uid) \<and>
    (\<forall>k c e' raw agent ip d r. rotate_refresh_token k c e' raw agent ip (office t) = Return d r \<longrightarrow>
      cuv_id (session_user r) \<noteq> uid) \<and>
    (\<forall>e' family. \<not> session_is_active e' org uid family (office t))"
proof -
  from off obtain u where u: "find_user (office s) org uid = Some u" by blast
  note row = entityD [OF u]
  have "uid \<noteq> actor_user_id ctx \<and> (\<exists>v a. user_id v = uid \<and> \<not> user_is_active v \<and>
    office t = add_audits [a] (revoke_user_sessions e org uid (put_user v (office s))))"
    using off
  proof
    assume "deactivate_user e ctx org uid s = Return t () \<and> (\<exists>u. find_user (office s) org uid = Some u)"
    then have "uid \<noteq> actor_user_id ctx" "\<exists>a. office t = add_audits [a] (revoke_user_sessions e org uid (put_user (deactivated u) (office s)))"
      using u row unfolding deactivate_user_def by (auto simp: outcome_simps Let_def in_office_def)
    then show ?thesis using row by (auto intro!: exI [of _ "deactivated u"] simp: deactivated_def)
  next
    assume "\<exists>w u. update_user e ctx org uid p s = Return t w \<and> \<not> uu_is_active p \<and>
        find_user (office s) org uid = Some u \<and> user_is_active u"
    then have "\<not> uu_is_active p" "uid \<noteq> actor_user_id ctx"
      "\<exists>a. office t = add_audits [a] (revoke_user_sessions e org uid (put_user (updated_user p u) (office s)))"
      using u row unfolding update_user_def by (auto simp: outcome_simps Let_def in_office_def updated_user_def)
    then show ?thesis using row by (auto intro!: exI [of _ "updated_user p u"] simp: updated_user_def)
  qed
  then obtain v a where v: "user_id v = uid" "\<not> user_is_active v" "uid \<noteq> actor_user_id ctx"
    and t: "office t = add_audits [a] (revoke_user_sessions e org uid (put_user v (office s)))" by blast
  have "\<forall>x \<in> set (users (office t)). user_id x = uid \<longrightarrow> \<not> user_is_active x"
    using v by (auto simp: t put_row_def)
  note gone = inactive_no_access [OF this]
  have "\<not> session_is_active e' org uid family (office t)" for e' family
    using revoke_user_sessions_live [of _ e org uid "put_user v (office s)"]
    by (auto simp: session_is_active_def list_ex_iff token_live_def t)
  with gone v(3) show ?thesis by blast
qed

text \<open>The administrator \<open>u\<close>, signed in, is switched off by a colleague who may delete users.\<close>

definition sample_colleague :: mutation_context where
  "sample_colleague = office_manager\<lparr>actor_user_id := ''v'', permissions_held := [''users.delete'']\<rparr>"

definition sample_busy :: directory where
  "sample_busy = sample_places\<lparr>office := sample_signed_in\<rparr>"

definition sample_left :: directory where
  "sample_left = committed (deactivate_user (moment 5 ''n'') sample_colleague ''o'' ''u'' sample_busy)"

lemma sample_busy_user: "find_user (office sample_busy) ''o'' ''u'' = Some (sample_account ''u'')"
  by (simp add: sample_busy_def sample_signed_in_def account_sample_defs entity_Cons)

lemma sample_deactivation: "deactivate_user (moment 5 ''n'') sample_colleague ''o'' ''u'' sample_busy = Return sample_left ()"
  and sample_left_tables: "users (office sample_left) = [deactivated (sample_account ''u''), sample_account ''v'']"
    "user_roles (office sample_left) = user_roles sample_office" "roles (office sample_left) = roles sample_office"
proof -
  have u: "user_id (sample_account ''u'') = ''u''" by (simp add: sample_account_def)
  have "\<exists>a. deactivate_user (moment 5 ''n'') sample_colleague ''o'' ''u'' sample_busy = Return (in_office (\<lambda>d. add_audits [a]
      (revoke_user_sessions (moment 5 ''n'') ''o'' ''u'' (put_user (deactivated (sample_account ''u'')) d))) sample_busy) ()"
    unfolding deactivate_user_def sample_busy_user fetch_def demand_def Let_def option.case u
    by (intro exI) (simp add: sample_colleague_def office_manager_def)
  then obtain a where left: "deactivate_user (moment 5 ''n'') sample_colleague ''o'' ''u'' sample_busy =
    Return (in_office (\<lambda>d. add_audits [a]
      (revoke_user_sessions (moment 5 ''n'') ''o'' ''u'' (put_user (deactivated (sample_account ''u'')) d))) sample_busy) ()" by blast
  then show "deactivate_user (moment 5 ''n'') sample_colleague ''o'' ''u'' sample_busy = Return sample_left ()"
    by (simp add: sample_left_def)
  show "users (office sample_left) = [deactivated (sample_account ''u''), sample_account ''v'']"
    "user_roles (office sample_left) = user_roles sample_office" "roles (office sample_left) = roles sample_office"
    unfolding sample_left_def left
    by (simp_all add: put_row_def deactivated_def sample_busy_def sample_signed_in_def sample_office_def sample_account_def)
qed

theorem deactivation_ends_access_witness:
  "session_is_active (moment 6 ''x'') ''o'' ''u'' ''f'' (office sample_busy) \<and>
   \<not> session_is_active (moment 6 ''x'') ''o'' ''u'' ''f'' (office sample_left) \<and>
   (\<forall>token. get_current_user (sample_crypto ''r'') (moment 6 ''x'') token (office sample_left) \<noteq> Inr (sample_account ''u''))"
proof -
  have before: "session_is_active (moment 6 ''x'') ''o'' ''u'' ''f'' (office sample_busy)"
    by (simp add: session_is_active_def token_live_def sample_busy_def sample_signed_in_def sample_token_def moment_def)
  have u: "user_id (sample_account ''u'') = ''u''" by (simp add: sample_account_def)
  have "\<exists>u. find_user (office sample_busy) ''o'' ''u'' = Some u" by (simp add: sample_busy_user)
  note off = deactivation_ends_access [OF disjI1 [OF conjI [OF sample_deactivation this]]]
  have "get_current_user (sample_crypto ''r'') (moment 6 ''x'') token (office sample_left) \<noteq> Inr (sample_account ''u'')" for token
    using off u by metis
  with off before show ?thesis by metis
qed

text \<open>
  The services of roles protect the last administrator, see \<open>administrator_stays\<close>. The directory does not: here the
  only administrator of the organization is switched off by a user without any role permission.
\<close>

lemma last_administrator_is_lost:
  "administered ''o'' (office sample_busy) \<and> \<not> may sample_colleague ''roles.update'' \<and>
   \<not> administered ''o'' (office sample_left)"
proof -
  have "administered ''o'' (office sample_busy)"
    by (rule same_people_administered [OF _ sample_office_administered])
      (simp add: same_people_def sample_busy_def sample_signed_in_def)
  moreover have "\<not> may sample_colleague ''roles.update''"
    unfolding may_def sample_colleague_def office_manager_def by code_simp
  moreover have "\<not> administers (office sample_left) ''o'' ''a'' w" if "w \<in> set (users (office sample_left))" for w
    using that unfolding sample_left_tables
    by (auto simp: administers_def sample_left_tables deactivated_def sample_office_def sample_account_def sample_assignment_def)
  moreover have "administrator_role (office sample_left) ''o'' = Some (sample_role ''a'' organization_administrator True)"
    by (simp add: administrator_role_def sample_left_tables account_sample_defs)
  ultimately show ?thesis by (auto simp: administered_def sample_role_def)
qed

end
