(* ===== verification/Lead_Tables.thy ===== *)
theory Lead_Tables
  imports Directory_People
begin

text \<open>
  The tables of the leads and site visits (\<^verbatim>\<open>models/crm.py\<close>, \<^verbatim>\<open>models/sales.py\<close>) that stand beside the shared database:
  \<open>crm\<close> extends the directory with them. The column \<^verbatim>\<open>updated_at\<close> is left out.
\<close>

section \<open>Enumerations\<close>

datatype activity_type = Act_CALL | Act_EMAIL | Act_MEETING | Act_NOTE | Act_STATUS_CHANGE | Act_FOLLOW_UP

primrec activity_type_value :: "activity_type \<Rightarrow> string" where
  "activity_type_value Act_CALL = ''CALL''"
| "activity_type_value Act_EMAIL = ''EMAIL''"
| "activity_type_value Act_MEETING = ''MEETING''"
| "activity_type_value Act_NOTE = ''NOTE''"
| "activity_type_value Act_STATUS_CHANGE = ''STATUS_CHANGE''"
| "activity_type_value Act_FOLLOW_UP = ''FOLLOW_UP''"

datatype visit_status = Visit_SCHEDULED | Visit_CONFIRMED | Visit_CHECKED_IN | Visit_COMPLETED | Visit_CANCELLED | Visit_NO_SHOW

primrec visit_status_value :: "visit_status \<Rightarrow> string" where
  "visit_status_value Visit_SCHEDULED = ''SCHEDULED''"
| "visit_status_value Visit_CONFIRMED = ''CONFIRMED''"
| "visit_status_value Visit_CHECKED_IN = ''CHECKED_IN''"
| "visit_status_value Visit_COMPLETED = ''COMPLETED''"
| "visit_status_value Visit_CANCELLED = ''CANCELLED''"
| "visit_status_value Visit_NO_SHOW = ''NO_SHOW''"

primrec lead_status_value :: "lead_status \<Rightarrow> string" where
  "lead_status_value Lead_NEW = ''NEW''"
| "lead_status_value Lead_ASSIGNED = ''ASSIGNED''"
| "lead_status_value Lead_ATTEMPTED = ''ATTEMPTED''"
| "lead_status_value Lead_CONTACTED = ''CONTACTED''"
| "lead_status_value Lead_QUALIFIED = ''QUALIFIED''"
| "lead_status_value Lead_DISQUALIFIED = ''DISQUALIFIED''"
| "lead_status_value Lead_LOST = ''LOST''"
| "lead_status_value Lead_CONVERTED = ''CONVERTED''"

section \<open>Rows\<close>

text \<open>The errors of an import batch are pairs of a row number and a message.\<close>

record lead_source_row =
  src_id :: ident
  src_organization_id :: ident
  src_name :: string
  src_code :: string
  src_is_active :: bool
  src_created_at :: timestamp

record lost_reason_row =
  reason_id :: ident
  reason_organization_id :: ident
  reason_name :: string
  reason_code :: string
  reason_is_active :: bool
  reason_created_at :: timestamp

record import_batch_row =
  batch_id :: ident
  batch_organization_id :: ident
  batch_created_by_user_id :: "ident option"
  batch_filename :: string
  batch_status :: string
  batch_total_rows :: int
  batch_imported_rows :: int
  batch_skipped_rows :: int
  batch_error_rows :: int
  batch_mapping_json :: "json option"
  batch_errors_json :: "(nat \<times> string option) list option"
  batch_completed_at :: "timestamp option"
  batch_created_at :: timestamp

record score_rule_row =
  rule_id :: ident
  rule_organization_id :: ident
  rule_name :: string
  rule_field :: string
  rule_operator :: string
  rule_comparison_value :: "string option"
  rule_points :: int
  rule_priority :: int
  rule_is_active :: bool
  rule_created_at :: timestamp

record lead_assignment_row =
  asg_id :: ident
  asg_organization_id :: ident
  asg_lead_id :: ident
  asg_assigned_user_id :: ident
  asg_assigned_by_user_id :: "ident option"
  asg_assigned_at :: timestamp
  asg_unassigned_at :: "timestamp option"
  asg_is_active :: bool
  asg_active_lead_key :: "ident option"
  asg_created_at :: timestamp

record lead_activity_row =
  act_id :: ident
  act_organization_id :: ident
  act_lead_id :: ident
  act_performed_by_user_id :: "ident option"
  act_activity_type :: activity_type
  act_subject :: string
  act_notes :: "string option"
  act_occurred_at :: timestamp
  act_due_at :: "timestamp option"
  act_completed_at :: "timestamp option"
  act_outcome :: "string option"
  act_is_completed :: bool
  act_created_at :: timestamp

record lead_note_row =
  lnote_id :: ident
  lnote_organization_id :: ident
  lnote_lead_id :: ident
  lnote_created_by_user_id :: "ident option"
  lnote_body :: string
  lnote_is_pinned :: bool
  lnote_created_at :: timestamp

record site_visit_row =
  visit_id :: ident
  visit_organization_id :: ident
  visit_lead_id :: "ident option"
  visit_customer_id :: "ident option"
  visit_project_id :: ident
  visit_unit_id :: "ident option"
  visit_assigned_user_id :: "ident option"
  visit_created_by_user_id :: "ident option"
  visit_scheduled_at :: timestamp
  visit_check_in_at :: "timestamp option"
  visit_check_out_at :: "timestamp option"
  visit_completed_at :: "timestamp option"
  visit_status :: visit_status
  visit_attendees :: "string list option"
  visit_notes :: "string option"
  visit_feedback :: "string option"
  visit_outcome :: "string option"
  visit_next_follow_up_at :: "timestamp option"
  visit_created_at :: timestamp

text \<open>
  The cost sheets are another service's; a lead is not deleted while one refers to it.
\<close>

record crm =
  places :: directory
  crm_sheets :: "cost_sheet_row list"
  site_visits :: "site_visit_row list"
  lead_sources :: "lead_source_row list"
  lost_reasons :: "lost_reason_row list"
  import_batches :: "import_batch_row list"
  score_rules :: "score_rule_row list"
  lead_assignments :: "lead_assignment_row list"
  lead_activities :: "lead_activity_row list"
  lead_notes :: "lead_note_row list"

abbreviation base :: "crm \<Rightarrow> database" where
  "base s \<equiv> office (places s)"

definition on_base :: "(database \<Rightarrow> database) \<Rightarrow> crm \<Rightarrow> crm" where
  "on_base f s = s\<lparr>places := in_office f (places s)\<rparr>"

abbreviation find_source :: "crm \<Rightarrow> ident \<Rightarrow> ident \<Rightarrow> lead_source_row option" where
  "find_source s \<equiv> entity src_organization_id src_id (lead_sources s)"

abbreviation find_reason :: "crm \<Rightarrow> ident \<Rightarrow> ident \<Rightarrow> lost_reason_row option" where
  "find_reason s \<equiv> entity reason_organization_id reason_id (lost_reasons s)"

abbreviation find_rule :: "crm \<Rightarrow> ident \<Rightarrow> ident \<Rightarrow> score_rule_row option" where
  "find_rule s \<equiv> entity rule_organization_id rule_id (score_rules s)"

abbreviation find_activity :: "crm \<Rightarrow> ident \<Rightarrow> ident \<Rightarrow> lead_activity_row option" where
  "find_activity s \<equiv> entity act_organization_id act_id (lead_activities s)"

abbreviation find_note :: "crm \<Rightarrow> ident \<Rightarrow> ident \<Rightarrow> lead_note_row option" where
  "find_note s \<equiv> entity lnote_organization_id lnote_id (lead_notes s)"

definition put_lead :: "lead_row \<Rightarrow> crm \<Rightarrow> crm" where
  "put_lead x = on_base (\<lambda>d. d\<lparr>leads := put_row lead_id x (leads d)\<rparr>)"

definition add_lead :: "lead_row \<Rightarrow> crm \<Rightarrow> crm" where
  "add_lead x = on_base (\<lambda>d. d\<lparr>leads := leads d @ [x]\<rparr>)"

definition log_crm :: "audit_row list \<Rightarrow> crm \<Rightarrow> crm" where
  "log_crm as = on_base (add_audits as)"

text \<open>The name of a referenced row, \<^verbatim>\<open>names.get(id) if id else None\<close>.\<close>

definition name_of :: "('r \<Rightarrow> string) \<Rightarrow> (ident \<Rightarrow> 'r option) \<Rightarrow> ident option \<Rightarrow> string option" where
  "name_of name look x = (case given x of None \<Rightarrow> None | Some i \<Rightarrow> map_option name (look i))"

section \<open>Contacts\<close>

text \<open>\<^verbatim>\<open>_normalize_email\<close> and \<^verbatim>\<open>_normalize_phone\<close>: what two leads are compared by.\<close>

definition normalize_email :: "string option \<Rightarrow> string option" where
  "normalize_email x = (case x of None \<Rightarrow> None | Some t \<Rightarrow> if strip t = [] then None else Some (lower (strip t)))"

definition normalize_phone :: "string option \<Rightarrow> string option" where
  "normalize_phone x = (case given x of None \<Rightarrow> None
     | Some t \<Rightarrow> (let ds = filter is_digit t in if ds = [] then None else Some ds))"

text \<open>The validators of \<^verbatim>\<open>schemas/leads.py\<close>: \<^verbatim>\<open>" ".join(value.split())\<close>, and the characters of a phone number.\<close>

lemma length_dropWhile_Suc [termination_simp]: "length (dropWhile p xs) < Suc (length xs)"
  by (simp add: less_Suc_eq_le length_dropWhile_le)

fun words :: "string \<Rightarrow> string list" where
  "words [] = []"
| "words (c # t) = (if is_space c then words t
     else (c # takeWhile (\<lambda>x. \<not> is_space x) t) # words (dropWhile (\<lambda>x. \<not> is_space x) t))"

definition collapse :: "string \<Rightarrow> string" where
  "collapse t = (case words t of [] \<Rightarrow> [] | w # ws \<Rightarrow> w @ concat (map (\<lambda>v. '' '' @ v) ws))"

definition clean_required :: "string \<Rightarrow> string option" where
  "clean_required t = (let c = collapse t in if length c < 2 then None else Some c)"

definition clean_optional :: "string option \<Rightarrow> string option" where
  "clean_optional x = (case x of None \<Rightarrow> None | Some t \<Rightarrow> (let c = collapse t in if c = [] then None else Some c))"

definition phone_ok :: "string \<Rightarrow> bool" where
  "phone_ok t \<longleftrightarrow> 7 \<le> length t \<and> length t \<le> 32 \<and> list_all (\<lambda>c. is_digit c \<or> c \<in> set ''+() .-'') t"

definition clean_phone :: "string option \<Rightarrow> string option option" where
  "clean_phone x = (let c = clean_optional x in if opt_all phone_ok c then Some c else None)"

definition bool_str :: "bool \<Rightarrow> string" where
  "bool_str b = (if b then ''True'' else ''False'')"

end
