(* ===== verification/Leads.thy ===== *)
theory Leads
  imports Lead_Tables
begin

text \<open>
  The score of a lead (\<^verbatim>\<open>_recompute_score\<close> and \<^verbatim>\<open>_rule_matches\<close> of \<^verbatim>\<open>services/leads.py\<close>). Amounts are stored as
  rationals, so the texts that Python prints for them are given by \<open>wording\<close>: \<open>amount_text\<close> is \<^verbatim>\<open>str(amount)\<close>
  of a field of the lead and \<open>decimal_text\<close> is \<^verbatim>\<open>str(Decimal(text))\<close>.

  Leads (\<^verbatim>\<open>services/leads.py\<close>): capture with duplicate detection, edits, assignment, the status machine and the
  conversion into a customer. Sources and lost reasons are in \<open>Lead_Settings\<close>, activities and notes in
  \<open>Lead_Activities\<close>, lists, duplicates and imports in \<open>Lead_Imports\<close>.
\<close>

record wording =
  amount_text :: "lead_row \<Rightarrow> string \<Rightarrow> string"
  decimal_text :: "string \<Rightarrow> string"

section \<open>Comparison values\<close>

text \<open>\<^verbatim>\<open>Decimal(text)\<close> also reads infinities and the two kinds of not-a-number.\<close>

datatype dec_value = Finite decimal | Infinite bool | Quiet_NaN | Signaling_NaN

definition python_decimal :: "string \<Rightarrow> dec_value option" where
  "python_decimal t =
     (let (neg, u) = take_sign (lower (strip t)) in
      if u = ''inf'' \<or> u = ''infinity'' then Some (Infinite neg)
      else if take 3 u = ''nan'' \<and> list_all is_digit (drop 3 u) then Some Quiet_NaN
      else if take 4 u = ''snan'' \<and> list_all is_digit (drop 4 u) then Some Signaling_NaN
      else map_option Finite (parse_decimal t))"

datatype rule_value = V_None | V_Bool bool | V_Int int | V_Amount decimal | V_Text string

text \<open>\<^verbatim>\<open>value not in {None, "", False}\<close>: zero equals \<^verbatim>\<open>False\<close>.\<close>

primrec value_present :: "rule_value \<Rightarrow> bool" where
  "value_present V_None = False"
| "value_present (V_Bool b) = b"
| "value_present (V_Int n) = (n \<noteq> 0)"
| "value_present (V_Amount d) = (d \<noteq> 0)"
| "value_present (V_Text t) = (t \<noteq> [])"

text \<open>
  A comparison of a number with the value of the rule. Equality with a quiet not-a-number is false; its ordering, and
  every comparison with a signalling one, raises \<^verbatim>\<open>decimal.InvalidOperation\<close>, which \<^verbatim>\<open>except TypeError\<close> does not catch.
\<close>

definition number_matches :: "string \<Rightarrow> bool \<Rightarrow> decimal \<Rightarrow> dec_value \<Rightarrow> app_error + bool" where
  "number_matches operator text_match n target =
     (if operator = ''contains'' then Inr text_match
      else if operator = ''eq'' then (case target of Finite d \<Rightarrow> Inr (n = d) | Infinite _ \<Rightarrow> Inr False
        | Quiet_NaN \<Rightarrow> Inr False | Signaling_NaN \<Rightarrow> Inl Internal_Error)
      else if operator = ''neq'' then (case target of Finite d \<Rightarrow> Inr (n \<noteq> d) | Infinite _ \<Rightarrow> Inr True
        | Quiet_NaN \<Rightarrow> Inr True | Signaling_NaN \<Rightarrow> Inl Internal_Error)
      else if operator = ''gte'' then (case target of Finite d \<Rightarrow> Inr (d \<le> n) | Infinite neg \<Rightarrow> Inr neg | _ \<Rightarrow> Inl Internal_Error)
      else if operator = ''lte'' then (case target of Finite d \<Rightarrow> Inr (n \<le> d) | Infinite neg \<Rightarrow> Inr (\<not> neg) | _ \<Rightarrow> Inl Internal_Error)
      else Inr False)"

definition ordered_matches :: "string \<Rightarrow> bool \<Rightarrow> 'a :: linorder \<Rightarrow> 'a \<Rightarrow> bool" where
  "ordered_matches operator text_match x target =
     (if operator = ''contains'' then text_match else if operator = ''eq'' then x = target
      else if operator = ''neq'' then x \<noteq> target else if operator = ''gte'' then target \<le> x
      else if operator = ''lte'' then x \<le> target else False)"

text \<open>\<^verbatim>\<open>str(target).lower() in str(value or "").lower()\<close>\<close>

definition text_contains :: "string \<Rightarrow> string \<Rightarrow> bool" where
  "text_contains part whole \<longleftrightarrow> sublist (lower part) (lower whole)"

definition int_str :: "int \<Rightarrow> string" where
  "int_str n = (if n < 0 then CHR ''-'' # nat_str (nat (- n)) else nat_str (nat n))"

definition value_matches :: "wording \<Rightarrow> lead_row \<Rightarrow> string \<Rightarrow> string \<Rightarrow> string \<Rightarrow> rule_value \<Rightarrow> app_error + bool" where
  "value_matches f x field operator comparison v = (case v of
     V_None \<Rightarrow> Inr (if operator = ''neq'' then True
       else if operator = ''contains'' then text_contains comparison [] else False)
   | V_Bool b \<Rightarrow> (let target = lower comparison \<in> set [''true'', ''1'', ''yes''] in
       Inr (ordered_matches operator (b \<and> target) b target))
   | V_Int n \<Rightarrow> (case python_decimal comparison of None \<Rightarrow> Inr False
       | Some target \<Rightarrow> number_matches operator
           (text_contains (decimal_text f comparison) (if n = 0 then [] else int_str n)) (of_int n) target)
   | V_Amount d \<Rightarrow> (case python_decimal comparison of None \<Rightarrow> Inr False
       | Some target \<Rightarrow> number_matches operator
           (text_contains (decimal_text f comparison) (if d = 0 then [] else amount_text f x field)) d target)
   | V_Text t \<Rightarrow> Inr (ordered_matches operator (text_contains comparison t) t comparison))"

definition amount_value :: "decimal option \<Rightarrow> rule_value" where
  "amount_value x = (case x of None \<Rightarrow> V_None | Some d \<Rightarrow> V_Amount d)"

definition days_since :: "timestamp \<Rightarrow> timestamp \<Rightarrow> int" where
  "days_since t created = max ((t - created) div 86400000000) 0"

definition rule_value_of :: "timestamp \<Rightarrow> lead_row \<Rightarrow> nat \<Rightarrow> string option \<Rightarrow> string \<Rightarrow> rule_value" where
  "rule_value_of t x activities source_code field =
     (if field = ''email_present'' then V_Bool (given (lead_email x) \<noteq> None)
      else if field = ''phone_present'' then V_Bool (given (lead_phone x) \<noteq> None)
      else if field = ''source_code'' then (case source_code of None \<Rightarrow> V_None | Some c \<Rightarrow> V_Text c)
      else if field = ''budget_min'' then amount_value (lead_budget_min x)
      else if field = ''budget_max'' then amount_value (lead_budget_max x)
      else if field = ''status'' then V_Text (lead_status_value (lead_status x))
      else if field = ''activity_count'' then V_Int (int activities)
      else if field = ''days_since_created'' then V_Int (days_since t (lead_created_at x))
      else if field = ''assigned'' then V_Bool (given (lead_owner_user_id x) \<noteq> None)
      else V_None)"

definition score_rule_matches ::
  "wording \<Rightarrow> timestamp \<Rightarrow> lead_row \<Rightarrow> nat \<Rightarrow> string option \<Rightarrow> score_rule_row \<Rightarrow> app_error + bool" where
  "score_rule_matches f t x activities source_code r =
     (let v = rule_value_of t x activities source_code (rule_field r) in
      if rule_operator r = ''present'' then Inr (value_present v)
      else case rule_comparison_value r of None \<Rightarrow> Inr False
        | Some c \<Rightarrow> value_matches f x (rule_field r) (rule_operator r) c v)"

section \<open>The score\<close>

type_synonym score_item = "string \<times> int"

definition base_items :: "lead_row \<Rightarrow> nat \<Rightarrow> score_item list" where
  "base_items x activities =
     (if given (lead_email x) \<noteq> None then [(''email provided'', 10)] else []) @
     (if given (lead_phone x) \<noteq> None then [(''phone provided'', 15)] else []) @
     (if lead_budget_min x \<noteq> None \<or> lead_budget_max x \<noteq> None then [(''budget captured'', 10)] else []) @
     (if given (lead_owner_user_id x) \<noteq> None then [(''assigned'', 5)] else []) @
     (if lead_status x = Lead_QUALIFIED then [(''qualified'', 20)] else []) @
     (if lead_status x = Lead_CONVERTED then [(''converted'', 30)] else []) @
     (if activities \<noteq> 0 then [(''engagement'', min (int activities * 3) 15)] else [])"

text \<open>The rules in order of priority; the first comparison that raises ends the request.\<close>

fun custom_items ::
  "wording \<Rightarrow> timestamp \<Rightarrow> lead_row \<Rightarrow> nat \<Rightarrow> string option \<Rightarrow> score_rule_row list \<Rightarrow> app_error + score_item list" where
  "custom_items f t x activities source_code [] = Inr []"
| "custom_items f t x activities source_code (r # rs) =
     step (score_rule_matches f t x activities source_code r) (\<lambda>b.
     step (custom_items f t x activities source_code rs) (\<lambda>items.
     Inr (if b then (rule_name r, rule_points r) # items else items)))"

definition active_rules :: "crm \<Rightarrow> ident \<Rightarrow> score_rule_row list" where
  "active_rules s org = sort_key rule_priority (filter (\<lambda>r. rule_organization_id r = org \<and> rule_is_active r) (score_rules s))"

definition activity_count :: "crm \<Rightarrow> lead_row \<Rightarrow> nat" where
  "activity_count s x = count_rows (\<lambda>a. act_organization_id a = lead_organization_id x \<and> act_lead_id a = lead_id x) (lead_activities s)"

definition source_code_of :: "crm \<Rightarrow> lead_row \<Rightarrow> string option" where
  "source_code_of s x = name_of src_code (find_source s (lead_organization_id x)) (lead_source_id x)"

definition items_json :: "score_item list \<Rightarrow> json" where
  "items_json items = JList (map (\<lambda>(l, p). JObj [(''label'', JStr l), (''points'', JInt p)]) items)"

definition clamp_score :: "int \<Rightarrow> int" where
  "clamp_score n = max 0 (min 100 n)"

definition scored :: "score_item list \<Rightarrow> score_item list \<Rightarrow> lead_row \<Rightarrow> lead_row" where
  "scored fixed custom x =
     (let raw = sum_list (map snd (fixed @ custom)) in
      x\<lparr>lead_score := clamp_score raw,
        lead_score_breakdown := Some (JObj [(''base'', items_json fixed), (''rules'', items_json custom), (''raw_score'', JInt raw)])\<rparr>)"

text \<open>
  \<^verbatim>\<open>_recompute_score\<close> of the lead \<open>x\<close>, as it stands in memory; the activities, rules and sources are read from the
  flushed tables \<open>s\<close>.
\<close>

definition recompute_score :: "wording \<Rightarrow> timestamp \<Rightarrow> crm \<Rightarrow> lead_row \<Rightarrow> app_error + lead_row" where
  "recompute_score f t s x =
     (let n = activity_count s x in
      step (custom_items f t x n (source_code_of s x) (active_rules s (lead_organization_id x))) (\<lambda>custom.
      Inr (scored (base_items x n) custom x)))"

section \<open>Views\<close>

record lead_view =
  lv_lead :: lead_row
  lv_source_name :: "string option"
  lv_owner_name :: "string option"
  lv_branch_name :: "string option"
  lv_lost_reason_name :: "string option"
  lv_activity_count :: nat

definition lead_view_of :: "crm \<Rightarrow> ident \<Rightarrow> lead_row \<Rightarrow> lead_view" where
  "lead_view_of s org x =
     \<lparr>lv_lead = x, lv_source_name = name_of src_name (find_source s org) (lead_source_id x),
      lv_owner_name = name_of user_full_name (find_user (base s) org) (lead_owner_user_id x),
      lv_branch_name = name_of branch_name (find_branch (places s) org) (lead_branch_id x),
      lv_lost_reason_name = name_of reason_name (find_reason s org) (lead_lost_reason_id x),
      lv_activity_count = count_rows (\<lambda>a. act_organization_id a = org \<and> act_lead_id a = lead_id x) (lead_activities s)\<rparr>"

definition get_lead :: "crm \<Rightarrow> ident \<Rightarrow> ident \<Rightarrow> app_error + lead_view" where
  "get_lead s org lid = need (find_lead (base s) org lid) resource_not_found (\<lambda>x. Inr (lead_view_of s org x))"

definition lead_snapshot :: "lead_row \<Rightarrow> snapshot" where
  "lead_snapshot x =
     [(''full_name'', JStr (lead_full_name x)), (''email'', jopt JStr (lead_email x)), (''phone'', jopt JStr (lead_phone x)),
      (''source_id'', jopt JStr (lead_source_id x)), (''owner_user_id'', jopt JStr (lead_owner_user_id x)),
      (''branch_id'', jopt JStr (lead_branch_id x)), (''status'', JStr (lead_status_value (lead_status x))),
      (''score'', JInt (lead_score x)), (''budget_min'', jopt JDec (lead_budget_min x)),
      (''budget_max'', jopt JDec (lead_budget_max x)), (''lost_reason_id'', jopt JStr (lead_lost_reason_id x)),
      (''duplicate_of_lead_id'', jopt JStr (lead_duplicate_of_lead_id x))]"

definition lead_audit ::
  "env \<Rightarrow> nat \<Rightarrow> ident \<Rightarrow> mutation_context \<Rightarrow> string \<Rightarrow> ident \<Rightarrow> snapshot option \<Rightarrow> snapshot option \<Rightarrow> crm \<Rightarrow> crm" where
  "lead_audit e k org ctx action lid old new = log_crm [audit_entry e (uuid e k) org ctx action ''lead'' lid old new]"

definition lead_converted_error :: app_error where
  "lead_converted_error = conflict ''LEAD_CONVERTED''"

definition validate_lead_references :: "crm \<Rightarrow> ident \<Rightarrow> ident option \<Rightarrow> ident option \<Rightarrow> app_error + unit" where
  "validate_lead_references s org source branch =
     need_given source (find_source s org) resource_not_found (\<lambda>x.
     require (opt_all src_is_active x) (App_Error 400 ''LEAD_SOURCE_INACTIVE'') (
     need_given branch (find_branch (places s) org) resource_not_found (\<lambda>b.
     require (opt_all branch_is_active b) (App_Error 400 ''BRANCH_INACTIVE'') (Inr ()))))"

definition active_assignee :: "crm \<Rightarrow> ident \<Rightarrow> ident \<Rightarrow> app_error + user_row" where
  "active_assignee s org uid =
     need (find_user (base s) org uid) resource_not_found (\<lambda>u.
     require (user_is_active u) (App_Error 400 ''ASSIGNEE_INACTIVE'') (Inr u))"

section \<open>Duplicates\<close>

definition same_contact :: "string option \<Rightarrow> string option \<Rightarrow> bool" where
  "same_contact x y \<longleftrightarrow> x \<noteq> None \<and> y = x"

text \<open>\<^verbatim>\<open>_duplicate_matches\<close>: unlinked leads with the same normalized email or phone, and which of the two matched.\<close>

definition duplicate_matches ::
  "crm \<Rightarrow> ident \<Rightarrow> string option \<Rightarrow> string option \<Rightarrow> ident option \<Rightarrow> (lead_row \<times> string list) list" where
  "duplicate_matches s org email phone except =
     (let m = normalize_email email; n = normalize_phone phone in
      map (\<lambda>x. (x, (if same_contact m (lead_normalized_email x) then [''email''] else []) @
                   (if same_contact n (lead_normalized_phone x) then [''phone''] else [])))
        (take 100 (filter (\<lambda>x. lead_organization_id x = org \<and> lead_duplicate_of_lead_id x = None \<and>
           (same_contact m (lead_normalized_email x) \<or> same_contact n (lead_normalized_phone x)) \<and>
           opt_all (\<lambda>i. lead_id x \<noteq> i) (given except)) (leads (base s)))))"

definition potential_duplicate :: app_error where
  "potential_duplicate = conflict ''POTENTIAL_DUPLICATE''"

section \<open>Assignment\<close>

definition new_assignment :: "env \<Rightarrow> nat \<Rightarrow> ident \<Rightarrow> ident \<Rightarrow> ident \<Rightarrow> ident \<Rightarrow> lead_assignment_row" where
  "new_assignment e k org lid user actor =
     \<lparr>asg_id = uuid e k, asg_organization_id = org, asg_lead_id = lid, asg_assigned_user_id = user,
      asg_assigned_by_user_id = Some actor, asg_assigned_at = now e, asg_unassigned_at = None, asg_is_active = True,
      asg_active_lead_key = Some lid, asg_created_at = now e\<rparr>"

definition assigned_message :: "lead_row \<Rightarrow> ident \<Rightarrow> message" where
  "assigned_message x actor =
     \<lparr>msg_event = Event_LEAD_ASSIGNED, msg_title = ''Lead assigned to you'', msg_body = [JStr (lead_full_name x)],
      msg_entity_type = ''lead'', msg_entity_id = lead_id x, msg_action_url = ''/leads/'' @ lead_id x,
      msg_data = Some [(''lead_id'', JStr (lead_id x)), (''assigned_by_user_id'', JStr actor)]\<rparr>"

definition add_assignment :: "env \<Rightarrow> nat \<Rightarrow> lead_row \<Rightarrow> ident \<Rightarrow> ident \<Rightarrow> crm \<Rightarrow> crm" where
  "add_assignment e k x user actor s =
     on_base (queue_in_app e (k + 1) (lead_organization_id x) [user] (assigned_message x actor) None None)
       (s\<lparr>lead_assignments := lead_assignments s @ [new_assignment e k (lead_organization_id x) (lead_id x) user actor]\<rparr>)"

definition ended_assignment :: "env \<Rightarrow> lead_assignment_row \<Rightarrow> lead_assignment_row" where
  "ended_assignment e a = a\<lparr>asg_is_active := False, asg_active_lead_key := None, asg_unassigned_at := Some (now e)\<rparr>"

definition end_assignments :: "env \<Rightarrow> lead_row \<Rightarrow> crm \<Rightarrow> crm" where
  "end_assignments e x s =
     s\<lparr>lead_assignments := update_where (\<lambda>a. asg_organization_id a = lead_organization_id x \<and> asg_lead_id a = lead_id x \<and>
       asg_is_active a) (ended_assignment e) (lead_assignments s)\<rparr>"

text \<open>\<^verbatim>\<open>_set_assignment\<close>: the lead in memory and the tables.\<close>

definition owned_by :: "ident option \<Rightarrow> lead_row \<Rightarrow> lead_row" where
  "owned_by user x = x\<lparr>lead_owner_user_id := user, lead_status :=
     (if given user \<noteq> None \<and> lead_status x = Lead_NEW then Lead_ASSIGNED else lead_status x)\<rparr>"

definition set_assignment :: "env \<Rightarrow> nat \<Rightarrow> ident \<Rightarrow> lead_row \<Rightarrow> ident option \<Rightarrow> crm \<Rightarrow> crm" where
  "set_assignment e k actor x user s = (case given user of
     None \<Rightarrow> end_assignments e x s
   | Some u \<Rightarrow> add_assignment e k x u actor (end_assignments e x s))"

definition assign_lead ::
  "wording \<Rightarrow> env \<Rightarrow> mutation_context \<Rightarrow> ident \<Rightarrow> ident \<Rightarrow> ident option \<Rightarrow> crm \<Rightarrow> (crm, lead_view) outcome" where
  "assign_lead f e ctx org lid user s =
     fetch s (find_lead (base s) org lid) resource_not_found (\<lambda>x.
     demand s (lead_status x \<noteq> Lead_CONVERTED) lead_converted_error (
     attempt s (case given user of None \<Rightarrow> Inr () | Some u \<Rightarrow> step (active_assignee s org u) (\<lambda>_. Inr ())) (\<lambda>_.
     attempt s (recompute_score f (now e) s (owned_by user x)) (\<lambda>y.
     demand s (no_blank [user]) Integrity_Error (
     let t = lead_audit e 2 org ctx (if given user \<noteq> None then ''lead.assigned'' else ''lead.unassigned'') (lead_id x)
           (Some (lead_snapshot x)) (Some (lead_snapshot y))
           (put_lead y (set_assignment e 0 (actor_user_id ctx) x user s)) in
     Return t (lead_view_of t org y))))))"

fun assign_all ::
  "wording \<Rightarrow> env \<Rightarrow> nat \<Rightarrow> mutation_context \<Rightarrow> ident \<Rightarrow> ident \<Rightarrow> lead_row list \<Rightarrow> crm \<Rightarrow> app_error + crm" where
  "assign_all f e k ctx org user [] s = Inr s"
| "assign_all f e k ctx org user (x # xs) s =
     step (recompute_score f (now e) s (owned_by (Some user) x)) (\<lambda>y.
     assign_all f e (k + 3) ctx org user xs
       (lead_audit e (k + 2) org ctx ''lead.assigned'' (lead_id x) (Some (lead_snapshot x)) (Some (lead_snapshot y))
         (put_lead y (set_assignment e k (actor_user_id ctx) x (Some user) s))))"

definition bulk_assign ::
  "wording \<Rightarrow> env \<Rightarrow> mutation_context \<Rightarrow> ident \<Rightarrow> ident list \<Rightarrow> ident \<Rightarrow> crm \<Rightarrow> (crm, lead_view list) outcome" where
  "bulk_assign f e ctx org ids user s =
     attempt s (active_assignee s org user) (\<lambda>_.
     let xs = filter (\<lambda>x. lead_organization_id x = org \<and> lead_id x \<in> set ids) (leads (base s)) in
     demand s (length xs = length ids) resource_not_found (
     demand s (list_all (\<lambda>x. lead_status x \<noteq> Lead_CONVERTED) xs) lead_converted_error (
     attempt s (assign_all f e 0 ctx org user xs s) (\<lambda>t.
     Return t (map (lead_view_of t org)
       (filter (\<lambda>x. lead_organization_id x = org \<and> lead_id x \<in> set ids) (leads (base t))))))))"

record assignee_view =
  asv_id :: ident
  asv_full_name :: string
  asv_email :: string
  asv_branch_id :: "ident option"

definition list_assignees :: "crm \<Rightarrow> ident \<Rightarrow> assignee_view list" where
  "list_assignees s org =
     map (\<lambda>u. \<lparr>asv_id = user_id u, asv_full_name = user_full_name u, asv_email = user_email u, asv_branch_id = user_branch_id u\<rparr>)
       (sort_key user_full_name (filter (\<lambda>u. user_organization_id u = org \<and> user_is_active u) (users (base s))))"

section \<open>Capture and edits\<close>

record lead_create =
  lc_full_name :: string
  lc_email :: "string option"
  lc_phone :: "string option"
  lc_alternate_phone :: "string option"
  lc_company_name :: "string option"
  lc_source_id :: "ident option"
  lc_owner_user_id :: "ident option"
  lc_branch_id :: "ident option"
  lc_preferred_location :: "string option"
  lc_requirements :: "string option"
  lc_budget_min :: "decimal option"
  lc_budget_max :: "decimal option"
  lc_metadata_json :: "json option"
  lc_duplicate_override :: bool

definition budget_ordered :: "decimal option \<Rightarrow> decimal option \<Rightarrow> bool" where
  "budget_ordered lo hi = (case (lo, hi) of (Some a, Some b) \<Rightarrow> a \<le> b | _ \<Rightarrow> True)"

text \<open>The validated payload: the texts are clean, there is an email or a phone, and the budget is a range.\<close>

definition clean_email :: "string option \<Rightarrow> string option" where
  "clean_email = map_option (\<lambda>m. lower (strip m))"

definition validated_lead :: "lead_create \<Rightarrow> lead_create option" where
  "validated_lead p = (case (clean_required (lc_full_name p), clean_phone (lc_phone p), clean_phone (lc_alternate_phone p)) of
     (Some name, Some phone, Some alternate) \<Rightarrow>
       (let p' = p\<lparr>lc_full_name := name, lc_email := clean_email (lc_email p), lc_phone := phone, lc_alternate_phone := alternate,
          lc_company_name := clean_optional (lc_company_name p), lc_preferred_location := clean_optional (lc_preferred_location p),
          lc_requirements := clean_optional (lc_requirements p)\<rparr> in
        if (given (lc_email p') \<noteq> None \<or> given phone \<noteq> None) \<and> budget_ordered (lc_budget_min p) (lc_budget_max p) \<and>
          opt_all (\<lambda>d. 0 \<le> d) (lc_budget_min p) \<and> opt_all (\<lambda>d. 0 \<le> d) (lc_budget_max p)
        then Some p' else None)
   | _ \<Rightarrow> None)"

definition new_lead :: "env \<Rightarrow> nat \<Rightarrow> ident \<Rightarrow> ident option \<Rightarrow> lead_create \<Rightarrow> lead_row" where
  "new_lead e k org import_batch p =
     \<lparr>lead_id = uuid e k, lead_organization_id = org, lead_source_id = lc_source_id p, lead_owner_user_id = lc_owner_user_id p,
      lead_branch_id = lc_branch_id p, lead_lost_reason_id = None, lead_import_batch_id = import_batch,
      lead_duplicate_of_lead_id = None, lead_full_name = lc_full_name p, lead_email = lc_email p, lead_phone = lc_phone p,
      lead_alternate_phone = lc_alternate_phone p, lead_normalized_email = normalize_email (lc_email p),
      lead_normalized_phone = normalize_phone (lc_phone p), lead_company_name = lc_company_name p,
      lead_preferred_location = lc_preferred_location p, lead_requirements = lc_requirements p,
      lead_budget_min = lc_budget_min p, lead_budget_max = lc_budget_max p,
      lead_status = (if given (lc_owner_user_id p) \<noteq> None then Lead_ASSIGNED else Lead_NEW), lead_score = 0,
      lead_score_breakdown = None, lead_qualification_notes = None, lead_lost_notes = None, lead_qualified_at = None,
      lead_converted_at = None, lead_last_activity_at = None, lead_next_follow_up_at = None,
      lead_metadata_json = lc_metadata_json p, lead_created_at = now e\<rparr>"

definition create_lead ::
  "wording \<Rightarrow> env \<Rightarrow> mutation_context \<Rightarrow> ident \<Rightarrow> lead_create \<Rightarrow> crm \<Rightarrow> (crm, lead_view) outcome" where
  "create_lead f e ctx org p s =
     attempt s (validate_lead_references s org (lc_source_id p) (lc_branch_id p)) (\<lambda>_.
     attempt s (case given (lc_owner_user_id p) of None \<Rightarrow> Inr ()
       | Some u \<Rightarrow> require (may ctx ''leads.assign'') permission_denied (step (active_assignee s org u) (\<lambda>_. Inr ()))) (\<lambda>_.
     demand s (duplicate_matches s org (lc_email p) (lc_phone p) None = [] \<or> lc_duplicate_override p) potential_duplicate (
     demand s (lc_duplicate_override p \<longrightarrow> may ctx ''leads.approve'') permission_denied (
     let x = new_lead e 0 org None p in
     demand s (no_blank [lead_source_id x, lead_owner_user_id x, lead_branch_id x]) Integrity_Error (
     let s1 = add_lead x s in
     attempt s (recompute_score f (now e) s1 x) (\<lambda>y.
     let s2 = (case given (lc_owner_user_id p) of None \<Rightarrow> s1 | Some u \<Rightarrow> add_assignment e 1 x u (actor_user_id ctx) s1);
         t = lead_audit e 3 org ctx ''lead.created'' (lead_id x) None (Some (lead_snapshot y)) (put_lead y s2) in
     Return t (lead_view_of t org y)))))))"

record lead_update =
  lu_full_name :: "string option"
  lu_email :: "string option option"
  lu_phone :: "string option option"
  lu_alternate_phone :: "string option option"
  lu_company_name :: "string option option"
  lu_source_id :: "ident option option"
  lu_branch_id :: "ident option option"
  lu_preferred_location :: "string option option"
  lu_requirements :: "string option option"
  lu_budget_min :: "decimal option option"
  lu_budget_max :: "decimal option option"
  lu_metadata_json :: "json option option"

definition updated_lead :: "lead_update \<Rightarrow> lead_row \<Rightarrow> lead_row" where
  "updated_lead p x =
     (let email = changed (lu_email p) (lead_email x); phone = changed (lu_phone p) (lead_phone x) in
      x\<lparr>lead_full_name := changed (lu_full_name p) (lead_full_name x), lead_email := email, lead_phone := phone,
        lead_alternate_phone := changed (lu_alternate_phone p) (lead_alternate_phone x),
        lead_company_name := changed (lu_company_name p) (lead_company_name x),
        lead_source_id := changed (lu_source_id p) (lead_source_id x),
        lead_branch_id := changed (lu_branch_id p) (lead_branch_id x),
        lead_preferred_location := changed (lu_preferred_location p) (lead_preferred_location x),
        lead_requirements := changed (lu_requirements p) (lead_requirements x),
        lead_budget_min := changed (lu_budget_min p) (lead_budget_min x),
        lead_budget_max := changed (lu_budget_max p) (lead_budget_max x),
        lead_metadata_json := changed (lu_metadata_json p) (lead_metadata_json x),
        lead_normalized_email := normalize_email email, lead_normalized_phone := normalize_phone phone\<rparr>)"

text \<open>An edit of a lead offers no way to override a duplicate.\<close>

definition update_lead ::
  "wording \<Rightarrow> env \<Rightarrow> mutation_context \<Rightarrow> ident \<Rightarrow> ident \<Rightarrow> lead_update \<Rightarrow> crm \<Rightarrow> (crm, lead_view) outcome" where
  "update_lead f e ctx org lid p s =
     fetch s (find_lead (base s) org lid) resource_not_found (\<lambda>x.
     demand s (lead_status x \<noteq> Lead_CONVERTED) lead_converted_error (
     let x' = updated_lead p x in
     attempt s (validate_lead_references s org (lead_source_id x') (lead_branch_id x')) (\<lambda>_.
     demand s (given (lead_email x') \<noteq> None \<or> given (lead_phone x') \<noteq> None) (App_Error 400 ''CONTACT_REQUIRED'') (
     demand s (duplicate_matches s org (given (lead_email x')) (lead_phone x') (Some (lead_id x)) = []) potential_duplicate (
     demand s (budget_ordered (lead_budget_min x') (lead_budget_max x')) (App_Error 400 ''INVALID_BUDGET_RANGE'') (
     attempt s (recompute_score f (now e) s x') (\<lambda>y.
     demand s (no_blank [lead_source_id x', lead_branch_id x']) Integrity_Error (
     let t = lead_audit e 0 org ctx ''lead.updated'' (lead_id x) (Some (lead_snapshot x)) (Some (lead_snapshot y)) (put_lead y s) in
     Return t (lead_view_of t org y)))))))))"

text \<open>The rows that keep a lead; its activities, notes and assignments go with it.\<close>

definition lead_in_use :: "crm \<Rightarrow> ident \<Rightarrow> ident \<Rightarrow> bool" where
  "lead_in_use s org lid \<longleftrightarrow>
     list_ex (\<lambda>c. cust_organization_id c = org \<and> cust_converted_from_lead_id c = Some lid) (customers (base s)) \<or>
     list_ex (\<lambda>h. hold_organization_id h = org \<and> hold_lead_id h = Some lid) (unit_holds (base s)) \<or>
     list_ex (\<lambda>q. quote_organization_id q = org \<and> quote_lead_id q = Some lid) (quotations (base s)) \<or>
     list_ex (\<lambda>b. booking_organization_id b = org \<and> booking_lead_id b = Some lid) (bookings (base s)) \<or>
     list_ex (\<lambda>p. plead_organization_id p = org \<and> plead_lead_id p = lid) (partner_leads (base s)) \<or>
     list_ex (\<lambda>c. sheet_organization_id c = org \<and> sheet_lead_id c = Some lid) (crm_sheets s) \<or>
     list_ex (\<lambda>v. visit_organization_id v = org \<and> visit_lead_id v = Some lid) (site_visits s)"

definition without_lead :: "ident \<Rightarrow> ident \<Rightarrow> crm \<Rightarrow> crm" where
  "without_lead org lid s =
     (on_base (\<lambda>d. d\<lparr>leads := filter (\<lambda>x. lead_id x \<noteq> lid)
        (update_where (\<lambda>x. lead_organization_id x = org \<and> lead_duplicate_of_lead_id x = Some lid)
          (\<lambda>x. x\<lparr>lead_duplicate_of_lead_id := None\<rparr>) (leads d))\<rparr>) s)
     \<lparr>lead_assignments := filter (\<lambda>a. \<not> (asg_organization_id a = org \<and> asg_lead_id a = lid)) (lead_assignments s),
      lead_activities := filter (\<lambda>a. \<not> (act_organization_id a = org \<and> act_lead_id a = lid)) (lead_activities s),
      lead_notes := filter (\<lambda>n. \<not> (lnote_organization_id n = org \<and> lnote_lead_id n = lid)) (lead_notes s)\<rparr>"

definition delete_lead :: "env \<Rightarrow> mutation_context \<Rightarrow> ident \<Rightarrow> ident \<Rightarrow> crm \<Rightarrow> (crm, unit) outcome" where
  "delete_lead e ctx org lid s =
     fetch s (find_lead (base s) org lid) resource_not_found (\<lambda>x.
     demand s (lead_status x \<noteq> Lead_CONVERTED) lead_converted_error (
     demand s (\<not> lead_in_use s org (lead_id x)) (conflict ''RESOURCE_IN_USE'') (
     Return (lead_audit e 0 org ctx ''lead.deleted'' (lead_id x) (Some (lead_snapshot x)) None (without_lead org (lead_id x) s)) ())))"

section \<open>The status machine\<close>

text \<open>\<^verbatim>\<open>STATUS_TRANSITIONS\<close>\<close>

primrec next_statuses :: "lead_status \<Rightarrow> lead_status list" where
  "next_statuses Lead_NEW = [Lead_ASSIGNED, Lead_ATTEMPTED, Lead_CONTACTED, Lead_QUALIFIED, Lead_DISQUALIFIED, Lead_LOST]"
| "next_statuses Lead_ASSIGNED = [Lead_ATTEMPTED, Lead_CONTACTED, Lead_QUALIFIED, Lead_DISQUALIFIED, Lead_LOST]"
| "next_statuses Lead_ATTEMPTED = [Lead_CONTACTED, Lead_QUALIFIED, Lead_DISQUALIFIED, Lead_LOST]"
| "next_statuses Lead_CONTACTED = [Lead_QUALIFIED, Lead_DISQUALIFIED, Lead_LOST]"
| "next_statuses Lead_QUALIFIED = [Lead_CONTACTED, Lead_DISQUALIFIED, Lead_LOST, Lead_CONVERTED]"
| "next_statuses Lead_DISQUALIFIED = [Lead_CONTACTED, Lead_LOST]"
| "next_statuses Lead_LOST = [Lead_CONTACTED]"
| "next_statuses Lead_CONVERTED = []"

definition ensure_transition :: "lead_status \<Rightarrow> lead_status \<Rightarrow> app_error + unit" where
  "ensure_transition current target =
     require (target = current \<or> target \<in> set (next_statuses current)) (conflict ''INVALID_LEAD_TRANSITION'') (Inr ())"

definition status_activity :: "env \<Rightarrow> nat \<Rightarrow> ident \<Rightarrow> lead_status \<Rightarrow> string option \<Rightarrow> lead_row \<Rightarrow> lead_activity_row" where
  "status_activity e k actor previous notes x =
     \<lparr>act_id = uuid e k, act_organization_id = lead_organization_id x, act_lead_id = lead_id x,
      act_performed_by_user_id = Some actor, act_activity_type = Act_STATUS_CHANGE,
      act_subject = ''Status changed from '' @ lead_status_value previous @ '' to '' @ lead_status_value (lead_status x),
      act_notes = notes, act_occurred_at = now e, act_due_at = None, act_completed_at = Some (now e), act_outcome = None,
      act_is_completed = True, act_created_at = now e\<rparr>"

text \<open>
  The common end of the status requests: \<^verbatim>\<open>_add_status_activity\<close>, the score and the audit entry. The new activity is
  not flushed when the score counts the activities.
\<close>

definition status_changed ::
  "wording \<Rightarrow> env \<Rightarrow> nat \<Rightarrow> mutation_context \<Rightarrow> ident \<Rightarrow> string \<Rightarrow> string option \<Rightarrow> snapshot \<Rightarrow> lead_row \<Rightarrow> lead_row \<Rightarrow> crm \<Rightarrow>
   app_error + crm \<times> lead_row" where
  "status_changed f e k ctx org action notes extra x x' s =
     step (recompute_score f (now e) s (x'\<lparr>lead_last_activity_at := Some (now e)\<rparr>)) (\<lambda>y.
     Inr (lead_audit e (k + 1) org ctx action (lead_id x) (Some (lead_snapshot x)) (Some (lead_snapshot y @ extra))
       (put_lead y (s\<lparr>lead_activities := lead_activities s @
         [status_activity e k (actor_user_id ctx) (lead_status x) notes x']\<rparr>)), y))"

definition transition_status ::
  "wording \<Rightarrow> env \<Rightarrow> mutation_context \<Rightarrow> ident \<Rightarrow> ident \<Rightarrow> lead_status \<Rightarrow> string option \<Rightarrow> crm \<Rightarrow> (crm, lead_view) outcome" where
  "transition_status f e ctx org lid target notes s =
     demand s (target \<notin> set [Lead_QUALIFIED, Lead_LOST, Lead_CONVERTED]) (App_Error 400 ''SPECIALIZED_WORKFLOW_REQUIRED'') (
     fetch s (find_lead (base s) org lid) resource_not_found (\<lambda>x.
     attempt s (ensure_transition (lead_status x) target) (\<lambda>_.
     attempt s (status_changed f e 0 ctx org ''lead.status_changed'' notes [] x (x\<lparr>lead_status := target\<rparr>) s) (\<lambda>(t, y).
     Return t (lead_view_of t org y)))))"

definition qualified_lead :: "env \<Rightarrow> string \<Rightarrow> lead_row \<Rightarrow> lead_row" where
  "qualified_lead e notes x = x\<lparr>lead_status := Lead_QUALIFIED, lead_qualification_notes := Some notes,
     lead_qualified_at := Some (now e), lead_lost_reason_id := None, lead_lost_notes := None\<rparr>"

definition qualify_lead ::
  "wording \<Rightarrow> env \<Rightarrow> mutation_context \<Rightarrow> ident \<Rightarrow> ident \<Rightarrow> string \<Rightarrow> crm \<Rightarrow> (crm, lead_view) outcome" where
  "qualify_lead f e ctx org lid notes s =
     fetch s (find_lead (base s) org lid) resource_not_found (\<lambda>x.
     attempt s (ensure_transition (lead_status x) Lead_QUALIFIED) (\<lambda>_.
     attempt s (status_changed f e 0 ctx org ''lead.qualified'' (Some notes) [] x (qualified_lead e notes x) s) (\<lambda>(t, y).
     Return t (lead_view_of t org y))))"

definition mark_lead_lost ::
  "wording \<Rightarrow> env \<Rightarrow> mutation_context \<Rightarrow> ident \<Rightarrow> ident \<Rightarrow> ident \<Rightarrow> string option \<Rightarrow> crm \<Rightarrow> (crm, lead_view) outcome" where
  "mark_lead_lost f e ctx org lid rid notes s =
     fetch s (find_lead (base s) org lid) resource_not_found (\<lambda>x.
     attempt s (ensure_transition (lead_status x) Lead_LOST) (\<lambda>_.
     fetch s (find_reason s org rid) resource_not_found (\<lambda>r.
     demand s (reason_is_active r) (App_Error 400 ''LOST_REASON_INACTIVE'') (
     let x' = x\<lparr>lead_status := Lead_LOST, lead_lost_reason_id := Some (reason_id r), lead_lost_notes := notes\<rparr>;
         text = (case given notes of None \<Rightarrow> reason_name r | Some n \<Rightarrow> reason_name r @ '': '' @ n) in
     attempt s (status_changed f e 0 ctx org ''lead.lost'' (Some text) [] x x' s) (\<lambda>(t, y).
     Return t (lead_view_of t org y))))))"

section \<open>Conversion\<close>

record lead_conversion =
  lcv_full_name :: "string option"
  lcv_email :: "string option"
  lcv_phone :: "string option"

text \<open>Python's \<^verbatim>\<open>a or b\<close> on optional texts.\<close>

definition or_else :: "string option \<Rightarrow> string option \<Rightarrow> string option" where
  "or_else x y = (if given x \<noteq> None then x else y)"

definition customer_of_lead :: "env \<Rightarrow> ident \<Rightarrow> lead_conversion \<Rightarrow> lead_row \<Rightarrow> customer_row" where
  "customer_of_lead e org p x =
     (let email = or_else (lcv_email p) (lead_email x); phone = or_else (lcv_phone p) (lead_phone x) in
      \<lparr>cust_id = uuid e 0, cust_organization_id = org, cust_converted_from_lead_id = Some (lead_id x),
       cust_owner_user_id = lead_owner_user_id x, cust_branch_id = lead_branch_id x,
       cust_full_name = (case given (lcv_full_name p) of None \<Rightarrow> lead_full_name x | Some n \<Rightarrow> n),
       cust_email = email, cust_phone = phone, cust_alternate_phone = lead_alternate_phone x,
       cust_normalized_email = normalize_email email, cust_normalized_phone = normalize_phone phone,
       cust_date_of_birth = None, cust_gender = None, cust_occupation = None, cust_company_name = lead_company_name x,
       cust_address_line1 = None, cust_address_line2 = None, cust_city = None, cust_state = None, cust_postal_code = None,
       cust_country = None, cust_preferred_location = lead_preferred_location x, cust_requirements = lead_requirements x,
       cust_budget_min = lead_budget_min x, cust_budget_max = lead_budget_max x, cust_communication_preferences = None,
       cust_status = Customer_PROSPECT, cust_created_at = now e\<rparr>)"

definition customer_from :: "crm \<Rightarrow> ident \<Rightarrow> ident \<Rightarrow> customer_row option" where
  "customer_from s org lid =
     find (\<lambda>c. cust_organization_id c = org \<and> cust_converted_from_lead_id c = Some lid) (customers (base s))"

definition convert_lead ::
  "wording \<Rightarrow> env \<Rightarrow> mutation_context \<Rightarrow> ident \<Rightarrow> ident \<Rightarrow> lead_conversion \<Rightarrow> crm \<Rightarrow> (crm, lead_view \<times> ident) outcome" where
  "convert_lead f e ctx org lid p s =
     fetch s (find_lead (base s) org lid) resource_not_found (\<lambda>x.
     demand s (lead_status x = Lead_QUALIFIED) (conflict ''LEAD_NOT_QUALIFIED'') (
     demand s (customer_from s org (lead_id x) = None) (conflict ''LEAD_ALREADY_CONVERTED'') (
     let c = customer_of_lead e org p x in
     demand s (given (cust_email c) \<noteq> None \<or> given (cust_phone c) \<noteq> None) (App_Error 400 ''CONTACT_REQUIRED'') (
     let s1 = on_base (\<lambda>d. d\<lparr>customers := customers d @ [c]\<rparr>) s;
         x' = x\<lparr>lead_status := Lead_CONVERTED, lead_converted_at := Some (now e)\<rparr> in
     attempt s (status_changed f e 1 ctx org ''lead.converted'' None [(''customer_id'', JStr (cust_id c))] x x' s1) (\<lambda>(t, y).
     Return t (lead_view_of t org y, cust_id c))))))"

end
