(* ===== verification/Lead_Settings.thy ===== *)
theory Lead_Settings
  imports Leads
begin

text \<open>
  The settings of the lead service: lead sources, lost reasons and score rules.
\<close>

section \<open>Sources and lost reasons\<close>

record source_payload =
  sp_name :: string
  sp_code :: string
  sp_is_active :: bool

text \<open>\<^verbatim>\<open>LeadSourcePayload\<close>: a clean name and a code of letters, digits, dashes and underscores.\<close>

definition code_char :: "char \<Rightarrow> bool" where
  "code_char c = (let n = of_char c :: nat in (65 \<le> n \<and> n \<le> 90) \<or> (48 \<le> n \<and> n \<le> 57))"

definition validated_source :: "source_payload \<Rightarrow> source_payload option" where
  "validated_source p =
     (let code = upper (strip (sp_code p)) in case clean_required (sp_name p) of None \<Rightarrow> None
      | Some name \<Rightarrow> if 2 \<le> length code \<and> length code \<le> 50 \<and> code_char (hd code) \<and>
            list_all (\<lambda>c. code_char c \<or> c = CHR ''_'' \<or> c = CHR ''-'') code
          then Some (p\<lparr>sp_name := name, sp_code := code\<rparr>) else None)"

record source_view =
  sv_id :: ident
  sv_name :: string
  sv_code :: string
  sv_is_active :: bool
  sv_lead_count :: nat
  sv_created_at :: timestamp

definition source_view_of :: "nat \<Rightarrow> lead_source_row \<Rightarrow> source_view" where
  "source_view_of n x = \<lparr>sv_id = src_id x, sv_name = src_name x, sv_code = src_code x, sv_is_active = src_is_active x,
     sv_lead_count = n, sv_created_at = src_created_at x\<rparr>"

definition reason_view_of :: "nat \<Rightarrow> lost_reason_row \<Rightarrow> source_view" where
  "reason_view_of n x = \<lparr>sv_id = reason_id x, sv_name = reason_name x, sv_code = reason_code x,
     sv_is_active = reason_is_active x, sv_lead_count = n, sv_created_at = reason_created_at x\<rparr>"

definition leads_of_source :: "crm \<Rightarrow> ident \<Rightarrow> ident \<Rightarrow> nat" where
  "leads_of_source s org i = count_rows (\<lambda>x. lead_organization_id x = org \<and> lead_source_id x = Some i) (leads (base s))"

definition leads_of_reason :: "crm \<Rightarrow> ident \<Rightarrow> ident \<Rightarrow> nat" where
  "leads_of_reason s org i = count_rows (\<lambda>x. lead_organization_id x = org \<and> lead_lost_reason_id x = Some i) (leads (base s))"

definition list_sources :: "crm \<Rightarrow> ident \<Rightarrow> source_view list" where
  "list_sources s org = map (\<lambda>x. source_view_of (leads_of_source s org (src_id x)) x)
     (sort_key src_name (filter (\<lambda>x. src_organization_id x = org) (lead_sources s)))"

definition list_lost_reasons :: "crm \<Rightarrow> ident \<Rightarrow> source_view list" where
  "list_lost_reasons s org = map (\<lambda>x. reason_view_of (leads_of_reason s org (reason_id x)) x)
     (sort_key reason_name (filter (\<lambda>x. reason_organization_id x = org) (lost_reasons s)))"

definition setting_json :: "string \<Rightarrow> string \<Rightarrow> bool \<Rightarrow> snapshot" where
  "setting_json name code active = [(''name'', JStr name), (''code'', JStr code), (''is_active'', JBool active)]"

definition source_json :: "lead_source_row \<Rightarrow> snapshot" where
  "source_json x = setting_json (src_name x) (src_code x) (src_is_active x)"

definition reason_json :: "lost_reason_row \<Rightarrow> snapshot" where
  "reason_json x = setting_json (reason_name x) (reason_code x) (reason_is_active x)"

definition setting_audit ::
  "env \<Rightarrow> nat \<Rightarrow> ident \<Rightarrow> mutation_context \<Rightarrow> string \<Rightarrow> string \<Rightarrow> ident \<Rightarrow> snapshot option \<Rightarrow> snapshot option \<Rightarrow> crm \<Rightarrow> crm" where
  "setting_audit e k org ctx kind action i old new = log_crm [audit_entry e (uuid e k) org ctx (kind @ action) kind i old new]"

definition source_code_free :: "crm \<Rightarrow> ident \<Rightarrow> ident \<Rightarrow> string \<Rightarrow> bool" where
  "source_code_free s org except code \<longleftrightarrow>
     list_all (\<lambda>x. \<not> (src_organization_id x = org \<and> src_code x = code \<and> src_id x \<noteq> except)) (lead_sources s)"

definition reason_code_free :: "crm \<Rightarrow> ident \<Rightarrow> ident \<Rightarrow> string \<Rightarrow> bool" where
  "reason_code_free s org except code \<longleftrightarrow>
     list_all (\<lambda>x. \<not> (reason_organization_id x = org \<and> reason_code x = code \<and> reason_id x \<noteq> except)) (lost_reasons s)"

definition create_source ::
  "env \<Rightarrow> mutation_context \<Rightarrow> ident \<Rightarrow> source_payload \<Rightarrow> crm \<Rightarrow> (crm, source_view) outcome" where
  "create_source e ctx org p s =
     (let x = \<lparr>src_id = uuid e 0, src_organization_id = org, src_name = sp_name p, src_code = sp_code p,
            src_is_active = sp_is_active p, src_created_at = now e\<rparr> in
      demand s (source_code_free s org (src_id x) (src_code x)) (conflict ''LEAD_SOURCE_EXISTS'') (
      Return (setting_audit e 1 org ctx ''lead_source'' ''.created'' (src_id x) None (Some (source_json x))
        (s\<lparr>lead_sources := lead_sources s @ [x]\<rparr>)) (source_view_of 0 x)))"

definition update_source ::
  "env \<Rightarrow> mutation_context \<Rightarrow> ident \<Rightarrow> ident \<Rightarrow> source_payload \<Rightarrow> crm \<Rightarrow> (crm, source_view) outcome" where
  "update_source e ctx org i p s =
     fetch s (find_source s org i) resource_not_found (\<lambda>x.
     let x' = x\<lparr>src_name := sp_name p, src_code := sp_code p, src_is_active := sp_is_active p\<rparr> in
     demand s (source_code_free s org (src_id x) (src_code x')) (conflict ''LEAD_SOURCE_EXISTS'') (
     Return (setting_audit e 0 org ctx ''lead_source'' ''.updated'' (src_id x) (Some (source_json x)) (Some (source_json x'))
       (s\<lparr>lead_sources := put_row src_id x' (lead_sources s)\<rparr>)) (source_view_of (leads_of_source s org (src_id x)) x')))"

definition delete_source :: "env \<Rightarrow> mutation_context \<Rightarrow> ident \<Rightarrow> ident \<Rightarrow> crm \<Rightarrow> (crm, unit) outcome" where
  "delete_source e ctx org i s =
     fetch s (find_source s org i) resource_not_found (\<lambda>x.
     demand s (leads_of_source s org (src_id x) = 0) (conflict ''RESOURCE_IN_USE'') (
     Return (setting_audit e 0 org ctx ''lead_source'' ''.deleted'' (src_id x)
       (Some [(''name'', JStr (src_name x)), (''code'', JStr (src_code x))]) None
       (s\<lparr>lead_sources := filter (\<lambda>y. src_id y \<noteq> src_id x) (lead_sources s)\<rparr>)) ()))"

definition create_lost_reason ::
  "env \<Rightarrow> mutation_context \<Rightarrow> ident \<Rightarrow> source_payload \<Rightarrow> crm \<Rightarrow> (crm, source_view) outcome" where
  "create_lost_reason e ctx org p s =
     (let x = \<lparr>reason_id = uuid e 0, reason_organization_id = org, reason_name = sp_name p, reason_code = sp_code p,
            reason_is_active = sp_is_active p, reason_created_at = now e\<rparr> in
      demand s (reason_code_free s org (reason_id x) (reason_code x)) (conflict ''LOST_REASON_EXISTS'') (
      Return (setting_audit e 1 org ctx ''lost_reason'' ''.created'' (reason_id x) None (Some (reason_json x))
        (s\<lparr>lost_reasons := lost_reasons s @ [x]\<rparr>)) (reason_view_of 0 x)))"

definition update_lost_reason ::
  "env \<Rightarrow> mutation_context \<Rightarrow> ident \<Rightarrow> ident \<Rightarrow> source_payload \<Rightarrow> crm \<Rightarrow> (crm, source_view) outcome" where
  "update_lost_reason e ctx org i p s =
     fetch s (find_reason s org i) resource_not_found (\<lambda>x.
     let x' = x\<lparr>reason_name := sp_name p, reason_code := sp_code p, reason_is_active := sp_is_active p\<rparr> in
     demand s (reason_code_free s org (reason_id x) (reason_code x')) (conflict ''LOST_REASON_EXISTS'') (
     Return (setting_audit e 0 org ctx ''lost_reason'' ''.updated'' (reason_id x) (Some (reason_json x)) (Some (reason_json x'))
       (s\<lparr>lost_reasons := put_row reason_id x' (lost_reasons s)\<rparr>)) (reason_view_of (leads_of_reason s org (reason_id x)) x')))"

definition delete_lost_reason :: "env \<Rightarrow> mutation_context \<Rightarrow> ident \<Rightarrow> ident \<Rightarrow> crm \<Rightarrow> (crm, unit) outcome" where
  "delete_lost_reason e ctx org i s =
     fetch s (find_reason s org i) resource_not_found (\<lambda>x.
     demand s (leads_of_reason s org (reason_id x) = 0) (conflict ''RESOURCE_IN_USE'') (
     Return (setting_audit e 0 org ctx ''lost_reason'' ''.deleted'' (reason_id x)
       (Some [(''name'', JStr (reason_name x)), (''code'', JStr (reason_code x))]) None
       (s\<lparr>lost_reasons := filter (\<lambda>y. reason_id y \<noteq> reason_id x) (lost_reasons s)\<rparr>)) ()))"

section \<open>Score rules\<close>

record score_rule_payload =
  srp_name :: string
  srp_field :: string
  srp_operator :: string
  srp_comparison_value :: "string option"
  srp_points :: int
  srp_priority :: int
  srp_is_active :: bool

text \<open>\<^verbatim>\<open>ScoreRulePayload\<close>: nothing relates the comparison value to the type of the field.\<close>

definition rule_fields :: "string list" where
  "rule_fields = [''email_present'', ''phone_present'', ''source_code'', ''budget_min'', ''budget_max'', ''status'',
     ''activity_count'', ''days_since_created'', ''assigned'']"

definition rule_operators :: "string list" where
  "rule_operators = [''eq'', ''neq'', ''gte'', ''lte'', ''contains'', ''present'']"

definition validated_rule :: "score_rule_payload \<Rightarrow> score_rule_payload option" where
  "validated_rule p = (case clean_required (srp_name p) of None \<Rightarrow> None
     | Some name \<Rightarrow>
         (let value = clean_optional (srp_comparison_value p) in
          if srp_field p \<in> set rule_fields \<and> srp_operator p \<in> set rule_operators \<and>
             - 100 \<le> srp_points p \<and> srp_points p \<le> 100 \<and> 0 \<le> srp_priority p \<and> srp_priority p \<le> 10000 \<and>
             (srp_operator p = ''present'' \<or> value \<noteq> None)
          then Some (p\<lparr>srp_name := name, srp_comparison_value := value\<rparr>) else None))"

definition rule_json :: "string \<Rightarrow> string \<Rightarrow> string \<Rightarrow> string option \<Rightarrow> int \<Rightarrow> int \<Rightarrow> bool \<Rightarrow> snapshot" where
  "rule_json name field operator value points priority active =
     [(''name'', JStr name), (''field'', JStr field), (''operator'', JStr operator),
      (''comparison_value'', jopt JStr value), (''points'', JInt points), (''priority'', JInt priority),
      (''is_active'', JBool active)]"

definition rule_row_json :: "score_rule_row \<Rightarrow> snapshot" where
  "rule_row_json r = rule_json (rule_name r) (rule_field r) (rule_operator r) (rule_comparison_value r) (rule_points r)
     (rule_priority r) (rule_is_active r)"

definition rule_name_free :: "crm \<Rightarrow> ident \<Rightarrow> ident \<Rightarrow> string \<Rightarrow> bool" where
  "rule_name_free s org except name \<longleftrightarrow>
     list_all (\<lambda>r. \<not> (rule_organization_id r = org \<and> rule_name r = name \<and> rule_id r \<noteq> except)) (score_rules s)"

definition rule_with :: "score_rule_payload \<Rightarrow> score_rule_row \<Rightarrow> score_rule_row" where
  "rule_with p r = r\<lparr>rule_name := srp_name p, rule_field := srp_field p, rule_operator := srp_operator p,
     rule_comparison_value := srp_comparison_value p, rule_points := srp_points p, rule_priority := srp_priority p,
     rule_is_active := srp_is_active p\<rparr>"

definition list_score_rules :: "crm \<Rightarrow> ident \<Rightarrow> score_rule_row list" where
  "list_score_rules s org = sort_key rule_priority (sort_key rule_name (filter (\<lambda>r. rule_organization_id r = org) (score_rules s)))"

definition create_score_rule ::
  "env \<Rightarrow> mutation_context \<Rightarrow> ident \<Rightarrow> score_rule_payload \<Rightarrow> crm \<Rightarrow> (crm, score_rule_row) outcome" where
  "create_score_rule e ctx org p s =
     (let r = \<lparr>rule_id = uuid e 0, rule_organization_id = org, rule_name = srp_name p, rule_field = srp_field p,
            rule_operator = srp_operator p, rule_comparison_value = srp_comparison_value p, rule_points = srp_points p,
            rule_priority = srp_priority p, rule_is_active = srp_is_active p, rule_created_at = now e\<rparr> in
      demand s (rule_name_free s org (rule_id r) (rule_name r)) (conflict ''SCORE_RULE_EXISTS'') (
      Return (setting_audit e 1 org ctx ''lead_score_rule'' ''.created'' (rule_id r) None (Some (rule_row_json r))
        (s\<lparr>score_rules := score_rules s @ [r]\<rparr>)) r))"

definition update_score_rule ::
  "env \<Rightarrow> mutation_context \<Rightarrow> ident \<Rightarrow> ident \<Rightarrow> score_rule_payload \<Rightarrow> crm \<Rightarrow> (crm, score_rule_row) outcome" where
  "update_score_rule e ctx org i p s =
     fetch s (find_rule s org i) resource_not_found (\<lambda>r.
     let r' = rule_with p r in
     demand s (rule_name_free s org (rule_id r) (rule_name r')) (conflict ''SCORE_RULE_EXISTS'') (
     Return (setting_audit e 0 org ctx ''lead_score_rule'' ''.updated'' (rule_id r) (Some (rule_row_json r)) (Some (rule_row_json r'))
       (s\<lparr>score_rules := put_row rule_id r' (score_rules s)\<rparr>)) r'))"

definition delete_score_rule :: "env \<Rightarrow> mutation_context \<Rightarrow> ident \<Rightarrow> ident \<Rightarrow> crm \<Rightarrow> (crm, unit) outcome" where
  "delete_score_rule e ctx org i s =
     fetch s (find_rule s org i) resource_not_found (\<lambda>r.
     Return (setting_audit e 0 org ctx ''lead_score_rule'' ''.deleted'' (rule_id r) (Some [(''name'', JStr (rule_name r))]) None
       (s\<lparr>score_rules := filter (\<lambda>y. rule_id y \<noteq> rule_id r) (score_rules s)\<rparr>)) ())"

text \<open>\<^verbatim>\<open>recompute_all_scores\<close>: every lead of the organization, in one transaction.\<close>

fun rescore_all :: "wording \<Rightarrow> timestamp \<Rightarrow> lead_row list \<Rightarrow> crm \<Rightarrow> app_error + crm" where
  "rescore_all f t [] s = Inr s"
| "rescore_all f t (x # xs) s = step (recompute_score f t s x) (\<lambda>y. rescore_all f t xs (put_lead y s))"

definition recompute_all_scores :: "wording \<Rightarrow> env \<Rightarrow> mutation_context \<Rightarrow> ident \<Rightarrow> crm \<Rightarrow> (crm, nat) outcome" where
  "recompute_all_scores f e ctx org s =
     (let xs = filter (\<lambda>x. lead_organization_id x = org) (leads (base s)) in
      attempt s (rescore_all f (now e) xs s) (\<lambda>t.
      Return (log_crm [audit_entry e (uuid e 0) org ctx ''lead_scores.recomputed'' ''lead_score_rule'' org None
        (Some [(''lead_count'', JInt (int (length xs)))])] t) (length xs)))"

end
