(* ===== verification/Lead_Activities.thy ===== *)
theory Lead_Activities
  imports Leads
begin

text \<open>
  Activities, follow-ups and notes of a lead, and its timeline.
\<close>

section \<open>Activities\<close>

record activity_payload =
  acp_type :: activity_type
  acp_subject :: string
  acp_notes :: "string option"
  acp_occurred_at :: timestamp
  acp_due_at :: "timestamp option"
  acp_outcome :: "string option"
  acp_is_completed :: bool

text \<open>\<^verbatim>\<open>LeadActivityPayload\<close>: clean texts, and a follow-up has a due date.\<close>

definition validated_activity :: "activity_payload \<Rightarrow> activity_payload option" where
  "validated_activity p = (case clean_required (acp_subject p) of None \<Rightarrow> None
     | Some subject \<Rightarrow> if acp_type p = Act_FOLLOW_UP \<and> acp_due_at p = None then None
         else Some (p\<lparr>acp_subject := subject, acp_notes := clean_optional (acp_notes p), acp_outcome := clean_optional (acp_outcome p)\<rparr>))"

text \<open>\<^verbatim>\<open>func.min(due_at)\<close> over the open follow-ups.\<close>

definition open_follow_up :: "ident \<Rightarrow> ident \<Rightarrow> lead_activity_row \<Rightarrow> bool" where
  "open_follow_up org lid a \<longleftrightarrow> act_organization_id a = org \<and> act_lead_id a = lid \<and> act_activity_type a = Act_FOLLOW_UP \<and>
     \<not> act_is_completed a \<and> act_due_at a \<noteq> None"

fun earliest :: "timestamp option list \<Rightarrow> timestamp option" where
  "earliest [] = None"
| "earliest (None # xs) = earliest xs"
| "earliest (Some t # xs) = (case earliest xs of None \<Rightarrow> Some t | Some u \<Rightarrow> Some (min t u))"

definition next_follow_up :: "crm \<Rightarrow> lead_row \<Rightarrow> timestamp option" where
  "next_follow_up s x = earliest (map act_due_at (filter (open_follow_up (lead_organization_id x) (lead_id x)) (lead_activities s)))"

definition follow_up_refreshed :: "crm \<Rightarrow> lead_row \<Rightarrow> lead_row" where
  "follow_up_refreshed s x = x\<lparr>lead_next_follow_up_at := next_follow_up s x\<rparr>"

record activity_view =
  acv_activity :: lead_activity_row
  acv_performed_by_name :: "string option"

definition activity_view_of :: "crm \<Rightarrow> ident \<Rightarrow> lead_activity_row \<Rightarrow> activity_view" where
  "activity_view_of s org a = \<lparr>acv_activity = a,
     acv_performed_by_name = name_of user_full_name (find_user (base s) org) (act_performed_by_user_id a)\<rparr>"

definition list_activities :: "crm \<Rightarrow> ident \<Rightarrow> ident \<Rightarrow> app_error + activity_view list" where
  "list_activities s org lid =
     need (find_lead (base s) org lid) resource_not_found (\<lambda>_.
     Inr (map (activity_view_of s org) (order_desc act_occurred_at
       (filter (\<lambda>a. act_organization_id a = org \<and> act_lead_id a = lid) (lead_activities s)))))"

text \<open>
  The common end of the activity requests: the follow-up date and the score are computed from the flushed activities
  \<open>t\<close>, and the answer is found in the list of the activities again.
\<close>

definition activity_refreshed ::
  "wording \<Rightarrow> env \<Rightarrow> nat \<Rightarrow> mutation_context \<Rightarrow> ident \<Rightarrow> string \<Rightarrow> snapshot option \<Rightarrow> snapshot option \<Rightarrow> lead_row \<Rightarrow> crm \<Rightarrow>
   app_error + crm" where
  "activity_refreshed f e k ctx org action old new x t =
     step (recompute_score f (now e) t (follow_up_refreshed t x)) (\<lambda>y.
     Inr (lead_audit e k org ctx action (lead_id x) old new (put_lead y t)))"

definition activity_answer :: "crm \<Rightarrow> ident \<Rightarrow> ident \<Rightarrow> ident \<Rightarrow> app_error + activity_view" where
  "activity_answer t org lid aid =
     step (list_activities t org lid) (\<lambda>views.
     need (find (\<lambda>v. act_id (acv_activity v) = aid) views) Internal_Error Inr)"

definition new_activity :: "env \<Rightarrow> ident \<Rightarrow> ident \<Rightarrow> ident \<Rightarrow> activity_payload \<Rightarrow> lead_activity_row" where
  "new_activity e org lid actor p =
     \<lparr>act_id = uuid e 0, act_organization_id = org, act_lead_id = lid, act_performed_by_user_id = Some actor,
      act_activity_type = acp_type p, act_subject = acp_subject p, act_notes = acp_notes p, act_occurred_at = acp_occurred_at p,
      act_due_at = acp_due_at p, act_completed_at = (if acp_is_completed p then Some (now e) else None),
      act_outcome = acp_outcome p, act_is_completed = acp_is_completed p, act_created_at = now e\<rparr>"

definition active_since :: "timestamp \<Rightarrow> lead_row \<Rightarrow> lead_row" where
  "active_since t x = x\<lparr>lead_last_activity_at := Some (case lead_last_activity_at x of None \<Rightarrow> t | Some u \<Rightarrow> max u t)\<rparr>"

definition create_activity ::
  "wording \<Rightarrow> env \<Rightarrow> mutation_context \<Rightarrow> ident \<Rightarrow> ident \<Rightarrow> activity_payload \<Rightarrow> crm \<Rightarrow> (crm, activity_view) outcome" where
  "create_activity f e ctx org lid p s =
     fetch s (find_lead (base s) org lid) resource_not_found (\<lambda>x.
     demand s (\<not> (lead_status x = Lead_CONVERTED \<and> acp_type p = Act_FOLLOW_UP)) lead_converted_error (
     let a = new_activity e org (lead_id x) (actor_user_id ctx) p in
     attempt s (activity_refreshed f e 1 ctx org ''lead_activity.created'' None
         (Some [(''activity_id'', JStr (act_id a)), (''type'', JStr (activity_type_value (act_activity_type a)))])
         (active_since (acp_occurred_at p) x) (s\<lparr>lead_activities := lead_activities s @ [a]\<rparr>)) (\<lambda>t.
     respond t (activity_answer t org (lead_id x) (act_id a)))))"

definition activity_due_json :: "lead_activity_row \<Rightarrow> json" where
  "activity_due_json a = jopt JTime (act_due_at a)"

definition updated_activity :: "env \<Rightarrow> activity_payload \<Rightarrow> lead_activity_row \<Rightarrow> lead_activity_row" where
  "updated_activity e p a =
     a\<lparr>act_activity_type := acp_type p, act_subject := acp_subject p, act_notes := acp_notes p,
       act_occurred_at := acp_occurred_at p, act_due_at := acp_due_at p, act_outcome := acp_outcome p,
       act_is_completed := acp_is_completed p, act_completed_at := (if acp_is_completed p then Some (now e) else None)\<rparr>"

definition update_activity ::
  "wording \<Rightarrow> env \<Rightarrow> mutation_context \<Rightarrow> ident \<Rightarrow> ident \<Rightarrow> ident \<Rightarrow> activity_payload \<Rightarrow> crm \<Rightarrow> (crm, activity_view) outcome" where
  "update_activity f e ctx org lid aid p s =
     fetch s (find_lead (base s) org lid) resource_not_found (\<lambda>x.
     fetch s (find_activity s org aid) resource_not_found (\<lambda>a.
     demand s (act_lead_id a = lead_id x) resource_not_found (
     let a' = updated_activity e p a in
     attempt s (activity_refreshed f e 0 ctx org ''lead_activity.updated''
         (Some [(''subject'', JStr (act_subject a)), (''type'', JStr (activity_type_value (act_activity_type a))),
           (''due_at'', activity_due_json a), (''is_completed'', JBool (act_is_completed a))])
         (Some [(''activity_id'', JStr (act_id a)), (''subject'', JStr (act_subject a')),
           (''type'', JStr (activity_type_value (act_activity_type a'))), (''is_completed'', JBool (act_is_completed a'))])
         x (s\<lparr>lead_activities := put_row act_id a' (lead_activities s)\<rparr>)) (\<lambda>t.
     respond t (activity_answer t org (lead_id x) (act_id a))))))"

definition completed_activity :: "env \<Rightarrow> string \<Rightarrow> lead_activity_row \<Rightarrow> lead_activity_row" where
  "completed_activity e outcome a = a\<lparr>act_is_completed := True, act_outcome := Some outcome, act_completed_at := Some (now e)\<rparr>"

definition complete_follow_up ::
  "wording \<Rightarrow> env \<Rightarrow> mutation_context \<Rightarrow> ident \<Rightarrow> ident \<Rightarrow> ident \<Rightarrow> string \<Rightarrow> crm \<Rightarrow> (crm, activity_view) outcome" where
  "complete_follow_up f e ctx org lid aid outcome s =
     fetch s (find_lead (base s) org lid) resource_not_found (\<lambda>x.
     fetch s (find_activity s org aid) resource_not_found (\<lambda>a.
     demand s (act_lead_id a = lead_id x \<and> act_activity_type a = Act_FOLLOW_UP) resource_not_found (
     demand s (\<not> act_is_completed a) (conflict ''FOLLOW_UP_COMPLETED'') (
     attempt s (activity_refreshed f e 0 ctx org ''lead_follow_up.completed''
         (Some [(''activity_id'', JStr (act_id a)), (''is_completed'', JBool False)])
         (Some [(''activity_id'', JStr (act_id a)), (''is_completed'', JBool True), (''outcome'', JStr outcome)])
         (x\<lparr>lead_last_activity_at := Some (now e)\<rparr>)
         (s\<lparr>lead_activities := put_row act_id (completed_activity e outcome a) (lead_activities s)\<rparr>)) (\<lambda>t.
     respond t (activity_answer t org (lead_id x) (act_id a)))))))"

definition delete_activity ::
  "wording \<Rightarrow> env \<Rightarrow> mutation_context \<Rightarrow> ident \<Rightarrow> ident \<Rightarrow> ident \<Rightarrow> crm \<Rightarrow> (crm, unit) outcome" where
  "delete_activity f e ctx org lid aid s =
     fetch s (find_lead (base s) org lid) resource_not_found (\<lambda>x.
     fetch s (find_activity s org aid) resource_not_found (\<lambda>a.
     demand s (act_lead_id a = lead_id x) resource_not_found (
     attempt s (activity_refreshed f e 0 ctx org ''lead_activity.deleted''
         (Some [(''activity_id'', JStr (act_id a)), (''subject'', JStr (act_subject a))]) None x
         (s\<lparr>lead_activities := filter (\<lambda>y. act_id y \<noteq> act_id a) (lead_activities s)\<rparr>)) (\<lambda>t. Return t ()))))"

section \<open>Notes\<close>

record note_payload =
  ntp_body :: string
  ntp_is_pinned :: bool

record note_view =
  ntv_note :: lead_note_row
  ntv_created_by_name :: "string option"

definition note_view_of :: "crm \<Rightarrow> ident \<Rightarrow> lead_note_row \<Rightarrow> note_view" where
  "note_view_of s org n = \<lparr>ntv_note = n,
     ntv_created_by_name = name_of user_full_name (find_user (base s) org) (lnote_created_by_user_id n)\<rparr>"

text \<open>Pinned notes first, then the latest.\<close>

definition list_notes :: "crm \<Rightarrow> ident \<Rightarrow> ident \<Rightarrow> app_error + note_view list" where
  "list_notes s org lid =
     need (find_lead (base s) org lid) resource_not_found (\<lambda>_.
     Inr (map (note_view_of s org) (order_desc (\<lambda>n. if lnote_is_pinned n then 1 else 0) (order_desc lnote_created_at
       (filter (\<lambda>n. lnote_organization_id n = org \<and> lnote_lead_id n = lid) (lead_notes s))))))"

definition note_answer :: "crm \<Rightarrow> ident \<Rightarrow> ident \<Rightarrow> ident \<Rightarrow> app_error + note_view" where
  "note_answer t org lid nid =
     step (list_notes t org lid) (\<lambda>views. need (find (\<lambda>v. lnote_id (ntv_note v) = nid) views) Internal_Error Inr)"

definition create_note ::
  "env \<Rightarrow> mutation_context \<Rightarrow> ident \<Rightarrow> ident \<Rightarrow> note_payload \<Rightarrow> crm \<Rightarrow> (crm, note_view) outcome" where
  "create_note e ctx org lid p s =
     fetch s (find_lead (base s) org lid) resource_not_found (\<lambda>x.
     let n = \<lparr>lnote_id = uuid e 0, lnote_organization_id = org, lnote_lead_id = lead_id x,
           lnote_created_by_user_id = Some (actor_user_id ctx), lnote_body = ntp_body p, lnote_is_pinned = ntp_is_pinned p,
           lnote_created_at = now e\<rparr>;
         t = lead_audit e 1 org ctx ''lead_note.created'' (lead_id x) None
           (Some [(''note_id'', JStr (lnote_id n)), (''is_pinned'', JBool (lnote_is_pinned n))])
           (put_lead (x\<lparr>lead_last_activity_at := Some (now e)\<rparr>) (s\<lparr>lead_notes := lead_notes s @ [n]\<rparr>)) in
     respond t (note_answer t org (lead_id x) (lnote_id n)))"

definition update_note ::
  "env \<Rightarrow> mutation_context \<Rightarrow> ident \<Rightarrow> ident \<Rightarrow> ident \<Rightarrow> note_payload \<Rightarrow> crm \<Rightarrow> (crm, note_view) outcome" where
  "update_note e ctx org lid nid p s =
     fetch s (find_lead (base s) org lid) resource_not_found (\<lambda>_.
     fetch s (find_note s org nid) resource_not_found (\<lambda>n.
     demand s (lnote_lead_id n = lid) resource_not_found (
     let n' = n\<lparr>lnote_body := ntp_body p, lnote_is_pinned := ntp_is_pinned p\<rparr>;
         t = lead_audit e 0 org ctx ''lead_note.updated'' lid
           (Some [(''body'', JStr (lnote_body n)), (''is_pinned'', JBool (lnote_is_pinned n))])
           (Some [(''note_id'', JStr (lnote_id n)), (''body'', JStr (lnote_body n')), (''is_pinned'', JBool (lnote_is_pinned n'))])
           (s\<lparr>lead_notes := put_row lnote_id n' (lead_notes s)\<rparr>) in
     respond t (note_answer t org lid (lnote_id n)))))"

definition delete_note :: "env \<Rightarrow> mutation_context \<Rightarrow> ident \<Rightarrow> ident \<Rightarrow> ident \<Rightarrow> crm \<Rightarrow> (crm, unit) outcome" where
  "delete_note e ctx org lid nid s =
     fetch s (find_lead (base s) org lid) resource_not_found (\<lambda>_.
     fetch s (find_note s org nid) resource_not_found (\<lambda>n.
     demand s (lnote_lead_id n = lid) resource_not_found (
     Return (lead_audit e 0 org ctx ''lead_note.deleted'' lid
       (Some [(''note_id'', JStr (lnote_id n)), (''body'', JStr (lnote_body n))]) None
       (s\<lparr>lead_notes := filter (\<lambda>y. lnote_id y \<noteq> lnote_id n) (lead_notes s)\<rparr>)) ())))"

section \<open>The timeline\<close>

record timeline_item =
  ti_id :: ident
  ti_kind :: string
  ti_title :: string
  ti_detail :: "string option"
  ti_actor_name :: "string option"
  ti_occurred_at :: timestamp

text \<open>\<^verbatim>\<open>str.title()\<close> on ASCII texts, and \<^verbatim>\<open>str.replace\<close> of one character.\<close>

definition is_letter :: "char \<Rightarrow> bool" where
  "is_letter c = (let n = of_char c :: nat in (65 \<le> n \<and> n \<le> 90) \<or> (97 \<le> n \<and> n \<le> 122))"

fun title_from :: "bool \<Rightarrow> string \<Rightarrow> string" where
  "title_from inside [] = []"
| "title_from inside (c # t) = (if inside then lower_char c else upper_char c) # title_from (is_letter c) t"

definition title_case :: "string \<Rightarrow> string" where
  "title_case t = title_from False t"

definition replace_char :: "char \<Rightarrow> char \<Rightarrow> string \<Rightarrow> string" where
  "replace_char a b t = map (\<lambda>c. if c = a then b else c) t"

definition user_named :: "crm \<Rightarrow> ident \<Rightarrow> ident option \<Rightarrow> string option" where
  "user_named s org x = name_of user_full_name (find_user (base s) org) x"

text \<open>The middle dot of the title is given in UTF-8.\<close>

definition visit_title :: "site_visit_row \<Rightarrow> string" where
  "visit_title v = ''Site visit '' @ [CHR 0xC2, CHR 0xB7] @ '' '' @ title_case (replace_char CHR ''_'' CHR '' '' (visit_status_value (visit_status v)))"

definition timeline_items :: "crm \<Rightarrow> ident \<Rightarrow> ident \<Rightarrow> timeline_item list" where
  "timeline_items s org lid =
     map (\<lambda>a. \<lparr>ti_id = act_id a, ti_kind = ''activity'', ti_title = act_subject a, ti_detail = or_else (act_notes a) (act_outcome a),
         ti_actor_name = user_named s org (act_performed_by_user_id a), ti_occurred_at = act_occurred_at a\<rparr>)
       (filter (\<lambda>a. act_organization_id a = org \<and> act_lead_id a = lid) (lead_activities s)) @
     map (\<lambda>v. \<lparr>ti_id = visit_id v, ti_kind = ''site_visit'', ti_title = visit_title v,
         ti_detail = map_option project_name (find_project (base s) org (visit_project_id v)),
         ti_actor_name = user_named s org (visit_assigned_user_id v), ti_occurred_at = visit_scheduled_at v\<rparr>)
       (filter (\<lambda>v. visit_organization_id v = org \<and> visit_lead_id v = Some lid) (site_visits s)) @
     map (\<lambda>a. \<lparr>ti_id = asg_id a, ti_kind = ''assignment'',
         ti_title = ''Assigned to '' @ (case find_user (base s) org (asg_assigned_user_id a) of None \<Rightarrow> ''user'' | Some u \<Rightarrow> user_full_name u),
         ti_detail = Some (if asg_is_active a then ''Active assignment'' else ''Previous assignment''),
         ti_actor_name = user_named s org (asg_assigned_by_user_id a), ti_occurred_at = asg_assigned_at a\<rparr>)
       (filter (\<lambda>a. asg_organization_id a = org \<and> asg_lead_id a = lid) (lead_assignments s)) @
     map (\<lambda>n. \<lparr>ti_id = lnote_id n, ti_kind = ''note'', ti_title = (if lnote_is_pinned n then ''Pinned note'' else ''Note added''),
         ti_detail = Some (lnote_body n), ti_actor_name = user_named s org (lnote_created_by_user_id n),
         ti_occurred_at = lnote_created_at n\<rparr>)
       (filter (\<lambda>n. lnote_organization_id n = org \<and> lnote_lead_id n = lid) (lead_notes s)) @
     map (\<lambda>a. \<lparr>ti_id = audit_id a, ti_kind = ''audit'', ti_title = title_case (replace_char CHR ''.'' CHR '' '' (audit_action a)),
         ti_detail = None, ti_actor_name = user_named s org (audit_actor_user_id a), ti_occurred_at = audit_created_at a\<rparr>)
       (filter (\<lambda>a. audit_organization_id a = org \<and> audit_entity_type a = ''lead'' \<and> audit_entity_id a = lid \<and>
          audit_action a \<notin> set [''lead_activity.created'', ''lead_note.created'', ''lead.assigned'']) (audit_logs (base s)))"

definition timeline :: "crm \<Rightarrow> ident \<Rightarrow> ident \<Rightarrow> app_error + timeline_item list" where
  "timeline s org lid =
     need (find_lead (base s) org lid) resource_not_found (\<lambda>_.
     Inr (take 300 (order_desc ti_occurred_at (timeline_items s org lid))))"

end
