(* ===== verification/Lead_Imports.thy ===== *)
theory Lead_Imports
  imports Lead_Settings Lead_Activities
begin

text \<open>
  The lists and counts of the lead service, the resolution of duplicates, and the import of leads from a file. The
  rows of a file are parsed by Pydantic; the model starts from its result, an error message or a row, per line.
\<close>

section \<open>Lists\<close>

record lead_filter =
  lf_q :: "string option"
  lf_status :: "lead_status option"
  lf_source_id :: "ident option"
  lf_owner_user_id :: "ident option"
  lf_branch_id :: "ident option"
  lf_min_score :: "int option"
  lf_max_score :: "int option"
  lf_created_from :: "timestamp option"
  lf_created_to :: "timestamp option"
  lf_unattended_days :: "int option"
  lf_unassigned_only :: bool
  lf_minimum_age_days :: "int option"
  lf_maximum_age_days :: "int option"
  lf_include_linked_duplicates :: bool

definition active_statuses :: "lead_status list" where
  "active_statuses = [Lead_NEW, Lead_ASSIGNED, Lead_ATTEMPTED, Lead_CONTACTED, Lead_QUALIFIED]"

definition lead_active :: "lead_row \<Rightarrow> bool" where
  "lead_active x \<longleftrightarrow> lead_status x \<in> set active_statuses"

definition matches_text :: "string option \<Rightarrow> string \<Rightarrow> bool" where
  "matches_text x pattern = (case x of None \<Rightarrow> False | Some t \<Rightarrow> ilike t pattern)"

definition days_before :: "env \<Rightarrow> int \<Rightarrow> timestamp" where
  "days_before e n = now e - days n"

definition lead_selected :: "env \<Rightarrow> ident \<Rightarrow> lead_filter \<Rightarrow> lead_row \<Rightarrow> bool" where
  "lead_selected e org f x \<longleftrightarrow> lead_organization_id x = org \<and>
     (lf_include_linked_duplicates f \<or> lead_duplicate_of_lead_id x = None) \<and>
     opt_all (\<lambda>q. ilike (lead_full_name x) (search_pattern q) \<or> matches_text (lead_email x) (search_pattern q) \<or>
       matches_text (lead_phone x) (search_pattern q) \<or> matches_text (lead_company_name x) (search_pattern q)) (given (lf_q f)) \<and>
     opt_all (\<lambda>st. lead_status x = st) (lf_status f) \<and>
     opt_all (\<lambda>i. lead_source_id x = Some i) (given (lf_source_id f)) \<and>
     opt_all (\<lambda>i. lead_owner_user_id x = Some i) (given (lf_owner_user_id f)) \<and>
     opt_all (\<lambda>i. lead_branch_id x = Some i) (given (lf_branch_id f)) \<and>
     opt_all (\<lambda>n. n \<le> lead_score x) (lf_min_score f) \<and> opt_all (\<lambda>n. lead_score x \<le> n) (lf_max_score f) \<and>
     opt_all (\<lambda>t. t \<le> lead_created_at x) (lf_created_from f) \<and> opt_all (\<lambda>t. lead_created_at x \<le> t) (lf_created_to f) \<and>
     opt_all (\<lambda>n. lead_active x \<and> opt_all (\<lambda>t. t \<le> days_before e n) (lead_last_activity_at x)) (lf_unattended_days f) \<and>
     (lf_unassigned_only f \<longrightarrow> lead_owner_user_id x = None \<and> lead_active x) \<and>
     opt_all (\<lambda>n. lead_created_at x \<le> days_before e n) (lf_minimum_age_days f) \<and>
     opt_all (\<lambda>n. days_before e (n + 1) < lead_created_at x) (lf_maximum_age_days f) \<and>
     (lf_minimum_age_days f \<noteq> None \<or> lf_maximum_age_days f \<noteq> None \<longrightarrow> lead_active x)"

definition list_leads :: "env \<Rightarrow> crm \<Rightarrow> ident \<Rightarrow> lead_filter \<Rightarrow> nat \<Rightarrow> nat \<Rightarrow> lead_view page" where
  "list_leads e s org f page page_size =
     (let rows = filter (lead_selected e org f) (leads (base s)) in
      paged page page_size (length rows) (map (lead_view_of s org) (page_of page page_size (order_desc lead_created_at rows))))"

text \<open>\<^verbatim>\<open>lead_stats\<close>; the average is exact here, the code rounds it to one decimal for display.\<close>

record lead_stats =
  ls_total :: nat
  ls_active :: nat
  ls_unassigned :: nat
  ls_follow_ups_due :: nat
  ls_converted :: nat
  ls_average_score :: decimal

definition lead_stats_of :: "env \<Rightarrow> crm \<Rightarrow> ident \<Rightarrow> lead_stats" where
  "lead_stats_of e s org =
     (let xs = filter (\<lambda>x. lead_organization_id x = org) (leads (base s)) in
      \<lparr>ls_total = length xs, ls_active = count_rows lead_active xs,
       ls_unassigned = count_rows (\<lambda>x. lead_owner_user_id x = None \<and> lead_active x) xs,
       ls_follow_ups_due = count_rows (\<lambda>x. (case lead_next_follow_up_at x of None \<Rightarrow> False | Some t \<Rightarrow> t \<le> now e) \<and> lead_active x) xs,
       ls_converted = count_rows (\<lambda>x. lead_status x = Lead_CONVERTED) xs,
       ls_average_score = (if xs = [] then 0 else of_int (sum_list (map lead_score xs)) / of_nat (length xs))\<rparr>)"

text \<open>
  The board orders leads of equal score by \<^verbatim>\<open>updated_at\<close>, which the model leaves out: it is the argument \<open>updated\<close>.
\<close>

record kanban_column =
  kc_status :: lead_status
  kc_total :: nat
  kc_items :: "lead_view list"

definition lead_statuses :: "lead_status list" where
  "lead_statuses = [Lead_NEW, Lead_ASSIGNED, Lead_ATTEMPTED, Lead_CONTACTED, Lead_QUALIFIED, Lead_DISQUALIFIED, Lead_LOST, Lead_CONVERTED]"

definition kanban :: "(lead_row \<Rightarrow> timestamp) \<Rightarrow> crm \<Rightarrow> ident \<Rightarrow> kanban_column list" where
  "kanban updated s org =
     map (\<lambda>st. let rows = filter (\<lambda>x. lead_organization_id x = org \<and> lead_status x = st \<and> lead_duplicate_of_lead_id x = None)
             (leads (base s)) in
         \<lparr>kc_status = st, kc_total = length rows,
          kc_items = map (lead_view_of s org) (take 50 (order_desc lead_score (order_desc updated rows)))\<rparr>) lead_statuses"

record ageing_bucket =
  ab_label :: string
  ab_minimum_days :: int
  ab_maximum_days :: "int option"
  ab_count :: nat

definition bucket_limits :: "(string \<times> int \<times> int option) list" where
  "bucket_limits = [(''0-7 days'', 0, Some 7), (''8-14 days'', 8, Some 14), (''15-30 days'', 15, Some 30),
     (''31-60 days'', 31, Some 60), (''61+ days'', 61, None)]"

definition in_bucket :: "env \<Rightarrow> int \<Rightarrow> int option \<Rightarrow> lead_row \<Rightarrow> bool" where
  "in_bucket e lo hi x \<longleftrightarrow> lead_created_at x \<le> days_before e lo \<and> opt_all (\<lambda>n. days_before e (n + 1) < lead_created_at x) hi"

definition ageing_buckets :: "env \<Rightarrow> crm \<Rightarrow> ident \<Rightarrow> ageing_bucket list" where
  "ageing_buckets e s org =
     map (\<lambda>(label, lo, hi). \<lparr>ab_label = label, ab_minimum_days = lo, ab_maximum_days = hi,
         ab_count = count_rows (\<lambda>x. lead_organization_id x = org \<and> lead_active x \<and> lead_duplicate_of_lead_id x = None \<and>
           in_bucket e lo hi x) (leads (base s))\<rparr>) bucket_limits"

section \<open>Duplicates\<close>

record duplicate_match =
  dm_lead :: lead_view
  dm_matched_on :: "string list"

definition check_duplicates ::
  "crm \<Rightarrow> ident \<Rightarrow> string option \<Rightarrow> string option \<Rightarrow> ident option \<Rightarrow> duplicate_match list" where
  "check_duplicates s org email phone except =
     map (\<lambda>(x, labels). \<lparr>dm_lead = lead_view_of s org x, dm_matched_on = labels\<rparr>)
       (duplicate_matches s org (given email) phone except)"

record duplicate_group =
  dg_key :: string
  dg_matched_on :: string
  dg_leads :: "lead_view list"

text \<open>The groups of unlinked leads with one value of a field; at most fifty values are taken.\<close>

definition groups_by :: "(lead_row \<Rightarrow> string option) \<Rightarrow> string \<Rightarrow> crm \<Rightarrow> ident \<Rightarrow> duplicate_group list" where
  "groups_by field label s org =
     (let rows = filter (\<lambda>x. lead_organization_id x = org \<and> field x \<noteq> None \<and> lead_duplicate_of_lead_id x = None) (leads (base s));
          shared = filter (\<lambda>v. 1 < count_rows (\<lambda>x. field x = v) rows) (remdups (map field rows)) in
      map (\<lambda>v. \<lparr>dg_key = (case v of None \<Rightarrow> [] | Some k \<Rightarrow> k), dg_matched_on = label,
          dg_leads = map (lead_view_of s org) (sort_key lead_created_at (filter (\<lambda>x. field x = v) rows))\<rparr>) (take 50 shared))"

definition duplicate_groups :: "crm \<Rightarrow> ident \<Rightarrow> duplicate_group list" where
  "duplicate_groups s org = groups_by lead_normalized_email ''email'' s org @ groups_by lead_normalized_phone ''phone'' s org"

definition contact_keys :: "lead_row \<Rightarrow> string set" where
  "contact_keys x = set_option (lead_normalized_email x) \<union> set_option (lead_normalized_phone x)"

text \<open>\<^verbatim>\<open>DuplicateResolutionPayload.validate_ids\<close>\<close>

definition resolution_ok :: "ident \<Rightarrow> ident list \<Rightarrow> bool" where
  "resolution_ok primary ids \<longleftrightarrow> primary \<notin> set ids \<and> distinct ids \<and> 1 \<le> length ids \<and> length ids \<le> 100"

fun link_all :: "env \<Rightarrow> nat \<Rightarrow> mutation_context \<Rightarrow> ident \<Rightarrow> lead_row \<Rightarrow> lead_row list \<Rightarrow> crm \<Rightarrow> app_error + crm" where
  "link_all e k ctx org primary [] s = Inr s"
| "link_all e k ctx org primary (x # xs) s =
     require (contact_keys primary \<inter> contact_keys x \<noteq> {}) (App_Error 400 ''NOT_A_DUPLICATE'') (
     link_all e (k + 1) ctx org primary xs
       (lead_audit e k org ctx ''lead.duplicate_linked'' (lead_id x) (Some [(''duplicate_of_lead_id'', JNull)])
         (Some [(''duplicate_of_lead_id'', JStr (lead_id primary))])
         (put_lead (x\<lparr>lead_duplicate_of_lead_id := Some (lead_id primary)\<rparr>) s)))"

definition resolve_duplicates :: "env \<Rightarrow> mutation_context \<Rightarrow> ident \<Rightarrow> ident \<Rightarrow> ident list \<Rightarrow> crm \<Rightarrow> (crm, unit) outcome" where
  "resolve_duplicates e ctx org primary_id ids s =
     fetch s (find_lead (base s) org primary_id) resource_not_found (\<lambda>primary.
     let xs = filter (\<lambda>x. lead_organization_id x = org \<and> lead_id x \<in> set ids) (leads (base s)) in
     demand s (length xs = length ids) resource_not_found (
     attempt s (link_all e 0 ctx org primary xs s) (\<lambda>t. Return t ())))"

section \<open>Import\<close>

record import_row =
  ir_full_name :: string
  ir_email :: "string option"
  ir_phone :: "string option"
  ir_source_code :: "string option"
  ir_owner_email :: "string option"
  ir_preferred_location :: "string option"
  ir_budget_min :: "decimal option"
  ir_budget_max :: "decimal option"
  ir_requirements :: "string option"

type_synonym parsed_row = "string + import_row"

datatype row_status = Row_ready | Row_duplicate | Row_error

record row_result =
  rr_row_number :: nat
  rr_status :: row_status
  rr_message :: "string option"
  rr_duplicate_lead_ids :: "ident list"

definition contact_of :: "import_row \<Rightarrow> string option \<times> string option" where
  "contact_of r = (normalize_email (given (ir_email r)), normalize_phone (ir_phone r))"

text \<open>
  \<^verbatim>\<open>_validate_import_rows\<close>: the line numbers start at 2, below the header. A contact counts as seen when both the
  normalized email and the normalized phone are equal.
\<close>

fun validate_rows ::
  "crm \<Rightarrow> ident \<Rightarrow> nat \<Rightarrow> (string option \<times> string option) list \<Rightarrow> parsed_row list \<Rightarrow> row_result list" where
  "validate_rows s org n seen [] = []"
| "validate_rows s org n seen (Inl msg # rest) =
     \<lparr>rr_row_number = n, rr_status = Row_error, rr_message = Some msg, rr_duplicate_lead_ids = []\<rparr> #
     validate_rows s org (n + 1) seen rest"
| "validate_rows s org n seen (Inr r # rest) =
     (if contact_of r \<in> set seen then
        \<lparr>rr_row_number = n, rr_status = Row_duplicate, rr_message = Some ''Duplicate contact appears earlier in this file'',
         rr_duplicate_lead_ids = []\<rparr> # validate_rows s org (n + 1) seen rest
      else
        (let matches = duplicate_matches s org (given (ir_email r)) (ir_phone r) None in
         if matches \<noteq> [] then
           \<lparr>rr_row_number = n, rr_status = Row_duplicate, rr_message = Some ''Existing lead has the same email or phone'',
            rr_duplicate_lead_ids = map (lead_id \<circ> fst) matches\<rparr>
         else \<lparr>rr_row_number = n, rr_status = Row_ready, rr_message = None, rr_duplicate_lead_ids = []\<rparr>) #
        validate_rows s org (n + 1) (contact_of r # seen) rest)"

record import_preview =
  ip_total_rows :: nat
  ip_ready_rows :: nat
  ip_duplicate_rows :: nat
  ip_error_rows :: nat
  ip_rows :: "row_result list"

definition preview_import :: "crm \<Rightarrow> ident \<Rightarrow> parsed_row list \<Rightarrow> import_preview" where
  "preview_import s org rows =
     (let results = validate_rows s org 2 [] rows; n = (\<lambda>st. count_rows (\<lambda>r. rr_status r = st) results) in
      \<lparr>ip_total_rows = length rows, ip_ready_rows = n Row_ready, ip_duplicate_rows = n Row_duplicate,
       ip_error_rows = n Row_error, ip_rows = results\<rparr>)"

definition import_source :: "crm \<Rightarrow> ident \<Rightarrow> import_row \<Rightarrow> lead_source_row option" where
  "import_source s org r = (case given (ir_source_code r) of None \<Rightarrow> None
     | Some c \<Rightarrow> find (\<lambda>x. src_organization_id x = org \<and> src_is_active x \<and> src_code x = c) (lead_sources s))"

text \<open>Two active users whose emails differ in case only: the dictionary keeps the last one.\<close>

definition import_owner :: "crm \<Rightarrow> ident \<Rightarrow> import_row \<Rightarrow> user_row option" where
  "import_owner s org r = (case given (ir_owner_email r) of None \<Rightarrow> None
     | Some m \<Rightarrow> find (\<lambda>u. user_organization_id u = org \<and> user_is_active u \<and> lower (user_email u) = lower m) (rev (users (base s))))"

definition imported_lead :: "import_row \<Rightarrow> lead_source_row option \<Rightarrow> user_row option \<Rightarrow> lead_create" where
  "imported_lead r source owner =
     \<lparr>lc_full_name = ir_full_name r, lc_email = given (ir_email r), lc_phone = ir_phone r, lc_alternate_phone = None,
      lc_company_name = None, lc_source_id = map_option src_id source, lc_owner_user_id = map_option user_id owner,
      lc_branch_id = None, lc_preferred_location = ir_preferred_location r, lc_requirements = ir_requirements r,
      lc_budget_min = ir_budget_min r, lc_budget_max = ir_budget_max r, lc_metadata_json = None, lc_duplicate_override = False\<rparr>"

record import_progress =
  im_imported :: nat
  im_skipped :: nat
  im_errors :: "(nat \<times> string option) list"

text \<open>
  One line of the file: a failed line and an unknown source or owner are recorded, a duplicate is skipped when that
  was asked for, any other line becomes a lead. Nobody is notified of an imported lead.
\<close>

definition import_line ::
  "wording \<Rightarrow> env \<Rightarrow> nat \<Rightarrow> mutation_context \<Rightarrow> ident \<Rightarrow> ident \<Rightarrow> bool \<Rightarrow> row_result \<times> parsed_row \<Rightarrow> import_progress \<times> crm \<Rightarrow>
   app_error + import_progress \<times> crm" where
  "import_line f e k ctx org batch skip_duplicates line progress = (case (line, progress) of ((res, row), (m, s)) \<Rightarrow>
     (case row of
        Inl _ \<Rightarrow> Inr (m\<lparr>im_errors := im_errors m @ [(rr_row_number res, rr_message res)]\<rparr>, s)
      | Inr r \<Rightarrow>
          if rr_status res = Row_duplicate \<and> skip_duplicates then Inr (m\<lparr>im_skipped := im_skipped m + 1\<rparr>, s)
          else (let source = import_source s org r; owner = import_owner s org r in
            if given (ir_source_code r) \<noteq> None \<and> source = None
            then Inr (m\<lparr>im_errors := im_errors m @ [(rr_row_number res, Some ''Unknown or inactive source code'')]\<rparr>, s)
            else if given (ir_owner_email r) \<noteq> None \<and> owner = None
            then Inr (m\<lparr>im_errors := im_errors m @ [(rr_row_number res, Some ''Unknown or inactive owner email'')]\<rparr>, s)
            else (let x = new_lead e k org (Some batch) (imported_lead r source owner); s1 = add_lead x s in
              step (recompute_score f (now e) s1 x) (\<lambda>y.
              Inr (m\<lparr>im_imported := im_imported m + 1\<rparr>,
                lead_audit e (k + 2) org ctx ''lead.imported'' (lead_id x) None
                  (Some (lead_snapshot y @ [(''import_batch_id'', JStr batch)]))
                  (put_lead y (case owner of None \<Rightarrow> s1
                   | Some u \<Rightarrow> s1\<lparr>lead_assignments := lead_assignments s1 @
                       [new_assignment e (k + 1) org (lead_id x) (user_id u) (actor_user_id ctx)]\<rparr>))))))))"

fun import_lines ::
  "wording \<Rightarrow> env \<Rightarrow> nat \<Rightarrow> mutation_context \<Rightarrow> ident \<Rightarrow> ident \<Rightarrow> bool \<Rightarrow> (row_result \<times> parsed_row) list \<Rightarrow> import_progress \<times> crm \<Rightarrow>
   app_error + import_progress \<times> crm" where
  "import_lines f e k ctx org batch skip [] progress = Inr progress"
| "import_lines f e k ctx org batch skip (line # rest) progress =
     step (import_line f e k ctx org batch skip line progress) (import_lines f e (k + 3) ctx org batch skip rest)"

definition supported_columns :: json where
  "supported_columns = JObj [(''supported_columns'', JList (map JStr [''full_name'', ''email'', ''phone'', ''source_code'',
     ''owner_email'', ''preferred_location'', ''budget_min'', ''budget_max'', ''requirements'']))]"

definition new_batch :: "env \<Rightarrow> ident \<Rightarrow> ident \<Rightarrow> string \<Rightarrow> nat \<Rightarrow> import_batch_row" where
  "new_batch e org actor filename n =
     \<lparr>batch_id = uuid e 0, batch_organization_id = org, batch_created_by_user_id = Some actor, batch_filename = filename,
      batch_status = ''PROCESSING'', batch_total_rows = int n, batch_imported_rows = 0, batch_skipped_rows = 0,
      batch_error_rows = 0, batch_mapping_json = Some supported_columns, batch_errors_json = None,
      batch_completed_at = None, batch_created_at = now e\<rparr>"

definition finished_batch :: "env \<Rightarrow> import_progress \<Rightarrow> import_batch_row \<Rightarrow> import_batch_row" where
  "finished_batch e m b =
     b\<lparr>batch_imported_rows := int (im_imported m), batch_skipped_rows := int (im_skipped m),
       batch_error_rows := int (length (im_errors m)), batch_errors_json := Some (im_errors m),
       batch_status := (if im_errors m \<noteq> [] then ''COMPLETED_WITH_ERRORS'' else ''COMPLETED''),
       batch_completed_at := Some (now e)\<rparr>"

record import_batch_view =
  ibv_batch :: import_batch_row
  ibv_errors :: "(nat \<times> string option) list"

definition import_batch_view_of :: "import_batch_row \<Rightarrow> import_batch_view" where
  "import_batch_view_of b = \<lparr>ibv_batch = b, ibv_errors = (case batch_errors_json b of None \<Rightarrow> [] | Some es \<Rightarrow> es)\<rparr>"

definition batch_json :: "import_batch_row \<Rightarrow> snapshot" where
  "batch_json b = [(''filename'', JStr (batch_filename b)), (''total_rows'', JInt (batch_total_rows b)),
     (''imported_rows'', JInt (batch_imported_rows b)), (''skipped_rows'', JInt (batch_skipped_rows b)),
     (''error_rows'', JInt (batch_error_rows b))]"

definition commit_import ::
  "wording \<Rightarrow> env \<Rightarrow> mutation_context \<Rightarrow> ident \<Rightarrow> string \<Rightarrow> parsed_row list \<Rightarrow> bool \<Rightarrow> crm \<Rightarrow> (crm, import_batch_view) outcome" where
  "commit_import f e ctx org filename rows skip_duplicates s =
     (let b = new_batch e org (actor_user_id ctx) filename (length rows);
          s1 = s\<lparr>import_batches := import_batches s @ [b]\<rparr>;
          lines = zip (validate_rows s org 2 [] rows) rows in
      attempt s (import_lines f e 2 ctx org (batch_id b) skip_duplicates lines
          (\<lparr>im_imported = 0, im_skipped = 0, im_errors = []\<rparr>, s1)) (\<lambda>(m, s2).
      let b' = finished_batch e m b;
          t = log_crm [audit_entry e (uuid e 1) org ctx ''lead_import.completed'' ''lead_import_batch'' (batch_id b) None (Some (batch_json b'))]
            (s2\<lparr>import_batches := put_row batch_id b' (import_batches s2)\<rparr>) in
      Return t (import_batch_view_of b')))"

definition list_imports :: "crm \<Rightarrow> ident \<Rightarrow> import_batch_view list" where
  "list_imports s org = map import_batch_view_of
     (take 50 (order_desc batch_created_at (filter (\<lambda>b. batch_organization_id b = org) (import_batches s))))"

end
