(* ===== verification/Lead_Safety.thy ===== *)
theory Lead_Safety
  imports Lead_Imports
begin

text \<open>
  The requests of the lead service as steps, and the invariants of the leads: the score, the next follow-up and the
  active assignment of a lead agree with the rest of the database, and a lead is converted exactly when a customer
  stems from it.
\<close>

section \<open>Requests\<close>

text \<open>The identifiers a request draws are new to the tables of the leads.\<close>

definition lead_ids_used :: "crm \<Rightarrow> ident set" where
  "lead_ids_used s = lead_id ` set (leads (base s)) \<union> asg_lead_id ` set (lead_assignments s) \<union>
     act_lead_id ` set (lead_activities s) \<union> act_id ` set (lead_activities s) \<union> cust_id ` set (customers (base s)) \<union>
     (\<Union>c \<in> set (customers (base s)). set_option (cust_converted_from_lead_id c))"

definition fresh_leads :: "env \<Rightarrow> crm \<Rightarrow> bool" where
  "fresh_leads e s \<longleftrightarrow> inj (uuid e) \<and> (\<forall>n. uuid e n \<notin> lead_ids_used s)"

text \<open>
  A step is any request of \<^verbatim>\<open>services/leads.py\<close>. One other service writes a derived column of a lead and is not
  among the steps: \<^verbatim>\<open>check_out\<close> of \<^verbatim>\<open>services/site_visits.py\<close> sets \<^verbatim>\<open>next_follow_up_at\<close>.
\<close>

inductive lead_step :: "crm \<Rightarrow> crm \<Rightarrow> bool" where
  captured: "fresh_leads e s \<Longrightarrow> lead_step s (committed (create_lead f e ctx org lc s))"
| imported: "fresh_leads e s \<Longrightarrow> [] \<notin> user_id ` set (users (base s)) \<Longrightarrow> lead_step s (committed (commit_import f e ctx org filename parsed skip s))"
| edited: "lead_step s (committed (update_lead f e ctx org i lu s))"
| lead_deleted: "lead_step s (committed (delete_lead e ctx org i s))"
| lead_assigned: "lead_step s (committed (assign_lead f e ctx org i user s))"
| bulk_assigned: "lead_step s (committed (bulk_assign f e ctx org ids assignee s))"
| moved: "fresh_leads e s \<Longrightarrow> lead_step s (committed (transition_status f e ctx org i target notes s))"
| became_qualified: "fresh_leads e s \<Longrightarrow> lead_step s (committed (qualify_lead f e ctx org i reason_text s))"
| lost: "fresh_leads e s \<Longrightarrow> lead_step s (committed (mark_lead_lost f e ctx org i rid notes s))"
| converted: "fresh_leads e s \<Longrightarrow> lead_step s (committed (convert_lead f e ctx org i lcv s))"
| activity_created: "fresh_leads e s \<Longrightarrow> lead_step s (committed (create_activity f e ctx org i acp s))"
| activity_updated: "lead_step s (committed (update_activity f e ctx org i aid acp s))"
| follow_up_completed: "lead_step s (committed (complete_follow_up f e ctx org i aid done_text s))"
| activity_deleted: "lead_step s (committed (delete_activity f e ctx org i aid s))"
| note_created: "lead_step s (committed (create_note e ctx org i ntp s))"
| note_updated: "lead_step s (committed (update_note e ctx org i nid ntp s))"
| note_deleted: "lead_step s (committed (delete_note e ctx org i nid s))"
| linked: "lead_step s (committed (resolve_duplicates e ctx org i ids s))"
| source_created: "lead_step s (committed (create_source e ctx org sp s))"
| source_updated: "lead_step s (committed (update_source e ctx org i sp s))"
| source_deleted: "lead_step s (committed (delete_source e ctx org i s))"
| reason_created: "lead_step s (committed (create_lost_reason e ctx org sp s))"
| reason_updated: "lead_step s (committed (update_lost_reason e ctx org i sp s))"
| reason_deleted: "lead_step s (committed (delete_lost_reason e ctx org i s))"
| rule_created: "lead_step s (committed (create_score_rule e ctx org srp s))"
| rule_updated: "lead_step s (committed (update_score_rule e ctx org i srp s))"
| rule_deleted: "lead_step s (committed (delete_score_rule e ctx org i s))"
| rescored: "lead_step s (committed (recompute_all_scores f e ctx org s))"

locale lead_invariant =
  fixes inv :: "crm \<Rightarrow> bool"
  assumes kept: "lead_step s t \<Longrightarrow> inv s \<Longrightarrow> inv t"
begin

lemma always: "lead_step\<^sup>*\<^sup>* s t \<Longrightarrow> inv s \<Longrightarrow> inv t"
  by (induction rule: rtranclp_induct) (auto intro: kept)

end

section \<open>Frames\<close>

lemma crm_sel [simp]:
  "base (on_base g s) = g (base s)" "lead_assignments (on_base g s) = lead_assignments s"
  "lead_activities (on_base g s) = lead_activities s" "lead_sources (on_base g s) = lead_sources s"
  "score_rules (on_base g s) = score_rules s" "lead_notes (on_base g s) = lead_notes s"
  "import_batches (on_base g s) = import_batches s" "site_visits (on_base g s) = site_visits s"
  "branches (places (on_base g s)) = branches (places s)" "lost_reasons (on_base g s) = lost_reasons s"
  by (simp_all add: on_base_def in_office_def)

lemma log_sel [simp]:
  "leads (base (log_crm as s)) = leads (base s)" "customers (base (log_crm as s)) = customers (base s)"
  "lead_assignments (log_crm as s) = lead_assignments s" "lead_activities (log_crm as s) = lead_activities s"
  "lead_sources (log_crm as s) = lead_sources s" "score_rules (log_crm as s) = score_rules s"
  "users (base (log_crm as s)) = users (base s)" "branches (places (log_crm as s)) = branches (places s)"
  "import_batches (log_crm as s) = import_batches s" "lost_reasons (log_crm as s) = lost_reasons s"
  by (simp_all add: log_crm_def add_audits_def)

lemma put_lead_sel [simp]:
  "leads (base (put_lead x s)) = put_row lead_id x (leads (base s))" "customers (base (put_lead x s)) = customers (base s)"
  "lead_assignments (put_lead x s) = lead_assignments s" "lead_activities (put_lead x s) = lead_activities s"
  "lead_sources (put_lead x s) = lead_sources s" "score_rules (put_lead x s) = score_rules s"
  "users (base (put_lead x s)) = users (base s)" "branches (places (put_lead x s)) = branches (places s)"
  "import_batches (put_lead x s) = import_batches s" "lost_reasons (put_lead x s) = lost_reasons s"
  by (simp_all add: put_lead_def)

lemma add_lead_sel [simp]:
  "leads (base (add_lead x s)) = leads (base s) @ [x]" "customers (base (add_lead x s)) = customers (base s)"
  "lead_assignments (add_lead x s) = lead_assignments s" "lead_activities (add_lead x s) = lead_activities s"
  "lead_sources (add_lead x s) = lead_sources s" "score_rules (add_lead x s) = score_rules s"
  "users (base (add_lead x s)) = users (base s)" "import_batches (add_lead x s) = import_batches s"
  by (simp_all add: add_lead_def)

lemma assignment_sel [simp]:
  "leads (base (add_assignment e k x user actor s)) = leads (base s)"
  "customers (base (add_assignment e k x user actor s)) = customers (base s)"
  "lead_activities (add_assignment e k x user actor s) = lead_activities s"
  "lead_assignments (add_assignment e k x user actor s) =
     lead_assignments s @ [new_assignment e k (lead_organization_id x) (lead_id x) user actor]"
  "leads (base (end_assignments e x s)) = leads (base s)" "customers (base (end_assignments e x s)) = customers (base s)"
  "lead_activities (end_assignments e x s) = lead_activities s"
  "leads (base (set_assignment e k actor x owner s)) = leads (base s)"
  "customers (base (set_assignment e k actor x owner s)) = customers (base s)"
  "lead_activities (set_assignment e k actor x owner s) = lead_activities s"
  by (simp_all add: add_assignment_def end_assignments_def set_assignment_def queue_in_app_def split: option.split)

lemma audit_sel [simp]:
  "lead_audit e k org ctx action lid old new s = log_crm [audit_entry e (uuid e k) org ctx action ''lead'' lid old new] s"
  "setting_audit e k org ctx kind action i old new s = log_crm [audit_entry e (uuid e k) org ctx (kind @ action) kind i old new] s"
  by (simp_all add: lead_audit_def setting_audit_def)

text \<open>Recomputing a score changes nothing but the score.\<close>

lemma scored_sel [simp]:
  "lead_id (scored b c x) = lead_id x" "lead_organization_id (scored b c x) = lead_organization_id x"
  "lead_status (scored b c x) = lead_status x" "lead_owner_user_id (scored b c x) = lead_owner_user_id x"
  "lead_next_follow_up_at (scored b c x) = lead_next_follow_up_at x" "lead_full_name (scored b c x) = lead_full_name x"
  "lead_email (scored b c x) = lead_email x" "lead_phone (scored b c x) = lead_phone x"
  "lead_normalized_email (scored b c x) = lead_normalized_email x" "lead_normalized_phone (scored b c x) = lead_normalized_phone x"
  "lead_budget_min (scored b c x) = lead_budget_min x" "lead_budget_max (scored b c x) = lead_budget_max x"
  "lead_duplicate_of_lead_id (scored b c x) = lead_duplicate_of_lead_id x" "lead_source_id (scored b c x) = lead_source_id x"
  "lead_branch_id (scored b c x) = lead_branch_id x" "lead_created_at (scored b c x) = lead_created_at x"
  by (simp_all add: scored_def Let_def)

lemma scored_bounds [simp]: "0 \<le> lead_score (scored b c x)" "lead_score (scored b c x) \<le> 100"
  by (simp_all add: scored_def clamp_score_def Let_def)

lemma recomputed:
  assumes "recompute_score f t s x = Inr y"
  obtains b c where "y = scored b c x"
  using assms unfolding recompute_score_def by (auto simp: step_Inr Let_def)

section \<open>Derived data of a lead\<close>

definition active_assignments :: "crm \<Rightarrow> lead_row \<Rightarrow> lead_assignment_row list" where
  "active_assignments s x = filter (\<lambda>a. asg_organization_id a = lead_organization_id x \<and> asg_lead_id a = lead_id x \<and> asg_is_active a)
     (lead_assignments s)"

definition owner_assigned :: "crm \<Rightarrow> lead_row \<Rightarrow> bool" where
  "owner_assigned s x \<longleftrightarrow> map asg_assigned_user_id (active_assignments s x) =
     (case given (lead_owner_user_id x) of None \<Rightarrow> [] | Some u \<Rightarrow> [u])"

definition lead_sound :: "crm \<Rightarrow> lead_row \<Rightarrow> bool" where
  "lead_sound s x \<longleftrightarrow> 0 \<le> lead_score x \<and> lead_score x \<le> 100 \<and> lead_next_follow_up_at x = next_follow_up s x \<and> owner_assigned s x"

definition leads_sound :: "crm \<Rightarrow> bool" where
  "leads_sound s \<longleftrightarrow> distinct (map lead_id (leads (base s))) \<and> distinct (map act_id (lead_activities s)) \<and>
     (\<forall>x \<in> set (leads (base s)). lead_sound s x)"

lemma lead_sound_frame:
  "lead_activities t = lead_activities s \<Longrightarrow> lead_assignments t = lead_assignments s \<Longrightarrow> lead_sound t x = lead_sound s x"
  by (simp add: lead_sound_def owner_assigned_def active_assignments_def next_follow_up_def)

lemma leads_sound_frame:
  "leads (base t) = leads (base s) \<Longrightarrow> lead_activities t = lead_activities s \<Longrightarrow> lead_assignments t = lead_assignments s \<Longrightarrow>
   leads_sound s \<Longrightarrow> leads_sound t"
  by (simp add: leads_sound_def lead_sound_frame [of t s])

lemma sound_write:
  assumes ok: "leads_sound s" and x: "x \<in> set (leads (base s))" "lead_id y = lead_id x"
    and t: "leads (base t) = put_row lead_id y (leads (base s))"
    and others: "\<And>z. lead_id z \<noteq> lead_id x \<Longrightarrow> next_follow_up t z = next_follow_up s z \<and> active_assignments t z = active_assignments s z"
    and y: "lead_sound t y" and ids: "distinct (map act_id (lead_activities t))"
  shows "leads_sound t"
proof -
  have "lead_sound t w" if w: "w \<in> set (leads (base t))" for w
  proof -
    from w have "w \<in> (\<lambda>z. if lead_id z = lead_id x then y else z) ` set (leads (base s))"
      by (simp add: t put_row_def x(2))
    then obtain z where z: "w = (if lead_id z = lead_id x then y else z)" "z \<in> set (leads (base s))" by (rule imageE)
    show ?thesis
    proof (cases "lead_id z = lead_id x")
      case False
      from ok z(2) have "lead_sound s z" by (simp add: leads_sound_def)
      with others [OF False] show ?thesis using z(1) False by (simp add: lead_sound_def owner_assigned_def)
    qed (use z(1) y in simp)
  qed
  with ok ids show ?thesis by (simp add: leads_sound_def t)
qed

text \<open>A write that keeps the owner, the follow-up date and the activities.\<close>

definition same_duties :: "lead_row \<Rightarrow> lead_row \<Rightarrow> bool" where
  "same_duties x y \<longleftrightarrow> lead_id y = lead_id x \<and> lead_organization_id y = lead_organization_id x \<and>
     lead_owner_user_id y = lead_owner_user_id x \<and> lead_next_follow_up_at y = lead_next_follow_up_at x"

lemma same_duties_scored [simp]: "same_duties x (scored b c y) = same_duties x y"
  by (simp add: same_duties_def)

lemma sound_put:
  assumes ok: "leads_sound s" and x: "x \<in> set (leads (base s))" and y: "same_duties x y" "0 \<le> lead_score y" "lead_score y \<le> 100"
    and t: "leads (base t) = put_row lead_id y (leads (base s))" "lead_assignments t = lead_assignments s"
    and acts: "\<And>org i. filter (open_follow_up org i) (lead_activities t) = filter (open_follow_up org i) (lead_activities s)"
    and ids: "distinct (map act_id (lead_activities t))"
  shows "leads_sound t"
proof (rule sound_write [OF ok x _ t(1)])
  show "lead_id y = lead_id x" using y by (simp add: same_duties_def)
  have "lead_sound s x" using ok x by (simp add: leads_sound_def)
  then show "lead_sound t y"
    using y by (simp add: lead_sound_def owner_assigned_def active_assignments_def next_follow_up_def same_duties_def acts t)
qed (simp_all add: next_follow_up_def active_assignments_def acts t ids)

lemma put_lead_sound:
  assumes "leads_sound s" "x \<in> set (leads (base s))" "same_duties x y" "0 \<le> lead_score y" "lead_score y \<le> 100"
  shows "leads_sound (put_lead y s)"
  using assms by (rule sound_put) (use assms(1) in \<open>simp_all add: leads_sound_def\<close>)

lemma sound_score: "leads_sound s \<Longrightarrow> x \<in> set (leads (base s)) \<Longrightarrow> 0 \<le> lead_score x \<and> lead_score x \<le> 100"
  by (simp add: leads_sound_def lead_sound_def)

text \<open>Writes of the activities of one lead.\<close>

lemma sound_refreshed:
  assumes ok: "leads_sound s" and x: "x \<in> set (leads (base s))"
    and r: "activity_refreshed f e k ctx org action old new x' t' = Inr t"
    and x': "lead_id x' = lead_id x" "lead_organization_id x' = lead_organization_id x" "lead_owner_user_id x' = lead_owner_user_id x"
    and t': "leads (base t') = leads (base s)" "lead_assignments t' = lead_assignments s"
    and acts: "\<And>o' i. i \<noteq> lead_id x \<Longrightarrow> filter (open_follow_up o' i) (lead_activities t') = filter (open_follow_up o' i) (lead_activities s)"
    and ids: "distinct (map act_id (lead_activities t'))"
  shows "leads_sound t"
proof -
  from r obtain b c where t: "leads (base t) = put_row lead_id (scored b c (follow_up_refreshed t' x')) (leads (base s))"
    "lead_activities t = lead_activities t'" "lead_assignments t = lead_assignments s"
    unfolding activity_refreshed_def by (auto simp: step_Inr t' elim!: recomputed)
  have x_sound: "lead_sound s x" using ok x by (simp add: leads_sound_def)
  show ?thesis
  proof (rule sound_write [OF ok x _ t(1)])
    show "lead_sound t (scored b c (follow_up_refreshed t' x'))"
      using x_sound x' by (simp add: lead_sound_def owner_assigned_def active_assignments_def next_follow_up_def
          follow_up_refreshed_def t)
  qed (auto simp: follow_up_refreshed_def x' next_follow_up_def active_assignments_def acts t ids)
qed

text \<open>Assignments.\<close>

lemma assignments_ended:
  "filter (\<lambda>a. asg_organization_id a = o' \<and> asg_lead_id a = i \<and> asg_is_active a) (lead_assignments (end_assignments e x s)) =
   (if o' = lead_organization_id x \<and> i = lead_id x then []
    else filter (\<lambda>a. asg_organization_id a = o' \<and> asg_lead_id a = i \<and> asg_is_active a) (lead_assignments s))"
proof (cases "o' = lead_organization_id x \<and> i = lead_id x")
  case True
  have "filter (\<lambda>a. asg_organization_id a = o' \<and> asg_lead_id a = i \<and> asg_is_active a)
      (update_where (\<lambda>a. asg_organization_id a = lead_organization_id x \<and> asg_lead_id a = lead_id x \<and> asg_is_active a)
        (ended_assignment e) rows) = []" for rows
    using True by (induction rows) (simp_all add: update_where_def ended_assignment_def)
  with True show ?thesis by (simp add: end_assignments_def)
next
  case False
  have "filter (\<lambda>a. asg_organization_id a = o' \<and> asg_lead_id a = i \<and> asg_is_active a)
      (update_where (\<lambda>a. asg_organization_id a = lead_organization_id x \<and> asg_lead_id a = lead_id x \<and> asg_is_active a)
        (ended_assignment e) rows) =
    filter (\<lambda>a. asg_organization_id a = o' \<and> asg_lead_id a = i \<and> asg_is_active a) rows" for rows
    using False by (induction rows) (simp_all add: update_where_def ended_assignment_def)
  then show ?thesis by (simp add: end_assignments_def if_not_P [OF False])
qed

lemma owned_by_sel [simp]:
  "lead_id (owned_by user x) = lead_id x" "lead_organization_id (owned_by user x) = lead_organization_id x"
  "lead_owner_user_id (owned_by user x) = user" "lead_next_follow_up_at (owned_by user x) = lead_next_follow_up_at x"
  by (simp_all add: owned_by_def)

lemma sound_assigned:
  assumes ok: "leads_sound s" and x: "x \<in> set (leads (base s))"
  shows "leads_sound (put_lead (scored b c (owned_by user x)) (set_assignment e k actor x user s))"
    (is "leads_sound ?t")
proof (rule sound_write [OF ok x])
  have own: "active_assignments ?t z = (if lead_organization_id z = lead_organization_id x \<and> lead_id z = lead_id x
      then (case given user of None \<Rightarrow> [] | Some u \<Rightarrow> [new_assignment e k (lead_organization_id x) (lead_id x) u actor])
      else active_assignments s z)" for z
    unfolding active_assignments_def set_assignment_def
    by (cases "given user") (simp_all add: assignments_ended, simp add: new_assignment_def)
  have "lead_sound s x" using ok x by (simp add: leads_sound_def)
  then show "lead_sound ?t (scored b c (owned_by user x))"
    by (simp add: lead_sound_def owner_assigned_def own next_follow_up_def new_assignment_def split: option.split)
  show "next_follow_up ?t z = next_follow_up s z \<and> active_assignments ?t z = active_assignments s z" if "lead_id z \<noteq> lead_id x" for z
    using that by (simp add: own next_follow_up_def)
qed (use ok in \<open>simp_all add: leads_sound_def\<close>)

text \<open>New leads.\<close>

lemma sound_add:
  assumes ok: "leads_sound s" and y: "lead_id y \<notin> lead_ids_used s" "lead_next_follow_up_at y = None" "0 \<le> lead_score y" "lead_score y \<le> 100"
    and t: "leads (base t) = leads (base s) @ [y]" "lead_activities t = lead_activities s"
      "lead_assignments t = lead_assignments s @ as"
    and own: "\<forall>a \<in> set as. asg_lead_id a = lead_id y"
      "map asg_assigned_user_id (filter (\<lambda>a. asg_organization_id a = lead_organization_id y \<and> asg_is_active a) as) =
        (case given (lead_owner_user_id y) of None \<Rightarrow> [] | Some u \<Rightarrow> [u])"
  shows "leads_sound t"
proof -
  have new: "lead_id y \<notin> lead_id ` set (leads (base s))" "lead_id y \<notin> asg_lead_id ` set (lead_assignments s)"
    "lead_id y \<notin> act_lead_id ` set (lead_activities s)"
    using y(1) by (auto simp: lead_ids_used_def)
  have none: "filter (\<lambda>a. asg_organization_id a = o' \<and> asg_lead_id a = lead_id y \<and> asg_is_active a) (lead_assignments s) = []"
    "filter (open_follow_up o' (lead_id y)) (lead_activities s) = []" for o'
    using new by (auto simp: filter_empty_conv open_follow_up_def image_iff)
  have all: "filter (\<lambda>a. asg_organization_id a = o' \<and> asg_lead_id a = lead_id y \<and> asg_is_active a) as =
      filter (\<lambda>a. asg_organization_id a = o' \<and> asg_is_active a) as" for o'
    using own(1) by (intro filter_cong) auto
  have "lead_sound t y"
    using y own by (simp add: lead_sound_def owner_assigned_def active_assignments_def next_follow_up_def t none all)
  moreover have "lead_sound t x" if x: "x \<in> set (leads (base s))" for x
  proof -
    from x new(1) have "lead_id x \<noteq> lead_id y" by (auto simp: image_iff)
    with own(1) have "filter (\<lambda>a. asg_organization_id a = lead_organization_id x \<and> asg_lead_id a = lead_id x \<and> asg_is_active a) as = []"
      by (auto simp: filter_empty_conv)
    moreover from ok x have "lead_sound s x" by (simp add: leads_sound_def)
    ultimately show ?thesis by (simp add: lead_sound_def owner_assigned_def active_assignments_def next_follow_up_def t)
  qed
  ultimately show ?thesis using ok new(1) by (auto simp: leads_sound_def t)
qed

lemma put_row_last: "id_of y = id_of x \<Longrightarrow> id_of x \<notin> id_of ` set rows \<Longrightarrow> put_row id_of y (rows @ [x]) = rows @ [y]"
  by (simp add: put_row_def) (rule map_idI, auto simp: image_iff)

lemma in_put_row_other: "x \<in> set rows \<Longrightarrow> id_of x \<noteq> id_of y \<Longrightarrow> x \<in> set (put_row id_of y rows)"
  by (auto simp: put_row_def)

lemma fresh_leadsD: "fresh_leads e s \<Longrightarrow> uuid e n \<notin> lead_ids_used s" "fresh_leads e s \<Longrightarrow> inj (uuid e)"
  by (simp_all add: fresh_leads_def)

lemma new_lead_sel [simp]:
  "lead_id (new_lead e k org batch p) = uuid e k" "lead_organization_id (new_lead e k org batch p) = org"
  "lead_next_follow_up_at (new_lead e k org batch p) = None" "lead_owner_user_id (new_lead e k org batch p) = lc_owner_user_id p"
  by (simp_all add: new_lead_def)

section \<open>Every request keeps the leads sound\<close>

lemmas sound_intros = outcome_intros [where P = leads_sound]

lemma setting_steps_sound:
  assumes ok: "leads_sound s"
  shows "leads_sound (committed (create_source e ctx org sp s))" "leads_sound (committed (update_source e ctx org i sp s))"
    "leads_sound (committed (delete_source e ctx org i s))" "leads_sound (committed (create_lost_reason e ctx org sp s))"
    "leads_sound (committed (update_lost_reason e ctx org i sp s))" "leads_sound (committed (delete_lost_reason e ctx org i s))"
    "leads_sound (committed (create_score_rule e ctx org srp s))" "leads_sound (committed (update_score_rule e ctx org i srp s))"
    "leads_sound (committed (delete_score_rule e ctx org i s))" "leads_sound (committed (update_note e ctx org i nid ntp s))"
    "leads_sound (committed (delete_note e ctx org i nid s))"
  unfolding create_source_def update_source_def delete_source_def create_lost_reason_def update_lost_reason_def
    delete_lost_reason_def create_score_rule_def update_score_rule_def delete_score_rule_def update_note_def delete_note_def Let_def
  by (intro sound_intros ok; simp add: leads_sound_frame [OF _ _ _ ok])+

lemma status_changed_returns:
  assumes "status_changed f e k ctx org action notes extra x x' s = Inr (t, y)"
  obtains b c where "y = scored b c (x'\<lparr>lead_last_activity_at := Some (now e)\<rparr>)"
    "leads (base t) = put_row lead_id y (leads (base s))" "lead_assignments t = lead_assignments s"
    "lead_activities t = lead_activities s @ [status_activity e k (actor_user_id ctx) (lead_status x) notes x']"
    "customers (base t) = customers (base s)"
  using assms unfolding status_changed_def by (auto simp: step_Inr elim!: recomputed)

lemma status_changed_sound:
  assumes t: "status_changed f e k ctx org action notes extra x x' s = Inr (t, y)"
    and x: "x \<in> set (leads (base s))" and ok: "leads_sound s" and duties: "same_duties x x'"
    and new: "uuid e k \<notin> lead_ids_used s"
  shows "leads_sound t"
  using t
proof (rule status_changed_returns)
  fix b c
  assume t: "y = scored b c (x'\<lparr>lead_last_activity_at := Some (now e)\<rparr>)" "leads (base t) = put_row lead_id y (leads (base s))"
    "lead_assignments t = lead_assignments s"
    "lead_activities t = lead_activities s @ [status_activity e k (actor_user_id ctx) (lead_status x) notes x']"
  show ?thesis
    by (rule sound_put [OF ok x _ _ _ t(2,3)])
      (use duties ok new in \<open>auto simp: t(1) t(4) same_duties_def open_follow_up_def status_activity_def leads_sound_def lead_ids_used_def\<close>)
qed

lemma status_steps_sound:
  assumes ok: "leads_sound s" and fresh: "fresh_leads e s"
  shows "leads_sound (committed (transition_status f e ctx org i target notes s))"
    "leads_sound (committed (qualify_lead f e ctx org i reason_text s))"
    "leads_sound (committed (mark_lead_lost f e ctx org i rid notes s))"
    "leads_sound (committed (convert_lead f e ctx org i lcv s))"
proof -
  have customers: "leads_sound (on_base (\<lambda>d. d\<lparr>customers := customers d @ [c]\<rparr>) s)" for c
    by (simp add: leads_sound_frame [OF _ _ _ ok])
  have fresh': "uuid e (Suc 0) \<notin> lead_ids_used (on_base (\<lambda>d. d\<lparr>customers := customers d @ [customer_of_lead e o' p x]\<rparr>) s)"
    if "x \<in> set (leads (base s))" for p x o'
    using fresh_leadsD(1) [OF fresh, of "Suc 0"] that fresh_leadsD(2) [OF fresh]
    by (auto simp: lead_ids_used_def customer_of_lead_def Let_def inj_eq)
  show "leads_sound (committed (transition_status f e ctx org i target notes s))"
    "leads_sound (committed (qualify_lead f e ctx org i reason_text s))"
    "leads_sound (committed (mark_lead_lost f e ctx org i rid notes s))"
    "leads_sound (committed (convert_lead f e ctx org i lcv s))"
    unfolding transition_status_def qualify_lead_def mark_lead_lost_def convert_lead_def Let_def
    by (intro sound_intros ok; auto simp: same_duties_def qualified_lead_def ok customers fresh' fresh_leadsD [OF fresh] dest!: entityD
        elim!: status_changed_sound)+
qed

text \<open>Rewriting or removing an activity of one lead leaves the follow-ups of the others.\<close>

lemma follow_ups_put:
  assumes "act_lead_id a = i" "act_lead_id a' = i" "act_id a' = act_id a" "a \<in> set rows" "distinct (map act_id rows)" "j \<noteq> i"
  shows "filter (open_follow_up o' j) (put_row act_id a' rows) = filter (open_follow_up o' j) rows"
  using assms
proof (induction rows)
  case (Cons b rows)
  show ?case
  proof (cases "b = a")
    case True
    with Cons.prems have "put_row act_id a' rows = rows" unfolding put_row_def by (intro map_idI) (auto simp: image_iff)
    with True Cons.prems show ?thesis by (simp add: put_row_def open_follow_up_def)
  next
    case False
    with Cons.prems have "act_id b \<noteq> act_id a" by (auto simp: image_iff)
    with False Cons show ?thesis by (simp add: put_row_def)
  qed
qed simp

lemma follow_ups_drop:
  assumes "act_lead_id a = i" "a \<in> set rows" "distinct (map act_id rows)" "j \<noteq> i"
  shows "filter (open_follow_up o' j) (filter (\<lambda>y. act_id y \<noteq> act_id a) rows) = filter (open_follow_up o' j) rows"
proof -
  have "y = a" if "y \<in> set rows" "act_id y = act_id a" for y
    using assms(2,3) that by (auto simp: distinct_map dest: inj_onD)
  with assms(1,4) show ?thesis unfolding filter_filter by (intro filter_cong) (auto simp: open_follow_up_def)
qed

lemma distinct_ids_filter: "distinct (map f rows) \<Longrightarrow> distinct (map f (filter p rows))"
  by (simp add: distinct_map inj_on_def)

lemma activity_steps_sound:
  assumes ok: "leads_sound s"
  shows "fresh_leads e s \<Longrightarrow> leads_sound (committed (create_activity f e ctx org i acp s))"
    "leads_sound (committed (update_activity f e ctx org i aid acp s))"
    "leads_sound (committed (complete_follow_up f e ctx org i aid done_text s))"
    "leads_sound (committed (delete_activity f e ctx org i aid s))"
proof -
  have ids: "distinct (map act_id (lead_activities s))" using ok by (simp add: leads_sound_def)
  show "leads_sound (committed (create_activity f e ctx org i acp s))" if fresh: "fresh_leads e s"
  proof -
    have new: "uuid e 0 \<notin> act_id ` set (lead_activities s)"
      using fresh_leadsD(1) [OF fresh, of 0] by (simp add: lead_ids_used_def)
    show ?thesis unfolding create_activity_def Let_def
      by (intro sound_intros ok; (simp only: committed_respond)?; (erule sound_refreshed [OF ok, rotated])?)
        (use ids new in \<open>auto dest: entityD simp: open_follow_up_def new_activity_def active_since_def\<close>)
  qed
  show "leads_sound (committed (update_activity f e ctx org i aid acp s))"
    unfolding update_activity_def Let_def
    by (intro sound_intros ok; (simp only: committed_respond)?; (erule sound_refreshed [OF ok, rotated])?)
      (use ids in \<open>auto dest: entityD simp: updated_activity_def intro!: follow_ups_put\<close>)
  show "leads_sound (committed (complete_follow_up f e ctx org i aid done_text s))"
    unfolding complete_follow_up_def Let_def
    by (intro sound_intros ok; (simp only: committed_respond)?; (erule sound_refreshed [OF ok, rotated])?)
      (use ids in \<open>auto dest: entityD simp: completed_activity_def intro!: follow_ups_put\<close>)
  show "leads_sound (committed (delete_activity f e ctx org i aid s))"
    unfolding delete_activity_def Let_def
    by (intro sound_intros ok; (simp only: outcome.sel)?; (erule sound_refreshed [OF ok, rotated])?)
      (use ids in \<open>auto dest: entityD simp del: filter_filter intro!: follow_ups_drop distinct_ids_filter\<close>)
qed


lemma sound_noted:
  assumes ok: "leads_sound s" and x: "x \<in> set (leads (base s))"
    and t: "leads (base t) = put_row lead_id (x\<lparr>lead_last_activity_at := u\<rparr>) (leads (base s))"
      "lead_activities t = lead_activities s" "lead_assignments t = lead_assignments s"
  shows "leads_sound t"
  by (rule sound_put [OF ok x, where y = "x\<lparr>lead_last_activity_at := u\<rparr>"])
    (use sound_score [OF ok x] ok in \<open>simp_all add: t same_duties_def leads_sound_def\<close>)

lemma updated_lead_duties [simp]: "same_duties x (updated_lead p x)"
  by (simp add: same_duties_def updated_lead_def Let_def)

lemma edit_steps_sound:
  assumes ok: "leads_sound s"
  shows "leads_sound (committed (update_lead f e ctx org i lu s))" "leads_sound (committed (create_note e ctx org i ntp s))"
    "leads_sound (committed (assign_lead f e ctx org i user s))"
proof -
  have found: "find_lead (base s) org i = Some x \<Longrightarrow> x \<in> set (leads (base s))" for x by (auto dest: entityD)
  show "leads_sound (committed (update_lead f e ctx org i lu s))"
    unfolding update_lead_def Let_def
    by (intro sound_intros ok; (simp only: outcome.sel audit_sel)?)
      (auto intro!: leads_sound_frame [OF _ _ _ put_lead_sound [OF ok found]] elim!: recomputed)
  show "leads_sound (committed (create_note e ctx org i ntp s))"
    unfolding create_note_def Let_def
    by (intro sound_intros ok; (simp only: committed_respond)?; rule sound_noted [OF ok found]) simp_all
  show "leads_sound (committed (assign_lead f e ctx org i user s))"
    unfolding assign_lead_def Let_def
    by (intro sound_intros ok; (simp only: outcome.sel audit_sel)?)
      (auto intro!: leads_sound_frame [OF _ _ _ sound_assigned [OF ok found]] elim!: recomputed)
qed


text \<open>The requests that write several leads.\<close>

lemma put_row_rest:
  "set xs \<subseteq> set rows \<Longrightarrow> id_of y \<notin> id_of ` set xs \<Longrightarrow> set xs \<subseteq> set (put_row id_of y rows)"
  by (auto simp: image_iff intro!: in_put_row_other)

lemma log_sound: "leads_sound (log_crm as s) = leads_sound s"
  by (auto elim!: leads_sound_frame [rotated 3])

lemma assign_all_sound:
  "assign_all f e k ctx org user xs s = Inr t \<Longrightarrow> leads_sound s \<Longrightarrow> set xs \<subseteq> set (leads (base s)) \<Longrightarrow> distinct (map lead_id xs) \<Longrightarrow>
   leads_sound t"
proof (induction xs arbitrary: k s)
  case (Cons x xs)
  from Cons.prems(1) obtain y as where y: "recompute_score f (now e) s (owned_by (Some user) x) = Inr y"
    and t: "assign_all f e (k + 3) ctx org user xs
      (log_crm as (put_lead y (set_assignment e k (actor_user_id ctx) x (Some user) s))) = Inr t"
    unfolding assign_all.simps audit_sel by (auto simp only: step_Inr)
  from y obtain b c where y': "y = scored b c (owned_by (Some user) x)" by (rule recomputed)
  have "leads_sound (put_lead y (set_assignment e k (actor_user_id ctx) x (Some user) s))"
    unfolding y' using sound_assigned [OF Cons.prems(2)] Cons.prems(3) by simp
  then show ?case using Cons.prems(3,4)
    by (intro Cons.IH [OF t]) (simp_all add: log_sound put_row_rest y')
qed simp

lemma link_all_sound:
  "link_all e k ctx org primary xs s = Inr t \<Longrightarrow> leads_sound s \<Longrightarrow> set xs \<subseteq> set (leads (base s)) \<Longrightarrow> distinct (map lead_id xs) \<Longrightarrow>
   leads_sound t"
proof (induction xs arbitrary: k s)
  case (Cons x xs)
  let ?y = "x\<lparr>lead_duplicate_of_lead_id := Some (lead_id primary)\<rparr>"
  from Cons.prems have x: "x \<in> set (leads (base s))" by simp
  have "leads_sound (put_lead ?y s)"
    by (rule put_lead_sound [OF Cons.prems(2) x]) (use sound_score [OF Cons.prems(2) x] in \<open>simp_all add: same_duties_def\<close>)
  then have y: "leads_sound (log_crm as (put_lead ?y s))" for as by (rule leads_sound_frame [rotated 3]) simp_all
  from Cons.prems(1) obtain as where t: "link_all e (k + 1) ctx org primary xs (log_crm as (put_lead ?y s)) = Inr t"
    by (auto simp: require_Inr)
  show ?case by (rule Cons.IH [OF t y]) (use Cons.prems in \<open>simp_all add: put_row_rest\<close>)
qed simp

lemma rescore_all_sound:
  "rescore_all f u xs s = Inr t \<Longrightarrow> leads_sound s \<Longrightarrow> set xs \<subseteq> set (leads (base s)) \<Longrightarrow> distinct (map lead_id xs) \<Longrightarrow>
   leads_sound t"
proof (induction xs arbitrary: s)
  case (Cons x xs)
  from Cons.prems(1) obtain b c where t: "rescore_all f u xs (put_lead (scored b c x) s) = Inr t"
    by (auto simp: step_Inr elim!: recomputed)
  show ?case
  proof (rule Cons.IH [OF t])
    show "leads_sound (put_lead (scored b c x) s)"
      by (rule put_lead_sound [OF Cons.prems(2)]) (use Cons.prems in \<open>auto simp: same_duties_def\<close>)
  qed (use Cons.prems in \<open>simp_all add: put_row_rest\<close>)
qed simp

lemma many_steps_sound:
  assumes ok: "leads_sound s"
  shows "leads_sound (committed (bulk_assign f e ctx org ids assignee s))" "leads_sound (committed (resolve_duplicates e ctx org i ids s))"
    "leads_sound (committed (recompute_all_scores f e ctx org s))"
proof -
  have rows: "set (filter q (leads (base s))) \<subseteq> set (leads (base s))" "distinct (map lead_id (filter q (leads (base s))))" for q
    using ok by (auto simp: leads_sound_def intro: distinct_ids_filter)
  show "leads_sound (committed (bulk_assign f e ctx org ids assignee s))"
    unfolding bulk_assign_def Let_def
    by (intro sound_intros ok; (simp only: outcome.sel)?) (erule assign_all_sound [OF _ ok rows])
  show "leads_sound (committed (resolve_duplicates e ctx org i ids s))"
    unfolding resolve_duplicates_def Let_def
    by (intro sound_intros ok; (simp only: outcome.sel)?) (erule link_all_sound [OF _ ok rows])
  show "leads_sound (committed (recompute_all_scores f e ctx org s))"
    unfolding recompute_all_scores_def Let_def
    by (intro sound_intros ok; (simp only: outcome.sel)?)
      (rule leads_sound_frame [rotated 3], erule rescore_all_sound [OF _ ok rows], simp_all)
qed

lemma delete_lead_sound:
  assumes ok: "leads_sound s"
  shows "leads_sound (committed (delete_lead e ctx org i s))"
proof -
  have "leads_sound (without_lead org j s)" for j
  proof -
    have "lead_sound (without_lead org j s) x = lead_sound s x" if "lead_id x \<noteq> j" for x
    proof -
      have "active_assignments (without_lead org j s) x = active_assignments s x" "next_follow_up (without_lead org j s) x = next_follow_up s x"
        using that by (auto simp: without_lead_def active_assignments_def next_follow_up_def open_follow_up_def
            intro!: filter_cong arg_cong [where f = "\<lambda>rows. earliest (map act_due_at rows)"])
      then show ?thesis by (simp add: lead_sound_def owner_assigned_def)
    qed
    moreover have "leads (base (without_lead org j s)) = filter (\<lambda>x. lead_id x \<noteq> j)
        (update_where (\<lambda>x. lead_organization_id x = org \<and> lead_duplicate_of_lead_id x = Some j) (\<lambda>x. x\<lparr>lead_duplicate_of_lead_id := None\<rparr>)
          (leads (base s)))" by (simp add: without_lead_def)
    moreover have "lead_sound s x = lead_sound s (x\<lparr>lead_duplicate_of_lead_id := None\<rparr>)" for x
      by (simp add: lead_sound_def owner_assigned_def active_assignments_def next_follow_up_def)
    moreover have "distinct (map lead_id (leads (base (without_lead org j s))))"
      using ok by (simp add: without_lead_def leads_sound_def distinct_ids_filter map_update_where)
    moreover have "distinct (map act_id (lead_activities (without_lead org j s)))"
      using ok by (simp add: without_lead_def leads_sound_def distinct_ids_filter)
    ultimately show ?thesis
      using ok unfolding leads_sound_def by (auto simp: update_where_def split: if_splits)
  qed
  then show ?thesis
    unfolding delete_lead_def
    by (intro sound_intros ok; simp add: log_sound)
qed


text \<open>The requests that add leads.\<close>

lemma new_assignment_sel [simp]:
  "asg_lead_id (new_assignment e k org lid u actor) = lid" "asg_organization_id (new_assignment e k org lid u actor) = org"
  "asg_assigned_user_id (new_assignment e k org lid u actor) = u" "asg_is_active (new_assignment e k org lid u actor)"
  by (simp_all add: new_assignment_def)

lemma sound_new_lead:
  assumes ok: "leads_sound s" and new: "uuid e k \<notin> lead_ids_used s"
    and t: "leads (base t) = leads (base s) @ [scored b c (new_lead e k org batch p)]" "lead_activities t = lead_activities s"
      "lead_assignments t = lead_assignments s @ (case given (lc_owner_user_id p) of None \<Rightarrow> []
         | Some u \<Rightarrow> [new_assignment e j org (uuid e k) u actor])"
  shows "leads_sound t"
  by (rule sound_add [OF ok _ _ _ _ t]) (use new in \<open>auto split: option.splits\<close>)

lemma add_new_lead:
  "uuid e k \<notin> lead_ids_used s \<Longrightarrow>
   put_row lead_id (scored b c (new_lead e k org batch p)) (leads (base s) @ [new_lead e k org batch p]) =
   leads (base s) @ [scored b c (new_lead e k org batch p)]"
  by (rule put_row_last) (simp_all add: lead_ids_used_def)

lemma create_lead_sound:
  assumes ok: "leads_sound s" and fresh: "fresh_leads e s"
  shows "leads_sound (committed (create_lead f e ctx org p s))"
  unfolding create_lead_def Let_def
  by (intro sound_intros ok; (simp only: outcome.sel)?; (elim recomputed)?)
    (rule sound_new_lead [OF ok fresh_leadsD(1) [OF fresh]],
     auto simp: add_new_lead fresh_leadsD(1) [OF fresh] split: option.split)

text \<open>The identifiers from the index \<open>k\<close> on are new.\<close>

definition fresh_from :: "env \<Rightarrow> nat \<Rightarrow> crm \<Rightarrow> bool" where
  "fresh_from e k s \<longleftrightarrow> inj (uuid e) \<and> (\<forall>n \<ge> k. uuid e n \<notin> lead_ids_used s)"

text \<open>What a line of a file does: nothing to the tables, or one more lead.\<close>

lemma import_owner_given:
  assumes "import_owner s org r = Some u" "[] \<notin> user_id ` set (users (base s))"
  shows "given (Some (user_id u)) = Some (user_id u)"
proof -
  from assms(1) have "u \<in> set (users (base s))"
    unfolding import_owner_def by (auto split: option.splits dest!: find_SomeD)
  with assms(2) show ?thesis by (auto simp: given_def image_iff)
qed

lemma import_line_returns:
  assumes line: "import_line f e k ctx org batch skip (res, row) (m, s) = Inr (m', s')" and new: "uuid e k \<notin> lead_ids_used s"
    and keys: "[] \<notin> user_id ` set (users (base s))"
  obtains (unchanged) "s' = s" "im_imported m' = im_imported m"
      "im_skipped m' + length (im_errors m') = Suc (im_skipped m + length (im_errors m))"
    | (added) b c p where "im_imported m' = Suc (im_imported m)" "im_skipped m' = im_skipped m" "im_errors m' = im_errors m"
      "leads (base s') = leads (base s) @ [scored b c (new_lead e k org (Some batch) p)]" "lead_activities s' = lead_activities s"
      "customers (base s') = customers (base s)" "users (base s') = users (base s)"
      "lead_assignments s' = lead_assignments s @ (case given (lc_owner_user_id p) of None \<Rightarrow> []
         | Some u \<Rightarrow> [new_assignment e (k + 1) org (uuid e k) u (actor_user_id ctx)])"
proof (cases row)
  case (Inl msg)
  with line have "s' = s" "m' = m\<lparr>im_errors := im_errors m @ [(rr_row_number res, rr_message res)]\<rparr>"
    by (simp_all add: import_line_def)
  then show ?thesis by (intro unchanged) simp_all
next
  case (Inr r)
  let ?src = "import_source s org r" and ?own = "import_owner s org r"
  let ?p = "imported_lead r ?src ?own"
  let ?skipped = "rr_status res = Row_duplicate \<and> skip"
  let ?bad_source = "given (ir_source_code r) \<noteq> None \<and> ?src = None" and ?bad_owner = "given (ir_owner_email r) \<noteq> None \<and> ?own = None"
  consider "?skipped" | "\<not> ?skipped" "?bad_source" | "\<not> ?skipped" "\<not> ?bad_source" "?bad_owner"
    | "\<not> ?skipped" "\<not> ?bad_source" "\<not> ?bad_owner" by blast
  then show ?thesis
  proof cases
    case 4
    from line obtain y as where y: "recompute_score f (now e) (add_lead (new_lead e k org (Some batch) ?p) s) (new_lead e k org (Some batch) ?p) = Inr y"
      and m': "m' = m\<lparr>im_imported := im_imported m + 1\<rparr>"
      and s': "s' = log_crm as (put_lead y (case ?own of None \<Rightarrow> add_lead (new_lead e k org (Some batch) ?p) s
         | Some u \<Rightarrow> (add_lead (new_lead e k org (Some batch) ?p) s)\<lparr>lead_assignments := lead_assignments s @
             [new_assignment e (k + 1) org (uuid e k) (user_id u) (actor_user_id ctx)]\<rparr>))"
      unfolding import_line_def Inr Let_def audit_sel
      by (auto simp only: prod.case sum.case if_not_P [OF 4(1)] if_not_P [OF 4(2)] if_not_P [OF 4(3)] if_False step_Inr add_lead_sel new_lead_sel sum.inject prod.inject)
    from y obtain b c where y': "y = scored b c (new_lead e k org (Some batch) ?p)" by (rule recomputed)
    have own: "given (lc_owner_user_id ?p) = map_option user_id ?own"
      by (cases "?own") (simp_all add: imported_lead_def import_owner_given [OF _ keys], simp add: given_def)
    show ?thesis
      by (rule added [where b = b and c = c and p = ?p])
        (auto simp: m' s' y' own add_new_lead [OF new] split: option.split)
  qed (rule unchanged; use line in \<open>auto simp: import_line_def Inr Let_def\<close>)+
qed


lemma fresh_from_ids:
  assumes "fresh_from e k s" "lead_ids_used t \<subseteq> insert (uuid e k) (lead_ids_used s)" "k < j"
  shows "fresh_from e j t"
proof -
  have "uuid e n \<notin> lead_ids_used t" if "j \<le> n" for n
  proof -
    from assms(1,3) that have "uuid e n \<notin> lead_ids_used s" "uuid e n \<noteq> uuid e k"
      by (auto simp: fresh_from_def inj_eq)
    with assms(2) show ?thesis by blast
  qed
  with assms(1) show ?thesis by (simp add: fresh_from_def)
qed

lemma fresh_from_mono: "fresh_from e k s \<Longrightarrow> k \<le> j \<Longrightarrow> fresh_from e j s"
  by (auto simp: fresh_from_def)

text \<open>
  What the loop over the lines does: each line is counted once, the counted leads are appended, and the tables stay
  sound.
\<close>

definition imported_by :: "ident \<Rightarrow> ident \<Rightarrow> import_progress \<times> crm \<Rightarrow> import_progress \<times> crm \<Rightarrow> nat \<Rightarrow> bool" where
  "imported_by org batch before after n \<longleftrightarrow> (case (before, after) of ((m, s), (m', s')) \<Rightarrow>
     leads_sound s' \<and> im_imported m' + im_skipped m' + length (im_errors m') = im_imported m + im_skipped m + length (im_errors m) + n \<and>
     (\<exists>xs. leads (base s') = leads (base s) @ xs \<and> im_imported m' = im_imported m + length xs \<and>
        list_all (\<lambda>x. lead_organization_id x = org \<and> lead_import_batch_id x = Some batch) xs) \<and>
     customers (base s') = customers (base s) \<and> lead_activities s' = lead_activities s \<and> users (base s') = users (base s))"

lemma scored_batch [simp]: "lead_import_batch_id (scored b c x) = lead_import_batch_id x"
  "lead_import_batch_id (new_lead e k org batch p) = batch"
  by (simp_all add: scored_def Let_def new_lead_def)

lemma import_line_by:
  assumes "import_line f e k ctx org batch skip (res, row) (m, s) = Inr (m', s')" "fresh_from e k s" "leads_sound s"
    "[] \<notin> user_id ` set (users (base s))"
  shows "imported_by org batch (m, s) (m', s') 1 \<and> fresh_from e (k + 3) s'"
proof -
  from assms(2) have new: "uuid e k \<notin> lead_ids_used s" by (simp add: fresh_from_def)
  from assms(1) new assms(4) show ?thesis
  proof (cases rule: import_line_returns)
    case unchanged
    then show ?thesis using assms(2,3) by (simp add: imported_by_def fresh_from_mono [OF assms(2)])
  next
    case (added b c p)
    have "leads_sound s'" by (rule sound_new_lead [OF assms(3) new added(4,5,8)])
    moreover have "fresh_from e (k + 3) s'"
      by (rule fresh_from_ids [OF assms(2)]) (auto simp: lead_ids_used_def added split: option.splits)
    ultimately show ?thesis by (simp add: imported_by_def added)
  qed
qed

lemma import_lines_by:
  "import_lines f e k ctx org batch skip lines (m, s) = Inr (m', s') \<Longrightarrow> fresh_from e k s \<Longrightarrow> leads_sound s \<Longrightarrow>
   [] \<notin> user_id ` set (users (base s)) \<Longrightarrow> imported_by org batch (m, s) (m', s') (length lines)"
proof (induction lines arbitrary: k m s)
  case Nil
  then show ?case by (simp add: imported_by_def)
next
  case (Cons line lines)
  obtain res row where line: "line = (res, row)" by (cases line)
  from Cons.prems(1) obtain m1 s1 where one: "import_line f e k ctx org batch skip (res, row) (m, s) = Inr (m1, s1)"
    and rest: "import_lines f e (k + 3) ctx org batch skip lines (m1, s1) = Inr (m', s')"
    by (auto simp: line step_Inr)
  from import_line_by [OF one Cons.prems(2-4)]
  have first: "imported_by org batch (m, s) (m1, s1) 1" and fresh: "fresh_from e (k + 3) s1" by simp_all
  then have "imported_by org batch (m1, s1) (m', s') (length lines)"
    using Cons.prems(4) by (intro Cons.IH [OF rest]) (simp_all add: imported_by_def)
  with first show ?case by (auto simp: imported_by_def)
qed

lemma commit_import_sound:
  assumes ok: "leads_sound s" and fresh: "fresh_leads e s" and keys: "[] \<notin> user_id ` set (users (base s))"
  shows "leads_sound (committed (commit_import f e ctx org filename parsed skip s))"
proof -
  have s1: "leads_sound (s\<lparr>import_batches := bs\<rparr>)" "fresh_from e 2 (s\<lparr>import_batches := bs\<rparr>)" for bs
    using fresh by (auto intro: leads_sound_frame [OF _ _ _ ok] simp: fresh_leads_def fresh_from_def lead_ids_used_def)
  have lines_sound: "leads_sound s2" if "import_lines f e 2 ctx org b skip lines (m, s\<lparr>import_batches := bs\<rparr>) = Inr (m', s2)" for b lines m m' s2 bs
    using import_lines_by [OF that s1(2,1)] keys by (simp add: imported_by_def)
  show ?thesis
    unfolding commit_import_def Let_def
    by (intro sound_intros ok; (simp only: outcome.sel log_sound split: prod.split)?)
      (auto simp: log_sound dest!: lines_sound intro: leads_sound_frame [rotated 3])
qed

interpretation sound_leads: lead_invariant leads_sound
proof unfold_locales
  fix s t
  assume "lead_step s t" and ok: "leads_sound s"
  then show "leads_sound t"
    by cases (simp_all add: create_lead_sound commit_import_sound edit_steps_sound many_steps_sound delete_lead_sound
      setting_steps_sound status_steps_sound activity_steps_sound)
qed

end
