(* ===== verification/Lead_Workflow.thy ===== *)
theory Lead_Workflow
  imports Lead_Safety
begin

text \<open>
  What lead requests do when they return: when a score can be computed, how the status requests follow one another up
  to the conversion, and how an import accounts for its lines.
\<close>

section \<open>When a score cannot be computed\<close>

text \<open>A comparison raises only where it meets a not-a-number.\<close>

definition calm :: "score_rule_row \<Rightarrow> bool" where
  "calm r \<longleftrightarrow> (case rule_comparison_value r of None \<Rightarrow> True
     | Some c \<Rightarrow> python_decimal c \<notin> {Some Quiet_NaN, Some Signaling_NaN})"

definition rules_calm :: "crm \<Rightarrow> ident \<Rightarrow> bool" where
  "rules_calm s org \<longleftrightarrow> list_all calm (active_rules s org)"

lemma number_matches_calm: "target \<notin> {Quiet_NaN, Signaling_NaN} \<Longrightarrow> \<exists>b. number_matches operator m n target = Inr b"
  by (cases target) (auto simp: number_matches_def)

lemma score_rule_matches_calm:
  assumes "calm r" shows "\<exists>b. score_rule_matches f t x n source r = Inr b"
proof (cases "rule_comparison_value r")
  case (Some c)
  with assms have "python_decimal c \<notin> {Some Quiet_NaN, Some Signaling_NaN}" by (simp add: calm_def)
  then have "\<exists>b. value_matches f x field operator c v = Inr b" for field operator v
    by (cases "python_decimal c"; cases v) (auto simp: value_matches_def Let_def intro: number_matches_calm)
  with Some show ?thesis by (simp add: score_rule_matches_def Let_def)
qed (auto simp: score_rule_matches_def Let_def)

lemma custom_items_calm: "list_all calm rs \<Longrightarrow> \<exists>items. custom_items f t x n source rs = Inr items"
proof (induction rs)
  case (Cons r rs)
  then obtain items b where "custom_items f t x n source rs = Inr items" "score_rule_matches f t x n source r = Inr b"
    using score_rule_matches_calm [of r f t x n source] by auto
  then show ?case by (simp add: step_def)
qed simp

lemma recompute_calm:
  assumes "rules_calm s (lead_organization_id x)"
  obtains b c where "recompute_score f t s x = Inr (scored b c x)"
  using assms custom_items_calm [of "active_rules s (lead_organization_id x)" f t x "activity_count s x" "source_code_of s x"]
  unfolding recompute_score_def rules_calm_def by (auto simp: step_Inr Let_def)

text \<open>A rule that orders a count by a not-a-number makes every computation fail.\<close>

definition broken_rule :: "score_rule_row \<Rightarrow> bool" where
  "broken_rule r \<longleftrightarrow> rule_field r \<in> {''activity_count'', ''days_since_created''} \<and> rule_operator r \<in> {''gte'', ''lte''} \<and>
     (\<exists>c. rule_comparison_value r = Some c \<and> python_decimal c = Some Quiet_NaN)"

lemma broken_rule_raises: "broken_rule r \<Longrightarrow> score_rule_matches f t x n source r = Inl Internal_Error"
  by (auto simp: broken_rule_def score_rule_matches_def rule_value_of_def value_matches_def number_matches_def Let_def)

lemma number_matches_error: "number_matches operator m n target = Inl err \<Longrightarrow> err = Internal_Error"
  by (cases target) (simp_all add: number_matches_def split: if_splits)

lemma rule_matches_error: "score_rule_matches f t x n source r = Inl err \<Longrightarrow> err = Internal_Error"
  by (auto simp: score_rule_matches_def value_matches_def Let_def dest!: number_matches_error
      split: if_splits option.splits rule_value.splits)

lemma custom_items_broken:
  "r \<in> set rs \<Longrightarrow> broken_rule r \<Longrightarrow> custom_items f t x n source rs = Inl Internal_Error"
proof (induction rs)
  case (Cons q rs)
  show ?case
  proof (cases "score_rule_matches f t x n source q")
    case (Inl err)
    with rule_matches_error [OF Inl] show ?thesis by (simp add: step_def)
  next
    case (Inr b)
    with Cons.prems broken_rule_raises have "q \<noteq> r" by fastforce
    with Inr Cons show ?thesis by (simp add: step_def)
  qed
qed simp

lemma recompute_broken:
  assumes "r \<in> set (active_rules s (lead_organization_id x))" "broken_rule r"
  shows "recompute_score f t s x = Inl Internal_Error"
  using custom_items_broken [OF assms] by (simp add: recompute_score_def Let_def step_def)

text \<open>A request that raises and commits nothing.\<close>

definition refused :: "'s \<Rightarrow> ('s, 'a) outcome \<Rightarrow> bool" where
  "refused s h \<longleftrightarrow> (\<exists>err. h = Raise s err)"

lemma refused_intros:
  "(b \<Longrightarrow> refused s h) \<Longrightarrow> refused s (demand s b err h)"
  "(\<And>r. x = Some r \<Longrightarrow> refused s (k r)) \<Longrightarrow> refused s (fetch s x err k)"
  "(\<And>r. y = Inr r \<Longrightarrow> refused s (j r)) \<Longrightarrow> refused s (attempt s y j)"
  by (simp_all add: refused_def demand_def fetch_def attempt_def split: option.splits sum.splits)

lemma active_rules_same: "score_rules t = score_rules s \<Longrightarrow> active_rules t = active_rules s"
  by (simp add: active_rules_def fun_eq_iff)

lemma score_rules_sel [simp]:
  "score_rules (end_assignments e x s) = score_rules s" "score_rules (add_assignment e k x u actor s) = score_rules s"
  by (simp_all add: end_assignments_def add_assignment_def)

text \<open>What every request that computes a score meets while the score of no lead of the organization can be computed.\<close>

definition scores_broken :: "wording \<Rightarrow> crm \<Rightarrow> ident \<Rightarrow> bool" where
  "scores_broken f s org \<longleftrightarrow> (\<forall>u x t. lead_organization_id x = org \<and> score_rules t = score_rules s \<longrightarrow>
     recompute_score f u t x = Inl Internal_Error)"

lemma scores_brokenD:
  "scores_broken f s org \<Longrightarrow> lead_organization_id x = org \<Longrightarrow> score_rules t = score_rules s \<Longrightarrow>
   recompute_score f u t x = Inl Internal_Error"
  by (simp add: scores_broken_def)

lemma broken_steps:
  assumes broken: "scores_broken f s org"
  shows "lead_organization_id x' = org \<Longrightarrow> score_rules t = score_rules s \<Longrightarrow>
      status_changed f e k ctx org action notes extra x x' t = Inl Internal_Error"
    and "lead_organization_id x = org \<Longrightarrow> score_rules t = score_rules s \<Longrightarrow>
      activity_refreshed f e k ctx org action old new x t = Inl Internal_Error"
    and "lead_organization_id x = org \<Longrightarrow> rescore_all f u (x # xs) s = Inl Internal_Error"
    and "find_lead (base s) org i = Some x \<Longrightarrow> lead_organization_id x = org"
  by (simp_all add: status_changed_def activity_refreshed_def follow_up_refreshed_def scores_brokenD [OF broken] step_def) (auto dest: entityD)

lemma status_requests_broken:
  assumes broken: "scores_broken f s org"
  shows "refused s (transition_status f e ctx org i target notes s)" "refused s (qualify_lead f e ctx org i reason s)"
    "refused s (mark_lead_lost f e ctx org i rid notes s)" "refused s (convert_lead f e ctx org i lcv s)"
  by (simp only: transition_status_def qualify_lead_def mark_lead_lost_def convert_lead_def Let_def;
    intro refused_intros; simp add: broken_steps [OF broken] qualified_lead_def)+

lemma activity_requests_broken:
  assumes broken: "scores_broken f s org"
  shows "refused s (create_activity f e ctx org i acp s)" "refused s (update_activity f e ctx org i aid acp s)"
    "refused s (complete_follow_up f e ctx org i aid reason s)" "refused s (delete_activity f e ctx org i aid s)"
  by (simp only: create_activity_def update_activity_def complete_follow_up_def delete_activity_def Let_def;
    intro refused_intros; simp add: broken_steps [OF broken] active_since_def)+

lemma owner_requests_broken:
  assumes broken: "scores_broken f s org"
  shows "refused s (create_lead f e ctx org lc s)" "refused s (update_lead f e ctx org i lu s)"
    "refused s (assign_lead f e ctx org i user s)"
    "ids \<noteq> [] \<Longrightarrow> refused s (bulk_assign f e ctx org ids who s)"
proof -
  note steps = broken_steps [OF broken]
  have upd: "lead_organization_id (updated_lead lu x) = lead_organization_id x" for x by (simp add: updated_lead_def Let_def)
  show "refused s (create_lead f e ctx org lc s)" "refused s (update_lead f e ctx org i lu s)"
    "refused s (assign_lead f e ctx org i user s)"
    by (simp only: create_lead_def update_lead_def assign_lead_def Let_def; intro refused_intros; simp add: scores_brokenD [OF broken] steps(4) upd)+
  let ?xs = "filter (\<lambda>x. lead_organization_id x = org \<and> lead_id x \<in> set ids) (leads (base s))"
  assume "ids \<noteq> []"
  have "\<exists>err. assign_all f e 0 ctx org who ?xs s = Inl err" if "length ?xs = length ids"
  proof -
    from that \<open>ids \<noteq> []\<close> obtain y ys where xs: "?xs = y # ys" by (cases ?xs) auto
    then have "y \<in> set ?xs" by (simp only: list.set_intros)
    then have "lead_organization_id (owned_by (Some who) y) = org" by simp
    with xs show ?thesis by (simp add: scores_brokenD [OF broken] step_def)
  qed
  then show "refused s (bulk_assign f e ctx org ids who s)" unfolding bulk_assign_def Let_def by (intro refused_intros) auto
qed

lemma recompute_all_broken:
  assumes broken: "scores_broken f s org"
    and "x \<in> set (leads (base s))" "lead_organization_id x = org"
  shows "refused s (recompute_all_scores f e ctx org s)"
proof -
  let ?xs = "filter (\<lambda>x. lead_organization_id x = org) (leads (base s))"
  have "x \<in> set ?xs" using assms(2,3) by simp
  then obtain y ys where xs: "?xs = y # ys" by (cases ?xs) auto
  then have "y \<in> set ?xs" by (simp only: list.set_intros)
  then have "lead_organization_id y = org" by simp
  with broken_steps(3) [OF broken] xs show ?thesis
    by (simp add: recompute_all_scores_def Let_def attempt_def refused_def)
qed

section \<open>The way to a customer\<close>

text \<open>There are always fresh keys.\<close>

lemma fresh_leads_exist: "\<exists>e. fresh_leads e s"
proof -
  have "finite (lead_ids_used s)" by (simp add: lead_ids_used_def)
  then have "finite (length ` lead_ids_used s)" by simp
  then obtain m where m: "\<forall>i \<in> lead_ids_used s. length i \<le> m" by (auto simp: finite_nat_set_iff_bounded_le)
  let ?e = "\<lparr>now = 0, today = 0, utc_today = 0, uuid = \<lambda>n. replicate (Suc (m + n)) CHR ''x''\<rparr> :: env"
  have "inj (uuid ?e)" by (rule injI) (auto dest: arg_cong [where f = length])
  moreover have "uuid ?e n \<notin> lead_ids_used s" for n
  proof
    assume "uuid ?e n \<in> lead_ids_used s"
    with m have "length (uuid ?e n) \<le> m" by blast
    then show False by simp
  qed
  ultimately have "fresh_leads ?e s" unfolding fresh_leads_def by blast
  then show ?thesis ..
qed

lemma status_changed_progress:
  assumes x: "find_lead (base s) org i = Some x" "lead_id x' = lead_id x" "lead_organization_id x' = lead_organization_id x"
    and calm: "rules_calm s org" and t: "leads (base t) = leads (base s)" "score_rules t = score_rules s"
  obtains t' b c where "status_changed f e k ctx org action notes extra x x' t = Inr (t', scored b c (x'\<lparr>lead_last_activity_at := Some (now e)\<rparr>))"
    "find_lead (base t') org i = Some (scored b c (x'\<lparr>lead_last_activity_at := Some (now e)\<rparr>))"
    "customers (base t') = customers (base t)" "score_rules t' = score_rules s"
proof -
  note row = entityD [OF x(1)]
  let ?x = "x'\<lparr>lead_last_activity_at := Some (now e)\<rparr>"
  have "rules_calm t (lead_organization_id ?x)"
    using calm row x(3) by (simp add: rules_calm_def active_rules_same [OF t(2)])
  then obtain b c where y: "recompute_score f (now e) t ?x = Inr (scored b c ?x)" by (rule recompute_calm)
  let ?s = "log_crm [audit_entry e (uuid e (k + 1)) org ctx action ''lead'' (lead_id x) (Some (lead_snapshot x))
    (Some (lead_snapshot (scored b c ?x) @ extra))] (put_lead (scored b c ?x) (t\<lparr>lead_activities := lead_activities t @
         [status_activity e k (actor_user_id ctx) (lead_status x) notes x']\<rparr>))"
  have "status_changed f e k ctx org action notes extra x x' t = Inr (?s, scored b c ?x)"
    by (simp add: status_changed_def y step_def)
  moreover have "find_lead (base ?s) org i = Some (scored b c ?x)"
    using row x by (simp add: t entity_put_same [OF x(1)])
  ultimately show thesis by (rule that) (simp_all add: t)
qed

lemma assign_lead_calm:
  assumes x: "find_lead (base s) org i = Some x" "lead_status x \<noteq> Lead_CONVERTED" and calm: "rules_calm s org"
    and u: "find_user (base s) org u = Some v" "user_is_active v" "u \<noteq> []"
  obtains as b c where "committed (assign_lead f e ctx org i (Some u) s) =
    log_crm as (put_lead (scored b c (owned_by (Some u) x)) (set_assignment e 0 (actor_user_id ctx) x (Some u) s))"
proof -
  have "lead_organization_id (owned_by (Some u) x) = org" using entityD [OF x(1)] by simp
  with calm obtain b c where "recompute_score f (now e) s (owned_by (Some u) x) = Inr (scored b c (owned_by (Some u) x))"
    by (metis recompute_calm)
  with x u show thesis
    by (intro that) (simp add: assign_lead_def demand_def fetch_def attempt_def active_assignee_def need_def require_def step_def
        given_def no_blank_def Let_def)
qed

text \<open>The contacts and the origin of a lead, which the status requests keep.\<close>

definition same_contacts :: "lead_row \<Rightarrow> lead_row \<Rightarrow> bool" where
  "same_contacts x y \<longleftrightarrow> lead_email y = lead_email x \<and> lead_phone y = lead_phone x"

definition moves :: "crm \<Rightarrow> crm \<Rightarrow> ident \<Rightarrow> ident \<Rightarrow> lead_row \<Rightarrow> lead_status \<Rightarrow> bool" where
  "moves s t org i x st \<longleftrightarrow> lead_step s t \<and> score_rules t = score_rules s \<and>
     (\<exists>y. find_lead (base t) org i = Some y \<and> lead_status y = st \<and> same_contacts x y)"

lemma contact_again:
  assumes x: "find_lead (base s) org i = Some x" "lead_status x \<in> {Lead_DISQUALIFIED, Lead_LOST}" and calm: "rules_calm s org"
  shows "\<exists>t. moves s t org i x Lead_CONTACTED \<and> customers (base t) = customers (base s)"
proof -
  fix f :: wording and ctx :: mutation_context
  obtain e where e: "fresh_leads e s" using fresh_leads_exist by blast
  obtain t b c where t: "status_changed f e 0 ctx org ''lead.status_changed'' None [] x (x\<lparr>lead_status := Lead_CONTACTED\<rparr>) s =
      Inr (t, scored b c (x\<lparr>lead_status := Lead_CONTACTED, lead_last_activity_at := Some (now e)\<rparr>))"
    "find_lead (base t) org i = Some (scored b c (x\<lparr>lead_status := Lead_CONTACTED, lead_last_activity_at := Some (now e)\<rparr>))"
    "customers (base t) = customers (base s)" "score_rules t = score_rules s"
    by (rule status_changed_progress [OF x(1) _ _ calm, where x' = "x\<lparr>lead_status := Lead_CONTACTED\<rparr>" and t = s]) simp_all
  have "ensure_transition (lead_status x) Lead_CONTACTED = Inr ()"
    using x(2) by (auto simp: ensure_transition_def require_def)
  with t(1) x(1) have "committed (transition_status f e ctx org i Lead_CONTACTED None s) = t"
    by (simp add: transition_status_def demand_def fetch_def attempt_def)
  with lead_step.moved [OF e] have "lead_step s t" by metis
  with t show ?thesis by (auto simp: moves_def same_contacts_def)
qed

lemma qualifies:
  assumes x: "find_lead (base s) org i = Some x" "lead_status x \<in> {Lead_NEW, Lead_ASSIGNED, Lead_ATTEMPTED, Lead_CONTACTED}"
    and calm: "rules_calm s org"
  shows "\<exists>t. moves s t org i x Lead_QUALIFIED \<and> customers (base t) = customers (base s)"
proof -
  fix f :: wording and ctx :: mutation_context
  obtain e where e: "fresh_leads e s" using fresh_leads_exist by blast
  let ?y = "qualified_lead e [] x"
  obtain t b c where t: "status_changed f e 0 ctx org ''lead.qualified'' (Some []) [] x ?y s =
      Inr (t, scored b c (?y\<lparr>lead_last_activity_at := Some (now e)\<rparr>))"
    "find_lead (base t) org i = Some (scored b c (?y\<lparr>lead_last_activity_at := Some (now e)\<rparr>))"
    "customers (base t) = customers (base s)" "score_rules t = score_rules s"
    by (rule status_changed_progress [OF x(1) _ _ calm, where x' = ?y and t = s]) (simp_all add: qualified_lead_def)
  have "ensure_transition (lead_status x) Lead_QUALIFIED = Inr ()"
    using x(2) by (auto simp: ensure_transition_def require_def)
  with t(1) x(1) have "committed (qualify_lead f e ctx org i [] s) = t"
    by (simp add: qualify_lead_def fetch_def attempt_def)
  with lead_step.became_qualified [OF e] have "lead_step s t" by metis
  with t show ?thesis by (auto simp: moves_def same_contacts_def qualified_lead_def)
qed

lemma converts:
  assumes x: "find_lead (base s) org i = Some x" "lead_status x = Lead_QUALIFIED" and calm: "rules_calm s org"
    and contact: "given (lead_email x) \<noteq> None \<or> given (lead_phone x) \<noteq> None" and new: "customer_from s org i = None"
  shows "\<exists>t c. moves s t org i x Lead_CONVERTED \<and> customers (base t) = customers (base s) @ [c] \<and>
    cust_organization_id c = org \<and> cust_converted_from_lead_id c = Some i \<and> cust_email c = lead_email x \<and> cust_phone c = lead_phone x"
proof -
  fix f :: wording and ctx :: mutation_context
  obtain e where e: "fresh_leads e s" using fresh_leads_exist by blast
  let ?p = "\<lparr>lcv_full_name = None, lcv_email = None, lcv_phone = None\<rparr>"
  let ?c = "customer_of_lead e org ?p x" and ?y = "x\<lparr>lead_status := Lead_CONVERTED, lead_converted_at := Some (now e)\<rparr>"
  let ?s = "on_base (\<lambda>d. d\<lparr>customers := customers d @ [?c]\<rparr>) s"
  have c: "cust_email ?c = lead_email x" "cust_phone ?c = lead_phone x" "cust_organization_id ?c = org"
    "cust_converted_from_lead_id ?c = Some i"
    using entityD [OF x(1)] by (simp_all add: customer_of_lead_def or_else_def given_def Let_def)
  obtain t b d where t: "status_changed f e 1 ctx org ''lead.converted'' None [(''customer_id'', JStr (cust_id ?c))] x ?y ?s =
      Inr (t, scored b d (?y\<lparr>lead_last_activity_at := Some (now e)\<rparr>))"
    "find_lead (base t) org i = Some (scored b d (?y\<lparr>lead_last_activity_at := Some (now e)\<rparr>))"
    "customers (base t) = customers (base ?s)" "score_rules t = score_rules s"
    by (rule status_changed_progress [OF x(1) _ _ calm, where x' = ?y and t = ?s]) simp_all
  with x contact new entityD [OF x(1)] have "committed (convert_lead f e ctx org i ?p s) = t"
    by (simp add: convert_lead_def demand_def fetch_def attempt_def Let_def c)
  with lead_step.converted [OF e] have "lead_step s t" by metis
  with t c show ?thesis by (auto simp: moves_def same_contacts_def intro!: exI [of _ t] exI [of _ ?c])
qed


section \<open>Imports\<close>

definition duplicate_line :: "row_result \<times> parsed_row \<Rightarrow> bool" where
  "duplicate_line line \<longleftrightarrow> \<not> isl (snd line) \<and> rr_status (fst line) = Row_duplicate"

lemma import_line_skips:
  assumes "import_line f e k ctx org batch skip line (m, s) = Inr (m', s')"
  shows "im_skipped m' = im_skipped m + (if skip \<and> duplicate_line line then 1 else 0)"
proof (cases "snd line")
  case (Inl msg)
  with assms show ?thesis by (cases line) (auto simp: import_line_def duplicate_line_def)
next
  case (Inr r)
  obtain res where line: "line = (res, Inr r)" using Inr by (cases line) simp
  show ?thesis
  proof (cases "rr_status res = Row_duplicate \<and> skip")
    case True
    with assms show ?thesis by (auto simp: line import_line_def duplicate_line_def)
  next
    case False
    with assms show ?thesis
      unfolding line import_line_def Let_def
      by (auto simp: duplicate_line_def step_Inr simp del: audit_sel split: if_splits)
  qed
qed

lemma import_lines_skip:
  "import_lines f e k ctx org batch skip lines (m, s) = Inr (m', s') \<Longrightarrow>
   im_skipped m' = im_skipped m + (if skip then count_rows duplicate_line lines else 0)"
proof (induction lines arbitrary: k m s)
  case (Cons line lines)
  then obtain m1 s1 where "import_line f e k ctx org batch skip line (m, s) = Inr (m1, s1)"
    "import_lines f e (k + 3) ctx org batch skip lines (m1, s1) = Inr (m', s')" by (auto simp: step_Inr)
  from import_line_skips [OF this(1)] Cons.IH [OF this(2)] show ?case by (simp add: count_rows_def)
qed (simp add: count_rows_def)

lemma validated_duplicates:
  "count_rows duplicate_line (zip (validate_rows s org n seen rows) rows) =
   count_rows (\<lambda>r. rr_status r = Row_duplicate) (validate_rows s org n seen rows)"
  by (induction s org n seen rows rule: validate_rows.induct) (simp_all add: count_rows_def duplicate_line_def Let_def)

lemma length_validated [simp]: "length (validate_rows s org n seen rows) = length rows"
  by (induction s org n seen rows rule: validate_rows.induct) (simp_all add: Let_def)

lemma commit_import_returns:
  assumes "commit_import f e ctx org filename rows skip s = Return t v"
  obtains m s2 b where "import_lines f e 2 ctx org (uuid e 0) skip (zip (validate_rows s org 2 [] rows) rows)
      (\<lparr>im_imported = 0, im_skipped = 0, im_errors = []\<rparr>, s\<lparr>import_batches := import_batches s @ [new_batch e org (actor_user_id ctx) filename (length rows)]\<rparr>) =
      Inr (m, s2)"
    "leads (base t) = leads (base s2)" "ibv_batch v = finished_batch e m (new_batch e org (actor_user_id ctx) filename (length rows))"
    "ibv_errors v = im_errors m"
  using assms unfolding commit_import_def Let_def
  by (auto simp: attempt_Return import_batch_view_of_def finished_batch_def new_batch_def simp del: audit_sel split: prod.splits)

text \<open>The lines of a file that become a lead, and what happens to them when no score can be computed.\<close>

definition line_imports :: "crm \<Rightarrow> ident \<Rightarrow> bool \<Rightarrow> row_result \<times> parsed_row \<Rightarrow> bool" where
  "line_imports s org skip line = (case line of (res, row) \<Rightarrow> (case row of
     Inl _ \<Rightarrow> False
   | Inr r \<Rightarrow> \<not> (rr_status res = Row_duplicate \<and> skip) \<and> (given (ir_source_code r) = None \<or> import_source s org r \<noteq> None) \<and>
       (given (ir_owner_email r) = None \<or> import_owner s org r \<noteq> None)))"

lemma line_imports_same:
  assumes "lead_sources t = lead_sources s" "users (base t) = users (base s)"
  shows "line_imports t org skip = line_imports s org skip"
proof -
  have "import_source t org = import_source s org" "import_owner t org = import_owner s org"
    unfolding import_source_def import_owner_def assms by (rule refl)+
  then show ?thesis by (simp add: fun_eq_iff line_imports_def)
qed

lemma import_line_broken:
  assumes fails: "\<And>u x t. lead_organization_id x = org \<Longrightarrow> score_rules t = score_rules s \<Longrightarrow>
    recompute_score f u t x = Inl Internal_Error"
  shows "if line_imports s org skip line then import_line f e k ctx org batch skip line (m, s) = Inl Internal_Error
    else \<exists>m'. import_line f e k ctx org batch skip line (m, s) = Inr (m', s) \<and> im_imported m' = im_imported m"
proof -
  obtain res row where line: "line = (res, row)" by (cases line)
  show ?thesis
  proof (cases row)
    case (Inr r)
    show ?thesis
    proof (cases "line_imports s org skip line")
      case True
      then show ?thesis
        by (simp add: line Inr line_imports_def import_line_def Let_def fails step_def del: audit_sel)
    next
      case False
      then show ?thesis by (auto simp: line Inr line_imports_def import_line_def Let_def)
    qed
  qed (simp add: line line_imports_def import_line_def)
qed

lemma import_lines_broken:
  assumes fails: "\<And>u x t. lead_organization_id x = org \<Longrightarrow> score_rules t = score_rules s \<Longrightarrow>
    recompute_score f u t x = Inl Internal_Error"
  shows "if list_ex (line_imports s org skip) lines
    then import_lines f e k ctx org batch skip lines (m, s) = Inl Internal_Error
    else \<exists>m'. import_lines f e k ctx org batch skip lines (m, s) = Inr (m', s) \<and> im_imported m' = im_imported m"
proof (induction lines arbitrary: k m)
  case (Cons line lines)
  have one: "if line_imports s org skip line then import_line f e k ctx org batch skip line (m, s) = Inl Internal_Error
      else \<exists>m'. import_line f e k ctx org batch skip line (m, s) = Inr (m', s) \<and> im_imported m' = im_imported m"
    by (rule import_line_broken) (rule fails)
  show ?case
  proof (cases "line_imports s org skip line")
    case True
    with one show ?thesis by (simp add: step_def)
  next
    case False
    with one obtain m' where "import_line f e k ctx org batch skip line (m, s) = Inr (m', s)" "im_imported m' = im_imported m"
      by auto
    with Cons.IH [of "k + 3" m'] False show ?thesis by (auto simp: step_def split: if_splits)
  qed
qed simp

lemma commit_import_broken:
  assumes broken: "scores_broken f s org"
  shows "if list_ex (line_imports s org skip) (zip (validate_rows s org 2 [] rows) rows)
    then refused s (commit_import f e ctx org filename rows skip s)
    else \<exists>t v. commit_import f e ctx org filename rows skip s = Return t v \<and> leads (base t) = leads (base s) \<and>
      batch_imported_rows (ibv_batch v) = 0"
proof -
  let ?b = "new_batch e org (actor_user_id ctx) filename (length rows)"
  let ?s = "s\<lparr>import_batches := import_batches s @ [?b]\<rparr>" and ?lines = "zip (validate_rows s org 2 [] rows) rows"
  have same: "line_imports ?s org skip = line_imports s org skip" by (rule line_imports_same) simp_all
  have lines: "if list_ex (line_imports ?s org skip) ?lines
    then import_lines f e 2 ctx org (batch_id ?b) skip ?lines (\<lparr>im_imported = 0, im_skipped = 0, im_errors = []\<rparr>, ?s) = Inl Internal_Error
    else \<exists>m'. import_lines f e 2 ctx org (batch_id ?b) skip ?lines (\<lparr>im_imported = 0, im_skipped = 0, im_errors = []\<rparr>, ?s) = Inr (m', ?s) \<and>
      im_imported m' = im_imported \<lparr>im_imported = 0, im_skipped = 0, im_errors = []\<rparr>"
    by (rule import_lines_broken) (simp add: scores_brokenD [OF broken])
  note lines = lines [unfolded same]
  show ?thesis
  proof (cases "list_ex (line_imports s org skip) ?lines")
    case True
    with lines have "import_lines f e 2 ctx org (batch_id ?b) skip ?lines (\<lparr>im_imported = 0, im_skipped = 0, im_errors = []\<rparr>, ?s) =
      Inl Internal_Error" by (simp only: if_True)
    with True show ?thesis by (simp add: commit_import_def Let_def refused_def attempt_def)
  next
    case False
    with lines obtain m' where "import_lines f e 2 ctx org (batch_id ?b) skip ?lines
        (\<lparr>im_imported = 0, im_skipped = 0, im_errors = []\<rparr>, ?s) = Inr (m', ?s)" "im_imported m' = 0"
      by auto
    with False show ?thesis
      by (simp add: commit_import_def Let_def attempt_def import_batch_view_of_def finished_batch_def del: audit_sel)
  qed
qed

end
