(* ===== verification/Lead_Claims.thy ===== *)
theory Lead_Claims
  imports Lead_Workflow Account_Samples
begin

text \<open>
  The properties of the leads: what is derived from other tables stays in step with them, an open lead can become a
  customer, an import accounts for every line, and a rule that compares with \<^verbatim>\<open>NaN\<close> stops the service.
\<close>

section \<open>A sample\<close>

definition sample_lead :: "ident \<Rightarrow> lead_status \<Rightarrow> lead_row" where
  "sample_lead i st =
     \<lparr>lead_id = i, lead_organization_id = ''o'', lead_source_id = None, lead_owner_user_id = None, lead_branch_id = None,
      lead_lost_reason_id = None, lead_import_batch_id = None, lead_duplicate_of_lead_id = None, lead_full_name = i,
      lead_email = Some (i @ ''@x''), lead_phone = None, lead_alternate_phone = None, lead_normalized_email = Some (i @ ''@x''),
      lead_normalized_phone = None, lead_company_name = None, lead_preferred_location = None, lead_requirements = None,
      lead_budget_min = None, lead_budget_max = None, lead_status = st, lead_score = 0, lead_score_breakdown = None,
      lead_qualification_notes = None, lead_lost_notes = None, lead_qualified_at = None, lead_converted_at = None,
      lead_last_activity_at = None, lead_next_follow_up_at = None, lead_metadata_json = None, lead_created_at = 0\<rparr>"

definition sample_crm :: crm where
  "sample_crm = \<lparr>places = \<lparr>office = sample_office\<lparr>leads := [sample_lead ''l'' Lead_NEW, sample_lead ''k'' Lead_LOST]\<rparr>,
       branches = [], departments = [], teams = [], team_members = [], territories = []\<rparr>,
     crm_sheets = [], site_visits = [], lead_sources = [], lost_reasons = [], import_batches = [], score_rules = [],
     lead_assignments = [], lead_activities = [], lead_notes = []\<rparr>"

definition sample_wording :: wording where
  "sample_wording = \<lparr>amount_text = \<lambda>x field. [], decimal_text = \<lambda>t. t\<rparr>"

lemma sample_crm_base: "base sample_crm = sample_office\<lparr>leads := [sample_lead ''l'' Lead_NEW, sample_lead ''k'' Lead_LOST]\<rparr>"
  by (simp add: sample_crm_def)

lemma sample_crm_sound: "leads_sound sample_crm"
  by (simp add: leads_sound_def lead_sound_def owner_assigned_def active_assignments_def next_follow_up_def sample_crm_def
      sample_lead_def given_def)

lemma sample_crm_fresh: "fresh_leads (moment t ''n'') sample_crm"
proof -
  have "inj (uuid (moment t ''n''))" by (rule injI) (auto simp: moment_def dest: arg_cong [where f = length])
  moreover have "lead_ids_used sample_crm = {''l'', ''k''}"
    by (simp add: lead_ids_used_def sample_crm_def sample_office_def empty_database_def sample_lead_def)
  ultimately show ?thesis by (simp add: fresh_leads_def moment_def)
qed

section \<open>Derived data\<close>

text \<open>
  C29: Whatever the requests of the lead service (\<^verbatim>\<open>services/leads.py\<close>) do, the derived columns of every lead agree with
  the tables they come from: the score is between 0 and 100, the next follow-up is the earliest due date of the open
  follow-ups of the lead, and the lead has an owner if and only if it has an active assignment, of which it has at
  most one and to that owner. The property is one of this service alone: \<^verbatim>\<open>check_out\<close> of \<^verbatim>\<open>services/site_visits.py\<close>,
  which is not modelled, writes the follow-up date of the visit over that of the lead, whatever follow-ups are open.
\<close>

theorem leads_stay_in_step:
  assumes ok: "leads_sound s" and steps: "lead_step\<^sup>*\<^sup>* s t" and x: "x \<in> set (leads (base t))"
  shows "0 \<le> lead_score x \<and> lead_score x \<le> 100 \<and>
    lead_next_follow_up_at x = earliest (map act_due_at (filter (open_follow_up (lead_organization_id x) (lead_id x)) (lead_activities t))) \<and>
    map asg_assigned_user_id (filter (\<lambda>a. asg_organization_id a = lead_organization_id x \<and> asg_lead_id a = lead_id x \<and> asg_is_active a)
      (lead_assignments t)) = (case given (lead_owner_user_id x) of None \<Rightarrow> [] | Some u \<Rightarrow> [u])"
  using sound_leads.always [OF steps ok] x
  by (simp add: leads_sound_def lead_sound_def owner_assigned_def active_assignments_def next_follow_up_def)

text \<open>The new lead is assigned to \<open>v\<close> and then to \<open>u\<close>.\<close>

definition sample_given :: crm where
  "sample_given = committed (assign_lead sample_wording (moment 5 ''n'') office_manager ''o'' ''l'' (Some ''v'') sample_crm)"

lemma sample_crm_rules: "score_rules sample_crm = []" and sample_crm_rows:
    "find_lead (base sample_crm) ''o'' ''l'' = Some (sample_lead ''l'' Lead_NEW)"
    "find_lead (base sample_crm) ''o'' ''k'' = Some (sample_lead ''k'' Lead_LOST)"
    "find_user (base sample_crm) ''o'' ''v'' = Some (sample_account ''v'')" "customers (base sample_crm) = []"
  by (simp_all add: sample_crm_def sample_lead_def sample_office_def sample_account_def empty_database_def entity_Cons)

lemma sample_crm_calm: "rules_calm sample_crm org"
  by (simp add: rules_calm_def active_rules_def sample_crm_rules)

theorem leads_stay_in_step_witness:
  "\<exists>x \<in> set (leads (base sample_given)). lead_owner_user_id x = Some ''v'' \<and>
     map asg_assigned_user_id (filter (\<lambda>a. asg_organization_id a = lead_organization_id x \<and> asg_lead_id a = lead_id x \<and> asg_is_active a)
       (lead_assignments sample_given)) = [''v'']"
proof -
  have v: "user_is_active (sample_account ''v'')" "lead_status (sample_lead ''l'' Lead_NEW) \<noteq> Lead_CONVERTED"
    by (simp_all add: sample_account_def sample_lead_def)
  obtain as b c where t: "sample_given = log_crm as (put_lead (scored b c (owned_by (Some ''v'') (sample_lead ''l'' Lead_NEW)))
      (set_assignment (moment 5 ''n'') 0 (actor_user_id office_manager) (sample_lead ''l'' Lead_NEW) (Some ''v'') sample_crm))"
    unfolding sample_given_def
    by (rule assign_lead_calm [OF sample_crm_rows(1) v(2) sample_crm_calm sample_crm_rows(3) v(1)]) simp_all
  let ?x = "scored b c (owned_by (Some ''v'') (sample_lead ''l'' Lead_NEW))"
  have x: "?x \<in> set (leads (base sample_given))"
    by (simp add: t put_row_def sample_crm_base sample_lead_def)
  have "lead_step\<^sup>*\<^sup>* sample_crm sample_given"
    unfolding sample_given_def by (rule r_into_rtranclp, rule lead_assigned)
  with leads_stay_in_step [OF sample_crm_sound _ x] have "map asg_assigned_user_id (filter (\<lambda>a. asg_organization_id a = lead_organization_id ?x \<and>
      asg_lead_id a = lead_id ?x \<and> asg_is_active a) (lead_assignments sample_given)) = [''v'']"
    by (simp add: given_def)
  then show ?thesis by (intro bexI [OF _ x] conjI) simp_all
qed

section \<open>Conversion\<close>

text \<open>
  C30: The status machine has no dead end. From every database, a lead that is not converted, has an email or a
  phone and no customer yet can be turned into one by requests of the service, unless a rule compares with \<^verbatim>\<open>NaN\<close>:
  afterwards the lead is converted and exactly one customer stems from it, with the contacts of the lead.
\<close>

theorem open_lead_becomes_customer:
  assumes x: "find_lead (base s) org i = Some x" "lead_status x \<noteq> Lead_CONVERTED"
    and contact: "given (lead_email x) \<noteq> None \<or> given (lead_phone x) \<noteq> None"
    and new: "customer_from s org i = None" and calm: "rules_calm s org"
  shows "\<exists>t y c. lead_step\<^sup>*\<^sup>* s t \<and> find_lead (base t) org i = Some y \<and> lead_status y = Lead_CONVERTED \<and>
    filter (\<lambda>c. cust_organization_id c = org \<and> cust_converted_from_lead_id c = Some i) (customers (base t)) = [c] \<and>
    cust_email c = lead_email x \<and> cust_phone c = lead_phone x"
proof -
  define ready where "ready t y \<longleftrightarrow> lead_step\<^sup>*\<^sup>* s t \<and> rules_calm t org \<and> customers (base t) = customers (base s) \<and>
    find_lead (base t) org i = Some y \<and> same_contacts x y" for t y
  have go: "\<exists>t' y'. ready t' y' \<and> lead_status y' = st"
    if "ready t y" "\<exists>t'. moves t t' org i y st \<and> customers (base t') = customers (base t)" for t y st
    using that unfolding ready_def moves_def rules_calm_def same_contacts_def
    by (metis active_rules_same rtranclp.rtrancl_into_rtrancl)
  have start: "ready s x" using x calm by (simp add: ready_def same_contacts_def)
  obtain t1 y1 where t1: "ready t1 y1" "lead_status y1 \<in> {Lead_NEW, Lead_ASSIGNED, Lead_ATTEMPTED, Lead_CONTACTED, Lead_QUALIFIED}"
  proof (cases "lead_status x \<in> {Lead_DISQUALIFIED, Lead_LOST}")
    case True
    with go [OF start contact_again [OF x(1) _ calm]] that show ?thesis by blast
  next
    case False
    with start x(2) that show ?thesis by (cases "lead_status x") auto
  qed
  obtain t2 y2 where t2: "ready t2 y2" "lead_status y2 = Lead_QUALIFIED"
  proof (cases "lead_status y1 = Lead_QUALIFIED")
    case False
    with t1 have "\<exists>t. moves t1 t org i y1 Lead_QUALIFIED \<and> customers (base t) = customers (base t1)"
      by (intro qualifies) (auto simp: ready_def)
    with go [OF t1(1)] that show ?thesis by blast
  qed (use t1 that in blast)
  then have c: "customer_from t2 org i = None" "given (lead_email y2) \<noteq> None \<or> given (lead_phone y2) \<noteq> None"
    using new contact by (simp_all add: ready_def same_contacts_def customer_from_def)
  from t2 have "find_lead (base t2) org i = Some y2" "rules_calm t2 org" by (simp_all add: ready_def)
  from converts [OF this(1) t2(2) this(2) c(2,1)] obtain t c where t: "moves t2 t org i y2 Lead_CONVERTED"
    "customers (base t) = customers (base s) @ [c]" "cust_organization_id c = org" "cust_converted_from_lead_id c = Some i"
    "cust_email c = lead_email y2" "cust_phone c = lead_phone y2"
    using t2 by (auto simp: ready_def)
  have "filter (\<lambda>c. cust_organization_id c = org \<and> cust_converted_from_lead_id c = Some i) (customers (base s)) = []"
    using new by (auto simp: customer_from_def find_None filter_empty_conv)
  moreover have "lead_step\<^sup>*\<^sup>* s t" using t2(1) t(1) by (auto simp: ready_def moves_def)
  moreover have "cust_email c = lead_email x" "cust_phone c = lead_phone x"
    using t(5,6) t2(1) by (simp_all add: ready_def same_contacts_def)
  ultimately show ?thesis using t by (auto simp: moves_def)
qed

text \<open>The lost lead \<open>k\<close> needs three requests.\<close>

theorem open_lead_becomes_customer_witness:
  "\<exists>t y c. lead_step\<^sup>*\<^sup>* sample_crm t \<and> find_lead (base t) ''o'' ''k'' = Some y \<and> lead_status y = Lead_CONVERTED \<and>
    filter (\<lambda>c. cust_organization_id c = ''o'' \<and> cust_converted_from_lead_id c = Some ''k'') (customers (base t)) = [c] \<and>
    cust_email c = Some ''k@x'' \<and> cust_phone c = None"
proof -
  have "lead_status (sample_lead ''k'' Lead_LOST) \<noteq> Lead_CONVERTED" "given (lead_email (sample_lead ''k'' Lead_LOST)) \<noteq> None \<or>
      given (lead_phone (sample_lead ''k'' Lead_LOST)) \<noteq> None" "customer_from sample_crm ''o'' ''k'' = None"
    by (simp_all add: sample_lead_def given_def customer_from_def sample_crm_rows)
  from open_lead_becomes_customer [OF sample_crm_rows(2) this sample_crm_calm] show ?thesis
    by (simp add: sample_lead_def)
qed


section \<open>Imports\<close>

text \<open>
  C31: A committed import accounts for every line of the file exactly once, as imported, skipped or failed: as many
  leads as it reports are appended, all of this organization and batch, and no other lead changes. With
  \<^verbatim>\<open>skip_duplicates\<close> it skips exactly the lines that the preview shows as duplicates, without it none.
\<close>

theorem import_counts_every_line:
  assumes ok: "leads_sound s" and fresh: "fresh_leads e s" and keys: "[] \<notin> user_id ` set (users (base s))"
    and ret: "commit_import f e ctx org filename rows skip s = Return t v"
  shows "\<exists>xs. leads (base t) = leads (base s) @ xs \<and>
    list_all (\<lambda>x. lead_organization_id x = org \<and> lead_import_batch_id x = Some (batch_id (ibv_batch v))) xs \<and>
    batch_imported_rows (ibv_batch v) = int (length xs) \<and> batch_error_rows (ibv_batch v) = int (length (ibv_errors v)) \<and>
    batch_total_rows (ibv_batch v) = int (length rows) \<and>
    batch_total_rows (ibv_batch v) =
      batch_imported_rows (ibv_batch v) + batch_skipped_rows (ibv_batch v) + batch_error_rows (ibv_batch v) \<and>
    batch_skipped_rows (ibv_batch v) = (if skip then int (ip_duplicate_rows (preview_import s org rows)) else 0)"
  using ret
proof (rule commit_import_returns)
  fix m s2
  let ?b = "new_batch e org (actor_user_id ctx) filename (length rows)"
  let ?s = "s\<lparr>import_batches := import_batches s @ [?b]\<rparr>" and ?m = "\<lparr>im_imported = 0, im_skipped = 0, im_errors = []\<rparr>"
  assume lines: "import_lines f e 2 ctx org (uuid e 0) skip (zip (validate_rows s org 2 [] rows) rows) (?m, ?s) = Inr (m, s2)"
    and t: "leads (base t) = leads (base s2)" "ibv_batch v = finished_batch e m ?b" "ibv_errors v = im_errors m"
  have s: "leads_sound ?s" "fresh_from e 2 ?s"
    using fresh by (auto intro: leads_sound_frame [OF _ _ _ ok] simp: fresh_leads_def fresh_from_def lead_ids_used_def)
  from import_lines_by [OF lines s(2,1)] keys
  have "imported_by org (uuid e 0) (?m, ?s) (m, s2) (length rows)" by simp
  then obtain xs where xs: "leads (base s2) = leads (base s) @ xs" "im_imported m = length xs"
    "list_all (\<lambda>x. lead_organization_id x = org \<and> lead_import_batch_id x = Some (uuid e 0)) xs"
    "im_imported m + im_skipped m + length (im_errors m) = length rows"
    by (auto simp: imported_by_def)
  have "im_skipped m = (if skip then ip_duplicate_rows (preview_import s org rows) else 0)"
    using import_lines_skip [OF lines] by (simp add: validated_duplicates preview_import_def Let_def)
  with xs show ?thesis by (intro exI [of _ xs]) (auto simp: t finished_batch_def new_batch_def)
qed

text \<open>A line that is not readable, a lead that is there already, and a new one.\<close>

definition sample_line :: "string \<Rightarrow> import_row" where
  "sample_line email = \<lparr>ir_full_name = ''Ann'', ir_email = Some email, ir_phone = None, ir_source_code = None, ir_owner_email = Some ''v'',
     ir_preferred_location = None, ir_budget_min = None, ir_budget_max = None, ir_requirements = None\<rparr>"

definition sample_file :: "parsed_row list" where
  "sample_file = [Inl ''no name'', Inr (sample_line ''l@x''), Inr (sample_line ''ann@x'')]"

lemma sample_duplicates:
  "map (lead_id \<circ> fst) (duplicate_matches sample_crm ''o'' (given (Some ''l@x'')) None None) = [''l'']"
  "duplicate_matches sample_crm ''o'' (given (Some ''ann@x'')) None None = []"
  unfolding duplicate_matches_def sample_crm_base by code_simp+

lemma sample_results: "validate_rows sample_crm ''o'' 2 [] sample_file =
  [\<lparr>rr_row_number = 2, rr_status = Row_error, rr_message = Some ''no name'', rr_duplicate_lead_ids = []\<rparr>,
   \<lparr>rr_row_number = 3, rr_status = Row_duplicate, rr_message = Some ''Existing lead has the same email or phone'', rr_duplicate_lead_ids = [''l'']\<rparr>,
   \<lparr>rr_row_number = 4, rr_status = Row_ready, rr_message = None, rr_duplicate_lead_ids = []\<rparr>]"
proof -
  have differ: "contact_of (sample_line ''ann@x'') \<noteq> contact_of (sample_line ''l@x'')"
    unfolding contact_of_def sample_line_def by code_simp
  have "duplicate_matches sample_crm ''o'' (given (Some ''l@x'')) None None \<noteq> []" using sample_duplicates(1) by auto
  with sample_duplicates differ show ?thesis by (simp add: sample_file_def sample_line_def Let_def)
qed


lemma sample_owner: "import_owner (sample_crm\<lparr>import_batches := bs\<rparr>) ''o'' (sample_line ''ann@x'') = Some (sample_account ''v'')"
proof -
  have "users (base sample_crm) = [sample_account ''u'', sample_account ''v'']" by (simp add: sample_crm_base sample_office_def)
  moreover have "lower (user_email (sample_account ''v'')) = lower ''v''" by (simp add: sample_account_def)
  ultimately show ?thesis by (simp add: import_owner_def sample_line_def given_def) (simp add: sample_account_def)
qed

lemma sample_import:
  "\<exists>t v. commit_import sample_wording (moment 5 ''n'') office_manager ''o'' ''file'' sample_file True sample_crm = Return t v \<and>
     batch_error_rows (ibv_batch v) = 1"
proof -
  let ?e = "moment 5 ''n''" and ?p = "imported_lead (sample_line ''ann@x'') None (Some (sample_account ''v''))"
  let ?s = "sample_crm\<lparr>import_batches := [new_batch ?e ''o'' (actor_user_id office_manager) ''file'' 3]\<rparr>"
  let ?x = "new_lead ?e 8 ''o'' (Some (uuid ?e 0)) ?p"
  have "rules_calm (add_lead ?x ?s) (lead_organization_id ?x)"
    by (simp add: rules_calm_def active_rules_def sample_crm_rules)
  then obtain b c where y: "recompute_score sample_wording (now ?e) (add_lead ?x ?s) ?x = Inr (scored b c ?x)" by (rule recompute_calm)
  have code: "given (ir_source_code (sample_line ''ann@x'')) = None" "import_source t ''o'' (sample_line ''ann@x'') = None" for t
    by (simp_all add: sample_line_def import_source_def given_def)
  have three: "length sample_file = 3" "import_batches sample_crm = []"
    and batch: "batch_id (new_batch ?e ''o'' (actor_user_id office_manager) ''file'' 3) = uuid ?e 0"
    by (simp_all add: sample_file_def sample_crm_def new_batch_def)
  have lines: "\<exists>s'. import_lines sample_wording ?e 2 office_manager ''o'' (uuid ?e 0) True (zip (validate_rows sample_crm ''o'' 2 [] sample_file) sample_file)
      (\<lparr>im_imported = 0, im_skipped = 0, im_errors = []\<rparr>, ?s) =
    Inr (\<lparr>im_imported = 1, im_skipped = 1, im_errors = [(2, Some ''no name'')]\<rparr>, s')"
    unfolding sample_results by (simp add: sample_file_def import_line_def code sample_owner y [unfolded moment_now] step_def Let_def)
  then show ?thesis
    unfolding commit_import_def Let_def three batch append_Nil
    by (auto simp: attempt_def import_batch_view_of_def finished_batch_def)
qed

theorem import_counts_every_line_witness:
  "\<exists>t v. commit_import sample_wording (moment 5 ''n'') office_manager ''o'' ''file'' sample_file True sample_crm = Return t v \<and>
     length (leads (base t)) = 3 \<and> batch_total_rows (ibv_batch v) = 3 \<and> batch_imported_rows (ibv_batch v) = 1 \<and>
     batch_skipped_rows (ibv_batch v) = 1"
proof -
  obtain t v where ret: "commit_import sample_wording (moment 5 ''n'') office_manager ''o'' ''file'' sample_file True sample_crm = Return t v"
    "batch_error_rows (ibv_batch v) = 1" using sample_import by blast
  have "[] \<notin> user_id ` set (users (base sample_crm))"
    by (simp add: sample_crm_base sample_office_def sample_account_def)
  from import_counts_every_line [OF sample_crm_sound sample_crm_fresh this ret(1)]
  obtain xs where xs: "leads (base t) = leads (base sample_crm) @ xs" "batch_imported_rows (ibv_batch v) = int (length xs)"
    "batch_total_rows (ibv_batch v) = int (length sample_file)"
    "batch_total_rows (ibv_batch v) = batch_imported_rows (ibv_batch v) + batch_skipped_rows (ibv_batch v) + batch_error_rows (ibv_batch v)"
    "batch_skipped_rows (ibv_batch v) = int (ip_duplicate_rows (preview_import sample_crm ''o'' sample_file))" by auto
  have "ip_duplicate_rows (preview_import sample_crm ''o'' sample_file) = 1"
    by (simp add: preview_import_def sample_results count_rows_def Let_def)
  then have "batch_skipped_rows (ibv_batch v) = 1" "batch_total_rows (ibv_batch v) = 3" "length (leads (base t)) = 3"
      "batch_imported_rows (ibv_batch v) = 1"
    using xs ret(2) by (simp_all add: sample_file_def sample_crm_base)
  with ret(1) show ?thesis by blast
qed


section \<open>A rule that stops the service\<close>

text \<open>
  C32: The validation of a score rule accepts \<^verbatim>\<open>NaN\<close> as the value that a count is compared with, and the comparison
  raises an exception that nothing catches. While the rule stays as it is created, every request of the organization that computes a score fails
  and changes nothing: no lead can be captured, edited, assigned (alone or in bulk), moved, qualified, lost or
  converted, no activity recorded or removed, the scores cannot be recomputed, and a file with at least one line that
  would become a lead cannot be imported (one without is, and adds no lead).
\<close>

theorem nan_rule_stops_leads:
  assumes accepted: "validated_rule q = Some p" and active: "srp_is_active p"
    and count: "srp_field p \<in> {''activity_count'', ''days_since_created''}" "srp_operator p \<in> {''gte'', ''lte''}"
    and nan: "srp_comparison_value p = Some c" "python_decimal c = Some Quiet_NaN"
    and created: "create_score_rule e ctx org p s = Return t r"
  shows "refused t (create_lead f e' ctx' org lc t) \<and> refused t (update_lead f e' ctx' org i lu t) \<and>
    refused t (assign_lead f e' ctx' org i user t) \<and> refused t (transition_status f e' ctx' org i target notes t) \<and>
    refused t (qualify_lead f e' ctx' org i reason t) \<and> refused t (mark_lead_lost f e' ctx' org i rid notes t) \<and>
    refused t (convert_lead f e' ctx' org i lcv t) \<and> refused t (create_activity f e' ctx' org i acp t) \<and>
    refused t (update_activity f e' ctx' org i aid acp t) \<and> refused t (complete_follow_up f e' ctx' org i aid reason t) \<and>
    refused t (delete_activity f e' ctx' org i aid t) \<and>
    (ids \<noteq> [] \<longrightarrow> refused t (bulk_assign f e' ctx' org ids who t)) \<and>
    (if list_ex (line_imports t org skip) (zip (validate_rows t org 2 [] rows) rows)
     then refused t (commit_import f e' ctx' org filename rows skip t)
     else \<exists>t' v. commit_import f e' ctx' org filename rows skip t = Return t' v \<and> leads (base t') = leads (base t) \<and>
       batch_imported_rows (ibv_batch v) = 0) \<and>
    ((\<exists>x \<in> set (leads (base t)). lead_organization_id x = org) \<longrightarrow> refused t (recompute_all_scores f e' ctx' org t))"
proof -
  from created have rules: "score_rules t = score_rules s @ [r]" "rule_organization_id r = org" "rule_is_active r"
    "rule_field r = srp_field p" "rule_operator r = srp_operator p" "rule_comparison_value r = srp_comparison_value p"
    using active unfolding create_score_rule_def by (auto simp: Let_def demand_Return)
  then have r: "r \<in> set (active_rules t org)" "broken_rule r" using count nan by (auto simp: active_rules_def broken_rule_def)
  then have broken: "scores_broken f t org"
    using recompute_broken [of r] by (auto simp: scores_broken_def dest: active_rules_same)
  note requests = status_requests_broken [OF broken] activity_requests_broken [OF broken] owner_requests_broken [OF broken]
    commit_import_broken [OF broken]
  show ?thesis by (intro conjI impI requests) (use recompute_all_broken [OF broken] in blast)+
qed

text \<open>A rule for busy leads, whose threshold was left as \<open>nan\<close>.\<close>

definition sample_rule :: score_rule_payload where
  "sample_rule = \<lparr>srp_name = ''Busy'', srp_field = ''activity_count'', srp_operator = ''gte'', srp_comparison_value = Some ''nan'',
     srp_points = 10, srp_priority = 1, srp_is_active = True\<rparr>"

lemma sample_rule_accepted: "validated_rule sample_rule = Some sample_rule" "python_decimal ''nan'' = Some Quiet_NaN"
  unfolding sample_rule_def by code_simp+

theorem nan_rule_stops_leads_witness:
  "\<exists>t r. create_score_rule (moment 5 ''n'') office_manager ''o'' sample_rule sample_crm = Return t r \<and>
     refused t (assign_lead sample_wording (moment 6 ''m'') office_manager ''o'' ''l'' (Some ''v'') t) \<and>
     refused t (recompute_all_scores sample_wording (moment 6 ''m'') office_manager ''o'' t)"
proof -
  have fields: "srp_is_active sample_rule" "srp_field sample_rule \<in> {''activity_count'', ''days_since_created''}"
    "srp_operator sample_rule \<in> {''gte'', ''lte''}" "srp_comparison_value sample_rule = Some ''nan''"
    by (simp_all add: sample_rule_def)
  have "rule_name_free sample_crm ''o'' i n" for i n by (simp add: rule_name_free_def sample_crm_rules)
  then obtain t r where t: "create_score_rule (moment 5 ''n'') office_manager ''o'' sample_rule sample_crm = Return t r"
      "leads (base t) = leads (base sample_crm)"
    by (simp add: create_score_rule_def demand_def Let_def)
  have busy: "\<exists>x \<in> set (leads (base t)). lead_organization_id x = ''o''"
    unfolding t(2) by (simp add: sample_crm_base sample_lead_def)
  note stops = nan_rule_stops_leads [OF sample_rule_accepted(1) fields sample_rule_accepted(2) t(1)]
  have "refused t (assign_lead sample_wording (moment 6 ''m'') office_manager ''o'' ''l'' (Some ''v'') t)"
    by (rule stops [THEN conjunct2, THEN conjunct2, THEN conjunct1])
  moreover have "refused t (recompute_all_scores sample_wording (moment 6 ''m'') office_manager ''o'' t)"
    by (rule stops [THEN conjunct2, THEN conjunct2, THEN conjunct2, THEN conjunct2, THEN conjunct2, THEN conjunct2,
      THEN conjunct2, THEN conjunct2, THEN conjunct2, THEN conjunct2, THEN conjunct2, THEN conjunct2, THEN conjunct2,
      THEN mp, OF busy])
  ultimately show ?thesis using t(1) by blast
qed

end
