(* ===== verification/Customers.thy ===== *)
theory Customers
  imports Lead_Tables Lead_Activities
begin

text \<open>
  The tables that the customer service adds to those of the leads: the activities of a customer
  (\<^verbatim>\<open>models/crm.py\<close>), and the agreements, possessions and service requests that its overview shows
  (\<^verbatim>\<open>models/revenue.py\<close>, \<^verbatim>\<open>models/post_sales.py\<close>, \<^verbatim>\<open>models/operations.py\<close>). The column \<^verbatim>\<open>updated_at\<close> is left out.

  Customers (\<^verbatim>\<open>services/customers.py\<close>, \<^verbatim>\<open>schemas/customers.py\<close>): the records and their duplicates, the activities, and
  the overview of everything that belongs to a customer. Each payload is the one that the schema has validated.
\<close>

section \<open>Enumerations\<close>

datatype agreement_status =
  Agreement_DRAFT | Agreement_ISSUED | Agreement_SIGNED | Agreement_REGISTERED
  | Agreement_TERMINATED

primrec agreement_status_value :: "agreement_status \<Rightarrow> string" where
  "agreement_status_value Agreement_DRAFT = ''DRAFT''"
| "agreement_status_value Agreement_ISSUED = ''ISSUED''"
| "agreement_status_value Agreement_SIGNED = ''SIGNED''"
| "agreement_status_value Agreement_REGISTERED = ''REGISTERED''"
| "agreement_status_value Agreement_TERMINATED = ''TERMINATED''"

datatype possession_status =
  Possession_PENDING | Possession_OFFERED | Possession_SCHEDULED | Possession_COMPLETED
  | Possession_DEFERRED

primrec possession_status_value :: "possession_status \<Rightarrow> string" where
  "possession_status_value Possession_PENDING = ''PENDING''"
| "possession_status_value Possession_OFFERED = ''OFFERED''"
| "possession_status_value Possession_SCHEDULED = ''SCHEDULED''"
| "possession_status_value Possession_COMPLETED = ''COMPLETED''"
| "possession_status_value Possession_DEFERRED = ''DEFERRED''"

datatype ticket_status =
  Ticket_OPEN | Ticket_ASSIGNED | Ticket_IN_PROGRESS | Ticket_WAITING_FOR_CUSTOMER
  | Ticket_RESOLVED | Ticket_CLOSED

primrec ticket_status_value :: "ticket_status \<Rightarrow> string" where
  "ticket_status_value Ticket_OPEN = ''OPEN''"
| "ticket_status_value Ticket_ASSIGNED = ''ASSIGNED''"
| "ticket_status_value Ticket_IN_PROGRESS = ''IN_PROGRESS''"
| "ticket_status_value Ticket_WAITING_FOR_CUSTOMER = ''WAITING_FOR_CUSTOMER''"
| "ticket_status_value Ticket_RESOLVED = ''RESOLVED''"
| "ticket_status_value Ticket_CLOSED = ''CLOSED''"

datatype service_priority =
  Priority_LOW | Priority_MEDIUM | Priority_HIGH | Priority_URGENT

primrec service_priority_value :: "service_priority \<Rightarrow> string" where
  "service_priority_value Priority_LOW = ''LOW''"
| "service_priority_value Priority_MEDIUM = ''MEDIUM''"
| "service_priority_value Priority_HIGH = ''HIGH''"
| "service_priority_value Priority_URGENT = ''URGENT''"

primrec customer_status_value :: "customer_status \<Rightarrow> string" where
  "customer_status_value Customer_PROSPECT = ''PROSPECT''"
| "customer_status_value Customer_ACTIVE = ''ACTIVE''"
| "customer_status_value Customer_INACTIVE = ''INACTIVE''"
| "customer_status_value Customer_BLOCKED = ''BLOCKED''"

section \<open>Rows\<close>

record customer_activity_row =
  cact_id :: ident
  cact_organization_id :: ident
  cact_customer_id :: ident
  cact_performed_by_user_id :: "ident option"
  cact_activity_type :: activity_type
  cact_subject :: string
  cact_notes :: "string option"
  cact_channel :: "string option"
  cact_direction :: "string option"
  cact_occurred_at :: timestamp
  cact_created_at :: timestamp

record agreement_row =
  agr_id :: ident
  agr_organization_id :: ident
  agr_booking_id :: ident
  agr_issued_by_user_id :: "ident option"
  agr_signed_by_user_id :: "ident option"
  agr_registered_by_user_id :: "ident option"
  agr_agreement_number :: string
  agr_status :: agreement_status
  agr_issued_at :: "timestamp option"
  agr_signed_at :: "timestamp option"
  agr_registered_at :: "timestamp option"
  agr_storage_key :: "string option"
  agr_file_name :: "string option"
  agr_content_type :: "string option"
  agr_size_bytes :: "int option"
  agr_checksum_sha256 :: "string option"
  agr_registration_number :: "string option"
  agr_notes :: "string option"
  agr_created_at :: timestamp

record possession_row =
  poss_id :: ident
  poss_organization_id :: ident
  poss_booking_id :: ident
  poss_customer_id :: ident
  poss_unit_id :: ident
  poss_post_booking_case_id :: "ident option"
  poss_readiness_override_id :: "ident option"
  poss_offered_by_user_id :: "ident option"
  poss_scheduled_by_user_id :: "ident option"
  poss_completed_by_user_id :: "ident option"
  poss_status :: possession_status
  poss_offered_at :: "timestamp option"
  poss_scheduled_at :: "timestamp option"
  poss_completed_at :: "timestamp option"
  poss_notes :: "string option"
  poss_created_at :: timestamp

record service_request_row =
  sreq_id :: ident
  sreq_organization_id :: ident
  sreq_customer_id :: "ident option"
  sreq_tenant_id :: "ident option"
  sreq_project_id :: "ident option"
  sreq_unit_id :: "ident option"
  sreq_category_id :: "ident option"
  sreq_sla_policy_id :: "ident option"
  sreq_opened_by_user_id :: "ident option"
  sreq_assigned_user_id :: "ident option"
  sreq_assigned_by_user_id :: "ident option"
  sreq_resolved_by_user_id :: "ident option"
  sreq_closed_by_user_id :: "ident option"
  sreq_request_number :: string
  sreq_category :: string
  sreq_priority :: service_priority
  sreq_status :: ticket_status
  sreq_subject :: string
  sreq_description :: string
  sreq_opened_at :: timestamp
  sreq_response_due_at :: "timestamp option"
  sreq_resolution_due_at :: "timestamp option"
  sreq_escalation_due_at :: "timestamp option"
  sreq_first_responded_at :: "timestamp option"
  sreq_last_customer_reply_at :: "timestamp option"
  sreq_last_agent_reply_at :: "timestamp option"
  sreq_resolution_summary :: "string option"
  sreq_closure_notes :: "string option"
  sreq_is_escalated :: bool
  sreq_resolved_at :: "timestamp option"
  sreq_closed_at :: "timestamp option"
  sreq_created_at :: timestamp

record clients =
  sales_desk :: crm
  customer_activities :: "customer_activity_row list"
  agreements :: "agreement_row list"
  possessions :: "possession_row list"
  service_requests :: "service_request_row list"

abbreviation store :: "clients \<Rightarrow> database" where
  "store s \<equiv> base (sales_desk s)"

definition in_store :: "(database \<Rightarrow> database) \<Rightarrow> clients \<Rightarrow> clients" where
  "in_store f s = s\<lparr>sales_desk := on_base f (sales_desk s)\<rparr>"

section \<open>Contacts\<close>

text \<open>
  \<^verbatim>\<open>_normalize_email\<close> and \<^verbatim>\<open>_normalize_phone\<close> of this service: other than in \<open>normalize_phone\<close> of the leads, only the
  last ten digits count.
\<close>

definition customer_email_key :: "string option \<Rightarrow> string option" where
  "customer_email_key x = map_option (\<lambda>t. lower (strip t)) (given x)"

definition customer_phone_key :: "string option \<Rightarrow> string option" where
  "customer_phone_key x = map_option (\<lambda>t. let ds = filter is_digit t in
     if 10 \<le> length ds then drop (length ds - 10) ds else ds) (given x)"

text \<open>\<^verbatim>\<open>_duplicate_ids\<close>\<close>

definition duplicate_ids ::
  "clients \<Rightarrow> ident \<Rightarrow> string option \<Rightarrow> string option \<Rightarrow> ident option \<Rightarrow> ident list" where
  "duplicate_ids s org email phone except =
     (let m = given (customer_email_key email); n = given (customer_phone_key phone) in
      map cust_id (filter (\<lambda>c. cust_organization_id c = org \<and>
        (same_contact m (cust_normalized_email c) \<or> same_contact n (cust_normalized_phone c)) \<and>
        opt_all (\<lambda>i. cust_id c \<noteq> i) (given except)) (customers (store s))))"

section \<open>Views\<close>

record customer_view =
  cv_customer :: customer_row
  cv_owner_name :: "string option"
  cv_branch_name :: "string option"
  cv_activity_count :: nat
  cv_booking_count :: nat

definition customer_view_of :: "clients \<Rightarrow> ident \<Rightarrow> string list \<Rightarrow> customer_row \<Rightarrow> customer_view" where
  "customer_view_of s org granted c =
     \<lparr>cv_customer = c, cv_owner_name = name_of user_full_name (find_user (store s) org) (cust_owner_user_id c),
      cv_branch_name = name_of branch_name (find_branch (places (sales_desk s)) org) (cust_branch_id c),
      cv_activity_count = (if permission_is_granted granted ''activities.view''
        then count_rows (\<lambda>a. cact_organization_id a = org \<and> cact_customer_id a = cust_id c) (customer_activities s) else 0),
      cv_booking_count = (if permission_is_granted granted ''bookings.view''
        then count_rows (\<lambda>b. booking_organization_id b = org \<and> booking_customer_id b = cust_id c) (bookings (store s)) else 0)\<rparr>"

definition get_customer :: "clients \<Rightarrow> ident \<Rightarrow> ident \<Rightarrow> string list \<Rightarrow> app_error + customer_view" where
  "get_customer s org cid granted =
     need (find_customer (store s) org cid) resource_not_found (\<lambda>c. Inr (customer_view_of s org granted c))"

record customer_filter =
  cf_q :: "string option"
  cf_status :: "customer_status option"
  cf_owner_user_id :: "ident option"
  cf_branch_id :: "ident option"

definition has_text :: "string option \<Rightarrow> string \<Rightarrow> bool" where
  "has_text x pattern = (case x of None \<Rightarrow> False | Some t \<Rightarrow> ilike t pattern)"

definition customer_selected :: "ident \<Rightarrow> customer_filter \<Rightarrow> customer_row \<Rightarrow> bool" where
  "customer_selected org f c \<longleftrightarrow> cust_organization_id c = org \<and>
     opt_all (\<lambda>q. ilike (cust_full_name c) (search_pattern q) \<or> has_text (cust_email c) (search_pattern q) \<or>
       has_text (cust_phone c) (search_pattern q) \<or> has_text (cust_company_name c) (search_pattern q)) (given (cf_q f)) \<and>
     opt_all (\<lambda>st. cust_status c = st) (cf_status f) \<and>
     opt_all (\<lambda>i. cust_owner_user_id c = Some i) (given (cf_owner_user_id f)) \<and>
     opt_all (\<lambda>i. cust_branch_id c = Some i) (given (cf_branch_id f))"

text \<open>The list is ordered by \<^verbatim>\<open>updated_at\<close>, the argument \<open>updated\<close>, and then by the key.\<close>

definition list_customers ::
  "(customer_row \<Rightarrow> timestamp) \<Rightarrow> clients \<Rightarrow> ident \<Rightarrow> customer_filter \<Rightarrow> nat \<Rightarrow> nat \<Rightarrow> string list \<Rightarrow> customer_view page" where
  "list_customers updated s org f page page_size granted =
     (let rows = filter (customer_selected org f) (customers (store s)) in
      paged page page_size (length rows) (map (customer_view_of s org granted)
        (page_of page page_size (order_desc updated (sort_key cust_id rows)))))"

record customer_stats =
  cs_total :: nat
  cs_prospects :: nat
  cs_active :: nat
  cs_inactive :: nat
  cs_blocked :: nat

definition customer_stats_of :: "clients \<Rightarrow> ident \<Rightarrow> customer_stats" where
  "customer_stats_of s org =
     (let n = (\<lambda>st. count_rows (\<lambda>c. cust_organization_id c = org \<and> cust_status c = st) (customers (store s))) in
      \<lparr>cs_total = n Customer_PROSPECT + n Customer_ACTIVE + n Customer_INACTIVE + n Customer_BLOCKED,
       cs_prospects = n Customer_PROSPECT, cs_active = n Customer_ACTIVE, cs_inactive = n Customer_INACTIVE,
       cs_blocked = n Customer_BLOCKED\<rparr>)"

definition list_customer_assignees :: "clients \<Rightarrow> ident \<Rightarrow> assignee_view list" where
  "list_customer_assignees s org =
     map (\<lambda>u. \<lparr>asv_id = user_id u, asv_full_name = user_full_name u, asv_email = user_email u, asv_branch_id = user_branch_id u\<rparr>)
       (sort_key user_full_name (sort_key user_email
         (filter (\<lambda>u. user_organization_id u = org \<and> user_is_active u) (users (store s)))))"

section \<open>Records\<close>

definition customer_snapshot :: "customer_row \<Rightarrow> snapshot" where
  "customer_snapshot c =
     [(''full_name'', JStr (cust_full_name c)), (''email'', jopt JStr (cust_email c)), (''phone'', jopt JStr (cust_phone c)),
      (''status'', JStr (customer_status_value (cust_status c))), (''owner_user_id'', jopt JStr (cust_owner_user_id c)),
      (''branch_id'', jopt JStr (cust_branch_id c)), (''preferred_location'', jopt JStr (cust_preferred_location c)),
      (''budget_min'', jopt JDec (cust_budget_min c)), (''budget_max'', jopt JDec (cust_budget_max c))]"

definition customer_audit ::
  "env \<Rightarrow> nat \<Rightarrow> ident \<Rightarrow> mutation_context \<Rightarrow> string \<Rightarrow> string \<Rightarrow> ident \<Rightarrow> snapshot option \<Rightarrow> snapshot option \<Rightarrow> clients \<Rightarrow> clients" where
  "customer_audit e k org ctx action entity_type i old new =
     in_store (add_audits [audit_entry e (uuid e k) org ctx action entity_type i old new])"

text \<open>\<^verbatim>\<open>_validate_references\<close>: here an empty key counts as given.\<close>

definition validate_references :: "clients \<Rightarrow> ident \<Rightarrow> ident option \<Rightarrow> ident option \<Rightarrow> app_error + unit" where
  "validate_references s org owner branch =
     require (opt_all (\<lambda>i. list_ex (\<lambda>u. user_organization_id u = org \<and> user_id u = i \<and> user_is_active u) (users (store s))) owner)
       (App_Error 400 ''INVALID_OWNER'') (
     require (opt_all (\<lambda>i. list_ex (\<lambda>b. branch_organization_id b = org \<and> branch_id b = i \<and> branch_is_active b)
         (branches (places (sales_desk s)))) branch)
       (App_Error 400 ''INVALID_BRANCH'') (Inr ()))"

definition duplicate_customer :: app_error where
  "duplicate_customer = conflict ''DUPLICATE_CUSTOMER''"

record customer_create =
  cc_full_name :: string
  cc_email :: "string option"
  cc_phone :: "string option"
  cc_alternate_phone :: "string option"
  cc_date_of_birth :: "day option"
  cc_gender :: "string option"
  cc_occupation :: "string option"
  cc_company_name :: "string option"
  cc_address_line1 :: "string option"
  cc_address_line2 :: "string option"
  cc_city :: "string option"
  cc_state :: "string option"
  cc_postal_code :: "string option"
  cc_country :: "string option"
  cc_preferred_location :: "string option"
  cc_requirements :: "string option"
  cc_budget_min :: "decimal option"
  cc_budget_max :: "decimal option"
  cc_owner_user_id :: "ident option"
  cc_branch_id :: "ident option"
  cc_communication_preferences :: "json option"

text \<open>\<^verbatim>\<open>CustomerCreate\<close>: clean texts, an email or a phone, a past date of birth and a range as budget.\<close>

definition validated_customer :: "env \<Rightarrow> customer_create \<Rightarrow> customer_create option" where
  "validated_customer e p = (case (clean_required (cc_full_name p), clean_phone (cc_phone p), clean_phone (cc_alternate_phone p)) of
     (Some name, Some phone, Some alternate) \<Rightarrow>
       (let p' = p\<lparr>cc_full_name := name, cc_email := map_option (\<lambda>m. lower (strip m)) (cc_email p), cc_phone := phone,
          cc_alternate_phone := alternate, cc_gender := clean_optional (cc_gender p), cc_occupation := clean_optional (cc_occupation p),
          cc_company_name := clean_optional (cc_company_name p), cc_address_line1 := clean_optional (cc_address_line1 p),
          cc_address_line2 := clean_optional (cc_address_line2 p), cc_city := clean_optional (cc_city p),
          cc_state := clean_optional (cc_state p), cc_postal_code := clean_optional (cc_postal_code p),
          cc_country := clean_optional (cc_country p), cc_preferred_location := clean_optional (cc_preferred_location p),
          cc_requirements := clean_optional (cc_requirements p)\<rparr> in
        if (given (cc_email p') \<noteq> None \<or> given phone \<noteq> None) \<and> opt_all (\<lambda>d. d < today e) (cc_date_of_birth p) \<and>
          budget_ordered (cc_budget_min p) (cc_budget_max p) \<and>
          opt_all (\<lambda>d. 0 \<le> d) (cc_budget_min p) \<and> opt_all (\<lambda>d. 0 \<le> d) (cc_budget_max p)
        then Some p' else None)
   | _ \<Rightarrow> None)"

definition new_customer :: "env \<Rightarrow> ident \<Rightarrow> customer_create \<Rightarrow> customer_row" where
  "new_customer e org p =
     \<lparr>cust_id = uuid e 0, cust_organization_id = org, cust_converted_from_lead_id = None,
      cust_owner_user_id = cc_owner_user_id p, cust_branch_id = cc_branch_id p, cust_full_name = cc_full_name p,
      cust_email = given (cc_email p), cust_phone = cc_phone p, cust_alternate_phone = cc_alternate_phone p,
      cust_normalized_email = customer_email_key (given (cc_email p)), cust_normalized_phone = customer_phone_key (cc_phone p),
      cust_date_of_birth = cc_date_of_birth p, cust_gender = cc_gender p, cust_occupation = cc_occupation p,
      cust_company_name = cc_company_name p, cust_address_line1 = cc_address_line1 p, cust_address_line2 = cc_address_line2 p,
      cust_city = cc_city p, cust_state = cc_state p, cust_postal_code = cc_postal_code p, cust_country = cc_country p,
      cust_preferred_location = cc_preferred_location p, cust_requirements = cc_requirements p,
      cust_budget_min = cc_budget_min p, cust_budget_max = cc_budget_max p,
      cust_communication_preferences = cc_communication_preferences p, cust_status = Customer_PROSPECT, cust_created_at = now e\<rparr>"

definition create_customer ::
  "env \<Rightarrow> mutation_context \<Rightarrow> ident \<Rightarrow> customer_create \<Rightarrow> clients \<Rightarrow> (clients, customer_view) outcome" where
  "create_customer e ctx org p s =
     demand s (given (cc_owner_user_id p) = None \<and> given (cc_branch_id p) = None \<or> may ctx ''customers.assign'') permission_denied (
     attempt s (validate_references s org (cc_owner_user_id p) (cc_branch_id p)) (\<lambda>_.
     demand s (duplicate_ids s org (given (cc_email p)) (cc_phone p) None = []) duplicate_customer (
     let c = new_customer e org p;
         t = customer_audit e 1 org ctx ''customer.created'' ''customer'' (cust_id c) None (Some (customer_snapshot c))
           (in_store (\<lambda>d. d\<lparr>customers := customers d @ [c]\<rparr>) s) in
     Return t (customer_view_of t org (permissions_held ctx) c))))"

text \<open>Every field may be left out; the status may be given as null.\<close>

record customer_update =
  cu_full_name :: "string option"
  cu_email :: "string option option"
  cu_phone :: "string option option"
  cu_alternate_phone :: "string option option"
  cu_date_of_birth :: "day option option"
  cu_gender :: "string option option"
  cu_occupation :: "string option option"
  cu_company_name :: "string option option"
  cu_address_line1 :: "string option option"
  cu_address_line2 :: "string option option"
  cu_city :: "string option option"
  cu_state :: "string option option"
  cu_postal_code :: "string option option"
  cu_country :: "string option option"
  cu_preferred_location :: "string option option"
  cu_requirements :: "string option option"
  cu_budget_min :: "decimal option option"
  cu_budget_max :: "decimal option option"
  cu_owner_user_id :: "ident option option"
  cu_branch_id :: "ident option option"
  cu_communication_preferences :: "json option option"
  cu_status :: "customer_status option option"

definition updated_customer :: "customer_update \<Rightarrow> customer_status \<Rightarrow> customer_row \<Rightarrow> customer_row" where
  "updated_customer p st c =
     (let email = (case cu_email p of None \<Rightarrow> cust_email c | Some m \<Rightarrow> given m); phone = changed (cu_phone p) (cust_phone c) in
      c\<lparr>cust_full_name := changed (cu_full_name p) (cust_full_name c), cust_email := email, cust_phone := phone,
        cust_alternate_phone := changed (cu_alternate_phone p) (cust_alternate_phone c),
        cust_normalized_email := (if cu_email p = None then cust_normalized_email c else customer_email_key email),
        cust_normalized_phone := (if cu_phone p = None then cust_normalized_phone c else customer_phone_key phone),
        cust_date_of_birth := changed (cu_date_of_birth p) (cust_date_of_birth c), cust_gender := changed (cu_gender p) (cust_gender c),
        cust_occupation := changed (cu_occupation p) (cust_occupation c),
        cust_company_name := changed (cu_company_name p) (cust_company_name c),
        cust_address_line1 := changed (cu_address_line1 p) (cust_address_line1 c),
        cust_address_line2 := changed (cu_address_line2 p) (cust_address_line2 c),
        cust_city := changed (cu_city p) (cust_city c), cust_state := changed (cu_state p) (cust_state c),
        cust_postal_code := changed (cu_postal_code p) (cust_postal_code c), cust_country := changed (cu_country p) (cust_country c),
        cust_preferred_location := changed (cu_preferred_location p) (cust_preferred_location c),
        cust_requirements := changed (cu_requirements p) (cust_requirements c),
        cust_budget_min := changed (cu_budget_min p) (cust_budget_min c), cust_budget_max := changed (cu_budget_max p) (cust_budget_max c),
        cust_owner_user_id := changed (cu_owner_user_id p) (cust_owner_user_id c),
        cust_branch_id := changed (cu_branch_id p) (cust_branch_id c),
        cust_communication_preferences := changed (cu_communication_preferences p) (cust_communication_preferences c),
        cust_status := st\<rparr>)"

text \<open>A status that is given as null has no value for the audit entry: the request fails there.\<close>

definition update_customer ::
  "env \<Rightarrow> mutation_context \<Rightarrow> ident \<Rightarrow> ident \<Rightarrow> customer_update \<Rightarrow> clients \<Rightarrow> (clients, customer_view) outcome" where
  "update_customer e ctx org cid p s =
     fetch s (find_customer (store s) org cid) resource_not_found (\<lambda>c.
     demand s (cu_owner_user_id p = None \<and> cu_branch_id p = None \<or> may ctx ''customers.assign'') permission_denied (
     let c' = updated_customer p (cust_status c) c in
     demand s (given (cust_email c') \<noteq> None \<or> given (cust_phone c') \<noteq> None) (App_Error 400 ''CONTACT_REQUIRED'') (
     demand s (budget_ordered (cust_budget_min c') (cust_budget_max c')) (App_Error 400 ''INVALID_BUDGET_RANGE'') (
     attempt s (validate_references s org (cust_owner_user_id c') (cust_branch_id c')) (\<lambda>_.
     demand s (duplicate_ids s org (cust_email c') (cust_phone c') (Some (cust_id c)) = []) duplicate_customer (
     fetch s (changed (cu_status p) (Some (cust_status c))) Internal_Error (\<lambda>st.
     let u = updated_customer p st c;
         t = customer_audit e 0 org ctx ''customer.updated'' ''customer'' (cust_id c) (Some (customer_snapshot c)) (Some (customer_snapshot u))
           (in_store (\<lambda>d. d\<lparr>customers := put_row cust_id u (customers d)\<rparr>) s) in
     Return t (customer_view_of t org (permissions_held ctx) u))))))))"

text \<open>
  The rows that keep a customer; its activities, documents and notifications go with it.
\<close>

definition customer_in_use :: "clients \<Rightarrow> ident \<Rightarrow> ident \<Rightarrow> bool" where
  "customer_in_use s org cid \<longleftrightarrow>
     list_ex (\<lambda>h. hold_organization_id h = org \<and> hold_customer_id h = Some cid) (unit_holds (store s)) \<or>
     list_ex (\<lambda>q. quote_organization_id q = org \<and> quote_customer_id q = Some cid) (quotations (store s)) \<or>
     list_ex (\<lambda>b. booking_organization_id b = org \<and> booking_customer_id b = cid) (bookings (store s)) \<or>
     list_ex (\<lambda>a. appl_organization_id a = org \<and> appl_customer_id a = Some cid) (booking_applicants (store s)) \<or>
     list_ex (\<lambda>l. demand_organization_id l = org \<and> demand_customer_id l = cid) (demand_letters (store s)) \<or>
     list_ex (\<lambda>p. pay_organization_id p = org \<and> pay_customer_id p = cid) (payments (store s)) \<or>
     list_ex (\<lambda>r. rcpt_organization_id r = org \<and> rcpt_customer_id r = cid) (receipts (store s)) \<or>
     list_ex (\<lambda>c. charge_organization_id c = org \<and> charge_customer_id c = cid) (financial_charges (store s)) \<or>
     list_ex (\<lambda>l. ledger_organization_id l = org \<and> ledger_customer_id l = cid) (customer_ledger (store s)) \<or>
     list_ex (\<lambda>r. refund_organization_id r = org \<and> refund_customer_id r = cid) (refunds (store s)) \<or>
     list_ex (\<lambda>c. sheet_organization_id c = org \<and> sheet_customer_id c = cid) (crm_sheets (sales_desk s)) \<or>
     list_ex (\<lambda>v. visit_organization_id v = org \<and> visit_customer_id v = Some cid) (site_visits (sales_desk s)) \<or>
     list_ex (\<lambda>p. poss_organization_id p = org \<and> poss_customer_id p = cid) (possessions s) \<or>
     list_ex (\<lambda>r. sreq_organization_id r = org \<and> sreq_customer_id r = Some cid) (service_requests s)"

definition without_customer :: "ident \<Rightarrow> ident \<Rightarrow> clients \<Rightarrow> clients" where
  "without_customer org cid s =
     (in_store (\<lambda>d. d\<lparr>customers := filter (\<lambda>c. cust_id c \<noteq> cid) (customers d),
        customer_documents := filter (\<lambda>x. \<not> (doc_organization_id x = org \<and> doc_customer_id x = cid)) (customer_documents d),
        notifications := filter (\<lambda>n. \<not> (note_organization_id n = org \<and> note_customer_id n = Some cid)) (notifications d)\<rparr>) s)
     \<lparr>customer_activities := filter (\<lambda>a. \<not> (cact_organization_id a = org \<and> cact_customer_id a = cid)) (customer_activities s)\<rparr>"

definition delete_customer :: "env \<Rightarrow> mutation_context \<Rightarrow> ident \<Rightarrow> ident \<Rightarrow> clients \<Rightarrow> (clients, unit) outcome" where
  "delete_customer e ctx org cid s =
     fetch s (find_customer (store s) org cid) resource_not_found (\<lambda>c.
     demand s (\<not> customer_in_use s org (cust_id c)) (conflict ''CUSTOMER_IN_USE'') (
     Return (customer_audit e 0 org ctx ''customer.deleted'' ''customer'' (cust_id c) (Some (customer_snapshot c)) None
       (without_customer org (cust_id c) s)) ()))"

section \<open>Activities\<close>

record customer_activity_payload =
  cap_type :: activity_type
  cap_subject :: "string option"
  cap_notes :: "string option option"
  cap_channel :: "string option option"
  cap_direction :: "string option option"
  cap_occurred_at :: "timestamp option"

text \<open>
  \<^verbatim>\<open>CustomerActivityPayload\<close>: the length of the subject is checked before its white space is collapsed, so that a blank
  subject is accepted and becomes null, which the table refuses.
\<close>

definition validated_customer_activity :: "string \<Rightarrow> customer_activity_payload \<Rightarrow> customer_activity_payload option" where
  "validated_customer_activity subject p =
     (if length subject < 2 \<or> 200 < length subject then None
      else Some (p\<lparr>cap_subject := clean_optional (Some subject), cap_notes := map_option clean_optional (cap_notes p),
        cap_channel := map_option clean_optional (cap_channel p)\<rparr>))"

record customer_activity_view =
  cavw_activity :: customer_activity_row
  cavw_performed_by_name :: "string option"

definition customer_activity_view_of :: "clients \<Rightarrow> ident \<Rightarrow> customer_activity_row \<Rightarrow> customer_activity_view" where
  "customer_activity_view_of s org a = \<lparr>cavw_activity = a,
     cavw_performed_by_name = name_of user_full_name (find_user (store s) org) (cact_performed_by_user_id a)\<rparr>"

definition list_customer_activities :: "clients \<Rightarrow> ident \<Rightarrow> ident \<Rightarrow> app_error + customer_activity_view list" where
  "list_customer_activities s org cid =
     need (find_customer (store s) org cid) resource_not_found (\<lambda>_.
     Inr (map (customer_activity_view_of s org) (order_desc cact_occurred_at
       (filter (\<lambda>a. cact_organization_id a = org \<and> cact_customer_id a = cid) (customer_activities s)))))"

abbreviation find_customer_activity :: "clients \<Rightarrow> ident \<Rightarrow> ident \<Rightarrow> ident \<Rightarrow> customer_activity_row option" where
  "find_customer_activity s org cid aid \<equiv>
     find (\<lambda>a. cact_organization_id a = org \<and> cact_customer_id a = cid \<and> cact_id a = aid) (customer_activities s)"

definition create_customer_activity ::
  "env \<Rightarrow> mutation_context \<Rightarrow> ident \<Rightarrow> ident \<Rightarrow> customer_activity_payload \<Rightarrow> clients \<Rightarrow> (clients, customer_activity_view) outcome" where
  "create_customer_activity e ctx org cid p s =
     fetch s (find_customer (store s) org cid) resource_not_found (\<lambda>_.
     fetch s (cap_subject p) Integrity_Error (\<lambda>subject.
     let a = \<lparr>cact_id = uuid e 0, cact_organization_id = org, cact_customer_id = cid,
           cact_performed_by_user_id = Some (actor_user_id ctx), cact_activity_type = cap_type p, cact_subject = subject,
           cact_notes = changed (cap_notes p) None, cact_channel = changed (cap_channel p) None,
           cact_direction = changed (cap_direction p) None,
           cact_occurred_at = (case cap_occurred_at p of None \<Rightarrow> now e | Some t \<Rightarrow> t), cact_created_at = now e\<rparr>;
         t = customer_audit e 1 org ctx ''customer.activity.created'' ''customer_activity'' (cact_id a) None
           (Some [(''customer_id'', JStr cid), (''subject'', JStr (cact_subject a)),
             (''activity_type'', JStr (activity_type_value (cact_activity_type a)))])
           (s\<lparr>customer_activities := customer_activities s @ [a]\<rparr>) in
     Return t (customer_activity_view_of t org a)))"

definition update_customer_activity ::
  "env \<Rightarrow> mutation_context \<Rightarrow> ident \<Rightarrow> ident \<Rightarrow> ident \<Rightarrow> customer_activity_payload \<Rightarrow> clients \<Rightarrow> (clients, customer_activity_view) outcome" where
  "update_customer_activity e ctx org cid aid p s =
     fetch s (find_customer (store s) org cid) resource_not_found (\<lambda>_.
     fetch s (find_customer_activity s org cid aid) resource_not_found (\<lambda>a.
     fetch s (cap_subject p) Integrity_Error (\<lambda>subject.
     let a' = a\<lparr>cact_activity_type := cap_type p, cact_subject := subject, cact_notes := changed (cap_notes p) (cact_notes a),
           cact_channel := changed (cap_channel p) (cact_channel a), cact_direction := changed (cap_direction p) (cact_direction a),
           cact_occurred_at := (case cap_occurred_at p of None \<Rightarrow> cact_occurred_at a | Some t \<Rightarrow> t)\<rparr>;
         t = customer_audit e 0 org ctx ''customer.activity.updated'' ''customer_activity'' (cact_id a)
           (Some [(''subject'', JStr (cact_subject a)), (''activity_type'', JStr (activity_type_value (cact_activity_type a)))])
           (Some [(''subject'', JStr (cact_subject a')), (''activity_type'', JStr (activity_type_value (cact_activity_type a')))])
           (s\<lparr>customer_activities := put_row cact_id a' (customer_activities s)\<rparr>) in
     Return t (customer_activity_view_of t org a'))))"

definition delete_customer_activity :: "env \<Rightarrow> mutation_context \<Rightarrow> ident \<Rightarrow> ident \<Rightarrow> ident \<Rightarrow> clients \<Rightarrow> (clients, unit) outcome" where
  "delete_customer_activity e ctx org cid aid s =
     fetch s (find_customer (store s) org cid) resource_not_found (\<lambda>_.
     fetch s (find_customer_activity s org cid aid) resource_not_found (\<lambda>a.
     Return (customer_audit e 0 org ctx ''customer.activity.deleted'' ''customer_activity'' (cact_id a)
       (Some [(''customer_id'', JStr cid), (''subject'', JStr (cact_subject a))]) None
       (s\<lparr>customer_activities := filter (\<lambda>y. cact_id y \<noteq> cact_id a) (customer_activities s)\<rparr>)) ()))"

end
