(* ===== verification/Customer_Overview.thy ===== *)
theory Customer_Overview
  imports Customers
begin

text \<open>
  \<^verbatim>\<open>customer_360\<close>: everything that belongs to a customer, in sections that each need a permission, and a timeline of all
  of it. A section is left empty where the permission is missing.
\<close>

section \<open>Records\<close>

record journey_record =
  jr_id :: ident
  jr_status :: string
  jr_source_name :: "string option"
  jr_score :: int
  jr_created_at :: timestamp
  jr_converted_at :: "timestamp option"

text \<open>The second date of a sale is a day or a time.\<close>

record sales_record =
  sr_id :: ident
  sr_kind :: string
  sr_reference :: string
  sr_status :: string
  sr_project_name :: "string option"
  sr_unit_number :: "string option"
  sr_amount :: "decimal option"
  sr_currency :: "string option"
  sr_occurred_at :: timestamp
  sr_secondary_date :: "(day + timestamp) option"

record document_record =
  dr_document :: customer_document_row
  dr_uploaded_by_name :: "string option"

record payment_record =
  pr_payment :: payment_row
  pr_booking_number :: "string option"

record agreement_record =
  gr_agreement :: agreement_row
  gr_booking_number :: string

record possession_record =
  or_possession :: possession_row
  or_booking_number :: string
  or_unit_number :: string

record timeline_record =
  tr_id :: ident
  tr_kind :: string
  tr_title :: string
  tr_detail :: "string option"
  tr_status :: "string option"
  tr_occurred_at :: timestamp

record financial_summary =
  fs_currency :: "string option"
  fs_paid_amount :: decimal
  fs_outstanding_amount :: decimal

record customer_360_view =
  c360_customer :: customer_view
  c360_available_sections :: "string list"
  c360_lead_history :: "journey_record list"
  c360_activities :: "customer_activity_view list"
  c360_sales :: "sales_record list"
  c360_documents :: "document_record list"
  c360_payments :: "payment_record list"
  c360_financial_summary :: "financial_summary option"
  c360_agreements :: "agreement_record list"
  c360_possessions :: "possession_record list"
  c360_service_requests :: "service_request_row list"
  c360_timeline :: "timeline_record list"

section \<open>Sections\<close>

definition section_if :: "string list \<Rightarrow> string \<Rightarrow> 'a list \<Rightarrow> 'a list" where
  "section_if granted permission xs = (if permission_is_granted granted permission then xs else [])"

definition origin_of :: "clients \<Rightarrow> ident \<Rightarrow> customer_row \<Rightarrow> lead_row option" where
  "origin_of s org c = (case given (cust_converted_from_lead_id c) of None \<Rightarrow> None | Some i \<Rightarrow> find_lead (store s) org i)"

definition journey_of :: "clients \<Rightarrow> ident \<Rightarrow> lead_row \<Rightarrow> journey_record" where
  "journey_of s org x =
     \<lparr>jr_id = lead_id x, jr_status = lead_status_value (lead_status x),
      jr_source_name = Option.bind (lead_source_id x) (\<lambda>i. map_option src_name (find_source (sales_desk s) org i)),
      jr_score = lead_score x, jr_created_at = lead_created_at x, jr_converted_at = lead_converted_at x\<rparr>"

definition project_named :: "clients \<Rightarrow> ident \<Rightarrow> ident \<Rightarrow> string option" where
  "project_named s org i = map_option project_name (find_project (store s) org i)"

definition unit_numbered :: "clients \<Rightarrow> ident \<Rightarrow> ident \<Rightarrow> string option" where
  "unit_numbered s org i = map_option unit_unit_number (find_unit (store s) org i)"

definition visit_sales :: "clients \<Rightarrow> ident \<Rightarrow> ident \<Rightarrow> sales_record list" where
  "visit_sales s org cid =
     map (\<lambda>v. \<lparr>sr_id = visit_id v, sr_kind = ''site_visit'', sr_reference = ''Site visit'',
         sr_status = visit_status_value (visit_status v), sr_project_name = project_named s org (visit_project_id v),
         sr_unit_number = Option.bind (given (visit_unit_id v)) (unit_numbered s org), sr_amount = None, sr_currency = None,
         sr_occurred_at = visit_scheduled_at v, sr_secondary_date = map_option Inr (visit_completed_at v)\<rparr>)
       (order_desc visit_scheduled_at
         (filter (\<lambda>v. visit_organization_id v = org \<and> visit_customer_id v = Some cid) (site_visits (sales_desk s))))"

definition quotation_sales :: "clients \<Rightarrow> ident \<Rightarrow> ident \<Rightarrow> sales_record list" where
  "quotation_sales s org cid =
     map (\<lambda>q. \<lparr>sr_id = quote_id q, sr_kind = ''quotation'', sr_reference = quote_quotation_number q,
         sr_status = quotation_status_value (quote_status q), sr_project_name = project_named s org (quote_project_id q),
         sr_unit_number = None, sr_amount = Some (quote_total q), sr_currency = Some (quote_currency q),
         sr_occurred_at = quote_created_at q, sr_secondary_date = Some (Inl (quote_valid_until q))\<rparr>)
       (order_desc quote_created_at
         (filter (\<lambda>q. quote_organization_id q = org \<and> quote_customer_id q = Some cid) (quotations (store s))))"

definition customer_bookings :: "clients \<Rightarrow> ident \<Rightarrow> ident \<Rightarrow> booking_row list" where
  "customer_bookings s org cid = order_desc booking_created_at
     (filter (\<lambda>b. booking_organization_id b = org \<and> booking_customer_id b = cid) (bookings (store s)))"

definition booking_sales :: "clients \<Rightarrow> ident \<Rightarrow> ident \<Rightarrow> sales_record list" where
  "booking_sales s org cid =
     map (\<lambda>b. \<lparr>sr_id = booking_id b, sr_kind = ''booking'', sr_reference = booking_booking_number b,
         sr_status = booking_status_value (booking_status b), sr_project_name = None,
         sr_unit_number = unit_numbered s org (booking_unit_id b), sr_amount = Some (booking_booking_amount b),
         sr_currency = Some (booking_currency b),
         sr_occurred_at = (case booking_booked_at b of None \<Rightarrow> booking_created_at b | Some t \<Rightarrow> t), sr_secondary_date = None\<rparr>)
       (customer_bookings s org cid)"

definition document_records :: "clients \<Rightarrow> ident \<Rightarrow> ident \<Rightarrow> document_record list" where
  "document_records s org cid =
     map (\<lambda>d. \<lparr>dr_document = d, dr_uploaded_by_name =
         Option.bind (doc_uploaded_by_user_id d) (\<lambda>i. map_option user_full_name (find_user (store s) org i))\<rparr>)
       (order_desc doc_created_at
         (filter (\<lambda>d. doc_organization_id d = org \<and> doc_customer_id d = cid \<and> doc_is_current d) (customer_documents (store s))))"

definition customer_payments :: "clients \<Rightarrow> ident \<Rightarrow> ident \<Rightarrow> payment_row list" where
  "customer_payments s org cid = order_desc pay_created_at
     (filter (\<lambda>p. pay_organization_id p = org \<and> pay_customer_id p = cid) (payments (store s)))"

definition payment_records :: "clients \<Rightarrow> ident \<Rightarrow> ident \<Rightarrow> payment_record list" where
  "payment_records s org cid =
     map (\<lambda>p. \<lparr>pr_payment = p, pr_booking_number = map_option booking_booking_number
         (find (\<lambda>b. booking_id b = pay_booking_id p) (customer_bookings s org cid))\<rparr>) (customer_payments s org cid)"

definition signed_amount :: "customer_ledger_row \<Rightarrow> decimal" where
  "signed_amount l = (if ledger_entry_type l \<noteq> Ledger_CREDIT then ledger_amount l else - ledger_amount l)"

text \<open>The currency is shown when there is only one: that of the ledger, or of the payments of an empty ledger.\<close>

definition summary_of :: "clients \<Rightarrow> ident \<Rightarrow> ident \<Rightarrow> financial_summary" where
  "summary_of s org cid =
     (let entries = filter (\<lambda>l. ledger_organization_id l = org \<and> ledger_customer_id l = cid) (customer_ledger (store s));
          pays = customer_payments s org cid;
          currencies = remdups (if entries = [] then map pay_currency pays else map ledger_currency entries) in
      \<lparr>fs_currency = (case currencies of [x] \<Rightarrow> Some x | _ \<Rightarrow> None),
       fs_paid_amount = sum_where (\<lambda>p. pay_status p = Payment_COMPLETED) pay_amount pays,
       fs_outstanding_amount = max (sum_list (map signed_amount entries)) 0\<rparr>)"

definition agreement_records :: "clients \<Rightarrow> ident \<Rightarrow> ident \<Rightarrow> agreement_record list" where
  "agreement_records s org cid =
     List.map_filter (\<lambda>a. case find_booking (store s) org (agr_booking_id a) of None \<Rightarrow> None
       | Some b \<Rightarrow> if booking_customer_id b = cid then Some \<lparr>gr_agreement = a, gr_booking_number = booking_booking_number b\<rparr> else None)
     (order_desc agr_created_at (filter (\<lambda>a. agr_organization_id a = org) (agreements s)))"

definition possession_records :: "clients \<Rightarrow> ident \<Rightarrow> ident \<Rightarrow> possession_record list" where
  "possession_records s org cid =
     List.map_filter (\<lambda>p. case (find_booking (store s) org (poss_booking_id p), find_unit (store s) org (poss_unit_id p)) of
         (Some b, Some u) \<Rightarrow> Some \<lparr>or_possession = p, or_booking_number = booking_booking_number b, or_unit_number = unit_unit_number u\<rparr>
       | _ \<Rightarrow> None)
     (order_desc poss_created_at (filter (\<lambda>p. poss_organization_id p = org \<and> poss_customer_id p = cid) (possessions s)))"

definition request_records :: "clients \<Rightarrow> ident \<Rightarrow> ident \<Rightarrow> service_request_row list" where
  "request_records s org cid = order_desc sreq_opened_at
     (filter (\<lambda>r. sreq_organization_id r = org \<and> sreq_customer_id r = Some cid) (service_requests s))"

section \<open>The overview\<close>

definition sales_timeline :: "sales_record list \<Rightarrow> timeline_record list" where
  "sales_timeline = map (\<lambda>x. \<lparr>tr_id = sr_id x, tr_kind = sr_kind x, tr_title = sr_reference x,
     tr_detail = or_else (sr_project_name x) (sr_unit_number x), tr_status = Some (sr_status x), tr_occurred_at = sr_occurred_at x\<rparr>)"

definition lead_timeline :: "clients \<Rightarrow> ident \<Rightarrow> lead_row \<Rightarrow> timeline_record list" where
  "lead_timeline s org x =
     map (\<lambda>a. \<lparr>tr_id = act_id a, tr_kind = ''lead_activity'', tr_title = act_subject a, tr_detail = act_notes a,
         tr_status = Some (activity_type_value (act_activity_type a)), tr_occurred_at = act_occurred_at a\<rparr>)
       (filter (\<lambda>a. act_organization_id a = org \<and> act_lead_id a = lead_id x) (lead_activities (sales_desk s)))"

definition activity_timeline :: "customer_activity_view list \<Rightarrow> timeline_record list" where
  "activity_timeline = map (\<lambda>v. let a = cavw_activity v in
     \<lparr>tr_id = cact_id a, tr_kind = ''activity'', tr_title = cact_subject a, tr_detail = cact_notes a,
      tr_status = Some (activity_type_value (cact_activity_type a)), tr_occurred_at = cact_occurred_at a\<rparr>)"

definition payment_timeline :: "payment_record list \<Rightarrow> timeline_record list" where
  "payment_timeline = map (\<lambda>r. let p = pr_payment r in
     \<lparr>tr_id = pay_id p, tr_kind = ''payment'', tr_title = ''Payment '' @ lower (payment_status_value (pay_status p)),
      tr_detail = pay_reference_number p, tr_status = Some (payment_status_value (pay_status p)),
      tr_occurred_at = (case pay_paid_at p of None \<Rightarrow> pay_created_at p | Some t \<Rightarrow> t)\<rparr>)"

definition request_timeline :: "service_request_row list \<Rightarrow> timeline_record list" where
  "request_timeline = map (\<lambda>r. \<lparr>tr_id = sreq_id r, tr_kind = ''service_request'', tr_title = sreq_subject r,
     tr_detail = Some (sreq_request_number r), tr_status = Some (ticket_status_value (sreq_status r)), tr_occurred_at = sreq_opened_at r\<rparr>)"

text \<open>
  Reading the documents expires the due ones first, in a transaction of its own; \<open>t\<close> is the database after it. The
  other sections were read before, but do not depend on the documents.
\<close>

definition customer_360 ::
  "env \<Rightarrow> ident \<Rightarrow> ident \<Rightarrow> string list \<Rightarrow> clients \<Rightarrow> (clients, customer_360_view) outcome" where
  "customer_360 e org cid granted s =
     fetch s (find_customer (store s) org cid) resource_not_found (\<lambda>c.
     let leads_seen = section_if granted ''leads.view'' (case origin_of s org c of None \<Rightarrow> [] | Some x \<Rightarrow> [x]);
         acts = section_if granted ''activities.view'' (case list_customer_activities s org cid of Inl _ \<Rightarrow> [] | Inr vs \<Rightarrow> vs);
         sales = section_if granted ''visits.view'' (visit_sales s org cid) @
           section_if granted ''quotations.view'' (quotation_sales s org cid) @
           section_if granted ''bookings.view'' (booking_sales s org cid);
         documents_seen = permission_is_granted granted ''documents.view'';
         t = (if documents_seen then in_store (\<lambda>d. fst (expire_due_documents e 0 org d)) s else s);
         money_seen = permission_is_granted granted ''payments.view'' \<or> permission_is_granted granted ''collections.view'';
         pays = (if money_seen then payment_records s org cid else []);
         requests = section_if granted ''service_requests.view'' (request_records s org cid) in
     Return t
       \<lparr>c360_customer = customer_view_of s org granted c,
        c360_available_sections = (if leads_seen = [] then [] else [''lead_history'']) @
          section_if granted ''activities.view'' [''activities''] @ section_if granted ''visits.view'' [''visits''] @
          section_if granted ''quotations.view'' [''quotations''] @ section_if granted ''bookings.view'' [''bookings''] @
          section_if granted ''documents.view'' [''documents''] @ (if money_seen then [''payments''] else []) @
          section_if granted ''agreements.view'' [''agreements''] @ section_if granted ''possession.view'' [''possession''] @
          section_if granted ''service_requests.view'' [''service_requests''],
        c360_lead_history = map (journey_of s org) leads_seen, c360_activities = acts, c360_sales = sales,
        c360_documents = (if documents_seen then document_records t org cid else []), c360_payments = pays,
        c360_financial_summary = (if money_seen then Some (summary_of s org cid) else None),
        c360_agreements = section_if granted ''agreements.view'' (agreement_records s org cid),
        c360_possessions = section_if granted ''possession.view'' (possession_records s org cid),
        c360_service_requests = requests,
        c360_timeline = take 200 (order_desc tr_occurred_at (
          \<lparr>tr_id = cust_id c, tr_kind = ''customer'', tr_title = ''Customer profile created'', tr_detail = None,
           tr_status = Some (customer_status_value (cust_status c)), tr_occurred_at = cust_created_at c\<rparr> #
          section_if granted ''activities.view'' (concat (map (lead_timeline s org) leads_seen)) @
          activity_timeline acts @ sales_timeline sales @ payment_timeline pays @ request_timeline requests))\<rparr>)"

end
