(* ===== verification/Client_Safety.thy ===== *)
theory Client_Safety
  imports Lead_Safety Customer_Overview
begin

text \<open>
  The requests of the lead and the customer service as steps on one database, and what ties their tables together: the
  status of a lead moves along its machine, and a customer that stems from a lead stems from a converted one,
  which has no second customer.
\<close>

section \<open>Requests\<close>

definition fresh_clients :: "env \<Rightarrow> clients \<Rightarrow> bool" where
  "fresh_clients e s \<longleftrightarrow> fresh_leads e (sales_desk s)"

inductive client_step :: "clients \<Rightarrow> clients \<Rightarrow> bool" where
  lead_request: "lead_step (sales_desk s) d \<Longrightarrow> client_step s (s\<lparr>sales_desk := d\<rparr>)"
| customer_created: "fresh_clients e s \<Longrightarrow> client_step s (committed (create_customer e ctx org cc s))"
| customer_updated: "client_step s (committed (update_customer e ctx org i cu s))"
| customer_deleted: "client_step s (committed (delete_customer e ctx org i s))"
| contact_created: "client_step s (committed (create_customer_activity e ctx org i cap s))"
| contact_updated: "client_step s (committed (update_customer_activity e ctx org i aid cap s))"
| contact_deleted: "client_step s (committed (delete_customer_activity e ctx org i aid s))"
| overview_read: "client_step s (committed (customer_360 e org i granted s))"

locale client_invariant =
  fixes inv :: "clients \<Rightarrow> bool"
  assumes kept: "client_step s t \<Longrightarrow> inv s \<Longrightarrow> inv t"
begin

lemma always: "client_step\<^sup>*\<^sup>* s t \<Longrightarrow> inv s \<Longrightarrow> inv t"
  by (induction rule: rtranclp_induct) (auto intro: kept)

end

section \<open>Rows that follow one another\<close>

text \<open>The same lead, with a status that is related to its former one.\<close>

definition same_lead :: "(lead_status \<Rightarrow> lead_status \<Rightarrow> bool) \<Rightarrow> lead_row \<Rightarrow> lead_row \<Rightarrow> bool" where
  "same_lead R x y \<longleftrightarrow> lead_id y = lead_id x \<and> lead_organization_id y = lead_organization_id x \<and> R (lead_status x) (lead_status y)"

definition one_move :: "lead_status \<Rightarrow> lead_status \<Rightarrow> bool" where
  "one_move a b \<longleftrightarrow> b = a \<or> b \<in> set (next_statuses a)"

text \<open>An assignment moves a new lead only.\<close>

definition assigned_move :: "lead_status \<Rightarrow> lead_status \<Rightarrow> bool" where
  "assigned_move a b \<longleftrightarrow> b = a \<or> a = Lead_NEW \<and> b = Lead_ASSIGNED"

lemma moves_included: "assigned_move a b \<Longrightarrow> one_move a b" "one_move a a" "assigned_move a a" "a = b \<Longrightarrow> one_move a b"
  by (auto simp: assigned_move_def one_move_def)

lemma assigned_trans: "assigned_move a b \<Longrightarrow> assigned_move b c \<Longrightarrow> assigned_move a c"
  by (auto simp: assigned_move_def)

lemma rows_put:
  assumes "distinct (map lead_id rows)" "x \<in> set rows" "same_lead R x y" "\<And>a. R a a"
  shows "list_all2 (same_lead R) rows (put_row lead_id y rows)"
proof -
  have "z = x" if "z \<in> set rows" "lead_id z = lead_id x" for z
    using assms(1,2) that by (auto simp: distinct_map dest: inj_onD)
  then have "rows ! i = x" if "i < length rows" "lead_id (rows ! i) = lead_id x" for i using that by simp
  with assms(3,4) show ?thesis
    by (auto simp: list_all2_conv_all_nth put_row_def same_lead_def)
qed

lemma rows_same: "(\<And>a. R a a) \<Longrightarrow> list_all2 (same_lead R) rows rows"
  by (induction rows) (simp_all add: same_lead_def)

lemma rows_trans:
  "list_all2 (same_lead R) xs ys \<Longrightarrow> list_all2 (same_lead R) ys zs \<Longrightarrow> (\<And>a b c. R a b \<Longrightarrow> R b c \<Longrightarrow> R a c) \<Longrightarrow>
   list_all2 (same_lead R) xs zs"
  using list_all2_trans [of "same_lead R" "same_lead R" "same_lead R" xs ys zs] unfolding same_lead_def by metis

lemma rows_ids: "list_all2 (same_lead R) xs ys \<Longrightarrow> map lead_id ys = map lead_id xs"
  by (induction rule: list_all2_induct) (simp_all add: same_lead_def)

lemma rows_mono: "list_all2 (same_lead R) xs ys \<Longrightarrow> (\<And>a b. R a b \<Longrightarrow> Q a b) \<Longrightarrow> list_all2 (same_lead Q) xs ys"
  by (erule list_all2_mono) (simp add: same_lead_def)


section \<open>What a lead request does to the rows\<close>

definition from_lead :: "customer_row \<Rightarrow> lead_row \<Rightarrow> bool" where
  "from_lead c x \<longleftrightarrow> cust_organization_id c = lead_organization_id x \<and> cust_converted_from_lead_id c = Some (lead_id x)"

text \<open>
  Every lead keeps its key and moves at most one status; only a lead without a customer that is not converted may go; and
  a new customer stems from a converted lead without one.
\<close>

definition moved :: "crm \<Rightarrow> crm \<Rightarrow> bool" where
  "moved s t \<longleftrightarrow>
     (\<forall>y \<in> set (leads (base t)). lead_id y \<in> lead_id ` set (leads (base s)) \<longrightarrow> (\<exists>x \<in> set (leads (base s)). same_lead one_move x y)) \<and>
     (\<forall>x \<in> set (leads (base s)). (\<exists>y \<in> set (leads (base t)). same_lead one_move x y) \<or>
        lead_status x \<noteq> Lead_CONVERTED \<and> (\<forall>c \<in> set (customers (base s)). \<not> from_lead c x)) \<and>
     (customers (base t) = customers (base s) \<or>
        (\<exists>c x. customers (base t) = customers (base s) @ [c] \<and> cust_id c \<notin> cust_id ` set (customers (base s)) \<and>
           x \<in> set (leads (base t)) \<and> lead_status x = Lead_CONVERTED \<and> from_lead c x \<and>
           (\<forall>c' \<in> set (customers (base s)). \<not> from_lead c' x)))"

lemma rows_both:
  assumes "list_all2 (same_lead R) xs ys" "\<And>a b. R a b \<Longrightarrow> one_move a b"
  shows "\<forall>y \<in> set ys. \<exists>x \<in> set xs. same_lead one_move x y" "\<forall>x \<in> set xs. \<exists>y \<in> set ys. same_lead one_move x y"
  using assms(1) by (induction rule: list_all2_induct) (use assms(2) in \<open>auto simp: same_lead_def\<close>)

lemma moved_rows:
  assumes "list_all2 (same_lead R) (leads (base s)) (leads (base t))" "\<And>a b. R a b \<Longrightarrow> one_move a b"
    "customers (base t) = customers (base s)"
  shows "moved s t"
  using rows_both [OF assms(1,2)] assms(3) unfolding moved_def by blast

lemma moved_frame: "leads (base t) = leads (base s) \<Longrightarrow> customers (base t) = customers (base s) \<Longrightarrow> moved s t"
  by (rule moved_rows [where R = one_move]) (simp_all add: rows_same moves_included)

lemma moved_refl: "moved s s"
  by (simp add: moved_frame)

lemma moved_put:
  assumes "leads_sound s" "x \<in> set (leads (base s))" "leads (base t) = put_row lead_id y (leads (base s))"
    "same_lead one_move x y" "customers (base t) = customers (base s)"
  shows "moved s t"
  using assms by (intro moved_rows [where R = one_move]) (auto simp: leads_sound_def moves_included intro!: rows_put)

lemma moved_added:
  assumes "leads_sound t" "leads (base t) = leads (base s) @ xs" "customers (base t) = customers (base s)"
  shows "moved s t"
proof -
  have "x \<in> set (leads (base s))" if "x \<in> set (leads (base t))" "lead_id x \<in> lead_id ` set (leads (base s))" for x
    using assms(1) that unfolding leads_sound_def assms(2) by auto
  moreover have "same_lead one_move x x" for x by (simp add: same_lead_def moves_included)
  ultimately show ?thesis unfolding moved_def by (auto simp: assms(2,3))
qed

lemmas moved_intros = outcome_intros [where P = "moved s" for s]

lemma same_lead_simps [simp]:
  "same_lead R x (scored b c y) = same_lead R x y" "same_lead R x (y\<lparr>lead_last_activity_at := u\<rparr>) = same_lead R x y"
  "same_lead R x (follow_up_refreshed s y) = same_lead R x y" "same_lead R x (y\<lparr>lead_duplicate_of_lead_id := i\<rparr>) = same_lead R x y"
  "same_lead R x (updated_lead p y) = same_lead R x y" "same_lead R x (active_since v y) = same_lead R x y"
  by (simp_all add: same_lead_def follow_up_refreshed_def updated_lead_def active_since_def Let_def)

lemma same_lead_refl [simp]: "same_lead one_move x x" by (simp add: same_lead_def moves_included)

lemma same_lead_owned: "same_lead assigned_move x (owned_by user x)"
  by (simp add: same_lead_def owned_by_def assigned_move_def)

lemma setting_steps_moved:
  "moved s (committed (create_source e ctx org sp s))" "moved s (committed (update_source e ctx org i sp s))"
  "moved s (committed (delete_source e ctx org i s))" "moved s (committed (create_lost_reason e ctx org sp s))"
  "moved s (committed (update_lost_reason e ctx org i sp s))" "moved s (committed (delete_lost_reason e ctx org i s))"
  "moved s (committed (create_score_rule e ctx org srp s))" "moved s (committed (update_score_rule e ctx org i srp s))"
  "moved s (committed (delete_score_rule e ctx org i s))" "moved s (committed (update_note e ctx org i nid ntp s))"
  "moved s (committed (delete_note e ctx org i nid s))"
  unfolding create_source_def update_source_def delete_source_def create_lost_reason_def update_lost_reason_def
    delete_lost_reason_def create_score_rule_def update_score_rule_def delete_score_rule_def update_note_def delete_note_def Let_def
  by (intro moved_intros; simp add: moved_frame)+

lemma refreshed_moved:
  assumes "leads_sound s" "find_lead (base s) org i = Some x" "activity_refreshed f e k ctx org a old new x' t' = Inr t"
    "same_lead one_move x x'" "leads (base t') = leads (base s)" "customers (base t') = customers (base s)"
  shows "moved s t"
proof -
  have x: "x \<in> set (leads (base s))" using assms(2) by (auto dest: entityD)
  from assms(3) obtain b c where "leads (base t) = put_row lead_id (scored b c (follow_up_refreshed t' x')) (leads (base s))"
    "customers (base t) = customers (base s)"
    unfolding activity_refreshed_def by (auto simp: step_Inr assms(5,6) elim!: recomputed)
  with assms(4) show ?thesis
    by (intro moved_put [OF assms(1) x, where y = "scored b c (follow_up_refreshed t' x')"]) simp_all
qed

lemma activity_steps_moved:
  assumes ok: "leads_sound s"
  shows "moved s (committed (create_activity f e ctx org i acp s))" "moved s (committed (update_activity f e ctx org i aid acp s))"
    "moved s (committed (complete_follow_up f e ctx org i aid done_text s))" "moved s (committed (delete_activity f e ctx org i aid s))"
  unfolding create_activity_def update_activity_def complete_follow_up_def delete_activity_def Let_def
  by (intro moved_intros moved_refl; (simp only: committed_respond outcome.sel)?; (rule refreshed_moved [OF ok], assumption+)?; simp)+


lemma moved_noted:
  assumes "leads_sound s" "x \<in> set (leads (base s))"
    "leads (base t) = put_row lead_id (x\<lparr>lead_last_activity_at := u\<rparr>) (leads (base s))" "customers (base t) = customers (base s)"
  shows "moved s t"
  by (rule moved_put [OF assms(1-3) _ assms(4)]) simp

lemma edit_steps_moved:
  assumes ok: "leads_sound s"
  shows "moved s (committed (update_lead f e ctx org i lu s))" "moved s (committed (create_note e ctx org i ntp s))"
    "moved s (committed (assign_lead f e ctx org i user s))"
proof -
  have found: "find_lead (base s) org i = Some x \<Longrightarrow> x \<in> set (leads (base s))" for x by (auto dest: entityD)
  show "moved s (committed (update_lead f e ctx org i lu s))"
    unfolding update_lead_def Let_def
    by (intro moved_intros moved_refl; (simp only: outcome.sel audit_sel)?)
      (auto intro!: moved_put [OF ok found] elim!: recomputed)
  show "moved s (committed (create_note e ctx org i ntp s))"
    unfolding create_note_def Let_def
    by (intro moved_intros moved_refl; (simp only: committed_respond audit_sel)?) (rule moved_noted [OF ok found]; simp)
  show "moved s (committed (assign_lead f e ctx org i user s))"
    unfolding assign_lead_def Let_def
    by (intro moved_intros moved_refl; (simp only: outcome.sel audit_sel)?)
      (auto intro!: moved_put [OF ok found] elim!: recomputed simp: same_lead_def owned_by_def one_move_def)
qed

lemma status_changed_moved:
  assumes ok: "leads_sound s" and x: "find_lead (base s) org i = Some x" and x': "same_lead one_move x x'"
    and t: "status_changed f e k ctx org a n ex x x' s = Inr (t, y)"
  shows "moved s t"
proof -
  have row: "x \<in> set (leads (base s))" using x by (auto dest: entityD)
  from t show ?thesis by (rule status_changed_returns) (rule moved_put [OF ok row], assumption, simp_all add: x')
qed

lemma ensured_move: "ensure_transition a b = Inr () \<Longrightarrow> one_move a b"
  by (auto simp: ensure_transition_def one_move_def require_Inr)

lemma status_steps_moved:
  assumes ok: "leads_sound s"
  shows "moved s (committed (transition_status f e ctx org i target notes s))"
    "moved s (committed (qualify_lead f e ctx org i reason_text s))"
    "moved s (committed (mark_lead_lost f e ctx org i rid notes s))"
  unfolding transition_status_def qualify_lead_def mark_lead_lost_def Let_def
  by (intro moved_intros moved_refl; simp; erule status_changed_moved [OF ok, rotated 2];
      simp add: same_lead_def qualified_lead_def ensured_move)+

lemma convert_changed_moved:
  fixes e :: env and lcv :: lead_conversion and x :: lead_row and org :: ident
  defines "c \<equiv> customer_of_lead e org lcv x"
  assumes ok: "leads_sound s" and fresh: "fresh_leads e s" and x: "find_lead (base s) org i = Some x" "lead_status x = Lead_QUALIFIED"
    and new: "customer_from s org (lead_id x) = None"
    and r: "status_changed f e k ctx org a n ex x (x\<lparr>lead_status := Lead_CONVERTED, lead_converted_at := u\<rparr>)
      (on_base (\<lambda>d. d\<lparr>customers := customers d @ [c]\<rparr>) s) = Inr (t, y)"
  shows "moved s t"
  using r
proof (rule status_changed_returns)
  note row = entityD [OF x(1)]
  fix b d
  assume y: "y = scored b d (x\<lparr>lead_status := Lead_CONVERTED, lead_converted_at := u, lead_last_activity_at := Some (now e)\<rparr>)"
    and t: "leads (base t) = put_row lead_id y (leads (base (on_base (\<lambda>d. d\<lparr>customers := customers d @ [c]\<rparr>) s)))"
      "customers (base t) = customers (base (on_base (\<lambda>d. d\<lparr>customers := customers d @ [c]\<rparr>) s))"
  have "list_all2 (same_lead one_move) (leads (base s)) (leads (base t))"
    unfolding t(1) using ok row x(2)
    by (auto simp: leads_sound_def y same_lead_def one_move_def moves_included intro!: rows_put)
  note both = rows_both [OF this]
  have "y \<in> set (leads (base t))" using row by (auto simp: t(1) y put_row_def image_iff)
  moreover have "cust_id c \<notin> cust_id ` set (customers (base s))" "from_lead c y" "lead_status y = Lead_CONVERTED"
    using fresh_leadsD(1) [OF fresh, of 0] row
    by (simp_all add: c_def lead_ids_used_def customer_of_lead_def from_lead_def y Let_def)
  moreover have "\<not> from_lead c' y" if "c' \<in> set (customers (base s))" for c'
    using new row that by (auto simp: customer_from_def find_None from_lead_def y)
  ultimately show "moved s t" using both unfolding moved_def by (auto simp: t(2))
qed

lemma convert_moved:
  assumes ok: "leads_sound s" and fresh: "fresh_leads e s"
  shows "moved s (committed (convert_lead f e ctx org i lcv s))"
  unfolding convert_lead_def Let_def
  by (intro moved_intros moved_refl; (simp only: outcome.sel)?; hypsubst?; rule convert_changed_moved [OF ok fresh]; assumption)

text \<open>The requests that write several leads.\<close>

lemma assign_all_rows:
  "assign_all f e k ctx org user xs s = Inr t \<Longrightarrow> distinct (map lead_id (leads (base s))) \<Longrightarrow> set xs \<subseteq> set (leads (base s)) \<Longrightarrow>
   distinct (map lead_id xs) \<Longrightarrow>
   list_all2 (same_lead assigned_move) (leads (base s)) (leads (base t)) \<and> customers (base t) = customers (base s)"
proof (induction xs arbitrary: k s)
  case Nil
  then show ?case by (simp add: rows_same moves_included)
next
  case (Cons x xs)
  from Cons.prems(1) obtain y as where y: "recompute_score f (now e) s (owned_by (Some user) x) = Inr y"
    and t: "assign_all f e (k + 3) ctx org user xs
      (log_crm as (put_lead y (set_assignment e k (actor_user_id ctx) x (Some user) s))) = Inr t"
    unfolding assign_all.simps audit_sel by (auto simp only: step_Inr)
  from y have y': "same_lead assigned_move x y" by (rule recomputed) (simp add: same_lead_owned)
  then have same: "lead_id y = lead_id x" by (simp add: same_lead_def)
  have first: "list_all2 (same_lead assigned_move) (leads (base s)) (put_row lead_id y (leads (base s)))"
    by (rule rows_put [OF Cons.prems(2) _ y']) (use Cons.prems in \<open>simp_all add: moves_included\<close>)
  have "list_all2 (same_lead assigned_move) (put_row lead_id y (leads (base s))) (leads (base t)) \<and> customers (base t) = customers (base s)"
    using Cons.IH [OF t] Cons.prems rows_ids [OF first] same by (simp add: put_row_rest)
  then show ?case using rows_trans [OF first, of "leads (base t)"] assigned_trans by blast
qed

lemma link_all_rows:
  "link_all e k ctx org primary xs s = Inr t \<Longrightarrow> distinct (map lead_id (leads (base s))) \<Longrightarrow> set xs \<subseteq> set (leads (base s)) \<Longrightarrow>
   distinct (map lead_id xs) \<Longrightarrow>
   list_all2 (same_lead assigned_move) (leads (base s)) (leads (base t)) \<and> customers (base t) = customers (base s)"
proof (induction xs arbitrary: k s)
  case Nil
  then show ?case by (simp add: rows_same moves_included)
next
  case (Cons x xs)
  let ?y = "x\<lparr>lead_duplicate_of_lead_id := Some (lead_id primary)\<rparr>"
  from Cons.prems(1) obtain as where t: "link_all e (k + 1) ctx org primary xs (log_crm as (put_lead ?y s)) = Inr t"
    by (auto simp: require_Inr)
  have first: "list_all2 (same_lead assigned_move) (leads (base s)) (put_row lead_id ?y (leads (base s)))"
    by (rule rows_put [OF Cons.prems(2), of x]) (use Cons.prems in \<open>simp_all add: same_lead_def moves_included\<close>)
  have "list_all2 (same_lead assigned_move) (put_row lead_id ?y (leads (base s))) (leads (base t)) \<and> customers (base t) = customers (base s)"
    using Cons.IH [OF t] Cons.prems rows_ids [OF first] by (simp add: put_row_rest)
  then show ?case using rows_trans [OF first, of "leads (base t)"] assigned_trans by blast
qed

lemma rescore_all_rows:
  "rescore_all f u xs s = Inr t \<Longrightarrow> distinct (map lead_id (leads (base s))) \<Longrightarrow> set xs \<subseteq> set (leads (base s)) \<Longrightarrow>
   distinct (map lead_id xs) \<Longrightarrow>
   list_all2 (same_lead assigned_move) (leads (base s)) (leads (base t)) \<and> customers (base t) = customers (base s)"
proof (induction xs arbitrary: s)
  case Nil
  then show ?case by (simp add: rows_same moves_included)
next
  case (Cons x xs)
  from Cons.prems(1) obtain b c where t: "rescore_all f u xs (put_lead (scored b c x) s) = Inr t"
    by (auto simp: step_Inr elim!: recomputed)
  have first: "list_all2 (same_lead assigned_move) (leads (base s)) (put_row lead_id (scored b c x) (leads (base s)))"
    by (rule rows_put [OF Cons.prems(2), of x]) (use Cons.prems in \<open>simp_all add: same_lead_def moves_included\<close>)
  have "list_all2 (same_lead assigned_move) (put_row lead_id (scored b c x) (leads (base s))) (leads (base t)) \<and> customers (base t) = customers (base s)"
    using Cons.IH [OF t] Cons.prems rows_ids [OF first] by (simp add: put_row_rest)
  then show ?case using rows_trans [OF first, of "leads (base t)"] assigned_trans by blast
qed

lemma many_steps_moved:
  assumes ok: "leads_sound s"
  shows "moved s (committed (bulk_assign f e ctx org ids assignee s))" "moved s (committed (resolve_duplicates e ctx org i ids s))"
    "moved s (committed (recompute_all_scores f e ctx org s))"
proof -
  have ids: "distinct (map lead_id (leads (base s)))" using ok by (simp add: leads_sound_def)
  have rows: "set (filter q (leads (base s))) \<subseteq> set (leads (base s))" "distinct (map lead_id (filter q (leads (base s))))" for q
    using ids by (auto intro: distinct_ids_filter)
  have by_rows: "moved s t"
    if "list_all2 (same_lead assigned_move) (leads (base s)) (leads (base t)) \<and> customers (base t) = customers (base s)" for t
    using that by (intro moved_rows [where R = assigned_move]) (simp_all add: moves_included)
  show "moved s (committed (bulk_assign f e ctx org ids assignee s))"
    unfolding bulk_assign_def Let_def
    by (intro moved_intros moved_refl; (simp only: outcome.sel)?; rule by_rows) (erule assign_all_rows [OF _ ids rows])
  show "moved s (committed (resolve_duplicates e ctx org i ids s))"
    unfolding resolve_duplicates_def Let_def
    by (intro moved_intros moved_refl; (simp only: outcome.sel)?; rule by_rows) (erule link_all_rows [OF _ ids rows])
  show "moved s (committed (recompute_all_scores f e ctx org s))"
    unfolding recompute_all_scores_def Let_def
    by (intro moved_intros moved_refl; (simp only: outcome.sel)?; rule by_rows; simp) (erule rescore_all_rows [OF _ ids rows])
qed

lemma unlinked_moved:
  assumes ok: "leads_sound s" and x: "find_lead (base s) org i = Some x" "lead_status x \<noteq> Lead_CONVERTED"
    and unused: "\<not> lead_in_use s org (lead_id x)"
  shows "moved s (log_crm as (without_lead org (lead_id x) s))"
proof -
  note row = entityD [OF x(1)]
  let ?f = "\<lambda>y. if lead_organization_id y = org \<and> lead_duplicate_of_lead_id y = Some (lead_id x) then y\<lparr>lead_duplicate_of_lead_id := None\<rparr> else y"
  have t: "leads (base (log_crm as (without_lead org (lead_id x) s))) = filter (\<lambda>y. lead_id y \<noteq> lead_id x) (map ?f (leads (base s)))"
    "customers (base (log_crm as (without_lead org (lead_id x) s))) = customers (base s)"
    by (simp_all add: without_lead_def update_where_def)
  have f: "same_lead one_move y (?f y)" for y by simp
  have only: "y = x" if "y \<in> set (leads (base s))" "lead_id y = lead_id x" for y
    using ok row(1) that by (auto simp: leads_sound_def distinct_map dest: inj_onD)
  have free: "\<forall>c \<in> set (customers (base s)). \<not> from_lead c x"
    using unused row by (auto simp: lead_in_use_def from_lead_def list_ex_iff)
  have "\<exists>y \<in> set (leads (base s)). same_lead one_move y z"
    if "z \<in> set (leads (base (log_crm as (without_lead org (lead_id x) s))))" for z
  proof -
    from that obtain y where "y \<in> set (leads (base s))" "z = ?f y" unfolding t by auto
    with f show ?thesis by blast
  qed
  moreover have "\<exists>z \<in> set (leads (base (log_crm as (without_lead org (lead_id x) s)))). same_lead one_move y z"
    if "y \<in> set (leads (base s))" "y \<noteq> x" for y
  proof (rule bexI [where x = "?f y"])
    show "?f y \<in> set (leads (base (log_crm as (without_lead org (lead_id x) s))))"
      unfolding t using that only [OF that(1)] by auto
  qed (rule f)
  ultimately show ?thesis using free x(2) unfolding moved_def t(2) by blast
qed

lemma delete_lead_moved:
  assumes ok: "leads_sound s"
  shows "moved s (committed (delete_lead e ctx org i s))"
  unfolding delete_lead_def
  by (intro moved_intros moved_refl; (simp only: outcome.sel audit_sel)?; rule unlinked_moved [OF ok]; assumption)

lemma new_lead_moved:
  assumes "leads_sound s" "uuid e k \<notin> lead_ids_used s"
    and "leads (base t) = leads (base s) @ [scored b c (new_lead e k org batch p)]" "lead_activities t = lead_activities s"
      "lead_assignments t = lead_assignments s @ (case given (lc_owner_user_id p) of None \<Rightarrow> []
         | Some u \<Rightarrow> [new_assignment e j org (uuid e k) u actor])" "customers (base t) = customers (base s)"
  shows "moved s t"
  by (rule moved_added [OF sound_new_lead [OF assms(1-5)] assms(3,6)])

lemma create_lead_moved:
  assumes ok: "leads_sound s" and fresh: "fresh_leads e s"
  shows "moved s (committed (create_lead f e ctx org p s))"
  unfolding create_lead_def Let_def
  by (intro moved_intros moved_refl; (simp only: outcome.sel)?; (elim recomputed)?)
    (rule new_lead_moved [OF ok fresh_leadsD(1) [OF fresh]],
     auto simp: add_new_lead fresh_leadsD(1) [OF fresh] split: option.split)

lemma commit_import_moved:
  assumes ok: "leads_sound s" and fresh: "fresh_leads e s" and keys: "[] \<notin> user_id ` set (users (base s))"
  shows "moved s (committed (commit_import f e ctx org filename parsed skip s))"
proof -
  have s1: "leads_sound (s\<lparr>import_batches := bs\<rparr>)" "fresh_from e 2 (s\<lparr>import_batches := bs\<rparr>)" for bs
    using fresh by (auto intro: leads_sound_frame [OF _ _ _ ok] simp: fresh_leads_def fresh_from_def lead_ids_used_def)
  have lines_moved: "moved s (log_crm as (s2\<lparr>import_batches := cs\<rparr>))"
    if lines: "import_lines f e 2 ctx org b skip rows (m, s\<lparr>import_batches := bs\<rparr>) = Inr (m', s2)" for b rows m m' s2 bs cs as
  proof -
    from import_lines_by [OF lines s1(2,1)] keys obtain xs where
      "leads_sound s2" "leads (base s2) = leads (base s) @ xs" "customers (base s2) = customers (base s)"
      by (auto simp: imported_by_def)
    then show ?thesis
      by (intro moved_added [where xs = xs]) (simp_all add: log_sound, erule leads_sound_frame [rotated 3], simp_all)
  qed
  show ?thesis
    unfolding commit_import_def Let_def
    by (intro moved_intros moved_refl; (simp only: outcome.sel split: prod.split)?) (auto simp only: intro: lines_moved)
qed

lemma lead_step_moved: "lead_step s t \<Longrightarrow> leads_sound s \<Longrightarrow> moved s t"
  by (erule lead_step.cases; hypsubst; (rule commit_import_moved; assumption)?)
    (simp_all only: create_lead_moved edit_steps_moved many_steps_moved delete_lead_moved
      setting_steps_moved status_steps_moved activity_steps_moved convert_moved)

section \<open>The origin of a customer\<close>

definition origins_ok :: "clients \<Rightarrow> bool" where
  "origins_ok s \<longleftrightarrow> leads_sound (sales_desk s) \<and> distinct (map cust_id (customers (store s))) \<and>
     exclusive cust_organization_id cust_converted_from_lead_id (customers (store s)) \<and>
     (\<forall>c \<in> set (customers (store s)). cust_converted_from_lead_id c \<noteq> None \<longrightarrow>
        (\<exists>x \<in> set (leads (store s)). lead_status x = Lead_CONVERTED \<and> from_lead c x))"

lemma move_keeps_converted: "one_move Lead_CONVERTED b \<longleftrightarrow> b = Lead_CONVERTED"
  by (auto simp: one_move_def)

lemma origins_lead_step:
  assumes ok: "origins_ok s" and d: "lead_step (sales_desk s) d"
  shows "origins_ok (s\<lparr>sales_desk := d\<rparr>)"
proof -
  from ok have sound: "leads_sound (sales_desk s)" by (simp add: origins_ok_def)
  note m = lead_step_moved [OF d sound, unfolded moved_def]
  have sound': "leads_sound d" by (rule sound_leads.kept [OF d sound])
  have stay: "\<exists>y \<in> set (leads (base d)). lead_status y = Lead_CONVERTED \<and> from_lead c y"
    if c: "c \<in> set (customers (store s))" "cust_converted_from_lead_id c \<noteq> None" for c
  proof -
    from ok c obtain x where x: "x \<in> set (leads (store s))" "lead_status x = Lead_CONVERTED" "from_lead c x"
      unfolding origins_ok_def by blast
    with m c(1) obtain y where "y \<in> set (leads (base d))" "same_lead one_move x y" by blast
    with x show ?thesis by (intro bexI [where x = y]) (auto simp: same_lead_def from_lead_def move_keeps_converted)
  qed
  from m consider "customers (base d) = customers (store s)"
    | c x where "customers (base d) = customers (store s) @ [c]" "cust_id c \<notin> cust_id ` set (customers (store s))"
        "x \<in> set (leads (base d))" "lead_status x = Lead_CONVERTED" "from_lead c x" "\<forall>c' \<in> set (customers (store s)). \<not> from_lead c' x"
    by blast
  then show ?thesis
  proof cases
    case 1
    with ok sound' stay show ?thesis by (simp add: origins_ok_def)
  next
    case (2 c x)
    have "exclusive cust_organization_id cust_converted_from_lead_id (customers (store s) @ [c])"
    proof (rule exclusive_insert)
      fix k assume "cust_converted_from_lead_id c = Some k"
      with 2(5,6) show "slot_free cust_organization_id cust_converted_from_lead_id (cust_organization_id c) k (customers (store s))"
        by (auto simp: slot_free_iff set_slots from_lead_def)
    qed (use ok in \<open>simp add: origins_ok_def\<close>)
    with ok sound' stay 2(1-5) show ?thesis by (auto simp: origins_ok_def)
  qed
qed

text \<open>The requests of the customer service.\<close>

lemma store_sel [simp]:
  "leads (store (customer_audit e k org ctx a n i old new s)) = leads (store s)"
  "customers (store (customer_audit e k org ctx a n i old new s)) = customers (store s)"
  "lead_activities (sales_desk (customer_audit e k org ctx a n i old new s)) = lead_activities (sales_desk s)"
  "lead_assignments (sales_desk (customer_audit e k org ctx a n i old new s)) = lead_assignments (sales_desk s)"
  "store (in_store g s) = g (store s)"
  "lead_activities (sales_desk (in_store g s)) = lead_activities (sales_desk s)"
  "lead_assignments (sales_desk (in_store g s)) = lead_assignments (sales_desk s)"
  by (simp_all add: customer_audit_def in_store_def add_audits_def)

lemma origins_frame:
  assumes "leads (store t) = leads (store s)" "lead_activities (sales_desk t) = lead_activities (sales_desk s)"
    "lead_assignments (sales_desk t) = lead_assignments (sales_desk s)" "customers (store t) = customers (store s)"
  shows "origins_ok s \<Longrightarrow> origins_ok t"
  unfolding origins_ok_def assms(1,4) using leads_sound_frame [OF assms(1-3)] by blast

lemma slots_drop: "distinct (slots org_of slot rows) \<Longrightarrow> distinct (slots org_of slot (filter p rows))"
proof (induction rows)
  case (Cons x rows)
  have "set (slots org_of slot (filter p rows)) \<subseteq> set (slots org_of slot rows)" by (auto simp: set_slots)
  with Cons show ?case by (auto simp: slots_Cons split: option.splits)
qed simp

lemma origins_customers:
  assumes "leads (store t) = leads (store s)" "lead_activities (sales_desk t) = lead_activities (sales_desk s)"
    "lead_assignments (sales_desk t) = lead_assignments (sales_desk s)" and ok: "origins_ok s"
    and "distinct (map cust_id (customers (store t)))" "exclusive cust_organization_id cust_converted_from_lead_id (customers (store t))"
    and from_old: "\<And>c. c \<in> set (customers (store t)) \<Longrightarrow> cust_converted_from_lead_id c \<noteq> None \<Longrightarrow>
      \<exists>c' \<in> set (customers (store s)). cust_organization_id c' = cust_organization_id c \<and>
        cust_converted_from_lead_id c' = cust_converted_from_lead_id c"
  shows "origins_ok t"
proof -
  have "leads_sound (sales_desk t)"
    using ok leads_sound_frame [OF assms(1-3)] by (simp add: origins_ok_def)
  moreover have "\<exists>x \<in> set (leads (store t)). lead_status x = Lead_CONVERTED \<and> from_lead c x"
    if c: "c \<in> set (customers (store t))" "cust_converted_from_lead_id c \<noteq> None" for c
  proof -
    from from_old [OF c] obtain c' where c': "c' \<in> set (customers (store s))" "cust_organization_id c' = cust_organization_id c"
      "cust_converted_from_lead_id c' = cust_converted_from_lead_id c" by blast
    with ok c(2) obtain x where "x \<in> set (leads (store s))" "lead_status x = Lead_CONVERTED" "from_lead c' x"
      unfolding origins_ok_def by auto
    with c' show ?thesis unfolding assms(1) by (auto simp: from_lead_def)
  qed
  ultimately show ?thesis using assms(5,6) unfolding origins_ok_def by blast
qed

lemmas origins_intros = outcome_intros [where P = origins_ok]

lemma updated_customer_sel [simp]:
  "cust_id (updated_customer p st c) = cust_id c" "cust_organization_id (updated_customer p st c) = cust_organization_id c"
  "cust_converted_from_lead_id (updated_customer p st c) = cust_converted_from_lead_id c"
  by (simp_all add: updated_customer_def Let_def)

lemma new_customer_sel [simp]:
  "cust_id (new_customer e org p) = uuid e 0" "cust_converted_from_lead_id (new_customer e org p) = None"
  by (simp_all add: new_customer_def)

lemma create_customer_origins:
  assumes ok: "origins_ok s" and fresh: "fresh_clients e s"
  shows "origins_ok (committed (create_customer e ctx org p s))"
proof -
  have "uuid e 0 \<notin> cust_id ` set (customers (store s))"
    using fresh_leadsD(1) [of e "sales_desk s" 0] fresh by (simp add: fresh_clients_def lead_ids_used_def)
  with ok show ?thesis
    unfolding create_customer_def Let_def
    by (intro origins_intros ok; (simp only: outcome.sel)?)
      (rule origins_customers [OF _ _ _ ok], auto simp: origins_ok_def intro!: exclusive_insert)
qed

lemma put_customer_origins:
  assumes ok: "origins_ok s" and c: "find_customer (store s) org i = Some c"
  shows "origins_ok (customer_audit e k org ctx a n j old new (in_store (\<lambda>d. d\<lparr>customers := put_row cust_id (updated_customer p st c) (customers d)\<rparr>) s))"
proof -
  note row = entityD [OF c]
  have only: "x = c" if "x \<in> set (customers (store s))" "cust_id x = cust_id c" for x
    using ok row(1) that by (auto simp: origins_ok_def distinct_map dest: inj_onD)
  show ?thesis
  proof (rule origins_customers [OF _ _ _ ok]; (simp only: store_sel)?)
    show "exclusive cust_organization_id cust_converted_from_lead_id
        (customers (store s\<lparr>customers := put_row cust_id (updated_customer p st c) (customers (store s))\<rparr>))"
      using ok by (auto simp: origins_ok_def intro!: exclusive_put_row dest!: only)
  qed (use ok row in \<open>auto simp: origins_ok_def set_put_row split: if_splits\<close>)
qed

lemma drop_customers_origins:
  assumes ok: "origins_ok s"
  shows "origins_ok (customer_audit e k org ctx a n j old new (without_customer org i s))"
  by (rule origins_customers [OF _ _ _ ok])
    (use ok in \<open>auto simp: origins_ok_def without_customer_def in_store_def exclusive_def intro: slots_drop distinct_map_filter\<close>)

lemma expired_sel [simp]:
  "leads (fst (expire_due_documents e k org d)) = leads d" "customers (fst (expire_due_documents e k org d)) = customers d"
  by (simp_all add: expire_due_documents_def add_audits_def Let_def)

lemma customer_steps_origins:
  assumes ok: "origins_ok s"
  shows "origins_ok (committed (update_customer e ctx org i cu s))" "origins_ok (committed (delete_customer e ctx org i s))"
    "origins_ok (committed (create_customer_activity e ctx org i cap s))"
    "origins_ok (committed (update_customer_activity e ctx org i aid cap s))"
    "origins_ok (committed (delete_customer_activity e ctx org i aid s))" "origins_ok (committed (customer_360 e org i granted s))"
proof -
  show "origins_ok (committed (update_customer e ctx org i cu s))"
    unfolding update_customer_def Let_def
    by (intro origins_intros ok; (simp only: outcome.sel)?) (erule put_customer_origins [OF ok])
  show "origins_ok (committed (delete_customer e ctx org i s))"
    unfolding delete_customer_def
    by (intro origins_intros ok; (simp only: outcome.sel)?) (rule drop_customers_origins [OF ok])
  show "origins_ok (committed (create_customer_activity e ctx org i cap s))"
    "origins_ok (committed (update_customer_activity e ctx org i aid cap s))"
    "origins_ok (committed (delete_customer_activity e ctx org i aid s))"
    unfolding create_customer_activity_def update_customer_activity_def delete_customer_activity_def Let_def
    by (intro origins_intros ok; (simp only: outcome.sel)?; rule origins_frame [OF _ _ _ _ ok]; simp)+
  show "origins_ok (committed (customer_360 e org i granted s))"
    unfolding customer_360_def Let_def
    by (intro origins_intros ok; (simp only: outcome.sel)?; rule origins_frame [OF _ _ _ _ ok]; simp)
qed

interpretation origins: client_invariant origins_ok
proof unfold_locales
  fix s t
  assume "client_step s t" and ok: "origins_ok s"
  then show "origins_ok t"
    by cases (simp_all add: origins_lead_step create_customer_origins customer_steps_origins)
qed

lemmas same_leads_intros = outcome_intros [where P = "\<lambda>t. leads (store t) = leads (store s)" for s]

lemma customer_steps_leads:
  "leads (store (committed (create_customer e ctx org cc s))) = leads (store s)"
  "leads (store (committed (update_customer e ctx org i cu s))) = leads (store s)"
  "leads (store (committed (delete_customer e ctx org i s))) = leads (store s)"
  "leads (store (committed (create_customer_activity e ctx org i cap s))) = leads (store s)"
  "leads (store (committed (update_customer_activity e ctx org i aid cap s))) = leads (store s)"
  "leads (store (committed (delete_customer_activity e ctx org i aid s))) = leads (store s)"
  "leads (store (committed (customer_360 e org i granted s))) = leads (store s)"
  unfolding create_customer_def update_customer_def delete_customer_def create_customer_activity_def update_customer_activity_def
    delete_customer_activity_def customer_360_def Let_def
  by (intro same_leads_intros refl; simp add: without_customer_def)+

end
