(* ===== verification/Client_Claims.thy ===== *)
theory Client_Claims
  imports Client_Safety Lead_Claims
begin

text \<open>The property that spans the lead and the customer service.\<close>

lemma filter_single:
  assumes "distinct xs" "x \<in> set xs" "p x" and only: "\<And>y. y \<in> set xs \<Longrightarrow> p y \<Longrightarrow> y = x"
  shows "filter p xs = [x]"
proof -
  from assms(2) obtain us vs where xs: "xs = us @ x # vs" by (meson split_list)
  have "\<not> p y" if "y \<in> set us \<union> set vs" for y
  proof
    assume "p y"
    with that only [of y] have "y = x" by (auto simp: xs)
    with that assms(1) show False by (auto simp: xs)
  qed
  then show ?thesis using assms(3) by (simp add: xs filter_empty_conv)
qed

lemma client_step_leads:
  assumes "client_step s t" "origins_ok s" "y \<in> set (leads (store t))" "lead_id y \<in> lead_id ` set (leads (store s))"
  shows "\<exists>x \<in> set (leads (store s)). same_lead one_move x y"
  using assms(1)
proof cases
  case (lead_request d)
  with assms(2) have "moved (sales_desk s) d" by (intro lead_step_moved) (simp_all add: origins_ok_def)
  with assms(3,4) lead_request show ?thesis unfolding moved_def by simp
qed (rule bexI [of _ y], rule same_lead_refl, use assms(3) in \<open>simp only: customer_steps_leads\<close>)+

text \<open>
  C33: Whatever requests reach the lead and the customer service, a customer that stems from a lead stems from a
  converted lead of its own organization, and no other customer stems from the same lead; and every further
  request leaves the status of each lead as it is or moves it along one arrow of the status machine, so that a
  converted lead stays converted.
\<close>

theorem customers_stem_from_converted_leads:
  assumes start: "origins_ok s" and steps: "client_step\<^sup>*\<^sup>* s t"
    and c: "c \<in> set (customers (store t))" "cust_converted_from_lead_id c = Some i"
  shows "(\<exists>x \<in> set (leads (store t)). lead_id x = i \<and> lead_organization_id x = cust_organization_id c \<and> lead_status x = Lead_CONVERTED) \<and>
    filter (\<lambda>d. cust_organization_id d = cust_organization_id c \<and> cust_converted_from_lead_id d = Some i) (customers (store t)) = [c] \<and>
    (\<forall>u y. client_step t u \<and> y \<in> set (leads (store u)) \<and> lead_id y \<in> lead_id ` set (leads (store t)) \<longrightarrow>
      (\<exists>x \<in> set (leads (store t)). lead_id x = lead_id y \<and> lead_organization_id x = lead_organization_id y \<and>
        (lead_status y = lead_status x \<or> lead_status y \<in> set (next_statuses (lead_status x)))))"
proof (intro conjI allI impI)
  have ok: "origins_ok t" by (rule origins.always [OF steps start])
  with c obtain x where "x \<in> set (leads (store t))" "lead_status x = Lead_CONVERTED" "from_lead c x"
    unfolding origins_ok_def by auto
  with c(2) show "\<exists>x \<in> set (leads (store t)). lead_id x = i \<and> lead_organization_id x = cust_organization_id c \<and> lead_status x = Lead_CONVERTED"
    by (auto simp: from_lead_def)
  from ok have "exclusive cust_organization_id cust_converted_from_lead_id (customers (store t))" "distinct (map cust_id (customers (store t)))"
    by (simp_all add: origins_ok_def)
  with c show "filter (\<lambda>d. cust_organization_id d = cust_organization_id c \<and> cust_converted_from_lead_id d = Some i) (customers (store t)) = [c]"
    by (intro filter_single) (auto simp: distinct_map intro: exclusive_unique)
  fix u y
  assume "client_step t u \<and> y \<in> set (leads (store u)) \<and> lead_id y \<in> lead_id ` set (leads (store t))"
  with client_step_leads [OF _ ok] obtain x where "x \<in> set (leads (store t))" "same_lead one_move x y" by blast
  then show "\<exists>x \<in> set (leads (store t)). lead_id x = lead_id y \<and> lead_organization_id x = lead_organization_id y \<and>
      (lead_status y = lead_status x \<or> lead_status y \<in> set (next_statuses (lead_status x)))"
    by (intro bexI [of _ x]) (simp_all add: same_lead_def one_move_def)
qed

section \<open>A sample\<close>

definition sample_clients :: clients where
  "sample_clients = \<lparr>sales_desk = on_base (\<lambda>d. d\<lparr>leads := [sample_lead ''q'' Lead_QUALIFIED]\<rparr>) sample_crm, customer_activities = [],
     agreements = [], possessions = [], service_requests = []\<rparr>"

lemma sample_clients_sel:
  "leads (store sample_clients) = [sample_lead ''q'' Lead_QUALIFIED]" "customers (store sample_clients) = []"
  "lead_activities (sales_desk sample_clients) = []" "lead_assignments (sales_desk sample_clients) = []"
  "score_rules (sales_desk sample_clients) = []"
  by (simp_all add: sample_clients_def sample_crm_def sample_office_def empty_database_def on_base_def in_office_def)

lemma sample_clients_ok: "origins_ok sample_clients"
  by (simp add: origins_ok_def leads_sound_def lead_sound_def owner_assigned_def active_assignments_def next_follow_up_def
      sample_clients_sel sample_lead_def given_def exclusive_def)

theorem customers_stem_from_converted_leads_witness:
  "\<exists>t c. client_step sample_clients t \<and>
    filter (\<lambda>d. cust_organization_id d = ''o'' \<and> cust_converted_from_lead_id d = Some ''q'') (customers (store t)) = [c] \<and>
    (\<exists>x \<in> set (leads (store t)). lead_id x = ''q'' \<and> lead_status x = Lead_CONVERTED)"
proof -
  have q: "find_lead (store sample_clients) ''o'' ''q'' = Some (sample_lead ''q'' Lead_QUALIFIED)"
    "lead_status (sample_lead ''q'' Lead_QUALIFIED) = Lead_QUALIFIED" "rules_calm (sales_desk sample_clients) ''o''"
    "given (lead_email (sample_lead ''q'' Lead_QUALIFIED)) \<noteq> None \<or> given (lead_phone (sample_lead ''q'' Lead_QUALIFIED)) \<noteq> None"
    "customer_from (sales_desk sample_clients) ''o'' ''q'' = None"
    by (simp_all add: sample_clients_sel entity_Cons rules_calm_def active_rules_def customer_from_def)
      (simp_all add: sample_lead_def given_def)
  from converts [OF q] obtain d c where d: "lead_step (sales_desk sample_clients) d" "customers (base d) = [c]"
    "cust_organization_id c = ''o''" "cust_converted_from_lead_id c = Some ''q''"
    by (auto simp: moves_def sample_clients_sel)
  let ?t = "sample_clients\<lparr>sales_desk := d\<rparr>"
  have step: "client_step sample_clients ?t" by (rule lead_request [OF d(1)])
  then have steps: "client_step\<^sup>*\<^sup>* sample_clients ?t" by (rule r_into_rtranclp)
  have "c \<in> set (customers (store ?t))" using d(2) by simp
  from customers_stem_from_converted_leads [OF sample_clients_ok steps this d(4)] step d(3)
  show ?thesis by (intro exI [of _ ?t] exI [of _ c]) auto
qed

end
