(* ===== verification/Dates.thy ===== *)
theory Dates
  imports Prelude
begin

text \<open>
  The Gregorian calendar of Python's \<^verbatim>\<open>datetime.date\<close>: a date is the number of its day, with 1 January 1970 as day 0. The
  theory shows that the date of a day determines the day, and in which month the same day of a later month lies; the
  schedules of the rents rest on that. \<^verbatim>\<open>date\<close> ends with the year 9999, which \<open>max_day\<close> stands for.
\<close>

section \<open>Years and months\<close>

definition leap :: "int \<Rightarrow> bool" where
  "leap y \<longleftrightarrow> y mod 4 = 0 \<and> (y mod 100 \<noteq> 0 \<or> y mod 400 = 0)"

definition month_length :: "int \<Rightarrow> int \<Rightarrow> int" where
  "month_length y m = (if m = 2 then (if leap y then 29 else 28) else if m \<in> {4, 6, 9, 11} then 30 else 31)"

definition days_before_year :: "int \<Rightarrow> int" where
  "days_before_year y = (let n = y - 1 in 365 * n + n div 4 - n div 100 + n div 400)"

definition days_before_month :: "int \<Rightarrow> int \<Rightarrow> int" where
  "days_before_month y m = sum_list (map (month_length y) [1..m - 1])"

definition day_of :: "int \<Rightarrow> int \<Rightarrow> int \<Rightarrow> day" where
  "day_of y m d = days_before_year y + days_before_month y m + d - 719163"

text \<open>The year of a day, by cycles of 400, 100, 4 and 1 years.\<close>

definition year_of_day :: "day \<Rightarrow> int" where
  "year_of_day x =
     (let n = x + 719162; n400 = n div 146097; r = n mod 146097; n100 = min 3 (r div 36524); r1 = r - 36524 * n100;
          n4 = r1 div 1461; n1 = min 3 (r1 mod 1461 div 365)
      in 400 * n400 + 100 * n100 + 4 * n4 + n1 + 1)"

function month_from :: "int \<Rightarrow> int \<Rightarrow> int \<Rightarrow> int \<times> int" where
  "month_from y m r = (if 12 \<le> m \<or> r < month_length y m then (m, r + 1) else month_from y (m + 1) (r - month_length y m))"
  by auto
termination by (relation "measure (\<lambda>(y, m, r). nat (12 - m))") auto

declare month_from.simps [simp del]

definition calendar :: "day \<Rightarrow> int \<times> int \<times> int" where
  "calendar x = (let y = year_of_day x in (y, month_from y 1 (x + 719162 - days_before_year y)))"

text \<open>\<^verbatim>\<open>_add_months\<close>: the same day of a later month, or the last one of a shorter month.\<close>

definition add_months :: "day \<Rightarrow> int \<Rightarrow> day" where
  "add_months x k = (case calendar x of (y, m, d) \<Rightarrow>
     let target = m - 1 + k; year = y + target div 12; month = target mod 12 + 1 in
     day_of year month (min d (month_length year month)))"

definition max_day :: day where
  "max_day = 2932896"

section \<open>The calendar is right\<close>

lemma max_day_date: "max_day = day_of 9999 12 31"
  by (simp add: max_day_def day_of_def days_before_year_def days_before_month_def month_length_def leap_def upto_rec1)

lemma month_length_bounds: "28 \<le> month_length y m" "month_length y m \<le> 31"
  by (simp_all add: month_length_def)

lemma quotient_step:
  fixes y k :: int
  assumes k: "0 < k"
  shows "y div k - (y - 1) div k = (if y mod k = 0 then 1 else 0)"
proof (cases "y mod k = 0")
  case True
  then have "y - 1 = k * (y div k - 1) + (k - 1)" using mult_div_mod_eq [of k y] by (simp add: right_diff_distrib)
  then have "(y - 1) div k = y div k - 1" by (rule int_div_pos_eq) (use k in simp_all)
  then show ?thesis using True by simp
next
  case False
  have "y - 1 = k * (y div k) + (y mod k - 1)" by simp
  moreover have "0 \<le> y mod k - 1" "y mod k - 1 < k" using False k pos_mod_sign [OF k, of y] pos_mod_bound [OF k, of y] by simp_all
  ultimately have "(y - 1) div k = y div k" by (rule int_div_pos_eq)
  then show ?thesis using False by simp
qed

lemma mod_of_multiple: "(y :: int) mod 100 = 0 \<Longrightarrow> y mod 4 = 0" "(y :: int) mod 400 = 0 \<Longrightarrow> y mod 100 = 0"
  by (simp_all add: mod_eq_0_iff_dvd) (auto elim!: dvd_trans [rotated])

lemma days_next_year: "days_before_year (y + 1) = days_before_year y + (if leap y then 366 else 365)"
proof -
  have "days_before_year (y + 1) - days_before_year y
      = 365 + (y div 4 - (y - 1) div 4) - (y div 100 - (y - 1) div 100) + (y div 400 - (y - 1) div 400)"
    by (simp add: days_before_year_def Let_def)
  also have "\<dots> = 365 + (if y mod 4 = 0 then 1 else 0) - (if y mod 100 = 0 then 1 else 0) + (if y mod 400 = 0 then 1 else 0)"
    using quotient_step [of 4 y] quotient_step [of 100 y] quotient_step [of 400 y] by (simp only: zero_less_numeral simp_thms)
  also have "\<dots> = (if leap y then 366 else 365)"
  proof (cases "y mod 400 = 0")
    case True
    then show ?thesis using mod_of_multiple [of y] by (simp only: leap_def) simp
  next
    case False
    then show ?thesis using mod_of_multiple(1) [of y] by (simp only: leap_def) simp
  qed
  finally show ?thesis by simp
qed

lemma days_next_month: "1 \<le> m \<Longrightarrow> days_before_month y (m + 1) = days_before_month y m + month_length y m"
proof -
  assume m: "1 \<le> m"
  then have "[1..m] = [1..m - 1] @ [m]" using upto_rec2 [of 1 m] by simp
  then show ?thesis by (simp add: days_before_month_def)
qed

lemma months_of_year: "days_before_month y 1 = 0" "days_before_month y 12 + 31 = (if leap y then 366 else 365)"
  by (simp_all add: days_before_month_def month_length_def upto_rec1)

lemma year_of_day_bounds:
  fixes x :: day
  defines "y \<equiv> year_of_day x"
  shows "days_before_year y \<le> x + 719162" "x + 719162 < days_before_year (y + 1)"
proof -
  define n where "n = x + 719162"
  define a where "a = n div 146097"
  define r where "r = n mod 146097"
  define b where "b = min 3 (r div 36524)"
  define r1 where "r1 = r - 36524 * b"
  define c where "c = r1 div 1461"
  define t where "t = r1 mod 1461"
  define d where "d = min 3 (t div 365)"
  have y: "y = 400 * a + 100 * b + 4 * c + d + 1"
    unfolding y_def year_of_day_def Let_def n_def [symmetric] a_def b_def c_def d_def r_def r1_def t_def ..
  have n: "n = 146097 * a + r" "0 \<le> r" "r < 146097" unfolding a_def r_def by auto
  have b: "0 \<le> b" "b \<le> 3" "36524 * b \<le> r" "b < 3 \<Longrightarrow> r < 36524 * b + 36524" using n unfolding b_def by auto
  then have r1: "0 \<le> r1" "r1 \<le> 36524" "b < 3 \<Longrightarrow> r1 < 36524"
    using n by (simp_all add: r1_def) (cases "b < 3", simp_all)
  have t: "r1 = 1461 * c + t" "0 \<le> t" "t < 1461" unfolding c_def t_def by auto
  have d: "0 \<le> d" "d \<le> 3" "365 * d \<le> t" "d < 3 \<Longrightarrow> t < 365 * d + 365" using t unfolding d_def by auto
  have c: "0 \<le> c" "c \<le> 24" using r1 t by simp_all
  define p where "p = 400 * a + 100 * b + 4 * c + d"
  have "p div 4 = 100 * a + 25 * b + c" by (rule int_div_pos_eq [of _ _ _ d]) (use d in \<open>simp_all add: p_def\<close>)
  moreover have "p div 100 = 4 * a + b" by (rule int_div_pos_eq [of _ _ _ "4 * c + d"]) (use c d in \<open>simp_all add: p_def\<close>)
  moreover have "p div 400 = a" by (rule int_div_pos_eq [of _ _ _ "100 * b + 4 * c + d"]) (use b c d in \<open>simp_all add: p_def\<close>)
  moreover have yp: "y = p + 1" using y by (simp add: p_def)
  ultimately have start: "days_before_year y = 146097 * a + 36524 * b + 1461 * c + 365 * d"
    by (simp add: days_before_year_def p_def)
  have x: "x + 719162 = 146097 * a + 36524 * b + 1461 * c + t" using n t(1) by (simp add: n_def r1_def)
  show "days_before_year y \<le> x + 719162" using start x d(3) by simp
  have "t < 365 * d + (if leap y then 366 else 365)"
  proof (cases "d = 3")
    case False
    then show ?thesis using d by auto
  next
    case d3: True
    show ?thesis
    proof (cases "c = 24 \<and> b < 3")
      case True
      then show ?thesis using r1(3) t(1) d3 by simp
    next
      case False
      have four: "y = 4 * (100 * a + 25 * b + c + 1)" using yp d3 by (simp add: p_def)
      have "leap y"
      proof (cases "c = 24")
        case True
        then have "y = 400 * (a + 1)" using False b four by simp
        then show ?thesis by (simp add: leap_def)
      next
        case less: False
        have "y = 100 * (4 * a + b) + 4 * (c + 1)" using four by simp
        then have "y mod 100 = 4 * (c + 1)" by (rule int_mod_pos_eq) (use c less in simp_all)
        then show ?thesis using four c by (simp add: leap_def)
      qed
      then show ?thesis using t(3) d3 by simp
    qed
  qed
  then show "x + 719162 < days_before_year (y + 1)" unfolding days_next_year using start x by simp
qed

lemma month_from_date:
  "1 \<le> m \<Longrightarrow> m \<le> 12 \<Longrightarrow> 0 \<le> r \<Longrightarrow> month_from y m r = (m', d) \<Longrightarrow>
   m \<le> m' \<and> m' \<le> 12 \<and> 1 \<le> d \<and> (m' < 12 \<longrightarrow> d \<le> month_length y m') \<and>
   days_before_month y m' + d = days_before_month y m + r + 1"
proof (induction y m r rule: month_from.induct)
  case (1 y m r)
  show ?case
  proof (cases "12 \<le> m \<or> r < month_length y m")
    case True
    then show ?thesis using 1(2-) by (auto simp: month_from.simps [of y m r])
  next
    case False
    then have "month_from y (m + 1) (r - month_length y m) = (m', d)" using 1(5) by (simp add: month_from.simps [of y m r])
    with 1(1) [OF False] False 1(2-4) show ?thesis by (auto simp: days_next_month)
  qed
qed

lemma calendar_date:
  assumes "calendar x = (y, m, d)"
  shows "day_of y m d = x" "1 \<le> m" "m \<le> 12" "1 \<le> d" "d \<le> month_length y m"
proof -
  have y: "y = year_of_day x" using assms by (simp add: calendar_def Let_def)
  have f: "month_from y 1 (x + 719162 - days_before_year y) = (m, d)" using assms unfolding y by (simp add: calendar_def Let_def)
  have r: "0 \<le> x + 719162 - days_before_year y" "x + 719162 - days_before_year y < (if leap y then 366 else 365)"
    using year_of_day_bounds [of x] days_next_year [of y] by (simp_all add: y)
  note m = month_from_date [OF _ _ r(1) f, simplified]
  then show "day_of y m d = x" "1 \<le> m" "m \<le> 12" "1 \<le> d" by (simp_all add: day_of_def months_of_year)
  show "d \<le> month_length y m"
  proof (cases "m < 12")
    case False
    then have "m = 12" using m by simp
    moreover have "month_length y 12 = 31" by (simp add: month_length_def)
    ultimately show ?thesis using m r(2) months_of_year(2) [of y] by (simp add: months_of_year(1))
  qed (use m in simp)
qed

section \<open>Months in order\<close>

text \<open>Month \<open>i\<close> is month \<open>i mod 12 + 1\<close> of the year \<open>i div 12\<close>.\<close>

definition month_start :: "int \<Rightarrow> day" where
  "month_start i = day_of (i div 12) (i mod 12 + 1) 1"

definition month_days :: "int \<Rightarrow> int" where
  "month_days i = month_length (i div 12) (i mod 12 + 1)"

definition month_index :: "day \<Rightarrow> int" where
  "month_index x = (case calendar x of (y, m, d) \<Rightarrow> 12 * y + m - 1)"

lemma month_days_bounds: "28 \<le> month_days i" "month_days i \<le> 31"
  by (simp_all add: month_days_def month_length_bounds)

lemma month_start_next: "month_start (i + 1) = month_start i + month_days i"
proof (cases "i mod 12 = 11")
  case True
  then have i: "i + 1 = 12 * (i div 12 + 1)" using mult_div_mod_eq [of 12 i] by simp
  have "month_start (i + 1) = day_of (i div 12 + 1) 1 1" unfolding month_start_def i by simp
  also have "\<dots> = day_of (i div 12) 12 1 + 31" using days_next_year [of "i div 12"] months_of_year(2) [of "i div 12"]
    by (simp add: day_of_def months_of_year(1))
  finally show ?thesis by (simp add: month_start_def month_days_def True month_length_def)
next
  case False
  then have i: "i + 1 = 12 * (i div 12) + (i mod 12 + 1)" "0 \<le> i mod 12 + 1" "i mod 12 + 1 < 12"
    using mult_div_mod_eq [of 12 i] pos_mod_bound [of 12 i] pos_mod_sign [of 12 i] by simp_all
  have "(i + 1) div 12 = i div 12" "(i + 1) mod 12 = i mod 12 + 1"
    by (rule int_div_pos_eq [OF i], rule int_mod_pos_eq [OF i])
  then show ?thesis using days_next_month [of "i mod 12 + 1" "i div 12"] i(2) by (simp add: month_start_def month_days_def day_of_def)
qed

lemma month_parts:
  assumes "calendar x = (y, m, d)"
  shows "month_index x div 12 = y" "month_index x mod 12 = m - 1" "x = month_start (month_index x) + d - 1"
    "1 \<le> d" "d \<le> month_days (month_index x)"
proof -
  have i: "month_index x = 12 * y + (m - 1)" using assms by (simp add: month_index_def)
  show parts: "month_index x div 12 = y" "month_index x mod 12 = m - 1"
    using calendar_date(2,3) [OF assms] by (auto intro: int_div_pos_eq [OF i] int_mod_pos_eq [OF i])
  show "x = month_start (month_index x) + d - 1" "1 \<le> d" "d \<le> month_days (month_index x)"
    using calendar_date [OF assms] by (simp_all add: month_start_def month_days_def parts day_of_def)
qed

lemma month_start_le: "month_start (month_index x) \<le> x" "x < month_start (month_index x + 1)"
  by (cases "calendar x"; use month_parts [of x] in \<open>force simp: month_start_next\<close>)+

lemma add_months_eq:
  assumes "calendar x = (y, m, d)"
  shows "add_months x k = month_start (month_index x + k) + min d (month_days (month_index x + k)) - 1"
proof -
  have i: "month_index x + k = 12 * y + (m - 1 + k)" using assms by (simp add: month_index_def)
  have "(month_index x + k) div 12 = y + (m - 1 + k) div 12" unfolding i by (rule div_mult_self4) simp
  moreover have "(month_index x + k) mod 12 = (m - 1 + k) mod 12" unfolding i by (rule mod_mult_self4)
  ultimately show ?thesis using assms by (simp add: add_months_def month_start_def month_days_def day_of_def Let_def)
qed

lemma add_months_in: "month_start (month_index x + k) \<le> add_months x k" "add_months x k < month_start (month_index x + k + 1)"
proof -
  obtain y m d where x: "calendar x = (y, m, d)" by (cases "calendar x")
  show "month_start (month_index x + k) \<le> add_months x k" "add_months x k < month_start (month_index x + k + 1)"
    using month_parts(4) [OF x] month_days_bounds [of "month_index x + k"] by (simp_all add: add_months_eq [OF x] month_start_next)
qed

lemma add_months_0 [simp]: "add_months x 0 = x"
proof -
  obtain y m d where x: "calendar x = (y, m, d)" by (cases "calendar x")
  show ?thesis using month_parts(3-5) [OF x] by (simp add: add_months_eq [OF x])
qed

lemma add_months_less: "add_months x k < add_months x (k + 1)"
  using add_months_in(2) [of x k] add_months_in(1) [of x "k + 1"] by (simp add: add.assoc)

lemma add_months_step: "add_months x (k + 1) \<le> add_months x k + 31"
proof -
  obtain y m d where x: "calendar x = (y, m, d)" by (cases "calendar x")
  show ?thesis
    using month_parts(5) [OF x] month_days_bounds [of "month_index x"] month_days_bounds [of "month_index x + k"] month_days_bounds [of "month_index x + (k + 1)"]
    by (simp add: add_months_eq [OF x] month_start_next add.assoc [symmetric] min_def)
qed

end
