(* ===== verification/Service_Settings.thy ===== *)
theory Service_Settings
  imports Customer_Overview Dates
begin

text \<open>
  The tables of the service desk (\<^verbatim>\<open>models/operations.py\<close>) and of the tenants, and the record \<open>helpdesk\<close> that extends the
  clients by them; the requests themselves are a table of \<open>clients\<close>. With them come the texts that dates, identifiers and
  values are printed as.

  Then the first part of \<^verbatim>\<open>services/service_requests.py\<close>: who may see a ticket, the categories, the SLA policies
  and the deadlines that follow from them. Each payload is the one that the schema has validated.
\<close>

section \<open>Enumerations\<close>

datatype tenant_status =
  Tenant_ACTIVE | Tenant_INACTIVE | Tenant_BLACKLISTED

primrec tenant_status_value :: "tenant_status \<Rightarrow> string" where
  "tenant_status_value Tenant_ACTIVE = ''ACTIVE''"
| "tenant_status_value Tenant_INACTIVE = ''INACTIVE''"
| "tenant_status_value Tenant_BLACKLISTED = ''BLACKLISTED''"

datatype escalation_status =
  Escalation_OPEN | Escalation_ACKNOWLEDGED | Escalation_RESOLVED

primrec escalation_status_value :: "escalation_status \<Rightarrow> string" where
  "escalation_status_value Escalation_OPEN = ''OPEN''"
| "escalation_status_value Escalation_ACKNOWLEDGED = ''ACKNOWLEDGED''"
| "escalation_status_value Escalation_RESOLVED = ''RESOLVED''"

section \<open>Rows\<close>

record tenant_row =
  tenant_id :: ident
  tenant_organization_id :: ident
  tenant_user_id :: "ident option"
  tenant_full_name :: string
  tenant_email :: "string option"
  tenant_phone :: "string option"
  tenant_alternate_phone :: "string option"
  tenant_identity_type :: "string option"
  tenant_identity_reference :: "string option"
  tenant_address :: "string option"
  tenant_emergency_contact_name :: "string option"
  tenant_emergency_contact_phone :: "string option"
  tenant_status :: tenant_status
  tenant_created_at :: timestamp

record service_category_row =
  scat_id :: ident
  scat_organization_id :: ident
  scat_code :: string
  scat_name :: string
  scat_description :: "string option"
  scat_is_active :: bool
  scat_created_at :: timestamp

record sla_policy_row =
  sla_id :: ident
  sla_organization_id :: ident
  sla_category_id :: ident
  sla_priority :: service_priority
  sla_first_response_minutes :: int
  sla_resolution_minutes :: int
  sla_escalation_minutes :: int
  sla_is_active :: bool
  sla_created_at :: timestamp

record service_comment_row =
  scom_id :: ident
  scom_organization_id :: ident
  scom_service_request_id :: ident
  scom_author_user_id :: ident
  scom_body :: string
  scom_is_internal :: bool
  scom_created_at :: timestamp

record service_attachment_row =
  satt_id :: ident
  satt_organization_id :: ident
  satt_service_request_id :: ident
  satt_comment_id :: "ident option"
  satt_uploaded_by_user_id :: ident
  satt_file_name :: string
  satt_storage_key :: string
  satt_content_type :: string
  satt_size_bytes :: int
  satt_checksum_sha256 :: string
  satt_created_at :: timestamp

record service_escalation_row =
  sesc_id :: ident
  sesc_organization_id :: ident
  sesc_service_request_id :: ident
  sesc_escalated_by_user_id :: "ident option"
  sesc_from_user_id :: "ident option"
  sesc_to_user_id :: ident
  sesc_acknowledged_by_user_id :: "ident option"
  sesc_status :: escalation_status
  sesc_reason :: string
  sesc_escalated_at :: timestamp
  sesc_acknowledged_at :: "timestamp option"
  sesc_resolved_at :: "timestamp option"
  sesc_created_at :: timestamp

record service_feedback_row =
  sfb_id :: ident
  sfb_organization_id :: ident
  sfb_service_request_id :: ident
  sfb_submitted_by_user_id :: ident
  sfb_rating :: int
  sfb_comments :: "string option"
  sfb_submitted_at :: timestamp
  sfb_created_at :: timestamp


record helpdesk =
  front :: clients
  tenants :: "tenant_row list"
  service_categories :: "service_category_row list"
  sla_policies :: "sla_policy_row list"
  service_comments :: "service_comment_row list"
  service_attachments :: "service_attachment_row list"
  service_escalations :: "service_escalation_row list"
  service_feedback :: "service_feedback_row list"

abbreviation desk :: "helpdesk \<Rightarrow> database" where
  "desk s \<equiv> store (front s)"

abbreviation tickets :: "helpdesk \<Rightarrow> service_request_row list" where
  "tickets s \<equiv> service_requests (front s)"

definition in_desk :: "(database \<Rightarrow> database) \<Rightarrow> helpdesk \<Rightarrow> helpdesk" where
  "in_desk f s = s\<lparr>front := in_store f (front s)\<rparr>"

definition put_ticket :: "service_request_row \<Rightarrow> helpdesk \<Rightarrow> helpdesk" where
  "put_ticket x s = s\<lparr>front := (front s)\<lparr>service_requests := put_row sreq_id x (tickets s)\<rparr>\<rparr>"

abbreviation find_tenant :: "helpdesk \<Rightarrow> ident \<Rightarrow> ident \<Rightarrow> tenant_row option" where
  "find_tenant s \<equiv> entity tenant_organization_id tenant_id (tenants s)"

abbreviation find_category :: "helpdesk \<Rightarrow> ident \<Rightarrow> ident \<Rightarrow> service_category_row option" where
  "find_category s \<equiv> entity scat_organization_id scat_id (service_categories s)"

abbreviation find_policy :: "helpdesk \<Rightarrow> ident \<Rightarrow> ident \<Rightarrow> sla_policy_row option" where
  "find_policy s \<equiv> entity sla_organization_id sla_id (sla_policies s)"

abbreviation find_comment :: "helpdesk \<Rightarrow> ident \<Rightarrow> ident \<Rightarrow> service_comment_row option" where
  "find_comment s \<equiv> entity scom_organization_id scom_id (service_comments s)"

abbreviation find_attachment :: "helpdesk \<Rightarrow> ident \<Rightarrow> ident \<Rightarrow> service_attachment_row option" where
  "find_attachment s \<equiv> entity satt_organization_id satt_id (service_attachments s)"

abbreviation find_escalation :: "helpdesk \<Rightarrow> ident \<Rightarrow> ident \<Rightarrow> service_escalation_row option" where
  "find_escalation s \<equiv> entity sesc_organization_id sesc_id (service_escalations s)"

section \<open>Texts\<close>

text \<open>The date of a timestamp as \<^verbatim>\<open>%Y%m%d\<close>.\<close>

definition two_digits :: "int \<Rightarrow> string" where
  "two_digits n = (if n < 10 then ''0'' else []) @ nat_str (nat n)"

definition date_text :: "timestamp \<Rightarrow> string" where
  "date_text t = (case calendar (t div 86400000000) of (y, m, d) \<Rightarrow> nat_str (nat y) @ two_digits m @ two_digits d)"

text \<open>\<^verbatim>\<open>uuid4().hex\<close>, of which the first digits are taken.\<close>

definition hex_prefix :: "nat \<Rightarrow> ident \<Rightarrow> string" where
  "hex_prefix n draw = take n (filter (\<lambda>c. c \<noteq> CHR ''-'') draw)"

text \<open>\<^verbatim>\<open>str(value)\<close> of an optional value.\<close>

definition str_of :: "('a \<Rightarrow> string) \<Rightarrow> 'a option \<Rightarrow> json" where
  "str_of f x = JStr (case x of None \<Rightarrow> ''None'' | Some y \<Rightarrow> f y)"

definition middle_dot :: string where
  "middle_dot = [CHR '' '', CHR 0xC2, CHR 0xB7, CHR '' '']"

definition arrow :: string where
  "arrow = [CHR '' '', CHR 0xE2, CHR 0x86, CHR 0x92, CHR '' '']"

section \<open>People\<close>

abbreviation invalid :: "string \<Rightarrow> app_error" where
  "invalid code \<equiv> App_Error 422 code"

text \<open>\<^verbatim>\<open>_is_agent\<close> and \<^verbatim>\<open>_can_manage\<close>\<close>

definition is_agent :: "mutation_context \<Rightarrow> bool" where
  "is_agent ctx = list_ex (may ctx) [''service_requests.assign'', ''service_requests.approve'', ''service_requests.manage'']"

definition can_manage :: "mutation_context \<Rightarrow> bool" where
  "can_manage ctx = may ctx ''service_requests.manage''"

definition agent_codes :: "string list" where
  "agent_codes = [''service_requests.assign'', ''service_requests.manage'']"

definition is_service_agent :: "helpdesk \<Rightarrow> ident \<Rightarrow> user_row \<Rightarrow> bool" where
  "is_service_agent s org u \<longleftrightarrow> user_organization_id u = org \<and> user_is_active u \<and>
     list_ex (\<lambda>c. c \<in> set agent_codes) (user_codes (desk s) org (user_id u))"

text \<open>\<^verbatim>\<open>_service_agent\<close>\<close>

definition service_agent :: "helpdesk \<Rightarrow> ident \<Rightarrow> ident \<Rightarrow> user_row option" where
  "service_agent s org i = find (\<lambda>u. user_id u = i \<and> is_service_agent s org u) (users (desk s))"

definition actor_tenant :: "helpdesk \<Rightarrow> ident \<Rightarrow> ident \<Rightarrow> tenant_row option" where
  "actor_tenant s org user = find (\<lambda>t. tenant_organization_id t = org \<and> tenant_user_id t = Some user) (tenants s)"

text \<open>Who is not an agent sees the tickets they opened and those of the tenant they are.\<close>

definition own_ticket :: "helpdesk \<Rightarrow> ident \<Rightarrow> mutation_context \<Rightarrow> service_request_row \<Rightarrow> bool" where
  "own_ticket s org ctx x \<longleftrightarrow> sreq_opened_by_user_id x = Some (actor_user_id ctx) \<or>
     (case actor_tenant s org (actor_user_id ctx) of None \<Rightarrow> False | Some t \<Rightarrow> sreq_tenant_id x = Some (tenant_id t))"

text \<open>\<^verbatim>\<open>_ticket\<close>\<close>

definition find_ticket :: "helpdesk \<Rightarrow> ident \<Rightarrow> mutation_context \<Rightarrow> ident \<Rightarrow> service_request_row option" where
  "find_ticket s org ctx i = (case entity sreq_organization_id sreq_id (tickets s) org i of
     None \<Rightarrow> None | Some x \<Rightarrow> if is_agent ctx \<or> own_ticket s org ctx x then Some x else None)"

definition name_at :: "helpdesk \<Rightarrow> ident \<Rightarrow> ident option \<Rightarrow> string option" where
  "name_at s org x = name_of user_full_name (find_user (desk s) org) x"

text \<open>\<^verbatim>\<open>name or text\<close>\<close>

definition named_or :: "string option \<Rightarrow> string \<Rightarrow> string" where
  "named_or x t = (case given x of None \<Rightarrow> t | Some n \<Rightarrow> n)"

definition service_audit ::
  "env \<Rightarrow> nat \<Rightarrow> ident \<Rightarrow> mutation_context \<Rightarrow> string \<Rightarrow> string \<Rightarrow> ident \<Rightarrow> snapshot option \<Rightarrow> snapshot option \<Rightarrow> helpdesk \<Rightarrow> helpdesk" where
  "service_audit e k org ctx action entity_type i old new =
     in_desk (add_audits [audit_entry e (uuid e k) org ctx action entity_type i old new])"

section \<open>Categories\<close>

record category_view =
  ctv_category :: service_category_row
  ctv_policy_count :: nat
  ctv_ticket_count :: nat

definition category_view_of :: "helpdesk \<Rightarrow> ident \<Rightarrow> service_category_row \<Rightarrow> category_view" where
  "category_view_of s org c =
     \<lparr>ctv_category = c,
      ctv_policy_count = count_rows (\<lambda>p. sla_organization_id p = org \<and> sla_category_id p = scat_id c) (sla_policies s),
      ctv_ticket_count = count_rows (\<lambda>x. sreq_organization_id x = org \<and> sreq_category_id x = Some (scat_id c)) (tickets s)\<rparr>"

definition list_categories :: "helpdesk \<Rightarrow> ident \<Rightarrow> category_view list" where
  "list_categories s org = map (category_view_of s org)
     (sort_key scat_name (filter (\<lambda>c. scat_organization_id c = org) (service_categories s)))"

record category_create =
  cat_code :: string
  cat_name :: string
  cat_description :: "string option"

definition create_category ::
  "env \<Rightarrow> mutation_context \<Rightarrow> ident \<Rightarrow> category_create \<Rightarrow> helpdesk \<Rightarrow> (helpdesk, category_view) outcome" where
  "create_category e ctx org p s =
     (let c = \<lparr>scat_id = uuid e 0, scat_organization_id = org, scat_code = upper (strip (cat_code p)),
           scat_name = collapse (cat_name p), scat_description = cat_description p, scat_is_active = True, scat_created_at = now e\<rparr> in
      demand s (slot_free scat_organization_id (\<lambda>x. Some (scat_code x)) org (scat_code c) (service_categories s))
        (conflict ''SERVICE_CATEGORY_EXISTS'') (
      let t = service_audit e 1 org ctx ''service.category.created'' ''service_request_category'' (scat_id c) None
            (Some [(''code'', JStr (scat_code c)), (''name'', JStr (scat_name c))])
            (s\<lparr>service_categories := service_categories s @ [c]\<rparr>) in
      Return t (category_view_of t org c)))"

text \<open>Each field may be left out or given as null; a name or an activity that is null is refused by the table.\<close>

record category_update =
  catu_name :: "string option option"
  catu_description :: "string option option"
  catu_is_active :: "bool option option"

definition category_changes :: "category_update \<Rightarrow> service_category_row \<Rightarrow> (string \<times> json \<times> json) list" where
  "category_changes p c =
     List.map_filter (\<lambda>x. x)
       [map_option (\<lambda>n. (''name'', JStr (scat_name c), str_of id n)) (catu_name p),
        map_option (\<lambda>d. (''description'', str_of id (scat_description c), str_of id d)) (catu_description p),
        map_option (\<lambda>b. (''is_active'', JStr (bool_str (scat_is_active c)), str_of bool_str b)) (catu_is_active p)]"

definition change_log :: "(string \<times> json \<times> json) list \<Rightarrow> snapshot \<times> snapshot" where
  "change_log xs = (map (\<lambda>(k, old, new). (k, old)) xs, map (\<lambda>(k, old, new). (k, new)) xs)"

definition update_category ::
  "env \<Rightarrow> mutation_context \<Rightarrow> ident \<Rightarrow> ident \<Rightarrow> category_update \<Rightarrow> helpdesk \<Rightarrow> (helpdesk, category_view) outcome" where
  "update_category e ctx org i p s =
     fetch s (find_category s org i) resource_not_found (\<lambda>c.
     let changes = category_changes p c; (old, new) = change_log changes in
     demand s (changes \<noteq> []) (invalid ''NO_CHANGES'') (
     fetch s (changed (catu_name p) (Some (scat_name c))) Integrity_Error (\<lambda>name.
     fetch s (changed (catu_is_active p) (Some (scat_is_active c))) Integrity_Error (\<lambda>active.
     let c' = c\<lparr>scat_name := (if catu_name p = None then scat_name c else collapse name),
           scat_description := changed (catu_description p) (scat_description c), scat_is_active := active\<rparr>;
         t = service_audit e 0 org ctx ''service.category.updated'' ''service_request_category'' (scat_id c) (Some old) (Some new)
           (s\<lparr>service_categories := put_row scat_id c' (service_categories s)\<rparr>) in
     Return t (category_view_of t org c')))))"

section \<open>SLA policies\<close>

record policy_view =
  plv_policy :: sla_policy_row
  plv_category_name :: string

definition policy_view_of :: "helpdesk \<Rightarrow> ident \<Rightarrow> sla_policy_row \<Rightarrow> app_error + policy_view" where
  "policy_view_of s org p = need (find_category s org (sla_category_id p)) resource_not_found (\<lambda>c.
     Inr \<lparr>plv_policy = p, plv_category_name = scat_name c\<rparr>)"

definition list_policies :: "helpdesk \<Rightarrow> ident \<Rightarrow> app_error + policy_view list" where
  "list_policies s org = collect (policy_view_of s org)
     (sort_key sla_category_id (sort_key (\<lambda>p. service_priority_value (sla_priority p))
       (filter (\<lambda>p. sla_organization_id p = org) (sla_policies s))))"

record policy_create =
  polc_category_id :: ident
  polc_priority :: service_priority
  polc_first_response_minutes :: int
  polc_escalation_minutes :: int
  polc_resolution_minutes :: int

text \<open>\<^verbatim>\<open>SLAPolicyCreate\<close>\<close>

definition minutes_ok :: "int \<Rightarrow> bool" where
  "minutes_ok n \<longleftrightarrow> 0 < n \<and> n \<le> 525600"

definition policy_create_ok :: "policy_create \<Rightarrow> bool" where
  "policy_create_ok p \<longleftrightarrow> minutes_ok (polc_first_response_minutes p) \<and> minutes_ok (polc_escalation_minutes p) \<and>
     minutes_ok (polc_resolution_minutes p) \<and> polc_first_response_minutes p \<le> polc_escalation_minutes p \<and>
     polc_escalation_minutes p \<le> polc_resolution_minutes p"

definition create_policy ::
  "env \<Rightarrow> mutation_context \<Rightarrow> ident \<Rightarrow> policy_create \<Rightarrow> helpdesk \<Rightarrow> (helpdesk, policy_view) outcome" where
  "create_policy e ctx org p s =
     fetch s (find_category s org (polc_category_id p)) resource_not_found (\<lambda>c.
     demand s (scat_is_active c) (invalid ''CATEGORY_INACTIVE'') (
     demand s (list_all (\<lambda>x. \<not> (sla_organization_id x = org \<and> sla_category_id x = scat_id c \<and> sla_priority x = polc_priority p)) (sla_policies s))
       (conflict ''SLA_POLICY_EXISTS'') (
     let x = \<lparr>sla_id = uuid e 0, sla_organization_id = org, sla_category_id = scat_id c, sla_priority = polc_priority p,
           sla_first_response_minutes = polc_first_response_minutes p, sla_resolution_minutes = polc_resolution_minutes p,
           sla_escalation_minutes = polc_escalation_minutes p, sla_is_active = True, sla_created_at = now e\<rparr>;
         t = service_audit e 1 org ctx ''service.sla_policy.created'' ''service_sla_policy'' (sla_id x) None
           (Some [(''category_id'', JStr (sla_category_id x)), (''priority'', JStr (service_priority_value (sla_priority x))),
             (''resolution_minutes'', JInt (sla_resolution_minutes x))])
           (s\<lparr>sla_policies := sla_policies s @ [x]\<rparr>) in
     respond t (policy_view_of t org x))))"

record policy_update =
  polu_first_response_minutes :: "int option option"
  polu_escalation_minutes :: "int option option"
  polu_resolution_minutes :: "int option option"
  polu_is_active :: "bool option option"

definition policy_update_ok :: "policy_update \<Rightarrow> bool" where
  "policy_update_ok p \<longleftrightarrow> list_all (opt_all (opt_all minutes_ok))
     [polu_first_response_minutes p, polu_escalation_minutes p, polu_resolution_minutes p]"

definition policy_changes :: "policy_update \<Rightarrow> sla_policy_row \<Rightarrow> (string \<times> json \<times> json) list" where
  "policy_changes p x =
     List.map_filter (\<lambda>x. x)
       [map_option (\<lambda>n. (''first_response_minutes'', JStr (int_str (sla_first_response_minutes x)), str_of int_str n)) (polu_first_response_minutes p),
        map_option (\<lambda>n. (''escalation_minutes'', JStr (int_str (sla_escalation_minutes x)), str_of int_str n)) (polu_escalation_minutes p),
        map_option (\<lambda>n. (''resolution_minutes'', JStr (int_str (sla_resolution_minutes x)), str_of int_str n)) (polu_resolution_minutes p),
        map_option (\<lambda>b. (''is_active'', JStr (bool_str (sla_is_active x)), str_of bool_str b)) (polu_is_active p)]"

text \<open>The comparison of the deadlines, from left to right: a null raises \<^verbatim>\<open>TypeError\<close> when it is reached.\<close>

definition update_policy ::
  "env \<Rightarrow> mutation_context \<Rightarrow> ident \<Rightarrow> ident \<Rightarrow> policy_update \<Rightarrow> helpdesk \<Rightarrow> (helpdesk, policy_view) outcome" where
  "update_policy e ctx org i p s =
     fetch s (find_policy s org i) resource_not_found (\<lambda>x.
     let changes = policy_changes p x; (old, new) = change_log changes in
     demand s (changes \<noteq> []) (invalid ''NO_CHANGES'') (
     fetch s (changed (polu_first_response_minutes p) (Some (sla_first_response_minutes x))) Internal_Error (\<lambda>r.
     fetch s (changed (polu_escalation_minutes p) (Some (sla_escalation_minutes x))) Internal_Error (\<lambda>n.
     demand s (r \<le> n) (invalid ''INVALID_SLA_ORDER'') (
     fetch s (changed (polu_resolution_minutes p) (Some (sla_resolution_minutes x))) Internal_Error (\<lambda>m.
     demand s (n \<le> m) (invalid ''INVALID_SLA_ORDER'') (
     fetch s (changed (polu_is_active p) (Some (sla_is_active x))) Integrity_Error (\<lambda>active.
     let x' = x\<lparr>sla_first_response_minutes := r, sla_escalation_minutes := n, sla_resolution_minutes := m, sla_is_active := active\<rparr>;
         t = service_audit e 0 org ctx ''service.sla_policy.updated'' ''service_sla_policy'' (sla_id x) (Some old) (Some new)
           (s\<lparr>sla_policies := put_row sla_id x' (sla_policies s)\<rparr>) in
     respond t (policy_view_of t org x')))))))))"

text \<open>\<^verbatim>\<open>_sla_policy\<close>\<close>

definition active_policy :: "helpdesk \<Rightarrow> ident \<Rightarrow> ident \<Rightarrow> service_priority \<Rightarrow> sla_policy_row option" where
  "active_policy s org cid prio = find (\<lambda>p. sla_organization_id p = org \<and> sla_category_id p = cid \<and> sla_priority p = prio \<and>
     sla_is_active p) (sla_policies s)"

text \<open>\<^verbatim>\<open>_apply_sla\<close>\<close>

definition apply_sla :: "sla_policy_row option \<Rightarrow> service_request_row \<Rightarrow> service_request_row" where
  "apply_sla p x =
     (let due = (\<lambda>field. map_option (\<lambda>q. sreq_opened_at x + minutes (field q)) p) in
      x\<lparr>sreq_sla_policy_id := map_option sla_id p, sreq_response_due_at := due sla_first_response_minutes,
        sreq_escalation_due_at := due sla_escalation_minutes, sreq_resolution_due_at := due sla_resolution_minutes\<rparr>)"

section \<open>Deadlines\<close>

datatype sla_state = NOT_CONFIGURED | ON_TRACK | MET | BREACHED

abbreviation finished :: "service_request_row \<Rightarrow> bool" where
  "finished x \<equiv> sreq_status x \<in> {Ticket_RESOLVED, Ticket_CLOSED}"

text \<open>\<^verbatim>\<open>_deadline_state\<close>, with the clock as argument.\<close>

definition deadline_state :: "timestamp \<Rightarrow> timestamp option \<Rightarrow> timestamp option \<Rightarrow> bool \<Rightarrow> sla_state \<times> int option" where
  "deadline_state t due completed still_open = (case due of
     None \<Rightarrow> (NOT_CONFIGURED, None)
   | Some d \<Rightarrow>
       (let ref = (case completed of None \<Rightarrow> t | Some c \<Rightarrow> c); remaining = (d - ref) div minutes 1 in
        case completed of
          Some c \<Rightarrow> (if c \<le> d then MET else BREACHED, Some remaining)
        | None \<Rightarrow> (if still_open \<and> d < ref then BREACHED else ON_TRACK, Some remaining)))"

record sla_view =
  slv_configured :: bool
  slv_response_state :: sla_state
  slv_resolution_state :: sla_state
  slv_response_due_at :: "timestamp option"
  slv_resolution_due_at :: "timestamp option"
  slv_escalation_due_at :: "timestamp option"
  slv_first_responded_at :: "timestamp option"
  slv_response_remaining_minutes :: "int option"
  slv_resolution_remaining_minutes :: "int option"
  slv_escalation_due :: bool

definition sla_view_of :: "timestamp \<Rightarrow> service_request_row \<Rightarrow> sla_view" where
  "sla_view_of t x =
     (let (response, response_left) = deadline_state t (sreq_response_due_at x) (sreq_first_responded_at x) (\<not> finished x);
          (resolution, resolution_left) = deadline_state t (sreq_resolution_due_at x) (sreq_resolved_at x) (\<not> finished x) in
      \<lparr>slv_configured = (sreq_sla_policy_id x \<noteq> None), slv_response_state = response, slv_resolution_state = resolution,
       slv_response_due_at = sreq_response_due_at x, slv_resolution_due_at = sreq_resolution_due_at x,
       slv_escalation_due_at = sreq_escalation_due_at x, slv_first_responded_at = sreq_first_responded_at x,
       slv_response_remaining_minutes = response_left, slv_resolution_remaining_minutes = resolution_left,
       slv_escalation_due = (case sreq_escalation_due_at x of None \<Rightarrow> False | Some d \<Rightarrow> \<not> finished x \<and> d < t)\<rparr>)"

text \<open>
  \<^verbatim>\<open>_sla_breached_condition\<close> is evaluated by the database, in three-valued logic: a comparison with a null is
  unknown, here \<open>None\<close>. A row is selected when the condition is true, so that the rows for which it is unknown are
  selected neither by the condition nor by its negation.
\<close>

definition less3 :: "timestamp option \<Rightarrow> timestamp option \<Rightarrow> bool option" where
  "less3 x y = (case (x, y) of (Some a, Some b) \<Rightarrow> Some (a < b) | _ \<Rightarrow> None)"

definition and3 :: "bool option \<Rightarrow> bool option \<Rightarrow> bool option" where
  "and3 p q = (if p = Some False \<or> q = Some False then Some False else if p = None \<or> q = None then None else Some True)"

definition or3 :: "bool option \<Rightarrow> bool option \<Rightarrow> bool option" where
  "or3 p q = (if p = Some True \<or> q = Some True then Some True else if p = None \<or> q = None then None else Some False)"

definition late3 :: "timestamp \<Rightarrow> timestamp option \<Rightarrow> timestamp option \<Rightarrow> bool option" where
  "late3 t due completed =
     and3 (Some (due \<noteq> None)) (or3 (and3 (Some (completed = None)) (less3 due (Some t))) (less3 due completed))"

definition sla_breached :: "timestamp \<Rightarrow> service_request_row \<Rightarrow> bool option" where
  "sla_breached t x =
     or3 (late3 t (sreq_response_due_at x) (sreq_first_responded_at x)) (late3 t (sreq_resolution_due_at x) (sreq_resolved_at x))"

end
