(* ===== verification/Service_Requests.thy ===== *)
theory Service_Requests
  imports Service_Settings
begin

text \<open>
  Service requests, second part: the life of a ticket, its comments, attachments, escalations and feedback, and what a
  reader is shown of it.
\<close>

section \<open>Views\<close>

record ticket_summary =
  tsu_ticket :: service_request_row
  tsu_requester_name :: string
  tsu_requester_type :: string
  tsu_assigned_user_name :: "string option"
  tsu_sla :: sla_view

definition requester_of :: "helpdesk \<Rightarrow> ident \<Rightarrow> service_request_row \<Rightarrow> app_error + string \<times> string" where
  "requester_of s org x = (case given (sreq_customer_id x) of
     Some i \<Rightarrow> need (find_customer (desk s) org i) resource_not_found (\<lambda>c. Inr (cust_full_name c, ''CUSTOMER''))
   | None \<Rightarrow> (case given (sreq_tenant_id x) of
       Some i \<Rightarrow> need (find_tenant s org i) resource_not_found (\<lambda>t. Inr (tenant_full_name t, ''TENANT''))
     | None \<Rightarrow> Inr (named_or (name_at s org (sreq_opened_by_user_id x)) ''Portal user'', ''PORTAL_USER'')))"

definition summary_at :: "timestamp \<Rightarrow> helpdesk \<Rightarrow> ident \<Rightarrow> service_request_row \<Rightarrow> app_error + ticket_summary" where
  "summary_at u s org x = step (requester_of s org x) (\<lambda>(name, kind).
     Inr \<lparr>tsu_ticket = x, tsu_requester_name = name, tsu_requester_type = kind,
       tsu_assigned_user_name = name_at s org (sreq_assigned_user_id x), tsu_sla = sla_view_of u x\<rparr>)"

record ticket_filter =
  tf_q :: "string option"
  tf_status :: "ticket_status option"
  tf_priority :: "service_priority option"
  tf_category_id :: "ident option"
  tf_assigned_user_id :: "ident option"
  tf_sla_breached :: "bool option"

definition visible_ticket :: "helpdesk \<Rightarrow> ident \<Rightarrow> mutation_context \<Rightarrow> service_request_row \<Rightarrow> bool" where
  "visible_ticket s org ctx x \<longleftrightarrow> sreq_organization_id x = org \<and> (is_agent ctx \<or> own_ticket s org ctx x)"

definition ticket_selected :: "timestamp \<Rightarrow> ticket_filter \<Rightarrow> service_request_row \<Rightarrow> bool" where
  "ticket_selected u f x \<longleftrightarrow>
     opt_all (\<lambda>q. ilike (sreq_request_number x) (search_pattern q) \<or> ilike (sreq_subject x) (search_pattern q) \<or>
       ilike (sreq_category x) (search_pattern q)) (given (tf_q f)) \<and>
     opt_all (\<lambda>st. sreq_status x = st) (tf_status f) \<and> opt_all (\<lambda>p. sreq_priority x = p) (tf_priority f) \<and>
     opt_all (\<lambda>i. sreq_category_id x = Some i) (given (tf_category_id f)) \<and>
     opt_all (\<lambda>i. sreq_assigned_user_id x = Some i) (given (tf_assigned_user_id f)) \<and>
     opt_all (\<lambda>b. sla_breached u x = Some b) (tf_sla_breached f)"

text \<open>The list is ordered by \<^verbatim>\<open>updated_at\<close>, the argument \<open>updated\<close>.\<close>

definition list_tickets ::
  "(service_request_row \<Rightarrow> timestamp) \<Rightarrow> env \<Rightarrow> helpdesk \<Rightarrow> ident \<Rightarrow> mutation_context \<Rightarrow> ticket_filter \<Rightarrow> nat \<Rightarrow> nat \<Rightarrow>
   app_error + ticket_summary page" where
  "list_tickets updated e s org ctx f page page_size =
     (let rows = filter (\<lambda>x. visible_ticket s org ctx x \<and> ticket_selected (now e) f x) (tickets s) in
      step (collect (summary_at (now e) s org) (page_of page page_size (order_desc updated rows))) (\<lambda>vs.
      Inr (paged page page_size (length rows) vs)))"

record comment_view =
  cmv_comment :: service_comment_row
  cmv_author_name :: string

record attachment_view =
  atv_attachment :: service_attachment_row
  atv_uploaded_by_name :: string

record escalation_view =
  ecv_escalation :: service_escalation_row
  ecv_from_user_name :: "string option"
  ecv_to_user_name :: string
  ecv_escalated_by_name :: "string option"
  ecv_acknowledged_by_name :: "string option"

record feedback_view =
  fbv_feedback :: service_feedback_row
  fbv_submitted_by_name :: string

record ticket_detail_view =
  tdv_ticket :: ticket_summary
  tdv_project_name :: "string option"
  tdv_unit_number :: "string option"
  tdv_comments :: "comment_view list"
  tdv_attachments :: "attachment_view list"
  tdv_escalations :: "escalation_view list"
  tdv_feedback :: "feedback_view option"

definition comment_view_of :: "helpdesk \<Rightarrow> ident \<Rightarrow> service_comment_row \<Rightarrow> comment_view" where
  "comment_view_of s org c = \<lparr>cmv_comment = c, cmv_author_name = named_or (name_at s org (Some (scom_author_user_id c))) ''User''\<rparr>"

definition attachment_view_of :: "helpdesk \<Rightarrow> ident \<Rightarrow> service_attachment_row \<Rightarrow> attachment_view" where
  "attachment_view_of s org a =
     \<lparr>atv_attachment = a, atv_uploaded_by_name = named_or (name_at s org (Some (satt_uploaded_by_user_id a))) ''User''\<rparr>"

definition escalation_view_of :: "helpdesk \<Rightarrow> ident \<Rightarrow> service_escalation_row \<Rightarrow> escalation_view" where
  "escalation_view_of s org x =
     \<lparr>ecv_escalation = x, ecv_from_user_name = name_at s org (sesc_from_user_id x),
      ecv_to_user_name = named_or (name_at s org (Some (sesc_to_user_id x))) ''User'',
      ecv_escalated_by_name = name_at s org (sesc_escalated_by_user_id x),
      ecv_acknowledged_by_name = name_at s org (sesc_acknowledged_by_user_id x)\<rparr>"

definition feedback_view_of :: "helpdesk \<Rightarrow> ident \<Rightarrow> service_feedback_row \<Rightarrow> feedback_view" where
  "feedback_view_of s org x =
     \<lparr>fbv_feedback = x, fbv_submitted_by_name = named_or (name_at s org (Some (sfb_submitted_by_user_id x))) ''Customer''\<rparr>"

text \<open>Internal comments, and the attachments of a comment that is not shown, are for agents only.\<close>

definition comments_shown :: "helpdesk \<Rightarrow> ident \<Rightarrow> mutation_context \<Rightarrow> ident \<Rightarrow> service_comment_row list" where
  "comments_shown s org ctx tid = sort_key scom_created_at
     (filter (\<lambda>c. scom_organization_id c = org \<and> scom_service_request_id c = tid \<and> (is_agent ctx \<or> \<not> scom_is_internal c)) (service_comments s))"

definition attachments_shown :: "helpdesk \<Rightarrow> ident \<Rightarrow> mutation_context \<Rightarrow> ident \<Rightarrow> service_attachment_row list" where
  "attachments_shown s org ctx tid = sort_key satt_created_at
     (filter (\<lambda>a. satt_organization_id a = org \<and> satt_service_request_id a = tid \<and>
        opt_all (\<lambda>c. c \<in> scom_id ` set (comments_shown s org ctx tid)) (satt_comment_id a)) (service_attachments s))"

definition ticket_detail ::
  "env \<Rightarrow> helpdesk \<Rightarrow> ident \<Rightarrow> ident \<Rightarrow> mutation_context \<Rightarrow> app_error + ticket_detail_view" where
  "ticket_detail e s org tid ctx =
     need (find_ticket s org ctx tid) resource_not_found (\<lambda>x.
     step (summary_at (now e) s org x) (\<lambda>v.
     Inr \<lparr>tdv_ticket = v,
       tdv_project_name = given (name_of project_name (find_project (desk s) org) (sreq_project_id x)),
       tdv_unit_number = given (name_of unit_unit_number (find_unit (desk s) org) (sreq_unit_id x)),
       tdv_comments = map (comment_view_of s org) (comments_shown s org ctx (sreq_id x)),
       tdv_attachments = map (attachment_view_of s org) (attachments_shown s org ctx (sreq_id x)),
       tdv_escalations = map (escalation_view_of s org) (order_desc sesc_escalated_at
         (filter (\<lambda>y. sesc_organization_id y = org \<and> sesc_service_request_id y = sreq_id x) (service_escalations s))),
       tdv_feedback = map_option (feedback_view_of s org)
         (find (\<lambda>y. sfb_organization_id y = org \<and> sfb_service_request_id y = sreq_id x) (service_feedback s))\<rparr>))"

section \<open>Opening a ticket\<close>

record ticket_create =
  tc_category_id :: ident
  tc_priority :: service_priority
  tc_subject :: string
  tc_description :: string
  tc_customer_id :: "ident option"
  tc_tenant_id :: "ident option"
  tc_project_id :: "ident option"
  tc_unit_id :: "ident option"
  tc_assigned_user_id :: "ident option"

text \<open>What the payload names, of which only an agent's counts; anyone else opens the ticket for the tenant they are.\<close>

definition ticket_source :: "helpdesk \<Rightarrow> ident \<Rightarrow> mutation_context \<Rightarrow> ticket_create \<Rightarrow> ticket_create" where
  "ticket_source s org ctx p =
     (if is_agent ctx then p
      else p\<lparr>tc_customer_id := None, tc_tenant_id := map_option tenant_id (actor_tenant s org (actor_user_id ctx)),
        tc_project_id := None, tc_unit_id := None, tc_assigned_user_id := None\<rparr>)"

definition ticket_place :: "helpdesk \<Rightarrow> ident \<Rightarrow> ticket_create \<Rightarrow> app_error + ident option" where
  "ticket_place s org p =
     need_given (tc_project_id p) (find_project (desk s) org) resource_not_found (\<lambda>_.
     need_given (tc_unit_id p) (find_unit (desk s) org) resource_not_found (\<lambda>u. case u of
       None \<Rightarrow> Inr (tc_project_id p)
     | Some u \<Rightarrow> require (opt_all (\<lambda>i. unit_project_id u = i) (given (tc_project_id p))) (invalid ''UNIT_PROJECT_MISMATCH'')
         (Inr (case given (tc_project_id p) of None \<Rightarrow> Some (unit_project_id u) | Some i \<Rightarrow> Some i))))"

definition new_ticket ::
  "env \<Rightarrow> ident \<Rightarrow> mutation_context \<Rightarrow> service_category_row \<Rightarrow> ident option \<Rightarrow> ticket_create \<Rightarrow> service_request_row" where
  "new_ticket e org ctx c project p =
     \<lparr>sreq_id = uuid e 1, sreq_organization_id = org, sreq_customer_id = tc_customer_id p, sreq_tenant_id = tc_tenant_id p,
      sreq_project_id = project, sreq_unit_id = tc_unit_id p, sreq_category_id = Some (scat_id c), sreq_sla_policy_id = None,
      sreq_opened_by_user_id = Some (actor_user_id ctx), sreq_assigned_user_id = tc_assigned_user_id p,
      sreq_assigned_by_user_id = (if given (tc_assigned_user_id p) = None then None else Some (actor_user_id ctx)),
      sreq_resolved_by_user_id = None, sreq_closed_by_user_id = None,
      sreq_request_number = ''SR-'' @ date_text (now e) @ ''-'' @ upper (hex_prefix 8 (uuid e 0)), sreq_category = scat_name c,
      sreq_priority = tc_priority p,
      sreq_status = (if given (tc_assigned_user_id p) = None then Ticket_OPEN else Ticket_ASSIGNED),
      sreq_subject = collapse (tc_subject p), sreq_description = strip (tc_description p), sreq_opened_at = now e,
      sreq_response_due_at = None, sreq_resolution_due_at = None, sreq_escalation_due_at = None,
      sreq_first_responded_at = None, sreq_last_customer_reply_at = None, sreq_last_agent_reply_at = None,
      sreq_resolution_summary = None, sreq_closure_notes = None, sreq_is_escalated = False, sreq_resolved_at = None,
      sreq_closed_at = None, sreq_created_at = now e\<rparr>"

definition ticket_message ::
  "notification_event_type \<Rightarrow> string \<Rightarrow> formatted \<Rightarrow> service_request_row \<Rightarrow> snapshot \<Rightarrow> message" where
  "ticket_message event title body x data =
     \<lparr>msg_event = event, msg_title = title, msg_body = body, msg_entity_type = ''service_request'', msg_entity_id = sreq_id x,
      msg_action_url = ''/service-requests/'' @ sreq_id x, msg_data = Some data\<rparr>"

definition ticket_label :: "service_request_row \<Rightarrow> formatted" where
  "ticket_label x = [JStr (sreq_request_number x), JStr middle_dot, JStr (sreq_subject x)]"

definition ticket_data :: "service_request_row \<Rightarrow> snapshot" where
  "ticket_data x = [(''priority'', JStr (service_priority_value (sreq_priority x))), (''status'', JStr (ticket_status_value (sreq_status x)))]"

definition create_ticket ::
  "env \<Rightarrow> mutation_context \<Rightarrow> ident \<Rightarrow> ticket_create \<Rightarrow> helpdesk \<Rightarrow> (helpdesk, ticket_detail_view) outcome" where
  "create_ticket e ctx org payload s =
     fetch s (find_category s org (tc_category_id payload)) resource_not_found (\<lambda>c.
     demand s (scat_is_active c) (invalid ''CATEGORY_INACTIVE'') (
     demand s (given (tc_customer_id payload) = None \<or> given (tc_tenant_id payload) = None) (invalid ''MULTIPLE_REQUESTERS'') (
     let p = ticket_source s org ctx payload in
     fetch_given s (tc_customer_id p) (find_customer (desk s) org) resource_not_found (\<lambda>_.
     fetch_given s (if is_agent ctx then tc_tenant_id p else None) (find_tenant s org) resource_not_found (\<lambda>_.
     attempt s (ticket_place s org p) (\<lambda>project.
     fetch_given s (tc_assigned_user_id p) (service_agent s org) (invalid ''INVALID_ASSIGNEE'') (\<lambda>_.
     let x = apply_sla (active_policy s org (scat_id c) (tc_priority p)) (new_ticket e org ctx c project p) in
     demand s (no_blank [sreq_customer_id x, sreq_tenant_id x, sreq_project_id x, sreq_unit_id x, sreq_assigned_user_id x] \<and>
       slot_free sreq_organization_id (\<lambda>y. Some (sreq_request_number y)) org (sreq_request_number x) (tickets s)) Integrity_Error (
     let recipients = (case given (sreq_assigned_user_id x) of Some i \<Rightarrow> [i]
           | None \<Rightarrow> recipients_for_permission (desk s) org ''service_requests.assign'');
         t = in_desk (queue_in_app e 3 org recipients
             (ticket_message Event_SERVICE_REQUEST_CREATED ''Service request created'' (ticket_label x) x (ticket_data x)) None None)
           (service_audit e 2 org ctx ''service.ticket.created'' ''service_request'' (sreq_id x) None
             (Some [(''request_number'', JStr (sreq_request_number x)), (''category_id'', jopt JStr (sreq_category_id x)),
               (''priority'', JStr (service_priority_value (sreq_priority x))), (''sla_policy_id'', jopt JStr (sreq_sla_policy_id x))])
             (s\<lparr>front := (front s)\<lparr>service_requests := tickets s @ [x]\<rparr>\<rparr>)) in
     respond t (ticket_detail e t org (sreq_id x) ctx)))))))))"

section \<open>Editing and assigning\<close>

record ticket_update =
  tu_category_id :: "ident option option"
  tu_priority :: "service_priority option option"
  tu_subject :: "string option option"
  tu_description :: "string option option"

definition ticket_changes :: "ticket_update \<Rightarrow> service_request_row \<Rightarrow> (string \<times> json \<times> json) list" where
  "ticket_changes p x =
     List.map_filter (\<lambda>x. x)
       [map_option (\<lambda>i. (''category_id'', str_of id (sreq_category_id x), str_of id i)) (tu_category_id p),
        map_option (\<lambda>v. (''priority'', JStr (service_priority_value (sreq_priority x)), str_of service_priority_value v)) (tu_priority p),
        map_option (\<lambda>v. (''subject'', JStr (sreq_subject x), str_of id v)) (tu_subject p),
        map_option (\<lambda>v. (''description'', JStr (sreq_description x), str_of id v)) (tu_description p)]"

text \<open>
  The category of a change, when it is given. A subject or description that is null fails at its white space, a priority
  that is null is refused by the table.
\<close>

definition changed_category :: "helpdesk \<Rightarrow> ident \<Rightarrow> ticket_update \<Rightarrow> app_error + service_category_row option" where
  "changed_category s org p = (case tu_category_id p of
     None \<Rightarrow> Inr None
   | Some i \<Rightarrow> need (Option.bind i (find_category s org)) resource_not_found (\<lambda>c.
       require (scat_is_active c) (invalid ''CATEGORY_INACTIVE'') (Inr (Some c))))"

definition edited_ticket ::
  "service_category_row option \<Rightarrow> service_priority \<Rightarrow> string \<Rightarrow> string \<Rightarrow> service_request_row \<Rightarrow> service_request_row" where
  "edited_ticket c priority subject description x =
     x\<lparr>sreq_category_id := (case c of None \<Rightarrow> sreq_category_id x | Some c \<Rightarrow> Some (scat_id c)),
       sreq_category := (case c of None \<Rightarrow> sreq_category x | Some c \<Rightarrow> scat_name c), sreq_priority := priority,
       sreq_subject := subject, sreq_description := description\<rparr>"

definition update_ticket ::
  "env \<Rightarrow> mutation_context \<Rightarrow> ident \<Rightarrow> ident \<Rightarrow> ticket_update \<Rightarrow> helpdesk \<Rightarrow> (helpdesk, ticket_detail_view) outcome" where
  "update_ticket e ctx org tid p s =
     fetch s (find_ticket s org ctx tid) resource_not_found (\<lambda>x.
     let changes = ticket_changes p x; (old, new) = change_log changes in
     demand s (changes \<noteq> []) (invalid ''NO_CHANGES'') (
     demand s (is_agent ctx \<or> sreq_status x = Ticket_OPEN \<and> tu_category_id p = None \<and> tu_priority p = None) permission_denied (
     attempt s (changed_category s org p) (\<lambda>c.
     fetch s (changed (map_option (map_option collapse) (tu_subject p)) (Some (sreq_subject x))) Internal_Error (\<lambda>subject.
     fetch s (changed (map_option (map_option strip) (tu_description p)) (Some (sreq_description x))) Internal_Error (\<lambda>description.
     let moved = (c \<noteq> None \<or> tu_priority p \<noteq> None) in
     demand s (moved \<longrightarrow> c \<noteq> None \<or> given (sreq_category_id x) \<noteq> None) (invalid ''CATEGORY_REQUIRED'') (
     fetch s (changed (tu_priority p) (Some (sreq_priority x))) Integrity_Error (\<lambda>priority.
     let y = edited_ticket c priority subject description x;
         z = (if moved then apply_sla (Option.bind (sreq_category_id y) (\<lambda>i. active_policy s org i priority)) y else y);
         t = service_audit e 0 org ctx ''service.ticket.updated'' ''service_request'' (sreq_id x) (Some old) (Some new) (put_ticket z s) in
     respond t (ticket_detail e t org (sreq_id x) ctx)))))))))"

definition ticket_comment :: "env \<Rightarrow> nat \<Rightarrow> ident \<Rightarrow> mutation_context \<Rightarrow> ident \<Rightarrow> string \<Rightarrow> bool \<Rightarrow> service_comment_row" where
  "ticket_comment e k org ctx tid body internal =
     \<lparr>scom_id = uuid e k, scom_organization_id = org, scom_service_request_id = tid, scom_author_user_id = actor_user_id ctx,
      scom_body = strip body, scom_is_internal = internal, scom_created_at = now e\<rparr>"

definition add_note :: "env \<Rightarrow> nat \<Rightarrow> ident \<Rightarrow> mutation_context \<Rightarrow> ident \<Rightarrow> string option \<Rightarrow> bool \<Rightarrow> helpdesk \<Rightarrow> helpdesk" where
  "add_note e k org ctx tid notes internal s = (case given notes of
     None \<Rightarrow> s
   | Some t \<Rightarrow> s\<lparr>service_comments := service_comments s @ [ticket_comment e k org ctx tid t internal]\<rparr>)"

definition assigned_ticket :: "ident \<Rightarrow> ident \<Rightarrow> service_request_row \<Rightarrow> service_request_row" where
  "assigned_ticket user actor x =
     x\<lparr>sreq_assigned_user_id := Some user, sreq_assigned_by_user_id := Some actor,
       sreq_status := (if sreq_status x = Ticket_OPEN then Ticket_ASSIGNED else sreq_status x)\<rparr>"

definition assign_ticket ::
  "env \<Rightarrow> mutation_context \<Rightarrow> ident \<Rightarrow> ident \<Rightarrow> ident \<Rightarrow> string option \<Rightarrow> helpdesk \<Rightarrow> (helpdesk, ticket_detail_view) outcome" where
  "assign_ticket e ctx org tid user notes s =
     demand s (is_agent ctx) permission_denied (
     fetch s (find_ticket s org ctx tid) resource_not_found (\<lambda>x.
     demand s (sreq_status x \<noteq> Ticket_CLOSED) (conflict ''TICKET_CLOSED'') (
     fetch s (service_agent s org user) (invalid ''INVALID_ASSIGNEE'') (\<lambda>u.
     let y = assigned_ticket (user_id u) (actor_user_id ctx) x;
         t = in_desk (queue_in_app e 2 org [user_id u]
             (ticket_message Event_SERVICE_REQUEST_ASSIGNED ''Service request assigned to you'' (ticket_label y) y (ticket_data y)) None None)
           (service_audit e 1 org ctx ''service.ticket.assigned'' ''service_request'' (sreq_id x)
             (Some [(''assigned_user_id'', jopt JStr (sreq_assigned_user_id x))])
             (Some [(''assigned_user_id'', jopt JStr (sreq_assigned_user_id y)), (''status'', JStr (ticket_status_value (sreq_status y)))])
             (add_note e 0 org ctx (sreq_id x) notes True (put_ticket y s))) in
     respond t (ticket_detail e t org (sreq_id x) ctx)))))"

section \<open>The status machine\<close>

text \<open>The dictionary \<^verbatim>\<open>allowed\<close> of \<^verbatim>\<open>transition_ticket\<close>.\<close>

primrec ticket_moves :: "ticket_status \<Rightarrow> ticket_status list" where
  "ticket_moves Ticket_OPEN = []"
| "ticket_moves Ticket_ASSIGNED = [Ticket_IN_PROGRESS]"
| "ticket_moves Ticket_IN_PROGRESS = [Ticket_WAITING_FOR_CUSTOMER, Ticket_RESOLVED]"
| "ticket_moves Ticket_WAITING_FOR_CUSTOMER = [Ticket_IN_PROGRESS, Ticket_RESOLVED]"
| "ticket_moves Ticket_RESOLVED = [Ticket_IN_PROGRESS, Ticket_CLOSED]"
| "ticket_moves Ticket_CLOSED = []"

record status_transition =
  st_status :: ticket_status
  st_notes :: string
  st_resolution_summary :: "string option"

definition transition_ok :: "status_transition \<Rightarrow> bool" where
  "transition_ok p \<longleftrightarrow> st_status p \<in> {Ticket_IN_PROGRESS, Ticket_WAITING_FOR_CUSTOMER, Ticket_RESOLVED, Ticket_CLOSED} \<and>
     2 \<le> length (st_notes p) \<and> length (st_notes p) \<le> 5000 \<and>
     (st_status p = Ticket_RESOLVED \<longrightarrow> given (st_resolution_summary p) \<noteq> None)"

definition moved_ticket :: "env \<Rightarrow> mutation_context \<Rightarrow> status_transition \<Rightarrow> service_request_row \<Rightarrow> service_request_row" where
  "moved_ticket e ctx p x =
     (let target = st_status p;
          y = x\<lparr>sreq_status := target, sreq_first_responded_at :=
            (if is_agent ctx \<and> target = Ticket_IN_PROGRESS \<and> sreq_first_responded_at x = None then Some (now e) else sreq_first_responded_at x)\<rparr> in
      if target = Ticket_RESOLVED
      then y\<lparr>sreq_resolution_summary := st_resolution_summary p, sreq_resolved_by_user_id := Some (actor_user_id ctx),
        sreq_resolved_at := Some (now e), sreq_is_escalated := False\<rparr>
      else if target = Ticket_CLOSED
      then y\<lparr>sreq_closure_notes := Some (st_notes p), sreq_closed_by_user_id := Some (actor_user_id ctx), sreq_closed_at := Some (now e)\<rparr>
      else if sreq_status x = Ticket_RESOLVED \<and> target = Ticket_IN_PROGRESS
      then y\<lparr>sreq_resolved_at := None, sreq_resolved_by_user_id := None\<rparr>
      else y)"

definition resolved_escalation :: "env \<Rightarrow> service_escalation_row \<Rightarrow> service_escalation_row" where
  "resolved_escalation e x = x\<lparr>sesc_status := Escalation_RESOLVED, sesc_resolved_at := Some (now e)\<rparr>"

definition unresolved :: "ident \<Rightarrow> ident \<Rightarrow> service_escalation_row \<Rightarrow> bool" where
  "unresolved org tid x \<longleftrightarrow> sesc_organization_id x = org \<and> sesc_service_request_id x = tid \<and> sesc_status x \<noteq> Escalation_RESOLVED"

definition transition_ticket ::
  "env \<Rightarrow> mutation_context \<Rightarrow> ident \<Rightarrow> ident \<Rightarrow> status_transition \<Rightarrow> helpdesk \<Rightarrow> (helpdesk, ticket_detail_view) outcome" where
  "transition_ticket e ctx org tid p s =
     fetch s (find_ticket s org ctx tid) resource_not_found (\<lambda>x.
     demand s (is_agent ctx \<or> sreq_status x = Ticket_RESOLVED \<and> st_status p = Ticket_CLOSED) permission_denied (
     demand s (st_status p \<in> set (ticket_moves (sreq_status x))) (conflict ''INVALID_TICKET_TRANSITION'') (
     let y = moved_ticket e ctx p x;
         previous = ticket_status_value (sreq_status x); target = ticket_status_value (st_status p);
         s1 = (if st_status p = Ticket_RESOLVED
           then s\<lparr>service_escalations := update_where (unresolved org (sreq_id x)) (resolved_escalation e) (service_escalations s)\<rparr> else s);
         s2 = put_ticket y s1;
         t = in_desk (queue_in_app e 2 org (List.map_filter given [sreq_assigned_user_id y, sreq_opened_by_user_id y])
             (ticket_message Event_SERVICE_REQUEST_STATUS_CHANGED ''Service request status updated''
               [JStr (sreq_request_number y), JStr '': '', JStr previous, JStr arrow, JStr target] y
               [(''previous_status'', JStr previous), (''status'', JStr target)]) None None)
           (service_audit e 1 org ctx ''service.ticket.status_changed'' ''service_request'' (sreq_id x)
             (Some [(''status'', JStr previous)])
             (Some [(''status'', JStr target), (''resolution_summary'', jopt JStr (st_resolution_summary p))])
             (s2\<lparr>service_comments := service_comments s2 @ [ticket_comment e 0 org ctx (sreq_id x) (st_notes p) (is_agent ctx)]\<rparr>)) in
     respond t (ticket_detail e t org (sreq_id x) ctx))))"

section \<open>Comments and attachments\<close>

definition replied_ticket :: "env \<Rightarrow> mutation_context \<Rightarrow> bool \<Rightarrow> service_request_row \<Rightarrow> service_request_row" where
  "replied_ticket e ctx internal x =
     (if is_agent ctx
      then x\<lparr>sreq_last_agent_reply_at := Some (now e), sreq_first_responded_at :=
        (if \<not> internal \<and> sreq_first_responded_at x = None then Some (now e) else sreq_first_responded_at x)\<rparr>
      else x\<lparr>sreq_last_customer_reply_at := Some (now e), sreq_status :=
        (if sreq_status x = Ticket_WAITING_FOR_CUSTOMER then Ticket_IN_PROGRESS else sreq_status x)\<rparr>)"

definition add_comment ::
  "env \<Rightarrow> mutation_context \<Rightarrow> ident \<Rightarrow> ident \<Rightarrow> string \<Rightarrow> bool \<Rightarrow> helpdesk \<Rightarrow> (helpdesk, ticket_detail_view) outcome" where
  "add_comment e ctx org tid body internal s =
     fetch s (find_ticket s org ctx tid) resource_not_found (\<lambda>x.
     demand s (sreq_status x \<noteq> Ticket_CLOSED) (conflict ''TICKET_CLOSED'') (
     demand s (internal \<longrightarrow> is_agent ctx) permission_denied (
     let c = ticket_comment e 0 org ctx (sreq_id x) body internal;
         s1 = put_ticket (replied_ticket e ctx internal x) s;
         t = service_audit e 1 org ctx ''service.comment.added'' ''service_request_comment'' (scom_id c) None
           (Some [(''ticket_id'', JStr (sreq_id x)), (''is_internal'', JBool (scom_is_internal c))])
           (s1\<lparr>service_comments := service_comments s1 @ [c]\<rparr>) in
     respond t (ticket_detail e t org (sreq_id x) ctx))))"

text \<open>
  \<^verbatim>\<open>_prepare_file\<close> reads and scans the upload and the storage keeps it: what they answer is an argument, an error or the
  properties of the prepared file, and an error or nothing.
\<close>

record prepared_file =
  pf_file_name :: string
  pf_content_type :: string
  pf_size_bytes :: int
  pf_checksum_sha256 :: string

definition comment_open :: "helpdesk \<Rightarrow> ident \<Rightarrow> mutation_context \<Rightarrow> ident \<Rightarrow> ident option \<Rightarrow> app_error + unit" where
  "comment_open s org ctx tid cid =
     need_given cid (find_comment s org) resource_not_found (\<lambda>c. case c of
       None \<Rightarrow> Inr ()
     | Some c \<Rightarrow> require (scom_service_request_id c = tid \<and> (scom_is_internal c \<longrightarrow> is_agent ctx)) resource_not_found (Inr ()))"

definition upload_attachment ::
  "env \<Rightarrow> mutation_context \<Rightarrow> ident \<Rightarrow> ident \<Rightarrow> ident option \<Rightarrow> app_error + prepared_file \<Rightarrow> app_error + unit \<Rightarrow> helpdesk \<Rightarrow>
   (helpdesk, ticket_detail_view) outcome" where
  "upload_attachment e ctx org tid cid upload saved s =
     fetch s (find_ticket s org ctx tid) resource_not_found (\<lambda>x.
     attempt s (comment_open s org ctx (sreq_id x) cid) (\<lambda>_.
     attempt s upload (\<lambda>f.
     attempt s saved (\<lambda>_.
     demand s (no_blank [cid]) Integrity_Error (
     let a = \<lparr>satt_id = uuid e 0, satt_organization_id = org, satt_service_request_id = sreq_id x, satt_comment_id = cid,
           satt_uploaded_by_user_id = actor_user_id ctx, satt_file_name = pf_file_name f,
           satt_storage_key = ''service-requests/a/'' @ org @ ''/'' @ uuid e 0 @ ''/'' @ hex_prefix 16 (uuid e 1) @ ''.private'',
           satt_content_type = pf_content_type f, satt_size_bytes = pf_size_bytes f,
           satt_checksum_sha256 = pf_checksum_sha256 f, satt_created_at = now e\<rparr>;
         t = service_audit e 2 org ctx ''service.attachment.uploaded'' ''service_request_attachment'' (satt_id a) None
           (Some [(''ticket_id'', JStr (sreq_id x)), (''file_name'', JStr (satt_file_name a))])
           (s\<lparr>service_attachments := service_attachments s @ [a]\<rparr>) in
     respond t (ticket_detail e t org (sreq_id x) ctx))))))"

text \<open>The key under which the file is read, and what it is sent as.\<close>

definition attachment_download ::
  "helpdesk \<Rightarrow> ident \<Rightarrow> ident \<Rightarrow> ident \<Rightarrow> mutation_context \<Rightarrow> app_error + string \<times> string \<times> string" where
  "attachment_download s org tid aid ctx =
     need (find_ticket s org ctx tid) resource_not_found (\<lambda>x.
     need (find_attachment s org aid) resource_not_found (\<lambda>a.
     require (satt_service_request_id a = sreq_id x) resource_not_found (
     need_given (if is_agent ctx then None else satt_comment_id a) (find_comment s org) resource_not_found (\<lambda>c.
     require (case c of None \<Rightarrow> True | Some c \<Rightarrow> \<not> scom_is_internal c) resource_not_found (
     Inr (satt_storage_key a, satt_file_name a, satt_content_type a))))))"

section \<open>Escalations and feedback\<close>

definition escalated_ticket :: "ident \<Rightarrow> ident \<Rightarrow> service_request_row \<Rightarrow> service_request_row" where
  "escalated_ticket user actor x = (assigned_ticket user actor x)\<lparr>sreq_is_escalated := True\<rparr>"

definition escalate_ticket ::
  "env \<Rightarrow> mutation_context \<Rightarrow> ident \<Rightarrow> ident \<Rightarrow> ident \<Rightarrow> string \<Rightarrow> helpdesk \<Rightarrow> (helpdesk, ticket_detail_view) outcome" where
  "escalate_ticket e ctx org tid user reason_text s =
     demand s (is_agent ctx) permission_denied (
     fetch s (find_ticket s org ctx tid) resource_not_found (\<lambda>x.
     demand s (\<not> finished x) (conflict ''TICKET_FINALIZED'') (
     demand s (\<not> list_ex (unresolved org (sreq_id x)) (service_escalations s)) (conflict ''ESCALATION_ACTIVE'') (
     fetch s (service_agent s org user) (invalid ''INVALID_ESCALATION_TARGET'') (\<lambda>u.
     demand s (Some (user_id u) \<noteq> sreq_assigned_user_id x) (invalid ''INVALID_ESCALATION_TARGET'') (
     let y = \<lparr>sesc_id = uuid e 0, sesc_organization_id = org, sesc_service_request_id = sreq_id x,
           sesc_escalated_by_user_id = Some (actor_user_id ctx), sesc_from_user_id = sreq_assigned_user_id x,
           sesc_to_user_id = user_id u, sesc_acknowledged_by_user_id = None, sesc_status = Escalation_OPEN,
           sesc_reason = strip reason_text, sesc_escalated_at = now e, sesc_acknowledged_at = None, sesc_resolved_at = None,
           sesc_created_at = now e\<rparr>;
         s1 = put_ticket (escalated_ticket (user_id u) (actor_user_id ctx) x) s;
         t = service_audit e 1 org ctx ''service.ticket.escalated'' ''service_request_escalation'' (sesc_id y) None
           (Some [(''ticket_id'', JStr (sreq_id x)), (''to_user_id'', JStr (user_id u)), (''reason'', JStr (sesc_reason y))])
           (s1\<lparr>service_escalations := service_escalations s1 @ [y]\<rparr>) in
     respond t (ticket_detail e t org (sreq_id x) ctx)))))))"

text \<open>\<^verbatim>\<open>EscalationDecision\<close>: the action is one of two.\<close>

definition decided_escalation :: "env \<Rightarrow> mutation_context \<Rightarrow> bool \<Rightarrow> service_escalation_row \<Rightarrow> service_escalation_row" where
  "decided_escalation e ctx acknowledge y =
     (if acknowledge then y\<lparr>sesc_status := Escalation_ACKNOWLEDGED, sesc_acknowledged_by_user_id := Some (actor_user_id ctx),
        sesc_acknowledged_at := Some (now e)\<rparr>
      else resolved_escalation e y)"

definition decide_escalation ::
  "env \<Rightarrow> mutation_context \<Rightarrow> ident \<Rightarrow> ident \<Rightarrow> ident \<Rightarrow> bool \<Rightarrow> string option \<Rightarrow> helpdesk \<Rightarrow> (helpdesk, ticket_detail_view) outcome" where
  "decide_escalation e ctx org tid eid acknowledge notes s =
     demand s (is_agent ctx) permission_denied (
     fetch s (find_ticket s org ctx tid) resource_not_found (\<lambda>x.
     fetch s (find_escalation s org eid) resource_not_found (\<lambda>y.
     demand s (sesc_service_request_id y = sreq_id x) resource_not_found (
     demand s (sesc_to_user_id y = actor_user_id ctx \<or> can_manage ctx) permission_denied (
     demand s (if acknowledge then sesc_status y = Escalation_OPEN else sesc_status y \<noteq> Escalation_RESOLVED) (conflict ''ESCALATION_FINALIZED'') (
     let y' = decided_escalation e ctx acknowledge y;
         s1 = (if acknowledge then s else put_ticket (x\<lparr>sreq_is_escalated := False\<rparr>) s);
         t = service_audit e 1 org ctx ''service.escalation.updated'' ''service_request_escalation'' (sesc_id y)
           (Some [(''status'', JStr (escalation_status_value (sesc_status y)))])
           (Some [(''status'', JStr (escalation_status_value (sesc_status y')))])
           (add_note e 0 org ctx (sreq_id x) notes True (s1\<lparr>service_escalations := put_row sesc_id y' (service_escalations s1)\<rparr>)) in
     respond t (ticket_detail e t org (sreq_id x) ctx)))))))"

definition submit_feedback ::
  "env \<Rightarrow> mutation_context \<Rightarrow> ident \<Rightarrow> ident \<Rightarrow> int \<Rightarrow> string option \<Rightarrow> helpdesk \<Rightarrow> (helpdesk, ticket_detail_view) outcome" where
  "submit_feedback e ctx org tid rating comments s =
     fetch s (find_ticket s org ctx tid) resource_not_found (\<lambda>x.
     demand s (\<not> is_agent ctx) permission_denied (
     demand s (sreq_status x = Ticket_CLOSED) (conflict ''TICKET_NOT_CLOSED'') (
     demand s (slot_free sfb_organization_id (\<lambda>y. Some (sfb_service_request_id y)) org (sreq_id x) (service_feedback s))
       (conflict ''FEEDBACK_EXISTS'') (
     let y = \<lparr>sfb_id = uuid e 0, sfb_organization_id = org, sfb_service_request_id = sreq_id x,
           sfb_submitted_by_user_id = actor_user_id ctx, sfb_rating = rating, sfb_comments = comments, sfb_submitted_at = now e,
           sfb_created_at = now e\<rparr>;
         t = service_audit e 1 org ctx ''service.feedback.submitted'' ''service_request_feedback'' (sfb_id y) None
           (Some [(''ticket_id'', JStr (sreq_id x)), (''rating'', JInt (sfb_rating y))])
           (s\<lparr>service_feedback := service_feedback s @ [y]\<rparr>) in
     respond t (ticket_detail e t org (sreq_id x) ctx)))))"

section \<open>Statistics and choices\<close>

record ticket_stats =
  tks_total_open :: nat
  tks_unassigned :: nat
  tks_in_progress :: nat
  tks_waiting_for_customer :: nat
  tks_resolved :: nat
  tks_sla_breached :: nat
  tks_escalated :: nat
  tks_average_feedback :: "decimal option"

definition open_statuses :: "ticket_status list" where
  "open_statuses = [Ticket_OPEN, Ticket_ASSIGNED, Ticket_IN_PROGRESS, Ticket_WAITING_FOR_CUSTOMER]"

definition ticket_stats_of :: "env \<Rightarrow> helpdesk \<Rightarrow> ident \<Rightarrow> mutation_context \<Rightarrow> ticket_stats" where
  "ticket_stats_of e s org ctx =
     (let rows = filter (visible_ticket s org ctx) (tickets s);
          n = (\<lambda>p. count_rows p rows);
          ratings = [sfb_rating y. y \<leftarrow> service_feedback s, x \<leftarrow> rows,
            sreq_organization_id x = sfb_organization_id y \<and> sreq_id x = sfb_service_request_id y] in
      \<lparr>tks_total_open = n (\<lambda>x. sreq_status x \<in> set open_statuses),
       tks_unassigned = n (\<lambda>x. sreq_status x \<in> set open_statuses \<and> sreq_assigned_user_id x = None),
       tks_in_progress = n (\<lambda>x. sreq_status x = Ticket_IN_PROGRESS),
       tks_waiting_for_customer = n (\<lambda>x. sreq_status x = Ticket_WAITING_FOR_CUSTOMER),
       tks_resolved = n (\<lambda>x. sreq_status x = Ticket_RESOLVED),
       tks_sla_breached = n (\<lambda>x. sla_breached (now e) x = Some True), tks_escalated = n sreq_is_escalated,
       tks_average_feedback = (if ratings = [] then None else Some (of_int (sum_list ratings) / of_nat (length ratings)))\<rparr>)"

record choice =
  ch_id :: ident
  ch_label :: string
  ch_secondary :: "string option"

record ticket_options =
  tko_categories :: "category_view list"
  tko_agents :: "choice list"
  tko_customers :: "choice list"
  tko_tenants :: "choice list"
  tko_projects :: "choice list"
  tko_units :: "choice list"

definition choices :: "nat \<Rightarrow> ('r \<Rightarrow> string) \<Rightarrow> ('r \<Rightarrow> choice) \<Rightarrow> 'r list \<Rightarrow> choice list" where
  "choices limit order f rows = map f (take limit (sort_key order rows))"

definition ticket_options_of :: "helpdesk \<Rightarrow> ident \<Rightarrow> mutation_context \<Rightarrow> ticket_options" where
  "ticket_options_of s org ctx =
     (let cats = filter (\<lambda>v. scat_is_active (ctv_category v)) (list_categories s org) in
      if \<not> is_agent ctx
      then \<lparr>tko_categories = cats, tko_agents = [], tko_customers = [], tko_tenants = [], tko_projects = [], tko_units = []\<rparr>
      else \<lparr>tko_categories = cats,
        tko_agents = choices 500 user_full_name (\<lambda>u. \<lparr>ch_id = user_id u, ch_label = user_full_name u, ch_secondary = None\<rparr>)
          (filter (is_service_agent s org) (users (desk s))),
        tko_customers = choices 500 cust_full_name
          (\<lambda>c. \<lparr>ch_id = cust_id c, ch_label = cust_full_name c, ch_secondary = or_else (given (cust_email c)) (cust_phone c)\<rparr>)
          (filter (\<lambda>c. cust_organization_id c = org) (customers (desk s))),
        tko_tenants = choices 500 tenant_full_name
          (\<lambda>x. \<lparr>ch_id = tenant_id x, ch_label = tenant_full_name x, ch_secondary = or_else (given (tenant_email x)) (tenant_phone x)\<rparr>)
          (filter (\<lambda>x. tenant_organization_id x = org) (tenants s)),
        tko_projects = choices 500 project_name (\<lambda>x. \<lparr>ch_id = project_id x, ch_label = project_name x, ch_secondary = None\<rparr>)
          (filter (\<lambda>x. project_organization_id x = org) (projects (desk s))),
        tko_units = choices 1000 unit_unit_number
          (\<lambda>x. \<lparr>ch_id = unit_id x, ch_label = unit_unit_number x, ch_secondary = Some (unit_project_id x)\<rparr>)
          (filter (\<lambda>x. unit_organization_id x = org) (units (desk s)))\<rparr>)"

end
