(* ===== verification/Service_Safety.thy ===== *)
theory Service_Safety
  imports Service_Requests
begin

text \<open>
  The requests of the service desk as steps, and their invariant: what a ticket says of its assignment, its resolution
  and its escalation agrees with its status and with the table of escalations, and its deadlines are in order.
\<close>

section \<open>Requests\<close>

definition desk_ids_used :: "helpdesk \<Rightarrow> ident set" where
  "desk_ids_used s = sreq_id ` set (tickets s) \<union> sesc_id ` set (service_escalations s) \<union> sesc_service_request_id ` set (service_escalations s)"

definition fresh_desk :: "env \<Rightarrow> helpdesk \<Rightarrow> bool" where
  "fresh_desk e s \<longleftrightarrow> (\<forall>n. uuid e n \<notin> desk_ids_used s)"

inductive service_step :: "helpdesk \<Rightarrow> helpdesk \<Rightarrow> bool" where
  ticket_opened: "fresh_desk e s \<Longrightarrow> service_step s (committed (create_ticket e ctx org tc s))"
| ticket_edited: "service_step s (committed (update_ticket e ctx org i tu s))"
| ticket_assigned: "service_step s (committed (assign_ticket e ctx org i user notes s))"
| ticket_moved: "service_step s (committed (transition_ticket e ctx org i p s))"
| ticket_commented: "service_step s (committed (add_comment e ctx org i body internal s))"
| file_attached: "service_step s (committed (upload_attachment e ctx org i cid upload saved s))"
| ticket_escalated: "fresh_desk e s \<Longrightarrow> service_step s (committed (escalate_ticket e ctx org i user reason_text s))"
| escalation_decided: "service_step s (committed (decide_escalation e ctx org i eid acknowledge notes s))"
| feedback_given: "service_step s (committed (submit_feedback e ctx org i rating comments s))"
| category_created: "service_step s (committed (create_category e ctx org cat s))"
| category_updated: "service_step s (committed (update_category e ctx org i catu s))"
| policy_created: "policy_create_ok polc \<Longrightarrow> service_step s (committed (create_policy e ctx org polc s))"
| policy_updated: "policy_update_ok polu \<Longrightarrow> service_step s (committed (update_policy e ctx org i polu s))"

locale desk_invariant =
  fixes inv :: "helpdesk \<Rightarrow> bool"
  assumes kept: "service_step s t \<Longrightarrow> inv s \<Longrightarrow> inv t"
begin

lemma always: "service_step\<^sup>*\<^sup>* s t \<Longrightarrow> inv s \<Longrightarrow> inv t"
  by (induction rule: rtranclp_induct) (auto intro: kept)

end

section \<open>The invariant\<close>

definition in_order :: "timestamp \<Rightarrow> timestamp option \<Rightarrow> timestamp option \<Rightarrow> timestamp option \<Rightarrow> bool" where
  "in_order opened r n m = (case (r, n, m) of
     (None, None, None) \<Rightarrow> True | (Some r, Some n, Some m) \<Rightarrow> opened < r \<and> r \<le> n \<and> n \<le> m | _ \<Rightarrow> False)"

definition deadlines_ordered :: "service_request_row \<Rightarrow> bool" where
  "deadlines_ordered x = in_order (sreq_opened_at x) (sreq_response_due_at x) (sreq_escalation_due_at x) (sreq_resolution_due_at x)"

definition row_sound :: "service_request_row \<Rightarrow> bool" where
  "row_sound x \<longleftrightarrow> (sreq_assigned_user_id x = None) = (sreq_status x = Ticket_OPEN) \<and>
     (sreq_resolved_at x \<noteq> None) = finished x \<and> (sreq_closed_at x \<noteq> None) = (sreq_status x = Ticket_CLOSED) \<and> deadlines_ordered x"

definition escalations_of :: "helpdesk \<Rightarrow> service_request_row \<Rightarrow> service_escalation_row list" where
  "escalations_of s x = filter (unresolved (sreq_organization_id x) (sreq_id x)) (service_escalations s)"

text \<open>At most one escalation of a ticket is not resolved, and the flag says whether there is one.\<close>

definition flag_sound :: "helpdesk \<Rightarrow> service_request_row \<Rightarrow> bool" where
  "flag_sound s x \<longleftrightarrow> length (escalations_of s x) = (if sreq_is_escalated x then 1 else 0) \<and> (finished x \<longrightarrow> \<not> sreq_is_escalated x)"

definition policy_sound :: "sla_policy_row \<Rightarrow> bool" where
  "policy_sound p \<longleftrightarrow> 0 < sla_first_response_minutes p \<and> sla_first_response_minutes p \<le> sla_escalation_minutes p \<and>
     sla_escalation_minutes p \<le> sla_resolution_minutes p"

definition desk_sound :: "helpdesk \<Rightarrow> bool" where
  "desk_sound s \<longleftrightarrow> distinct (map sreq_id (tickets s)) \<and> distinct (map sesc_id (service_escalations s)) \<and>
     (\<forall>x \<in> set (tickets s). row_sound x \<and> flag_sound s x) \<and> (\<forall>p \<in> set (sla_policies s). policy_sound p)"

section \<open>Frames\<close>

lemma desk_sel [simp]:
  "tickets (in_desk g s) = tickets s" "service_escalations (in_desk g s) = service_escalations s" "sla_policies (in_desk g s) = sla_policies s"
  "service_comments (in_desk g s) = service_comments s" "service_attachments (in_desk g s) = service_attachments s"
  "tickets (put_ticket x s) = put_row sreq_id x (tickets s)" "service_escalations (put_ticket x s) = service_escalations s"
  "sla_policies (put_ticket x s) = sla_policies s" "service_comments (put_ticket x s) = service_comments s"
  "tickets (service_audit e k org ctx a n i old new s) = tickets s"
  "service_escalations (service_audit e k org ctx a n i old new s) = service_escalations s"
  "sla_policies (service_audit e k org ctx a n i old new s) = sla_policies s"
  "tickets (add_note e k org ctx tid notes internal s) = tickets s"
  "service_escalations (add_note e k org ctx tid notes internal s) = service_escalations s"
  "sla_policies (add_note e k org ctx tid notes internal s) = sla_policies s"
  by (simp_all add: in_desk_def in_store_def put_ticket_def service_audit_def add_note_def split: option.split)

lemma flag_sound_frame: "service_escalations t = service_escalations s \<Longrightarrow> flag_sound t x = flag_sound s x"
  by (simp add: flag_sound_def escalations_of_def)

lemma desk_frame:
  assumes "tickets t = tickets s" "service_escalations t = service_escalations s" "sla_policies t = sla_policies s" "desk_sound s"
  shows "desk_sound t"
  using assms by (simp add: desk_sound_def flag_sound_frame [OF assms(2)])

lemma escalations_same:
  "sreq_id y = sreq_id x \<Longrightarrow> sreq_organization_id y = sreq_organization_id x \<Longrightarrow> escalations_of s y = escalations_of s x"
  by (simp add: escalations_of_def)

text \<open>A request that writes one ticket, and perhaps the escalations of this ticket.\<close>

lemma desk_put:
  assumes ok: "desk_sound s" and x: "x \<in> set (tickets s)" and y: "sreq_id y = sreq_id x" "sreq_organization_id y = sreq_organization_id x"
    and t: "tickets t = put_row sreq_id y (tickets s)" "sla_policies t = sla_policies s" "distinct (map sesc_id (service_escalations t))"
    and others: "\<And>z. z \<in> set (tickets s) \<Longrightarrow> sreq_id z \<noteq> sreq_id x \<Longrightarrow> escalations_of t z = escalations_of s z"
    and good: "row_sound x \<Longrightarrow> flag_sound s x \<Longrightarrow> row_sound y \<and> flag_sound t y"
  shows "desk_sound t"
proof -
  have "row_sound z \<and> flag_sound t z" if z: "z \<in> set (tickets t)" for z
  proof (cases "z = y")
    case True
    with ok x good show ?thesis by (simp add: desk_sound_def)
  next
    case False
    with z have z: "z \<in> set (tickets s)" "sreq_id z \<noteq> sreq_id x" by (auto simp: t set_put_row y split: if_splits)
    with ok others [OF z] show ?thesis by (auto simp: desk_sound_def flag_sound_def)
  qed
  with ok show ?thesis by (simp add: desk_sound_def t)
qed

lemma desk_put_row:
  assumes "desk_sound s" "x \<in> set (tickets s)" "sreq_id y = sreq_id x" "sreq_organization_id y = sreq_organization_id x"
    and "tickets t = put_row sreq_id y (tickets s)" "sla_policies t = sla_policies s" "service_escalations t = service_escalations s"
    and "row_sound x \<Longrightarrow> row_sound y" "sreq_is_escalated y = sreq_is_escalated x" "finished y = finished x"
  shows "desk_sound t"
  by (rule desk_put [OF assms(1-6)])
    (use assms in \<open>auto simp: desk_sound_def escalations_of_def flag_sound_def\<close>)

lemma find_ticketD: "find_ticket s org ctx i = Some x \<Longrightarrow> x \<in> set (tickets s) \<and> sreq_organization_id x = org \<and> sreq_id x = i"
  by (auto simp: find_ticket_def split: option.splits if_splits dest: entityD)

lemma active_policy_sound: "desk_sound s \<Longrightarrow> active_policy s org i prio = Some p \<Longrightarrow> policy_sound p"
  by (auto simp: active_policy_def desk_sound_def dest!: find_SomeD)

lemma apply_sla_sel [simp]:
  "sreq_id (apply_sla p x) = sreq_id x" "sreq_organization_id (apply_sla p x) = sreq_organization_id x"
  "sreq_status (apply_sla p x) = sreq_status x" "sreq_assigned_user_id (apply_sla p x) = sreq_assigned_user_id x"
  "sreq_resolved_at (apply_sla p x) = sreq_resolved_at x" "sreq_closed_at (apply_sla p x) = sreq_closed_at x"
  "sreq_is_escalated (apply_sla p x) = sreq_is_escalated x" "sreq_opened_at (apply_sla p x) = sreq_opened_at x"
  by (simp_all add: apply_sla_def Let_def)

lemma apply_sla_ordered: "(\<And>q. p = Some q \<Longrightarrow> policy_sound q) \<Longrightarrow> deadlines_ordered (apply_sla p x)"
  by (cases p) (auto simp: deadlines_ordered_def in_order_def apply_sla_def policy_sound_def minutes_def seconds_def Let_def)

lemma edited_ticket_sel [simp]:
  "sreq_id (edited_ticket c prio subject description x) = sreq_id x"
  "sreq_organization_id (edited_ticket c prio subject description x) = sreq_organization_id x"
  "sreq_status (edited_ticket c prio subject description x) = sreq_status x"
  "sreq_assigned_user_id (edited_ticket c prio subject description x) = sreq_assigned_user_id x"
  "sreq_resolved_at (edited_ticket c prio subject description x) = sreq_resolved_at x"
  "sreq_closed_at (edited_ticket c prio subject description x) = sreq_closed_at x"
  "sreq_is_escalated (edited_ticket c prio subject description x) = sreq_is_escalated x"
  "deadlines_ordered (edited_ticket c prio subject description x) = deadlines_ordered x"
  by (simp_all add: edited_ticket_def deadlines_ordered_def)

section \<open>What each request keeps\<close>

lemmas desk_intros = outcome_intros [where P = desk_sound]

lemma setting_steps_desk:
  assumes ok: "desk_sound s"
  shows "desk_sound (committed (create_category e ctx org cat s))" "desk_sound (committed (update_category e ctx org i catu s))"
    "desk_sound (committed (upload_attachment e ctx org i cid upload saved s))"
    "desk_sound (committed (submit_feedback e ctx org i rating comments s))"
  unfolding create_category_def update_category_def upload_attachment_def submit_feedback_def Let_def
  by (intro desk_intros ok; (simp only: committed_respond outcome.sel)?; rule desk_frame [OF _ _ _ ok]; simp)+

lemma policy_steps_desk:
  assumes ok: "desk_sound s"
  shows "policy_create_ok polc \<Longrightarrow> desk_sound (committed (create_policy e ctx org polc s))"
    "policy_update_ok polu \<Longrightarrow> desk_sound (committed (update_policy e ctx org i polu s))"
proof -
  have added: "desk_sound t" if "tickets t = tickets s" "service_escalations t = service_escalations s"
    "set (sla_policies t) \<subseteq> set (sla_policies s) \<union> {p}" "policy_sound p" for t p
    using ok that unfolding desk_sound_def by (auto simp: flag_sound_frame [OF that(2)])
  show "policy_create_ok polc \<Longrightarrow> desk_sound (committed (create_policy e ctx org polc s))"
    unfolding create_policy_def Let_def
    by (intro desk_intros ok; (simp only: committed_respond)?; rule added)
      (auto simp: policy_sound_def policy_create_ok_def minutes_ok_def)
  assume upd: "policy_update_ok polu"
  show "desk_sound (committed (update_policy e ctx org i polu s))"
    unfolding update_policy_def Let_def
  proof (intro desk_intros ok; (simp only: committed_respond)?)
    fix x r n m active
    assume x: "find_policy s org i = Some x" and r: "changed (polu_first_response_minutes polu) (Some (sla_first_response_minutes x)) = Some r"
      and order: "r \<le> n" "n \<le> m"
    from ok entityD [OF x] have "policy_sound x" by (simp add: desk_sound_def)
    with r upd have "0 < r" by (auto simp: changed_def policy_update_ok_def opt_all_def minutes_ok_def policy_sound_def split: option.splits)
    with order show "desk_sound (service_audit e 0 org ctx ''service.sla_policy.updated'' ''service_sla_policy'' (sla_id x) (Some old) (Some new)
       (s\<lparr>sla_policies := put_row sla_id
         (x\<lparr>sla_first_response_minutes := r, sla_escalation_minutes := n, sla_resolution_minutes := m, sla_is_active := active\<rparr>) (sla_policies s)\<rparr>))" for old new
      by (intro added [where p = "x\<lparr>sla_first_response_minutes := r, sla_escalation_minutes := n, sla_resolution_minutes := m, sla_is_active := active\<rparr>"])
        (auto simp: policy_sound_def set_put_row split: if_splits)
  qed
qed

lemma new_ticket_sel [simp]:
  "sreq_id (new_ticket e org ctx c project p) = uuid e 1" "sreq_organization_id (new_ticket e org ctx c project p) = org"
  "sreq_is_escalated (new_ticket e org ctx c project p) = False"
  by (simp_all add: new_ticket_def)

lemma create_ticket_desk:
  assumes ok: "desk_sound s" and fresh: "fresh_desk e s"
  shows "desk_sound (committed (create_ticket e ctx org tc s))"
proof -
  have new: "uuid e 1 \<notin> desk_ids_used s" using fresh by (simp add: fresh_desk_def)
  then have new_esc: "\<forall>y \<in> set (service_escalations s). sesc_service_request_id y \<noteq> uuid e 1"
    unfolding desk_ids_used_def by (metis UnI2 imageI)
  have added: "desk_sound t" if t: "tickets t = tickets s @ [apply_sla (active_policy s org i prio) (new_ticket e org ctx c project p)]"
      "service_escalations t = service_escalations s" "sla_policies t = sla_policies s"
      and blank: "tc_assigned_user_id p \<noteq> Some []" for t i prio c project p
  proof -
    let ?x = "apply_sla (active_policy s org i prio) (new_ticket e org ctx c project p)"
    have x: "sreq_id ?x = uuid e 1" by simp
    have "row_sound ?x"
      using blank active_policy_sound [OF ok]
      by (auto simp: row_sound_def apply_sla_ordered) (auto simp: new_ticket_def given_def split: if_splits)
    moreover have "escalations_of t ?x = []"
      unfolding escalations_of_def t(2) x filter_empty_conv unresolved_def using new_esc by blast
    then have "flag_sound t ?x" by (simp add: flag_sound_def)
    moreover have "distinct (map sreq_id (tickets t))" using ok new by (auto simp: t(1) x desk_sound_def desk_ids_used_def)
    ultimately show ?thesis using ok unfolding desk_sound_def by (auto simp: t flag_sound_frame [OF t(2)])
  qed
  show ?thesis
    unfolding create_ticket_def Let_def
    by (intro desk_intros ok; (simp only: committed_respond)?; rule added; (simp add: no_blank_def; fail)?)
      (simp add: no_blank_def new_ticket_def)
qed

lemma update_ticket_desk:
  assumes ok: "desk_sound s"
  shows "desk_sound (committed (update_ticket e ctx org i tu s))"
proof -
  have put: "desk_sound (service_audit e 0 org ctx a n j old new (put_ticket (if b
      then apply_sla (Option.bind cid (\<lambda>j. active_policy s org j prio)) (edited_ticket c prio subject description x)
      else edited_ticket c prio subject description x) s))"
    if x: "find_ticket s org ctx i = Some x" for a n j old new x b c prio subject description cid
  proof -
    let ?z = "edited_ticket c prio subject description x"
    let ?y = "if b then apply_sla (Option.bind cid (\<lambda>j. active_policy s org j prio)) ?z else ?z"
    have "sreq_id ?y = sreq_id x \<and> sreq_organization_id ?y = sreq_organization_id x \<and> sreq_is_escalated ?y = sreq_is_escalated x \<and>
        finished ?y = finished x \<and> (row_sound x \<longrightarrow> row_sound ?y)"
      using active_policy_sound [OF ok] by (auto simp: row_sound_def bind_eq_Some_conv intro!: apply_sla_ordered)
    then show ?thesis
      by (intro desk_put_row [OF ok, of x ?y]) (use find_ticketD [OF x] in \<open>simp_all only: desk_sel\<close>)
  qed
  show ?thesis
    unfolding update_ticket_def Let_def
    by (intro desk_intros ok; (simp only: committed_respond)?; rule put; assumption)
qed

text \<open>The other requests write the ticket that they found.\<close>

lemma desk_edit:
  assumes "desk_sound s" "find_ticket s org ctx i = Some x" "tickets t = put_row sreq_id y (tickets s)"
    and "sla_policies t = sla_policies s" "service_escalations t = service_escalations s"
    and "sreq_id y = sreq_id x" "sreq_organization_id y = sreq_organization_id x" "sreq_is_escalated y = sreq_is_escalated x"
      "finished y = finished x" "row_sound x \<Longrightarrow> row_sound y"
  shows "desk_sound t"
  using assms find_ticketD [OF assms(2)] by (intro desk_put_row [of s x y t]) simp_all

lemma same_ticket_sel [simp]:
  "sreq_id (assigned_ticket u a x) = sreq_id x" "sreq_organization_id (assigned_ticket u a x) = sreq_organization_id x"
  "sreq_is_escalated (assigned_ticket u a x) = sreq_is_escalated x"
  "sreq_id (replied_ticket e ctx internal x) = sreq_id x" "sreq_organization_id (replied_ticket e ctx internal x) = sreq_organization_id x"
  "sreq_is_escalated (replied_ticket e ctx internal x) = sreq_is_escalated x"
  "sreq_id (moved_ticket e ctx p x) = sreq_id x" "sreq_organization_id (moved_ticket e ctx p x) = sreq_organization_id x"
  "sreq_status (moved_ticket e ctx p x) = st_status p"
  "sreq_is_escalated (moved_ticket e ctx p x) = (sreq_is_escalated x \<and> st_status p \<noteq> Ticket_RESOLVED)"
  by (simp_all add: assigned_ticket_def replied_ticket_def moved_ticket_def Let_def)

lemma assigned_ticket_sound:
  "row_sound x \<Longrightarrow> sreq_status x \<noteq> Ticket_CLOSED \<Longrightarrow> row_sound (assigned_ticket u actor x)"
  "(sreq_status (assigned_ticket u actor x) = Ticket_RESOLVED) = (sreq_status x = Ticket_RESOLVED)"
  "(sreq_status (assigned_ticket u actor x) = Ticket_CLOSED) = (sreq_status x = Ticket_CLOSED)"
  by (auto simp: row_sound_def assigned_ticket_def deadlines_ordered_def)

lemma replied_ticket_sound:
  "row_sound x \<Longrightarrow> row_sound (replied_ticket e ctx internal x)"
  "(sreq_status (replied_ticket e ctx internal x) = Ticket_RESOLVED) = (sreq_status x = Ticket_RESOLVED)"
  "(sreq_status (replied_ticket e ctx internal x) = Ticket_CLOSED) = (sreq_status x = Ticket_CLOSED)"
  by (auto simp: row_sound_def replied_ticket_def deadlines_ordered_def)

lemma moved_ticket_sound: "row_sound x \<Longrightarrow> st_status p \<in> set (ticket_moves (sreq_status x)) \<Longrightarrow> row_sound (moved_ticket e ctx p x)"
  by (cases "sreq_status x") (auto simp: row_sound_def moved_ticket_def deadlines_ordered_def Let_def)

lemma reply_steps_desk:
  assumes ok: "desk_sound s"
  shows "desk_sound (committed (assign_ticket e ctx org i user notes s))"
    "desk_sound (committed (add_comment e ctx org i body internal s))"
  unfolding assign_ticket_def add_comment_def Let_def
  by (intro desk_intros ok; (simp only: committed_respond)?; (rule desk_edit [OF ok], assumption, simp, (simp add: assigned_ticket_sound replied_ticket_sound)+)?)+

text \<open>The requests that write escalations.\<close>

lemma escalations_others:
  assumes "\<And>y. y \<in> set (service_escalations s) \<Longrightarrow> sesc_service_request_id y \<noteq> tid \<or> sesc_organization_id y \<noteq> org \<Longrightarrow> f y = y"
    and "\<And>y. sesc_service_request_id (f y) = sesc_service_request_id y \<and> sesc_organization_id (f y) = sesc_organization_id y"
    and "service_escalations t = map f (service_escalations s)" "sreq_id z \<noteq> tid"
  shows "escalations_of t z = escalations_of s z"
proof -
  have "filter (unresolved o' i) (map f ys) = filter (unresolved o' i) ys" if "set ys \<subseteq> set (service_escalations s)" "i \<noteq> tid" for ys o' i
    using that
  proof (induction ys)
    case (Cons y ys)
    then show ?case using assms(1) [of y] assms(2) [of y] by (auto simp: unresolved_def)
  qed simp
  from this [of "service_escalations s" "sreq_id z"] assms(3,4) show ?thesis by (simp add: escalations_of_def)
qed

lemma transition_ticket_desk:
  assumes ok: "desk_sound s"
  shows "desk_sound (committed (transition_ticket e ctx org i p s))"
proof -
  have put: "desk_sound t"
    if x: "find_ticket s org ctx i = Some x" and move: "st_status p \<in> set (ticket_moves (sreq_status x))"
      and t: "tickets t = put_row sreq_id (moved_ticket e ctx p x) (tickets s)" "sla_policies t = sla_policies s"
        "service_escalations t = (if st_status p = Ticket_RESOLVED
          then update_where (unresolved org (sreq_id x)) (resolved_escalation e) (service_escalations s) else service_escalations s)" for t x
  proof -
    let ?f = "\<lambda>y. if st_status p = Ticket_RESOLVED \<and> unresolved org (sreq_id x) y then resolved_escalation e y else y"
    note row = find_ticketD [OF x]
    have escs: "service_escalations t = map ?f (service_escalations s)" unfolding t(3) by (simp add: update_where_def)
    have f: "sesc_id (?f y) = sesc_id y" "sesc_service_request_id (?f y) = sesc_service_request_id y"
      "sesc_organization_id (?f y) = sesc_organization_id y" for y by (simp_all add: resolved_escalation_def)
    show ?thesis
    proof (rule desk_put [OF ok, of x "moved_ticket e ctx p x"])
      show "distinct (map sesc_id (service_escalations t))"
        using ok by (simp add: escs comp_def f desk_sound_def del: if_cancel)
      show "escalations_of t z = escalations_of s z" if "sreq_id z \<noteq> sreq_id x" for z
        by (rule escalations_others [OF _ _ escs that, where org = org]) (auto simp: unresolved_def resolved_escalation_def)
      assume good: "row_sound x" "flag_sound s x"
      have "escalations_of t (moved_ticket e ctx p x) = (if st_status p = Ticket_RESOLVED then [] else escalations_of s x)"
        using row by (auto simp: escalations_of_def t(3) filter_empty_conv update_where_def unresolved_def resolved_escalation_def split: if_splits)
      with good move show "row_sound (moved_ticket e ctx p x) \<and> flag_sound t (moved_ticket e ctx p x)"
        by (cases "sreq_status x") (auto simp: moved_ticket_sound flag_sound_def)
    qed (use row t in simp_all)
  qed
  show ?thesis
    unfolding transition_ticket_def Let_def
    by (intro desk_intros ok; (simp only: committed_respond)?; rule put, assumption, assumption; simp)
qed

lemma escalate_ticket_desk:
  assumes ok: "desk_sound s" and fresh: "fresh_desk e s"
  shows "desk_sound (committed (escalate_ticket e ctx org i user reason_text s))"
proof -
  have new: "uuid e 0 \<notin> sesc_id ` set (service_escalations s)"
    using fresh by (simp add: fresh_desk_def desk_ids_used_def)
  have put: "desk_sound t"
    if x: "find_ticket s org ctx i = Some x" and live: "\<not> finished x" "\<not> list_ex (unresolved org (sreq_id x)) (service_escalations s)"
      and t: "tickets t = put_row sreq_id (escalated_ticket u a x) (tickets s)" "sla_policies t = sla_policies s"
        "service_escalations t = service_escalations s @ [y]"
      and y: "sesc_id y = uuid e 0" "sesc_organization_id y = org" "sesc_service_request_id y = sreq_id x" "sesc_status y = Escalation_OPEN"
    for t x y u a
  proof -
    note row = find_ticketD [OF x]
    show ?thesis
    proof (rule desk_put [OF ok, of x "escalated_ticket u a x"])
      show "distinct (map sesc_id (service_escalations t))" using ok new by (auto simp: t y desk_sound_def)
      show "escalations_of t z = escalations_of s z" if "sreq_id z \<noteq> sreq_id x" for z
        using that by (simp add: escalations_of_def t unresolved_def y)
      assume good: "row_sound x" "flag_sound s x"
      have "row_sound (escalated_ticket u a x)"
        using assigned_ticket_sound(1) [of x u a] good live
        by (simp add: escalated_ticket_def) (simp add: row_sound_def deadlines_ordered_def)
      moreover have "escalations_of t (escalated_ticket u a x) = [y]"
        using live row by (auto simp: escalations_of_def t filter_empty_conv list_ex_iff escalated_ticket_def) (simp add: unresolved_def y)
      ultimately show "row_sound (escalated_ticket u a x) \<and> flag_sound t (escalated_ticket u a x)"
        using live by (simp add: flag_sound_def escalated_ticket_def assigned_ticket_sound)
    qed (use row t in \<open>simp_all add: escalated_ticket_def\<close>)
  qed
  show ?thesis
    unfolding escalate_ticket_def Let_def
    by (intro desk_intros ok; (simp only: committed_respond)?; (rule put, assumption, assumption, assumption, simp, simp, simp, simp_all)?)
qed

lemma decide_escalation_desk:
  assumes ok: "desk_sound s"
  shows "desk_sound (committed (decide_escalation e ctx org i eid acknowledge notes s))"
proof -
  have put: "desk_sound t"
    if x: "find_ticket s org ctx i = Some x" and y: "find_escalation s org eid = Some y" "sesc_service_request_id y = sreq_id x"
      and live: "if acknowledge then sesc_status y = Escalation_OPEN else sesc_status y \<noteq> Escalation_RESOLVED"
      and t: "tickets t = (if acknowledge then tickets s else put_row sreq_id (x\<lparr>sreq_is_escalated := False\<rparr>) (tickets s))"
        "sla_policies t = sla_policies s" "service_escalations t = put_row sesc_id (decided_escalation e ctx acknowledge y) (service_escalations s)"
    for t x y
  proof -
    let ?y = "decided_escalation e ctx acknowledge y" and ?x = "if acknowledge then x else x\<lparr>sreq_is_escalated := False\<rparr>"
    note row = find_ticketD [OF x] and esc = entityD [OF y(1)]
    have y': "sesc_id ?y = sesc_id y" "sesc_organization_id ?y = org" "sesc_service_request_id ?y = sreq_id x"
      "unresolved org (sreq_id x) y" "unresolved org (sreq_id x) ?y = acknowledge"
      using esc y(2) live by (simp_all add: decided_escalation_def resolved_escalation_def unresolved_def split: if_splits)
    have ids: "distinct (map sesc_id (service_escalations s))" using ok by (simp add: desk_sound_def)
    then have only: "v = y" if "v \<in> set (service_escalations s)" "sesc_id v = sesc_id y" for v
      using esc that by (auto simp: distinct_map dest: inj_onD)
    have same: "put_row sreq_id x (tickets s) = tickets s" using ok row by (simp add: put_row_same desk_sound_def)
    show ?thesis
    proof (rule desk_put [OF ok, of x ?x])
      show "tickets t = put_row sreq_id ?x (tickets s)" by (simp add: t same)
      show "distinct (map sesc_id (service_escalations t))" using ids by (simp add: t)
      show "escalations_of t z = escalations_of s z" if "sreq_id z \<noteq> sreq_id x" for z
        unfolding escalations_of_def t(3)
      proof (rule filter_put_row_other)
        fix v
        assume "v \<in> set (service_escalations s)" "sesc_id v = sesc_id ?y"
        then have "v = y" using only y'(1) by simp
        then show "\<not> unresolved (sreq_organization_id z) (sreq_id z) v" using that y(2) by (simp add: unresolved_def)
      qed (use that y'(3) in \<open>simp add: unresolved_def\<close>)
      assume good: "row_sound x" "flag_sound s x"
      from y'(4) esc row have "y \<in> set (escalations_of s x)" by (simp add: escalations_of_def)
      with good(2) have "escalations_of s x = [y]" and flag: "sreq_is_escalated x" "\<not> finished x"
        by (auto simp: flag_sound_def length_Suc_conv split: if_splits)
      then have "escalations_of t ?x = (if acknowledge then [?y] else [])"
        using filter_put_single [of "unresolved org (sreq_id x)" "service_escalations s" y sesc_id ?y] ids y' row
        by (cases acknowledge) (simp_all add: escalations_of_def t)
      with good flag show "row_sound ?x \<and> flag_sound t ?x"
        by (simp add: flag_sound_def row_sound_def deadlines_ordered_def)
    qed (use row t in simp_all)
  qed
  show ?thesis
    unfolding decide_escalation_def Let_def
    by (intro desk_intros ok; (simp only: committed_respond)?; rule put, assumption, assumption, assumption, assumption; simp)
qed

interpretation sound_desk: desk_invariant desk_sound
proof unfold_locales
  fix s t
  assume "service_step s t" and ok: "desk_sound s"
  then show "desk_sound t"
    by cases (simp_all only: create_ticket_desk escalate_ticket_desk decide_escalation_desk update_ticket_desk reply_steps_desk
      transition_ticket_desk setting_steps_desk policy_steps_desk)
qed

end
