(* ===== verification/Service_Claims.thy ===== *)
theory Service_Claims
  imports Service_Safety Client_Claims
begin

text \<open>
  The properties of the service desk: a ticket agrees with its escalations and its deadlines, its internal notes stay
  inside, and the filter by the state of the SLA leaves the tickets in time out.
\<close>

section \<open>A sample\<close>

definition sample_ticket :: "ident \<Rightarrow> ticket_status \<Rightarrow> service_request_row" where
  "sample_ticket i st =
     \<lparr>sreq_id = i, sreq_organization_id = ''o'', sreq_customer_id = None, sreq_tenant_id = None, sreq_project_id = None,
      sreq_unit_id = None, sreq_category_id = Some ''c'', sreq_sla_policy_id = Some ''p'', sreq_opened_by_user_id = Some ''w'',
      sreq_assigned_user_id = Some ''v'', sreq_assigned_by_user_id = Some ''u'', sreq_resolved_by_user_id = None,
      sreq_closed_by_user_id = None, sreq_request_number = i, sreq_category = ''Repairs'', sreq_priority = Priority_HIGH,
      sreq_status = st, sreq_subject = ''Tap'', sreq_description = ''The tap drips'', sreq_opened_at = 0,
      sreq_response_due_at = Some 60, sreq_resolution_due_at = Some 180, sreq_escalation_due_at = Some 120,
      sreq_first_responded_at = Some 30, sreq_last_customer_reply_at = None, sreq_last_agent_reply_at = None,
      sreq_resolution_summary = None, sreq_closure_notes = None, sreq_is_escalated = True, sreq_resolved_at = None,
      sreq_closed_at = None, sreq_created_at = 0\<rparr>"

definition sample_escalation :: "ident \<Rightarrow> service_escalation_row" where
  "sample_escalation i =
     \<lparr>sesc_id = i, sesc_organization_id = ''o'', sesc_service_request_id = ''x'', sesc_escalated_by_user_id = Some ''u'',
      sesc_from_user_id = None, sesc_to_user_id = ''v'', sesc_acknowledged_by_user_id = None, sesc_status = Escalation_OPEN,
      sesc_reason = ''late'', sesc_escalated_at = 40, sesc_acknowledged_at = None, sesc_resolved_at = None, sesc_created_at = 40\<rparr>"

definition sample_comment :: "ident \<Rightarrow> bool \<Rightarrow> service_comment_row" where
  "sample_comment i internal =
     \<lparr>scom_id = i, scom_organization_id = ''o'', scom_service_request_id = ''x'', scom_author_user_id = ''v'',
      scom_body = ''text'', scom_is_internal = internal, scom_created_at = 50\<rparr>"

definition sample_attached :: "ident \<Rightarrow> service_attachment_row" where
  "sample_attached i =
     \<lparr>satt_id = ''a'' @ i, satt_organization_id = ''o'', satt_service_request_id = ''x'', satt_comment_id = Some i,
      satt_uploaded_by_user_id = ''v'', satt_file_name = ''f'', satt_storage_key = ''k'', satt_content_type = ''t'',
      satt_size_bytes = 1, satt_checksum_sha256 = ''s'', satt_created_at = 50\<rparr>"

definition sample_desk :: helpdesk where
  "sample_desk = \<lparr>front = sample_clients\<lparr>service_requests := [sample_ticket ''x'' Ticket_IN_PROGRESS]\<rparr>, tenants = [],
     service_categories = [], sla_policies = [], service_comments = [sample_comment ''1'' False, sample_comment ''2'' True],
     service_attachments = [sample_attached ''1'', sample_attached ''2''],
     service_escalations = [sample_escalation ''y''], service_feedback = []\<rparr>"

definition sample_agent :: mutation_context where
  "sample_agent = \<lparr>actor_user_id = ''v'', permissions_held = [''service_requests.assign''], request_id = None, ip_address = None,
     user_agent = None, device_metadata = None\<rparr>"

definition sample_requester :: mutation_context where
  "sample_requester = sample_agent\<lparr>actor_user_id := ''w'', permissions_held := [''service_requests.view'']\<rparr>"

lemma sample_desk_sound: "desk_sound sample_desk"
  by (simp add: desk_sound_def sample_desk_def row_sound_def flag_sound_def escalations_of_def unresolved_def
      sample_ticket_def sample_escalation_def deadlines_ordered_def in_order_def)

lemma sample_people: "is_agent sample_agent" "\<not> is_agent sample_requester"
  unfolding is_agent_def may_def sample_agent_def sample_requester_def by code_simp+

lemma summary_ticket: "summary_at u s org x = Inr v \<Longrightarrow> tsu_ticket v = x"
  by (auto simp: summary_at_def step_Inr)

lemma collect_summaries: "collect (summary_at u s org) xs = Inr vs \<Longrightarrow> map tsu_ticket vs = xs"
  by (induction xs arbitrary: vs) (auto split: sum.splits dest: summary_ticket)

section \<open>Tickets\<close>

text \<open>
  C34: Whatever the requests of the service desk do, a ticket is open exactly while nobody is assigned, has a time of resolution
  exactly when it is resolved or closed and a time of closure when it is closed; it is marked as escalated exactly when one of its
  escalations is not resolved, which is then the only one and the ticket not finished; and its deadlines lie after
  its opening, in the order response, escalation, resolution.
\<close>

theorem tickets_stay_sound:
  assumes ok: "desk_sound s" and steps: "service_step\<^sup>*\<^sup>* s t" and x: "x \<in> set (tickets t)"
  shows "(sreq_assigned_user_id x = None \<longleftrightarrow> sreq_status x = Ticket_OPEN) \<and>
    (sreq_resolved_at x \<noteq> None \<longleftrightarrow> sreq_status x \<in> {Ticket_RESOLVED, Ticket_CLOSED}) \<and>
    (sreq_closed_at x \<noteq> None \<longleftrightarrow> sreq_status x = Ticket_CLOSED) \<and>
    count_rows (\<lambda>y. sesc_organization_id y = sreq_organization_id x \<and> sesc_service_request_id y = sreq_id x \<and>
      sesc_status y \<noteq> Escalation_RESOLVED) (service_escalations t) =
      (if sreq_is_escalated x then 1 else 0) \<and>
    (sreq_status x \<in> {Ticket_RESOLVED, Ticket_CLOSED} \<longrightarrow> \<not> sreq_is_escalated x) \<and>
    (\<forall>r. sreq_response_due_at x = Some r \<longrightarrow> (\<exists>n m. sreq_escalation_due_at x = Some n \<and> sreq_resolution_due_at x = Some m \<and>
      sreq_opened_at x < r \<and> r \<le> n \<and> n \<le> m))"
proof -
  from sound_desk.always [OF steps ok] x have row: "row_sound x" "flag_sound t x" by (auto simp: desk_sound_def)
  then have "deadlines_ordered x" by (simp add: row_sound_def)
  then have "\<exists>n m. sreq_escalation_due_at x = Some n \<and> sreq_resolution_due_at x = Some m \<and> sreq_opened_at x < r \<and> r \<le> n \<and> n \<le> m"
    if "sreq_response_due_at x = Some r" for r
    using that by (auto simp: deadlines_ordered_def in_order_def split: option.splits)
  moreover have "count_rows (\<lambda>y. sesc_organization_id y = sreq_organization_id x \<and> sesc_service_request_id y = sreq_id x \<and>
      sesc_status y \<noteq> Escalation_RESOLVED) (service_escalations t) = length (escalations_of t x)"
    unfolding count_rows_def escalations_of_def unresolved_def ..
  ultimately show ?thesis using row unfolding row_sound_def flag_sound_def by auto
qed

definition sample_solved :: helpdesk where
  "sample_solved = committed (transition_ticket (moment 90 ''n'') sample_agent ''o'' ''x''
     \<lparr>st_status = Ticket_RESOLVED, st_notes = ''done'', st_resolution_summary = Some ''new tap''\<rparr> sample_desk)"

lemma sample_ticket_found: "is_agent ctx \<or> actor_user_id ctx = ''w'' \<Longrightarrow>
  find_ticket sample_desk ''o'' ctx ''x'' = Some (sample_ticket ''x'' Ticket_IN_PROGRESS)"
  by (auto simp: find_ticket_def sample_desk_def entity_Cons own_ticket_def sample_ticket_def)

theorem tickets_stay_sound_witness:
  "\<exists>x \<in> set (tickets sample_solved). sreq_status x = Ticket_RESOLVED \<and> sreq_resolved_at x \<noteq> None \<and>
     count_rows (\<lambda>y. sesc_organization_id y = sreq_organization_id x \<and> sesc_service_request_id y = sreq_id x \<and>
       sesc_status y \<noteq> Escalation_RESOLVED) (service_escalations sample_solved) = 0"
proof -
  let ?p = "\<lparr>st_status = Ticket_RESOLVED, st_notes = ''done'', st_resolution_summary = Some ''new tap''\<rparr>"
  let ?x = "moved_ticket (moment 90 ''n'') sample_agent ?p (sample_ticket ''x'' Ticket_IN_PROGRESS)"
  have "sreq_status (sample_ticket ''x'' Ticket_IN_PROGRESS) = Ticket_IN_PROGRESS" by (simp add: sample_ticket_def)
  then have t: "tickets sample_solved = put_row sreq_id ?x (tickets sample_desk)"
    using sample_people(1)
    by (simp add: sample_solved_def transition_ticket_def sample_ticket_found fetch_def demand_def Let_def)
  have x: "?x \<in> set (tickets sample_solved)"
    unfolding t by (simp add: sample_desk_def put_row_def)
  have "service_step\<^sup>*\<^sup>* sample_desk sample_solved"
    unfolding sample_solved_def by (rule r_into_rtranclp, rule ticket_moved)
  from tickets_stay_sound [OF sample_desk_sound this x] show ?thesis
    by (intro bexI [OF _ x]) simp
qed

section \<open>Internal notes\<close>

text \<open>
  C35: Who is not an agent can read a ticket only if they opened it or it belongs to the tenant they are, sees neither an
  internal comment nor an attachment of a comment that is not shown, and cannot download such an attachment.
\<close>

theorem requester_sees_no_internal_note:
  assumes outside: "\<not> is_agent ctx" and seen: "ticket_detail e s org tid ctx = Inr v"
  shows "own_ticket s org ctx (tsu_ticket (tdv_ticket v)) \<and>
    (\<forall>c \<in> set (tdv_comments v). \<not> scom_is_internal (cmv_comment c)) \<and>
    (\<forall>a \<in> set (tdv_attachments v). \<forall>i. satt_comment_id (atv_attachment a) = Some i \<longrightarrow>
      i \<in> (\<lambda>c. scom_id (cmv_comment c)) ` set (tdv_comments v)) \<and>
    (\<forall>a c. find_attachment s org (satt_id a) = Some a \<and> satt_comment_id a = Some (scom_id c) \<and> scom_id c \<noteq> [] \<and>
      find_comment s org (scom_id c) = Some c \<and> scom_is_internal c \<longrightarrow>
      attachment_download s org tid (satt_id a) ctx = Inl resource_not_found)"
proof -
  from seen obtain x w where x: "find_ticket s org ctx tid = Some x" and w: "summary_at (now e) s org x = Inr w"
    and v: "tdv_ticket v = w" "tdv_comments v = map (comment_view_of s org) (comments_shown s org ctx (sreq_id x))"
      "tdv_attachments v = map (attachment_view_of s org) (attachments_shown s org ctx (sreq_id x))"
    by (auto simp: ticket_detail_def need_Inr step_Inr)
  from w have "tsu_ticket w = x" by (rule summary_ticket)
  moreover have "own_ticket s org ctx x" using x outside by (auto simp: find_ticket_def split: option.splits if_splits)
  moreover have "attachment_download s org tid (satt_id a) ctx = Inl resource_not_found"
    if "find_attachment s org (satt_id a) = Some a" "satt_comment_id a = Some (scom_id c)" "scom_id c \<noteq> []"
      "find_comment s org (scom_id c) = Some c" "scom_is_internal c" for a c
    using that outside x by (simp add: attachment_download_def need_def require_def need_given_def given_def)
  ultimately show ?thesis
    using outside by (auto simp: v comments_shown_def attachments_shown_def comment_view_of_def attachment_view_of_def opt_all_def image_image)
qed

theorem requester_sees_no_internal_note_witness:
  "\<exists>v. ticket_detail (moment 90 ''n'') sample_desk ''o'' ''x'' sample_requester = Inr v \<and> length (tdv_comments v) = 1 \<and>
     (\<forall>c \<in> set (tdv_comments v). \<not> scom_is_internal (cmv_comment c)) \<and>
     attachment_download sample_desk ''o'' ''x'' ''a2'' sample_requester = Inl resource_not_found"
proof -
  have "sreq_customer_id (sample_ticket ''x'' Ticket_IN_PROGRESS) = None" "sreq_tenant_id (sample_ticket ''x'' Ticket_IN_PROGRESS) = None"
    by (simp_all add: sample_ticket_def)
  then obtain v where v: "ticket_detail (moment 90 ''n'') sample_desk ''o'' ''x'' sample_requester = Inr v"
    "tdv_comments v = map (comment_view_of sample_desk ''o'') (comments_shown sample_desk ''o'' sample_requester ''x'')"
    by (simp add: ticket_detail_def need_def step_def sample_ticket_found sample_requester_def summary_at_def requester_of_def given_def)
      (simp add: sample_ticket_def)
  have "find_attachment sample_desk ''o'' (satt_id (sample_attached ''2'')) = Some (sample_attached ''2'') \<and>
      satt_comment_id (sample_attached ''2'') = Some (scom_id (sample_comment ''2'' True)) \<and> scom_id (sample_comment ''2'' True) \<noteq> [] \<and>
      find_comment sample_desk ''o'' (scom_id (sample_comment ''2'' True)) = Some (sample_comment ''2'' True) \<and>
      scom_is_internal (sample_comment ''2'' True)"
    by (simp add: sample_desk_def sample_attached_def sample_comment_def entity_Cons)
  with requester_sees_no_internal_note [OF sample_people(2) v(1)]
  have "attachment_download sample_desk ''o'' ''x'' (satt_id (sample_attached ''2'')) sample_requester = Inl resource_not_found"
    "\<forall>c \<in> set (tdv_comments v). \<not> scom_is_internal (cmv_comment c)" by blast+
  moreover have "length (tdv_comments v) = 1"
    using sample_people(2) by (simp add: v(2) comments_shown_def sample_desk_def sample_comment_def)
  ultimately show ?thesis using v(1) by (simp add: sample_attached_def)
qed

section \<open>The filter by SLA\<close>

text \<open>
  C36: A ticket that is not resolved and has kept its deadlines so far is shown as \<^verbatim>\<open>ON_TRACK\<close>, but the list leaves it out
  whenever it is filtered by the state of the SLA, also when the tickets without a breach are asked for: in
  SQL the comparison with the missing time of resolution is unknown, and so is its negation.
\<close>

theorem tickets_in_time_are_not_listed:
  assumes open_ticket: "sreq_resolved_at x = None" "sreq_resolution_due_at x = Some d" "now e \<le> d" "\<not> finished x"
    and answered: "sreq_response_due_at x = Some r" "case sreq_first_responded_at x of None \<Rightarrow> now e \<le> r | Some a \<Rightarrow> a \<le> r"
    and filter: "tf_sla_breached f = Some b" and listed: "list_tickets updated e s org ctx f page page_size = Inr p"
  shows "slv_resolution_state (sla_view_of (now e) x) = ON_TRACK \<and> slv_response_state (sla_view_of (now e) x) \<in> {ON_TRACK, MET} \<and>
    x \<notin> tsu_ticket ` set (pg_items p)"
proof (intro conjI notI)
  show "slv_resolution_state (sla_view_of (now e) x) = ON_TRACK" "slv_response_state (sla_view_of (now e) x) \<in> {ON_TRACK, MET}"
    using open_ticket answered by (auto simp: sla_view_of_def deadline_state_def Let_def split: option.splits)
  assume x: "x \<in> tsu_ticket ` set (pg_items p)"
  from listed obtain xs where xs: "collect (summary_at (now e) s org) (page_of page page_size (order_desc updated xs)) = Inr (pg_items p)"
    "\<forall>y \<in> set xs. ticket_selected (now e) f y"
    by (auto simp: list_tickets_def step_Inr paged_def Let_def)
  from x have "x \<in> set (map tsu_ticket (pg_items p))" by simp
  then have "x \<in> set (page_of page page_size (order_desc updated xs))" using collect_summaries [OF xs(1)] by simp
  then have "ticket_selected (now e) f x"
    unfolding page_of_def using xs(2) by (auto dest!: in_set_takeD in_set_dropD)
  then have "sla_breached (now e) x = Some b" using filter by (simp add: ticket_selected_def opt_all_def)
  moreover have "sla_breached (now e) x = None"
    using open_ticket answered by (auto simp: sla_breached_def late3_def less3_def and3_def or3_def split: option.splits)
  ultimately show False by simp
qed

text \<open>The only ticket of the sample is listed without the filter, but not among the tickets that are not breached.\<close>

definition sample_listing :: "bool option \<Rightarrow> app_error + ticket_summary page" where
  "sample_listing b = list_tickets sreq_opened_at (moment 90 ''n'') sample_desk ''o'' sample_agent
     \<lparr>tf_q = None, tf_status = None, tf_priority = None, tf_category_id = None, tf_assigned_user_id = None, tf_sla_breached = b\<rparr> 1 20"

lemma sample_summary: "\<exists>v. summary_at u sample_desk ''o'' (sample_ticket ''x'' Ticket_IN_PROGRESS) = Inr v"
  by (simp add: summary_at_def requester_of_def step_def sample_ticket_def given_def)

theorem tickets_in_time_are_not_listed_witness:
  "\<exists>p q. sample_listing None = Inr p \<and> sample_listing (Some False) = Inr q \<and>
     sample_ticket ''x'' Ticket_IN_PROGRESS \<in> tsu_ticket ` set (pg_items p) \<and>
     sample_ticket ''x'' Ticket_IN_PROGRESS \<notin> tsu_ticket ` set (pg_items q)"
proof -
  let ?x = "sample_ticket ''x'' Ticket_IN_PROGRESS"
  have rows: "tickets sample_desk = [?x]" by (simp add: sample_desk_def)
  have x: "visible_ticket sample_desk ''o'' sample_agent ?x" "now (moment 90 ''n'') = 90"
    using sample_people(1) by (simp_all add: visible_ticket_def sample_ticket_def moment_def)
  obtain v where v: "summary_at 90 sample_desk ''o'' ?x = Inr v" using sample_summary by blast
  have p: "sample_listing None = Inr (paged 1 20 1 [v])"
    by (simp add: sample_listing_def list_tickets_def rows x ticket_selected_def opt_all_def given_def order_desc_def page_of_def step_def v)
  have late: "sla_breached 90 ?x = None"
    by (simp add: sla_breached_def late3_def less3_def and3_def or3_def sample_ticket_def)
  have q: "sample_listing (Some False) = Inr (paged 1 20 0 [])"
    by (simp add: sample_listing_def list_tickets_def rows x ticket_selected_def opt_all_def late order_desc_def page_of_def step_def)
  have "?x \<notin> tsu_ticket ` set (pg_items (paged 1 20 0 ([] :: ticket_summary list)))"
    using tickets_in_time_are_not_listed [of ?x 180 "moment 90 ''n''" 60 _ False, OF _ _ _ _ _ _ _ q [unfolded sample_listing_def]]
    by (simp add: sample_ticket_def x)
  then show ?thesis using p q summary_ticket [OF v] by (simp add: paged_def)
qed

end
