(* ===== verification/Rentals.thy ===== *)
theory Rentals
  imports Service_Requests
begin

text \<open>
  The tables of the rentals (\<^verbatim>\<open>models/rentals.py\<close> and the maintenance records of \<^verbatim>\<open>models/operations.py\<close>), and the record
  \<open>estate\<close> that extends the service desk, where the tenants are, by them. An empty \<^verbatim>\<open>property_id\<close> does not occur in a
  stored lease, the foreign key sees to that.

  Then the first part of \<^verbatim>\<open>services/rentals.py\<close>: who may see a lease, rental properties and tenants, the schedule of the
  rents, and the invoices that fall overdue. Each payload is the one that the schema has validated.
\<close>

section \<open>Enumerations\<close>

datatype rental_property_status =
  Rental_AVAILABLE | Rental_RESERVED | Rental_OCCUPIED | Rental_MAINTENANCE | Rental_INACTIVE

primrec rental_property_status_value :: "rental_property_status \<Rightarrow> string" where
  "rental_property_status_value Rental_AVAILABLE = ''AVAILABLE''"
| "rental_property_status_value Rental_RESERVED = ''RESERVED''"
| "rental_property_status_value Rental_OCCUPIED = ''OCCUPIED''"
| "rental_property_status_value Rental_MAINTENANCE = ''MAINTENANCE''"
| "rental_property_status_value Rental_INACTIVE = ''INACTIVE''"

datatype rent_schedule_status =
  Rent_SCHEDULED | Rent_INVOICED | Rent_PARTIALLY_PAID | Rent_PAID | Rent_OVERDUE | Rent_WAIVED

primrec rent_schedule_status_value :: "rent_schedule_status \<Rightarrow> string" where
  "rent_schedule_status_value Rent_SCHEDULED = ''SCHEDULED''"
| "rent_schedule_status_value Rent_INVOICED = ''INVOICED''"
| "rent_schedule_status_value Rent_PARTIALLY_PAID = ''PARTIALLY_PAID''"
| "rent_schedule_status_value Rent_PAID = ''PAID''"
| "rent_schedule_status_value Rent_OVERDUE = ''OVERDUE''"
| "rent_schedule_status_value Rent_WAIVED = ''WAIVED''"

datatype lease_status =
  Lease_DRAFT | Lease_PENDING_SIGNATURE | Lease_SIGNED | Lease_MOVE_IN_PENDING | Lease_ACTIVE
  | Lease_NOTICE_GIVEN | Lease_MOVE_OUT_PENDING | Lease_EXPIRED | Lease_TERMINATED | Lease_RENEWED

primrec lease_status_value :: "lease_status \<Rightarrow> string" where
  "lease_status_value Lease_DRAFT = ''DRAFT''"
| "lease_status_value Lease_PENDING_SIGNATURE = ''PENDING_SIGNATURE''"
| "lease_status_value Lease_SIGNED = ''SIGNED''"
| "lease_status_value Lease_MOVE_IN_PENDING = ''MOVE_IN_PENDING''"
| "lease_status_value Lease_ACTIVE = ''ACTIVE''"
| "lease_status_value Lease_NOTICE_GIVEN = ''NOTICE_GIVEN''"
| "lease_status_value Lease_MOVE_OUT_PENDING = ''MOVE_OUT_PENDING''"
| "lease_status_value Lease_EXPIRED = ''EXPIRED''"
| "lease_status_value Lease_TERMINATED = ''TERMINATED''"
| "lease_status_value Lease_RENEWED = ''RENEWED''"

datatype invoice_status =
  Invoice_DRAFT | Invoice_ISSUED | Invoice_PARTIALLY_PAID | Invoice_PAID | Invoice_OVERDUE
  | Invoice_VOIDED

primrec invoice_status_value :: "invoice_status \<Rightarrow> string" where
  "invoice_status_value Invoice_DRAFT = ''DRAFT''"
| "invoice_status_value Invoice_ISSUED = ''ISSUED''"
| "invoice_status_value Invoice_PARTIALLY_PAID = ''PARTIALLY_PAID''"
| "invoice_status_value Invoice_PAID = ''PAID''"
| "invoice_status_value Invoice_OVERDUE = ''OVERDUE''"
| "invoice_status_value Invoice_VOIDED = ''VOIDED''"

datatype service_status =
  Service_OPEN | Service_ASSIGNED | Service_IN_PROGRESS | Service_RESOLVED | Service_CLOSED
  | Service_CANCELLED

primrec service_status_value :: "service_status \<Rightarrow> string" where
  "service_status_value Service_OPEN = ''OPEN''"
| "service_status_value Service_ASSIGNED = ''ASSIGNED''"
| "service_status_value Service_IN_PROGRESS = ''IN_PROGRESS''"
| "service_status_value Service_RESOLVED = ''RESOLVED''"
| "service_status_value Service_CLOSED = ''CLOSED''"
| "service_status_value Service_CANCELLED = ''CANCELLED''"

primrec workflow_status_value :: "workflow_status \<Rightarrow> string" where
  "workflow_status_value Workflow_REQUESTED = ''REQUESTED''"
| "workflow_status_value Workflow_UNDER_REVIEW = ''UNDER_REVIEW''"
| "workflow_status_value Workflow_APPROVED = ''APPROVED''"
| "workflow_status_value Workflow_REJECTED = ''REJECTED''"
| "workflow_status_value Workflow_COMPLETED = ''COMPLETED''"
| "workflow_status_value Workflow_CANCELLED = ''CANCELLED''"

section \<open>Rows\<close>

record rental_property_row =
  rprop_id :: ident
  rprop_organization_id :: ident
  rprop_manager_user_id :: "ident option"
  rprop_code :: string
  rprop_name :: string
  rprop_property_type :: string
  rprop_address_line1 :: string
  rprop_address_line2 :: "string option"
  rprop_city :: string
  rprop_state :: string
  rprop_postal_code :: string
  rprop_country :: string
  rprop_bedrooms :: "int option"
  rprop_bathrooms :: "int option"
  rprop_area_sqft :: "decimal option"
  rprop_amenities :: "string list option"
  rprop_default_monthly_rent :: decimal
  rprop_default_security_deposit :: decimal
  rprop_currency :: string
  rprop_status :: rental_property_status
  rprop_notes :: "string option"
  rprop_created_at :: timestamp

record lease_row =
  lease_id :: ident
  lease_organization_id :: ident
  lease_tenant_id :: ident
  lease_unit_id :: "ident option"
  lease_property_id :: ident
  lease_created_by_user_id :: ident
  lease_approved_by_user_id :: "ident option"
  lease_lease_number :: string
  lease_status :: lease_status
  lease_start_date :: day
  lease_end_date :: day
  lease_monthly_rent :: decimal
  lease_security_deposit :: decimal
  lease_currency :: string
  lease_active_unit_key :: "ident option"
  lease_active_property_key :: "ident option"
  lease_rent_due_day :: int
  lease_notice_period_days :: int
  lease_terms :: "string option"
  lease_issued_at :: "timestamp option"
  lease_signed_at :: "timestamp option"
  lease_activated_at :: "timestamp option"
  lease_terminated_at :: "timestamp option"
  lease_created_at :: timestamp

record lease_document_row =
  ldoc_id :: ident
  ldoc_organization_id :: ident
  ldoc_lease_id :: ident
  ldoc_uploaded_by_user_id :: "ident option"
  ldoc_reviewed_by_user_id :: "ident option"
  ldoc_document_type :: string
  ldoc_version :: int
  ldoc_is_required :: bool
  ldoc_status :: document_status
  ldoc_file_name :: "string option"
  ldoc_storage_key :: "string option"
  ldoc_content_type :: "string option"
  ldoc_size_bytes :: "int option"
  ldoc_checksum_sha256 :: "string option"
  ldoc_rejection_reason :: "string option"
  ldoc_uploaded_at :: "timestamp option"
  ldoc_reviewed_at :: "timestamp option"
  ldoc_created_at :: timestamp

record rent_schedule_row =
  rsch_id :: ident
  rsch_organization_id :: ident
  rsch_lease_id :: ident
  rsch_sequence :: int
  rsch_period_start :: day
  rsch_period_end :: day
  rsch_due_date :: day
  rsch_amount :: decimal
  rsch_currency :: string
  rsch_status :: rent_schedule_status
  rsch_created_at :: timestamp

record rental_invoice_row =
  rinv_id :: ident
  rinv_organization_id :: ident
  rinv_lease_id :: ident
  rinv_tenant_id :: ident
  rinv_rent_schedule_item_id :: "ident option"
  rinv_created_by_user_id :: "ident option"
  rinv_invoice_number :: string
  rinv_status :: invoice_status
  rinv_period_start :: day
  rinv_period_end :: day
  rinv_issue_date :: day
  rinv_due_date :: day
  rinv_amount :: decimal
  rinv_tax_amount :: decimal
  rinv_total :: decimal
  rinv_currency :: string
  rinv_paid_amount :: decimal
  rinv_issued_at :: "timestamp option"
  rinv_created_at :: timestamp

record rent_payment_row =
  rpay_id :: ident
  rpay_organization_id :: ident
  rpay_rental_invoice_id :: ident
  rpay_lease_id :: ident
  rpay_tenant_id :: ident
  rpay_verified_by_user_id :: "ident option"
  rpay_submitted_by_user_id :: ident
  rpay_status :: payment_status
  rpay_amount :: decimal
  rpay_currency :: string
  rpay_method :: string
  rpay_reference_number :: "string option"
  rpay_idempotency_key :: string
  rpay_paid_at :: "timestamp option"
  rpay_verified_at :: "timestamp option"
  rpay_rejection_reason :: "string option"
  rpay_created_at :: timestamp

record lease_renewal_row =
  lren_id :: ident
  lren_organization_id :: ident
  lren_lease_id :: ident
  lren_requested_by_user_id :: ident
  lren_decided_by_user_id :: "ident option"
  lren_status :: workflow_status
  lren_previous_end_date :: day
  lren_proposed_end_date :: day
  lren_previous_monthly_rent :: decimal
  lren_proposed_monthly_rent :: decimal
  lren_reason :: string
  lren_decision_notes :: "string option"
  lren_requested_at :: timestamp
  lren_decided_at :: "timestamp option"
  lren_applied_at :: "timestamp option"
  lren_created_at :: timestamp

record lease_move_row =
  lmove_id :: ident
  lmove_organization_id :: ident
  lmove_lease_id :: ident
  lmove_requested_by_user_id :: ident
  lmove_approved_by_user_id :: "ident option"
  lmove_completed_by_user_id :: "ident option"
  lmove_move_type :: string
  lmove_status :: workflow_status
  lmove_scheduled_at :: timestamp
  lmove_checklist :: "json option"
  lmove_meter_readings :: "json option"
  lmove_notes :: "string option"
  lmove_requested_at :: timestamp
  lmove_approved_at :: "timestamp option"
  lmove_completed_at :: "timestamp option"
  lmove_created_at :: timestamp

record maintenance_row =
  maint_id :: ident
  maint_organization_id :: ident
  maint_unit_id :: "ident option"
  maint_rental_property_id :: "ident option"
  maint_reported_by_user_id :: "ident option"
  maint_lease_id :: "ident option"
  maint_service_request_id :: "ident option"
  maint_assigned_user_id :: "ident option"
  maint_status :: service_status
  maint_title :: string
  maint_description :: "string option"
  maint_scheduled_at :: "timestamp option"
  maint_completed_at :: "timestamp option"
  maint_cost :: "decimal option"
  maint_currency :: "string option"
  maint_created_at :: timestamp

record estate =
  helpd :: helpdesk
  rental_properties :: "rental_property_row list"
  leases :: "lease_row list"
  lease_documents :: "lease_document_row list"
  rent_schedule :: "rent_schedule_row list"
  rental_invoices :: "rental_invoice_row list"
  rent_payments :: "rent_payment_row list"
  lease_renewals :: "lease_renewal_row list"
  lease_moves :: "lease_move_row list"
  maintenance :: "maintenance_row list"

abbreviation estate_base :: "estate \<Rightarrow> database" where
  "estate_base s \<equiv> desk (helpd s)"

definition in_estate :: "(database \<Rightarrow> database) \<Rightarrow> estate \<Rightarrow> estate" where
  "in_estate f s = s\<lparr>helpd := in_desk f (helpd s)\<rparr>"

abbreviation lodger :: "estate \<Rightarrow> ident \<Rightarrow> ident \<Rightarrow> tenant_row option" where
  "lodger s \<equiv> find_tenant (helpd s)"

abbreviation find_property :: "estate \<Rightarrow> ident \<Rightarrow> ident \<Rightarrow> rental_property_row option" where
  "find_property s \<equiv> entity rprop_organization_id rprop_id (rental_properties s)"

abbreviation find_lease :: "estate \<Rightarrow> ident \<Rightarrow> ident \<Rightarrow> lease_row option" where
  "find_lease s \<equiv> entity lease_organization_id lease_id (leases s)"

abbreviation find_lease_document :: "estate \<Rightarrow> ident \<Rightarrow> ident \<Rightarrow> lease_document_row option" where
  "find_lease_document s \<equiv> entity ldoc_organization_id ldoc_id (lease_documents s)"

abbreviation find_schedule_item :: "estate \<Rightarrow> ident \<Rightarrow> ident \<Rightarrow> rent_schedule_row option" where
  "find_schedule_item s \<equiv> entity rsch_organization_id rsch_id (rent_schedule s)"

abbreviation find_invoice :: "estate \<Rightarrow> ident \<Rightarrow> ident \<Rightarrow> rental_invoice_row option" where
  "find_invoice s \<equiv> entity rinv_organization_id rinv_id (rental_invoices s)"

abbreviation find_rent_payment :: "estate \<Rightarrow> ident \<Rightarrow> ident \<Rightarrow> rent_payment_row option" where
  "find_rent_payment s \<equiv> entity rpay_organization_id rpay_id (rent_payments s)"

abbreviation find_renewal :: "estate \<Rightarrow> ident \<Rightarrow> ident \<Rightarrow> lease_renewal_row option" where
  "find_renewal s \<equiv> entity lren_organization_id lren_id (lease_renewals s)"

abbreviation find_move :: "estate \<Rightarrow> ident \<Rightarrow> ident \<Rightarrow> lease_move_row option" where
  "find_move s \<equiv> entity lmove_organization_id lmove_id (lease_moves s)"

abbreviation find_maintenance :: "estate \<Rightarrow> ident \<Rightarrow> ident \<Rightarrow> maintenance_row option" where
  "find_maintenance s \<equiv> entity maint_organization_id maint_id (maintenance s)"

abbreviation put_property :: "rental_property_row \<Rightarrow> estate \<Rightarrow> estate" where
  "put_property x s \<equiv> s\<lparr>rental_properties := put_row rprop_id x (rental_properties s)\<rparr>"

abbreviation put_lease :: "lease_row \<Rightarrow> estate \<Rightarrow> estate" where
  "put_lease x s \<equiv> s\<lparr>leases := put_row lease_id x (leases s)\<rparr>"

abbreviation put_lease_document :: "lease_document_row \<Rightarrow> estate \<Rightarrow> estate" where
  "put_lease_document x s \<equiv> s\<lparr>lease_documents := put_row ldoc_id x (lease_documents s)\<rparr>"

abbreviation put_schedule_item :: "rent_schedule_row \<Rightarrow> estate \<Rightarrow> estate" where
  "put_schedule_item x s \<equiv> s\<lparr>rent_schedule := put_row rsch_id x (rent_schedule s)\<rparr>"

abbreviation put_invoice :: "rental_invoice_row \<Rightarrow> estate \<Rightarrow> estate" where
  "put_invoice x s \<equiv> s\<lparr>rental_invoices := put_row rinv_id x (rental_invoices s)\<rparr>"

abbreviation put_rent_payment :: "rent_payment_row \<Rightarrow> estate \<Rightarrow> estate" where
  "put_rent_payment x s \<equiv> s\<lparr>rent_payments := put_row rpay_id x (rent_payments s)\<rparr>"

abbreviation put_renewal :: "lease_renewal_row \<Rightarrow> estate \<Rightarrow> estate" where
  "put_renewal x s \<equiv> s\<lparr>lease_renewals := put_row lren_id x (lease_renewals s)\<rparr>"

abbreviation put_move :: "lease_move_row \<Rightarrow> estate \<Rightarrow> estate" where
  "put_move x s \<equiv> s\<lparr>lease_moves := put_row lmove_id x (lease_moves s)\<rparr>"

abbreviation put_maintenance :: "maintenance_row \<Rightarrow> estate \<Rightarrow> estate" where
  "put_maintenance x s \<equiv> s\<lparr>maintenance := put_row maint_id x (maintenance s)\<rparr>"

definition rental_audit ::
  "env \<Rightarrow> nat \<Rightarrow> ident \<Rightarrow> mutation_context \<Rightarrow> string \<Rightarrow> string \<Rightarrow> ident \<Rightarrow> snapshot option \<Rightarrow> snapshot option \<Rightarrow> estate \<Rightarrow> estate" where
  "rental_audit e k org ctx action entity_type i old new =
     in_estate (add_audits [audit_entry e (uuid e k) org ctx action entity_type i old new])"

text \<open>\<^verbatim>\<open>str(value)\<close> of a changed field; amounts and lists of texts stand for what Python prints.\<close>

definition printed :: "('a \<Rightarrow> json) \<Rightarrow> 'a option \<Rightarrow> json" where
  "printed f x = (case x of None \<Rightarrow> JStr ''None'' | Some v \<Rightarrow> f v)"

section \<open>People\<close>

text \<open>\<^verbatim>\<open>_can_manage\<close> asks for one of three permission codes, whichever permission the endpoint was guarded by.\<close>

definition can_manage_module :: "mutation_context \<Rightarrow> string \<Rightarrow> bool" where
  "can_manage_module ctx area \<longleftrightarrow>
     list_ex (\<lambda>a. area @ ''.'' @ a \<in> set (permissions_held ctx)) [''manage'', ''update'', ''approve'']"

abbreviation manages :: "mutation_context \<Rightarrow> bool" where
  "manages ctx \<equiv> can_manage_module ctx ''leases''"

definition actor_lodger :: "estate \<Rightarrow> ident \<Rightarrow> mutation_context \<Rightarrow> tenant_row option" where
  "actor_lodger s org ctx = actor_tenant (helpd s) org (actor_user_id ctx)"

definition leases_to :: "estate \<Rightarrow> ident \<Rightarrow> mutation_context \<Rightarrow> ident \<Rightarrow> bool" where
  "leases_to s org ctx i \<longleftrightarrow> (case actor_lodger s org ctx of None \<Rightarrow> False | Some t \<Rightarrow> i = tenant_id t)"

text \<open>\<^verbatim>\<open>_scoped_lease\<close>\<close>

definition scoped_lease :: "estate \<Rightarrow> ident \<Rightarrow> mutation_context \<Rightarrow> ident \<Rightarrow> lease_row option" where
  "scoped_lease s org ctx i = (case find_lease s org i of
     None \<Rightarrow> None
   | Some x \<Rightarrow> if lease_property_id x \<noteq> [] \<and> (manages ctx \<or> leases_to s org ctx (lease_tenant_id x)) then Some x else None)"

section \<open>Views\<close>

record rental_property_view =
  rpv_property :: rental_property_row
  rpv_address :: string
  rpv_amenities :: "string list"
  rpv_manager_name :: "string option"
  rpv_active_lease_id :: "ident option"

fun joined :: "string \<Rightarrow> string list \<Rightarrow> string" where
  "joined sep [] = []"
| "joined sep [x] = x"
| "joined sep (x # xs) = x @ sep @ joined sep xs"

definition full_address :: "rental_property_row \<Rightarrow> string" where
  "full_address x = joined '', '' (filter (\<lambda>t. t \<noteq> [])
     [rprop_address_line1 x, (case rprop_address_line2 x of None \<Rightarrow> [] | Some t \<Rightarrow> t), rprop_city x, rprop_state x,
      rprop_postal_code x, rprop_country x])"

text \<open>\<^verbatim>\<open>_property_view\<close>\<close>

definition property_view :: "estate \<Rightarrow> ident \<Rightarrow> rental_property_row \<Rightarrow> rental_property_view" where
  "property_view s org x =
     \<lparr>rpv_property = x, rpv_address = full_address x,
      rpv_amenities = (case rprop_amenities x of None \<Rightarrow> [] | Some ts \<Rightarrow> ts),
      rpv_manager_name = name_at (helpd s) org (rprop_manager_user_id x),
      rpv_active_lease_id = map_option lease_id (find (\<lambda>l. lease_organization_id l = org \<and> lease_property_id l = rprop_id x \<and>
        lease_active_property_key l = Some (rprop_id x)) (leases s))\<rparr>"

record tenant_view =
  tnv_tenant :: tenant_row
  tnv_active_leases :: nat
  tnv_outstanding_rent :: decimal

definition running_statuses :: "lease_status list" where
  "running_statuses = [Lease_SIGNED, Lease_MOVE_IN_PENDING, Lease_ACTIVE, Lease_NOTICE_GIVEN, Lease_MOVE_OUT_PENDING]"

definition unsettled :: "rental_invoice_row \<Rightarrow> bool" where
  "unsettled v \<longleftrightarrow> rinv_status v \<notin> {Invoice_PAID, Invoice_VOIDED}"

definition open_rent :: "(rental_invoice_row \<Rightarrow> bool) \<Rightarrow> estate \<Rightarrow> decimal" where
  "open_rent p s = sum_where (\<lambda>v. p v \<and> unsettled v) (\<lambda>v. rinv_total v - rinv_paid_amount v) (rental_invoices s)"

text \<open>\<^verbatim>\<open>_tenant_view\<close>\<close>

definition tenant_view_of :: "estate \<Rightarrow> ident \<Rightarrow> tenant_row \<Rightarrow> tenant_view" where
  "tenant_view_of s org x =
     \<lparr>tnv_tenant = x,
      tnv_active_leases = count_rows (\<lambda>l. lease_organization_id l = org \<and> lease_tenant_id l = tenant_id x \<and>
        lease_status l \<in> set running_statuses) (leases s),
      tnv_outstanding_rent = open_rent (\<lambda>v. rinv_organization_id v = org \<and> rinv_tenant_id v = tenant_id x) s\<rparr>"

section \<open>Overdue invoices\<close>

definition falls_overdue :: "env \<Rightarrow> ident \<Rightarrow> rental_invoice_row \<Rightarrow> bool" where
  "falls_overdue e org v \<longleftrightarrow> rinv_organization_id v = org \<and> rinv_due_date v < today e \<and>
     rinv_status v \<in> {Invoice_ISSUED, Invoice_PARTIALLY_PAID}"

definition mark_overdue :: "ident \<Rightarrow> rental_invoice_row \<Rightarrow> estate \<Rightarrow> app_error + estate" where
  "mark_overdue org v s =
     (if rinv_paid_amount v < rinv_total v then
        let t = put_invoice (v\<lparr>rinv_status := Invoice_OVERDUE\<rparr>) s in
        need_given (rinv_rent_schedule_item_id v) (find_schedule_item s org) resource_not_found (\<lambda>x. case x of
          None \<Rightarrow> Inr t
        | Some r \<Rightarrow> Inr (put_schedule_item (r\<lparr>rsch_status := Rent_OVERDUE\<rparr>) t))
      else Inr s)"

text \<open>\<^verbatim>\<open>expire_overdue\<close>; when it raises, nothing of it is committed.\<close>

definition expire_overdue :: "env \<Rightarrow> ident \<Rightarrow> estate \<Rightarrow> app_error + estate" where
  "expire_overdue e org s = loop (mark_overdue org) (filter (falls_overdue e org) (rental_invoices s)) s"

section \<open>Properties\<close>

definition property_matches :: "string option \<Rightarrow> rental_property_row \<Rightarrow> bool" where
  "property_matches q x \<longleftrightarrow> opt_all (\<lambda>t. list_ex (\<lambda>c. ilike c (search_pattern t)) [rprop_name x, rprop_code x, rprop_city x]) (given q)"

definition own_property :: "estate \<Rightarrow> ident \<Rightarrow> mutation_context \<Rightarrow> rental_property_row \<Rightarrow> bool" where
  "own_property s org ctx x \<longleftrightarrow> list_ex (\<lambda>l. lease_organization_id l = org \<and> lease_property_id l = rprop_id x \<and>
     lease_tenant_id l = (case actor_lodger s org ctx of None \<Rightarrow> [] | Some t \<Rightarrow> tenant_id t)) (leases s)"

definition list_properties ::
  "(rental_property_row \<Rightarrow> timestamp) \<Rightarrow> estate \<Rightarrow> ident \<Rightarrow> mutation_context \<Rightarrow> string option \<Rightarrow> rental_property_status option \<Rightarrow>
   nat \<Rightarrow> nat \<Rightarrow> rental_property_view page" where
  "list_properties updated s org ctx q status page page_size =
     (let rows = filter (\<lambda>x. rprop_organization_id x = org \<and> (manages ctx \<or> own_property s org ctx x) \<and> property_matches q x \<and>
            opt_all (\<lambda>st. rprop_status x = st) status) (rental_properties s) in
      paged page page_size (length rows) (map (property_view s org) (page_of page page_size (order_desc updated rows))))"

record rental_property_create =
  rpc_code :: string
  rpc_name :: string
  rpc_property_type :: string
  rpc_address_line1 :: string
  rpc_address_line2 :: "string option"
  rpc_city :: string
  rpc_state :: string
  rpc_postal_code :: string
  rpc_country :: string
  rpc_bedrooms :: "int option"
  rpc_bathrooms :: "int option"
  rpc_area_sqft :: "decimal option"
  rpc_amenities :: "string list"
  rpc_default_monthly_rent :: decimal
  rpc_default_security_deposit :: decimal
  rpc_currency :: string
  rpc_manager_user_id :: "ident option"
  rpc_notes :: "string option"

definition new_property :: "env \<Rightarrow> ident \<Rightarrow> rental_property_create \<Rightarrow> rental_property_row" where
  "new_property e org p =
     \<lparr>rprop_id = uuid e 0, rprop_organization_id = org, rprop_manager_user_id = rpc_manager_user_id p,
      rprop_code = upper (strip (rpc_code p)), rprop_name = strip (rpc_name p),
      rprop_property_type = upper (strip (rpc_property_type p)), rprop_address_line1 = strip (rpc_address_line1 p),
      rprop_address_line2 = rpc_address_line2 p, rprop_city = strip (rpc_city p), rprop_state = strip (rpc_state p),
      rprop_postal_code = strip (rpc_postal_code p), rprop_country = strip (rpc_country p),
      rprop_bedrooms = rpc_bedrooms p, rprop_bathrooms = rpc_bathrooms p, rprop_area_sqft = rpc_area_sqft p,
      rprop_amenities = Some (rpc_amenities p), rprop_default_monthly_rent = rpc_default_monthly_rent p,
      rprop_default_security_deposit = rpc_default_security_deposit p, rprop_currency = upper (rpc_currency p),
      rprop_status = Rental_AVAILABLE, rprop_notes = rpc_notes p, rprop_created_at = now e\<rparr>"

text \<open>A named user must exist and be active.\<close>

definition active_user :: "estate \<Rightarrow> ident \<Rightarrow> ident option \<Rightarrow> string \<Rightarrow> app_error + unit" where
  "active_user s org x code = need_given x (find_user (estate_base s) org) resource_not_found (\<lambda>u. case u of
     None \<Rightarrow> Inr ()
   | Some u \<Rightarrow> require (user_is_active u) (invalid code) (Inr ()))"

definition create_property ::
  "env \<Rightarrow> mutation_context \<Rightarrow> ident \<Rightarrow> rental_property_create \<Rightarrow> estate \<Rightarrow> (estate, rental_property_view) outcome" where
  "create_property e ctx org p s =
     attempt s (active_user s org (rpc_manager_user_id p) ''MANAGER_INACTIVE'') (\<lambda>_.
     let x = new_property e org p in
     demand s (slot_free rprop_organization_id (\<lambda>y. Some (rprop_code y)) org (rprop_code x) (rental_properties s) \<and>
       no_blank [rpc_manager_user_id p]) (conflict ''RENTAL_PROPERTY_CODE_EXISTS'') (
     let t = rental_audit e 1 org ctx ''rental.property.created'' ''rental_property'' (rprop_id x) None
           (Some [(''code'', JStr (rprop_code x)), (''status'', JStr (rental_property_status_value (rprop_status x)))])
           (s\<lparr>rental_properties := rental_properties s @ [x]\<rparr>) in
     Return t (property_view t org x)))"

record rental_property_update =
  rpu_name :: "string option option"
  rpu_status :: "rental_property_status option option"
  rpu_default_monthly_rent :: "decimal option option"
  rpu_default_security_deposit :: "decimal option option"
  rpu_manager_user_id :: "ident option option"
  rpu_amenities :: "string list option option"
  rpu_notes :: "string option option"

definition property_changes :: "rental_property_update \<Rightarrow> rental_property_row \<Rightarrow> (string \<times> json \<times> json) list" where
  "property_changes p x =
     List.map_filter (\<lambda>c. c)
       [map_option (\<lambda>v. (''name'', JStr (rprop_name x), printed JStr v)) (rpu_name p),
        map_option (\<lambda>v. (''status'', JStr (rental_property_status_value (rprop_status x)),
          printed (\<lambda>st. JStr (rental_property_status_value st)) v)) (rpu_status p),
        map_option (\<lambda>v. (''default_monthly_rent'', JDec (rprop_default_monthly_rent x), printed JDec v)) (rpu_default_monthly_rent p),
        map_option (\<lambda>v. (''default_security_deposit'', JDec (rprop_default_security_deposit x), printed JDec v))
          (rpu_default_security_deposit p),
        map_option (\<lambda>v. (''manager_user_id'', printed JStr (rprop_manager_user_id x), printed JStr v)) (rpu_manager_user_id p),
        map_option (\<lambda>v. (''amenities'', printed (\<lambda>ts. JList (map JStr ts)) (rprop_amenities x),
          printed (\<lambda>ts. JList (map JStr ts)) v)) (rpu_amenities p),
        map_option (\<lambda>v. (''notes'', printed JStr (rprop_notes x), printed JStr v)) (rpu_notes p)]"

text \<open>A null name, status or amount is refused by the table, an empty manager by its foreign key.\<close>

definition updated_property :: "rental_property_update \<Rightarrow> rental_property_row \<Rightarrow> rental_property_row option" where
  "updated_property p x =
     (case (changed (rpu_name p) (Some (rprop_name x)), changed (rpu_status p) (Some (rprop_status x)),
        changed (rpu_default_monthly_rent p) (Some (rprop_default_monthly_rent x)),
        changed (rpu_default_security_deposit p) (Some (rprop_default_security_deposit x))) of
      (Some name, Some status, Some rent, Some deposit) \<Rightarrow>
        if no_blank [changed (rpu_manager_user_id p) None] then
          Some (x\<lparr>rprop_name := name, rprop_status := status, rprop_default_monthly_rent := rent,
            rprop_default_security_deposit := deposit,
            rprop_manager_user_id := changed (rpu_manager_user_id p) (rprop_manager_user_id x),
            rprop_amenities := changed (rpu_amenities p) (rprop_amenities x),
            rprop_notes := changed (rpu_notes p) (rprop_notes x)\<rparr>)
        else None
      | _ \<Rightarrow> None)"

definition update_property ::
  "env \<Rightarrow> mutation_context \<Rightarrow> ident \<Rightarrow> ident \<Rightarrow> rental_property_update \<Rightarrow> estate \<Rightarrow> (estate, rental_property_view) outcome" where
  "update_property e ctx org i p s =
     fetch s (find_property s org i) resource_not_found (\<lambda>x.
     attempt s (active_user s org (changed (rpu_manager_user_id p) None) ''MANAGER_INACTIVE'') (\<lambda>_.
     demand s (rprop_status x = Rental_OCCUPIED \<longrightarrow> opt_all (\<lambda>st. st = Some Rental_OCCUPIED) (rpu_status p))
       (conflict ''ACTIVE_LEASE_EXISTS'') (
     fetch s (updated_property p x) Integrity_Error (\<lambda>y.
     let (old, new) = change_log (property_changes p x);
         t = rental_audit e 0 org ctx ''rental.property.updated'' ''rental_property'' (rprop_id x) (Some old) (Some new) (put_property y s) in
     Return t (property_view t org y)))))"

section \<open>Tenants\<close>

definition tenant_matches :: "string option \<Rightarrow> tenant_row \<Rightarrow> bool" where
  "tenant_matches q x \<longleftrightarrow> opt_all (\<lambda>t. list_ex (\<lambda>c. case c of None \<Rightarrow> False | Some c \<Rightarrow> ilike c (search_pattern t))
     [Some (tenant_full_name x), tenant_email x, tenant_phone x]) (given q)"

definition list_tenants ::
  "(tenant_row \<Rightarrow> timestamp) \<Rightarrow> estate \<Rightarrow> ident \<Rightarrow> string option \<Rightarrow> nat \<Rightarrow> nat \<Rightarrow> tenant_view page" where
  "list_tenants updated s org q page page_size =
     (let rows = filter (\<lambda>x. tenant_organization_id x = org \<and> tenant_matches q x) (tenants (helpd s)) in
      paged page page_size (length rows) (map (tenant_view_of s org) (page_of page page_size (order_desc updated rows))))"

record tenant_create =
  tnc_user_id :: "ident option"
  tnc_full_name :: string
  tnc_email :: "string option"
  tnc_phone :: string
  tnc_alternate_phone :: "string option"
  tnc_identity_type :: "string option"
  tnc_identity_reference :: "string option"
  tnc_address :: "string option"
  tnc_emergency_contact_name :: "string option"
  tnc_emergency_contact_phone :: "string option"

definition new_tenant :: "env \<Rightarrow> ident \<Rightarrow> tenant_create \<Rightarrow> tenant_row" where
  "new_tenant e org p =
     \<lparr>tenant_id = uuid e 0, tenant_organization_id = org, tenant_user_id = tnc_user_id p,
      tenant_full_name = strip (tnc_full_name p), tenant_email = map_option lower (given (tnc_email p)),
      tenant_phone = Some (strip (tnc_phone p)), tenant_alternate_phone = tnc_alternate_phone p,
      tenant_identity_type = tnc_identity_type p, tenant_identity_reference = tnc_identity_reference p,
      tenant_address = tnc_address p, tenant_emergency_contact_name = tnc_emergency_contact_name p,
      tenant_emergency_contact_phone = tnc_emergency_contact_phone p, tenant_status = Tenant_ACTIVE, tenant_created_at = now e\<rparr>"

definition put_tenants :: "tenant_row list \<Rightarrow> estate \<Rightarrow> estate" where
  "put_tenants rows s = s\<lparr>helpd := (helpd s)\<lparr>tenants := rows\<rparr>\<rparr>"

definition user_unlinked :: "estate \<Rightarrow> ident \<Rightarrow> ident option \<Rightarrow> bool" where
  "user_unlinked s org x \<longleftrightarrow> opt_all (\<lambda>u. slot_free tenant_organization_id tenant_user_id org u (tenants (helpd s))) x"

definition create_tenant ::
  "env \<Rightarrow> mutation_context \<Rightarrow> ident \<Rightarrow> tenant_create \<Rightarrow> estate \<Rightarrow> (estate, tenant_view) outcome" where
  "create_tenant e ctx org p s =
     attempt s (active_user s org (tnc_user_id p) ''TENANT_USER_INACTIVE'') (\<lambda>_.
     let x = new_tenant e org p in
     demand s (user_unlinked s org (tnc_user_id p) \<and> no_blank [tnc_user_id p]) (conflict ''TENANT_USER_ALREADY_LINKED'') (
     let t = rental_audit e 1 org ctx ''rental.tenant.created'' ''tenant'' (tenant_id x) None
           (Some [(''full_name'', JStr (tenant_full_name x)), (''user_id'', jopt JStr (tenant_user_id x))])
           (put_tenants (tenants (helpd s) @ [x]) s) in
     Return t (tenant_view_of t org x)))"

record tenant_update =
  tnu_full_name :: "string option option"
  tnu_email :: "string option option"
  tnu_phone :: "string option option"
  tnu_alternate_phone :: "string option option"
  tnu_address :: "string option option"
  tnu_emergency_contact_name :: "string option option"
  tnu_emergency_contact_phone :: "string option option"
  tnu_status :: "tenant_status option option"

definition tenant_changes :: "tenant_update \<Rightarrow> tenant_row \<Rightarrow> (string \<times> json \<times> json) list" where
  "tenant_changes p x =
     (let field = (\<lambda>name current v. map_option (\<lambda>v. (name, printed JStr current, printed JStr v)) v) in
      List.map_filter (\<lambda>c. c)
       [field ''full_name'' (Some (tenant_full_name x)) (tnu_full_name p), field ''email'' (tenant_email x) (tnu_email p),
        field ''phone'' (tenant_phone x) (tnu_phone p), field ''alternate_phone'' (tenant_alternate_phone x) (tnu_alternate_phone p),
        field ''address'' (tenant_address x) (tnu_address p),
        field ''emergency_contact_name'' (tenant_emergency_contact_name x) (tnu_emergency_contact_name p),
        field ''emergency_contact_phone'' (tenant_emergency_contact_phone x) (tnu_emergency_contact_phone p),
        map_option (\<lambda>v. (''status'', JStr (tenant_status_value (tenant_status x)),
          printed (\<lambda>st. JStr (tenant_status_value st)) v)) (tnu_status p)])"

definition updated_tenant :: "tenant_update \<Rightarrow> tenant_row \<Rightarrow> tenant_row option" where
  "updated_tenant p x =
     (case (changed (tnu_full_name p) (Some (tenant_full_name x)), changed (tnu_status p) (Some (tenant_status x))) of
      (Some name, Some status) \<Rightarrow>
        Some (x\<lparr>tenant_full_name := name, tenant_email := changed (map_option (map_option lower) (tnu_email p)) (tenant_email x),
          tenant_phone := changed (tnu_phone p) (tenant_phone x),
          tenant_alternate_phone := changed (tnu_alternate_phone p) (tenant_alternate_phone x),
          tenant_address := changed (tnu_address p) (tenant_address x),
          tenant_emergency_contact_name := changed (tnu_emergency_contact_name p) (tenant_emergency_contact_name x),
          tenant_emergency_contact_phone := changed (tnu_emergency_contact_phone p) (tenant_emergency_contact_phone x),
          tenant_status := status\<rparr>)
      | _ \<Rightarrow> None)"

definition update_tenant ::
  "env \<Rightarrow> mutation_context \<Rightarrow> ident \<Rightarrow> ident \<Rightarrow> tenant_update \<Rightarrow> estate \<Rightarrow> (estate, tenant_view) outcome" where
  "update_tenant e ctx org i p s =
     fetch s (lodger s org i) resource_not_found (\<lambda>x.
     fetch s (updated_tenant p x) Integrity_Error (\<lambda>y.
     let (old, new) = change_log (tenant_changes p x);
         t = rental_audit e 0 org ctx ''rental.tenant.updated'' ''tenant'' (tenant_id x) (Some old) (Some new)
           (put_tenants (put_row tenant_id y (tenants (helpd s))) s) in
     Return t (tenant_view_of t org y)))"

section \<open>The schedule of the rents\<close>

text \<open>
  The due date of a period: the due day of the month in which the period begins, or of the next month when this day is
  over, but not after the end of the period. A date after the year 9999 raises.
\<close>

definition rent_due_in :: "int \<Rightarrow> day \<Rightarrow> day \<Rightarrow> app_error + day" where
  "rent_due_in due_day cursor period_end = (case calendar cursor of (y, m, d) \<Rightarrow>
     let due = day_of y m (min due_day 28) in
     if due < cursor then
       let following = add_months (day_of y m 1) 1 in
       if max_day < following then Inl Internal_Error
       else (case calendar following of (y', m', d') \<Rightarrow> Inr (min (day_of y' m' (min due_day 28)) period_end))
     else Inr (min due period_end))"

text \<open>
  The loop of \<^verbatim>\<open>_append_schedule\<close>: a period ends before the same day of the next month, counted from the beginning of the
  lease, or with the lease. The periods carry their beginning, their end and the day on which their rent is due.
\<close>

function rent_periods :: "int \<Rightarrow> day \<Rightarrow> day \<Rightarrow> day \<Rightarrow> int \<Rightarrow> app_error + (day \<times> day \<times> day) list" where
  "rent_periods due_day start finish cursor index =
     (if finish < cursor then Inr []
      else let following = add_months start index; period_end = min (following - 1) finish in
        if max_day < following then Inl Internal_Error
        else (case rent_due_in due_day cursor period_end of
            Inl err \<Rightarrow> Inl err
          | Inr due \<Rightarrow> if max_day \<le> period_end then Inl Internal_Error
              else (case rent_periods due_day start finish (period_end + 1) (index + 1) of
                  Inl err \<Rightarrow> Inl err
                | Inr ps \<Rightarrow> Inr ((cursor, period_end, due) # ps))))"
  by auto
termination
proof (relation "measure (\<lambda>(due_day, start, finish, cursor, index).
    if finish < cursor then 0 else Suc (nat (finish + 1 - add_months start index)))")
  fix due_day start finish cursor index following period_end
  assume "\<not> finish < cursor" "following = add_months start index" "period_end = min (following - 1) finish"
  then show "((due_day, start, finish, period_end + 1, index + 1), due_day, start, finish, cursor, index) \<in>
    measure (\<lambda>(due_day, start, finish, cursor, index). if finish < cursor then 0 else Suc (nat (finish + 1 - add_months start index)))"
    using add_months_less [of start index] by auto
qed simp

declare rent_periods.simps [simp del]

fun schedule_rows ::
  "env \<Rightarrow> lease_row \<Rightarrow> nat \<Rightarrow> int \<Rightarrow> (day \<times> day \<times> day) list \<Rightarrow> rent_schedule_row list" where
  "schedule_rows e x k n [] = []"
| "schedule_rows e x k n ((first, final, due) # ps) =
     \<lparr>rsch_id = uuid e k, rsch_organization_id = lease_organization_id x, rsch_lease_id = lease_id x, rsch_sequence = n,
      rsch_period_start = first, rsch_period_end = final, rsch_due_date = due, rsch_amount = lease_monthly_rent x,
      rsch_currency = lease_currency x, rsch_status = Rent_SCHEDULED, rsch_created_at = now e\<rparr> #
     schedule_rows e x (k + 1) (n + 1) ps"

definition of_lease :: "ident \<Rightarrow> ident \<Rightarrow> rent_schedule_row \<Rightarrow> bool" where
  "of_lease org i r \<longleftrightarrow> rsch_organization_id r = org \<and> rsch_lease_id r = i"

text \<open>\<^verbatim>\<open>_append_schedule\<close>; a number that the lease already has is refused by the table.\<close>

definition append_schedule :: "env \<Rightarrow> nat \<Rightarrow> lease_row \<Rightarrow> day \<Rightarrow> day \<Rightarrow> int \<Rightarrow> estate \<Rightarrow> app_error + estate" where
  "append_schedule e k x start finish n s =
     step (rent_periods (lease_rent_due_day x) start finish start 1) (\<lambda>ps.
     let rows = schedule_rows e x k n ps in
     require (list_all (\<lambda>r. list_all (\<lambda>y. of_lease (lease_organization_id x) (lease_id x) y \<longrightarrow> rsch_sequence y \<noteq> rsch_sequence r)
       (rent_schedule s)) rows) Integrity_Error (
     Inr (s\<lparr>rent_schedule := rent_schedule s @ rows\<rparr>)))"

end
