(* ===== verification/Rental_Handlers.thy ===== *)
theory Rental_Handlers
  imports Rentals
begin

text \<open>
  Rentals, second part: the life of a lease from its draft to the move-out, with its documents, invoices, payments,
  renewals, moves and maintenance records, what a reader is shown of it, and the statistics and choices.
\<close>

section \<open>Reading a lease\<close>

record lease_summary =
  lsu_lease :: lease_row
  lsu_tenant_name :: string
  lsu_property_name :: string
  lsu_property_code :: string
  lsu_outstanding :: decimal
  lsu_overdue_invoices :: nat

text \<open>\<^verbatim>\<open>_lease_summary\<close>\<close>

definition lease_summary_of :: "estate \<Rightarrow> ident \<Rightarrow> lease_row \<Rightarrow> app_error + lease_summary" where
  "lease_summary_of s org x =
     need (lodger s org (lease_tenant_id x)) resource_not_found (\<lambda>t.
     need (find_property s org (lease_property_id x)) resource_not_found (\<lambda>p.
     let own = (\<lambda>v. rinv_organization_id v = org \<and> rinv_lease_id v = lease_id x) in
     Inr \<lparr>lsu_lease = x, lsu_tenant_name = tenant_full_name t, lsu_property_name = rprop_name p, lsu_property_code = rprop_code p,
       lsu_outstanding = open_rent own s,
       lsu_overdue_invoices = count_rows (\<lambda>v. own v \<and> rinv_status v = Invoice_OVERDUE) (rental_invoices s)\<rparr>))"

record invoice_view =
  inv_invoice :: rental_invoice_row
  inv_outstanding :: decimal

record lease_detail_view =
  ldv_lease :: lease_summary
  ldv_documents :: "lease_document_row list"
  ldv_schedule :: "rent_schedule_row list"
  ldv_invoices :: "invoice_view list"
  ldv_payments :: "rent_payment_row list"
  ldv_renewals :: "lease_renewal_row list"
  ldv_moves :: "lease_move_row list"
  ldv_maintenance :: "maintenance_row list"

definition detail_of :: "estate \<Rightarrow> ident \<Rightarrow> lease_row \<Rightarrow> app_error + lease_detail_view" where
  "detail_of s org x =
     (let i = lease_id x in
      step (lease_summary_of s org x) (\<lambda>v.
      Inr \<lparr>ldv_lease = v,
        ldv_documents = sort_key ldoc_document_type (order_desc ldoc_version
          (filter (\<lambda>d. ldoc_organization_id d = org \<and> ldoc_lease_id d = i) (lease_documents s))),
        ldv_schedule = sort_key rsch_sequence (filter (of_lease org i) (rent_schedule s)),
        ldv_invoices = map (\<lambda>n. \<lparr>inv_invoice = n, inv_outstanding = max (rinv_total n - rinv_paid_amount n) 0\<rparr>)
          (order_desc rinv_due_date (filter (\<lambda>n. rinv_organization_id n = org \<and> rinv_lease_id n = i) (rental_invoices s))),
        ldv_payments = order_desc rpay_created_at (filter (\<lambda>p. rpay_organization_id p = org \<and> rpay_lease_id p = i) (rent_payments s)),
        ldv_renewals = order_desc lren_requested_at (filter (\<lambda>r. lren_organization_id r = org \<and> lren_lease_id r = i) (lease_renewals s)),
        ldv_moves = order_desc lmove_requested_at (filter (\<lambda>m. lmove_organization_id m = org \<and> lmove_lease_id m = i) (lease_moves s)),
        ldv_maintenance = order_desc maint_created_at
          (filter (\<lambda>m. maint_organization_id m = org \<and> maint_lease_id m = Some i) (maintenance s))\<rparr>))"

text \<open>Reading marks the overdue invoices first and commits that.\<close>

definition lease_detail :: "env \<Rightarrow> mutation_context \<Rightarrow> ident \<Rightarrow> ident \<Rightarrow> estate \<Rightarrow> (estate, lease_detail_view) outcome" where
  "lease_detail e ctx org i s =
     attempt s (expire_overdue e org s) (\<lambda>t.
     respond t (need (scoped_lease t org ctx i) resource_not_found (detail_of t org)))"

definition lease_matches :: "estate \<Rightarrow> ident \<Rightarrow> string option \<Rightarrow> lease_row \<Rightarrow> bool" where
  "lease_matches s org q x = (case given q of None \<Rightarrow> True
     | Some t \<Rightarrow> (case (lodger s org (lease_tenant_id x), find_property s org (lease_property_id x)) of
         (Some n, Some p) \<Rightarrow> list_ex (\<lambda>c. ilike c (search_pattern t))
           [lease_lease_number x, tenant_full_name n, rprop_name p, rprop_code p]
       | _ \<Rightarrow> False))"

definition list_leases ::
  "(lease_row \<Rightarrow> timestamp) \<Rightarrow> env \<Rightarrow> mutation_context \<Rightarrow> ident \<Rightarrow> string option \<Rightarrow> lease_status option \<Rightarrow> nat \<Rightarrow> nat \<Rightarrow> estate \<Rightarrow>
   (estate, lease_summary page) outcome" where
  "list_leases updated e ctx org q status page page_size s =
     attempt s (expire_overdue e org s) (\<lambda>t.
     if \<not> manages ctx \<and> actor_lodger t org ctx = None then Return t (paged page page_size 0 [])
     else let rows = filter (\<lambda>x. lease_organization_id x = org \<and> (manages ctx \<or> leases_to t org ctx (lease_tenant_id x)) \<and>
            opt_all (\<lambda>st. lease_status x = st) status \<and> lease_matches t org q x) (leases t) in
       respond t (step (collect (lease_summary_of t org) (page_of page page_size (order_desc updated rows))) (\<lambda>vs.
         Inr (paged page page_size (length rows) vs))))"

section \<open>A new lease\<close>

record lease_create =
  lec_tenant_id :: ident
  lec_property_id :: ident
  lec_lease_number :: string
  lec_start_date :: day
  lec_end_date :: day
  lec_monthly_rent :: decimal
  lec_security_deposit :: decimal
  lec_currency :: string
  lec_rent_due_day :: int
  lec_notice_period_days :: int
  lec_terms :: "string option"

text \<open>\<^verbatim>\<open>LeaseCreate\<close>\<close>

definition lease_create_ok :: "lease_create \<Rightarrow> bool" where
  "lease_create_ok p \<longleftrightarrow> lec_tenant_id p \<noteq> [] \<and> lec_property_id p \<noteq> [] \<and> lec_start_date p < lec_end_date p \<and>
     0 < lec_monthly_rent p \<and> 0 \<le> lec_security_deposit p \<and> 1 \<le> lec_rent_due_day p \<and> lec_rent_due_day p \<le> 28 \<and>
     0 \<le> lec_notice_period_days p \<and> lec_notice_period_days p \<le> 365"

definition new_lease :: "env \<Rightarrow> ident \<Rightarrow> mutation_context \<Rightarrow> lease_create \<Rightarrow> lease_row" where
  "new_lease e org ctx p =
     \<lparr>lease_id = uuid e 0, lease_organization_id = org, lease_tenant_id = lec_tenant_id p, lease_unit_id = None,
      lease_property_id = lec_property_id p, lease_created_by_user_id = actor_user_id ctx, lease_approved_by_user_id = None,
      lease_lease_number = upper (strip (lec_lease_number p)), lease_status = Lease_DRAFT,
      lease_start_date = lec_start_date p, lease_end_date = lec_end_date p, lease_monthly_rent = lec_monthly_rent p,
      lease_security_deposit = lec_security_deposit p, lease_currency = upper (lec_currency p), lease_active_unit_key = None,
      lease_active_property_key = None, lease_rent_due_day = lec_rent_due_day p,
      lease_notice_period_days = lec_notice_period_days p, lease_terms = lec_terms p, lease_issued_at = None,
      lease_signed_at = None, lease_activated_at = None, lease_terminated_at = None, lease_created_at = now e\<rparr>"

definition lease_document :: "env \<Rightarrow> nat \<Rightarrow> ident \<Rightarrow> ident \<Rightarrow> string \<Rightarrow> int \<Rightarrow> bool \<Rightarrow> lease_document_row" where
  "lease_document e k org i kind version required =
     \<lparr>ldoc_id = uuid e k, ldoc_organization_id = org, ldoc_lease_id = i, ldoc_uploaded_by_user_id = None,
      ldoc_reviewed_by_user_id = None, ldoc_document_type = kind, ldoc_version = version, ldoc_is_required = required,
      ldoc_status = Document_PENDING, ldoc_file_name = None, ldoc_storage_key = None, ldoc_content_type = None,
      ldoc_size_bytes = None, ldoc_checksum_sha256 = None, ldoc_rejection_reason = None, ldoc_uploaded_at = None,
      ldoc_reviewed_at = None, ldoc_created_at = now e\<rparr>"

definition create_lease ::
  "env \<Rightarrow> mutation_context \<Rightarrow> ident \<Rightarrow> lease_create \<Rightarrow> estate \<Rightarrow> (estate, lease_detail_view) outcome" where
  "create_lease e ctx org p s =
     fetch s (lodger s org (lec_tenant_id p)) resource_not_found (\<lambda>n.
     fetch s (find_property s org (lec_property_id p)) resource_not_found (\<lambda>q.
     demand s (tenant_status n = Tenant_ACTIVE) (conflict ''TENANT_INACTIVE'') (
     demand s (rprop_status q = Rental_AVAILABLE) (conflict ''RENTAL_PROPERTY_UNAVAILABLE'') (
     let x = new_lease e org ctx p in
     demand s (slot_free lease_organization_id (\<lambda>y. Some (lease_lease_number y)) org (lease_lease_number x) (leases s))
       (conflict ''LEASE_NUMBER_EXISTS'') (
     let t = rental_audit e 2 org ctx ''rental.lease.created'' ''lease'' (lease_id x) None
           (Some [(''property_id'', JStr (lease_property_id x)), (''tenant_id'', JStr (lease_tenant_id x))])
           (s\<lparr>leases := leases s @ [x],
              lease_documents := lease_documents s @ [lease_document e 1 org (lease_id x) ''LEASE_AGREEMENT'' 1 True]\<rparr>) in
     lease_detail e ctx org (lease_id x) t)))))"

section \<open>Signing\<close>

text \<open>\<^verbatim>\<open>LeaseTransition\<close>: the new status is \<^verbatim>\<open>PENDING_SIGNATURE\<close> or \<^verbatim>\<open>SIGNED\<close>.\<close>

definition transition_target_ok :: "lease_status \<Rightarrow> bool" where
  "transition_target_ok st \<longleftrightarrow> st \<in> {Lease_PENDING_SIGNATURE, Lease_SIGNED}"

definition next_lease_status :: "lease_status \<Rightarrow> lease_status option" where
  "next_lease_status st = (case st of Lease_DRAFT \<Rightarrow> Some Lease_PENDING_SIGNATURE
     | Lease_PENDING_SIGNATURE \<Rightarrow> Some Lease_SIGNED | _ \<Rightarrow> None)"

definition documents_incomplete :: "estate \<Rightarrow> ident \<Rightarrow> ident \<Rightarrow> bool" where
  "documents_incomplete s org i = list_ex (\<lambda>d. ldoc_organization_id d = org \<and> ldoc_lease_id d = i \<and> ldoc_is_required d \<and>
     ldoc_status d \<noteq> Document_VERIFIED) (lease_documents s)"

definition signed_lease :: "env \<Rightarrow> mutation_context \<Rightarrow> lease_row \<Rightarrow> lease_row" where
  "signed_lease e ctx x = x\<lparr>lease_status := Lease_MOVE_IN_PENDING, lease_signed_at := Some (now e),
     lease_approved_by_user_id := Some (actor_user_id ctx), lease_active_property_key := Some (lease_property_id x)\<rparr>"

definition lease_moved_audit ::
  "env \<Rightarrow> ident \<Rightarrow> mutation_context \<Rightarrow> lease_row \<Rightarrow> string option \<Rightarrow> estate \<Rightarrow> estate" where
  "lease_moved_audit e org ctx y notes = rental_audit e 0 org ctx ''rental.lease.status_changed'' ''lease'' (lease_id y) None
     (Some [(''status'', JStr (lease_status_value (lease_status y))), (''notes'', jopt JStr notes)])"

text \<open>
  Signing reserves the property and schedules the rents. That the property has a single active lease is a unique index, which
  is checked at the commit.
\<close>

definition sign_lease :: "env \<Rightarrow> mutation_context \<Rightarrow> ident \<Rightarrow> lease_row \<Rightarrow> estate \<Rightarrow> app_error + estate" where
  "sign_lease e ctx org x s =
     require (\<not> documents_incomplete s org (lease_id x)) (conflict ''LEASE_DOCUMENTS_INCOMPLETE'') (
     need (find_property s org (lease_property_id x)) resource_not_found (\<lambda>p.
     require (rprop_status p = Rental_AVAILABLE) (conflict ''RENTAL_PROPERTY_UNAVAILABLE'') (
     let y = signed_lease e ctx x in
     step (append_schedule e 1 y (lease_start_date y) (lease_end_date y) 1 (put_lease y (put_property (p\<lparr>rprop_status := Rental_RESERVED\<rparr>) s)))
       (\<lambda>t. require (slot_free lease_organization_id lease_active_property_key org (rprop_id p) (leases s)) Integrity_Error (Inr t)))))"

definition issued_lease :: "env \<Rightarrow> lease_row \<Rightarrow> lease_row" where
  "issued_lease e x = x\<lparr>lease_status := Lease_PENDING_SIGNATURE, lease_issued_at := Some (now e)\<rparr>"

definition transition_lease ::
  "env \<Rightarrow> mutation_context \<Rightarrow> ident \<Rightarrow> ident \<Rightarrow> lease_status \<Rightarrow> string option \<Rightarrow> estate \<Rightarrow> (estate, lease_detail_view) outcome" where
  "transition_lease e ctx org i target notes s =
     fetch s (scoped_lease s org ctx i) resource_not_found (\<lambda>x.
     demand s (manages ctx) permission_denied (
     demand s (next_lease_status (lease_status x) = Some target) (conflict ''INVALID_LEASE_TRANSITION'') (
     if target = Lease_SIGNED then
       attempt s (sign_lease e ctx org x s) (\<lambda>t.
       lease_detail e ctx org (lease_id x) (lease_moved_audit e org ctx (signed_lease e ctx x) notes t))
     else lease_detail e ctx org (lease_id x)
       (lease_moved_audit e org ctx (issued_lease e x) notes (put_lease (issued_lease e x) s)))))"

section \<open>Documents\<close>

definition document_type_of :: "string \<Rightarrow> string" where
  "document_type_of t = map (\<lambda>c. if c = CHR '' '' then CHR ''_'' else c) (upper (strip t))"

definition last_version :: "estate \<Rightarrow> ident \<Rightarrow> ident \<Rightarrow> string \<Rightarrow> int" where
  "last_version s org i kind = foldr max (map ldoc_version (filter (\<lambda>d. ldoc_organization_id d = org \<and> ldoc_lease_id d = i \<and>
     ldoc_document_type d = kind) (lease_documents s))) 0"

definition add_document ::
  "env \<Rightarrow> mutation_context \<Rightarrow> ident \<Rightarrow> ident \<Rightarrow> string \<Rightarrow> bool \<Rightarrow> estate \<Rightarrow> (estate, lease_detail_view) outcome" where
  "add_document e ctx org i kind required s =
     fetch s (scoped_lease s org ctx i) resource_not_found (\<lambda>x.
     let d = lease_document e 0 org (lease_id x) (document_type_of kind) (last_version s org (lease_id x) (document_type_of kind) + 1) required;
         t = rental_audit e 1 org ctx ''rental.lease_document.requested'' ''lease_document'' (ldoc_id d) None
           (Some [(''document_type'', JStr (ldoc_document_type d)), (''version'', JInt (ldoc_version d))])
           (s\<lparr>lease_documents := lease_documents s @ [d]\<rparr>) in
     lease_detail e ctx org (lease_id x) t)"

text \<open>What \<^verbatim>\<open>_prepare_file\<close> and the storage answer is an argument, as for the attachments of a ticket.\<close>

definition uploaded_document :: "env \<Rightarrow> mutation_context \<Rightarrow> ident \<Rightarrow> prepared_file \<Rightarrow> lease_document_row \<Rightarrow> lease_document_row" where
  "uploaded_document e ctx org f d =
     d\<lparr>ldoc_uploaded_by_user_id := Some (actor_user_id ctx), ldoc_file_name := Some (pf_file_name f),
       ldoc_storage_key := Some (''rentals/d/'' @ org @ ''/'' @ ldoc_id d @ ''/'' @ hex_prefix 16 (uuid e 0) @ ''.private''),
       ldoc_content_type := Some (pf_content_type f), ldoc_size_bytes := Some (pf_size_bytes f),
       ldoc_checksum_sha256 := Some (pf_checksum_sha256 f), ldoc_status := Document_UPLOADED, ldoc_uploaded_at := Some (now e),
       ldoc_rejection_reason := None\<rparr>"

definition upload_document ::
  "env \<Rightarrow> mutation_context \<Rightarrow> ident \<Rightarrow> ident \<Rightarrow> ident \<Rightarrow> app_error + prepared_file \<Rightarrow> app_error + unit \<Rightarrow> estate \<Rightarrow>
   (estate, lease_detail_view) outcome" where
  "upload_document e ctx org i did upload saved s =
     fetch s (scoped_lease s org ctx i) resource_not_found (\<lambda>x.
     fetch s (find_lease_document s org did) resource_not_found (\<lambda>d.
     demand s (ldoc_lease_id d = lease_id x) resource_not_found (
     attempt s upload (\<lambda>f.
     attempt s saved (\<lambda>_.
     let t = rental_audit e 1 org ctx ''rental.lease_document.uploaded'' ''lease_document'' (ldoc_id d) None
           (Some [(''file_name'', JStr (pf_file_name f)), (''checksum'', JStr (pf_checksum_sha256 f))])
           (put_lease_document (uploaded_document e ctx org f d) s) in
     lease_detail e ctx org (lease_id x) t)))))"

text \<open>\<^verbatim>\<open>LeaseDocumentDecision\<close>: verified or rejected.\<close>

definition self_approval :: app_error where
  "self_approval = App_Error 403 ''SELF_APPROVAL_NOT_ALLOWED''"

definition decided_document :: "env \<Rightarrow> mutation_context \<Rightarrow> bool \<Rightarrow> string \<Rightarrow> lease_document_row \<Rightarrow> lease_document_row" where
  "decided_document e ctx verify notes d =
     d\<lparr>ldoc_status := (if verify then Document_VERIFIED else Document_REJECTED),
       ldoc_reviewed_by_user_id := Some (actor_user_id ctx), ldoc_reviewed_at := Some (now e),
       ldoc_rejection_reason := (if verify then None else Some notes)\<rparr>"

definition decide_document ::
  "env \<Rightarrow> mutation_context \<Rightarrow> ident \<Rightarrow> ident \<Rightarrow> ident \<Rightarrow> bool \<Rightarrow> string \<Rightarrow> estate \<Rightarrow> (estate, lease_detail_view) outcome" where
  "decide_document e ctx org i did verify notes s =
     fetch s (scoped_lease s org ctx i) resource_not_found (\<lambda>x.
     demand s (manages ctx) permission_denied (
     fetch s (find_lease_document s org did) resource_not_found (\<lambda>d.
     demand s (ldoc_lease_id d = lease_id x \<and> ldoc_status d = Document_UPLOADED) (conflict ''DOCUMENT_NOT_REVIEWABLE'') (
     demand s (ldoc_uploaded_by_user_id d \<noteq> Some (actor_user_id ctx)) self_approval (
     let y = decided_document e ctx verify notes d;
         t = rental_audit e 0 org ctx ''rental.lease_document.reviewed'' ''lease_document'' (ldoc_id d)
           (Some [(''status'', JStr ''UPLOADED'')])
           (Some [(''status'', JStr (document_status_value (ldoc_status y))), (''notes'', JStr notes)])
           (put_lease_document y s) in
     lease_detail e ctx org (lease_id x) t)))))"

text \<open>The key under which the file is read, and what it is sent as.\<close>

definition document_download ::
  "estate \<Rightarrow> ident \<Rightarrow> ident \<Rightarrow> ident \<Rightarrow> mutation_context \<Rightarrow> app_error + string \<times> string \<times> string" where
  "document_download s org i did ctx =
     need (scoped_lease s org ctx i) resource_not_found (\<lambda>x.
     need (find_lease_document s org did) resource_not_found (\<lambda>d.
     require (ldoc_lease_id d = lease_id x) (App_Error 404 ''LEASE_DOCUMENT_MISSING'') (
     need (given (ldoc_storage_key d)) (App_Error 404 ''LEASE_DOCUMENT_MISSING'') (\<lambda>key.
     need (given (ldoc_file_name d)) (App_Error 404 ''LEASE_DOCUMENT_MISSING'') (\<lambda>name.
     need (given (ldoc_content_type d)) (App_Error 404 ''LEASE_DOCUMENT_MISSING'') (\<lambda>kind.
     Inr (key, name, kind)))))))"

section \<open>Invoices\<close>

record invoice_create =
  ivc_schedule_item_id :: ident
  ivc_invoice_number :: string
  ivc_issue_date :: day
  ivc_due_date :: day
  ivc_tax_amount :: decimal

definition invoice_create_ok :: "invoice_create \<Rightarrow> bool" where
  "invoice_create_ok p \<longleftrightarrow> ivc_schedule_item_id p \<noteq> [] \<and> 0 \<le> ivc_tax_amount p"

definition new_invoice :: "env \<Rightarrow> ident \<Rightarrow> mutation_context \<Rightarrow> invoice_create \<Rightarrow> lease_row \<Rightarrow> rent_schedule_row \<Rightarrow> rental_invoice_row" where
  "new_invoice e org ctx p x r =
     \<lparr>rinv_id = uuid e 0, rinv_organization_id = org, rinv_lease_id = lease_id x, rinv_tenant_id = lease_tenant_id x,
      rinv_rent_schedule_item_id = Some (rsch_id r), rinv_created_by_user_id = Some (actor_user_id ctx),
      rinv_invoice_number = upper (strip (ivc_invoice_number p)), rinv_status = Invoice_ISSUED,
      rinv_period_start = rsch_period_start r, rinv_period_end = rsch_period_end r, rinv_issue_date = ivc_issue_date p,
      rinv_due_date = ivc_due_date p, rinv_amount = rsch_amount r, rinv_tax_amount = ivc_tax_amount p,
      rinv_total = money (rsch_amount r + ivc_tax_amount p), rinv_currency = lease_currency x, rinv_paid_amount = 0,
      rinv_issued_at = Some (now e), rinv_created_at = now e\<rparr>"

text \<open>The number of an invoice is unique in the organization, its period in the lease.\<close>

definition invoice_free :: "rental_invoice_row \<Rightarrow> rental_invoice_row list \<Rightarrow> bool" where
  "invoice_free v rows = list_all (\<lambda>w. rinv_organization_id w = rinv_organization_id v \<longrightarrow>
     rinv_invoice_number w \<noteq> rinv_invoice_number v \<and> \<not> (rinv_lease_id w = rinv_lease_id v \<and>
       rinv_period_start w = rinv_period_start v \<and> rinv_period_end w = rinv_period_end v)) rows"

definition issue_invoice ::
  "env \<Rightarrow> mutation_context \<Rightarrow> ident \<Rightarrow> ident \<Rightarrow> invoice_create \<Rightarrow> estate \<Rightarrow> (estate, lease_detail_view) outcome" where
  "issue_invoice e ctx org i p s =
     fetch s (scoped_lease s org ctx i) resource_not_found (\<lambda>x.
     demand s (manages ctx) permission_denied (
     fetch s (find_schedule_item s org (ivc_schedule_item_id p)) resource_not_found (\<lambda>r.
     demand s (rsch_lease_id r = lease_id x \<and> rsch_status r \<in> {Rent_SCHEDULED, Rent_OVERDUE}) (conflict ''RENT_SCHEDULE_NOT_INVOICEABLE'') (
     let v = new_invoice e org ctx p x r in
     demand s (invoice_free v (rental_invoices s)) (conflict ''RENT_INVOICE_EXISTS'') (
     let t = rental_audit e 1 org ctx ''rental.invoice.issued'' ''rental_invoice'' (rinv_id v) None
           (Some [(''amount'', JDec (rinv_total v)), (''schedule_item_id'', JStr (rsch_id r))])
           (put_schedule_item (r\<lparr>rsch_status := Rent_INVOICED\<rparr>) (s\<lparr>rental_invoices := rental_invoices s @ [v]\<rparr>)) in
     lease_detail e ctx org (lease_id x) t)))))"

section \<open>Payments\<close>

text \<open>The time of a payment comes as UTC.\<close>

record rent_payment_create =
  rpy_amount :: decimal
  rpy_method :: string
  rpy_reference_number :: "string option"
  rpy_idempotency_key :: string
  rpy_paid_at :: "timestamp option"

definition rent_payment_create_ok :: "rent_payment_create \<Rightarrow> bool" where
  "rent_payment_create_ok p \<longleftrightarrow> 0 < rpy_amount p \<and> 8 \<le> length (rpy_idempotency_key p)"

definition new_rent_payment :: "env \<Rightarrow> ident \<Rightarrow> mutation_context \<Rightarrow> rent_payment_create \<Rightarrow> lease_row \<Rightarrow> ident \<Rightarrow> rent_payment_row" where
  "new_rent_payment e org ctx p x invoice =
     \<lparr>rpay_id = uuid e 0, rpay_organization_id = org, rpay_rental_invoice_id = invoice, rpay_lease_id = lease_id x,
      rpay_tenant_id = lease_tenant_id x, rpay_verified_by_user_id = None, rpay_submitted_by_user_id = actor_user_id ctx,
      rpay_status = Payment_PENDING, rpay_amount = rpy_amount p, rpay_currency = lease_currency x,
      rpay_method = upper (strip (rpy_method p)), rpay_reference_number = rpy_reference_number p,
      rpay_idempotency_key = rpy_idempotency_key p,
      rpay_paid_at = Some (case rpy_paid_at p of None \<Rightarrow> now e | Some t \<Rightarrow> t), rpay_verified_at = None,
      rpay_rejection_reason = None, rpay_created_at = now e\<rparr>"

definition promised :: "estate \<Rightarrow> ident \<Rightarrow> ident \<Rightarrow> decimal" where
  "promised s org invoice = sum_where (\<lambda>p. rpay_organization_id p = org \<and> rpay_rental_invoice_id p = invoice \<and>
     rpay_status p \<in> {Payment_PENDING, Payment_COMPLETED}) rpay_amount (rent_payments s)"

definition submit_rent_payment ::
  "env \<Rightarrow> mutation_context \<Rightarrow> ident \<Rightarrow> ident \<Rightarrow> ident \<Rightarrow> rent_payment_create \<Rightarrow> estate \<Rightarrow> (estate, lease_detail_view) outcome" where
  "submit_rent_payment e ctx org i vid p s =
     fetch s (scoped_lease s org ctx i) resource_not_found (\<lambda>x.
     fetch s (find_invoice s org vid) resource_not_found (\<lambda>v.
     demand s (rinv_lease_id v = lease_id x \<and> unsettled v) (conflict ''INVOICE_NOT_PAYABLE'') (
     if list_ex (\<lambda>y. rpay_organization_id y = org \<and> rpay_idempotency_key y = rpy_idempotency_key p) (rent_payments s)
     then lease_detail e ctx org (lease_id x) s
     else demand s (promised s org (rinv_id v) + rpy_amount p \<le> rinv_total v) (invalid ''PAYMENT_EXCEEDS_INVOICE'') (
     let y = new_rent_payment e org ctx p x (rinv_id v);
         t = rental_audit e 1 org ctx ''rental.payment.submitted'' ''rent_payment'' (rpay_id y) None
           (Some [(''invoice_id'', JStr (rinv_id v)), (''amount'', JDec (rpay_amount y))])
           (s\<lparr>rent_payments := rent_payments s @ [y]\<rparr>) in
     lease_detail e ctx org (lease_id x) t))))"

text \<open>\<^verbatim>\<open>PaymentDecision\<close>: completed or failed.\<close>

definition verified_rent :: "env \<Rightarrow> mutation_context \<Rightarrow> bool \<Rightarrow> string \<Rightarrow> rent_payment_row \<Rightarrow> rent_payment_row" where
  "verified_rent e ctx accept notes y =
     (let z = y\<lparr>rpay_verified_by_user_id := Some (actor_user_id ctx), rpay_verified_at := Some (now e)\<rparr> in
      if accept then z\<lparr>rpay_status := Payment_COMPLETED\<rparr>
      else z\<lparr>rpay_status := Payment_FAILED, rpay_rejection_reason := Some notes\<rparr>)"

definition credited_invoice :: "decimal \<Rightarrow> rental_invoice_row \<Rightarrow> rental_invoice_row" where
  "credited_invoice amount v =
     v\<lparr>rinv_paid_amount := rinv_paid_amount v + amount,
       rinv_status := (if rinv_total v \<le> rinv_paid_amount v + amount then Invoice_PAID else Invoice_PARTIALLY_PAID)\<rparr>"

definition credited_item :: "rental_invoice_row \<Rightarrow> rent_schedule_row \<Rightarrow> rent_schedule_row" where
  "credited_item v r = r\<lparr>rsch_status := (if rinv_status v = Invoice_PAID then Rent_PAID else Rent_PARTIALLY_PAID)\<rparr>"

definition credit_invoice :: "ident \<Rightarrow> decimal \<Rightarrow> rental_invoice_row \<Rightarrow> estate \<Rightarrow> app_error + estate" where
  "credit_invoice org amount v s =
     require (rinv_paid_amount v + amount \<le> rinv_total v) (conflict ''PAYMENT_EXCEEDS_INVOICE'') (
     let w = credited_invoice amount v in
     need_given (rinv_rent_schedule_item_id v) (find_schedule_item s org) resource_not_found (\<lambda>r.
     Inr (case r of None \<Rightarrow> put_invoice w s | Some r \<Rightarrow> put_schedule_item (credited_item w r) (put_invoice w s))))"

definition decide_rent_payment ::
  "env \<Rightarrow> mutation_context \<Rightarrow> ident \<Rightarrow> ident \<Rightarrow> ident \<Rightarrow> bool \<Rightarrow> string \<Rightarrow> estate \<Rightarrow> (estate, lease_detail_view) outcome" where
  "decide_rent_payment e ctx org i pid accept notes s =
     fetch s (scoped_lease s org ctx i) resource_not_found (\<lambda>x.
     demand s (manages ctx) permission_denied (
     fetch s (find_rent_payment s org pid) resource_not_found (\<lambda>y.
     fetch s (find_invoice s org (rpay_rental_invoice_id y)) resource_not_found (\<lambda>v.
     demand s (rpay_lease_id y = lease_id x \<and> rpay_status y = Payment_PENDING) (conflict ''PAYMENT_FINALIZED'') (
     demand s (rpay_submitted_by_user_id y \<noteq> actor_user_id ctx) self_approval (
     let z = verified_rent e ctx accept notes y in
     attempt s (if accept then credit_invoice org (rpay_amount y) v (put_rent_payment z s) else Inr (put_rent_payment z s)) (\<lambda>t.
     lease_detail e ctx org (lease_id x)
       (rental_audit e 0 org ctx ''rental.payment.reviewed'' ''rent_payment'' (rpay_id y) (Some [(''status'', JStr ''PENDING'')])
         (Some [(''status'', JStr (payment_status_value (rpay_status z))), (''notes'', JStr notes)]) t))))))))"

section \<open>Renewals\<close>

record renewal_create =
  rnc_proposed_end_date :: day
  rnc_proposed_monthly_rent :: decimal
  rnc_reason :: string

definition new_renewal :: "env \<Rightarrow> ident \<Rightarrow> mutation_context \<Rightarrow> renewal_create \<Rightarrow> lease_row \<Rightarrow> lease_renewal_row" where
  "new_renewal e org ctx p x =
     \<lparr>lren_id = uuid e 0, lren_organization_id = org, lren_lease_id = lease_id x, lren_requested_by_user_id = actor_user_id ctx,
      lren_decided_by_user_id = None, lren_status = Workflow_REQUESTED, lren_previous_end_date = lease_end_date x,
      lren_proposed_end_date = rnc_proposed_end_date p, lren_previous_monthly_rent = lease_monthly_rent x,
      lren_proposed_monthly_rent = rnc_proposed_monthly_rent p, lren_reason = strip (rnc_reason p),
      lren_decision_notes = None, lren_requested_at = now e, lren_decided_at = None, lren_applied_at = None, lren_created_at = now e\<rparr>"

definition renewal_pending :: "ident \<Rightarrow> ident \<Rightarrow> lease_renewal_row \<Rightarrow> bool" where
  "renewal_pending org i r \<longleftrightarrow> lren_organization_id r = org \<and> lren_lease_id r = i \<and> lren_status r = Workflow_REQUESTED"

text \<open>The text of a date, \<^verbatim>\<open>str(date)\<close>.\<close>

definition iso_date :: "day \<Rightarrow> string" where
  "iso_date x = (case calendar x of (y, m, d) \<Rightarrow>
     (let t = nat_str (nat y) in replicate (4 - length t) CHR ''0'' @ t) @ ''-'' @ two_digits m @ ''-'' @ two_digits d)"

definition request_renewal ::
  "env \<Rightarrow> mutation_context \<Rightarrow> ident \<Rightarrow> ident \<Rightarrow> renewal_create \<Rightarrow> estate \<Rightarrow> (estate, lease_detail_view) outcome" where
  "request_renewal e ctx org i p s =
     fetch s (scoped_lease s org ctx i) resource_not_found (\<lambda>x.
     demand s (lease_status x = Lease_ACTIVE \<and> lease_end_date x < rnc_proposed_end_date p) (conflict ''LEASE_NOT_RENEWABLE'') (
     demand s (\<not> list_ex (renewal_pending org (lease_id x)) (lease_renewals s)) (conflict ''RENEWAL_PENDING'') (
     let r = new_renewal e org ctx p x;
         t = rental_audit e 1 org ctx ''rental.renewal.requested'' ''lease_renewal'' (lren_id r) None
           (Some [(''new_end_date'', JStr (iso_date (lren_proposed_end_date r))), (''new_rent'', JDec (lren_proposed_monthly_rent r))])
           (s\<lparr>lease_renewals := lease_renewals s @ [r]\<rparr>) in
     lease_detail e ctx org (lease_id x) t)))"

text \<open>\<^verbatim>\<open>WorkflowDecision\<close>: approved or rejected.\<close>

definition decided_renewal :: "env \<Rightarrow> mutation_context \<Rightarrow> bool \<Rightarrow> string \<Rightarrow> lease_renewal_row \<Rightarrow> lease_renewal_row" where
  "decided_renewal e ctx approve notes r =
     (let y = r\<lparr>lren_decided_by_user_id := Some (actor_user_id ctx), lren_decision_notes := Some notes, lren_decided_at := Some (now e)\<rparr> in
      if approve then y\<lparr>lren_status := Workflow_COMPLETED, lren_applied_at := Some (now e)\<rparr> else y\<lparr>lren_status := Workflow_REJECTED\<rparr>)"

definition last_sequence :: "estate \<Rightarrow> ident \<Rightarrow> ident \<Rightarrow> int" where
  "last_sequence s org i = foldr max (map rsch_sequence (filter (of_lease org i) (rent_schedule s))) 0"

text \<open>An approved renewal moves the end of the lease and schedules the rents from the day after its old end.\<close>

definition renewed_lease :: "lease_renewal_row \<Rightarrow> lease_row \<Rightarrow> lease_row" where
  "renewed_lease r x = x\<lparr>lease_end_date := lren_proposed_end_date r, lease_monthly_rent := lren_proposed_monthly_rent r\<rparr>"

definition apply_renewal :: "env \<Rightarrow> ident \<Rightarrow> lease_renewal_row \<Rightarrow> lease_row \<Rightarrow> estate \<Rightarrow> app_error + estate" where
  "apply_renewal e org r x s =
     require (lease_end_date x < max_day) Internal_Error (
     append_schedule e 1 (renewed_lease r x) (lease_end_date x + 1) (lren_proposed_end_date r) (last_sequence s org (lease_id x) + 1)
       (put_lease (renewed_lease r x) s))"

definition decide_renewal ::
  "env \<Rightarrow> mutation_context \<Rightarrow> ident \<Rightarrow> ident \<Rightarrow> ident \<Rightarrow> bool \<Rightarrow> string \<Rightarrow> estate \<Rightarrow> (estate, lease_detail_view) outcome" where
  "decide_renewal e ctx org i rid approve notes s =
     fetch s (scoped_lease s org ctx i) resource_not_found (\<lambda>x.
     demand s (manages ctx) permission_denied (
     fetch s (find_renewal s org rid) resource_not_found (\<lambda>r.
     demand s (lren_lease_id r = lease_id x \<and> lren_status r = Workflow_REQUESTED) (conflict ''RENEWAL_FINALIZED'') (
     demand s (lren_requested_by_user_id r \<noteq> actor_user_id ctx) self_approval (
     let y = decided_renewal e ctx approve notes r in
     attempt s (if approve then apply_renewal e org r x s else Inr s) (\<lambda>t.
     lease_detail e ctx org (lease_id x)
       (rental_audit e 0 org ctx ''rental.renewal.decided'' ''lease_renewal'' (lren_id r) (Some [(''status'', JStr ''REQUESTED'')])
         (Some [(''status'', JStr (workflow_status_value (lren_status y))), (''notes'', JStr notes)]) (put_renewal y t))))))))"

section \<open>Moves\<close>

record move_create =
  mvc_move_type :: string
  mvc_scheduled_at :: timestamp
  mvc_notes :: "string option"

definition move_create_ok :: "move_create \<Rightarrow> bool" where
  "move_create_ok p \<longleftrightarrow> mvc_move_type p \<in> {''MOVE_IN'', ''MOVE_OUT''}"

definition new_move :: "env \<Rightarrow> ident \<Rightarrow> mutation_context \<Rightarrow> move_create \<Rightarrow> ident \<Rightarrow> lease_move_row" where
  "new_move e org ctx p i =
     \<lparr>lmove_id = uuid e 0, lmove_organization_id = org, lmove_lease_id = i, lmove_requested_by_user_id = actor_user_id ctx,
      lmove_approved_by_user_id = None, lmove_completed_by_user_id = None, lmove_move_type = mvc_move_type p,
      lmove_status = Workflow_REQUESTED, lmove_scheduled_at = mvc_scheduled_at p, lmove_checklist = None,
      lmove_meter_readings = None, lmove_notes = mvc_notes p, lmove_requested_at = now e, lmove_approved_at = None,
      lmove_completed_at = None, lmove_created_at = now e\<rparr>"

definition move_pending :: "ident \<Rightarrow> ident \<Rightarrow> string \<Rightarrow> lease_move_row \<Rightarrow> bool" where
  "move_pending org i kind m \<longleftrightarrow> lmove_organization_id m = org \<and> lmove_lease_id m = i \<and> lmove_move_type m = kind \<and>
     lmove_status m \<in> {Workflow_REQUESTED, Workflow_APPROVED}"

definition with_status :: "lease_status \<Rightarrow> lease_row \<Rightarrow> lease_row" where
  "with_status st x = x\<lparr>lease_status := st\<rparr>"

definition request_move ::
  "env \<Rightarrow> mutation_context \<Rightarrow> ident \<Rightarrow> ident \<Rightarrow> move_create \<Rightarrow> estate \<Rightarrow> (estate, lease_detail_view) outcome" where
  "request_move e ctx org i p s =
     fetch s (scoped_lease s org ctx i) resource_not_found (\<lambda>x.
     demand s (lease_status x = (if mvc_move_type p = ''MOVE_IN'' then Lease_MOVE_IN_PENDING else Lease_ACTIVE)) (conflict ''INVALID_MOVE_STATE'') (
     demand s (\<not> list_ex (move_pending org (lease_id x) (mvc_move_type p)) (lease_moves s)) (conflict ''MOVE_PENDING'') (
     let m = new_move e org ctx p (lease_id x);
         s1 = (if mvc_move_type p = ''MOVE_OUT'' then put_lease (with_status Lease_NOTICE_GIVEN x) s else s);
         t = rental_audit e 1 org ctx ''rental.move.requested'' ''lease_move'' (lmove_id m) None
           (Some [(''move_type'', JStr (lmove_move_type m)), (''scheduled_at'', JTime (lmove_scheduled_at m))])
           (s1\<lparr>lease_moves := lease_moves s1 @ [m]\<rparr>) in
     lease_detail e ctx org (lease_id x) t)))"

definition decided_move :: "env \<Rightarrow> mutation_context \<Rightarrow> bool \<Rightarrow> string \<Rightarrow> lease_move_row \<Rightarrow> lease_move_row" where
  "decided_move e ctx approve notes m =
     m\<lparr>lmove_approved_by_user_id := Some (actor_user_id ctx), lmove_approved_at := Some (now e), lmove_notes := Some notes,
       lmove_status := (if approve then Workflow_APPROVED else Workflow_REJECTED)\<rparr>"

definition decide_move ::
  "env \<Rightarrow> mutation_context \<Rightarrow> ident \<Rightarrow> ident \<Rightarrow> ident \<Rightarrow> bool \<Rightarrow> string \<Rightarrow> estate \<Rightarrow> (estate, lease_detail_view) outcome" where
  "decide_move e ctx org i mid approve notes s =
     fetch s (scoped_lease s org ctx i) resource_not_found (\<lambda>x.
     demand s (manages ctx) permission_denied (
     fetch s (find_move s org mid) resource_not_found (\<lambda>m.
     demand s (lmove_lease_id m = lease_id x \<and> lmove_status m = Workflow_REQUESTED) (conflict ''MOVE_FINALIZED'') (
     demand s (lmove_requested_by_user_id m \<noteq> actor_user_id ctx) self_approval (
     let y = decided_move e ctx approve notes m;
         s1 = (if lmove_move_type m = ''MOVE_OUT''
           then put_lease (with_status (if approve then Lease_MOVE_OUT_PENDING else Lease_ACTIVE) x) s else s);
         t = rental_audit e 0 org ctx ''rental.move.decided'' ''lease_move'' (lmove_id m) (Some [(''status'', JStr ''REQUESTED'')])
           (Some [(''status'', JStr (workflow_status_value (lmove_status y))), (''notes'', JStr notes)]) (put_move y s1) in
     lease_detail e ctx org (lease_id x) t)))))"

record move_complete =
  mvd_checklist :: json
  mvd_meter_readings :: json
  mvd_notes :: "string option"

definition completed_move :: "env \<Rightarrow> mutation_context \<Rightarrow> move_complete \<Rightarrow> lease_move_row \<Rightarrow> lease_move_row" where
  "completed_move e ctx p m =
     m\<lparr>lmove_status := Workflow_COMPLETED, lmove_completed_by_user_id := Some (actor_user_id ctx), lmove_completed_at := Some (now e),
       lmove_checklist := Some (mvd_checklist p), lmove_meter_readings := Some (mvd_meter_readings p),
       lmove_notes := or_else (mvd_notes p) (lmove_notes m)\<rparr>"

definition ended_lease :: "env \<Rightarrow> lease_row \<Rightarrow> lease_row" where
  "ended_lease e x = x\<lparr>lease_status := Lease_TERMINATED, lease_terminated_at := Some (now e), lease_active_property_key := None\<rparr>"

definition started_lease :: "env \<Rightarrow> lease_row \<Rightarrow> lease_row" where
  "started_lease e x = x\<lparr>lease_status := Lease_ACTIVE, lease_activated_at := Some (now e)\<rparr>"

definition complete_move ::
  "env \<Rightarrow> mutation_context \<Rightarrow> ident \<Rightarrow> ident \<Rightarrow> ident \<Rightarrow> move_complete \<Rightarrow> estate \<Rightarrow> (estate, lease_detail_view) outcome" where
  "complete_move e ctx org i mid p s =
     fetch s (scoped_lease s org ctx i) resource_not_found (\<lambda>x.
     demand s (manages ctx) permission_denied (
     fetch s (find_move s org mid) resource_not_found (\<lambda>m.
     fetch s (find_property s org (lease_property_id x)) resource_not_found (\<lambda>q.
     demand s (lmove_lease_id m = lease_id x \<and> lmove_status m = Workflow_APPROVED) (conflict ''MOVE_NOT_APPROVED'') (
     let out = (lmove_move_type m = ''MOVE_OUT'') in
     demand s (\<not> (out \<and> 0 < open_rent (\<lambda>v. rinv_organization_id v = org \<and> rinv_lease_id v = lease_id x) s)) (conflict ''RENT_OUTSTANDING'') (
     let x' = (if out then ended_lease e x else started_lease e x);
         q' = q\<lparr>rprop_status := (if out then Rental_AVAILABLE else Rental_OCCUPIED)\<rparr>;
         t = rental_audit e 0 org ctx ''rental.move.completed'' ''lease_move'' (lmove_id m) (Some [(''status'', JStr ''APPROVED'')])
           (Some [(''status'', JStr ''COMPLETED''), (''lease_status'', JStr (lease_status_value (lease_status x'))),
             (''property_status'', JStr (rental_property_status_value (rprop_status q'))), (''checklist'', mvd_checklist p)])
           (put_move (completed_move e ctx p m) (put_lease x' (put_property q' s))) in
     lease_detail e ctx org (lease_id x) t))))))"

section \<open>Maintenance\<close>

record maintenance_create =
  mnc_lease_id :: ident
  mnc_title :: string
  mnc_description :: string
  mnc_scheduled_at :: "timestamp option"

definition new_maintenance :: "env \<Rightarrow> ident \<Rightarrow> mutation_context \<Rightarrow> maintenance_create \<Rightarrow> lease_row \<Rightarrow> maintenance_row" where
  "new_maintenance e org ctx p x =
     \<lparr>maint_id = uuid e 0, maint_organization_id = org, maint_unit_id = None, maint_rental_property_id = Some (lease_property_id x),
      maint_reported_by_user_id = Some (actor_user_id ctx), maint_lease_id = Some (lease_id x), maint_service_request_id = None,
      maint_assigned_user_id = None, maint_status = Service_OPEN, maint_title = strip (mnc_title p),
      maint_description = Some (strip (mnc_description p)), maint_scheduled_at = mnc_scheduled_at p, maint_completed_at = None,
      maint_cost = None, maint_currency = None, maint_created_at = now e\<rparr>"

definition create_maintenance ::
  "env \<Rightarrow> mutation_context \<Rightarrow> ident \<Rightarrow> maintenance_create \<Rightarrow> estate \<Rightarrow> (estate, lease_detail_view) outcome" where
  "create_maintenance e ctx org p s =
     fetch s (scoped_lease s org ctx (mnc_lease_id p)) resource_not_found (\<lambda>x.
     let n = new_maintenance e org ctx p x;
         t = rental_audit e 1 org ctx ''rental.maintenance.created'' ''maintenance'' (maint_id n) None
           (Some [(''lease_id'', JStr (lease_id x)), (''property_id'', JStr (lease_property_id x))])
           (s\<lparr>maintenance := maintenance s @ [n]\<rparr>) in
     lease_detail e ctx org (lease_id x) t)"

record maintenance_update =
  mnu_status :: service_status
  mnu_assigned_user_id :: "ident option"
  mnu_scheduled_at :: "timestamp option"
  mnu_cost :: "decimal option"
  mnu_currency :: "string option"

definition maintenance_update_ok :: "maintenance_update \<Rightarrow> bool" where
  "maintenance_update_ok p \<longleftrightarrow> mnu_status p \<noteq> Service_OPEN \<and> opt_all (\<lambda>c. 0 \<le> c) (mnu_cost p) \<and>
     (mnu_cost p = None) = (mnu_currency p = None)"

definition updated_maintenance :: "env \<Rightarrow> maintenance_update \<Rightarrow> maintenance_row \<Rightarrow> maintenance_row" where
  "updated_maintenance e p n =
     n\<lparr>maint_status := mnu_status p, maint_assigned_user_id := or_else (mnu_assigned_user_id p) (maint_assigned_user_id n),
       maint_scheduled_at := (case mnu_scheduled_at p of None \<Rightarrow> maint_scheduled_at n | Some t \<Rightarrow> Some t),
       maint_cost := (if mnu_cost p = None then maint_cost n else mnu_cost p),
       maint_currency := (if mnu_cost p = None then maint_currency n else mnu_currency p),
       maint_completed_at := (if mnu_status p \<in> {Service_RESOLVED, Service_CLOSED} then Some (now e) else maint_completed_at n)\<rparr>"

definition update_maintenance ::
  "env \<Rightarrow> mutation_context \<Rightarrow> ident \<Rightarrow> ident \<Rightarrow> ident \<Rightarrow> maintenance_update \<Rightarrow> estate \<Rightarrow> (estate, lease_detail_view) outcome" where
  "update_maintenance e ctx org i nid p s =
     fetch s (scoped_lease s org ctx i) resource_not_found (\<lambda>x.
     fetch s (find_maintenance s org nid) resource_not_found (\<lambda>n.
     demand s (maint_lease_id n = Some (lease_id x)) resource_not_found (
     demand s (can_manage_module ctx ''maintenance'' \<or> mnu_status p \<in> {Service_CLOSED, Service_CANCELLED}) permission_denied (
     demand s (opt_all (\<lambda>u. find_user (estate_base s) org u \<noteq> None) (given (mnu_assigned_user_id p))) Integrity_Error (
     let n' = updated_maintenance e p n;
         t = rental_audit e 0 org ctx ''rental.maintenance.updated'' ''maintenance'' (maint_id n)
           (Some [(''status'', JStr (service_status_value (maint_status n)))])
           (Some [(''status'', JStr (service_status_value (maint_status n'))),
             (''cost'', case maint_cost n' of None \<Rightarrow> JNull | Some c \<Rightarrow> if c = 0 then JNull else JDec c)])
           (put_maintenance n' s) in
     lease_detail e ctx org (lease_id x) t)))))"

section \<open>Statistics and choices\<close>

record rental_stats =
  rst_total_properties :: nat
  rst_available_properties :: nat
  rst_occupied_properties :: nat
  rst_active_leases :: nat
  rst_overdue_invoices :: nat
  rst_outstanding_rent :: decimal
  rst_open_maintenance :: nat

text \<open>\<^verbatim>\<open>ids or [""]\<close>\<close>

definition some_ids :: "ident list \<Rightarrow> ident list" where
  "some_ids xs = (if xs = [] then [[]] else xs)"

definition rental_stats_at :: "estate \<Rightarrow> ident \<Rightarrow> mutation_context \<Rightarrow> rental_stats" where
  "rental_stats_at s org ctx =
     (let own = (\<lambda>x. manages ctx \<or> lease_tenant_id x = (case actor_lodger s org ctx of None \<Rightarrow> [] | Some t \<Rightarrow> tenant_id t));
          lease_ids = set (some_ids (map lease_id (filter (\<lambda>x. lease_organization_id x = org \<and> own x) (leases s))));
          property_ids = map lease_property_id (filter (\<lambda>x. lease_organization_id x = org \<and> lease_id x \<in> lease_ids) (leases s));
          shown = (\<lambda>q. if manages ctx then rprop_organization_id q = org else rprop_id q \<in> set (some_ids property_ids));
          count = (\<lambda>p. count_rows (\<lambda>q. shown q \<and> p q) (rental_properties s));
          billed = (\<lambda>v. rinv_organization_id v = org \<and> rinv_lease_id v \<in> lease_ids) in
      \<lparr>rst_total_properties = count (\<lambda>q. True), rst_available_properties = count (\<lambda>q. rprop_status q = Rental_AVAILABLE),
       rst_occupied_properties = count (\<lambda>q. rprop_status q = Rental_OCCUPIED),
       rst_active_leases = count_rows (\<lambda>x. lease_organization_id x = org \<and> lease_id x \<in> lease_ids \<and> lease_status x = Lease_ACTIVE) (leases s),
       rst_overdue_invoices = count_rows (\<lambda>v. billed v \<and> rinv_status v = Invoice_OVERDUE) (rental_invoices s),
       rst_outstanding_rent = open_rent billed s,
       rst_open_maintenance = count_rows (\<lambda>n. maint_organization_id n = org \<and> (case maint_lease_id n of None \<Rightarrow> False | Some i \<Rightarrow> i \<in> lease_ids) \<and>
         maint_status n \<notin> {Service_CLOSED, Service_CANCELLED}) (maintenance s)\<rparr>)"

definition rental_stats_of :: "env \<Rightarrow> mutation_context \<Rightarrow> ident \<Rightarrow> estate \<Rightarrow> (estate, rental_stats) outcome" where
  "rental_stats_of e ctx org s = attempt s (expire_overdue e org s) (\<lambda>t. Return t (rental_stats_at t org ctx))"

record rental_options =
  rop_properties :: "rental_property_view list"
  rop_tenants :: "tenant_view list"
  rop_managers :: "choice list"

definition rental_options_of :: "estate \<Rightarrow> ident \<Rightarrow> rental_options" where
  "rental_options_of s org =
     \<lparr>rop_properties = map (property_view s org) (sort_key rprop_name (filter (\<lambda>x. rprop_organization_id x = org \<and>
        rprop_status x = Rental_AVAILABLE) (rental_properties s))),
      rop_tenants = map (tenant_view_of s org) (sort_key tenant_full_name (filter (\<lambda>x. tenant_organization_id x = org \<and>
        tenant_status x = Tenant_ACTIVE) (tenants (helpd s)))),
      rop_managers = map (\<lambda>u. \<lparr>ch_id = user_id u, ch_label = user_full_name u, ch_secondary = None\<rparr>)
        (sort_key user_full_name (filter (\<lambda>u. user_organization_id u = org \<and> user_is_active u) (users (estate_base s))))\<rparr>"

end
