(* ===== verification/Rental_Occupancy.thy ===== *)
theory Rental_Occupancy
  imports Rental_Handlers Cost_Sheet_Handlers
begin

text \<open>
  The requests of the rental service as steps, what reading a lease leaves alone, and the first invariant: a lease in force
  holds its property alone, the moves that are under way agree with its status, and a property that is let is occupied.

  Every request of the rental service keeps the occupancy of the properties in agreement with the leases and their moves.
\<close>

section \<open>Requests\<close>

definition estate_ids :: "estate \<Rightarrow> ident set" where
  "estate_ids s = rprop_id ` set (rental_properties s) \<union> lease_id ` set (leases s) \<union> lmove_id ` set (lease_moves s) \<union>
     lmove_lease_id ` set (lease_moves s) \<union> lren_id ` set (lease_renewals s) \<union> lren_lease_id ` set (lease_renewals s) \<union>
     rsch_id ` set (rent_schedule s) \<union> rsch_lease_id ` set (rent_schedule s) \<union> rinv_id ` set (rental_invoices s) \<union>
     rpay_id ` set (rent_payments s) \<union> rpay_rental_invoice_id ` set (rent_payments s)"

definition fresh_estate :: "env \<Rightarrow> estate \<Rightarrow> bool" where
  "fresh_estate e s \<longleftrightarrow> inj (uuid e) \<and> (\<forall>n. uuid e n \<notin> estate_ids s)"

inductive rental_step :: "estate \<Rightarrow> estate \<Rightarrow> bool" where
  property_created: "fresh_estate e s \<Longrightarrow> rental_step s (committed (create_property e ctx org rpc s))"
| property_updated: "rental_step s (committed (update_property e ctx org i rpu s))"
| tenant_created: "rental_step s (committed (create_tenant e ctx org tnc s))"
| tenant_updated: "rental_step s (committed (update_tenant e ctx org i tnu s))"
| lease_created: "fresh_estate e s \<Longrightarrow> lease_create_ok lec \<Longrightarrow> rental_step s (committed (create_lease e ctx org lec s))"
| lease_moved: "fresh_estate e s \<Longrightarrow> transition_target_ok st \<Longrightarrow> rental_step s (committed (transition_lease e ctx org i st notes s))"
| lease_read: "rental_step s (committed (lease_detail e ctx org i s))"
| leases_listed: "rental_step s (committed (list_leases updated e ctx org q st page page_size s))"
| statistics_read: "rental_step s (committed (rental_stats_of e ctx org s))"
| document_requested: "rental_step s (committed (add_document e ctx org i kind required s))"
| document_uploaded: "rental_step s (committed (upload_document e ctx org i did upload saved s))"
| document_decided: "rental_step s (committed (decide_document e ctx org i did verify notes s))"
| invoice_issued: "fresh_estate e s \<Longrightarrow> invoice_create_ok ivc \<Longrightarrow> rental_step s (committed (issue_invoice e ctx org i ivc s))"
| payment_submitted: "fresh_estate e s \<Longrightarrow> rent_payment_create_ok rpy \<Longrightarrow> rental_step s (committed (submit_rent_payment e ctx org i vid rpy s))"
| payment_decided: "rental_step s (committed (decide_rent_payment e ctx org i pid accept notes s))"
| renewal_requested: "fresh_estate e s \<Longrightarrow> rental_step s (committed (request_renewal e ctx org i rnc s))"
| renewal_decided: "fresh_estate e s \<Longrightarrow> rental_step s (committed (decide_renewal e ctx org i rid approve notes s))"
| move_requested: "fresh_estate e s \<Longrightarrow> move_create_ok mvc \<Longrightarrow> rental_step s (committed (request_move e ctx org i mvc s))"
| move_decided: "rental_step s (committed (decide_move e ctx org i mid approve notes s))"
| move_completed: "rental_step s (committed (complete_move e ctx org i mid mvd s))"
| maintenance_created: "rental_step s (committed (create_maintenance e ctx org mnc s))"
| maintenance_updated: "rental_step s (committed (update_maintenance e ctx org i nid mnu s))"

locale rental_invariant =
  fixes inv :: "estate \<Rightarrow> bool"
  assumes kept: "rental_step s t \<Longrightarrow> inv s \<Longrightarrow> inv t"
begin

lemma always: "rental_step\<^sup>*\<^sup>* s t \<Longrightarrow> inv s \<Longrightarrow> inv t"
  by (induction rule: rtranclp_induct) (auto intro: kept)

end

section \<open>Frames\<close>

lemma rental_audit_sel [simp]:
  "rental_properties (rental_audit e k org ctx a n i old new s) = rental_properties s"
  "leases (rental_audit e k org ctx a n i old new s) = leases s"
  "lease_documents (rental_audit e k org ctx a n i old new s) = lease_documents s"
  "rent_schedule (rental_audit e k org ctx a n i old new s) = rent_schedule s"
  "rental_invoices (rental_audit e k org ctx a n i old new s) = rental_invoices s"
  "rent_payments (rental_audit e k org ctx a n i old new s) = rent_payments s"
  "lease_renewals (rental_audit e k org ctx a n i old new s) = lease_renewals s"
  "lease_moves (rental_audit e k org ctx a n i old new s) = lease_moves s"
  by (simp_all add: rental_audit_def in_estate_def)

lemma lease_moved_audit_sel [simp]:
  "rental_properties (lease_moved_audit e org ctx y notes s) = rental_properties s"
  "leases (lease_moved_audit e org ctx y notes s) = leases s"
  "rent_schedule (lease_moved_audit e org ctx y notes s) = rent_schedule s"
  "rental_invoices (lease_moved_audit e org ctx y notes s) = rental_invoices s"
  "rent_payments (lease_moved_audit e org ctx y notes s) = rent_payments s"
  "lease_renewals (lease_moved_audit e org ctx y notes s) = lease_renewals s"
  "lease_moves (lease_moved_audit e org ctx y notes s) = lease_moves s"
  by (simp_all add: lease_moved_audit_def)

lemma put_tenants_sel [simp]:
  "rental_properties (put_tenants rows s) = rental_properties s" "leases (put_tenants rows s) = leases s"
  "rent_schedule (put_tenants rows s) = rent_schedule s" "rental_invoices (put_tenants rows s) = rental_invoices s"
  "rent_payments (put_tenants rows s) = rent_payments s" "lease_renewals (put_tenants rows s) = lease_renewals s"
  "lease_moves (put_tenants rows s) = lease_moves s"
  by (simp_all add: put_tenants_def)

lemma scoped_leaseD: "scoped_lease s org ctx i = Some x \<Longrightarrow> x \<in> set (leases s) \<and> lease_organization_id x = org \<and> lease_id x = i"
  by (auto simp: scoped_lease_def split: option.splits if_splits dest: entityD)

lemma mark_overdueD:
  assumes "mark_overdue org v s = Inr t"
  shows "t = s \<or> (rinv_paid_amount v < rinv_total v \<and> (\<exists>rows. t = s\<lparr>rental_invoices := put_row rinv_id (v\<lparr>rinv_status := Invoice_OVERDUE\<rparr>)
      (rental_invoices s), rent_schedule := rows\<rparr> \<and>
      (rows = rent_schedule s \<or> (\<exists>r. r \<in> set (rent_schedule s) \<and> rows = put_row rsch_id (r\<lparr>rsch_status := Rent_OVERDUE\<rparr>) (rent_schedule s)))))"
proof (cases "rinv_paid_amount v < rinv_total v")
  case True
  show ?thesis
  proof (cases "given (rinv_rent_schedule_item_id v)")
    case None
    then have "t = put_invoice (v\<lparr>rinv_status := Invoice_OVERDUE\<rparr>) s" using assms True
      by (simp add: mark_overdue_def need_given_def Let_def)
    then show ?thesis using True by (intro disjI2 conjI exI [of _ "rent_schedule s"] disjI1) simp_all
  next
    case (Some n)
    then obtain r where r: "find_schedule_item s org n = Some r" using assms True
      by (auto simp: mark_overdue_def need_given_def need_Inr Let_def)
    then show ?thesis using assms True Some entityD [OF r]
      by (intro disjI2 conjI exI [of _ "put_row rsch_id (r\<lparr>rsch_status := Rent_OVERDUE\<rparr>) (rent_schedule s)"])
        (auto simp: mark_overdue_def need_given_def need_def Let_def)
  qed
next
  case False
  then show ?thesis using assms by (simp add: mark_overdue_def)
qed

text \<open>Marking the overdue invoices changes nothing but statuses.\<close>

lemma expire_overdue_frame:
  assumes "expire_overdue e org s = Inr t"
  shows "rental_properties t = rental_properties s \<and> leases t = leases s \<and> rent_payments t = rent_payments s \<and>
    lease_renewals t = lease_renewals s \<and> lease_moves t = lease_moves s"
  using assms unfolding expire_overdue_def
  by (rule loop_keeps) (auto dest: mark_overdueD)

lemma map_put_row_same:
  "(\<And>x. x \<in> set rows \<Longrightarrow> id_of x = id_of r \<Longrightarrow> f x = f r) \<Longrightarrow> map f (put_row id_of r rows) = map f rows"
  by (simp add: put_row_def)

lemma map_put_row_own:
  "distinct (map id_of rows) \<Longrightarrow> x \<in> set rows \<Longrightarrow> id_of r = id_of x \<Longrightarrow> f r = f x \<Longrightarrow> map f (put_row id_of r rows) = map f rows"
  by (rule map_put_row_same) (metis distinct_map inj_onD)

lemma in_put_row: "x \<in> set rows \<Longrightarrow> id_of r = id_of x \<Longrightarrow> r \<in> set (put_row id_of r rows)"
  by (auto simp: put_row_def image_iff intro!: bexI [of _ x])

definition rent_line :: "rent_schedule_row \<Rightarrow> ident \<times> ident \<times> ident \<times> int \<times> day \<times> day \<times> day" where
  "rent_line r = (rsch_id r, rsch_organization_id r, rsch_lease_id r, rsch_sequence r, rsch_period_start r, rsch_period_end r, rsch_due_date r)"

abbreviation rent_lines :: "estate \<Rightarrow> (ident \<times> ident \<times> ident \<times> int \<times> day \<times> day \<times> day) list" where
  "rent_lines s \<equiv> map rent_line (rent_schedule s)"

definition bill :: "rental_invoice_row \<Rightarrow> ident \<times> ident \<times> ident \<times> decimal \<times> decimal \<times> bool \<times> bool" where
  "bill v = (rinv_id v, rinv_organization_id v, rinv_lease_id v, rinv_total v, rinv_paid_amount v, rinv_status v = Invoice_PAID,
     rinv_status v = Invoice_VOIDED)"

abbreviation bills :: "estate \<Rightarrow> (ident \<times> ident \<times> ident \<times> decimal \<times> decimal \<times> bool \<times> bool) list" where
  "bills s \<equiv> map bill (rental_invoices s)"

lemma ids_of_lines: "map rsch_id rows = map fst (map rent_line rows)"
  by (simp add: rent_line_def)

lemma ids_of_bills: "map rinv_id rows = map fst (map bill rows)"
  by (simp add: bill_def)

lemma expire_overdue_lines:
  assumes ids: "distinct (map rsch_id (rent_schedule s))" and t: "expire_overdue e org s = Inr t"
  shows "rent_lines t = rent_lines s"
  using t unfolding expire_overdue_def
proof (rule loop_keeps)
  fix v u w
  assume w: "mark_overdue org v u = Inr w" and u: "rent_lines u = rent_lines s"
  have "distinct (map rsch_id (rent_schedule u))" using ids unfolding ids_of_lines u .
  then show "rent_lines w = rent_lines s"
    using mark_overdueD [OF w] by (auto simp: u [symmetric] rent_line_def intro!: map_put_row_own)
qed simp

lemma expire_overdue_bills:
  assumes ids: "distinct (map rinv_id (rental_invoices s))" and t: "expire_overdue e org s = Inr t"
  shows "bills t = bills s"
  using t unfolding expire_overdue_def
proof (rule loop_keeps)
  fix v u w
  assume v: "v \<in> set (filter (falls_overdue e org) (rental_invoices s))" and w: "mark_overdue org v u = Inr w" and u: "bills u = bills s"
  have same: "bill x = bill (v\<lparr>rinv_status := Invoice_OVERDUE\<rparr>)" if x: "x \<in> set (rental_invoices u)" "rinv_id x = rinv_id v" for x
  proof -
    from x u have "bill x \<in> set (bills s)" by (metis image_eqI set_map)
    then obtain y where y: "y \<in> set (rental_invoices s)" "bill x = bill y" by auto
    with x(2) have "rinv_id y = rinv_id v" by (simp add: bill_def)
    moreover from v have "v \<in> set (rental_invoices s)" "falls_overdue e org v" by simp_all
    ultimately have "y = v" using y(1) ids by (simp add: distinct_map inj_on_def)
    with y(2) \<open>falls_overdue e org v\<close> show ?thesis by (auto simp: bill_def falls_overdue_def)
  qed
  then have "map bill (put_row rinv_id (v\<lparr>rinv_status := Invoice_OVERDUE\<rparr>) (rental_invoices u)) = bills u"
    by (intro map_put_row_same) simp
  then show "bills w = bills s" using mark_overdueD [OF w] u by auto
qed simp

text \<open>Reading a lease keeps what marking the overdue invoices keeps.\<close>

lemma lease_detail_final:
  "P s \<Longrightarrow> (\<And>t. expire_overdue e org s = Inr t \<Longrightarrow> P t) \<Longrightarrow> P (committed (lease_detail e ctx org i s))"
  by (simp add: lease_detail_def attempt_def split: sum.split)

section \<open>Occupancy\<close>

definition in_force :: "lease_row \<Rightarrow> bool" where
  "in_force x \<longleftrightarrow> lease_status x \<in> {Lease_MOVE_IN_PENDING, Lease_ACTIVE, Lease_NOTICE_GIVEN, Lease_MOVE_OUT_PENDING}"

definition lived_in :: "lease_row \<Rightarrow> bool" where
  "lived_in x \<longleftrightarrow> lease_status x \<in> {Lease_ACTIVE, Lease_NOTICE_GIVEN, Lease_MOVE_OUT_PENDING}"

definition moves_of :: "estate \<Rightarrow> lease_row \<Rightarrow> string \<Rightarrow> workflow_status \<Rightarrow> nat" where
  "moves_of s x kind st = count_rows (\<lambda>m. lmove_organization_id m = lease_organization_id x \<and> lmove_lease_id m = lease_id x \<and>
     lmove_move_type m = kind \<and> lmove_status m = st) (lease_moves s)"

text \<open>The moves under way are those that the status of the lease says.\<close>

definition moves_sound :: "estate \<Rightarrow> lease_row \<Rightarrow> bool" where
  "moves_sound s x \<longleftrightarrow> moves_of s x ''MOVE_OUT'' Workflow_REQUESTED = of_bool (lease_status x = Lease_NOTICE_GIVEN) \<and>
     moves_of s x ''MOVE_OUT'' Workflow_APPROVED = of_bool (lease_status x = Lease_MOVE_OUT_PENDING) \<and>
     moves_of s x ''MOVE_IN'' Workflow_REQUESTED + moves_of s x ''MOVE_IN'' Workflow_APPROVED \<le>
       of_bool (lease_status x = Lease_MOVE_IN_PENDING)"

definition let_property :: "estate \<Rightarrow> lease_row \<Rightarrow> bool" where
  "let_property s x \<longleftrightarrow> (\<exists>q \<in> set (rental_properties s). rprop_organization_id q = lease_organization_id x \<and>
     rprop_id q = lease_property_id x \<and> rprop_status q = Rental_OCCUPIED)"

definition lease_sound :: "estate \<Rightarrow> lease_row \<Rightarrow> bool" where
  "lease_sound s x \<longleftrightarrow> lease_active_property_key x = (if in_force x then Some (lease_property_id x) else None) \<and>
     moves_sound s x \<and> (lived_in x \<longrightarrow> let_property s x)"

definition same_home :: "lease_row \<Rightarrow> lease_row \<Rightarrow> bool" where
  "same_home x z \<longleftrightarrow> lease_organization_id x = lease_organization_id z \<and> lease_property_id x = lease_property_id z"

definition one_home :: "estate \<Rightarrow> bool" where
  "one_home s \<longleftrightarrow> (\<forall>x \<in> set (leases s). \<forall>z \<in> set (leases s). in_force x \<and> in_force z \<and> same_home x z \<longrightarrow> lease_id x = lease_id z)"

definition occupancy_sound :: "estate \<Rightarrow> bool" where
  "occupancy_sound s \<longleftrightarrow> distinct (map rprop_id (rental_properties s)) \<and> distinct (map lease_id (leases s)) \<and>
     distinct (map lmove_id (lease_moves s)) \<and> (\<forall>m \<in> set (lease_moves s). lmove_move_type m \<in> {''MOVE_IN'', ''MOVE_OUT''}) \<and>
     (\<forall>x \<in> set (leases s). lease_sound s x) \<and> one_home s"

lemma occupancy_frame:
  assumes "occupancy_sound s" "leases t = leases s" "lease_moves t = lease_moves s" "rental_properties t = rental_properties s"
  shows "occupancy_sound t"
  using assms by (simp add: occupancy_sound_def lease_sound_def moves_sound_def moves_of_def let_property_def one_home_def)

lemma occupancy_detail:
  "occupancy_sound s \<Longrightarrow> occupancy_sound (committed (lease_detail e ctx org i s))"
  by (rule lease_detail_final) (auto intro: occupancy_frame dest: expire_overdue_frame)

text \<open>A property that changes without losing a tenant.\<close>

lemma let_property_put:
  "let_property s x \<Longrightarrow> p \<in> set (rental_properties s) \<Longrightarrow> distinct (map rprop_id (rental_properties s)) \<Longrightarrow> rprop_id p' = rprop_id p \<Longrightarrow>
   rprop_organization_id p' = rprop_organization_id p \<Longrightarrow>
   (rprop_id p = lease_property_id x \<Longrightarrow> rprop_status p = Rental_OCCUPIED \<Longrightarrow> rprop_status p' = Rental_OCCUPIED) \<Longrightarrow>
   rental_properties t = put_row rprop_id p' (rental_properties s) \<Longrightarrow> let_property t x"
  unfolding let_property_def
proof (elim bexE conjE)
  fix q
  assume p: "p \<in> set (rental_properties s)" "distinct (map rprop_id (rental_properties s))" "rprop_id p' = rprop_id p"
    "rprop_organization_id p' = rprop_organization_id p"
    and keep: "rprop_id p = lease_property_id x \<Longrightarrow> rprop_status p = Rental_OCCUPIED \<Longrightarrow> rprop_status p' = Rental_OCCUPIED"
    and t: "rental_properties t = put_row rprop_id p' (rental_properties s)"
    and q: "q \<in> set (rental_properties s)" "rprop_organization_id q = lease_organization_id x" "rprop_id q = lease_property_id x"
    "rprop_status q = Rental_OCCUPIED"
  show "\<exists>q \<in> set (rental_properties t). rprop_organization_id q = lease_organization_id x \<and> rprop_id q = lease_property_id x \<and>
    rprop_status q = Rental_OCCUPIED"
  proof (cases "rprop_id q = rprop_id p")
    case True
    then have "q = p" using p(1,2) q(1) by (simp add: distinct_map inj_on_def)
    then show ?thesis using p q keep unfolding t by (intro bexI [OF _ in_put_row [of p]]) simp_all
  next
    case False
    then show ?thesis using p q unfolding t by (intro bexI [of _ q]) (auto simp: set_put_row)
  qed
qed

text \<open>A request that writes one lease, its moves and its property.\<close>

lemma occupancy_put:
  assumes ok: "occupancy_sound s" and x: "x \<in> set (leases s)"
    and y: "lease_id y = lease_id x" "same_home y x" "leases t = put_row lease_id y (leases s)"
    and props: "map rprop_id (rental_properties t) = map rprop_id (rental_properties s)"
      "\<And>z. z \<in> set (leases s) \<Longrightarrow> lease_id z \<noteq> lease_id x \<Longrightarrow> lived_in z \<Longrightarrow> let_property s z \<Longrightarrow> let_property t z"
    and moves: "distinct (map lmove_id (lease_moves t))" "\<forall>m \<in> set (lease_moves t). lmove_move_type m \<in> {''MOVE_IN'', ''MOVE_OUT''}"
      "\<And>z kind st. z \<in> set (leases s) \<Longrightarrow> lease_id z \<noteq> lease_id x \<Longrightarrow> moves_of t z kind st = moves_of s z kind st"
    and good: "lease_sound s x \<Longrightarrow> lease_sound t y"
    and alone: "\<And>z. z \<in> set (leases s) \<Longrightarrow> lease_id z \<noteq> lease_id x \<Longrightarrow> in_force y \<Longrightarrow> in_force z \<Longrightarrow> \<not> same_home y z"
  shows "occupancy_sound t"
proof -
  have rows: "z = y \<or> z \<in> set (leases s) \<and> lease_id z \<noteq> lease_id x" if "z \<in> set (leases t)" for z
    using that unfolding y(3) by (auto simp: set_put_row y(1) split: if_splits)
  have sound: "lease_sound t z" if z: "z \<in> set (leases t)" for z
    using rows [OF z]
  proof
    assume "z = y"
    with ok x good show ?thesis by (simp add: occupancy_sound_def)
  next
    assume z: "z \<in> set (leases s) \<and> lease_id z \<noteq> lease_id x"
    with ok props(2) [of z] moves(3) [of z] show ?thesis by (auto simp: occupancy_sound_def lease_sound_def moves_sound_def)
  qed
  have "lease_id z = lease_id w" if zw: "z \<in> set (leases t)" "w \<in> set (leases t)" "in_force z" "in_force w" "same_home z w" for z w
  proof -
    have "same_home y z" if "w = y" using zw(5) that by (simp add: same_home_def)
    then show ?thesis
      using rows [OF zw(1)] rows [OF zw(2)] alone [of z] alone [of w] zw(3-5) ok unfolding occupancy_sound_def one_home_def by blast
  qed
  then have "one_home t" unfolding one_home_def by blast
  with sound show ?thesis using ok props(1) moves(1,2) unfolding occupancy_sound_def by (simp add: y(3))
qed

section \<open>Requests that leave leases alone\<close>

lemmas occupancy_intros = outcome_intros [where P = occupancy_sound]

lemma record_steps_occupancy:
  assumes ok: "occupancy_sound s"
  shows "occupancy_sound (committed (create_tenant e ctx org tnc s))" "occupancy_sound (committed (update_tenant e ctx org i tnu s))"
    "occupancy_sound (committed (add_document e ctx org i kind required s))"
    "occupancy_sound (committed (upload_document e ctx org i did upload saved s))"
    "occupancy_sound (committed (decide_document e ctx org i did verify notes s))"
    "occupancy_sound (committed (create_maintenance e ctx org mnc s))"
    "occupancy_sound (committed (update_maintenance e ctx org i nid mnu s))"
    "occupancy_sound (committed (issue_invoice e ctx org i ivc s))"
    "occupancy_sound (committed (submit_rent_payment e ctx org i vid rpy s))"
    "occupancy_sound (committed (request_renewal e ctx org i rnc s))"
  unfolding create_tenant_def update_tenant_def add_document_def upload_document_def decide_document_def create_maintenance_def
    update_maintenance_def issue_invoice_def submit_rent_payment_def request_renewal_def Let_def
  by (intro occupancy_intros ok occupancy_detail; (simp only: outcome.sel split_def)?; rule occupancy_frame [OF ok]; simp)+

lemma reading_steps_occupancy:
  assumes ok: "occupancy_sound s"
  shows "occupancy_sound (committed (list_leases updated e ctx org q st page page_size s))"
    "occupancy_sound (committed (rental_stats_of e ctx org s))"
proof -
  have expired: "occupancy_sound t" if "expire_overdue e org s = Inr t" for t
    using expire_overdue_frame [OF that] by (intro occupancy_frame [OF ok]) simp_all
  show "occupancy_sound (committed (list_leases updated e ctx org q st page page_size s))"
    "occupancy_sound (committed (rental_stats_of e ctx org s))"
    unfolding list_leases_def rental_stats_of_def Let_def
    by (intro occupancy_intros ok; (simp only: committed_respond outcome.sel)?; erule expired)+
qed

lemma credit_invoice_frame:
  "credit_invoice org amount v s = Inr t \<Longrightarrow> leases t = leases s \<and> lease_moves t = lease_moves s \<and> rental_properties t = rental_properties s \<and>
   lease_renewals t = lease_renewals s \<and> rent_payments t = rent_payments s"
  by (auto simp: credit_invoice_def require_Inr need_given_def need_Inr Let_def split: option.splits)

lemma decide_rent_payment_occupancy:
  assumes ok: "occupancy_sound s"
  shows "occupancy_sound (committed (decide_rent_payment e ctx org i pid accept notes s))"
  unfolding decide_rent_payment_def Let_def
proof (intro occupancy_intros ok occupancy_detail)
  fix y v t
  assume "(if accept then credit_invoice org (rpay_amount y) v (put_rent_payment (verified_rent e ctx accept notes y) s)
    else Inr (put_rent_payment (verified_rent e ctx accept notes y) s)) = Inr t"
  then have "leases t = leases s \<and> lease_moves t = lease_moves s \<and> rental_properties t = rental_properties s"
    by (auto split: if_splits dest!: credit_invoice_frame)
  then show "occupancy_sound (rental_audit e 0 org ctx a n j old new t)" for a n j old new
    by (intro occupancy_frame [OF ok]) simp_all
qed

section \<open>Properties\<close>

lemma updated_propertyD:
  "updated_property p x = Some y \<Longrightarrow> rprop_id y = rprop_id x \<and> rprop_organization_id y = rprop_organization_id x \<and>
   changed (rpu_status p) (Some (rprop_status x)) = Some (rprop_status y)"
  by (clarsimp simp: updated_property_def split: option.splits if_splits)

lemma property_steps_occupancy:
  assumes ok: "occupancy_sound s"
  shows "fresh_estate e s \<Longrightarrow> occupancy_sound (committed (create_property e ctx org rpc s))"
    "occupancy_sound (committed (update_property e ctx org i rpu s))"
proof -
  have kept: "occupancy_sound t" if t: "leases t = leases s" "lease_moves t = lease_moves s" "distinct (map rprop_id (rental_properties t))"
      "\<And>x. let_property s x \<Longrightarrow> let_property t x" for t
    using ok t(4) unfolding occupancy_sound_def one_home_def t(1) by (simp add: t(2,3) lease_sound_def moves_sound_def moves_of_def)
  {
    assume fresh: "fresh_estate e s"
    then have new: "uuid e 0 \<notin> rprop_id ` set (rental_properties s)" by (simp add: fresh_estate_def estate_ids_def)
    have "rprop_id (new_property e org rpc) = uuid e 0" by (simp add: new_property_def)
    then show "occupancy_sound (committed (create_property e ctx org rpc s))"
      using ok new unfolding create_property_def Let_def
      by (intro occupancy_intros ok; (simp only: outcome.sel)?; intro kept) (auto simp: occupancy_sound_def let_property_def)
  }
  have put: "occupancy_sound (rental_audit e k org ctx a n j old new (put_property y s))"
    if x: "find_property s org i = Some x" and y: "updated_property rpu x = Some y"
      and free: "rprop_status x = Rental_OCCUPIED \<longrightarrow> opt_all (\<lambda>st. st = Some Rental_OCCUPIED) (rpu_status rpu)" for x y k a n j old new
  proof (rule kept)
    have same: "rprop_id y = rprop_id x" "rprop_organization_id y = rprop_organization_id x"
      and st: "rprop_status x = Rental_OCCUPIED \<Longrightarrow> rprop_status y = Rental_OCCUPIED"
      using updated_propertyD [OF y] free by (auto simp: changed_def opt_all_def split: option.splits)
    fix z
    assume "let_property s z"
    then show "let_property (rental_audit e k org ctx a n j old new (put_property y s)) z"
      by (rule let_property_put [where p = x and p' = y]) (use ok entityD [OF x] same st in \<open>simp_all add: occupancy_sound_def\<close>)
  qed (use ok in \<open>simp_all add: occupancy_sound_def\<close>)
  show "occupancy_sound (committed (update_property e ctx org i rpu s))"
    unfolding update_property_def Let_def split_def
    by (intro occupancy_intros ok; (simp only: outcome.sel)?; rule put)
qed

section \<open>Leases\<close>

lemma create_lease_occupancy:
  assumes ok: "occupancy_sound s" and fresh: "fresh_estate e s"
  shows "occupancy_sound (committed (create_lease e ctx org lec s))"
proof -
  let ?x = "new_lease e org ctx lec"
  have x: "lease_id ?x = uuid e 0" "\<not> in_force ?x" "\<not> lived_in ?x" "lease_active_property_key ?x = None" "lease_status ?x = Lease_DRAFT"
    by (simp_all add: new_lease_def in_force_def lived_in_def)
  have new: "uuid e 0 \<notin> lease_id ` set (leases s)" "uuid e 0 \<notin> lmove_lease_id ` set (lease_moves s)"
    using fresh by (simp_all add: fresh_estate_def estate_ids_def)
  have added: "occupancy_sound t" if t: "leases t = leases s @ [?x]" "lease_moves t = lease_moves s" "rental_properties t = rental_properties s" for t
  proof -
    have none: "filter (\<lambda>m. lmove_organization_id m = o' \<and> lmove_lease_id m = uuid e 0 \<and> lmove_move_type m = kind \<and> lmove_status m = st)
        (lease_moves s) = []" for o' kind st
      using new(2) unfolding filter_empty_conv image_iff by auto
    have "lease_sound t ?x" by (simp add: lease_sound_def moves_sound_def moves_of_def count_rows_def x t none)
    moreover have "lease_sound t z = lease_sound s z" for z
      by (simp add: lease_sound_def moves_sound_def moves_of_def let_property_def t)
    moreover have "one_home t" using ok x(2) by (auto simp: occupancy_sound_def one_home_def t)
    ultimately show ?thesis using ok new(1) unfolding occupancy_sound_def by (simp add: t x(1))
  qed
  show ?thesis
    unfolding create_lease_def Let_def
    by (intro occupancy_intros ok occupancy_detail; rule added; simp)
qed

text \<open>A lease that was in force before meets no other one in its home.\<close>

lemma home_alone:
  "occupancy_sound s \<Longrightarrow> x \<in> set (leases s) \<Longrightarrow> in_force x \<Longrightarrow> same_home y x \<Longrightarrow> z \<in> set (leases s) \<Longrightarrow> lease_id z \<noteq> lease_id x \<Longrightarrow>
   in_force z \<Longrightarrow> \<not> same_home y z"
  unfolding occupancy_sound_def one_home_def same_home_def by metis

text \<open>A lease that keeps its status, its key and its property.\<close>

lemma occupancy_same:
  assumes ok: "occupancy_sound s" and x: "x \<in> set (leases s)"
    and y: "lease_id y = lease_id x" "same_home y x" "lease_active_property_key y = lease_active_property_key x"
      "lease_status y = lease_status x \<or> {lease_status x, lease_status y} \<subseteq> {Lease_DRAFT, Lease_PENDING_SIGNATURE}"
    and t: "leases t = put_row lease_id y (leases s)" "lease_moves t = lease_moves s" "rental_properties t = rental_properties s"
  shows "occupancy_sound t"
proof (rule occupancy_put [OF ok x y(1,2) t(1)])
  have st: "in_force y = in_force x" "lived_in y = lived_in x" "lease_status y = Lease_NOTICE_GIVEN \<longleftrightarrow> lease_status x = Lease_NOTICE_GIVEN"
    "lease_status y = Lease_MOVE_OUT_PENDING \<longleftrightarrow> lease_status x = Lease_MOVE_OUT_PENDING"
    "lease_status y = Lease_MOVE_IN_PENDING \<longleftrightarrow> lease_status x = Lease_MOVE_IN_PENDING"
    using y(4) by (auto simp: in_force_def lived_in_def)
  show "lease_sound s x \<Longrightarrow> lease_sound t y"
    using y(1-3) by (simp add: lease_sound_def moves_sound_def moves_of_def let_property_def same_home_def st t)
  show "\<not> same_home y z" if "z \<in> set (leases s)" "lease_id z \<noteq> lease_id x" "in_force y" "in_force z" for z
    using home_alone [OF ok x _ y(2)] that st(1) by simp
qed (use ok in \<open>simp_all add: occupancy_sound_def t moves_of_def let_property_def\<close>)

lemma append_scheduleD: "append_schedule e k x a b n s = Inr t \<Longrightarrow> \<exists>ps. rent_periods (lease_rent_due_day x) a b a 1 = Inr ps \<and>
   t = s\<lparr>rent_schedule := rent_schedule s @ schedule_rows e x k n ps\<rparr>"
  by (auto simp: append_schedule_def step_Inr require_Inr Let_def)

lemma decide_renewal_occupancy:
  assumes ok: "occupancy_sound s"
  shows "occupancy_sound (committed (decide_renewal e ctx org i rid approve notes s))"
  unfolding decide_renewal_def Let_def
proof (intro occupancy_intros ok occupancy_detail)
  fix x r t
  assume x: "scoped_lease s org ctx i = Some x" and t: "(if approve then apply_renewal e org r x s else Inr s) = Inr t"
  have "occupancy_sound t \<and> leases t = (if approve then put_row lease_id (renewed_lease r x) (leases s) else leases s)"
  proof (cases approve)
    case True
    with t obtain ps where "t = (put_lease (renewed_lease r x) s)\<lparr>rent_schedule := rent_schedule s @ ps\<rparr>"
      by (auto simp: apply_renewal_def require_Inr dest!: append_scheduleD)
    then have t: "leases t = put_row lease_id (renewed_lease r x) (leases s)" "lease_moves t = lease_moves s" "rental_properties t = rental_properties s"
      by simp_all
    have "occupancy_sound t"
      by (rule occupancy_same [OF ok _ _ _ _ _ t, where x = x])
        (use scoped_leaseD [OF x] in \<open>simp_all add: renewed_lease_def same_home_def\<close>)
    with t True show ?thesis by simp
  qed (use ok t in simp)
  then have "occupancy_sound t" ..
  then show "occupancy_sound (rental_audit e 0 org ctx a n j old new (put_renewal y t))" for a n j old new y
    by (rule occupancy_frame) simp_all
qed

lemma sign_leaseD:
  assumes "sign_lease e ctx org x s = Inr t"
  obtains p ps where "find_property s org (lease_property_id x) = Some p" "rprop_status p = Rental_AVAILABLE"
    "slot_free lease_organization_id lease_active_property_key org (rprop_id p) (leases s)"
    "rent_periods (lease_rent_due_day x) (lease_start_date x) (lease_end_date x) (lease_start_date x) 1 = Inr ps"
    "t = (put_lease (signed_lease e ctx x) (put_property (p\<lparr>rprop_status := Rental_RESERVED\<rparr>) s))
       \<lparr>rent_schedule := rent_schedule s @ schedule_rows e (signed_lease e ctx x) 1 1 ps\<rparr>"
proof -
  have sel: "lease_rent_due_day (signed_lease e ctx x) = lease_rent_due_day x" "lease_start_date (signed_lease e ctx x) = lease_start_date x"
    "lease_end_date (signed_lease e ctx x) = lease_end_date x" by (simp_all add: signed_lease_def)
  show thesis using assms that
    unfolding sign_lease_def Let_def require_Inr need_Inr step_Inr sel
    by (elim conjE exE) (drule append_scheduleD, simp only: sel estate.simps, elim exE conjE, simp)
qed

lemma transition_lease_occupancy:
  assumes ok: "occupancy_sound s"
  shows "occupancy_sound (committed (transition_lease e ctx org i st notes s))"
proof -
  have signed: "occupancy_sound (lease_moved_audit e org ctx y notes t)"
    if x: "scoped_lease s org ctx i = Some x" and st: "lease_status x = Lease_PENDING_SIGNATURE" and t: "sign_lease e ctx org x s = Inr t" for x y t
  proof -
    from t obtain p ps where p: "find_property s org (lease_property_id x) = Some p" "rprop_status p = Rental_AVAILABLE"
      and free: "slot_free lease_organization_id lease_active_property_key org (rprop_id p) (leases s)"
      and t: "t = (put_lease (signed_lease e ctx x) (put_property (p\<lparr>rprop_status := Rental_RESERVED\<rparr>) s))\<lparr>rent_schedule := ps\<rparr>"
      by (rule sign_leaseD) blast
    note x = scoped_leaseD [OF x] and p = p(2) entityD [OF p(1)]
    let ?y = "signed_lease e ctx x"
    have y: "lease_id ?y = lease_id x" "same_home ?y x" "lease_status ?y = Lease_MOVE_IN_PENDING" "lease_organization_id ?y = org"
      "lease_active_property_key ?y = Some (lease_property_id x)" "lease_property_id ?y = lease_property_id x" "in_force ?y" "\<not> lived_in ?y"
      using x by (simp_all add: signed_lease_def same_home_def in_force_def lived_in_def)
    have "occupancy_sound t"
    proof (rule occupancy_put [OF ok, where x = x and y = ?y])
      show "let_property t z" if "let_property s z" for z
        by (rule let_property_put [OF that, of p "p\<lparr>rprop_status := Rental_RESERVED\<rparr>"]) (use ok p in \<open>simp_all add: t occupancy_sound_def\<close>)
      show "lease_sound s x \<Longrightarrow> lease_sound t ?y"
        using x by (simp add: lease_sound_def moves_sound_def moves_of_def y st t)
      show "\<not> same_home ?y z" if z: "z \<in> set (leases s)" "in_force z" for z
      proof
        assume same: "same_home ?y z"
        from ok z have "lease_active_property_key z = Some (lease_property_id z)" by (auto simp: occupancy_sound_def lease_sound_def)
        with free z(1) p(2) same show False by (auto simp: slot_free_def list_all_iff same_home_def y)
      qed
    qed (use ok x in \<open>simp_all add: y t occupancy_sound_def moves_of_def\<close>)
    then show ?thesis by (rule occupancy_frame) simp_all
  qed
  have issued: "occupancy_sound (lease_moved_audit e org ctx y notes (put_lease (issued_lease e x) s))"
    if x: "scoped_lease s org ctx i = Some x" and st: "lease_status x = Lease_DRAFT" for x y
    by (rule occupancy_same [OF ok, of x "issued_lease e x"])
      (use scoped_leaseD [OF x] st in \<open>simp_all add: issued_lease_def same_home_def\<close>)
  show ?thesis
    unfolding transition_lease_def Let_def
    by (intro occupancy_intros ok occupancy_detail; (rule signed issued, assumption, simp_all add: next_lease_status_def split: lease_status.splits)?)
qed

section \<open>Moves\<close>

lemma count_rows_put:
  "distinct (map id_of rows) \<Longrightarrow> x \<in> set rows \<Longrightarrow> id_of r = id_of x \<Longrightarrow>
   count_rows p (put_row id_of r rows) + of_bool (p x) = count_rows p rows + of_bool (p r)"
proof (induction rows)
  case (Cons y ys)
  show ?case
  proof (cases "y = x")
    case True
    with Cons.prems have "put_row id_of r ys = ys" by (auto simp: put_row_def image_iff intro!: map_idI)
    with True Cons.prems show ?thesis by (simp add: put_row_def count_rows_def)
  next
    case False
    with Cons.prems have "id_of y \<noteq> id_of r" "x \<in> set ys" by auto
    with Cons show ?thesis by (simp add: put_row_def count_rows_def)
  qed
qed simp

lemma moves_of_append:
  "lease_moves t = lease_moves s @ [m] \<Longrightarrow> moves_of t x kind st = moves_of s x kind st +
     of_bool (lmove_organization_id m = lease_organization_id x \<and> lmove_lease_id m = lease_id x \<and> lmove_move_type m = kind \<and> lmove_status m = st)"
  by (simp add: moves_of_def count_rows_def)

lemma moves_of_put:
  "distinct (map lmove_id (lease_moves s)) \<Longrightarrow> m \<in> set (lease_moves s) \<Longrightarrow> lmove_id m' = lmove_id m \<Longrightarrow>
   lmove_organization_id m' = lmove_organization_id m \<Longrightarrow> lmove_lease_id m' = lmove_lease_id m \<Longrightarrow> lmove_move_type m' = lmove_move_type m \<Longrightarrow>
   lease_moves t = put_row lmove_id m' (lease_moves s) \<Longrightarrow>
   moves_of t x kind st + of_bool (lmove_organization_id m = lease_organization_id x \<and> lmove_lease_id m = lease_id x \<and>
     lmove_move_type m = kind \<and> lmove_status m = st) =
   moves_of s x kind st + of_bool (lmove_organization_id m = lease_organization_id x \<and> lmove_lease_id m = lease_id x \<and>
     lmove_move_type m = kind \<and> lmove_status m' = st)"
  unfolding moves_of_def
  using count_rows_put [of lmove_id "lease_moves s" m m' "\<lambda>m. lmove_organization_id m = lease_organization_id x \<and>
    lmove_lease_id m = lease_id x \<and> lmove_move_type m = kind \<and> lmove_status m = st"] by (simp only:)

lemma moves_of_same_lease:
  "lease_id y = lease_id x \<Longrightarrow> lease_organization_id y = lease_organization_id x \<Longrightarrow> moves_of s y kind st = moves_of s x kind st"
  by (simp add: moves_of_def)

lemma with_status_sel [simp]:
  "lease_id (with_status st x) = lease_id x" "lease_status (with_status st x) = st" "same_home (with_status st x) x"
  "lease_organization_id (with_status st x) = lease_organization_id x" "lease_property_id (with_status st x) = lease_property_id x"
  "lease_active_property_key (with_status st x) = lease_active_property_key x"
  by (simp_all add: with_status_def same_home_def)

text \<open>A request that writes a lease in force and its moves.\<close>

lemma occupancy_moves:
  assumes ok: "occupancy_sound s" and x: "x \<in> set (leases s)"
    and y: "lease_id y = lease_id x" "same_home y x" "lease_active_property_key y = lease_active_property_key x"
      "in_force x" "in_force y" "lived_in y \<Longrightarrow> lived_in x"
    and t: "leases t = put_row lease_id y (leases s)" "rental_properties t = rental_properties s" "distinct (map lmove_id (lease_moves t))"
      "\<forall>m \<in> set (lease_moves t). lmove_move_type m \<in> {''MOVE_IN'', ''MOVE_OUT''}"
      "\<And>z kind st. lease_id z \<noteq> lease_id x \<Longrightarrow> moves_of t z kind st = moves_of s z kind st"
    and good: "moves_sound s x \<Longrightarrow> moves_sound t y"
  shows "occupancy_sound t"
proof (rule occupancy_put [OF ok x y(1,2) t(1) _ _ t(3,4)])
  show "lease_sound s x \<Longrightarrow> lease_sound t y"
    using y good by (auto simp: lease_sound_def let_property_def t(2) same_home_def)
  show "\<not> same_home y z" if "z \<in> set (leases s)" "lease_id z \<noteq> lease_id x" "in_force z" for z
    using home_alone [OF ok x y(4,2)] that by simp
qed (simp_all add: t let_property_def)

lemma leases_put_same: "occupancy_sound s \<Longrightarrow> x \<in> set (leases s) \<Longrightarrow> put_row lease_id x (leases s) = leases s"
  by (rule put_row_same) (simp only: occupancy_sound_def)

lemma request_move_occupancy:
  assumes ok: "occupancy_sound s" and fresh: "fresh_estate e s" and p: "move_create_ok mvc"
  shows "occupancy_sound (committed (request_move e ctx org i mvc s))"
proof -
  have put: "occupancy_sound t"
    if x: "scoped_lease s org ctx i = Some x" and st: "lease_status x = (if mvc_move_type mvc = ''MOVE_IN'' then Lease_MOVE_IN_PENDING else Lease_ACTIVE)"
      and none: "\<not> list_ex (move_pending org (lease_id x) (mvc_move_type mvc)) (lease_moves s)"
      and t: "leases t = (if mvc_move_type mvc = ''MOVE_OUT'' then put_row lease_id (with_status Lease_NOTICE_GIVEN x) (leases s) else leases s)"
        "lease_moves t = lease_moves s @ [new_move e org ctx mvc (lease_id x)]" "rental_properties t = rental_properties s" for x t
  proof -
    note x = scoped_leaseD [OF x]
    let ?m = "new_move e org ctx mvc (lease_id x)"
    have m: "lmove_organization_id ?m = org" "lmove_lease_id ?m = lease_id x" "lmove_move_type ?m = mvc_move_type mvc"
      "lmove_status ?m = Workflow_REQUESTED" "lmove_id ?m = uuid e 0" by (simp_all add: new_move_def)
    let ?y = "if mvc_move_type mvc = ''MOVE_OUT'' then with_status Lease_NOTICE_GIVEN x else x"
    have kind: "mvc_move_type mvc = ''MOVE_IN'' \<or> mvc_move_type mvc = ''MOVE_OUT''" using p by (simp add: move_create_ok_def)
    have zero: "moves_of s x (mvc_move_type mvc) w = 0" if "w = Workflow_REQUESTED \<or> w = Workflow_APPROVED" for w
      using none that x by (auto simp: moves_of_def count_rows_def list_ex_iff move_pending_def filter_empty_conv)
    have count: "moves_of t x w v = moves_of s x w v + of_bool (mvc_move_type mvc = w \<and> Workflow_REQUESTED = v)" for w v
      using x by (simp add: moves_of_append [OF t(2)] new_move_def)
    have y: "lease_id ?y = lease_id x" "same_home ?y x" "lease_active_property_key ?y = lease_active_property_key x" "in_force x" "in_force ?y"
      "lived_in ?y \<Longrightarrow> lived_in x"
      using st kind by (auto simp: same_home_def in_force_def lived_in_def)
    show ?thesis
    proof (rule occupancy_moves [OF ok, of x ?y])
      show "leases t = put_row lease_id ?y (leases s)" using t(1) leases_put_same [OF ok] x by simp
      show "distinct (map lmove_id (lease_moves t))"
        using ok fresh by (auto simp: t(2) m occupancy_sound_def fresh_estate_def estate_ids_def)
      show "\<forall>m \<in> set (lease_moves t). lmove_move_type m \<in> {''MOVE_IN'', ''MOVE_OUT''}"
        using ok kind by (auto simp: t(2) m occupancy_sound_def)
      show "moves_of t z w v = moves_of s z w v" if "lease_id z \<noteq> lease_id x" for z w v
        using that by (simp add: moves_of_append [OF t(2)] m)
      show "moves_sound s x \<Longrightarrow> moves_sound t ?y"
        using kind zero [of Workflow_REQUESTED] zero [of Workflow_APPROVED] st
        by (elim disjE) (simp_all add: moves_sound_def count moves_of_same_lease [of "with_status Lease_NOTICE_GIVEN x" x])
    qed (use x y in \<open>simp_all add: t(3)\<close>)
  qed
  show ?thesis
    unfolding request_move_def Let_def
    by (intro occupancy_intros ok occupancy_detail) (rule put, assumption, assumption, assumption, simp_all)
qed

text \<open>A move that is decided or completed leaves those of the other leases alone.\<close>

lemma moves_put_others:
  assumes "occupancy_sound s" "m \<in> set (lease_moves s)" "lmove_id m' = lmove_id m" "lmove_organization_id m' = lmove_organization_id m"
    "lmove_lease_id m' = lmove_lease_id m" "lmove_move_type m' = lmove_move_type m" "lease_moves t = put_row lmove_id m' (lease_moves s)"
  shows "distinct (map lmove_id (lease_moves t))" "\<forall>m \<in> set (lease_moves t). lmove_move_type m \<in> {''MOVE_IN'', ''MOVE_OUT''}"
    "lmove_lease_id m \<noteq> lease_id z \<Longrightarrow> moves_of t z kind st = moves_of s z kind st"
proof -
  show "distinct (map lmove_id (lease_moves t))" using assms(1) by (simp add: assms(7) occupancy_sound_def)
  show "\<forall>m \<in> set (lease_moves t). lmove_move_type m \<in> {''MOVE_IN'', ''MOVE_OUT''}"
    using assms(1,2) by (auto simp: assms(6,7) occupancy_sound_def set_put_row split: if_splits)
  show "lmove_lease_id m \<noteq> lease_id z \<Longrightarrow> moves_of t z kind st = moves_of s z kind st"
    using moves_of_put [OF _ assms(2-7), of z kind st] assms(1) by (simp add: occupancy_sound_def)
qed

lemma decided_move_sel [simp]:
  "lmove_id (decided_move e ctx b notes m) = lmove_id m" "lmove_organization_id (decided_move e ctx b notes m) = lmove_organization_id m"
  "lmove_lease_id (decided_move e ctx b notes m) = lmove_lease_id m" "lmove_move_type (decided_move e ctx b notes m) = lmove_move_type m"
  "lmove_status (decided_move e ctx b notes m) = (if b then Workflow_APPROVED else Workflow_REJECTED)"
  by (simp_all add: decided_move_def)

lemma completed_move_sel [simp]:
  "lmove_id (completed_move e ctx p m) = lmove_id m" "lmove_organization_id (completed_move e ctx p m) = lmove_organization_id m"
  "lmove_lease_id (completed_move e ctx p m) = lmove_lease_id m" "lmove_move_type (completed_move e ctx p m) = lmove_move_type m"
  "lmove_status (completed_move e ctx p m) = Workflow_COMPLETED"
  by (simp_all add: completed_move_def)

text \<open>The status of a lease with a move under way.\<close>

lemma move_status:
  assumes ok: "occupancy_sound s" and m: "m \<in> set (lease_moves s)" "lmove_organization_id m = lease_organization_id x" "lmove_lease_id m = lease_id x"
    and x: "x \<in> set (leases s)" and st: "lmove_status m \<in> {Workflow_REQUESTED, Workflow_APPROVED}"
  shows "lease_status x = (if lmove_move_type m = ''MOVE_IN'' then Lease_MOVE_IN_PENDING
     else if lmove_status m = Workflow_REQUESTED then Lease_NOTICE_GIVEN else Lease_MOVE_OUT_PENDING)"
proof -
  have "0 < moves_of s x (lmove_move_type m) (lmove_status m)"
    using m by (auto simp: moves_of_def count_rows_def filter_empty_conv)
  moreover have "moves_sound s x" "lmove_move_type m \<in> {''MOVE_IN'', ''MOVE_OUT''}" using ok x m(1) by (auto simp: occupancy_sound_def lease_sound_def)
  ultimately show ?thesis using st by (auto simp: moves_sound_def of_bool_def split: if_splits)
qed

lemma decide_move_occupancy:
  assumes ok: "occupancy_sound s"
  shows "occupancy_sound (committed (decide_move e ctx org i mid approve notes s))"
proof -
  have put: "occupancy_sound t"
    if x: "scoped_lease s org ctx i = Some x" and m: "find_move s org mid = Some m"
      and own: "lmove_lease_id m = lease_id x \<and> lmove_status m = Workflow_REQUESTED"
      and t: "leases t = (if lmove_move_type m = ''MOVE_OUT''
          then put_row lease_id (with_status (if approve then Lease_MOVE_OUT_PENDING else Lease_ACTIVE) x) (leases s) else leases s)"
        "lease_moves t = put_row lmove_id (decided_move e ctx approve notes m) (lease_moves s)" "rental_properties t = rental_properties s" for x m t
  proof -
    note x = scoped_leaseD [OF x] and m = entityD [OF m]
    let ?y = "if lmove_move_type m = ''MOVE_OUT'' then with_status (if approve then Lease_MOVE_OUT_PENDING else Lease_ACTIVE) x else x"
    have kind: "lmove_move_type m \<in> {''MOVE_IN'', ''MOVE_OUT''}" using ok m by (auto simp: occupancy_sound_def)
    have st: "lease_status x = (if lmove_move_type m = ''MOVE_IN'' then Lease_MOVE_IN_PENDING else Lease_NOTICE_GIVEN)"
      using move_status [OF ok, of m x] m x own by simp
    have ids: "distinct (map lmove_id (lease_moves s))" using ok by (simp add: occupancy_sound_def)
    note others = moves_put_others [OF ok conjunct1 [OF m] _ _ _ _ t(2), simplified]
    have count: "moves_of t x kind st + of_bool (lmove_move_type m = kind \<and> Workflow_REQUESTED = st) =
        moves_of s x kind st + of_bool (lmove_move_type m = kind \<and> (if approve then Workflow_APPROVED else Workflow_REJECTED) = st)" for kind st
      using moves_of_put [OF ids conjunct1 [OF m] _ _ _ _ t(2), of x kind st] m x own by simp
    have y: "lease_id ?y = lease_id x" "same_home ?y x" "lease_active_property_key ?y = lease_active_property_key x" "in_force x" "in_force ?y"
      "lived_in ?y \<Longrightarrow> lived_in x"
      using st kind by (auto simp: same_home_def in_force_def lived_in_def)
    show ?thesis
    proof (rule occupancy_moves [OF ok, of x ?y])
      show "leases t = put_row lease_id ?y (leases s)" using t(1) leases_put_same [OF ok] x by simp
      show "moves_sound s x \<Longrightarrow> moves_sound t ?y"
        using kind st count [of "''MOVE_IN''" Workflow_REQUESTED] count [of "''MOVE_IN''" Workflow_APPROVED]
          count [of "''MOVE_OUT''" Workflow_REQUESTED] count [of "''MOVE_OUT''" Workflow_APPROVED]
        by (cases approve) (auto simp: moves_sound_def moves_of_same_lease [of "with_status w x" x for w])
    qed (use x y own others in \<open>simp_all add: t(3)\<close>)
  qed
  show ?thesis
    unfolding decide_move_def Let_def
    by (intro occupancy_intros ok occupancy_detail) (rule put, assumption, assumption, assumption, simp_all)
qed

lemma complete_move_occupancy:
  assumes ok: "occupancy_sound s"
  shows "occupancy_sound (committed (complete_move e ctx org i mid mvd s))"
proof -
  have put: "occupancy_sound t"
    if x: "scoped_lease s org ctx i = Some x" and m: "find_move s org mid = Some m" and q: "find_property s org (lease_property_id x) = Some q"
      and own: "lmove_lease_id m = lease_id x \<and> lmove_status m = Workflow_APPROVED"
      and t: "leases t = put_row lease_id (if lmove_move_type m = ''MOVE_OUT'' then ended_lease e x else started_lease e x) (leases s)"
        "lease_moves t = put_row lmove_id (completed_move e ctx mvd m) (lease_moves s)"
        "rental_properties t = put_row rprop_id (q\<lparr>rprop_status := (if lmove_move_type m = ''MOVE_OUT'' then Rental_AVAILABLE else Rental_OCCUPIED)\<rparr>)
          (rental_properties s)" for x m q t
  proof -
    note x = scoped_leaseD [OF x] and m = entityD [OF m] and q = entityD [OF q]
    let ?out = "lmove_move_type m = ''MOVE_OUT''" let ?y = "if ?out then ended_lease e x else started_lease e x"
    let ?q = "q\<lparr>rprop_status := (if ?out then Rental_AVAILABLE else Rental_OCCUPIED)\<rparr>"
    have kind: "lmove_move_type m \<in> {''MOVE_IN'', ''MOVE_OUT''}" and ids: "distinct (map lmove_id (lease_moves s))" "distinct (map rprop_id (rental_properties s))"
      using ok m by (auto simp: occupancy_sound_def)
    have st: "lease_status x = (if ?out then Lease_MOVE_OUT_PENDING else Lease_MOVE_IN_PENDING)"
      using move_status [OF ok, of m x] m x own kind by auto
    then have force: "in_force x" by (simp add: in_force_def)
    have y: "lease_id ?y = lease_id x" "same_home ?y x" "lease_organization_id ?y = org" "lease_property_id ?y = lease_property_id x"
      "in_force ?y \<longleftrightarrow> \<not> ?out" "lease_status ?y = (if ?out then Lease_TERMINATED else Lease_ACTIVE)"
      using x by (simp_all add: ended_lease_def started_lease_def same_home_def in_force_def)
    have z: "lease_organization_id (started_lease e x) = lease_organization_id x" "lease_property_id (started_lease e x) = lease_property_id x"
      by (simp_all add: started_lease_def)
    note others = moves_put_others [OF ok conjunct1 [OF m] _ _ _ _ t(2), simplified]
    have count: "moves_of t x kind st + of_bool (lmove_move_type m = kind \<and> Workflow_APPROVED = st) =
        moves_of s x kind st + of_bool (lmove_move_type m = kind \<and> Workflow_COMPLETED = st)" for kind st
      using moves_of_put [OF ids(1) conjunct1 [OF m] _ _ _ _ t(2), of x kind st] m x own by simp
    show ?thesis
    proof (rule occupancy_put [OF ok _ y(1,2) t(1)])
      show "let_property t z" if z: "z \<in> set (leases s)" "lease_id z \<noteq> lease_id x" "lived_in z" "let_property s z" for z
      proof (rule let_property_put [OF z(4) conjunct1 [OF q] ids(2) _ _ _ t(3)])
        have "in_force z" using z(3) by (auto simp: in_force_def lived_in_def)
        then have "\<not> same_home x z" using home_alone [OF ok conjunct1 [OF x] force, of x] z by (simp add: same_home_def)
        moreover have "lease_organization_id z = org \<or> rprop_id q \<noteq> lease_property_id z"
          using z(4) q ids(2) by (auto simp: let_property_def distinct_map inj_on_def)
        ultimately show "rprop_id q = lease_property_id z \<Longrightarrow> rprop_status q = Rental_OCCUPIED \<Longrightarrow> rprop_status ?q = Rental_OCCUPIED"
          using x q by (auto simp: same_home_def)
      qed simp_all
      show "lease_sound s x \<Longrightarrow> lease_sound t ?y"
      proof -
        assume sound: "lease_sound s x"
        have "moves_sound t ?y"
          using sound kind st count [of "''MOVE_IN''" Workflow_REQUESTED] count [of "''MOVE_IN''" Workflow_APPROVED]
            count [of "''MOVE_OUT''" Workflow_REQUESTED] count [of "''MOVE_OUT''" Workflow_APPROVED] x
          by (auto simp: lease_sound_def moves_sound_def moves_of_same_lease [of ?y x] y)
        moreover have "let_property t ?y" if "\<not> ?out"
          unfolding let_property_def using that x q in_put_row [of q "rental_properties s" rprop_id ?q]
          by (intro bexI [of _ ?q]) (auto simp: z t(3))
        moreover have "lease_active_property_key ?y = (if ?out then None else lease_active_property_key x)"
          by (simp add: ended_lease_def started_lease_def)
        ultimately show ?thesis using sound force by (auto simp: lease_sound_def y z lived_in_def)
      qed
      show "\<not> same_home ?y z" if "z \<in> set (leases s)" "lease_id z \<noteq> lease_id x" "in_force z" for z
        using home_alone [OF ok conjunct1 [OF x] force y(2)] that by simp
    qed (use x own others in \<open>simp_all add: t(3)\<close>)
  qed
  show ?thesis
    unfolding complete_move_def Let_def
    by (intro occupancy_intros ok occupancy_detail) (rule put, assumption, assumption, assumption, assumption, simp_all)
qed

section \<open>The interpretation\<close>

interpretation occupied_homes: rental_invariant occupancy_sound
proof
  fix s t
  assume "rental_step s t" "occupancy_sound s"
  then show "occupancy_sound t"
    by (cases rule: rental_step.cases)
      (simp_all add: property_steps_occupancy record_steps_occupancy reading_steps_occupancy create_lease_occupancy
        transition_lease_occupancy occupancy_detail decide_rent_payment_occupancy decide_renewal_occupancy request_move_occupancy
        decide_move_occupancy complete_move_occupancy)
qed

end
