(* ===== verification/Rental_Schedule.thy ===== *)
theory Rental_Schedule
  imports Rental_Occupancy
begin

text \<open>
  The periods that a lease is charged for: they follow each other without a gap from the beginning of the lease to its end,
  each with its due date inside, and the loop that makes them returns unless the lease ends with the year 9999. Every
  request keeps that of the stored schedule, also when a lease is renewed.
\<close>

section \<open>The periods\<close>

definition days_of :: "(day \<times> day \<times> day) list \<Rightarrow> day list" where
  "days_of ps = concat (map (\<lambda>(first, final, due). [first..final]) ps)"

definition due_inside :: "day \<times> day \<times> day \<Rightarrow> bool" where
  "due_inside = (\<lambda>(first, final, due). first \<le> due \<and> due \<le> final)"

lemma days_of_simps [simp]:
  "days_of [] = []" "days_of ((a, b, c) # ps) = [a..b] @ days_of ps" "days_of (ps @ qs) = days_of ps @ days_of qs"
  by (simp_all add: days_of_def)

lemma upto_join: "a \<le> b + 1 \<Longrightarrow> b \<le> c \<Longrightarrow> [a..b] @ [b + 1..c] = [a..c :: int]"
  using upto_split1 [of a "b + 1" c] by (cases "b = c") simp_all

lemma first_of_month: "calendar x = (y, m, d) \<Longrightarrow> day_of y m n = month_start (month_index x) + n - 1"
  using month_parts(1,2) [of x y m d] by (simp add: month_start_def day_of_def)

lemma calendar_month_start: "month_index (month_start i) = i"
proof (rule ccontr)
  let ?j = "month_index (month_start i)"
  assume "?j \<noteq> i"
  have mono: "month_start (k + 1) \<le> month_start l" if "k < l" for k l
    using that
  proof (induction l rule: int_gr_induct)
    case (step l)
    then show ?case using month_days_bounds [of l] by (simp add: month_start_next)
  qed simp
  from month_start_le [of "month_start i"] mono [of ?j i] mono [of i ?j] month_days_bounds [of i] \<open>?j \<noteq> i\<close>
  show False by (cases "?j < i") (auto simp: month_start_next)
qed

lemma month_after: "calendar x = (y, m, d) \<Longrightarrow> add_months (day_of y m 1) 1 = month_start (month_index x + 1)"
proof -
  assume x: "calendar x = (y, m, d)"
  let ?f = "month_start (month_index x)"
  obtain y' m' d' where f: "calendar ?f = (y', m', d')" by (cases "calendar ?f")
  have "d' = 1" using month_parts(3) [OF f] by (simp add: calendar_month_start)
  then have "add_months ?f 1 = month_start (month_index x + 1)"
    using add_months_eq [OF f, of 1] month_days_bounds [of "month_index x + 1"] by (simp add: calendar_month_start min_def)
  then show ?thesis by (simp add: first_of_month [OF x])
qed

lemma rent_due_inside:
  assumes "rent_due_in due_day cursor period_end = Inr due" "1 \<le> due_day" "cursor \<le> period_end"
  shows "cursor \<le> due \<and> due \<le> period_end"
proof -
  obtain y m d where c: "calendar cursor = (y, m, d)" by (cases "calendar cursor")
  let ?next = "month_start (month_index cursor + 1)"
  obtain y' m' d' where n: "calendar ?next = (y', m', d')" by (cases "calendar ?next")
  have "cursor < day_of y' m' (min due_day 28)"
    using assms(2) month_start_le(2) [of cursor] by (simp add: first_of_month [OF n] calendar_month_start)
  then show ?thesis
    using assms(1,3) by (auto simp: rent_due_in_def c month_after [OF c] n Let_def split: if_splits)
qed

lemma rent_due_returns: "cursor + 31 \<le> max_day \<Longrightarrow> \<exists>due. rent_due_in due_day cursor period_end = Inr due"
proof -
  assume ok: "cursor + 31 \<le> max_day"
  obtain y m d where c: "calendar cursor = (y, m, d)" by (cases "calendar cursor")
  let ?next = "month_start (month_index cursor + 1)"
  have "?next \<le> cursor + 31" using month_start_le(1) [of cursor] month_days_bounds [of "month_index cursor"] by (simp add: month_start_next)
  with ok show ?thesis
    by (cases "calendar ?next") (simp add: rent_due_in_def c month_after [OF c] Let_def)
qed

lemma rent_periods_cover:
  "rent_periods due_day start finish cursor index = Inr ps \<Longrightarrow> 1 \<le> due_day \<Longrightarrow> finish < cursor \<or> cursor < add_months start index \<Longrightarrow>
   days_of ps = [cursor..finish] \<and> list_all due_inside ps"
proof (induction due_day start finish cursor index arbitrary: ps rule: rent_periods.induct)
  case (1 due_day start finish cursor index)
  show ?case
  proof (cases "finish < cursor")
    case True
    then show ?thesis using "1.prems" by (simp add: rent_periods.simps [of due_day start finish cursor index])
  next
    case False
    define following where "following = add_months start index"
    define period_end where "period_end = min (following - 1) finish"
    from "1.prems" False obtain due qs where due: "rent_due_in due_day cursor period_end = Inr due" and big: "\<not> max_day < following" "\<not> max_day \<le> period_end"
      and qs: "rent_periods due_day start finish (period_end + 1) (index + 1) = Inr qs" and ps: "ps = (cursor, period_end, due) # qs"
      by (subst (asm) rent_periods.simps) (auto simp: Let_def following_def period_end_def split: if_splits sum.splits)
    have range: "cursor \<le> period_end" "period_end \<le> finish" using "1.prems"(3) False by (auto simp: period_end_def following_def)
    have "finish < period_end + 1 \<or> period_end + 1 < add_months start (index + 1)"
      using add_months_less [of start index] by (auto simp: period_end_def following_def)
    then have "days_of qs = [period_end + 1..finish] \<and> list_all due_inside qs"
      by (rule "1.IH" [OF False following_def period_end_def big(1) due big(2) qs "1.prems"(2)])
    then show ?thesis
      using rent_due_inside [OF due "1.prems"(2) range(1)] upto_join [of cursor period_end finish] range by (simp add: ps due_inside_def)
  qed
qed

lemma rent_periods_return:
  "finish + 31 \<le> max_day \<Longrightarrow> finish < cursor \<or> add_months start (index - 1) \<le> cursor \<Longrightarrow>
   \<exists>ps. rent_periods due_day start finish cursor index = Inr ps"
proof (induction due_day start finish cursor index rule: rent_periods.induct)
  case (1 due_day start finish cursor index)
  show ?case
  proof (cases "finish < cursor")
    case True
    then show ?thesis by (simp add: rent_periods.simps [of due_day start finish cursor index])
  next
    case False
    define following where "following = add_months start index"
    define period_end where "period_end = min (following - 1) finish"
    have big: "\<not> max_day < following" "\<not> max_day \<le> period_end"
      using add_months_step [of start "index - 1"] False "1.prems" by (auto simp: following_def period_end_def)
    obtain due where due: "rent_due_in due_day cursor period_end = Inr due"
      using rent_due_returns [of cursor due_day period_end] False "1.prems"(1) by auto
    have "finish < period_end + 1 \<or> add_months start (index + 1 - 1) \<le> period_end + 1" by (auto simp: period_end_def following_def)
    then obtain qs where "rent_periods due_day start finish (period_end + 1) (index + 1) = Inr qs"
      using "1.IH" [OF False following_def period_end_def big(1) due big(2) "1.prems"(1)] by blast
    then show ?thesis
      using False big due by (subst rent_periods.simps) (simp add: Let_def following_def [symmetric] period_end_def [symmetric])
  qed
qed

lemma periods_of_term:
  assumes "rent_periods due_day start finish start 1 = Inr ps" "1 \<le> due_day"
  shows "days_of ps = [start..finish]" "list_all due_inside ps"
  using rent_periods_cover [OF assms] add_months_less [of start 0] by simp_all

lemma periods_of_term_exist: "finish + 31 \<le> max_day \<Longrightarrow> \<exists>ps. rent_periods due_day start finish start 1 = Inr ps"
  by (rule rent_periods_return) simp_all

section \<open>The invariant\<close>

definition line_number :: "ident \<times> ident \<times> ident \<times> int \<times> day \<times> day \<times> day \<Rightarrow> int" where
  "line_number = (\<lambda>(i, o', l, n, period). n)"

definition line_period :: "ident \<times> ident \<times> ident \<times> int \<times> day \<times> day \<times> day \<Rightarrow> day \<times> day \<times> day" where
  "line_period = (\<lambda>(i, o', l, n, period). period)"

definition line_of :: "lease_row \<Rightarrow> ident \<times> ident \<times> ident \<times> int \<times> day \<times> day \<times> day \<Rightarrow> bool" where
  "line_of x = (\<lambda>(i, o', l, n, period). o' = lease_organization_id x \<and> l = lease_id x)"

definition lease_lines :: "estate \<Rightarrow> lease_row \<Rightarrow> (ident \<times> ident \<times> ident \<times> int \<times> day \<times> day \<times> day) list" where
  "lease_lines s x = filter (line_of x) (rent_lines s)"

definition drafted :: "lease_row \<Rightarrow> bool" where
  "drafted x \<longleftrightarrow> lease_status x \<in> {Lease_DRAFT, Lease_PENDING_SIGNATURE}"

definition term_sound :: "lease_row \<Rightarrow> bool" where
  "term_sound x \<longleftrightarrow> lease_start_date x \<le> lease_end_date x \<and> 1 \<le> lease_rent_due_day x"

text \<open>The numbers of the periods count from one, the periods cover the term, and there are none before the signature.\<close>

definition covered :: "estate \<Rightarrow> lease_row \<Rightarrow> bool" where
  "covered s x \<longleftrightarrow> map line_number (lease_lines s x) = [1..int (length (lease_lines s x))] \<and>
     days_of (map line_period (lease_lines s x)) = (if drafted x then [] else [lease_start_date x..lease_end_date x]) \<and>
     list_all due_inside (map line_period (lease_lines s x)) \<and> (drafted x \<longrightarrow> lease_lines s x = [])"

definition pending_renewals :: "estate \<Rightarrow> lease_row \<Rightarrow> lease_renewal_row list" where
  "pending_renewals s x = filter (renewal_pending (lease_organization_id x) (lease_id x)) (lease_renewals s)"

definition renewals_sound :: "estate \<Rightarrow> lease_row \<Rightarrow> bool" where
  "renewals_sound s x \<longleftrightarrow> pending_renewals s x = [] \<or>
     (\<exists>r. pending_renewals s x = [r] \<and> lease_end_date x < lren_proposed_end_date r \<and> \<not> drafted x)"

definition term_kept :: "estate \<Rightarrow> lease_row \<Rightarrow> bool" where
  "term_kept s x \<longleftrightarrow> term_sound x \<and> covered s x \<and> renewals_sound s x"

definition schedule_sound :: "estate \<Rightarrow> bool" where
  "schedule_sound s \<longleftrightarrow> distinct (map lease_id (leases s)) \<and> distinct (map rsch_id (rent_schedule s)) \<and>
     distinct (map lren_id (lease_renewals s)) \<and> (\<forall>x \<in> set (leases s). term_kept s x)"

lemma schedule_soundD:
  "schedule_sound s \<Longrightarrow> distinct (map rsch_id (rent_schedule s))" "schedule_sound s \<Longrightarrow> distinct (map lren_id (lease_renewals s))"
  "schedule_sound s \<Longrightarrow> distinct (map lease_id (leases s))" "schedule_sound s \<Longrightarrow> x \<in> set (leases s) \<Longrightarrow> term_kept s x"
  unfolding schedule_sound_def by blast+

lemma term_kept_frame: "rent_lines t = rent_lines s \<Longrightarrow> lease_renewals t = lease_renewals s \<Longrightarrow> term_kept t x = term_kept s x"
  by (simp add: term_kept_def covered_def lease_lines_def renewals_sound_def pending_renewals_def)

lemma schedule_frame:
  assumes "schedule_sound s" "leases t = leases s" "rent_lines t = rent_lines s" "lease_renewals t = lease_renewals s"
  shows "schedule_sound t"
  using assms(1) unfolding schedule_sound_def ids_of_lines
  by (simp add: assms(2-4) term_kept_frame [OF assms(3,4)])

lemma schedule_detail: "schedule_sound s \<Longrightarrow> schedule_sound (committed (lease_detail e ctx org i s))"
  by (rule lease_detail_final) (auto intro: schedule_frame dest: expire_overdue_frame expire_overdue_lines [OF schedule_soundD(1)])

lemma schedule_put:
  assumes ok: "schedule_sound s" and x: "x \<in> set (leases s)" and y: "lease_id y = lease_id x" "leases t = put_row lease_id y (leases s)"
    and ids: "distinct (map rsch_id (rent_schedule t))" "distinct (map lren_id (lease_renewals t))"
    and others: "\<And>z. lease_id z \<noteq> lease_id x \<Longrightarrow> lease_lines t z = lease_lines s z"
      "\<And>z. lease_id z \<noteq> lease_id x \<Longrightarrow> pending_renewals t z = pending_renewals s z"
    and good: "term_kept s x \<Longrightarrow> term_kept t y"
  shows "schedule_sound t"
proof -
  have "term_kept t z" if z: "z \<in> set (leases t)" for z
  proof (cases "z = y")
    case True
    with good schedule_soundD(4) [OF ok x] show ?thesis by simp
  next
    case False
    with z have z: "z \<in> set (leases s)" "lease_id z \<noteq> lease_id x" unfolding y(2) by (auto simp: set_put_row y(1) split: if_splits)
    show ?thesis using schedule_soundD(4) [OF ok z(1)] others [OF z(2)] by (simp add: term_kept_def covered_def renewals_sound_def)
  qed
  then show ?thesis using schedule_soundD(3) [OF ok] ids unfolding schedule_sound_def by (simp add: y(2))
qed

text \<open>A lease that keeps its term.\<close>

definition same_term :: "lease_row \<Rightarrow> lease_row \<Rightarrow> bool" where
  "same_term y x \<longleftrightarrow> lease_id y = lease_id x \<and> lease_organization_id y = lease_organization_id x \<and> lease_start_date y = lease_start_date x \<and>
     lease_end_date y = lease_end_date x \<and> lease_rent_due_day y = lease_rent_due_day x \<and> drafted y = drafted x"

lemma schedule_same:
  assumes ok: "schedule_sound s" and x: "x \<in> set (leases s)" and y: "same_term y x" "leases t = put_row lease_id y (leases s)"
    and t: "rent_lines t = rent_lines s" "lease_renewals t = lease_renewals s"
  shows "schedule_sound t"
proof (rule schedule_put [OF ok x _ y(2)])
  show "distinct (map rsch_id (rent_schedule t))" using schedule_soundD(1) [OF ok] unfolding ids_of_lines t .
  show "distinct (map lren_id (lease_renewals t))" using schedule_soundD(2) [OF ok] by (simp add: t)
  have "lease_lines t y = lease_lines s x" "pending_renewals t y = pending_renewals s x"
    using y(1) by (simp_all add: lease_lines_def line_of_def pending_renewals_def t same_term_def)
  then show "term_kept s x \<Longrightarrow> term_kept t y"
    using y(1) by (simp add: term_kept_def term_sound_def covered_def renewals_sound_def same_term_def)
qed (use y(1) in \<open>simp_all add: lease_lines_def pending_renewals_def t same_term_def\<close>)

section \<open>Appended periods\<close>

lemma schedule_rows_lines:
  "map line_period (map rent_line (schedule_rows e x k n ps)) = ps"
  "map line_number (map rent_line (schedule_rows e x k n ps)) = [n..n + int (length ps) - 1]"
  "list_all (line_of x) (map rent_line (schedule_rows e x k n ps))"
  "map rsch_id (schedule_rows e x k n ps) = map (\<lambda>j. uuid e (k + j)) [0..<length ps]"
proof (induction ps arbitrary: k n)
  case Nil
  {
    case 1 show ?case by simp
  next
    case 2 show ?case by simp
  next
    case 3 show ?case by simp
  next
    case 4 show ?case by simp
  }
next
  case (Cons p ps)
  obtain a b d where p: "p = (a, b, d)" by (cases p)
  {
    case 1 show ?case using Cons.IH(1) by (simp add: p rent_line_def line_period_def)
  next
    case 2 show ?case using Cons.IH(2) [of "k + 1" "n + 1"] by (simp add: p rent_line_def line_number_def upto_rec1 add.assoc)
  next
    case 3 show ?case using Cons.IH(3) [of "k + 1" "n + 1"] by (simp add: p rent_line_def line_of_def)
  next
    case 4
    have "map (\<lambda>j. uuid e (k + j)) [0..<Suc (length ps)] = uuid e k # map (\<lambda>j. uuid e (k + Suc j)) [0..<length ps]"
      by (simp add: upt_conv_Cons map_Suc_upt [symmetric] del: upt_Suc)
    then show ?case using Cons.IH(4) [of "k + 1" "n + 1"] by (simp add: p del: upt_Suc)
  }
qed

lemma foldr_max_upto: "0 \<le> b \<Longrightarrow> foldr max [a..b] 0 = (if a \<le> b then b else (0 :: int))"
proof (induction a b rule: upto.induct)
  case (1 a b)
  then show ?case by (cases "a \<le> b") (auto simp: upto_rec1)
qed

lemma foldr_max_count: "foldr max [1..int n] 0 = int n"
  by (cases n) (simp_all add: foldr_max_upto)

lemma last_sequence_lines: "last_sequence s (lease_organization_id x) (lease_id x) = foldr max (map line_number (lease_lines s x)) 0"
proof -
  have "map rsch_sequence (filter (of_lease (lease_organization_id x) (lease_id x)) rows) = map line_number (filter (line_of x) (map rent_line rows))" for rows
    by (induction rows) (auto simp: of_lease_def line_of_def line_number_def rent_line_def)
  then show ?thesis by (simp add: last_sequence_def lease_lines_def)
qed

lemma fresh_rows_distinct:
  assumes "fresh_estate e s" "distinct (map rsch_id (rent_schedule s))"
  shows "distinct (map rsch_id (rent_schedule s @ schedule_rows e x k n ps))"
proof -
  have "inj (uuid e)" using assms(1) by (simp add: fresh_estate_def)
  then have "distinct (map (\<lambda>j. uuid e (k + j)) [0..<length ps])" by (auto simp: distinct_map intro!: inj_onI dest: injD)
  moreover have "set (map rsch_id (rent_schedule s)) \<inter> range (uuid e) = {}"
    using assms(1) unfolding fresh_estate_def estate_ids_def by fastforce
  moreover have "set (map (\<lambda>j. uuid e (k + j)) [0..<length ps]) \<subseteq> range (uuid e)" by auto
  ultimately show ?thesis using assms(2) unfolding map_append schedule_rows_lines(4) distinct_append by blast
qed

text \<open>A lease whose periods are continued.\<close>

lemma schedule_append:
  assumes ok: "schedule_sound s" and fresh: "fresh_estate e s" and x: "x \<in> set (leases s)"
    and y: "lease_id y = lease_id x" "lease_organization_id y = lease_organization_id x" "lease_rent_due_day y = lease_rent_due_day x"
      "lease_start_date y = lease_start_date x" "\<not> drafted y"
    and first: "first = (if drafted x then lease_start_date x else lease_end_date x + 1)" "first \<le> lease_end_date y"
    and ps: "rent_periods (lease_rent_due_day x) first (lease_end_date y) first 1 = Inr ps"
    and n: "n = int (length (lease_lines s x)) + 1"
    and t: "leases t = put_row lease_id y (leases s)" "rent_schedule t = rent_schedule s @ schedule_rows e y k n ps"
    and renewals: "distinct (map lren_id (lease_renewals t))" "pending_renewals t y = []"
      "\<And>z. lease_id z \<noteq> lease_id x \<Longrightarrow> pending_renewals t z = pending_renewals s z"
  shows "schedule_sound t"
proof (rule schedule_put [OF ok x y(1) t(1) _ renewals(1) _ renewals(3)])
  show "distinct (map rsch_id (rent_schedule t))" unfolding t(2) by (rule fresh_rows_distinct [OF fresh schedule_soundD(1) [OF ok]])
  have new: "\<forall>l \<in> set (map rent_line (schedule_rows e y k n ps)). line_of y l"
    using schedule_rows_lines(3) [of y e k n ps] by (simp add: list_all_iff)
  show "lease_lines t z = lease_lines s z" if "lease_id z \<noteq> lease_id x" for z
  proof -
    have "\<not> line_of z l" if "line_of y l" for l using that \<open>lease_id z \<noteq> lease_id x\<close> by (auto simp: line_of_def y(1))
    then have "filter (line_of z) (map rent_line (schedule_rows e y k n ps)) = []" using new by (simp add: filter_empty_conv)
    then show ?thesis by (simp only: lease_lines_def t(2) map_append filter_append append_Nil2)
  qed
  have same: "line_of y = line_of x" using y(1,2) by (simp add: line_of_def)
  have lines: "lease_lines t y = lease_lines s x @ map rent_line (schedule_rows e y k n ps)"
    using new unfolding lease_lines_def t(2) map_append filter_append same by (simp only: filter_True)
  assume kept: "term_kept s x"
  then have due: "1 \<le> lease_rent_due_day x" and cov: "covered s x" and term_x: "lease_start_date x \<le> lease_end_date x"
    by (simp_all add: term_kept_def term_sound_def)
  note p = periods_of_term [OF ps due]
  have len: "length (schedule_rows e y k n ps) = length ps" using arg_cong [OF schedule_rows_lines(4), of length] by simp
  have "map line_number (lease_lines t y) = [1..int (length (lease_lines s x))] @ [n..n + int (length ps) - 1]"
    unfolding lines map_append schedule_rows_lines(2) using cov by (simp only: covered_def)
  also have "\<dots> = [1..int (length (lease_lines t y))]"
    using upto_join [of 1 "int (length (lease_lines s x))" "int (length (lease_lines s x)) + int (length ps)"] by (simp add: n lines len [unfolded n])
  finally have numbers: "map line_number (lease_lines t y) = [1..int (length (lease_lines t y))]" .
  have "days_of (map line_period (lease_lines t y)) = days_of (map line_period (lease_lines s x)) @ [first..lease_end_date y]"
    by (simp only: lines map_append schedule_rows_lines(1) days_of_simps p(1))
  also have "\<dots> = [lease_start_date y..lease_end_date y]"
  proof (cases "drafted x")
    case True
    then show ?thesis using cov y(4) first(1) by (simp add: covered_def)
  next
    case False
    then have "[lease_start_date x..lease_end_date x] @ [first..lease_end_date y] = [lease_start_date y..lease_end_date y]"
      using upto_join [of "lease_start_date x" "lease_end_date x" "lease_end_date y"] term_x first y(4) by simp
    then show ?thesis using cov False by (simp add: covered_def)
  qed
  finally have days: "days_of (map line_period (lease_lines t y)) = [lease_start_date y..lease_end_date y]" .
  have "list_all due_inside (map line_period (lease_lines t y))"
    using cov p(2) unfolding lines map_append schedule_rows_lines(1) covered_def by (simp only: list_all_append)
  then have "covered t y" using numbers days y(5) by (simp add: covered_def)
  moreover have "term_sound y" using due term_x first y(3,4) by (simp add: term_sound_def split: if_splits)
  ultimately show "term_kept t y" using renewals(2) by (simp add: term_kept_def renewals_sound_def)
qed

section \<open>What each request keeps\<close>

lemmas schedule_intros = outcome_intros [where P = schedule_sound]

lemma record_steps_schedule:
  assumes ok: "schedule_sound s"
  shows "schedule_sound (committed (create_tenant e ctx org tnc s))" "schedule_sound (committed (update_tenant e ctx org i tnu s))"
    "schedule_sound (committed (create_property e ctx org rpc s))" "schedule_sound (committed (update_property e ctx org i rpu s))"
    "schedule_sound (committed (add_document e ctx org i kind required s))"
    "schedule_sound (committed (upload_document e ctx org i did upload saved s))"
    "schedule_sound (committed (decide_document e ctx org i did verify notes s))"
    "schedule_sound (committed (create_maintenance e ctx org mnc s))"
    "schedule_sound (committed (update_maintenance e ctx org i nid mnu s))"
    "schedule_sound (committed (submit_rent_payment e ctx org i vid rpy s))"
  unfolding create_tenant_def update_tenant_def create_property_def update_property_def add_document_def upload_document_def
    decide_document_def create_maintenance_def update_maintenance_def submit_rent_payment_def Let_def
  by (intro schedule_intros ok schedule_detail; (simp only: outcome.sel split_def)?; rule schedule_frame [OF ok]; simp)+

lemma reading_steps_schedule:
  assumes ok: "schedule_sound s"
  shows "schedule_sound (committed (list_leases updated e ctx org q st page page_size s))"
    "schedule_sound (committed (rental_stats_of e ctx org s))"
proof -
  have expired: "schedule_sound t" if "expire_overdue e org s = Inr t" for t
    using expire_overdue_frame [OF that] expire_overdue_lines [OF schedule_soundD(1) [OF ok] that] by (intro schedule_frame [OF ok]) simp_all
  show "schedule_sound (committed (list_leases updated e ctx org q st page page_size s))"
    "schedule_sound (committed (rental_stats_of e ctx org s))"
    unfolding list_leases_def rental_stats_of_def Let_def
    by (intro schedule_intros ok; (simp only: committed_respond outcome.sel)?; erule expired)+
qed

lemma rent_line_status: "rent_line (r\<lparr>rsch_status := st\<rparr>) = rent_line r"
  by (simp add: rent_line_def)

lemma put_item_lines:
  "schedule_sound s \<Longrightarrow> r \<in> set (rent_schedule s) \<Longrightarrow>
   map rent_line (put_row rsch_id (r\<lparr>rsch_status := st\<rparr>) (rent_schedule s)) = rent_lines s"
  by (rule map_put_row_own [OF schedule_soundD(1)]) (simp_all add: rent_line_status)

lemma invoice_steps_schedule:
  assumes ok: "schedule_sound s"
  shows "schedule_sound (committed (issue_invoice e ctx org i ivc s))"
    "schedule_sound (committed (decide_rent_payment e ctx org i pid accept notes s))"
proof -
  show "schedule_sound (committed (issue_invoice e ctx org i ivc s))"
    unfolding issue_invoice_def Let_def
  proof (intro schedule_intros ok schedule_detail)
    fix x r
    assume "find_schedule_item s org (ivc_schedule_item_id ivc) = Some r"
    from put_item_lines [OF ok conjunct1 [OF entityD [OF this]]]
    show "schedule_sound (rental_audit e 1 org ctx a n j old new (put_schedule_item (r\<lparr>rsch_status := Rent_INVOICED\<rparr>)
        (s\<lparr>rental_invoices := rental_invoices s @ [v]\<rparr>)))" for a n j old new v
      by (intro schedule_frame [OF ok]) simp_all
  qed
  show "schedule_sound (committed (decide_rent_payment e ctx org i pid accept notes s))"
    unfolding decide_rent_payment_def Let_def
  proof (intro schedule_intros ok schedule_detail)
    fix y v t
    assume t: "(if accept then credit_invoice org (rpay_amount y) v (put_rent_payment (verified_rent e ctx accept notes y) s)
      else Inr (put_rent_payment (verified_rent e ctx accept notes y) s)) = Inr t"
    have "rent_lines t = rent_lines s"
      using t put_item_lines [OF ok]
      by (auto simp: credit_invoice_def require_Inr need_given_def need_Inr credited_item_def Let_def split: if_splits option.splits dest!: entityD)
    moreover have "leases t = leases s \<and> lease_renewals t = lease_renewals s"
      using t by (auto split: if_splits dest!: credit_invoice_frame)
    ultimately show "schedule_sound (rental_audit e 0 org ctx a n j old new t)" for a n j old new
      by (intro schedule_frame [OF ok]) simp_all
  qed
qed

lemma create_lease_schedule:
  assumes ok: "schedule_sound s" and fresh: "fresh_estate e s" and lec: "lease_create_ok lec"
  shows "schedule_sound (committed (create_lease e ctx org lec s))"
proof -
  let ?x = "new_lease e org ctx lec"
  have x: "lease_id ?x = uuid e 0" "drafted ?x" "term_sound ?x"
    using lec by (simp_all add: new_lease_def drafted_def term_sound_def lease_create_ok_def)
  have new: "uuid e 0 \<notin> lease_id ` set (leases s)" "uuid e 0 \<notin> rsch_lease_id ` set (rent_schedule s)" "uuid e 0 \<notin> lren_lease_id ` set (lease_renewals s)"
    using fresh by (simp_all add: fresh_estate_def estate_ids_def)
  have added: "schedule_sound t" if t: "leases t = leases s @ [?x]" "rent_schedule t = rent_schedule s" "lease_renewals t = lease_renewals s" for t
  proof -
    have "lease_lines t ?x = []" using new(2) unfolding image_iff by (auto simp: lease_lines_def filter_empty_conv line_of_def rent_line_def t(2) x(1))
    moreover have "pending_renewals t ?x = []"
      using new(3) unfolding pending_renewals_def filter_empty_conv renewal_pending_def t(3) x(1) image_iff by auto
    ultimately have "term_kept t ?x" using x(2,3) by (simp add: term_kept_def covered_def renewals_sound_def)
    moreover have "term_kept t z = term_kept s z" for z by (rule term_kept_frame) (simp_all add: t)
    ultimately show ?thesis using ok new(1) unfolding schedule_sound_def by (auto simp: t x(1))
  qed
  show ?thesis
    unfolding create_lease_def Let_def
    by (intro schedule_intros ok schedule_detail; rule added; simp)
qed

lemma transition_lease_schedule:
  assumes ok: "schedule_sound s" and fresh: "fresh_estate e s"
  shows "schedule_sound (committed (transition_lease e ctx org i st notes s))"
proof -
  have signed: "schedule_sound (lease_moved_audit e org ctx y notes t)"
    if x: "scoped_lease s org ctx i = Some x" and st: "lease_status x = Lease_PENDING_SIGNATURE" and t: "sign_lease e ctx org x s = Inr t" for x y t
  proof -
    from t obtain p ps where ps: "rent_periods (lease_rent_due_day x) (lease_start_date x) (lease_end_date x) (lease_start_date x) 1 = Inr ps"
      and t: "t = (put_lease (signed_lease e ctx x) (put_property p s))
        \<lparr>rent_schedule := rent_schedule s @ schedule_rows e (signed_lease e ctx x) 1 1 ps\<rparr>"
      by (rule sign_leaseD) blast
    note x = scoped_leaseD [OF x]
    let ?y = "signed_lease e ctx x"
    have y: "lease_id ?y = lease_id x" "lease_organization_id ?y = lease_organization_id x" "lease_rent_due_day ?y = lease_rent_due_day x"
      "lease_start_date ?y = lease_start_date x" "lease_end_date ?y = lease_end_date x" "\<not> drafted ?y"
      by (simp_all add: signed_lease_def drafted_def)
    have draft: "drafted x" using st by (simp add: drafted_def)
    have kept: "term_kept s x" using schedule_soundD(4) [OF ok conjunct1 [OF x]] .
    then have none: "lease_lines s x = []" "pending_renewals s x = []" "lease_start_date x \<le> lease_end_date x"
      using draft by (auto simp: term_kept_def covered_def renewals_sound_def term_sound_def)
    have "schedule_sound t"
    proof (rule schedule_append [OF ok fresh conjunct1 [OF x] y(1-4,6)])
      show "rent_periods (lease_rent_due_day x) (lease_start_date x) (lease_end_date ?y) (lease_start_date x) 1 = Inr ps"
        using ps by (simp only: y)
      show "pending_renewals t ?y = []" using none(2) by (simp add: pending_renewals_def t y)
    qed (use draft none(1,3) schedule_soundD(2) [OF ok] in \<open>simp_all add: t y pending_renewals_def\<close>)
    then show ?thesis by (rule schedule_frame) simp_all
  qed
  have issued: "schedule_sound (lease_moved_audit e org ctx y notes (put_lease (issued_lease e x) s))"
    if x: "scoped_lease s org ctx i = Some x" and st: "lease_status x = Lease_DRAFT" for x y
    by (rule schedule_same [OF ok, of x "issued_lease e x"])
      (use scoped_leaseD [OF x] st in \<open>simp_all add: issued_lease_def same_term_def drafted_def\<close>)
  show ?thesis
    unfolding transition_lease_def Let_def
    by (intro schedule_intros ok schedule_detail; (rule signed issued, assumption, simp_all add: next_lease_status_def split: lease_status.splits)?)
qed

section \<open>Renewals and moves\<close>

lemma request_renewal_schedule:
  assumes ok: "schedule_sound s" and fresh: "fresh_estate e s"
  shows "schedule_sound (committed (request_renewal e ctx org i rnc s))"
proof -
  have added: "schedule_sound t"
    if x: "scoped_lease s org ctx i = Some x" and st: "lease_status x = Lease_ACTIVE \<and> lease_end_date x < rnc_proposed_end_date rnc"
      and none: "\<not> list_ex (renewal_pending org (lease_id x)) (lease_renewals s)"
      and t: "leases t = leases s" "rent_schedule t = rent_schedule s" "lease_renewals t = lease_renewals s @ [new_renewal e org ctx rnc x]" for x t
  proof -
    note x = scoped_leaseD [OF x]
    let ?r = "new_renewal e org ctx rnc x"
    have r: "renewal_pending o' l ?r \<longleftrightarrow> o' = org \<and> l = lease_id x" "lren_id ?r = uuid e 0" "lren_proposed_end_date ?r = rnc_proposed_end_date rnc" for o' l
      by (auto simp: new_renewal_def renewal_pending_def)
    show ?thesis
    proof (rule schedule_put [OF ok conjunct1 [OF x], of x])
      show "leases t = put_row lease_id x (leases s)" using put_row_same [OF schedule_soundD(3) [OF ok]] x by (simp add: t)
      show "distinct (map rsch_id (rent_schedule t))" using schedule_soundD(1) [OF ok] by (simp add: t)
      show "distinct (map lren_id (lease_renewals t))"
        using schedule_soundD(2) [OF ok] fresh unfolding fresh_estate_def estate_ids_def by (simp add: t r)
      show "pending_renewals t z = pending_renewals s z" if "lease_id z \<noteq> lease_id x" for z
        using that by (simp add: pending_renewals_def t r)
      have "pending_renewals t x = [?r]"
        using none x by (simp add: pending_renewals_def t r filter_empty_conv list_ex_iff)
      then show "term_kept s x \<Longrightarrow> term_kept t x"
        using st by (simp add: term_kept_def covered_def lease_lines_def t renewals_sound_def r drafted_def)
    qed (simp_all add: lease_lines_def t)
  qed
  show ?thesis
    unfolding request_renewal_def Let_def
    by (intro schedule_intros ok schedule_detail) (rule added, assumption, assumption, assumption, simp_all)
qed

lemma decided_renewal_sel [simp]:
  "lren_id (decided_renewal e ctx b notes r) = lren_id r" "\<not> renewal_pending o' l (decided_renewal e ctx b notes r)"
  by (simp_all add: decided_renewal_def renewal_pending_def Let_def)

text \<open>A decided renewal is not pending any more, and it was the only one of its lease.\<close>

lemma pending_after_decision:
  assumes ok: "schedule_sound s" and r: "r \<in> set (lease_renewals s)" "renewal_pending (lease_organization_id x) (lease_id x) r"
    and t: "lease_renewals t = put_row lren_id (decided_renewal e ctx b notes r) (lease_renewals s)"
    and kept: "renewals_sound s x"
  shows "pending_renewals t x = []" "lease_id z \<noteq> lease_id x \<Longrightarrow> pending_renewals t z = pending_renewals s z"
    "lease_end_date x < lren_proposed_end_date r \<and> \<not> drafted x" "distinct (map lren_id (lease_renewals t))"
proof -
  have "r \<in> set (pending_renewals s x)" using r by (simp add: pending_renewals_def)
  with kept have one: "pending_renewals s x = [r] \<and> lease_end_date x < lren_proposed_end_date r \<and> \<not> drafted x" by (auto simp: renewals_sound_def)
  then show "lease_end_date x < lren_proposed_end_date r \<and> \<not> drafted x" ..
  note ids = schedule_soundD(2) [OF ok]
  show "distinct (map lren_id (lease_renewals t))" using ids by (simp add: t)
  from one have "filter (renewal_pending (lease_organization_id x) (lease_id x)) (lease_renewals s) = [r]" by (simp add: pending_renewals_def)
  from filter_put_single [OF this ids, of "decided_renewal e ctx b notes r"] show "pending_renewals t x = []" by (simp add: pending_renewals_def t)
  assume z: "lease_id z \<noteq> lease_id x"
  show "pending_renewals t z = pending_renewals s z"
    unfolding pending_renewals_def t
  proof (rule filter_put_row_other)
    fix q assume "q \<in> set (lease_renewals s)" "lren_id q = lren_id (decided_renewal e ctx b notes r)"
    then have "q = r" using ids r(1) by (simp add: distinct_map inj_on_def)
    then show "\<not> renewal_pending (lease_organization_id z) (lease_id z) q" using r(2) z by (simp add: renewal_pending_def)
  qed simp
qed

lemma renewed_lease_sel [simp]:
  "lease_id (renewed_lease r x) = lease_id x" "lease_organization_id (renewed_lease r x) = lease_organization_id x"
  "lease_rent_due_day (renewed_lease r x) = lease_rent_due_day x" "lease_start_date (renewed_lease r x) = lease_start_date x"
  "lease_end_date (renewed_lease r x) = lren_proposed_end_date r" "drafted (renewed_lease r x) = drafted x"
  by (simp_all add: renewed_lease_def drafted_def)

lemma decide_renewal_schedule:
  assumes ok: "schedule_sound s" and fresh: "fresh_estate e s"
  shows "schedule_sound (committed (decide_renewal e ctx org i rid approve notes s))"
  unfolding decide_renewal_def Let_def
proof (intro schedule_intros ok schedule_detail)
  fix x r t
  assume x: "scoped_lease s org ctx i = Some x" and r: "find_renewal s org rid = Some r"
    and own: "lren_lease_id r = lease_id x \<and> lren_status r = Workflow_REQUESTED"
    and t: "(if approve then apply_renewal e org r x s else Inr s) = Inr t"
  note x = scoped_leaseD [OF x] and r = entityD [OF r]
  let ?u = "\<lambda>a n j old new. rental_audit e 0 org ctx a n j old new (put_renewal (decided_renewal e ctx approve notes r) t)"
  have pending: "renewal_pending (lease_organization_id x) (lease_id x) r" using x r own by (simp add: renewal_pending_def)
  have kept: "term_kept s x" using schedule_soundD(4) [OF ok conjunct1 [OF x]] .
  then have sound: "renewals_sound s x" by (simp add: term_kept_def)
  show "schedule_sound (?u a n j old new)" for a n j old new
  proof (cases approve)
    case True
    with t obtain ps where ps: "rent_periods (lease_rent_due_day x) (lease_end_date x + 1) (lren_proposed_end_date r) (lease_end_date x + 1) 1 = Inr ps"
      and t: "t = (put_lease (renewed_lease r x) s)
        \<lparr>rent_schedule := rent_schedule s @ schedule_rows e (renewed_lease r x) 1 (last_sequence s org (lease_id x) + 1) ps\<rparr>"
      by (auto simp: apply_renewal_def require_Inr dest!: append_scheduleD)
    have u: "lease_renewals (?u a n j old new) = put_row lren_id (decided_renewal e ctx approve notes r) (lease_renewals s)" by (simp add: t)
    note after = pending_after_decision [OF ok conjunct1 [OF r] pending u sound]
    have seq: "last_sequence s org (lease_id x) = int (length (lease_lines s x))"
      using last_sequence_lines [of s x] kept x by (simp add: term_kept_def covered_def foldr_max_count)
    show ?thesis
    proof (rule schedule_append [OF ok fresh conjunct1 [OF x], of "renewed_lease r x"])
      show "rent_periods (lease_rent_due_day x) (lease_end_date x + 1) (lease_end_date (renewed_lease r x)) (lease_end_date x + 1) 1 = Inr ps"
        using ps by simp
      show "pending_renewals (?u a n j old new) (renewed_lease r x) = []" using after(1) by (simp add: pending_renewals_def)
    qed (use after seq in \<open>simp_all add: t\<close>)
  next
    case False
    with t have t: "t = s" by simp
    have u: "lease_renewals (?u a n j old new) = put_row lren_id (decided_renewal e ctx approve notes r) (lease_renewals s)" by (simp add: t)
    note after = pending_after_decision [OF ok conjunct1 [OF r] pending u sound]
    show ?thesis
    proof (rule schedule_put [OF ok conjunct1 [OF x], of x])
      show "leases (?u a n j old new) = put_row lease_id x (leases s)" using put_row_same [OF schedule_soundD(3) [OF ok]] x by (simp add: t)
      show "distinct (map rsch_id (rent_schedule (?u a n j old new)))" using schedule_soundD(1) [OF ok] by (simp add: t)
      show "term_kept s x \<Longrightarrow> term_kept (?u a n j old new) x"
        using after(1) by (simp add: term_kept_def covered_def lease_lines_def t renewals_sound_def)
    qed (use after in \<open>simp_all add: t lease_lines_def\<close>)
  qed
qed

text \<open>A move changes the status of a lease that is signed, and not back to a draft.\<close>

lemma move_steps_schedule:
  assumes ok: "schedule_sound s" and homes: "occupancy_sound s"
  shows "schedule_sound (committed (request_move e ctx org i mvc s))"
    "schedule_sound (committed (decide_move e ctx org i mid approve notes s))"
    "schedule_sound (committed (complete_move e ctx org i mid mvd s))"
proof -
  have put: "schedule_sound t"
    if x: "scoped_lease s org ctx i = Some x" and y: "leases t = put_row lease_id y (leases s) \<and> same_term y x \<or> leases t = leases s"
      and t: "rent_schedule t = rent_schedule s" "lease_renewals t = lease_renewals s" for x y t
    using y schedule_same [OF ok conjunct1 [OF scoped_leaseD [OF x]], of y t] schedule_frame [OF ok, of t] by (auto simp: t)
  have with_status: "same_term (with_status st x) x" if "\<not> drafted x" "\<not> drafted (with_status st x)" for x st
    using that by (simp add: same_term_def with_status_def)
  show "schedule_sound (committed (request_move e ctx org i mvc s))"
    unfolding request_move_def Let_def
  proof (intro schedule_intros ok schedule_detail)
    fix x
    assume x: "scoped_lease s org ctx i = Some x" and st: "lease_status x = (if mvc_move_type mvc = ''MOVE_IN'' then Lease_MOVE_IN_PENDING else Lease_ACTIVE)"
    then have "same_term (with_status Lease_NOTICE_GIVEN x) x" by (intro with_status) (auto simp: drafted_def)
    then show "schedule_sound (rental_audit e 1 org ctx a n j old new
        ((if mvc_move_type mvc = ''MOVE_OUT'' then put_lease (with_status Lease_NOTICE_GIVEN x) s else s)\<lparr>lease_moves := m\<rparr>))" for a n j old new m
      by (intro put [OF x, where y = "with_status Lease_NOTICE_GIVEN x"]) simp_all
  qed
  have status: "\<not> drafted x" if "scoped_lease s org ctx i = Some x" "find_move s org mid = Some m" "lmove_lease_id m = lease_id x"
    "lmove_status m \<in> {Workflow_REQUESTED, Workflow_APPROVED}" for x m
    using move_status [OF homes, of m x] scoped_leaseD [OF that(1)] entityD [OF that(2)] that(3,4) by (auto simp: drafted_def)
  show "schedule_sound (committed (decide_move e ctx org i mid approve notes s))"
    unfolding decide_move_def Let_def
  proof (intro schedule_intros ok schedule_detail)
    fix x m
    assume x: "scoped_lease s org ctx i = Some x" and m: "find_move s org mid = Some m" "lmove_lease_id m = lease_id x \<and> lmove_status m = Workflow_REQUESTED"
    then have "same_term (with_status (if approve then Lease_MOVE_OUT_PENDING else Lease_ACTIVE) x) x"
      by (intro with_status status [of x m]) (auto simp: drafted_def)
    then show "schedule_sound (rental_audit e 0 org ctx a n j old new (put_move y
        (if lmove_move_type m = ''MOVE_OUT'' then put_lease (with_status (if approve then Lease_MOVE_OUT_PENDING else Lease_ACTIVE) x) s else s)))"
      for a n j old new y
      by (intro put [OF x, where y = "with_status (if approve then Lease_MOVE_OUT_PENDING else Lease_ACTIVE) x"]) simp_all
  qed
  show "schedule_sound (committed (complete_move e ctx org i mid mvd s))"
    unfolding complete_move_def Let_def
  proof (intro schedule_intros ok schedule_detail)
    fix x m q
    assume x: "scoped_lease s org ctx i = Some x" and m: "find_move s org mid = Some m" "lmove_lease_id m = lease_id x \<and> lmove_status m = Workflow_APPROVED"
    then have "\<not> drafted x" by (intro status [of x m]) simp_all
    then have "same_term (ended_lease e x) x" "same_term (started_lease e x) x"
      by (simp_all add: same_term_def ended_lease_def started_lease_def) (simp_all add: drafted_def)
    then show "schedule_sound (rental_audit e 0 org ctx a n j old new (put_move y (put_lease (if b then ended_lease e x else started_lease e x) (put_property p s))))"
      for a n j old new y p b
      by (intro put [OF x, where y = "if b then ended_lease e x else started_lease e x"]) simp_all
  qed
qed

section \<open>The interpretation\<close>

interpretation kept_terms: rental_invariant "\<lambda>s. occupancy_sound s \<and> schedule_sound s"
proof
  fix s t
  assume step: "rental_step s t" and ok: "occupancy_sound s \<and> schedule_sound s"
  then have "schedule_sound t"
    by (cases rule: rental_step.cases)
      (simp_all add: record_steps_schedule reading_steps_schedule schedule_detail invoice_steps_schedule create_lease_schedule
        transition_lease_schedule request_renewal_schedule decide_renewal_schedule move_steps_schedule)
  with occupied_homes.kept [OF step] ok show "occupancy_sound t \<and> schedule_sound t" by blast
qed

end
