(* ===== verification/Rental_Money.thy ===== *)
theory Rental_Money
  imports Rental_Schedule
begin

text \<open>
  The money of the rents: what an invoice counts as paid is the sum of its completed payments, its payments never promise
  more than its total, and each payment is decided once, by somebody else than the one who submitted it.
\<close>

section \<open>The invariant\<close>

definition received :: "rent_payment_row list \<Rightarrow> ident \<Rightarrow> ident \<Rightarrow> decimal" where
  "received ps org invoice = sum_where (\<lambda>p. rpay_organization_id p = org \<and> rpay_rental_invoice_id p = invoice \<and>
     rpay_status p = Payment_COMPLETED) rpay_amount ps"

definition promises :: "rent_payment_row list \<Rightarrow> ident \<Rightarrow> ident \<Rightarrow> decimal" where
  "promises ps org invoice = sum_where (\<lambda>p. rpay_organization_id p = org \<and> rpay_rental_invoice_id p = invoice \<and>
     rpay_status p \<in> {Payment_PENDING, Payment_COMPLETED}) rpay_amount ps"

definition bill_sound :: "rent_payment_row list \<Rightarrow> ident \<times> ident \<times> ident \<times> decimal \<times> decimal \<times> bool \<times> bool \<Rightarrow> bool" where
  "bill_sound ps = (\<lambda>(i, org, l, total_due, paid, settled, voided).
     paid = received ps org i \<and> (promises ps org i = 0 \<or> promises ps org i \<le> total_due) \<and>
     (settled \<longleftrightarrow> 0 < paid \<and> paid = total_due) \<and> \<not> voided)"

definition decided_by_another :: "rent_payment_row \<Rightarrow> bool" where
  "decided_by_another p \<longleftrightarrow> 0 < rpay_amount p \<and>
     (case rpay_verified_by_user_id p of None \<Rightarrow> rpay_status p = Payment_PENDING
      | Some u \<Rightarrow> u \<noteq> rpay_submitted_by_user_id p \<and> rpay_status p \<in> {Payment_COMPLETED, Payment_FAILED})"

definition payments_sound :: "estate \<Rightarrow> bool" where
  "payments_sound s \<longleftrightarrow> distinct (map rinv_id (rental_invoices s)) \<and> distinct (map rpay_id (rent_payments s)) \<and>
     list_all (bill_sound (rent_payments s)) (bills s) \<and> list_all decided_by_another (rent_payments s)"

lemma payments_soundD:
  "payments_sound s \<Longrightarrow> distinct (map rinv_id (rental_invoices s))" "payments_sound s \<Longrightarrow> distinct (map rpay_id (rent_payments s))"
  "payments_sound s \<Longrightarrow> v \<in> set (rental_invoices s) \<Longrightarrow> bill_sound (rent_payments s) (bill v)"
  "payments_sound s \<Longrightarrow> p \<in> set (rent_payments s) \<Longrightarrow> decided_by_another p"
  by (simp_all add: payments_sound_def list_all_iff)

lemma payments_frame: "payments_sound s \<Longrightarrow> bills t = bills s \<Longrightarrow> rent_payments t = rent_payments s \<Longrightarrow> payments_sound t"
  unfolding payments_sound_def ids_of_bills by (simp only:)

lemma payments_detail: "payments_sound s \<Longrightarrow> payments_sound (committed (lease_detail e ctx org i s))"
  by (rule lease_detail_final) (auto intro: payments_frame dest: expire_overdue_frame expire_overdue_bills [OF payments_soundD(1)])

lemma received_le_promises: "list_all decided_by_another ps \<Longrightarrow> 0 \<le> received ps org i \<and> received ps org i \<le> promises ps org i"
  by (induction ps) (auto simp: received_def promises_def decided_by_another_def)

section \<open>What each request keeps\<close>

lemmas payments_intros = outcome_intros [where P = payments_sound]

lemma record_steps_payments:
  assumes ok: "payments_sound s"
  shows "payments_sound (committed (create_tenant e ctx org tnc s))" "payments_sound (committed (update_tenant e ctx org i tnu s))"
    "payments_sound (committed (create_property e ctx org rpc s))" "payments_sound (committed (update_property e ctx org i rpu s))"
    "payments_sound (committed (add_document e ctx org i kind required s))"
    "payments_sound (committed (upload_document e ctx org i did upload saved s))"
    "payments_sound (committed (decide_document e ctx org i did verify notes s))"
    "payments_sound (committed (create_maintenance e ctx org mnc s))"
    "payments_sound (committed (update_maintenance e ctx org i nid mnu s))"
    "payments_sound (committed (create_lease e ctx org lec s))"
    "payments_sound (committed (request_renewal e ctx org i rnc s))"
    "payments_sound (committed (request_move e ctx org i mvc s))"
    "payments_sound (committed (decide_move e ctx org i mid approve notes s))"
    "payments_sound (committed (complete_move e ctx org i mid mvd s))"
  unfolding create_tenant_def update_tenant_def create_property_def update_property_def add_document_def upload_document_def
    decide_document_def create_maintenance_def update_maintenance_def create_lease_def request_renewal_def request_move_def
    decide_move_def complete_move_def Let_def
  by (intro payments_intros ok payments_detail; (simp only: outcome.sel split_def)?; rule payments_frame [OF ok]; simp)+

lemma reading_steps_payments:
  assumes ok: "payments_sound s"
  shows "payments_sound (committed (list_leases updated e ctx org q st page page_size s))"
    "payments_sound (committed (rental_stats_of e ctx org s))"
proof -
  have expired: "payments_sound t" if "expire_overdue e org s = Inr t" for t
    using expire_overdue_frame [OF that] expire_overdue_bills [OF payments_soundD(1) [OF ok] that] by (intro payments_frame [OF ok]) simp_all
  show "payments_sound (committed (list_leases updated e ctx org q st page page_size s))"
    "payments_sound (committed (rental_stats_of e ctx org s))"
    unfolding list_leases_def rental_stats_of_def Let_def
    by (intro payments_intros ok; (simp only: committed_respond outcome.sel)?; erule expired)+
qed

lemma lease_steps_payments:
  assumes ok: "payments_sound s"
  shows "payments_sound (committed (transition_lease e ctx org i st notes s))"
    "payments_sound (committed (decide_renewal e ctx org i rid approve remark s))"
proof -
  have signed: "payments_sound (lease_moved_audit e org ctx y notes t)" if t: "sign_lease e ctx org x s = Inr t" for x y t
    by (rule sign_leaseD [OF t], rule payments_frame [OF ok]) simp_all
  have issued: "payments_sound (lease_moved_audit e org ctx y notes (put_lease x s))" for x y
    by (rule payments_frame [OF ok]) simp_all
  show "payments_sound (committed (transition_lease e ctx org i st notes s))"
    unfolding transition_lease_def Let_def
    by (intro payments_intros ok payments_detail) (erule signed, rule issued)
  show "payments_sound (committed (decide_renewal e ctx org i rid approve remark s))"
    unfolding decide_renewal_def Let_def
  proof (intro payments_intros ok payments_detail)
    fix x r t
    assume "(if approve then apply_renewal e org r x s else Inr s) = Inr t"
    then have "bills t = bills s \<and> rent_payments t = rent_payments s"
      by (auto simp: apply_renewal_def require_Inr split: if_splits dest!: append_scheduleD)
    then show "payments_sound (rental_audit e 0 org ctx a n j old new (put_renewal y t))" for a n j old new y
      by (intro payments_frame [OF ok]) simp_all
  qed
qed

lemma issue_invoice_payments:
  assumes ok: "payments_sound s" and fresh: "fresh_estate e s"
  shows "payments_sound (committed (issue_invoice e ctx org i ivc s))"
proof -
  have new: "uuid e 0 \<notin> rinv_id ` set (rental_invoices s)" "uuid e 0 \<notin> rpay_rental_invoice_id ` set (rent_payments s)"
    using fresh by (simp_all add: fresh_estate_def estate_ids_def)
  then have unbilled: "\<forall>p \<in> set (rent_payments s). rpay_rental_invoice_id p \<noteq> uuid e 0" by (metis imageI)
  have added: "payments_sound t"
    if t: "rental_invoices t = rental_invoices s @ [new_invoice e org ctx ivc x r]" "rent_payments t = rent_payments s" for t x r
  proof -
    let ?v = "new_invoice e org ctx ivc x r"
    have none: "sum_where (\<lambda>p. rpay_organization_id p = o' \<and> rpay_rental_invoice_id p = uuid e 0 \<and> b p) rpay_amount (rent_payments s) = 0" for o' b
    proof -
      have "sum_where (\<lambda>p. rpay_organization_id p = o' \<and> rpay_rental_invoice_id p = uuid e 0 \<and> b p) rpay_amount (rent_payments s) =
          sum_where (\<lambda>p. False) rpay_amount (rent_payments s)"
        by (rule sum_where_cong) (use unbilled in simp_all)
      then show ?thesis by (simp add: sum_where_def)
    qed
    have "rinv_id ?v = uuid e 0" "bill_sound (rent_payments s) (bill ?v)"
      by (simp_all add: new_invoice_def bill_def bill_sound_def received_def promises_def none)
    then show ?thesis using ok new(1) by (simp add: payments_sound_def t)
  qed
  show ?thesis
    unfolding issue_invoice_def Let_def
    by (intro payments_intros ok payments_detail; rule added; simp)
qed

lemma submit_rent_payment_payments:
  assumes ok: "payments_sound s" and fresh: "fresh_estate e s" and rpy: "rent_payment_create_ok rpy"
  shows "payments_sound (committed (submit_rent_payment e ctx org i vid rpy s))"
proof -
  have new: "uuid e 0 \<notin> rpay_id ` set (rent_payments s)" using fresh by (simp add: fresh_estate_def estate_ids_def)
  have added: "payments_sound t"
    if v: "find_invoice s org vid = Some v" and small: "promised s org (rinv_id v) + rpy_amount rpy \<le> rinv_total v"
      and t: "rental_invoices t = rental_invoices s" "rent_payments t = rent_payments s @ [new_rent_payment e org ctx rpy x (rinv_id v)]" for t x v
  proof -
    let ?y = "new_rent_payment e org ctx rpy x (rinv_id v)"
    have y: "rpay_id ?y = uuid e 0" "rpay_organization_id ?y = org" "rpay_rental_invoice_id ?y = rinv_id v" "rpay_status ?y = Payment_PENDING"
      "rpay_amount ?y = rpy_amount rpy" "decided_by_another ?y"
      using rpy by (simp_all add: new_rent_payment_def decided_by_another_def rent_payment_create_ok_def)
    note v = entityD [OF v]
    have "bill_sound (rent_payments s @ [?y]) (bill w)" if w: "w \<in> set (rental_invoices s)" for w
    proof -
      have old: "bill_sound (rent_payments s) (bill w)" using payments_soundD(3) [OF ok w] .
      have "received (rent_payments s @ [?y]) o' n = received (rent_payments s) o' n" for o' n
        by (simp add: received_def sum_where_append y)
      moreover have "promises (rent_payments s @ [?y]) (rinv_organization_id w) (rinv_id w) =
          promises (rent_payments s) (rinv_organization_id w) (rinv_id w) + (if w = v then rpy_amount rpy else 0)"
      proof -
        have "org = rinv_organization_id w \<and> rinv_id v = rinv_id w \<longleftrightarrow> w = v"
          using v w payments_soundD(1) [OF ok] by (auto simp: distinct_map inj_on_def)
        then show ?thesis by (simp add: promises_def sum_where_append y)
      qed
      ultimately show ?thesis using old small v by (auto simp: bill_sound_def bill_def promised_def promises_def)
    qed
    then show ?thesis using ok new y(1,6) unfolding payments_sound_def t by (simp add: list_all_iff)
  qed
  show ?thesis
    unfolding submit_rent_payment_def Let_def
    by (intro payments_intros ok payments_detail) (rule added, assumption, assumption, simp_all)
qed

lemma verified_rent_sel [simp]:
  "rpay_id (verified_rent e ctx b notes y) = rpay_id y" "rpay_organization_id (verified_rent e ctx b notes y) = rpay_organization_id y"
  "rpay_rental_invoice_id (verified_rent e ctx b notes y) = rpay_rental_invoice_id y" "rpay_amount (verified_rent e ctx b notes y) = rpay_amount y"
  "rpay_status (verified_rent e ctx b notes y) = (if b then Payment_COMPLETED else Payment_FAILED)"
  "rpay_verified_by_user_id (verified_rent e ctx b notes y) = Some (actor_user_id ctx)"
  "rpay_submitted_by_user_id (verified_rent e ctx b notes y) = rpay_submitted_by_user_id y"
  by (simp_all add: verified_rent_def Let_def)

lemma credited_invoice_sel [simp]:
  "rinv_id (credited_invoice a v) = rinv_id v" "rinv_organization_id (credited_invoice a v) = rinv_organization_id v"
  "rinv_total (credited_invoice a v) = rinv_total v" "rinv_paid_amount (credited_invoice a v) = rinv_paid_amount v + a"
  "rinv_status (credited_invoice a v) = (if rinv_total v \<le> rinv_paid_amount v + a then Invoice_PAID else Invoice_PARTIALLY_PAID)"
  by (simp_all add: credited_invoice_def)

lemma decide_rent_payment_payments:
  assumes ok: "payments_sound s"
  shows "payments_sound (committed (decide_rent_payment e ctx org i pid accept notes s))"
proof -
  have decided: "payments_sound t"
    if y: "find_rent_payment s org pid = Some y" and v: "find_invoice s org (rpay_rental_invoice_id y) = Some v"
      and st: "rpay_status y = Payment_PENDING" "rpay_submitted_by_user_id y \<noteq> actor_user_id ctx"
      and t: "rent_payments t = put_row rpay_id (verified_rent e ctx accept notes y) (rent_payments s)"
        "rental_invoices t = (if accept then put_row rinv_id (credited_invoice (rpay_amount y) v) (rental_invoices s) else rental_invoices s)"
      and small: "accept \<Longrightarrow> rinv_paid_amount v + rpay_amount y \<le> rinv_total v" for t y v
  proof -
    note y = entityD [OF y] and v = entityD [OF v]
    note ids = payments_soundD(1,2) [OF ok]
    let ?z = "verified_rent e ctx accept notes y"
    have pos: "0 < rpay_amount y" using payments_soundD(4) [OF ok conjunct1 [OF y]] by (simp add: decided_by_another_def)
    have rec: "received (rent_payments t) o' n = received (rent_payments s) o' n + (if accept \<and> o' = org \<and> n = rinv_id v then rpay_amount y else 0)" for o' n
      using y v st(1) unfolding received_def t(1) by (subst sum_where_put [OF ids(2) conjunct1 [OF y]]) auto
    have prom: "promises (rent_payments t) o' n = promises (rent_payments s) o' n - (if \<not> accept \<and> o' = org \<and> n = rinv_id v then rpay_amount y else 0)" for o' n
      using y v st(1) unfolding promises_def t(1) by (subst sum_where_put [OF ids(2) conjunct1 [OF y]]) auto
    have nonneg: "0 \<le> promises (rent_payments t) o' n" for o' n
    proof -
      have "list_all decided_by_another (rent_payments t)"
        using ok y st pos by (auto simp: payments_sound_def list_all_iff t(1) set_put_row decided_by_another_def)
      then show ?thesis using received_le_promises by (meson order_trans)
    qed
    have same: "rinv_organization_id w = org \<and> rinv_id w = rinv_id v \<longleftrightarrow> w = v" if "w \<in> set (rental_invoices s)" for w
      using that v ids(1) by (auto simp: distinct_map inj_on_def)
    have bills: "bill_sound (rent_payments t) (bill w)" if w: "w \<in> set (rental_invoices t)" for w
    proof (cases "accept \<and> w = credited_invoice (rpay_amount y) v")
      case True
      have "bill_sound (rent_payments s) (bill v)" using payments_soundD(3) [OF ok conjunct1 [OF v]] .
      then show ?thesis
        using True v small pos rec [of org "rinv_id v"] prom [of org "rinv_id v"] received_le_promises [of "rent_payments s" org "rinv_id v"] ok
        by (auto simp: bill_sound_def bill_def payments_sound_def)
    next
      case False
      then have w: "w \<in> set (rental_invoices s)" "accept \<longrightarrow> rinv_id w \<noteq> rinv_id v"
        using w v by (auto simp: t(2) set_put_row split: if_splits)
      have "bill_sound (rent_payments s) (bill w)" using payments_soundD(3) [OF ok w(1)] .
      then show ?thesis
        using same [OF w(1)] w(2) pos nonneg [of "rinv_organization_id w" "rinv_id w"]
        by (auto simp: bill_sound_def bill_def rec prom)
    qed
    have "list_all decided_by_another (rent_payments t)"
      using ok y st pos by (auto simp: payments_sound_def list_all_iff t(1) set_put_row decided_by_another_def)
    moreover have "list_all (bill_sound (rent_payments t)) (bills t)" using bills by (simp add: list_all_iff)
    ultimately show ?thesis using ids by (auto simp: payments_sound_def t)
  qed
  show ?thesis
    unfolding decide_rent_payment_def Let_def
  proof (intro payments_intros ok payments_detail)
    fix x y v t
    assume y: "find_rent_payment s org pid = Some y" and v: "find_invoice s org (rpay_rental_invoice_id y) = Some v"
      and st: "rpay_submitted_by_user_id y \<noteq> actor_user_id ctx" "rpay_lease_id y = lease_id x \<and> rpay_status y = Payment_PENDING"
      and t: "(if accept then credit_invoice org (rpay_amount y) v (put_rent_payment (verified_rent e ctx accept notes y) s)
        else Inr (put_rent_payment (verified_rent e ctx accept notes y) s)) = Inr t"
    then have "rent_payments t = put_row rpay_id (verified_rent e ctx accept notes y) (rent_payments s) \<and>
        rental_invoices t = (if accept then put_row rinv_id (credited_invoice (rpay_amount y) v) (rental_invoices s) else rental_invoices s) \<and>
        (accept \<longrightarrow> rinv_paid_amount v + rpay_amount y \<le> rinv_total v)"
      by (auto simp: credit_invoice_def require_Inr need_given_def need_Inr Let_def split: if_splits option.splits)
    then show "payments_sound (rental_audit e 0 org ctx a n j old new t)" for a n j old new
      by (intro decided [OF y v conjunct2 [OF st(2)] st(1)]) simp_all
  qed
qed

interpretation kept_money: rental_invariant payments_sound
proof
  fix s t
  assume "rental_step s t" "payments_sound s"
  then show "payments_sound t"
    by (cases rule: rental_step.cases)
      (simp_all add: record_steps_payments reading_steps_payments payments_detail lease_steps_payments issue_invoice_payments
        submit_rent_payment_payments decide_rent_payment_payments)
qed

end
