(* ===== verification/Rental_Claims.thy ===== *)
theory Rental_Claims
  imports Rental_Money Service_Claims
begin

text \<open>
  The properties of the rentals: the schedule of a lease covers its term, what counts as paid was verified by a second
  person, a home that is let is let once, and a lease that has ended can still be renewed.
\<close>

section \<open>A sample\<close>

definition sample_lease :: "lease_status \<Rightarrow> ident option \<Rightarrow> lease_row" where
  "sample_lease st key =
     \<lparr>lease_id = ''l'', lease_organization_id = ''o'', lease_tenant_id = ''t'', lease_unit_id = None, lease_property_id = ''h'',
      lease_created_by_user_id = ''u'', lease_approved_by_user_id = None, lease_lease_number = ''L1'', lease_status = st,
      lease_start_date = 0, lease_end_date = 58, lease_monthly_rent = 100, lease_security_deposit = 0, lease_currency = ''EUR'',
      lease_active_unit_key = None, lease_active_property_key = key, lease_rent_due_day = 5, lease_notice_period_days = 30,
      lease_terms = None, lease_issued_at = None, lease_signed_at = None, lease_activated_at = None, lease_terminated_at = None,
      lease_created_at = 0\<rparr>"

definition sample_home :: "rental_property_status \<Rightarrow> rental_property_row" where
  "sample_home st =
     \<lparr>rprop_id = ''h'', rprop_organization_id = ''o'', rprop_manager_user_id = None, rprop_code = ''H1'', rprop_name = ''Home'',
      rprop_property_type = ''FLAT'', rprop_address_line1 = ''1 Street'', rprop_address_line2 = None, rprop_city = ''C'',
      rprop_state = ''S'', rprop_postal_code = ''1'', rprop_country = ''D'', rprop_bedrooms = None, rprop_bathrooms = None,
      rprop_area_sqft = None, rprop_amenities = None, rprop_default_monthly_rent = 100, rprop_default_security_deposit = 0,
      rprop_currency = ''EUR'', rprop_status = st, rprop_notes = None, rprop_created_at = 0\<rparr>"

definition sample_rent :: "ident \<Rightarrow> int \<Rightarrow> day \<Rightarrow> day \<Rightarrow> day \<Rightarrow> rent_schedule_row" where
  "sample_rent i n first final due =
     \<lparr>rsch_id = i, rsch_organization_id = ''o'', rsch_lease_id = ''l'', rsch_sequence = n, rsch_period_start = first,
      rsch_period_end = final, rsch_due_date = due, rsch_amount = 100, rsch_currency = ''EUR'', rsch_status = Rent_INVOICED,
      rsch_created_at = 0\<rparr>"

definition sample_bill :: rental_invoice_row where
  "sample_bill =
     \<lparr>rinv_id = ''v'', rinv_organization_id = ''o'', rinv_lease_id = ''l'', rinv_tenant_id = ''t'', rinv_rent_schedule_item_id = Some ''r1'',
      rinv_created_by_user_id = Some ''u'', rinv_invoice_number = ''I1'', rinv_status = Invoice_ISSUED, rinv_period_start = 0,
      rinv_period_end = 30, rinv_issue_date = 0, rinv_due_date = 40, rinv_amount = 100, rinv_tax_amount = 0, rinv_total = 100,
      rinv_currency = ''EUR'', rinv_paid_amount = 0, rinv_issued_at = None, rinv_created_at = 0\<rparr>"

definition sample_rent_payment :: rent_payment_row where
  "sample_rent_payment =
     \<lparr>rpay_id = ''p'', rpay_organization_id = ''o'', rpay_rental_invoice_id = ''v'', rpay_lease_id = ''l'', rpay_tenant_id = ''t'',
      rpay_verified_by_user_id = None, rpay_submitted_by_user_id = ''w'', rpay_status = Payment_PENDING, rpay_amount = 100,
      rpay_currency = ''EUR'', rpay_method = ''BANK'', rpay_reference_number = None, rpay_idempotency_key = ''key-0001'',
      rpay_paid_at = Some 0, rpay_verified_at = None, rpay_rejection_reason = None, rpay_created_at = 0\<rparr>"

definition sample_renewal :: lease_renewal_row where
  "sample_renewal =
     \<lparr>lren_id = ''n'', lren_organization_id = ''o'', lren_lease_id = ''l'', lren_requested_by_user_id = ''w'', lren_decided_by_user_id = None,
      lren_status = Workflow_REQUESTED, lren_previous_end_date = 58, lren_proposed_end_date = 89, lren_previous_monthly_rent = 100,
      lren_proposed_monthly_rent = 110, lren_reason = ''we stay'', lren_decision_notes = None, lren_requested_at = 0,
      lren_decided_at = None, lren_applied_at = None, lren_created_at = 0\<rparr>"

text \<open>A lease before its signature, one that runs, and one that has ended while its renewal was pending.\<close>

definition sample_draft :: estate where
  "sample_draft = \<lparr>helpd = sample_desk, rental_properties = [sample_home Rental_AVAILABLE], leases = [sample_lease Lease_PENDING_SIGNATURE None],
     lease_documents = [], rent_schedule = [], rental_invoices = [], rent_payments = [], lease_renewals = [], lease_moves = [], maintenance = []\<rparr>"

definition sample_let :: estate where
  "sample_let = sample_draft\<lparr>rental_properties := [sample_home Rental_OCCUPIED], leases := [sample_lease Lease_ACTIVE (Some ''h'')],
     rent_schedule := [sample_rent ''r1'' 1 0 30 4, sample_rent ''r2'' 2 31 58 35], rental_invoices := [sample_bill],
     rent_payments := [sample_rent_payment]\<rparr>"

definition sample_left :: estate where
  "sample_left = sample_let\<lparr>rental_properties := [sample_home Rental_AVAILABLE], leases := [sample_lease Lease_TERMINATED None],
     lease_renewals := [sample_renewal]\<rparr>"

definition sample_landlord :: mutation_context where
  "sample_landlord = sample_agent\<lparr>actor_user_id := ''u'', permissions_held := [''leases.manage'']\<rparr>"

lemma sample_landlord_manages: "manages sample_landlord" "actor_user_id sample_landlord = ''u''"
  by (simp_all add: can_manage_module_def sample_landlord_def)

lemma sample_leased:
  "scoped_lease sample_draft ''o'' sample_landlord ''l'' = Some (sample_lease Lease_PENDING_SIGNATURE None)"
  "scoped_lease sample_let ''o'' sample_landlord ''l'' = Some (sample_lease Lease_ACTIVE (Some ''h''))"
  "scoped_lease sample_left ''o'' sample_landlord ''l'' = Some (sample_lease Lease_TERMINATED None)"
  using sample_landlord_manages(1)
  by (simp_all add: scoped_lease_def sample_draft_def sample_let_def sample_left_def entity_Cons sample_lease_def)

lemmas sample_rows = sample_lease_def sample_home_def sample_rent_def sample_bill_def sample_rent_payment_def sample_renewal_def

lemma sample_homes: "occupancy_sound sample_draft" "occupancy_sound sample_let" "occupancy_sound sample_left"
  by (simp_all add: occupancy_sound_def sample_draft_def sample_let_def sample_left_def lease_sound_def moves_sound_def moves_of_def
      count_rows_def one_home_def in_force_def lived_in_def let_property_def sample_rows)

lemma sample_terms: "schedule_sound sample_draft" "schedule_sound sample_let" "schedule_sound sample_left"
  by (simp_all add: schedule_sound_def sample_draft_def sample_let_def sample_left_def term_kept_def term_sound_def covered_def lease_lines_def
      rent_line_def line_of_def line_number_def line_period_def drafted_def days_of_def due_inside_def renewals_sound_def pending_renewals_def
      renewal_pending_def sample_rows upto_rec1)

lemma sample_money: "payments_sound sample_let"
  by (simp add: payments_sound_def sample_let_def sample_draft_def bill_def bill_sound_def received_def promises_def decided_by_another_def
      sample_rows sum_where_def)

lemma sample_fresh: "fresh_estate (moment t ''z'') sample_draft" "fresh_estate (moment t ''z'') sample_let" "fresh_estate (moment t ''z'') sample_left"
  by (auto simp: fresh_estate_def estate_ids_def moment_def sample_draft_def sample_let_def sample_left_def sample_rows
      intro!: injI dest: arg_cong [where f = length])

section \<open>The rents\<close>

lemma lines_of_rows:
  "lease_lines s x = map rent_line (filter (of_lease (lease_organization_id x) (lease_id x)) (rent_schedule s))"
proof -
  have "filter (line_of x) (map rent_line rows) = map rent_line (filter (of_lease (lease_organization_id x) (lease_id x)) rows)" for rows
    by (induction rows) (auto simp: of_lease_def line_of_def rent_line_def)
  then show ?thesis by (simp add: lease_lines_def)
qed

lemma days_of_lines: "days_of (map line_period (map rent_line rows)) = concat (map (\<lambda>r. [rsch_period_start r..rsch_period_end r]) rows)"
  by (induction rows) (simp_all add: line_period_def rent_line_def)

lemma numbers_of_lines: "map line_number (map rent_line rows) = map rsch_sequence rows"
  by (simp add: line_number_def rent_line_def)

lemma dues_of_lines: "list_all due_inside (map line_period (map rent_line rows)) \<longleftrightarrow>
  (\<forall>r \<in> set rows. rsch_period_start r \<le> rsch_due_date r \<and> rsch_due_date r \<le> rsch_period_end r)"
  by (simp add: list_all_iff due_inside_def line_period_def rent_line_def)

text \<open>
  C37: Whatever the requests of the rental service do, the schedule of a lease is empty until it is signed and covers its
  term from then on, also after renewals: its items are numbered from one, their periods follow each other
  from the first to the last day of the lease without a gap or an overlap, and each rent falls due within its period.
\<close>

theorem rent_schedule_covers_lease:
  assumes ok: "occupancy_sound s" "schedule_sound s" and steps: "rental_step\<^sup>*\<^sup>* s t" and x: "x \<in> set (leases t)"
    and rows: "rows = filter (of_lease (lease_organization_id x) (lease_id x)) (rent_schedule t)"
  shows "map rsch_sequence rows = [1..int (length rows)] \<and>
    concat (map (\<lambda>r. [rsch_period_start r..rsch_period_end r]) rows) =
      (if lease_status x \<in> {Lease_DRAFT, Lease_PENDING_SIGNATURE} then [] else [lease_start_date x..lease_end_date x]) \<and>
    (\<forall>r \<in> set rows. rsch_period_start r \<le> rsch_due_date r \<and> rsch_due_date r \<le> rsch_period_end r)"
proof -
  have "schedule_sound t" using kept_terms.always [OF steps] ok by blast
  then have cov: "covered t x" using schedule_soundD(4) [OF _ x] by (simp add: term_kept_def)
  have lines: "lease_lines t x = map rent_line rows" unfolding rows by (rule lines_of_rows)
  show ?thesis using cov unfolding covered_def lines days_of_lines numbers_of_lines dues_of_lines drafted_def length_map by simp
qed

definition sample_signed :: estate where
  "sample_signed = committed (transition_lease (moment 90 ''z'') sample_landlord ''o'' ''l'' Lease_SIGNED None sample_draft)"

lemma sample_periods: "rent_periods 5 0 58 0 1 = Inr [(0, 30, 4), (31, 58, 35)]"
  by code_simp

lemma detail_unbilled: "rental_invoices s = [] \<Longrightarrow> committed (lease_detail e ctx org i s) = s"
  by (simp add: lease_detail_def attempt_def expire_overdue_def)

lemma sample_signed_rows:
  "leases sample_signed = [signed_lease (moment 90 ''z'') sample_landlord (sample_lease Lease_PENDING_SIGNATURE None)]"
proof -
  let ?e = "moment 90 ''z''" let ?x = "sample_lease Lease_PENDING_SIGNATURE None"
  let ?y = "signed_lease ?e sample_landlord ?x"
  have x: "lease_status ?x = Lease_PENDING_SIGNATURE" "lease_id ?x = ''l''" "lease_property_id ?x = ''h''" by (simp_all add: sample_lease_def)
  have y: "lease_rent_due_day ?y = 5" "lease_start_date ?y = 0" "lease_end_date ?y = 58" "lease_id ?y = ''l''"
    by (simp_all add: signed_lease_def sample_lease_def)
  have home: "find_property sample_draft ''o'' ''h'' = Some (sample_home Rental_AVAILABLE)" "rprop_status (sample_home st) = st" for st
    by (simp_all add: sample_draft_def entity_Cons sample_home_def)
  have rows: "leases sample_draft = [?x]" "lease_documents sample_draft = []" "rent_schedule sample_draft = []" "rental_invoices sample_draft = []"
    "lease_active_property_key ?x = None" by (simp_all add: sample_draft_def sample_lease_def)
  obtain t where t: "sign_lease ?e sample_landlord ''o'' ?x sample_draft = Inr t" "leases t = [?y]" "rental_invoices t = []"
    by (simp add: sign_lease_def x home need_def require_def step_def append_schedule_def y sample_periods Let_def rows
        documents_incomplete_def slot_free_def put_row_def)
  show ?thesis
    unfolding sample_signed_def transition_lease_def
    by (simp add: sample_leased fetch_def demand_def attempt_def sample_landlord_manages x next_lease_status_def t detail_unbilled)
qed

theorem rent_schedule_covers_lease_witness:
  "\<exists>x \<in> set (leases sample_signed). lease_status x = Lease_MOVE_IN_PENDING \<and>
     concat (map (\<lambda>r. [rsch_period_start r..rsch_period_end r])
       (filter (of_lease (lease_organization_id x) (lease_id x)) (rent_schedule sample_signed))) = [0..58]"
proof -
  let ?x = "signed_lease (moment 90 ''z'') sample_landlord (sample_lease Lease_PENDING_SIGNATURE None)"
  have x: "?x \<in> set (leases sample_signed)" by (simp add: sample_signed_rows)
  have st: "lease_status ?x = Lease_MOVE_IN_PENDING" "lease_start_date ?x = 0" "lease_end_date ?x = 58"
    by (simp_all add: signed_lease_def sample_lease_def)
  have "rental_step\<^sup>*\<^sup>* sample_draft sample_signed"
    unfolding sample_signed_def by (rule r_into_rtranclp, rule lease_moved [OF sample_fresh(1)]) (simp add: transition_target_ok_def)
  from rent_schedule_covers_lease [OF sample_homes(1) sample_terms(1) this x refl] show ?thesis
    using st by (intro bexI [OF _ x]) simp
qed

section \<open>Payments\<close>

lemma pending_fits: "list_all decided_by_another ps \<Longrightarrow> y \<in> set ps \<Longrightarrow> rpay_organization_id y = org \<Longrightarrow> rpay_rental_invoice_id y = i \<Longrightarrow>
  rpay_status y = Payment_PENDING \<Longrightarrow> received ps org i + rpay_amount y \<le> promises ps org i"
proof (induction ps)
  case (Cons p ps)
  then have p: "0 < rpay_amount p" "list_all decided_by_another ps"
    by (simp_all add: decided_by_another_def [of p])
  have IH: "y \<in> set ps \<Longrightarrow> received ps org i + rpay_amount y \<le> promises ps org i" using Cons by simp
  show ?case
  proof (cases "y = p")
    case True
    then show ?thesis using received_le_promises [OF p(2), of org i] Cons.prems(3-5) by (auto simp: received_def promises_def)
  next
    case False
    then show ?thesis using IH p(1) Cons.prems(2) by (auto simp: received_def promises_def)
  qed
qed simp

text \<open>
  C38: Whatever the requests of the rental service do, an invoice counts as paid what its completed payments add up to, which is
  never more than its total, and is marked as paid exactly when that is all of it; every payment is still pending or was
  decided by a user other than the one who submitted it; and a pending payment always fits into what is still open, so
  its approval is not refused for exceeding the invoice.
\<close>

theorem rent_paid_is_verified:
  assumes ok: "payments_sound s" and steps: "rental_step\<^sup>*\<^sup>* s t"
  shows "(\<forall>v \<in> set (rental_invoices t).
      rinv_paid_amount v = sum_where (\<lambda>p. rpay_organization_id p = rinv_organization_id v \<and> rpay_rental_invoice_id p = rinv_id v \<and>
        rpay_status p = Payment_COMPLETED) rpay_amount (rent_payments t) \<and>
      (0 < rinv_paid_amount v \<longrightarrow> rinv_paid_amount v \<le> rinv_total v) \<and>
      (rinv_status v = Invoice_PAID \<longleftrightarrow> 0 < rinv_paid_amount v \<and> rinv_paid_amount v = rinv_total v) \<and>
      (\<forall>p \<in> set (rent_payments t). rpay_organization_id p = rinv_organization_id v \<and> rpay_rental_invoice_id p = rinv_id v \<and>
        rpay_status p = Payment_PENDING \<longrightarrow> rinv_paid_amount v + rpay_amount p \<le> rinv_total v)) \<and>
    (\<forall>p \<in> set (rent_payments t). rpay_status p = Payment_PENDING \<or>
      (\<exists>u. rpay_verified_by_user_id p = Some u \<and> u \<noteq> rpay_submitted_by_user_id p))"
proof -
  have sound: "payments_sound t" by (rule kept_money.always [OF steps ok])
  then have decided: "list_all decided_by_another (rent_payments t)" by (simp add: payments_sound_def)
  have bill: "rinv_paid_amount v = received (rent_payments t) (rinv_organization_id v) (rinv_id v) \<and>
      (0 < rinv_paid_amount v \<longrightarrow> rinv_paid_amount v \<le> rinv_total v) \<and>
      (rinv_status v = Invoice_PAID \<longleftrightarrow> 0 < rinv_paid_amount v \<and> rinv_paid_amount v = rinv_total v) \<and>
      (\<forall>p \<in> set (rent_payments t). rpay_organization_id p = rinv_organization_id v \<and> rpay_rental_invoice_id p = rinv_id v \<and>
        rpay_status p = Payment_PENDING \<longrightarrow> rinv_paid_amount v + rpay_amount p \<le> rinv_total v)" if v: "v \<in> set (rental_invoices t)" for v
  proof -
    let ?o = "rinv_organization_id v" let ?i = "rinv_id v"
    have b: "rinv_paid_amount v = received (rent_payments t) ?o ?i" "promises (rent_payments t) ?o ?i = 0 \<or> promises (rent_payments t) ?o ?i \<le> rinv_total v"
      "rinv_status v = Invoice_PAID \<longleftrightarrow> 0 < rinv_paid_amount v \<and> rinv_paid_amount v = rinv_total v"
      using payments_soundD(3) [OF sound v] by (simp_all add: bill_sound_def bill_def)
    note le = received_le_promises [OF decided, of ?o ?i]
    have "rinv_paid_amount v + rpay_amount p \<le> rinv_total v"
      if p: "p \<in> set (rent_payments t)" "rpay_organization_id p = ?o" "rpay_rental_invoice_id p = ?i" "rpay_status p = Payment_PENDING" for p
    proof -
      have "0 < rpay_amount p" using decided p(1) by (simp add: list_all_iff decided_by_another_def)
      then show ?thesis using pending_fits [OF decided p] b(1,2) le by linarith
    qed
    then show ?thesis using b le by auto
  qed
  have "rpay_status p = Payment_PENDING \<or> (\<exists>u. rpay_verified_by_user_id p = Some u \<and> u \<noteq> rpay_submitted_by_user_id p)"
    if "p \<in> set (rent_payments t)" for p
    using payments_soundD(4) [OF sound that] by (auto simp: decided_by_another_def split: option.splits)
  then show ?thesis using bill unfolding received_def by blast
qed

definition sample_paid :: estate where
  "sample_paid = committed (decide_rent_payment (moment 90 ''z'') sample_landlord ''o'' ''l'' ''p'' True ''seen'' sample_let)"

theorem rent_paid_is_verified_witness:
  "\<exists>v \<in> set (rental_invoices sample_paid). rinv_status v = Invoice_PAID \<and> rinv_paid_amount v = 100 \<and>
     sum_where (\<lambda>p. rpay_organization_id p = rinv_organization_id v \<and> rpay_rental_invoice_id p = rinv_id v \<and>
       rpay_status p = Payment_COMPLETED) rpay_amount (rent_payments sample_paid) = 100"
proof -
  let ?v = "credited_invoice 100 sample_bill"
  have rows: "rental_invoices sample_paid = [?v]"
    by (simp add: sample_paid_def decide_rent_payment_def sample_leased fetch_def demand_def sample_landlord_manages Let_def)
      (simp add: sample_let_def sample_draft_def entity_Cons sample_rent_payment_def sample_bill_def sample_lease_def attempt_def
        credit_invoice_def require_def need_given_def need_def given_def sample_rent_def put_row_def lease_detail_def expire_overdue_def
        falls_overdue_def credited_invoice_def credited_item_def moment_def rental_audit_def in_estate_def sample_landlord_def Let_def)
  have "rental_step\<^sup>*\<^sup>* sample_let sample_paid"
    unfolding sample_paid_def by (rule r_into_rtranclp, rule payment_decided)
  from rent_paid_is_verified [OF sample_money this] show ?thesis
    by (simp add: rows sample_bill_def)
qed

section \<open>Homes\<close>

text \<open>
  C39: Whatever the requests of the rental service do, a lease occupies its property, by the unique key of the table, exactly from
  its signature to its end; a home that a tenant has moved into and not yet left is marked as occupied, and no other lease of the
  organization is in force for it; and a lease is under notice, or about to be left, exactly while a move-out is requested,
  or approved.
\<close>

theorem rented_homes_are_occupied:
  assumes ok: "occupancy_sound s" and steps: "rental_step\<^sup>*\<^sup>* s t" and x: "x \<in> set (leases t)"
  shows "lease_active_property_key x = (if in_force x then Some (lease_property_id x) else None) \<and>
    (lease_status x \<in> {Lease_ACTIVE, Lease_NOTICE_GIVEN, Lease_MOVE_OUT_PENDING} \<longrightarrow>
      (\<exists>q. find_property t (lease_organization_id x) (lease_property_id x) = Some q \<and> rprop_status q = Rental_OCCUPIED)) \<and>
    (\<forall>z \<in> set (leases t). in_force x \<and> in_force z \<and> lease_organization_id z = lease_organization_id x \<and>
      lease_property_id z = lease_property_id x \<longrightarrow> z = x) \<and>
    count_rows (\<lambda>m. lmove_organization_id m = lease_organization_id x \<and> lmove_lease_id m = lease_id x \<and>
      lmove_move_type m = ''MOVE_OUT'' \<and> lmove_status m = Workflow_REQUESTED) (lease_moves t) =
      of_bool (lease_status x = Lease_NOTICE_GIVEN) \<and>
    count_rows (\<lambda>m. lmove_organization_id m = lease_organization_id x \<and> lmove_lease_id m = lease_id x \<and>
      lmove_move_type m = ''MOVE_OUT'' \<and> lmove_status m = Workflow_APPROVED) (lease_moves t) =
      of_bool (lease_status x = Lease_MOVE_OUT_PENDING)"
proof -
  have sound: "occupancy_sound t" by (rule occupied_homes.always [OF steps ok])
  then have row: "lease_sound t x" and ids: "distinct (map lease_id (leases t))" "distinct (map rprop_id (rental_properties t))"
    using x by (simp_all add: occupancy_sound_def)
  have "\<exists>q. find_property t (lease_organization_id x) (lease_property_id x) = Some q \<and> rprop_status q = Rental_OCCUPIED" if "lived_in x"
  proof -
    from that row obtain q where q: "q \<in> set (rental_properties t)" "rprop_organization_id q = lease_organization_id x"
      "rprop_id q = lease_property_id x" "rprop_status q = Rental_OCCUPIED" by (auto simp: lease_sound_def let_property_def)
    show ?thesis using entity_unique [of rprop_id, OF ids(2) q(1), of rprop_organization_id, OF q(2,3)] q(4) by blast
  qed
  moreover have "z = x" if "z \<in> set (leases t)" "in_force x" "in_force z" "lease_organization_id z = lease_organization_id x"
    "lease_property_id z = lease_property_id x" for z
  proof -
    have "lease_id z = lease_id x" using sound that x unfolding occupancy_sound_def one_home_def same_home_def by metis
    then show ?thesis using ids(1) that(1) x by (simp add: distinct_map inj_on_def)
  qed
  ultimately show ?thesis
    using row unfolding lease_sound_def moves_sound_def moves_of_def lived_in_def by blast
qed

definition sample_notice :: estate where
  "sample_notice = committed (request_move (moment 90 ''z'') sample_landlord ''o'' ''l''
     \<lparr>mvc_move_type = ''MOVE_OUT'', mvc_scheduled_at = 0, mvc_notes = None\<rparr> sample_let)"

theorem rented_homes_are_occupied_witness:
  "\<exists>x \<in> set (leases sample_notice). lease_status x = Lease_NOTICE_GIVEN \<and>
     (\<exists>q. find_property sample_notice ''o'' ''h'' = Some q \<and> rprop_status q = Rental_OCCUPIED)"
proof -
  let ?x = "with_status Lease_NOTICE_GIVEN (sample_lease Lease_ACTIVE (Some ''h''))"
  have rows: "leases sample_notice = [?x]"
    by (simp add: sample_notice_def request_move_def sample_leased fetch_def demand_def Let_def)
      (simp add: sample_let_def sample_draft_def sample_lease_def with_status_def attempt_def put_row_def lease_detail_def expire_overdue_def
        falls_overdue_def sample_bill_def moment_def)
  have "rental_step\<^sup>*\<^sup>* sample_let sample_notice"
    unfolding sample_notice_def by (rule r_into_rtranclp, rule move_requested [OF sample_fresh(2)]) (simp add: move_create_ok_def)
  from rented_homes_are_occupied [OF sample_homes(2) this, of ?x] show ?thesis
    by (simp add: rows) (simp add: sample_lease_def with_status_def)
qed

section \<open>Renewals\<close>

lemma append_schedule_returns:
  assumes ok: "schedule_sound s" and x: "x \<in> set (leases s)" and y: "lease_id y = lease_id x" "lease_organization_id y = lease_organization_id x"
    and ps: "rent_periods (lease_rent_due_day y) a b a 1 = Inr ps" and n: "n = int (length (lease_lines s x)) + 1" and t: "rent_schedule t = rent_schedule s"
  shows "append_schedule e k y a b n t = Inr (t\<lparr>rent_schedule := rent_schedule s @ schedule_rows e y k n ps\<rparr>)"
proof -
  let ?rows = "filter (of_lease (lease_organization_id x) (lease_id x)) (rent_schedule s)"
  have eq: "map rsch_sequence ?rows = [1..int (length (lease_lines s x))]"
    using schedule_soundD(4) [OF ok x] unfolding term_kept_def covered_def lines_of_rows numbers_of_lines by (elim conjE)
  have old: "rsch_sequence r < n" if "r \<in> set (rent_schedule s)" "of_lease (lease_organization_id x) (lease_id x) r" for r
  proof -
    have "rsch_sequence r \<in> set (map rsch_sequence ?rows)" using that by simp
    then show ?thesis unfolding eq n by simp
  qed
  have "map rsch_sequence (schedule_rows e y k n ps) = [n..n + int (length ps) - 1]"
    using schedule_rows_lines(2) [of e y k n ps] unfolding numbers_of_lines .
  then have new: "n \<le> rsch_sequence r" if "r \<in> set (schedule_rows e y k n ps)" for r
    using that by (metis (no_types, lifting) atLeastAtMost_iff image_eqI set_map set_upto)
  have "list_all (\<lambda>r. list_all (\<lambda>w. of_lease (lease_organization_id y) (lease_id y) w \<longrightarrow> rsch_sequence w \<noteq> rsch_sequence r)
      (rent_schedule t)) (schedule_rows e y k n ps)"
    using old new unfolding list_all_iff y t by fastforce
  then show ?thesis by (simp add: append_schedule_def step_def require_def ps t)
qed

text \<open>
  C40: The decision on a renewal does not look at the lease it renews: a lease that the tenant has left, and that has ended, while its
  renewal was still pending, keeps its status, but its end moves to the proposed date and the rents of the new term are
  scheduled for a tenant who is gone.
\<close>

theorem terminated_lease_is_renewed:
  assumes ok: "schedule_sound s" "fresh_estate e s" and x: "scoped_lease s org ctx i = Some x" "manages ctx" and ended: "lease_status x = Lease_TERMINATED"
    and r: "find_renewal s org rid = Some r" "lren_lease_id r = lease_id x" "lren_status r = Workflow_REQUESTED"
      "lren_requested_by_user_id r \<noteq> actor_user_id ctx" and limit: "lren_proposed_end_date r + 31 \<le> max_day"
    and t: "t = committed (decide_renewal e ctx org i rid True notes s)"
  shows "\<exists>y \<in> set (leases t). lease_id y = lease_id x \<and> lease_status y = Lease_TERMINATED \<and> lease_end_date x < lease_end_date y \<and>
    lease_end_date y = lren_proposed_end_date r \<and>
    concat (map (\<lambda>k. [rsch_period_start k..rsch_period_end k]) (filter (of_lease org (lease_id x)) (rent_schedule t))) =
      [lease_start_date x..lren_proposed_end_date r]"
proof -
  note row = scoped_leaseD [OF x(1)] and request = entityD [OF r(1)]
  let ?y = "renewed_lease r x"
  have kept: "term_kept s x" using schedule_soundD(4) [OF ok(1)] row by blast
  have pending: "renewal_pending (lease_organization_id x) (lease_id x) r" using row request r(2,3) by (simp add: renewal_pending_def)
  then have "r \<in> set (pending_renewals s x)" using request by (simp add: pending_renewals_def)
  then have later: "lease_end_date x < lren_proposed_end_date r" using kept by (auto simp: term_kept_def renewals_sound_def)
  obtain ps where ps: "rent_periods (lease_rent_due_day x) (lease_end_date x + 1) (lren_proposed_end_date r) (lease_end_date x + 1) 1 = Inr ps"
    using periods_of_term_exist [OF limit] by blast
  have seq: "last_sequence s org (lease_id x) = int (length (lease_lines s x))"
    using last_sequence_lines [of s x] kept row by (simp add: term_kept_def covered_def foldr_max_count)
  have "append_schedule e 1 ?y (lease_end_date x + 1) (lren_proposed_end_date r) (last_sequence s org (lease_id x) + 1) (put_lease ?y s) =
      Inr ((put_lease ?y s)\<lparr>rent_schedule := rent_schedule s @ schedule_rows e ?y 1 (last_sequence s org (lease_id x) + 1) ps\<rparr>)"
    by (rule append_schedule_returns [OF ok(1) conjunct1 [OF row]]) (simp_all add: ps seq)
  then obtain u where u: "apply_renewal e org r x s = Inr u" "leases u = put_row lease_id ?y (leases s)"
    using later limit by (simp add: apply_renewal_def require_def)
  have leases: "leases t = put_row lease_id ?y (leases s)"
    unfolding t decide_renewal_def
    by (simp add: x fetch_def demand_def r u(1) attempt_def Let_def)
      (rule lease_detail_final, auto simp: u(2) dest: expire_overdue_frame)
  have y: "?y \<in> set (leases t)" using row by (auto simp: leases set_put_row)
  have "schedule_sound t" unfolding t by (rule decide_renewal_schedule [OF ok])
  then have "covered t ?y" using schedule_soundD(4) y by (simp add: term_kept_def)
  then have "days_of (map line_period (lease_lines t ?y)) = [lease_start_date x..lren_proposed_end_date r]"
    using ended by (simp add: covered_def drafted_def [of x])
  then have "concat (map (\<lambda>k. [rsch_period_start k..rsch_period_end k]) (filter (of_lease org (lease_id x)) (rent_schedule t))) =
      [lease_start_date x..lren_proposed_end_date r]"
    using row unfolding lines_of_rows days_of_lines by simp
  then show ?thesis using later ended by (intro bexI [OF _ y]) (simp add: renewed_lease_def)
qed

theorem terminated_lease_is_renewed_witness:
  "\<exists>y \<in> set (leases (committed (decide_renewal (moment 90 ''z'') sample_landlord ''o'' ''l'' ''n'' True ''yes'' sample_left))).
     lease_status y = Lease_TERMINATED \<and> lease_end_date y = 89"
proof -
  let ?t = "committed (decide_renewal (moment 90 ''z'') sample_landlord ''o'' ''l'' ''n'' True ''yes'' sample_left)"
  have r: "find_renewal sample_left ''o'' ''n'' = Some sample_renewal" by (simp add: sample_left_def entity_Cons sample_renewal_def)
  have row: "lease_status (sample_lease Lease_TERMINATED None) = Lease_TERMINATED" "lren_lease_id sample_renewal = lease_id (sample_lease Lease_TERMINATED None)"
    "lren_status sample_renewal = Workflow_REQUESTED" "lren_requested_by_user_id sample_renewal \<noteq> actor_user_id sample_landlord"
    "lren_proposed_end_date sample_renewal + 31 \<le> max_day"
    by (simp_all add: sample_lease_def sample_renewal_def sample_landlord_def max_day_def)
  from terminated_lease_is_renewed [OF sample_terms(3) sample_fresh(3) sample_leased(3) sample_landlord_manages(1) row(1) r row(2-5) refl]
  show ?thesis by (auto simp: sample_renewal_def)
qed

end
