(* ===== verification/Spec2Isabelle.thy ===== *)
theory Spec2Isabelle
  imports Inventory_Claims Booking_Claims Finance_Claims System_Claims Quotation_Claims Access_Claims Directory_Claims Lead_Claims Client_Claims Service_Claims Rental_Claims
begin

text \<open>
  A model of the services of a real-estate CRM, a FastAPI application in Python (\<^verbatim>\<open>src/backend/app\<close>).

  \<^bold>\<open>The program.\<close> An HTTP request is authenticated and authorised (\<^verbatim>\<open>api/dependencies.py\<close>), validated by a
  Pydantic schema (\<^verbatim>\<open>schemas/*.py\<close>) and handled by a function of \<^verbatim>\<open>services/*.py\<close>, which reads and writes the
  tables of one tenant (\<^verbatim>\<open>models/*.py\<close>) in a database session and commits. The services share the tables, the audit
  log and the notifications; they call each other's helpers only in the places named below.

  \<^bold>\<open>How it is modelled.\<close>
  \<^item> \<open>Prelude\<close>: the base types, the \<open>outcome\<close> of a request (the committed database with a result or an error),
    the combinators the handlers are written in (\<open>demand\<close> for a guard, \<open>fetch\<close> for a look-up, \<open>attempt\<close> for a
    fallible helper), the row operations, and the locales \<open>table\<close> and \<open>exclusive_table\<close> (what a handler
    relies on when it reads or writes a table, or a table with a nullable unique column).
  \<^item> \<open>Enums\<close>, \<open>Tables\<close>: the enumerations of \<^verbatim>\<open>models/enums.py\<close>, one record per table with the columns of its
    class, the \<open>database\<close>, and the interpretations of the table locales. A table is the list of its rows in insertion
    order. Columns that no modelled code reads back (\<^verbatim>\<open>updated_at\<close>) are left out, in the rows and in the answers.
  \<^item> A handler is a function from the request's surroundings (\<open>env\<close>: the clock and the keys it draws), the acting
    user (\<open>mutation_context\<close>), the organization, the payload and the database to an \<open>outcome\<close>; its guards are
    in the order of the code and raise the code's status and error code. A session that ends in an error is rolled
    back: the database of an error is the one of the last commit. \<^verbatim>\<open>autoflush\<close> is off, so a query does not see
    pending changes of the session; where the code depends on it, so does the model.

  \<^bold>\<open>Theories.\<close>
  \<^item> \<open>Audit_Notify\<close> (\<^verbatim>\<open>_audit\<close> helpers, \<^verbatim>\<open>services/notifications.py\<close>), \<open>Search\<close> (\<^verbatim>\<open>ilike\<close> patterns),
    \<open>Samples\<close> (a concrete organization for the instances).
  \<^item> \<^verbatim>\<open>core/authorization.py\<close>, \<^verbatim>\<open>services/auth.py\<close>, \<^verbatim>\<open>services/rbac.py\<close>, \<^verbatim>\<open>api/dependencies.py\<close>,
    \<^verbatim>\<open>core/rate_limit.py\<close>: \<open>Authorization\<close>, \<open>Accounts\<close>, \<open>Access\<close>, \<open>Roles\<close>, \<open>Rate_Limit\<close>. \<open>Account_Safety\<close>
    and \<open>Role_Safety\<close> prove what every account and role request keeps (the locale \<open>account_invariant\<close>),
    \<open>Account_Workflow\<close> what each does when it returns; the properties are in \<open>Access_Claims\<close>.
  \<^item> \<^verbatim>\<open>services/inventory.py\<close> (holds, the booking lock, unit status) and \<^verbatim>\<open>workers/unit_hold_expiry.py\<close>:
    \<open>Inventory\<close>. \<open>Inventory_Safety\<close> has the invariant of units, holds and bookings, \<open>Unit_Keys\<close> its part that no
    request at all can break (the unique keys of active holds and bookings), \<open>Inventory_Scope\<close> the
    isolation of tenants, \<open>Expiry\<close> the sweep and its termination, \<open>Hold_Workflow\<close> the effects; the properties are
    in \<open>Inventory_Claims\<close>.
  \<^item> \<^verbatim>\<open>services/bookings.py\<close>: \<open>Documents\<close> (the expiry of documents it runs), \<open>Bookings\<close> and
    \<open>Booking_Handlers\<close>. \<open>Booking_Safety\<close>, \<open>Booking_Approvals\<close>, \<open>Hold_Frame\<close> and \<open>Booking_Workflow\<close> hold its
    invariants and effects; the properties are in \<open>Booking_Claims\<close>.
  \<^item> \<^verbatim>\<open>services/finance.py\<close>: \<open>Finance\<close> and \<open>Finance_Handlers\<close>. \<open>Finance_Spread\<close> treats the distribution of a
    payment over installments, \<open>Finance_Safety\<close> (with its reversal) and \<open>Finance_Keeps\<close> the conservation of money, \<open>Finance_Scope\<close> isolation, \<open>Finance_Workflow\<close> the effects; the properties are in
    \<open>Finance_Claims\<close>.
  \<^item> \<^verbatim>\<open>services/quotations.py\<close> and its schemas: \<open>Pricing\<close>, \<open>Quotation_Tables\<close>, \<open>Cost_Sheets\<close> (the calculator),
    \<open>Cost_Sheet_Handlers\<close> (with the sums of a cost sheet), \<open>Price_Lists\<close>, \<open>Quotations\<close>. \<open>Quotation_Safety\<close> holds
    the invariants; the properties are in \<open>Quotation_Claims\<close>.
  \<^item> \<^verbatim>\<open>services/organization.py\<close> and its schemas: \<open>Directory\<close> (branches, departments, territories, the audit
    pages) and \<open>Directory_People\<close> (users, teams) over the record \<open>directory\<close>, which extends the accounts.
    \<open>Directory_Safety\<close> holds the forest of territories and the end of access of a deactivated user; the properties
    are in \<open>Directory_Claims\<close>.
  \<^item> \<^verbatim>\<open>services/leads.py\<close> and its schemas, over the record \<open>crm\<close> of \<open>Lead_Tables\<close>, which extends the directory:
    \<open>Leads\<close> (the score and its rules, capture, duplicates, assignment, status machine, conversion), \<open>Lead_Settings\<close> (sources, lost reasons, rules), \<open>Lead_Activities\<close> (follow-ups, notes, timeline),
    \<open>Lead_Imports\<close> (lists, the resolution of duplicates, imports). \<open>Lead_Safety\<close> proves that every request keeps the
    derived columns of the leads, \<open>Lead_Workflow\<close> what the status requests reach; the properties are in \<open>Lead_Claims\<close>.
  \<^item> \<^verbatim>\<open>services/customers.py\<close> and its schemas, over the record \<open>clients\<close>, which extends \<open>crm\<close>:
    \<open>Customers\<close> (tables, records and activities) and \<open>Customer_Overview\<close> (\<^verbatim>\<open>customer_360\<close>). \<open>Client_Safety\<close> joins the requests
    of the lead and the customer service and proves what ties customers to leads; the property is in \<open>Client_Claims\<close>.
  \<^item> \<^verbatim>\<open>services/service_requests.py\<close> and its schemas, over the record \<open>helpdesk\<close>, which extends
    \<open>clients\<close>: \<open>Service_Settings\<close> (tables, who sees a ticket, categories, SLA policies and deadlines) and \<open>Service_Requests\<close>
    (tickets, comments, attachments, escalations, feedback, the SQL conditions of the lists in three-valued logic).
    \<open>Service_Safety\<close> proves that every request keeps a ticket in agreement with its escalations and deadlines; the
    properties are in \<open>Service_Claims\<close>.
  \<^item> \<^verbatim>\<open>services/rentals.py\<close> and its schemas, over the record \<open>estate\<close>, which extends \<open>helpdesk\<close>: \<open>Rentals\<close> (tables, rental
    properties, tenants, the schedule of the rents) and \<open>Rental_Handlers\<close> (leases, documents, invoices, payments, renewals,
    moves, maintenance). \<open>Dates\<close> is the calendar of \<^verbatim>\<open>datetime.date\<close>, up to the year 9999. The locale \<open>rental_invariant\<close> turns
    what each request keeps into a property of all reachable states; \<open>Rental_Occupancy\<close> shows that homes and leases agree,
    \<open>Rental_Schedule\<close> that the rents cover the term, \<open>Rental_Money\<close> that what is paid was verified; the properties are in
    \<open>Rental_Claims\<close>.
  \<^item> \<open>System\<close> composes inventory, bookings and collections: a \<open>request\<close> is one of their operations, \<open>leads_to\<close>
    any sequence of requests and sweeps, \<open>leads_carefully\<close> one in which nobody cancels a rejected booking through the
    inventory endpoint (which frees its unit, whatever reserves it by then). The locale \<open>kept\<close> turns a property that
    each allowed request keeps into one of all reachable databases; the properties are in \<open>System_Claims\<close>.

  \<^bold>\<open>Assumptions.\<close> Requests run one after the other: the code locks the rows it decides on. Drawn keys are new
  (\<open>fresh_env\<close>). Amounts are exact rationals (the columns are \<^verbatim>\<open>Numeric(18, 2)\<close>), timestamps are integers, texts are
  compared exactly (not by a collation of MySQL). \<^verbatim>\<open>CHECK\<close> constraints are modelled where a handler can violate one.
  Code outside the repository is an argument: password hashing, digests, random texts and signed tokens are the record
  \<open>crypto\<close>, the answers of Redis a datatype. No fuel is used: every recursion is structural or has a measure.

  Two idealisations are small. The law of the signed tokens (\<open>jwt_law\<close>) returns the times of the claims to the
  microsecond, where \<^verbatim>\<open>PyJWT\<close> writes whole seconds: without a leeway the last second of a token differs. An optional
  identifier sent as an empty text counts as absent in \<open>create_hold\<close> and \<open>initiate_booking\<close>, as in the code, but the
  code then stores the empty text, which its foreign key refuses: only that error is not modelled.

  The step relations say whose requests they hold: \<open>account_step\<close> those of \<^verbatim>\<open>services/auth.py\<close> and
  \<^verbatim>\<open>services/rbac.py\<close> (\<open>update_user\<close> and \<open>deactivate_user\<close> of the directory are modelled but outside it, and can switch off
  the last administrator), \<open>lead_step\<close> those of \<^verbatim>\<open>services/leads.py\<close> (\<^verbatim>\<open>check_out\<close> of \<^verbatim>\<open>services/site_visits.py\<close> also
  writes \<^verbatim>\<open>next_follow_up_at\<close>). The limiter of requests remembers at most \<^verbatim>\<open>10_000\<close> keys and its property says what it
  admits beyond them.

  The texts that Python prints for amounts are the record \<open>wording\<close>, the rows of an imported file come parsed by
  Pydantic, and \<^verbatim>\<open>kanban\<close>, \<^verbatim>\<open>list_customers\<close>, \<^verbatim>\<open>list_tickets\<close> and the lists of the rentals take the column \<^verbatim>\<open>updated_at\<close> as an
  argument. What \<^verbatim>\<open>prepare_upload\<close> and the storage answer for an uploaded file is an argument of its handler.

  \<^bold>\<open>Not modelled.\<close> Site visits, the property life cycle and post-sales; of
  partners only the accrual of a commission, of documents only their expiry, of notifications only the in-app rows of
  the modelled handlers. The dashboard and the exports only aggregate for display. Routing, cookies, middleware,
  logging, metrics, storage, e-mail and malware scanning are input and output; the migrations under \<^verbatim>\<open>alembic\<close>
  restate the tables.
\<close>

end
